(* ===== verification/Prelude.thy ===== *)
theory Prelude
  imports Main "HOL-Library.Word" "HOL-Library.Char_ord" "HOL-Library.List_Lexorder"
begin

text \<open>
  Shared vocabulary of the development: byte strings and the ASCII classifiers of Rust's
  \<open>u8\<close>, the string functions of the standard library that the sources call, machine integers
  (saturating, checked and wrapping operations on \<open>i64\<close> and \<open>u64\<close>), the result type of the
  hand-written recursive-descent parsers, and the generic lemmas about them.

  A Rust \<open>&str\<close> is the list of its UTF-8 bytes; HOL's \<^typ>\<open>char\<close> is a byte, so \<^typ>\<open>string\<close>
  is used for both \<open>&str\<close> and \<open>&[u8]\<close>.
\<close>

named_theorems rust_int \<open>defining equations of the machine-integer operations\<close>
named_theorems scan_rules \<open>bounds on the positions the scanners return\<close>

section \<open>Machine integers\<close>

type_synonym u32 = "32 word"

definition i64_min :: int where
  "i64_min = - (2 ^ 63)"

definition i64_max :: int where
  "i64_max = 2 ^ 63 - 1"

definition u64_max :: int where
  "u64_max = 2 ^ 64 - 1"

definition in_i64 :: "int \<Rightarrow> bool" where
  "in_i64 x \<longleftrightarrow> i64_min \<le> x \<and> x \<le> i64_max"

text \<open>\<open>clamp_i64\<close> is what every \<open>saturating_*\<close> operation of \<open>i64\<close> applies to the exact result;
  \<open>wrap_i64\<close> is two's-complement wrap-around, what \<open>+\<close>, \<open>-\<close> and \<open>*\<close> do in a build without
  overflow checks.\<close>

definition clamp_i64 :: "int \<Rightarrow> int" where
  "clamp_i64 x = max i64_min (min i64_max x)"

definition wrap_i64 :: "int \<Rightarrow> int" where
  "wrap_i64 x = (x + 2 ^ 63) mod 2 ^ 64 - 2 ^ 63"

definition saturating_add :: "int \<Rightarrow> int \<Rightarrow> int" where
  "saturating_add a b = clamp_i64 (a + b)"

definition saturating_mul :: "int \<Rightarrow> int \<Rightarrow> int" where
  "saturating_mul a b = clamp_i64 (a * b)"

definition saturating_add_unsigned :: "int \<Rightarrow> nat \<Rightarrow> int" where
  "saturating_add_unsigned a n = clamp_i64 (a + int n)"

text \<open>\<open>i64::try_from(n)\<close> for an unsigned \<open>n\<close>, and its \<open>unwrap_or(i64::MAX)\<close>.\<close>

definition i64_try_from :: "nat \<Rightarrow> int option" where
  "i64_try_from n = (if int n \<le> i64_max then Some (int n) else None)"

definition i64_from_or_max :: "nat \<Rightarrow> int" where
  "i64_from_or_max n = (case i64_try_from n of Some v \<Rightarrow> v | None \<Rightarrow> i64_max)"

text \<open>\<open>u32::try_from(n).unwrap_or(u32::MAX)\<close> for a \<open>usize\<close>.\<close>

definition u32_from_or_max :: "nat \<Rightarrow> u32" where
  "u32_from_or_max n = (if int n < 2 ^ 32 then of_nat n else - 1)"

text \<open>Rust's \<open>%\<close> truncates towards zero.\<close>

definition rust_rem :: "int \<Rightarrow> int \<Rightarrow> int" where
  "rust_rem a b = sgn a * (\<bar>a\<bar> mod \<bar>b\<bar>)"

lemmas [rust_int] = i64_min_def i64_max_def u64_max_def in_i64_def clamp_i64_def
  saturating_add_def saturating_mul_def saturating_add_unsigned_def
  i64_try_from_def i64_from_or_max_def

lemma clamp_i64_id: "in_i64 x \<Longrightarrow> clamp_i64 x = x"
  by (auto simp: rust_int)

lemma clamp_i64_range: "in_i64 (clamp_i64 x)"
  by (simp add: rust_int)

lemma clamp_i64_mono: "a \<le> b \<Longrightarrow> clamp_i64 a \<le> clamp_i64 b"
  by (auto simp: rust_int)

lemma wrap_i64_id: "in_i64 x \<Longrightarrow> wrap_i64 x = x"
  by (simp add: in_i64_def i64_min_def i64_max_def wrap_i64_def)

lemma wrap_i64_range: "in_i64 (wrap_i64 x)"
proof -
  have "0 \<le> (x + 2 ^ 63) mod 2 ^ 64" "(x + 2 ^ 63) mod 2 ^ 64 < 2 ^ 64"
    by simp_all
  then show ?thesis
    unfolding in_i64_def i64_min_def i64_max_def wrap_i64_def by simp
qed

lemma wrap_i64_cong: "wrap_i64 x mod 2 ^ 64 = x mod 2 ^ 64"
proof -
  have "((x + 2 ^ 63) mod 2 ^ 64 - 2 ^ 63) mod 2 ^ 64 = (x + 2 ^ 63 - 2 ^ 63) mod (2 ^ 64 :: int)"
    by (rule mod_diff_left_eq)
  then show ?thesis by (simp add: wrap_i64_def)
qed

lemma wrap_i64_add_right: "wrap_i64 (a + wrap_i64 b) = wrap_i64 (a + b)"
proof -
  have "(a + ((b + 2 ^ 63) mod 2 ^ 64 - 2 ^ 63) + 2 ^ 63) mod 2 ^ 64 = (a + b + 2 ^ 63) mod (2 ^ 64 :: int)"
    by (simp add: mod_simps algebra_simps)
  then show ?thesis by (simp add: wrap_i64_def)
qed

lemma wrap_i64_word: "(word_of_int (wrap_i64 x) :: 64 word) = word_of_int x"
  using wrap_i64_cong [of x] by (simp add: word_of_int_eq_iff take_bit_eq_mod)

section \<open>ASCII classifiers and decimal digits\<close>

definition is_ascii_whitespace :: "char \<Rightarrow> bool" where
  "is_ascii_whitespace c \<longleftrightarrow>
     c = CHR 0x20 \<or> c = CHR 0x09 \<or> c = CHR 0x0A \<or> c = CHR 0x0C \<or> c = CHR 0x0D"

definition is_ascii_digit :: "char \<Rightarrow> bool" where
  "is_ascii_digit c \<longleftrightarrow> (48 :: nat) \<le> of_char c \<and> of_char c \<le> (57 :: nat)"

definition is_ascii_alphabetic :: "char \<Rightarrow> bool" where
  "is_ascii_alphabetic c \<longleftrightarrow>
     (65 :: nat) \<le> of_char c \<and> of_char c \<le> (90 :: nat) \<or>
     (97 :: nat) \<le> of_char c \<and> of_char c \<le> (122 :: nat)"

definition is_ascii_alphanumeric :: "char \<Rightarrow> bool" where
  "is_ascii_alphanumeric c \<longleftrightarrow> is_ascii_alphabetic c \<or> is_ascii_digit c"

definition is_ident_start :: "char \<Rightarrow> bool" where
  "is_ident_start c \<longleftrightarrow> is_ascii_alphabetic c \<or> c = CHR ''_''"

definition is_ident_char :: "char \<Rightarrow> bool" where
  "is_ident_char c \<longleftrightarrow> is_ascii_alphanumeric c \<or> c = CHR ''_''"

definition to_ascii_lowercase :: "string \<Rightarrow> string" where
  "to_ascii_lowercase s =
     map (\<lambda>c. if (65 :: nat) \<le> of_char c \<and> of_char c \<le> (90 :: nat)
              then char_of (of_char c + 32 :: nat) else c) s"

definition to_ascii_uppercase :: "string \<Rightarrow> string" where
  "to_ascii_uppercase s =
     map (\<lambda>c. if (97 :: nat) \<le> of_char c \<and> of_char c \<le> (122 :: nat)
              then char_of (of_char c - 32 :: nat) else c) s"

definition digit_value :: "char \<Rightarrow> nat" where
  "digit_value c = of_char c - 48"

definition nat_of_digits :: "string \<Rightarrow> nat" where
  "nat_of_digits s = foldl (\<lambda>a c. a * 10 + digit_value c) 0 s"

definition digit_char :: "nat \<Rightarrow> char" where
  "digit_char d = char_of (48 + d)"

fun show_nat :: "nat \<Rightarrow> string" where
  "show_nat n = (if n < 10 then [digit_char n] else show_nat (n div 10) @ [digit_char (n mod 10)])"

declare show_nat.simps [simp del]

definition show_int :: "int \<Rightarrow> string" where
  "show_int i = (if i < 0 then CHR ''-'' # show_nat (nat (- i)) else show_nat (nat i))"

text \<open>The \<open>{:+}\<close> format: the sign is always printed.\<close>

definition show_int_plus :: "int \<Rightarrow> string" where
  "show_int_plus i = (if i < 0 then show_int i else CHR ''+'' # show_int i)"

text \<open>The \<open>{:#x}\<close> format.\<close>

fun hex_digits :: "nat \<Rightarrow> string" where
  "hex_digits n = (if n < 16 then [''0123456789abcdef'' ! n] else hex_digits (n div 16) @ [''0123456789abcdef'' ! (n mod 16)])"

definition show_hex :: "nat \<Rightarrow> string" where
  "show_hex n = ''0x'' @ hex_digits n"

text \<open>\<open>str::parse\<close> to \<open>u64\<close> and \<open>i64\<close> on a string already known to be non-empty ASCII digits:
  the only failure left is overflow.\<close>

definition parse_u64_digits :: "string \<Rightarrow> nat option" where
  "parse_u64_digits s = (if int (nat_of_digits s) \<le> u64_max then Some (nat_of_digits s) else None)"

definition parse_i64_digits :: "string \<Rightarrow> int option" where
  "parse_i64_digits s = i64_try_from (nat_of_digits s)"

lemma of_char_digit_char: "d < 10 \<Longrightarrow> (of_char (digit_char d) :: nat) = 48 + d"
  by (simp add: digit_char_def)

lemma digit_char_digit: "d < 10 \<Longrightarrow> is_ascii_digit (digit_char d)"
  by (simp add: is_ascii_digit_def of_char_digit_char)

lemma digit_value_digit_char: "d < 10 \<Longrightarrow> digit_value (digit_char d) = d"
  by (simp add: digit_value_def of_char_digit_char)

lemma show_nat_nonempty [simp]: "show_nat n \<noteq> []"
  by (subst show_nat.simps) simp

lemma show_nat_digits: "\<forall>c \<in> set (show_nat n). is_ascii_digit c"
proof (induction n rule: show_nat.induct)
  case (1 n)
  then show ?case
    by (subst show_nat.simps) (auto simp: digit_char_digit)
qed

lemma nat_of_digits_snoc: "nat_of_digits (s @ [c]) = nat_of_digits s * 10 + digit_value c"
  by (simp add: nat_of_digits_def)

lemma nat_of_digits_show_nat: "nat_of_digits (show_nat n) = n"
proof (induction n rule: show_nat.induct)
  case (1 n)
  show ?case
  proof (cases "n < 10")
    case True
    then show ?thesis
      by (subst show_nat.simps) (simp add: nat_of_digits_def digit_value_digit_char)
  next
    case False
    with 1 have "nat_of_digits (show_nat (n div 10)) = n div 10" by simp
    with False show ?thesis
      by (subst show_nat.simps) (simp add: nat_of_digits_snoc digit_value_digit_char)
  qed
qed

section \<open>Scanning a byte buffer\<close>

text \<open>
  The parsers keep a buffer and a position. \<open>scan_while P bs p\<close> is the loop
  \<^verbatim>\<open>while pos < bytes.len() && P(bytes[pos]) { pos += 1 }\<close>.
\<close>

function scan_while :: "(char \<Rightarrow> bool) \<Rightarrow> string \<Rightarrow> nat \<Rightarrow> nat" where
  "scan_while P bs p = (if p < length bs \<and> P (bs ! p) then scan_while P bs (Suc p) else p)"
  by pat_completeness auto
termination
  by (relation "measure (\<lambda>(P, bs, p). length bs - p)") auto

declare scan_while.simps [simp del]

definition slice :: "string \<Rightarrow> nat \<Rightarrow> nat \<Rightarrow> string" where
  "slice bs i j = take (j - i) (drop i bs)"

text \<open>\<open>starts_at bs p s\<close>: \<^verbatim>\<open>p + s.len() <= bytes.len() && &bytes[p..p + s.len()] == s\<close>.\<close>

definition starts_at :: "string \<Rightarrow> nat \<Rightarrow> string \<Rightarrow> bool" where
  "starts_at bs p s \<longleftrightarrow> p + length s \<le> length bs \<and> slice bs p (p + length s) = s"

definition byte_at :: "string \<Rightarrow> nat \<Rightarrow> char option" where
  "byte_at bs p = (if p < length bs then Some (bs ! p) else None)"

lemma scan_while_takeWhile: "scan_while P bs p = p + length (takeWhile P (drop p bs))"
proof (induction P bs p rule: scan_while.induct)
  case (1 P bs p)
  show ?case
  proof (cases "p < length bs \<and> P (bs ! p)")
    case True
    with 1 show ?thesis
      by (simp add: scan_while.simps [of P bs p] Cons_nth_drop_Suc [symmetric])
  next
    case False
    then show ?thesis
      by (cases "p < length bs") (auto simp: scan_while.simps [of P bs p] Cons_nth_drop_Suc [symmetric])
  qed
qed

lemma scan_while_ge [scan_rules, intro]: "p \<le> scan_while P bs p"
  by (simp add: scan_while_takeWhile)

lemma scan_while_le [scan_rules]: "p \<le> length bs \<Longrightarrow> scan_while P bs p \<le> length bs"
proof -
  assume "p \<le> length bs"
  moreover have "length (takeWhile P (drop p bs)) \<le> length (drop p bs)"
    by (rule length_takeWhile_le)
  ultimately show ?thesis by (simp add: scan_while_takeWhile)
qed

lemma scan_while_append:
  assumes "\<forall>c \<in> set s. P c" and "rest = [] \<or> \<not> P (hd rest)"
  shows "scan_while P (pre @ s @ rest) (length pre) = length pre + length s"
proof -
  have "takeWhile P rest = []"
    using assms(2) by (cases rest) auto
  with assms(1) show ?thesis
    by (simp add: scan_while_takeWhile takeWhile_append2)
qed

lemma starts_at_append [simp]: "starts_at (pre @ s @ rest) (length pre) s"
  by (simp add: starts_at_def slice_def)

lemma starts_at_le [scan_rules]: "starts_at bs p s \<Longrightarrow> p + length s \<le> length bs"
  by (simp add: starts_at_def)

lemma starts_at_prefix: "starts_at (pre @ rest) (length pre) s \<longleftrightarrow> take (length s) rest = s"
  by (auto simp: starts_at_def slice_def) (metis length_take min.cobounded2 nat_le_linear take_all)

lemma slice_append [simp]: "slice (pre @ s @ rest) (length pre) (length pre + length s) = s"
  by (simp add: slice_def)

lemma byte_at_append [simp]:
  "byte_at (pre @ rest) (length pre) = (case rest of [] \<Rightarrow> None | c # _ \<Rightarrow> Some c)"
  by (auto simp: byte_at_def nth_append split: list.splits)

lemma starts_at_drop: "s \<noteq> [] \<Longrightarrow> starts_at bs p s \<longleftrightarrow> take (length s) (drop p bs) = s"
proof -
  assume "s \<noteq> []"
  have "take (length s) (drop p bs) = s \<Longrightarrow> p + length s \<le> length bs"
  proof -
    assume t: "take (length s) (drop p bs) = s"
    have "length (take (length s) (drop p bs)) = length s" using t by simp
    with \<open>s \<noteq> []\<close> show ?thesis by (cases s) auto
  qed
  then show ?thesis by (auto simp: starts_at_def slice_def)
qed

lemma drop_advance: "drop p bs = s @ rest \<Longrightarrow> drop (p + length s) bs = rest"
  by (metis add.commute append_eq_conv_conj drop_drop)

lemma scan_while_drop:
  assumes "drop p bs = s @ rest" "\<forall>c \<in> set s. P c" "rest = [] \<or> \<not> P (hd rest)"
  shows "scan_while P bs p = p + length s"
proof -
  have "takeWhile P rest = []" using assms(3) by (cases rest) auto
  with assms(1,2) show ?thesis by (simp add: scan_while_takeWhile takeWhile_append2)
qed

lemma slice_drop: "drop p bs = s @ rest \<Longrightarrow> slice bs p (p + length s) = s"
  by (simp add: slice_def)

lemma byte_at_drop: "drop p bs = c # rest \<Longrightarrow> byte_at bs p = Some c"
  by (metis byte_at_def drop_eq_Nil hd_drop_conv_nth list.distinct(1) list.sel(1) not_le)

lemma scan_while_idem: "scan_while P bs (scan_while P bs p) = scan_while P bs p"
proof (induction P bs p rule: scan_while.induct)
  case (1 P bs p)
  show ?case
  proof (cases "p < length bs \<and> P (bs ! p)")
    case True
    with 1 show ?thesis by (simp add: scan_while.simps [of P bs p])
  next
    case False
    then have "scan_while P bs p = p" by (auto simp: scan_while.simps [of P bs p])
    then show ?thesis by simp
  qed
qed

lemma slice_in: "c \<in> set (slice bs i j) \<Longrightarrow> \<exists>k. i \<le> k \<and> k < j \<and> k < length bs \<and> c = bs ! k"
  by (auto simp: slice_def in_set_conv_nth) (metis add.commute le_add2 less_diff_conv)

lemma scan_while_all: "i \<le> k \<Longrightarrow> k < scan_while P bs i \<Longrightarrow> P (bs ! k)"
proof (induction P bs i rule: scan_while.induct)
  case (1 P bs i)
  show ?case
  proof (cases "i < length bs \<and> P (bs ! i)")
    case True
    with 1 show ?thesis by (cases "k = i") (auto simp: scan_while.simps [of P bs i])
  next
    case False
    with 1 show ?thesis by (auto simp: scan_while.simps [of P bs i] split: if_splits)
  qed
qed

lemma scan_after:
  "byte_at bs st = Some c \<Longrightarrow> p \<le> st \<Longrightarrow>
   p < scan_while P bs (Suc st) \<and> scan_while P bs (Suc st) \<le> length bs"
  using scan_while_ge [of "Suc st" P bs] scan_while_le [of "Suc st" bs P]
  by (auto simp: byte_at_def split: if_splits)

section \<open>Results of the recursive-descent parsers\<close>

text \<open>
  A parser returns a value and the next position, an error, or runs out of the fuel that bounds
  its recursion. \<open>PFuel\<close> has no counterpart in the source: each parser's totality theorem shows
  that the fuel the entry point passes is never exhausted.
\<close>

datatype ('e, 'a) pres = POk 'a nat | PErr 'e | PFuel

fun pbind :: "('e, 'a) pres \<Rightarrow> ('a \<Rightarrow> nat \<Rightarrow> ('e, 'b) pres) \<Rightarrow> ('e, 'b) pres" where
  "pbind (POk x p) f = f x p"
| "pbind (PErr e) f = PErr e"
| "pbind PFuel f = PFuel"

lemma pbind_POk_iff: "pbind r f = POk y q \<longleftrightarrow> (\<exists>x p. r = POk x p \<and> f x p = POk y q)"
  by (cases r) auto

lemma pbind_PErr_iff: "pbind r f = PErr e \<longleftrightarrow> r = PErr e \<or> (\<exists>x p. r = POk x p \<and> f x p = PErr e)"
  by (cases r) auto

lemma pbind_PFuel_iff: "pbind r f = PFuel \<longleftrightarrow> r = PFuel \<or> (\<exists>x p. r = POk x p \<and> f x p = PFuel)"
  by (cases r) auto

lemmas pbind_iffs = pbind_POk_iff pbind_PErr_iff pbind_PFuel_iff

text \<open>The contract every parsing function meets: from position \<open>p\<close> of a buffer of length \<open>n\<close> it
  does not run out of fuel, and a success has consumed at least one byte of it.\<close>

definition progress :: "nat \<Rightarrow> nat \<Rightarrow> ('e, 'a) pres \<Rightarrow> bool" where
  "progress n p r \<longleftrightarrow> r \<noteq> PFuel \<and> (\<forall>x q. r = POk x q \<longrightarrow> p < q \<and> q \<le> n)"

lemma progress_PErr [simp]: "progress n p (PErr e)"
  by (simp add: progress_def)

lemma progress_POk [simp]: "progress n p (POk x q) \<longleftrightarrow> p < q \<and> q \<le> n"
  by (simp add: progress_def)

lemma progress_PFuel [simp]: "\<not> progress n p PFuel"
  by (simp add: progress_def)

lemma progress_bind:
  assumes "progress n p r" and "\<And>x q. r = POk x q \<Longrightarrow> p < q \<Longrightarrow> q \<le> n \<Longrightarrow> progress n p (f x q)"
  shows "progress n p (pbind r f)"
  using assms by (cases r) auto

lemma progress_mono: "progress n q r \<Longrightarrow> p \<le> q \<Longrightarrow> progress n p r"
  by (cases r) auto

lemma progress_bind':
  assumes "progress n q r" "p \<le> q" "\<And>x s. p < s \<Longrightarrow> s \<le> n \<Longrightarrow> progress n p (f x s)"
  shows "progress n p (pbind r f)"
  using assms by (cases r) auto

text \<open>The assumption on the recursive call, shared by the composite forms.\<close>

definition rec_ok :: "(string \<Rightarrow> nat \<Rightarrow> ('e, 'a) pres) \<Rightarrow> string \<Rightarrow> nat \<Rightarrow> bool" where
  "rec_ok rec bs p \<longleftrightarrow> (\<forall>q. p < q \<longrightarrow> q \<le> length bs \<longrightarrow> progress (length bs) q (rec bs q))"

lemma rec_ok_bind:
  assumes "rec_ok rec bs p" "p < q" "q \<le> length bs"
    and "\<And>x r. p < r \<Longrightarrow> r \<le> length bs \<Longrightarrow> progress (length bs) p (f x r)"
  shows "progress (length bs) p (pbind (rec bs q) f)"
  using assms by (auto simp: rec_ok_def intro!: progress_bind' [of _ q])

lemma rec_ok_later: "rec_ok rec bs p \<Longrightarrow> p \<le> q \<Longrightarrow> rec_ok rec bs q"
  by (auto simp: rec_ok_def)

section \<open>\<open>str::trim\<close>\<close>

text \<open>
  \<open>trim\<close> removes the characters with the Unicode \<open>White_Space\<close> property at both ends. On UTF-8
  bytes these are six ASCII bytes and the multi-byte sequences below; \<open>ws_front\<close> gives the length
  of such a sequence at the front of a string, or 0.
\<close>

definition ws_tail3 :: "char \<Rightarrow> char \<Rightarrow> char \<Rightarrow> bool" where
  "ws_tail3 a b c \<longleftrightarrow>
     (a = CHR 0xE1 \<and> b = CHR 0x9A \<and> c = CHR 0x80) \<or>
     (a = CHR 0xE2 \<and> b = CHR 0x80 \<and>
        ((128 :: nat) \<le> of_char c \<and> of_char c \<le> (138 :: nat) \<or>
         c = CHR 0xA8 \<or> c = CHR 0xA9 \<or> c = CHR 0xAF)) \<or>
     (a = CHR 0xE2 \<and> b = CHR 0x81 \<and> c = CHR 0x9F) \<or>
     (a = CHR 0xE3 \<and> b = CHR 0x80 \<and> c = CHR 0x80)"

definition ws1 :: "char \<Rightarrow> bool" where
  "ws1 c \<longleftrightarrow> c = CHR 0x20 \<or> (9 :: nat) \<le> of_char c \<and> of_char c \<le> (13 :: nat)"

definition ws2 :: "char \<Rightarrow> char \<Rightarrow> bool" where
  "ws2 a b \<longleftrightarrow> a = CHR 0xC2 \<and> (b = CHR 0x85 \<or> b = CHR 0xA0)"

definition ws_front :: "string \<Rightarrow> nat" where
  "ws_front s = (case s of
     a # t \<Rightarrow> if ws1 a then 1 else (case t of
       b # u \<Rightarrow> if ws2 a b then 2 else (case u of
         c # _ \<Rightarrow> if ws_tail3 a b c then 3 else 0 | [] \<Rightarrow> 0) | [] \<Rightarrow> 0) | [] \<Rightarrow> 0)"

definition ws_back :: "string \<Rightarrow> nat" where
  "ws_back s = (case rev s of
     a # t \<Rightarrow> if ws1 a then 1 else (case t of
       b # u \<Rightarrow> if ws2 b a then 2 else (case u of
         c # _ \<Rightarrow> if ws_tail3 c b a then 3 else 0 | [] \<Rightarrow> 0) | [] \<Rightarrow> 0) | [] \<Rightarrow> 0)"

function trim_start :: "string \<Rightarrow> string" where
  "trim_start s = (if s \<noteq> [] \<and> 0 < ws_front s then trim_start (drop (ws_front s) s) else s)"
  by pat_completeness auto
termination
  by (relation "measure length") auto

function trim_end :: "string \<Rightarrow> string" where
  "trim_end s = (if s \<noteq> [] \<and> 0 < ws_back s then trim_end (take (length s - ws_back s) s) else s)"
  by pat_completeness auto
termination
  by (relation "measure length") auto

declare trim_start.simps [simp del] trim_end.simps [simp del]

definition trim :: "string \<Rightarrow> string" where
  "trim s = trim_end (trim_start s)"

text \<open>\<open>split_whitespace\<close>: the non-empty pieces between runs of white space.\<close>

function split_ws :: "string \<Rightarrow> string \<Rightarrow> string list" where
  "split_ws acc s =
     (if s = [] then (if acc = [] then [] else [rev acc])
      else if 0 < ws_front s then
        (if acc = [] then split_ws [] (drop (ws_front s) s)
         else rev acc # split_ws [] (drop (ws_front s) s))
      else split_ws (hd s # acc) (tl s))"
  by pat_completeness auto
termination
  by (relation "measure (\<lambda>(_, s). length s)") auto

declare split_ws.simps [simp del]

definition split_whitespace :: "string \<Rightarrow> string list" where
  "split_whitespace s = split_ws [] s"

definition strip_prefix :: "string \<Rightarrow> string \<Rightarrow> string option" where
  "strip_prefix pre s = (if take (length pre) s = pre then Some (drop (length pre) s) else None)"

definition strip_suffix :: "string \<Rightarrow> string \<Rightarrow> string option" where
  "strip_suffix suf s = map_option rev (strip_prefix (rev suf) (rev s))"

text \<open>\<open>str::find\<close> of a pattern, \<open>rfind\<close> and \<open>split_once\<close> of a character.\<close>

fun find_str :: "string \<Rightarrow> string \<Rightarrow> nat option" where
  "find_str pat [] = (if pat = [] then Some 0 else None)"
| "find_str pat (c # cs) =
     (if take (length pat) (c # cs) = pat then Some 0 else map_option Suc (find_str pat cs))"

fun find_char :: "char \<Rightarrow> string \<Rightarrow> nat option" where
  "find_char x [] = None"
| "find_char x (c # cs) = (if c = x then Some 0 else map_option Suc (find_char x cs))"

definition rfind_char :: "char \<Rightarrow> string \<Rightarrow> nat option" where
  "rfind_char x s = map_option (\<lambda>k. length s - 1 - k) (find_char x (rev s))"

definition split_once :: "char \<Rightarrow> string \<Rightarrow> (string \<times> string) option" where
  "split_once x s = map_option (\<lambda>k. (take k s, drop (Suc k) s)) (find_char x s)"

text \<open>\<open>str::parse\<close> and \<open>from_str_radix(_, 16)\<close>: an optional sign (\<open>-\<close> only for signed types), at
  least one digit, and an error on overflow.\<close>

definition is_hex_digit :: "char \<Rightarrow> bool" where
  "is_hex_digit c \<longleftrightarrow> is_ascii_digit c \<or> c \<in> set ''abcdefABCDEF''"

definition hex_value :: "char \<Rightarrow> nat" where
  "hex_value c = (let n = (of_char c :: nat) in
     if is_ascii_digit c then n - 48 else if n \<ge> 97 then n - 87 else n - 55)"

definition unsigned_of :: "nat \<Rightarrow> string \<Rightarrow> nat option" where
  "unsigned_of radix ds =
     (if ds = [] \<or> \<not> list_all (if radix = 16 then is_hex_digit else is_ascii_digit) ds then None
      else Some (foldl (\<lambda>a c. radix * a + hex_value c) 0 ds))"

definition parse_unsigned :: "nat \<Rightarrow> int \<Rightarrow> string \<Rightarrow> nat option" where
  "parse_unsigned radix bound s =
     (case unsigned_of radix (case strip_prefix ''+'' s of Some r \<Rightarrow> r | None \<Rightarrow> s) of
        Some v \<Rightarrow> if int v \<le> bound then Some v else None
      | None \<Rightarrow> None)"

definition parse_i64 :: "nat \<Rightarrow> string \<Rightarrow> int option" where
  "parse_i64 radix s =
     (case strip_prefix ''-'' s of
        Some r \<Rightarrow> (case unsigned_of radix r of
            Some v \<Rightarrow> if i64_min \<le> - int v then Some (- int v) else None | None \<Rightarrow> None)
      | None \<Rightarrow> (case unsigned_of radix (case strip_prefix ''+'' s of Some r \<Rightarrow> r | None \<Rightarrow> s) of
            Some v \<Rightarrow> if int v \<le> i64_max then Some (int v) else None | None \<Rightarrow> None))"

text \<open>\<open>trim_start_matches\<close> of a non-empty pattern, \<open>trim_end_matches\<close> of a character, \<open>contains\<close>,
  and \<open>split\<close> at a character (which keeps empty pieces).\<close>

function trim_start_matches :: "string \<Rightarrow> string \<Rightarrow> string" where
  "trim_start_matches pat s =
     (if pat \<noteq> [] \<and> s \<noteq> [] \<and> take (length pat) s = pat then trim_start_matches pat (drop (length pat) s) else s)"
  by pat_completeness auto
termination
  by (relation "measure (\<lambda>(_, s). length s)") auto

declare trim_start_matches.simps [simp del]

definition trim_end_char :: "char \<Rightarrow> string \<Rightarrow> string" where
  "trim_end_char c s = rev (dropWhile ((=) c) (rev s))"

definition contains_str :: "string \<Rightarrow> string \<Rightarrow> bool" where
  "contains_str pat s \<longleftrightarrow> find_str pat s \<noteq> None"

fun split_char :: "char \<Rightarrow> string \<Rightarrow> string list" where
  "split_char x [] = [[]]"
| "split_char x (c # cs) =
     (if c = x then [] # split_char x cs
      else (case split_char x cs of [] \<Rightarrow> [[c]] | p # ps \<Rightarrow> (c # p) # ps))"

lemma split_char_nonempty [simp]: "split_char x s \<noteq> []"
  by (induction s) (auto split: list.splits)

lemma split_char_free: "p \<in> set (split_char x s) \<Longrightarrow> x \<notin> set p"
  by (induction s arbitrary: p) (auto split: if_splits list.splits)

text \<open>\<open>join\<close> with a one-character separator inverts \<open>split\<close>.\<close>

fun join_char :: "char \<Rightarrow> string list \<Rightarrow> string" where
  "join_char x [] = []"
| "join_char x [p] = p"
| "join_char x (p # ps) = p @ [x] @ join_char x ps"

text \<open>\<open>[String]::join\<close>.\<close>

fun join_with :: "string \<Rightarrow> string list \<Rightarrow> string" where
  "join_with sep [] = []"
| "join_with sep [x] = x"
| "join_with sep (x # y # xs) = x @ sep @ join_with sep (y # xs)"

lemma join_split_char: "join_char x (split_char x s) = s"
proof (induction s)
  case (Cons c s)
  obtain p ps where "split_char x s = p # ps" by (cases "split_char x s") auto
  then show ?case using Cons by (cases ps) auto
qed simp

fun filter_map :: "('a \<Rightarrow> 'b option) \<Rightarrow> 'a list \<Rightarrow> 'b list" where
  "filter_map f [] = []"
| "filter_map f (x # xs) = (case f x of Some y \<Rightarrow> y # filter_map f xs | None \<Rightarrow> filter_map f xs)"

end
