(* ===== verification/Core_Diag.thy ===== *)
theory Core_Diag
  imports Prelude
begin

text \<open>
  The crate \<open>semasm-core\<close>: source spans (\<open>span.rs\<close>), diagnostics and their ordered collection
  (\<open>diagnostic.rs\<close>), and the workspace error type (\<open>error.rs\<close>).
\<close>

section \<open>Source spans\<close>

text \<open>A \<open>ByteOffset\<close> is a \<open>u32\<close>; the newtype is transparent here.\<close>

record source_span =
  span_start :: u32
  span_end :: u32

definition from_offsets :: "u32 \<Rightarrow> u32 \<Rightarrow> source_span" where
  "from_offsets s e = \<lparr>span_start = s, span_end = e\<rparr>"

text \<open>\<open>saturating_sub\<close> on \<open>u32\<close>.\<close>

definition span_len :: "source_span \<Rightarrow> u32" where
  "span_len sp = (if span_start sp \<le> span_end sp then span_end sp - span_start sp else 0)"

definition span_is_empty :: "source_span \<Rightarrow> bool" where
  "span_is_empty sp \<longleftrightarrow> span_len sp = 0"

lemma unat_span_len: "unat (span_len sp) = unat (span_end sp) - unat (span_start sp)"
  by (auto simp: span_len_def unat_sub_if' word_le_nat_alt)

lemma span_is_empty_iff: "span_is_empty sp \<longleftrightarrow> span_end sp \<le> span_start sp"
  unfolding span_is_empty_def using unat_span_len [of sp]
  by (metis diff_is_0_eq unat_eq_zero word_le_nat_alt)

section \<open>Errors\<close>

datatype error = Validation string | Parse string | Io string | NotFound string | Internal string

section \<open>Diagnostics\<close>

datatype diagnostic_level = Note | Warning | Error

text \<open>The message is a \<open>String\<close> built from any displayable value; the model keeps the value, so
  the record is polymorphic in it.\<close>

record 'm diagnostic =
  dlevel :: diagnostic_level
  dmessage :: 'm
  dspan :: "source_span option"
  dcode :: "string option"

definition diag_error :: "'m \<Rightarrow> 'm diagnostic" where
  "diag_error m = \<lparr>dlevel = Error, dmessage = m, dspan = None, dcode = None\<rparr>"

definition diag_warning :: "'m \<Rightarrow> 'm diagnostic" where
  "diag_warning m = \<lparr>dlevel = Warning, dmessage = m, dspan = None, dcode = None\<rparr>"

definition diag_note :: "'m \<Rightarrow> 'm diagnostic" where
  "diag_note m = \<lparr>dlevel = Note, dmessage = m, dspan = None, dcode = None\<rparr>"

definition with_span :: "source_span \<Rightarrow> 'm diagnostic \<Rightarrow> 'm diagnostic" where
  "with_span sp d = d\<lparr>dspan := Some sp\<rparr>"

definition with_code :: "string \<Rightarrow> 'm diagnostic \<Rightarrow> 'm diagnostic" where
  "with_code c d = d\<lparr>dcode := Some c\<rparr>"

type_synonym 'm diagnostics = "'m diagnostic list"

definition diag_push :: "'m diagnostic \<Rightarrow> 'm diagnostics \<Rightarrow> 'm diagnostics" where
  "diag_push d ds = ds @ [d]"

definition has_errors :: "'m diagnostics \<Rightarrow> bool" where
  "has_errors ds \<longleftrightarrow> (\<exists>d \<in> set ds. dlevel d = Error)"

lemma has_errors_Nil [simp]: "\<not> has_errors []"
  by (simp add: has_errors_def)

lemma has_errors_append [simp]: "has_errors (xs @ ys) \<longleftrightarrow> has_errors xs \<or> has_errors ys"
  by (auto simp: has_errors_def)

lemma has_errors_push [simp]: "has_errors (diag_push d ds) \<longleftrightarrow> has_errors ds \<or> dlevel d = Error"
  by (auto simp: has_errors_def diag_push_def)

lemma level_builders [simp]:
  "dlevel (diag_error m) = Error"
  "dlevel (with_span sp d) = dlevel d"
  "dlevel (with_code c d) = dlevel d"
  by (simp_all add: diag_error_def with_span_def with_code_def)

end
