(* ===== verification/Sem_Type.thy ===== *)
theory Sem_Type
  imports Core_Diag
begin

text \<open>
  The semantic type grammar of portable contracts, \<open>semasm-contract/src/sem_type.rs\<close>: the type
  \<open>SemType\<close>, the recursive-descent \<open>TypeParser\<close> and \<open>SemType::parse\<close>. Shown here: the parser always
  returns (its fuel suffices), what it returns is well formed, and printing a well-formed type in
  the grammar's notation and parsing it back gives the type.
\<close>

section \<open>Types\<close>

datatype sem_type =
    TBool
  | TStatus
  | UInt nat
  | SInt nat
  | Usize
  | Isize
  | Ptr sem_type bool
  | Slice sem_type
  | Array sem_type nat
  | Opaque string

text \<open>The parser's error messages, with the byte position each one reports.\<close>

datatype type_error =
    TrailingJunk nat
  | UnknownType nat
  | InvalidWidth nat nat
  | ExpectedDigits nat
  | InvalidNumber nat
  | Expected string nat
  | ExpectedOpaqueName nat

type_synonym 'a tres = "(type_error, 'a) pres"

section \<open>The parser\<close>

definition skip_ws :: "string \<Rightarrow> nat \<Rightarrow> nat" where
  "skip_ws bs p = scan_while is_ascii_whitespace bs p"

text \<open>\<open>eat\<close> skips white space, also when it then fails: the new position is returned either way.\<close>

definition eat :: "string \<Rightarrow> string \<Rightarrow> nat \<Rightarrow> bool \<times> nat" where
  "eat s bs p = (let q = skip_ws bs p in
     if starts_at bs q s then (True, q + length s) else (False, q))"

definition expect :: "string \<Rightarrow> string \<Rightarrow> nat \<Rightarrow> unit tres" where
  "expect s bs p = (case eat s bs p of
     (True, q) \<Rightarrow> POk () q
   | (False, q) \<Rightarrow> PErr (Expected s q))"

definition parse_digits :: "string \<Rightarrow> nat \<Rightarrow> nat tres" where
  "parse_digits bs p = (let q = scan_while is_ascii_digit bs p in
     if p = q then PErr (ExpectedDigits p)
     else (case parse_u64_digits (slice bs p q) of
             Some n \<Rightarrow> POk n q
           | None \<Rightarrow> PErr (InvalidNumber p)))"

definition parse_int_width :: "string \<Rightarrow> nat \<Rightarrow> sem_type tres" where
  "parse_int_width bs start =
     (let (u, p1) = eat ''u'' bs start;
          (i, p2) = (if u then (False, p1) else eat ''i'' bs p1)
      in if \<not> u \<and> \<not> i then PErr (UnknownType start)
         else pbind (parse_digits bs p2) (\<lambda>bits q.
           if bits = 8 \<or> bits = 16 \<or> bits = 32 \<or> bits = 64 \<or> bits = 128
           then POk (if i then SInt bits else UInt bits) q
           else PErr (InvalidWidth bits start)))"

text \<open>The composite forms call \<open>parse_type\<close> recursively; the call is their first argument.\<close>

definition parse_ptr :: "(string \<Rightarrow> nat \<Rightarrow> sem_type tres) \<Rightarrow> string \<Rightarrow> nat \<Rightarrow> sem_type tres" where
  "parse_ptr rec bs p =
     pbind (expect ''<'' bs p) (\<lambda>_ p1.
       let (is_const, p2) = eat ''const'' bs (skip_ws bs p1);
           p3 = (if is_const then skip_ws bs p2 else p2)
       in pbind (rec bs p3) (\<lambda>inner q.
            pbind (expect ''>'' bs q) (\<lambda>_ r. POk (Ptr inner is_const) r)))"

definition parse_slice :: "(string \<Rightarrow> nat \<Rightarrow> sem_type tres) \<Rightarrow> string \<Rightarrow> nat \<Rightarrow> sem_type tres" where
  "parse_slice rec bs p =
     pbind (expect ''<'' bs p) (\<lambda>_ p1.
       pbind (rec bs p1) (\<lambda>inner q.
         pbind (expect ''>'' bs q) (\<lambda>_ r. POk (Slice inner) r)))"

definition parse_array :: "(string \<Rightarrow> nat \<Rightarrow> sem_type tres) \<Rightarrow> string \<Rightarrow> nat \<Rightarrow> sem_type tres" where
  "parse_array rec bs p =
     pbind (expect ''<'' bs p) (\<lambda>_ p1.
       pbind (rec bs p1) (\<lambda>inner q.
         pbind (expect '','' bs q) (\<lambda>_ q1.
           pbind (parse_digits bs (skip_ws bs q1)) (\<lambda>len q2.
             pbind (expect ''>'' bs q2) (\<lambda>_ r. POk (Array inner len) r)))))"

definition parse_opaque :: "string \<Rightarrow> nat \<Rightarrow> sem_type tres" where
  "parse_opaque bs p =
     pbind (expect ''<'' bs p) (\<lambda>_ p1.
       let start = skip_ws bs p1 in
       (case byte_at bs start of
          None \<Rightarrow> PErr (ExpectedOpaqueName start)
        | Some c \<Rightarrow>
            if \<not> is_ident_start c then PErr (ExpectedOpaqueName start)
            else let q = scan_while is_ident_char bs (Suc start) in
              pbind (expect ''>'' bs q) (\<lambda>_ r. POk (Opaque (slice bs start q)) r)))"

fun parse_type :: "nat \<Rightarrow> string \<Rightarrow> nat \<Rightarrow> sem_type tres" where
  "parse_type 0 bs p = PFuel"
| "parse_type (Suc n) bs p =
     (let p0 = skip_ws bs p;
          (b1, p1) = eat ''ptr'' bs p0 in if b1 then parse_ptr (parse_type n) bs p1 else
      let (b2, p2) = eat ''slice'' bs p1 in if b2 then parse_slice (parse_type n) bs p2 else
      let (b3, p3) = eat ''array'' bs p2 in if b3 then parse_array (parse_type n) bs p3 else
      let (b4, p4) = eat ''opaque'' bs p3 in if b4 then parse_opaque bs p4 else
      let (b5, p5) = eat ''bool'' bs p4 in if b5 then POk TBool p5 else
      let (b6, p6) = eat ''status'' bs p5 in if b6 then POk TStatus p6 else
      let (b7, p7) = eat ''usize'' bs p6 in if b7 then POk Usize p7 else
      let (b8, p8) = eat ''isize'' bs p7 in if b8 then POk Isize p8 else
      parse_int_width bs p8)"

definition type_parse :: "string \<Rightarrow> (sem_type \<times> source_span) tres" where
  "type_parse input =
     pbind (parse_type (Suc (length input)) input 0) (\<lambda>ty p.
       let q = skip_ws input p in
       if q < length input then PErr (TrailingJunk q)
       else POk (ty, from_offsets 0 (u32_from_or_max (length input))) q)"

section \<open>Well-formed types and their notation\<close>

definition valid_name :: "string \<Rightarrow> bool" where
  "valid_name s \<longleftrightarrow> s \<noteq> [] \<and> is_ident_start (hd s) \<and> (\<forall>c \<in> set s. is_ident_char c)"

fun wf_type :: "sem_type \<Rightarrow> bool" where
  "wf_type (UInt b) \<longleftrightarrow> b \<in> {8, 16, 32, 64, 128}"
| "wf_type (SInt b) \<longleftrightarrow> b \<in> {8, 16, 32, 64, 128}"
| "wf_type (Ptr t _) \<longleftrightarrow> wf_type t"
| "wf_type (Slice t) \<longleftrightarrow> wf_type t"
| "wf_type (Array t n) \<longleftrightarrow> wf_type t \<and> int n \<le> u64_max"
| "wf_type (Opaque s) \<longleftrightarrow> valid_name s"
| "wf_type _ \<longleftrightarrow> True"

fun show_type :: "sem_type \<Rightarrow> string" where
  "show_type TBool = ''bool''"
| "show_type TStatus = ''status''"
| "show_type (UInt b) = ''u'' @ show_nat b"
| "show_type (SInt b) = ''i'' @ show_nat b"
| "show_type Usize = ''usize''"
| "show_type Isize = ''isize''"
| "show_type (Ptr t c) = ''ptr<'' @ (if c then ''const '' else []) @ show_type t @ ''>''"
| "show_type (Slice t) = ''slice<'' @ show_type t @ ''>''"
| "show_type (Array t n) = ''array<'' @ show_type t @ '', '' @ show_nat n @ ''>''"
| "show_type (Opaque s) = ''opaque<'' @ s @ ''>''"

section \<open>Scanner lemmas\<close>

lemma skip_ws_ge: "p \<le> skip_ws bs p"
  by (simp add: skip_ws_def scan_while_ge)

lemma skip_ws_le: "p \<le> length bs \<Longrightarrow> skip_ws bs p \<le> length bs"
  by (simp add: skip_ws_def scan_while_le)

lemma skip_ws_idem: "skip_ws bs (skip_ws bs p) = skip_ws bs p"
  by (simp add: skip_ws_def scan_while_idem)

lemma skip_ws_drop: "drop p bs = c # rest \<Longrightarrow> \<not> is_ascii_whitespace c \<Longrightarrow> skip_ws bs p = p"
  by (simp add: skip_ws_def scan_while_takeWhile)


lemma eat_TrueD:
  "eat s bs p = (True, q) \<Longrightarrow> p \<le> length bs \<Longrightarrow> p + length s \<le> q \<and> q \<le> length bs"
  using skip_ws_ge [of p bs]
  by (auto simp: eat_def Let_def starts_at_def split: if_splits)

lemma eat_FalseD: "eat s bs p = (False, q) \<Longrightarrow> q = skip_ws bs p"
  by (auto simp: eat_def Let_def split: if_splits)

lemma eat_skip_ws: "eat s bs (skip_ws bs p) = eat s bs p"
  by (simp add: eat_def skip_ws_idem)

lemma eat_drop:
  "drop p bs = s @ rest \<Longrightarrow> s \<noteq> [] \<Longrightarrow> \<not> is_ascii_whitespace (hd s) \<Longrightarrow>
   eat s bs p = (True, p + length s)"
  by (cases s) (auto simp: eat_def Let_def skip_ws_drop starts_at_drop)

lemma eat_no_drop:
  "drop p bs = c # t \<Longrightarrow> \<not> is_ascii_whitespace c \<Longrightarrow> s \<noteq> [] \<Longrightarrow> take (length s) (c # t) \<noteq> s \<Longrightarrow>
   eat s bs p = (False, p)"
  by (auto simp: eat_def Let_def skip_ws_drop starts_at_drop)

lemma expect_drop:
  "drop p bs = s @ rest \<Longrightarrow> s \<noteq> [] \<Longrightarrow> \<not> is_ascii_whitespace (hd s) \<Longrightarrow>
   expect s bs p = POk () (p + length s)"
  by (simp add: expect_def eat_drop)

lemma progress_expect: "s \<noteq> [] \<Longrightarrow> p \<le> length bs \<Longrightarrow> progress (length bs) p (expect s bs p)"
  by (cases s) (auto simp: expect_def split: prod.splits bool.splits dest: eat_TrueD)

lemma progress_parse_digits: "p \<le> length bs \<Longrightarrow> progress (length bs) p (parse_digits bs p)"
  using scan_while_ge [of p is_ascii_digit bs] scan_while_le [of p bs is_ascii_digit]
  by (auto simp: parse_digits_def Let_def split: option.splits)

text \<open>One step of \<open>parse_type\<close>, with the eight keyword tests at the same position.\<close>

lemma parse_type_step:
  "parse_type (Suc n) bs p =
     (let q = skip_ws bs p in
      if starts_at bs q ''ptr'' then parse_ptr (parse_type n) bs (q + 3)
      else if starts_at bs q ''slice'' then parse_slice (parse_type n) bs (q + 5)
      else if starts_at bs q ''array'' then parse_array (parse_type n) bs (q + 5)
      else if starts_at bs q ''opaque'' then parse_opaque bs (q + 6)
      else if starts_at bs q ''bool'' then POk TBool (q + 4)
      else if starts_at bs q ''status'' then POk TStatus (q + 6)
      else if starts_at bs q ''usize'' then POk Usize (q + 5)
      else if starts_at bs q ''isize'' then POk Isize (q + 5)
      else parse_int_width bs q)"
  by (simp add: eat_def Let_def skip_ws_idem eval_nat_numeral)

declare parse_type.simps(2) [simp del]

section \<open>The parser always returns\<close>

lemma progress_expect_bind:
  assumes "p \<le> q" "q \<le> length bs" "s \<noteq> []"
    and "\<And>r. p < r \<Longrightarrow> r \<le> length bs \<Longrightarrow> progress (length bs) p (f () r)"
  shows "progress (length bs) p (pbind (expect s bs q) f)"
  using assms by (auto intro: progress_bind' [OF progress_expect])

lemma skip_ws_bounds:
  "p < r \<Longrightarrow> p < skip_ws bs r" "p \<le> r \<Longrightarrow> p \<le> skip_ws bs r"
  "r \<le> length bs \<Longrightarrow> skip_ws bs r \<le> length bs"
  using skip_ws_ge [of r bs] by (auto intro: skip_ws_le)

lemma eat_bounds:
  "p < r \<Longrightarrow> r \<le> length bs \<Longrightarrow> p < snd (eat s bs r)"
  "p \<le> r \<Longrightarrow> r \<le> length bs \<Longrightarrow> p \<le> snd (eat s bs r)"
  "r \<le> length bs \<Longrightarrow> snd (eat s bs r) \<le> length bs"
  using skip_ws_ge [of r bs] skip_ws_le [of r bs]
  by (auto simp: eat_def Let_def starts_at_def)

lemmas pos_bounds = skip_ws_bounds eat_bounds less_imp_le

lemma progress_parse_ptr:
  assumes "rec_ok rec bs p" "p \<le> length bs"
  shows "progress (length bs) p (parse_ptr rec bs p)"
  unfolding parse_ptr_def Let_def split_beta
  using assms
  by (auto intro!: progress_expect_bind rec_ok_bind [of rec bs p] simp: pos_bounds)

lemma progress_parse_slice:
  assumes "rec_ok rec bs p" "p \<le> length bs"
  shows "progress (length bs) p (parse_slice rec bs p)"
  unfolding parse_slice_def
  using assms by (auto intro!: progress_expect_bind rec_ok_bind [of rec bs p])

lemma progress_parse_array:
  assumes "rec_ok rec bs p" "p \<le> length bs"
  shows "progress (length bs) p (parse_array rec bs p)"
  unfolding parse_array_def
  using assms
  by (auto intro!: progress_expect_bind rec_ok_bind [of rec bs p]
      progress_bind' [OF progress_parse_digits] simp: pos_bounds)

lemma progress_parse_opaque: "p \<le> length bs \<Longrightarrow> progress (length bs) p (parse_opaque bs p)"
  unfolding parse_opaque_def Let_def
  by (rule progress_expect_bind)
     (auto split: option.split intro!: progress_expect_bind
       dest: scan_after [where p = p and P = is_ident_char] simp: pos_bounds)

lemma progress_parse_int_width: "p \<le> length bs \<Longrightarrow> progress (length bs) p (parse_int_width bs p)"
  unfolding parse_int_width_def Let_def split_beta
  by (auto intro!: progress_bind' [OF progress_parse_digits] simp: pos_bounds)

lemma progress_parse_type:
  "length bs - p < n \<Longrightarrow> p \<le> length bs \<Longrightarrow> progress (length bs) p (parse_type n bs p)"
proof (induction n arbitrary: p)
  case (Suc n)
  define q where "q = skip_ws bs p"
  have q: "p \<le> q" "q \<le> length bs"
    using Suc.prems by (auto simp: q_def pos_bounds)
  have rec: "rec_ok (parse_type n) bs q"
    unfolding rec_ok_def using q Suc.prems by (auto intro!: Suc.IH)
  have ptr: "starts_at bs q ''ptr'' \<Longrightarrow> progress (length bs) q (parse_ptr (parse_type n) bs (q + 3))"
    by (rule progress_mono [OF progress_parse_ptr [OF rec_ok_later [OF rec]]])
       (auto simp: starts_at_def)
  have sl: "starts_at bs q ''slice'' \<Longrightarrow> progress (length bs) q (parse_slice (parse_type n) bs (q + 5))"
    by (rule progress_mono [OF progress_parse_slice [OF rec_ok_later [OF rec]]])
       (auto simp: starts_at_def)
  have ar: "starts_at bs q ''array'' \<Longrightarrow> progress (length bs) q (parse_array (parse_type n) bs (q + 5))"
    by (rule progress_mono [OF progress_parse_array [OF rec_ok_later [OF rec]]])
       (auto simp: starts_at_def)
  have op: "starts_at bs q ''opaque'' \<Longrightarrow> progress (length bs) q (parse_opaque bs (q + 6))"
    by (rule progress_mono [OF progress_parse_opaque]) (auto simp: starts_at_def)
  have kw: "starts_at bs q ''bool'' \<Longrightarrow> q + 4 \<le> length bs"
    "starts_at bs q ''status'' \<Longrightarrow> q + 6 \<le> length bs"
    "starts_at bs q ''usize'' \<Longrightarrow> q + 5 \<le> length bs"
    "starts_at bs q ''isize'' \<Longrightarrow> q + 5 \<le> length bs"
    by (auto simp: starts_at_def)
  have "progress (length bs) q (parse_type (Suc n) bs p)"
    unfolding parse_type_step Let_def q_def [symmetric]
    using ptr sl ar op kw progress_parse_int_width [OF q(2)] by simp
  then show ?case by (rule progress_mono) (rule q)
qed simp


section \<open>What it returns is well formed\<close>

lemma parse_digits_bound: "parse_digits bs p = POk n q \<Longrightarrow> int n \<le> u64_max"
  by (auto simp: parse_digits_def Let_def parse_u64_digits_def split: if_splits option.splits)

lemma opaque_name_valid:
  assumes "byte_at bs st = Some c" "is_ident_start c" "q = scan_while is_ident_char bs (Suc st)"
  shows "valid_name (slice bs st q)"
proof -
  have st: "st < length bs" "bs ! st = c"
    using assms(1) by (auto simp: byte_at_def split: if_splits)
  have q: "Suc st \<le> q" using assms(3) by (auto intro: scan_while_ge)
  then have "q - st = Suc (q - Suc st)" by simp
  then have hd: "slice bs st q = c # slice bs (Suc st) q"
    using st by (simp add: slice_def Cons_nth_drop_Suc [symmetric])
  have "is_ident_char d" if "d \<in> set (slice bs (Suc st) q)" for d
    using slice_in [OF that] assms(3) scan_while_all by blast
  moreover have "is_ident_char c"
    using assms(2) by (auto simp: is_ident_start_def is_ident_char_def is_ascii_alphanumeric_def)
  ultimately show ?thesis
    using hd assms(2) by (auto simp: valid_name_def)
qed

lemma parse_int_width_wf: "parse_int_width bs p = POk t q \<Longrightarrow> wf_type t"
  by (auto simp: parse_int_width_def Let_def split_beta pbind_POk_iff split: if_splits)

lemma parse_opaque_wf: "parse_opaque bs p = POk t q \<Longrightarrow> wf_type t"
  by (auto simp: parse_opaque_def Let_def pbind_POk_iff opaque_name_valid
      split: option.splits if_splits)

lemma parse_type_wf: "parse_type n bs p = POk t q \<Longrightarrow> wf_type t"
proof (induction n arbitrary: p t q)
  case (Suc n)
  then show ?case
    by (auto simp: parse_type_step Let_def parse_ptr_def parse_slice_def parse_array_def
        split_beta pbind_POk_iff parse_int_width_wf parse_opaque_wf parse_digits_bound
        split: if_splits)
qed simp


section \<open>Printing and parsing back\<close>

definition delim :: "string \<Rightarrow> bool" where
  "delim rest \<longleftrightarrow> rest = [] \<or> hd rest = CHR ''>'' \<or> hd rest = CHR '',''"

lemma delim_simps [simp]: "delim []" "delim (CHR ''>'' # r)" "delim (CHR '','' # r)"
  by (simp_all add: delim_def)

lemma delim_not_digit: "delim rest \<Longrightarrow> rest = [] \<or> \<not> is_ascii_digit (hd rest)"
  by (auto simp: delim_def is_ascii_digit_def)

lemma delim_not_ident: "delim rest \<Longrightarrow> rest = [] \<or> \<not> is_ident_char (hd rest)"
  by (auto simp: delim_def is_ident_char_def is_ascii_alphanumeric_def is_ascii_alphabetic_def
      is_ascii_digit_def)

lemma ident_start_not_ws: "is_ident_start c \<Longrightarrow> \<not> is_ascii_whitespace c"
  by (auto simp: is_ident_start_def is_ascii_alphabetic_def is_ascii_whitespace_def)

lemma digit_not_ws: "is_ascii_digit c \<Longrightarrow> \<not> is_ascii_whitespace c"
  by (auto simp: is_ascii_digit_def is_ascii_whitespace_def)

lemma hd_show_nat_not_ws: "\<not> is_ascii_whitespace (hd (show_nat n))"
  using show_nat_digits [of n] show_nat_nonempty [of n] by (meson digit_not_ws hd_in_set)

lemma parse_digits_show_nat:
  assumes "drop p bs = show_nat n @ rest" "delim rest" "int n \<le> u64_max"
  shows "parse_digits bs p = POk n (p + length (show_nat n))"
proof -
  have "scan_while is_ascii_digit bs p = p + length (show_nat n)"
    using assms(1) show_nat_digits delim_not_digit [OF assms(2)] by (rule scan_while_drop)
  with assms show ?thesis
    by (simp add: parse_digits_def Let_def slice_drop parse_u64_digits_def nat_of_digits_show_nat)
qed

lemma width_int: "b \<in> {8, 16, 32, 64, 128} \<Longrightarrow> int b \<le> u64_max"
  by (auto simp: u64_max_def)

lemma parse_int_width_show:
  assumes "b \<in> {8, 16, 32, 64, 128}" "delim rest"
  shows "drop p bs = ''u'' @ show_nat b @ rest \<Longrightarrow>
      parse_int_width bs p = POk (UInt b) (p + Suc (length (show_nat b)))"
    and "drop p bs = ''i'' @ show_nat b @ rest \<Longrightarrow>
      parse_int_width bs p = POk (SInt b) (p + Suc (length (show_nat b)))"
proof -
  show "parse_int_width bs p = POk (UInt b) (p + Suc (length (show_nat b)))"
    if d: "drop p bs = ''u'' @ show_nat b @ rest"
  proof -
    have "eat ''u'' bs p = (True, p + 1)"
      using eat_drop [OF d] by (simp add: is_ascii_whitespace_def)
    moreover have "drop (p + 1) bs = show_nat b @ rest"
      using drop_advance [OF d] by simp
    ultimately show ?thesis
      using assms(1) parse_digits_show_nat [OF _ assms(2) width_int [OF assms(1)], of "p + 1" bs]
      by (auto simp: parse_int_width_def Let_def)
  qed
  show "parse_int_width bs p = POk (SInt b) (p + Suc (length (show_nat b)))"
    if d: "drop p bs = ''i'' @ show_nat b @ rest"
  proof -
    have "eat ''i'' bs p = (True, p + 1)"
      using eat_drop [OF d] by (simp add: is_ascii_whitespace_def)
    moreover have "eat ''u'' bs p = (False, p)"
      using d by (intro eat_no_drop) (auto simp: is_ascii_whitespace_def)
    moreover have "drop (p + 1) bs = show_nat b @ rest"
      using drop_advance [OF d] by simp
    ultimately show ?thesis
      using assms(1) parse_digits_show_nat [OF _ assms(2) width_int [OF assms(1)], of "p + 1" bs]
      by (auto simp: parse_int_width_def Let_def)
  qed
qed

lemma show_width:
  "show_nat 8 = ''8''" "show_nat 16 = ''16''" "show_nat 32 = ''32''" "show_nat 64 = ''64''"
  "show_nat 128 = ''128''"
  by code_simp+

lemma hd_show_type_not_ws: "\<not> is_ascii_whitespace (hd (show_type t @ r))"
  by (cases t) (auto simp: is_ascii_whitespace_def)

lemma show_type_Cons: "\<exists>c cs. show_type t = c # cs \<and> \<not> is_ascii_whitespace c"
  by (cases t) (auto simp: is_ascii_whitespace_def)

lemma show_type_not_const: "wf_type t \<Longrightarrow> take 5 (show_type t @ r) \<noteq> ''const''"
  by (cases t) (auto simp: show_width)


lemma skip_ws_show:
  assumes "drop p bs = show_type t @ rest" shows "skip_ws bs p = p"
  using assms show_type_Cons [of t] by (auto intro: skip_ws_drop)

lemma parse_ptr_show:
  assumes "drop p bs = ''<'' @ (if c then ''const '' else []) @ show_type t @ ''>'' @ rest"
    and "wf_type t"
    and rec: "\<And>q. drop q bs = show_type t @ ''>'' @ rest \<Longrightarrow> rec bs q = POk t (q + length (show_type t))"
  shows "parse_ptr rec bs p = POk (Ptr t c) (p + length (''<'' @ (if c then ''const '' else []) @ show_type t @ ''>''))"
proof -
  define q where "q = p + 1 + (if c then 6 else 0)"
  have d1: "drop (p + 1) bs = (if c then ''const '' else []) @ show_type t @ ''>'' @ rest"
    using drop_advance [OF assms(1)] by simp
  have dq: "drop q bs = show_type t @ ''>'' @ rest"
    using drop_advance [OF d1] by (cases c) (simp_all add: q_def eval_nat_numeral)
  have lt: "expect ''<'' bs p = POk () (p + 1)"
    using expect_drop [OF assms(1)] by (simp add: is_ascii_whitespace_def)
  have skip_q: "skip_ws bs q = q" by (rule skip_ws_show [OF dq])
  have gt: "expect ''>'' bs (q + length (show_type t)) = POk () (q + length (show_type t) + 1)"
    using expect_drop [OF drop_advance [OF dq]] by (simp add: is_ascii_whitespace_def)
  have const: "(let (k, r) = eat ''const'' bs (skip_ws bs (p + 1)) in
      (k, if k then skip_ws bs r else r)) = (c, q)"
  proof (cases c)
    case True
    then have e: "eat ''const'' bs (p + 1) = (True, p + 6)"
      using d1 by (subst eat_drop [where rest = "'' '' @ show_type t @ ''>'' @ rest"])
        (auto simp: is_ascii_whitespace_def)
    have d6: "drop (p + 6) bs = '' '' @ show_type t @ ''>'' @ rest"
      using drop_advance [of "p + 1" bs "''const''"] d1 True by (simp add: eval_nat_numeral)
    have "skip_ws bs (p + 6) = skip_ws bs q"
      using d6 True dq by (simp add: skip_ws_def q_def scan_while_takeWhile is_ascii_whitespace_def
          eval_nat_numeral)
    with e True skip_q show ?thesis by (simp add: eat_skip_ws)
  next
    case False
    then have dp: "drop (p + 1) bs = show_type t @ ''>'' @ rest" using d1 by simp
    obtain h hs where h: "show_type t = h # hs" "\<not> is_ascii_whitespace h"
      using show_type_Cons by blast
    have "eat ''const'' bs (p + 1) = (False, p + 1)"
      using dp h show_type_not_const [OF assms(2), of "''>'' @ rest"]
      by (intro eat_no_drop) (auto simp: eval_nat_numeral)
    with False show ?thesis by (simp add: eat_skip_ws q_def)
  qed
  show ?thesis
    using lt const rec [OF dq] gt
    by (auto simp: parse_ptr_def Let_def split_beta q_def eval_nat_numeral)
qed


lemma parse_slice_show:
  assumes "drop p bs = ''<'' @ show_type t @ ''>'' @ rest"
    and rec: "\<And>q. drop q bs = show_type t @ ''>'' @ rest \<Longrightarrow> rec bs q = POk t (q + length (show_type t))"
  shows "parse_slice rec bs p = POk (Slice t) (p + length (''<'' @ show_type t @ ''>''))"
proof -
  have d1: "drop (p + 1) bs = show_type t @ ''>'' @ rest"
    using drop_advance [OF assms(1)] by simp
  have lt: "expect ''<'' bs p = POk () (p + 1)"
    using expect_drop [OF assms(1)] by (simp add: is_ascii_whitespace_def)
  have gt: "expect ''>'' bs (p + 1 + length (show_type t)) = POk () (p + 1 + length (show_type t) + 1)"
    using expect_drop [OF drop_advance [OF d1]] by (simp add: is_ascii_whitespace_def)
  show ?thesis using lt rec [OF d1] gt by (simp add: parse_slice_def)
qed

lemma parse_array_show:
  assumes "drop p bs = ''<'' @ show_type t @ '','' @ '' '' @ show_nat k @ ''>'' @ rest"
    and "int k \<le> u64_max"
    and rec: "\<And>q r. drop q bs = show_type t @ '','' @ r \<Longrightarrow> rec bs q = POk t (q + length (show_type t))"
  shows "parse_array rec bs p =
    POk (Array t k) (p + length (''<'' @ show_type t @ '', '' @ show_nat k @ ''>''))"
proof -
  define q where "q = p + 1 + length (show_type t)"
  have d1: "drop (p + 1) bs = show_type t @ '','' @ '' '' @ show_nat k @ ''>'' @ rest"
    using drop_advance [OF assms(1)] by simp
  have dq: "drop q bs = '','' @ '' '' @ show_nat k @ ''>'' @ rest"
    unfolding q_def by (rule drop_advance [OF d1])
  have dn: "drop (q + 1) bs = '' '' @ show_nat k @ ''>'' @ rest"
    using drop_advance [OF dq] by simp
  have dm: "drop (q + 2) bs = show_nat k @ ''>'' @ rest"
    using drop_advance [OF dn] by (simp add: eval_nat_numeral)
  have lt: "expect ''<'' bs p = POk () (p + 1)"
    using expect_drop [OF assms(1)] by (simp add: is_ascii_whitespace_def)
  have co: "expect '','' bs q = POk () (q + 1)"
    using expect_drop [OF dq] by (simp add: is_ascii_whitespace_def)
  have sk: "skip_ws bs (q + 1) = q + 2"
    using dn hd_show_nat_not_ws [of k] show_nat_nonempty [of k]
    by (cases "show_nat k") (auto simp: skip_ws_def scan_while_takeWhile is_ascii_whitespace_def)
  have di: "parse_digits bs (q + 2) = POk k (q + 2 + length (show_nat k))"
    by (rule parse_digits_show_nat [OF dm _ assms(2)]) simp
  have gt: "expect ''>'' bs (q + 2 + length (show_nat k)) = POk () (q + 2 + length (show_nat k) + 1)"
    using expect_drop [OF drop_advance [OF dm]] by (simp add: is_ascii_whitespace_def)
  show ?thesis
    using lt rec [OF d1] co di gt sk by (simp add: parse_array_def q_def)
qed

lemma parse_opaque_show:
  assumes "drop p bs = ''<'' @ s @ ''>'' @ rest" and "valid_name s"
  shows "parse_opaque bs p = POk (Opaque s) (p + length (''<'' @ s @ ''>''))"
proof -
  obtain c cs where s: "s = c # cs" "is_ident_start c" "\<forall>d \<in> set cs. is_ident_char d"
    using assms(2) by (cases s) (auto simp: valid_name_def)
  have d1: "drop (p + 1) bs = s @ ''>'' @ rest"
    using drop_advance [OF assms(1)] by simp
  have lt: "expect ''<'' bs p = POk () (p + 1)"
    using expect_drop [OF assms(1)] by (simp add: is_ascii_whitespace_def)
  have sk: "skip_ws bs (p + 1) = p + 1"
    using d1 s ident_start_not_ws by (intro skip_ws_drop) auto
  have ba: "byte_at bs (p + 1) = Some c"
    using d1 s by (intro byte_at_drop) auto
  have d2: "drop (p + 2) bs = cs @ ''>'' @ rest"
    using d1 s drop_advance [of "p + 1" bs "[c]"] by simp
  have sc: "scan_while is_ident_char bs (p + 2) = p + 1 + length s"
    using scan_while_drop [OF d2 s(3) delim_not_ident] s by simp
  have gt: "expect ''>'' bs (p + 1 + length s) = POk () (p + 1 + length s + 1)"
    using expect_drop [OF drop_advance [OF d1]] by (simp add: is_ascii_whitespace_def)
  show ?thesis
    using lt sk ba s(2) sc gt slice_drop [OF d1]
    by (simp add: parse_opaque_def)
qed

lemma parse_show_type:
  "wf_type t \<Longrightarrow> drop p bs = show_type t @ rest \<Longrightarrow> delim rest \<Longrightarrow> size t < n \<Longrightarrow>
   parse_type n bs p = POk t (p + length (show_type t))"
proof (induction t arbitrary: n p rest)
  case (Ptr t c)
  then obtain m where m: "n = Suc m" "size t < m" by (cases n) auto
  have d: "drop (p + 3) bs = ''<'' @ (if c then ''const '' else []) @ show_type t @ ''>'' @ rest"
    using Ptr.prems(2) drop_advance [of p bs "''ptr''"] by (cases c) (simp_all add: eval_nat_numeral)
  have sk: "skip_ws bs p = p" by (rule skip_ws_show [OF Ptr.prems(2)])
  have "parse_ptr (parse_type m) bs (p + 3) =
    POk (Ptr t c) (p + 3 + length (''<'' @ (if c then ''const '' else []) @ show_type t @ ''>''))"
    using Ptr.IH Ptr.prems(1) m(2) by (intro parse_ptr_show [OF d]) auto
  with Ptr.prems(2) m(1) sk show ?case
    by (simp add: parse_type_step starts_at_drop)
next
  case (Slice t)
  then obtain m where m: "n = Suc m" "size t < m" by (cases n) auto
  have d: "drop (p + 5) bs = ''<'' @ show_type t @ ''>'' @ rest"
    using Slice.prems(2) drop_advance [of p bs "''slice''"] by (simp add: eval_nat_numeral)
  have sk: "skip_ws bs p = p" by (rule skip_ws_show [OF Slice.prems(2)])
  have "parse_slice (parse_type m) bs (p + 5) =
    POk (Slice t) (p + 5 + length (''<'' @ show_type t @ ''>''))"
    using Slice.IH Slice.prems(1) m(2) by (intro parse_slice_show [OF d]) auto
  with Slice.prems(2) m(1) sk show ?case
    by (simp add: parse_type_step starts_at_drop)
next
  case (Array t k)
  then obtain m where m: "n = Suc m" "size t < m" by (cases n) auto
  have d: "drop (p + 5) bs = ''<'' @ show_type t @ '','' @ '' '' @ show_nat k @ ''>'' @ rest"
    using Array.prems(2) drop_advance [of p bs "''array''"] by (simp add: eval_nat_numeral)
  have sk: "skip_ws bs p = p" by (rule skip_ws_show [OF Array.prems(2)])
  have "parse_array (parse_type m) bs (p + 5) =
    POk (Array t k) (p + 5 + length (''<'' @ show_type t @ '', '' @ show_nat k @ ''>''))"
    using Array.IH Array.prems(1) m(2) by (intro parse_array_show [OF d]) auto
  with Array.prems(2) m(1) sk show ?case
    by (simp add: parse_type_step starts_at_drop)
next
  case (Opaque s)
  then obtain m where m: "n = Suc m" by (cases n) auto
  have d: "drop (p + 6) bs = ''<'' @ s @ ''>'' @ rest"
    using Opaque.prems(2) drop_advance [of p bs "''opaque''"] by (simp add: eval_nat_numeral)
  have sk: "skip_ws bs p = p" by (rule skip_ws_show [OF Opaque.prems(2)])
  have "parse_opaque bs (p + 6) = POk (Opaque s) (p + 6 + length (''<'' @ s @ ''>''))"
    using Opaque.prems(1) by (intro parse_opaque_show [OF d]) auto
  with Opaque.prems(2) m(1) sk show ?case
    by (simp add: parse_type_step starts_at_drop)
next
  case (UInt b)
  then obtain m where m: "n = Suc m" by (cases n) auto
  have sk: "skip_ws bs p = p" by (rule skip_ws_show [OF UInt.prems(2)])
  have "parse_int_width bs p = POk (UInt b) (p + Suc (length (show_nat b)))"
    using UInt.prems by (intro parse_int_width_show) auto
  with UInt.prems m sk show ?case
    by (auto simp: parse_type_step starts_at_drop show_width)
next
  case (SInt b)
  then obtain m where m: "n = Suc m" by (cases n) auto
  have sk: "skip_ws bs p = p" by (rule skip_ws_show [OF SInt.prems(2)])
  have "parse_int_width bs p = POk (SInt b) (p + Suc (length (show_nat b)))"
    using SInt.prems by (intro parse_int_width_show) auto
  with SInt.prems m sk show ?case
    by (auto simp: parse_type_step starts_at_drop show_width)
next
  case TBool
  then obtain m where m: "n = Suc m" by (cases n) auto
  have sk: "skip_ws bs p = p" by (rule skip_ws_show [OF TBool.prems(2)])
  with TBool.prems(2) m show ?case by (simp add: parse_type_step starts_at_drop)
next
  case TStatus
  then obtain m where m: "n = Suc m" by (cases n) auto
  have sk: "skip_ws bs p = p" by (rule skip_ws_show [OF TStatus.prems(2)])
  with TStatus.prems(2) m show ?case by (simp add: parse_type_step starts_at_drop)
next
  case Usize
  then obtain m where m: "n = Suc m" by (cases n) auto
  have sk: "skip_ws bs p = p" by (rule skip_ws_show [OF Usize.prems(2)])
  with Usize.prems(2) m show ?case by (simp add: parse_type_step starts_at_drop)
next
  case Isize
  then obtain m where m: "n = Suc m" by (cases n) auto
  have sk: "skip_ws bs p = p" by (rule skip_ws_show [OF Isize.prems(2)])
  with Isize.prems(2) m show ?case by (simp add: parse_type_step starts_at_drop)
qed

lemma size_show_type: "size t \<le> length (show_type t)"
  by (induction t) auto

lemma type_parse_show:
  assumes "wf_type t"
  shows "type_parse (show_type t) =
    POk (t, from_offsets 0 (u32_from_or_max (length (show_type t)))) (length (show_type t))"
proof -
  have "parse_type (Suc (length (show_type t))) (show_type t) 0 = POk t (length (show_type t))"
    using parse_show_type [OF assms, of 0 "show_type t" "[]"] size_show_type [of t]
    by (simp add: less_Suc_eq_le)
  moreover have "skip_ws (show_type t) (length (show_type t)) = length (show_type t)"
    by (simp add: skip_ws_def scan_while_takeWhile)
  ultimately show ?thesis by (simp add: type_parse_def Let_def)
qed

section \<open>Properties\<close>

lemma type_parse_no_fuel: "type_parse s \<noteq> PFuel"
proof -
  have "parse_type (Suc (length s)) s 0 \<noteq> PFuel"
    using progress_parse_type [of s 0 "Suc (length s)"] by (auto simp: progress_def)
  then show ?thesis
    by (auto simp: type_parse_def pbind_PFuel_iff Let_def split: if_splits)
qed

text \<open>\<open>SemType::parse\<close> terminates on every input: the recursion of the parser is bounded by the
  input length, so the fuel the entry point passes is never exhausted.\<close>

theorem type_parse_total: "type_parse s \<noteq> PFuel"
  by (rule type_parse_no_fuel)

lemma type_parse_wf:
  assumes "type_parse s = POk (t, sp) q"
  shows "wf_type t \<and> q = length s \<and> sp = from_offsets 0 (u32_from_or_max (length s))"
proof -
  obtain p where p: "parse_type (Suc (length s)) s 0 = POk t p"
    "q = skip_ws s p" "\<not> q < length s" "sp = from_offsets 0 (u32_from_or_max (length s))"
    using assms by (auto simp: type_parse_def pbind_POk_iff Let_def split: if_splits)
  have "p \<le> length s"
    using progress_parse_type [of s 0 "Suc (length s)"] p(1) by (auto simp: progress_def)
  then have "q \<le> length s" using p(2) by (simp add: skip_ws_le)
  with p parse_type_wf [OF p(1)] show ?thesis by auto
qed

text \<open>C40: whatever \<open>SemType::parse\<close> accepts is a well-formed type (integer widths 8 to 128, array
  lengths that fit \<open>u64\<close>, opaque names that are identifiers), and the whole input was consumed.\<close>

theorem type_parse_sound:
  assumes "type_parse s = POk (t, sp) q"
  shows "wf_type t \<and> q = length s \<and> sp = from_offsets 0 (u32_from_or_max (length s))"
  using assms by (rule type_parse_wf)

theorem type_parse_sound_witness:
  "wf_type (Ptr (UInt 8) True) \<and> (13::nat) = length ''ptr<const u8>'' \<and>
   from_offsets 0 13 = from_offsets 0 (u32_from_or_max (length ''ptr<const u8>''))"
proof (rule type_parse_sound)
  show "type_parse ''ptr<const u8>'' = POk (Ptr (UInt 8) True, from_offsets 0 13) 13"
    by code_simp
qed

text \<open>C35: parsing inverts printing: the canonical spelling of every well-formed type, at any nesting
  depth, is accepted and gives back exactly that type.\<close>

theorem type_parse_roundtrip:
  assumes "wf_type t"
  shows "type_parse (show_type t) =
    POk (t, from_offsets 0 (u32_from_or_max (length (show_type t)))) (length (show_type t))"
  using assms by (rule type_parse_show)

theorem type_parse_roundtrip_witness:
  "type_parse ''array<ptr<const opaque<node>>, 4>'' =
    POk (Array (Ptr (Opaque ''node'') True) 4, from_offsets 0 33) 33"
proof -
  define t where "t = Array (Ptr (Opaque ''node'') True) 4"
  have wf: "wf_type t" unfolding t_def by code_simp
  have sh: "show_type t = ''array<ptr<const opaque<node>>, 4>''" unfolding t_def by code_simp
  have len: "length ''array<ptr<const opaque<node>>, 4>'' = 33" by simp
  have "u32_from_or_max 33 = 33" by (simp add: u32_from_or_max_def)
  with type_parse_roundtrip [OF wf] show ?thesis unfolding sh len by (simp add: t_def)
qed

end
