(* ===== verification/Expr.thy ===== *)
theory Expr
  imports Sem_Type
begin

text \<open>
  The bounded contract expression language, \<open>semasm-contract/src/expr.rs\<close>: the AST, the
  recursive-descent \<open>ExprParser\<close> with one function per precedence level, \<open>Expr::parse\<close> and
  \<open>Expr::free_idents\<close>. Shown here: the parser always returns, what it returns is well formed,
  and \<open>free_idents\<close> is the sorted duplicate-free list of the identifiers that occur free.
\<close>

section \<open>Syntax trees\<close>

datatype bin_op =
    BImplies | BOr | BAnd | BEq | BNe | BLt | BLe | BGt | BGe | BAdd | BSub | BMul | BDiv

datatype unary_op = UNot | UNeg

datatype expr =
    EInt int source_span
  | EBool bool source_span
  | EIdent string source_span
  | EMember expr string source_span
  | ECall expr "expr list" source_span
  | ERange expr expr source_span
  | EIndex expr expr source_span
  | EUnary unary_op expr source_span
  | EBinary bin_op expr expr source_span

fun expr_span :: "expr \<Rightarrow> source_span" where
  "expr_span (EInt _ s) = s"
| "expr_span (EBool _ s) = s"
| "expr_span (EIdent _ s) = s"
| "expr_span (EMember _ _ s) = s"
| "expr_span (ECall _ _ s) = s"
| "expr_span (ERange _ _ s) = s"
| "expr_span (EIndex _ _ s) = s"
| "expr_span (EUnary _ _ s) = s"
| "expr_span (EBinary _ _ _ s) = s"

definition left_start :: "expr \<Rightarrow> nat" where
  "left_start e = unat (span_start (expr_span e))"

section \<open>Free identifiers\<close>

text \<open>Field names of members are not identifiers. The flag \<open>in_member_field\<close> of the source is
  \<open>False\<close> in every call it makes.\<close>

fun collect_idents :: "expr \<Rightarrow> string list \<Rightarrow> bool \<Rightarrow> string list" where
  "collect_idents (EIdent name _) out in_member_field =
     (if \<not> in_member_field then out @ [name] else out)"
| "collect_idents (EInt _ _) out _ = out"
| "collect_idents (EBool _ _) out _ = out"
| "collect_idents (EMember base _ _) out _ = collect_idents base out False"
| "collect_idents (ECall callee args _) out _ =
     fold (\<lambda>a out. collect_idents a out False) args (collect_idents callee out False)"
| "collect_idents (ERange s e _) out _ = collect_idents e (collect_idents s out False) False"
| "collect_idents (EIndex b i _) out _ = collect_idents i (collect_idents b out False) False"
| "collect_idents (EUnary _ e _) out _ = collect_idents e out False"
| "collect_idents (EBinary _ l r _) out _ = collect_idents r (collect_idents l out False) False"

definition free_idents :: "expr \<Rightarrow> string list" where
  "free_idents e = remdups_adj (sort (collect_idents e [] False))"

section \<open>The parser\<close>

datatype expr_error =
    TrailingJunkExpr nat string
  | ExpectedCallSep nat
  | ExpectedBracket nat
  | ExpectedParen nat
  | InvalidExpression nat string
  | InvalidInteger nat
  | ExpectedIdentifier nat

type_synonym 'a eres = "(expr_error, 'a) pres"
type_synonym expr_parser = "string \<Rightarrow> nat \<Rightarrow> expr eres"

definition snippet :: "string \<Rightarrow> nat \<Rightarrow> string" where
  "snippet bs p = slice bs p (min (p + 16) (length bs))"

definition span_from :: "nat \<Rightarrow> nat \<Rightarrow> source_span" where
  "span_from start p = from_offsets (u32_from_or_max start) (u32_from_or_max p)"

definition eat_kw :: "string \<Rightarrow> string \<Rightarrow> nat \<Rightarrow> bool \<times> nat" where
  "eat_kw kw bs p =
     (let q = skip_ws bs p; e = q + length kw in
      if starts_at bs q kw \<and>
         (case byte_at bs e of None \<Rightarrow> True | Some b \<Rightarrow> \<not> is_ascii_alphanumeric b \<and> b \<noteq> CHR ''_'')
      then (True, e) else (False, q))"

definition eat_op :: "string \<Rightarrow> string \<Rightarrow> nat \<Rightarrow> bool \<times> nat" where
  "eat_op op bs p =
     (let q = skip_ws bs p in
      if starts_at bs q op then (True, q + length op) else (False, q))"

definition parse_ident_raw :: "string \<Rightarrow> nat \<Rightarrow> string eres" where
  "parse_ident_raw bs p =
     (let start = skip_ws bs p in
      case byte_at bs start of
        None \<Rightarrow> PErr (ExpectedIdentifier start)
      | Some c \<Rightarrow>
          if \<not> is_ident_start c then PErr (ExpectedIdentifier start)
          else let q = scan_while is_ident_char bs (Suc start) in POk (slice bs start q) q)"

definition parse_int_literal :: "string \<Rightarrow> nat \<Rightarrow> int eres" where
  "parse_int_literal bs start =
     (let q = scan_while is_ascii_digit bs start in
      case parse_i64_digits (slice bs start q) of
        Some v \<Rightarrow> POk v q
      | None \<Rightarrow> PErr (InvalidInteger start))"

text \<open>\<open>rec\<close> stands for the recursive call of \<open>parse_implies\<close>; \<open>n\<close> is the fuel of the loops.\<close>

definition parse_primary :: "expr_parser \<Rightarrow> expr_parser" where
  "parse_primary rec bs p =
     (let start = skip_ws bs p;
          (b1, p1) = eat_op ''('' bs start in
      if b1 then
        pbind (rec bs p1) (\<lambda>e q.
          let (c, r) = eat_op '')'' bs q in if c then POk e r else PErr (ExpectedParen r))
      else let (b2, p2) = eat_kw ''true'' bs p1 in
      if b2 then POk (EBool True (span_from start p2)) p2
      else let (b3, p3) = eat_kw ''false'' bs p2 in
      if b3 then POk (EBool False (span_from start p3)) p3
      else (case byte_at bs p3 of
          None \<Rightarrow> PErr (InvalidExpression start (snippet bs p3))
        | Some b \<Rightarrow>
            if is_ascii_digit b then
              pbind (parse_int_literal bs p3) (\<lambda>v q. POk (EInt v (span_from start q)) q)
            else if is_ident_start b then
              pbind (parse_ident_raw bs p3) (\<lambda>name q. POk (EIdent name (span_from start q)) q)
            else PErr (InvalidExpression start (snippet bs p3))))"

definition parse_range_or_expr :: "expr_parser \<Rightarrow> expr_parser" where
  "parse_range_or_expr rec bs p =
     (let start_pos = skip_ws bs p in
      pbind (rec bs start_pos) (\<lambda>start q.
        let (b, r) = eat_op ''..'' bs (skip_ws bs q) in
        if b then pbind (rec bs r) (\<lambda>e t. POk (ERange start e (span_from start_pos t)) t)
        else POk start r))"

text \<open>The arguments of a call, after \<open>(\<close> when \<open>)\<close> does not follow at once.\<close>

fun call_args :: "nat \<Rightarrow> expr_parser \<Rightarrow> string \<Rightarrow> expr list \<Rightarrow> nat \<Rightarrow> expr list eres" where
  "call_args 0 rec bs args p = PFuel"
| "call_args (Suc n) rec bs args p =
     pbind (rec bs p) (\<lambda>a q.
       let (b, r) = eat_op '')'' bs (skip_ws bs q) in
       if b then POk (args @ [a]) r
       else let (c, t) = eat_op '','' bs r in
       if \<not> c then PErr (ExpectedCallSep t)
       else call_args n rec bs (args @ [a]) t)"

fun postfix_loop :: "nat \<Rightarrow> expr_parser \<Rightarrow> string \<Rightarrow> expr \<Rightarrow> nat \<Rightarrow> expr eres" where
  "postfix_loop 0 rec bs e p = PFuel"
| "postfix_loop (Suc n) rec bs e p =
     (let (b1, p1) = eat_op ''.'' bs (skip_ws bs p) in
      if b1 then
        (if byte_at bs p1 = Some (CHR ''.'') then POk e (p1 - 1)
         else pbind (parse_ident_raw bs p1) (\<lambda>field q.
           postfix_loop n rec bs (EMember e field (span_from p1 q)) q))
      else let (b2, p2) = eat_op ''('' bs p1 in
      if b2 then
        (let (b, r) = eat_op '')'' bs (skip_ws bs p2) in
         pbind (if b then POk [] r else call_args n rec bs [] r) (\<lambda>args q.
           postfix_loop n rec bs (ECall e args (span_from (left_start e) q)) q))
      else let (b3, p3) = eat_op ''['' bs p2 in
      if b3 then
        pbind (parse_range_or_expr rec bs p3) (\<lambda>index q.
          let (b, r) = eat_op '']'' bs q in
          if \<not> b then PErr (ExpectedBracket r)
          else postfix_loop n rec bs (EIndex e index (span_from (left_start e) r)) r)
      else POk e p3)"

definition parse_postfix :: "nat \<Rightarrow> expr_parser \<Rightarrow> expr_parser" where
  "parse_postfix n rec bs p =
     pbind (parse_primary rec bs p) (\<lambda>e q. postfix_loop n rec bs e q)"

fun parse_unary :: "nat \<Rightarrow> expr_parser \<Rightarrow> expr_parser" where
  "parse_unary 0 rec bs p = PFuel"
| "parse_unary (Suc n) rec bs p =
     (let start = skip_ws bs p;
          (b1, p1) = eat_op ''!'' bs start;
          (b2, p2) = (if b1 then (False, p1) else eat_kw ''not'' bs p1) in
      if b1 \<or> b2 then
        pbind (parse_unary n rec bs p2) (\<lambda>e q. POk (EUnary UNot e (span_from start q)) q)
      else let (b3, p3) = eat_op ''-'' bs p2 in
      if b3 then
        pbind (parse_unary n rec bs p3) (\<lambda>e q. POk (EUnary UNeg e (span_from start q)) q)
      else parse_postfix n rec bs p3)"

text \<open>
  The loop that every binary level runs: \<open>pick\<close> recognises the operators of the level, \<open>sub\<close> is
  the next tighter level.
\<close>

fun bin_loop :: "nat \<Rightarrow> (string \<Rightarrow> nat \<Rightarrow> bin_op option \<times> nat) \<Rightarrow> expr_parser \<Rightarrow>
    string \<Rightarrow> expr \<Rightarrow> nat \<Rightarrow> expr eres" where
  "bin_loop 0 pick sub bs left p = PFuel"
| "bin_loop (Suc n) pick sub bs left p =
     (case pick bs p of
        (None, q) \<Rightarrow> POk left q
      | (Some op, q) \<Rightarrow>
          pbind (sub bs q) (\<lambda>right r.
            bin_loop n pick sub bs
              (EBinary op left right (span_from (left_start left) r)) r))"

text \<open>\<open>first_op\<close> tries the operator tokens of a level in order, \<open>eat_op\<close> or \<open>eat_kw\<close> each.\<close>

fun first_op :: "((string \<Rightarrow> nat \<Rightarrow> bool \<times> nat) \<times> bin_op) list \<Rightarrow> string \<Rightarrow> nat \<Rightarrow> bin_op option \<times> nat" where
  "first_op [] bs p = (None, p)"
| "first_op ((tok, op) # rest) bs p =
     (let (b, q) = tok bs p in if b then (Some op, q) else first_op rest bs q)"

definition choose_mul :: "string \<Rightarrow> nat \<Rightarrow> bin_op option \<times> nat" where
  "choose_mul = first_op [(eat_op ''*'', BMul), (eat_op ''/'', BDiv)]"

definition choose_add :: "string \<Rightarrow> nat \<Rightarrow> bin_op option \<times> nat" where
  "choose_add = first_op [(eat_op ''+'', BAdd), (eat_op ''-'', BSub)]"

definition choose_cmp :: "string \<Rightarrow> nat \<Rightarrow> bin_op option \<times> nat" where
  "choose_cmp = first_op [(eat_op ''=='', BEq), (eat_op ''!='', BNe), (eat_op ''<='', BLe),
     (eat_op ''>='', BGe), (eat_op ''<'', BLt), (eat_op ''>'', BGt)]"

definition choose_and :: "string \<Rightarrow> nat \<Rightarrow> bin_op option \<times> nat" where
  "choose_and = first_op [(eat_op ''&&'', BAnd), (eat_kw ''and'', BAnd)]"

definition choose_or :: "string \<Rightarrow> nat \<Rightarrow> bin_op option \<times> nat" where
  "choose_or = first_op [(eat_op ''||'', BOr), (eat_kw ''or'', BOr)]"

definition choose_implies :: "string \<Rightarrow> nat \<Rightarrow> bin_op option \<times> nat" where
  "choose_implies = first_op [(eat_kw ''implies'', BImplies)]"

definition parse_mul :: "nat \<Rightarrow> expr_parser \<Rightarrow> expr_parser" where
  "parse_mul n rec bs p =
     pbind (parse_unary n rec bs p) (\<lambda>left q. bin_loop n choose_mul (parse_unary n rec) bs left q)"

definition parse_add :: "nat \<Rightarrow> expr_parser \<Rightarrow> expr_parser" where
  "parse_add n rec bs p =
     pbind (parse_mul n rec bs p) (\<lambda>left q. bin_loop n choose_add (parse_mul n rec) bs left q)"

definition parse_cmp :: "nat \<Rightarrow> expr_parser \<Rightarrow> expr_parser" where
  "parse_cmp n rec bs p =
     pbind (parse_add n rec bs p) (\<lambda>left q. bin_loop n choose_cmp (parse_add n rec) bs left q)"

definition parse_and :: "nat \<Rightarrow> expr_parser \<Rightarrow> expr_parser" where
  "parse_and n rec bs p =
     pbind (parse_cmp n rec bs p) (\<lambda>left q. bin_loop n choose_and (parse_cmp n rec) bs left q)"

definition parse_or :: "nat \<Rightarrow> expr_parser \<Rightarrow> expr_parser" where
  "parse_or n rec bs p =
     pbind (parse_and n rec bs p) (\<lambda>left q. bin_loop n choose_or (parse_and n rec) bs left q)"

fun parse_implies :: "nat \<Rightarrow> expr_parser" where
  "parse_implies 0 bs p = PFuel"
| "parse_implies (Suc n) bs p =
     pbind (parse_or (Suc n) (parse_implies n) bs p) (\<lambda>left q.
       bin_loop (Suc n) choose_implies (parse_or (Suc n) (parse_implies n)) bs left q)"

definition expr_parse :: "string \<Rightarrow> expr eres" where
  "expr_parse input =
     pbind (parse_implies (Suc (length input)) input 0) (\<lambda>e p.
       let q = skip_ws input p in
       if q < length input then PErr (TrailingJunkExpr q (snippet input q)) else POk e q)"

section \<open>The parser always returns\<close>

lemma eat_op_eat: "eat_op = eat"
  by (simp add: fun_eq_iff eat_op_def eat_def)

lemma eat_kw_bounds:
  "p < r \<Longrightarrow> r \<le> length bs \<Longrightarrow> p < snd (eat_kw s bs r)"
  "p \<le> r \<Longrightarrow> r \<le> length bs \<Longrightarrow> p \<le> snd (eat_kw s bs r)"
  "r \<le> length bs \<Longrightarrow> snd (eat_kw s bs r) \<le> length bs"
  using skip_ws_ge [of r bs] skip_ws_le [of r bs]
  by (auto simp: eat_kw_def Let_def starts_at_def)

lemmas eat_op_bounds = eat_bounds [folded eat_op_eat]

lemma eat_op_strict:
  "fst (eat_op s bs r) \<Longrightarrow> s \<noteq> [] \<Longrightarrow> p \<le> r \<Longrightarrow> r \<le> length bs \<Longrightarrow> p < snd (eat_op s bs r)"
  using skip_ws_ge [of r bs] by (cases s) (auto simp: eat_op_def Let_def)

lemma eat_kw_strict:
  "fst (eat_kw s bs r) \<Longrightarrow> s \<noteq> [] \<Longrightarrow> p \<le> r \<Longrightarrow> r \<le> length bs \<Longrightarrow> p < snd (eat_kw s bs r)"
  using skip_ws_ge [of r bs] by (cases s) (auto simp: eat_kw_def Let_def split: if_splits)

lemmas expr_bounds = pos_bounds eat_op_bounds eat_kw_bounds eat_op_strict eat_kw_strict

lemma progress_ident: "p \<le> length bs \<Longrightarrow> progress (length bs) p (parse_ident_raw bs p)"
  unfolding parse_ident_raw_def Let_def
  by (auto split: option.split dest: scan_after [where p = p and P = is_ident_char] simp: expr_bounds)

lemma progress_int:
  assumes "byte_at bs p = Some b" "is_ascii_digit b"
  shows "progress (length bs) p (parse_int_literal bs p)"
proof -
  have "scan_while is_ascii_digit bs p = scan_while is_ascii_digit bs (Suc p)"
    using assms by (subst scan_while.simps) (auto simp: byte_at_def split: if_splits)
  then show ?thesis
    using scan_after [OF assms(1), of p is_ascii_digit]
    by (auto simp: parse_int_literal_def Let_def split: option.split)
qed

lemma progress_primary:
  assumes "rec_ok rec bs p" "p \<le> length bs"
  shows "progress (length bs) p (parse_primary rec bs p)"
proof -
  define st where "st = skip_ws bs p"
  define p1 where "p1 = snd (eat_op ''('' bs st)"
  define p2 where "p2 = snd (eat_kw ''true'' bs p1)"
  define p3 where "p3 = snd (eat_kw ''false'' bs p2)"
  have b: "p \<le> st" "st \<le> length bs" "p \<le> p1" "p1 \<le> length bs"
    "p \<le> p2" "p2 \<le> length bs" "p \<le> p3" "p3 \<le> length bs"
    using assms(2) by (auto simp: st_def p1_def p2_def p3_def expr_bounds)
  have s1: "fst (eat_op ''('' bs st) \<Longrightarrow> p < p1"
    and s2: "fst (eat_kw ''true'' bs p1) \<Longrightarrow> p < p2"
    and s3: "fst (eat_kw ''false'' bs p2) \<Longrightarrow> p < p3"
    using b by (auto simp: p1_def p2_def p3_def expr_bounds)
  have paren: "progress (length bs) p (pbind (rec bs p1) (\<lambda>e q.
      let (c, r) = eat_op '')'' bs q in if c then POk e r else PErr (ExpectedParen r)))"
    if "p < p1"
    using that b by (intro rec_ok_bind [OF assms(1)]) (auto simp: Let_def split_beta expr_bounds)
  have int: "progress (length bs) p
      (pbind (parse_int_literal bs p3) (\<lambda>v q. POk (EInt v (span_from st q)) q))"
    if "byte_at bs p3 = Some c" "is_ascii_digit c" for c
    by (rule progress_bind' [OF progress_int [OF that] b(7)]) simp
  have idn: "progress (length bs) p
      (pbind (parse_ident_raw bs p3) (\<lambda>v q. POk (EIdent v (span_from st q)) q))"
    by (rule progress_bind' [OF progress_ident [OF b(8)] b(7)]) simp
  show ?thesis
    unfolding parse_primary_def Let_def split_beta
    unfolding st_def [symmetric] p1_def [symmetric] p2_def [symmetric] p3_def [symmetric]
    using s1 s2 s3 b paren int idn
    by (auto simp: Let_def split_beta split: option.split)
qed

lemma progress_range:
  assumes "rec_ok rec bs p" "p < q" "q \<le> length bs"
  shows "progress (length bs) p (parse_range_or_expr rec bs q)"
  unfolding parse_range_or_expr_def Let_def split_beta
  using assms by (intro rec_ok_bind [OF assms(1)])
    (auto intro!: rec_ok_bind [OF assms(1)] simp: expr_bounds)

lemma progress_call_args:
  assumes "rec_ok rec bs p"
  shows "p < q \<Longrightarrow> q \<le> length bs \<Longrightarrow> length bs - q < n \<Longrightarrow>
    progress (length bs) p (call_args n rec bs args q)"
proof (induction n arbitrary: q args)
  case (Suc n)
  have step: "progress (length bs) p (call_args n rec bs as t)"
    if "q < t" "t \<le> length bs" for t as
    using that Suc.prems by (intro Suc.IH) auto
  have rec: "progress (length bs) q (rec bs q)"
    using assms Suc.prems by (auto simp: rec_ok_def)
  then show ?case
    unfolding call_args.simps Let_def split_beta
    using Suc.prems
    by (cases "rec bs q") (auto simp: expr_bounds intro!: step)
qed simp

lemma progress_postfix_loop:
  assumes "rec_ok rec bs b"
  shows "b < p \<Longrightarrow> p \<le> length bs \<Longrightarrow> length bs - p < n \<Longrightarrow>
    progress (length bs) b (postfix_loop n rec bs e p)"
proof (induction n arbitrary: p e)
  case (Suc n)
  define p1 where "p1 = snd (eat_op ''.'' bs (skip_ws bs p))"
  define p2 where "p2 = snd (eat_op ''('' bs p1)"
  define p3 where "p3 = snd (eat_op ''['' bs p2)"
  have bo: "p \<le> p1" "p1 \<le> length bs" "p \<le> p2" "p2 \<le> length bs" "p \<le> p3" "p3 \<le> length bs"
    using Suc.prems by (auto simp: p1_def p2_def p3_def expr_bounds)
  have s1: "fst (eat_op ''.'' bs (skip_ws bs p)) \<Longrightarrow> p < p1"
    using Suc.prems by (auto simp: p1_def expr_bounds)
  have IH: "progress (length bs) b (postfix_loop n rec bs e' q)" if "p < q" "q \<le> length bs" for e' q
    using that Suc.prems by (intro Suc.IH) auto
  have mem: "progress (length bs) b (pbind (parse_ident_raw bs p1) (\<lambda>field q.
      postfix_loop n rec bs (EMember e field (span_from p1 q)) q))"
    using progress_ident [OF bo(2)] bo(1) Suc.prems(1)
    by (cases "parse_ident_raw bs p1") (auto intro!: IH)
  have call: "progress (length bs) b
      (pbind (if c then POk [] r else call_args n rec bs [] r) (\<lambda>args q.
        postfix_loop n rec bs (ECall e args (span_from (left_start e) q)) q))"
    if "p < r" "r \<le> length bs" for c r
  proof -
    have "progress (length bs) p (call_args n rec bs [] r)"
      using that Suc.prems assms
      by (intro progress_call_args [OF rec_ok_later [OF assms]]) auto
    with that show ?thesis
      by (cases "call_args n rec bs [] r") (auto intro!: IH)
  qed
  have idx: "progress (length bs) b (pbind (parse_range_or_expr rec bs r) (\<lambda>index q.
      if \<not> fst (eat_op '']'' bs q) then PErr (ExpectedBracket (snd (eat_op '']'' bs q)))
      else postfix_loop n rec bs (EIndex e index (span_from (left_start e) (snd (eat_op '']'' bs q))))
             (snd (eat_op '']'' bs q))))"
    if "p < r" "r \<le> length bs" for r
  proof -
    have "progress (length bs) p (parse_range_or_expr rec bs r)"
      using that Suc.prems by (intro progress_range [OF rec_ok_later [OF assms]]) auto
    then show ?thesis
      by (cases "parse_range_or_expr rec bs r") (auto intro!: IH simp: expr_bounds)
  qed
  show ?case
    unfolding postfix_loop.simps Let_def split_beta
    unfolding p1_def [symmetric] p2_def [symmetric] p3_def [symmetric]
    using s1 bo mem call idx Suc.prems
    by (auto simp: expr_bounds p2_def p3_def)
qed simp

lemma progress_unary:
  "rec_ok rec bs p \<Longrightarrow> p \<le> length bs \<Longrightarrow> length bs - p < n \<Longrightarrow>
   progress (length bs) p (parse_unary n rec bs p)"
proof (induction n arbitrary: p)
  case (Suc n)
  define p1 where "p1 = snd (eat_op ''!'' bs (skip_ws bs p))"
  define p2 where "p2 = snd (if fst (eat_op ''!'' bs (skip_ws bs p)) then (False, p1) else eat_kw ''not'' bs p1)"
  have bo: "p \<le> p1" "p1 \<le> length bs" "p \<le> p2" "p2 \<le> length bs"
    using Suc.prems by (auto simp: p1_def p2_def expr_bounds)
  have IH: "progress (length bs) p (pbind (parse_unary n rec bs q) (\<lambda>e r. POk (f e r) r))"
    if "p < q" "q \<le> length bs" for q f
    using that Suc.prems rec_ok_later [OF Suc.prems(1), of q]
    by (intro progress_bind' [OF Suc.IH]) auto
  have post: "progress (length bs) p (parse_postfix n rec bs q)" if "p \<le> q" "q \<le> length bs" for q
  proof -
    have pr: "progress (length bs) q (parse_primary rec bs q)"
      using that rec_ok_later [OF Suc.prems(1)] by (intro progress_primary) auto
    have lp: "progress (length bs) p (postfix_loop n rec bs e r)" if "q < r" "r \<le> length bs" for e r
      using that \<open>p \<le> q\<close> Suc.prems by (intro progress_postfix_loop) auto
    show ?thesis
      using pr lp by (cases "parse_primary rec bs q") (auto simp: parse_postfix_def)
  qed
  show ?case
    unfolding parse_unary.simps Let_def split_beta
    unfolding p1_def [symmetric] p2_def [symmetric]
    using bo Suc.prems
    by (auto intro!: IH post simp: expr_bounds p1_def p2_def split: if_splits)
qed simp


text \<open>What a binary level needs of the next tighter one: progress from every later position.\<close>

definition sub_ok :: "expr_parser \<Rightarrow> string \<Rightarrow> nat \<Rightarrow> bool" where
  "sub_ok sub bs p \<longleftrightarrow> (\<forall>q. p \<le> q \<longrightarrow> q \<le> length bs \<longrightarrow> progress (length bs) q (sub bs q))"

text \<open>A table of operator tokens: a token that matches consumes input, one that does not never
  moves backwards.\<close>

definition token_ok :: "(string \<Rightarrow> nat \<Rightarrow> bool \<times> nat) \<Rightarrow> bool" where
  "token_ok tok \<longleftrightarrow> (\<forall>bs p. p \<le> length bs \<longrightarrow>
     p \<le> snd (tok bs p) \<and> snd (tok bs p) \<le> length bs \<and> (fst (tok bs p) \<longrightarrow> p < snd (tok bs p)))"

definition pick_ok :: "(string \<Rightarrow> nat \<Rightarrow> bin_op option \<times> nat) \<Rightarrow> bool" where
  "pick_ok pick \<longleftrightarrow> (\<forall>bs p. p \<le> length bs \<longrightarrow>
     p \<le> snd (pick bs p) \<and> snd (pick bs p) \<le> length bs \<and>
     (fst (pick bs p) \<noteq> None \<longrightarrow> p < snd (pick bs p)))"

lemma token_ok_eat: "s \<noteq> [] \<Longrightarrow> token_ok (eat_op s)" "s \<noteq> [] \<Longrightarrow> token_ok (eat_kw s)"
  by (auto simp: token_ok_def expr_bounds)

lemma pick_ok_first_op: "\<forall>(tok, op) \<in> set toks. token_ok tok \<Longrightarrow> pick_ok (first_op toks)"
proof (induction toks)
  case (Cons a toks)
  obtain tok op where a: "a = (tok, op)" by (cases a)
  with Cons have t: "token_ok tok" and IH: "pick_ok (first_op toks)" by auto
  show ?case
    unfolding pick_ok_def
  proof (intro allI impI)
    fix bs :: string and p
    assume "p \<le> length bs"
    with t have "p \<le> snd (tok bs p)" "snd (tok bs p) \<le> length bs" "fst (tok bs p) \<longrightarrow> p < snd (tok bs p)"
      by (auto simp: token_ok_def)
    with IH [unfolded pick_ok_def, rule_format, of "snd (tok bs p)" bs]
    show "p \<le> snd (first_op (a # toks) bs p) \<and> snd (first_op (a # toks) bs p) \<le> length bs \<and>
      (fst (first_op (a # toks) bs p) \<noteq> None \<longrightarrow> p < snd (first_op (a # toks) bs p))"
      by (auto simp: a Let_def split_beta)
  qed
qed (simp add: pick_ok_def)

lemma pick_oks [simp]:
  "pick_ok choose_mul" "pick_ok choose_add" "pick_ok choose_cmp" "pick_ok choose_and"
  "pick_ok choose_or" "pick_ok choose_implies"
  unfolding choose_mul_def choose_add_def choose_cmp_def choose_and_def choose_or_def
    choose_implies_def
  by (rule pick_ok_first_op, simp add: token_ok_eat)+

lemma progress_bin_loop:
  assumes "pick_ok pick" "sub_ok sub bs b"
  shows "b < p \<Longrightarrow> p \<le> length bs \<Longrightarrow> length bs - p < n \<Longrightarrow>
    progress (length bs) b (bin_loop n pick sub bs left p)"
proof (induction n arbitrary: p left)
  case (Suc n)
  obtain c q where cq: "pick bs p = (c, q)" by (cases "pick bs p")
  with assms(1) Suc.prems have q: "p \<le> q" "q \<le> length bs" "c \<noteq> None \<Longrightarrow> p < q"
    by (force simp: pick_ok_def)+
  have sub: "progress (length bs) q (sub bs q)"
    using assms(2) q Suc.prems by (auto simp: sub_ok_def)
  have IH: "progress (length bs) b (bin_loop n pick sub bs left' r)" if "p < r" "r \<le> length bs" for left' r
    using that Suc.prems by (intro Suc.IH) auto
  show ?case
    using cq q sub Suc.prems
    by (cases "sub bs q") (auto split: option.split intro!: IH)
qed simp

text \<open>The five binary levels below \<open>implies\<close> and \<open>implies\<close> itself, by the same argument.\<close>

lemma level_ok:
  assumes "pick_ok pick" "sub_ok sub bs p" "length bs - p < n"
    and lev_eq: "\<And>q. lev bs q = pbind (sub bs q) (\<lambda>left r. bin_loop n pick sub bs left r)"
  shows "sub_ok lev bs p"
  unfolding sub_ok_def
proof (intro allI impI)
  fix q assume q: "p \<le> q" "q \<le> length bs"
  have later: "sub_ok sub bs q" using assms(2) q by (auto simp: sub_ok_def)
  show "progress (length bs) q (lev bs q)"
    unfolding lev_eq
  proof (rule progress_bind')
    show "progress (length bs) q (sub bs q)" using later q by (auto simp: sub_ok_def)
    show "progress (length bs) q (bin_loop n pick sub bs left r)"
      if "q < r" "r \<le> length bs" for left r
      using that q assms(3) by (intro progress_bin_loop [OF assms(1) later]) auto
  qed simp
qed

lemma parse_or_ok:
  assumes "rec_ok rec bs p" "length bs - p < n"
  shows "sub_ok (parse_or n rec) bs p"
proof -
  have un: "sub_ok (parse_unary n rec) bs p"
    using assms by (auto simp: sub_ok_def intro!: progress_unary intro: rec_ok_later)
  have "sub_ok (parse_mul n rec) bs p"
    by (rule level_ok [OF pick_oks(1) un assms(2)]) (simp add: parse_mul_def)
  then have "sub_ok (parse_add n rec) bs p"
    by (rule level_ok [OF pick_oks(2) _ assms(2)]) (simp add: parse_add_def)
  then have "sub_ok (parse_cmp n rec) bs p"
    by (rule level_ok [OF pick_oks(3) _ assms(2)]) (simp add: parse_cmp_def)
  then have "sub_ok (parse_and n rec) bs p"
    by (rule level_ok [OF pick_oks(4) _ assms(2)]) (simp add: parse_and_def)
  then show ?thesis
    by (rule level_ok [OF pick_oks(5) _ assms(2)]) (simp add: parse_or_def)
qed

lemma parse_implies_ok: "length bs - p < n \<Longrightarrow> sub_ok (parse_implies n) bs p"
proof (induction n arbitrary: p)
  case (Suc n)
  have "rec_ok (parse_implies n) bs p"
    unfolding rec_ok_def
  proof (intro allI impI)
    fix q assume "p < q" "q \<le> length bs"
    with Suc.prems have "sub_ok (parse_implies n) bs q" by (intro Suc.IH) auto
    with \<open>q \<le> length bs\<close> show "progress (length bs) q (parse_implies n bs q)"
      by (simp add: sub_ok_def)
  qed
  from parse_or_ok [OF this Suc.prems] show ?case
    by (rule level_ok [OF pick_oks(6) _ Suc.prems]) (rule parse_implies.simps(2))
qed simp

lemma progress_parse_implies:
  "p \<le> length bs \<Longrightarrow> progress (length bs) p (parse_implies (Suc (length bs)) bs p)"
  using parse_implies_ok [of bs p "Suc (length bs)"] by (simp add: sub_ok_def)


section \<open>Well-formed expressions\<close>

fun wf_expr :: "expr \<Rightarrow> bool" where
  "wf_expr (EInt v _) \<longleftrightarrow> 0 \<le> v \<and> in_i64 v"
| "wf_expr (EBool _ _) \<longleftrightarrow> True"
| "wf_expr (EIdent x _) \<longleftrightarrow> valid_name x"
| "wf_expr (EMember e f _) \<longleftrightarrow> wf_expr e \<and> valid_name f"
| "wf_expr (ECall e args _) \<longleftrightarrow> wf_expr e \<and> (\<forall>a \<in> set args. wf_expr a)"
| "wf_expr (ERange a b _) \<longleftrightarrow> wf_expr a \<and> wf_expr b"
| "wf_expr (EIndex a b _) \<longleftrightarrow> wf_expr a \<and> wf_expr b"
| "wf_expr (EUnary _ e _) \<longleftrightarrow> wf_expr e"
| "wf_expr (EBinary _ l r _) \<longleftrightarrow> wf_expr l \<and> wf_expr r"

definition all_wf :: "expr_parser \<Rightarrow> bool" where
  "all_wf pa \<longleftrightarrow> (\<forall>bs p e q. pa bs p = POk e q \<longrightarrow> wf_expr e)"

lemma all_wfD: "all_wf pa \<Longrightarrow> pa bs p = POk e q \<Longrightarrow> wf_expr e"
  unfolding all_wf_def by blast

lemma ident_raw_valid: "parse_ident_raw bs p = POk x q \<Longrightarrow> valid_name x"
  by (auto simp: parse_ident_raw_def Let_def opaque_name_valid split: option.splits if_splits)

lemma int_literal_i64: "parse_int_literal bs p = POk v q \<Longrightarrow> 0 \<le> v \<and> in_i64 v"
  by (auto simp: parse_int_literal_def parse_i64_digits_def rust_int Let_def
      split: option.splits if_splits)

lemma wf_primary: "all_wf rec \<Longrightarrow> parse_primary rec bs p = POk e q \<Longrightarrow> wf_expr e"
  unfolding parse_primary_def Let_def split_beta
  by (auto simp: pbind_POk_iff ident_raw_valid dest: int_literal_i64 all_wfD
      split: option.splits if_splits)

lemma wf_range: "all_wf rec \<Longrightarrow> parse_range_or_expr rec bs p = POk e q \<Longrightarrow> wf_expr e"
  unfolding parse_range_or_expr_def Let_def split_beta
  by (auto simp: pbind_POk_iff dest: all_wfD split: if_splits)

lemma wf_call_args:
  "all_wf rec \<Longrightarrow> call_args n rec bs args p = POk as q \<Longrightarrow> \<forall>a \<in> set args. wf_expr a \<Longrightarrow>
   \<forall>a \<in> set as. wf_expr a"
proof (induction n arbitrary: args p)
  case (Suc n)
  obtain a r where a: "rec bs p = POk a r"
    using Suc.prems(2) by (auto simp: pbind_POk_iff)
  have "\<forall>b \<in> set (args @ [a]). wf_expr b"
    using Suc.prems(3) all_wfD [OF Suc.prems(1) a] by simp
  moreover have "as = args @ [a] \<or> (\<exists>t. call_args n rec bs (args @ [a]) t = POk as q)"
    using Suc.prems(2) a by (auto simp: Let_def split_beta split: if_splits)
  ultimately show ?case using Suc.IH [OF Suc.prems(1)] by blast
qed simp

lemma wf_postfix_loop:
  "all_wf rec \<Longrightarrow> postfix_loop n rec bs e p = POk e' q \<Longrightarrow> wf_expr e \<Longrightarrow> wf_expr e'"
proof (induction n arbitrary: e p)
  case (Suc n)
  note IH = Suc.IH [OF Suc.prems(1)]
  show ?case
    using Suc.prems(2,3)
    by (auto simp: Let_def split_beta pbind_POk_iff split: if_splits intro!: IH
        dest: ident_raw_valid wf_call_args [OF Suc.prems(1)] wf_range [OF Suc.prems(1)])
qed simp

lemma wf_postfix: "all_wf rec \<Longrightarrow> parse_postfix n rec bs p = POk e q \<Longrightarrow> wf_expr e"
  by (auto simp: parse_postfix_def pbind_POk_iff dest: wf_primary wf_postfix_loop)

lemma wf_unary: "all_wf rec \<Longrightarrow> parse_unary n rec bs p = POk e q \<Longrightarrow> wf_expr e"
proof (induction n arbitrary: p e q)
  case (Suc n)
  note IH = Suc.IH [OF Suc.prems(1)]
  show ?case
    using Suc.prems(2)
    by (auto simp: Let_def split_beta pbind_POk_iff split: if_splits
        dest: IH wf_postfix [OF Suc.prems(1)])
qed simp

lemma wf_bin_loop:
  "all_wf sub \<Longrightarrow> bin_loop n pick sub bs left p = POk e q \<Longrightarrow> wf_expr left \<Longrightarrow> wf_expr e"
proof (induction n arbitrary: left p)
  case (Suc n)
  note IH = Suc.IH [OF Suc.prems(1)]
  show ?case
    using Suc.prems(2,3)
    by (auto simp: pbind_POk_iff split: prod.splits option.splits
        dest: all_wfD [OF Suc.prems(1)] intro!: IH)
qed simp

lemma wf_level:
  assumes "all_wf sub"
    and "\<And>bs q. lev bs q = pbind (sub bs q) (\<lambda>left r. bin_loop n pick sub bs left r)"
  shows "all_wf lev"
  unfolding all_wf_def assms(2)
  by (auto simp: pbind_POk_iff dest: all_wfD [OF assms(1)] wf_bin_loop [OF assms(1)])

lemma wf_parse_or: "all_wf rec \<Longrightarrow> all_wf (parse_or n rec)"
proof -
  assume "all_wf rec"
  then have "all_wf (parse_unary n rec)" unfolding all_wf_def using wf_unary \<open>all_wf rec\<close> by blast
  then have "all_wf (parse_mul n rec)" by (rule wf_level) (rule parse_mul_def)
  then have "all_wf (parse_add n rec)" by (rule wf_level) (rule parse_add_def)
  then have "all_wf (parse_cmp n rec)" by (rule wf_level) (rule parse_cmp_def)
  then have "all_wf (parse_and n rec)" by (rule wf_level) (rule parse_and_def)
  then show ?thesis by (rule wf_level) (rule parse_or_def)
qed

lemma wf_parse_implies: "all_wf (parse_implies n)"
proof (induction n)
  case (Suc n)
  from wf_parse_or [OF this, of "Suc n"] show ?case
    by (rule wf_level) (rule parse_implies.simps(2))
qed (simp add: all_wf_def)

section \<open>Free identifiers\<close>

fun idents :: "expr \<Rightarrow> string set" where
  "idents (EIdent x _) = {x}"
| "idents (EInt _ _) = {}"
| "idents (EBool _ _) = {}"
| "idents (EMember e _ _) = idents e"
| "idents (ECall e args _) = idents e \<union> (\<Union>a \<in> set args. idents a)"
| "idents (ERange a b _) = idents a \<union> idents b"
| "idents (EIndex a b _) = idents a \<union> idents b"
| "idents (EUnary _ e _) = idents e"
| "idents (EBinary _ l r _) = idents l \<union> idents r"

lemma set_fold_collect:
  assumes "\<And>a out. a \<in> set args \<Longrightarrow> set (f a out) = set out \<union> g a"
  shows "set (fold f args out) = set out \<union> (\<Union>a \<in> set args. g a)"
  using assms by (induction args arbitrary: out) auto

lemma set_collect_idents: "set (collect_idents e out False) = set out \<union> idents e"
proof (induction e arbitrary: out)
  case (ECall e args s)
  then show ?case by (auto simp: set_fold_collect [where g = idents])
qed auto

lemma set_free_idents: "set (free_idents e) = idents e"
  by (simp add: free_idents_def set_collect_idents)

lemma distinct_remdups_adj_sorted: "sorted xs \<Longrightarrow> distinct (remdups_adj xs)"
  by (induction xs rule: remdups_adj.induct) auto

lemma distinct_free_idents: "distinct (free_idents e)"
  by (simp add: free_idents_def distinct_remdups_adj_sorted)

lemma sorted_free_idents: "sorted (free_idents e)"
  by (simp add: free_idents_def sorted_remdups_adj)

section \<open>Properties\<close>

lemma expr_parse_no_fuel: "expr_parse s \<noteq> PFuel"
  using progress_parse_implies [of 0 s]
  by (auto simp: expr_parse_def progress_def pbind_PFuel_iff Let_def split: if_splits)

text \<open>C39: \<open>Expr::parse\<close> terminates on every input: neither the nesting of parentheses, calls and
  indices nor the loops of the nine precedence levels can outrun the input, so the fuel the entry
  point passes is never exhausted.\<close>

theorem expr_parse_total: "expr_parse s \<noteq> PFuel"
  by (rule expr_parse_no_fuel)

lemma expr_parse_wf:
  assumes "expr_parse s = POk e q"
  shows "wf_expr e \<and> q = length s"
proof -
  obtain p where p: "parse_implies (Suc (length s)) s 0 = POk e p"
    "q = skip_ws s p" "\<not> q < length s"
    using assms by (auto simp: expr_parse_def pbind_POk_iff Let_def split: if_splits)
  have "p \<le> length s"
    using progress_parse_implies [of 0 s] p(1) by (auto simp: progress_def)
  then have "q \<le> length s" using p(2) by (simp add: skip_ws_le)
  with p all_wfD [OF wf_parse_implies p(1)] show ?thesis by auto
qed

text \<open>whatever \<open>Expr::parse\<close> accepts is well formed (integer literals are non-negative \<open>i64\<close>
  values, identifiers and field names are identifiers) and the whole input was consumed.\<close>

theorem expr_parse_sound:
  assumes "expr_parse s = POk e q"
  shows "wf_expr e \<and> q = length s"
  using assms by (rule expr_parse_wf)

theorem expr_parse_sound_witness:
  "wf_expr (EBinary BLe (EIdent ''n'' (from_offsets 0 1)) (EInt 8 (from_offsets 5 6)) (from_offsets 0 6)) \<and>
   (6::nat) = length ''n <= 8''"
proof (rule expr_parse_sound)
  show "expr_parse ''n <= 8'' =
    POk (EBinary BLe (EIdent ''n'' (from_offsets 0 1)) (EInt 8 (from_offsets 5 6)) (from_offsets 0 6)) 6"
    by code_simp
qed

text \<open>\<open>free_idents\<close> returns each identifier that occurs in the expression once, in byte order,
  and never a field name of a member access.\<close>

theorem free_idents_spec:
  "set (free_idents e) = idents e \<and> sorted (free_idents e) \<and> distinct (free_idents e)"
  by (simp add: set_free_idents sorted_free_idents distinct_free_idents)

text \<open>The span of a method call starts at the member's field, not at its base: \<open>left_start\<close> of a
  member is the start of the field name.\<close>

lemma call_span_starts_at_field:
  "expr_parse ''a.b(c)'' =
    POk (ECall (EMember (EIdent ''a'' (from_offsets 0 1)) ''b'' (from_offsets 2 3))
           [EIdent ''c'' (from_offsets 4 5)] (from_offsets 2 6)) 6"
  by code_simp

end
