(* ===== verification/Target.thy ===== *)
theory Target
  imports Core_Diag
begin

text \<open>
  Target identities, \<open>semasm-target/src/lib.rs\<close>: the dimensions of a target, the four registered
  targets, \<open>TargetIdentity::parse_known\<close>, the NASM container format, and the isolation label of
  an execution.
\<close>

section \<open>Isolation\<close>

datatype execution_isolation = StaticOnly | QemuUser | NativeHost

fun isolation_as_str :: "execution_isolation \<Rightarrow> string" where
  "isolation_as_str StaticOnly = ''static_only''"
| "isolation_as_str QemuUser = ''qemu_user''"
| "isolation_as_str NativeHost = ''native_host''"

definition from_runner :: "string option \<Rightarrow> execution_isolation" where
  "from_runner runner = (case runner of
     None \<Rightarrow> StaticOnly
   | Some name \<Rightarrow>
       if name = ''__native__'' then NativeHost
       else if strip_prefix ''qemu'' name \<noteq> None then QemuUser
       else NativeHost)"

section \<open>Dimensions of a target\<close>

datatype isa = X86_64 | AArch64 | Riscv64 | Riscv32

datatype abi = SysVAmd64 | WindowsX64 | Aapcs64 | Riscv

datatype object_format = Elf | PeCoff

datatype dialect = NasmIntel | GasAtt | GasUnified

datatype execution_profile = HostedMinimal | Freestanding | BareMetal

fun isa_to_string :: "isa \<Rightarrow> string" where
  "isa_to_string X86_64 = ''x86_64''"
| "isa_to_string AArch64 = ''aarch64''"
| "isa_to_string Riscv64 = ''riscv64''"
| "isa_to_string Riscv32 = ''riscv32''"

fun abi_to_string :: "abi \<Rightarrow> string" where
  "abi_to_string SysVAmd64 = ''sysv-amd64''"
| "abi_to_string WindowsX64 = ''win64''"
| "abi_to_string Aapcs64 = ''aapcs64''"
| "abi_to_string Riscv = ''riscv''"

fun object_format_to_string :: "object_format \<Rightarrow> string" where
  "object_format_to_string Elf = ''elf''"
| "object_format_to_string PeCoff = ''pe-coff''"

fun dialect_to_string :: "dialect \<Rightarrow> string" where
  "dialect_to_string NasmIntel = ''nasm-intel''"
| "dialect_to_string GasAtt = ''gas-att''"
| "dialect_to_string GasUnified = ''gas-unified''"

fun execution_profile_to_string :: "execution_profile \<Rightarrow> string" where
  "execution_profile_to_string HostedMinimal = ''hosted-minimal''"
| "execution_profile_to_string Freestanding = ''freestanding''"
| "execution_profile_to_string BareMetal = ''bare-metal''"

record target_identity =
  tname :: string
  tisa :: isa
  tabi :: abi
  tformat :: object_format
  tdialect :: dialect
  tprofile :: execution_profile

section \<open>Registered targets\<close>

definition x86_64_linux_gnu :: target_identity where
  "x86_64_linux_gnu = \<lparr>tname = ''x86_64-unknown-linux-gnu'', tisa = X86_64, tabi = SysVAmd64,
     tformat = Elf, tdialect = NasmIntel, tprofile = HostedMinimal\<rparr>"

definition x86_64_windows_msvc :: target_identity where
  "x86_64_windows_msvc = \<lparr>tname = ''x86_64-pc-windows-msvc'', tisa = X86_64, tabi = WindowsX64,
     tformat = PeCoff, tdialect = NasmIntel, tprofile = HostedMinimal\<rparr>"

definition aarch64_linux_gnu :: target_identity where
  "aarch64_linux_gnu = \<lparr>tname = ''aarch64-unknown-linux-gnu'', tisa = AArch64, tabi = Aapcs64,
     tformat = Elf, tdialect = GasUnified, tprofile = HostedMinimal\<rparr>"

definition riscv64_linux_gnu :: target_identity where
  "riscv64_linux_gnu = \<lparr>tname = ''riscv64gc-unknown-linux-gnu'', tisa = Riscv64, tabi = Riscv,
     tformat = Elf, tdialect = GasUnified, tprofile = HostedMinimal\<rparr>"

definition parse_known :: "string \<Rightarrow> error + target_identity" where
  "parse_known name =
     (if name = ''x86_64-unknown-linux-gnu'' \<or> name = ''x86_64-linux-gnu'' then Inr x86_64_linux_gnu
      else if name = ''x86_64-pc-windows-msvc'' \<or> name = ''x86_64-windows-msvc''
        then Inr x86_64_windows_msvc
      else if name = ''aarch64-unknown-linux-gnu'' \<or> name = ''aarch64-linux-gnu''
        then Inr aarch64_linux_gnu
      else if name = ''riscv64gc-unknown-linux-gnu'' \<or> name = ''riscv64-linux-gnu''
        then Inr riscv64_linux_gnu
      else Inl (NotFound (''unknown or unsupported target `'' @ name @
             ''` (planned targets are not yet registered)'')))"

definition nasm_format :: "target_identity \<Rightarrow> string" where
  "nasm_format t = (case tformat t of Elf \<Rightarrow> ''elf64'' | PeCoff \<Rightarrow> ''win64'')"

lemmas registered_targets = x86_64_linux_gnu_def x86_64_windows_msvc_def aarch64_linux_gnu_def
  riscv64_linux_gnu_def

lemma parse_known_range:
  "parse_known name = Inr t \<Longrightarrow>
   t = x86_64_linux_gnu \<or> t = x86_64_windows_msvc \<or> t = aarch64_linux_gnu \<or> t = riscv64_linux_gnu"
  unfolding parse_known_def by (metis Inl_Inr_False sum.inject(2))

lemma parse_known_canonical_names:
  "parse_known (tname x86_64_linux_gnu) = Inr x86_64_linux_gnu"
  "parse_known (tname x86_64_windows_msvc) = Inr x86_64_windows_msvc"
  "parse_known (tname aarch64_linux_gnu) = Inr aarch64_linux_gnu"
  "parse_known (tname riscv64_linux_gnu) = Inr riscv64_linux_gnu"
  by (simp_all add: parse_known_def registered_targets)

section \<open>Properties\<close>

text \<open>A target name the registry accepts resolves to an identity whose canonical name resolves
  to the same identity, whose ABI belongs to its ISA, and whose container is PE/COFF exactly for
  the Windows ABI.\<close>

theorem parse_known_canonical:
  assumes "parse_known name = Inr t"
  shows "parse_known (tname t) = Inr t \<and>
    (tabi t = WindowsX64 \<longleftrightarrow> tformat t = PeCoff) \<and>
    (tisa t = X86_64 \<longleftrightarrow> tabi t \<in> {SysVAmd64, WindowsX64}) \<and>
    (tisa t = AArch64 \<longleftrightarrow> tabi t = Aapcs64)"
  using parse_known_range [OF assms]
  by (elim disjE) (simp_all add: parse_known_canonical_names, simp_all add: registered_targets)

theorem parse_known_canonical_witness:
  "parse_known (tname x86_64_windows_msvc) = Inr x86_64_windows_msvc"
proof -
  have "parse_known ''x86_64-windows-msvc'' = Inr x86_64_windows_msvc"
    by (simp add: parse_known_def)
  from parse_known_canonical [OF this] show ?thesis by simp
qed

end
