(* ===== verification/Validate.thy ===== *)
theory Validate
  imports Expr Target
begin

text \<open>
  Contract documents and their validation: the schema structs of
  \<open>semasm-contract/src/schema.rs\<close>, the diagnostic codes of \<open>codes.rs\<close>, and the checked form and
  \<open>validate_document\<close> of \<open>validate.rs\<close>. Diagnostics are threaded through every check as in the
  source. \<open>toml::from_str\<close> is a third-party deserialiser and a parameter of \<open>check_str\<close>.

  Shown here: \<open>validate_document\<close> accepts exactly the documents that meet a declarative
  well-formedness condition, every rejection carries an error diagnostic with a stable code, and
  an accepted contract's checked form satisfies the invariants the evidence engines rely on.
\<close>

section \<open>Diagnostic codes\<close>

datatype contract_code = Ctr001 | Ctr002 | Ctr003 | Ctr004 | Ctr005 | Ctr006 | Ctr007 | Ctr008

fun code_as_str :: "contract_code \<Rightarrow> string" where
  "code_as_str Ctr001 = ''CTR001''"
| "code_as_str Ctr002 = ''CTR002''"
| "code_as_str Ctr003 = ''CTR003''"
| "code_as_str Ctr004 = ''CTR004''"
| "code_as_str Ctr005 = ''CTR005''"
| "code_as_str Ctr006 = ''CTR006''"
| "code_as_str Ctr007 = ''CTR007''"
| "code_as_str Ctr008 = ''CTR008''"

definition code_all :: "contract_code list" where
  "code_all = [Ctr001, Ctr002, Ctr003, Ctr004, Ctr005, Ctr006, Ctr007, Ctr008]"

definition code_parse :: "string \<Rightarrow> contract_code option" where
  "code_parse input = (let u = to_ascii_uppercase (trim input) in
     if u = ''CTR001'' then Some Ctr001
     else if u = ''CTR002'' then Some Ctr002
     else if u = ''CTR003'' then Some Ctr003
     else if u = ''CTR004'' then Some Ctr004
     else if u = ''CTR005'' then Some Ctr005
     else if u = ''CTR006'' then Some Ctr006
     else if u = ''CTR007'' then Some Ctr007
     else if u = ''CTR008'' then Some Ctr008
     else None)"

section \<open>Contract documents\<close>

record memory_region_schema =
  mr_name :: string
  mr_base :: string
  mr_offset :: "string option"
  mr_length :: string
  mr_access :: string

record memory_relation_schema =
  ml_left :: string
  ml_right :: string
  ml_require :: string
  ml_basis :: "string option"

record memory_block_schema =
  mb_regions :: "memory_region_schema list"
  mb_relations :: "memory_relation_schema list"

record parameter_schema =
  ps_name :: string
  ps_ty :: string
  ps_role :: "string option"

record return_schema =
  rs_name :: string
  rs_ty :: string

record condition_schema =
  cs_expression :: string
  cs_reason :: "string option"

record effect_schema =
  ef_kind :: string
  ef_region :: "string option"
  ef_resource :: "string option"

record constraints_schema =
  no_heap :: "bool option"
  no_recursion :: "bool option"
  bounded_stack_bytes :: "nat option"

record target_override_schema =
  to_target :: string
  to_notes :: "string option"

record function_schema =
  fn_name :: string
  fn_summary :: "string option"
  fn_visibility :: "string option"
  fn_parameters :: "parameter_schema list"
  fn_returns :: "return_schema list"
  fn_requires :: "condition_schema list"
  fn_ensures :: "condition_schema list"
  fn_effects :: "effect_schema list"
  fn_memory :: "memory_block_schema option"
  fn_constraints :: "constraints_schema option"
  fn_target_overrides :: "target_override_schema list"

record contract_document =
  contract_version :: string
  doc_function :: function_schema

section \<open>The checked form\<close>

datatype region_access = Read | Write | ReadWrite

definition region_access_parse :: "string \<Rightarrow> region_access option" where
  "region_access_parse s =
     (if s = ''read'' then Some Read
      else if s = ''write'' then Some Write
      else if s = ''read_write'' then Some ReadWrite
      else None)"

fun region_access_as_str :: "region_access \<Rightarrow> string" where
  "region_access_as_str Read = ''read''"
| "region_access_as_str Write = ''write''"
| "region_access_as_str ReadWrite = ''read_write''"

datatype relation_require = Disjoint | Equal | Contains

definition relation_require_parse :: "string \<Rightarrow> relation_require option" where
  "relation_require_parse s =
     (if s = ''disjoint'' then Some Disjoint
      else if s = ''equal'' then Some Equal
      else if s = ''contains'' then Some Contains
      else None)"

fun relation_require_as_str :: "relation_require \<Rightarrow> string" where
  "relation_require_as_str Disjoint = ''disjoint''"
| "relation_require_as_str Equal = ''equal''"
| "relation_require_as_str Contains = ''contains''"

datatype relation_basis_decl = Precondition

definition relation_basis_parse :: "string \<Rightarrow> relation_basis_decl option" where
  "relation_basis_parse s = (if s = ''precondition'' then Some Precondition else None)"

datatype length_spec = Param string | Literal nat

record checked_region =
  cr_name :: string
  cr_base_param :: string
  cr_offset :: int
  cr_length :: length_spec
  cr_access :: region_access

record checked_relation =
  cl_left :: string
  cl_right :: string
  cl_require :: relation_require
  cl_basis :: "relation_basis_decl option"

record checked_memory =
  cm_regions :: "checked_region list"
  cm_relations :: "checked_relation list"

record checked_param =
  cp_name :: string
  cp_ty :: sem_type
  cp_type_source :: string
  cp_role :: "string option"

record checked_return =
  ct_name :: string
  ct_ty :: sem_type
  ct_type_source :: string

record checked_condition =
  cc_expr :: expr
  cc_source :: string
  cc_reason :: "string option"

record checked_contract =
  version_major :: nat
  version_minor :: nat
  c_name :: string
  c_summary :: "string option"
  c_parameters :: "checked_param list"
  c_returns :: "checked_return list"
  c_requires :: "checked_condition list"
  c_ensures :: "checked_condition list"
  c_effects :: "effect_schema list"
  c_memory :: "checked_memory option"
  c_constraints :: "constraints_schema option"
  c_target_overrides :: "string list"

section \<open>Diagnostics of the validator\<close>

datatype length_error = LengthNotParamOrLiteral string | LengthParamNotInteger string

text \<open>One constructor per message the validator formats, with the values it interpolates.\<close>

datatype 'te vmsg =
    MToml 'te
  | MUnsupportedVersion string
  | MDuplicateParameter string
  | MParameterType string type_error
  | MReturnType string type_error
  | MInvalidExpression string expr_error
  | MUnknownIdentifier string string
  | MInvalidEffectRegion string expr_error
  | MUnknownEffectIdentifier string string
  | MContradictoryEffects
  | MInvalidOverride error
  | MDuplicateRegion string
  | MBaseNotParameter string string
  | MBaseNotPointer string string
  | MOffsetNotLiteral string string
  | MRegionLength string length_error
  | MRegionAccess string string
  | MRelationEndpoints string string
  | MRelationRequire string string string
  | MRelationBasis string string string

type_synonym 'te vdiags = "'te vmsg diagnostics"

record 'te check_result =
  contract :: "checked_contract option"
  diagnostics :: "'te vdiags"

definition check_ok :: "'te check_result \<Rightarrow> bool" where
  "check_ok r \<longleftrightarrow> \<not> has_errors (diagnostics r) \<and> contract r \<noteq> None"

definition push_code :: "contract_code \<Rightarrow> 'te vmsg \<Rightarrow> source_span option \<Rightarrow> 'te vdiags \<Rightarrow> 'te vdiags" where
  "push_code c m sp ds =
     (let d = with_code (code_as_str c) (diag_error m) in
      diag_push (case sp of Some s \<Rightarrow> with_span s d | None \<Rightarrow> d) ds)"

section \<open>Literals and lengths\<close>

definition parse_u64_literal :: "string \<Rightarrow> nat option" where
  "parse_u64_literal raw = (let s = trim raw in
     if s = [] \<or> \<not> list_all is_ascii_digit s then None else parse_u64_digits s)"

definition parse_i64_literal :: "string \<Rightarrow> int option" where
  "parse_i64_literal raw = (let s = trim raw in
     case strip_prefix ''-'' s of
       Some rest \<Rightarrow>
         (case parse_u64_literal rest of
            None \<Rightarrow> None
          | Some v \<Rightarrow> map_option uminus (i64_try_from v))
     | None \<Rightarrow> (case parse_u64_literal s of None \<Rightarrow> None | Some v \<Rightarrow> i64_try_from v))"

fun is_integer_sem_type :: "sem_type \<Rightarrow> bool" where
  "is_integer_sem_type (UInt _) = True"
| "is_integer_sem_type (SInt _) = True"
| "is_integer_sem_type Usize = True"
| "is_integer_sem_type Isize = True"
| "is_integer_sem_type _ = False"

definition find_param :: "string \<Rightarrow> checked_param list \<Rightarrow> checked_param option" where
  "find_param x ps = find (\<lambda>p. cp_name p = x) ps"

definition parse_length_spec :: "string \<Rightarrow> checked_param list \<Rightarrow> length_error + length_spec" where
  "parse_length_spec raw parameters =
     (case parse_u64_literal raw of
        Some lit \<Rightarrow> Inr (Literal lit)
      | None \<Rightarrow>
          (case find_param raw parameters of
             None \<Rightarrow> Inl (LengthNotParamOrLiteral raw)
           | Some param \<Rightarrow>
               if \<not> is_integer_sem_type (cp_ty param) then Inl (LengthParamNotInteger raw)
               else Inr (Param raw)))"

section \<open>Parameters, returns and conditions\<close>

text \<open>A parser that runs out of fuel has no counterpart in the source; by \<open>type_parse_no_fuel\<close> and
  \<open>expr_parse_no_fuel\<close> that branch is never taken.\<close>

definition check_param :: "parameter_schema \<Rightarrow> string set \<times> checked_param list \<times> 'te vdiags \<Rightarrow>
    string set \<times> checked_param list \<times> 'te vdiags" where
  "check_param p st = (case st of (names, parameters, ds) \<Rightarrow>
     let ds1 = (if ps_name p \<in> names
                then push_code Ctr002 (MDuplicateParameter (ps_name p)) None ds else ds);
         names1 = insert (ps_name p) names in
     (case type_parse (ps_ty p) of
        POk (ty, _) _ \<Rightarrow>
          (names1, parameters @ [\<lparr>cp_name = ps_name p, cp_ty = ty, cp_type_source = ps_ty p,
                                  cp_role = ps_role p\<rparr>], ds1)
      | PErr msg \<Rightarrow>
          (names1, parameters, push_code Ctr003 (MParameterType (ps_name p) msg) None ds1)
      | PFuel \<Rightarrow> (names1, parameters, ds1)))"

definition check_return :: "return_schema \<Rightarrow> string set \<times> checked_return list \<times> 'te vdiags \<Rightarrow>
    string set \<times> checked_return list \<times> 'te vdiags" where
  "check_return r st = (case st of (names, returns, ds) \<Rightarrow>
     let names1 = insert (rs_name r) names in
     (case type_parse (rs_ty r) of
        POk (ty, _) _ \<Rightarrow>
          (names1, returns @ [\<lparr>ct_name = rs_name r, ct_ty = ty, ct_type_source = rs_ty r\<rparr>], ds)
      | PErr msg \<Rightarrow> (names1, returns, push_code Ctr003 (MReturnType (rs_name r) msg) None ds)
      | PFuel \<Rightarrow> (names1, returns, ds)))"

definition push_unknown :: "(string \<Rightarrow> 'te vmsg) \<Rightarrow> string set \<Rightarrow> string list \<Rightarrow> 'te vdiags \<Rightarrow> 'te vdiags" where
  "push_unknown msg names ids ds =
     fold (\<lambda>i ds. if i \<notin> names then push_code Ctr005 (msg i) None ds else ds) ids ds"

definition check_condition :: "string \<Rightarrow> string option \<Rightarrow> string set \<Rightarrow> 'te vdiags \<Rightarrow>
    checked_condition option \<times> 'te vdiags" where
  "check_condition source reason names ds =
     (case expr_parse source of
        POk e _ \<Rightarrow>
          (Some \<lparr>cc_expr = e, cc_source = source, cc_reason = reason\<rparr>,
           push_unknown (\<lambda>i. MUnknownIdentifier i source) names (free_idents e) ds)
      | PErr msg \<Rightarrow> (None, push_code Ctr004 (MInvalidExpression source msg) None ds)
      | PFuel \<Rightarrow> (None, ds))"

definition check_conditions :: "condition_schema list \<Rightarrow> string set \<Rightarrow>
    checked_condition list \<Rightarrow> 'te vdiags \<Rightarrow> checked_condition list \<times> 'te vdiags" where
  "check_conditions cs names acc ds =
     fold (\<lambda>c (acc, ds).
       case check_condition (cs_expression c) (cs_reason c) names ds of
         (Some cond, ds') \<Rightarrow> (acc @ [cond], ds')
       | (None, ds') \<Rightarrow> (acc, ds')) cs (acc, ds)"

section \<open>Effects\<close>

definition check_effect_region :: "string set \<Rightarrow> effect_schema \<Rightarrow> 'te vdiags \<Rightarrow> 'te vdiags" where
  "check_effect_region names e ds =
     (case ef_region e of
        None \<Rightarrow> ds
      | Some region \<Rightarrow>
          if CHR ''['' \<in> set region then
            (case expr_parse region of
               PErr msg \<Rightarrow> push_code Ctr004 (MInvalidEffectRegion region msg) None ds
             | POk ex _ \<Rightarrow>
                 push_unknown (\<lambda>i. MUnknownEffectIdentifier i region) names (free_idents ex) ds
             | PFuel \<Rightarrow> ds)
          else ds)"

definition check_effects :: "effect_schema list \<Rightarrow> string set \<Rightarrow> 'te vdiags \<Rightarrow> 'te vdiags" where
  "check_effects effects names ds =
     (let kinds = set (map ef_kind effects);
          ds1 = fold (check_effect_region names) effects ds in
      if ''no_memory'' \<in> kinds \<and> (''memory_read'' \<in> kinds \<or> ''memory_write'' \<in> kinds)
      then push_code Ctr006 MContradictoryEffects None ds1 else ds1)"

section \<open>The memory block\<close>

text \<open>The body of the loop over regions after the duplicate test: \<open>Inl\<close> is the message pushed
  before \<open>continue\<close>.\<close>

definition check_region :: "checked_param list \<Rightarrow> memory_region_schema \<Rightarrow> 'te vmsg + checked_region" where
  "check_region parameters region =
     (case find_param (mr_base region) parameters of
        None \<Rightarrow> Inl (MBaseNotParameter (mr_name region) (mr_base region))
      | Some base_param \<Rightarrow>
          if (case cp_ty base_param of Ptr _ _ \<Rightarrow> False | _ \<Rightarrow> True)
          then Inl (MBaseNotPointer (mr_name region) (mr_base region))
          else
            (case (case mr_offset region of
                     None \<Rightarrow> Inr 0
                   | Some raw \<Rightarrow>
                       if raw = [] \<or> raw = ''0'' then Inr 0
                       else (case parse_i64_literal raw of
                               Some v \<Rightarrow> Inr v
                             | None \<Rightarrow> Inl (MOffsetNotLiteral (mr_name region) raw))) of
               Inl m \<Rightarrow> Inl m
             | Inr offset \<Rightarrow>
                 (case parse_length_spec (mr_length region) parameters of
                    Inl msg \<Rightarrow> Inl (MRegionLength (mr_name region) msg)
                  | Inr len \<Rightarrow>
                      (case region_access_parse (mr_access region) of
                         None \<Rightarrow> Inl (MRegionAccess (mr_name region) (mr_access region))
                       | Some access \<Rightarrow>
                           Inr \<lparr>cr_name = mr_name region, cr_base_param = mr_base region,
                                cr_offset = offset, cr_length = len, cr_access = access\<rparr>))))"

definition region_step :: "checked_param list \<Rightarrow> memory_region_schema \<Rightarrow>
    string set \<times> checked_region list \<times> 'te vdiags \<Rightarrow> string set \<times> checked_region list \<times> 'te vdiags" where
  "region_step parameters region st = (case st of (names, regions, ds) \<Rightarrow>
     if mr_name region \<in> names
     then (names, regions, push_code Ctr008 (MDuplicateRegion (mr_name region)) None ds)
     else (case check_region parameters region of
             Inl m \<Rightarrow> (insert (mr_name region) names, regions, push_code Ctr008 m None ds)
           | Inr r \<Rightarrow> (insert (mr_name region) names, regions @ [r], ds)))"

definition check_relation :: "string set \<Rightarrow> memory_relation_schema \<Rightarrow> 'te vmsg + checked_relation" where
  "check_relation region_names rel =
     (if ml_left rel \<notin> region_names \<or> ml_right rel \<notin> region_names
      then Inl (MRelationEndpoints (ml_left rel) (ml_right rel))
      else (case relation_require_parse (ml_require rel) of
          None \<Rightarrow> Inl (MRelationRequire (ml_left rel) (ml_right rel) (ml_require rel))
        | Some require \<Rightarrow>
            (case (case ml_basis rel of
                     None \<Rightarrow> Inr None
                   | Some raw \<Rightarrow>
                       (case relation_basis_parse raw of
                          Some b \<Rightarrow> Inr (Some b)
                        | None \<Rightarrow> Inl (MRelationBasis (ml_left rel) (ml_right rel) raw))) of
               Inl m \<Rightarrow> Inl m
             | Inr basis \<Rightarrow>
                 Inr \<lparr>cl_left = ml_left rel, cl_right = ml_right rel, cl_require = require,
                      cl_basis = basis\<rparr>)))"

definition relation_step :: "string set \<Rightarrow> memory_relation_schema \<Rightarrow>
    checked_relation list \<times> 'te vdiags \<Rightarrow> checked_relation list \<times> 'te vdiags" where
  "relation_step region_names rel st = (case st of (relations, ds) \<Rightarrow>
     (case check_relation region_names rel of
        Inl m \<Rightarrow> (relations, push_code Ctr008 m None ds)
      | Inr r \<Rightarrow> (relations @ [r], ds)))"

definition check_memory :: "memory_block_schema option \<Rightarrow> checked_param list \<Rightarrow> 'te vdiags \<Rightarrow>
    checked_memory option \<times> 'te vdiags" where
  "check_memory memory parameters ds =
     (case memory of
        None \<Rightarrow> (None, ds)
      | Some block \<Rightarrow>
          let (region_names, regions, ds1) =
                fold (region_step parameters) (mb_regions block) ({}, [], ds);
              (relations, ds2) =
                fold (relation_step region_names) (mb_relations block) ([], ds1)
          in (Some \<lparr>cm_regions = regions, cm_relations = relations\<rparr>, ds2))"

section \<open>The document\<close>

definition check_override :: "target_override_schema \<Rightarrow> string list \<times> 'te vdiags \<Rightarrow>
    string list \<times> 'te vdiags" where
  "check_override ov st = (case st of (names, ds) \<Rightarrow>
     (case parse_known (to_target ov) of
        Inr t \<Rightarrow> (names @ [tname t], ds)
      | Inl e \<Rightarrow> (names, push_code Ctr007 (MInvalidOverride e) None ds)))"

definition expr_names_of :: "function_schema \<Rightarrow> string set \<Rightarrow> string set" where
  "expr_names_of f names =
     insert ''regions'' names \<union>
       (case fn_memory f of None \<Rightarrow> {} | Some mem \<Rightarrow> set (map mr_name (mb_regions mem)))"

definition validate_document :: "contract_document \<Rightarrow> 'te vdiags \<Rightarrow> 'te check_result" where
  "validate_document doc ds0 =
     (if contract_version doc \<noteq> ''0.1'' then
        \<lparr>contract = None,
         diagnostics = push_code Ctr001 (MUnsupportedVersion (contract_version doc)) None ds0\<rparr>
      else
        let f = doc_function doc;
            (names1, parameters, ds1) = fold check_param (fn_parameters f) ({}, [], ds0);
            (names, returns, ds2) = fold check_return (fn_returns f) (names1, [], ds1);
            expr_names = expr_names_of f names;
            (requires, ds3) = check_conditions (fn_requires f) expr_names [] ds2;
            (ensures, ds4) = check_conditions (fn_ensures f) expr_names [] ds3;
            ds5 = check_effects (fn_effects f) names ds4;
            (memory, ds6) = check_memory (fn_memory f) parameters ds5;
            (target_overrides, ds7) = fold check_override (fn_target_overrides f) ([], ds6)
        in if has_errors ds7 then \<lparr>contract = None, diagnostics = ds7\<rparr>
           else \<lparr>contract = Some \<lparr>version_major = 0, version_minor = 1, c_name = fn_name f,
                   c_summary = fn_summary f, c_parameters = parameters, c_returns = returns,
                   c_requires = requires, c_ensures = ensures, c_effects = fn_effects f,
                   c_memory = memory, c_constraints = fn_constraints f,
                   c_target_overrides = target_overrides\<rparr>, diagnostics = ds7\<rparr>)"

definition check_str :: "(string \<Rightarrow> 'te + contract_document) \<Rightarrow> string \<Rightarrow> 'te check_result" where
  "check_str from_str text =
     (case from_str text of
        Inl e \<Rightarrow> \<lparr>contract = None,
                   diagnostics = diag_push (with_code ''CTR000'' (diag_error (MToml e))) []\<rparr>
      | Inr doc \<Rightarrow> validate_document doc [])"

section \<open>What each check reports\<close>

lemma push_code_errors [simp]: "has_errors (push_code c m sp ds)"
  by (simp add: push_code_def Let_def split: option.split)

definition type_ok :: "string \<Rightarrow> bool" where
  "type_ok s \<longleftrightarrow> (\<exists>t sp q. type_parse s = POk (t, sp) q)"

definition param_of :: "parameter_schema \<Rightarrow> checked_param option" where
  "param_of p = (case type_parse (ps_ty p) of
     POk (ty, _) _ \<Rightarrow> Some \<lparr>cp_name = ps_name p, cp_ty = ty, cp_type_source = ps_ty p, cp_role = ps_role p\<rparr>
   | _ \<Rightarrow> None)"

definition return_of :: "return_schema \<Rightarrow> checked_return option" where
  "return_of r = (case type_parse (rs_ty r) of
     POk (ty, _) _ \<Rightarrow> Some \<lparr>ct_name = rs_name r, ct_ty = ty, ct_type_source = rs_ty r\<rparr>
   | _ \<Rightarrow> None)"

lemma fold_check_param:
  "\<exists>ds'. fold check_param ps (names, acc, ds) =
      (names \<union> ps_name ` set ps, acc @ List.map_filter param_of ps, ds') \<and>
    (has_errors ds' \<longleftrightarrow> has_errors ds \<or> \<not> distinct (map ps_name ps) \<or>
       names \<inter> ps_name ` set ps \<noteq> {} \<or> (\<exists>p \<in> set ps. \<not> type_ok (ps_ty p)))"
proof (induction ps arbitrary: names acc ds)
  case (Cons p ps)
  obtain ds1 where ds1: "check_param p (names, acc, ds) =
      (insert (ps_name p) names, acc @ List.map_filter param_of [p], ds1)"
    "has_errors ds1 \<longleftrightarrow> has_errors ds \<or> ps_name p \<in> names \<or> \<not> type_ok (ps_ty p)"
    using type_parse_no_fuel [of "ps_ty p"]
    by (cases "type_parse (ps_ty p)")
       (auto simp: check_param_def Let_def param_of_def type_ok_def List.map_filter_def)
  obtain ds2 where ds2: "fold check_param ps (insert (ps_name p) names, acc @ List.map_filter param_of [p], ds1) =
      (insert (ps_name p) names \<union> ps_name ` set ps, (acc @ List.map_filter param_of [p]) @ List.map_filter param_of ps, ds2)"
    "has_errors ds2 \<longleftrightarrow> has_errors ds1 \<or> \<not> distinct (map ps_name ps) \<or>
       insert (ps_name p) names \<inter> ps_name ` set ps \<noteq> {} \<or> (\<exists>p \<in> set ps. \<not> type_ok (ps_ty p))"
    using Cons.IH by blast
  show ?case
    using ds1 ds2 by (auto simp: List.map_filter_def)
qed (simp add: List.map_filter_def)

lemma fold_check_return:
  "\<exists>ds'. fold check_return rs (names, acc, ds) =
      (names \<union> rs_name ` set rs, acc @ List.map_filter return_of rs, ds') \<and>
    (has_errors ds' \<longleftrightarrow> has_errors ds \<or> (\<exists>r \<in> set rs. \<not> type_ok (rs_ty r)))"
proof (induction rs arbitrary: names acc ds)
  case (Cons r rs)
  obtain ds1 where ds1: "check_return r (names, acc, ds) =
      (insert (rs_name r) names, acc @ List.map_filter return_of [r], ds1)"
    "has_errors ds1 \<longleftrightarrow> has_errors ds \<or> \<not> type_ok (rs_ty r)"
    using type_parse_no_fuel [of "rs_ty r"]
    by (cases "type_parse (rs_ty r)")
       (auto simp: check_return_def Let_def return_of_def type_ok_def List.map_filter_def)
  show ?case
    using Cons.IH [of "insert (rs_name r) names" "acc @ List.map_filter return_of [r]" ds1] ds1
    by (auto simp: List.map_filter_def)
qed (simp add: List.map_filter_def)

lemma has_errors_push_unknown [simp]:
  "has_errors (push_unknown msg names ids ds) \<longleftrightarrow> has_errors ds \<or> \<not> set ids \<subseteq> names"
  unfolding push_unknown_def by (induction ids arbitrary: ds) auto

definition cond_ok :: "string set \<Rightarrow> condition_schema \<Rightarrow> bool" where
  "cond_ok names c \<longleftrightarrow> (\<exists>e q. expr_parse (cs_expression c) = POk e q \<and> idents e \<subseteq> names)"

definition cond_of :: "condition_schema \<Rightarrow> checked_condition option" where
  "cond_of c = (case expr_parse (cs_expression c) of
     POk e _ \<Rightarrow> Some \<lparr>cc_expr = e, cc_source = cs_expression c, cc_reason = cs_reason c\<rparr>
   | _ \<Rightarrow> None)"

lemma check_conditions_spec:
  "\<exists>ds'. check_conditions cs names acc ds = (acc @ List.map_filter cond_of cs, ds') \<and>
    (has_errors ds' \<longleftrightarrow> has_errors ds \<or> (\<exists>c \<in> set cs. \<not> cond_ok names c))"
  unfolding check_conditions_def
proof (induction cs arbitrary: acc ds)
  case (Cons c cs)
  obtain ds1 where ds1: "(case check_condition (cs_expression c) (cs_reason c) names ds of
        (Some cond, ds') \<Rightarrow> (acc @ [cond], ds') | (None, ds') \<Rightarrow> (acc, ds')) =
      (acc @ List.map_filter cond_of [c], ds1)"
    "has_errors ds1 \<longleftrightarrow> has_errors ds \<or> \<not> cond_ok names c"
    using expr_parse_no_fuel [of "cs_expression c"]
    by (cases "expr_parse (cs_expression c)")
       (auto simp: check_condition_def cond_of_def cond_ok_def List.map_filter_def set_free_idents)
  show ?case
    using Cons.IH [of "acc @ List.map_filter cond_of [c]" ds1] ds1
    by (auto simp: List.map_filter_def)
qed (simp add: List.map_filter_def)

definition effect_region_ok :: "string set \<Rightarrow> effect_schema \<Rightarrow> bool" where
  "effect_region_ok names e \<longleftrightarrow> (case ef_region e of
     None \<Rightarrow> True
   | Some r \<Rightarrow> CHR ''['' \<in> set r \<longrightarrow> (\<exists>ex q. expr_parse r = POk ex q \<and> idents ex \<subseteq> names))"

definition effects_consistent :: "effect_schema list \<Rightarrow> bool" where
  "effects_consistent es \<longleftrightarrow> (let kinds = ef_kind ` set es in
     ''no_memory'' \<in> kinds \<longrightarrow> ''memory_read'' \<notin> kinds \<and> ''memory_write'' \<notin> kinds)"

lemma has_errors_effect_region:
  "has_errors (check_effect_region names e ds) \<longleftrightarrow> has_errors ds \<or> \<not> effect_region_ok names e"
  using expr_parse_no_fuel
  by (auto simp: check_effect_region_def effect_region_ok_def set_free_idents
      split: option.split pres.split)

lemma has_errors_check_effects:
  "has_errors (check_effects es names ds) \<longleftrightarrow>
     has_errors ds \<or> (\<exists>e \<in> set es. \<not> effect_region_ok names e) \<or> \<not> effects_consistent es"
proof -
  have "has_errors (fold (check_effect_region names) es ds) \<longleftrightarrow>
      has_errors ds \<or> (\<exists>e \<in> set es. \<not> effect_region_ok names e)"
    by (induction es arbitrary: ds) (auto simp: has_errors_effect_region)
  then show ?thesis
    by (auto simp: check_effects_def effects_consistent_def Let_def)
qed

definition region_ok :: "checked_param list \<Rightarrow> memory_region_schema \<Rightarrow> bool" where
  "region_ok ps r \<longleftrightarrow>
     (\<exists>p t c. find_param (mr_base r) ps = Some p \<and> cp_ty p = Ptr t c) \<and>
     (\<forall>raw. mr_offset r = Some raw \<longrightarrow> raw = [] \<or> raw = ''0'' \<or> parse_i64_literal raw \<noteq> None) \<and>
     (\<exists>l. parse_length_spec (mr_length r) ps = Inr l) \<and>
     region_access_parse (mr_access r) \<noteq> None"

definition relation_ok :: "string set \<Rightarrow> memory_relation_schema \<Rightarrow> bool" where
  "relation_ok names rel \<longleftrightarrow> ml_left rel \<in> names \<and> ml_right rel \<in> names \<and>
     relation_require_parse (ml_require rel) \<noteq> None \<and>
     (\<forall>raw. ml_basis rel = Some raw \<longrightarrow> relation_basis_parse raw \<noteq> None)"

lemma check_region_Inr_iff: "(\<exists>cr. check_region ps r = Inr cr) \<longleftrightarrow> region_ok ps r"
  unfolding check_region_def region_ok_def
  by (auto split: option.splits sum.splits sem_type.splits if_splits)

lemma check_relation_Inr_iff: "(\<exists>cl. check_relation names rel = Inr cl) \<longleftrightarrow> relation_ok names rel"
  unfolding check_relation_def relation_ok_def
  by (auto split: option.splits sum.splits if_splits)

lemma region_step_pair:
  "region_step ps r (names, regions, ds) =
     (if mr_name r \<in> names then (names, regions, push_code Ctr008 (MDuplicateRegion (mr_name r)) None ds)
      else (case check_region ps r of
              Inl m \<Rightarrow> (insert (mr_name r) names, regions, push_code Ctr008 m None ds)
            | Inr cr \<Rightarrow> (insert (mr_name r) names, regions @ [cr], ds)))"
  by (simp add: region_step_def)

lemma relation_step_pair:
  "relation_step names rel (relations, ds) =
     (case check_relation names rel of
        Inl m \<Rightarrow> (relations, push_code Ctr008 m None ds)
      | Inr r \<Rightarrow> (relations @ [r], ds))"
  by (simp add: relation_step_def)

lemma fold_region_step:
  fixes ds :: "'te vdiags"
  shows "\<exists>ds' regs. fold (region_step ps) rs (names, acc, ds) =
      (names \<union> mr_name ` set rs, acc @ regs, ds') \<and>
    (has_errors ds' \<longleftrightarrow> has_errors ds \<or> \<not> distinct (map mr_name rs) \<or>
       names \<inter> mr_name ` set rs \<noteq> {} \<or> (\<exists>r \<in> set rs. \<not> region_ok ps r)) \<and>
    (\<not> has_errors ds' \<longrightarrow> map Inr regs = map (check_region ps :: _ \<Rightarrow> 'te vmsg + _) rs)"
proof (induction rs arbitrary: names acc ds)
  case (Cons r rs)
  show ?case
  proof (cases "mr_name r \<in> names")
    case True
    then show ?thesis
      using Cons.IH [of names acc "push_code Ctr008 (MDuplicateRegion (mr_name r)) None ds"]
      by (auto simp: region_step_pair)
  next
    case fresh: False
    show ?thesis
    proof (cases "check_region ps r :: 'te vmsg + _")
      case (Inl m)
      then have "\<not> region_ok ps r"
        using check_region_Inr_iff [of ps r, where ?'a = 'te] by auto
      then show ?thesis
        using fresh Inl Cons.IH [of "insert (mr_name r) names" acc "push_code Ctr008 m None ds"]
        by (auto simp: region_step_pair)
    next
      case (Inr cr)
      then have ok: "region_ok ps r"
        using check_region_Inr_iff [of ps r, where ?'a = 'te] by auto
      from Cons.IH [of "insert (mr_name r) names" "acc @ [cr]" ds]
      obtain ds' regs where IH: "fold (region_step ps) rs (insert (mr_name r) names, acc @ [cr], ds) =
          (insert (mr_name r) names \<union> mr_name ` set rs, (acc @ [cr]) @ regs, ds')"
        "has_errors ds' \<longleftrightarrow> has_errors ds \<or> \<not> distinct (map mr_name rs) \<or>
          insert (mr_name r) names \<inter> mr_name ` set rs \<noteq> {} \<or> (\<exists>r \<in> set rs. \<not> region_ok ps r)"
        "\<not> has_errors ds' \<longrightarrow> map Inr regs = map (check_region ps :: _ \<Rightarrow> 'te vmsg + _) rs"
        by blast
      show ?thesis
        using fresh Inr ok IH
        by (intro exI [of _ ds'] exI [of _ "cr # regs"]) (auto simp: region_step_pair)
    qed
  qed
qed simp

lemma fold_relation_step:
  fixes ds :: "'te vdiags"
  shows "\<exists>ds' rels. fold (relation_step names) rs (acc, ds) = (acc @ rels, ds') \<and>
    (has_errors ds' \<longleftrightarrow> has_errors ds \<or> (\<exists>r \<in> set rs. \<not> relation_ok names r)) \<and>
    (\<not> has_errors ds' \<longrightarrow> map Inr rels = map (check_relation names :: _ \<Rightarrow> 'te vmsg + _) rs)"
proof (induction rs arbitrary: acc ds)
  case (Cons r rs)
  show ?case
  proof (cases "check_relation names r :: 'te vmsg + _")
    case (Inl m)
    then have "\<not> relation_ok names r"
      using check_relation_Inr_iff [of names r, where ?'a = 'te] by auto
    then show ?thesis
      using Inl Cons.IH [of acc "push_code Ctr008 m None ds"] by (auto simp: relation_step_pair)
  next
    case (Inr cl)
    then have ok: "relation_ok names r"
      using check_relation_Inr_iff [of names r, where ?'a = 'te] by auto
    from Cons.IH [of "acc @ [cl]" ds]
    obtain ds' rels where IH: "fold (relation_step names) rs (acc @ [cl], ds) = ((acc @ [cl]) @ rels, ds')"
      "has_errors ds' \<longleftrightarrow> has_errors ds \<or> (\<exists>r \<in> set rs. \<not> relation_ok names r)"
      "\<not> has_errors ds' \<longrightarrow> map Inr rels = map (check_relation names :: _ \<Rightarrow> 'te vmsg + _) rs"
      by blast
    show ?thesis
      using Inr ok IH
      by (intro exI [of _ ds'] exI [of _ "cl # rels"]) (auto simp: relation_step_pair)
  qed
qed simp

definition memory_ok :: "checked_param list \<Rightarrow> memory_block_schema option \<Rightarrow> bool" where
  "memory_ok ps m \<longleftrightarrow> (case m of None \<Rightarrow> True | Some b \<Rightarrow>
     distinct (map mr_name (mb_regions b)) \<and>
     (\<forall>r \<in> set (mb_regions b). region_ok ps r) \<and>
     (\<forall>l \<in> set (mb_relations b). relation_ok (mr_name ` set (mb_regions b)) l))"

text \<open>What the checked memory block is when nothing was reported: the pointwise image of the
  declared one.\<close>

definition memory_image :: "'te itself \<Rightarrow> checked_param list \<Rightarrow> memory_block_schema option \<Rightarrow> checked_memory option \<Rightarrow> bool" where
  "memory_image te ps m cm \<longleftrightarrow> (case m of None \<Rightarrow> cm = None | Some b \<Rightarrow>
     (\<exists>regs rels. cm = Some \<lparr>cm_regions = regs, cm_relations = rels\<rparr> \<and>
       map Inr regs = map (check_region ps :: _ \<Rightarrow> 'te vmsg + _) (mb_regions b) \<and>
       map Inr rels = map (check_relation (mr_name ` set (mb_regions b)) :: _ \<Rightarrow> 'te vmsg + _) (mb_relations b)))"

lemma check_memory_spec:
  "\<exists>cm ds'. check_memory m ps (ds :: 'te vdiags) = (cm, ds') \<and>
    (has_errors ds' \<longleftrightarrow> has_errors ds \<or> \<not> memory_ok ps m) \<and>
    (\<not> has_errors ds' \<longrightarrow> memory_image TYPE('te) ps m cm)"
proof (cases m)
  case (Some b)
  obtain ds1 regs where regs: "fold (region_step ps) (mb_regions b) ({}, [], ds) =
      (mr_name ` set (mb_regions b), regs, ds1)"
    "has_errors ds1 \<longleftrightarrow> has_errors ds \<or> \<not> distinct (map mr_name (mb_regions b)) \<or>
       (\<exists>r \<in> set (mb_regions b). \<not> region_ok ps r)"
    "\<not> has_errors ds1 \<longrightarrow> map Inr regs = map (check_region ps :: _ \<Rightarrow> 'te vmsg + _) (mb_regions b)"
    using fold_region_step [of ps "mb_regions b" "{}" "[]" ds] by auto
  obtain ds2 rels where rels: "fold (relation_step (mr_name ` set (mb_regions b))) (mb_relations b) ([], ds1) = (rels, ds2)"
    "has_errors ds2 \<longleftrightarrow> has_errors ds1 \<or>
       (\<exists>l \<in> set (mb_relations b). \<not> relation_ok (mr_name ` set (mb_regions b)) l)"
    "\<not> has_errors ds2 \<longrightarrow>
       map Inr rels = map (check_relation (mr_name ` set (mb_regions b)) :: _ \<Rightarrow> 'te vmsg + _) (mb_relations b)"
    using fold_relation_step [of "mr_name ` set (mb_regions b)" "mb_relations b" "[]" ds1] by auto
  show ?thesis
    using Some regs rels by (auto simp: check_memory_def memory_ok_def memory_image_def)
qed (simp add: check_memory_def memory_ok_def memory_image_def)

definition override_ok :: "target_override_schema \<Rightarrow> bool" where
  "override_ok ov \<longleftrightarrow> (\<exists>t. parse_known (to_target ov) = Inr t)"

definition override_of :: "target_override_schema \<Rightarrow> string option" where
  "override_of ov = (case parse_known (to_target ov) of Inr t \<Rightarrow> Some (tname t) | Inl _ \<Rightarrow> None)"

lemma fold_check_override:
  "\<exists>ds'. fold check_override ovs (acc, ds) = (acc @ List.map_filter override_of ovs, ds') \<and>
    (has_errors ds' \<longleftrightarrow> has_errors ds \<or> (\<exists>ov \<in> set ovs. \<not> override_ok ov))"
proof (induction ovs arbitrary: acc ds)
  case (Cons ov ovs)
  obtain ds1 where ds1: "check_override ov (acc, ds) = (acc @ List.map_filter override_of [ov], ds1)"
    "has_errors ds1 \<longleftrightarrow> has_errors ds \<or> \<not> override_ok ov"
    by (cases "parse_known (to_target ov)")
       (auto simp: check_override_def override_of_def override_ok_def List.map_filter_def)
  show ?case
    using Cons.IH [of "acc @ List.map_filter override_of [ov]" ds1] ds1
    by (auto simp: List.map_filter_def)
qed (simp add: List.map_filter_def)

section \<open>What the validator accepts\<close>

definition doc_names :: "function_schema \<Rightarrow> string set" where
  "doc_names f = ps_name ` set (fn_parameters f) \<union> rs_name ` set (fn_returns f)"

definition doc_ok :: "contract_document \<Rightarrow> bool" where
  "doc_ok doc \<longleftrightarrow> (let f = doc_function doc;
       params = List.map_filter param_of (fn_parameters f);
       exprs = expr_names_of f (doc_names f) in
     contract_version doc = ''0.1'' \<and>
     distinct (map ps_name (fn_parameters f)) \<and>
     (\<forall>p \<in> set (fn_parameters f). type_ok (ps_ty p)) \<and>
     (\<forall>r \<in> set (fn_returns f). type_ok (rs_ty r)) \<and>
     (\<forall>c \<in> set (fn_requires f). cond_ok exprs c) \<and>
     (\<forall>c \<in> set (fn_ensures f). cond_ok exprs c) \<and>
     (\<forall>e \<in> set (fn_effects f). effect_region_ok (doc_names f) e) \<and>
     effects_consistent (fn_effects f) \<and>
     memory_ok params (fn_memory f) \<and>
     (\<forall>ov \<in> set (fn_target_overrides f). override_ok ov))"

text \<open>The composition of the checks, in one statement: the verdict and, when it is positive, each
  field of the checked contract.\<close>

lemma validate_document_spec:
  fixes ds :: "'te vdiags" and doc :: contract_document
  assumes "\<not> has_errors ds"
  defines "f \<equiv> doc_function doc"
  shows "(if doc_ok doc
     then \<exists>c cm ds'. validate_document doc ds = \<lparr>contract = Some c, diagnostics = ds'\<rparr> \<and> \<not> has_errors ds' \<and>
       c = \<lparr>version_major = 0, version_minor = 1, c_name = fn_name f,
          c_summary = fn_summary f, c_parameters = List.map_filter param_of (fn_parameters f),
          c_returns = List.map_filter return_of (fn_returns f),
          c_requires = List.map_filter cond_of (fn_requires f),
          c_ensures = List.map_filter cond_of (fn_ensures f), c_effects = fn_effects f,
          c_memory = cm, c_constraints = fn_constraints f,
          c_target_overrides = List.map_filter override_of (fn_target_overrides f)\<rparr> \<and>
       memory_image TYPE('te) (List.map_filter param_of (fn_parameters f)) (fn_memory f) cm
     else \<exists>ds'. validate_document doc ds = \<lparr>contract = None, diagnostics = ds'\<rparr> \<and> has_errors ds')"
proof (cases "contract_version doc = ''0.1''")
  case False
  then show ?thesis by (simp add: validate_document_def doc_ok_def Let_def)
next
  case True
  define ps where "ps = List.map_filter param_of (fn_parameters f)"
  define ns where "ns = expr_names_of f (doc_names f)"
  obtain ds1 where 1: "fold check_param (fn_parameters f) ({}, [], ds) = (ps_name ` set (fn_parameters f), ps, ds1)"
    "has_errors ds1 \<longleftrightarrow> \<not> distinct (map ps_name (fn_parameters f)) \<or>
        (\<exists>p \<in> set (fn_parameters f). \<not> type_ok (ps_ty p))"
    using fold_check_param [of "fn_parameters f" "{}" "[]" ds] assms by (auto simp: ps_def)
  obtain ds2 where 2: "fold check_return (fn_returns f) (ps_name ` set (fn_parameters f), [], ds1) =
      (doc_names f, List.map_filter return_of (fn_returns f), ds2)"
    "has_errors ds2 \<longleftrightarrow> has_errors ds1 \<or> (\<exists>r \<in> set (fn_returns f). \<not> type_ok (rs_ty r))"
    using fold_check_return [of "fn_returns f" "ps_name ` set (fn_parameters f)" "[]" ds1]
    by (auto simp: doc_names_def)
  obtain ds3 where 3: "check_conditions (fn_requires f) ns [] ds2 = (List.map_filter cond_of (fn_requires f), ds3)"
    "has_errors ds3 \<longleftrightarrow> has_errors ds2 \<or> (\<exists>c \<in> set (fn_requires f). \<not> cond_ok ns c)"
    using check_conditions_spec [of "fn_requires f" ns "[]" ds2] by auto
  obtain ds4 where 4: "check_conditions (fn_ensures f) ns [] ds3 = (List.map_filter cond_of (fn_ensures f), ds4)"
    "has_errors ds4 \<longleftrightarrow> has_errors ds3 \<or> (\<exists>c \<in> set (fn_ensures f). \<not> cond_ok ns c)"
    using check_conditions_spec [of "fn_ensures f" ns "[]" ds3] by auto
  obtain cm ds6 where 6: "check_memory (fn_memory f) ps (check_effects (fn_effects f) (doc_names f) ds4) = (cm, ds6)"
    "has_errors ds6 \<longleftrightarrow> has_errors (check_effects (fn_effects f) (doc_names f) ds4) \<or> \<not> memory_ok ps (fn_memory f)"
    "\<not> has_errors ds6 \<longrightarrow> memory_image TYPE('te) ps (fn_memory f) cm"
    using check_memory_spec by blast
  obtain ds7 where 7: "fold check_override (fn_target_overrides f) ([], ds6) =
      (List.map_filter override_of (fn_target_overrides f), ds7)"
    "has_errors ds7 \<longleftrightarrow> has_errors ds6 \<or> (\<exists>ov \<in> set (fn_target_overrides f). \<not> override_ok ov)"
    using fold_check_override [of "fn_target_overrides f" "[]" ds6] by auto
  have ok: "doc_ok doc \<longleftrightarrow> \<not> has_errors ds7"
    using True 1(2) 2(2) 3(2) 4(2) 6(2) 7(2)
    by (auto simp: doc_ok_def Let_def f_def [symmetric] ps_def [symmetric] ns_def [symmetric] has_errors_check_effects)
  show ?thesis
    using True 1(1) 2(1) 3(1) 4(1) 6(1,3) 7 ok
    by (simp add: validate_document_def Let_def f_def [symmetric] ps_def [symmetric] ns_def [symmetric])
qed

section \<open>The invariant of checked contracts\<close>

text \<open>What the evidence engines may assume of the contract they are given.\<close>

definition wf_length :: "checked_param list \<Rightarrow> length_spec \<Rightarrow> bool" where
  "wf_length ps l = (case l of
     Literal n \<Rightarrow> int n \<le> u64_max
   | Param x \<Rightarrow> (\<exists>p \<in> set ps. cp_name p = x \<and> is_integer_sem_type (cp_ty p)))"

definition wf_region :: "checked_param list \<Rightarrow> checked_region \<Rightarrow> bool" where
  "wf_region ps r \<longleftrightarrow>
     (\<exists>p \<in> set ps. cp_name p = cr_base_param r \<and> (\<exists>t c. cp_ty p = Ptr t c)) \<and>
     in_i64 (cr_offset r) \<and> wf_length ps (cr_length r)"

definition wf_memory :: "checked_param list \<Rightarrow> checked_memory \<Rightarrow> bool" where
  "wf_memory ps m \<longleftrightarrow> distinct (map cr_name (cm_regions m)) \<and>
     (\<forall>r \<in> set (cm_regions m). wf_region ps r) \<and>
     (\<forall>l \<in> set (cm_relations m).
        cl_left l \<in> cr_name ` set (cm_regions m) \<and> cl_right l \<in> cr_name ` set (cm_regions m))"

definition region_names :: "checked_contract \<Rightarrow> string set" where
  "region_names c = (case c_memory c of None \<Rightarrow> {} | Some m \<Rightarrow> cr_name ` set (cm_regions m))"

definition contract_names :: "checked_contract \<Rightarrow> string set" where
  "contract_names c = {''regions''} \<union> cp_name ` set (c_parameters c) \<union> ct_name ` set (c_returns c) \<union> region_names c"

definition wf_condition :: "string set \<Rightarrow> checked_condition \<Rightarrow> bool" where
  "wf_condition names cc \<longleftrightarrow> wf_expr (cc_expr cc) \<and> idents (cc_expr cc) \<subseteq> names"

definition wf_contract :: "checked_contract \<Rightarrow> bool" where
  "wf_contract c \<longleftrightarrow>
     distinct (map cp_name (c_parameters c)) \<and>
     (\<forall>p \<in> set (c_parameters c). wf_type (cp_ty p)) \<and>
     (\<forall>r \<in> set (c_returns c). wf_type (ct_ty r)) \<and>
     (\<forall>cc \<in> set (c_requires c @ c_ensures c). wf_condition (contract_names c) cc) \<and>
     (\<forall>m. c_memory c = Some m \<longrightarrow> wf_memory (c_parameters c) m) \<and>
     (\<forall>n \<in> set (c_target_overrides c). \<exists>t. parse_known n = Inr t \<and> tname t = n)"

lemma map_filter_total:
  "(\<And>x. x \<in> set xs \<Longrightarrow> \<exists>y. f x = Some y \<and> h y = g x) \<Longrightarrow> map h (List.map_filter f xs) = map g xs"
  by (induction xs) (fastforce simp: List.map_filter_def)+

lemma set_map_filterD: "y \<in> set (List.map_filter f xs) \<Longrightarrow> \<exists>x \<in> set xs. f x = Some y"
  by (auto simp: List.map_filter_def)

lemma find_param_Some: "find_param x ps = Some p \<Longrightarrow> p \<in> set ps \<and> cp_name p = x"
  unfolding find_param_def find_Some_iff by auto

lemma parse_i64_literal_range: "parse_i64_literal s = Some v \<Longrightarrow> in_i64 v"
  by (auto simp: parse_i64_literal_def Let_def rust_int split: option.splits if_splits)

lemma parse_u64_literal_range: "parse_u64_literal s = Some n \<Longrightarrow> int n \<le> u64_max"
  by (auto simp: parse_u64_literal_def parse_u64_digits_def Let_def split: if_splits)

lemma wf_length_parse: "parse_length_spec s ps = Inr l \<Longrightarrow> wf_length ps l"
  by (auto simp: parse_length_spec_def wf_length_def parse_u64_literal_range dest!: find_param_Some
      split: option.splits if_splits)

lemma in_i64_0: "in_i64 0"
  by (simp add: rust_int)

lemma wf_check_region: "check_region ps r = Inr cr \<Longrightarrow> wf_region ps cr \<and> cr_name cr = mr_name r"
  by (auto simp: check_region_def wf_region_def wf_length_parse parse_i64_literal_range in_i64_0
      dest!: find_param_Some split: option.splits sum.splits sem_type.splits if_splits)

lemma check_relation_ends:
  "check_relation names r = Inr cl \<Longrightarrow> cl_left cl \<in> names \<and> cl_right cl \<in> names"
  by (auto simp: check_relation_def split: option.splits sum.splits if_splits)

lemma wf_memory_image:
  assumes "memory_image te ps (Some b) (Some m)" "distinct (map mr_name (mb_regions b))"
  shows "wf_memory ps m \<and> cr_name ` set (cm_regions m) = mr_name ` set (mb_regions b)"
proof -
  from assms obtain regs rels where m: "m = \<lparr>cm_regions = regs, cm_relations = rels\<rparr>"
    and regs: "map Inr regs = map (check_region ps :: _ \<Rightarrow> 'a vmsg + _) (mb_regions b)"
    and rels: "map Inr rels = map (check_relation (mr_name ` set (mb_regions b)) :: _ \<Rightarrow> 'a vmsg + _) (mb_relations b)"
    by (auto simp: memory_image_def)
  have len: "length regs = length (mb_regions b)" "length rels = length (mb_relations b)"
    using regs rels by (metis length_map)+
  have reg: "check_region ps (mb_regions b ! i) = (Inr (regs ! i) :: 'a vmsg + _)" if "i < length regs" for i
    using regs that len by (metis nth_map)
  have rel: "check_relation (mr_name ` set (mb_regions b)) (mb_relations b ! i) = (Inr (rels ! i) :: 'a vmsg + _)"
    if "i < length rels" for i
    using rels that len by (metis nth_map)
  have names: "map cr_name regs = map mr_name (mb_regions b)"
    by (rule nth_equalityI) (use len wf_check_region [OF reg] in auto)
  then have set: "cr_name ` set regs = mr_name ` set (mb_regions b)" by (metis set_map)
  have "\<forall>r \<in> set regs. wf_region ps r"
    using reg wf_check_region by (metis in_set_conv_nth)
  moreover have "\<forall>l \<in> set rels. cl_left l \<in> cr_name ` set regs \<and> cl_right l \<in> cr_name ` set regs"
    unfolding set using rel check_relation_ends by (metis in_set_conv_nth)
  ultimately show ?thesis
    using names set assms(2) by (simp add: wf_memory_def m)
qed


lemma param_of_Some: "param_of p = Some cp \<Longrightarrow> cp_name cp = ps_name p \<and> wf_type (cp_ty cp)"
  by (auto simp: param_of_def split: pres.splits dest: type_parse_wf)

lemma return_of_Some: "return_of r = Some cr \<Longrightarrow> ct_name cr = rs_name r \<and> wf_type (ct_ty cr)"
  by (auto simp: return_of_def split: pres.splits dest: type_parse_wf)

lemma type_ok_defined:
  "type_ok (ps_ty p) \<Longrightarrow> \<exists>cp. param_of p = Some cp"
  "type_ok (rs_ty r) \<Longrightarrow> \<exists>cr. return_of r = Some cr"
  by (auto simp: type_ok_def param_of_def return_of_def)

lemma wf_param_of:
  assumes "\<forall>p \<in> set ps. type_ok (ps_ty p)"
  shows "map cp_name (List.map_filter param_of ps) = map ps_name ps"
    and "\<forall>p \<in> set (List.map_filter param_of ps). wf_type (cp_ty p)"
  using assms type_ok_defined(1) param_of_Some
  by (metis map_filter_total) (metis param_of_Some set_map_filterD)

lemma wf_return_of:
  assumes "\<forall>r \<in> set rs. type_ok (rs_ty r)"
  shows "map ct_name (List.map_filter return_of rs) = map rs_name rs"
    and "\<forall>r \<in> set (List.map_filter return_of rs). wf_type (ct_ty r)"
  using assms type_ok_defined(2) return_of_Some
  by (metis map_filter_total) (metis return_of_Some set_map_filterD)

lemma cond_of_Some:
  "cond_of c = Some cc \<Longrightarrow> cond_ok names c \<Longrightarrow> wf_condition names cc"
  by (auto simp: cond_of_def cond_ok_def wf_condition_def split: pres.splits dest: expr_parse_wf)

lemma wf_cond_of:
  "\<forall>c \<in> set cs. cond_ok names c \<Longrightarrow> \<forall>cc \<in> set (List.map_filter cond_of cs). wf_condition names cc"
  by (meson cond_of_Some set_map_filterD)

lemma wf_override_of:
  "n \<in> set (List.map_filter override_of ovs) \<Longrightarrow> \<exists>t. parse_known n = Inr t \<and> tname t = n"
  using parse_known_range
  by (fastforce simp: override_of_def parse_known_canonical_names dest!: set_map_filterD split: sum.splits)

lemma wf_validate_document:
  assumes "contract (validate_document doc ds :: 'te check_result) = Some c" "\<not> has_errors ds"
  shows "wf_contract c"
proof -
  define f where "f = doc_function doc"
  define ps where "ps = List.map_filter param_of (fn_parameters f)"
  have ok: "doc_ok doc" and c: "\<exists>cm. c = \<lparr>version_major = 0, version_minor = 1, c_name = fn_name f,
          c_summary = fn_summary f, c_parameters = ps,
          c_returns = List.map_filter return_of (fn_returns f),
          c_requires = List.map_filter cond_of (fn_requires f),
          c_ensures = List.map_filter cond_of (fn_ensures f), c_effects = fn_effects f,
          c_memory = cm, c_constraints = fn_constraints f,
          c_target_overrides = List.map_filter override_of (fn_target_overrides f)\<rparr> \<and>
       memory_image TYPE('te) ps (fn_memory f) cm"
    using validate_document_spec [OF assms(2), of doc] assms(1)
    by (auto simp: f_def ps_def split: if_splits)
  then obtain cm where fields: "c_parameters c = ps" "c_returns c = List.map_filter return_of (fn_returns f)"
      "c_requires c = List.map_filter cond_of (fn_requires f)" "c_ensures c = List.map_filter cond_of (fn_ensures f)"
      "c_memory c = cm" "c_target_overrides c = List.map_filter override_of (fn_target_overrides f)"
      "memory_image TYPE('te) ps (fn_memory f) cm" by auto
  have types: "\<forall>p \<in> set (fn_parameters f). type_ok (ps_ty p)" "\<forall>r \<in> set (fn_returns f). type_ok (rs_ty r)"
    and dist: "distinct (map ps_name (fn_parameters f))"
    and conds: "\<forall>cc \<in> set (fn_requires f) \<union> set (fn_ensures f). cond_ok (expr_names_of f (doc_names f)) cc"
    and mem: "memory_ok ps (fn_memory f)"
    using ok by (auto simp: doc_ok_def Let_def f_def ps_def)
  have memory: "(\<forall>m. cm = Some m \<longrightarrow> wf_memory ps m) \<and>
      region_names c = (case fn_memory f of None \<Rightarrow> {} | Some b \<Rightarrow> mr_name ` set (mb_regions b))"
  proof (cases "fn_memory f")
    case (Some b)
    then obtain m where m: "cm = Some m" using fields(7) by (auto simp: memory_image_def)
    show ?thesis
      using wf_memory_image [of "TYPE('te)" ps b m] fields(5,7) Some m mem
      by (simp add: memory_ok_def region_names_def)
  qed (use fields(5,7) in \<open>simp add: memory_image_def region_names_def\<close>)
  have names: "expr_names_of f (doc_names f) = contract_names c"
    using memory wf_param_of(1) [OF types(1)] wf_return_of(1) [OF types(2)]
    by (auto simp: expr_names_of_def doc_names_def contract_names_def fields ps_def
        simp flip: set_map split: option.splits)
  show ?thesis
    unfolding wf_contract_def fields
    using wf_param_of [OF types(1)] wf_return_of [OF types(2)] dist memory conds names
      wf_cond_of [of "fn_requires f" "contract_names c"] wf_cond_of [of "fn_ensures f" "contract_names c"]
    by (auto simp: ps_def dest: wf_override_of)
qed

section \<open>Every diagnostic is a coded error\<close>

definition coded :: "'m diagnostic \<Rightarrow> bool" where
  "coded d \<longleftrightarrow> dlevel d = Error \<and> (\<exists>c. dcode d = Some (code_as_str c))"

definition all_coded :: "'m diagnostics \<Rightarrow> bool" where
  "all_coded ds = list_all coded ds"

named_theorems coded_rules

lemma coded_push_code [coded_rules]: "all_coded ds \<Longrightarrow> all_coded (push_code c m sp ds)"
  by (auto simp: all_coded_def coded_def push_code_def diag_push_def diag_error_def with_code_def
      with_span_def Let_def split: option.split)

lemma coded_push_unknown [coded_rules]: "all_coded ds \<Longrightarrow> all_coded (push_unknown msg names ids ds)"
  unfolding push_unknown_def by (induction ids arbitrary: ds) (auto intro: coded_rules)

lemma coded_fold3:
  assumes "\<And>x a b ds. all_coded ds \<Longrightarrow> all_coded (snd (snd (f x (a, b, ds))))" "all_coded ds"
  shows "all_coded (snd (snd (fold f xs (a, b, ds))))"
  using assms(2)
proof (induction xs arbitrary: a b ds)
  case (Cons x xs)
  obtain a' b' ds' where "f x (a, b, ds) = (a', b', ds')" by (metis prod_cases3)
  then show ?case using Cons assms(1) [of ds x a b] by simp
qed simp

lemma coded_fold2:
  assumes "\<And>x a ds. all_coded ds \<Longrightarrow> all_coded (snd (f x (a, ds)))" "all_coded ds"
  shows "all_coded (snd (fold f xs (a, ds)))"
  using assms(2)
proof (induction xs arbitrary: a ds)
  case (Cons x xs)
  obtain a' ds' where "f x (a, ds) = (a', ds')" by (metis surj_pair)
  then show ?case using Cons assms(1) [of ds x a] by simp
qed simp

lemma coded_check_param [coded_rules]: "all_coded ds \<Longrightarrow> all_coded (snd (snd (check_param p (a, b, ds))))"
  by (auto simp: check_param_def Let_def intro: coded_rules split: pres.split)

lemma coded_check_return [coded_rules]: "all_coded ds \<Longrightarrow> all_coded (snd (snd (check_return p (a, b, ds))))"
  by (auto simp: check_return_def Let_def intro: coded_rules split: pres.split)

lemma coded_region_step [coded_rules]: "all_coded ds \<Longrightarrow> all_coded (snd (snd (region_step ps p (a, b, ds))))"
  by (auto simp: region_step_pair intro: coded_rules split: sum.split)

lemma coded_relation_step [coded_rules]: "all_coded ds \<Longrightarrow> all_coded (snd (relation_step n p (a, ds)))"
  by (auto simp: relation_step_pair intro: coded_rules split: sum.split)

lemma coded_check_override [coded_rules]: "all_coded ds \<Longrightarrow> all_coded (snd (check_override p (a, ds)))"
  by (auto simp: check_override_def intro: coded_rules split: sum.split)

lemma coded_check_conditions [coded_rules]:
  "all_coded ds \<Longrightarrow> all_coded (snd (check_conditions cs names acc ds))"
  unfolding check_conditions_def
  by (rule coded_fold2) (auto simp: check_condition_def intro: coded_rules split: pres.split)

lemma coded_check_effects [coded_rules]: "all_coded ds \<Longrightarrow> all_coded (check_effects es names ds)"
proof -
  assume *: "all_coded ds"
  have "all_coded (fold (check_effect_region names) es ds)" using *
    by (induction es arbitrary: ds)
       (auto simp: check_effect_region_def intro: coded_rules split: option.split pres.split)
  then show ?thesis by (auto simp: check_effects_def Let_def intro: coded_rules)
qed

lemma coded_folds:
  "all_coded ds \<Longrightarrow> fold check_param ps1 (a, b, ds) = (a1, b1, ds1) \<Longrightarrow> all_coded ds1"
  "all_coded ds \<Longrightarrow> fold check_return rs1 (a, b2, ds) = (a2, b3, ds2) \<Longrightarrow> all_coded ds2"
  "all_coded ds \<Longrightarrow> fold (region_step ps) ms (a, b4, ds) = (a3, b5, ds3) \<Longrightarrow> all_coded ds3"
  "all_coded ds \<Longrightarrow> fold (relation_step n) ls (c, ds) = (c1, ds4) \<Longrightarrow> all_coded ds4"
  "all_coded ds \<Longrightarrow> fold check_override os (d, ds) = (d1, ds5) \<Longrightarrow> all_coded ds5"
  using coded_fold3 [where f = check_param] coded_fold3 [where f = check_return]
    coded_fold3 [where f = "region_step ps"] coded_fold2 [where f = "relation_step n"]
    coded_fold2 [where f = check_override]
  by (metis snd_conv coded_rules)+

lemma coded_check_memory [coded_rules]: "all_coded ds \<Longrightarrow> all_coded (snd (check_memory m ps ds))"
  unfolding check_memory_def by (auto simp: Let_def split: option.split prod.split dest: coded_folds)

lemma coded_validate_document:
  assumes "all_coded ds"
  shows "all_coded (diagnostics (validate_document doc ds))"
proof (cases "contract_version doc = ''0.1''")
  case False
  then show ?thesis using assms by (auto simp: validate_document_def intro: coded_rules)
next
  case True
  define f where "f = doc_function doc"
  obtain n1 ps ds1 where 1: "fold check_param (fn_parameters f) ({}, [], ds) = (n1, ps, ds1)" by (metis prod_cases3)
  obtain n2 rs ds2 where 2: "fold check_return (fn_returns f) (n1, [], ds1) = (n2, rs, ds2)" by (metis prod_cases3)
  obtain q ds3 where 3: "check_conditions (fn_requires f) (expr_names_of f n2) [] ds2 = (q, ds3)" by (metis surj_pair)
  obtain e ds4 where 4: "check_conditions (fn_ensures f) (expr_names_of f n2) [] ds3 = (e, ds4)" by (metis surj_pair)
  obtain m ds6 where 6: "check_memory (fn_memory f) ps (check_effects (fn_effects f) n2 ds4) = (m, ds6)" by (metis surj_pair)
  obtain t ds7 where 7: "fold check_override (fn_target_overrides f) ([], ds6) = (t, ds7)" by (metis surj_pair)
  have "all_coded ds2"
    using coded_folds(2) [OF coded_folds(1) [OF assms 1] 2] .
  then have "all_coded ds4"
    using coded_check_conditions 3 4 by (metis snd_conv)
  then have "all_coded ds6"
    using coded_check_memory [OF coded_check_effects] 6 by (metis snd_conv)
  then have "all_coded ds7"
    using coded_folds(5) [OF _ 7] by simp
  then show ?thesis
    using True 1 2 3 4 6 7 by (simp add: validate_document_def Let_def f_def)
qed

section \<open>Properties\<close>

text \<open>A contract in the style of the repository's \<open>memcpy\<close> examples.\<close>

definition memcpy_doc :: contract_document where
  "memcpy_doc = \<lparr>contract_version = ''0.1'', doc_function = \<lparr>
     fn_name = ''memcpy'', fn_summary = None, fn_visibility = None,
     fn_parameters =
       [\<lparr>ps_name = ''dst'', ps_ty = ''ptr<u8>'', ps_role = None\<rparr>,
        \<lparr>ps_name = ''src'', ps_ty = ''ptr<const u8>'', ps_role = None\<rparr>,
        \<lparr>ps_name = ''n'', ps_ty = ''usize'', ps_role = None\<rparr>],
     fn_returns = [\<lparr>rs_name = ''r'', rs_ty = ''usize''\<rparr>],
     fn_requires = [\<lparr>cs_expression = ''n <= 64'', cs_reason = None\<rparr>],
     fn_ensures = [],
     fn_effects = [\<lparr>ef_kind = ''memory_write'', ef_region = Some ''d'', ef_resource = None\<rparr>],
     fn_memory = Some \<lparr>mb_regions =
       [\<lparr>mr_name = ''d'', mr_base = ''dst'', mr_offset = None, mr_length = ''n'', mr_access = ''write''\<rparr>,
        \<lparr>mr_name = ''s'', mr_base = ''src'', mr_offset = Some ''-8'', mr_length = ''64'', mr_access = ''read''\<rparr>],
       mb_relations = [\<lparr>ml_left = ''d'', ml_right = ''s'', ml_require = ''disjoint'', ml_basis = Some ''precondition''\<rparr>]\<rparr>,
     fn_constraints = None, fn_target_overrides = [\<lparr>to_target = ''x86_64-linux-gnu'', to_notes = None\<rparr>]\<rparr>\<rparr>"

lemma memcpy_accepted: "contract (validate_document memcpy_doc [] :: unit check_result) \<noteq> None"
  by code_simp

lemma code_parse_codes:
  "code_parse ''CTR001'' = Some Ctr001" "code_parse ''CTR002'' = Some Ctr002"
  "code_parse ''CTR003'' = Some Ctr003" "code_parse ''CTR004'' = Some Ctr004"
  "code_parse ''CTR005'' = Some Ctr005" "code_parse ''CTR006'' = Some Ctr006"
  "code_parse ''CTR007'' = Some Ctr007" "code_parse ''CTR008'' = Some Ctr008"
  by code_simp+

lemma code_parse_as_str: "code_parse (code_as_str c) = Some c"
  by (cases c) (simp_all add: code_parse_codes)

text \<open>C7: the validator accepts a document exactly when it is well formed: version 0.1, distinct
  parameter names, parsable types, parsable conditions over declared names, effect regions and
  effect kinds that do not contradict each other, a memory block whose regions are based on
  pointer parameters with interpretable offset, length and access, relations between declared
  regions, and known target overrides. The verdict \<open>CheckResult::ok\<close> agrees with it.\<close>

theorem validate_accepts_iff:
  "(contract (validate_document doc [] :: 'te check_result) \<noteq> None \<longleftrightarrow> doc_ok doc) \<and>
   (check_ok (validate_document doc [] :: 'te check_result) \<longleftrightarrow> doc_ok doc)"
  using validate_document_spec [of "[] :: 'te vdiags" doc]
  by (auto simp: check_ok_def split: if_splits)

text \<open>a rejected document never goes unexplained, and no diagnostic is anonymous: each one the
  validator emits is an error with one of the stable codes CTR001 to CTR008, a code that
  \<open>ContractCode::parse\<close> recognises, and there is none exactly when a contract is returned.\<close>

theorem validate_diagnostics_coded:
  "(\<forall>d \<in> set (diagnostics (validate_document doc [] :: 'te check_result)).
      dlevel d = Error \<and> (\<exists>c. dcode d = Some (code_as_str c) \<and> code_parse (code_as_str c) = Some c)) \<and>
   (contract (validate_document doc [] :: 'te check_result) = None \<longleftrightarrow>
      diagnostics (validate_document doc [] :: 'te check_result) \<noteq> [])"
proof -
  have parse: "code_parse (code_as_str c) = Some c" for c
    by (rule code_parse_as_str)
  have coded: "all_coded (diagnostics (validate_document doc [] :: 'te check_result))"
    by (rule coded_validate_document) (simp add: all_coded_def)
  then have "has_errors (diagnostics (validate_document doc [] :: 'te check_result)) \<longleftrightarrow>
      diagnostics (validate_document doc [] :: 'te check_result) \<noteq> []"
    by (cases "diagnostics (validate_document doc [] :: 'te check_result)")
       (auto simp: all_coded_def coded_def has_errors_def)
  then show ?thesis
    using coded validate_document_spec [of "[] :: 'te vdiags" doc]
    by (auto simp: all_coded_def coded_def list_all_iff parse split: if_splits)
qed

theorem validate_diagnostics_coded_witness:
  "\<exists>d ds. diagnostics (validate_document (memcpy_doc\<lparr>contract_version := ''9''\<rparr>) [] :: unit check_result) = d # ds \<and>
     (\<exists>c. dcode d = Some (code_as_str c) \<and> code_parse (code_as_str c) = Some c)"
proof -
  let ?r = "validate_document (memcpy_doc\<lparr>contract_version := ''9''\<rparr>) [] :: unit check_result"
  have "contract ?r = None" by code_simp
  then have "diagnostics ?r \<noteq> []" using validate_diagnostics_coded by blast
  then obtain d ds where "diagnostics ?r = d # ds" by (cases "diagnostics ?r") auto
  then show ?thesis
    using validate_diagnostics_coded [of "memcpy_doc\<lparr>contract_version := ''9''\<rparr>", where ?'te = unit] by auto
qed

text \<open>the contract the validator returns satisfies the invariant the evidence engines rely on:
  distinct parameters of well-formed types, conditions over known names only, distinct regions
  each based on a pointer parameter with an offset in \<open>i64\<close> and a length that is an integer
  parameter or a \<open>u64\<close> literal, relations between declared regions, canonical override names.\<close>

theorem validate_contract_wf:
  assumes "contract (validate_document doc [] :: 'te check_result) = Some c"
  shows "wf_contract c"
  using wf_validate_document [OF assms] by simp

theorem validate_contract_wf_witness:
  "wf_contract (the (contract (validate_document memcpy_doc [] :: unit check_result)))"
proof -
  obtain c where "contract (validate_document memcpy_doc [] :: unit check_result) = Some c"
    using memcpy_accepted by auto
  with validate_contract_wf [OF this] show ?thesis by simp
qed

end
