(* ===== verification/Fail_Closed.thy ===== *)
theory Fail_Closed
  imports Prelude
begin

text \<open>
  The interface the evidence slices share. Each slice of \<open>semasm-contract\<close> (alias relations, region
  accesses, contract expressions) judges its rows one by one and folds the judgements into one of
  four statuses, the worst one winning. The locale states that contract once; the slices
  interpret it on their own row types, status enums and loops.
\<close>

datatype verdict = Proved | Silent | Owed | Open | Refuted

text \<open>How bad a verdict is; \<open>Silent\<close> rows (out of the slice's scope) weigh nothing.\<close>

fun severity :: "verdict \<Rightarrow> nat" where
  "severity Proved = 0"
| "severity Silent = 0"
| "severity Owed = 1"
| "severity Open = 2"
| "severity Refuted = 3"

definition worst :: "verdict set \<Rightarrow> nat" where
  "worst V = (if Refuted \<in> V then 3 else if Open \<in> V then 2 else if Owed \<in> V then 1 else 0)"

lemma severity_le:
  "severity v = 0 \<longleftrightarrow> v \<notin> {Owed, Open, Refuted}"
  "severity v \<le> Suc 0 \<longleftrightarrow> v \<notin> {Open, Refuted}"
  "severity v \<le> 2 \<longleftrightarrow> v \<noteq> Refuted"
  "severity v \<le> 3"
  by (cases v; simp)+

lemma worst_le_iff: "worst V \<le> k \<longleftrightarrow> (\<forall>v \<in> V. severity v \<le> k)"
proof -
  consider "k = 0" | "k = Suc 0" | "k = 2" | "3 \<le> k" by linarith
  then show ?thesis
    by cases (auto simp: worst_def severity_le intro: order_trans [OF severity_le(4)])
qed

locale fail_closed =
  fixes verdict_of :: "'row \<Rightarrow> verdict"
    and status :: "'row list \<Rightarrow> 'status"
    and rank :: "'status \<Rightarrow> nat"
  assumes rank_status: "rank (status rows) = worst (verdict_of ` set rows)"
begin

lemma rank_le_iff: "rank (status rows) \<le> k \<longleftrightarrow> (\<forall>r \<in> set rows. severity (verdict_of r) \<le> k)"
  by (simp add: rank_status worst_le_iff)

lemma rank_ge: "r \<in> set rows \<Longrightarrow> severity (verdict_of r) \<le> rank (status rows)"
  using rank_le_iff by blast

lemma best_iff:
  "rank (status rows) = 0 \<longleftrightarrow> (\<forall>r \<in> set rows. verdict_of r = Proved \<or> verdict_of r = Silent)"
proof -
  have "v \<notin> {Owed, Open, Refuted} \<longleftrightarrow> v = Proved \<or> v = Silent" for v by (cases v) auto
  then show ?thesis using rank_le_iff [of rows 0] by (simp add: severity_le)
qed

lemma conditional_iff:
  "rank (status rows) \<le> 1 \<longleftrightarrow> (\<forall>r \<in> set rows. verdict_of r \<noteq> Open \<and> verdict_of r \<noteq> Refuted)"
  by (auto simp: rank_le_iff severity_le)

lemma rank_bound: "rank (status rows) \<le> 3"
  by (simp add: rank_le_iff severity_le)

lemma worst_iff: "rank (status rows) = 3 \<longleftrightarrow> (\<exists>r \<in> set rows. verdict_of r = Refuted)"
  using rank_le_iff [of rows 2] rank_bound [of rows] by (force simp: severity_le)

text \<open>More evidence never improves a status, and the order of the rows is irrelevant.\<close>

lemma no_upgrade: "set rows \<subseteq> set rows' \<Longrightarrow> rank (status rows) \<le> rank (status rows')"
  using rank_le_iff rank_ge by (metis subsetD)

lemma order_irrelevant: "set rows = set rows' \<Longrightarrow> rank (status rows) = rank (status rows')"
  by (simp add: rank_status)

end

end
