(* ===== verification/Alias.thy ===== *)
theory Alias
  imports Validate Fail_Closed
begin

text \<open>
  Region/alias evidence: \<open>semasm-contract/src/alias.rs\<close>. \<open>evaluate_alias\<close> judges every declared
  relation between two memory regions from their affine descriptions and folds the rows into an
  aggregate status. The judgements are then compared with what they claim about memory: a layout
  assigns an address to every pointer parameter and a value to every integer parameter, and a
  region denotes a set of byte addresses.
\<close>

section \<open>Evidence types\<close>

datatype alias_status = AlPassed | AlPassedUnderPreconditions | AlIncomplete | AlFailed

fun alias_status_as_str :: "alias_status \<Rightarrow> string" where
  "alias_status_as_str AlPassed = ''passed''"
| "alias_status_as_str AlPassedUnderPreconditions = ''passed_under_preconditions''"
| "alias_status_as_str AlIncomplete = ''incomplete''"
| "alias_status_as_str AlFailed = ''failed''"

datatype relation_evidence_basis =
    ProvenStatic | DeclaredPrecondition | ObservedRuntime | BehavioralTest | AssumedEnvironment
  | UnknownBasis

fun basis_as_str :: "relation_evidence_basis \<Rightarrow> string" where
  "basis_as_str ProvenStatic = ''proven_static''"
| "basis_as_str DeclaredPrecondition = ''declared_precondition''"
| "basis_as_str ObservedRuntime = ''observed_runtime''"
| "basis_as_str BehavioralTest = ''behavioral_test''"
| "basis_as_str AssumedEnvironment = ''assumed_environment''"
| "basis_as_str UnknownBasis = ''unknown''"

datatype relation_observed =
    ProvenDisjoint | ProvenEqual | ProvenContains | ProvenPartialOverlap | MayOverlap
  | InvalidRegion | ObsNotEvaluated

fun observed_as_str :: "relation_observed \<Rightarrow> string" where
  "observed_as_str ProvenDisjoint = ''proven_disjoint''"
| "observed_as_str ProvenEqual = ''proven_equal''"
| "observed_as_str ProvenContains = ''proven_contains''"
| "observed_as_str ProvenPartialOverlap = ''proven_partial_overlap''"
| "observed_as_str MayOverlap = ''may_overlap''"
| "observed_as_str InvalidRegion = ''invalid_region''"
| "observed_as_str ObsNotEvaluated = ''not_evaluated''"

fun is_proven :: "relation_observed \<Rightarrow> bool" where
  "is_proven ProvenDisjoint = True"
| "is_proven ProvenEqual = True"
| "is_proven ProvenContains = True"
| "is_proven ProvenPartialOverlap = True"
| "is_proven _ = False"

text \<open>\<open>Indexed base_param scale displacement index_const index_max_exclusive\<close>.\<close>

datatype access_addr =
    Affine string int
  | Indexed string nat int "nat option" "nat option"
  | StackFrame
  | UnknownAddr

datatype access_mode = Load | Store

record observed_memory_access =
  oa_mode :: access_mode
  oa_width_bytes :: nat
  oa_addr :: access_addr
  oa_mnemonic :: string
  oa_instruction_offset :: nat

record alias_relation_evidence =
  re_left :: string
  re_right :: string
  re_required :: string
  re_observed :: relation_observed
  re_evidence_basis :: relation_evidence_basis
  re_basis :: string

record verification_obligation =
  vo_kind :: string
  vo_left :: string
  vo_right :: string
  vo_owner :: string

record alias_analysis_report =
  ar_model :: string
  ar_status :: alias_status
  ar_relations :: "alias_relation_evidence list"
  ar_unknown_memory_accesses :: nat
  ar_assumptions :: "string list"
  ar_unresolved_obligations :: "verification_obligation list"

section \<open>Judging one relation\<close>

fun relation_satisfies :: "relation_require \<Rightarrow> relation_observed \<Rightarrow> bool" where
  "relation_satisfies Disjoint observed = (observed = ProvenDisjoint)"
| "relation_satisfies Equal observed = (observed = ProvenEqual)"
| "relation_satisfies Contains observed = (observed = ProvenContains)"

fun contradicts :: "relation_require \<Rightarrow> relation_observed \<Rightarrow> bool" where
  "contradicts Disjoint observed =
     (observed = ProvenEqual \<or> observed = ProvenContains \<or> observed = ProvenPartialOverlap)"
| "contradicts Equal observed = (observed = ProvenDisjoint \<or> observed = ProvenPartialOverlap)"
| "contradicts Contains observed = (observed = ProvenDisjoint \<or> observed = ProvenPartialOverlap)"

text \<open>\<open>{l0},{l1}\<close> inside a half-open interval, as the basis strings print it.\<close>

definition show_span :: "int \<Rightarrow> int \<Rightarrow> string" where
  "show_span lo hi = ''['' @ show_int lo @ '','' @ show_int hi @ '')''"

definition observe_pair :: "checked_region \<Rightarrow> checked_region \<Rightarrow>
    relation_observed \<times> string \<times> relation_evidence_basis" where
  "observe_pair left right =
     (if cr_base_param left \<noteq> cr_base_param right then
        (MayOverlap,
         ''distinct_param_names_not_proof:'' @ cr_base_param left @ ''!='' @ cr_base_param right,
         UnknownBasis)
      else
        let l_off = cr_offset left; r_off = cr_offset right in
        case (cr_length left, cr_length right) of
          (Literal l_len, Literal r_len) \<Rightarrow>
            let l0 = l_off; l1 = saturating_add_unsigned l_off l_len;
                r0 = r_off; r1 = saturating_add_unsigned r_off r_len in
            if l0 = r0 \<and> l1 = r1 then
              (ProvenEqual, ''same_base_equal_span:'' @ show_span l0 l1, ProvenStatic)
            else if l0 \<le> r0 \<and> l1 \<ge> r1 then
              (ProvenContains, ''left_contains_right:'' @ show_span l0 l1 @ ''>='' @ show_span r0 r1,
               ProvenStatic)
            else if r0 \<le> l0 \<and> r1 \<ge> l1 then
              (ProvenPartialOverlap,
               ''right_contains_left:'' @ show_span r0 r1 @ ''>='' @ show_span l0 l1, ProvenStatic)
            else if l1 \<le> r0 \<or> r1 \<le> l0 then
              (ProvenDisjoint, ''same_base_const_disjoint:'' @ show_span l0 l1 @ ''|'' @ show_span r0 r1,
               ProvenStatic)
            else
              (ProvenPartialOverlap,
               ''same_base_partial_overlap:'' @ show_span l0 l1 @ ''~'' @ show_span r0 r1, ProvenStatic)
        | _ \<Rightarrow>
            if l_off = r_off \<and> cr_length left = cr_length right then
              (ProvenEqual, ''same_base_same_offset_same_length_param'', ProvenStatic)
            else (MayOverlap, ''same_base_symbolic_length'', UnknownBasis))"

fun access_allowed :: "region_access \<Rightarrow> access_mode \<Rightarrow> bool" where
  "access_allowed Read Load = True"
| "access_allowed Write Store = True"
| "access_allowed ReadWrite _ = True"
| "access_allowed Read Store = False"
| "access_allowed Write Load = False"

section \<open>The evaluation\<close>

definition find_region :: "checked_memory \<Rightarrow> string \<Rightarrow> checked_region option" where
  "find_region memory name = find (\<lambda>r. cr_name r = name) (cm_regions memory)"

text \<open>The body of the first loop of \<open>evaluate_alias\<close>.\<close>

definition relation_row :: "checked_memory \<Rightarrow> checked_relation \<Rightarrow> alias_relation_evidence" where
  "relation_row memory rel =
     (let (observed, detail, evidence_basis) =
        (case (find_region memory (cl_left rel), find_region memory (cl_right rel)) of
           (Some l, Some r) \<Rightarrow>
             (let (obs, detail, basis) = observe_pair l r in
              (obs, detail,
               if cl_basis rel = Some Precondition \<and> \<not> relation_satisfies (cl_require rel) obs \<and>
                  \<not> contradicts (cl_require rel) obs
               then DeclaredPrecondition else basis))
         | _ \<Rightarrow> (InvalidRegion, ''relation endpoint missing from regions'', UnknownBasis))
      in \<lparr>re_left = cl_left rel, re_right = cl_right rel,
          re_required = relation_require_as_str (cl_require rel), re_observed = observed,
          re_evidence_basis = evidence_basis, re_basis = detail\<rparr>)"

definition caller_obligation :: "checked_relation \<Rightarrow> verification_obligation" where
  "caller_obligation rel =
     \<lparr>vo_kind = ''regions_'' @ relation_require_as_str (cl_require rel), vo_left = cl_left rel,
      vo_right = cl_right rel, vo_owner = ''caller''\<rparr>"

text \<open>The body of the second loop: \<open>any_failed\<close>, \<open>any_unproven\<close>, \<open>any_caller_obligation\<close>,
  \<open>unresolved_obligations\<close>.\<close>

definition tally_step :: "checked_relation \<times> alias_relation_evidence \<Rightarrow>
    bool \<times> bool \<times> bool \<times> verification_obligation list \<Rightarrow>
    bool \<times> bool \<times> bool \<times> verification_obligation list" where
  "tally_step rr st = (case (rr, st) of ((rel, row), (failed, unproven, caller, obligations)) \<Rightarrow>
     if contradicts (cl_require rel) (re_observed row) then (True, unproven, caller, obligations)
     else if relation_satisfies (cl_require rel) (re_observed row) then
       (failed, unproven, caller, obligations)
     else if re_evidence_basis row = DeclaredPrecondition \<and> cl_basis rel = Some Precondition then
       (failed, unproven, True, obligations @ [caller_obligation rel])
     else (failed, True, caller, obligations))"

definition evaluate_alias :: "checked_memory \<Rightarrow> observed_memory_access list \<Rightarrow> alias_analysis_report" where
  "evaluate_alias memory accesses =
     (let unknown_memory_accesses = length (filter (\<lambda>a. oa_addr a = UnknownAddr) accesses);
          relations = map (relation_row memory) (cm_relations memory);
          (any_failed, any_unproven, any_caller_obligation, unresolved_obligations) =
            fold tally_step (zip (cm_relations memory) relations) (False, False, False, []);
          status =
            (if any_failed then AlFailed
             else if any_unproven \<or> unknown_memory_accesses > 0 then AlIncomplete
             else if any_caller_obligation then AlPassedUnderPreconditions
             else AlPassed)
      in \<lparr>ar_model = ''region-affine-v1'', ar_status = status, ar_relations = relations,
          ar_unknown_memory_accesses = unknown_memory_accesses,
          ar_assumptions = [''distinct_param_names_do_not_prove_runtime_disjointness''],
          ar_unresolved_obligations = unresolved_obligations\<rparr>)"

section \<open>What the judgements claim\<close>

text \<open>A layout: an address for every pointer parameter and a value for every integer one.\<close>

record layout =
  lo_addr :: "string \<Rightarrow> int"
  lo_value :: "string \<Rightarrow> nat"

definition length_in :: "layout \<Rightarrow> length_spec \<Rightarrow> nat" where
  "length_in L l = (case l of Literal n \<Rightarrow> n | Param x \<Rightarrow> lo_value L x)"

definition region_lo :: "layout \<Rightarrow> checked_region \<Rightarrow> int" where
  "region_lo L r = lo_addr L (cr_base_param r) + cr_offset r"

definition region_bytes :: "layout \<Rightarrow> checked_region \<Rightarrow> int set" where
  "region_bytes L r = {region_lo L r ..< region_lo L r + int (length_in L (cr_length r))}"

fun require_holds :: "relation_require \<Rightarrow> int set \<Rightarrow> int set \<Rightarrow> bool" where
  "require_holds Disjoint A B \<longleftrightarrow> A \<inter> B = {}"
| "require_holds Equal A B \<longleftrightarrow> A = B"
| "require_holds Contains A B \<longleftrightarrow> B \<subseteq> A"

text \<open>The end of a literal region does not saturate at \<open>i64::MAX\<close>.\<close>

definition unsaturated :: "checked_region \<Rightarrow> bool" where
  "unsaturated r \<longleftrightarrow> (case cr_length r of Literal n \<Rightarrow> cr_offset r + int n \<le> i64_max | Param _ \<Rightarrow> True) \<and> in_i64 (cr_offset r)"

definition nonempty_region :: "checked_region \<Rightarrow> bool" where
  "nonempty_region r \<longleftrightarrow> cr_length r \<noteq> Literal 0"

text \<open>The three relations between half-open integer intervals, as inequalities of their ends.\<close>

lemma int_ivl_rules:
  fixes a b c d :: int
  shows "{a..<b} \<inter> {c..<d} = {} \<longleftrightarrow> b \<le> a \<or> d \<le> c \<or> b \<le> c \<or> d \<le> a"
    and "{a..<b} = {c..<d} \<longleftrightarrow> a = c \<and> b = d \<or> b \<le> a \<and> d \<le> c"
    and "{c..<d} \<subseteq> {a..<b} \<longleftrightarrow> d \<le> c \<or> a \<le> c \<and> d \<le> b"
proof -
  show disj: "{a..<b} \<inter> {c..<d} = {} \<longleftrightarrow> b \<le> a \<or> d \<le> c \<or> b \<le> c \<or> d \<le> a"
  proof
    assume "{a..<b} \<inter> {c..<d} = {}"
    then have "max a c \<notin> {a..<b} \<inter> {c..<d}" by blast
    then show "b \<le> a \<or> d \<le> c \<or> b \<le> c \<or> d \<le> a" by auto
  qed auto
  show sub: "{c..<d} \<subseteq> {a..<b} \<longleftrightarrow> d \<le> c \<or> a \<le> c \<and> d \<le> b" for a b c d :: int
  proof
    assume *: "{c..<d} \<subseteq> {a..<b}"
    then have "c < d \<Longrightarrow> c \<in> {a..<b} \<and> d - 1 \<in> {a..<b}" by auto
    then show "d \<le> c \<or> a \<le> c \<and> d \<le> b" by force
  qed auto
  show "{a..<b} = {c..<d} \<longleftrightarrow> a = c \<and> b = d \<or> b \<le> a \<and> d \<le> c"
    unfolding set_eq_subset sub by auto
qed

lemma require_holds_ivl:
  "require_holds Disjoint {a..<b} {c..<d} \<longleftrightarrow> b \<le> a \<or> d \<le> c \<or> b \<le> c \<or> d \<le> a"
  "require_holds Equal {a..<b} {c..<d} \<longleftrightarrow> a = c \<and> b = d \<or> b \<le> a \<and> d \<le> c"
  "require_holds Contains {a..<b} {c..<d} \<longleftrightarrow> d \<le> c \<or> a \<le> c \<and> d \<le> b"
  unfolding require_holds.simps int_ivl_rules by simp_all

lemma saturating_end:
  "cr_length r = Literal n \<Longrightarrow> unsaturated r \<Longrightarrow> saturating_add_unsigned (cr_offset r) n = cr_offset r + int n"
  by (simp add: unsaturated_def saturating_add_unsigned_def rust_int)

lemmas observe_unfold = observe_pair_def region_bytes_def region_lo_def length_in_def Let_def

lemma observe_pair_satisfies:
  assumes "relation_satisfies req (fst (observe_pair l r))" "unsaturated l" "unsaturated r"
  shows "require_holds req (region_bytes L l) (region_bytes L r)"
  using assms
  by (cases req; cases "cr_length l"; cases "cr_length r")
     (simp_all add: observe_unfold saturating_end require_holds_ivl del: require_holds.simps split: if_splits)

lemma observe_pair_contradicts:
  assumes "contradicts req (fst (observe_pair l r))" "unsaturated l" "unsaturated r"
    "region_bytes L l \<noteq> {}" "region_bytes L r \<noteq> {}"
  shows "\<not> require_holds req (region_bytes L l) (region_bytes L r)"
  using assms
  by (cases req; cases "cr_length l"; cases "cr_length r")
     (simp_all add: observe_unfold saturating_end require_holds_ivl del: require_holds.simps split: if_splits)

section \<open>The aggregate status\<close>

text \<open>What one row contributes to the status, read off the loop.\<close>

fun alias_verdict :: "(checked_relation \<times> alias_relation_evidence) + observed_memory_access \<Rightarrow> verdict" where
  "alias_verdict (Inl (rel, row)) =
     (if contradicts (cl_require rel) (re_observed row) then Refuted
      else if relation_satisfies (cl_require rel) (re_observed row) then Proved
      else if re_evidence_basis row = DeclaredPrecondition \<and> cl_basis rel = Some Precondition then Owed
      else Open)"
| "alias_verdict (Inr a) = (if oa_addr a = UnknownAddr then Open else Silent)"

fun alias_rank :: "alias_status \<Rightarrow> nat" where
  "alias_rank AlPassed = 0"
| "alias_rank AlPassedUnderPreconditions = 1"
| "alias_rank AlIncomplete = 2"
| "alias_rank AlFailed = 3"

text \<open>The status \<open>evaluate_alias\<close> computes, as a function of the mixed list of relation rows and
  accesses.\<close>

definition alias_status_of :: "((checked_relation \<times> alias_relation_evidence) + observed_memory_access) list \<Rightarrow> alias_status" where
  "alias_status_of rows =
     (let rels = List.map_filter (\<lambda>r. case r of Inl x \<Rightarrow> Some x | Inr _ \<Rightarrow> None) rows;
          accs = List.map_filter (\<lambda>r. case r of Inl _ \<Rightarrow> None | Inr a \<Rightarrow> Some a) rows;
          (failed, unproven, caller, _) = fold tally_step rels (False, False, False, []) in
      if failed then AlFailed
      else if unproven \<or> length (filter (\<lambda>a. oa_addr a = UnknownAddr) accs) > 0 then AlIncomplete
      else if caller then AlPassedUnderPreconditions
      else AlPassed)"

definition verdicts_in :: "verdict \<Rightarrow> (checked_relation \<times> alias_relation_evidence) list \<Rightarrow> bool" where
  "verdicts_in v rels \<longleftrightarrow> (\<exists>x \<in> set rels. alias_verdict (Inl x) = v)"

lemma fold_tally:
  "fold tally_step rels (f, u, c, obs) =
     (f \<or> verdicts_in Refuted rels, u \<or> verdicts_in Open rels, c \<or> verdicts_in Owed rels,
      obs @ map (caller_obligation \<circ> fst) (filter (\<lambda>x. alias_verdict (Inl x) = Owed) rels))"
proof (induction rels arbitrary: f u c obs)
  case (Cons x rels)
  obtain rel row where "x = (rel, row)" by (cases x)
  then show ?case using Cons by (auto simp: verdicts_in_def tally_step_def)
qed (simp add: verdicts_in_def)

lemma alias_status_of_eq:
  "alias_status_of rows =
     (if \<exists>r \<in> set rows. alias_verdict r = Refuted then AlFailed
      else if \<exists>r \<in> set rows. alias_verdict r = Open then AlIncomplete
      else if \<exists>r \<in> set rows. alias_verdict r = Owed then AlPassedUnderPreconditions
      else AlPassed)"
proof -
  define rels where "rels = List.map_filter (\<lambda>r. case r of Inl x \<Rightarrow> Some x | Inr _ \<Rightarrow> None) rows"
  define accs where "accs = List.map_filter (\<lambda>r. case r of Inl _ \<Rightarrow> None | Inr a \<Rightarrow> Some a) rows"
  have rels: "x \<in> set rels \<longleftrightarrow> Inl x \<in> set rows" for x
    unfolding rels_def by (induction rows) (auto simp: List.map_filter_simps split: sum.splits)
  have accs: "a \<in> set accs \<longleftrightarrow> Inr a \<in> set rows" for a
    unfolding accs_def by (induction rows) (auto simp: List.map_filter_simps split: sum.splits)
  have unknown: "length (filter (\<lambda>a. oa_addr a = UnknownAddr) accs) > 0 \<longleftrightarrow>
      (\<exists>a. Inr a \<in> set rows \<and> oa_addr a = UnknownAddr)"
    by (auto simp: accs [symmetric] filter_empty_conv)
  have ex: "(\<exists>r \<in> set rows. alias_verdict r = v) \<longleftrightarrow>
      verdicts_in v rels \<or> (\<exists>a. Inr a \<in> set rows \<and> alias_verdict (Inr a) = v)" for v
  proof -
    have "(\<exists>r \<in> set rows. P r) \<longleftrightarrow> (\<exists>x. Inl x \<in> set rows \<and> P (Inl x)) \<or> (\<exists>a. Inr a \<in> set rows \<and> P (Inr a))" for P
      by (metis sum.exhaust)
    from this [of "\<lambda>r. alias_verdict r = v"] show ?thesis by (simp only: verdicts_in_def Bex_def rels)
  qed
  show ?thesis
    unfolding alias_status_of_def Let_def rels_def [symmetric] accs_def [symmetric] fold_tally ex unknown
    by (auto split: if_splits)
qed

interpretation alias_slice: fail_closed alias_verdict alias_status_of alias_rank
proof
  show "alias_rank (alias_status_of rows) = worst (alias_verdict ` set rows)" for rows
    by (auto simp: alias_status_of_eq worst_def image_iff eq_commute)
qed

definition alias_rows :: "checked_memory \<Rightarrow> observed_memory_access list \<Rightarrow>
    ((checked_relation \<times> alias_relation_evidence) + observed_memory_access) list" where
  "alias_rows m accs = map (\<lambda>rel. Inl (rel, relation_row m rel)) (cm_relations m) @ map Inr accs"

lemma evaluate_alias_status: "ar_status (evaluate_alias m accs) = alias_status_of (alias_rows m accs)"
proof -
  have 1: "List.map_filter (\<lambda>r. case r of Inl x \<Rightarrow> Some x | Inr _ \<Rightarrow> None) (alias_rows m accs) =
      zip (cm_relations m) (map (relation_row m) (cm_relations m))"
    by (simp add: alias_rows_def List.map_filter_def o_def zip_map2 zip_same_conv_map)
  have 2: "List.map_filter (\<lambda>r. case r of Inl _ \<Rightarrow> None | Inr a \<Rightarrow> Some a) (alias_rows m accs) = accs"
    by (simp add: alias_rows_def List.map_filter_def o_def)
  show ?thesis
    unfolding evaluate_alias_def alias_status_of_def 1 2 by (simp add: Let_def split: prod.split)
qed

section \<open>Soundness of the slice\<close>

definition endpoints_hold :: "layout \<Rightarrow> checked_memory \<Rightarrow> relation_require \<Rightarrow> string \<Rightarrow> string \<Rightarrow> bool" where
  "endpoints_hold L m req x y = (case (find_region m x, find_region m y) of
     (Some l, Some r) \<Rightarrow> require_holds req (region_bytes L l) (region_bytes L r)
   | _ \<Rightarrow> False)"

definition relation_holds :: "layout \<Rightarrow> checked_memory \<Rightarrow> checked_relation \<Rightarrow> bool" where
  "relation_holds L m rel = endpoints_hold L m (cl_require rel) (cl_left rel) (cl_right rel)"

text \<open>What the caller has to guarantee when an obligation is left unresolved.\<close>

definition obligation_holds :: "layout \<Rightarrow> checked_memory \<Rightarrow> verification_obligation \<Rightarrow> bool" where
  "obligation_holds L m ob \<longleftrightarrow> (\<forall>req \<in> {Disjoint, Equal, Contains}.
     vo_kind ob = ''regions_'' @ relation_require_as_str req \<longrightarrow>
       endpoints_hold L m req (vo_left ob) (vo_right ob))"

lemma find_region_in: "find_region m x = Some r \<Longrightarrow> r \<in> set (cm_regions m) \<and> cr_name r = x"
  unfolding find_region_def find_Some_iff by auto

lemma row_observed:
  "find_region m (cl_left rel) = Some l \<Longrightarrow> find_region m (cl_right rel) = Some r \<Longrightarrow>
   re_observed (relation_row m rel) = fst (observe_pair l r)"
  by (simp add: relation_row_def Let_def split: prod.split)

lemma row_invalid:
  "find_region m (cl_left rel) = None \<or> find_region m (cl_right rel) = None \<Longrightarrow>
   re_observed (relation_row m rel) = InvalidRegion"
  by (auto simp: relation_row_def Let_def split: prod.split option.split)

lemma no_verdict_invalid: "\<not> relation_satisfies req InvalidRegion" "\<not> contradicts req InvalidRegion"
  by (cases req; simp)+

lemma proved_holds:
  assumes "relation_satisfies (cl_require rel) (re_observed (relation_row m rel))"
    "\<forall>r \<in> set (cm_regions m). unsaturated r"
  shows "relation_holds L m rel"
proof -
  obtain l r where lr: "find_region m (cl_left rel) = Some l" "find_region m (cl_right rel) = Some r"
    using assms(1) row_invalid no_verdict_invalid by (metis option.exhaust)
  show ?thesis
    using observe_pair_satisfies [of "cl_require rel" l r L] assms row_observed [OF lr] lr find_region_in
    by (auto simp: relation_holds_def endpoints_hold_def)
qed

lemma refuted_fails:
  assumes "contradicts (cl_require rel) (re_observed (relation_row m rel))"
    "\<forall>r \<in> set (cm_regions m). unsaturated r \<and> region_bytes L r \<noteq> {}"
  shows "\<not> relation_holds L m rel"
proof -
  obtain l r where lr: "find_region m (cl_left rel) = Some l" "find_region m (cl_right rel) = Some r"
    using assms(1) row_invalid no_verdict_invalid by (metis option.exhaust)
  show ?thesis
    using observe_pair_contradicts [of "cl_require rel" l r L] assms row_observed [OF lr] lr find_region_in
    by (auto simp: relation_holds_def endpoints_hold_def)
qed

lemma owed_obligation: "obligation_holds L m (caller_obligation rel) \<longleftrightarrow> relation_holds L m rel"
  by (cases "cl_require rel")
     (auto simp: obligation_holds_def caller_obligation_def relation_holds_def)

lemma evaluate_alias_obligations:
  "ar_unresolved_obligations (evaluate_alias m accs) =
     map caller_obligation (filter (\<lambda>rel. alias_verdict (Inl (rel, relation_row m rel)) = Owed) (cm_relations m))"
  by (simp add: evaluate_alias_def Let_def fold_tally zip_map2 zip_same_conv_map filter_map o_def)

lemma alias_verdict_row:
  "rel \<in> set (cm_relations m) \<Longrightarrow> Inl (rel, relation_row m rel) \<in> set (alias_rows m accs)"
  by (simp add: alias_rows_def)

section \<open>Properties\<close>

definition overlap_memory :: checked_memory where
  "overlap_memory = \<lparr>cm_regions =
     [\<lparr>cr_name = ''lo'', cr_base_param = ''p'', cr_offset = 0, cr_length = Literal 8, cr_access = Read\<rparr>,
      \<lparr>cr_name = ''hi'', cr_base_param = ''p'', cr_offset = 8, cr_length = Literal 8, cr_access = Write\<rparr>,
      \<lparr>cr_name = ''mid'', cr_base_param = ''p'', cr_offset = 4, cr_length = Literal 8, cr_access = Read\<rparr>,
      \<lparr>cr_name = ''q'', cr_base_param = ''q'', cr_offset = 0, cr_length = Param ''n'', cr_access = Read\<rparr>],
     cm_relations =
     [\<lparr>cl_left = ''lo'', cl_right = ''hi'', cl_require = Disjoint, cl_basis = None\<rparr>,
      \<lparr>cl_left = ''hi'', cl_right = ''q'', cl_require = Disjoint, cl_basis = Some Precondition\<rparr>]\<rparr>"

definition flat_layout :: layout where
  "flat_layout = \<lparr>lo_addr = (\<lambda>x. if x = ''p'' then 4096 else 8192), lo_value = (\<lambda>_. 16)\<rparr>"

text \<open>C8: when the alias slice passes (outright or under preconditions), every relation the
  contract declares holds of the actual byte ranges, in every memory layout in which the caller
  discharges the reported obligations; a slice that passes outright reports no obligation. The
  literal regions must end below \<open>i64::MAX\<close>, where the engine's saturating ends are exact.\<close>

theorem alias_passed_sound:
  assumes "ar_status (evaluate_alias m accs) \<in> {AlPassed, AlPassedUnderPreconditions}"
    and "\<forall>r \<in> set (cm_regions m). unsaturated r"
    and "\<forall>ob \<in> set (ar_unresolved_obligations (evaluate_alias m accs)). obligation_holds L m ob"
  shows "(\<forall>rel \<in> set (cm_relations m). relation_holds L m rel) \<and>
    (ar_status (evaluate_alias m accs) = AlPassed \<longrightarrow> ar_unresolved_obligations (evaluate_alias m accs) = [])"
proof (intro conjI ballI impI)
  fix rel assume rel: "rel \<in> set (cm_relations m)"
  let ?v = "alias_verdict (Inl (rel, relation_row m rel))"
  have "alias_rank (alias_status_of (alias_rows m accs)) \<le> 1"
    using assms(1) by (auto simp: evaluate_alias_status)
  then have "?v \<noteq> Open" "?v \<noteq> Refuted"
    using alias_slice.conditional_iff alias_verdict_row [OF rel] by blast+
  then consider "?v = Owed" | "relation_satisfies (cl_require rel) (re_observed (relation_row m rel))"
    by (auto split: if_splits)
  then show "relation_holds L m rel"
  proof cases
    case 1
    then have "caller_obligation rel \<in> set (ar_unresolved_obligations (evaluate_alias m accs))"
      using rel by (auto simp: evaluate_alias_obligations simp del: alias_verdict.simps)
    then show ?thesis using assms(3) owed_obligation by blast
  qed (rule proved_holds [OF _ assms(2)])
next
  assume "ar_status (evaluate_alias m accs) = AlPassed"
  then have "alias_rank (alias_status_of (alias_rows m accs)) = 0" by (simp add: evaluate_alias_status)
  then have "alias_verdict (Inl (rel, relation_row m rel)) \<noteq> Owed" if "rel \<in> set (cm_relations m)" for rel
    using alias_slice.best_iff alias_verdict_row [OF that] by (metis verdict.distinct(3,9))
  then show "ar_unresolved_obligations (evaluate_alias m accs) = []"
    by (simp add: evaluate_alias_obligations del: alias_verdict.simps)
qed

theorem alias_passed_sound_witness:
  "ar_status (evaluate_alias overlap_memory []) = AlPassedUnderPreconditions \<and>
   list_all (relation_holds flat_layout overlap_memory) (cm_relations overlap_memory)"
proof -
  have status: "ar_status (evaluate_alias overlap_memory []) = AlPassedUnderPreconditions" by code_simp
  have "\<forall>r \<in> set (cm_regions overlap_memory). unsaturated r"
    by (simp add: overlap_memory_def unsaturated_def rust_int)
  moreover have "ar_unresolved_obligations (evaluate_alias overlap_memory []) =
      [caller_obligation \<lparr>cl_left = ''hi'', cl_right = ''q'', cl_require = Disjoint, cl_basis = Some Precondition\<rparr>]"
    by code_simp
  then have "\<forall>ob \<in> set (ar_unresolved_obligations (evaluate_alias overlap_memory [])).
      obligation_holds flat_layout overlap_memory ob"
    by (simp add: owed_obligation relation_holds_def endpoints_hold_def find_region_def overlap_memory_def
        region_bytes_def region_lo_def length_in_def flat_layout_def int_ivl_rules)
  ultimately show ?thesis
    using alias_passed_sound [of overlap_memory "[]" flat_layout] status by (simp add: list_all_iff)
qed

text \<open>C9: when the alias slice fails, the contract cannot be met: in every layout in which the declared regions are
  non-empty, and if the region offsets fit \<open>i64\<close> and the literal regions end at or below \<open>i64::MAX\<close>, where the engine's saturating
  ends are exact, some declared relation is violated.\<close>

theorem alias_failed_sound:
  assumes "ar_status (evaluate_alias m accs) = AlFailed"
    and "\<forall>r \<in> set (cm_regions m). unsaturated r \<and> region_bytes L r \<noteq> {}"
  shows "\<exists>rel \<in> set (cm_relations m). \<not> relation_holds L m rel"
proof -
  have "alias_rank (alias_status_of (alias_rows m accs)) = 3"
    using assms(1) by (simp add: evaluate_alias_status)
  then obtain row where "row \<in> set (alias_rows m accs)" "alias_verdict row = Refuted"
    using alias_slice.worst_iff by blast
  then obtain rel where "rel \<in> set (cm_relations m)"
      "contradicts (cl_require rel) (re_observed (relation_row m rel))"
    by (auto simp: alias_rows_def split: if_splits)
  then show ?thesis using refuted_fails [OF _ assms(2)] by blast
qed

definition clash_memory :: checked_memory where
  "clash_memory = overlap_memory\<lparr>cm_relations :=
     [\<lparr>cl_left = ''lo'', cl_right = ''mid'', cl_require = Disjoint, cl_basis = Some Precondition\<rparr>]\<rparr>"

theorem alias_failed_sound_witness:
  "\<exists>rel \<in> set (cm_relations clash_memory). \<not> relation_holds flat_layout clash_memory rel"
proof (rule alias_failed_sound)
  show "ar_status (evaluate_alias clash_memory []) = AlFailed" by code_simp
  show "\<forall>r \<in> set (cm_regions clash_memory). unsaturated r \<and> region_bytes flat_layout r \<noteq> {}"
    by (simp add: clash_memory_def overlap_memory_def unsaturated_def rust_int region_bytes_def
        region_lo_def length_in_def flat_layout_def)
qed

text \<open>the alias slice is monotone: adding declared relations over the same regions or observed
  accesses never improves its status, and the order in which they are listed does not matter.\<close>

theorem alias_no_upgrade:
  assumes "cm_regions m = cm_regions m'" "set (cm_relations m) \<subseteq> set (cm_relations m')"
    "set accs \<subseteq> set accs'"
  shows "alias_rank (ar_status (evaluate_alias m accs)) \<le> alias_rank (ar_status (evaluate_alias m' accs'))"
proof -
  have "relation_row m = relation_row m'"
    using assms(1) by (simp add: relation_row_def find_region_def fun_eq_iff)
  then have "set (alias_rows m accs) \<subseteq> set (alias_rows m' accs')"
    using assms by (auto simp: alias_rows_def)
  then show ?thesis by (simp add: evaluate_alias_status alias_slice.no_upgrade)
qed

theorem alias_no_upgrade_witness:
  "alias_rank (ar_status (evaluate_alias overlap_memory [])) \<le>
   alias_rank (ar_status (evaluate_alias overlap_memory
     [\<lparr>oa_mode = Load, oa_width_bytes = 8, oa_addr = UnknownAddr, oa_mnemonic = ''mov'', oa_instruction_offset = 0\<rparr>]))"
  by (rule alias_no_upgrade) simp_all

text \<open>Two limits of the engine. Ends that saturate at \<open>i64::MAX\<close> make different regions
  \<open>proven_equal\<close>; and an empty region counts as contained, which contradicts a \<open>disjoint\<close>
  requirement that holds.\<close>

lemma saturated_regions_equal:
  "let l = \<lparr>cr_name = ''a'', cr_base_param = ''p'', cr_offset = 0, cr_length = Literal (2 ^ 63), cr_access = Read\<rparr>;
       r = l\<lparr>cr_name := ''b'', cr_length := Literal (2 ^ 63 + 8)\<rparr> in
   fst (observe_pair l r) = ProvenEqual \<and> region_bytes flat_layout l \<noteq> region_bytes flat_layout r"
  by (simp add: observe_unfold rust_int int_ivl_rules flat_layout_def)

lemma empty_region_contradicts_disjoint:
  "let l = \<lparr>cr_name = ''a'', cr_base_param = ''p'', cr_offset = 0, cr_length = Literal 8, cr_access = Read\<rparr>;
       r = l\<lparr>cr_name := ''b'', cr_offset := 4, cr_length := Literal 0\<rparr> in
   contradicts Disjoint (fst (observe_pair l r)) \<and>
   require_holds Disjoint (region_bytes flat_layout l) (region_bytes flat_layout r)"
  by (simp add: observe_unfold rust_int int_ivl_rules flat_layout_def)

end
