(* ===== verification/Contract_Eval.thy ===== *)
theory Contract_Eval
  imports Alias
begin

text \<open>
  Contract-expression semantics: \<open>semasm-contract/src/eval.rs\<close>. The evaluator judges the
  \<open>requires\<close> and \<open>ensures\<close> expressions of a checked contract from literals, bindings and the rows of
  an alias report, with the basis string it reports for every judgement. The judgements are then
  compared with a truth semantics of the expressions.
\<close>

datatype contract_expr_status = CxPassed | CxPassedUnderPreconditions | CxIncomplete | CxFailed

fun contract_expr_status_as_str :: "contract_expr_status \<Rightarrow> string" where
  "contract_expr_status_as_str CxPassed = ''passed''"
| "contract_expr_status_as_str CxPassedUnderPreconditions = ''passed_under_preconditions''"
| "contract_expr_status_as_str CxIncomplete = ''incomplete''"
| "contract_expr_status_as_str CxFailed = ''failed''"

datatype expr_judgement =
  ProvenTrue | ProvenFalse | TrueUnderPrecondition | JIncomplete | NotEvaluated

fun judgement_as_str :: "expr_judgement \<Rightarrow> string" where
  "judgement_as_str ProvenTrue = ''proven_true''"
| "judgement_as_str ProvenFalse = ''proven_false''"
| "judgement_as_str TrueUnderPrecondition = ''true_under_precondition''"
| "judgement_as_str JIncomplete = ''incomplete''"
| "judgement_as_str NotEvaluated = ''not_evaluated''"

datatype expr_role = Requires | Ensures

fun role_as_str :: "expr_role \<Rightarrow> string" where
  "role_as_str Requires = ''requires''"
| "role_as_str Ensures = ''ensures''"

record contract_expr_evidence =
  ce_role :: expr_role
  ce_source :: string
  ce_judgement :: expr_judgement
  ce_basis :: string

record contract_expr_report =
  cx_model :: string
  cx_status :: contract_expr_status
  cx_expressions :: "contract_expr_evidence list"
  cx_assumptions :: "string list"

record expr_bindings =
  eb_ints :: "string \<Rightarrow> int option"
  eb_bools :: "string \<Rightarrow> bool option"

type_synonym judged = "expr_judgement \<times> string"

definition show_bool :: "bool \<Rightarrow> string" where
  "show_bool b = (if b then ''true'' else ''false'')"

definition bool_judgement :: "bool \<Rightarrow> expr_judgement" where
  "bool_judgement b = (if b then ProvenTrue else ProvenFalse)"

section \<open>Region atoms\<close>

text \<open>The predicate name a \<open>regions.*\<close> atom carries is one of three string constants.\<close>

fun match_regions_atom :: "expr \<Rightarrow> expr list \<Rightarrow> (string \<times> string \<times> string) option" where
  "match_regions_atom (EMember (EIdent name _) field _) args =
     (if name \<noteq> ''regions'' then None
      else if field \<notin> {''disjoint'', ''equal'', ''contains''} then None
      else (case args of
              [EIdent left _, EIdent right _] \<Rightarrow> Some (field, left, right)
            | _ \<Rightarrow> None))"
| "match_regions_atom _ _ = None"

fun looks_like_regions_receiver :: "expr \<Rightarrow> bool" where
  "looks_like_regions_receiver (EMember (EIdent name _) _ _) = (name = ''regions'')"
| "looks_like_regions_receiver _ = False"

fun contains_region_atom :: "expr \<Rightarrow> bool" where
  "contains_region_atom (ECall callee args _) =
     (if match_regions_atom callee args \<noteq> None \<or> looks_like_regions_receiver callee then True
      else contains_region_atom callee \<or> list_ex contains_region_atom args)"
| "contains_region_atom (EUnary _ e _) = contains_region_atom e"
| "contains_region_atom (EBinary _ l r _) = (contains_region_atom l \<or> contains_region_atom r)"
| "contains_region_atom (EMember b _ _) = contains_region_atom b"
| "contains_region_atom (EIndex b i _) = (contains_region_atom b \<or> contains_region_atom i)"
| "contains_region_atom (ERange s e _) = (contains_region_atom s \<or> contains_region_atom e)"
| "contains_region_atom (EIdent _ _) = False"
| "contains_region_atom (EInt _ _) = False"
| "contains_region_atom (EBool _ _) = False"

fun lookup_rows :: "alias_relation_evidence list \<Rightarrow> string \<Rightarrow> string \<Rightarrow>
    (alias_relation_evidence \<times> relation_observed) option" where
  "lookup_rows [] left right = None"
| "lookup_rows (row # rows) left right =
     (if re_left row = left \<and> re_right row = right then Some (row, re_observed row)
      else if re_left row = right \<and> re_right row = left then
        Some (row, case re_observed row of ProvenContains \<Rightarrow> MayOverlap | other \<Rightarrow> other)
      else lookup_rows rows left right)"

definition lookup_relation_row :: "alias_analysis_report \<Rightarrow> string \<Rightarrow> string \<Rightarrow>
    (alias_relation_evidence \<times> relation_observed) option" where
  "lookup_relation_row alias left right = lookup_rows (ar_relations alias) left right"

definition judge_require :: "relation_require \<Rightarrow> alias_relation_evidence \<Rightarrow> relation_observed \<Rightarrow>
    string \<Rightarrow> string \<Rightarrow> judged" where
  "judge_require require row observed left right =
     (let ok = (case require of
                  Disjoint \<Rightarrow> observed = ProvenDisjoint
                | Equal \<Rightarrow> observed = ProvenEqual
                | Contains \<Rightarrow> observed = ProvenContains);
          atom = ''regions_'' @ relation_require_as_str require @ ''('' @ left @ '','' @ right @ '')'' in
      if ok then (ProvenTrue, atom @ ''<= '' @ observed_as_str observed)
      else if re_evidence_basis row = DeclaredPrecondition \<and> re_required row = relation_require_as_str require then
        (TrueUnderPrecondition, atom @ ''<=declared_precondition'')
      else if observed = MayOverlap \<or> observed = ObsNotEvaluated \<or> observed = InvalidRegion then
        (JIncomplete, atom @ ''<= '' @ observed_as_str observed)
      else (ProvenFalse, atom @ ''<= '' @ observed_as_str observed))"

definition eval_call :: "expr \<Rightarrow> alias_analysis_report option \<Rightarrow> bool \<Rightarrow> judged" where
  "eval_call expr alias force_attempt =
     (case expr of
        ECall callee args _ \<Rightarrow>
          (case match_regions_atom callee args of
             None \<Rightarrow>
               if force_attempt \<or> looks_like_regions_receiver callee
               then (JIncomplete, ''unknown_regions_predicate'')
               else (NotEvaluated, ''non_subset_call_not_evaluated'')
           | Some (pred, left, right) \<Rightarrow>
               (case alias of
                  None \<Rightarrow> (NotEvaluated, ''regions_'' @ pred @ ''_no_alias_slice'')
                | Some alias \<Rightarrow>
                    (case lookup_relation_row alias left right of
                       None \<Rightarrow> (JIncomplete, ''no_alias_row:'' @ left @ ''/'' @ right)
                     | Some (row, observed) \<Rightarrow>
                         if pred = ''disjoint'' then judge_require Disjoint row observed left right
                         else if pred = ''equal'' then judge_require Equal row observed left right
                         else if pred = ''contains'' then judge_require Contains row observed left right
                         else (JIncomplete, ''unknown_pred:'' @ pred))))
      | _ \<Rightarrow> (JIncomplete, ''internal_call_shape''))"

section \<open>Comparisons\<close>

definition skip_or_incomplete :: "bool \<Rightarrow> string \<Rightarrow> string \<Rightarrow> judged" where
  "skip_or_incomplete force_attempt incomplete_basis skip_basis =
     (if force_attempt then (JIncomplete, incomplete_basis) else (NotEvaluated, skip_basis))"

fun int_value :: "expr \<Rightarrow> expr_bindings \<Rightarrow> int option" where
  "int_value (EInt value _) bindings = Some value"
| "int_value (EIdent name _) bindings = eb_ints bindings name"
| "int_value _ _ = None"

fun is_cmp :: "bin_op \<Rightarrow> bool" where
  "is_cmp BEq = True"
| "is_cmp BNe = True"
| "is_cmp BLt = True"
| "is_cmp BLe = True"
| "is_cmp BGt = True"
| "is_cmp BGe = True"
| "is_cmp _ = False"

fun cmp_holds :: "bin_op \<Rightarrow> int \<Rightarrow> int \<Rightarrow> bool option" where
  "cmp_holds BEq l r = Some (l = r)"
| "cmp_holds BNe l r = Some (l \<noteq> r)"
| "cmp_holds BLt l r = Some (l < r)"
| "cmp_holds BLe l r = Some (l \<le> r)"
| "cmp_holds BGt l r = Some (l > r)"
| "cmp_holds BGe l r = Some (l \<ge> r)"
| "cmp_holds _ l r = None"

definition eval_cmp :: "expr \<Rightarrow> expr \<Rightarrow> expr \<Rightarrow> expr_bindings \<Rightarrow> bool \<Rightarrow> judged" where
  "eval_cmp full left right bindings force_attempt =
     (case full of
        EBinary op _ _ _ \<Rightarrow>
          (case int_value left bindings of
             None \<Rightarrow> skip_or_incomplete (force_attempt \<or> contains_region_atom full)
                       ''cmp_left_unbound'' ''cmp_unbound_not_evaluated''
           | Some l \<Rightarrow>
               (case int_value right bindings of
                  None \<Rightarrow> skip_or_incomplete (force_attempt \<or> contains_region_atom full)
                            ''cmp_right_unbound'' ''cmp_unbound_not_evaluated''
                | Some r \<Rightarrow>
                    (case cmp_holds op l r of
                       None \<Rightarrow> (JIncomplete, ''cmp_bad_op'')
                     | Some ok \<Rightarrow> (bool_judgement ok, ''cmp:'' @ show_int l @ ''?'' @ show_int r))))
      | _ \<Rightarrow> (JIncomplete, ''internal_cmp_shape''))"

section \<open>The evaluator\<close>

text \<open>\<open>and_judgement\<close> and \<open>implies_judgement\<close> are the inner matches on the second judgement.\<close>

fun and_judgement :: "bool \<Rightarrow> bool \<Rightarrow> expr_judgement \<Rightarrow> expr_judgement" where
  "and_judgement force left_under ProvenFalse = ProvenFalse"
| "and_judgement force left_under JIncomplete = JIncomplete"
| "and_judgement force left_under NotEvaluated = (if force then JIncomplete else NotEvaluated)"
| "and_judgement force left_under TrueUnderPrecondition = TrueUnderPrecondition"
| "and_judgement force left_under ProvenTrue = (if left_under then TrueUnderPrecondition else ProvenTrue)"

fun implies_judgement :: "bool \<Rightarrow> expr_judgement \<Rightarrow> expr_judgement" where
  "implies_judgement left_under ProvenFalse = ProvenFalse"
| "implies_judgement left_under JIncomplete = JIncomplete"
| "implies_judgement left_under NotEvaluated = NotEvaluated"
| "implies_judgement left_under TrueUnderPrecondition = TrueUnderPrecondition"
| "implies_judgement left_under ProvenTrue = (if left_under then TrueUnderPrecondition else ProvenTrue)"

definition wrap_basis :: "string \<Rightarrow> string \<Rightarrow> string" where
  "wrap_basis f basis = f @ ''('' @ basis @ '')''"

fun not_judgement :: "judged \<Rightarrow> judged" where
  "not_judgement (ProvenTrue, basis) = (ProvenFalse, wrap_basis ''not'' basis)"
| "not_judgement (ProvenFalse, basis) = (ProvenTrue, wrap_basis ''not'' basis)"
| "not_judgement (TrueUnderPrecondition, basis) = (JIncomplete, wrap_basis ''not_under_precondition'' basis)"
| "not_judgement (other, basis) = (other, wrap_basis ''not'' basis)"

function (sequential) eval_expr :: "alias_analysis_report option \<Rightarrow> expr_bindings \<Rightarrow> bool \<Rightarrow> expr \<Rightarrow> judged"
  and eval_and :: "alias_analysis_report option \<Rightarrow> expr_bindings \<Rightarrow> bool \<Rightarrow> expr \<Rightarrow> expr \<Rightarrow> judged"
  and eval_or :: "alias_analysis_report option \<Rightarrow> expr_bindings \<Rightarrow> bool \<Rightarrow> expr \<Rightarrow> expr \<Rightarrow> judged"
where
  "eval_expr alias b force_attempt (EBool value _) = (bool_judgement value, ''bool_literal:'' @ show_bool value)"
| "eval_expr alias b force_attempt (EInt _ _) = (JIncomplete, ''bare_integer_not_a_proposition'')"
| "eval_expr alias b force_attempt (EIdent name _) =
     (case eb_bools b name of
        Some v \<Rightarrow> (bool_judgement v, ''bound_bool:'' @ name)
      | None \<Rightarrow> skip_or_incomplete force_attempt (''unbound_ident:'' @ name) ''unbound_ident_not_evaluated'')"
| "eval_expr alias b force_attempt (EUnary UNot inner _) = not_judgement (eval_expr alias b force_attempt inner)"
| "eval_expr alias b force_attempt (EUnary UNeg _ _) =
     skip_or_incomplete force_attempt ''unary_neg_out_of_subset'' ''unary_neg_not_evaluated''"
| "eval_expr alias b force_attempt (EBinary BAnd left right _) = eval_and alias b force_attempt left right"
| "eval_expr alias b force_attempt (EBinary BOr left right _) = eval_or alias b force_attempt left right"
| "eval_expr alias b force_attempt (EBinary BImplies left right _) =
     (case eval_expr alias b force_attempt left of (jl, bl) \<Rightarrow>
        (case jl of
           ProvenFalse \<Rightarrow> (ProvenTrue, ''implies_vacuous:'' @ bl)
         | JIncomplete \<Rightarrow> (JIncomplete, ''implies_antecedent:'' @ bl)
         | NotEvaluated \<Rightarrow>
             let force = force_attempt \<or> contains_region_atom left \<or> contains_region_atom right in
             if force then
               (case eval_expr alias b True right of (jr, br) \<Rightarrow>
                  if jr = NotEvaluated then (NotEvaluated, ''implies_skipped:'' @ bl)
                  else (jr, ''implies_partial:'' @ bl @ ''=>'' @ br))
             else (NotEvaluated, ''implies_not_evaluated:'' @ bl)
         | _ \<Rightarrow>
             (case eval_expr alias b True right of (jr, br) \<Rightarrow>
                (implies_judgement (jl = TrueUnderPrecondition) jr, ''implies:'' @ bl @ ''=>'' @ br))))"
| "eval_expr alias b force_attempt (EBinary op left right sp) =
     (if is_cmp op then eval_cmp (EBinary op left right sp) left right b force_attempt
      else skip_or_incomplete force_attempt ''arithmetic_out_of_subset'' ''arithmetic_not_evaluated'')"
| "eval_expr alias b force_attempt (ECall callee args sp) = eval_call (ECall callee args sp) alias force_attempt"
| "eval_expr alias b force_attempt expr =
     (if contains_region_atom expr \<or> force_attempt
      then (JIncomplete, ''unsupported_construct_in_attempted_expr'')
      else (NotEvaluated, ''unsupported_construct_not_evaluated''))"
| "eval_and alias b force_attempt left right =
     (let force = force_attempt \<or> contains_region_atom left \<or> contains_region_atom right in
      case eval_expr alias b force left of (jl, bl) \<Rightarrow>
        (case jl of
           ProvenFalse \<Rightarrow> (ProvenFalse, ''and_short:'' @ bl)
         | JIncomplete \<Rightarrow> (JIncomplete, ''and_left:'' @ bl)
         | NotEvaluated \<Rightarrow>
             (case eval_expr alias b force right of (jr, br) \<Rightarrow>
                (case jr of
                   NotEvaluated \<Rightarrow> (NotEvaluated, ''and_skip:'' @ bl)
                 | ProvenFalse \<Rightarrow> (ProvenFalse, ''and:'' @ bl @ ''&'' @ br)
                 | other \<Rightarrow>
                     if force then (JIncomplete, ''and_partial:'' @ bl @ ''&'' @ br)
                     else (other, ''and_right_only:'' @ br)))
         | _ \<Rightarrow>
             (case eval_expr alias b force right of (jr, br) \<Rightarrow>
                (and_judgement force (jl = TrueUnderPrecondition) jr, ''and:'' @ bl @ ''&'' @ br))))"
| "eval_or alias b force_attempt left right =
     (let force = force_attempt \<or> contains_region_atom left \<or> contains_region_atom right in
      case eval_expr alias b force left of (jl, bl) \<Rightarrow>
        (case jl of
           ProvenTrue \<Rightarrow> (ProvenTrue, ''or_short:'' @ bl)
         | TrueUnderPrecondition \<Rightarrow> (TrueUnderPrecondition, ''or_short:'' @ bl)
         | ProvenFalse \<Rightarrow>
             (case eval_expr alias b force right of (jr, br) \<Rightarrow> (jr, ''or:'' @ bl @ ''|'' @ br))
         | JIncomplete \<Rightarrow> (JIncomplete, ''or_left:'' @ bl)
         | NotEvaluated \<Rightarrow>
             (case eval_expr alias b force right of (jr, br) \<Rightarrow>
                (case jr of
                   NotEvaluated \<Rightarrow> (NotEvaluated, ''or_skip:'' @ bl)
                 | ProvenTrue \<Rightarrow> (ProvenTrue, ''or:'' @ bl @ ''|'' @ br)
                 | other \<Rightarrow>
                     if force then (JIncomplete, ''or_partial:'' @ bl @ ''|'' @ br)
                     else (other, ''or_right_only:'' @ br)))))"
  by pat_completeness auto

termination
  by (relation "measure (\<lambda>x. case x of
      Inl (_, _, _, e) \<Rightarrow> 2 * size e
    | Inr (Inl (_, _, _, l, r)) \<Rightarrow> 2 * (size l + size r) + 1
    | Inr (Inr (_, _, _, l, r)) \<Rightarrow> 2 * (size l + size r) + 1)") auto

section \<open>Conditions and contracts\<close>

fun op_symbol :: "bin_op \<Rightarrow> string option" where
  "op_symbol BEq = Some ''==''"
| "op_symbol BNe = Some ''!=''"
| "op_symbol BLt = Some ''<''"
| "op_symbol BLe = Some ''<=''"
| "op_symbol BGt = Some ''>''"
| "op_symbol BGe = Some ''>=''"
| "op_symbol _ = None"

definition try_caller_bound_obligation :: "expr \<Rightarrow> expr_bindings \<Rightarrow> string set \<Rightarrow> judged option" where
  "try_caller_bound_obligation expr bindings integer_params =
     (case expr of
        EBinary op left right _ \<Rightarrow>
          if \<not> is_cmp op then None
          else if int_value left bindings \<noteq> None \<and> int_value right bindings \<noteq> None then None
          else
            (case (case (left, right) of
                     (EIdent name _, EInt value _) \<Rightarrow>
                       if name \<in> integer_params then Some (name, value, True) else None
                   | (EInt value _, EIdent name _) \<Rightarrow>
                       if name \<in> integer_params then Some (name, value, False) else None
                   | _ \<Rightarrow> None) of
               None \<Rightarrow> None
             | Some (name, lit, param_on_left) \<Rightarrow>
                 (case op_symbol op of
                    None \<Rightarrow> None
                  | Some op_s \<Rightarrow>
                      Some (TrueUnderPrecondition,
                        if param_on_left then ''caller_bound_obligation:'' @ name @ op_s @ show_int lit
                        else ''caller_bound_obligation:'' @ show_int lit @ op_s @ name)))
      | _ \<Rightarrow> None)"

definition eval_condition :: "expr_role \<Rightarrow> checked_condition \<Rightarrow> alias_analysis_report option \<Rightarrow>
    expr_bindings \<Rightarrow> string set \<Rightarrow> contract_expr_evidence" where
  "eval_condition role cond alias bindings integer_params =
     (case (if role = Requires then try_caller_bound_obligation (cc_expr cond) bindings integer_params else None) of
        Some (judgement, basis) \<Rightarrow>
          \<lparr>ce_role = role, ce_source = cc_source cond, ce_judgement = judgement, ce_basis = basis\<rparr>
      | None \<Rightarrow>
          (let (judgement, basis) = eval_expr alias bindings False (cc_expr cond) in
           \<lparr>ce_role = role, ce_source = cc_source cond, ce_judgement = judgement, ce_basis = basis\<rparr>))"

definition integer_param_names :: "checked_contract \<Rightarrow> string set" where
  "integer_param_names c = set (map cp_name (filter (\<lambda>p. is_integer_sem_type (cp_ty p)) (c_parameters c)))"

text \<open>\<open>any_false\<close>, \<open>any_incomplete\<close>, \<open>any_true\<close>, \<open>any_under_precondition\<close>.\<close>

definition expr_tally :: "contract_expr_evidence \<Rightarrow> bool \<times> bool \<times> bool \<times> bool \<Rightarrow> bool \<times> bool \<times> bool \<times> bool" where
  "expr_tally row st = (case st of (any_false, any_incomplete, any_true, any_under) \<Rightarrow>
     (case ce_judgement row of
        ProvenFalse \<Rightarrow> (True, any_incomplete, any_true, any_under)
      | JIncomplete \<Rightarrow> (any_false, True, any_true, any_under)
      | ProvenTrue \<Rightarrow> (any_false, any_incomplete, True, any_under)
      | TrueUnderPrecondition \<Rightarrow> (any_false, any_incomplete, True, True)
      | NotEvaluated \<Rightarrow> st))"

definition contract_expr_status_of :: "contract_expr_evidence list \<Rightarrow> contract_expr_status" where
  "contract_expr_status_of expressions =
     (let (any_false, any_incomplete, any_true, any_under_precondition) =
        fold expr_tally expressions (False, False, False, False) in
      if any_false then CxFailed
      else if any_incomplete then CxIncomplete
      else if any_under_precondition then CxPassedUnderPreconditions
      else if any_true then CxPassed
      else CxIncomplete)"

definition contract_expr_rows :: "checked_contract \<Rightarrow> alias_analysis_report option \<Rightarrow> expr_bindings \<Rightarrow>
    contract_expr_evidence list" where
  "contract_expr_rows ctr alias bindings =
     (let integer_params = integer_param_names ctr in
      map (\<lambda>cond. eval_condition Requires cond alias bindings integer_params) (c_requires ctr) @
      map (\<lambda>cond. eval_condition Ensures cond alias bindings integer_params) (c_ensures ctr))"

definition evaluate_contract_expressions :: "checked_contract \<Rightarrow> alias_analysis_report option \<Rightarrow>
    expr_bindings \<Rightarrow> contract_expr_report option" where
  "evaluate_contract_expressions ctr alias bindings =
     (let expressions = contract_expr_rows ctr alias bindings in
      if list_all (\<lambda>row. ce_judgement row = NotEvaluated) expressions then None
      else Some \<lparr>cx_model = ''contract-expr-v1'', cx_status = contract_expr_status_of expressions,
                 cx_expressions = expressions,
                 cx_assumptions = [''subset_documented_in_CONTRACT_EXPR_V1_SUBSET'',
                   ''regions_atoms_require_alias_evidence_when_present'',
                   ''requires_int_param_literal_cmp_is_caller_bound_obligation'']\<rparr>)"

section \<open>Truth of contract expressions\<close>

text \<open>A world gives identifiers their values; constructs outside the documented subset are opaque.
  \<open>H req left right\<close> says whether a relation holds between two named regions.\<close>

record world =
  w_bool :: "string \<Rightarrow> bool"
  w_int :: "string \<Rightarrow> int"
  w_term :: "expr \<Rightarrow> int"
  w_opaque :: "expr \<Rightarrow> bool"

fun term_value :: "world \<Rightarrow> expr \<Rightarrow> int" where
  "term_value w (EInt v _) = v"
| "term_value w (EIdent x _) = w_int w x"
| "term_value w e = w_term w e"

fun truth :: "(relation_require \<Rightarrow> string \<Rightarrow> string \<Rightarrow> bool) \<Rightarrow> world \<Rightarrow> expr \<Rightarrow> bool" where
  "truth H w (EBool v _) = v"
| "truth H w (EIdent x _) = w_bool w x"
| "truth H w (EUnary UNot e _) = (\<not> truth H w e)"
| "truth H w (EBinary BAnd l r _) = (truth H w l \<and> truth H w r)"
| "truth H w (EBinary BOr l r _) = (truth H w l \<or> truth H w r)"
| "truth H w (EBinary BImplies l r _) = (truth H w l \<longrightarrow> truth H w r)"
| "truth H w (EBinary op l r sp) =
     (case cmp_holds op (term_value w l) (term_value w r) of
        Some v \<Rightarrow> v | None \<Rightarrow> w_opaque w (EBinary op l r sp))"
| "truth H w (ECall callee args sp) =
     (case match_regions_atom callee args of
        Some (p, l, r) \<Rightarrow>
          (case relation_require_parse p of Some req \<Rightarrow> H req l r | None \<Rightarrow> w_opaque w (ECall callee args sp))
      | None \<Rightarrow> w_opaque w (ECall callee args sp))"
| "truth H w e = w_opaque w e"

text \<open>The relations an expression's region atoms name.\<close>

fun atom_requires :: "expr \<Rightarrow> relation_require set" where
  "atom_requires (EUnary UNot e _) = atom_requires e"
| "atom_requires (EBinary BAnd l r _) = atom_requires l \<union> atom_requires r"
| "atom_requires (EBinary BOr l r _) = atom_requires l \<union> atom_requires r"
| "atom_requires (EBinary BImplies l r _) = atom_requires l \<union> atom_requires r"
| "atom_requires (ECall callee args _) =
     (case match_regions_atom callee args of
        Some (p, _, _) \<Rightarrow> (case relation_require_parse p of Some req \<Rightarrow> {req} | None \<Rightarrow> {})
      | None \<Rightarrow> {})"
| "atom_requires _ = {}"

text \<open>The documented subset (\<open>docs/CONTRACT_EXPR_V1_SUBSET.md\<close>): literals, bound names, closed
  comparisons, region atoms and connectives.\<close>

fun in_subset :: "expr_bindings \<Rightarrow> expr \<Rightarrow> bool" where
  "in_subset b (EBool _ _) = True"
| "in_subset b (EInt _ _) = True"
| "in_subset b (EIdent x _) = (eb_bools b x \<noteq> None)"
| "in_subset b (EUnary UNot e _) = in_subset b e"
| "in_subset b (EBinary BAnd l r _) = (in_subset b l \<and> in_subset b r)"
| "in_subset b (EBinary BOr l r _) = (in_subset b l \<and> in_subset b r)"
| "in_subset b (EBinary BImplies l r _) = (in_subset b l \<and> in_subset b r)"
| "in_subset b (EBinary op l r _) = (is_cmp op \<and> int_value l b \<noteq> None \<and> int_value r b \<noteq> None)"
| "in_subset b (ECall callee args _) = (match_regions_atom callee args \<noteq> None)"
| "in_subset b _ = False"

definition agrees :: "expr_bindings \<Rightarrow> world \<Rightarrow> bool" where
  "agrees b w \<longleftrightarrow> (\<forall>x v. eb_ints b x = Some v \<longrightarrow> w_int w x = v) \<and> (\<forall>x v. eb_bools b x = Some v \<longrightarrow> w_bool w x = v)"

fun sound_judgement :: "expr_judgement \<Rightarrow> bool \<Rightarrow> bool" where
  "sound_judgement ProvenTrue t = t"
| "sound_judgement TrueUnderPrecondition t = t"
| "sound_judgement ProvenFalse t = (\<not> t)"
| "sound_judgement JIncomplete t = True"
| "sound_judgement NotEvaluated t = True"

lemma judge_require_evaluated: "fst (judge_require req row obs l r) \<noteq> NotEvaluated"
  by (simp add: judge_require_def Let_def)

lemma match_regions_atom_pred:
  "match_regions_atom callee args = Some (p, l, r) \<Longrightarrow> p = ''disjoint'' \<or> p = ''equal'' \<or> p = ''contains''"
  by (induction callee args rule: match_regions_atom.induct) (auto split: if_splits list.splits expr.splits)

lemma eval_call_atom:
  assumes "match_regions_atom callee args = Some (p, l, r)"
  obtains req where "relation_require_parse p = Some req"
    "eval_call (ECall callee args sp) (Some rep) f =
       (case lookup_relation_row rep l r of
          None \<Rightarrow> (JIncomplete, ''no_alias_row:'' @ l @ ''/'' @ r)
        | Some (row, obs) \<Rightarrow> judge_require req row obs l r)"
  using match_regions_atom_pred [OF assms] assms that
  by (cases "lookup_relation_row rep l r"; elim disjE) (auto simp: eval_call_def relation_require_parse_def)

text \<open>A forced evaluation with an alias report always attempts the expression.\<close>

lemma forced_evaluated: "fst (eval_expr (Some rep) b True e) \<noteq> NotEvaluated"
proof (induction e)
  case (ECall callee args sp)
  show ?case
  proof (cases "match_regions_atom callee args")
    case None then show ?thesis by (simp add: eval_call_def)
  next
    case (Some x)
    obtain p l r where "x = (p, l, r)" by (metis prod_cases3)
    with Some have atom: "match_regions_atom callee args = Some (p, l, r)" by simp
    show ?thesis
      by (rule eval_call_atom [OF atom, of sp rep True]) (simp add: judge_require_evaluated split: option.split)
  qed
next
  case (EUnary op e sp)
  obtain j bs where "eval_expr (Some rep) b True e = (j, bs)" by (metis surj_pair)
  with EUnary show ?case by (cases op; cases j) (simp_all add: skip_or_incomplete_def)
next
  case (EBinary op l r sp)
  obtain jl bl jr br where e: "eval_expr (Some rep) b True l = (jl, bl)" "eval_expr (Some rep) b True r = (jr, br)"
    by (metis surj_pair)
  show ?case
    using EBinary e
    by (cases op; cases jl; cases jr)
       (auto simp: eval_cmp_def skip_or_incomplete_def bool_judgement_def split: option.split)
qed (auto simp: skip_or_incomplete_def bool_judgement_def split: option.split)

lemma subset_forced: "in_subset b e \<Longrightarrow> eval_expr (Some rep) b f e = eval_expr (Some rep) b True e"
proof (induction e arbitrary: f)
  case (ECall callee args sp)
  then obtain p l r where "match_regions_atom callee args = Some (p, l, r)" by auto
  then show ?case by (simp add: eval_call_def)
next
  case (EUnary op e sp)
  show ?case using EUnary.IH [of f] EUnary.prems by (cases op) simp_all
next
  case (EBinary op l r sp)
  obtain jl bl jr br where e: "eval_expr (Some rep) b True l = (jl, bl)" "eval_expr (Some rep) b True r = (jr, br)"
    by (metis surj_pair)
  have ne: "jl \<noteq> NotEvaluated" "jr \<noteq> NotEvaluated"
    using forced_evaluated [of rep b] e by (metis fst_conv)+
  have IH: "eval_expr (Some rep) b f l = (jl, bl)" "eval_expr (Some rep) b f r = (jr, br)"
    if "op = BAnd \<or> op = BOr \<or> op = BImplies" for f
    using EBinary.IH(1) [of f] EBinary.IH(2) [of f] EBinary.prems that e by auto
  show ?case
    using EBinary.prems ne
    by (cases op; cases jl; cases jr) (auto simp: eval_cmp_def Let_def IH)
qed auto

section \<open>The interface to the alias slice\<close>

text \<open>What the evaluator relies on: a report whose rows, read through \<open>lookup_relation_row\<close> and
  \<open>judge_require\<close>, are right about the relations they judge. \<open>trusted\<close> singles out the relations
  for which the provider promises it.\<close>

locale relation_evidence =
  fixes report :: "'c \<Rightarrow> alias_analysis_report"
    and holds :: "'c \<Rightarrow> relation_require \<Rightarrow> string \<Rightarrow> string \<Rightarrow> bool"
    and valid :: "'c \<Rightarrow> bool"
    and trusted :: "relation_require \<Rightarrow> bool"
  assumes row_sound: "valid c \<Longrightarrow> trusted req \<Longrightarrow> lookup_relation_row (report c) l r = Some (row, obs) \<Longrightarrow>
    sound_judgement (fst (judge_require req row obs l r)) (holds c req l r)"
begin

lemma call_sound:
  assumes "valid c" "\<forall>req \<in> atom_requires (ECall callee args sp). trusted req"
  shows "sound_judgement (fst (eval_call (ECall callee args sp) (Some (report c)) True))
    (truth (holds c) w (ECall callee args sp))"
proof (cases "match_regions_atom callee args")
  case None then show ?thesis by (simp add: eval_call_def)
next
  case (Some x)
  then obtain p l r where atom: "match_regions_atom callee args = Some (p, l, r)" by (metis prod_cases3)
  obtain req where req: "relation_require_parse p = Some req"
    "eval_call (ECall callee args sp) (Some (report c)) True =
       (case lookup_relation_row (report c) l r of
          None \<Rightarrow> (JIncomplete, ''no_alias_row:'' @ l @ ''/'' @ r)
        | Some (row, obs) \<Rightarrow> judge_require req row obs l r)"
    by (rule eval_call_atom [OF atom])
  then have "trusted req" using assms(2) atom by simp
  then show ?thesis using row_sound assms(1) atom req by (auto split: option.split)
qed

lemma forced_sound:
  assumes "valid c" "agrees b w"
  shows "\<forall>req \<in> atom_requires e. trusted req \<Longrightarrow>
    sound_judgement (fst (eval_expr (Some (report c)) b True e)) (truth (holds c) w e)"
proof (induction e)
  case (ECall callee args sp)
  then show ?case using call_sound [OF assms(1)] by simp
next
  case (EUnary op e sp)
  obtain j bs where e: "eval_expr (Some (report c)) b True e = (j, bs)" by (metis surj_pair)
  show ?case using EUnary e by (cases op; cases j) (simp_all add: skip_or_incomplete_def)
next
  case (EBinary op l r sp)
  obtain jl bl jr br where e: "eval_expr (Some (report c)) b True l = (jl, bl)"
    "eval_expr (Some (report c)) b True r = (jr, br)" by (metis surj_pair)
  have val: "int_value x b = Some v \<Longrightarrow> term_value w x = v" for x v
    using assms(2) by (cases x) (auto simp: agrees_def)
  have ne: "jl \<noteq> NotEvaluated" "jr \<noteq> NotEvaluated"
    using forced_evaluated [of "report c" b] e by (metis fst_conv)+
  show ?case
  proof (cases "is_cmp op")
    case True
    then show ?thesis
      by (cases op) (auto simp: eval_cmp_def skip_or_incomplete_def bool_judgement_def dest: val split: option.split)
  next
    case False
    show ?thesis
    proof (cases "op = BAnd \<or> op = BOr \<or> op = BImplies")
      case True
      then have "sound_judgement jl (truth (holds c) w l)" "sound_judgement jr (truth (holds c) w r)"
        using EBinary e by auto
      then show ?thesis using True e ne by (cases op; cases jl; cases jr) (simp_all add: Let_def)
    next
      case nc: False
      then show ?thesis using False by (cases op) (simp_all add: skip_or_incomplete_def)
    qed
  qed
qed (use assms(2) in \<open>auto simp: skip_or_incomplete_def bool_judgement_def agrees_def split: option.split\<close>)

lemma subset_sound:
  assumes "valid c" "agrees b w" "in_subset b e" "\<forall>req \<in> atom_requires e. trusted req"
  shows "fst (eval_expr (Some (report c)) b f e) \<noteq> NotEvaluated"
    and "sound_judgement (fst (eval_expr (Some (report c)) b f e)) (truth (holds c) w e)"
  using forced_sound [OF assms(1,2,4)] forced_evaluated subset_forced [OF assms(3), of "report c" f] by simp_all

end

section \<open>The alias slice provides that evidence\<close>

type_synonym alias_case = "checked_memory \<times> observed_memory_access list \<times> layout"

fun case_report :: "alias_case \<Rightarrow> alias_analysis_report" where
  "case_report (m, accs, L) = evaluate_alias m accs"

fun case_holds :: "alias_case \<Rightarrow> relation_require \<Rightarrow> string \<Rightarrow> string \<Rightarrow> bool" where
  "case_holds (m, accs, L) = endpoints_hold L m"

text \<open>Non-empty regions that end below \<open>i64::MAX\<close>, and a caller that meets the reported
  obligations.\<close>

fun case_valid :: "alias_case \<Rightarrow> bool" where
  "case_valid (m, accs, L) \<longleftrightarrow>
     (\<forall>r \<in> set (cm_regions m). unsaturated r \<and> region_bytes L r \<noteq> {}) \<and>
     (\<forall>ob \<in> set (ar_unresolved_obligations (evaluate_alias m accs)). obligation_holds L m ob)"

definition symmetric_relation :: "relation_require \<Rightarrow> bool" where
  "symmetric_relation req \<longleftrightarrow> req \<noteq> Contains"

lemma endpoints_swap: "symmetric_relation req \<Longrightarrow> endpoints_hold L m req x y \<longleftrightarrow> endpoints_hold L m req y x"
  by (cases req) (auto simp: symmetric_relation_def endpoints_hold_def split: option.split)

lemma observe_pair_refutes:
  assumes "is_proven (fst (observe_pair l r))" "\<not> relation_satisfies req (fst (observe_pair l r))"
    "symmetric_relation req" "unsaturated l" "unsaturated r" "region_bytes L l \<noteq> {}" "region_bytes L r \<noteq> {}"
  shows "\<not> require_holds req (region_bytes L l) (region_bytes L r)"
proof (cases "contradicts req (fst (observe_pair l r))")
  case True then show ?thesis using observe_pair_contradicts assms by blast
next
  case False
  then have "req = Equal" "fst (observe_pair l r) = ProvenContains"
    using assms(1-3) by (cases req; cases "fst (observe_pair l r)"; auto simp: symmetric_relation_def)+
  then show ?thesis
    using assms(4-) by (cases "cr_length l"; cases "cr_length r")
      (auto simp: observe_unfold saturating_end require_holds_ivl simp del: require_holds.simps split: if_splits)
qed

lemma observe_pair_basis: "snd (snd (observe_pair l r)) \<noteq> DeclaredPrecondition"
  by (simp add: observe_pair_def Let_def split: length_spec.split)

lemma precondition_row:
  assumes "re_evidence_basis (relation_row m rel) = DeclaredPrecondition"
  shows "alias_verdict (Inl (rel, relation_row m rel)) = Owed"
proof (cases "find_region m (cl_left rel)"; cases "find_region m (cl_right rel)")
  fix l r assume lr: "find_region m (cl_left rel) = Some l" "find_region m (cl_right rel) = Some r"
  obtain obs d bs where o: "observe_pair l r = (obs, d, bs)" by (metis prod_cases3)
  then have "bs \<noteq> DeclaredPrecondition" using observe_pair_basis [of l r] by simp
  then show ?thesis
    using assms lr o by (simp add: relation_row_def split: if_splits)
qed (use assms in \<open>simp_all add: relation_row_def\<close>)

lemma row_judged:
  assumes "case_valid (m, accs, L)" "rel \<in> set (cm_relations m)" "symmetric_relation req"
    "row = relation_row m rel" "obs = re_observed row"
  shows "sound_judgement (fst (judge_require req row obs x y)) (endpoints_hold L m req (cl_left rel) (cl_right rel))"
proof (cases "\<exists>l r. find_region m (cl_left rel) = Some l \<and> find_region m (cl_right rel) = Some r")
  case True
  then obtain l r where lr: "find_region m (cl_left rel) = Some l" "find_region m (cl_right rel) = Some r" by blast
  have obs: "obs = fst (observe_pair l r)" using row_observed [OF lr] assms(4,5) by simp
  have reg: "unsaturated l" "unsaturated r" "region_bytes L l \<noteq> {}" "region_bytes L r \<noteq> {}"
    using assms(1) find_region_in lr by auto
  have E: "endpoints_hold L m req (cl_left rel) (cl_right rel) = require_holds req (region_bytes L l) (region_bytes L r)"
    using lr by (simp add: endpoints_hold_def)
  have owed: "endpoints_hold L m req (cl_left rel) (cl_right rel)"
    if "re_evidence_basis row = DeclaredPrecondition" "re_required row = relation_require_as_str req"
  proof -
    have "cl_require rel = req"
      using that(2) assms(4) by (cases req; cases "cl_require rel") (auto simp: relation_row_def Let_def split: prod.splits)
    moreover have "relation_holds L m rel"
      using precondition_row [of m rel] that(1) assms(1,2,4) owed_obligation
      by (auto simp: evaluate_alias_obligations simp del: alias_verdict.simps)
    ultimately show ?thesis by (simp add: relation_holds_def)
  qed
  have "relation_satisfies req obs \<Longrightarrow> require_holds req (region_bytes L l) (region_bytes L r)"
    using observe_pair_satisfies reg obs by blast
  moreover have "is_proven obs \<Longrightarrow> \<not> relation_satisfies req obs \<Longrightarrow>
      \<not> require_holds req (region_bytes L l) (region_bytes L r)"
    using observe_pair_refutes assms(3) reg obs by blast
  ultimately show ?thesis
    using owed unfolding judge_require_def Let_def E
    by (cases req; cases obs) (auto simp: symmetric_relation_def)
next
  case False
  then have inv: "find_region m (cl_left rel) = None \<or> find_region m (cl_right rel) = None" by auto
  then have "obs = InvalidRegion" "re_evidence_basis row = UnknownBasis"
    using row_invalid assms(4,5) by (auto simp: relation_row_def Let_def split: option.split)
  then show ?thesis by (cases req) (simp_all add: judge_require_def)
qed

lemma lookup_rows_cases:
  assumes "lookup_rows (map (relation_row m) rels) x y = Some (row, obs)"
  obtains rel where "rel \<in> set rels" "row = relation_row m rel" "cl_left rel = x" "cl_right rel = y" "obs = re_observed row"
  | rel where "rel \<in> set rels" "row = relation_row m rel" "cl_left rel = y" "cl_right rel = x"
      "obs = (case re_observed row of ProvenContains \<Rightarrow> MayOverlap | other \<Rightarrow> other)"
proof -
  have ends: "re_left (relation_row m rel) = cl_left rel" "re_right (relation_row m rel) = cl_right rel" for rel
    by (simp_all add: relation_row_def Let_def split: prod.split)
  show thesis
    using assms that by (induction rels) (auto simp: ends split: if_splits)
qed

lemma judge_require_weaker:
  "sound_judgement (fst (judge_require req row ProvenContains x y)) t \<Longrightarrow> symmetric_relation req \<Longrightarrow>
   sound_judgement (fst (judge_require req row MayOverlap x y)) t"
  by (cases req) (auto simp: judge_require_def symmetric_relation_def Let_def split: if_splits)

interpretation alias_evidence: relation_evidence case_report case_holds case_valid symmetric_relation
proof
  fix c req x y row obs
  assume valid: "case_valid c" and sym: "symmetric_relation req"
    and look: "lookup_relation_row (case_report c) x y = Some (row, obs)"
  obtain m accs L where c: "c = (m, accs, L)" by (metis prod_cases3)
  have "ar_relations (case_report c) = map (relation_row m) (cm_relations m)"
    by (simp add: c evaluate_alias_def Let_def split: prod.split)
  with look have "lookup_rows (map (relation_row m) (cm_relations m)) x y = Some (row, obs)"
    by (simp add: lookup_relation_row_def)
  then show "sound_judgement (fst (judge_require req row obs x y)) (case_holds c req x y)"
  proof (cases rule: lookup_rows_cases)
    case (1 rel)
    then show ?thesis using row_judged [of m accs L rel req row obs x y] valid sym c by auto
  next
    case (2 rel)
    have "sound_judgement (fst (judge_require req row (re_observed row) x y)) (endpoints_hold L m req y x)"
      using row_judged [of m accs L rel req row "re_observed row" x y] 2 valid sym c by auto
    then have "sound_judgement (fst (judge_require req row obs x y)) (endpoints_hold L m req y x)"
      using 2(5) judge_require_weaker [OF _ sym] by (cases "re_observed row") auto
    then show ?thesis using endpoints_swap [OF sym] c by simp
  qed
qed

section \<open>The aggregate status\<close>

fun judgement_verdict :: "expr_judgement \<Rightarrow> verdict" where
  "judgement_verdict ProvenTrue = Proved"
| "judgement_verdict ProvenFalse = Refuted"
| "judgement_verdict TrueUnderPrecondition = Owed"
| "judgement_verdict JIncomplete = Open"
| "judgement_verdict NotEvaluated = Silent"

definition expr_verdict :: "contract_expr_evidence \<Rightarrow> verdict" where
  "expr_verdict row = judgement_verdict (ce_judgement row)"

definition expr_slice_status :: "contract_expr_evidence list \<Rightarrow> contract_expr_status option" where
  "expr_slice_status rows =
     (if list_all (\<lambda>row. ce_judgement row = NotEvaluated) rows then None else Some (contract_expr_status_of rows))"

fun expr_rank :: "contract_expr_status option \<Rightarrow> nat" where
  "expr_rank None = 0"
| "expr_rank (Some CxPassed) = 0"
| "expr_rank (Some CxPassedUnderPreconditions) = 1"
| "expr_rank (Some CxIncomplete) = 2"
| "expr_rank (Some CxFailed) = 3"

lemma fold_expr_tally:
  "fold expr_tally rows (f, i, t, u) =
     (f \<or> Refuted \<in> expr_verdict ` set rows, i \<or> Open \<in> expr_verdict ` set rows,
      t \<or> Proved \<in> expr_verdict ` set rows \<or> Owed \<in> expr_verdict ` set rows,
      u \<or> Owed \<in> expr_verdict ` set rows)"
proof (induction rows arbitrary: f i t u)
  case (Cons row rows)
  then show ?case by (cases "ce_judgement row") (auto simp: expr_tally_def expr_verdict_def)
qed simp

lemma expr_slice_rank: "expr_rank (expr_slice_status rows) = worst (expr_verdict ` set rows)"
proof (cases "list_all (\<lambda>row. ce_judgement row = NotEvaluated) rows")
  case True
  then have "expr_verdict ` set rows \<subseteq> {Silent}" by (auto simp: list_all_iff expr_verdict_def)
  then show ?thesis using True by (auto simp: expr_slice_status_def worst_def)
next
  case False
  then obtain row where row: "row \<in> set rows" "expr_verdict row \<noteq> Silent"
    by (auto simp: list_all_iff expr_verdict_def) (metis judgement_verdict.simps expr_judgement.exhaust verdict.distinct)
  then have "\<exists>v \<in> {Proved, Owed, Open, Refuted}. v \<in> expr_verdict ` set rows"
    by (cases "expr_verdict row") (auto intro: rev_image_eqI)
  then show ?thesis using False
    by (auto simp: expr_slice_status_def contract_expr_status_of_def Let_def fold_expr_tally worst_def)
qed

interpretation expr_slice: fail_closed expr_verdict expr_slice_status expr_rank
  by unfold_locales (rule expr_slice_rank)

lemma evaluate_expr_status:
  "map_option cx_status (evaluate_contract_expressions ctr alias b) = expr_slice_status (contract_expr_rows ctr alias b)"
  by (simp add: evaluate_contract_expressions_def expr_slice_status_def Let_def)

section \<open>Soundness of the slice\<close>

text \<open>A contract is settled when every condition is in the documented subset and names no
  \<open>contains\<close> atom, or is a \<open>requires\<close> that the caller owes as a bound.\<close>

definition owed_bound :: "checked_contract \<Rightarrow> expr_bindings \<Rightarrow> checked_condition \<Rightarrow> bool" where
  "owed_bound ctr b cond \<longleftrightarrow> try_caller_bound_obligation (cc_expr cond) b (integer_param_names ctr) \<noteq> None"

definition plain_subset :: "expr_bindings \<Rightarrow> expr \<Rightarrow> bool" where
  "plain_subset b e \<longleftrightarrow> in_subset b e \<and> Contains \<notin> atom_requires e"

definition settled :: "checked_contract \<Rightarrow> expr_bindings \<Rightarrow> bool" where
  "settled ctr b \<longleftrightarrow>
     (\<forall>cond \<in> set (c_requires ctr). plain_subset b (cc_expr cond) \<or> owed_bound ctr b cond) \<and>
     (\<forall>cond \<in> set (c_ensures ctr). plain_subset b (cc_expr cond))"

text \<open>The caller discharges the bounds recorded as its obligations.\<close>

definition bounds_kept :: "checked_contract \<Rightarrow> expr_bindings \<Rightarrow> (expr \<Rightarrow> bool) \<Rightarrow> bool" where
  "bounds_kept ctr b T \<longleftrightarrow> (\<forall>cond \<in> set (c_requires ctr). owed_bound ctr b cond \<longrightarrow> T (cc_expr cond))"

lemma caller_bound_judgement:
  "try_caller_bound_obligation e b ps = Some (j, basis) \<Longrightarrow> j = TrueUnderPrecondition"
  by (auto simp: try_caller_bound_obligation_def split: expr.splits if_splits option.splits)

lemma plain_subset_sound:
  assumes "case_valid c" "agrees b w" "plain_subset b e"
  shows "fst (eval_expr (Some (case_report c)) b f e) \<noteq> NotEvaluated"
    and "sound_judgement (fst (eval_expr (Some (case_report c)) b f e)) (truth (case_holds c) w e)"
  using alias_evidence.subset_sound [OF assms(1,2), of e f] assms(3)
  by (auto simp: plain_subset_def symmetric_relation_def)

lemma condition_sound:
  assumes "case_valid c" "agrees b w" "plain_subset b (cc_expr cond) \<or> role = Requires \<and> owed_bound ctr b cond"
    "role = Requires \<Longrightarrow> owed_bound ctr b cond \<Longrightarrow> truth (case_holds c) w (cc_expr cond)"
  defines "row \<equiv> eval_condition role cond (Some (case_report c)) b (integer_param_names ctr)"
  shows "ce_judgement row \<noteq> NotEvaluated \<and> sound_judgement (ce_judgement row) (truth (case_holds c) w (cc_expr cond))"
proof (cases "role = Requires \<and> owed_bound ctr b cond")
  case True
  then obtain j basis where j: "try_caller_bound_obligation (cc_expr cond) b (integer_param_names ctr) = Some (j, basis)"
    by (auto simp: owed_bound_def)
  then have "ce_judgement row = TrueUnderPrecondition"
    using True caller_bound_judgement by (simp add: row_def eval_condition_def)
  then show ?thesis using assms(4) True by simp
next
  case False
  then have "(if role = Requires then try_caller_bound_obligation (cc_expr cond) b (integer_param_names ctr) else None) = None"
    unfolding owed_bound_def by metis
  then have "ce_judgement row = fst (eval_expr (Some (case_report c)) b False (cc_expr cond))"
    by (simp add: row_def eval_condition_def Let_def split: prod.split)
  then show ?thesis using plain_subset_sound [OF assms(1,2)] assms(3) False by auto
qed

lemma rows_sound:
  assumes valid: "case_valid c" "agrees b w" and set: "settled ctr b"
    and kept: "bounds_kept ctr b (truth (case_holds c) w)"
  shows "list_all2 (\<lambda>cond row. ce_judgement row \<noteq> NotEvaluated \<and>
      sound_judgement (ce_judgement row) (truth (case_holds c) w (cc_expr cond)))
    (c_requires ctr @ c_ensures ctr) (contract_expr_rows ctr (Some (case_report c)) b)"
proof -
  have "list_all2 (\<lambda>cond row. ce_judgement row \<noteq> NotEvaluated \<and>
        sound_judgement (ce_judgement row) (truth (case_holds c) w (cc_expr cond)))
      conds (map (\<lambda>cond. eval_condition role cond (Some (case_report c)) b (integer_param_names ctr)) conds)"
    if "role = Requires \<and> conds = c_requires ctr \<or> role = Ensures \<and> conds = c_ensures ctr" for role conds
    unfolding list_all2_map2 list_all2_same
    using that set kept by (intro ballI condition_sound [OF valid]) (auto simp: settled_def bounds_kept_def)
  then show ?thesis
    unfolding contract_expr_rows_def Let_def by (intro list_all2_appendI) auto
qed


lemma list_all2_members:
  "list_all2 P xs ys \<Longrightarrow> x \<in> set xs \<Longrightarrow> \<exists>y \<in> set ys. P x y"
  "list_all2 P xs ys \<Longrightarrow> y \<in> set ys \<Longrightarrow> \<exists>x \<in> set xs. P x y"
  by (induction rule: list_all2_induct) auto

section \<open>Properties\<close>

text \<open>C25: on the documented subset, without \<open>regions.contains\<close>, the evaluator never leaves an expression unevaluated, and its
  verdicts are sound in every world that agrees with the bindings and every layout in which the caller meets the alias obligations, the
  regions are non-empty, with offsets in \<open>i64\<close> and literal ends not past \<open>i64::MAX\<close>: \<open>proven_true\<close> and
  \<open>true_under_precondition\<close> mean the expression is true there, \<open>proven_false\<close> means it is false
  there. With an empty region, which is excluded here, \<open>proven_false\<close> of a disjointness can be wrong
  (\<open>empty_region_contradicts_disjoint\<close>).\<close>

theorem eval_subset_sound:
  assumes "in_subset b e" "Contains \<notin> atom_requires e" "agrees b w"
    and "\<forall>r \<in> set (cm_regions m). unsaturated r \<and> region_bytes L r \<noteq> {}"
    and "\<forall>ob \<in> set (ar_unresolved_obligations (evaluate_alias m accs)). obligation_holds L m ob"
  shows "fst (eval_expr (Some (evaluate_alias m accs)) b f e) \<noteq> NotEvaluated \<and>
    (fst (eval_expr (Some (evaluate_alias m accs)) b f e) \<in> {ProvenTrue, TrueUnderPrecondition} \<longrightarrow>
       truth (endpoints_hold L m) w e) \<and>
    (fst (eval_expr (Some (evaluate_alias m accs)) b f e) = ProvenFalse \<longrightarrow> \<not> truth (endpoints_hold L m) w e)"
  using plain_subset_sound [of "(m, accs, L)" b w e f] assms
  by (cases "fst (eval_expr (Some (evaluate_alias m accs)) b f e)") (auto simp: plain_subset_def)

definition no_bindings :: expr_bindings where
  "no_bindings = \<lparr>eb_ints = (\<lambda>_. None), eb_bools = (\<lambda>_. None)\<rparr>"

definition zero_world :: world where
  "zero_world = \<lparr>w_bool = (\<lambda>_. False), w_int = (\<lambda>_. 0), w_term = (\<lambda>_. 0), w_opaque = (\<lambda>_. False)\<rparr>"

definition region_call :: "string \<Rightarrow> string \<Rightarrow> string \<Rightarrow> expr" where
  "region_call p x y = (let s = from_offsets 0 0 in
     ECall (EMember (EIdent ''regions'' s) p s) [EIdent x s, EIdent y s] s)"

lemma overlap_memory_valid:
  "(\<forall>r \<in> set (cm_regions overlap_memory). unsaturated r \<and> region_bytes flat_layout r \<noteq> {}) \<and>
   (\<forall>ob \<in> set (ar_unresolved_obligations (evaluate_alias overlap_memory [])). obligation_holds flat_layout overlap_memory ob)"
proof
  have "ar_unresolved_obligations (evaluate_alias overlap_memory []) =
      [caller_obligation \<lparr>cl_left = ''hi'', cl_right = ''q'', cl_require = Disjoint, cl_basis = Some Precondition\<rparr>]"
    by code_simp
  then show "\<forall>ob \<in> set (ar_unresolved_obligations (evaluate_alias overlap_memory [])). obligation_holds flat_layout overlap_memory ob"
    by (simp add: owed_obligation relation_holds_def endpoints_hold_def find_region_def overlap_memory_def
        region_bytes_def region_lo_def length_in_def flat_layout_def int_ivl_rules)
qed (simp add: overlap_memory_def unsaturated_def rust_int region_bytes_def region_lo_def length_in_def flat_layout_def)

theorem eval_subset_sound_witness:
  "truth (endpoints_hold flat_layout overlap_memory) zero_world
     (EBinary BAnd (region_call ''disjoint'' ''lo'' ''hi'') (region_call ''disjoint'' ''q'' ''hi'') (from_offsets 0 0))"
proof -
  let ?e = "EBinary BAnd (region_call ''disjoint'' ''lo'' ''hi'') (region_call ''disjoint'' ''q'' ''hi'') (from_offsets 0 0)"
  have "fst (eval_expr (Some (evaluate_alias overlap_memory [])) no_bindings False ?e) = TrueUnderPrecondition"
    by code_simp
  moreover have "in_subset no_bindings ?e" "Contains \<notin> atom_requires ?e"
    by (simp_all add: region_call_def relation_require_parse_def Let_def)
  moreover have "agrees no_bindings zero_world" by (simp add: agrees_def no_bindings_def)
  ultimately show ?thesis
    using eval_subset_sound [of no_bindings ?e zero_world overlap_memory flat_layout "[]" False]
      overlap_memory_valid by simp
qed

text \<open>C12: let the alias slice of the memory be evaluated, every \<open>requires\<close> and \<open>ensures\<close> of the contract be in the decided subset (a
  \<open>requires\<close> may also be an integer bound recorded as the caller's), the regions be non-empty in the layout with offsets
  in \<open>i64\<close> and literal ends not past \<open>i64::MAX\<close>, the world agree with the bindings, and the caller meet the alias obligations and the recorded
  bounds. Then, when the expression slice passes, outright or under preconditions, every \<open>requires\<close> and \<open>ensures\<close> is
  true there, and when it fails, one of them is false there. Empty regions have to be excluded: an empty region is
  disjoint from a region around it, but the engine judges that false (\<open>empty_region_contradicts_disjoint\<close>).\<close>

theorem contract_expr_sound:
  assumes "evaluate_contract_expressions ctr (Some (evaluate_alias m accs)) b = Some rep"
    and "settled ctr b" "agrees b w" "bounds_kept ctr b (truth (endpoints_hold L m) w)"
    and "\<forall>r \<in> set (cm_regions m). unsaturated r \<and> region_bytes L r \<noteq> {}"
    and "\<forall>ob \<in> set (ar_unresolved_obligations (evaluate_alias m accs)). obligation_holds L m ob"
  shows "(cx_status rep \<in> {CxPassed, CxPassedUnderPreconditions} \<longrightarrow>
      (\<forall>cond \<in> set (c_requires ctr @ c_ensures ctr). truth (endpoints_hold L m) w (cc_expr cond))) \<and>
    (cx_status rep = CxFailed \<longrightarrow>
      (\<exists>cond \<in> set (c_requires ctr @ c_ensures ctr). \<not> truth (endpoints_hold L m) w (cc_expr cond)))"
proof -
  let ?conds = "c_requires ctr @ c_ensures ctr" and ?T = "truth (endpoints_hold L m) w"
  let ?rows = "contract_expr_rows ctr (Some (evaluate_alias m accs)) b"
  have rows: "list_all2 (\<lambda>cond row. ce_judgement row \<noteq> NotEvaluated \<and>
      sound_judgement (ce_judgement row) (?T (cc_expr cond))) ?conds ?rows"
    using rows_sound [of "(m, accs, L)" b w ctr] assms by simp
  have rank: "expr_rank (expr_slice_status ?rows) = expr_rank (Some (cx_status rep))"
    using evaluate_expr_status [of ctr "Some (evaluate_alias m accs)" b] assms(1) by simp
  have true: "?T (cc_expr cond)" if st: "cx_status rep \<in> {CxPassed, CxPassedUnderPreconditions}" and cond: "cond \<in> set ?conds" for cond
  proof -
    obtain row where row: "row \<in> set ?rows" "ce_judgement row \<noteq> NotEvaluated"
        "sound_judgement (ce_judgement row) (?T (cc_expr cond))"
      using list_all2_members(1) [OF rows cond] by blast
    have "expr_rank (expr_slice_status ?rows) \<le> 1" using st rank by auto
    then have "expr_verdict row \<noteq> Open" "expr_verdict row \<noteq> Refuted"
      using expr_slice.conditional_iff row(1) by blast+
    then show ?thesis using row by (cases "ce_judgement row") (auto simp: expr_verdict_def)
  qed
  have false: "\<exists>cond \<in> set ?conds. \<not> ?T (cc_expr cond)" if "cx_status rep = CxFailed"
  proof -
    have "expr_rank (expr_slice_status ?rows) = 3" using that rank by simp
    then obtain row where row: "row \<in> set ?rows" "expr_verdict row = Refuted"
      using expr_slice.worst_iff by blast
    then have "ce_judgement row = ProvenFalse" by (cases "ce_judgement row") (auto simp: expr_verdict_def)
    moreover obtain cond where "cond \<in> set ?conds" "sound_judgement (ce_judgement row) (?T (cc_expr cond))"
      using list_all2_members(2) [OF rows row(1)] by blast
    ultimately show ?thesis by (metis sound_judgement.simps(3))
  qed
  show ?thesis using true false by blast
qed

definition bounded_contract :: checked_contract where
  "bounded_contract = \<lparr>version_major = 0, version_minor = 1, c_name = ''f'', c_summary = None,
     c_parameters = [\<lparr>cp_name = ''n'', cp_ty = Usize, cp_type_source = ''usize'', cp_role = None\<rparr>],
     c_returns = [],
     c_requires =
       [\<lparr>cc_expr = EBinary BLe (EIdent ''n'' (from_offsets 0 1)) (EInt 8 (from_offsets 5 6)) (from_offsets 0 6),
         cc_source = ''n <= 8'', cc_reason = None\<rparr>],
     c_ensures = [\<lparr>cc_expr = region_call ''disjoint'' ''lo'' ''hi'', cc_source = ''regions.disjoint(lo, hi)'', cc_reason = None\<rparr>],
     c_effects = [], c_memory = Some overlap_memory, c_constraints = None, c_target_overrides = []\<rparr>"

theorem contract_expr_sound_witness:
  "list_all (\<lambda>cond. truth (endpoints_hold flat_layout overlap_memory) zero_world (cc_expr cond))
     (c_requires bounded_contract @ c_ensures bounded_contract)"
proof -
  obtain rep where rep: "evaluate_contract_expressions bounded_contract (Some (evaluate_alias overlap_memory [])) no_bindings = Some rep"
    "cx_status rep = CxPassedUnderPreconditions"
  proof -
    have "map_option cx_status (evaluate_contract_expressions bounded_contract (Some (evaluate_alias overlap_memory [])) no_bindings)
        = Some CxPassedUnderPreconditions" by code_simp
    then show thesis using that by auto
  qed
  have "settled bounded_contract no_bindings"
    by (simp add: settled_def plain_subset_def owed_bound_def try_caller_bound_obligation_def bounded_contract_def
        no_bindings_def integer_param_names_def region_call_def relation_require_parse_def Let_def)
  moreover have "bounds_kept bounded_contract no_bindings (truth (endpoints_hold flat_layout overlap_memory) zero_world)"
    by (simp add: bounds_kept_def bounded_contract_def zero_world_def)
  moreover have "agrees no_bindings zero_world" by (simp add: agrees_def no_bindings_def)
  ultimately show ?thesis
    unfolding list_all_iff using contract_expr_sound [OF rep(1)] rep(2) overlap_memory_valid by blast
qed

text \<open>the expression slice is monotone: adding conditions, or reordering them, never improves
  the status (an omitted slice counts as the best one).\<close>

theorem contract_expr_no_upgrade:
  assumes "c_parameters c1 = c_parameters c2" "set (c_requires c1) \<subseteq> set (c_requires c2)"
    "set (c_ensures c1) \<subseteq> set (c_ensures c2)"
  shows "expr_rank (map_option cx_status (evaluate_contract_expressions c1 alias b)) \<le>
    expr_rank (map_option cx_status (evaluate_contract_expressions c2 alias b))"
proof -
  have "integer_param_names c1 = integer_param_names c2" using assms(1) by (simp add: integer_param_names_def)
  then have "set (contract_expr_rows c1 alias b) \<subseteq> set (contract_expr_rows c2 alias b)"
    using assms(2,3) by (auto simp: contract_expr_rows_def Let_def)
  then show ?thesis by (simp add: evaluate_expr_status expr_slice.no_upgrade)
qed

theorem contract_expr_no_upgrade_witness:
  "expr_rank (map_option cx_status (evaluate_contract_expressions (bounded_contract\<lparr>c_ensures := []\<rparr>) None no_bindings)) \<le>
   expr_rank (map_option cx_status (evaluate_contract_expressions bounded_contract None no_bindings))"
  by (rule contract_expr_no_upgrade) (simp_all add: bounded_contract_def)

section \<open>Where the evaluator is not sound\<close>

text \<open>Outside the subset, an unevaluated left operand lets the right one decide alone; a false
  consequent refutes an implication whose antecedent was not evaluated.\<close>

lemma and_right_only_unsound:
  "fst (eval_expr alias no_bindings False
     (EBinary BAnd (EIdent ''x'' s) (EBool True s) s)) = ProvenTrue \<and>
   \<not> truth H zero_world (EBinary BAnd (EIdent ''x'' s) (EBool True s) s)"
  by (simp add: no_bindings_def zero_world_def skip_or_incomplete_def bool_judgement_def)

lemma or_right_only_unsound:
  "fst (eval_expr alias no_bindings False
     (EBinary BOr (EIdent ''x'' s) (EBool False s) s)) = ProvenFalse \<and>
   truth H (zero_world\<lparr>w_bool := \<lambda>_. True\<rparr>) (EBinary BOr (EIdent ''x'' s) (EBool False s) s)"
  by (simp add: no_bindings_def zero_world_def skip_or_incomplete_def bool_judgement_def)

text \<open>\<open>regions.contains\<close>: equal regions contain each other but are judged not to, and a declared
  precondition \<open>contains(a, b)\<close> is accepted as evidence for \<open>contains(b, a)\<close>.\<close>

definition swapped_memory :: checked_memory where
  "swapped_memory = \<lparr>cm_regions =
     [\<lparr>cr_name = ''a'', cr_base_param = ''p'', cr_offset = 0, cr_length = Literal 16, cr_access = Read\<rparr>,
      \<lparr>cr_name = ''b'', cr_base_param = ''q'', cr_offset = 0, cr_length = Literal 8, cr_access = Read\<rparr>,
      \<lparr>cr_name = ''c'', cr_base_param = ''p'', cr_offset = 0, cr_length = Literal 16, cr_access = Read\<rparr>],
     cm_relations =
     [\<lparr>cl_left = ''a'', cl_right = ''b'', cl_require = Contains, cl_basis = Some Precondition\<rparr>,
      \<lparr>cl_left = ''a'', cl_right = ''c'', cl_require = Contains, cl_basis = None\<rparr>]\<rparr>"

lemma contains_swapped_unsound:
  "fst (eval_expr (Some (evaluate_alias swapped_memory [])) no_bindings False (region_call ''contains'' ''b'' ''a'')) =
     TrueUnderPrecondition \<and>
   \<not> endpoints_hold L swapped_memory Contains ''b'' ''a''"
proof
  show "fst (eval_expr (Some (evaluate_alias swapped_memory [])) no_bindings False (region_call ''contains'' ''b'' ''a'')) =
     TrueUnderPrecondition" by code_simp
qed (simp add: endpoints_hold_def find_region_def swapped_memory_def region_bytes_def region_lo_def length_in_def int_ivl_rules)

lemma contains_equal_refuted:
  "fst (eval_expr (Some (evaluate_alias swapped_memory [])) no_bindings False (region_call ''contains'' ''a'' ''c'')) =
     ProvenFalse \<and>
   endpoints_hold L swapped_memory Contains ''a'' ''c''"
proof
  show "fst (eval_expr (Some (evaluate_alias swapped_memory [])) no_bindings False (region_call ''contains'' ''a'' ''c'')) =
     ProvenFalse" by code_simp
qed (simp add: endpoints_hold_def find_region_def swapped_memory_def region_bytes_def region_lo_def length_in_def int_ivl_rules)

end
