(* ===== verification/X86_Regs.thy ===== *)
theory X86_Regs
  imports Prelude
begin

unbundle bit_operations_syntax

text \<open>
  The x86-64 register model of \<open>semasm-x86/src/lib.rs\<close>: general-purpose registers, their overlapping
  views, the effect of writing a view, and the System V register classes. The view algebra is
  compared with 64-bit register cells as machine words.
\<close>

datatype width = B8 | B16 | B32 | B64

fun width_bits :: "width \<Rightarrow> nat" where
  "width_bits B8 = 8"
| "width_bits B16 = 16"
| "width_bits B32 = 32"
| "width_bits B64 = 64"

datatype gp = Rax | Rbx | Rcx | Rdx | Rsi | Rdi | Rsp | Rbp | R8 | R9 | R10 | R11 | R12 | R13 | R14 | R15

datatype storage = SGp gp | SRip | SRflags | SSeg nat | SXmm nat

record register =
  r_storage :: storage
  r_width :: width
  r_high :: bool

definition reg_gp :: "gp \<Rightarrow> width \<Rightarrow> bool \<Rightarrow> register" where
  "reg_gp g w high = \<lparr>r_storage = SGp g, r_width = w, r_high = high\<rparr>"

definition full :: "gp \<Rightarrow> register" where
  "full g = reg_gp g B64 False"

definition low32 :: "gp \<Rightarrow> register" where
  "low32 g = reg_gp g B32 False"

definition low16 :: "gp \<Rightarrow> register" where
  "low16 g = reg_gp g B16 False"

definition low8 :: "gp \<Rightarrow> register" where
  "low8 g = reg_gp g B8 False"

definition high8 :: "gp \<Rightarrow> register" where
  "high8 g = reg_gp g B8 True"

definition rip :: register where
  "rip = \<lparr>r_storage = SRip, r_width = B64, r_high = False\<rparr>"

definition rflags :: register where
  "rflags = \<lparr>r_storage = SRflags, r_width = B64, r_high = False\<rparr>"

definition canonical :: "register \<Rightarrow> register option" where
  "canonical r = (case r_storage r of SGp g \<Rightarrow> Some (full g) | _ \<Rightarrow> None)"

definition view_low32 :: "register \<Rightarrow> register option" where
  "view_low32 r = (case r_storage r of SGp g \<Rightarrow> Some (low32 g) | _ \<Rightarrow> None)"

definition view_low16 :: "register \<Rightarrow> register option" where
  "view_low16 r = (case r_storage r of SGp g \<Rightarrow> Some (reg_gp g B16 False) | _ \<Rightarrow> None)"

definition view_low8 :: "register \<Rightarrow> register option" where
  "view_low8 r = (case r_storage r of SGp g \<Rightarrow> Some (reg_gp g B8 False) | _ \<Rightarrow> None)"

definition view_high8 :: "register \<Rightarrow> register option" where
  "view_high8 r = (case r_storage r of SGp g \<Rightarrow> Some (reg_gp g B8 True) | _ \<Rightarrow> None)"

definition bit_range :: "register \<Rightarrow> (nat \<times> nat) option" where
  "bit_range r =
     (case r_storage r of
        SGp _ \<Rightarrow>
          (let base = 0;
               (start, end) = (case (r_width r, r_high r) of
                  (B64, _) \<Rightarrow> (0, 64)
                | (B32, _) \<Rightarrow> (0, 32)
                | (B16, _) \<Rightarrow> (0, 16)
                | (B8, False) \<Rightarrow> (0, 8)
                | (B8, True) \<Rightarrow> (8, 16))
           in Some (base + start, base + end))
      | _ \<Rightarrow> None)"

definition overlaps :: "register \<Rightarrow> register \<Rightarrow> bool" where
  "overlaps r other =
     (if r_storage r \<noteq> r_storage other then False
      else (case (bit_range r, bit_range other) of
              (Some (s1, e1), Some (s2, e2)) \<Rightarrow> s1 < e2 \<and> s2 < e1
            | _ \<Rightarrow> False))"

record bit_range_rec =
  br_start :: nat
  br_end :: nat

record write_effect_rec =
  written :: bit_range_rec
  zero_extend_upper :: bool

definition write_effect :: "register \<Rightarrow> write_effect_rec option" where
  "write_effect r =
     (case bit_range r of
        None \<Rightarrow> None
      | Some (start, end) \<Rightarrow>
          Some \<lparr>written = \<lparr>br_start = start, br_end = end\<rparr>, zero_extend_upper = (r_width r = B32)\<rparr>)"

datatype reg_class = GeneralPurpose | Flags | InstructionPointer | Segment | Vector

definition reg_class_of :: "register \<Rightarrow> reg_class" where
  "reg_class_of r = (case r_storage r of
     SGp _ \<Rightarrow> GeneralPurpose | SRflags \<Rightarrow> Flags | SRip \<Rightarrow> InstructionPointer | SSeg _ \<Rightarrow> Segment | SXmm _ \<Rightarrow> Vector)"

definition volatile_gp :: "gp list" where
  "volatile_gp = [Rax, Rcx, Rdx, Rsi, Rdi, R8, R9, R10, R11]"

definition nonvolatile_gp :: "gp list" where
  "nonvolatile_gp = [Rbx, Rbp, R12, R13, R14, R15, Rsp]"

definition is_volatile :: "gp \<Rightarrow> bool" where
  "is_volatile g \<longleftrightarrow> g \<in> set volatile_gp"

definition is_nonvolatile :: "gp \<Rightarrow> bool" where
  "is_nonvolatile g \<longleftrightarrow> g \<in> set nonvolatile_gp"

section \<open>Register cells\<close>

text \<open>A register file holds a 64-bit cell per general-purpose register. Reading a view takes its
  bits; writing one does to the cell what the write effect says.\<close>

type_synonym cell = "64 word"

definition range_mask :: "nat \<Rightarrow> nat \<Rightarrow> cell" where
  "range_mask s e = push_bit s (mask (e - s))"

definition read_cell :: "register \<Rightarrow> cell \<Rightarrow> cell" where
  "read_cell r c = (case bit_range r of None \<Rightarrow> 0 | Some (s, e) \<Rightarrow> drop_bit s (c AND range_mask s e))"

definition write_cell :: "register \<Rightarrow> cell \<Rightarrow> cell \<Rightarrow> cell" where
  "write_cell r v c =
     (case write_effect r of
        None \<Rightarrow> c
      | Some w \<Rightarrow>
          (let s = br_start (written w); e = br_end (written w);
               kept = c AND NOT (range_mask s e) AND (if zero_extend_upper w then mask e else - 1) in
           kept OR (push_bit s v AND range_mask s e)))"

definition read_view :: "(gp \<Rightarrow> cell) \<Rightarrow> register \<Rightarrow> cell" where
  "read_view f r = (case r_storage r of SGp g \<Rightarrow> read_cell r (f g) | _ \<Rightarrow> 0)"

definition write_view :: "register \<Rightarrow> cell \<Rightarrow> (gp \<Rightarrow> cell) \<Rightarrow> gp \<Rightarrow> cell" where
  "write_view r v f = (case r_storage r of SGp g \<Rightarrow> f(g := write_cell r v (f g)) | _ \<Rightarrow> f)"

lemma bit_range_mask [simp]: "bit (range_mask s e) n \<longleftrightarrow> n < 64 \<and> s \<le> n \<and> n < e"
  by (auto simp: range_mask_def bit_push_bit_iff bit_mask_iff)

lemma bit_read_cell:
  "bit_range r = Some (s, e) \<Longrightarrow> bit (read_cell r c) n \<longleftrightarrow> n + s < e \<and> bit c (n + s)"
  by (auto simp: read_cell_def bit_drop_bit_eq bit_and_iff add.commute dest: bit_imp_le_length)

lemma bit_write_cell:
  assumes "bit_range r = Some (s, e)"
  shows "bit (write_cell r v c) n \<longleftrightarrow>
    (if s \<le> n \<and> n < e then n < 64 \<and> bit v (n - s) else (r_width r \<noteq> B32 \<or> n < e) \<and> bit c n)"
  using assms
  by (auto simp: write_cell_def write_effect_def bit_or_iff bit_and_iff bit_not_iff bit_push_bit_iff bit_mask_iff
      Let_def dest: bit_imp_le_length)

lemma bit_range_gp: "r_storage r = SGp g \<Longrightarrow> \<exists>s e. bit_range r = Some (s, e) \<and> s < e \<and> e \<le> 64 \<and> e - s = width_bits (r_width r)"
  by (cases "r_width r"; cases "r_high r") (simp_all add: bit_range_def)

lemma low32_range: "r_storage r = SGp g \<Longrightarrow> r_width r = B32 \<Longrightarrow> bit_range r = Some (0, 32)"
  by (simp add: bit_range_def)

lemma overlaps_gp:
  assumes "bit_range r = Some (s, e)" "bit_range r' = Some (s', e')"
  shows "overlaps r r' \<longleftrightarrow> r_storage r = r_storage r' \<and> s < e' \<and> s' < e"
  using assms by (simp add: overlaps_def)

text \<open>A view ends at bit 32 or below, or covers the whole cell: zero extension never reaches a view
  that the written one does not overlap.\<close>

lemma read_after_write_disjoint:
  assumes r: "bit_range r = Some (s, e)" "bit_range r' = Some (s', e')" and no: "\<not> (s < e' \<and> s' < e)"
  shows "read_cell r' (write_cell r v c) = read_cell r' c"
proof (rule bit_eqI)
  fix n
  have "s' + n < e' \<Longrightarrow> \<not> (s \<le> s' + n \<and> s' + n < e)" using no by linarith
  moreover have "r_width r = B32 \<Longrightarrow> e' \<le> 32 \<or> s' = 0" "r_width r = B32 \<Longrightarrow> s = 0 \<and> e = 32"
    using r by (auto simp: bit_range_def Let_def split: storage.splits width.splits bool.splits)
  ultimately show "bit (read_cell r' (write_cell r v c)) n \<longleftrightarrow> bit (read_cell r' c) n"
    using no by (auto simp: bit_read_cell [OF r(2)] bit_write_cell [OF r(1)] add.commute)
qed

lemma not_gp_range: "\<nexists>g. r_storage r = SGp g \<Longrightarrow> bit_range r = None"
  by (cases "r_storage r") (simp_all add: bit_range_def)

lemma not_gp_views:
  "\<nexists>g. r_storage r = SGp g \<Longrightarrow> \<not> overlaps r r' \<and> write_view r v f = f"
  using not_gp_range [of r] by (cases "r_storage r") (auto simp: overlaps_def write_view_def)

lemma not_gp_read:
  "\<nexists>g. r_storage r' = SGp g \<Longrightarrow> \<not> overlaps r r' \<and> read_view f r' = 0"
  using not_gp_range [of r'] by (cases "r_storage r'") (auto simp: overlaps_def read_view_def split: option.split)

section \<open>Properties\<close>

text \<open>\<open>Register::overlaps\<close> is exact aliasing, zero extension included: two views overlap if and
  only if some write through the first can change what the second reads.\<close>

theorem overlaps_exact:
  "overlaps r r' \<longleftrightarrow> (\<exists>f v. read_view (write_view r v f) r' \<noteq> read_view f r')"
proof (cases "(\<exists>g. r_storage r = SGp g) \<and> (\<exists>g. r_storage r' = SGp g)")
  case False
  then show ?thesis using not_gp_views not_gp_read by metis
next
  case True
  then obtain g g' where g: "r_storage r = SGp g" "r_storage r' = SGp g'" by blast
  obtain s e s' e' where R: "bit_range r = Some (s, e)" "bit_range r' = Some (s', e')" "s < e" "s' < e'" "e \<le> 64" "e' \<le> 64"
    using bit_range_gp g by metis
  show ?thesis
  proof
    assume o: "overlaps r r'"
    then have o': "g' = g" "s < e'" "s' < e" using overlaps_gp [OF R(1,2)] g by auto
    define n where "n = max s s'"
    have "bit (read_view (write_view r (- 1) (\<lambda>_. 0)) r') (n - s')"
      using o' R g by (auto simp: read_view_def write_view_def bit_read_cell bit_write_cell n_def)
    moreover have "\<not> bit (read_view (\<lambda>_. 0) r') (n - s')"
      using R g by (simp add: read_view_def bit_read_cell)
    ultimately show "\<exists>f v. read_view (write_view r v f) r' \<noteq> read_view f r'" by metis
  next
    assume "\<exists>f v. read_view (write_view r v f) r' \<noteq> read_view f r'"
    then obtain f v where fv: "read_view (write_view r v f) r' \<noteq> read_view f r'" by blast
    then have "g' = g" using g by (auto simp: read_view_def write_view_def split: if_splits)
    then have "s < e' \<and> s' < e"
      using fv g read_after_write_disjoint [OF R(1,2)] by (auto simp: read_view_def write_view_def)
    then show "overlaps r r'" using overlaps_gp [OF R(1,2)] g \<open>g' = g\<close> by simp
  qed
qed

text \<open>\<open>write_effect\<close> describes the write: the view reads back the value written, truncated to
  its width; a 32-bit write clears the upper half of its register and every narrower write leaves
  the rest of the register alone.\<close>

theorem write_effect_correct:
  assumes "r_storage r = SGp g"
  shows "read_view (write_view r v f) r = take_bit (width_bits (r_width r)) v \<and>
    (r_width r = B32 \<longrightarrow> write_view r v f g = take_bit 32 v) \<and>
    (r_width r \<noteq> B32 \<longrightarrow> (\<forall>s e n. bit_range r = Some (s, e) \<longrightarrow> \<not> (s \<le> n \<and> n < e) \<longrightarrow>
       bit (write_view r v f g) n = bit (f g) n)) \<and>
    (\<forall>g'. g' \<noteq> g \<longrightarrow> write_view r v f g' = f g')"
proof -
  obtain s e where R: "bit_range r = Some (s, e)" "s < e" "e \<le> 64" "e - s = width_bits (r_width r)"
    using bit_range_gp [OF assms] by blast
  have "read_view (write_view r v f) r = take_bit (e - s) v"
    by (rule bit_eqI) (use R assms in \<open>auto simp: read_view_def write_view_def bit_read_cell bit_write_cell bit_take_bit_iff\<close>)
  moreover have "write_view r v f g = take_bit 32 v" if "r_width r = B32"
    using low32_range [OF assms that] assms that
    by (intro bit_eqI) (auto simp: write_view_def bit_write_cell bit_take_bit_iff)
  ultimately show ?thesis using R assms by (auto simp: write_view_def bit_write_cell)
qed

theorem write_effect_correct_witness:
  "read_view (write_view (high8 Rax) 0x1FF (\<lambda>_. 0)) (high8 Rax) = 0xFF"
proof -
  have "r_storage (high8 Rax) = SGp Rax" by (simp add: high8_def reg_gp_def)
  from write_effect_correct [OF this, of "0x1FF" "\<lambda>_. 0"] show ?thesis
    by (simp add: high8_def reg_gp_def take_bit_eq_mod)
qed

text \<open>The System V classes partition the sixteen general-purpose registers: every register is
  volatile or nonvolatile, and none is both.\<close>

theorem register_classes_partition: "is_volatile g \<noteq> is_nonvolatile g"
  by (cases g) (simp_all add: is_volatile_def is_nonvolatile_def volatile_gp_def nonvolatile_gp_def)

text \<open>A view that is not general purpose does not overlap itself.\<close>

lemma rip_does_not_overlap_itself: "\<not> overlaps rip rip"
  by (simp add: overlaps_def rip_def bit_range_def)

end
