(* ===== verification/Cfg.thy ===== *)
theory Cfg
  imports Prelude
begin

text \<open>
  Control-flow graphs: \<open>semasm-cfg/src/lib.rs\<close> over the normalised instructions of
  \<open>semasm-decode/src/lib.rs\<close>. \<open>build\<close> classifies every instruction, splits the stream into basic
  blocks at terminators and resolves the edges; \<open>unreachable_blocks\<close> is a breadth-first search.
  Addresses are \<open>u64\<close> values as naturals; no arithmetic is done on them.
\<close>

record physical_instruction =
  pi_address :: nat
  pi_bytes :: "nat list"
  pi_mnemonic :: string
  pi_operands :: "string list"
  pi_read_regs :: "string list"
  pi_write_regs :: "string list"
  pi_groups :: "string list"
  pi_detail_available :: bool

datatype block_end =
    EndFallthrough
  | UnconditionalBranch "nat option" nat
  | ConditionalBranch "nat option" nat
  | EndCall "nat option" "nat option"
  | EndReturn
  | EndIndirect
  | EndUnknown

datatype edge_kind = KFallthrough | KJump | KConditionalTaken | KCall | KReturn

record edge =
  e_from :: nat
  e_to :: "nat option"
  e_kind :: edge_kind

record block =
  b_index :: nat
  b_start_instruction :: nat
  b_end_instruction :: nat
  b_start_address :: nat
  b_end_address :: nat
  b_successors :: "edge list"
  b_end :: block_end

record control_flow_graph =
  g_blocks :: "block list"
  g_entry_block :: nat

datatype cfg_error = EmptyInput

section \<open>Classifying an instruction\<close>

definition parse_imm_operand :: "string \<Rightarrow> nat option" where
  "parse_imm_operand op =
     (let trimmed = dropWhile (\<lambda>c. c = CHR ''#'') (trim op);
          hex = (case strip_prefix ''0x'' trimmed of Some h \<Rightarrow> Some h | None \<Rightarrow> strip_prefix ''0X'' trimmed);
          by_hex = (case hex of Some h \<Rightarrow> parse_unsigned 16 u64_max h | None \<Rightarrow> None) in
      case by_hex of
        Some addr \<Rightarrow> Some addr
      | None \<Rightarrow>
          if trimmed \<noteq> [] \<and> list_all is_ascii_digit trimmed then parse_u64_digits trimmed else None)"

fun first_imm :: "string list \<Rightarrow> nat option" where
  "first_imm [] = None"
| "first_imm (op # ops) = (case parse_imm_operand op of Some addr \<Rightarrow> Some addr | None \<Rightarrow> first_imm ops)"

definition parse_target :: "physical_instruction \<Rightarrow> nat option" where
  "parse_target ins = first_imm (rev (pi_operands ins))"

definition is_conditional_branch_mnemonic :: "string \<Rightarrow> bool" where
  "is_conditional_branch_mnemonic m \<longleftrightarrow>
     m \<in> {''beq'', ''bne'', ''blt'', ''bge'', ''bltu'', ''bgeu'', ''beqz'', ''bnez'', ''cbz'', ''cbnz'',
          ''tbz'', ''tbnz''} \<or>
     take 2 m = ''b.'' \<or>
     take 1 m = ''j'' \<and>
     m \<in> {''je'', ''jne'', ''jz'', ''jnz'', ''ja'', ''jae'', ''jb'', ''jbe'', ''jg'', ''jge'', ''jl'', ''jle'',
          ''jo'', ''jno'', ''js'', ''jns'', ''jp'', ''jnp'', ''jecxz'', ''jrcxz''}"

text \<open>The last test of the source, for \<open>Unknown\<close>, carries the guard \<open>if false\<close>.\<close>

definition classify :: "physical_instruction \<Rightarrow> block_end" where
  "classify ins =
     (let groups = pi_groups ins;
          mnemonic = to_ascii_lowercase (pi_mnemonic ins);
          is_ret = (''ret'' \<in> set groups \<or> mnemonic = ''ret'');
          is_call = (''call'' \<in> set groups);
          is_jump = (''jump'' \<in> set groups) in
      if is_ret then EndReturn
      else if is_call then
        (case parse_target ins of
           Some addr \<Rightarrow> EndCall None (Some addr)
         | None \<Rightarrow> EndCall None None)
      else if is_jump then
        (let direct = parse_target ins;
             unconditional = (mnemonic \<in> {''jmp'', ''b'', ''br'', ''j'', ''jr''}) in
         if unconditional then
           (case direct of Some addr \<Rightarrow> UnconditionalBranch None addr | None \<Rightarrow> EndIndirect)
         else
           (case direct of
              Some addr \<Rightarrow> ConditionalBranch None addr
            | None \<Rightarrow> if is_conditional_branch_mnemonic mnemonic then ConditionalBranch None 0 else EndIndirect))
      else if mnemonic = ''br'' \<or> mnemonic = ''jr'' then EndIndirect
      else if mnemonic = ''blr'' then EndCall None None
      else if list_ex (\<lambda>g. (g = ''int'' \<or> g = ''iret'' \<or> g = ''privilege'' \<or> g = ''branch'') \<and> False) groups
        then EndUnknown
      else EndFallthrough)"

definition classify_instruction :: "physical_instruction \<Rightarrow> block_end" where
  "classify_instruction ins = classify ins"

section \<open>Building the graph\<close>

record block_builder =
  bb_start_instruction :: nat
  bb_end_instruction :: nat
  bb_start_address :: nat
  bb_end_address :: nat
  bb_successors :: "edge list"
  bb_end :: block_end

definition builder_new :: "nat \<Rightarrow> nat \<Rightarrow> block_builder" where
  "builder_new start_instruction start_address =
     \<lparr>bb_start_instruction = start_instruction, bb_end_instruction = start_instruction + 1,
      bb_start_address = start_address, bb_end_address = start_address, bb_successors = [],
      bb_end = EndFallthrough\<rparr>"

definition addr_order :: "physical_instruction list \<Rightarrow> nat list" where
  "addr_order instructions = sort_key (\<lambda>i. pi_address (instructions ! i)) [0..<length instructions]"

text \<open>Collecting into a \<open>HashMap\<close>: a later instruction at the same address replaces an earlier one.\<close>

definition addr_to_instr :: "physical_instruction list \<Rightarrow> nat \<Rightarrow> nat option" where
  "addr_to_instr instructions a =
     map_of (rev (map (\<lambda>i. (pi_address (instructions ! i), i)) [0..<length instructions])) a"

fun position :: "nat \<Rightarrow> nat list \<Rightarrow> nat option" where
  "position x [] = None"
| "position x (y # ys) = (if y = x then Some 0 else map_option Suc (position x ys))"

definition next_address :: "physical_instruction list \<Rightarrow> nat list \<Rightarrow> nat \<Rightarrow> nat option" where
  "next_address instructions order i =
     (case position i order of
        None \<Rightarrow> None
      | Some pos \<Rightarrow>
          if pos + 1 < length order then Some (pi_address (instructions ! (order ! (pos + 1)))) else None)"

fun is_terminator :: "block_end \<Rightarrow> bool" where
  "is_terminator (UnconditionalBranch _ _) = True"
| "is_terminator (ConditionalBranch _ _) = True"
| "is_terminator EndReturn = True"
| "is_terminator EndIndirect = True"
| "is_terminator EndUnknown = True"
| "is_terminator _ = False"

definition mk_edge :: "nat option \<Rightarrow> edge_kind \<Rightarrow> edge" where
  "mk_edge target kind = \<lparr>e_from = 0, e_to = target, e_kind = kind\<rparr>"

text \<open>The edges one instruction contributes, against instruction indices.\<close>

fun edges_of :: "physical_instruction list \<Rightarrow> nat list \<Rightarrow> nat \<Rightarrow> block_end \<Rightarrow> edge list" where
  "edges_of instructions order i (UnconditionalBranch _ address) =
     [mk_edge (addr_to_instr instructions address) KJump]"
| "edges_of instructions order i (ConditionalBranch _ taken_address) =
     mk_edge (addr_to_instr instructions taken_address) KConditionalTaken #
     (case next_address instructions order i of
        Some na \<Rightarrow> [mk_edge (addr_to_instr instructions na) KFallthrough]
      | None \<Rightarrow> [])"
| "edges_of instructions order i (EndCall _ (Some a)) = [mk_edge (addr_to_instr instructions a) KCall]"
| "edges_of instructions order i _ = []"

definition split_step :: "physical_instruction list \<Rightarrow> nat list \<Rightarrow> nat \<Rightarrow>
    block_builder list \<times> block_builder option \<Rightarrow> block_builder list \<times> block_builder option" where
  "split_step instructions order i st = (case st of (blocks, current) \<Rightarrow>
     let b0 = (case current of None \<Rightarrow> builder_new i (pi_address (instructions ! i)) | Some b \<Rightarrow> b);
         ins = instructions ! i;
         end = classify ins;
         b = b0\<lparr>bb_end_instruction := i + 1, bb_end_address := pi_address ins, bb_end := end,
                bb_successors := bb_successors b0 @ edges_of instructions order i end\<rparr> in
     if is_terminator end then (blocks @ [b], None) else (blocks, Some b))"

definition split_blocks :: "physical_instruction list \<Rightarrow> block_builder list" where
  "split_blocks instructions =
     (let order = addr_order instructions in
      case fold (split_step instructions order) order ([], None) of
        (blocks, Some b) \<Rightarrow> blocks @ [b]
      | (blocks, None) \<Rightarrow> blocks)"

definition instr_to_block :: "block_builder list \<Rightarrow> nat \<Rightarrow> nat option" where
  "instr_to_block blocks =
     fold (\<lambda>(bi, b) m. fold (\<lambda>ins m. m(ins \<mapsto> bi)) [bb_start_instruction b..<bb_end_instruction b] m)
       (enumerate 0 blocks) Map.empty"

definition resolve_edge :: "(nat \<Rightarrow> nat option) \<Rightarrow> nat \<Rightarrow> edge \<Rightarrow> edge" where
  "resolve_edge block_of bi e =
     e\<lparr>e_from := bi, e_to := (case e_to e of None \<Rightarrow> None | Some t \<Rightarrow> block_of t)\<rparr>"

text \<open>\<open>jump_target\<close>, \<open>cond_taken\<close>, \<open>call_target\<close>: the target of the last edge of the kind.\<close>

definition last_target :: "edge_kind \<Rightarrow> edge list \<Rightarrow> nat option" where
  "last_target k es = fold (\<lambda>e t. if e_kind e = k then e_to e else t) es None"

fun rebuild_end :: "edge list \<Rightarrow> block_end \<Rightarrow> block_end" where
  "rebuild_end resolved (UnconditionalBranch _ address) = UnconditionalBranch (last_target KJump resolved) address"
| "rebuild_end resolved (ConditionalBranch _ a) = ConditionalBranch (last_target KConditionalTaken resolved) a"
| "rebuild_end resolved (EndCall _ address) = EndCall (last_target KCall resolved) address"
| "rebuild_end resolved other = other"

definition resolve_block :: "(nat \<Rightarrow> nat option) \<Rightarrow> nat \<times> block_builder \<Rightarrow> block" where
  "resolve_block block_of ib = (case ib of (bi, b) \<Rightarrow>
     let resolved = map (resolve_edge block_of bi) (bb_successors b) in
     \<lparr>b_index = bi, b_start_instruction = bb_start_instruction b, b_end_instruction = bb_end_instruction b,
      b_start_address = bb_start_address b, b_end_address = bb_end_address b, b_successors = resolved,
      b_end = rebuild_end resolved (bb_end b)\<rparr>)"

text \<open>\<open>min_by_key\<close> returns the first of several minima.\<close>

fun min_block :: "block list \<Rightarrow> block option" where
  "min_block [] = None"
| "min_block (b # bs) = (case min_block bs of
     None \<Rightarrow> Some b
   | Some m \<Rightarrow> if b_start_address b \<le> b_start_address m then Some b else Some m)"

definition build :: "physical_instruction list \<Rightarrow> cfg_error + control_flow_graph" where
  "build instructions =
     (if instructions = [] then Inl EmptyInput
      else
        let blocks = split_blocks instructions;
            out_blocks = map (resolve_block (instr_to_block blocks)) (enumerate 0 blocks);
            entry_block = (case min_block out_blocks of None \<Rightarrow> 0 | Some b \<Rightarrow> b_index b) in
        Inr \<lparr>g_blocks = out_blocks, g_entry_block = entry_block\<rparr>)"

section \<open>Reachability\<close>

text \<open>The loop over the successors of a block; \<open>None\<close> is an index out of bounds.\<close>

fun visit :: "edge list \<Rightarrow> bool list \<times> nat list \<Rightarrow> (bool list \<times> nat list) option" where
  "visit [] st = Some st"
| "visit (e # es) (reachable, queue) =
     (case e_to e of
        None \<Rightarrow> visit es (reachable, queue)
      | Some to \<Rightarrow>
          if to < length reachable then
            (if \<not> reachable ! to then visit es (reachable[to := True], queue @ [to])
             else visit es (reachable, queue))
          else None)"

definition unmarked :: "bool list \<Rightarrow> nat" where
  "unmarked r = length (filter Not r)"

lemma unmarked_update: "i < length r \<Longrightarrow> \<not> r ! i \<Longrightarrow> unmarked (r[i := True]) < unmarked r"
proof (induction r arbitrary: i)
  case (Cons a r)
  then show ?case by (cases i) (auto simp: unmarked_def)
qed simp

lemma visit_measure:
  "visit es (r, q) = Some (r', q') \<Longrightarrow> unmarked r' < unmarked r \<or> r' = r \<and> q' = q"
proof (induction es "(r, q)" arbitrary: r q rule: visit.induct)
  case (2 e es r q)
  then show ?case
    using unmarked_update by (fastforce split: option.splits if_splits)
qed simp

function bfs :: "block list \<Rightarrow> nat list \<Rightarrow> bool list \<Rightarrow> bool list option" where
  "bfs blocks [] reachable = Some reachable"
| "bfs blocks (bi # queue) reachable =
     (if bi < length blocks then
        (case visit (b_successors (blocks ! bi)) (reachable, queue) of
           None \<Rightarrow> None
         | Some (reachable', queue') \<Rightarrow> bfs blocks queue' reachable')
      else None)"
  by pat_completeness auto

termination
  by (relation "measures [\<lambda>(_, _, r). unmarked r, \<lambda>(_, q, _). length q]")
     (auto dest: visit_measure)

definition unreachable_blocks :: "control_flow_graph \<Rightarrow> nat list option" where
  "unreachable_blocks g =
     (if g_entry_block g < length (g_blocks g) then
        map_option (\<lambda>reachable. filter (\<lambda>i. \<not> reachable ! i) [0..<length reachable])
          (bfs (g_blocks g) [g_entry_block g]
             ((replicate (length (g_blocks g)) False)[g_entry_block g := True]))
      else None)"

section \<open>The search finds exactly the reachable blocks\<close>

definition targets :: "edge list \<Rightarrow> nat set" where
  "targets es = {t. \<exists>e \<in> set es. e_to e = Some t}"

definition block_edges :: "block list \<Rightarrow> (nat \<times> nat) set" where
  "block_edges bs = {(i, j). i < length bs \<and> j \<in> targets (b_successors (bs ! i))}"

definition edges_in_range :: "block list \<Rightarrow> bool" where
  "edges_in_range bs \<longleftrightarrow> (\<forall>b \<in> set bs. \<forall>t \<in> targets (b_successors b). t < length bs)"

lemma targets_Cons: "targets (e # es) = (case e_to e of None \<Rightarrow> {} | Some t \<Rightarrow> {t}) \<union> targets es"
  by (auto simp: targets_def split: option.split)

lemma visit_spec:
  assumes "\<forall>t \<in> targets es. t < length r"
  shows "\<exists>r' q'. visit es (r, q) = Some (r', q') \<and> length r' = length r \<and>
    (\<forall>i < length r. r' ! i \<longleftrightarrow> r ! i \<or> i \<in> targets es) \<and>
    set q' = set q \<union> {i \<in> targets es. \<not> r ! i}"
  using assms
proof (induction es "(r, q)" arbitrary: r q rule: visit.induct)
  case (1 r q) then show ?case by (simp add: targets_def)
next
  case (2 e es r q)
  show ?case
  proof (cases "e_to e")
    case None
    then show ?thesis using 2(1) 2(4) by (simp add: targets_Cons)
  next
    case (Some t)
    then have t: "t < length r" and rest: "\<forall>t \<in> targets es. t < length r" using 2(4) by (auto simp: targets_Cons)
    show ?thesis
    proof (cases "r ! t")
      case True
      then obtain r' q' where "visit es (r, q) = Some (r', q')" "length r' = length r"
        "\<forall>i < length r. r' ! i \<longleftrightarrow> r ! i \<or> i \<in> targets es" "set q' = set q \<union> {i \<in> targets es. \<not> r ! i}"
        using 2(3) [OF Some t] rest by auto
      then show ?thesis using Some t True by (auto simp: targets_Cons)
    next
      case False
      then obtain r' q' where IH: "visit es (r[t := True], q @ [t]) = Some (r', q')" "length r' = length r"
        "\<forall>i < length r. r' ! i \<longleftrightarrow> r[t := True] ! i \<or> i \<in> targets es"
        "set q' = set (q @ [t]) \<union> {i \<in> targets es. \<not> r[t := True] ! i}"
        using 2(2) [OF Some t] rest by auto
      have "set q' = set q \<union> {i \<in> targets (e # es). \<not> r ! i}"
        using IH(4) Some t False rest by (auto simp: targets_Cons nth_list_update)
      moreover have "\<forall>i < length r. r' ! i \<longleftrightarrow> r ! i \<or> i \<in> targets (e # es)"
        using IH(3) Some t by (auto simp: targets_Cons nth_list_update)
      ultimately show ?thesis using IH Some t False by auto
    qed
  qed
qed

definition frontier :: "block list \<Rightarrow> nat list \<Rightarrow> bool list \<Rightarrow> bool" where
  "frontier bs q r \<longleftrightarrow> length r = length bs \<and> (\<forall>i \<in> set q. i < length bs \<and> r ! i) \<and>
     (\<forall>(i, j) \<in> block_edges bs. r ! i \<longrightarrow> i \<notin> set q \<longrightarrow> r ! j)"

lemma frontier_visit:
  assumes "frontier bs (bi # q) r" "edges_in_range bs"
  obtains r' q' where "visit (b_successors (bs ! bi)) (r, q) = Some (r', q')" "frontier bs q' r'"
    "\<forall>i < length bs. r' ! i \<longleftrightarrow> r ! i \<or> (bi, i) \<in> block_edges bs"
proof -
  have bi: "bi < length bs" "r ! bi" and len: "length r = length bs" using assms(1) by (auto simp: frontier_def)
  have range: "\<forall>t \<in> targets (b_successors (bs ! bi)). t < length r"
    using assms(2) bi(1) len by (auto simp: edges_in_range_def)
  obtain r' q' where v: "visit (b_successors (bs ! bi)) (r, q) = Some (r', q')" "length r' = length r"
    "\<forall>i < length r. r' ! i \<longleftrightarrow> r ! i \<or> i \<in> targets (b_successors (bs ! bi))"
    "set q' = set q \<union> {i \<in> targets (b_successors (bs ! bi)). \<not> r ! i}"
    using visit_spec [OF range] by blast
  have edge: "j < length bs" if "(i, j) \<in> block_edges bs" for i j
    using that assms(2) by (auto simp: block_edges_def edges_in_range_def)
  have "frontier bs q' r'"
    unfolding frontier_def
  proof (intro conjI ballI)
    show "length r' = length bs" using v len by simp
    show "i < length bs" "r' ! i" if "i \<in> set q'" for i
      using that v assms(1) range len by (auto simp: frontier_def)
    show "case x of (i, j) \<Rightarrow> r' ! i \<longrightarrow> i \<notin> set q' \<longrightarrow> r' ! j" if x: "x \<in> block_edges bs" for x
    proof (cases x)
      case (Pair i j)
      then have e: "(i, j) \<in> block_edges bs" using x by simp
      then have ij: "i < length r" "j < length r" using edge [OF e] len by (simp_all add: block_edges_def)
      have "r' ! j" if i: "r' ! i" "i \<notin> set q'"
      proof (cases "i = bi")
        case True then show ?thesis using e v(3) ij by (simp add: block_edges_def)
      next
        case False
        have "r ! i" using v(3,4) i ij by blast
        then have "r ! j" using assms(1) e i v(4) False by (auto simp: frontier_def)
        then show ?thesis using v(3) ij by blast
      qed
      then show ?thesis using Pair by simp
    qed
  qed
  then show ?thesis using that v bi len by (auto simp: block_edges_def)
qed

lemma bfs_spec:
  assumes "frontier bs q r" "edges_in_range bs"
  shows "\<exists>r'. bfs bs q r = Some r' \<and> frontier bs [] r' \<and> (\<forall>i < length bs. r ! i \<longrightarrow> r' ! i) \<and>
    (\<forall>i < length bs. r' ! i \<longrightarrow> (\<exists>j < length bs. r ! j \<and> (j, i) \<in> (block_edges bs)\<^sup>*))"
  using assms
proof (induction bs q r rule: bfs.induct)
  case (1 bs r) then show ?case by auto
next
  case (2 bs bi q r)
  have bi: "bi < length bs" "r ! bi" using 2(2) by (auto simp: frontier_def)
  obtain r1 q1 where v: "visit (b_successors (bs ! bi)) (r, q) = Some (r1, q1)" "frontier bs q1 r1"
    "\<forall>i < length bs. r1 ! i \<longleftrightarrow> r ! i \<or> (bi, i) \<in> block_edges bs"
    by (rule frontier_visit [OF 2(2,3)])
  obtain r' where r': "bfs bs q1 r1 = Some r'" "frontier bs [] r'" "\<forall>i < length bs. r1 ! i \<longrightarrow> r' ! i"
    "\<forall>i < length bs. r' ! i \<longrightarrow> (\<exists>j < length bs. r1 ! j \<and> (j, i) \<in> (block_edges bs)\<^sup>*)"
    using 2(1) [OF bi(1) v(1) refl v(2) 2(3)] by blast
  have "\<exists>j < length bs. r ! j \<and> (j, i) \<in> (block_edges bs)\<^sup>*" if i: "i < length bs" "r' ! i" for i
  proof -
    obtain j where j: "j < length bs" "r1 ! j" "(j, i) \<in> (block_edges bs)\<^sup>*" using r'(4) i by blast
    then show ?thesis
      using v(3) bi by (cases "r ! j") (blast intro: converse_rtrancl_into_rtrancl)+
  qed
  then show ?case using r' v bi by auto
qed

lemma closed_reachable:
  assumes "frontier bs [] r" "(i, j) \<in> (block_edges bs)\<^sup>*" "r ! i"
  shows "r ! j"
  using assms(2,3) by (induction rule: rtrancl_induct) (use assms(1) in \<open>auto simp: frontier_def\<close>)

lemma unreachable_blocks_eq:
  assumes "edges_in_range (g_blocks g)" "g_entry_block g < length (g_blocks g)"
  shows "unreachable_blocks g =
    Some (filter (\<lambda>i. (g_entry_block g, i) \<notin> (block_edges (g_blocks g))\<^sup>*) [0..<length (g_blocks g)])"
proof -
  let ?bs = "g_blocks g" and ?e = "g_entry_block g"
  let ?r = "(replicate (length ?bs) False)[?e := True]"
  have "frontier ?bs [?e] ?r"
    using assms(2) by (auto simp: frontier_def nth_list_update block_edges_def split: if_splits)
  then obtain r' where r': "bfs ?bs [?e] ?r = Some r'" "frontier ?bs [] r'" "\<forall>i < length ?bs. ?r ! i \<longrightarrow> r' ! i"
    "\<forall>i < length ?bs. r' ! i \<longrightarrow> (\<exists>j < length ?bs. ?r ! j \<and> (j, i) \<in> (block_edges ?bs)\<^sup>*)"
    using bfs_spec assms(1) by blast
  have len: "length r' = length ?bs" using r'(2) by (simp add: frontier_def)
  have "r' ! i \<longleftrightarrow> (?e, i) \<in> (block_edges ?bs)\<^sup>*" if i: "i < length ?bs" for i
  proof
    assume "r' ! i"
    then obtain j where "j < length ?bs" "?r ! j" "(j, i) \<in> (block_edges ?bs)\<^sup>*" using r'(4) i by blast
    moreover from this have "j = ?e" by (cases "j = ?e") simp_all
    ultimately show "(?e, i) \<in> (block_edges ?bs)\<^sup>*" by simp
  next
    assume "(?e, i) \<in> (block_edges ?bs)\<^sup>*"
    then show "r' ! i" using closed_reachable [OF r'(2)] r'(3) assms(2) by simp
  qed
  then have "filter (\<lambda>i. \<not> r' ! i) [0..<length ?bs] =
      filter (\<lambda>i. (?e, i) \<notin> (block_edges ?bs)\<^sup>*) [0..<length ?bs]"
    by (intro filter_cong) auto
  then show ?thesis using r'(1) assms(2) len by (simp add: unreachable_blocks_def)
qed

section \<open>The blocks tile the instruction stream\<close>

lemma fold_map_upd: "fold (\<lambda>i m. m(i \<mapsto> v)) xs m t = (if t \<in> set xs then Some v else m t)"
  by (induction xs arbitrary: m) auto

lemma instr_to_block_Nil [simp]: "instr_to_block [] = Map.empty"
  by (simp add: instr_to_block_def)

lemma instr_to_block_snoc:
  "instr_to_block (bs @ [b]) t =
     (if bb_start_instruction b \<le> t \<and> t < bb_end_instruction b then Some (length bs) else instr_to_block bs t)"
  by (simp add: instr_to_block_def enumerate_append_eq fold_map_upd)

definition covers :: "block_builder \<Rightarrow> nat \<Rightarrow> bool" where
  "covers b t \<longleftrightarrow> bb_start_instruction b \<le> t \<and> t < bb_end_instruction b"

lemma instr_to_block_sound:
  "instr_to_block bs t = Some i \<Longrightarrow> i < length bs \<and> covers (bs ! i) t"
  by (induction bs rule: rev_induct) (auto simp: instr_to_block_snoc covers_def nth_append split: if_splits)

fun tiles :: "nat \<Rightarrow> block_builder list \<Rightarrow> nat \<Rightarrow> bool" where
  "tiles s [] e \<longleftrightarrow> s = e"
| "tiles s (b # bs) e \<longleftrightarrow> bb_start_instruction b = s \<and> s < bb_end_instruction b \<and> tiles (bb_end_instruction b) bs e"

lemma tiles_snoc:
  "tiles s (bs @ [b]) e \<longleftrightarrow> (\<exists>m. tiles s bs m \<and> bb_start_instruction b = m \<and> m < bb_end_instruction b \<and> bb_end_instruction b = e)"
  by (induction bs arbitrary: s) auto

lemma tiles_le: "tiles s bs e \<Longrightarrow> s \<le> e"
  by (induction bs arbitrary: s) force+

lemma tiles_bounds: "tiles s bs e \<Longrightarrow> b \<in> set bs \<Longrightarrow> s \<le> bb_start_instruction b \<and> bb_end_instruction b \<le> e"
  by (induction bs arbitrary: s) (fastforce dest: tiles_le)+

lemma tiles_total:
  "tiles s bs e \<Longrightarrow> s \<le> t \<Longrightarrow> t < e \<Longrightarrow> \<exists>i. instr_to_block bs t = Some i"
proof (induction bs arbitrary: e rule: rev_induct)
  case (snoc b bs)
  then obtain m where m: "tiles s bs m" "bb_start_instruction b = m" "bb_end_instruction b = e"
    by (auto simp: tiles_snoc)
  show ?case
    using snoc.IH [OF m(1) snoc.prems(2)] snoc.prems(3) m by (cases "t < m") (auto simp: instr_to_block_snoc)
qed auto

text \<open>Blocks of a tiling overlap nowhere, so the block of an instruction is unique.\<close>

lemma tiles_unique:
  "tiles s bs e \<Longrightarrow> i < length bs \<Longrightarrow> covers (bs ! i) t \<Longrightarrow> instr_to_block bs t = Some i"
proof (induction bs arbitrary: e rule: rev_induct)
  case (snoc b bs)
  then obtain m where m: "tiles s bs m" "bb_start_instruction b = m" by (auto simp: tiles_snoc)
  show ?case
  proof (cases "i < length bs")
    case True
    then have "covers (bs ! i) t" using snoc.prems(3) by (simp add: nth_append)
    moreover have "bb_end_instruction (bs ! i) \<le> m" using tiles_bounds [OF m(1)] True by simp
    ultimately show ?thesis
      using snoc.IH [OF m(1) True] m(2) by (auto simp: instr_to_block_snoc covers_def)
  next
    case False
    then show ?thesis using snoc.prems by (auto simp: nth_append instr_to_block_snoc covers_def)
  qed
qed simp

text \<open>What the split records of one block: its terminator is the class of its last instruction,
  no earlier instruction is a terminator, and its edges are those its instructions contribute.\<close>

definition block_of_range :: "physical_instruction list \<Rightarrow> nat list \<Rightarrow> block_builder \<Rightarrow> bool" where
  "block_of_range ins order b \<longleftrightarrow>
     bb_start_instruction b < bb_end_instruction b \<and>
     bb_end b = classify (ins ! (bb_end_instruction b - 1)) \<and>
     bb_start_address b = pi_address (ins ! bb_start_instruction b) \<and>
     bb_end_address b = pi_address (ins ! (bb_end_instruction b - 1)) \<and>
     (\<forall>i. bb_start_instruction b \<le> i \<longrightarrow> Suc i < bb_end_instruction b \<longrightarrow> \<not> is_terminator (classify (ins ! i))) \<and>
     bb_successors b = concat (map (\<lambda>i. edges_of ins order i (classify (ins ! i)))
       [bb_start_instruction b..<bb_end_instruction b])"

definition split_inv :: "physical_instruction list \<Rightarrow> nat list \<Rightarrow> nat \<Rightarrow>
    block_builder list \<times> block_builder option \<Rightarrow> bool" where
  "split_inv ins order k st \<longleftrightarrow> (case st of (bs, cur) \<Rightarrow>
     \<exists>s. tiles 0 bs s \<and> (\<forall>b \<in> set bs. block_of_range ins order b \<and> is_terminator (bb_end b)) \<and>
       (case cur of
          None \<Rightarrow> s = k
        | Some b \<Rightarrow> bb_start_instruction b = s \<and> bb_end_instruction b = k \<and> block_of_range ins order b \<and>
            \<not> is_terminator (bb_end b)))"

lemma split_step_inv:
  assumes "split_inv ins order k (bs, cur)"
  shows "split_inv ins order (Suc k) (split_step ins order k (bs, cur))"
proof -
  obtain s where s: "tiles 0 bs s" "\<forall>b \<in> set bs. block_of_range ins order b \<and> is_terminator (bb_end b)"
    "case cur of None \<Rightarrow> s = k
     | Some b \<Rightarrow> bb_start_instruction b = s \<and> bb_end_instruction b = k \<and> block_of_range ins order b \<and> \<not> is_terminator (bb_end b)"
    using assms by (auto simp: split_inv_def)
  define b0 where "b0 = (case cur of None \<Rightarrow> builder_new k (pi_address (ins ! k)) | Some b \<Rightarrow> b)"
  define b where "b = b0\<lparr>bb_end_instruction := k + 1, bb_end_address := pi_address (ins ! k), bb_end := classify (ins ! k),
                bb_successors := bb_successors b0 @ edges_of ins order k (classify (ins ! k))\<rparr>"
  have start: "bb_start_instruction b = s" "bb_end_instruction b = Suc k" "s \<le> k"
    using s(3) by (auto simp: b_def b0_def builder_new_def block_of_range_def split: option.splits)
  have range: "block_of_range ins order b"
  proof (cases cur)
    case None
    then show ?thesis using s(3) by (simp add: block_of_range_def b_def b0_def builder_new_def)
  next
    case (Some c)
    then have c: "bb_start_instruction c = s" "bb_end_instruction c = k" "block_of_range ins order c" "\<not> is_terminator (bb_end c)"
      using s(3) by auto
    have "\<not> is_terminator (classify (ins ! i))" if "s \<le> i" "i < k" for i
    proof (cases "Suc i = k")
      case True then show ?thesis using c(2-4) by (auto simp: block_of_range_def)
    next
      case False then show ?thesis using c that by (auto simp: block_of_range_def)
    qed
    then show ?thesis using Some c start by (auto simp: block_of_range_def b_def b0_def)
  qed
  show ?thesis
    using s range start
    by (auto simp: split_inv_def split_step_def Let_def tiles_snoc b_def [symmetric] b0_def [symmetric] cong: option.case_cong)
       (simp_all add: b_def)
qed

section \<open>Address-sorted input\<close>

definition address_sorted :: "physical_instruction list \<Rightarrow> bool" where
  "address_sorted ins = sorted_wrt (<) (map pi_address ins)"

lemma address_sorted_nth:
  "address_sorted ins \<Longrightarrow> i < length ins \<Longrightarrow> j < length ins \<Longrightarrow> pi_address (ins ! i) < pi_address (ins ! j) \<longleftrightarrow> i < j"
  unfolding address_sorted_def sorted_wrt_iff_nth_less
  by (metis length_map nat_neq_iff nth_map order_less_asym)

lemma addr_order_sorted: "address_sorted ins \<Longrightarrow> addr_order ins = [0..<length ins]"
proof -
  assume *: "address_sorted ins"
  have "sorted (map (\<lambda>i. pi_address (ins ! i)) [0..<length ins])"
    unfolding sorted_iff_nth_mono using address_sorted_nth [OF *] by (auto simp: le_less)
  then show ?thesis unfolding addr_order_def by (simp add: sort_key_id_if_sorted)
qed

lemma addr_to_instr_sorted:
  assumes "address_sorted ins" "i < length ins"
  shows "addr_to_instr ins (pi_address (ins ! i)) = Some i"
proof -
  have "inj_on (\<lambda>i. pi_address (ins ! i)) {..<length ins}"
    using address_sorted_nth [OF assms(1)] by (auto intro!: inj_onI) (metis less_irrefl nat_neq_iff)
  then have "distinct (map fst (rev (map (\<lambda>i. (pi_address (ins ! i), i)) [0..<length ins])))"
    by (simp add: rev_map [symmetric] o_def distinct_map atLeast0LessThan)
  then show ?thesis
    unfolding addr_to_instr_def using assms(2) by (intro map_of_is_SomeI) auto
qed

lemma addr_to_instr_range: "addr_to_instr ins a = Some i \<Longrightarrow> i < length ins \<and> pi_address (ins ! i) = a"
  unfolding addr_to_instr_def by (auto dest!: map_of_SomeD)

lemma position_upt: "i < n \<Longrightarrow> position i [0..<n] = Some i"
proof -
  have "position i [m..<n] = Some (i - m)" if "m \<le> i" "i < n" for m n :: nat
    using that by (induction "n - m" arbitrary: m) (auto simp: upt_conv_Cons)
  from this [of 0 n] show "i < n \<Longrightarrow> ?thesis" by simp
qed

lemma next_address_sorted:
  "i < length ins \<Longrightarrow> next_address ins [0..<length ins] i =
     (if Suc i < length ins then Some (pi_address (ins ! Suc i)) else None)"
  by (simp add: next_address_def position_upt)

lemma split_fold_inv:
  "split_inv ins order k (fold (split_step ins order) [0..<k] ([], None))"
proof (induction k)
  case 0 then show ?case by (simp add: split_inv_def)
next
  case (Suc k)
  obtain bs cur where "fold (split_step ins order) [0..<k] ([], None) = (bs, cur)" by (metis surj_pair)
  then show ?case using Suc split_step_inv by simp
qed

text \<open>For address-sorted input the blocks cut the stream into consecutive ranges, and each of them
  ends with a terminator or at the end of the stream.\<close>

lemma split_blocks_sorted:
  assumes "address_sorted ins"
  shows "tiles 0 (split_blocks ins) (length ins)"
    and "b \<in> set (split_blocks ins) \<Longrightarrow> block_of_range ins [0..<length ins] b \<and>
      (is_terminator (bb_end b) \<or> bb_end_instruction b = length ins)"
proof -
  let ?o = "[0..<length ins]"
  obtain bs cur where st: "fold (split_step ins ?o) ?o ([], None) = (bs, cur)" by (metis surj_pair)
  have inv: "split_inv ins ?o (length ins) (bs, cur)" using split_fold_inv [of ins ?o "length ins"] st by simp
  have split: "split_blocks ins = (case cur of None \<Rightarrow> bs | Some b \<Rightarrow> bs @ [b])"
    using st by (simp add: split_blocks_def addr_order_sorted [OF assms] split: option.split)
  show "tiles 0 (split_blocks ins) (length ins)"
    using inv by (auto simp: split split_inv_def tiles_snoc block_of_range_def split: option.splits)
  show "block_of_range ins ?o b \<and> (is_terminator (bb_end b) \<or> bb_end_instruction b = length ins)"
    if "b \<in> set (split_blocks ins)"
    using that inv by (auto simp: split split_inv_def split: option.splits)
qed

section \<open>Facts about every built graph\<close>

definition opened :: "block_builder list \<times> block_builder option \<Rightarrow> bool" where
  "opened st \<longleftrightarrow> st \<noteq> ([], None)"

lemma opened_step: "opened (split_step ins order i st)"
  by (simp add: opened_def split_step_def Let_def split: prod.split)

lemma opened_fold: "xs \<noteq> [] \<Longrightarrow> opened (fold (split_step ins order) xs st)"
  by (induction xs rule: rev_induct) (simp_all add: opened_step)

lemma split_blocks_nonempty:
  assumes "ins \<noteq> []"
  shows "split_blocks ins \<noteq> []"
proof -
  have "length (addr_order ins) = length ins" by (simp add: addr_order_def)
  then have "opened (fold (split_step ins (addr_order ins)) (addr_order ins) ([], None))"
    using assms by (intro opened_fold) auto
  then show ?thesis
    by (auto simp: split_blocks_def Let_def opened_def split: prod.splits option.splits)
qed

lemma build_blocks:
  assumes "build ins = Inr g"
  shows "g_blocks g = map (resolve_block (instr_to_block (split_blocks ins))) (enumerate 0 (split_blocks ins))"
    and "g_blocks g \<noteq> []"
proof -
  show "g_blocks g = map (resolve_block (instr_to_block (split_blocks ins))) (enumerate 0 (split_blocks ins))"
    using assms by (auto simp: build_def Let_def split: if_splits)
  then have "length (g_blocks g) = length (split_blocks ins)" by simp
  moreover have "ins \<noteq> []" using assms by (auto simp: build_def)
  ultimately show "g_blocks g \<noteq> []" using split_blocks_nonempty by fastforce
qed

lemma build_block_nth:
  assumes "build ins = Inr g" "i < length (g_blocks g)"
  shows "g_blocks g ! i = resolve_block (instr_to_block (split_blocks ins)) (i, split_blocks ins ! i)"
    and "length (g_blocks g) = length (split_blocks ins)"
  using assms build_blocks(1) [OF assms(1)] by (auto simp: nth_enumerate_eq)

lemma targets_resolve:
  "targets (b_successors (resolve_block f (i, b))) = {t. \<exists>e \<in> set (bb_successors b). \<exists>j. e_to e = Some j \<and> f j = Some t}"
  by (auto simp: targets_def resolve_block_def resolve_edge_def Let_def split: option.splits)

lemma build_edges_in_range: "build ins = Inr g \<Longrightarrow> edges_in_range (g_blocks g)"
  unfolding edges_in_range_def
proof (intro ballI)
  fix b t assume g: "build ins = Inr g" and b: "b \<in> set (g_blocks g)" "t \<in> targets (b_successors b)"
  then obtain i where i: "i < length (g_blocks g)" "b = g_blocks g ! i" by (metis in_set_conv_nth)
  then show "t < length (g_blocks g)"
    using b(2) build_block_nth [OF g i(1)] by (auto simp: targets_resolve dest: instr_to_block_sound)
qed

lemma min_block_in: "bs \<noteq> [] \<Longrightarrow> \<exists>b \<in> set bs. min_block bs = Some b \<and> (\<forall>c \<in> set bs. b_start_address b \<le> b_start_address c)"
proof (induction bs)
  case (Cons a bs)
  show ?case
  proof (cases "bs = []")
    case False
    then obtain b where "b \<in> set bs" "min_block bs = Some b" "\<forall>c \<in> set bs. b_start_address b \<le> b_start_address c"
      using Cons.IH by blast
    then show ?thesis by (cases "b_start_address a \<le> b_start_address b") force+
  qed simp
qed simp

lemma build_index: "build ins = Inr g \<Longrightarrow> i < length (g_blocks g) \<Longrightarrow> b_index (g_blocks g ! i) = i"
  using build_block_nth(1) [of ins g i] by (simp add: resolve_block_def Let_def)

lemma build_entry:
  assumes "build ins = Inr g"
  shows "g_entry_block g < length (g_blocks g) \<and>
    (\<forall>b \<in> set (g_blocks g). b_start_address (g_blocks g ! g_entry_block g) \<le> b_start_address b)"
proof -
  obtain b where b: "b \<in> set (g_blocks g)" "min_block (g_blocks g) = Some b"
      "\<forall>c \<in> set (g_blocks g). b_start_address b \<le> b_start_address c"
    using min_block_in build_blocks(2) [OF assms] by blast
  have "g_entry_block g = b_index b"
    using assms b(2) by (auto simp: build_def Let_def split: if_splits)
  then show ?thesis using b build_index [OF assms] by (metis in_set_conv_nth)
qed

section \<open>The graph covers the control flow of the stream\<close>

fun continues :: "block_end \<Rightarrow> bool" where
  "continues EndFallthrough = True"
| "continues (EndCall _ _) = True"
| "continues (ConditionalBranch _ _) = True"
| "continues _ = False"

fun direct_target :: "block_end \<Rightarrow> nat option" where
  "direct_target (UnconditionalBranch _ a) = Some a"
| "direct_target (ConditionalBranch _ a) = Some a"
| "direct_target (EndCall _ a) = a"
| "direct_target _ = None"

text \<open>One step of control from the \<open>i\<close>-th instruction: to the next one, or to the instruction a
  direct branch or call names.\<close>

inductive flows :: "physical_instruction list \<Rightarrow> nat \<Rightarrow> nat \<Rightarrow> bool" for ins where
  next_step: "Suc i < length ins \<Longrightarrow> continues (classify (ins ! i)) \<Longrightarrow> flows ins i (Suc i)"
| direct_step: "i < length ins \<Longrightarrow> j < length ins \<Longrightarrow>
    direct_target (classify (ins ! i)) = Some (pi_address (ins ! j)) \<Longrightarrow> flows ins i j"

inductive_cases flowsE: "flows ins i j"

definition in_block :: "control_flow_graph \<Rightarrow> nat \<Rightarrow> nat \<Rightarrow> bool" where
  "in_block g p i \<longleftrightarrow> p < length (g_blocks g) \<and>
     b_start_instruction (g_blocks g ! p) \<le> i \<and> i < b_end_instruction (g_blocks g ! p)"

lemma in_block_iff:
  assumes "build ins = Inr g" "address_sorted ins"
  shows "in_block g p i \<longleftrightarrow> instr_to_block (split_blocks ins) i = Some p"
proof
  assume p: "in_block g p i"
  then have "p < length (g_blocks g)" by (simp add: in_block_def)
  then show "instr_to_block (split_blocks ins) i = Some p"
    using p build_block_nth [OF assms(1), of p] tiles_unique [OF split_blocks_sorted(1) [OF assms(2)], of p i]
    by (simp add: in_block_def covers_def resolve_block_def Let_def)
next
  assume "instr_to_block (split_blocks ins) i = Some p"
  then have "p < length (split_blocks ins)" "covers (split_blocks ins ! p) i" using instr_to_block_sound by blast+
  moreover have "length (g_blocks g) = length (split_blocks ins)" using build_blocks(1) [OF assms(1)] by simp
  ultimately show "in_block g p i"
    using build_block_nth(1) [OF assms(1), of p] by (simp add: in_block_def covers_def resolve_block_def Let_def)
qed

lemma instruction_edge:
  assumes g: "build ins = Inr g" "address_sorted ins" and p: "in_block g p i"
    and e: "e \<in> set (edges_of ins [0..<length ins] i (classify (ins ! i)))" "e_to e = Some j"
    and q: "in_block g q j"
  shows "(p, q) \<in> block_edges (g_blocks g)"
proof -
  let ?B = "split_blocks ins"
  have pl: "p < length (g_blocks g)" using p by (simp add: in_block_def)
  note nth = build_block_nth [OF g(1) pl]
  have cov: "covers (?B ! p) i" using p nth by (simp add: in_block_def covers_def resolve_block_def Let_def)
  have "?B ! p \<in> set ?B" using pl nth(2) by simp
  then have "bb_successors (?B ! p) = concat (map (\<lambda>i. edges_of ins [0..<length ins] i (classify (ins ! i)))
       [bb_start_instruction (?B ! p)..<bb_end_instruction (?B ! p)])"
    using split_blocks_sorted(2) [OF g(2)] by (simp add: block_of_range_def)
  then have "e \<in> set (bb_successors (?B ! p))" using e(1) cov by (auto simp: covers_def)
  moreover have "instr_to_block ?B j = Some q" using in_block_iff [OF g] q by simp
  ultimately show ?thesis
    using e(2) pl nth(1) by (auto simp: block_edges_def targets_resolve)
qed

lemma instruction_block:
  assumes "build ins = Inr g" "address_sorted ins" "i < length ins"
  shows "\<exists>p. in_block g p i"
  using tiles_total [OF split_blocks_sorted(1) [OF assms(2)], of i] assms in_block_iff by auto

lemma flow_covered:
  assumes g: "build ins = Inr g" "address_sorted ins" and f: "flows ins i j"
    and p: "in_block g p i" and q: "in_block g q j"
  shows "p = q \<or> (p, q) \<in> block_edges (g_blocks g)"
  using f
proof (cases rule: flows.cases)
  case next_step
  show ?thesis
  proof (cases "is_terminator (classify (ins ! i))")
    case True
    have "continues e \<Longrightarrow> is_terminator e \<Longrightarrow> \<exists>t a. e = ConditionalBranch t a" for e by (cases e) auto
    then obtain t a where c: "classify (ins ! i) = ConditionalBranch t a" using next_step True by blast
    have "mk_edge (addr_to_instr ins (pi_address (ins ! j))) KFallthrough \<in> set (edges_of ins [0..<length ins] i (classify (ins ! i)))"
      using next_step by (simp add: c next_address_sorted)
    then show ?thesis
      using instruction_edge [OF g p _ _ q] addr_to_instr_sorted [OF g(2)] next_step by (auto simp: mk_edge_def)
  next
    case False
    let ?b = "split_blocks ins ! p"
    have pl: "p < length (g_blocks g)" using p by (simp add: in_block_def)
    note nth = build_block_nth [OF g(1) pl]
    have cov: "covers ?b i" using p nth by (simp add: in_block_def covers_def resolve_block_def Let_def)
    have b: "block_of_range ins [0..<length ins] ?b" "is_terminator (bb_end ?b) \<or> bb_end_instruction ?b = length ins"
      using split_blocks_sorted(2) [OF g(2), of ?b] pl nth(2) by simp_all
    have "bb_end_instruction ?b \<noteq> Suc i"
      using b False next_step by (auto simp: block_of_range_def)
    then have "covers ?b (Suc i)" using cov by (auto simp: covers_def)
    then have "in_block g p j" using next_step pl nth by (simp add: in_block_def covers_def resolve_block_def Let_def)
    then show ?thesis using in_block_iff [OF g] q by simp
  qed
next
  case direct_step
  then have "\<exists>e \<in> set (edges_of ins [0..<length ins] i (classify (ins ! i))).
      e_to e = addr_to_instr ins (pi_address (ins ! j))"
    by (cases "classify (ins ! i)") (auto simp: mk_edge_def)
  then show ?thesis
    using instruction_edge [OF g p _ _ q] addr_to_instr_sorted [OF g(2)] direct_step by metis
qed

lemma reachable_instruction:
  assumes g: "build ins = Inr g" "address_sorted ins" and f: "(flows ins)\<^sup>*\<^sup>* i j"
    and p: "in_block g p i"
  shows "j < length ins \<Longrightarrow> \<exists>q. in_block g q j \<and> (p, q) \<in> (block_edges (g_blocks g))\<^sup>*"
  using f
proof (induction rule: rtranclp_induct)
  case base then show ?case using p by blast
next
  case (step j k)
  then have "j < length ins" "k < length ins" by (auto elim: flowsE)
  then obtain q r where q: "in_block g q j" "(p, q) \<in> (block_edges (g_blocks g))\<^sup>*" and r: "in_block g r k"
    using step.IH instruction_block [OF g] by blast
  then show ?case using flow_covered [OF g step.hyps(2) q(1) r] by (metis rtrancl.rtrancl_into_rtrancl)
qed

lemma edges_of_cases:
  assumes "e \<in> set (edges_of ins order i c)" "e_to e = Some j"
  shows "(\<exists>a. direct_target c = Some a \<and> addr_to_instr ins a = Some j) \<or>
    continues c \<and> (\<exists>na. next_address ins order i = Some na \<and> addr_to_instr ins na = Some j)"
proof (cases c)
  case (EndCall t a) then show ?thesis using assms by (cases a) (auto simp: mk_edge_def)
qed (use assms in \<open>auto simp: mk_edge_def split: option.splits\<close>)

lemma edge_flow:
  assumes "address_sorted ins" "i < length ins" "e \<in> set (edges_of ins [0..<length ins] i (classify (ins ! i)))" "e_to e = Some j"
  shows "flows ins i j"
proof -
  consider a where "direct_target (classify (ins ! i)) = Some a" "addr_to_instr ins a = Some j"
    | na where "continues (classify (ins ! i))" "next_address ins [0..<length ins] i = Some na" "addr_to_instr ins na = Some j"
    using edges_of_cases [OF assms(3,4)] by blast
  then show ?thesis
  proof cases
    case 1
    then show ?thesis using addr_to_instr_range assms(2) by (auto intro: direct_step)
  next
    case 2
    then have "Suc i < length ins" "na = pi_address (ins ! Suc i)"
      using assms(2) by (auto simp: next_address_sorted split: if_splits)
    moreover from this have "j = Suc i" using 2(3) addr_to_instr_sorted [OF assms(1)] by simp
    ultimately show ?thesis using 2(1) next_step by blast
  qed
qed

lemma block_edge_flow:
  assumes g: "build ins = Inr g" "address_sorted ins" and e: "(p, q) \<in> block_edges (g_blocks g)"
  shows "\<exists>i j. in_block g p i \<and> in_block g q j \<and> flows ins i j"
proof -
  let ?B = "split_blocks ins"
  have pl: "p < length (g_blocks g)" using e by (simp add: block_edges_def)
  note nth = build_block_nth [OF g(1) pl]
  obtain ed j where ed: "ed \<in> set (bb_successors (?B ! p))" "e_to ed = Some j" "instr_to_block ?B j = Some q"
    using e nth(1) by (auto simp: block_edges_def targets_resolve)
  have b: "?B ! p \<in> set ?B" using pl nth(2) by simp
  then obtain i where i: "covers (?B ! p) i" "ed \<in> set (edges_of ins [0..<length ins] i (classify (ins ! i)))"
    using split_blocks_sorted(2) [OF g(2)] ed(1) by (auto simp: block_of_range_def covers_def)
  have "i < length ins" using i(1) tiles_bounds [OF split_blocks_sorted(1) [OF g(2)] b] by (simp add: covers_def)
  then have "flows ins i j" using edge_flow [OF g(2) _ i(2) ed(2)] by blast
  moreover have "in_block g p i"
    using i(1) pl nth by (simp add: in_block_def covers_def resolve_block_def Let_def)
  moreover have "in_block g q j" using ed(3) in_block_iff [OF g] by simp
  ultimately show ?thesis by blast
qed

lemma entry_covers_first:
  assumes g: "build ins = Inr g" "address_sorted ins"
  shows "in_block g (g_entry_block g) 0"
proof -
  let ?B = "split_blocks ins" and ?e = "g_entry_block g"
  have ne: "ins \<noteq> []" using g(1) by (auto simp: build_def)
  then obtain p where p: "in_block g p 0" using instruction_block [OF g] by blast
  then have pl: "p < length (g_blocks g)" by (simp add: in_block_def)
  have start: "b_start_address (g_blocks g ! k) = pi_address (ins ! b_start_instruction (g_blocks g ! k)) \<and>
      b_start_instruction (g_blocks g ! k) < length ins" if k: "k < length (g_blocks g)" for k
  proof -
    note nth = build_block_nth [OF g(1) k]
    have b: "?B ! k \<in> set ?B" using k nth(2) by simp
    then have "block_of_range ins [0..<length ins] (?B ! k)" using split_blocks_sorted(2) [OF g(2)] by blast
    then show ?thesis
      using nth tiles_bounds [OF split_blocks_sorted(1) [OF g(2)] b] by (simp add: block_of_range_def resolve_block_def Let_def)
  qed
  have e: "?e < length (g_blocks g)" "b_start_address (g_blocks g ! ?e) \<le> b_start_address (g_blocks g ! p)"
    using build_entry [OF g(1)] pl by auto
  have p0: "b_start_instruction (g_blocks g ! p) = 0" using p by (simp add: in_block_def)
  have "pi_address (ins ! b_start_instruction (g_blocks g ! ?e)) \<le> pi_address (ins ! 0)"
    using e(2) start [OF e(1)] start [OF pl] p0 by simp
  then have "b_start_instruction (g_blocks g ! ?e) = 0"
    using address_sorted_nth [OF g(2), of 0 "b_start_instruction (g_blocks g ! ?e)"] start [OF e(1)] ne by fastforce
  moreover have "b_start_instruction (g_blocks g ! ?e) < b_end_instruction (g_blocks g ! ?e)"
    using build_block_nth [OF g(1) e(1)] split_blocks_sorted(2) [OF g(2), of "?B ! ?e"] e(1)
    by (simp add: block_of_range_def resolve_block_def Let_def)
  ultimately show ?thesis using e(1) by (simp add: in_block_def)
qed

section \<open>Properties\<close>

text \<open>A loop with an indirect exit, a return and a block nothing leads to.\<close>

definition mk_ins :: "nat \<Rightarrow> string \<Rightarrow> string list \<Rightarrow> string list \<Rightarrow> physical_instruction" where
  "mk_ins a m ops gs = \<lparr>pi_address = a, pi_bytes = [], pi_mnemonic = m, pi_operands = ops, pi_read_regs = [],
     pi_write_regs = [], pi_groups = gs, pi_detail_available = True\<rparr>"

definition loop_code :: "physical_instruction list" where
  "loop_code =
     [mk_ins 16 ''cmp'' [''eax'', ''0x8''] [],
      mk_ins 18 ''je'' [''0x18''] [''jump''],
      mk_ins 20 ''jmp'' [''0x10''] [''jump''],
      mk_ins 22 ''nop'' [] [],
      mk_ins 23 ''jmp'' [''rax''] [''jump''],
      mk_ins 24 ''ret'' [] [''ret'']]"

text \<open>C13: the breadth-first search of \<open>unreachable_blocks\<close> terminates, never indexes out of
  bounds on a graph that \<open>build\<close> returns, and reports exactly the blocks that no path of edges
  connects with the entry block, in increasing order.\<close>

theorem unreachable_blocks_exact:
  assumes "build ins = Inr g"
  shows "unreachable_blocks g =
    Some (filter (\<lambda>i. (g_entry_block g, i) \<notin> (block_edges (g_blocks g))\<^sup>*) [0..<length (g_blocks g)])"
  using unreachable_blocks_eq build_edges_in_range build_entry assms by blast

theorem unreachable_blocks_exact_witness:
  "\<exists>g. build loop_code = Inr g \<and> unreachable_blocks g = Some [2] \<and>
     (g_entry_block g, 2) \<notin> (block_edges (g_blocks g))\<^sup>*"
proof -
  have "loop_code \<noteq> []" by (simp add: loop_code_def)
  then obtain g where g: "build loop_code = Inr g" by (simp add: build_def Let_def)
  have "(case build loop_code of Inr g \<Rightarrow> unreachable_blocks g | Inl _ \<Rightarrow> None) = Some [2]" by code_simp
  then have u: "unreachable_blocks g = Some [2]" using g by simp
  then have "2 \<in> set (filter (\<lambda>i. (g_entry_block g, i) \<notin> (block_edges (g_blocks g))\<^sup>*) [0..<length (g_blocks g)])"
    using unreachable_blocks_exact [OF g] by (metis list.set_intros(1) option.inject)
  then show ?thesis using g u by auto
qed

text \<open>C36: for a stream sorted by address, the blocks partition the instructions: every instruction
  lies in exactly one block, only the last instruction of a block is a terminator, and a block
  that does not end with a terminator is the last one.\<close>

theorem cfg_blocks_partition:
  assumes "build ins = Inr g" "address_sorted ins" "i < length ins"
  shows "(\<exists>!p. in_block g p i) \<and>
    (\<forall>p. in_block g p i \<longrightarrow>
      (is_terminator (classify (ins ! i)) \<longrightarrow> Suc i = b_end_instruction (g_blocks g ! p)) \<and>
      (Suc i = b_end_instruction (g_blocks g ! p) \<longrightarrow> is_terminator (classify (ins ! i)) \<or> Suc i = length ins))"
proof (intro conjI allI impI)
  show "\<exists>!p. in_block g p i"
    using instruction_block [OF assms] in_block_iff [OF assms(1,2)] by auto
next
  fix p assume p: "in_block g p i"
  then have pl: "p < length (g_blocks g)" by (simp add: in_block_def)
  note nth = build_block_nth [OF assms(1) pl]
  have b: "block_of_range ins [0..<length ins] (split_blocks ins ! p)"
    "is_terminator (bb_end (split_blocks ins ! p)) \<or> bb_end_instruction (split_blocks ins ! p) = length ins"
    using split_blocks_sorted(2) [OF assms(2), of "split_blocks ins ! p"] pl nth(2) by simp_all
  have cov: "covers (split_blocks ins ! p) i" "b_end_instruction (g_blocks g ! p) = bb_end_instruction (split_blocks ins ! p)"
    using p nth by (simp_all add: in_block_def covers_def resolve_block_def Let_def)
  show "Suc i = b_end_instruction (g_blocks g ! p)" if "is_terminator (classify (ins ! i))"
    using that b(1) cov by (auto simp: block_of_range_def covers_def Suc_le_eq le_less)
  show "is_terminator (classify (ins ! i)) \<or> Suc i = length ins" if "Suc i = b_end_instruction (g_blocks g ! p)"
  proof -
    have "bb_end_instruction (split_blocks ins ! p) - 1 = i" using that cov(2) by simp
    then show ?thesis using that b cov(2) by (auto simp: block_of_range_def)
  qed
qed

lemma loop_code_built:
  obtains g where "build loop_code = Inr g" "address_sorted loop_code" "unreachable_blocks g = Some [2]"
    "in_block g 2 4"
proof -
  have "loop_code \<noteq> []" by (simp add: loop_code_def)
  then obtain g where g: "build loop_code = Inr g" by (simp add: build_def Let_def)
  moreover have "(case build loop_code of Inr g \<Rightarrow> unreachable_blocks g | Inl _ \<Rightarrow> None) = Some [2]" by code_simp
  moreover have "(case build loop_code of Inr g \<Rightarrow> in_block g 2 4 | Inl _ \<Rightarrow> False)" by code_simp
  moreover have "address_sorted loop_code" by (simp add: address_sorted_def loop_code_def mk_ins_def)
  ultimately show thesis using that by simp
qed

theorem cfg_blocks_partition_witness:
  "\<exists>g. build loop_code = Inr g \<and> (\<exists>!p. in_block g p 4)"
proof -
  obtain g where g: "build loop_code = Inr g" "address_sorted loop_code"
    by (rule loop_code_built)
  moreover have "4 < length loop_code" by (simp add: loop_code_def)
  ultimately show ?thesis using cfg_blocks_partition [of loop_code g 4] by blast
qed

text \<open>C21: for a stream sorted by address, the block graph is the exact quotient of the control flow
  of the instructions: two different blocks are joined by an edge if and only if some instruction
  of the first can pass control to an instruction of the second (to the next instruction or to a
  direct branch or call target).\<close>

theorem cfg_edges_exact:
  assumes "build ins = Inr g" "address_sorted ins" "p \<noteq> q"
  shows "(p, q) \<in> block_edges (g_blocks g) \<longleftrightarrow> (\<exists>i j. in_block g p i \<and> in_block g q j \<and> flows ins i j)"
  using flow_covered [OF assms(1,2)] block_edge_flow [OF assms(1,2)] assms(3) by blast

theorem cfg_edges_exact_witness:
  "\<exists>g. build loop_code = Inr g \<and>
    ((1, 2) \<in> block_edges (g_blocks g) \<longleftrightarrow> (\<exists>i j. in_block g 1 i \<and> in_block g 2 j \<and> flows loop_code i j))"
proof -
  obtain g where g: "build loop_code = Inr g" "address_sorted loop_code"
    by (rule loop_code_built)
  then show ?thesis using cfg_edges_exact [of loop_code g 1 2] by auto
qed

text \<open>an instruction that control can reach from the first one is never in a block that
  \<open>unreachable_blocks\<close> reports.\<close>

theorem cfg_reachable_not_reported:
  assumes "build ins = Inr g" "address_sorted ins" "(flows ins)\<^sup>*\<^sup>* 0 i" "in_block g p i"
    and "unreachable_blocks g = Some us"
  shows "p \<notin> set us"
proof -
  have "i < length ins"
    using assms(3) assms(1) by (cases rule: rtranclp.cases) (auto simp: build_def elim: flowsE)
  then obtain q where q: "in_block g q i" "(g_entry_block g, q) \<in> (block_edges (g_blocks g))\<^sup>*"
    using reachable_instruction [OF assms(1-3) entry_covers_first [OF assms(1,2)]] by blast
  then have "p = q" using in_block_iff [OF assms(1,2)] assms(4) by simp
  then show ?thesis
    using q(2) assms(5) unreachable_blocks_eq build_edges_in_range [OF assms(1)] build_entry [OF assms(1)] by auto
qed

theorem cfg_reachable_not_reported_witness: "\<not> (flows loop_code)\<^sup>*\<^sup>* 0 4"
proof
  assume r: "(flows loop_code)\<^sup>*\<^sup>* 0 4"
  obtain g where g: "build loop_code = Inr g" "address_sorted loop_code" "unreachable_blocks g = Some [2]" "in_block g 2 4"
    by (rule loop_code_built)
  from cfg_reachable_not_reported [OF g(1,2) r g(4,3)] show False by simp
qed

text \<open>The \<open>Unknown\<close> class is never produced, although \<open>BlockEnd::Unknown\<close> is documented as the class
  of \<open>int\<close> and \<open>syscall\<close>.\<close>

lemma classify_never_unknown: "classify ins \<noteq> EndUnknown"
  by (simp add: classify_def Let_def list_ex_iff split: option.split)

text \<open>On input that is not sorted by address the recorded instruction ranges go wrong: here the
  block that starts at address 6 gets the empty range \<open>2..1\<close>, both edges of the branch at address 4
  stay unresolved, and the block is reported unreachable although the branch falls through to it.\<close>

lemma unsorted_block_lost:
  "(case build [mk_ins 8 ''ret'' [] [''ret''], mk_ins 4 ''je'' [''0x8''] [''jump''], mk_ins 6 ''nop'' [] []] of
      Inr g \<Rightarrow> unreachable_blocks g = Some [1] \<and> map b_start_address (g_blocks g) = [4, 6] \<and>
        map b_start_instruction (g_blocks g) = [1, 2] \<and> map b_end_instruction (g_blocks g) = [2, 1]
    | Inl _ \<Rightarrow> False)"
  by code_simp

end
