(* ===== verification/X86_Lower.thy ===== *)
theory X86_Lower
  imports X86_Regs Cfg
begin

text \<open>
  Lowering of decoded x86-64 instructions: \<open>semasm-x86/src/lower.rs\<close>, with the operation kinds of
  \<open>semasm-asir/src/lib.rs\<close>. Operand strings are the text the disassembler prints. Sums of
  displacements wrap as in a build without overflow checks.
\<close>

datatype op_kind =
  Nop | OpLoad | OpStore | Binary | Compare | Select | Branch | OpCall | OpReturn | OpUnknown

record mem_operand =
  mo_base :: "register option"
  mo_index :: "register option"
  mo_scale :: nat
  mo_disp :: int
  mo_width :: width

datatype operand = OReg register | OMem mem_operand | OImm int

record lowered_instr =
  li_mnemonic :: string
  li_kind :: op_kind
  li_width :: width
  li_signed :: "bool option"
  li_operands :: "operand list"

datatype lowering = Lowered lowered_instr | Unsupported string

section \<open>Operands\<close>

definition prefix_width :: "string \<Rightarrow> width option" where
  "prefix_width token =
     (if token = ''byte'' then Some B8
      else if token = ''word'' then Some B16
      else if token = ''dword'' then Some B32
      else if token = ''qword'' then Some B64
      else None)"

definition reg_names :: "(string \<times> register) list" where
  "reg_names =
     [(''rax'', full Rax), (''rbx'', full Rbx), (''rcx'', full Rcx), (''rdx'', full Rdx),
      (''rsi'', full Rsi), (''rdi'', full Rdi), (''rsp'', full Rsp), (''rbp'', full Rbp),
      (''r8'', full R8), (''r9'', full R9), (''r10'', full R10), (''r11'', full R11),
      (''r12'', full R12), (''r13'', full R13), (''r14'', full R14), (''r15'', full R15),
      (''rip'', rip),
      (''eax'', low32 Rax), (''ebx'', low32 Rbx), (''ecx'', low32 Rcx), (''edx'', low32 Rdx),
      (''esi'', low32 Rsi), (''edi'', low32 Rdi), (''esp'', low32 Rsp), (''ebp'', low32 Rbp),
      (''r8d'', low32 R8), (''r9d'', low32 R9), (''r10d'', low32 R10), (''r11d'', low32 R11),
      (''r12d'', low32 R12), (''r13d'', low32 R13), (''r14d'', low32 R14), (''r15d'', low32 R15),
      (''ax'', low16 Rax), (''bx'', low16 Rbx), (''cx'', low16 Rcx), (''dx'', low16 Rdx),
      (''si'', low16 Rsi), (''di'', low16 Rdi), (''sp'', low16 Rsp), (''bp'', low16 Rbp),
      (''r8w'', low16 R8), (''r9w'', low16 R9), (''r10w'', low16 R10), (''r11w'', low16 R11),
      (''r12w'', low16 R12), (''r13w'', low16 R13), (''r14w'', low16 R14), (''r15w'', low16 R15),
      (''al'', low8 Rax), (''ah'', high8 Rax), (''bl'', low8 Rbx), (''bh'', high8 Rbx),
      (''cl'', low8 Rcx), (''ch'', high8 Rcx), (''dl'', low8 Rdx), (''dh'', high8 Rdx),
      (''sil'', low8 Rsi), (''dil'', low8 Rdi), (''spl'', low8 Rsp), (''bpl'', low8 Rbp),
      (''r8b'', low8 R8), (''r9b'', low8 R9), (''r10b'', low8 R10), (''r11b'', low8 R11),
      (''r12b'', low8 R12), (''r13b'', low8 R13), (''r14b'', low8 R14), (''r15b'', low8 R15)]"

definition parse_reg :: "string \<Rightarrow> register option" where
  "parse_reg name = map_of reg_names name"

record mem_state =
  ms_base :: "register option"
  ms_index :: "register option"
  ms_scale :: nat
  ms_disp :: int
  ms_neg :: bool

text \<open>The displacement branch: hexadecimal first, then decimal.\<close>

definition parse_disp :: "string \<Rightarrow> int option" where
  "parse_disp tok =
     (case (case strip_prefix ''0x'' tok of Some h \<Rightarrow> Some h | None \<Rightarrow> strip_prefix ''0X'' tok) of
        Some hex \<Rightarrow> (case parse_i64 16 hex of Some v \<Rightarrow> Some v | None \<Rightarrow> parse_i64 10 tok)
      | None \<Rightarrow> parse_i64 10 tok)"

definition mem_token :: "string \<Rightarrow> mem_state \<Rightarrow> mem_state option" where
  "mem_token tok st =
     (if tok = ''+'' then Some (st\<lparr>ms_neg := False\<rparr>)
      else if tok = ''-'' then Some (st\<lparr>ms_neg := True\<rparr>)
      else (case split_once CHR ''*'' tok of
          Some (reg, mult) \<Rightarrow>
            (case parse_reg (trim reg) of
               None \<Rightarrow> None
             | Some r \<Rightarrow>
                 (case parse_unsigned 10 255 (trim mult) of
                    None \<Rightarrow> None
                  | Some s \<Rightarrow> Some (st\<lparr>ms_index := Some r, ms_scale := s, ms_neg := False\<rparr>)))
        | None \<Rightarrow>
            (case parse_reg tok of
               Some r \<Rightarrow>
                 Some (if ms_base st = None then st\<lparr>ms_base := Some r, ms_neg := False\<rparr>
                       else st\<lparr>ms_index := Some r, ms_neg := False\<rparr>)
             | None \<Rightarrow>
                 (case parse_disp tok of
                    Some v \<Rightarrow>
                      Some (st\<lparr>ms_disp := wrap_i64 (ms_disp st + wrap_i64 ((if ms_neg st then -1 else 1) * v)),
                              ms_neg := False\<rparr>)
                  | None \<Rightarrow> None))))"

fun mem_tokens :: "string list \<Rightarrow> mem_state \<Rightarrow> mem_state option" where
  "mem_tokens [] st = Some st"
| "mem_tokens (tok # toks) st = (case mem_token tok st of None \<Rightarrow> None | Some st' \<Rightarrow> mem_tokens toks st')"

text \<open>A leading \<open>[\<close> of the first token and a trailing \<open>]\<close> of the last one are dropped.\<close>

definition strip_brackets :: "string list \<Rightarrow> string list" where
  "strip_brackets tokens =
     (let t1 = (case tokens of
                  [] \<Rightarrow> []
                | t # ts \<Rightarrow> (case strip_prefix ''['' t of Some s \<Rightarrow> s | None \<Rightarrow> t) # ts) in
      if t1 = [] then []
      else butlast t1 @ [case strip_suffix '']'' (last t1) of Some s \<Rightarrow> s | None \<Rightarrow> last t1])"

definition parse_memory :: "string \<Rightarrow> mem_operand option" where
  "parse_memory body =
     map_option (\<lambda>st. \<lparr>mo_base = ms_base st, mo_index = ms_index st, mo_scale = ms_scale st,
                       mo_disp = ms_disp st, mo_width = B64\<rparr>)
       (mem_tokens (strip_brackets (split_whitespace body))
          \<lparr>ms_base = None, ms_index = None, ms_scale = 1, ms_disp = 0, ms_neg = False\<rparr>)"

text \<open>\<open>strip_prefix('[')\<close> then \<open>strip_suffix(']')\<close>.\<close>

definition bracketed :: "string \<Rightarrow> string option" where
  "bracketed t = (case strip_prefix ''['' t of None \<Rightarrow> None | Some inner \<Rightarrow> strip_suffix '']'' inner)"

definition parse_operand :: "string \<Rightarrow> operand option" where
  "parse_operand token =
     (let t = trim token in
      case (case find_str ''ptr'' t of None \<Rightarrow> None | Some idx \<Rightarrow> bracketed (trim (drop (idx + 3) t))) of
        Some body \<Rightarrow> map_option OMem (parse_memory body)
      | None \<Rightarrow>
          (case bracketed t of
             Some body \<Rightarrow> map_option OMem (parse_memory body)
           | None \<Rightarrow>
               (case (if take 2 t = ''0x'' \<or> take 2 t = ''0X'' then parse_i64 16 (drop 2 t) else None) of
                  Some v \<Rightarrow> Some (OImm v)
                | None \<Rightarrow>
                    (case parse_i64 10 t of
                       Some v \<Rightarrow> Some (OImm v)
                     | None \<Rightarrow> map_option OReg (parse_reg t)))))"

fun infer_width :: "operand list \<Rightarrow> width" where
  "infer_width [] = B64"
| "infer_width (OReg r # _) = r_width r"
| "infer_width (OMem m # _) = mo_width m"
| "infer_width (OImm _ # ops) = infer_width ops"

section \<open>Instructions\<close>

definition classify_cmov :: "string \<Rightarrow> (op_kind \<times> bool option) option" where
  "classify_cmov mnemonic =
     (case strip_prefix ''cmov'' mnemonic of
        None \<Rightarrow> None
      | Some cc \<Rightarrow>
          if cc \<in> {''a'', ''nbe'', ''ae'', ''nb'', ''nc'', ''b'', ''c'', ''nae'', ''be'', ''na''}
            then Some (Select, Some False)
          else if cc \<in> {''g'', ''nle'', ''ge'', ''nl'', ''l'', ''nge'', ''le'', ''ng''}
            then Some (Select, Some True)
          else if cc \<in> {''e'', ''z'', ''ne'', ''nz'', ''s'', ''ns'', ''o'', ''no'', ''p'', ''pe'', ''np'', ''po''}
            then Some (Select, None)
          else None)"

definition lower_kind :: "string \<Rightarrow> (op_kind \<times> bool option) option" where
  "lower_kind m =
     (if m \<in> {''mov'', ''movabs'', ''push'', ''pop''} then Some (OpStore, None)
      else if m \<in> {''lea'', ''movzx''} then Some (OpLoad, None)
      else if m \<in> {''xor'', ''add'', ''sub'', ''inc'', ''dec'', ''and'', ''or'', ''shl'', ''shr''} then Some (Binary, None)
      else if m \<in> {''cmp'', ''test''} then Some (Compare, None)
      else if m \<in> {''jmp'', ''je'', ''jne'', ''jz'', ''jnz''} then Some (Branch, None)
      else if m \<in> {''ja'', ''jae'', ''jb'', ''jbe''} then Some (Branch, Some False)
      else if m \<in> {''jg'', ''jge'', ''jl'', ''jle''} then Some (Branch, Some True)
      else if m = ''call'' then Some (OpCall, None)
      else if m \<in> {''ret'', ''retn'', ''retf''} then Some (OpReturn, None)
      else if m = ''syscall'' then Some (OpUnknown, None)
      else classify_cmov m)"

fun find_map :: "('a \<Rightarrow> 'b option) \<Rightarrow> 'a list \<Rightarrow> 'b option" where
  "find_map f [] = None"
| "find_map f (x # xs) = (case f x of Some y \<Rightarrow> Some y | None \<Rightarrow> find_map f xs)"

text \<open>The text between the first \<open>[\<close> and the last \<open>]\<close> after it.\<close>

definition bracket_body :: "string \<Rightarrow> string option" where
  "bracket_body raw =
     (case find_char CHR ''['' raw of
        None \<Rightarrow> None
      | Some bs \<Rightarrow>
          (let after = drop (bs + 1) raw in
           map_option (\<lambda>end. take end after) (rfind_char CHR '']'' after)))"

definition lower_operand :: "string \<Rightarrow> operand option" where
  "lower_operand raw =
     (case find_map prefix_width (split_whitespace raw) of
        Some w \<Rightarrow>
          (case bracket_body raw of
             Some body \<Rightarrow>
               (let mem = (case parse_memory body of
                     Some m \<Rightarrow> m
                   | None \<Rightarrow> \<lparr>mo_base = None, mo_index = None, mo_scale = 1, mo_disp = 0, mo_width = B64\<rparr>) in
                Some (OMem (mem\<lparr>mo_width := w\<rparr>)))
           | None \<Rightarrow> parse_operand raw)
      | None \<Rightarrow> parse_operand raw)"

fun lower_operands :: "string list \<Rightarrow> operand list option" where
  "lower_operands [] = Some []"
| "lower_operands (raw # rest) =
     (case lower_operand raw of
        None \<Rightarrow> None
      | Some o' \<Rightarrow> map_option (\<lambda>os. o' # os) (lower_operands rest))"

definition lower :: "physical_instruction \<Rightarrow> lowering" where
  "lower instr =
     (case lower_kind (to_ascii_lowercase (pi_mnemonic instr)) of
        None \<Rightarrow> Unsupported (pi_mnemonic instr)
      | Some (kind, sgn_ctx) \<Rightarrow>
          (case lower_operands (pi_operands instr) of
             None \<Rightarrow> Unsupported (pi_mnemonic instr)
           | Some parsed \<Rightarrow>
               Lowered \<lparr>li_mnemonic = pi_mnemonic instr, li_kind = kind, li_width = infer_width parsed,
                        li_signed = sgn_ctx, li_operands = parsed\<rparr>))"

definition lower_keep_all :: "physical_instruction list \<Rightarrow> lowered_instr list" where
  "lower_keep_all instrs =
     map (\<lambda>p. case lower p of
        Lowered l \<Rightarrow> l
      | Unsupported mnemonic \<Rightarrow>
          \<lparr>li_mnemonic = mnemonic, li_kind = OpUnknown, li_width = B64, li_signed = None, li_operands = []\<rparr>) instrs"

end
