(* ===== verification/Stack_Walk.thy ===== *)
theory Stack_Walk
  imports Prelude
begin

text \<open>
  What the four calling-convention analysers share. Each walks a function body once, keeping the
  number of bytes by which the stack pointer has been lowered since entry, and reports a call site
  that is not 16-byte aligned and a return that is not balanced. The walk is linear; execution is
  not. This theory states, as a locale, what an analyser has to promise about a single instruction
  for its verdicts to be exact on every execution, jumps included.
\<close>

section \<open>Executions\<close>

text \<open>States reached from the entry of \<open>body\<close>: an instruction that does not stop falls through, and
  \<open>jump i j\<close> are the taken branches. \<open>effect\<close> is what an instruction may do to the machine.\<close>

inductive reaches :: "('i \<Rightarrow> 'm \<Rightarrow> 'm \<Rightarrow> bool) \<Rightarrow> ('i \<Rightarrow> bool) \<Rightarrow> (nat \<Rightarrow> nat \<Rightarrow> bool) \<Rightarrow> 'i list \<Rightarrow>
    'm \<Rightarrow> nat \<Rightarrow> 'm \<Rightarrow> bool"
  for effect stops jump body m0 where
  entry: "reaches effect stops jump body m0 0 m0"
| fall: "reaches effect stops jump body m0 i m \<Longrightarrow> i < length body \<Longrightarrow> \<not> stops (body ! i) \<Longrightarrow>
    effect (body ! i) m m' \<Longrightarrow> reaches effect stops jump body m0 (Suc i) m'"
| taken: "reaches effect stops jump body m0 i m \<Longrightarrow> i < length body \<Longrightarrow> jump i j \<Longrightarrow>
    effect (body ! i) m m' \<Longrightarrow> reaches effect stops jump body m0 j m'"

text \<open>The static state before instruction \<open>i\<close> of a linear walk.\<close>

definition walk_at :: "('i \<Rightarrow> 's \<Rightarrow> 's) \<Rightarrow> 's \<Rightarrow> 'i list \<Rightarrow> nat \<Rightarrow> 's" where
  "walk_at step s0 body i = fold step (take i body) s0"

lemma walk_at_0 [simp]: "walk_at step s0 body 0 = s0"
  by (simp add: walk_at_def)

lemma walk_at_Suc: "i < length body \<Longrightarrow> walk_at step s0 body (Suc i) = step (body ! i) (walk_at step s0 body i)"
  by (simp add: walk_at_def take_Suc_conv_app_nth)

lemma walk_at_map: "walk_at step s0 (map f body) i = walk_at (\<lambda>x. step (f x)) s0 body i"
  by (simp add: walk_at_def take_map fold_map o_def)

text \<open>A body the linear walk is entitled to judge: every instruction is one it tracks, and every
  jump arrives at a place where the walk assumes no more than it knows at the jump.\<close>

definition well_tracked :: "('i \<Rightarrow> 's \<Rightarrow> bool) \<Rightarrow> ('i \<Rightarrow> 's \<Rightarrow> 's) \<Rightarrow> ('s \<Rightarrow> 's \<Rightarrow> bool) \<Rightarrow> 's \<Rightarrow>
    (nat \<Rightarrow> nat \<Rightarrow> bool) \<Rightarrow> 'i list \<Rightarrow> bool" where
  "well_tracked ok step weaker s0 jump body \<longleftrightarrow>
     (\<forall>i < length body. ok (body ! i) (walk_at step s0 body i) \<and>
        (\<forall>j. jump i j \<longrightarrow> weaker (walk_at step s0 body (Suc i)) (walk_at step s0 body j)))"

section \<open>The alignment arithmetic\<close>

definition align_of :: "int \<Rightarrow> int \<Rightarrow> int" where
  "align_of entry_mod delta = rust_rem (rust_rem (wrap_i64 (entry_mod + delta)) 16 + 16) 16"

lemma rust_rem_16: "rust_rem (rust_rem x 16 + 16) 16 = x mod 16"
proof (cases "x < 0")
  case True
  define a where "a = (- x) mod 16"
  have a: "0 \<le> a" "a < 16" by (simp_all add: a_def)
  have "rust_rem x 16 = - a" using True by (simp add: rust_rem_def a_def)
  then have "rust_rem (rust_rem x 16 + 16) 16 = (16 - a) mod 16" using a by (simp add: rust_rem_def)
  also have "\<dots> = x mod 16" by (simp add: a_def mod_simps)
  finally show ?thesis .
next
  case False
  then have "rust_rem x 16 = x mod 16" by (auto simp: rust_rem_def sgn_if)
  moreover have "0 \<le> x mod 16" by simp
  ultimately show ?thesis by (simp add: rust_rem_def sgn_if)
qed

lemma wrap_i64_mod_16: "wrap_i64 x mod 16 = x mod 16"
proof -
  have "wrap_i64 x mod 2 ^ 64 mod 16 = x mod 2 ^ 64 mod 16" by (simp only: wrap_i64_cong)
  then show ?thesis by (simp add: mod_mod_cancel)
qed

lemma align_of_mod: "align_of m d = (m + d) mod 16"
  by (simp add: align_of_def rust_rem_16 wrap_i64_mod_16)

lemma uint_sub_mod_16: "uint (e - word_of_int d :: 64 word) mod 16 = (uint e - d) mod 16"
proof -
  have "uint (e - word_of_int d :: 64 word) = (uint e - d) mod 2 ^ 64"
    by (simp add: uint_word_ariths(2) uint_word_of_int mod_diff_right_eq)
  then show ?thesis by (simp add: mod_mod_cancel)
qed

text \<open>\<open>entry_mod + delta\<close> stands for the alignment of \<open>entry - delta\<close>: right for offsets 0 and 8.\<close>

lemma align_of_sp:
  assumes "uint e mod 16 = m" "m = 0 \<or> m = 8"
  shows "align_of m d = 0 \<longleftrightarrow> uint (e - word_of_int d :: 64 word) mod 16 = 0"
proof -
  have "(uint e - d) mod 16 = (m - d) mod 16" using assms(1) by (metis mod_diff_left_eq)
  moreover have "(m + d) mod 16 = 0 \<longleftrightarrow> (m - d) mod 16 = 0" using assms(2) by presburger
  ultimately show ?thesis by (simp only: align_of_mod uint_sub_mod_16)
qed

lemma word_of_int_i64_0:
  assumes "in_i64 d"
  shows "(word_of_int d :: 64 word) = 0 \<longleftrightarrow> d = 0"
proof
  assume "(word_of_int d :: 64 word) = 0"
  then have "2 ^ 64 dvd d" by (simp add: word_of_int_eq_0_iff)
  moreover have "- (2 ^ 63) \<le> d" "d < 2 ^ 63" using assms by (auto simp: rust_int)
  ultimately show "d = 0" by (auto dest: zdvd_imp_le simp: dvd_def)
qed simp

lemma sint_word_of_int_i64:
  assumes "in_i64 d"
  shows "sint (word_of_int d :: 64 word) = d"
proof -
  have "- (2 ^ 63) \<le> d" "d < 2 ^ 63" using assms by (auto simp: rust_int)
  then show ?thesis by (simp add: sint_sbintrunc' signed_take_bit_int_eq_self_iff)
qed

section \<open>The contract of an analyser\<close>

locale stack_walk =
  fixes effect :: "'i \<Rightarrow> 'm \<Rightarrow> 'm \<Rightarrow> bool"
    and sp :: "'m \<Rightarrow> 64 word"
    and step :: "'i \<Rightarrow> 's \<Rightarrow> 's"
    and delta :: "'s \<Rightarrow> int"
    and s0 :: 's
    and ok :: "'i \<Rightarrow> 's \<Rightarrow> bool"
    and weaker :: "'s \<Rightarrow> 's \<Rightarrow> bool"
    and rel :: "64 word \<Rightarrow> 's \<Rightarrow> 'm \<Rightarrow> bool"
    and entry_mod :: int
  assumes rel_sp: "rel e s m \<Longrightarrow> sp m = e - word_of_int (delta s)"
    and rel_entry: "rel (sp m) s0 m"
    and rel_step: "ok ins s \<Longrightarrow> rel e s m \<Longrightarrow> effect ins m m' \<Longrightarrow> rel e (step ins s) m'"
    and rel_weaker: "rel e s m \<Longrightarrow> weaker s s' \<Longrightarrow> rel e s' m"
    and delta_entry: "in_i64 (delta s0)"
    and delta_step: "in_i64 (delta s) \<Longrightarrow> in_i64 (delta (step ins s))"
    and entry_mod: "entry_mod = 0 \<or> entry_mod = 8"
begin

lemma walk_in_i64: "in_i64 (delta (walk_at step s0 body i))"
proof -
  have "in_i64 (delta (fold step xs s))" if "in_i64 (delta s)" for xs s
    using that by (induction xs arbitrary: s) (auto intro: delta_step)
  then show ?thesis using delta_entry by (simp add: walk_at_def)
qed

lemma reached_rel:
  assumes "reaches effect stops jump body m0 i m" "well_tracked ok step weaker s0 jump body"
  shows "rel (sp m0) (walk_at step s0 body i) m"
  using assms
proof (induction rule: reaches.induct)
  case (fall i m m')
  then show ?case by (auto simp: walk_at_Suc well_tracked_def intro: rel_step)
next
  case (taken i m j m')
  then have "rel (sp m0) (walk_at step s0 body (Suc i)) m'"
    by (auto simp: walk_at_Suc well_tracked_def intro: rel_step)
  with taken show ?case by (auto simp: well_tracked_def intro: rel_weaker)
qed (simp add: rel_entry)

lemma reached_sp:
  assumes "reaches effect stops jump body m0 i m" "well_tracked ok step weaker s0 jump body"
  shows "sp m = sp m0 - word_of_int (delta (walk_at step s0 body i))"
  by (rule rel_sp) (rule reached_rel [OF assms])

lemma aligned_exact:
  assumes "reaches effect stops jump body m0 i m" "well_tracked ok step weaker s0 jump body"
    and "uint (sp m0) mod 16 = entry_mod"
  shows "align_of entry_mod (delta (walk_at step s0 body i)) = 0 \<longleftrightarrow> uint (sp m) mod 16 = 0"
  using align_of_sp [OF assms(3) entry_mod] reached_sp [OF assms(1,2)] by simp

lemma depth_exact:
  assumes "reaches effect stops jump body m0 i m" "well_tracked ok step weaker s0 jump body"
  shows "sint (sp m0 - sp m) = delta (walk_at step s0 body i)"
  using sint_word_of_int_i64 [OF walk_in_i64, of body i] reached_sp [OF assms] by simp

lemma balanced_exact:
  assumes "reaches effect stops jump body m0 i m" "well_tracked ok step weaker s0 jump body"
  shows "delta (walk_at step s0 body i) = 0 \<longleftrightarrow> sp m = sp m0"
  using word_of_int_i64_0 [OF walk_in_i64, of body i] reached_sp [OF assms] by simp

end

section \<open>Loops that append findings\<close>

text \<open>The loop \<open>for (i, ins) in instrs.iter().enumerate()\<close> with a mutable state.\<close>

fun for_each :: "(nat \<Rightarrow> 'i \<Rightarrow> 'w \<Rightarrow> 'w) \<Rightarrow> nat \<Rightarrow> 'i list \<Rightarrow> 'w \<Rightarrow> 'w" where
  "for_each f i [] w = w"
| "for_each f i (x # xs) w = for_each f (Suc i) xs (f i x w)"

lemma for_each_inv: "(\<And>i x w. P w \<Longrightarrow> P (f i x w)) \<Longrightarrow> P w \<Longrightarrow> P (for_each f k xs w)"
  by (induction xs arbitrary: k w) auto

text \<open>A walk whose findings at \<open>i\<close> depend only on the instruction and on a key (the delta) that
  evolves on its own.\<close>

locale emitting_walk =
  fixes step :: "nat \<Rightarrow> 'i \<Rightarrow> 'w \<Rightarrow> 'w"
    and findings :: "'w \<Rightarrow> 'f list"
    and key :: "'w \<Rightarrow> 'k"
    and next_key :: "'i \<Rightarrow> 'k \<Rightarrow> 'k"
    and out :: "nat \<Rightarrow> 'i \<Rightarrow> 'k \<Rightarrow> 'f list"
  assumes findings_step: "findings (step i ins w) = findings w @ out i ins (key w)"
    and key_step: "key (step i ins w) = next_key ins (key w)"
begin

lemma key_loop: "key (for_each step i body w) = fold next_key body (key w)"
  by (induction body arbitrary: i w) (simp_all add: key_step)

lemma findings_loop:
  "f \<in> set (findings (for_each step k body w)) \<longleftrightarrow> f \<in> set (findings w) \<or>
     (\<exists>i < length body. f \<in> set (out (k + i) (body ! i) (walk_at next_key (key w) body i)))"
proof (induction body arbitrary: k w)
  case (Cons a body)
  have "(\<exists>i < length (a # body). f \<in> set (out (k + i) ((a # body) ! i) (walk_at next_key (key w) (a # body) i))) \<longleftrightarrow>
      f \<in> set (out k a (key w)) \<or>
      (\<exists>i < length body. f \<in> set (out (Suc k + i) (body ! i) (walk_at next_key (next_key a (key w)) body i)))"
    by (auto simp: walk_at_def less_Suc_eq_0_disj)
  then show ?case by (simp add: Cons.IH findings_step key_step)
qed simp

end

end
