(* ===== verification/X86_Machine.thy ===== *)
theory X86_Machine
  imports X86_Lower Stack_Walk
begin

text \<open>
  What an x86-64 instruction may do to the general-purpose registers, as far as the calling
  conventions need it. The relation is an over-approximation of the processor on the mnemonics that
  \<open>lower.rs\<close> supports: results of arithmetic are arbitrary, but only the destination changes, and
  the stack pointer moves as the manual says. A \<open>call\<close> stands for the whole callee, which keeps
  every register outside \<open>vol\<close>. An instruction outside the subset may do anything.
\<close>

text \<open>Register files are maps over a finite type; comparing two of them compares the 16 entries.\<close>

definition all_gp :: "gp list" where
  "all_gp = [Rax, Rbx, Rcx, Rdx, Rsi, Rdi, Rsp, Rbp, R8, R9, R10, R11, R12, R13, R14, R15]"

lemma all_gp_all: "g \<in> set all_gp"
  by (cases g) (simp_all add: all_gp_def)

instantiation gp :: enum
begin

definition enum_gp :: "gp list" where
  "enum_gp = all_gp"

definition enum_all_gp :: "(gp \<Rightarrow> bool) \<Rightarrow> bool" where
  "enum_all_gp P \<longleftrightarrow> list_all P all_gp"

definition enum_ex_gp :: "(gp \<Rightarrow> bool) \<Rightarrow> bool" where
  "enum_ex_gp P \<longleftrightarrow> list_ex P all_gp"

instance
proof
  show "(UNIV :: gp set) = set Enum.enum" using all_gp_all by (auto simp: enum_gp_def)
  show "distinct (Enum.enum :: gp list)" by (simp add: enum_gp_def all_gp_def)
  show "Enum.enum_all P \<longleftrightarrow> Ball UNIV P" for P :: "gp \<Rightarrow> bool"
    using all_gp_all by (auto simp: enum_all_gp_def list_all_iff)
  show "Enum.enum_ex P \<longleftrightarrow> Bex UNIV P" for P :: "gp \<Rightarrow> bool"
    using all_gp_all by (auto simp: enum_ex_gp_def list_ex_iff)
qed

end

type_synonym regs = "gp \<Rightarrow> cell"

text \<open>\<open>Some r\<close> when the first operand is a register.\<close>

fun first_reg :: "operand list \<Rightarrow> register option" where
  "first_reg (OReg r # _) = Some r"
| "first_reg _ = None"

definition dest_gp :: "lowered_instr \<Rightarrow> gp set" where
  "dest_gp ins = (case first_reg (li_operands ins) of
     Some r \<Rightarrow> (case r_storage r of SGp g \<Rightarrow> {g} | _ \<Rightarrow> {}) | None \<Rightarrow> {})"

abbreviation mn :: "lowered_instr \<Rightarrow> string" where
  "mn ins \<equiv> to_ascii_lowercase (li_mnemonic ins)"

text \<open>An operand-size prefix makes \<open>push\<close> and \<open>pop\<close> move two bytes.\<close>

definition slot_bytes :: "lowered_instr \<Rightarrow> cell" where
  "slot_bytes ins = (if li_width ins = B16 then 2 else 8)"

definition clobbers :: "gp set \<Rightarrow> lowered_instr \<Rightarrow> gp set" where
  "clobbers vol ins =
     (if mn ins = ''push'' then {Rsp}
      else if mn ins = ''pop'' then insert Rsp (dest_gp ins)
      else if mn ins = ''call'' then vol
      else if mn ins = ''syscall'' then {Rax, Rcx, R11}
      else if li_kind ins \<in> {Compare, Branch, OpReturn} then {}
      else if li_kind ins = OpUnknown then UNIV
      else dest_gp ins)"

definition x86_effect :: "gp set \<Rightarrow> lowered_instr \<Rightarrow> regs \<Rightarrow> regs \<Rightarrow> bool" where
  "x86_effect vol ins s s' \<longleftrightarrow>
     (\<forall>g. g \<notin> clobbers vol ins \<longrightarrow> s' g = s g) \<and>
     (mn ins = ''push'' \<longrightarrow> s' Rsp = s Rsp - slot_bytes ins) \<and>
     (mn ins = ''pop'' \<and> Rsp \<notin> dest_gp ins \<longrightarrow> s' Rsp = s Rsp + slot_bytes ins) \<and>
     (\<forall>n ops. mn ins = ''sub'' \<and> li_operands ins = OReg (full Rsp) # OImm n # ops \<longrightarrow> s' Rsp = s Rsp - word_of_int n) \<and>
     (\<forall>n ops. mn ins = ''add'' \<and> li_operands ins = OReg (full Rsp) # OImm n # ops \<longrightarrow> s' Rsp = s Rsp + word_of_int n) \<and>
     (\<forall>g h ops. mn ins \<in> {''mov'', ''movabs''} \<and> li_operands ins = OReg (full g) # OReg (full h) # ops \<longrightarrow> s' g = s h) \<and>
     (\<forall>g n ops. mn ins \<in> {''mov'', ''movabs''} \<and> li_operands ins = OReg (full g) # OImm n # ops \<longrightarrow> s' g = word_of_int n)"

definition x86_stops :: "lowered_instr \<Rightarrow> bool" where
  "x86_stops ins \<longleftrightarrow> mn ins \<in> {''ret'', ''retn'', ''retf'', ''jmp''}"

text \<open>The mnemonics behind the operation kinds.\<close>

lemma classify_cmov_Select: "classify_cmov m = Some (k, sg) \<Longrightarrow> k = Select"
  by (auto simp: classify_cmov_def split: option.splits if_splits)

lemma lower_kind_cases:
  assumes "lower_kind m = Some (k, sg)"
  shows "k = OpStore \<longleftrightarrow> m \<in> {''mov'', ''movabs'', ''push'', ''pop''}" "k = OpCall \<longleftrightarrow> m = ''call''"
    "m = ''syscall'' \<Longrightarrow> k = OpUnknown" "k \<noteq> Nop"
  using assms by (auto simp: lower_kind_def dest: classify_cmov_Select split: if_splits)

section \<open>What the linear walks track\<close>

text \<open>The walk state is the number of bytes pushed, together with whether \<open>RBP\<close> holds the frame
  pointer: the stack pointer just after a single \<open>push\<close>.\<close>

definition sets_frame :: "lowered_instr \<Rightarrow> bool" where
  "sets_frame ins \<longleftrightarrow> mn ins = ''mov'' \<and> (\<exists>ops. li_operands ins = OReg (full Rbp) # OReg (full Rsp) # ops)"

definition restores_frame :: "lowered_instr \<Rightarrow> bool" where
  "restores_frame ins \<longleftrightarrow> mn ins \<in> {''mov'', ''movabs''} \<and> (\<exists>ops. li_operands ins = OReg (full Rsp) # OReg (full Rbp) # ops)"

definition adjusts_rsp :: "lowered_instr \<Rightarrow> bool" where
  "adjusts_rsp ins \<longleftrightarrow> mn ins \<in> {''sub'', ''add''} \<and> (\<exists>n ops. li_operands ins = OReg (full Rsp) # OImm n # ops)"

text \<open>The instructions a stack walk understands: 8-byte pushes and pops, constant adjustments of
  the full \<open>RSP\<close>, restoring it from a frame pointer that is in place; nothing else touches \<open>RSP\<close>.
  The analysers compare mnemonics in lower case.\<close>

definition stack_tracked :: "gp set \<Rightarrow> lowered_instr \<Rightarrow> int \<times> bool \<Rightarrow> bool" where
  "stack_tracked vol ins s \<longleftrightarrow>
     li_mnemonic ins = mn ins \<and>
     (if mn ins = ''push'' then li_width ins \<noteq> B16
      else if mn ins = ''pop'' then li_width ins \<noteq> B16 \<and> Rsp \<notin> dest_gp ins
      else if restores_frame ins then snd s
      else adjusts_rsp ins \<or>
        Rsp \<notin> clobbers vol ins \<and> (mn ins \<in> {''sub'', ''add'', ''mov'', ''movabs''} \<longrightarrow> Rsp \<notin> dest_gp ins))"

definition frame_next :: "gp set \<Rightarrow> lowered_instr \<Rightarrow> int \<times> bool \<Rightarrow> bool" where
  "frame_next vol ins s = (if sets_frame ins then fst s = 8 else snd s \<and> Rbp \<notin> clobbers vol ins)"

definition x86_rel :: "cell \<Rightarrow> int \<times> bool \<Rightarrow> regs \<Rightarrow> bool" where
  "x86_rel e s r \<longleftrightarrow> r Rsp = e - word_of_int (fst s) \<and> (snd s \<longrightarrow> r Rbp = e - 8)"

definition x86_weaker :: "int \<times> bool \<Rightarrow> int \<times> bool \<Rightarrow> bool" where
  "x86_weaker s s' \<longleftrightarrow> fst s = fst s' \<and> (snd s' \<longrightarrow> snd s)"

lemma x86_frame_rel:
  assumes "x86_rel e s r" "x86_effect vol ins r r'" "frame_next vol ins s"
  shows "r' Rbp = e - 8"
proof (cases "sets_frame ins")
  case True
  then have "r' Rbp = r Rsp" using assms(2) by (auto simp: sets_frame_def x86_effect_def)
  then show ?thesis using True assms(1,3) by (simp add: frame_next_def x86_rel_def)
next
  case False
  then show ?thesis using assms by (simp add: frame_next_def x86_rel_def x86_effect_def)
qed

text \<open>What both analysers compute for one instruction.\<close>

definition x86_delta :: "lowered_instr \<Rightarrow> int \<Rightarrow> int" where
  "x86_delta ins d =
     (if restores_frame ins then 8
      else wrap_i64 (d +
        (if mn ins = ''push'' then 8 else if mn ins = ''pop'' then -8
         else case li_operands ins of
           OReg r # OImm n # _ \<Rightarrow>
             if r = full Rsp \<and> mn ins = ''sub'' then n else if r = full Rsp \<and> mn ins = ''add'' then - n else 0
         | _ \<Rightarrow> 0)))"

lemma x86_delta_cases:
  "restores_frame ins \<Longrightarrow> x86_delta ins d = 8"
  "mn ins = ''push'' \<Longrightarrow> x86_delta ins d = wrap_i64 (d + 8)"
  "mn ins = ''pop'' \<Longrightarrow> x86_delta ins d = wrap_i64 (d - 8)"
  "mn ins = ''sub'' \<Longrightarrow> li_operands ins = OReg (full Rsp) # OImm n # ops \<Longrightarrow> x86_delta ins d = wrap_i64 (d + n)"
  "mn ins = ''add'' \<Longrightarrow> li_operands ins = OReg (full Rsp) # OImm n # ops \<Longrightarrow> x86_delta ins d = wrap_i64 (d - n)"
  "\<not> restores_frame ins \<Longrightarrow> \<not> adjusts_rsp ins \<Longrightarrow> mn ins \<noteq> ''push'' \<Longrightarrow> mn ins \<noteq> ''pop'' \<Longrightarrow> x86_delta ins d = wrap_i64 d"
  by (auto simp: x86_delta_def restores_frame_def adjusts_rsp_def split: list.splits operand.splits)

lemma x86_delta_rel:
  assumes "stack_tracked vol ins s" "x86_rel e s r" "x86_effect vol ins r r'"
  shows "r' Rsp = e - word_of_int (x86_delta ins (fst s))"
proof -
  have sp: "r Rsp = e - word_of_int (fst s)" using assms(2) by (simp add: x86_rel_def)
  consider (push) "mn ins = ''push''" | (pop) "mn ins = ''pop''" | (frame) "restores_frame ins"
    | (adjust) "adjusts_rsp ins"
    | (other) "mn ins \<noteq> ''push''" "mn ins \<noteq> ''pop''" "\<not> restores_frame ins" "\<not> adjusts_rsp ins" by blast
  then show ?thesis
  proof cases
    case push
    then show ?thesis using assms(1,3) sp
      by (simp add: stack_tracked_def x86_effect_def slot_bytes_def x86_delta_cases(2) wrap_i64_word)
  next
    case pop
    then show ?thesis using assms(1,3) sp
      by (simp add: stack_tracked_def x86_effect_def slot_bytes_def x86_delta_cases(3) wrap_i64_word)
  next
    case frame
    then have "r' Rsp = r Rbp" "mn ins \<noteq> ''push''" "mn ins \<noteq> ''pop''"
      using assms(3) by (auto simp: restores_frame_def x86_effect_def)
    then show ?thesis using frame assms(1,2) by (simp add: stack_tracked_def x86_rel_def x86_delta_cases(1))
  next
    case adjust
    then obtain n ops where ops: "li_operands ins = OReg (full Rsp) # OImm n # ops" "mn ins \<in> {''sub'', ''add''}"
      by (auto simp: adjusts_rsp_def)
    then show ?thesis using assms(3) sp
      by (auto simp: x86_effect_def x86_delta_cases(4,5) wrap_i64_word)
  next
    case other
    then have "r' Rsp = r Rsp" using assms(1,3) by (simp add: stack_tracked_def x86_effect_def)
    then show ?thesis using other sp by (simp add: x86_delta_cases(6) wrap_i64_word)
  qed
qed

lemma x86_delta_in_i64: "in_i64 (x86_delta ins d)"
  by (simp add: x86_delta_def wrap_i64_range) (simp add: rust_int)

definition x86_walk_step :: "gp set \<Rightarrow> lowered_instr \<Rightarrow> int \<times> bool \<Rightarrow> int \<times> bool" where
  "x86_walk_step vol ins s = (x86_delta ins (fst s), frame_next vol ins s)"

interpretation x86_stack: stack_walk "x86_effect vol" "\<lambda>r. r Rsp" "x86_walk_step vol" fst "(0, False)"
    "stack_tracked vol" x86_weaker x86_rel 8 for vol
proof
  show "x86_rel e (x86_walk_step vol ins s) m'"
    if "stack_tracked vol ins s" "x86_rel e s m" "x86_effect vol ins m m'" for ins s e m m'
    using x86_delta_rel [OF that] x86_frame_rel [OF that(2,3)] by (simp add: x86_rel_def x86_walk_step_def)
qed (auto simp: x86_rel_def x86_weaker_def x86_walk_step_def x86_delta_in_i64, simp_all add: rust_int)

lemma fst_walk_at: "fst (walk_at (x86_walk_step vol) (0, False) body i) = walk_at x86_delta 0 body i"
proof -
  have "fst (fold (x86_walk_step vol) xs s) = fold x86_delta xs (fst s)" for xs s
    by (induction xs arbitrary: s) (simp_all add: x86_walk_step_def)
  then show ?thesis by (simp add: walk_at_def)
qed

end
