(* ===== verification/X86_Abi.thy ===== *)
theory X86_Abi
  imports X86_Machine
begin

text \<open>
  System V AMD64 conformance checks: \<open>semasm-x86/src/abi.rs\<close>. \<open>analyze\<close> walks a function body once,
  tracking the net change of \<open>RSP\<close>, and then runs three further scans over it. The walk is related
  to a 64-bit stack pointer. Counters of type \<open>i64\<close> wrap as in a build without overflow checks.
\<close>

definition arg_regs :: "gp list" where
  "arg_regs = [Rdi, Rsi, Rdx, Rcx, R8, R9]"

definition red_zone_bytes :: int where
  "red_zone_bytes = 128"

definition stack_align :: int where
  "stack_align = 16"

definition entry_rsp_mod :: int where
  "entry_rsp_mod = 8"

datatype severity = SevError | SevWarning | SevInfo

text \<open>One constructor per finding code, with the values its message prints.\<close>

datatype finding_code =
    STACK_ALIGN_CALL int int
  | STACK_BALANCE_RET int
  | CALLEE_SAVED_NOT_PRESERVED gp
  | CALLEE_SAVED_NOT_RESTORED gp
  | RIP_INDEX
  | CALLER_SAVED gp
  | RED_ZONE_NON_LEAF int

record abi_finding =
  af_code :: finding_code
  af_severity :: severity
  af_at :: "nat option"

record stack_state =
  ss_rsp_delta :: int
  ss_rsp_align :: int

definition is_aligned :: "stack_state \<Rightarrow> bool" where
  "is_aligned s \<longleftrightarrow> ss_rsp_align s = 0"

record call_site_state =
  csite_index :: nat
  csite_before :: stack_state

record abi_report =
  abr_findings :: "abi_finding list"
  abr_is_leaf :: bool
  abr_has_syscall :: bool
  abr_final_rsp_delta :: int
  abr_max_red_zone_disp :: int
  abr_call_sites :: "call_site_state list"

definition is_clean :: "abi_report \<Rightarrow> bool" where
  "is_clean r \<longleftrightarrow> \<not> list_ex (\<lambda>f. af_severity f = SevError) (abr_findings r)"

definition has_warnings :: "abi_report \<Rightarrow> bool" where
  "has_warnings r \<longleftrightarrow> list_ex (\<lambda>f. af_severity f = SevWarning) (abr_findings r)"

definition argument_register :: "nat \<Rightarrow> register option" where
  "argument_register index = (if index < length arg_regs then Some (full (arg_regs ! index)) else None)"

definition return_register :: register where
  "return_register = full Rax"

definition syscall_clobbers :: "register list" where
  "syscall_clobbers = map full volatile_gp"

definition is_rsp :: "register \<Rightarrow> bool" where
  "is_rsp r \<longleftrightarrow> r_storage r = SGp Rsp"

definition is_mov_rsp_from_rbp :: "lowered_instr \<Rightarrow> bool" where
  "is_mov_rsp_from_rbp ins \<longleftrightarrow>
     (if li_mnemonic ins \<noteq> ''mov'' \<and> li_mnemonic ins \<noteq> ''movabs'' then False
      else (case li_operands ins of
              OReg dst # OReg src # _ \<Rightarrow> is_rsp dst \<and> r_storage src = SGp Rbp
            | _ \<Rightarrow> False))"

definition red_zone_displacement :: "mem_operand \<Rightarrow> int option" where
  "red_zone_displacement mem =
     (case mo_base mem of
        Some b \<Rightarrow>
          if is_rsp b \<and> mo_index mem = None then
            (if mo_disp mem \<le> 0 \<and> mo_disp mem \<ge> - red_zone_bytes then Some (mo_disp mem) else None)
          else None
      | None \<Rightarrow> None)"

section \<open>Saved registers\<close>

fun add_written :: "operand list \<Rightarrow> gp list \<Rightarrow> gp list" where
  "add_written [] out = out"
| "add_written (OReg r # ops) out =
     add_written ops
       (case r_storage r of
          SGp g \<Rightarrow> if g \<in> set nonvolatile_gp \<and> \<not> is_rsp r \<and> g \<notin> set out then out @ [g] else out
        | _ \<Rightarrow> out)"
| "add_written (_ # ops) out = add_written ops out"

fun written_loop :: "lowered_instr list \<Rightarrow> gp list \<Rightarrow> gp list" where
  "written_loop [] out = out"
| "written_loop (ins # rest) out =
     (if li_mnemonic ins = ''push'' \<or> li_mnemonic ins = ''pop'' then written_loop rest out
      else written_loop rest (add_written (li_operands ins) out))"

definition written_nonvolatile :: "lowered_instr list \<Rightarrow> gp list" where
  "written_nonvolatile instrs = written_loop instrs []"

definition gp_from_reg :: "register \<Rightarrow> gp option" where
  "gp_from_reg r = (case r_storage r of SGp g \<Rightarrow> Some g | _ \<Rightarrow> None)"

fun prologue_loop :: "lowered_instr list \<Rightarrow> gp list \<Rightarrow> gp list" where
  "prologue_loop [] out = out"
| "prologue_loop (ins # rest) out =
     (if li_mnemonic ins = ''push'' then
        prologue_loop rest
          (case first_reg (li_operands ins) of
             Some r \<Rightarrow> (case gp_from_reg r of Some g \<Rightarrow> if g \<notin> set out then out @ [g] else out | None \<Rightarrow> out)
           | None \<Rightarrow> out)
      else if li_mnemonic ins = ''sub'' \<or> li_mnemonic ins = ''add'' then
        (case first_reg (li_operands ins) of
           Some r \<Rightarrow> if is_rsp r then out else prologue_loop rest out
         | None \<Rightarrow> prologue_loop rest out)
      else out)"

definition prologue_saved :: "lowered_instr list \<Rightarrow> gp list" where
  "prologue_saved instrs = prologue_loop instrs []"

fun epilogue_loop :: "lowered_instr list \<Rightarrow> gp list \<Rightarrow> gp list" where
  "epilogue_loop [] out = out"
| "epilogue_loop (ins # rest) out =
     (if li_mnemonic ins \<in> {''ret'', ''retn'', ''retf'', ''add'', ''sub''} then epilogue_loop rest out
      else if li_mnemonic ins = ''pop'' then
        (case first_reg (li_operands ins) of
           Some r \<Rightarrow>
             (case gp_from_reg r of
                Some g \<Rightarrow> if is_rsp r then out else epilogue_loop rest (out @ [g])
              | None \<Rightarrow> epilogue_loop rest out)
         | None \<Rightarrow> epilogue_loop rest out)
      else out)"

definition epilogue_restored :: "lowered_instr list \<Rightarrow> gp list" where
  "epilogue_restored instrs = epilogue_loop (rev instrs) []"

section \<open>One instruction\<close>

record abi_step =
  as_rsp_change :: int
  as_is_call :: bool
  as_is_ret :: bool
  as_is_syscall :: bool
  as_red_zone_disp :: "int option"

definition rsp_change_of :: "lowered_instr \<Rightarrow> int" where
  "rsp_change_of ins =
     (if li_mnemonic ins = ''push'' then 8
      else if li_mnemonic ins = ''pop'' then -8
      else if li_mnemonic ins = ''sub'' \<or> li_mnemonic ins = ''add'' then
        (case li_operands ins of
           OReg r # OImm n # _ \<Rightarrow>
             if is_rsp r then (if li_mnemonic ins = ''sub'' then n else wrap_i64 (- n)) else 0
         | _ \<Rightarrow> 0)
      else 0)"

fun last_red_zone :: "operand list \<Rightarrow> int option \<Rightarrow> int option" where
  "last_red_zone [] d = d"
| "last_red_zone (OMem m # ops) d =
     last_red_zone ops (case red_zone_displacement m of Some d' \<Rightarrow> Some d' | None \<Rightarrow> d)"
| "last_red_zone (_ # ops) d = last_red_zone ops d"

definition abi_step_of :: "lowered_instr \<Rightarrow> abi_step" where
  "abi_step_of ins =
     \<lparr>as_rsp_change = rsp_change_of ins,
      as_is_call = (li_mnemonic ins = ''call''),
      as_is_ret = (li_mnemonic ins \<in> {''ret'', ''retn'', ''retf''}),
      as_is_syscall = (li_mnemonic ins = ''syscall''),
      as_red_zone_disp =
        (if li_kind ins = OpStore \<or> li_kind ins = OpLoad then last_red_zone (li_operands ins) None else None)\<rparr>"

section \<open>The scans\<close>

fun rip_index_ops :: "nat \<Rightarrow> operand list \<Rightarrow> abi_finding list" where
  "rip_index_ops i [] = []"
| "rip_index_ops i (OMem m # ops) =
     (if (case mo_base m of Some r \<Rightarrow> r_storage r = SRip | None \<Rightarrow> False) \<and> mo_index m \<noteq> None
      then [\<lparr>af_code = RIP_INDEX, af_severity = SevError, af_at = Some i\<rparr>] else []) @ rip_index_ops i ops"
| "rip_index_ops i (_ # ops) = rip_index_ops i ops"

definition check_rip_index :: "lowered_instr list \<Rightarrow> abi_finding list \<Rightarrow> abi_finding list" where
  "check_rip_index instrs findings =
     findings @ concat (map (\<lambda>(i, ins). rip_index_ops i (li_operands ins)) (enumerate 0 instrs))"

definition caller_saved_watch :: "gp list" where
  "caller_saved_watch = [Rdi, Rsi, Rdx, Rcx, R8, R9]"

definition mem_reads :: "mem_operand \<Rightarrow> gp list" where
  "mem_reads m =
     (case mo_base m of None \<Rightarrow> [] | Some b \<Rightarrow> (case gp_from_reg b of None \<Rightarrow> [] | Some g \<Rightarrow> [g])) @
     (case mo_index m of None \<Rightarrow> [] | Some ix \<Rightarrow> (case gp_from_reg ix of None \<Rightarrow> [] | Some g \<Rightarrow> [g]))"

fun all_reads :: "operand list \<Rightarrow> gp list" where
  "all_reads [] = []"
| "all_reads (OReg r # ops) = (case gp_from_reg r of Some g \<Rightarrow> [g] | None \<Rightarrow> []) @ all_reads ops"
| "all_reads (OMem m # ops) = mem_reads m @ all_reads ops"
| "all_reads (OImm _ # ops) = all_reads ops"

text \<open>The default case: the first general-purpose register operand is written, the others read.\<close>

fun default_ops :: "operand list \<Rightarrow> bool \<Rightarrow> gp list \<times> gp list" where
  "default_ops [] first_done = ([], [])"
| "default_ops (OReg r # ops) first_done =
     (case gp_from_reg r of
        None \<Rightarrow> default_ops ops first_done
      | Some g \<Rightarrow>
          if first_done then (case default_ops ops True of (w, rd) \<Rightarrow> (w, g # rd))
          else (case default_ops ops True of (w, rd) \<Rightarrow> (g # w, rd)))"
| "default_ops (OMem m # ops) first_done =
     (case default_ops ops first_done of (w, rd) \<Rightarrow> (w, mem_reads m @ rd))"
| "default_ops (OImm _ # ops) first_done = default_ops ops first_done"

definition collect_reg_ops :: "lowered_instr \<Rightarrow> gp list \<times> gp list" where
  "collect_reg_ops ins =
     (let mn = li_mnemonic ins; first = (case first_reg (li_operands ins) of
            Some r \<Rightarrow> (case gp_from_reg r of Some g \<Rightarrow> [g] | None \<Rightarrow> []) | None \<Rightarrow> []) in
      if mn \<in> {''push'', ''cmp'', ''test'', ''call'', ''jmp'', ''ret'', ''retn''} then ([], all_reads (li_operands ins))
      else if mn = ''pop'' then (first, [])
      else if mn \<in> {''inc'', ''dec'', ''neg'', ''not''} then (first, first)
      else default_ops (li_operands ins) False)"

fun report_poisoned :: "nat \<Rightarrow> gp list \<Rightarrow> gp set \<Rightarrow> abi_finding list \<Rightarrow> gp set \<times> abi_finding list" where
  "report_poisoned i [] poisoned findings = (poisoned, findings)"
| "report_poisoned i (g # reads) poisoned findings =
     (if g \<in> set caller_saved_watch \<and> g \<in> poisoned then
        report_poisoned i reads (poisoned - {g})
          (findings @ [\<lparr>af_code = CALLER_SAVED g, af_severity = SevWarning, af_at = Some i\<rparr>])
      else report_poisoned i reads poisoned findings)"

definition watched_writes :: "gp list \<Rightarrow> gp set \<times> gp set \<Rightarrow> gp set \<times> gp set" where
  "watched_writes ws st =
     fold (\<lambda>g (live, poisoned). if g \<in> set caller_saved_watch then (insert g live, poisoned - {g}) else (live, poisoned)) ws st"

definition caller_saved_step :: "nat \<Rightarrow> lowered_instr \<Rightarrow> gp set \<times> gp set \<times> abi_finding list \<Rightarrow>
    gp set \<times> gp set \<times> abi_finding list" where
  "caller_saved_step i ins st = (case st of (live, poisoned, findings) \<Rightarrow>
     if li_mnemonic ins = ''call'' \<or> li_mnemonic ins = ''syscall'' then
       (let w = set caller_saved_watch in (live - w, poisoned \<union> (live \<inter> w), findings))
     else
       (case collect_reg_ops ins of (writes, reads) \<Rightarrow>
          (case report_poisoned i reads poisoned findings of (poisoned1, findings1) \<Rightarrow>
             (case watched_writes writes (live, poisoned1) of (live2, poisoned2) \<Rightarrow>
                (live2, poisoned2, findings1)))))"

definition check_caller_saved :: "lowered_instr list \<Rightarrow> abi_finding list \<Rightarrow> abi_finding list" where
  "check_caller_saved instrs findings =
     snd (snd (for_each caller_saved_step 0 instrs ({Rdi, Rsi, Rdx, Rcx, R8, R9}, {}, findings)))"

definition check_callee_saved :: "lowered_instr list \<Rightarrow> abi_finding list \<Rightarrow> abi_finding list" where
  "check_callee_saved instrs findings =
     (let writes = written_nonvolatile instrs in
      if writes = [] then findings
      else
        let saved = prologue_saved instrs; restored = epilogue_restored instrs in
        findings @ concat (map (\<lambda>g.
          (if g \<notin> set saved
           then [\<lparr>af_code = CALLEE_SAVED_NOT_PRESERVED g, af_severity = SevError, af_at = None\<rparr>] else []) @
          (if g \<notin> set restored
           then [\<lparr>af_code = CALLEE_SAVED_NOT_RESTORED g, af_severity = SevError, af_at = None\<rparr>] else [])) writes))"

section \<open>The walk\<close>

record walk =
  wk_findings :: "abi_finding list"
  wk_rsp_delta :: int
  wk_call_sites :: "call_site_state list"
  wk_is_leaf :: bool
  wk_has_syscall :: bool
  wk_max_red_zone_disp :: int

definition stack_state_at :: "int \<Rightarrow> stack_state" where
  "stack_state_at rsp_delta =
     \<lparr>ss_rsp_delta = rsp_delta,
      ss_rsp_align =
        rust_rem (rust_rem (wrap_i64 (entry_rsp_mod + rsp_delta)) stack_align + stack_align) stack_align\<rparr>"

definition walk_step :: "nat \<Rightarrow> lowered_instr \<Rightarrow> walk \<Rightarrow> walk" where
  "walk_step i ins w =
     (if is_mov_rsp_from_rbp ins then w\<lparr>wk_rsp_delta := 8\<rparr>
      else
        let rsp_delta = wk_rsp_delta w;
            state = stack_state_at rsp_delta;
            s = abi_step_of ins;
            w1 = (if as_is_call s then
                    w\<lparr>wk_is_leaf := False,
                      wk_call_sites := wk_call_sites w @ [\<lparr>csite_index = i, csite_before = state\<rparr>],
                      wk_findings := wk_findings w @
                        (if \<not> is_aligned state
                         then [\<lparr>af_code = STACK_ALIGN_CALL (ss_rsp_align state) rsp_delta,
                                af_severity = SevError, af_at = Some i\<rparr>] else [])\<rparr>
                  else w);
            w2 = (if as_is_ret s \<and> rsp_delta \<noteq> 0 then
                    w1\<lparr>wk_findings := wk_findings w1 @
                      [\<lparr>af_code = STACK_BALANCE_RET rsp_delta, af_severity = SevError, af_at = Some i\<rparr>]\<rparr>
                  else w1);
            w3 = (if as_is_syscall s then w2\<lparr>wk_has_syscall := True\<rparr> else w2);
            w4 = (case as_red_zone_disp s of
                    Some d \<Rightarrow> if d < wk_max_red_zone_disp w3 then w3\<lparr>wk_max_red_zone_disp := d\<rparr> else w3
                  | None \<Rightarrow> w3) in
        w4\<lparr>wk_rsp_delta := wrap_i64 (rsp_delta + as_rsp_change s)\<rparr>)"

definition walk_init :: walk where
  "walk_init = \<lparr>wk_findings = [], wk_rsp_delta = 0, wk_call_sites = [], wk_is_leaf = True,
     wk_has_syscall = False, wk_max_red_zone_disp = 0\<rparr>"

definition analyze :: "lowered_instr list \<Rightarrow> abi_report" where
  "analyze instrs =
     (let w = for_each walk_step 0 instrs walk_init;
          findings = check_caller_saved instrs (check_rip_index instrs (check_callee_saved instrs (wk_findings w)));
          findings' = findings @
            (if \<not> wk_is_leaf w \<and> wk_max_red_zone_disp w < 0
             then [\<lparr>af_code = RED_ZONE_NON_LEAF (wk_max_red_zone_disp w), af_severity = SevError, af_at = None\<rparr>]
             else []) in
      \<lparr>abr_findings = findings', abr_is_leaf = wk_is_leaf w, abr_has_syscall = wk_has_syscall w,
       abr_final_rsp_delta = wk_rsp_delta w, abr_max_red_zone_disp = wk_max_red_zone_disp w,
       abr_call_sites = wk_call_sites w\<rparr>)"

section \<open>The walk and the machine\<close>

definition sysv_volatile :: "gp set" where
  "sysv_volatile = set volatile_gp"

definition delta_step :: "lowered_instr \<Rightarrow> int \<Rightarrow> int" where
  "delta_step ins d = (if is_mov_rsp_from_rbp ins then 8 else wrap_i64 (d + rsp_change_of ins))"

lemma is_rsp_full [simp]: "is_rsp (full g) \<longleftrightarrow> g = Rsp"
  by (simp add: is_rsp_def full_def reg_gp_def)

lemma storage_full [simp]: "r_storage (full g) = SGp g"
  by (simp add: full_def reg_gp_def)

lemma first_rsp_dest: "li_operands ins = OReg r # ops \<Longrightarrow> is_rsp r \<Longrightarrow> Rsp \<in> dest_gp ins"
  by (simp add: dest_gp_def is_rsp_def)

lemma mov_rsp_tracked:
  assumes "stack_tracked vol ins s"
  shows "is_mov_rsp_from_rbp ins \<longleftrightarrow> restores_frame ins"
proof
  assume "is_mov_rsp_from_rbp ins"
  then obtain dst src ops where "li_mnemonic ins \<in> {''mov'', ''movabs''}"
      "li_operands ins = OReg dst # OReg src # ops" "is_rsp dst"
    by (cases "li_operands ins"; cases "hd (li_operands ins)"; cases "tl (li_operands ins)";
        cases "hd (tl (li_operands ins))"; auto simp: is_mov_rsp_from_rbp_def split: if_splits)
  then show "restores_frame ins"
    using assms first_rsp_dest by (auto simp: stack_tracked_def adjusts_rsp_def split: if_splits)
next
  assume "restores_frame ins"
  then show "is_mov_rsp_from_rbp ins"
    using assms by (auto simp: restores_frame_def is_mov_rsp_from_rbp_def stack_tracked_def)
qed

text \<open>On the instructions it tracks, the analyser computes what the machine does.\<close>

lemma delta_step_tracked:
  assumes "stack_tracked vol ins s"
  shows "delta_step ins d = x86_delta ins d"
proof (cases "restores_frame ins")
  case True
  then show ?thesis using mov_rsp_tracked [OF assms] by (simp add: delta_step_def x86_delta_cases(1))
next
  case False
  have low: "li_mnemonic ins = mn ins" using assms by (simp add: stack_tracked_def)
  show ?thesis
  proof (cases "adjusts_rsp ins")
    case True
    then obtain n ops where "li_operands ins = OReg (full Rsp) # OImm n # ops" "mn ins \<in> {''sub'', ''add''}"
      by (auto simp: adjusts_rsp_def)
    moreover have "wrap_i64 (d + wrap_i64 (- n)) = wrap_i64 (d - n)"
      by (rule wrap_i64_add_right [of d "- n", simplified])
    ultimately show ?thesis
      using False low mov_rsp_tracked [OF assms]
      by (auto simp: delta_step_def rsp_change_of_def x86_delta_cases(4,5))
  next
    case no: False
    have "rsp_change_of ins = (if mn ins = ''push'' then 8 else if mn ins = ''pop'' then -8 else 0)"
      using assms low no False first_rsp_dest
      by (auto simp: rsp_change_of_def stack_tracked_def split: list.splits operand.splits)
    then have "delta_step ins d = wrap_i64 (d + (if mn ins = ''push'' then 8 else if mn ins = ''pop'' then -8 else 0))"
      using False mov_rsp_tracked [OF assms] by (simp only: delta_step_def if_False)
    then show ?thesis using x86_delta_cases(2,3,6) [of ins d] no False by (auto split: if_splits)
  qed
qed

text \<open>Hence on a body it tracks, the analyser's running delta is the machine's.\<close>

lemma walk_at_delta:
  assumes "well_tracked (stack_tracked vol) (x86_walk_step vol) x86_weaker (0, False) jump body" "i \<le> length body"
  shows "walk_at delta_step 0 body i = walk_at x86_delta 0 body i"
  using assms(2)
proof (induction i)
  case (Suc i)
  then have "stack_tracked vol (body ! i) (walk_at (x86_walk_step vol) (0, False) body i)"
    using assms(1) by (simp add: well_tracked_def)
  with Suc show ?case by (simp add: walk_at_Suc delta_step_tracked)
qed simp

section \<open>Findings of the walk\<close>

definition walk_out :: "nat \<Rightarrow> lowered_instr \<Rightarrow> int \<Rightarrow> abi_finding list" where
  "walk_out i ins d =
     (if is_mov_rsp_from_rbp ins then []
      else
        (if as_is_call (abi_step_of ins) \<and> \<not> is_aligned (stack_state_at d)
         then [\<lparr>af_code = STACK_ALIGN_CALL (ss_rsp_align (stack_state_at d)) d, af_severity = SevError, af_at = Some i\<rparr>]
         else []) @
        (if as_is_ret (abi_step_of ins) \<and> d \<noteq> 0
         then [\<lparr>af_code = STACK_BALANCE_RET d, af_severity = SevError, af_at = Some i\<rparr>] else []))"

lemma as_rsp_change_of: "as_rsp_change (abi_step_of ins) = rsp_change_of ins"
  by (simp add: abi_step_of_def)

interpretation sysv_walk: emitting_walk walk_step wk_findings wk_rsp_delta delta_step walk_out
  by unfold_locales
     (auto simp: walk_step_def walk_out_def delta_step_def Let_def as_rsp_change_of split: option.split)

lemma stack_state_align: "ss_rsp_align (stack_state_at d) = align_of 8 d"
  by (simp add: stack_state_at_def align_of_def entry_rsp_mod_def stack_align_def)

text \<open>The scans after the walk add no finding about the stack pointer.\<close>

definition is_stack_code :: "finding_code \<Rightarrow> bool" where
  "is_stack_code c = (case c of STACK_ALIGN_CALL _ _ \<Rightarrow> True | STACK_BALANCE_RET _ \<Rightarrow> True | _ \<Rightarrow> False)"

lemma rip_index_ops_code: "f \<in> set (rip_index_ops i ops) \<Longrightarrow> af_code f = RIP_INDEX"
  by (induction i ops rule: rip_index_ops.induct) (auto split: if_splits)

lemma report_poisoned_code:
  "report_poisoned i reads p fs = (p', fs') \<Longrightarrow>
     set fs \<subseteq> set fs' \<and> (\<forall>f \<in> set fs' - set fs. \<exists>g. af_code f = CALLER_SAVED g \<and> af_severity f = SevWarning)"
proof (induction i reads p fs rule: report_poisoned.induct)
  case (2 i g reads poisoned findings)
  then show ?case by (auto split: if_splits)
qed simp

lemma caller_saved_step_code:
  "set (snd (snd st)) \<subseteq> set (snd (snd (caller_saved_step i ins st))) \<and>
   (\<forall>f \<in> set (snd (snd (caller_saved_step i ins st))) - set (snd (snd st)).
      \<exists>g. af_code f = CALLER_SAVED g \<and> af_severity f = SevWarning)"
proof (cases st)
  case (fields live poisoned findings)
  obtain w r where ops: "collect_reg_ops ins = (w, r)" by fastforce
  obtain p' fs' where rp: "report_poisoned i r poisoned findings = (p', fs')" by fastforce
  show ?thesis using report_poisoned_code [OF rp]
    by (simp add: caller_saved_step_def fields ops rp Let_def split: prod.split)
qed

lemma caller_saved_code:
  "set fs \<subseteq> set (check_caller_saved body fs) \<and>
   (\<forall>f \<in> set (check_caller_saved body fs) - set fs. \<exists>g. af_code f = CALLER_SAVED g \<and> af_severity f = SevWarning)"
  unfolding check_caller_saved_def
proof (rule for_each_inv)
  fix i x and w :: "gp set \<times> gp set \<times> abi_finding list"
  assume "set fs \<subseteq> set (snd (snd w)) \<and>
    (\<forall>f \<in> set (snd (snd w)) - set fs. \<exists>g. af_code f = CALLER_SAVED g \<and> af_severity f = SevWarning)"
  then show "set fs \<subseteq> set (snd (snd (caller_saved_step i x w))) \<and>
    (\<forall>f \<in> set (snd (snd (caller_saved_step i x w))) - set fs. \<exists>g. af_code f = CALLER_SAVED g \<and> af_severity f = SevWarning)"
    using caller_saved_step_code [of w i x] by blast
qed simp

lemma callee_saved_code:
  "f \<in> set (check_callee_saved body fs) \<Longrightarrow> f \<in> set fs \<or>
     (\<exists>g. af_code f = CALLEE_SAVED_NOT_PRESERVED g \<or> af_code f = CALLEE_SAVED_NOT_RESTORED g)"
  by (auto simp: check_callee_saved_def Let_def split: if_splits)

lemma check_stack_code:
  assumes "is_stack_code (af_code f)"
  shows "f \<in> set (check_callee_saved body fs) \<longleftrightarrow> f \<in> set fs"
    and "f \<in> set (check_rip_index body fs) \<longleftrightarrow> f \<in> set fs"
    and "f \<in> set (check_caller_saved body fs) \<longleftrightarrow> f \<in> set fs"
proof -
  have "f \<in> set fs \<Longrightarrow> f \<in> set (check_callee_saved body fs)"
    by (simp add: check_callee_saved_def Let_def)
  then show "f \<in> set (check_callee_saved body fs) \<longleftrightarrow> f \<in> set fs"
    using assms by (auto simp: is_stack_code_def dest!: callee_saved_code)
  show "f \<in> set (check_rip_index body fs) \<longleftrightarrow> f \<in> set fs"
    using assms by (auto simp: is_stack_code_def check_rip_index_def dest!: rip_index_ops_code)
  show "f \<in> set (check_caller_saved body fs) \<longleftrightarrow> f \<in> set fs"
  proof -
    have "\<nexists>g. af_code f = CALLER_SAVED g" using assms by (auto simp: is_stack_code_def)
    then show ?thesis using caller_saved_code [of fs body] by blast
  qed
qed

lemma analyze_stack_findings:
  assumes "is_stack_code (af_code f)"
  shows "f \<in> set (abr_findings (analyze body)) \<longleftrightarrow>
    (\<exists>i < length body. f \<in> set (walk_out i (body ! i) (walk_at delta_step 0 body i)))"
proof -
  have "f \<in> set (abr_findings (analyze body)) \<longleftrightarrow> f \<in> set (wk_findings (for_each walk_step 0 body walk_init))"
    using assms by (auto simp: analyze_def Let_def check_stack_code is_stack_code_def)
  also have "\<dots> \<longleftrightarrow> (\<exists>i < length body. f \<in> set (walk_out i (body ! i) (walk_at delta_step 0 body i)))"
    by (simp add: sysv_walk.findings_loop walk_init_def)
  finally show ?thesis .
qed

section \<open>Properties\<close>

definition sysv_run :: "(nat \<Rightarrow> nat \<Rightarrow> bool) \<Rightarrow> lowered_instr list \<Rightarrow> regs \<Rightarrow> nat \<Rightarrow> regs \<Rightarrow> bool" where
  "sysv_run = reaches (x86_effect sysv_volatile) x86_stops"

definition sysv_tracked :: "(nat \<Rightarrow> nat \<Rightarrow> bool) \<Rightarrow> lowered_instr list \<Rightarrow> bool" where
  "sysv_tracked = well_tracked (stack_tracked sysv_volatile) (x86_walk_step sysv_volatile) x86_weaker (0, False)"

lemma x86_run_delta:
  assumes "reaches (x86_effect vol) x86_stops jump body m0 i m" "i < length body"
    and "well_tracked (stack_tracked vol) (x86_walk_step vol) x86_weaker (0, False) jump body"
  shows "uint (m0 Rsp) mod 16 = 8 \<Longrightarrow> align_of 8 (walk_at delta_step 0 body i) = 0 \<longleftrightarrow> uint (m Rsp) mod 16 = 0"
    and "walk_at delta_step 0 body i = 0 \<longleftrightarrow> m Rsp = m0 Rsp"
    and "sint (m0 Rsp - m Rsp) = walk_at delta_step 0 body i"
proof -
  have d: "walk_at delta_step 0 body i = fst (walk_at (x86_walk_step vol) (0, False) body i)"
    using walk_at_delta [OF assms(3)] assms(2) by (simp add: fst_walk_at)
  show "align_of 8 (walk_at delta_step 0 body i) = 0 \<longleftrightarrow> uint (m Rsp) mod 16 = 0" if "uint (m0 Rsp) mod 16 = 8"
    unfolding d by (rule x86_stack.aligned_exact [OF assms(1,3) that])
  show "walk_at delta_step 0 body i = 0 \<longleftrightarrow> m Rsp = m0 Rsp"
    unfolding d by (rule x86_stack.balanced_exact [OF assms(1,3)])
  show "sint (m0 Rsp - m Rsp) = walk_at delta_step 0 body i"
    unfolding d by (rule x86_stack.depth_exact [OF assms(1,3)])
qed

lemma not_mov_rsp: "li_mnemonic ins \<notin> {''mov'', ''movabs''} \<Longrightarrow> \<not> is_mov_rsp_from_rbp ins"
  by (simp add: is_mov_rsp_from_rbp_def)

abbreviation misaligned_at :: "nat \<Rightarrow> int \<Rightarrow> int \<Rightarrow> abi_finding" where
  "misaligned_at i a d \<equiv> \<lparr>af_code = STACK_ALIGN_CALL a d, af_severity = SevError, af_at = Some i\<rparr>"

abbreviation unbalanced_at :: "nat \<Rightarrow> int \<Rightarrow> abi_finding" where
  "unbalanced_at i d \<equiv> \<lparr>af_code = STACK_BALANCE_RET d, af_severity = SevError, af_at = Some i\<rparr>"

lemma walk_out_iff:
  "f \<in> set (walk_out i ins d) \<longleftrightarrow>
     li_mnemonic ins = ''call'' \<and> align_of 8 d \<noteq> 0 \<and> f = misaligned_at i (align_of 8 d) d \<or>
     li_mnemonic ins \<in> {''ret'', ''retn'', ''retf''} \<and> d \<noteq> 0 \<and> f = unbalanced_at i d"
  by (auto simp: walk_out_def abi_step_of_def is_aligned_def stack_state_align not_mov_rsp)

lemma misaligned_finding_iff:
  "misaligned_at i a d \<in> set (abr_findings (analyze body)) \<longleftrightarrow>
     i < length body \<and> li_mnemonic (body ! i) = ''call'' \<and> d = walk_at delta_step 0 body i \<and>
     a = align_of 8 d \<and> a \<noteq> 0"
  by (auto simp: analyze_stack_findings is_stack_code_def walk_out_iff)

lemma unbalanced_finding_iff:
  "unbalanced_at i d \<in> set (abr_findings (analyze body)) \<longleftrightarrow>
     i < length body \<and> li_mnemonic (body ! i) \<in> {''ret'', ''retn'', ''retf''} \<and>
     d = walk_at delta_step 0 body i \<and> d \<noteq> 0"
  by (auto simp: analyze_stack_findings is_stack_code_def walk_out_iff)

text \<open>C37: the System V stack verdicts are exact on every execution of a tracked body entered with
  \<open>RSP\<close> 8 modulo 16: \<open>analyze\<close> reports a call site as misaligned exactly when control reaches it
  with an \<open>RSP\<close> that is not a multiple of 16, and a return as unbalanced exactly when control
  reaches it with an \<open>RSP\<close> other than the one at entry. Jumps are followed; the 64-bit counter
  may wrap.\<close>

theorem sysv_stack_exact:
  assumes "sysv_run jump body m0 i m" "sysv_tracked jump body" "i < length body" "uint (m0 Rsp) mod 16 = 8"
  shows "(li_mnemonic (body ! i) = ''call'' \<longrightarrow>
      ((\<exists>a d. misaligned_at i a d \<in> set (abr_findings (analyze body))) \<longleftrightarrow> uint (m Rsp) mod 16 \<noteq> 0)) \<and>
    (li_mnemonic (body ! i) \<in> {''ret'', ''retn'', ''retf''} \<longrightarrow>
      ((\<exists>d. unbalanced_at i d \<in> set (abr_findings (analyze body))) \<longleftrightarrow> m Rsp \<noteq> m0 Rsp))"
  using assms(3,4) x86_run_delta [OF assms(1) [unfolded sysv_run_def] assms(3) assms(2) [unfolded sysv_tracked_def]]
  by (simp add: misaligned_finding_iff unbalanced_finding_iff)

text \<open>A framed function in the style the repository's code generator emits:
  \<open>push rbp; mov rbp, rsp; sub rsp, 32; call f; mov rsp, rbp; pop rbp; ret\<close>.\<close>

definition mk_low :: "string \<Rightarrow> op_kind \<Rightarrow> operand list \<Rightarrow> lowered_instr" where
  "mk_low m k ops = \<lparr>li_mnemonic = m, li_kind = k, li_width = B64, li_signed = None, li_operands = ops\<rparr>"

definition framed_body :: "lowered_instr list" where
  "framed_body =
     [mk_low ''push'' OpStore [OReg (full Rbp)], mk_low ''mov'' OpStore [OReg (full Rbp), OReg (full Rsp)],
      mk_low ''sub'' Binary [OReg (full Rsp), OImm 32], mk_low ''call'' OpCall [OImm 4096],
      mk_low ''mov'' OpStore [OReg (full Rsp), OReg (full Rbp)], mk_low ''pop'' OpStore [OReg (full Rbp)],
      mk_low ''ret'' OpReturn []]"

lemma mn_lower [simp]:
  "to_ascii_lowercase ''push'' = ''push''" "to_ascii_lowercase ''pop'' = ''pop''" "to_ascii_lowercase ''mov'' = ''mov''"
  "to_ascii_lowercase ''sub'' = ''sub''" "to_ascii_lowercase ''add'' = ''add''" "to_ascii_lowercase ''call'' = ''call''"
  "to_ascii_lowercase ''ret'' = ''ret''" "to_ascii_lowercase ''jmp'' = ''jmp''"
  by code_simp+

lemma full_eq [simp]: "full g = full h \<longleftrightarrow> g = h"
  by (simp add: full_def reg_gp_def)

lemma framed_body_tracked: "sysv_tracked (\<lambda>_ _. False) framed_body"
  by (simp add: sysv_tracked_def well_tracked_def framed_body_def mk_low_def eval_nat_numeral All_less_Suc
      walk_at_def x86_walk_step_def x86_delta_def stack_tracked_def restores_frame_def sets_frame_def
      frame_next_def adjusts_rsp_def clobbers_def dest_gp_def sysv_volatile_def volatile_gp_def wrap_i64_id rust_int)

lemma framed_body_run:
  "sysv_run (\<lambda>_ _. False) framed_body (\<lambda>_. 8) 3 ((\<lambda>_. 8)(Rbp := 0, Rsp := - 32))"
proof -
  let ?r = "reaches (x86_effect sysv_volatile) x86_stops (\<lambda>_ _. False) framed_body (\<lambda>_. 8)"
  note fx = framed_body_def mk_low_def x86_effect_def x86_stops_def clobbers_def dest_gp_def slot_bytes_def
  have "?r 0 (\<lambda>_. 8)" by (rule reaches.entry)
  from reaches.fall [OF this, of "(\<lambda>_. 8)(Rsp := 0)"] have "?r 1 ((\<lambda>_. 8)(Rsp := 0))"
    by (simp add: fx)
  from reaches.fall [OF this, of "(\<lambda>_. 8)(Rbp := 0, Rsp := 0)"] have "?r 2 ((\<lambda>_. 8)(Rbp := 0, Rsp := 0))"
    by (simp add: fx eval_nat_numeral)
  from reaches.fall [OF this, of "(\<lambda>_. 8)(Rbp := 0, Rsp := - 32)"] have "?r 3 ((\<lambda>_. 8)(Rbp := 0, Rsp := - 32))"
    by (simp add: fx eval_nat_numeral)
  then show ?thesis by (simp add: sysv_run_def)
qed

theorem sysv_stack_exact_witness:
  "abr_findings (analyze framed_body) = [] \<and> uint (((\<lambda>_. 8)(Rbp := 0, Rsp := - 32 :: cell)) Rsp) mod 16 = 0"
proof -
  have clean: "abr_findings (analyze framed_body) = []" by code_simp
  have "3 < length framed_body" "li_mnemonic (framed_body ! 3) = ''call''" by (simp_all add: framed_body_def mk_low_def)
  then show ?thesis
    using sysv_stack_exact [OF framed_body_run framed_body_tracked] clean by simp
qed

lemma add_written_set:
  "set (add_written ops out) = set out \<union>
     {g \<in> set nonvolatile_gp - {Rsp}. \<exists>r. OReg r \<in> set ops \<and> r_storage r = SGp g}"
proof (induction ops out rule: add_written.induct)
  case (2 r ops out)
  then show ?case by (auto simp: is_rsp_def split: storage.splits if_splits)
qed auto

lemma written_loop_set:
  "set (written_loop body out) = set out \<union>
     {g \<in> set nonvolatile_gp - {Rsp}. \<exists>ins \<in> set body. li_mnemonic ins \<noteq> ''push'' \<and> li_mnemonic ins \<noteq> ''pop'' \<and>
        (\<exists>r. OReg r \<in> set (li_operands ins) \<and> r_storage r = SGp g)}"
  by (induction body out rule: written_loop.induct) (auto simp: add_written_set)

lemma dest_gp_operand: "g \<in> dest_gp ins \<Longrightarrow> \<exists>r. OReg r \<in> set (li_operands ins) \<and> r_storage r = SGp g"
  by (cases "li_operands ins" rule: first_reg.cases) (auto simp: dest_gp_def split: storage.splits)

lemma callee_saved_clean:
  assumes "is_clean (analyze body)" "g \<in> set (written_nonvolatile body)"
  shows "g \<in> set (prologue_saved body) \<and> g \<in> set (epilogue_restored body)"
proof (rule ccontr)
  assume bad: "\<not> ?thesis"
  obtain f where f: "f \<in> set (check_callee_saved body (wk_findings (for_each walk_step 0 body walk_init)))" "af_severity f = SevError"
  proof (cases "g \<in> set (prologue_saved body)")
    case True
    then have "\<lparr>af_code = CALLEE_SAVED_NOT_RESTORED g, af_severity = SevError, af_at = None\<rparr> \<in>
        set (check_callee_saved body (wk_findings (for_each walk_step 0 body walk_init)))"
      using assms(2) bad by (auto simp: check_callee_saved_def Let_def)
    then show thesis using that by auto
  next
    case False
    then have "\<lparr>af_code = CALLEE_SAVED_NOT_PRESERVED g, af_severity = SevError, af_at = None\<rparr> \<in>
        set (check_callee_saved body (wk_findings (for_each walk_step 0 body walk_init)))"
      using assms(2) by (auto simp: check_callee_saved_def Let_def)
    then show thesis using that by auto
  qed
  then have "f \<in> set (check_rip_index body (check_callee_saved body (wk_findings (for_each walk_step 0 body walk_init))))"
    by (simp add: check_rip_index_def)
  then have "f \<in> set (abr_findings (analyze body))"
    using caller_saved_code by (fastforce simp: analyze_def Let_def)
  with f(2) assms(1) show False by (auto simp: is_clean_def list_ex_iff)
qed

lemma unmentioned_kept:
  assumes "sysv_run jump body m0 i m" "g \<in> set nonvolatile_gp" "g \<noteq> Rsp" "g \<notin> set (written_nonvolatile body)"
    and "\<forall>ins \<in> set body. li_mnemonic ins = mn ins \<and> (li_kind ins = OpUnknown \<longrightarrow> mn ins = ''syscall'')"
    and "\<forall>ins \<in> set body. li_mnemonic ins = ''pop'' \<longrightarrow> g \<notin> dest_gp ins"
  shows "m g = m0 g"
proof -
  have keep: "s' g = s g" if "ins \<in> set body" "x86_effect sysv_volatile ins s s'" for ins s s'
  proof -
    have "g \<notin> dest_gp ins" if "li_mnemonic ins \<noteq> ''push''" "li_mnemonic ins \<noteq> ''pop''"
      using assms(2,3,4) that \<open>ins \<in> set body\<close> dest_gp_operand
      by (fastforce simp: written_nonvolatile_def written_loop_set)
    moreover have "g \<notin> {Rax, Rcx, R11}" "g \<notin> sysv_volatile"
      using assms(2) by (auto simp: nonvolatile_gp_def sysv_volatile_def volatile_gp_def)
    moreover have "li_mnemonic ins = mn ins" "li_kind ins = OpUnknown \<longrightarrow> mn ins = ''syscall''"
        "li_mnemonic ins = ''pop'' \<longrightarrow> g \<notin> dest_gp ins"
      using assms(5,6) that(1) by auto
    ultimately have "g \<notin> clobbers sysv_volatile ins"
      using assms(3) by (auto simp: clobbers_def simp del: mn_lower split: if_splits)
    then show ?thesis using that(2) by (simp add: x86_effect_def)
  qed
  show ?thesis
    using assms(1) unfolding sysv_run_def
    by (induction rule: reaches.induct) (simp, (metis keep nth_mem)+)
qed

text \<open>in a clean body, a callee-saved register that is not restored from the stack is intact: at
  every point an execution reaches, each System V callee-saved register other than \<open>RSP\<close> either
  still has its entry value or is pushed in the prologue and popped in the epilogue. Registers
  that the body pops without mentioning them elsewhere are the exception the analyser misses.\<close>

theorem sysv_callee_saved_sound:
  assumes "sysv_run jump body m0 i m" "is_clean (analyze body)" "is_nonvolatile g" "g \<noteq> Rsp"
    and "\<forall>ins \<in> set body. li_mnemonic ins = mn ins \<and> (li_kind ins = OpUnknown \<longrightarrow> mn ins = ''syscall'')"
    and "\<forall>ins \<in> set body. li_mnemonic ins = ''pop'' \<and> g \<in> dest_gp ins \<longrightarrow> g \<in> set (written_nonvolatile body)"
  shows "m g = m0 g \<or> g \<in> set (prologue_saved body) \<and> g \<in> set (epilogue_restored body)"
proof (cases "g \<in> set (written_nonvolatile body)")
  case True
  then show ?thesis using callee_saved_clean [OF assms(2)] by simp
next
  case False
  then show ?thesis using unmentioned_kept [OF assms(1) _ assms(4) False assms(5)] assms(3,6)
    by (auto simp: is_nonvolatile_def)
qed

theorem sysv_callee_saved_sound_witness:
  "((\<lambda>_. 8)(Rbp := 0, Rsp := - 32 :: cell)) R12 = 8"
proof -
  have "is_clean (analyze framed_body)" by code_simp
  moreover have "\<forall>ins \<in> set framed_body. li_mnemonic ins = mn ins \<and> (li_kind ins = OpUnknown \<longrightarrow> mn ins = ''syscall'')"
    by (simp add: framed_body_def mk_low_def)
  moreover have "\<forall>ins \<in> set framed_body. li_mnemonic ins = ''pop'' \<and> R12 \<in> dest_gp ins \<longrightarrow> R12 \<in> set (written_nonvolatile framed_body)"
    by (simp add: framed_body_def mk_low_def dest_gp_def)
  moreover have "R12 \<notin> set (prologue_saved framed_body)" by code_simp
  moreover have "is_nonvolatile R12" by code_simp
  ultimately show ?thesis
    using sysv_callee_saved_sound [OF framed_body_run, of R12] by blast
qed

section \<open>Where the scans are not exact\<close>

text \<open>Two restores in the wrong order exchange the registers, and are accepted.\<close>

lemma swapped_restore_accepted:
  "abr_findings (analyze
     [mk_low ''push'' OpStore [OReg (full Rbx)], mk_low ''push'' OpStore [OReg (full R12)],
      mk_low ''mov'' OpStore [OReg (full Rbx), OReg (full Rdi)], mk_low ''mov'' OpStore [OReg (full R12), OReg (full Rsi)],
      mk_low ''pop'' OpStore [OReg (full Rbx)], mk_low ''pop'' OpStore [OReg (full R12)], mk_low ''ret'' OpReturn []]) = []"
  by code_simp

text \<open>The walk is linear: a branch that skips a \<open>pop\<close> is accepted.\<close>

lemma skipped_pop_accepted:
  "abr_findings (analyze
     [mk_low ''push'' OpStore [OReg (full Rbx)], mk_low ''je'' Branch [OImm 4096],
      mk_low ''pop'' OpStore [OReg (full Rbx)], mk_low ''ret'' OpReturn []]) = []"
  by code_simp

text \<open>A callee-saved register that is only read counts as written.\<close>

lemma read_only_register_rejected:
  "\<not> is_clean (analyze [mk_low ''cmp'' Compare [OReg (full Rbx), OReg (full Rax)], mk_low ''ret'' OpReturn []])"
  by code_simp

text \<open>Saves after \<open>mov rbp, rsp\<close> are not recognised.\<close>

lemma framed_save_rejected:
  "\<not> is_clean (analyze
     [mk_low ''push'' OpStore [OReg (full Rbp)], mk_low ''mov'' OpStore [OReg (full Rbp), OReg (full Rsp)],
      mk_low ''push'' OpStore [OReg (full Rbx)], mk_low ''mov'' OpStore [OReg (full Rbx), OReg (full Rdi)],
      mk_low ''pop'' OpStore [OReg (full Rbx)], mk_low ''pop'' OpStore [OReg (full Rbp)], mk_low ''ret'' OpReturn []])"
  by code_simp

text \<open>\<open>pop\<close> never counts as a write.\<close>

lemma popped_register_accepted:
  "abr_findings (analyze
     [mk_low ''push'' OpStore [OReg (full Rax)], mk_low ''pop'' OpStore [OReg (full Rbx)], mk_low ''ret'' OpReturn []]) = []"
  by code_simp

end
