(* ===== verification/Win64_Abi.thy ===== *)
theory Win64_Abi
  imports X86_Abi
begin

text \<open>
  Microsoft x64 conformance checks: \<open>semasm-x86/src/abi_win64.rs\<close>. The module repeats the stack
  walk and the save/restore scans of the System V one with its own register set, adds the shadow
  space check and forbids accesses below \<open>RSP\<close>. The functions that are the same text as in
  \<open>abi.rs\<close> are defined by the System V ones.
\<close>

definition win_arg_regs :: "gp list" where
  "win_arg_regs = [Rcx, Rdx, R8, R9]"

definition shadow_bytes :: int where
  "shadow_bytes = 32"

datatype win_code =
    WIN_STACK_ALIGN_CALL int int
  | WIN_SHADOW_SPACE_MISSING int
  | WIN_STACK_BALANCE_RET int
  | WIN_CALLEE_SAVED_NOT_PRESERVED gp
  | WIN_CALLEE_SAVED_NOT_RESTORED gp
  | WIN_RIP_INDEX
  | WIN_RED_ZONE_NOT_ALLOWED int

record win_finding =
  wf_code :: win_code
  wf_severity :: severity
  wf_at :: "nat option"

record win_report =
  wr_findings :: "win_finding list"
  wr_is_leaf :: bool
  wr_final_rsp_delta :: int
  wr_max_red_zone_disp :: int
  wr_call_sites :: "call_site_state list"

definition win_is_clean :: "win_report \<Rightarrow> bool" where
  "win_is_clean r \<longleftrightarrow> \<not> list_ex (\<lambda>f. wf_severity f = SevError) (wr_findings r)"

definition win_argument_register :: "nat \<Rightarrow> register option" where
  "win_argument_register index =
     (if index < length win_arg_regs then Some (full (win_arg_regs ! index)) else None)"

definition win_return_register :: register where
  "win_return_register = full Rax"

definition nonvolatile_win64 :: "gp list" where
  "nonvolatile_win64 = [Rbx, Rbp, Rdi, Rsi, R12, R13, R14, R15]"

definition below_rsp_displacement :: "mem_operand \<Rightarrow> int option" where
  "below_rsp_displacement mem =
     (case mo_base mem of
        Some b \<Rightarrow>
          if is_rsp b \<and> mo_index mem = None then (if mo_disp mem < 0 then Some (mo_disp mem) else None) else None
      | None \<Rightarrow> None)"

fun win_add_written :: "operand list \<Rightarrow> gp list \<Rightarrow> gp list" where
  "win_add_written [] out = out"
| "win_add_written (OReg r # ops) out =
     win_add_written ops
       (case r_storage r of
          SGp g \<Rightarrow> if g \<in> set nonvolatile_win64 \<and> \<not> is_rsp r \<and> g \<notin> set out then out @ [g] else out
        | _ \<Rightarrow> out)"
| "win_add_written (_ # ops) out = win_add_written ops out"

fun win_written_loop :: "lowered_instr list \<Rightarrow> gp list \<Rightarrow> gp list" where
  "win_written_loop [] out = out"
| "win_written_loop (ins # rest) out =
     (if li_mnemonic ins = ''push'' \<or> li_mnemonic ins = ''pop'' then win_written_loop rest out
      else win_written_loop rest (win_add_written (li_operands ins) out))"

definition win_written_nonvolatile :: "lowered_instr list \<Rightarrow> gp list" where
  "win_written_nonvolatile instrs = win_written_loop instrs []"

definition win_prologue_saved :: "lowered_instr list \<Rightarrow> gp list" where
  "win_prologue_saved instrs = prologue_loop instrs []"

definition win_epilogue_restored :: "lowered_instr list \<Rightarrow> gp list" where
  "win_epilogue_restored instrs = epilogue_loop (rev instrs) []"

record win_step =
  ws_rsp_change :: int
  ws_is_call :: bool
  ws_is_ret :: bool
  ws_below_rsp_disp :: "int option"

fun last_below_rsp :: "operand list \<Rightarrow> int option \<Rightarrow> int option" where
  "last_below_rsp [] d = d"
| "last_below_rsp (OMem m # ops) d =
     last_below_rsp ops (case below_rsp_displacement m of Some d' \<Rightarrow> Some d' | None \<Rightarrow> d)"
| "last_below_rsp (_ # ops) d = last_below_rsp ops d"

definition win_step_of :: "lowered_instr \<Rightarrow> win_step" where
  "win_step_of ins =
     \<lparr>ws_rsp_change = rsp_change_of ins,
      ws_is_call = (li_mnemonic ins = ''call''),
      ws_is_ret = (li_mnemonic ins \<in> {''ret'', ''retn'', ''retf''}),
      ws_below_rsp_disp =
        (if li_kind ins = OpStore \<or> li_kind ins = OpLoad then last_below_rsp (li_operands ins) None else None)\<rparr>"

definition win_check_callee_saved :: "lowered_instr list \<Rightarrow> win_finding list \<Rightarrow> win_finding list" where
  "win_check_callee_saved instrs findings =
     (let writes = win_written_nonvolatile instrs in
      if writes = [] then findings
      else
        let saved = win_prologue_saved instrs; restored = win_epilogue_restored instrs in
        findings @ concat (map (\<lambda>g.
          (if g \<notin> set saved
           then [\<lparr>wf_code = WIN_CALLEE_SAVED_NOT_PRESERVED g, wf_severity = SevError, wf_at = None\<rparr>] else []) @
          (if g \<notin> set restored
           then [\<lparr>wf_code = WIN_CALLEE_SAVED_NOT_RESTORED g, wf_severity = SevError, wf_at = None\<rparr>] else [])) writes))"

fun win_rip_ops :: "nat \<Rightarrow> operand list \<Rightarrow> win_finding list" where
  "win_rip_ops i [] = []"
| "win_rip_ops i (OMem m # ops) =
     (if (case mo_base m of Some r \<Rightarrow> r_storage r = SRip | None \<Rightarrow> False) \<and> mo_index m \<noteq> None
      then [\<lparr>wf_code = WIN_RIP_INDEX, wf_severity = SevError, wf_at = Some i\<rparr>] else []) @ win_rip_ops i ops"
| "win_rip_ops i (_ # ops) = win_rip_ops i ops"

record win_walk =
  ww_findings :: "win_finding list"
  ww_rsp_delta :: int
  ww_call_sites :: "call_site_state list"
  ww_is_leaf :: bool
  ww_max_below_rsp_disp :: int

definition win_walk_step :: "nat \<Rightarrow> lowered_instr \<Rightarrow> win_walk \<Rightarrow> win_walk" where
  "win_walk_step i ins w =
     (if is_mov_rsp_from_rbp ins then w\<lparr>ww_rsp_delta := 8\<rparr>
      else
        let rsp_delta = ww_rsp_delta w;
            state = stack_state_at rsp_delta;
            s = win_step_of ins;
            w1 = (if ws_is_call s then
                    w\<lparr>ww_is_leaf := False,
                      ww_call_sites := ww_call_sites w @ [\<lparr>csite_index = i, csite_before = state\<rparr>],
                      ww_findings := ww_findings w @
                        (if \<not> is_aligned state
                         then [\<lparr>wf_code = WIN_STACK_ALIGN_CALL (ss_rsp_align state) rsp_delta,
                                wf_severity = SevError, wf_at = Some i\<rparr>] else []) @
                        (if rsp_delta < shadow_bytes
                         then [\<lparr>wf_code = WIN_SHADOW_SPACE_MISSING rsp_delta,
                                wf_severity = SevError, wf_at = Some i\<rparr>] else [])\<rparr>
                  else w);
            w2 = (if ws_is_ret s \<and> rsp_delta \<noteq> 0 then
                    w1\<lparr>ww_findings := ww_findings w1 @
                      [\<lparr>wf_code = WIN_STACK_BALANCE_RET rsp_delta, wf_severity = SevError, wf_at = Some i\<rparr>]\<rparr>
                  else w1);
            w3 = (case ws_below_rsp_disp s of
                    Some d \<Rightarrow> if d < ww_max_below_rsp_disp w2 then w2\<lparr>ww_max_below_rsp_disp := d\<rparr> else w2
                  | None \<Rightarrow> w2) in
        w3\<lparr>ww_rsp_delta := wrap_i64 (rsp_delta + ws_rsp_change s)\<rparr>)"

definition win_walk_init :: win_walk where
  "win_walk_init = \<lparr>ww_findings = [], ww_rsp_delta = 0, ww_call_sites = [], ww_is_leaf = True, ww_max_below_rsp_disp = 0\<rparr>"

definition win_analyze :: "lowered_instr list \<Rightarrow> win_report" where
  "win_analyze instrs =
     (let w = for_each win_walk_step 0 instrs win_walk_init;
          findings = win_check_callee_saved instrs (ww_findings w) @
            concat (map (\<lambda>(i, ins). win_rip_ops i (li_operands ins)) (enumerate 0 instrs)) @
            (if ww_max_below_rsp_disp w < 0
             then [\<lparr>wf_code = WIN_RED_ZONE_NOT_ALLOWED (ww_max_below_rsp_disp w), wf_severity = SevError, wf_at = None\<rparr>]
             else []) in
      \<lparr>wr_findings = findings, wr_is_leaf = ww_is_leaf w, wr_final_rsp_delta = ww_rsp_delta w,
       wr_max_red_zone_disp = ww_max_below_rsp_disp w, wr_call_sites = ww_call_sites w\<rparr>)"

section \<open>The walk and the machine\<close>

text \<open>The callee keeps the registers of \<open>NONVOLATILE_WIN64\<close> and \<open>RSP\<close>.\<close>

definition win_volatile :: "gp set" where
  "win_volatile = - insert Rsp (set nonvolatile_win64)"

definition win_run :: "(nat \<Rightarrow> nat \<Rightarrow> bool) \<Rightarrow> lowered_instr list \<Rightarrow> regs \<Rightarrow> nat \<Rightarrow> regs \<Rightarrow> bool" where
  "win_run = reaches (x86_effect win_volatile) x86_stops"

definition win_tracked :: "(nat \<Rightarrow> nat \<Rightarrow> bool) \<Rightarrow> lowered_instr list \<Rightarrow> bool" where
  "win_tracked = well_tracked (stack_tracked win_volatile) (x86_walk_step win_volatile) x86_weaker (0, False)"

definition win_walk_out :: "nat \<Rightarrow> lowered_instr \<Rightarrow> int \<Rightarrow> win_finding list" where
  "win_walk_out i ins d =
     (if is_mov_rsp_from_rbp ins then []
      else
        (if ws_is_call (win_step_of ins) \<and> \<not> is_aligned (stack_state_at d)
         then [\<lparr>wf_code = WIN_STACK_ALIGN_CALL (ss_rsp_align (stack_state_at d)) d, wf_severity = SevError, wf_at = Some i\<rparr>]
         else []) @
        (if ws_is_call (win_step_of ins) \<and> d < shadow_bytes
         then [\<lparr>wf_code = WIN_SHADOW_SPACE_MISSING d, wf_severity = SevError, wf_at = Some i\<rparr>] else []) @
        (if ws_is_ret (win_step_of ins) \<and> d \<noteq> 0
         then [\<lparr>wf_code = WIN_STACK_BALANCE_RET d, wf_severity = SevError, wf_at = Some i\<rparr>] else []))"

lemma ws_rsp_change_of: "ws_rsp_change (win_step_of ins) = rsp_change_of ins"
  by (simp add: win_step_of_def)

interpretation win_walk: emitting_walk win_walk_step ww_findings ww_rsp_delta delta_step win_walk_out
  by unfold_locales
     (auto simp: win_walk_step_def win_walk_out_def delta_step_def Let_def ws_rsp_change_of split: option.split)

definition win_stack_code :: "win_code \<Rightarrow> bool" where
  "win_stack_code c = (case c of WIN_STACK_ALIGN_CALL _ _ \<Rightarrow> True | WIN_STACK_BALANCE_RET _ \<Rightarrow> True
     | WIN_SHADOW_SPACE_MISSING _ \<Rightarrow> True | _ \<Rightarrow> False)"

lemma win_rip_ops_code: "f \<in> set (win_rip_ops i ops) \<Longrightarrow> wf_code f = WIN_RIP_INDEX"
  by (induction i ops rule: win_rip_ops.induct) (auto split: if_splits)

lemma win_walk_out_iff:
  "f \<in> set (win_walk_out i ins d) \<longleftrightarrow>
     li_mnemonic ins = ''call'' \<and> align_of 8 d \<noteq> 0 \<and>
       f = \<lparr>wf_code = WIN_STACK_ALIGN_CALL (align_of 8 d) d, wf_severity = SevError, wf_at = Some i\<rparr> \<or>
     li_mnemonic ins = ''call'' \<and> d < 32 \<and>
       f = \<lparr>wf_code = WIN_SHADOW_SPACE_MISSING d, wf_severity = SevError, wf_at = Some i\<rparr> \<or>
     li_mnemonic ins \<in> {''ret'', ''retn'', ''retf''} \<and> d \<noteq> 0 \<and>
       f = \<lparr>wf_code = WIN_STACK_BALANCE_RET d, wf_severity = SevError, wf_at = Some i\<rparr>"
  by (auto simp: win_walk_out_def win_step_of_def is_aligned_def stack_state_align not_mov_rsp shadow_bytes_def)

lemma win_stack_findings:
  assumes "win_stack_code (wf_code f)"
  shows "f \<in> set (wr_findings (win_analyze body)) \<longleftrightarrow>
    (\<exists>i < length body. f \<in> set (win_walk_out i (body ! i) (walk_at delta_step 0 body i)))"
proof -
  have "f \<in> set (wr_findings (win_analyze body)) \<longleftrightarrow> f \<in> set (ww_findings (for_each win_walk_step 0 body win_walk_init))"
    using assms by (auto simp: win_analyze_def Let_def win_check_callee_saved_def win_stack_code_def
        dest!: win_rip_ops_code split: if_splits)
  also have "\<dots> \<longleftrightarrow> (\<exists>i < length body. f \<in> set (win_walk_out i (body ! i) (walk_at delta_step 0 body i)))"
    by (simp add: win_walk.findings_loop win_walk_init_def)
  finally show ?thesis .
qed

section \<open>Properties\<close>

text \<open>C38: the Microsoft x64 stack verdicts are exact on every execution of a tracked body entered
  with \<open>RSP\<close> 8 modulo 16: a call site is reported as misaligned exactly when \<open>RSP\<close> is not a
  multiple of 16 there, as lacking shadow space exactly when fewer than 32 bytes lie between
  \<open>RSP\<close> and its entry value, and a return as unbalanced exactly when \<open>RSP\<close> is not the entry value.\<close>

theorem win64_stack_exact:
  assumes "win_run jump body m0 i m" "win_tracked jump body" "i < length body" "uint (m0 Rsp) mod 16 = 8"
  shows "(li_mnemonic (body ! i) = ''call'' \<longrightarrow>
      ((\<exists>a d. \<lparr>wf_code = WIN_STACK_ALIGN_CALL a d, wf_severity = SevError, wf_at = Some i\<rparr>
          \<in> set (wr_findings (win_analyze body))) \<longleftrightarrow> uint (m Rsp) mod 16 \<noteq> 0) \<and>
      ((\<exists>d. \<lparr>wf_code = WIN_SHADOW_SPACE_MISSING d, wf_severity = SevError, wf_at = Some i\<rparr>
          \<in> set (wr_findings (win_analyze body))) \<longleftrightarrow> sint (m0 Rsp - m Rsp) < 32)) \<and>
    (li_mnemonic (body ! i) \<in> {''ret'', ''retn'', ''retf''} \<longrightarrow>
      ((\<exists>d. \<lparr>wf_code = WIN_STACK_BALANCE_RET d, wf_severity = SevError, wf_at = Some i\<rparr>
          \<in> set (wr_findings (win_analyze body))) \<longleftrightarrow> m Rsp \<noteq> m0 Rsp))"
  using assms(3,4) x86_run_delta [OF assms(1) [unfolded win_run_def] assms(3) assms(2) [unfolded win_tracked_def]]
  by (auto simp: win_stack_findings win_stack_code_def win_walk_out_iff)

text \<open>\<open>sub rsp, 40; call f; add rsp, 40; ret\<close>.\<close>

definition shadow_body :: "lowered_instr list" where
  "shadow_body =
     [mk_low ''sub'' Binary [OReg (full Rsp), OImm 40], mk_low ''call'' OpCall [OImm 4096],
      mk_low ''add'' Binary [OReg (full Rsp), OImm 40], mk_low ''ret'' OpReturn []]"

lemma shadow_body_tracked: "win_tracked (\<lambda>_ _. False) shadow_body"
  by (simp add: win_tracked_def well_tracked_def shadow_body_def mk_low_def eval_nat_numeral All_less_Suc
      walk_at_def x86_walk_step_def x86_delta_def stack_tracked_def restores_frame_def sets_frame_def
      frame_next_def adjusts_rsp_def clobbers_def dest_gp_def win_volatile_def nonvolatile_win64_def wrap_i64_id rust_int)

lemma shadow_body_run: "win_run (\<lambda>_ _. False) shadow_body (\<lambda>_. 8) 1 ((\<lambda>_. 8)(Rsp := - 32))"
proof -
  have "reaches (x86_effect win_volatile) x86_stops (\<lambda>_ _. False) shadow_body (\<lambda>_. 8) (Suc 0) ((\<lambda>_. 8)(Rsp := - 32))"
    by (rule reaches.fall [OF reaches.entry])
       (simp_all add: shadow_body_def mk_low_def x86_effect_def x86_stops_def clobbers_def dest_gp_def)
  then show ?thesis by (simp add: win_run_def)
qed

theorem win64_stack_exact_witness:
  "wr_findings (win_analyze shadow_body) = [] \<and> sint ((8 :: cell) - ((\<lambda>_. 8)(Rsp := - 32)) Rsp) \<ge> 32"
proof -
  have clean: "wr_findings (win_analyze shadow_body) = []" by code_simp
  have "1 < length shadow_body" "li_mnemonic (shadow_body ! 1) = ''call''" by (simp_all add: shadow_body_def mk_low_def)
  then show ?thesis
    using win64_stack_exact [OF shadow_body_run shadow_body_tracked] clean by (simp add: not_less)
qed

text \<open>The shadow space is counted from entry: a callee-save \<open>push\<close> counts towards it, so that 16
  reserved bytes above 16 saved ones are accepted although the callee may overwrite the saves.\<close>

lemma saves_counted_as_shadow:
  "wr_findings (win_analyze
     [mk_low ''push'' OpStore [OReg (full Rbx)], mk_low ''push'' OpStore [OReg (full R12)],
      mk_low ''push'' OpStore [OReg (full R13)], mk_low ''sub'' Binary [OReg (full Rsp), OImm 16],
      mk_low ''mov'' OpStore [OReg (full Rbx), OReg (full Rcx)],
      mk_low ''call'' OpCall [OImm 4096], mk_low ''add'' Binary [OReg (full Rsp), OImm 16],
      mk_low ''pop'' OpStore [OReg (full R13)], mk_low ''pop'' OpStore [OReg (full R12)],
      mk_low ''pop'' OpStore [OReg (full Rbx)], mk_low ''ret'' OpReturn []]) = []"
  by code_simp

end
