(* ===== verification/A64_Lower.thy ===== *)
theory A64_Lower
  imports X86_Lower
begin

text \<open>
  AArch64 registers and lowering: \<open>semasm-aarch64/src/lib.rs\<close> and \<open>semasm-aarch64/src/lower.rs\<close>.
  Operation kinds and decoded instructions are those of the x86-64 lowering.
\<close>

section \<open>Registers\<close>

datatype a64_width = AB8 | AB32 | AB64

fun a64_bits :: "a64_width \<Rightarrow> nat" where
  "a64_bits AB8 = 8"
| "a64_bits AB32 = 32"
| "a64_bits AB64 = 64"

datatype a64_gp =
  X0 | X1 | X2 | X3 | X4 | X5 | X6 | X7 | X8 | X9 | X10 | X11 | X12 | X13 | X14 | X15 | X16 | X17 | X18 | X19 |
  X20 | X21 | X22 | X23 | X24 | X25 | X26 | X27 | X28 | AFp | ALr | AZr

datatype a64_storage = AGp a64_gp | ASp | ANzcv

record a64_register =
  ag_storage :: a64_storage
  ag_width :: a64_width
  ag_high :: bool

definition a64_reg_gp :: "a64_gp \<Rightarrow> a64_width \<Rightarrow> bool \<Rightarrow> a64_register" where
  "a64_reg_gp reg w high = \<lparr>ag_storage = AGp reg, ag_width = w, ag_high = high\<rparr>"

definition a64_full :: "a64_gp \<Rightarrow> a64_register" where
  "a64_full g = a64_reg_gp g AB64 False"

definition a64_low32 :: "a64_gp \<Rightarrow> a64_register" where
  "a64_low32 g = a64_reg_gp g AB32 False"

fun a64_index :: "a64_gp \<Rightarrow> nat" where
  "a64_index X0 = 0" | "a64_index X1 = 1" | "a64_index X2 = 2" | "a64_index X3 = 3"
| "a64_index X4 = 4" | "a64_index X5 = 5" | "a64_index X6 = 6" | "a64_index X7 = 7"
| "a64_index X8 = 8" | "a64_index X9 = 9" | "a64_index X10 = 10" | "a64_index X11 = 11"
| "a64_index X12 = 12" | "a64_index X13 = 13" | "a64_index X14 = 14" | "a64_index X15 = 15"
| "a64_index X16 = 16" | "a64_index X17 = 17" | "a64_index X18 = 18" | "a64_index X19 = 19"
| "a64_index X20 = 20" | "a64_index X21 = 21" | "a64_index X22 = 22" | "a64_index X23 = 23"
| "a64_index X24 = 24" | "a64_index X25 = 25" | "a64_index X26 = 26" | "a64_index X27 = 27"
| "a64_index X28 = 28" | "a64_index AFp = 29" | "a64_index ALr = 30" | "a64_index AZr = 31"

definition a64_sp :: a64_register where
  "a64_sp = \<lparr>ag_storage = ASp, ag_width = AB64, ag_high = False\<rparr>"

definition a64_zr :: a64_register where
  "a64_zr = \<lparr>ag_storage = AGp AZr, ag_width = AB64, ag_high = False\<rparr>"

definition a64_nzcv :: a64_register where
  "a64_nzcv = \<lparr>ag_storage = ANzcv, ag_width = AB64, ag_high = False\<rparr>"

definition a64_canonical :: "a64_register \<Rightarrow> a64_register option" where
  "a64_canonical r = (case ag_storage r of AGp g \<Rightarrow> Some (a64_full g) | _ \<Rightarrow> None)"

definition a64_volatile_gp :: "a64_gp list" where
  "a64_volatile_gp = [X0, X1, X2, X3, X4, X5, X6, X7, X8, X9, X10, X11, X12, X13, X14, X15, X16, X17, X18]"

definition a64_nonvolatile_gp :: "a64_gp list" where
  "a64_nonvolatile_gp = [X19, X20, X21, X22, X23, X24, X25, X26, X27, X28, AFp, ALr]"

definition a64_is_volatile :: "a64_gp \<Rightarrow> bool" where
  "a64_is_volatile g \<longleftrightarrow> g \<in> set a64_volatile_gp"

definition a64_is_nonvolatile :: "a64_gp \<Rightarrow> bool" where
  "a64_is_nonvolatile g \<longleftrightarrow> g \<in> set a64_nonvolatile_gp"

section \<open>Operands\<close>

record a64_mem =
  am_base :: "a64_register option"
  am_index :: "a64_register option"
  am_scale :: int
  am_disp :: int
  am_width :: a64_width

datatype a64_operand = AReg a64_register | AMem a64_mem | AImm int

record a64_instr =
  al_mnemonic :: string
  al_kind :: op_kind
  al_width :: a64_width
  al_signed :: "bool option"
  al_operands :: "a64_operand list"

datatype a64_lowering = ALowered a64_instr | AUnsupported string

definition a64_split_mnemonic :: "string \<Rightarrow> string \<times> string" where
  "a64_split_mnemonic m =
     (case find_char CHR ''.'' m of Some dot \<Rightarrow> (take dot m, drop (dot + 1) m) | None \<Rightarrow> (m, []))"

definition suffix_is_signed :: "string \<Rightarrow> bool option" where
  "suffix_is_signed suffix =
     (if take 1 suffix = ''s'' then Some True else if take 1 suffix = ''u'' then Some False else None)"

definition a64_default_mnemonic :: "op_kind \<Rightarrow> string" where
  "a64_default_mnemonic kind = (case kind of OpReturn \<Rightarrow> ''ret'' | OpCall \<Rightarrow> ''bl'' | _ \<Rightarrow> [])"

definition a64_classify :: "string \<Rightarrow> op_kind option" where
  "a64_classify base =
     (if base \<in> {''mov'', ''movz'', ''movk'', ''movn'', ''str'', ''strb'', ''strh''} then Some OpStore
      else if base \<in> {''ldr'', ''ldrb'', ''ldrh'', ''ldrsb'', ''ldrsh'', ''ldrsw''} then Some OpLoad
      else if base \<in> {''add'', ''adds'', ''sub'', ''subs'', ''mul'', ''and'', ''orr'', ''eor'', ''lsl'', ''lsr''}
        then Some Binary
      else if base \<in> {''cmp'', ''cmn'', ''tst''} then Some Compare
      else if base \<in> {''b'', ''br'', ''cbz'', ''cbnz'', ''tbz'', ''tbnz''} then Some Branch
      else if base \<in> {''bl'', ''blr''} then Some OpCall
      else if base = ''ret'' then Some OpReturn
      else if base \<in> {''svc'', ''hvc'', ''smc'', ''brk'', ''hlt''} then Some OpUnknown
      else None)"

definition a64_parse_immediate :: "string \<Rightarrow> int option" where
  "a64_parse_immediate t =
     (let s = trim (trim_start_matches ''#'' t);
          s = trim_start_matches '':'' s;
          s = trim (trim_start_matches ''hi21'' (trim_start_matches ''lo12'' s)) in
      case (case strip_prefix ''0x'' s of Some h \<Rightarrow> Some h | None \<Rightarrow> strip_prefix ''0X'' s) of
        Some hex \<Rightarrow> parse_i64 16 hex
      | None \<Rightarrow> parse_i64 10 s)"

definition a64_gps :: "a64_gp list" where
  "a64_gps = [X0, X1, X2, X3, X4, X5, X6, X7, X8, X9, X10, X11, X12, X13, X14, X15, X16, X17, X18, X19,
     X20, X21, X22, X23, X24, X25, X26, X27, X28, AFp, ALr, AZr]"

definition a64_parse_register :: "string \<Rightarrow> a64_width \<Rightarrow> a64_register option" where
  "a64_parse_register name default_width =
     (let n = trim name in
      if n = ''sp'' \<or> n = ''SP'' then Some a64_sp
      else if n \<in> {''xzr'', ''XZR'', ''wzr'', ''WZR''} then Some a64_zr
      else (case n of
          [] \<Rightarrow> None
        | c # rest \<Rightarrow>
            (let letter = hd (to_ascii_lowercase [c]);
                 w = (if letter = CHR ''w'' then AB32 else default_width);
                 idx = (if letter = CHR ''x'' \<or> letter = CHR ''w'' then parse_unsigned 10 255 rest
                        else if n = ''fp'' \<or> n = ''FP'' then Some 29
                        else if n = ''lr'' \<or> n = ''LR'' then Some 30
                        else None) in
             case idx of
               None \<Rightarrow> None
             | Some i \<Rightarrow> if i < length a64_gps then Some (a64_reg_gp (a64_gps ! i) w False) else None)))"

record a64_mem_parts =
  ap_index :: "a64_register option"
  ap_scale :: int
  ap_disp :: int

definition a64_mem_part :: "a64_width \<Rightarrow> string \<Rightarrow> a64_mem_parts \<Rightarrow> a64_mem_parts" where
  "a64_mem_part default_width p st =
     (case a64_parse_immediate p of
        Some imm \<Rightarrow> st\<lparr>ap_disp := imm\<rparr>
      | None \<Rightarrow>
          (case a64_parse_register p default_width of
             Some reg \<Rightarrow> st\<lparr>ap_index := Some reg\<rparr>
           | None \<Rightarrow>
               (case strip_prefix ''lsl'' p of
                  Some rest \<Rightarrow> (case a64_parse_immediate rest of Some s \<Rightarrow> st\<lparr>ap_scale := max s 1\<rparr> | None \<Rightarrow> st)
                | None \<Rightarrow> st)))"

definition a64_parse_memory :: "string \<Rightarrow> a64_width \<Rightarrow> a64_mem option" where
  "a64_parse_memory t default_width =
     (let inner = trim (trim_end_char CHR ''!'' (trim_end_char CHR '']'' (trim_start_matches ''['' t)));
          parts = map trim (split_char CHR '','' inner);
          st = fold (a64_mem_part default_width) (tl parts) \<lparr>ap_index = None, ap_scale = 1, ap_disp = 0\<rparr>;
          w = (if contains_str ''b]'' t \<and> \<not> contains_str ''sb]'' t \<and> \<not> contains_str ''sh]'' t then AB8
               else if contains_str ''h]'' t then AB32 else default_width) in
      Some \<lparr>am_base = a64_parse_register (hd parts) default_width, am_index = ap_index st,
            am_scale = ap_scale st, am_disp = ap_disp st, am_width = w\<rparr>)"

definition a64_parse_one_operand :: "string \<Rightarrow> a64_width \<Rightarrow> a64_operand option" where
  "a64_parse_one_operand o' default_width =
     (let t = trim o' in
      if t = [] then None
      else if hd t = CHR ''['' then map_option AMem (a64_parse_memory t default_width)
      else (case a64_parse_immediate t of
          Some imm \<Rightarrow> Some (AImm imm)
        | None \<Rightarrow> map_option AReg (a64_parse_register t default_width)))"

definition a64_parse_operands :: "string list \<Rightarrow> a64_width \<Rightarrow> a64_operand list" where
  "a64_parse_operands raw default_width = filter_map (\<lambda>o'. a64_parse_one_operand o' default_width) raw"

fun a64_operand_width :: "a64_operand list \<Rightarrow> a64_width option" where
  "a64_operand_width [] = None"
| "a64_operand_width (AReg r # _) = Some (ag_width r)"
| "a64_operand_width (AMem m # _) = Some (am_width m)"
| "a64_operand_width (AImm _ # ops) = a64_operand_width ops"

section \<open>Instructions\<close>

definition a64_lower :: "physical_instruction \<Rightarrow> a64_lowering" where
  "a64_lower p =
     (let m = pi_mnemonic p in
      case a64_split_mnemonic m of (base, suffix) \<Rightarrow>
        let w = (if take 1 base = ''w'' \<or> base = ''movz'' \<and> take 6 m = ''movz w'' then AB32 else AB64);
            sgn_ctx = suffix_is_signed suffix;
            raw_ops = pi_operands p in
        (case a64_classify base of
           None \<Rightarrow> AUnsupported m
         | Some kind \<Rightarrow>
             (let operands = a64_parse_operands raw_ops w;
                  w' = (case a64_operand_width operands of Some x \<Rightarrow> x | None \<Rightarrow> w);
                  mk = (if (kind = OpLoad \<or> kind = OpStore) \<and> \<not> list_ex (\<lambda>o'. take 1 o' = ''['') raw_ops
                          then (''mov'', OpStore)
                        else if kind = OpReturn \<or> kind = OpCall then (a64_default_mnemonic kind, kind)
                        else (base, kind)) in
              ALowered \<lparr>al_mnemonic = fst mk, al_kind = snd mk, al_width = w', al_signed = sgn_ctx,
                        al_operands = operands\<rparr>)))"

definition a64_lower_keep_all :: "physical_instruction list \<Rightarrow> a64_instr list" where
  "a64_lower_keep_all instrs =
     map (\<lambda>p. case a64_lower p of
        ALowered l \<Rightarrow> l
      | AUnsupported mnemonic \<Rightarrow>
          \<lparr>al_mnemonic = mnemonic, al_kind = OpUnknown, al_width = AB64, al_signed = None, al_operands = []\<rparr>) instrs"

end
