(* ===== verification/Rv_Lower.thy ===== *)
theory Rv_Lower
  imports A64_Lower
begin

text \<open>
  RISC-V registers and lowering: \<open>semasm-riscv/src/lib.rs\<close> and \<open>semasm-riscv/src/lower.rs\<close>. The
  helpers \<open>split_mnemonic\<close> and \<open>suffix_is_signed\<close> are the same text as in the AArch64 lowering and
  are shared with it.
\<close>

section \<open>Registers\<close>

datatype rv_width = RB32 | RB64

fun rv_bits :: "rv_width \<Rightarrow> nat" where
  "rv_bits RB32 = 32"
| "rv_bits RB64 = 64"

datatype gpr =
  RZero | RRa | RSp | RGp | RTp | T0 | T1 | T2 | S0 | S1 | A0 | A1 | A2 | A3 | A4 | A5 | A6 | A7 |
  S2 | S3 | S4 | S5 | S6 | S7 | S8 | S9 | S10 | S11 | T3 | T4 | T5 | T6

definition gprs :: "gpr list" where
  "gprs = [RZero, RRa, RSp, RGp, RTp, T0, T1, T2, S0, S1, A0, A1, A2, A3, A4, A5, A6, A7,
     S2, S3, S4, S5, S6, S7, S8, S9, S10, S11, T3, T4, T5, T6]"

record rv_register =
  rg_gpr :: gpr
  rg_width :: rv_width
  rg_high :: bool

definition rv_reg :: "gpr \<Rightarrow> rv_width \<Rightarrow> bool \<Rightarrow> rv_register" where
  "rv_reg g w high = \<lparr>rg_gpr = g, rg_width = w, rg_high = high\<rparr>"

definition rv_full :: "gpr \<Rightarrow> rv_register" where
  "rv_full g = rv_reg g RB64 False"

definition rv_low32 :: "gpr \<Rightarrow> rv_register" where
  "rv_low32 g = rv_reg g RB32 False"

fun rv_index :: "gpr \<Rightarrow> nat" where
  "rv_index RZero = 0" | "rv_index RRa = 1" | "rv_index RSp = 2" | "rv_index RGp = 3" | "rv_index RTp = 4"
| "rv_index T0 = 5" | "rv_index T1 = 6" | "rv_index T2 = 7" | "rv_index S0 = 8" | "rv_index S1 = 9"
| "rv_index A0 = 10" | "rv_index A1 = 11" | "rv_index A2 = 12" | "rv_index A3 = 13" | "rv_index A4 = 14"
| "rv_index A5 = 15" | "rv_index A6 = 16" | "rv_index A7 = 17" | "rv_index S2 = 18" | "rv_index S3 = 19"
| "rv_index S4 = 20" | "rv_index S5 = 21" | "rv_index S6 = 22" | "rv_index S7 = 23" | "rv_index S8 = 24"
| "rv_index S9 = 25" | "rv_index S10 = 26" | "rv_index S11 = 27" | "rv_index T3 = 28" | "rv_index T4 = 29"
| "rv_index T5 = 30" | "rv_index T6 = 31"

fun abi_name :: "gpr \<Rightarrow> string" where
  "abi_name RZero = ''zero''" | "abi_name RRa = ''ra''" | "abi_name RSp = ''sp''" | "abi_name RGp = ''gp''"
| "abi_name RTp = ''tp''" | "abi_name T0 = ''t0''" | "abi_name T1 = ''t1''" | "abi_name T2 = ''t2''"
| "abi_name S0 = ''s0''" | "abi_name S1 = ''s1''" | "abi_name A0 = ''a0''" | "abi_name A1 = ''a1''"
| "abi_name A2 = ''a2''" | "abi_name A3 = ''a3''" | "abi_name A4 = ''a4''" | "abi_name A5 = ''a5''"
| "abi_name A6 = ''a6''" | "abi_name A7 = ''a7''" | "abi_name S2 = ''s2''" | "abi_name S3 = ''s3''"
| "abi_name S4 = ''s4''" | "abi_name S5 = ''s5''" | "abi_name S6 = ''s6''" | "abi_name S7 = ''s7''"
| "abi_name S8 = ''s8''" | "abi_name S9 = ''s9''" | "abi_name S10 = ''s10''" | "abi_name S11 = ''s11''"
| "abi_name T3 = ''t3''" | "abi_name T4 = ''t4''" | "abi_name T5 = ''t5''" | "abi_name T6 = ''t6''"

definition rv_volatile :: "gpr list" where
  "rv_volatile = [RRa, T0, T1, T2, A0, A1, A2, A3, A4, A5, A6, A7, T3, T4, T5, T6]"

definition rv_nonvolatile :: "gpr list" where
  "rv_nonvolatile = [RSp, S0, S1, S2, S3, S4, S5, S6, S7, S8, S9, S10, S11]"

definition rv_is_volatile :: "gpr \<Rightarrow> bool" where
  "rv_is_volatile g \<longleftrightarrow> g \<in> set rv_volatile"

definition rv_is_nonvolatile :: "gpr \<Rightarrow> bool" where
  "rv_is_nonvolatile g \<longleftrightarrow> g \<in> set rv_nonvolatile"

section \<open>Operands\<close>

record rv_mem =
  rm_base :: "rv_register option"
  rm_index :: "rv_register option"
  rm_scale :: int
  rm_disp :: int
  rm_width :: rv_width

datatype rv_operand = RReg rv_register | RMem rv_mem | RImm int

record rv_instr =
  rl_mnemonic :: string
  rl_kind :: op_kind
  rl_width :: rv_width
  rl_signed :: "bool option"
  rl_operands :: "rv_operand list"

datatype rv_lowering = RLowered rv_instr | RUnsupported string

definition rv_default_mnemonic :: "op_kind \<Rightarrow> string" where
  "rv_default_mnemonic kind = (case kind of OpReturn \<Rightarrow> ''ret'' | OpCall \<Rightarrow> ''call'' | _ \<Rightarrow> [])"

definition rv_classify :: "string \<Rightarrow> op_kind option" where
  "rv_classify base =
     (if base \<in> {''add'', ''sub'', ''mul'', ''and'', ''or'', ''xor'', ''sll'', ''srl'', ''sra''} then Some Binary
      else if base \<in> {''ld'', ''lb'', ''lh'', ''lw'', ''ldu'', ''lbu'', ''lhu'', ''lwu''} then Some OpLoad
      else if base \<in> {''sd'', ''sb'', ''sh'', ''sw'', ''mv''} then Some OpStore
      else if base \<in> {''addi'', ''addiw'', ''subw'', ''addw'', ''andi'', ''ori'', ''slli''} then Some Binary
      else if base = ''li'' then Some OpStore
      else if base \<in> {''slt'', ''sltu'', ''slti'', ''sltiu''} then Some Compare
      else if base \<in> {''beq'', ''bne'', ''blt'', ''bge'', ''bltu'', ''bgeu'', ''beqz'', ''bnez'', ''j'', ''jr''}
        then Some Branch
      else if base \<in> {''jalr'', ''jal''} then Some OpCall
      else if base = ''ret'' then Some OpReturn
      else if base \<in> {''ecall'', ''ebreak''} then Some OpUnknown
      else if base \<in> {''csrr'', ''csrw'', ''csrrw'', ''csrrs'', ''csrrc'', ''csrrwi'', ''csrrsi'', ''csrrci''}
        then Some OpUnknown
      else None)"

definition rv_parse_immediate :: "string \<Rightarrow> int option" where
  "rv_parse_immediate t =
     (let s = trim (trim_start_matches ''#'' t);
          s = trim (trim_start_matches ''hi21'' (trim_start_matches ''lo12'' (trim_start_matches '':'' s))) in
      case (case strip_prefix ''0x'' s of Some h \<Rightarrow> Some h | None \<Rightarrow> strip_prefix ''0X'' s) of
        Some hex \<Rightarrow> parse_i64 16 hex
      | None \<Rightarrow> parse_i64 10 s)"

definition rv_alias_index :: "(string \<times> nat) list" where
  "rv_alias_index =
     [(''s1'', 9), (''a0'', 10), (''a1'', 11), (''a2'', 12), (''a3'', 13), (''a4'', 14), (''a5'', 15), (''a6'', 16),
      (''a7'', 17), (''s2'', 18), (''s3'', 19), (''s4'', 20), (''s5'', 21), (''s6'', 22), (''s7'', 23), (''s8'', 24),
      (''s9'', 25), (''s10'', 26), (''s11'', 27), (''t3'', 28), (''t4'', 29), (''t5'', 30), (''t6'', 31),
      (''t0'', 5), (''t1'', 6), (''t2'', 7)]"

definition rv_parse_register :: "string \<Rightarrow> rv_width \<Rightarrow> rv_register option" where
  "rv_parse_register name default_width =
     (let n = trim name in
      if n = ''zero'' \<or> n = ''x0'' then Some (rv_reg RZero RB64 False)
      else if n = ''ra'' \<or> n = ''x1'' then Some (rv_reg RRa RB64 False)
      else if n = ''sp'' \<or> n = ''x2'' then Some (rv_reg RSp RB64 False)
      else if n = ''gp'' \<or> n = ''x3'' then Some (rv_reg RGp RB64 False)
      else if n = ''tp'' \<or> n = ''x4'' then Some (rv_reg RTp RB64 False)
      else if n = ''fp'' \<or> n = ''s0'' \<or> n = ''x8'' then Some (rv_reg S0 RB64 False)
      else (case n of
          [] \<Rightarrow> None
        | c # rest \<Rightarrow>
            (let letter = hd (to_ascii_lowercase [c]);
                 w = (if letter = CHR ''w'' then RB32 else default_width);
                 idx = (if letter = CHR ''x'' \<or> letter = CHR ''w'' then parse_unsigned 10 255 rest
                        else map_of rv_alias_index n) in
             case idx of
               None \<Rightarrow> None
             | Some i \<Rightarrow> if i < length gprs then Some (rv_reg (gprs ! i) w False) else None)))"

text \<open>The body shared by the two memory forms, after the brackets or the white space are gone.\<close>

definition rv_parse_mem_body :: "string \<Rightarrow> rv_width \<Rightarrow> rv_mem option" where
  "rv_parse_mem_body inner default_width =
     (if inner = [] then None
      else
        (case (case find_char CHR ''('' inner of
            Some paren \<Rightarrow>
              map_option (\<lambda>base. (trim (take paren inner), trim base)) (strip_suffix '')'' (drop (paren + 1) inner))
          | None \<Rightarrow> Some (''0'', inner)) of
           None \<Rightarrow> None
         | Some (disp_str, base_str) \<Rightarrow>
             Some \<lparr>rm_base = rv_parse_register base_str RB64, rm_index = None, rm_scale = 1,
                   rm_disp = (case rv_parse_immediate disp_str of Some d \<Rightarrow> d | None \<Rightarrow> 0),
                   rm_width = default_width\<rparr>))"

definition rv_parse_memory :: "string \<Rightarrow> rv_width \<Rightarrow> rv_mem option" where
  "rv_parse_memory t default_width = rv_parse_mem_body (trim (butlast (tl t))) default_width"

definition rv_parse_memory_riscv :: "string \<Rightarrow> rv_width \<Rightarrow> rv_mem option" where
  "rv_parse_memory_riscv t default_width = rv_parse_mem_body (trim t) default_width"

definition rv_parse_one_operand :: "string \<Rightarrow> rv_width \<Rightarrow> rv_operand option" where
  "rv_parse_one_operand o' default_width =
     (let t = trim o' in
      if t = [] then None
      else (case rv_parse_immediate t of
          Some imm \<Rightarrow> Some (RImm imm)
        | None \<Rightarrow>
            if hd t = CHR ''['' \<and> last t = CHR '']'' then map_option RMem (rv_parse_memory t default_width)
            else if CHR ''('' \<in> set t \<and> last t = CHR '')'' then map_option RMem (rv_parse_memory_riscv t default_width)
            else map_option RReg (rv_parse_register t default_width)))"

definition rv_parse_operands :: "string list \<Rightarrow> rv_width \<Rightarrow> rv_operand list" where
  "rv_parse_operands raw default_width = filter_map (\<lambda>o'. rv_parse_one_operand o' default_width) raw"

section \<open>Instructions\<close>

definition rv_lower :: "physical_instruction \<Rightarrow> rv_lowering" where
  "rv_lower p =
     (let m = pi_mnemonic p in
      case a64_split_mnemonic m of (base, suffix) \<Rightarrow>
        let w = (if base \<noteq> [] \<and> (last base = CHR ''w'' \<or> hd base = CHR ''w'') then RB32 else RB64);
            sgn_ctx = suffix_is_signed suffix;
            raw_ops = pi_operands p in
        (case rv_classify base of
           None \<Rightarrow> RUnsupported m
         | Some kind \<Rightarrow>
             (let operands = rv_parse_operands raw_ops w;
                  has_mem = list_ex (\<lambda>o'. CHR ''('' \<in> set o' \<and> o' \<noteq> [] \<and> last o' = CHR '')'') raw_ops;
                  mk = (if (kind = OpLoad \<or> kind = OpStore) \<and> \<not> has_mem then (''mv'', OpStore)
                        else if kind = OpReturn \<or> kind = OpCall then (rv_default_mnemonic kind, kind)
                        else (base, kind)) in
              RLowered \<lparr>rl_mnemonic = fst mk, rl_kind = snd mk, rl_width = w, rl_signed = sgn_ctx,
                        rl_operands = operands\<rparr>)))"

definition rv_lower_keep_all :: "physical_instruction list \<Rightarrow> rv_instr list" where
  "rv_lower_keep_all instrs =
     map (\<lambda>p. case rv_lower p of
        RLowered l \<Rightarrow> l
      | RUnsupported mnemonic \<Rightarrow>
          \<lparr>rl_mnemonic = mnemonic, rl_kind = OpUnknown, rl_width = RB64, rl_signed = None, rl_operands = []\<rparr>) instrs"

section \<open>Register names\<close>

text \<open>Every RISC-V register reads back from its ABI name as the full register, and from \<open>xN\<close> as
  the register of index \<open>N\<close>; the index is the encoding.\<close>

theorem rv_register_roundtrip:
  "rv_parse_register (abi_name g) RB64 = Some (rv_full g) \<and>
   rv_parse_register (CHR ''x'' # show_nat (rv_index g)) RB64 = Some (rv_full g)"
proof -
  have all: "g \<in> set gprs" by (cases g) (simp_all add: gprs_def)
  have "list_all (\<lambda>g. rv_parse_register (abi_name g) RB64 = Some (rv_full g) \<and>
      rv_parse_register (CHR ''x'' # show_nat (rv_index g)) RB64 = Some (rv_full g)) gprs"
    by code_simp
  then show ?thesis using all unfolding list_all_iff by blast
qed

end
