(* ===== verification/A64_Abi.thy ===== *)
theory A64_Abi
  imports A64_Lower X86_Abi
begin

text \<open>
  AAPCS64 conformance checks: \<open>semasm-aarch64/src/abi.rs\<close>, the walk over a lowered function body, the
  save/restore scans and the link-register check.
\<close>

definition a64_arg_regs :: "a64_gp list" where
  "a64_arg_regs = [X0, X1, X2, X3, X4, X5, X6, X7]"

definition entry_sp_mod :: int where
  "entry_sp_mod = 0"

datatype a64_code =
    A64_STACK_ALIGN_CALL int int
  | A64_STACK_BALANCE_RET int
  | A64_CALLEE_SAVED_NOT_PRESERVED a64_gp
  | A64_CALLEE_SAVED_NOT_RESTORED a64_gp
  | A64_LR_CLOBBERED_NON_LEAF

record a64_finding =
  a64f_code :: a64_code
  a64f_severity :: severity
  a64f_at :: "nat option"

record sp_state =
  sp_delta :: int
  sp_align :: int

definition sp_is_aligned :: "sp_state \<Rightarrow> bool" where
  "sp_is_aligned s \<longleftrightarrow> sp_align s = 0"

record sp_call_site =
  spc_index :: nat
  spc_before :: sp_state

record a64_report =
  a64r_findings :: "a64_finding list"
  a64r_is_leaf :: bool
  a64r_final_sp_delta :: int
  a64r_call_sites :: "sp_call_site list"

definition a64_is_clean :: "a64_report \<Rightarrow> bool" where
  "a64_is_clean r \<longleftrightarrow> \<not> list_ex (\<lambda>f. a64f_severity f = SevError \<or> a64f_severity f = SevWarning) (a64r_findings r)"

definition a64_argument_register :: "nat \<Rightarrow> a64_register option" where
  "a64_argument_register index = (if index < length a64_arg_regs then Some (a64_full (a64_arg_regs ! index)) else None)"

definition a64_return_register :: a64_register where
  "a64_return_register = a64_full X0"

definition a64_is_sp :: "a64_register \<Rightarrow> bool" where
  "a64_is_sp r \<longleftrightarrow> ag_storage r = ASp"

section \<open>Saved registers\<close>

text \<open>The general-purpose registers among the operands, each once.\<close>

fun a64_push_gps :: "a64_operand list \<Rightarrow> a64_gp list \<Rightarrow> a64_gp list" where
  "a64_push_gps [] out = out"
| "a64_push_gps (AReg r # ops) out =
     a64_push_gps ops (case ag_storage r of AGp g \<Rightarrow> if g \<notin> set out then out @ [g] else out | _ \<Rightarrow> out)"
| "a64_push_gps (_ # ops) out = a64_push_gps ops out"

fun a64_add_written :: "a64_operand list \<Rightarrow> a64_gp list \<Rightarrow> a64_gp list" where
  "a64_add_written [] out = out"
| "a64_add_written (AReg r # ops) out =
     a64_add_written ops
       (case ag_storage r of
          AGp g \<Rightarrow> if g \<in> set a64_nonvolatile_gp \<and> \<not> a64_is_sp r \<and> g \<notin> set out then out @ [g] else out
        | _ \<Rightarrow> out)"
| "a64_add_written (_ # ops) out = a64_add_written ops out"

definition a64_written_nonvolatile :: "a64_instr list \<Rightarrow> a64_gp list" where
  "a64_written_nonvolatile instrs = fold (\<lambda>ins out. a64_add_written (al_operands ins) out) instrs []"

fun a64_first_mem :: "a64_operand list \<Rightarrow> a64_mem option" where
  "a64_first_mem [] = None"
| "a64_first_mem (AMem m # _) = Some m"
| "a64_first_mem (_ # ops) = a64_first_mem ops"

definition a64_sp_based :: "a64_instr \<Rightarrow> bool" where
  "a64_sp_based ins =
     (case a64_first_mem (al_operands ins) of
        None \<Rightarrow> False
      | Some m \<Rightarrow> (case am_base m of Some r \<Rightarrow> a64_is_sp r | None \<Rightarrow> False))"

definition a64_sp_store_targets :: "a64_instr \<Rightarrow> a64_gp list" where
  "a64_sp_store_targets ins =
     (if al_kind ins \<noteq> OpStore then []
      else if a64_sp_based ins then a64_push_gps (al_operands ins) [] else [])"

definition a64_is_sp_based_store :: "a64_instr \<Rightarrow> bool" where
  "a64_is_sp_based_store ins \<longleftrightarrow> a64_sp_store_targets ins \<noteq> []"

definition a64_sp_load_targets :: "a64_instr \<Rightarrow> a64_gp list" where
  "a64_sp_load_targets ins =
     (if al_kind ins \<noteq> OpLoad then []
      else if a64_sp_based ins then a64_push_gps (al_operands ins) [] else [])"

definition push_new :: "'a list \<Rightarrow> 'a list \<Rightarrow> 'a list" where
  "push_new gs out = fold (\<lambda>g out. if g \<notin> set out then out @ [g] else out) gs out"

fun a64_prologue_loop :: "a64_instr list \<Rightarrow> a64_gp list \<Rightarrow> a64_gp list" where
  "a64_prologue_loop [] out = out"
| "a64_prologue_loop (ins # rest) out =
     (if a64_sp_store_targets ins \<noteq> [] then a64_prologue_loop rest (push_new (a64_sp_store_targets ins) out)
      else if \<not> a64_is_sp_based_store ins \<and> out \<noteq> [] then out
      else a64_prologue_loop rest out)"

definition a64_prologue_saved :: "a64_instr list \<Rightarrow> a64_gp list" where
  "a64_prologue_saved instrs = a64_prologue_loop instrs []"

fun a64_epilogue_loop :: "a64_instr list \<Rightarrow> a64_gp list \<Rightarrow> a64_gp list" where
  "a64_epilogue_loop [] out = out"
| "a64_epilogue_loop (ins # rest) out =
     (if al_kind ins \<in> {OpReturn, Binary, OpUnknown} then a64_epilogue_loop rest out
      else if a64_sp_load_targets ins = [] then out
      else a64_epilogue_loop rest (push_new (a64_sp_load_targets ins) out))"

definition a64_epilogue_restored :: "a64_instr list \<Rightarrow> a64_gp list" where
  "a64_epilogue_restored instrs = a64_epilogue_loop (rev instrs) []"

section \<open>The walk\<close>

record a64_step =
  ast_sp_change :: int
  ast_is_call :: bool
  ast_is_ret :: bool

definition a64_adjust_imm :: "a64_operand list \<Rightarrow> int option" where
  "a64_adjust_imm ops = (case ops of
     _ # AImm n # _ \<Rightarrow> Some n
   | _ # AReg _ # AImm n # _ \<Rightarrow> Some n
   | _ \<Rightarrow> None)"

definition a64_sp_change_of :: "a64_instr \<Rightarrow> int" where
  "a64_sp_change_of ins =
     (if al_mnemonic ins \<in> {''str'', ''stp'', ''ldr'', ''ldp''} then
        (if a64_sp_based ins then
           (case a64_first_mem (al_operands ins) of
              Some mem \<Rightarrow> if am_disp mem < 0 then wrap_i64 (- am_disp mem)
                          else if am_disp mem > 0 then - am_disp mem else 0
            | None \<Rightarrow> 0)
         else 0)
      else if al_mnemonic ins \<in> {''add'', ''sub''} then
        (case (al_operands ins, a64_adjust_imm (al_operands ins)) of
           (AReg r # _, Some n) \<Rightarrow>
             if a64_is_sp r then (if al_mnemonic ins = ''sub'' then n else wrap_i64 (- n)) else 0
         | _ \<Rightarrow> 0)
      else 0)"

definition a64_step_of :: "a64_instr \<Rightarrow> a64_step" where
  "a64_step_of ins =
     \<lparr>ast_sp_change = a64_sp_change_of ins,
      ast_is_call = (al_mnemonic ins = ''bl''),
      ast_is_ret = (al_mnemonic ins = ''ret'')\<rparr>"

definition a64_check_callee_saved :: "a64_instr list \<Rightarrow> a64_finding list \<Rightarrow> a64_finding list" where
  "a64_check_callee_saved instrs findings =
     (let writes = a64_written_nonvolatile instrs in
      if writes = [] then findings
      else
        let saved = a64_prologue_saved instrs; restored = a64_epilogue_restored instrs in
        findings @ concat (map (\<lambda>g.
          (if g \<notin> set saved
           then [\<lparr>a64f_code = A64_CALLEE_SAVED_NOT_PRESERVED g, a64f_severity = SevError, a64f_at = None\<rparr>] else []) @
          (if g \<notin> set restored
           then [\<lparr>a64f_code = A64_CALLEE_SAVED_NOT_RESTORED g, a64f_severity = SevError, a64f_at = None\<rparr>] else [])) writes))"

record a64_walk =
  a64w_findings :: "a64_finding list"
  a64w_sp_delta :: int
  a64w_call_sites :: "sp_call_site list"
  a64w_is_leaf :: bool
  a64w_lr_ever_saved :: bool

definition sp_state_at :: "int \<Rightarrow> sp_state" where
  "sp_state_at d =
     \<lparr>sp_delta = d,
      sp_align = rust_rem (rust_rem (wrap_i64 (entry_sp_mod + d)) stack_align + stack_align) stack_align\<rparr>"

definition a64_walk_step :: "nat \<Rightarrow> a64_instr \<Rightarrow> a64_walk \<Rightarrow> a64_walk" where
  "a64_walk_step i ins w =
     (let d = a64w_sp_delta w;
          state = sp_state_at d;
          s = a64_step_of ins;
          w1 = (if ast_is_call s then
                  w\<lparr>a64w_is_leaf := False,
                    a64w_call_sites := a64w_call_sites w @ [\<lparr>spc_index = i, spc_before = state\<rparr>],
                    a64w_findings := a64w_findings w @
                      (if \<not> sp_is_aligned state
                       then [\<lparr>a64f_code = A64_STACK_ALIGN_CALL (sp_align state) d,
                              a64f_severity = SevError, a64f_at = Some i\<rparr>] else [])\<rparr>
                else w);
          w2 = (if ast_is_ret s \<and> d \<noteq> 0 then
                  w1\<lparr>a64w_findings := a64w_findings w1 @
                    [\<lparr>a64f_code = A64_STACK_BALANCE_RET d, a64f_severity = SevError, a64f_at = Some i\<rparr>]\<rparr>
                else w1);
          w3 = (if ALr \<in> set (a64_sp_store_targets ins) then w2\<lparr>a64w_lr_ever_saved := True\<rparr> else w2) in
      w3\<lparr>a64w_sp_delta := wrap_i64 (d + ast_sp_change s)\<rparr>)"

definition a64_walk_init :: a64_walk where
  "a64_walk_init = \<lparr>a64w_findings = [], a64w_sp_delta = 0, a64w_call_sites = [], a64w_is_leaf = True,
     a64w_lr_ever_saved = False\<rparr>"

definition a64_analyze :: "a64_instr list \<Rightarrow> a64_report" where
  "a64_analyze instrs =
     (let w = for_each a64_walk_step 0 instrs a64_walk_init;
          findings = a64_check_callee_saved instrs (a64w_findings w) @
            (if \<not> a64w_is_leaf w \<and> \<not> a64w_lr_ever_saved w \<and> ALr \<in> set (a64_written_nonvolatile instrs)
             then [\<lparr>a64f_code = A64_LR_CLOBBERED_NON_LEAF, a64f_severity = SevError, a64f_at = None\<rparr>] else []) in
      \<lparr>a64r_findings = findings, a64r_is_leaf = a64w_is_leaf w, a64r_final_sp_delta = a64w_sp_delta w,
       a64r_call_sites = a64w_call_sites w\<rparr>)"

section \<open>The walk and the machine\<close>

text \<open>The lowered form does not say whether an access writes its base back, so the machine is given
  for decoded instructions. An instruction whose first operand is \<open>sp\<close>, or that addresses memory
  with writeback, may leave anything in \<open>SP\<close>; a constant adjustment moves it as the manual says;
  every other instruction keeps it, a call included.\<close>

definition a64_writeback :: "physical_instruction \<Rightarrow> bool" where
  "a64_writeback p \<longleftrightarrow> list_ex (\<lambda>o'. o' \<noteq> [] \<and> last o' = CHR ''!'') (pi_operands p) \<or>
     (\<exists>pre o' x post. pi_operands p = pre @ o' # x # post \<and> o' \<noteq> [] \<and> last o' = CHR '']'')"

definition a64_adjusts :: "physical_instruction \<Rightarrow> int \<Rightarrow> bool" where
  "a64_adjusts p n \<longleftrightarrow> pi_mnemonic p \<in> {''add'', ''sub''} \<and>
     (\<exists>t. pi_operands p = [''sp'', ''sp'', t] \<and> trim t \<noteq> [] \<and> hd (trim t) \<noteq> CHR ''['' \<and>
        a64_parse_immediate (trim t) = Some n)"

definition a64_effect :: "physical_instruction \<Rightarrow> 64 word \<Rightarrow> 64 word \<Rightarrow> bool" where
  "a64_effect p sp sp' \<longleftrightarrow>
     (\<forall>n. a64_adjusts p n \<longrightarrow> sp' = (if pi_mnemonic p = ''sub'' then sp - word_of_int n else sp + word_of_int n)) \<and>
     ((\<nexists>n. a64_adjusts p n) \<and> \<not> a64_writeback p \<and> take 1 (pi_operands p) \<noteq> [''sp''] \<longrightarrow> sp' = sp)"

definition a64_lowered :: "physical_instruction \<Rightarrow> a64_instr" where
  "a64_lowered p = hd (a64_lower_keep_all [p])"

lemma a64_lower_keep_all_map: "a64_lower_keep_all ps = map a64_lowered ps"
  by (simp add: a64_lower_keep_all_def a64_lowered_def)

definition a64_delta :: "physical_instruction \<Rightarrow> int \<Rightarrow> int" where
  "a64_delta p d = wrap_i64 (d + a64_sp_change_of (a64_lowered p))"

text \<open>What the walk understands: constant adjustments, and instructions that neither move \<open>SP\<close> nor
  look to the analyser as if they did.\<close>

definition a64_tracked :: "physical_instruction \<Rightarrow> int \<Rightarrow> bool" where
  "a64_tracked p d \<longleftrightarrow> (\<exists>n. a64_adjusts p n) \<or>
     \<not> a64_writeback p \<and> take 1 (pi_operands p) \<noteq> [''sp''] \<and> a64_sp_change_of (a64_lowered p) = 0"

definition a64_stops :: "physical_instruction \<Rightarrow> bool" where
  "a64_stops p \<longleftrightarrow> pi_mnemonic p \<in> {''ret'', ''b'', ''br''}"

lemma a64_parse_sp: "a64_parse_one_operand ''sp'' w = Some (AReg a64_sp)"
proof -
  have "trim ''sp'' = ''sp''" "a64_parse_immediate ''sp'' = None" by code_simp+
  then show ?thesis by (simp add: a64_parse_one_operand_def a64_parse_register_def)
qed

lemma a64_adjust_lowered:
  assumes "a64_adjusts p n"
  shows "al_mnemonic (a64_lowered p) = pi_mnemonic p" "al_operands (a64_lowered p) = [AReg a64_sp, AReg a64_sp, AImm n]"
proof -
  obtain t where p: "pi_operands p = [''sp'', ''sp'', t]" "trim t \<noteq> []" "hd (trim t) \<noteq> CHR ''[''"
      "a64_parse_immediate (trim t) = Some n" and m: "pi_mnemonic p = ''add'' \<or> pi_mnemonic p = ''sub''"
    using assms by (auto simp: a64_adjusts_def)
  have imm: "a64_parse_one_operand t w = Some (AImm n)" for w
    using p by (simp add: a64_parse_one_operand_def Let_def)
  have "a64_split_mnemonic (pi_mnemonic p) = (pi_mnemonic p, [])"
    using m by (auto simp: a64_split_mnemonic_def)
  moreover have "a64_classify (pi_mnemonic p) = Some Binary" using m by (auto simp: a64_classify_def)
  ultimately show "al_mnemonic (a64_lowered p) = pi_mnemonic p"
      "al_operands (a64_lowered p) = [AReg a64_sp, AReg a64_sp, AImm n]"
    by (simp_all add: a64_lowered_def a64_lower_keep_all_def a64_lower_def Let_def p(1) a64_parse_operands_def
        a64_parse_sp imm)
qed

lemma a64_adjust_change:
  assumes "a64_adjusts p n"
  shows "a64_sp_change_of (a64_lowered p) = (if pi_mnemonic p = ''sub'' then n else wrap_i64 (- n))"
proof -
  have "pi_mnemonic p \<in> {''add'', ''sub''}" using assms by (simp add: a64_adjusts_def)
  then show ?thesis using a64_adjust_lowered [OF assms]
    by (auto simp: a64_sp_change_of_def a64_adjust_imm_def a64_is_sp_def a64_sp_def)
qed

lemma a64_delta_adjust:
  "a64_adjusts p n \<Longrightarrow> a64_delta p d = wrap_i64 (if pi_mnemonic p = ''sub'' then d + n else d - n)"
  using wrap_i64_add_right [of d "- n"] by (simp add: a64_delta_def a64_adjust_change)

definition a64_rel :: "64 word \<Rightarrow> int \<Rightarrow> 64 word \<Rightarrow> bool" where
  "a64_rel e d sp \<longleftrightarrow> sp = e - word_of_int d"

interpretation a64_stack: stack_walk a64_effect "\<lambda>sp. sp" a64_delta "\<lambda>d. d" 0 a64_tracked "(=)" a64_rel 0
proof
  show "a64_rel e (a64_delta p d) sp'" if "a64_tracked p d" "a64_rel e d sp" "a64_effect p sp sp'" for p d e sp sp'
  proof (cases "\<exists>n. a64_adjusts p n")
    case True
    then obtain n where "a64_adjusts p n" by blast
    then show ?thesis using that(2,3)
      by (cases "pi_mnemonic p = ''sub''") (simp_all add: a64_rel_def a64_delta_adjust a64_effect_def wrap_i64_word)
  next
    case False
    then show ?thesis using that by (simp add: a64_rel_def a64_delta_def a64_effect_def a64_tracked_def wrap_i64_word)
  qed
qed (auto simp: a64_rel_def a64_delta_def wrap_i64_range, simp_all add: rust_int)

section \<open>Findings of the walk\<close>

definition a64_walk_out :: "nat \<Rightarrow> a64_instr \<Rightarrow> int \<Rightarrow> a64_finding list" where
  "a64_walk_out i ins d =
     (if al_mnemonic ins = ''bl'' \<and> align_of 0 d \<noteq> 0
      then [\<lparr>a64f_code = A64_STACK_ALIGN_CALL (align_of 0 d) d, a64f_severity = SevError, a64f_at = Some i\<rparr>] else []) @
     (if al_mnemonic ins = ''ret'' \<and> d \<noteq> 0
      then [\<lparr>a64f_code = A64_STACK_BALANCE_RET d, a64f_severity = SevError, a64f_at = Some i\<rparr>] else [])"

definition a64_delta_step :: "a64_instr \<Rightarrow> int \<Rightarrow> int" where
  "a64_delta_step ins d = wrap_i64 (d + a64_sp_change_of ins)"

lemma a64_delta_lowered: "(\<lambda>p. a64_delta_step (a64_lowered p)) = a64_delta"
  by (simp add: fun_eq_iff a64_delta_def a64_delta_step_def)

lemma sp_state_align: "sp_align (sp_state_at d) = align_of 0 d"
  by (simp add: sp_state_at_def align_of_def entry_sp_mod_def stack_align_def)

interpretation a64_walk: emitting_walk a64_walk_step a64w_findings a64w_sp_delta a64_delta_step a64_walk_out
  by unfold_locales
     (auto simp: a64_walk_step_def a64_walk_out_def a64_delta_step_def Let_def a64_step_of_def sp_is_aligned_def sp_state_align)

definition a64_stack_code :: "a64_code \<Rightarrow> bool" where
  "a64_stack_code c = (case c of A64_STACK_ALIGN_CALL _ _ \<Rightarrow> True | A64_STACK_BALANCE_RET _ \<Rightarrow> True | _ \<Rightarrow> False)"

lemma a64_stack_findings:
  assumes "a64_stack_code (a64f_code f)"
  shows "f \<in> set (a64r_findings (a64_analyze (a64_lower_keep_all ps))) \<longleftrightarrow>
    (\<exists>i < length ps. f \<in> set (a64_walk_out i (a64_lowered (ps ! i)) (walk_at a64_delta 0 ps i)))"
proof -
  let ?L = "a64_lower_keep_all ps"
  have "f \<in> set (a64r_findings (a64_analyze ?L)) \<longleftrightarrow> f \<in> set (a64w_findings (for_each a64_walk_step 0 ?L a64_walk_init))"
    using assms by (auto simp: a64_analyze_def Let_def a64_check_callee_saved_def a64_stack_code_def split: if_splits)
  also have "\<dots> \<longleftrightarrow> (\<exists>i < length ps. f \<in> set (a64_walk_out i (a64_lowered (ps ! i)) (walk_at a64_delta 0 ps i)))"
    by (simp add: a64_walk.findings_loop a64_walk_init_def a64_lower_keep_all_map walk_at_map a64_delta_lowered
        cong: conj_cong)
  finally show ?thesis .
qed

lemma a64_lowered_control:
  "pi_mnemonic p \<in> {''bl'', ''blr''} \<Longrightarrow> al_mnemonic (a64_lowered p) = ''bl''"
  "pi_mnemonic p = ''ret'' \<Longrightarrow> al_mnemonic (a64_lowered p) = ''ret''"
  by (auto simp: a64_lowered_def a64_lower_keep_all_def a64_lower_def a64_split_mnemonic_def a64_classify_def
      a64_default_mnemonic_def Let_def)

section \<open>Properties\<close>

definition a64_run :: "(nat \<Rightarrow> nat \<Rightarrow> bool) \<Rightarrow> physical_instruction list \<Rightarrow> 64 word \<Rightarrow> nat \<Rightarrow> 64 word \<Rightarrow> bool" where
  "a64_run = reaches a64_effect a64_stops"

definition a64_body_tracked :: "(nat \<Rightarrow> nat \<Rightarrow> bool) \<Rightarrow> physical_instruction list \<Rightarrow> bool" where
  "a64_body_tracked = well_tracked a64_tracked a64_delta (=) 0"

text \<open>lowering and AAPCS64 analysis together are exact on every execution of a tracked body
  (constant adjustments of \<open>SP\<close>, no writeback) entered with \<open>SP\<close> 16-byte aligned: a \<open>bl\<close> or \<open>blr\<close>
  is reported as misaligned exactly when \<open>SP\<close> is not a multiple of 16 when control reaches it, and
  a \<open>ret\<close> as unbalanced exactly when \<open>SP\<close> is not its entry value.\<close>

theorem a64_stack_exact:
  assumes "a64_run jump ps sp0 i sp" "a64_body_tracked jump ps" "i < length ps" "uint sp0 mod 16 = 0"
  shows "(pi_mnemonic (ps ! i) \<in> {''bl'', ''blr''} \<longrightarrow>
      ((\<exists>a d. \<lparr>a64f_code = A64_STACK_ALIGN_CALL a d, a64f_severity = SevError, a64f_at = Some i\<rparr>
          \<in> set (a64r_findings (a64_analyze (a64_lower_keep_all ps)))) \<longleftrightarrow> uint sp mod 16 \<noteq> 0)) \<and>
    (pi_mnemonic (ps ! i) = ''ret'' \<longrightarrow>
      ((\<exists>d. \<lparr>a64f_code = A64_STACK_BALANCE_RET d, a64f_severity = SevError, a64f_at = Some i\<rparr>
          \<in> set (a64r_findings (a64_analyze (a64_lower_keep_all ps)))) \<longleftrightarrow> sp \<noteq> sp0))"
proof -
  note run = assms(1) [unfolded a64_run_def] assms(2) [unfolded a64_body_tracked_def]
  show ?thesis
    using assms(3) a64_stack.aligned_exact [OF run] a64_stack.balanced_exact [OF run] assms(4)
    by (auto simp: a64_stack_findings a64_stack_code_def a64_walk_out_def a64_lowered_control)
qed

text \<open>\<open>sub sp, sp, #32; str x30, [sp, #16]; bl f; ldr x30, [sp, #16]; add sp, sp, #32; ret\<close>, with the
  operands as the decoder splits them.\<close>

definition a64_frame :: "physical_instruction list" where
  "a64_frame =
     [mk_ins 0 ''sub'' [''sp'', ''sp'', ''#32''] [], mk_ins 4 ''str'' [''x30'', ''[sp'', ''#16]''] [],
      mk_ins 8 ''bl'' [''#0x1000''] [], mk_ins 12 ''ldr'' [''x30'', ''[sp'', ''#16]''] [],
      mk_ins 16 ''add'' [''sp'', ''sp'', ''#32''] [], mk_ins 20 ''ret'' [] []]"

lemma a64_adjusts_ins:
  "m = ''add'' \<or> m = ''sub'' \<Longrightarrow> trim t \<noteq> [] \<Longrightarrow> hd (trim t) \<noteq> CHR ''['' \<Longrightarrow>
     a64_parse_immediate (trim t) = Some n \<Longrightarrow> a64_adjusts (mk_ins a m [''sp'', ''sp'', t] gs) n"
  by (auto simp: a64_adjusts_def mk_ins_def)

lemma a64_no_writeback:
  "list_all (\<lambda>o'. o' = [] \<or> last o' \<noteq> CHR ''!'') ops \<Longrightarrow> list_all (\<lambda>o'. o' = [] \<or> last o' \<noteq> CHR '']'') (butlast ops) \<Longrightarrow>
     \<not> a64_writeback (mk_ins a m ops gs)"
  by (auto simp: a64_writeback_def mk_ins_def list_all_iff list_ex_iff butlast_append)

lemma a64_frame_adjusts:
  "a64_adjusts (mk_ins 0 ''sub'' [''sp'', ''sp'', ''#32''] []) 32"
  "a64_adjusts (mk_ins 16 ''add'' [''sp'', ''sp'', ''#32''] []) 32"
proof -
  have "trim ''#32'' = ''#32''" "a64_parse_immediate ''#32'' = Some 32" by code_simp+
  then show "a64_adjusts (mk_ins 0 ''sub'' [''sp'', ''sp'', ''#32''] []) 32"
      "a64_adjusts (mk_ins 16 ''add'' [''sp'', ''sp'', ''#32''] []) 32"
    by (auto intro: a64_adjusts_ins)
qed

lemma a64_tracked_adjust: "a64_adjusts p n \<Longrightarrow> a64_tracked p d"
  by (auto simp: a64_tracked_def)

lemma a64_tracked_ins:
  "list_all (\<lambda>o'. o' = [] \<or> last o' \<noteq> CHR ''!'') ops \<Longrightarrow> list_all (\<lambda>o'. o' = [] \<or> last o' \<noteq> CHR '']'') (butlast ops) \<Longrightarrow>
     take 1 ops \<noteq> [''sp''] \<Longrightarrow> a64_sp_change_of (a64_lowered (mk_ins a m ops gs)) = 0 \<Longrightarrow> a64_tracked (mk_ins a m ops gs) d"
  using a64_no_writeback [of ops a m gs] by (auto simp: a64_tracked_def) (simp add: mk_ins_def)

lemma a64_frame_tracked: "a64_body_tracked (\<lambda>_ _. False) a64_frame"
proof -
  have z: "a64_sp_change_of (a64_lowered (mk_ins 4 ''str'' [''x30'', ''[sp'', ''#16]''] [])) = 0"
    "a64_sp_change_of (a64_lowered (mk_ins 8 ''bl'' [''#0x1000''] [])) = 0"
    "a64_sp_change_of (a64_lowered (mk_ins 12 ''ldr'' [''x30'', ''[sp'', ''#16]''] [])) = 0"
    "a64_sp_change_of (a64_lowered (mk_ins 20 ''ret'' [] [])) = 0"
    by code_simp+
  have "list_all (\<lambda>p. a64_tracked p d) a64_frame" for d
    using a64_frame_adjusts by (auto simp: a64_frame_def a64_tracked_ins z intro: a64_tracked_adjust)
  then have t: "a64_tracked p d" if "p \<in> set a64_frame" for p d
    using that by (simp add: list_all_iff)
  show ?thesis by (auto simp: a64_body_tracked_def well_tracked_def intro: t)
qed

lemma a64_frame_run: "a64_run (\<lambda>_ _. False) a64_frame 64 2 32"
proof -
  let ?r = "reaches a64_effect a64_stops (\<lambda>_ _. False) a64_frame 64"
  have "a64_effect (a64_frame ! 0) 64 32"
  proof -
    have p: "a64_frame ! 0 = mk_ins 0 ''sub'' [''sp'', ''sp'', ''#32''] []" by (simp add: a64_frame_def)
    have "a64_parse_immediate (trim ''#32'') = Some 32" by code_simp
    then have "n = 32" if "a64_adjusts (a64_frame ! 0) n" for n
      using that by (simp add: p a64_adjusts_def mk_ins_def)
    moreover have "a64_adjusts (a64_frame ! 0) 32" unfolding p by (rule a64_frame_adjusts)
    ultimately have "a64_adjusts (a64_frame ! 0) n \<longleftrightarrow> n = 32" for n by blast
    moreover have "pi_mnemonic (a64_frame ! 0) = ''sub''" by (simp add: p mk_ins_def)
    ultimately show ?thesis by (simp add: a64_effect_def)
  qed
  with reaches.fall [OF reaches.entry, of a64_frame a64_stops a64_effect 64 32]
  have "?r 1 32" by (simp add: a64_frame_def a64_stops_def mk_ins_def)
  from reaches.fall [OF this, of 32] have "?r 2 32"
    by (simp add: a64_frame_def a64_stops_def mk_ins_def a64_effect_def a64_adjusts_def eval_nat_numeral)
  then show ?thesis by (simp add: a64_run_def)
qed

theorem a64_stack_exact_witness:
  "\<not> (\<exists>a d. \<lparr>a64f_code = A64_STACK_ALIGN_CALL a d, a64f_severity = SevError, a64f_at = Some 2\<rparr>
      \<in> set (a64r_findings (a64_analyze (a64_lower_keep_all a64_frame))))"
proof -
  have "2 < length a64_frame" "pi_mnemonic (a64_frame ! 2) = ''bl''" by (simp_all add: a64_frame_def mk_ins_def)
  then show ?thesis using a64_stack_exact [OF a64_frame_run a64_frame_tracked] by simp
qed

section \<open>Where the checks are not exact\<close>

text \<open>\<open>bl\<close> itself overwrites \<open>LR\<close>; a function that calls without ever naming \<open>x30\<close> is accepted.\<close>

lemma lr_lost_accepted:
  "a64r_findings (a64_analyze (a64_lower_keep_all [mk_ins 0 ''bl'' [''#0x1000''] [], mk_ins 4 ''ret'' [] []])) = []"
  by code_simp

text \<open>The decoder splits operands at every comma, so that the displacement and the writeback of
  \<open>str x30, [sp, #-8]!\<close> are lost: the call below runs with a misaligned stack, unreported.\<close>

lemma pre_index_lost:
  "a64_sp_change_of (a64_lowered (mk_ins 0 ''str'' [''x30'', ''[sp'', ''#-8]!''] [])) = 0"
  by code_simp

text \<open>Unsplit, a plain offset store is taken to move the stack pointer.\<close>

lemma plain_offset_moves_sp:
  "a64_sp_change_of (a64_lowered (mk_ins 0 ''str'' [''x30'', ''[sp, #16]''] [])) = -16"
  by code_simp

text \<open>\<open>stp\<close> and \<open>ldp\<close> are matched by the walk but never lowered.\<close>

lemma stp_never_lowered:
  "a64_lower (mk_ins 0 ''stp'' [''x29'', ''x30'', ''[sp'', ''#-16]!''] []) = AUnsupported ''stp''"
  by code_simp

section \<open>Register names\<close>

text \<open>every AArch64 register name reads back: \<open>xN\<close> is the default-width view of register \<open>N\<close> and
  \<open>wN\<close> its 32-bit view, for all 32 encodings.\<close>

theorem a64_register_roundtrip:
  "a64_parse_register (CHR ''x'' # show_nat (a64_index g)) w = Some (a64_reg_gp g w False) \<and>
   a64_parse_register (CHR ''w'' # show_nat (a64_index g)) w = Some (a64_low32 g)"
proof -
  have all: "g \<in> set a64_gps" by (cases g) (simp_all add: a64_gps_def)
  have "list_all (\<lambda>g. a64_gps ! a64_index g = g \<and> a64_index g < length a64_gps \<and>
      trim (CHR ''x'' # show_nat (a64_index g)) = CHR ''x'' # show_nat (a64_index g) \<and>
      trim (CHR ''w'' # show_nat (a64_index g)) = CHR ''w'' # show_nat (a64_index g) \<and>
      parse_unsigned 10 255 (show_nat (a64_index g)) = Some (a64_index g) \<and> show_nat (a64_index g) \<noteq> ''zr'') a64_gps"
    by code_simp
  then have "a64_gps ! a64_index g = g" "a64_index g < length a64_gps"
      "trim (CHR ''x'' # show_nat (a64_index g)) = CHR ''x'' # show_nat (a64_index g)"
      "trim (CHR ''w'' # show_nat (a64_index g)) = CHR ''w'' # show_nat (a64_index g)"
      "parse_unsigned 10 255 (show_nat (a64_index g)) = Some (a64_index g)" "show_nat (a64_index g) \<noteq> ''zr''"
    using all unfolding list_all_iff by blast+
  moreover have "to_ascii_lowercase ''x'' = ''x''" "to_ascii_lowercase ''w'' = ''w''" by code_simp+
  ultimately show ?thesis
    by (simp add: a64_parse_register_def Let_def a64_low32_def del: show_nat.simps)
qed

end
