(* ===== verification/Rv_Abi.thy ===== *)
theory Rv_Abi
  imports Rv_Lower A64_Abi
begin

text \<open>
  RISC-V LP64 conformance checks: \<open>semasm-riscv/src/abi.rs\<close>, the walk over a lowered function body,
  the save/restore scans and the return-address check.
\<close>

definition rv_arg_regs :: "gpr list" where
  "rv_arg_regs = [A0, A1, A2, A3, A4, A5, A6, A7]"

datatype rv_code =
    RV_STACK_ALIGN_CALL int int
  | RV_STACK_BALANCE_RET int
  | RV_CALLEE_SAVED_NOT_PRESERVED gpr
  | RV_CALLEE_SAVED_NOT_RESTORED gpr
  | RV_RA_CLOBBERED_NON_LEAF

record rv_finding =
  rvf_code :: rv_code
  rvf_severity :: severity
  rvf_at :: "nat option"

record rv_report =
  rvr_findings :: "rv_finding list"
  rvr_is_leaf :: bool
  rvr_final_sp_delta :: int
  rvr_call_sites :: "sp_call_site list"

definition rv_is_clean :: "rv_report \<Rightarrow> bool" where
  "rv_is_clean r \<longleftrightarrow> \<not> list_ex (\<lambda>f. rvf_severity f = SevError \<or> rvf_severity f = SevWarning) (rvr_findings r)"

definition rv_argument_register :: "nat \<Rightarrow> rv_register option" where
  "rv_argument_register index = (if index < length rv_arg_regs then Some (rv_full (rv_arg_regs ! index)) else None)"

definition rv_return_register :: rv_register where
  "rv_return_register = rv_full A0"

definition rv_is_sp :: "rv_register \<Rightarrow> bool" where
  "rv_is_sp r \<longleftrightarrow> rg_gpr r = RSp"

section \<open>Saved registers\<close>

fun rv_add_written :: "rv_operand list \<Rightarrow> gpr list \<Rightarrow> gpr list" where
  "rv_add_written [] out = out"
| "rv_add_written (RReg r # ops) out =
     rv_add_written ops
       (if rg_gpr r \<in> set rv_nonvolatile \<and> \<not> rv_is_sp r \<and> rg_gpr r \<notin> set out then out @ [rg_gpr r] else out)"
| "rv_add_written (_ # ops) out = rv_add_written ops out"

definition rv_written_nonvolatile :: "rv_instr list \<Rightarrow> gpr list" where
  "rv_written_nonvolatile instrs = fold (\<lambda>ins out. rv_add_written (rl_operands ins) out) instrs []"

fun rv_first_mem :: "rv_operand list \<Rightarrow> rv_mem option" where
  "rv_first_mem [] = None"
| "rv_first_mem (RMem m # _) = Some m"
| "rv_first_mem (_ # ops) = rv_first_mem ops"

definition rv_sp_based :: "rv_instr \<Rightarrow> bool" where
  "rv_sp_based ins =
     (case rv_first_mem (rl_operands ins) of
        None \<Rightarrow> False
      | Some m \<Rightarrow> (case rm_base m of Some r \<Rightarrow> rg_gpr r = RSp | None \<Rightarrow> False))"

fun rv_regs_of :: "rv_operand list \<Rightarrow> gpr list" where
  "rv_regs_of [] = []"
| "rv_regs_of (RReg r # ops) = rg_gpr r # rv_regs_of ops"
| "rv_regs_of (_ # ops) = rv_regs_of ops"

definition rv_sp_store_targets :: "rv_instr \<Rightarrow> gpr list" where
  "rv_sp_store_targets ins =
     (if rl_kind ins \<noteq> OpStore then [] else if \<not> rv_sp_based ins then [] else rv_regs_of (rl_operands ins))"

definition rv_sp_load_targets :: "rv_instr \<Rightarrow> gpr list" where
  "rv_sp_load_targets ins =
     (if rl_kind ins \<noteq> OpLoad then [] else if \<not> rv_sp_based ins then [] else rv_regs_of (rl_operands ins))"

fun rv_prologue_loop :: "rv_instr list \<Rightarrow> gpr list \<Rightarrow> gpr list" where
  "rv_prologue_loop [] out = out"
| "rv_prologue_loop (ins # rest) out =
     (let out' = push_new (rv_sp_store_targets ins) out in
      if rv_sp_store_targets ins = [] \<and> out' \<noteq> [] then out' else rv_prologue_loop rest out')"

definition rv_prologue_saved :: "rv_instr list \<Rightarrow> gpr list" where
  "rv_prologue_saved instrs = rv_prologue_loop instrs []"

fun rv_epilogue_loop :: "rv_instr list \<Rightarrow> gpr list \<Rightarrow> gpr list" where
  "rv_epilogue_loop [] out = out"
| "rv_epilogue_loop (ins # rest) out =
     (if rl_kind ins \<in> {OpReturn, Binary, OpUnknown} then rv_epilogue_loop rest out
      else if rv_sp_load_targets ins = [] then out
      else rv_epilogue_loop rest (out @ rv_sp_load_targets ins))"

definition rv_epilogue_restored :: "rv_instr list \<Rightarrow> gpr list" where
  "rv_epilogue_restored instrs = rv_epilogue_loop (rev instrs) []"

section \<open>The walk\<close>

record rv_step =
  rs_sp_change :: int
  rs_is_call :: bool
  rs_is_ret :: bool

definition rv_sp_change_of :: "rv_instr \<Rightarrow> int" where
  "rv_sp_change_of ins =
     (let m = rl_mnemonic ins; ops = rl_operands ins in
      if m \<in> {''sd'', ''sw'', ''sdsp'', ''swsp''} then
        (if rv_sp_based ins then
           (case rv_first_mem ops of
              Some mem \<Rightarrow> if rm_disp mem < 0 then wrap_i64 (- rm_disp mem)
                          else if rm_disp mem > 0 then - rm_disp mem else 0
            | None \<Rightarrow> 0)
         else 0)
      else if m \<in> {''ld'', ''lw''} then
        (if rv_sp_based ins then
           (case rv_first_mem ops of
              Some mem \<Rightarrow> if rm_disp mem > 0 then - rm_disp mem else 0
            | None \<Rightarrow> 0)
         else 0)
      else if m \<in> {''addi'', ''add'', ''c.addi'', ''c.addi16sp''} then
        (case ops of
           [RReg rd, RImm n] \<Rightarrow> if rg_gpr rd = RSp then wrap_i64 (- n) else 0
         | RReg rd # RReg rs1 # RImm n # _ \<Rightarrow> if rg_gpr rd = RSp \<and> rg_gpr rs1 = RSp then wrap_i64 (- n) else 0
         | _ \<Rightarrow> 0)
      else 0)"

definition jalr_is_ret :: "rv_operand list \<Rightarrow> bool" where
  "jalr_is_ret ops = (case ops of
     RReg rd # RMem m # _ \<Rightarrow>
       rg_gpr rd = RZero \<and> (case rm_base m of Some r \<Rightarrow> rg_gpr r = RRa | None \<Rightarrow> False)
   | _ \<Rightarrow> False)"

definition jalr_is_call :: "rv_operand list \<Rightarrow> bool" where
  "jalr_is_call ops = (case ops of RReg rd # _ \<Rightarrow> rg_gpr rd = RRa | _ \<Rightarrow> False)"

definition rv_step_of :: "rv_instr \<Rightarrow> rv_step" where
  "rv_step_of ins =
     \<lparr>rs_sp_change = rv_sp_change_of ins,
      rs_is_call = (rl_mnemonic ins = ''jalr'' \<and> jalr_is_call (rl_operands ins) \<or> rl_mnemonic ins = ''call''),
      rs_is_ret = (rl_mnemonic ins = ''jalr'' \<and> jalr_is_ret (rl_operands ins) \<or> rl_mnemonic ins = ''ret'')\<rparr>"

definition rv_check_callee_saved :: "rv_instr list \<Rightarrow> rv_finding list \<Rightarrow> rv_finding list" where
  "rv_check_callee_saved instrs findings =
     (let writes = rv_written_nonvolatile instrs in
      if writes = [] then findings
      else
        let saved = rv_prologue_saved instrs; restored = rv_epilogue_restored instrs in
        findings @ concat (map (\<lambda>g.
          (if g \<notin> set saved
           then [\<lparr>rvf_code = RV_CALLEE_SAVED_NOT_PRESERVED g, rvf_severity = SevError, rvf_at = None\<rparr>] else []) @
          (if g \<notin> set restored
           then [\<lparr>rvf_code = RV_CALLEE_SAVED_NOT_RESTORED g, rvf_severity = SevError, rvf_at = None\<rparr>] else [])) writes))"

record rv_walk =
  rvw_findings :: "rv_finding list"
  rvw_sp_delta :: int
  rvw_call_sites :: "sp_call_site list"
  rvw_is_leaf :: bool
  rvw_ra_ever_saved :: bool

definition rv_walk_step :: "nat \<Rightarrow> rv_instr \<Rightarrow> rv_walk \<Rightarrow> rv_walk" where
  "rv_walk_step i ins w =
     (let d = rvw_sp_delta w;
          state = sp_state_at d;
          s = rv_step_of ins;
          w1 = (if rs_is_call s then
                  w\<lparr>rvw_is_leaf := False,
                    rvw_call_sites := rvw_call_sites w @ [\<lparr>spc_index = i, spc_before = state\<rparr>],
                    rvw_findings := rvw_findings w @
                      (if \<not> sp_is_aligned state
                       then [\<lparr>rvf_code = RV_STACK_ALIGN_CALL (sp_align state) d,
                              rvf_severity = SevError, rvf_at = Some i\<rparr>] else [])\<rparr>
                else w);
          w2 = (if rs_is_ret s \<and> d \<noteq> 0 then
                  w1\<lparr>rvw_findings := rvw_findings w1 @
                    [\<lparr>rvf_code = RV_STACK_BALANCE_RET d, rvf_severity = SevError, rvf_at = Some i\<rparr>]\<rparr>
                else w1);
          w3 = (if RRa \<in> set (rv_sp_store_targets ins) then w2\<lparr>rvw_ra_ever_saved := True\<rparr> else w2) in
      w3\<lparr>rvw_sp_delta := wrap_i64 (d + rs_sp_change s)\<rparr>)"

definition rv_walk_init :: rv_walk where
  "rv_walk_init = \<lparr>rvw_findings = [], rvw_sp_delta = 0, rvw_call_sites = [], rvw_is_leaf = True,
     rvw_ra_ever_saved = False\<rparr>"

definition rv_analyze :: "rv_instr list \<Rightarrow> rv_report" where
  "rv_analyze instrs =
     (let w = for_each rv_walk_step 0 instrs rv_walk_init;
          ra_written = list_ex (\<lambda>ins. RRa \<in> set (rv_regs_of (rl_operands ins))) instrs;
          findings = rv_check_callee_saved instrs (rvw_findings w) @
            (if \<not> rvw_is_leaf w \<and> \<not> rvw_ra_ever_saved w \<and>
                (RRa \<in> set (rv_written_nonvolatile instrs) \<or> ra_written)
             then [\<lparr>rvf_code = RV_RA_CLOBBERED_NON_LEAF, rvf_severity = SevError, rvf_at = None\<rparr>] else []) in
      \<lparr>rvr_findings = findings, rvr_is_leaf = rvw_is_leaf w, rvr_final_sp_delta = rvw_sp_delta w,
       rvr_call_sites = rvw_call_sites w\<rparr>)"

section \<open>The walk and the machine\<close>

text \<open>\<open>addi sp, sp, n\<close> moves \<open>SP\<close>; stores, branches and instructions with another first operand keep
  it; an instruction outside those may leave anything in it.\<close>

definition rv_adjusts :: "physical_instruction \<Rightarrow> int \<Rightarrow> bool" where
  "rv_adjusts p n \<longleftrightarrow> pi_mnemonic p = ''addi'' \<and>
     (\<exists>t. pi_operands p = [''sp'', ''sp'', t] \<and> trim t \<noteq> [] \<and> rv_parse_immediate (trim t) = Some n)"

definition rv_keeps_sp :: "physical_instruction \<Rightarrow> bool" where
  "rv_keeps_sp p \<longleftrightarrow> take 1 (pi_operands p) \<noteq> [''sp''] \<and> take 1 (pi_operands p) \<noteq> [''x2''] \<and>
     take 2 (pi_mnemonic p) \<noteq> ''c.''"

definition rv_effect :: "physical_instruction \<Rightarrow> 64 word \<Rightarrow> 64 word \<Rightarrow> bool" where
  "rv_effect p sp sp' \<longleftrightarrow>
     (\<forall>n. rv_adjusts p n \<longrightarrow> sp' = sp + word_of_int n) \<and>
     ((\<nexists>n. rv_adjusts p n) \<and> rv_keeps_sp p \<longrightarrow> sp' = sp)"

definition rv_lowered :: "physical_instruction \<Rightarrow> rv_instr" where
  "rv_lowered p = hd (rv_lower_keep_all [p])"

lemma rv_lower_keep_all_map: "rv_lower_keep_all ps = map rv_lowered ps"
  by (simp add: rv_lower_keep_all_def rv_lowered_def)

definition rv_delta :: "physical_instruction \<Rightarrow> int \<Rightarrow> int" where
  "rv_delta p d = wrap_i64 (d + rv_sp_change_of (rv_lowered p))"

definition rv_tracked :: "physical_instruction \<Rightarrow> int \<Rightarrow> bool" where
  "rv_tracked p d \<longleftrightarrow> (\<exists>n. rv_adjusts p n) \<or> rv_keeps_sp p \<and> rv_sp_change_of (rv_lowered p) = 0"

definition rv_stops :: "physical_instruction \<Rightarrow> bool" where
  "rv_stops p \<longleftrightarrow> pi_mnemonic p \<in> {''ret'', ''j'', ''jr''}"

lemma rv_parse_sp: "rv_parse_one_operand ''sp'' w = Some (RReg (rv_reg RSp RB64 False))"
proof -
  have "trim ''sp'' = ''sp''" "rv_parse_immediate ''sp'' = None" by code_simp+
  then show ?thesis by (simp add: rv_parse_one_operand_def rv_parse_register_def)
qed

lemma rv_delta_adjust:
  assumes "rv_adjusts p n"
  shows "rv_delta p d = wrap_i64 (d - n)"
proof -
  obtain t where p: "pi_operands p = [''sp'', ''sp'', t]" "trim t \<noteq> []" "rv_parse_immediate (trim t) = Some n"
      "pi_mnemonic p = ''addi''"
    using assms by (auto simp: rv_adjusts_def)
  have "rv_parse_one_operand t w = Some (RImm n)" for w
    using p by (simp add: rv_parse_one_operand_def Let_def)
  moreover have "a64_split_mnemonic ''addi'' = (''addi'', [])" "rv_classify ''addi'' = Some Binary"
    by (simp_all add: a64_split_mnemonic_def rv_classify_def)
  ultimately have "rl_mnemonic (rv_lowered p) = ''addi''"
      "rl_operands (rv_lowered p) = [RReg (rv_reg RSp RB64 False), RReg (rv_reg RSp RB64 False), RImm n]"
    by (simp_all add: rv_lowered_def rv_lower_keep_all_def rv_lower_def Let_def p(1,4) rv_parse_operands_def rv_parse_sp)
  then show ?thesis
    using wrap_i64_add_right [of d "- n"] by (simp add: rv_delta_def rv_sp_change_of_def Let_def rv_reg_def)
qed

interpretation rv_stack: stack_walk rv_effect "\<lambda>sp. sp" rv_delta "\<lambda>d. d" 0 rv_tracked "(=)" a64_rel 0
proof
  show "a64_rel e (rv_delta p d) sp'" if "rv_tracked p d" "a64_rel e d sp" "rv_effect p sp sp'" for p d e sp sp'
  proof (cases "\<exists>n. rv_adjusts p n")
    case True
    then obtain n where "rv_adjusts p n" by blast
    then show ?thesis using that(2,3) by (simp add: a64_rel_def rv_delta_adjust rv_effect_def wrap_i64_word)
  next
    case False
    then show ?thesis using that by (simp add: a64_rel_def rv_delta_def rv_effect_def rv_tracked_def wrap_i64_word)
  qed
qed (auto simp: a64_rel_def rv_delta_def wrap_i64_range, simp_all add: rust_int)

section \<open>Findings of the walk\<close>

definition rv_walk_out :: "nat \<Rightarrow> rv_instr \<Rightarrow> int \<Rightarrow> rv_finding list" where
  "rv_walk_out i ins d =
     (if rs_is_call (rv_step_of ins) \<and> align_of 0 d \<noteq> 0
      then [\<lparr>rvf_code = RV_STACK_ALIGN_CALL (align_of 0 d) d, rvf_severity = SevError, rvf_at = Some i\<rparr>] else []) @
     (if rs_is_ret (rv_step_of ins) \<and> d \<noteq> 0
      then [\<lparr>rvf_code = RV_STACK_BALANCE_RET d, rvf_severity = SevError, rvf_at = Some i\<rparr>] else [])"

definition rv_delta_step :: "rv_instr \<Rightarrow> int \<Rightarrow> int" where
  "rv_delta_step ins d = wrap_i64 (d + rv_sp_change_of ins)"

lemma rv_delta_lowered: "(\<lambda>p. rv_delta_step (rv_lowered p)) = rv_delta"
  by (simp add: fun_eq_iff rv_delta_def rv_delta_step_def)

lemma rs_sp_change_of: "rs_sp_change (rv_step_of ins) = rv_sp_change_of ins"
  by (simp add: rv_step_of_def)

interpretation rv_walk: emitting_walk rv_walk_step rvw_findings rvw_sp_delta rv_delta_step rv_walk_out
  by unfold_locales
     (auto simp: rv_walk_step_def rv_walk_out_def rv_delta_step_def Let_def rs_sp_change_of sp_is_aligned_def sp_state_align)

definition rv_stack_code :: "rv_code \<Rightarrow> bool" where
  "rv_stack_code c = (case c of RV_STACK_ALIGN_CALL _ _ \<Rightarrow> True | RV_STACK_BALANCE_RET _ \<Rightarrow> True | _ \<Rightarrow> False)"

lemma rv_stack_findings:
  assumes "rv_stack_code (rvf_code f)"
  shows "f \<in> set (rvr_findings (rv_analyze (rv_lower_keep_all ps))) \<longleftrightarrow>
    (\<exists>i < length ps. f \<in> set (rv_walk_out i (rv_lowered (ps ! i)) (walk_at rv_delta 0 ps i)))"
proof -
  let ?L = "rv_lower_keep_all ps"
  have "f \<in> set (rvr_findings (rv_analyze ?L)) \<longleftrightarrow> f \<in> set (rvw_findings (for_each rv_walk_step 0 ?L rv_walk_init))"
    using assms by (auto simp: rv_analyze_def Let_def rv_check_callee_saved_def rv_stack_code_def split: if_splits)
  also have "\<dots> \<longleftrightarrow> (\<exists>i < length ps. f \<in> set (rv_walk_out i (rv_lowered (ps ! i)) (walk_at rv_delta 0 ps i)))"
    by (simp add: rv_walk.findings_loop rv_walk_init_def rv_lower_keep_all_map walk_at_map rv_delta_lowered
        cong: conj_cong)
  finally show ?thesis .
qed

lemma rv_lowered_control:
  "pi_mnemonic p \<in> {''jal'', ''jalr''} \<Longrightarrow> rs_is_call (rv_step_of (rv_lowered p)) \<and> \<not> rs_is_ret (rv_step_of (rv_lowered p))"
  "pi_mnemonic p = ''ret'' \<Longrightarrow> rs_is_ret (rv_step_of (rv_lowered p)) \<and> \<not> rs_is_call (rv_step_of (rv_lowered p))"
  by (auto simp: rv_lowered_def rv_lower_keep_all_def rv_lower_def a64_split_mnemonic_def rv_classify_def
      rv_default_mnemonic_def rv_step_of_def Let_def)

section \<open>Properties\<close>

definition rv_run :: "(nat \<Rightarrow> nat \<Rightarrow> bool) \<Rightarrow> physical_instruction list \<Rightarrow> 64 word \<Rightarrow> nat \<Rightarrow> 64 word \<Rightarrow> bool" where
  "rv_run = reaches rv_effect rv_stops"

definition rv_body_tracked :: "(nat \<Rightarrow> nat \<Rightarrow> bool) \<Rightarrow> physical_instruction list \<Rightarrow> bool" where
  "rv_body_tracked = well_tracked rv_tracked rv_delta (=) 0"

text \<open>lowering and LP64 analysis together are exact on every execution of a tracked body
  (constant \<open>addi sp, sp, n\<close>; accesses through \<open>sp\<close> only at offset 0) entered with \<open>SP\<close> 16-byte
  aligned: a \<open>jal\<close> or \<open>jalr\<close> is reported as misaligned exactly when \<open>SP\<close> is not a multiple of 16
  when control reaches it, and a \<open>ret\<close> as unbalanced exactly when \<open>SP\<close> is not its entry value.\<close>

theorem rv_stack_exact:
  assumes "rv_run jump ps sp0 i sp" "rv_body_tracked jump ps" "i < length ps" "uint sp0 mod 16 = 0"
  shows "(pi_mnemonic (ps ! i) \<in> {''jal'', ''jalr''} \<longrightarrow>
      ((\<exists>a d. \<lparr>rvf_code = RV_STACK_ALIGN_CALL a d, rvf_severity = SevError, rvf_at = Some i\<rparr>
          \<in> set (rvr_findings (rv_analyze (rv_lower_keep_all ps)))) \<longleftrightarrow> uint sp mod 16 \<noteq> 0)) \<and>
    (pi_mnemonic (ps ! i) = ''ret'' \<longrightarrow>
      ((\<exists>d. \<lparr>rvf_code = RV_STACK_BALANCE_RET d, rvf_severity = SevError, rvf_at = Some i\<rparr>
          \<in> set (rvr_findings (rv_analyze (rv_lower_keep_all ps)))) \<longleftrightarrow> sp \<noteq> sp0))"
proof -
  note run = assms(1) [unfolded rv_run_def] assms(2) [unfolded rv_body_tracked_def]
  show ?thesis
    using assms(3) rv_stack.aligned_exact [OF run] rv_stack.balanced_exact [OF run] assms(4)
    by (auto simp: rv_stack_findings rv_stack_code_def rv_walk_out_def rv_lowered_control)
qed

text \<open>\<open>addi sp, sp, -16; sd ra, 0(sp); jal f; ld ra, 0(sp); addi sp, sp, 16; ret\<close>.\<close>

definition rv_frame :: "physical_instruction list" where
  "rv_frame =
     [mk_ins 0 ''addi'' [''sp'', ''sp'', ''-16''] [], mk_ins 4 ''sd'' [''ra'', ''0(sp)''] [],
      mk_ins 8 ''jal'' [''0x1000''] [], mk_ins 12 ''ld'' [''ra'', ''0(sp)''] [],
      mk_ins 16 ''addi'' [''sp'', ''sp'', ''16''] [], mk_ins 20 ''ret'' [] []]"

lemma rv_adjusts_ins:
  "trim t \<noteq> [] \<Longrightarrow> rv_parse_immediate (trim t) = Some n \<Longrightarrow> rv_adjusts (mk_ins a ''addi'' [''sp'', ''sp'', t] gs) n"
  by (auto simp: rv_adjusts_def mk_ins_def)

lemma rv_frame_adjusts:
  "rv_adjusts (mk_ins 0 ''addi'' [''sp'', ''sp'', ''-16''] []) (-16)"
  "rv_adjusts (mk_ins 16 ''addi'' [''sp'', ''sp'', ''16''] []) 16"
proof -
  have "trim ''-16'' = ''-16''" "rv_parse_immediate ''-16'' = Some (-16)"
    "trim ''16'' = ''16''" "rv_parse_immediate ''16'' = Some 16" by code_simp+
  then show "rv_adjusts (mk_ins 0 ''addi'' [''sp'', ''sp'', ''-16''] []) (-16)"
      "rv_adjusts (mk_ins 16 ''addi'' [''sp'', ''sp'', ''16''] []) 16"
    by (auto intro: rv_adjusts_ins)
qed

lemma rv_frame_tracked: "rv_body_tracked (\<lambda>_ _. False) rv_frame"
proof -
  have "list_all (\<lambda>p. rv_sp_change_of (rv_lowered p) = 0 \<and> rv_keeps_sp p)
      [mk_ins 4 ''sd'' [''ra'', ''0(sp)''] [], mk_ins 8 ''jal'' [''0x1000''] [],
       mk_ins 12 ''ld'' [''ra'', ''0(sp)''] [], mk_ins 20 ''ret'' [] []]"
    by code_simp
  then have "list_all (\<lambda>p. rv_tracked p d) rv_frame" for d
    using rv_frame_adjusts by (auto simp: rv_frame_def rv_tracked_def)
  then have t: "rv_tracked p d" if "p \<in> set rv_frame" for p d
    using that by (simp add: list_all_iff)
  show ?thesis by (auto simp: rv_body_tracked_def well_tracked_def intro: t)
qed

lemma rv_frame_run: "rv_run (\<lambda>_ _. False) rv_frame 64 2 48"
proof -
  let ?r = "reaches rv_effect rv_stops (\<lambda>_ _. False) rv_frame 64"
  have "rv_effect (rv_frame ! 0) 64 48"
  proof -
    have p: "rv_frame ! 0 = mk_ins 0 ''addi'' [''sp'', ''sp'', ''-16''] []" by (simp add: rv_frame_def)
    have "rv_parse_immediate (trim ''-16'') = Some (-16)" by code_simp
    then have "n = -16" if "rv_adjusts (rv_frame ! 0) n" for n
      using that by (simp add: p rv_adjusts_def mk_ins_def)
    moreover have "rv_adjusts (rv_frame ! 0) (-16)" unfolding p by (rule rv_frame_adjusts)
    ultimately have "rv_adjusts (rv_frame ! 0) n \<longleftrightarrow> n = -16" for n by blast
    then show ?thesis by (simp add: rv_effect_def)
  qed
  with reaches.fall [OF reaches.entry, of rv_frame rv_stops rv_effect 64 48]
  have "?r 1 48" by (simp add: rv_frame_def rv_stops_def mk_ins_def)
  from reaches.fall [OF this, of 48] have "?r 2 48"
    by (simp add: rv_frame_def rv_stops_def mk_ins_def rv_effect_def rv_adjusts_def eval_nat_numeral)
  then show ?thesis by (simp add: rv_run_def)
qed

theorem rv_stack_exact_witness:
  "\<not> (\<exists>a d. \<lparr>rvf_code = RV_STACK_ALIGN_CALL a d, rvf_severity = SevError, rvf_at = Some 2\<rparr>
      \<in> set (rvr_findings (rv_analyze (rv_lower_keep_all rv_frame))))"
proof -
  have "2 < length rv_frame" "pi_mnemonic (rv_frame ! 2) = ''jal''" by (simp_all add: rv_frame_def mk_ins_def)
  then show ?thesis using rv_stack_exact [OF rv_frame_run rv_frame_tracked] by simp
qed

section \<open>Where the checks are not exact\<close>

text \<open>A store at a positive offset from \<open>sp\<close> is taken to raise the stack pointer: the standard
  prologue is rejected as unbalanced.\<close>

lemma standard_prologue_rejected:
  "map rvf_code (rvr_findings (rv_analyze (rv_lower_keep_all
     [mk_ins 0 ''addi'' [''sp'', ''sp'', ''-16''] [], mk_ins 4 ''sd'' [''ra'', ''8(sp)''] [],
      mk_ins 8 ''jal'' [''0x1000''] [], mk_ins 12 ''ld'' [''ra'', ''8(sp)''] [],
      mk_ins 16 ''addi'' [''sp'', ''sp'', ''16''] [], mk_ins 20 ''ret'' [] []])))
   = [RV_STACK_ALIGN_CALL 8 8, RV_STACK_BALANCE_RET (-16)]"
  by code_simp

text \<open>A call overwrites \<open>ra\<close>; a function that calls without ever naming it is accepted.\<close>

lemma ra_lost_accepted:
  "rvr_findings (rv_analyze (rv_lower_keep_all [mk_ins 0 ''jal'' [''0x1000''] [], mk_ins 4 ''ret'' [] []])) = []"
  by code_simp

text \<open>A return written as \<open>jalr zero, 0(ra)\<close> and a jump written as \<open>jal zero, f\<close> become calls: the
  disambiguation in the walk sees only the mnemonic \<open>call\<close>.\<close>

lemma jalr_return_is_call:
  "rs_is_call (rv_step_of (rv_lowered (mk_ins 0 ''jalr'' [''zero'', ''0(ra)''] [])))"
  "\<not> rs_is_ret (rv_step_of (rv_lowered (mk_ins 0 ''jalr'' [''zero'', ''0(ra)''] [])))"
  by code_simp+

text \<open>Compressed mnemonics are cut at the dot and never lowered, so their adjustments are missed.\<close>

lemma compressed_never_lowered:
  "rv_lower (mk_ins 0 ''c.addi16sp'' [''sp'', ''-16''] []) = RUnsupported ''c.addi16sp''"
  by code_simp

end
