(* ===== verification/X86_Analysis.thy ===== *)
theory X86_Analysis
  imports X86_Machine
begin

text \<open>
  Forward data-flow analysis over lowered x86-64 instructions: \<open>semasm-x86/src/analysis.rs\<close>. Register
  facts are partial maps; where the code iterates over a hash map the order is an argument. \<open>None\<close>
  is an index out of bounds.
\<close>

section \<open>Abstract values\<close>

datatype abs_val = Uninit | Const int | Conflict

definition abs_join :: "abs_val \<Rightarrow> abs_val \<Rightarrow> abs_val" where
  "abs_join a b = (case (a, b) of
     (Const m, Const n) \<Rightarrow> if m = n then Const m else Conflict
   | (Uninit, Uninit) \<Rightarrow> Uninit
   | _ \<Rightarrow> Conflict)"

record reg_abs =
  ra_value :: abs_val
  ra_width :: width

datatype cmp_context = CmpNone | CmpSigned | CmpUnsigned

datatype mem_provenance = RedZone | StackFrame | FramePointer | UnknownProvenance

record block_state =
  bs_regs :: "gp \<Rightarrow> reg_abs option"
  bs_rsp_delta :: int
  bs_rsp_known :: bool
  bs_cmp :: cmp_context
  bs_memory_known :: bool

definition bottom_state :: block_state where
  "bottom_state = \<lparr>bs_regs = (\<lambda>_. None), bs_rsp_delta = 0, bs_rsp_known = True, bs_cmp = CmpNone, bs_memory_known = True\<rparr>"

definition width_join :: "width \<Rightarrow> width \<Rightarrow> width" where
  "width_join a b = (if width_bits a \<ge> width_bits b then a else b)"

definition reg_join :: "reg_abs option \<Rightarrow> reg_abs option \<Rightarrow> reg_abs option" where
  "reg_join a b = (case b of
     None \<Rightarrow> a
   | Some v \<Rightarrow> (case a of
       Some e \<Rightarrow> Some \<lparr>ra_value = abs_join (ra_value e) (ra_value v), ra_width = width_join (ra_width e) (ra_width v)\<rparr>
     | None \<Rightarrow> Some v))"

definition cmp_join :: "cmp_context \<Rightarrow> cmp_context \<Rightarrow> cmp_context" where
  "cmp_join a b =
     (if a = CmpNone then b else if b = CmpNone then a else if a = b then a else CmpUnsigned)"

definition state_join :: "block_state \<Rightarrow> block_state \<Rightarrow> block_state" where
  "state_join s t =
     \<lparr>bs_regs = (\<lambda>g. reg_join (bs_regs s g) (bs_regs t g)),
      bs_rsp_delta = (if bs_rsp_delta s = bs_rsp_delta t then bs_rsp_delta s else min (bs_rsp_delta s) (bs_rsp_delta t)),
      bs_rsp_known = (bs_rsp_known s \<and> bs_rsp_known t \<and> bs_rsp_delta s = bs_rsp_delta t),
      bs_cmp = cmp_join (bs_cmp s) (bs_cmp t),
      bs_memory_known = (bs_memory_known s \<and> bs_memory_known t)\<rparr>"

section \<open>Blocks and reports\<close>

record block_range =
  br_from :: nat
  br_to :: nat
  br_successors :: "nat list"

datatype note_code =
    ANALYSIS_INCOMPLETE nat
  | REG_CONST gp int nat
  | REG_CONFLICT gp
  | CMP_UNSIGNED
  | MEM_RED_ZONE nat int

record analysis_note =
  an_code :: note_code
  an_block :: nat

datatype analysis_status = AVerified | AIncomplete | AFailed

record coverage =
  cov_total :: nat
  cov_modeled :: nat
  cov_unknown :: nat

datatype mem_kind = MemLoad | MemStore

record mem_access =
  ma_at :: nat
  ma_kind :: mem_kind
  ma_provenance :: mem_provenance
  ma_disp :: int

record analysis_report =
  ar2_status :: analysis_status
  ar2_coverage :: coverage
  ar2_iterations :: nat
  ar2_converged :: bool
  ar2_block_in :: "block_state list"
  ar2_block_out :: "block_state list"
  ar2_mem_accesses :: "mem_access list"
  ar2_notes :: "analysis_note list"

definition mem_provenance_of :: "register option \<Rightarrow> int \<Rightarrow> int \<Rightarrow> mem_provenance" where
  "mem_provenance_of base disp rsp_delta =
     (case base of
        None \<Rightarrow> UnknownProvenance
      | Some b \<Rightarrow>
          if r_storage b = SGp Rsp then
            (let abs = wrap_i64 (rsp_delta + disp) in if abs < 0 \<and> abs \<ge> -128 then RedZone else StackFrame)
          else if r_storage b = SGp Rbp then FramePointer
          else UnknownProvenance)"

definition ends_block :: "lowered_instr \<Rightarrow> bool" where
  "ends_block ins \<longleftrightarrow> li_kind ins \<in> {OpCall, OpReturn, Branch} \<or> li_mnemonic ins \<in> {''syscall'', ''ret'', ''int''}"

definition hard_stop :: "lowered_instr \<Rightarrow> bool" where
  "hard_stop ins \<longleftrightarrow> li_kind ins = OpReturn \<or> li_mnemonic ins \<in> {''ret'', ''syscall'', ''int''}"

definition target_successor :: "(nat \<Rightarrow> nat option) \<Rightarrow> lowered_instr \<Rightarrow> nat list" where
  "target_successor target_block ins =
     (case li_operands ins of
        OImm addr # _ \<Rightarrow> (case target_block (nat \<bar>addr\<bar>) of Some tb \<Rightarrow> [tb] | None \<Rightarrow> [])
      | _ \<Rightarrow> [])"

text \<open>The loop of \<open>build_blocks\<close> over the instructions from index \<open>i\<close> on.\<close>

fun build_blocks_loop :: "(nat \<Rightarrow> nat option) \<Rightarrow> nat \<Rightarrow> nat \<Rightarrow> nat \<Rightarrow> nat \<Rightarrow> lowered_instr list \<Rightarrow> block_range list" where
  "build_blocks_loop target_block n i start block_idx [] =
     (if start < n then [\<lparr>br_from = start, br_to = n, br_successors = []\<rparr>] else [])"
| "build_blocks_loop target_block n i start block_idx (ins # rest) =
     (let successors = target_successor target_block ins @ (if \<not> hard_stop ins \<and> i + 1 < n then [block_idx + 1] else []) in
      if ends_block ins \<or> i + 1 = n then
        \<lparr>br_from = start, br_to = i + 1, br_successors = successors\<rparr> #
          build_blocks_loop target_block n (i + 1) (i + 1) (block_idx + 1) rest
      else build_blocks_loop target_block n (i + 1) start block_idx rest)"

definition build_blocks :: "lowered_instr list \<Rightarrow> (nat \<Rightarrow> nat option) \<Rightarrow> block_range list" where
  "build_blocks instrs target_block =
     (if instrs = [] then [] else build_blocks_loop target_block (length instrs) 0 0 0 instrs)"

section \<open>Transfer\<close>

definition gp_of :: "register \<Rightarrow> gp option" where
  "gp_of r = (case r_storage r of SGp g \<Rightarrow> Some g | _ \<Rightarrow> None)"

definition set_reg :: "gp \<Rightarrow> abs_val \<Rightarrow> width \<Rightarrow> block_state \<Rightarrow> block_state" where
  "set_reg g v w st = st\<lparr>bs_regs := (bs_regs st)(g \<mapsto> \<lparr>ra_value = v, ra_width = w\<rparr>)\<rparr>"

definition set_first :: "(operand list \<Rightarrow> abs_val) \<Rightarrow> operand list \<Rightarrow> block_state \<Rightarrow> block_state" where
  "set_first val ops st = (case ops of
     OReg dst # rest \<Rightarrow> (case r_storage dst of SGp g \<Rightarrow> set_reg g (val rest) (r_width dst) st | _ \<Rightarrow> st)
   | _ \<Rightarrow> st)"

definition moved_value :: "block_state \<Rightarrow> operand list \<Rightarrow> abs_val" where
  "moved_value st rest = (case rest of
     OImm n # _ \<Rightarrow> Const n
   | OReg src # _ \<Rightarrow>
       (case gp_of src of
          None \<Rightarrow> Conflict
        | Some source \<Rightarrow> (case bs_regs st source of None \<Rightarrow> Conflict | Some r \<Rightarrow> ra_value r))
   | _ \<Rightarrow> Conflict)"

definition invalidate_unknown :: "block_state \<Rightarrow> block_state" where
  "invalidate_unknown st =
     (fold (\<lambda>g. set_reg g Conflict B64) all_gp st)\<lparr>bs_cmp := CmpNone, bs_rsp_known := False, bs_memory_known := False\<rparr>"

definition transfer :: "lowered_instr \<Rightarrow> block_state \<Rightarrow> block_state" where
  "transfer ins st = (case li_kind ins of
     OpStore \<Rightarrow>
       (let st1 = set_first (moved_value st) (li_operands ins) st in
        if li_mnemonic ins = ''push'' \<and> bs_rsp_known st1 then st1\<lparr>bs_rsp_delta := wrap_i64 (bs_rsp_delta st1 + 8)\<rparr>
        else if li_mnemonic ins = ''pop'' \<and> bs_rsp_known st1 then st1\<lparr>bs_rsp_delta := wrap_i64 (bs_rsp_delta st1 - 8)\<rparr>
        else st1)
   | OpLoad \<Rightarrow> set_first (\<lambda>_. Conflict) (li_operands ins) st
   | Binary \<Rightarrow> set_first (\<lambda>_. Conflict) (li_operands ins) st
   | Compare \<Rightarrow> st\<lparr>bs_cmp := (if li_signed ins = Some True then CmpSigned else CmpUnsigned)\<rparr>
   | Select \<Rightarrow> set_first (\<lambda>_. Conflict) (li_operands ins) st
   | OpCall \<Rightarrow>
       (let st1 = fold (\<lambda>g. set_reg g Conflict B64) volatile_gp st in
        if bs_rsp_known st1 then st1\<lparr>bs_rsp_delta := wrap_i64 (bs_rsp_delta st1 + 8)\<rparr> else st1)
   | OpUnknown \<Rightarrow> invalidate_unknown st
   | Branch \<Rightarrow> st
   | OpReturn \<Rightarrow> st
   | Nop \<Rightarrow> st)"

section \<open>The worklist\<close>

text \<open>Join of the out-states of the predecessors, in block order.\<close>

definition join_preds :: "nat \<Rightarrow> block_range list \<Rightarrow> block_state list \<Rightarrow> block_state" where
  "join_preds bi blocks block_out =
     (case map snd (filter (\<lambda>(p, st). bi \<in> set (br_successors p)) (zip blocks block_out)) of
        [] \<Rightarrow> bottom_state
      | s # ss \<Rightarrow> fold (\<lambda>t acc. state_join acc t) ss s)"

definition refine_access :: "nat \<Rightarrow> lowered_instr \<Rightarrow> int \<Rightarrow> mem_access \<Rightarrow> mem_access" where
  "refine_access idx ins rsp_at ma =
     (if ma_at ma = idx then
        (case li_operands ins of
           OMem m # _ \<Rightarrow> ma\<lparr>ma_provenance := mem_provenance_of (mo_base m) (mo_disp m) rsp_at\<rparr>
         | _ \<Rightarrow> ma)
      else ma)"

definition block_step :: "nat \<Rightarrow> lowered_instr \<Rightarrow> block_state \<times> mem_access list \<Rightarrow> block_state \<times> mem_access list" where
  "block_step idx ins w = (case w of (out_state, mem) \<Rightarrow>
     (transfer ins out_state, map (refine_access idx ins (bs_rsp_delta out_state)) mem))"

definition process_block :: "nat \<Rightarrow> lowered_instr list \<Rightarrow> block_range list \<Rightarrow> block_state list \<Rightarrow> mem_access list \<Rightarrow>
    (block_state \<times> block_state \<times> mem_access list) option" where
  "process_block bi lowered blocks block_out mem =
     (if bi < length blocks \<and> br_from (blocks ! bi) \<le> br_to (blocks ! bi) \<and> br_to (blocks ! bi) \<le> length lowered then
        (let block = blocks ! bi; in_state = join_preds bi blocks block_out in
         case for_each block_step (br_from block) (take (br_to block - br_from block) (drop (br_from block) lowered)) (in_state, mem) of
           (out_state, mem') \<Rightarrow> Some (in_state, out_state, mem'))
      else None)"

record worklist_state =
  wl_iterations :: nat
  wl_seen :: "nat set"
  wl_converged :: bool
  wl_block_in :: "block_state list"
  wl_block_out :: "block_state list"
  wl_mem :: "mem_access list"

text \<open>Pushing the successors of a block whose state changed.\<close>

definition push_successors :: "nat \<Rightarrow> nat \<Rightarrow> nat list \<Rightarrow> nat list \<times> nat set \<Rightarrow> nat list \<times> nat set" where
  "push_successors n iterations succs w =
     fold (\<lambda>s (worklist, seen).
       if s \<notin> seen \<or> iterations < n * 2 then (worklist @ [s], insert s seen) else (worklist, seen)) succs w"

function analysis_loop :: "lowered_instr list \<Rightarrow> block_range list \<Rightarrow> nat list \<Rightarrow> worklist_state \<Rightarrow> worklist_state option" where
  "analysis_loop lowered blocks [] st = Some st"
| "analysis_loop lowered blocks (bi # worklist) st =
     (let iterations = wl_iterations st + 1 in
      if iterations > length blocks * 4 + 16 then Some (st\<lparr>wl_iterations := iterations, wl_converged := False\<rparr>)
      else
        (case process_block bi lowered blocks (wl_block_out st) (wl_mem st) of
           None \<Rightarrow> None
         | Some (in_state, out_state, mem) \<Rightarrow>
             if out_state \<noteq> wl_block_out st ! bi \<or> wl_block_in st ! bi \<noteq> in_state then
               (case push_successors (length blocks) iterations (br_successors (blocks ! bi)) (worklist, wl_seen st) of
                  (worklist', seen) \<Rightarrow>
                    analysis_loop lowered blocks worklist'
                      \<lparr>wl_iterations = iterations, wl_seen = seen, wl_converged = wl_converged st,
                       wl_block_in = (wl_block_in st)[bi := in_state],
                       wl_block_out = (wl_block_out st)[bi := out_state], wl_mem = mem\<rparr>)
             else analysis_loop lowered blocks worklist (st\<lparr>wl_iterations := iterations, wl_mem := mem\<rparr>)))"
  by pat_completeness auto

termination
  by (relation "measure (\<lambda>(_, blocks, _, st). length blocks * 4 + 17 - wl_iterations st)") (auto simp: Let_def)

definition block_of :: "block_range list \<Rightarrow> nat \<Rightarrow> nat" where
  "block_of blocks at =
     (case find (\<lambda>i. br_from (blocks ! i) \<le> at \<and> at < br_to (blocks ! i)) [0..<length blocks] of Some i \<Rightarrow> i | None \<Rightarrow> 0)"

definition initial_access :: "nat \<times> lowered_instr \<Rightarrow> mem_access list" where
  "initial_access ai = (case ai of (at, ins) \<Rightarrow>
     (case li_operands ins of
        OMem m # _ \<Rightarrow>
          if li_kind ins = OpLoad \<or> li_kind ins = OpStore then
            [\<lparr>ma_at = at, ma_kind = (if li_kind ins = OpLoad then MemLoad else MemStore),
              ma_provenance = mem_provenance_of (mo_base m) (mo_disp m) 0, ma_disp = mo_disp m\<rparr>]
          else []
      | _ \<Rightarrow> []))"

definition unknown_notes :: "block_range list \<Rightarrow> nat \<times> lowered_instr \<Rightarrow> analysis_note list" where
  "unknown_notes blocks ai = (case ai of (at, ins) \<Rightarrow>
     if li_kind ins = OpUnknown then [\<lparr>an_code = ANALYSIS_INCOMPLETE at, an_block = block_of blocks at\<rparr>] else [])"

definition pred_count :: "block_range list \<Rightarrow> nat \<Rightarrow> nat" where
  "pred_count blocks bi = length (filter (\<lambda>p. bi \<in> set (br_successors p)) blocks)"

definition reg_note :: "block_range list \<Rightarrow> nat \<Rightarrow> block_state \<Rightarrow> gp \<Rightarrow> analysis_note list" where
  "reg_note blocks bi st g =
     (case bs_regs st g of
        None \<Rightarrow> []
      | Some ra \<Rightarrow>
          (case ra_value ra of
             Const n \<Rightarrow> [\<lparr>an_code = REG_CONST g n (width_bits (ra_width ra)), an_block = bi\<rparr>]
           | Conflict \<Rightarrow>
               if pred_count blocks bi \<ge> 2 \<or> bi \<in> set (br_successors (blocks ! bi))
               then [\<lparr>an_code = REG_CONFLICT g, an_block = bi\<rparr>] else []
           | Uninit \<Rightarrow> []))"

text \<open>\<open>hash_order\<close> is the order in which the hash map of a block state is iterated.\<close>

definition block_notes :: "gp list \<Rightarrow> block_range list \<Rightarrow> nat \<times> block_state \<Rightarrow> analysis_note list" where
  "block_notes hash_order blocks bst = (case bst of (bi, st) \<Rightarrow>
     concat (map (reg_note blocks bi st) hash_order) @
     (if bs_cmp st = CmpUnsigned \<and> bi > 0 \<and> pred_count blocks bi \<ge> 2
      then [\<lparr>an_code = CMP_UNSIGNED, an_block = bi\<rparr>] else []))"

definition red_zone_note :: "block_range list \<Rightarrow> mem_access \<Rightarrow> analysis_note list" where
  "red_zone_note blocks ma =
     (if ma_provenance ma = RedZone
      then [\<lparr>an_code = MEM_RED_ZONE (ma_at ma) (ma_disp ma), an_block = block_of blocks (ma_at ma)\<rparr>] else [])"

definition worklist_init :: "lowered_instr list \<Rightarrow> block_range list \<Rightarrow> worklist_state" where
  "worklist_init lowered blocks =
     \<lparr>wl_iterations = 0, wl_seen = {}, wl_converged = True,
      wl_block_in = replicate (length blocks) bottom_state, wl_block_out = replicate (length blocks) bottom_state,
      wl_mem = concat (map initial_access (enumerate 0 lowered))\<rparr>"

definition analyze_blocks :: "gp list \<Rightarrow> lowered_instr list \<Rightarrow> block_range list \<Rightarrow> analysis_report option" where
  "analyze_blocks hash_order lowered blocks =
     map_option (\<lambda>st.
       let unknown = length (filter (\<lambda>ins. li_kind ins = OpUnknown) lowered) in
       \<lparr>ar2_status = (if \<not> wl_converged st then AFailed else if unknown > 0 then AIncomplete else AVerified),
        ar2_coverage = \<lparr>cov_total = length lowered, cov_modeled = length lowered - unknown, cov_unknown = unknown\<rparr>,
        ar2_iterations = wl_iterations st, ar2_converged = wl_converged st,
        ar2_block_in = wl_block_in st, ar2_block_out = wl_block_out st, ar2_mem_accesses = wl_mem st,
        ar2_notes = concat (map (unknown_notes blocks) (enumerate 0 lowered)) @
          concat (map (block_notes hash_order blocks) (enumerate 0 (wl_block_out st))) @
          concat (map (red_zone_note blocks) (wl_mem st))\<rparr>)
       (analysis_loop lowered blocks [0..<length blocks] (worklist_init lowered blocks))"

definition analyze_linear :: "gp list \<Rightarrow> lowered_instr list \<Rightarrow> analysis_report option" where
  "analyze_linear hash_order lowered = analyze_blocks hash_order lowered (build_blocks lowered (\<lambda>_. None))"

section \<open>The blocks tile the stream\<close>

fun ranges_tile :: "nat \<Rightarrow> block_range list \<Rightarrow> nat \<Rightarrow> bool" where
  "ranges_tile s [] n \<longleftrightarrow> s = n"
| "ranges_tile s (b # bs) n \<longleftrightarrow> br_from b = s \<and> s < br_to b \<and> ranges_tile (br_to b) bs n"

lemma build_blocks_loop_tile:
  "i + length rest = n \<Longrightarrow> start \<le> i \<Longrightarrow> rest = [] \<longrightarrow> start = n \<Longrightarrow>
     ranges_tile start (build_blocks_loop tb n i start k rest) n"
proof (induction tb n i start k rest rule: build_blocks_loop.induct)
  case (2 tb n i start k ins rest)
  then show ?case by (cases rest) (simp_all add: Let_def)
qed simp

lemma build_blocks_loop_nonempty:
  "i + length rest = n \<Longrightarrow> rest \<noteq> [] \<Longrightarrow> build_blocks_loop tb n i start k rest \<noteq> []"
  by (induction tb n i start k rest rule: build_blocks_loop.induct) (auto simp: Let_def)

lemma target_successor_ran: "s \<in> set (target_successor tb ins) \<Longrightarrow> s \<in> ran tb"
  by (auto simp: target_successor_def ran_def split: list.splits operand.splits option.splits)

lemma build_blocks_loop_successors:
  "i + length rest = n \<Longrightarrow> b \<in> set (build_blocks_loop tb n i start k rest) \<Longrightarrow> s \<in> set (br_successors b) \<Longrightarrow>
     s \<in> ran tb \<or> s < k + length (build_blocks_loop tb n i start k rest)"
proof (induction tb n i start k rest rule: build_blocks_loop.induct)
  case (2 tb n i start k ins rest)
  have "i + 1 < n \<Longrightarrow> build_blocks_loop tb n (i + 1) (i + 1) (k + 1) rest \<noteq> []"
    using 2(3) by (intro build_blocks_loop_nonempty) auto
  then have "i + 1 < n \<Longrightarrow> 0 < length (build_blocks_loop tb n (i + 1) (i + 1) (k + 1) rest)" by blast
  with 2 show ?case by (auto simp: Let_def dest: target_successor_ran split: if_splits)
qed (auto split: if_splits)

lemma ranges_tile_le: "ranges_tile s bs n \<Longrightarrow> s \<le> n"
  by (induction bs arbitrary: s) fastforce+

lemma ranges_tile_bound: "ranges_tile s bs n \<Longrightarrow> b \<in> set bs \<Longrightarrow> s \<le> br_from b \<and> br_from b < br_to b \<and> br_to b \<le> n"
proof (induction bs arbitrary: s)
  case (Cons a bs)
  then show ?case using ranges_tile_le [of "br_to a" bs n] by fastforce
qed simp

lemma build_blocks_tile: "ranges_tile 0 (build_blocks instrs tb) (length instrs)"
  by (simp add: build_blocks_def build_blocks_loop_tile)

text \<open>What \<open>analyze\<close> needs of its blocks not to index out of bounds.\<close>

definition blocks_ok :: "lowered_instr list \<Rightarrow> block_range list \<Rightarrow> bool" where
  "blocks_ok lowered blocks \<longleftrightarrow>
     list_all (\<lambda>b. br_from b \<le> br_to b \<and> br_to b \<le> length lowered \<and> list_all (\<lambda>s. s < length blocks) (br_successors b)) blocks"

lemma build_blocks_ok:
  assumes "\<forall>b \<in> ran tb. b < length (build_blocks instrs tb)"
  shows "blocks_ok instrs (build_blocks instrs tb)"
proof -
  have "s < length (build_blocks instrs tb)" if "b \<in> set (build_blocks instrs tb)" "s \<in> set (br_successors b)" for b s
    using that assms build_blocks_loop_successors [of 0 instrs "length instrs" b tb 0 0 s]
    by (auto simp: build_blocks_def split: if_splits)
  then show ?thesis
    using ranges_tile_bound [OF build_blocks_tile [of instrs tb]]
    by (auto simp: blocks_ok_def list_all_iff intro: less_imp_le)
qed

section \<open>The loop ends\<close>

lemma process_block_total:
  "blocks_ok lowered blocks \<Longrightarrow> bi < length blocks \<Longrightarrow> \<exists>i o' m. process_block bi lowered blocks outs mem = Some (i, o', m)"
  by (auto simp: process_block_def blocks_ok_def list_all_length Let_def split: prod.split)

lemma push_successors_fold: "set (fst (push_successors n it succs w)) \<subseteq> set (fst w) \<union> set succs"
  unfolding push_successors_def
  by (rule fold_invariant [where Q = "\<lambda>s. s \<in> set succs"]) (auto split: if_splits prod.splits)

lemma push_successors_set:
  "push_successors n it succs (wl, seen) = (wl', seen') \<Longrightarrow> set wl' \<subseteq> set wl \<union> set succs"
  using push_successors_fold [of n it succs "(wl, seen)"] by simp

lemma analysis_loop_total:
  assumes "blocks_ok lowered blocks" "\<forall>bi \<in> set worklist. bi < length blocks" "wl_iterations st \<le> length blocks * 4 + 16"
  shows "\<exists>st'. analysis_loop lowered blocks worklist st = Some st' \<and>
    wl_iterations st' \<le> length blocks * 4 + 17"
  using assms
proof (induction lowered blocks worklist st rule: analysis_loop.induct)
  case (2 lowered blocks bi worklist st)
  let ?it = "wl_iterations st + 1"
  show ?case
  proof (cases "?it > length blocks * 4 + 16")
    case True
    then show ?thesis using 2(5) by simp
  next
    case False
    obtain i o' m where pb: "process_block bi lowered blocks (wl_block_out st) (wl_mem st) = Some (i, o', m)"
      using process_block_total 2(3,4) by fastforce
    obtain wl' seen where ps: "push_successors (length blocks) ?it (br_successors (blocks ! bi)) (worklist, wl_seen st) = (wl', seen)"
      by fastforce
    have succs: "\<forall>s \<in> set (br_successors (blocks ! bi)). s < length blocks"
      using 2(3,4) by (auto simp: blocks_ok_def list_all_iff)
    then have "\<forall>b \<in> set wl'. b < length blocks" using push_successors_set [OF ps] 2(4) by auto
    with 2 False pb ps show ?thesis by (auto simp: Let_def)
  qed
qed simp

section \<open>Constants are true\<close>

text \<open>A block state says of the machine that the registers it calls constant have that value. The
  stack pointer is tracked apart and is never called constant.\<close>

definition const_of :: "block_state \<Rightarrow> gp \<Rightarrow> int option" where
  "const_of st g = (case bs_regs st g of Some ra \<Rightarrow> (case ra_value ra of Const n \<Rightarrow> Some n | _ \<Rightarrow> None) | None \<Rightarrow> None)"

definition says_of :: "block_state \<Rightarrow> regs \<Rightarrow> bool" where
  "says_of st s \<longleftrightarrow> const_of st Rsp = None \<and> (\<forall>g n. const_of st g = Some n \<longrightarrow> s g = word_of_int n)"

text \<open>Instructions as \<open>lower\<close> produces them, whose moves write and copy whole registers.\<close>

definition whole_reg :: "register \<Rightarrow> bool" where
  "whole_reg r \<longleftrightarrow> (case r_storage r of SGp g \<Rightarrow> r = full g | _ \<Rightarrow> True)"

fun whole_operands :: "operand list \<Rightarrow> bool" where
  "whole_operands (OReg d # OReg r # _) \<longleftrightarrow> whole_reg d \<and> whole_reg r \<and> r_storage d \<noteq> SGp Rsp"
| "whole_operands (OReg d # _) \<longleftrightarrow> whole_reg d \<and> r_storage d \<noteq> SGp Rsp"
| "whole_operands _ \<longleftrightarrow> True"

definition whole_move :: "lowered_instr \<Rightarrow> bool" where
  "whole_move ins \<longleftrightarrow>
     lower_kind (mn ins) = Some (li_kind ins, li_signed ins) \<and> li_mnemonic ins = mn ins \<and>
     (li_mnemonic ins \<in> {''push'', ''pop''} \<longrightarrow> length (li_operands ins) \<le> 1) \<and>
     (li_mnemonic ins \<in> {''mov'', ''movabs''} \<longrightarrow> whole_operands (li_operands ins))"

lemma whole_operandsD:
  assumes "whole_operands (OReg d # rest)" "r_storage d = SGp g"
  shows "d = full g" "g \<noteq> Rsp" "rest = OReg r # ops \<Longrightarrow> r_storage r = SGp h \<Longrightarrow> r = full h"
  using assms by (cases rest; cases "hd rest"; simp add: whole_reg_def)+

lemma const_of_set_reg:
  "const_of (set_reg g v w st) h = (if h = g then (case v of Const n \<Rightarrow> Some n | _ \<Rightarrow> None) else const_of st h)"
  by (simp add: const_of_def set_reg_def)

lemma const_of_fold_conflict:
  "const_of (fold (\<lambda>g. set_reg g Conflict w) gs st) h = (if h \<in> set gs then None else const_of st h)"
  by (induction gs arbitrary: st) (auto simp: const_of_set_reg)

lemma const_of_update [simp]:
  "const_of (st\<lparr>bs_rsp_delta := d\<rparr>) = const_of st" "const_of (st\<lparr>bs_cmp := c\<rparr>) = const_of st"
  "const_of (st\<lparr>bs_cmp := c, bs_rsp_known := k, bs_memory_known := m\<rparr>) = const_of st"
  by (simp_all add: const_of_def fun_eq_iff)

lemma const_of_set_first:
  "const_of (set_first val ops st) h =
     (case ops of OReg d # rest \<Rightarrow> (if r_storage d = SGp h then (case val rest of Const n \<Rightarrow> Some n | _ \<Rightarrow> None) else const_of st h)
      | _ \<Rightarrow> const_of st h)"
  by (auto simp: set_first_def const_of_set_reg split: list.splits operand.splits storage.splits)

lemma dest_gp_Cons: "li_operands ins = OReg d # rest \<Longrightarrow> h \<in> dest_gp ins \<longleftrightarrow> r_storage d = SGp h"
  by (auto simp: dest_gp_def split: storage.splits)

text \<open>A transfer that forgets the destination is sound for an instruction that changes only that.\<close>

lemma forget_dest_sound:
  assumes "says_of st s" "x86_effect vol ins s s'" "clobbers vol ins \<subseteq> insert Rsp (dest_gp ins)"
  shows "says_of (set_first (\<lambda>_. Conflict) (li_operands ins) st) s'"
proof -
  have keep: "s' g = s g" if "g \<notin> dest_gp ins" "g \<noteq> Rsp" for g
    using assms(2,3) that by (auto simp: x86_effect_def)
  have "const_of (set_first (\<lambda>_. Conflict) (li_operands ins) st) h = (if h \<in> dest_gp ins then None else const_of st h)" for h
    by (cases "li_operands ins" rule: first_reg.cases) (auto simp: const_of_set_first dest_gp_Cons dest_gp_def split: storage.splits)
  with assms(1) keep show ?thesis by (auto simp: says_of_def split: if_splits) (metis option.distinct(1))
qed

lemma kept_sound:
  assumes "says_of st s" "x86_effect vol ins s s'" "clobbers vol ins \<subseteq> {Rsp}" "const_of st' = const_of st"
  shows "says_of st' s'"
proof -
  have "s' g = s g" if "g \<noteq> Rsp" for g using assms(2,3) that by (auto simp: x86_effect_def)
  with assms(1,4) show ?thesis unfolding says_of_def by (metis option.distinct(1))
qed

lemma gp_of_Some [simp]: "gp_of r = Some h \<longleftrightarrow> r_storage r = SGp h"
  by (auto simp: gp_of_def split: storage.splits)

lemma moved_value_const:
  assumes "moved_value st rest = Const n"
  obtains (imm) ops where "rest = OImm n # ops"
    | (reg) r ops h where "rest = OReg r # ops" "r_storage r = SGp h" "const_of st h = Some n"
proof (cases rest)
  case Nil
  then show ?thesis using assms by (simp add: moved_value_def)
next
  case (Cons op ops)
  show ?thesis
  proof (cases op)
    case (OReg r)
    with Cons assms obtain h ra where "gp_of r = Some h" "bs_regs st h = Some ra" "ra_value ra = Const n"
      by (auto simp: moved_value_def split: option.splits)
    then show ?thesis using Cons OReg reg [of r ops h] by (simp add: const_of_def)
  next
    case (OImm m)
    then show ?thesis using Cons assms imm [of ops] by (simp add: moved_value_def)
  next
    case (OMem m)
    then show ?thesis using Cons assms by (simp add: moved_value_def)
  qed
qed

lemma move_sound:
  assumes "says_of st s" "x86_effect vol ins s s'" "whole_move ins" "li_mnemonic ins \<in> {''mov'', ''movabs''}" "li_kind ins = OpStore"
  shows "says_of (set_first (moved_value st) (li_operands ins) st) s'"
proof -
  have m: "mn ins \<in> {''mov'', ''movabs''}" using assms(3,4) by (simp add: whole_move_def)
  then have keep: "s' g = s g" if "g \<notin> dest_gp ins" for g
    using assms(2,5) that by (auto simp: x86_effect_def clobbers_def)
  show ?thesis
  proof (cases "\<exists>d rest g. li_operands ins = OReg d # rest \<and> r_storage d = SGp g")
    case True
    then obtain d rest g where ops0: "li_operands ins = OReg d # rest" "r_storage d = SGp g" by blast
    then have w: "whole_operands (OReg d # rest)" using assms(3,4) by (auto simp: whole_move_def)
    have ops: "li_operands ins = OReg (full g) # rest" "g \<noteq> Rsp"
      using ops0 whole_operandsD(1,2) [OF w ops0(2)] by simp_all
    have "s' g = word_of_int n" if "moved_value st rest = Const n" for n
      using that
    proof (cases rule: moved_value_const)
      case imm
      then show ?thesis using assms(2) ops m by (auto simp: x86_effect_def)
    next
      case (reg r ops' h)
      then have "rest = OReg (full h) # ops'" using whole_operandsD(3) [OF w ops0(2)] by simp
      with reg(3) show ?thesis using assms(1,2) ops m by (auto simp: x86_effect_def says_of_def)
    qed
    moreover have "r_storage (full g) = SGp g" by (simp add: full_def reg_gp_def)
    moreover have "h \<in> dest_gp ins \<longleftrightarrow> h = g" for h
      using dest_gp_Cons [OF ops(1), of h] \<open>r_storage (full g) = SGp g\<close> by auto
    ultimately show ?thesis
      using assms(1) keep ops by (auto simp: says_of_def const_of_set_first split: abs_val.splits if_splits)
  next
    case False
    then have "const_of (set_first (moved_value st) (li_operands ins) st) = const_of st" "dest_gp ins = {}"
      by (cases "li_operands ins" rule: first_reg.cases;
          auto simp: fun_eq_iff const_of_set_first dest_gp_def split: storage.splits)+
    then show ?thesis using assms(1) keep by (simp add: says_of_def)
  qed
qed


lemma transfer_sound:
  assumes "whole_move ins" "says_of st s" "x86_effect (set volatile_gp) ins s s'"
  shows "says_of (transfer ins st) s'"
proof -
  have k: "lower_kind (mn ins) = Some (li_kind ins, li_signed ins)" and m: "li_mnemonic ins = mn ins"
    using assms(1) unfolding whole_move_def by blast+
  note kinds = lower_kind_cases [OF k]
  consider (move) "li_kind ins = OpStore" "li_mnemonic ins \<in> {''mov'', ''movabs''}"
    | (stack) "li_kind ins = OpStore" "li_mnemonic ins \<in> {''push'', ''pop''}"
    | (dest) "li_kind ins \<in> {OpLoad, Binary, Select}" | (keep) "li_kind ins \<in> {Compare, Branch, OpReturn}"
    | (call) "li_kind ins = OpCall" | (unknown) "li_kind ins = OpUnknown"
    using kinds m by (cases "li_kind ins") auto
  then show ?thesis
  proof cases
    case move
    then have "transfer ins st = set_first (moved_value st) (li_operands ins) st" by (auto simp: transfer_def Let_def)
    then show ?thesis using move_sound [OF assms(2,3,1)] move by simp
  next
    case stack
    have "length (li_operands ins) \<le> 1" using assms(1) stack by (auto simp: whole_move_def)
    then have "set_first (moved_value st) (li_operands ins) st = set_first (\<lambda>_. Conflict) (li_operands ins) st"
      by (auto simp: set_first_def moved_value_def split: list.splits operand.splits storage.splits)
    then have "const_of (transfer ins st) = const_of (set_first (\<lambda>_. Conflict) (li_operands ins) st)"
      using stack by (simp add: transfer_def Let_def)
    moreover have "clobbers (set volatile_gp) ins \<subseteq> insert Rsp (dest_gp ins)"
      using stack m by (auto simp: clobbers_def)
    ultimately show ?thesis using forget_dest_sound [OF assms(2,3)] by (simp add: says_of_def)
  next
    case dest
    then have "clobbers (set volatile_gp) ins \<subseteq> insert Rsp (dest_gp ins)"
      using kinds by (auto simp: clobbers_def)
    then show ?thesis using forget_dest_sound [OF assms(2,3)] dest by (auto simp: transfer_def)
  next
    case keep
    then have "clobbers (set volatile_gp) ins \<subseteq> {Rsp}" using kinds by (auto simp: clobbers_def)
    then show ?thesis using kept_sound [OF assms(2,3)] keep by (auto simp: transfer_def)
  next
    case call
    then have "clobbers (set volatile_gp) ins = set volatile_gp" using kinds by (auto simp: clobbers_def)
    moreover have "const_of (transfer ins st) h = (if h \<in> set volatile_gp then None else const_of st h)" for h
      using call by (simp add: transfer_def Let_def const_of_fold_conflict)
    ultimately show ?thesis using assms(2,3) by (auto simp: says_of_def x86_effect_def split: if_splits)
  next
    case unknown
    then have "const_of (transfer ins st) h = None" for h
      by (simp add: transfer_def invalidate_unknown_def const_of_fold_conflict all_gp_all)
    then show ?thesis by (simp add: says_of_def)
  qed
qed


section \<open>Straight-line code\<close>

text \<open>\<open>analyze_linear\<close> knows no branch targets: a block's only successor is the next one. Runs that
  fall through from the entry are the ones it speaks of.\<close>

abbreviation falls :: "lowered_instr list \<Rightarrow> regs \<Rightarrow> nat \<Rightarrow> regs \<Rightarrow> bool" where
  "falls body \<equiv> reaches (x86_effect (set volatile_gp)) x86_stops (\<lambda>_ _. False) body"

definition sound_at :: "lowered_instr list \<Rightarrow> nat \<Rightarrow> block_state \<Rightarrow> bool" where
  "sound_at body i st \<longleftrightarrow> (\<forall>s s'. falls body s i s' \<longrightarrow> says_of st s')"

lemma falls_Suc:
  assumes "falls body s (Suc i) s'"
  obtains m where "falls body s i m" "i < length body" "x86_effect (set volatile_gp) (body ! i) m s'"
  using assms by (cases rule: reaches.cases) auto

lemma says_of_bottom: "says_of bottom_state s"
  by (simp add: says_of_def const_of_def bottom_state_def)

lemma sound_at_bottom: "sound_at body i bottom_state"
  by (simp add: sound_at_def says_of_bottom)

lemma sound_at_range:
  assumes "list_all whole_move body" "sound_at body i st" "i + k \<le> length body"
  shows "sound_at body (i + k) (fst (for_each block_step i (take k (drop i body)) (st, mem)))"
  using assms(2,3)
proof (induction k arbitrary: i st mem)
  case (Suc k)
  have i: "i < length body" using Suc.prems(2) by simp
  have "sound_at body (Suc i) (transfer (body ! i) st)"
    unfolding sound_at_def
  proof (intro allI impI)
    fix s s' assume "falls body s (Suc i) s'"
    then obtain m where "falls body s i m" "x86_effect (set volatile_gp) (body ! i) m s'" by (rule falls_Suc)
    then show "says_of (transfer (body ! i) st) s'"
      using transfer_sound [of "body ! i" st m s'] assms(1) i Suc.prems(1) by (simp add: sound_at_def list_all_length)
  qed
  from Suc.IH [OF this] Suc.prems(2) i show ?case
    by (simp add: Cons_nth_drop_Suc [symmetric] block_step_def)
qed simp

lemma filter_unique:
  "(\<And>i. i < length xs \<Longrightarrow> P (xs ! i) \<Longrightarrow> i = j) \<Longrightarrow>
     filter P xs = (if j < length xs \<and> P (xs ! j) then [xs ! j] else [])"
proof (induction xs arbitrary: j)
  case (Cons a xs)
  show ?case
  proof (cases j)
    case 0
    have "filter P xs = []"
      using Cons.prems [of "Suc i" for i] 0 by (fastforce simp: filter_empty_conv in_set_conv_nth)
    then show ?thesis using 0 by simp
  next
    case (Suc k)
    have "\<not> P a" using Cons.prems [of 0] Suc by auto
    moreover have "filter P xs = (if k < length xs \<and> P (xs ! k) then [xs ! k] else [])"
      using Cons.prems [of "Suc i" for i] Suc by (intro Cons.IH) auto
    ultimately show ?thesis using Suc by simp
  qed
qed simp

definition chained :: "block_range list \<Rightarrow> bool" where
  "chained blocks \<longleftrightarrow> (\<forall>i < length blocks. br_successors (blocks ! i) \<in> {[], [Suc i]})"

lemma build_blocks_loop_chained:
  "j < length (build_blocks_loop (\<lambda>_. None) n i start k body) \<Longrightarrow>
     br_successors (build_blocks_loop (\<lambda>_. None) n i start k body ! j) \<in> {[], [Suc (k + j)]}"
proof (induction body arbitrary: i start k j)
  case (Cons ins body)
  have [simp]: "target_successor (\<lambda>_. None) ins = []"
    by (simp add: target_successor_def split: list.split operand.split)
  show ?case
  proof (cases "ends_block ins \<or> i + 1 = n")
    case True
    then show ?thesis using Cons.prems Cons.IH [of "j - 1" "i + 1" "i + 1" "k + 1"]
      by (cases j) (auto simp: Let_def split: if_splits)
  next
    case False
    then show ?thesis using Cons.prems Cons.IH [of j "i + 1" start k] by (simp add: Let_def)
  qed
qed (simp split: if_splits)

lemma build_blocks_chained: "chained (build_blocks body (\<lambda>_. None))"
  using build_blocks_loop_chained [where k = 0] by (auto simp: chained_def build_blocks_def split: if_splits)

lemma chainedD: "chained blocks \<Longrightarrow> i < length blocks \<Longrightarrow> j \<in> set (br_successors (blocks ! i)) \<Longrightarrow> j = Suc i"
  unfolding chained_def by fastforce

lemma join_preds_chained:
  assumes "chained blocks" "length outs = length blocks"
  shows "join_preds bi blocks outs =
    (if bi - 1 < length blocks \<and> bi \<in> set (br_successors (blocks ! (bi - 1))) then outs ! (bi - 1) else bottom_state)"
proof -
  let ?P = "\<lambda>(p, st :: block_state). bi \<in> set (br_successors p)"
  have "i = bi - 1" if "i < length (zip blocks outs)" "?P (zip blocks outs ! i)" for i
    using that chainedD [OF assms(1), of i bi] by simp
  then have "filter ?P (zip blocks outs) =
      (if bi - 1 < length (zip blocks outs) \<and> ?P (zip blocks outs ! (bi - 1)) then [zip blocks outs ! (bi - 1)] else [])"
    by (rule filter_unique)
  then show ?thesis using assms(2) by (cases "bi - 1 < length blocks") (simp_all add: join_preds_def)
qed

lemma ranges_tile_adjacent:
  "ranges_tile s bs n \<Longrightarrow> Suc j < length bs \<Longrightarrow> br_from (bs ! Suc j) = br_to (bs ! j)"
proof (induction bs arbitrary: s j)
  case (Cons b bs)
  then show ?case by (cases j; cases bs) auto
qed simp


definition outs_sound :: "lowered_instr list \<Rightarrow> block_range list \<Rightarrow> block_state list \<Rightarrow> bool" where
  "outs_sound body blocks outs \<longleftrightarrow>
     length outs = length blocks \<and> (\<forall>k < length blocks. sound_at body (br_to (blocks ! k)) (outs ! k))"

lemma process_block_sound:
  assumes "list_all whole_move body" "chained blocks" "ranges_tile 0 blocks (length body)" "outs_sound body blocks outs"
    and "process_block bi body blocks outs mem = Some (in_state, out_state, mem')"
  shows "sound_at body (br_to (blocks ! bi)) out_state"
proof -
  let ?b = "blocks ! bi"
  have bi: "bi < length blocks" "br_from ?b \<le> br_to ?b" "br_to ?b \<le> length body"
    and in_state: "in_state = join_preds bi blocks outs"
    and out: "out_state = fst (for_each block_step (br_from ?b) (take (br_to ?b - br_from ?b) (drop (br_from ?b) body)) (in_state, mem))"
    using assms(5) by (auto simp: process_block_def Let_def split: if_splits prod.splits)
  have "length outs = length blocks" using assms(4) by (simp add: outs_sound_def)
  from join_preds_chained [OF assms(2) this, of bi] have "sound_at body (br_from ?b) in_state"
    using assms(4) bi(1) ranges_tile_adjacent [OF assms(3), of "bi - 1"] chainedD [OF assms(2), of "bi - 1" bi]
    by (auto simp: outs_sound_def in_state sound_at_bottom)
  from sound_at_range [OF assms(1) this, of "br_to ?b - br_from ?b" mem] show ?thesis using bi out by simp
qed

lemma analysis_loop_sound:
  assumes "list_all whole_move body" "chained blocks" "ranges_tile 0 blocks (length body)" "outs_sound body blocks (wl_block_out st)"
    and "analysis_loop body blocks worklist st = Some st'"
  shows "outs_sound body blocks (wl_block_out st')"
  using assms
proof (induction body blocks worklist st arbitrary: st' rule: analysis_loop.induct)
  case (2 body blocks bi worklist st)
  show ?case
  proof (cases "wl_iterations st + 1 > length blocks * 4 + 16")
    case True
    then show ?thesis using 2(6,7) by auto
  next
    case False
    then obtain i o' m where pb: "process_block bi body blocks (wl_block_out st) (wl_mem st) = Some (i, o', m)"
      using 2(7) by (auto simp: Let_def split: option.splits)
    have "outs_sound body blocks ((wl_block_out st)[bi := o'])"
      using process_block_sound [OF 2(3-6) pb] 2(6) unfolding outs_sound_def by (metis length_list_update nth_list_update_eq nth_list_update_neq)
    with 2 False pb show ?thesis by (auto simp: Let_def split: prod.splits if_splits)
  qed
qed simp

lemma const_note:
  assumes "analyze_blocks hash_order body blocks = Some rep" "\<lparr>an_code = REG_CONST g n w, an_block = k\<rparr> \<in> set (ar2_notes rep)"
  shows "k < length (ar2_block_out rep)" "const_of (ar2_block_out rep ! k) g = Some n"
proof -
  from assms have "\<lparr>an_code = REG_CONST g n w, an_block = k\<rparr> \<in> set (concat (map (block_notes hash_order blocks) (enumerate 0 (ar2_block_out rep))))"
    by (auto simp: analyze_blocks_def Let_def unknown_notes_def red_zone_note_def split: if_splits)
  then obtain j st where j: "(j, st) \<in> set (enumerate 0 (ar2_block_out rep))"
      "\<lparr>an_code = REG_CONST g n w, an_block = k\<rparr> \<in> set (block_notes hash_order blocks (j, st))" by auto
  then obtain h where "\<lparr>an_code = REG_CONST g n w, an_block = k\<rparr> \<in> set (reg_note blocks j st h)"
    by (auto simp: block_notes_def split: if_splits)
  then have "j = k \<and> const_of st g = Some n"
    by (cases "bs_regs st h"; cases "ra_value (the (bs_regs st h))") (auto simp: reg_note_def const_of_def split: if_splits)
  with j(1) show "k < length (ar2_block_out rep)" "const_of (ar2_block_out rep ! k) g = Some n"
    by (auto simp: in_set_enumerate_eq)
qed

text \<open>C28: Over straight-line code of whole-register moves and the other supported instructions,
  a register that the analysis calls constant at the end of a block has that value in every run that
  falls through from the entry to there.\<close>

theorem linear_const_sound:
  assumes "list_all whole_move body" "analyze_linear hash_order body = Some rep"
    and "\<lparr>an_code = REG_CONST g n w, an_block = k\<rparr> \<in> set (ar2_notes rep)"
    and "reaches (x86_effect (set volatile_gp)) x86_stops (\<lambda>_ _. False) body s
      (br_to (build_blocks body (\<lambda>_. None) ! k)) s'"
  shows "s' g = word_of_int n"
proof -
  let ?blocks = "build_blocks body (\<lambda>_. None)"
  obtain st' where st': "analysis_loop body ?blocks [0..<length ?blocks] (worklist_init body ?blocks) = Some st'"
      "ar2_block_out rep = wl_block_out st'"
    using assms(2) by (auto simp: analyze_linear_def analyze_blocks_def Let_def)
  have "outs_sound body ?blocks (wl_block_out (worklist_init body ?blocks))"
    by (simp add: outs_sound_def worklist_init_def sound_at_bottom)
  from analysis_loop_sound [OF assms(1) build_blocks_chained build_blocks_tile this st'(1)]
  have "outs_sound body ?blocks (ar2_block_out rep)" by (simp add: st'(2))
  with const_note [OF assms(2) [unfolded analyze_linear_def] assms(3)] assms(4) show ?thesis
    by (simp add: outs_sound_def sound_at_def says_of_def)
qed


definition wbody :: "lowered_instr list" where
  "wbody =
     [\<lparr>li_mnemonic = ''mov'', li_kind = OpStore, li_width = B64, li_signed = None, li_operands = [OReg (full Rbx), OImm 5]\<rparr>,
      \<lparr>li_mnemonic = ''call'', li_kind = OpCall, li_width = B64, li_signed = None, li_operands = [OImm 64]\<rparr>,
      \<lparr>li_mnemonic = ''mov'', li_kind = OpStore, li_width = B64, li_signed = None, li_operands = [OReg (full R12), OReg (full Rbx)]\<rparr>]"

lemma wbody_run:
  "reaches (x86_effect (set volatile_gp)) x86_stops (\<lambda>_ _. False) wbody (\<lambda>_. 0) 3 ((\<lambda>_. 0)(Rbx := 5, R12 := 5))"
proof -
  let ?r = "reaches (x86_effect (set volatile_gp)) x86_stops (\<lambda>_ _. False) wbody (\<lambda>_. 0)"
  note run = reaches.fall [of "x86_effect (set volatile_gp)" x86_stops "\<lambda>_ _. False" wbody "\<lambda>_. 0"]
  have inj: "full g = full h \<longleftrightarrow> g = h" for g h by (auto simp: full_def reg_gp_def)
  have lc: "to_ascii_lowercase ''mov'' = ''mov''" "to_ascii_lowercase ''call'' = ''call''" by code_simp+
  note defs = lc volatile_gp_def x86_effect_def clobbers_def dest_gp_def wbody_def x86_stops_def inj full_def reg_gp_def
  have "?r (Suc 0) ((\<lambda>_. 0)(Rbx := 5))"
    by (rule run [OF reaches.entry]) (auto simp: defs)
  then have "?r (Suc (Suc 0)) ((\<lambda>_. 0)(Rbx := 5))"
    by (rule run) (auto simp: defs)
  then have "?r (Suc (Suc (Suc 0))) ((\<lambda>_. 0)(Rbx := 5, R12 := 5))"
    by (rule run) (auto simp: defs)
  then show ?thesis by (simp add: eval_nat_numeral)
qed

theorem linear_const_sound_witness:
  "\<exists>rep. analyze_linear all_gp wbody = Some rep \<and>
     \<lparr>an_code = REG_CONST R12 5 64, an_block = 1\<rparr> \<in> set (ar2_notes rep) \<and>
     ((\<lambda>_. 0)(Rbx := 5, R12 := 5)) R12 = (word_of_int 5 :: cell)"
proof -
  have ok: "list_all whole_move wbody" by code_simp
  have "case analyze_linear all_gp wbody of Some rep \<Rightarrow> \<lparr>an_code = REG_CONST R12 5 64, an_block = 1\<rparr> \<in> set (ar2_notes rep) | None \<Rightarrow> False"
    by code_simp
  then obtain rep where rep: "analyze_linear all_gp wbody = Some rep"
      "\<lparr>an_code = REG_CONST R12 5 64, an_block = 1\<rparr> \<in> set (ar2_notes rep)"
    by (auto split: option.splits)
  have "br_to (build_blocks wbody (\<lambda>_. None) ! 1) = 3" by code_simp
  with linear_const_sound [OF ok rep, of "\<lambda>_. 0" "(\<lambda>_. 0)(Rbx := 5, R12 := 5)"] wbody_run rep
  show ?thesis by metis
qed

section \<open>The worklist over straight-line code\<close>

text \<open>What a visit of a block computes, apart from the memory accesses.\<close>

definition block_range_of :: "lowered_instr list \<Rightarrow> block_range \<Rightarrow> lowered_instr list" where
  "block_range_of body b = take (br_to b - br_from b) (drop (br_from b) body)"

definition stable_at :: "lowered_instr list \<Rightarrow> block_range list \<Rightarrow> block_state list \<Rightarrow> block_state list \<Rightarrow> nat \<Rightarrow> bool" where
  "stable_at body blocks ins outs j \<longleftrightarrow>
     ins ! j = join_preds j blocks outs \<and> outs ! j = fold transfer (block_range_of body (blocks ! j)) (ins ! j)"

lemma for_each_block_step: "fst (for_each block_step i xs w) = fold transfer xs (fst w)"
  by (induction xs arbitrary: i w) (auto simp: block_step_def split: prod.splits)

lemma process_block_result:
  assumes "process_block bi body blocks outs mem = Some (in_state, out_state, mem')"
  shows "in_state = join_preds bi blocks outs" "out_state = fold transfer (block_range_of body (blocks ! bi)) in_state"
  using assms for_each_block_step [of "br_from (blocks ! bi)" "block_range_of body (blocks ! bi)"]
  by (auto simp: process_block_def Let_def block_range_of_def split: if_splits prod.splits) (metis fst_conv)+

lemma join_preds_later:
  assumes "chained blocks" "length outs = length blocks" "j \<le> i"
  shows "join_preds j blocks (outs[i := st]) = join_preds j blocks outs"
proof -
  have "j - 1 \<noteq> i" if "j - 1 < length blocks" "j \<in> set (br_successors (blocks ! (j - 1)))"
    using chainedD [OF assms(1) that] assms(3) by simp
  then show ?thesis using assms(2) by (auto simp: join_preds_chained [OF assms(1)])
qed

text \<open>Once every block is stable the worklist drains.\<close>

lemma analysis_loop_drain:
  assumes "blocks_ok body blocks" "\<forall>bi \<in> set worklist. bi < length blocks"
    and "\<forall>j < length blocks. stable_at body blocks (wl_block_in st) (wl_block_out st) j"
    and "wl_iterations st + length worklist \<le> length blocks * 4 + 16"
  shows "\<exists>st'. analysis_loop body blocks worklist st = Some st' \<and> wl_iterations st' = wl_iterations st + length worklist \<and>
    wl_converged st' = wl_converged st \<and> wl_block_in st' = wl_block_in st \<and> wl_block_out st' = wl_block_out st"
  using assms(2-)
proof (induction worklist arbitrary: st)
  case (Cons bi worklist)
  obtain i o' m where pb: "process_block bi body blocks (wl_block_out st) (wl_mem st) = Some (i, o', m)"
    using process_block_total [OF assms(1)] Cons.prems(1) by fastforce
  have "wl_block_in st ! bi = i" "wl_block_out st ! bi = o'"
    using process_block_result [OF pb] Cons.prems(1,2) by (simp_all add: stable_at_def)
  then show ?case using Cons.IH [of "st\<lparr>wl_iterations := wl_iterations st + 1, wl_mem := m\<rparr>"] Cons.prems pb
    by (simp add: Let_def)
qed simp

lemma push_successors_length:
  assumes "push_successors n it succs (wl, seen) = (wl', seen')"
  shows "\<exists>extra. wl' = wl @ extra \<and> length extra \<le> length succs \<and> set extra \<subseteq> set succs"
  using assms unfolding push_successors_def
proof (induction succs arbitrary: wl seen)
  case (Cons s succs)
  then obtain wl1 seen1 where "fold (\<lambda>s (worklist, seen).
       if s \<notin> seen \<or> it < n * 2 then (worklist @ [s], insert s seen) else (worklist, seen)) succs (wl1, seen1) = (wl', seen')"
      "wl1 = wl @ [s] \<or> wl1 = wl"
    by (auto split: if_splits)
  with Cons.IH [of wl1 seen1] show ?case by fastforce
qed simp


lemma stable_at_later:
  assumes "chained blocks" "length outs = length blocks" "j < i"
  shows "stable_at body blocks (ins[i := a]) (outs[i := b]) j \<longleftrightarrow> stable_at body blocks ins outs j"
  using assms by (simp add: stable_at_def join_preds_later)

lemma analysis_loop_pass:
  assumes "blocks_ok body blocks" "chained blocks" "i \<le> length blocks" "length extra \<le> i" "\<forall>b \<in> set extra. b < length blocks"
    and "wl_iterations st = i" "length (wl_block_in st) = length blocks" "length (wl_block_out st) = length blocks"
    and "\<forall>j < i. stable_at body blocks (wl_block_in st) (wl_block_out st) j"
  shows "\<exists>st'. analysis_loop body blocks ([i..<length blocks] @ extra) st = Some st' \<and>
    wl_iterations st' \<le> length blocks * 2 \<and> wl_converged st' = wl_converged st \<and>
    (\<forall>j < length blocks. stable_at body blocks (wl_block_in st') (wl_block_out st') j)"
  using assms(3-)
proof (induction "length blocks - i" arbitrary: i extra st)
  case 0
  then show ?case using analysis_loop_drain [OF assms(1), of extra st] by auto
next
  case (Suc k)
  then have i: "i < length blocks" by simp
  obtain a b m where pb: "process_block i body blocks (wl_block_out st) (wl_mem st) = Some (a, b, m)"
    using process_block_total [OF assms(1) i] by fastforce
  note ab = process_block_result [OF pb]
  obtain wl' seen where ps: "push_successors (length blocks) (i + 1) (br_successors (blocks ! i)) ([Suc i..<length blocks] @ extra, wl_seen st) = (wl', seen)"
    by fastforce
  then obtain new where new: "wl' = [Suc i..<length blocks] @ (extra @ new)" "length new \<le> length (br_successors (blocks ! i))"
      "set new \<subseteq> set (br_successors (blocks ! i))"
    using push_successors_length by fastforce
  have "br_successors (blocks ! i) \<in> {[], [Suc i]}" using assms(2) i by (simp only: chained_def)
  then have len: "length (extra @ new) \<le> Suc i" using new(2) Suc.prems(2) by auto
  have "\<forall>b \<in> set (extra @ new). b < length blocks"
    using new(3) Suc.prems(3) assms(1) nth_mem [OF i] unfolding blocks_ok_def list_all_iff by auto
  note ih = Suc.hyps(1) [of "Suc i", OF _ _ len this]
  let ?st = "\<lparr>wl_iterations = Suc i, wl_seen = seen, wl_converged = wl_converged st,
     wl_block_in = (wl_block_in st)[i := a], wl_block_out = (wl_block_out st)[i := b], wl_mem = m\<rparr>"
  have upt: "[i..<length blocks] = i # [Suc i..<length blocks]" using i by (rule upt_conv_Cons)
  show ?case
  proof (cases "b \<noteq> wl_block_out st ! i \<or> wl_block_in st ! i \<noteq> a")
    case True
    have "\<forall>j < Suc i. stable_at body blocks ((wl_block_in st)[i := a]) ((wl_block_out st)[i := b]) j"
      using Suc.prems(5-7) i ab assms(2)
      by (auto simp: less_Suc_eq stable_at_later) (simp add: stable_at_def join_preds_later)
    then show ?thesis using ih [of ?st] Suc.hyps(2) Suc.prems pb ps True i by (simp add: upt new(1) Let_def)
  next
    case False
    have "\<forall>j < Suc i. stable_at body blocks (wl_block_in st) (wl_block_out st) j"
      using Suc.prems(7) ab False by (auto simp: less_Suc_eq) (simp add: stable_at_def)
    then show ?thesis using Suc.hyps(1) [of "Suc i" extra "st\<lparr>wl_iterations := Suc i, wl_mem := m\<rparr>"] Suc.hyps(2) Suc.prems pb False i
      by (simp add: upt Let_def)
  qed
qed

lemma linear_pass:
  "\<exists>st'. analysis_loop body (build_blocks body (\<lambda>_. None)) [0..<length (build_blocks body (\<lambda>_. None))]
       (worklist_init body (build_blocks body (\<lambda>_. None))) = Some st' \<and>
     wl_iterations st' \<le> length (build_blocks body (\<lambda>_. None)) * 2 \<and> wl_converged st' \<and>
     (\<forall>j < length (build_blocks body (\<lambda>_. None)).
        stable_at body (build_blocks body (\<lambda>_. None)) (wl_block_in st') (wl_block_out st') j)"
proof -
  have "blocks_ok body (build_blocks body (\<lambda>_. None))" by (rule build_blocks_ok) simp
  from analysis_loop_pass [OF this build_blocks_chained, where i = 0 and extra = "[]"
      and st = "worklist_init body (build_blocks body (\<lambda>_. None))"]
  show ?thesis by (simp add: worklist_init_def)
qed

text \<open>C29: The analysis of straight-line code always returns, within two visits per block, at a fixpoint
  of its transfer functions; it is then \<open>Verified\<close> exactly when every instruction is modelled, and the
  coverage counts add up.\<close>

theorem linear_analysis_converges:
  "\<exists>rep. analyze_linear hash_order body = Some rep \<and> ar2_converged rep \<and>
     ar2_iterations rep \<le> 2 * length (build_blocks body (\<lambda>_. None)) \<and>
     list_all (stable_at body (build_blocks body (\<lambda>_. None)) (ar2_block_in rep) (ar2_block_out rep))
       [0..<length (build_blocks body (\<lambda>_. None))] \<and>
     ar2_status rep = (if list_ex (\<lambda>ins. li_kind ins = OpUnknown) body then AIncomplete else AVerified) \<and>
     cov_modeled (ar2_coverage rep) + cov_unknown (ar2_coverage rep) = length body"
proof -
  let ?blocks = "build_blocks body (\<lambda>_. None)"
  obtain st where st: "analysis_loop body ?blocks [0..<length ?blocks] (worklist_init body ?blocks) = Some st"
      "wl_iterations st \<le> length ?blocks * 2" "wl_converged st"
      "\<forall>j < length ?blocks. stable_at body ?blocks (wl_block_in st) (wl_block_out st) j"
    using linear_pass by blast
  have "length (filter (\<lambda>ins. li_kind ins = OpUnknown) body) \<le> length body" by (rule length_filter_le)
  moreover have "filter (\<lambda>ins. li_kind ins = OpUnknown) body = [] \<longleftrightarrow> \<not> list_ex (\<lambda>ins. li_kind ins = OpUnknown) body"
    by (auto simp: filter_empty_conv list_ex_iff)
  ultimately show ?thesis using st by (simp add: analyze_linear_def analyze_blocks_def list_all_iff mult.commute Let_def)
qed

section \<open>Joins form a semilattice\<close>

interpretation vals: semilattice abs_join
proof
  show "abs_join (abs_join a b) c = abs_join a (abs_join b c)" for a b c
    by (cases a; cases b; cases c) (auto simp: abs_join_def)
  show "abs_join a b = abs_join b a" for a b
    by (cases a; cases b) (auto simp: abs_join_def)
  show "abs_join a a = a" for a
    by (cases a) (auto simp: abs_join_def)
qed

interpretation widths: semilattice width_join
proof
  show "width_join (width_join a b) c = width_join a (width_join b c)" for a b c
    by (auto simp: width_join_def)
  show "width_join a b = width_join b a" for a b
    by (cases a; cases b) (auto simp: width_join_def)
  show "width_join a a = a" for a
    by (simp add: width_join_def)
qed

interpretation facts: semilattice reg_join
proof
  show "reg_join (reg_join a b) c = reg_join a (reg_join b c)" for a b c
    by (cases a; cases b; cases c) (simp_all add: reg_join_def vals.assoc widths.assoc)
  show "reg_join a b = reg_join b a" for a b
    by (cases a; cases b) (simp_all add: reg_join_def vals.commute widths.commute)
  show "reg_join a a = a" for a
    by (cases a) (simp_all add: reg_join_def)
qed

interpretation flags: semilattice cmp_join
proof
  show "cmp_join (cmp_join a b) c = cmp_join a (cmp_join b c)" for a b c
    by (cases a; cases b; cases c) (simp_all add: cmp_join_def)
  show "cmp_join a b = cmp_join b a" for a b
    by (cases a; cases b) (simp_all add: cmp_join_def)
  show "cmp_join a a = a" for a
    by (cases a) (simp_all add: cmp_join_def)
qed

interpretation states: semilattice state_join
proof
  show "state_join (state_join a b) c = state_join a (state_join b c)" for a b c
    by (auto simp: state_join_def facts.assoc flags.assoc min_def)
  show "state_join a b = state_join b a" for a b
    by (auto simp: state_join_def facts.commute flags.commute min.commute)
  show "state_join a a = a" for a
    by (cases a) (simp add: state_join_def)
qed

interpretation merge: semilattice_set state_join ..

lemma fold_join_set: "fold (\<lambda>t acc. state_join acc t) ss s = merge.F (set (s # ss))"
proof (induction ss rule: rev_induct)
  case (snoc t ss)
  then show ?case
    using merge.insert_not_elem
    by (cases "t \<in> set (s # ss)")
      (simp_all add: states.commute merge.in_idem insert_absorb insert_commute [of s t])
qed simp

text \<open>The state a block starts from depends only on which states its predecessors end in, not on
  their order or on how many share one: the join is associative, commutative and idempotent.\<close>

theorem merge_order_irrelevant:
  assumes "{st. \<exists>p. (p, st) \<in> set (zip blocks outs) \<and> bi \<in> set (br_successors p)} =
           {st. \<exists>p. (p, st) \<in> set (zip blocks' outs') \<and> bi \<in> set (br_successors p)}"
  shows "join_preds bi blocks outs = join_preds bi blocks' outs'"
proof -
  let ?f = "\<lambda>(blocks :: block_range list) (outs :: block_state list). map snd (filter (\<lambda>(p, st). bi \<in> set (br_successors p)) (zip blocks outs))"
  have "set (?f bs os) = {st. \<exists>p. (p, st) \<in> set (zip bs os) \<and> bi \<in> set (br_successors p)}" for bs and os :: "block_state list"
    by force
  then have eq: "set (?f blocks outs) = set (?f blocks' outs')" using assms by (simp only:)
  have "join_preds bi bs os = (if ?f bs os = [] then bottom_state else merge.F (set (?f bs os)))" for bs os
    by (cases "?f bs os") (simp_all add: join_preds_def fold_join_set)
  then show ?thesis using eq by (metis set_empty)
qed


theorem merge_order_irrelevant_witness:
  "join_preds 2 [\<lparr>br_from = 0, br_to = 1, br_successors = [2]\<rparr>, \<lparr>br_from = 1, br_to = 2, br_successors = [2]\<rparr>]
       [set_reg Rax (Const 1) B64 bottom_state, set_reg Rax (Const 2) B32 bottom_state] =
   join_preds 2 [\<lparr>br_from = 0, br_to = 1, br_successors = [2]\<rparr>, \<lparr>br_from = 1, br_to = 2, br_successors = [2]\<rparr>]
       [set_reg Rax (Const 2) B32 bottom_state, set_reg Rax (Const 1) B64 bottom_state]"
proof -
  have swap: "join_preds 2 [b, c] [s, t] = join_preds 2 [b, c] [t, s]"
    if "2 \<in> set (br_successors b)" "2 \<in> set (br_successors c)" for b c s t
    by (rule merge_order_irrelevant) (use that in auto)
  show ?thesis by (rule swap) simp_all
qed

section \<open>Where the analysis over-claims\<close>

text \<open>Instructions of the examples; jump targets are block numbers.\<close>

definition mov_ri :: "gp \<Rightarrow> int \<Rightarrow> lowered_instr" where
  "mov_ri g n = \<lparr>li_mnemonic = ''mov'', li_kind = OpStore, li_width = B64, li_signed = None, li_operands = [OReg (full g), OImm n]\<rparr>"

definition jump_to :: "string \<Rightarrow> int \<Rightarrow> lowered_instr" where
  "jump_to m b = \<lparr>li_mnemonic = m, li_kind = Branch, li_width = B64, li_signed = None, li_operands = [OImm b]\<rparr>"

definition ret_instr :: lowered_instr where
  "ret_instr = \<lparr>li_mnemonic = ''ret'', li_kind = OpReturn, li_width = B64, li_signed = None, li_operands = []\<rparr>"

text \<open>The worklist drops a revisit once the count reaches twice the blocks, but the report still says
  converged and \<open>Verified\<close>: here the states are not a fixpoint.\<close>

definition dropped_body :: "lowered_instr list" where
  "dropped_body = [jump_to ''je'' 2, mov_ri Rax 1, jump_to ''je'' 2, mov_ri Rax 2, jump_to ''jmp'' 0]"

lemma converged_without_fixpoint:
  "\<exists>rep. analyze_blocks all_gp dropped_body (build_blocks dropped_body (\<lambda>b. if b < 3 then Some b else None)) = Some rep \<and>
     ar2_status rep = AVerified \<and> ar2_converged rep \<and>
     \<not> list_all (stable_at dropped_body (build_blocks dropped_body (\<lambda>b. if b < 3 then Some b else None))
         (ar2_block_in rep) (ar2_block_out rep)) [0..<3]"
proof -
  have "case analyze_blocks all_gp dropped_body (build_blocks dropped_body (\<lambda>b. if b < 3 then Some b else None)) of
      Some rep \<Rightarrow> ar2_status rep = AVerified \<and> ar2_converged rep \<and>
        \<not> list_all (stable_at dropped_body (build_blocks dropped_body (\<lambda>b. if b < 3 then Some b else None))
            (ar2_block_in rep) (ar2_block_out rep)) [0..<3]
    | None \<Rightarrow> False" by code_simp
  then show ?thesis by (auto split: option.splits)
qed

text \<open>A register written on one of two paths is still called constant where they meet.\<close>

definition one_path_body :: "lowered_instr list" where
  "one_path_body = [jump_to ''je'' 2, mov_ri Rax 5, jump_to ''je'' 2, ret_instr]"

lemma one_path_constant:
  "\<exists>rep. analyze_blocks all_gp one_path_body (build_blocks one_path_body (\<lambda>b. if b = 2 then Some 2 else None)) = Some rep \<and>
     ar2_status rep = AVerified \<and> \<lparr>an_code = REG_CONST Rax 5 64, an_block = 2\<rparr> \<in> set (ar2_notes rep)"
proof -
  have "case analyze_blocks all_gp one_path_body (build_blocks one_path_body (\<lambda>b. if b = 2 then Some 2 else None)) of
      Some rep \<Rightarrow> ar2_status rep = AVerified \<and> \<lparr>an_code = REG_CONST Rax 5 64, an_block = 2\<rparr> \<in> set (ar2_notes rep)
    | None \<Rightarrow> False" by code_simp
  then show ?thesis by (auto split: option.splits)
qed

text \<open>\<open>mov ebx, -1; mov rax, rbx\<close> leaves 2 ^ 32 - 1 in \<open>RAX\<close>; the analysis says -1 at 64 bits.\<close>

lemma widened_copy_constant:
  "const_of (fold transfer
      [\<lparr>li_mnemonic = ''mov'', li_kind = OpStore, li_width = B32, li_signed = None, li_operands = [OReg (reg_gp Rbx B32 False), OImm (-1)]\<rparr>,
       \<lparr>li_mnemonic = ''mov'', li_kind = OpStore, li_width = B64, li_signed = None, li_operands = [OReg (full Rax), OReg (full Rbx)]\<rparr>]
      bottom_state) Rax = Some (-1)"
  by code_simp

text \<open>\<open>sub rsp, 16\<close> is not tracked although the state still claims to know the stack pointer.\<close>

lemma rsp_adjustment_untracked:
  "bs_rsp_delta (transfer \<lparr>li_mnemonic = ''sub'', li_kind = Binary, li_width = B64, li_signed = None,
       li_operands = [OReg (full Rsp), OImm 16]\<rparr> bottom_state) = 0 \<and>
   bs_rsp_known (transfer \<lparr>li_mnemonic = ''sub'', li_kind = Binary, li_width = B64, li_signed = None,
       li_operands = [OReg (full Rsp), OImm 16]\<rparr> bottom_state)"
  by code_simp

end
