(* ===== verification/Region_Access.thy ===== *)
theory Region_Access
  imports Alias
begin

text \<open>
  Region-access evidence: \<open>semasm-contract/src/region_access.rs\<close>. Every observed memory access that
  is not a stack spill is matched with the regions declared on its base parameter; the rows are
  folded into an aggregate status. \<open>None\<close> stands for a panic (\<open>unreachable!\<close>, \<open>expect\<close>).
\<close>

datatype region_access_status = RaPassed | RaPassedUnderPreconditions | RaIncomplete | RaFailed

fun region_access_status_as_str :: "region_access_status \<Rightarrow> string" where
  "region_access_status_as_str RaPassed = ''passed''"
| "region_access_status_as_str RaPassedUnderPreconditions = ''passed_under_preconditions''"
| "region_access_status_as_str RaIncomplete = ''incomplete''"
| "region_access_status_as_str RaFailed = ''failed''"

datatype bounds_status = ProvenInside | ProvenOutside | BoundsMayEscape | BoundsUnknown

fun bounds_as_str :: "bounds_status \<Rightarrow> string" where
  "bounds_as_str ProvenInside = ''proven_inside''"
| "bounds_as_str ProvenOutside = ''proven_outside''"
| "bounds_as_str BoundsMayEscape = ''may_escape''"
| "bounds_as_str BoundsUnknown = ''unknown''"

datatype permission_status = Allowed | Denied | PermUnknown

fun permission_as_str :: "permission_status \<Rightarrow> string" where
  "permission_as_str Allowed = ''allowed''"
| "permission_as_str Denied = ''denied''"
| "permission_as_str PermUnknown = ''unknown''"

record memory_access_evidence =
  me_instruction_offset :: nat
  me_operation :: access_mode
  me_width :: nat
  me_address :: string
  me_region :: "string option"
  me_bounds :: bounds_status
  me_permission :: permission_status
  me_evidence_basis :: relation_evidence_basis

record region_access_report =
  rr_model :: string
  rr_status :: region_access_status
  rr_accesses_total :: nat
  rr_accesses_proven_inside :: nat
  rr_accesses_unknown :: nat
  rr_accesses :: "memory_access_evidence list"

section \<open>Judging one access\<close>

datatype region_class = Inside | Outside | ClassMayEscape

definition classify_vs_region :: "checked_region \<Rightarrow> int \<Rightarrow> int \<Rightarrow> region_class" where
  "classify_vs_region region access_lo access_hi =
     (let region_lo = cr_offset region in
      case cr_length region of
        Literal len \<Rightarrow>
          (let region_hi = saturating_add_unsigned (cr_offset region) len in
           if access_lo \<ge> region_lo \<and> access_hi \<le> region_hi then Inside
           else if access_hi \<le> region_lo \<or> access_lo \<ge> region_hi then Outside
           else ClassMayEscape)
      | Param _ \<Rightarrow>
          (if access_lo = region_lo then ClassMayEscape
           else if access_hi \<le> region_lo then Outside
           else ClassMayEscape))"

text \<open>\<open>iter().find(allowed).or_else(first).expect(..)\<close>.\<close>

definition pick_region :: "access_mode \<Rightarrow> checked_region list \<Rightarrow> checked_region option" where
  "pick_region mode rs =
     (case find (\<lambda>r. access_allowed (cr_access r) mode) rs of
        Some r \<Rightarrow> Some r
      | None \<Rightarrow> (case rs of [] \<Rightarrow> None | r # _ \<Rightarrow> Some r))"

definition evidence_row :: "observed_memory_access \<Rightarrow> string \<Rightarrow> string option \<Rightarrow> bounds_status \<Rightarrow>
    permission_status \<Rightarrow> relation_evidence_basis \<Rightarrow> memory_access_evidence" where
  "evidence_row access address region bounds permission basis =
     \<lparr>me_instruction_offset = oa_instruction_offset access, me_operation = oa_mode access,
      me_width = oa_width_bytes access, me_address = address, me_region = region,
      me_bounds = bounds, me_permission = permission, me_evidence_basis = basis\<rparr>"

definition permission_of :: "checked_region \<Rightarrow> observed_memory_access \<Rightarrow> permission_status" where
  "permission_of region access = (if access_allowed (cr_access region) (oa_mode access) then Allowed else Denied)"

definition evidence_proven_inside :: "observed_memory_access \<Rightarrow> string \<Rightarrow> checked_region list \<Rightarrow>
    memory_access_evidence option" where
  "evidence_proven_inside access address inside =
     map_option (\<lambda>region.
       evidence_row access address (Some (cr_name region)) ProvenInside (permission_of region access) ProvenStatic)
     (pick_region (oa_mode access) inside)"

definition evidence_may_escape :: "observed_memory_access \<Rightarrow> string \<Rightarrow> checked_region list \<Rightarrow>
    memory_access_evidence option" where
  "evidence_may_escape access address candidates =
     map_option (\<lambda>region.
       let permission = permission_of region access;
           under_length_precondition =
             (case cr_length region of Param _ \<Rightarrow> True | Literal _ \<Rightarrow> False) \<and> permission = Allowed in
       evidence_row access address (Some (cr_name region)) BoundsMayEscape permission
         (if under_length_precondition then DeclaredPrecondition else UnknownBasis))
     (pick_region (oa_mode access) candidates)"

definition judge_affine_access :: "checked_memory \<Rightarrow> observed_memory_access \<Rightarrow> string \<Rightarrow> int \<Rightarrow>
    memory_access_evidence option" where
  "judge_affine_access memory access base_param offset =
     (let address = (if offset = 0 then base_param else base_param @ show_int_plus offset);
          candidates = filter (\<lambda>r. cr_base_param r = base_param) (cm_regions memory) in
      if candidates = [] then
        Some (evidence_row access address None BoundsUnknown PermUnknown UnknownBasis)
      else
        let width = int (oa_width_bytes access);
            access_lo = offset;
            access_hi = saturating_add offset width;
            (inside, any_may, all_outside) =
              fold (\<lambda>region (inside, any_may, all_outside).
                case classify_vs_region region access_lo access_hi of
                  Inside \<Rightarrow> (inside @ [region], any_may, False)
                | Outside \<Rightarrow> (inside, any_may, all_outside)
                | ClassMayEscape \<Rightarrow> (inside, True, False)) candidates ([], False, True) in
        if inside \<noteq> [] then evidence_proven_inside access address inside
        else if all_outside \<and> \<not> any_may then
          Some (evidence_row access address None ProvenOutside PermUnknown ProvenStatic)
        else evidence_may_escape access address candidates)"

definition judge_indexed_access :: "checked_memory \<Rightarrow> observed_memory_access \<Rightarrow> string \<Rightarrow> nat \<Rightarrow> int \<Rightarrow>
    memory_access_evidence option" where
  "judge_indexed_access memory access base_param scale displacement =
     (let address = base_param @ ''+index*'' @ show_nat scale @ show_int_plus displacement;
          candidates = filter (\<lambda>r. cr_base_param r = base_param) (cm_regions memory) in
      if candidates = [] then
        Some (evidence_row access address None BoundsUnknown PermUnknown UnknownBasis)
      else map_option (\<lambda>region.
        let permission = permission_of region access in
        if permission = Denied then
          evidence_row access address (Some (cr_name region)) BoundsMayEscape permission ProvenStatic
        else
          evidence_row access address (Some (cr_name region)) BoundsMayEscape permission DeclaredPrecondition)
        (pick_region (oa_mode access) candidates))"

definition judge_indexed_range_access :: "checked_memory \<Rightarrow> observed_memory_access \<Rightarrow> string \<Rightarrow> nat \<Rightarrow> int \<Rightarrow>
    nat \<Rightarrow> memory_access_evidence option" where
  "judge_indexed_range_access memory access base_param scale displacement max_exclusive =
     (if max_exclusive = 0 then judge_indexed_access memory access base_param scale displacement
      else
        let scale_i = int scale;
            max_index = i64_from_or_max (max_exclusive - 1);
            lo = displacement;
            hi = saturating_add (saturating_mul max_index scale_i) displacement in
        case judge_affine_access memory access base_param lo of
          None \<Rightarrow> None
        | Some lo_ev \<Rightarrow>
            (case judge_affine_access memory access base_param hi of
               None \<Rightarrow> None
             | Some hi_ev \<Rightarrow>
                 if me_bounds lo_ev = ProvenInside \<and> me_bounds hi_ev = ProvenInside \<and>
                    me_permission lo_ev = Allowed \<and> me_permission hi_ev = Allowed then
                   Some (evidence_row access
                     (base_param @ ''+[0..'' @ show_nat max_exclusive @ '')*'' @ show_nat scale @
                        show_int_plus displacement)
                     (case me_region hi_ev of Some r \<Rightarrow> Some r | None \<Rightarrow> me_region lo_ev)
                     ProvenInside Allowed ProvenStatic)
                 else judge_indexed_access memory access base_param scale displacement))"

definition judge_access :: "checked_memory \<Rightarrow> observed_memory_access \<Rightarrow> memory_access_evidence option" where
  "judge_access memory access =
     (case oa_addr access of
        UnknownAddr \<Rightarrow>
          Some (evidence_row access ''unknown'' None BoundsUnknown PermUnknown UnknownBasis)
      | StackFrame \<Rightarrow> None
      | Affine base_param offset \<Rightarrow> judge_affine_access memory access base_param offset
      | Indexed base_param scale displacement index_const index_max_exclusive \<Rightarrow>
          (case index_const of
             Some c \<Rightarrow>
               judge_affine_access memory access base_param
                 (saturating_add (saturating_mul (i64_from_or_max c) (int scale)) displacement)
           | None \<Rightarrow>
               (case index_max_exclusive of
                  Some max_excl \<Rightarrow>
                    judge_indexed_range_access memory access base_param scale displacement max_excl
                | None \<Rightarrow> judge_indexed_access memory access base_param scale displacement)))"

section \<open>The evaluation\<close>

text \<open>The rows in order; a panic in one of them is a panic of the whole.\<close>

fun judge_all :: "checked_memory \<Rightarrow> observed_memory_access list \<Rightarrow> memory_access_evidence list option" where
  "judge_all memory [] = Some []"
| "judge_all memory (access # rest) =
     (if oa_addr access = StackFrame then judge_all memory rest
      else (case judge_access memory access of
              None \<Rightarrow> None
            | Some row \<Rightarrow> map_option (\<lambda>rows. row # rows) (judge_all memory rest)))"

definition access_tally :: "memory_access_evidence \<Rightarrow> bool \<times> bool \<times> bool \<Rightarrow> bool \<times> bool \<times> bool" where
  "access_tally row st = (case st of (failed, incomplete, under_pre) \<Rightarrow>
     if me_bounds row = ProvenOutside \<or> me_permission row = Denied then (True, incomplete, under_pre)
     else if me_bounds row = BoundsUnknown \<or> me_permission row = PermUnknown then (failed, True, under_pre)
     else if me_bounds row = BoundsMayEscape then
       (if me_evidence_basis row = DeclaredPrecondition \<and> me_permission row = Allowed
        then (failed, incomplete, True) else (failed, True, under_pre))
     else if me_bounds row \<noteq> ProvenInside \<or> me_permission row \<noteq> Allowed then (failed, True, under_pre)
     else (failed, incomplete, under_pre))"

definition region_access_status_of :: "memory_access_evidence list \<Rightarrow> region_access_status" where
  "region_access_status_of rows =
     (let accesses_unknown = length (filter (\<lambda>r. me_bounds r = BoundsUnknown \<or> me_permission r = PermUnknown) rows);
          (any_failed, any_incomplete, any_under_preconditions) =
            fold access_tally rows (False, False, False) in
      if any_failed then RaFailed
      else if any_incomplete \<or> accesses_unknown > 0 then RaIncomplete
      else if any_under_preconditions then RaPassedUnderPreconditions
      else RaPassed)"

definition evaluate_region_access :: "checked_memory \<Rightarrow> observed_memory_access list \<Rightarrow> region_access_report option" where
  "evaluate_region_access memory accesses =
     map_option (\<lambda>rows.
       \<lparr>rr_model = ''region-access-affine-v1'', rr_status = region_access_status_of rows,
        rr_accesses_total = length rows,
        rr_accesses_proven_inside = length (filter (\<lambda>r. me_bounds r = ProvenInside) rows),
        rr_accesses_unknown =
          length (filter (\<lambda>r. me_bounds r = BoundsUnknown \<or> me_permission r = PermUnknown) rows),
        rr_accesses = rows\<rparr>)
     (judge_all memory accesses)"

section \<open>The aggregate status\<close>

fun access_verdict :: "memory_access_evidence \<Rightarrow> verdict" where
  "access_verdict row =
     (if me_bounds row = ProvenOutside \<or> me_permission row = Denied then Refuted
      else if me_bounds row = ProvenInside \<and> me_permission row = Allowed then Proved
      else if me_bounds row = BoundsMayEscape \<and> me_evidence_basis row = DeclaredPrecondition \<and>
              me_permission row = Allowed then Owed
      else Open)"

fun region_access_rank :: "region_access_status \<Rightarrow> nat" where
  "region_access_rank RaPassed = 0"
| "region_access_rank RaPassedUnderPreconditions = 1"
| "region_access_rank RaIncomplete = 2"
| "region_access_rank RaFailed = 3"

declare access_verdict.simps [simp del]

lemma access_tally_verdict:
  "access_tally row (f, i, u) =
     (f \<or> access_verdict row = Refuted, i \<or> access_verdict row = Open, u \<or> access_verdict row = Owed)"
  by (cases "me_bounds row"; cases "me_permission row") (auto simp: access_tally_def access_verdict.simps)

lemma fold_access_tally:
  "fold access_tally rows (f, i, u) =
     (f \<or> Refuted \<in> access_verdict ` set rows, i \<or> Open \<in> access_verdict ` set rows,
      u \<or> Owed \<in> access_verdict ` set rows)"
  by (induction rows arbitrary: f i u) (auto simp: access_tally_verdict)

lemma unknown_row_verdict:
  "me_bounds r = BoundsUnknown \<or> me_permission r = PermUnknown \<Longrightarrow> access_verdict r = Open \<or> access_verdict r = Refuted"
  by (auto simp: access_verdict.simps)

lemma region_access_status_rank:
  "region_access_rank (region_access_status_of rows) = worst (access_verdict ` set rows)"
proof -
  have "length (filter (\<lambda>r. me_bounds r = BoundsUnknown \<or> me_permission r = PermUnknown) rows) > 0 \<Longrightarrow>
      Open \<in> access_verdict ` set rows \<or> Refuted \<in> access_verdict ` set rows"
    using unknown_row_verdict by (force simp: filter_empty_conv)
  then show ?thesis
    by (auto simp: region_access_status_of_def Let_def fold_access_tally worst_def)
qed

interpretation access_slice: fail_closed access_verdict region_access_status_of region_access_rank
  by unfold_locales (rule region_access_status_rank)

section \<open>No panic\<close>

lemma pick_region_in: "pick_region mode rs = Some r \<Longrightarrow> r \<in> set rs"
  by (auto simp: pick_region_def find_Some_iff split: option.splits list.splits)

lemma pick_region_defined: "rs \<noteq> [] \<Longrightarrow> \<exists>r. pick_region mode rs = Some r"
  by (auto simp: pick_region_def neq_Nil_conv split: option.split)

lemma pick_region_allowed:
  "pick_region mode rs = Some r \<Longrightarrow> access_allowed (cr_access r) mode \<longleftrightarrow> (\<exists>r \<in> set rs. access_allowed (cr_access r) mode)"
  by (force simp: pick_region_def find_None_iff find_Some_iff split: option.splits list.splits)

lemma classify_fold:
  "fold (\<lambda>region (inside, any_may, all_outside).
      case classify_vs_region region lo hi of
        Inside \<Rightarrow> (inside @ [region], any_may, False)
      | Outside \<Rightarrow> (inside, any_may, all_outside)
      | ClassMayEscape \<Rightarrow> (inside, True, False)) rs (acc, m, out) =
   (acc @ filter (\<lambda>r. classify_vs_region r lo hi = Inside) rs,
    m \<or> (\<exists>r \<in> set rs. classify_vs_region r lo hi = ClassMayEscape),
    out \<and> (\<forall>r \<in> set rs. classify_vs_region r lo hi = Outside))"
  by (induction rs arbitrary: acc m out) (auto split: region_class.split)

text \<open>The candidates of an access and the classes of the code, as the case analysis every lemma on
  \<open>judge_affine_access\<close> uses.\<close>

definition candidates :: "checked_memory \<Rightarrow> string \<Rightarrow> checked_region list" where
  "candidates m base = filter (\<lambda>r. cr_base_param r = base) (cm_regions m)"

lemma candidates_iff [simp]: "r \<in> set (candidates m base) \<longleftrightarrow> r \<in> set (cm_regions m) \<and> cr_base_param r = base"
  by (auto simp: candidates_def)

definition inside_regions :: "checked_memory \<Rightarrow> observed_memory_access \<Rightarrow> string \<Rightarrow> int \<Rightarrow> checked_region list" where
  "inside_regions m a base off =
     filter (\<lambda>r. classify_vs_region r off (saturating_add off (int (oa_width_bytes a))) = Inside) (candidates m base)"

lemma judge_affine_cases:
  obtains (no_candidate) "candidates m base = []"
      "\<exists>s. judge_affine_access m a base off = Some (evidence_row a s None BoundsUnknown PermUnknown UnknownBasis)"
  | (inside) r where "inside_regions m a base off \<noteq> []" "pick_region (oa_mode a) (inside_regions m a base off) = Some r"
      "\<exists>s. judge_affine_access m a base off =
         Some (evidence_row a s (Some (cr_name r)) ProvenInside (permission_of r a) ProvenStatic)"
  | (outside) "candidates m base \<noteq> []"
      "\<forall>r \<in> set (candidates m base). classify_vs_region r off (saturating_add off (int (oa_width_bytes a))) = Outside"
      "\<exists>s. judge_affine_access m a base off = Some (evidence_row a s None ProvenOutside PermUnknown ProvenStatic)"
  | (may) r where "inside_regions m a base off = []" "pick_region (oa_mode a) (candidates m base) = Some r"
      "\<exists>s b. judge_affine_access m a base off = Some (evidence_row a s (Some (cr_name r)) BoundsMayEscape (permission_of r a) b)"
proof -
  let ?C = "\<lambda>r. classify_vs_region r off (saturating_add off (int (oa_width_bytes a)))"
  have unfold: "judge_affine_access m a base off =
     (let address = (if off = 0 then base else base @ show_int_plus off) in
      if candidates m base = [] then Some (evidence_row a address None BoundsUnknown PermUnknown UnknownBasis)
      else if inside_regions m a base off \<noteq> [] then evidence_proven_inside a address (inside_regions m a base off)
      else if (\<forall>r \<in> set (candidates m base). ?C r = Outside)
        then Some (evidence_row a address None ProvenOutside PermUnknown ProvenStatic)
      else evidence_may_escape a address (candidates m base))"
    unfolding judge_affine_access_def Let_def classify_fold
    by (auto simp flip: candidates_def inside_regions_def)
  show thesis
  proof (cases "candidates m base = []")
    case True then show ?thesis by (intro no_candidate) (auto simp: unfold Let_def)
  next
    case cand: False
    show ?thesis
    proof (cases "inside_regions m a base off = []")
      case False
      then obtain r where "pick_region (oa_mode a) (inside_regions m a base off) = Some r"
        using pick_region_defined by blast
      then show ?thesis using False cand
        by (intro inside) (auto simp: unfold Let_def evidence_proven_inside_def)
    next
      case none: True
      obtain r where r: "pick_region (oa_mode a) (candidates m base) = Some r"
        using pick_region_defined cand by blast
      show ?thesis
      proof (cases "\<forall>r \<in> set (candidates m base). ?C r = Outside")
        case True then show ?thesis using cand none by (intro outside) (auto simp: unfold Let_def)
      next
        case False
        then have "\<exists>s b. judge_affine_access m a base off =
            Some (evidence_row a s (Some (cr_name r)) BoundsMayEscape (permission_of r a) b)"
          using cand none r unfolding unfold Let_def evidence_may_escape_def by (simp del: candidates_iff) metis
        then show ?thesis using none r by (intro may)
      qed
    qed
  qed
qed

lemma judge_indexed_cases:
  obtains (no_candidate) "candidates m base = []"
      "\<exists>s. judge_indexed_access m a base sc d = Some (evidence_row a s None BoundsUnknown PermUnknown UnknownBasis)"
  | (matched) r where "pick_region (oa_mode a) (candidates m base) = Some r"
      "\<exists>s b. judge_indexed_access m a base sc d =
         Some (evidence_row a s (Some (cr_name r)) BoundsMayEscape (permission_of r a) b)"
proof (cases "candidates m base = []")
  case True
  then show ?thesis by (intro no_candidate) (auto simp: judge_indexed_access_def Let_def simp flip: candidates_def)
next
  case False
  then obtain r where r: "pick_region (oa_mode a) (candidates m base) = Some r"
    using pick_region_defined by blast
  show ?thesis
    by (rule matched [OF r]) (use False r in \<open>auto simp: judge_indexed_access_def Let_def simp flip: candidates_def\<close>)
qed

lemma judge_affine_defined [simp]: "(judge_affine_access m a base off = None) = False"
  by (rule judge_affine_cases [of m base a off]) auto

lemma judge_indexed_defined [simp]: "(judge_indexed_access m a base sc d = None) = False"
  by (rule judge_indexed_cases [of m base a sc d]) auto

lemma judge_total [simp]:
  "\<exists>y. judge_affine_access m a base off = Some y" "\<exists>y. judge_indexed_access m a base sc d = Some y"
  using judge_affine_defined judge_indexed_defined by (metis not_None_eq)+

lemma judge_access_defined: "judge_access m a = None \<longleftrightarrow> oa_addr a = StackFrame"
  by (auto simp: judge_access_def judge_indexed_range_access_def Let_def split: access_addr.splits option.splits if_splits)

lemma judge_all_eq:
  "judge_all m accs = Some (map (\<lambda>a. the (judge_access m a)) (filter (\<lambda>a. oa_addr a \<noteq> StackFrame) accs))"
  by (induction accs) (auto simp: judge_access_defined split: option.split)

section \<open>What the rows claim\<close>

text \<open>The index values an address form stands for, and the bytes it touches at one of them.\<close>

fun index_admissible :: "access_addr \<Rightarrow> nat \<Rightarrow> bool" where
  "index_admissible (Indexed _ _ _ (Some c) _) i \<longleftrightarrow> i = c"
| "index_admissible (Indexed _ _ _ None (Some bound)) i \<longleftrightarrow> i < bound"
| "index_admissible _ i \<longleftrightarrow> True"

fun access_base :: "access_addr \<Rightarrow> string option" where
  "access_base (Affine b _) = Some b"
| "access_base (Indexed b _ _ _ _) = Some b"
| "access_base _ = None"

fun access_offset :: "access_addr \<Rightarrow> nat \<Rightarrow> int" where
  "access_offset (Affine _ off) i = off"
| "access_offset (Indexed _ sc d _ _) i = int i * int sc + d"
| "access_offset _ i = 0"

definition span_bytes :: "layout \<Rightarrow> string \<Rightarrow> int \<Rightarrow> nat \<Rightarrow> int set" where
  "span_bytes L base off w = {lo_addr L base + off ..< lo_addr L base + off + int w}"

text \<open>The access lies in a declared region of its base that permits its mode.\<close>

definition access_within :: "layout \<Rightarrow> checked_memory \<Rightarrow> observed_memory_access \<Rightarrow> nat \<Rightarrow> bool" where
  "access_within L m a i \<longleftrightarrow> (\<exists>base r. access_base (oa_addr a) = Some base \<and> r \<in> set (candidates m base) \<and>
     access_allowed (cr_access r) (oa_mode a) \<and>
     span_bytes L base (access_offset (oa_addr a) i) (oa_width_bytes a) \<subseteq> region_bytes L r)"

text \<open>The ranges in which the engine's saturating arithmetic is exact.\<close>

definition bounded_region :: "checked_region \<Rightarrow> bool" where
  "bounded_region r \<longleftrightarrow> in_i64 (cr_offset r) \<and>
     (case cr_length r of Literal n \<Rightarrow> cr_offset r + int n < i64_max | Param _ \<Rightarrow> True)"

fun bounded_addr :: "access_addr \<Rightarrow> bool" where
  "bounded_addr (Affine _ off) \<longleftrightarrow> in_i64 off"
| "bounded_addr (Indexed _ sc d c bound) \<longleftrightarrow> in_i64 d \<and>
     (case c of Some c \<Rightarrow> int c * int sc \<le> i64_max
      | None \<Rightarrow> (case bound of Some b \<Rightarrow> int (b - 1) * int sc \<le> i64_max | None \<Rightarrow> True))"
| "bounded_addr _ \<longleftrightarrow> True"

definition single_region :: "checked_memory \<Rightarrow> string \<Rightarrow> bool" where
  "single_region m base \<longleftrightarrow> (\<forall>r \<in> set (candidates m base). \<forall>r' \<in> set (candidates m base). r = r')"

text \<open>A range-guarded index is judged at its two ends only, possibly against two regions; the
  claim about the indices between them needs the base to have one region.\<close>

fun range_unambiguous :: "checked_memory \<Rightarrow> access_addr \<Rightarrow> bool" where
  "range_unambiguous m (Indexed base _ _ None (Some _)) \<longleftrightarrow> single_region m base"
| "range_unambiguous m _ \<longleftrightarrow> True"

lemma folded_index:
  assumes "int c * int sc \<le> i64_max"
  shows "saturating_mul (i64_from_or_max c) (int sc) = int c * int sc"
proof (cases "sc = 0")
  case False
  then have "int c \<le> int c * int sc" by (simp add: mult_le_cancel_left1)
  then have "int c \<le> i64_max" using assms by simp
  moreover have "i64_min \<le> 0" by (simp add: i64_min_def)
  then have "i64_min \<le> int c * int sc" by (rule order_trans) simp
  ultimately show ?thesis using assms
    by (simp add: i64_from_or_max_def i64_try_from_def saturating_mul_def clamp_i64_def)
qed (simp add: saturating_mul_def rust_int)

lemma inside_span:
  assumes "classify_vs_region r off (saturating_add off (int w)) = Inside" "bounded_region r" "i64_min \<le> off"
  obtains n where "cr_length r = Literal n" "cr_offset r \<le> off" "off + int w \<le> cr_offset r + int n"
  using assms
  by (auto simp: classify_vs_region_def bounded_region_def saturating_add_def saturating_add_unsigned_def
      clamp_i64_def in_i64_def Let_def split: length_spec.splits if_splits)

lemma span_subset:
  "cr_length r = Literal n \<Longrightarrow> cr_base_param r = base \<Longrightarrow> cr_offset r \<le> off \<Longrightarrow> off + int w \<le> cr_offset r + int n \<Longrightarrow>
   span_bytes L base off w \<subseteq> region_bytes L r"
  by (auto simp: span_bytes_def region_bytes_def region_lo_def length_in_def)

lemma affine_proved:
  assumes "judge_affine_access m a base off = Some row" "access_verdict row = Proved"
  obtains r where "r \<in> set (candidates m base)" "access_allowed (cr_access r) (oa_mode a)"
    "classify_vs_region r off (saturating_add off (int (oa_width_bytes a))) = Inside"
proof (rule judge_affine_cases [of m base a off])
  fix r assume "pick_region (oa_mode a) (inside_regions m a base off) = Some r"
    and "\<exists>s. judge_affine_access m a base off =
         Some (evidence_row a s (Some (cr_name r)) ProvenInside (permission_of r a) ProvenStatic)"
  with assms pick_region_in [OF this(1)] that [of r] show thesis
    by (auto simp: access_verdict.simps evidence_row_def permission_of_def inside_regions_def split: if_splits)
qed (use assms in \<open>auto simp: access_verdict.simps evidence_row_def split: if_splits\<close>)

lemma indexed_not_proved:
  "judge_indexed_access m a base sc d = Some row \<Longrightarrow> access_verdict row \<noteq> Proved"
  by (rule judge_indexed_cases [of m base a sc d]) (auto simp: access_verdict.simps evidence_row_def)

lemma affine_within:
  assumes "judge_affine_access m a base off = Some row" "access_verdict row = Proved"
    "\<forall>r \<in> set (cm_regions m). bounded_region r" "i64_min \<le> off"
  shows "\<exists>r \<in> set (candidates m base). access_allowed (cr_access r) (oa_mode a) \<and>
    span_bytes L base off (oa_width_bytes a) \<subseteq> region_bytes L r"
proof -
  obtain r where r: "r \<in> set (candidates m base)" "access_allowed (cr_access r) (oa_mode a)"
    "classify_vs_region r off (saturating_add off (int (oa_width_bytes a))) = Inside"
    using affine_proved [OF assms(1,2)] .
  then obtain n where "cr_length r = Literal n" "cr_offset r \<le> off" "off + int (oa_width_bytes a) \<le> cr_offset r + int n"
    using inside_span assms(3,4) by (metis candidates_iff)
  then show ?thesis using r span_subset by (metis candidates_iff)
qed


lemma range_within:
  assumes row: "judge_indexed_range_access m a base sc d bound = Some row" "access_verdict row = Proved"
    and bounded: "\<forall>r \<in> set (cm_regions m). bounded_region r" "in_i64 d" "int (bound - 1) * int sc \<le> i64_max"
    and single: "single_region m base" and i: "i < bound"
  shows "\<exists>r \<in> set (candidates m base). access_allowed (cr_access r) (oa_mode a) \<and>
    span_bytes L base (int i * int sc + d) (oa_width_bytes a) \<subseteq> region_bytes L r"
proof -
  define hi where "hi = saturating_add (int (bound - 1) * int sc) d"
  have "bound \<noteq> 0" using i by simp
  obtain lo_ev hi_ev where ev: "judge_affine_access m a base d = Some lo_ev" "judge_affine_access m a base hi = Some hi_ev"
    using judge_total(1) by blast
  have "access_verdict lo_ev = Proved" "access_verdict hi_ev = Proved"
    using row ev folded_index [OF bounded(3)] \<open>bound \<noteq> 0\<close> indexed_not_proved
    by (auto simp: judge_indexed_range_access_def Let_def hi_def access_verdict.simps split: if_splits)
  then obtain r r' where
      r: "r \<in> set (candidates m base)" "access_allowed (cr_access r) (oa_mode a)"
        "classify_vs_region r d (saturating_add d (int (oa_width_bytes a))) = Inside"
    and r': "r' \<in> set (candidates m base)" "classify_vs_region r' hi (saturating_add hi (int (oa_width_bytes a))) = Inside"
    using affine_proved ev by metis
  then have "r' = r" using single by (auto simp: single_region_def)
  have b: "bounded_region r" using r(1) bounded(1) by simp
  have "i64_min \<le> d" "i64_min \<le> hi"
    using bounded(2) by (auto simp: hi_def saturating_add_def clamp_i64_def in_i64_def i64_min_def i64_max_def)
  then obtain n where n: "cr_length r = Literal n" "cr_offset r \<le> d" "hi + int (oa_width_bytes a) \<le> cr_offset r + int n"
    using inside_span [OF r(3) b] inside_span [OF r'(2) [unfolded \<open>r' = r\<close>] b] by (metis length_spec.inject(2))
  have "int (bound - 1) * int sc + d \<le> hi"
    using n b bounded(2) unfolding hi_def saturating_add_def clamp_i64_def bounded_region_def in_i64_def
    by (auto simp: max_def min_def split: if_splits)
  moreover have "int i * int sc \<le> int (bound - 1) * int sc"
    using i by (intro mult_right_mono) auto
  ultimately have "int i * int sc + d + int (oa_width_bytes a) \<le> cr_offset r + int n"
    using n(3) by linarith
  moreover have "cr_offset r \<le> int i * int sc + d" using n(2) by (simp add: add_increasing)
  ultimately show ?thesis using r n(1) span_subset by (metis candidates_iff)
qed

lemma proved_within:
  assumes row: "judge_access m a = Some row" "access_verdict row = Proved"
    and bounded: "\<forall>r \<in> set (cm_regions m). bounded_region r" "bounded_addr (oa_addr a)"
    and range: "range_unambiguous m (oa_addr a)" and i: "index_admissible (oa_addr a) i"
  shows "access_within L m a i"
proof (cases "oa_addr a")
  case (Affine base off)
  then show ?thesis
    using affine_within [of m a base off row L] row bounded by (auto simp: judge_access_def access_within_def in_i64_def)
next
  case (Indexed base sc d c bound)
  show ?thesis
  proof (cases c)
    case (Some k)
    define off where "off = saturating_add (int k * int sc) d"
    have d: "in_i64 d" "int k * int sc \<le> i64_max" using bounded(2) Indexed Some by auto
    have row': "judge_affine_access m a base off = Some row"
      using row(1) Indexed Some folded_index [OF d(2)] by (simp add: judge_access_def off_def)
    have min: "i64_min \<le> off"
      by (auto simp: off_def saturating_add_def clamp_i64_def i64_min_def i64_max_def)
    obtain r where r: "r \<in> set (candidates m base)" "access_allowed (cr_access r) (oa_mode a)"
        "classify_vs_region r off (saturating_add off (int (oa_width_bytes a))) = Inside"
      using affine_proved [OF row' row(2)] .
    then obtain n where n: "cr_length r = Literal n" "cr_offset r \<le> off" "off + int (oa_width_bytes a) \<le> cr_offset r + int n"
      using inside_span bounded(1) min by (metis candidates_iff)
    have "cr_offset r + int n < i64_max" using n(1) r(1) bounded(1) by (auto simp: bounded_region_def)
    moreover have "i64_min \<le> int k * int sc + d"
      using d(1) by (simp add: in_i64_def add_increasing)
    ultimately have "off = int k * int sc + d"
      using n(2,3) unfolding off_def saturating_add_def clamp_i64_def
      by (auto simp: max_def min_def split: if_splits)
    then show ?thesis
      using span_subset [OF n(1) _ n(2,3), of base L] r Indexed Some i by (auto simp: access_within_def)
  next
    case None
    show ?thesis
    proof (cases bound)
      case (Some b)
      then show ?thesis
        using range_within [of m a base sc d b row i L] row bounded range i Indexed None
        by (auto simp: judge_access_def access_within_def)
    qed (use row Indexed None indexed_not_proved in \<open>auto simp: judge_access_def\<close>)
  qed
qed (use row in \<open>auto simp: judge_access_def access_verdict.simps evidence_row_def\<close>)

text \<open>Denial and \<open>proven_outside\<close>: no literal region of the base both permits and contains the
  access.\<close>

definition excluded :: "layout \<Rightarrow> checked_memory \<Rightarrow> observed_memory_access \<Rightarrow> nat \<Rightarrow> bool" where
  "excluded L m a i \<longleftrightarrow> (\<forall>base r n. access_base (oa_addr a) = Some base \<longrightarrow> r \<in> set (candidates m base) \<longrightarrow>
     cr_length r = Literal n \<longrightarrow> access_allowed (cr_access r) (oa_mode a) \<longrightarrow>
     \<not> span_bytes L base (access_offset (oa_addr a) i) (oa_width_bytes a) \<subseteq> region_bytes L r)"

lemma span_subsetD:
  assumes "span_bytes L (cr_base_param r) off w \<subseteq> region_bytes L r" "cr_length r = Literal n" "0 < w"
  shows "cr_offset r \<le> off \<and> off + int w \<le> cr_offset r + int n"
  using assms unfolding span_bytes_def region_bytes_def region_lo_def length_in_def int_ivl_rules by auto

lemma contained_inside:
  assumes "cr_offset r \<le> off" "off + int w \<le> cr_offset r + int n" "cr_length r = Literal n" "bounded_region r" "0 < w"
  shows "classify_vs_region r off (saturating_add off (int w)) = Inside"
  using assms
  by (simp add: classify_vs_region_def bounded_region_def saturating_add_def saturating_add_unsigned_def
      clamp_i64_def in_i64_def)

lemma affine_refuted:
  assumes row: "judge_affine_access m a base off = Some row" "access_verdict row = Refuted"
    and r: "r \<in> set (candidates m base)" "access_allowed (cr_access r) (oa_mode a)"
  shows "classify_vs_region r off (saturating_add off (int (oa_width_bytes a))) \<noteq> Inside"
proof (rule judge_affine_cases [of m base a off])
  fix r' assume p: "pick_region (oa_mode a) (inside_regions m a base off) = Some r'"
    and "\<exists>s. judge_affine_access m a base off =
         Some (evidence_row a s (Some (cr_name r')) ProvenInside (permission_of r' a) ProvenStatic)"
  then have "\<not> access_allowed (cr_access r') (oa_mode a)"
    using row by (auto simp: access_verdict.simps evidence_row_def permission_of_def split: if_splits)
  then have "r \<notin> set (inside_regions m a base off)" using pick_region_allowed [OF p] r(2) by blast
  then show ?thesis using r(1) by (simp add: inside_regions_def)
next
  fix r' assume "inside_regions m a base off = []"
  then show ?thesis using r(1) by (auto simp: inside_regions_def filter_empty_conv)
qed (use r in auto)

lemma indexed_refuted:
  assumes row: "judge_indexed_access m a base sc d = Some row" "access_verdict row = Refuted"
    and r: "r \<in> set (candidates m base)"
  shows "\<not> access_allowed (cr_access r) (oa_mode a)"
proof (rule judge_indexed_cases [of m base a sc d])
  fix r' assume p: "pick_region (oa_mode a) (candidates m base) = Some r'"
    and "\<exists>s b. judge_indexed_access m a base sc d =
         Some (evidence_row a s (Some (cr_name r')) BoundsMayEscape (permission_of r' a) b)"
  then have "\<not> access_allowed (cr_access r') (oa_mode a)"
    using row by (auto simp: access_verdict.simps evidence_row_def permission_of_def split: if_splits)
  then show ?thesis using pick_region_allowed [OF p] r by blast
qed (use r in auto)

lemma range_refuted:
  "judge_indexed_range_access m a base sc d bound = Some row \<Longrightarrow> access_verdict row = Refuted \<Longrightarrow>
   judge_indexed_access m a base sc d = Some row"
  by (auto simp: judge_indexed_range_access_def Let_def access_verdict.simps evidence_row_def
      split: if_splits option.splits)

lemma refuted_excluded:
  assumes row: "judge_access m a = Some row" "access_verdict row = Refuted"
    and bounded: "\<forall>r \<in> set (cm_regions m). bounded_region r" "bounded_addr (oa_addr a)"
    and i: "index_admissible (oa_addr a) i" and w: "0 < oa_width_bytes a"
  shows "excluded L m a i"
  unfolding excluded_def
proof (intro allI impI notI)
  fix base r n
  assume base: "access_base (oa_addr a) = Some base" and r: "r \<in> set (candidates m base)"
    and n: "cr_length r = Literal n" and allowed: "access_allowed (cr_access r) (oa_mode a)"
    and sub: "span_bytes L base (access_offset (oa_addr a) i) (oa_width_bytes a) \<subseteq> region_bytes L r"
  have b: "bounded_region r" "cr_base_param r = base" using r bounded(1) by auto
  define off where "off = access_offset (oa_addr a) i"
  have in_span: "cr_offset r \<le> off" "off + int (oa_width_bytes a) \<le> cr_offset r + int n"
    using span_subsetD [of L r off "oa_width_bytes a" n] sub b(2) n w by (auto simp: off_def)
  note inside = contained_inside [OF in_span n b(1) w]
  have "judge_affine_access m a base off \<noteq> Some row"
    using affine_refuted [of m a base off row r] row(2) r allowed inside by blast
  moreover have "\<not> (\<exists>sc d. judge_indexed_access m a base sc d = Some row)"
    using indexed_refuted row(2) r allowed by blast
  moreover have "saturating_add (saturating_mul (i64_from_or_max c) (int sc)) d = off"
    if addr: "oa_addr a = Indexed base sc d (Some c) bound" for sc d c bound
  proof -
    have "off = int c * int sc + d" using i addr by (simp add: off_def)
    then show ?thesis
      using folded_index [of c sc] bounded(2) addr in_span b(1) n
      by (auto simp: saturating_add_def clamp_i64_def bounded_region_def in_i64_def)
  qed
  ultimately show False
    using row base range_refuted
    by (cases "oa_addr a") (auto simp: judge_access_def off_def split: option.splits; blast)+
qed

section \<open>Properties\<close>

text \<open>region-access evaluation never panics: the \<open>unreachable!\<close> arm and the three \<open>expect\<close>s
  are not reached, whatever the contract and the accesses.\<close>

theorem region_access_total: "evaluate_region_access m accs \<noteq> None"
  by (simp add: evaluate_region_access_def judge_all_eq)

lemma evaluate_region_access_rows:
  assumes "evaluate_region_access m accs = Some rep"
  shows "rr_status rep = region_access_status_of (rr_accesses rep)"
    and "rr_accesses rep = map (\<lambda>a. the (judge_access m a)) (filter (\<lambda>a. oa_addr a \<noteq> StackFrame) accs)"
  using assms by (auto simp: evaluate_region_access_def judge_all_eq)

lemma access_row:
  "a \<in> set accs \<Longrightarrow> oa_addr a \<noteq> StackFrame \<Longrightarrow> evaluate_region_access m accs = Some rep \<Longrightarrow>
   \<exists>row \<in> set (rr_accesses rep). judge_access m a = Some row"
  using judge_access_defined [of m a] by (force simp: evaluate_region_access_rows(2))

definition table_access :: "access_addr \<Rightarrow> access_mode \<Rightarrow> observed_memory_access" where
  "table_access addr mode = \<lparr>oa_mode = mode, oa_width_bytes = 4, oa_addr = addr, oa_mnemonic = ''mov'', oa_instruction_offset = 0\<rparr>"

definition table_memory :: checked_memory where
  "table_memory = \<lparr>cm_regions =
     [\<lparr>cr_name = ''t'', cr_base_param = ''p'', cr_offset = 0, cr_length = Literal 64, cr_access = Read\<rparr>],
     cm_relations = []\<rparr>"

lemma passed_within:
  assumes "evaluate_region_access m accs = Some rep" "rr_status rep = RaPassed"
    and "\<forall>r \<in> set (cm_regions m). bounded_region r"
    and "a \<in> set accs" "oa_addr a \<noteq> StackFrame" "bounded_addr (oa_addr a)" "range_unambiguous m (oa_addr a)"
    and "index_admissible (oa_addr a) i"
  shows "access_within L m a i"
proof -
  obtain row where row: "row \<in> set (rr_accesses rep)" "judge_access m a = Some row"
    using access_row assms(1,4,5) by blast
  have "region_access_rank (region_access_status_of (rr_accesses rep)) = 0"
    using assms(2) evaluate_region_access_rows(1) [OF assms(1)] by simp
  then have "access_verdict row = Proved \<or> access_verdict row = Silent"
    using access_slice.best_iff row(1) by blast
  then have "access_verdict row = Proved" by (auto simp: access_verdict.simps split: if_splits)
  then show ?thesis using proved_within [OF row(2)] assms by blast
qed

text \<open>C10: when the region-access slice passes, every access of the list that is not a stack-frame access stays inside a declared region
  of its base parameter that permits its mode, in every memory layout and for every index value the access admits (its
  constant, any value below its bound, or any value at all if it has neither). The arithmetic has to be exact: region offsets fit
  \<open>i64\<close>, literal regions end below \<open>i64::MAX\<close>, displacements fit \<open>i64\<close> and scaled indices do not exceed \<open>i64::MAX\<close>; and since a
  range-guarded access is judged at the two ends of its range only, its base has to have a single
  declared region.\<close>

theorem region_access_passed_sound:
  assumes "evaluate_region_access m accs = Some rep" "rr_status rep = RaPassed"
    and "\<forall>r \<in> set (cm_regions m). bounded_region r"
    and "a \<in> set accs" "oa_addr a \<noteq> StackFrame" "bounded_addr (oa_addr a)" "range_unambiguous m (oa_addr a)"
    and "index_admissible (oa_addr a) i"
  shows "access_within L m a i"
  using assms by (rule passed_within)

theorem region_access_passed_sound_witness:
  "access_within flat_layout table_memory (table_access (Indexed ''p'' 4 0 None (Some 16)) Load) 7"
proof -
  let ?a = "table_access (Indexed ''p'' 4 0 None (Some 16)) Load"
  obtain rep where rep: "evaluate_region_access table_memory [?a] = Some rep"
    by (simp add: evaluate_region_access_def judge_all_eq)
  have "map_option rr_status (evaluate_region_access table_memory [?a]) = Some RaPassed" by code_simp
  then have "rr_status rep = RaPassed" using rep by simp
  with rep show ?thesis
    by (rule region_access_passed_sound)
       (simp_all add: table_memory_def table_access_def bounded_region_def rust_int single_region_def)
qed

text \<open>when the region-access slice fails, some access is really out of contract: at every
  index and in every layout, no literal region declared on its base both permits its mode and
  contains the bytes it touches.\<close>

theorem region_access_failed_sound:
  assumes "evaluate_region_access m accs = Some rep" "rr_status rep = RaFailed"
    and "\<forall>r \<in> set (cm_regions m). bounded_region r"
    and "\<forall>a \<in> set accs. bounded_addr (oa_addr a) \<and> 0 < oa_width_bytes a"
  shows "\<exists>a \<in> set accs. oa_addr a \<noteq> StackFrame \<and>
    (\<forall>L i. index_admissible (oa_addr a) i \<longrightarrow> excluded L m a i)"
proof -
  have "region_access_rank (region_access_status_of (rr_accesses rep)) = 3"
    using assms(2) evaluate_region_access_rows(1) [OF assms(1)] by simp
  then obtain row where row: "row \<in> set (rr_accesses rep)" "access_verdict row = Refuted"
    using access_slice.worst_iff by blast
  then obtain a where a: "a \<in> set accs" "oa_addr a \<noteq> StackFrame" "row = the (judge_access m a)"
    using evaluate_region_access_rows(2) [OF assms(1)] by auto
  then have "judge_access m a = Some row" using judge_access_defined [of m a] by auto
  then show ?thesis using refuted_excluded row(2) a assms(3,4) by blast
qed

theorem region_access_failed_sound_witness:
  "\<exists>a \<in> set [table_access (Affine ''p'' 0) Store]. oa_addr a \<noteq> StackFrame \<and>
    (\<forall>L i. index_admissible (oa_addr a) i \<longrightarrow> excluded L table_memory a i)"
proof -
  let ?a = "table_access (Affine ''p'' 0) Store"
  obtain rep where rep: "evaluate_region_access table_memory [?a] = Some rep"
    by (simp add: evaluate_region_access_def judge_all_eq)
  have "map_option rr_status (evaluate_region_access table_memory [?a]) = Some RaFailed" by code_simp
  then have "rr_status rep = RaFailed" using rep by simp
  with rep show ?thesis
    by (rule region_access_failed_sound)
       (simp_all add: table_memory_def table_access_def bounded_region_def rust_int)
qed

text \<open>The two ends of a guarded range may be proven inside two different regions: here the slice
  passes although index 8 lies in the gap between them.\<close>

definition gap_memory :: checked_memory where
  "gap_memory = \<lparr>cm_regions =
     [\<lparr>cr_name = ''a'', cr_base_param = ''p'', cr_offset = 0, cr_length = Literal 8, cr_access = Read\<rparr>,
      \<lparr>cr_name = ''b'', cr_base_param = ''p'', cr_offset = 60, cr_length = Literal 8, cr_access = Read\<rparr>],
     cm_relations = []\<rparr>"

lemma range_gap_accepted:
  "map_option rr_status (evaluate_region_access gap_memory [table_access (Indexed ''p'' 4 0 None (Some 16)) Load]) = Some RaPassed \<and>
   \<not> access_within flat_layout gap_memory (table_access (Indexed ''p'' 4 0 None (Some 16)) Load) 8"
proof
  show "map_option rr_status (evaluate_region_access gap_memory [table_access (Indexed ''p'' 4 0 None (Some 16)) Load]) = Some RaPassed"
    by code_simp
qed (auto simp: access_within_def gap_memory_def table_access_def span_bytes_def region_bytes_def region_lo_def
    length_in_def flat_layout_def int_ivl_rules)

end
