(* ===== verification/Effect_Walk.thy ===== *)
theory Effect_Walk
  imports Region_Access Stack_Walk
begin

text \<open>
  What the three memory-effect extractors of \<open>semasm-cli\<close> share. Each walks a body once, keeping a map
  from registers to the pointer parameter they hold, and emits the accesses of every instruction
  under the map before it. The locale states what an extractor has to promise about a single
  instruction; region-access evidence that passes then bounds the accesses of real executions.
\<close>

definition is_pointer :: "sem_type \<Rightarrow> bool" where
  "is_pointer t = (case t of Ptr _ _ \<Rightarrow> True | _ \<Rightarrow> False)"

text \<open>The argument registers of pointer parameters, in order.\<close>

definition seed_pointers :: "checked_param list \<Rightarrow> 'g list \<Rightarrow> 'g \<Rightarrow> string option" where
  "seed_pointers params regs =
     fold (\<lambda>(p, g) m. if is_pointer (cp_ty p) then m(g \<mapsto> cp_name p) else m) (zip params regs) Map.empty"

text \<open>The address is the one an access describes, for some value its index may have.\<close>

definition describes :: "layout \<Rightarrow> access_addr \<Rightarrow> 64 word \<Rightarrow> bool" where
  "describes L addr v \<longleftrightarrow> (\<exists>base j. access_base addr = Some base \<and> index_admissible addr j \<and>
     v = word_of_int (lo_addr L base + access_offset addr j))"

text \<open>\<open>w\<close> bytes at \<open>v\<close> lie, modulo the address space, in a declared region that permits the mode.\<close>

definition bytes_declared :: "layout \<Rightarrow> checked_memory \<Rightarrow> access_mode \<Rightarrow> nat \<Rightarrow> 64 word \<Rightarrow> bool" where
  "bytes_declared L memory mode w v \<longleftrightarrow>
     (\<exists>r \<in> set (cm_regions memory). access_allowed (cr_access r) mode \<and>
        (\<forall>t < w. \<exists>b \<in> region_bytes L r. v + of_nat t = word_of_int b))"

text \<open>The ranges in which the evidence engine's arithmetic is exact and its range check complete.\<close>

definition evidence_exact :: "checked_memory \<Rightarrow> observed_memory_access list \<Rightarrow> bool" where
  "evidence_exact memory accs \<longleftrightarrow> (\<forall>r \<in> set (cm_regions memory). bounded_region r) \<and>
     (\<forall>a \<in> set accs. bounded_addr (oa_addr a) \<and> range_unambiguous memory (oa_addr a))"

lemma passed_describes:
  assumes "evaluate_region_access memory accs = Some rep" "rr_status rep = RaPassed" "evidence_exact memory accs"
    and "a \<in> set accs" "oa_addr a = UnknownAddr \<or> describes L (oa_addr a) v"
  shows "bytes_declared L memory (oa_mode a) (oa_width_bytes a) v"
proof -
  have "oa_addr a \<noteq> StackFrame" using assms(5) by (auto simp: describes_def)
  then have within: "access_within L memory a j" if "index_admissible (oa_addr a) j" for j
    using passed_within [OF assms(1,2) _ assms(4)] assms(3,4) that by (auto simp: evidence_exact_def)
  have "oa_addr a \<noteq> UnknownAddr" using within [of 0] by (auto simp: access_within_def)
  then obtain base j where d: "access_base (oa_addr a) = Some base" "index_admissible (oa_addr a) j"
      "v = word_of_int (lo_addr L base + access_offset (oa_addr a) j)"
    using assms(5) by (auto simp: describes_def)
  obtain r where r: "r \<in> set (candidates memory base)" "access_allowed (cr_access r) (oa_mode a)"
      "span_bytes L base (access_offset (oa_addr a) j) (oa_width_bytes a) \<subseteq> region_bytes L r"
    using within [OF d(2)] d(1) by (auto simp: access_within_def)
  have "\<exists>b \<in> region_bytes L r. v + of_nat t = word_of_int b" if "t < oa_width_bytes a" for t
    using r(3) d(3) that
    by (intro bexI [of _ "lo_addr L base + access_offset (oa_addr a) j + int t"]) (auto simp: span_bytes_def)
  then show ?thesis using r(1,2) by (auto simp: bytes_declared_def candidates_def)
qed

section \<open>Extractors that track pointers only\<close>

definition affine_holds :: "layout \<Rightarrow> ('g \<Rightarrow> string option) \<Rightarrow> ('g \<Rightarrow> 64 word) \<Rightarrow> bool" where
  "affine_holds L aff s \<longleftrightarrow> (\<forall>g p. aff g = Some p \<longrightarrow> s g = word_of_int (lo_addr L p))"

lemma affine_holds_less: "affine_holds L aff s \<Longrightarrow> aff' \<subseteq>\<^sub>m aff \<Longrightarrow> affine_holds L aff' s"
  by (metis affine_holds_def domI map_le_def)

definition collect_accesses :: "('i \<Rightarrow> 'a \<Rightarrow> 'a) \<Rightarrow> ('i \<Rightarrow> 'a \<Rightarrow> observed_memory_access list) \<Rightarrow> 'i list \<Rightarrow> 'a \<Rightarrow>
    observed_memory_access list" where
  "collect_accesses update records body aff = snd (fold (\<lambda>ins (aff, out). (update ins aff, out @ records ins aff)) body (aff, []))"

lemma collect_accesses_set:
  "set (collect_accesses update records body aff) =
     (\<Union>i < length body. set (records (body ! i) (walk_at update aff body i)))"
proof -
  let ?f = "\<lambda>ins (aff, out). (update ins aff, out @ records ins aff)"
  have "set (snd (fold ?f body (aff, out))) = set out \<union> (\<Union>i < length body. set (records (body ! i) (walk_at update aff body i)))"
    for out
  proof (induction body arbitrary: aff out)
    case (Cons ins body)
    have "{..<length (ins # body)} = insert 0 (Suc ` {..<length body})"
      by (auto simp: less_Suc_eq_0_disj)
    then show ?case by (auto simp: Cons.IH walk_at_def)
  qed simp
  then show ?thesis by (simp add: collect_accesses_def)
qed

locale affine_walk =
  fixes effect :: "'i \<Rightarrow> ('g \<Rightarrow> 64 word) \<Rightarrow> ('g \<Rightarrow> 64 word) \<Rightarrow> bool"
    and update :: "'i \<Rightarrow> ('g \<Rightarrow> string option) \<Rightarrow> 'g \<Rightarrow> string option"
    and records :: "'i \<Rightarrow> ('g \<Rightarrow> string option) \<Rightarrow> observed_memory_access list"
    and tracked :: "'i \<Rightarrow> ('g \<Rightarrow> string option) \<Rightarrow> bool"
    and touches :: "'i \<Rightarrow> ('g \<Rightarrow> 64 word) \<Rightarrow> (access_mode \<times> nat \<times> 64 word) list"
  assumes update_holds: "affine_holds L aff s \<Longrightarrow> tracked ins aff \<Longrightarrow> effect ins s s' \<Longrightarrow> affine_holds L (update ins aff) s'"
    and touch_recorded: "affine_holds L aff s \<Longrightarrow> tracked ins aff \<Longrightarrow> (mode, w, v) \<in> set (touches ins s) \<Longrightarrow>
      \<exists>a \<in> set (records ins aff). oa_mode a = mode \<and> oa_width_bytes a = w \<and> (oa_addr a = UnknownAddr \<or> describes L (oa_addr a) v)"
begin

abbreviation tracks :: "('g \<Rightarrow> string option) \<Rightarrow> (nat \<Rightarrow> nat \<Rightarrow> bool) \<Rightarrow> 'i list \<Rightarrow> bool" where
  "tracks \<equiv> well_tracked tracked update (\<lambda>aff aff'. aff' \<subseteq>\<^sub>m aff)"

lemma holds_along:
  assumes "tracks aff jump body" "affine_holds L aff s0" "reaches effect stops jump body s0 i s"
  shows "i < length body \<Longrightarrow> affine_holds L (walk_at update aff body i) s"
  using assms(3)
proof induction
  case (fall i s s')
  then show ?case using assms(1) update_holds by (simp add: well_tracked_def walk_at_Suc)
next
  case (taken i s j s')
  then have "affine_holds L (walk_at update aff body (Suc i)) s'"
    using assms(1) update_holds by (simp add: well_tracked_def walk_at_Suc)
  moreover have "walk_at update aff body j \<subseteq>\<^sub>m walk_at update aff body (Suc i)"
    using assms(1) taken(2,3) by (simp add: well_tracked_def)
  ultimately show ?case using affine_holds_less by blast
qed (simp add: assms(2))

lemma touched_declared:
  assumes "tracks aff jump body" "affine_holds L aff s0" "reaches effect stops jump body s0 i s" "i < length body"
    and "evaluate_region_access memory (collect_accesses update records body aff) = Some rep" "rr_status rep = RaPassed"
    and "evidence_exact memory (collect_accesses update records body aff)" "(mode, w, v) \<in> set (touches (body ! i) s)"
  shows "bytes_declared L memory mode w v"
proof -
  have "affine_holds L (walk_at update aff body i) s" using holds_along [OF assms(1-4)] .
  moreover have "tracked (body ! i) (walk_at update aff body i)" using assms(1,4) by (simp add: well_tracked_def)
  ultimately obtain a where a: "a \<in> set (records (body ! i) (walk_at update aff body i))" "oa_mode a = mode" "oa_width_bytes a = w"
      "oa_addr a = UnknownAddr \<or> describes L (oa_addr a) v"
    using touch_recorded [OF _ _ assms(8)] by blast
  then have "a \<in> set (collect_accesses update records body aff)" using assms(4) by (auto simp: collect_accesses_set)
  from passed_describes [OF assms(5-7) this a(4)] show ?thesis by (simp add: a(2,3))
qed

end

end
