(* ===== verification/Memory_Effects.thy ===== *)
theory Memory_Effects
  imports X86_Machine Effect_Walk
begin

text \<open>
  Extraction of the memory accesses of an x86-64 body: \<open>semasm-cli/src/memory_effects.rs\<close>. One pass
  over the lowered instructions keeps which registers hold a pointer parameter, which a constant and
  which are below a bound; four pattern matchers look for counted loops. The accesses it records
  are the input of the alias and region-access slices. Hash maps are partial maps: nothing depends
  on their iteration order.
\<close>

datatype abi_convention = SysV | Win64

datatype frame_slot = SlotRbp int | SlotRsp int

section \<open>Looking at operands\<close>

text \<open>The general-purpose register behind the first operand, when that is a register.\<close>

definition first_gp :: "lowered_instr \<Rightarrow> gp option" where
  "first_gp ins = (case li_operands ins of
     OReg d # _ \<Rightarrow> (case r_storage d of SGp g \<Rightarrow> Some g | _ \<Rightarrow> None)
   | _ \<Rightarrow> None)"

definition index_gp :: "mem_operand \<Rightarrow> gp option" where
  "index_gp m = (case mo_index m of
     Some r \<Rightarrow> (case r_storage r of SGp g \<Rightarrow> Some g | _ \<Rightarrow> None)
   | None \<Rightarrow> None)"

definition reg_imm :: "lowered_instr \<Rightarrow> (register \<times> int) option" where
  "reg_imm ins = (case li_operands ins of OReg r # OImm n # _ \<Rightarrow> Some (r, n) | _ \<Rightarrow> None)"

definition writes_gp :: "lowered_instr \<Rightarrow> gp \<Rightarrow> bool" where
  "writes_gp ins g \<longleftrightarrow>
     mn ins \<in> {''mov'', ''movabs'', ''movzx'', ''movsx'', ''movsxd'', ''lea'', ''pop'', ''xor'', ''and'', ''or'',
       ''add'', ''sub'', ''adc'', ''sbb'', ''inc'', ''dec'', ''neg'', ''not'', ''imul'', ''mul'',
       ''shl'', ''shr'', ''sal'', ''sar'', ''rol'', ''ror''} \<and>
     first_gp ins = Some g"

text \<open>\<open>u64::try_from\<close> of an \<open>i64\<close>.\<close>

definition u64_of_i64 :: "int \<Rightarrow> nat option" where
  "u64_of_i64 n = (if n < 0 then None else Some (nat n))"

section \<open>Was the index set to zero?\<close>

definition zero_init_verdict :: "gp \<Rightarrow> lowered_instr \<Rightarrow> bool option" where
  "zero_init_verdict g ins =
     (if mn ins = ''xor'' then
        (case li_operands ins of
           OReg dst # OReg src # _ \<Rightarrow>
             (case (r_storage dst, r_storage src) of
                (SGp d, SGp s) \<Rightarrow> if d = g \<and> s = g then Some True else if d = g then Some False else None
              | _ \<Rightarrow> None)
         | _ \<Rightarrow> None)
      else if mn ins \<in> {''mov'', ''movabs''} then
        (if first_gp ins = Some g
         then Some (case li_operands ins of _ # OImm n # _ \<Rightarrow> n = 0 | _ \<Rightarrow> False) else None)
      else if mn ins \<in> {''inc'', ''dec'', ''add'', ''sub'', ''adc'', ''sbb'', ''pop'', ''movzx'', ''movsx'', ''movsxd'',
          ''and'', ''or'', ''lea'', ''imul'', ''mul'', ''neg'', ''not'', ''shl'', ''shr''} then
        (if first_gp ins = Some g then Some False else None)
      else None)"

definition index_was_zero_initialized :: "lowered_instr list \<Rightarrow> nat \<Rightarrow> gp \<Rightarrow> bool" where
  "index_was_zero_initialized lowered before g =
     (case find_map (zero_init_verdict g) (rev (take before lowered)) of Some b \<Rightarrow> b | None \<Rightarrow> False)"

section \<open>Post-test loops, by pattern\<close>

definition below_branch :: "lowered_instr \<Rightarrow> bool" where
  "below_branch ins \<longleftrightarrow> mn ins \<in> {''jb'', ''jnae'', ''jl'', ''jnge''}"

fun post_test_scan :: "gp \<Rightarrow> bool \<Rightarrow> lowered_instr list \<Rightarrow> nat option" where
  "post_test_scan g saw_inc [] = None"
| "post_test_scan g saw_inc (ins # rest) =
     (if mn ins = ''inc'' then
        (if first_gp ins = Some g then (if saw_inc then None else post_test_scan g True rest)
         else post_test_scan g saw_inc rest)
      else if mn ins = ''add'' then
        (if first_gp ins = Some g then
           (case reg_imm ins of
              Some (_, n) \<Rightarrow> if n = 1 then (if saw_inc then None else post_test_scan g True rest) else None
            | None \<Rightarrow> None)
         else post_test_scan g saw_inc rest)
      else if mn ins = ''cmp'' \<and> saw_inc then
        (case reg_imm ins of
           Some (r, n) \<Rightarrow>
             if r_storage r = SGp g \<and> n > 0 then
               (case rest of
                  [] \<Rightarrow> None
                | br # _ \<Rightarrow> if below_branch br then u64_of_i64 n else None)
             else None
         | None \<Rightarrow> None)
      else if mn ins \<in> {''dec'', ''sub'', ''mov'', ''movabs'', ''xor'', ''pop'', ''lea'', ''movzx'', ''and'', ''or''}
        \<and> first_gp ins = Some g then None
      else post_test_scan g saw_inc rest)"

definition post_test_bound_after :: "lowered_instr list \<Rightarrow> nat \<Rightarrow> gp \<Rightarrow> nat option" where
  "post_test_bound_after lowered from g = post_test_scan g False (drop from lowered)"

type_synonym inductions = "nat \<Rightarrow> (gp \<times> nat) option"

text \<open>The loop over every memory operand with an indexed register, shared by two matchers: a bound
  found for the operand is stored under the index of the instruction.\<close>

definition insert_bounds :: "(nat \<Rightarrow> gp \<Rightarrow> nat option) \<Rightarrow> nat \<Rightarrow> lowered_instr \<Rightarrow> inductions \<Rightarrow> inductions" where
  "insert_bounds bound idx ins m =
     fold (\<lambda>op m. case op of
         OMem mem \<Rightarrow>
           (case index_gp mem of
              Some g \<Rightarrow> (case bound idx g of Some b \<Rightarrow> m(idx \<mapsto> (g, b)) | None \<Rightarrow> m)
            | None \<Rightarrow> m)
       | _ \<Rightarrow> m) (li_operands ins) m"

definition discover_post_test_inductions :: "lowered_instr list \<Rightarrow> inductions" where
  "discover_post_test_inductions lowered =
     for_each (insert_bounds (\<lambda>idx g.
       if index_was_zero_initialized lowered idx g then post_test_bound_after lowered (idx + 1) g else None))
       0 lowered Map.empty"

section \<open>Countdown loops, by pattern\<close>

text \<open>The scan back from the access at \<open>at\<close> for \<open>dec\<close>, over the instructions before it, last first.\<close>

fun find_dec :: "gp \<Rightarrow> nat \<Rightarrow> (nat \<times> lowered_instr) list \<Rightarrow> nat option" where
  "find_dec g at [] = None"
| "find_dec g at ((i, ins) # rest) =
     (if mn ins = ''dec'' \<and> first_gp ins = Some g then Some i
      else if writes_gp ins g then None
      else if at - i > 4 then None
      else find_dec g at rest)"

fun sees_back_branch :: "gp \<Rightarrow> lowered_instr list \<Rightarrow> bool" where
  "sees_back_branch g [] = False"
| "sees_back_branch g (ins # rest) =
     (if mn ins \<in> {''jnz'', ''jne'', ''jns''} then True
      else if writes_gp ins g \<or> mn ins \<in> {''jmp'', ''ret'', ''jae'', ''jge'', ''je''} then False
      else if mn ins \<notin> {''nop'', ''test'', ''cmp'', ''and'', ''or'', ''xor'', ''mov'', ''movzx''} \<and>
        mn ins \<in> {''call'', ''ja'', ''jb'', ''jg'', ''jl'', ''jle'', ''jbe''} then False
      else sees_back_branch g rest)"

fun find_start :: "gp \<Rightarrow> lowered_instr list \<Rightarrow> nat option" where
  "find_start g [] = None"
| "find_start g (ins # rest) =
     (if mn ins \<in> {''mov'', ''movabs''} then
        (case reg_imm ins of
           Some (r, n) \<Rightarrow>
             if r_storage r = SGp g then (if n > 0 then u64_of_i64 n else None)
             else if writes_gp ins g then None else find_start g rest
         | None \<Rightarrow> if writes_gp ins g then None else find_start g rest)
      else if writes_gp ins g then None
      else find_start g rest)"

definition countdown_bound_for_access :: "lowered_instr list \<Rightarrow> nat \<Rightarrow> gp \<Rightarrow> nat option" where
  "countdown_bound_for_access lowered at g =
     (case find_dec g at (rev (enumerate 0 (take at lowered))) of
        None \<Rightarrow> None
      | Some dec_at \<Rightarrow>
          if sees_back_branch g (drop (at + 1) lowered) then find_start g (rev (take dec_at lowered)) else None)"

definition discover_countdown_inductions :: "lowered_instr list \<Rightarrow> inductions" where
  "discover_countdown_inductions lowered =
     for_each (insert_bounds (countdown_bound_for_access lowered)) 0 lowered Map.empty"

section \<open>Loops confirmed by their branch targets\<close>

definition by_address :: "physical_instruction list \<Rightarrow> nat \<Rightarrow> nat option" where
  "by_address physical = map_of (rev (map (\<lambda>(i, p). (pi_address p, i)) (enumerate 0 physical)))"

definition branch_target_index :: "physical_instruction \<Rightarrow> (nat \<Rightarrow> nat option) \<Rightarrow> nat option" where
  "branch_target_index ins addresses =
     (case pi_operands ins of
        [] \<Rightarrow> None
      | op # _ \<Rightarrow>
          (let raw = trim op; raw' = (case strip_prefix ''0x'' raw of Some h \<Rightarrow> h | None \<Rightarrow> raw) in
           case parse_unsigned 16 u64_max raw' of Some target \<Rightarrow> addresses target | None \<Rightarrow> None))"

definition is_inc_of :: "gp \<Rightarrow> lowered_instr \<Rightarrow> bool" where
  "is_inc_of g ins \<longleftrightarrow> mn ins = ''inc'' \<and> first_gp ins = Some g"

definition is_add1_of :: "gp \<Rightarrow> lowered_instr \<Rightarrow> bool" where
  "is_add1_of g ins \<longleftrightarrow> mn ins = ''add'' \<and>
     (case reg_imm ins of Some (r, n) \<Rightarrow> r_storage r = SGp g \<and> n = 1 | None \<Rightarrow> False)"

text \<open>\<open>[base + idx]\<close> on the given register in some operand.\<close>

definition accesses_index :: "gp \<Rightarrow> lowered_instr \<Rightarrow> bool" where
  "accesses_index g ins \<longleftrightarrow> list_ex (\<lambda>op. case op of OMem m \<Rightarrow> index_gp m = Some g | _ \<Rightarrow> False) (li_operands ins)"

text \<open>The body of a pre-test loop: \<open>None\<close> when the index is written otherwise than by one \<open>inc\<close>.\<close>

fun pre_test_body :: "gp \<Rightarrow> bool \<Rightarrow> nat list \<Rightarrow> (nat \<times> lowered_instr) list \<Rightarrow> (bool \<times> nat list) option" where
  "pre_test_body g saw_inc accs [] = Some (saw_inc, accs)"
| "pre_test_body g saw_inc accs ((at, ins) # rest) =
     (if writes_gp ins g \<and> (\<not> is_inc_of g ins \<or> saw_inc) then None
      else pre_test_body g (saw_inc \<or> writes_gp ins g) (if accesses_index g ins then accs @ [at] else accs) rest)"

definition pre_test_loop :: "lowered_instr list \<Rightarrow> physical_instruction list \<Rightarrow> nat \<Rightarrow> inductions \<Rightarrow> inductions" where
  "pre_test_loop lowered physical header m =
     (let cmp = lowered ! header; guard = lowered ! (header + 1) in
      if mn cmp \<noteq> ''cmp'' then m
      else (case reg_imm cmp of
        None \<Rightarrow> m
      | Some (reg, bound) \<Rightarrow>
          (case r_storage reg of
             SGp g \<Rightarrow>
               if bound \<le> 0 \<or> \<not> index_was_zero_initialized lowered header g then m
               else if mn guard \<notin> {''jae'', ''jnb'', ''jge''} then m
               else (case branch_target_index (physical ! (header + 1)) (by_address physical) of
                 None \<Rightarrow> m
               | Some exit \<Rightarrow>
                   if exit \<le> header + 2 \<or> exit > length lowered then m
                   else
                     (let back = exit - 1 in
                      if mn (lowered ! back) \<noteq> ''jmp'' \<or>
                         branch_target_index (physical ! back) (by_address physical) \<noteq> Some header then m
                      else
                        (case pre_test_body g False [] (drop (header + 2) (take back (enumerate 0 lowered))) of
                           Some (True, accs) \<Rightarrow> fold (\<lambda>at m. m(at \<mapsto> (g, nat bound))) accs m
                         | _ \<Rightarrow> m)))
           | _ \<Rightarrow> m)))"

definition discover_cfg_pre_test_inductions :: "lowered_instr list \<Rightarrow> physical_instruction list \<Rightarrow> inductions" where
  "discover_cfg_pre_test_inductions lowered physical =
     (if length physical \<noteq> length lowered then Map.empty
      else fold (pre_test_loop lowered physical) [0..<length lowered - 2] Map.empty)"

fun indexed_gp_in_operands :: "operand list \<Rightarrow> gp option" where
  "indexed_gp_in_operands [] = None"
| "indexed_gp_in_operands (OMem m # rest) =
     (case mo_index m of
        None \<Rightarrow> None
      | Some r \<Rightarrow> (case r_storage r of SGp g \<Rightarrow> Some g | _ \<Rightarrow> indexed_gp_in_operands rest))"
| "indexed_gp_in_operands (_ # rest) = indexed_gp_in_operands rest"

definition indexed_gp_in_access :: "lowered_instr \<Rightarrow> gp option" where
  "indexed_gp_in_access ins = indexed_gp_in_operands (li_operands ins)"

text \<open>The first position from \<open>at\<close> on whose instruction writes the index, or the sixth after the access.\<close>

function next_index_write :: "lowered_instr list \<Rightarrow> gp \<Rightarrow> nat \<Rightarrow> nat \<Rightarrow> nat" where
  "next_index_write lowered g access_at at =
     (if at < length lowered \<and> \<not> writes_gp (lowered ! at) g \<and> \<not> at - access_at > 4
      then next_index_write lowered g access_at (at + 1) else at)"
  by pat_completeness auto
termination
  by (relation "measure (\<lambda>(lowered, _, _, at). length lowered - at)") auto

declare next_index_write.simps [simp del]

definition post_test_loop :: "lowered_instr list \<Rightarrow> physical_instruction list \<Rightarrow> nat \<Rightarrow> inductions \<Rightarrow> inductions" where
  "post_test_loop lowered physical access_at m =
     (case indexed_gp_in_access (lowered ! access_at) of
        None \<Rightarrow> m
      | Some g \<Rightarrow>
          if \<not> index_was_zero_initialized lowered access_at g then m
          else
            (let at = next_index_write lowered g access_at (access_at + 1) in
             if at \<ge> length lowered then m
             else if \<not> is_inc_of g (lowered ! at) \<and> \<not> is_add1_of g (lowered ! at) then m
             else if at + 2 \<ge> length lowered then m
             else if mn (lowered ! (at + 1)) \<noteq> ''cmp'' then m
             else (case reg_imm (lowered ! (at + 1)) of
               None \<Rightarrow> m
             | Some (reg, bound) \<Rightarrow>
                 if r_storage reg \<noteq> SGp g \<or> bound \<le> 0 then m
                 else if \<not> below_branch (lowered ! (at + 2)) then m
                 else if branch_target_index (physical ! (at + 2)) (by_address physical) \<noteq> Some access_at then m
                 else (case u64_of_i64 bound of Some b \<Rightarrow> m(access_at \<mapsto> (g, b)) | None \<Rightarrow> m))))"

definition discover_cfg_post_test_inductions :: "lowered_instr list \<Rightarrow> physical_instruction list \<Rightarrow> inductions" where
  "discover_cfg_post_test_inductions lowered physical =
     (if length physical \<noteq> length lowered then Map.empty
      else fold (post_test_loop lowered physical) [0..<length lowered - 3] Map.empty)"

section \<open>The register walk\<close>

record effect_state =
  affinity :: "gp \<Rightarrow> string option"
  stack_slots :: "frame_slot \<Rightarrow> string option"
  known_consts :: "gp \<Rightarrow> nat option"
  uppers :: "gp \<Rightarrow> nat option"
  pending_cmp :: "(gp \<times> nat) option"

definition argument_gps :: "abi_convention \<Rightarrow> gp list" where
  "argument_gps abi = (case abi of SysV \<Rightarrow> [Rdi, Rsi, Rdx, Rcx, R8, R9] | Win64 \<Rightarrow> [Rcx, Rdx, R8, R9])"

definition seed_param_affinity :: "checked_param list \<Rightarrow> abi_convention \<Rightarrow> gp \<Rightarrow> string option" where
  "seed_param_affinity params abi = seed_pointers params (argument_gps abi)"

definition is_stack_frame :: "mem_operand \<Rightarrow> bool" where
  "is_stack_frame m = (case mo_base m of
     Some b \<Rightarrow> (r_storage b = SGp Rsp \<or> r_storage b = SGp Rbp) \<and> mo_index m = None
   | None \<Rightarrow> False)"

definition frame_slot_of :: "mem_operand \<Rightarrow> frame_slot option" where
  "frame_slot_of m =
     (if mo_index m \<noteq> None then None
      else case mo_base m of
        None \<Rightarrow> None
      | Some b \<Rightarrow>
          if r_storage b = SGp Rbp then Some (SlotRbp (mo_disp m))
          else if r_storage b = SGp Rsp then Some (SlotRsp (mo_disp m))
          else None)"

definition width_bytes :: "width \<Rightarrow> nat" where
  "width_bytes w = width_bits w div 8"

definition classify_index :: "register \<Rightarrow> effect_state \<Rightarrow> (gp \<times> nat) option \<Rightarrow> nat option \<times> nat option" where
  "classify_index r st induction =
     (case r_storage r of
        SGp g \<Rightarrow>
          (case induction of
             Some (ig, bound) \<Rightarrow> if ig = g then (None, Some bound)
               else (case known_consts st g of Some c \<Rightarrow> (Some c, None) | None \<Rightarrow> (None, uppers st g))
           | None \<Rightarrow> (case known_consts st g of Some c \<Rightarrow> (Some c, None) | None \<Rightarrow> (None, uppers st g)))
      | _ \<Rightarrow> (None, None))"

definition classify_addr :: "mem_operand \<Rightarrow> effect_state \<Rightarrow> (gp \<times> nat) option \<Rightarrow> access_addr" where
  "classify_addr m st induction =
     (if is_stack_frame m then StackFrame
      else case mo_base m of
        None \<Rightarrow> UnknownAddr
      | Some b \<Rightarrow>
          (case r_storage b of
             SGp g \<Rightarrow>
               (case affinity st g of
                  None \<Rightarrow> UnknownAddr
                | Some param \<Rightarrow>
                    (case mo_index m of
                       Some r \<Rightarrow>
                         (case classify_index r st induction of
                            (c, bound) \<Rightarrow> Indexed param (max (mo_scale m) 1) (mo_disp m) c bound)
                     | None \<Rightarrow> Affine param (mo_disp m)))
           | _ \<Rightarrow> UnknownAddr))"

definition is_mem :: "operand option \<Rightarrow> bool" where
  "is_mem op = (case op of Some (OMem _) \<Rightarrow> True | _ \<Rightarrow> False)"

definition operand_at :: "lowered_instr \<Rightarrow> nat \<Rightarrow> operand option" where
  "operand_at ins i = (if i < length (li_operands ins) then Some (li_operands ins ! i) else None)"

definition access_mode_of :: "string \<Rightarrow> nat \<Rightarrow> lowered_instr \<Rightarrow> access_mode option" where
  "access_mode_of mnemonic i ins =
     (if mnemonic = ''lea'' then None
      else if mnemonic \<in> {''mov'', ''movabs'', ''movzx'', ''movsx'', ''movsxd''} then
        (if i = 0 then (if is_mem (operand_at ins 0) then Some Store else None)
         else if is_mem (operand_at ins 1) then Some Load else None)
      else if mnemonic \<in> {''push'', ''stosb'', ''stosw'', ''stosd'', ''stosq''} then Some Store
      else if mnemonic \<in> {''add'', ''sub'', ''adc'', ''sbb'', ''and'', ''or'', ''xor'', ''inc'', ''dec'', ''not'', ''neg'',
          ''shl'', ''shr'', ''sal'', ''sar'', ''rol'', ''ror'', ''xchg''} then
        (if i = 0 \<and> is_mem (operand_at ins 0) then Some Store
         else if is_mem (operand_at ins i) then Some Load else None)
      else Some Load)"

definition record_accesses :: "lowered_instr \<Rightarrow> effect_state \<Rightarrow> (gp \<times> nat) option \<Rightarrow> observed_memory_access list" where
  "record_accesses ins st induction =
     concat (map (\<lambda>(i, op). case op of
         OMem m \<Rightarrow>
           (case access_mode_of (mn ins) i ins of
              Some mode \<Rightarrow> [\<lparr>oa_mode = mode, oa_width_bytes = width_bytes (mo_width m),
                oa_addr = classify_addr m st induction, oa_mnemonic = mn ins, oa_instruction_offset = 0\<rparr>]
            | None \<Rightarrow> [])
       | _ \<Rightarrow> []) (enumerate 0 (li_operands ins)))"

text \<open>Forgetting a register, altogether or only its constant and its bound.\<close>

definition forget_value :: "gp \<Rightarrow> effect_state \<Rightarrow> effect_state" where
  "forget_value g st = st\<lparr>known_consts := (known_consts st)(g := None), uppers := (uppers st)(g := None)\<rparr>"

definition forget :: "gp \<Rightarrow> effect_state \<Rightarrow> effect_state" where
  "forget g st = (forget_value g st)\<lparr>affinity := (affinity st)(g := None)\<rparr>"

definition forget_first :: "lowered_instr \<Rightarrow> effect_state \<Rightarrow> effect_state" where
  "forget_first ins st = (case first_gp ins of Some g \<Rightarrow> forget g st | None \<Rightarrow> st)"

text \<open>\<open>mov\<close>: a spill, or a write of a general-purpose register from \<open>src\<close>.\<close>

definition spill :: "mem_operand \<Rightarrow> register \<Rightarrow> effect_state \<Rightarrow> effect_state" where
  "spill m src st = (case (frame_slot_of m, r_storage src) of
     (Some slot, SGp g) \<Rightarrow> st\<lparr>stack_slots := (stack_slots st)(slot := affinity st g)\<rparr>
   | _ \<Rightarrow> st)"

definition move_to :: "gp \<Rightarrow> operand option \<Rightarrow> effect_state \<Rightarrow> effect_state" where
  "move_to d src st = (case src of
     Some (OReg s) \<Rightarrow>
       (case r_storage s of
          SGp g \<Rightarrow> st\<lparr>affinity := (affinity st)(d := affinity st g),
             known_consts := (known_consts st)(d := known_consts st g), uppers := (uppers st)(d := uppers st g)\<rparr>
        | _ \<Rightarrow> forget d st)
   | Some (OImm n) \<Rightarrow> (forget d st)\<lparr>known_consts := (known_consts st)(d := u64_of_i64 n)\<rparr>
   | Some (OMem m) \<Rightarrow>
       (case frame_slot_of m of
          Some slot \<Rightarrow> (forget_value d st)\<lparr>affinity := (affinity st)(d := stack_slots st slot)\<rparr>
        | None \<Rightarrow> forget d st)
   | None \<Rightarrow> forget d st)"

text \<open>The arms of the match on the mnemonic; each starts from the state with \<open>pending_cmp\<close> cleared.\<close>

datatype update_arm = ArmCmp | ArmGuard | ArmJump | ArmMov | ArmLea | ArmXor | ArmForget | ArmArith | ArmOther

definition update_arm :: "string \<Rightarrow> update_arm" where
  "update_arm m =
     (if m = ''cmp'' then ArmCmp
      else if m \<in> {''jae'', ''jnb'', ''jge''} then ArmGuard
      else if m \<in> {''ja'', ''jb'', ''jbe'', ''jg'', ''jl'', ''jle'', ''je'', ''jne'', ''jz'', ''jnz'', ''jmp''} then ArmJump
      else if m \<in> {''mov'', ''movabs''} then ArmMov
      else if m = ''lea'' then ArmLea
      else if m = ''xor'' then ArmXor
      else if m \<in> {''pop'', ''movzx'', ''movsx'', ''movsxd'', ''and'', ''or'', ''imul'', ''mul'', ''div'', ''idiv'',
          ''neg'', ''not''} then ArmForget
      else if m \<in> {''inc'', ''dec'', ''add'', ''sub'', ''adc'', ''sbb'', ''shl'', ''shr'', ''sal'', ''sar'', ''rol'',
          ''ror''} then ArmArith
      else ArmOther)"

definition arm_cmp :: "lowered_instr \<Rightarrow> effect_state \<Rightarrow> effect_state" where
  "arm_cmp ins st = (case reg_imm ins of
     Some (reg, n) \<Rightarrow>
       (case (r_storage reg, u64_of_i64 n) of
          (SGp g, Some bound) \<Rightarrow> st\<lparr>pending_cmp := Some (g, bound)\<rparr>
        | _ \<Rightarrow> st)
   | None \<Rightarrow> st)"

definition arm_guard :: "(gp \<times> nat) option \<Rightarrow> effect_state \<Rightarrow> effect_state" where
  "arm_guard pending st = (case pending of
     Some (g, bound) \<Rightarrow> st\<lparr>uppers := (uppers st)(g \<mapsto> bound)\<rparr>
   | None \<Rightarrow> st)"

definition arm_mov :: "lowered_instr \<Rightarrow> effect_state \<Rightarrow> effect_state" where
  "arm_mov ins st = (case li_operands ins of
     OMem m # OReg src # _ \<Rightarrow> spill m src st
   | OReg _ # rest \<Rightarrow>
       (case first_gp ins of
          Some d \<Rightarrow> move_to d (case rest of op # _ \<Rightarrow> Some op | [] \<Rightarrow> None) st
        | None \<Rightarrow> st)
   | _ \<Rightarrow> st)"

definition arm_lea :: "lowered_instr \<Rightarrow> effect_state \<Rightarrow> effect_state" where
  "arm_lea ins st = (case first_gp ins of
     None \<Rightarrow> st
   | Some d \<Rightarrow>
       (let st1 = forget_value d st in
        case operand_at ins 1 of
          Some (OMem m) \<Rightarrow>
            (case classify_addr m st1 None of
               Affine base _ \<Rightarrow> st1\<lparr>affinity := (affinity st1)(d \<mapsto> base)\<rparr>
             | _ \<Rightarrow> forget d st1)
        | _ \<Rightarrow> forget d st1))"

definition arm_xor :: "lowered_instr \<Rightarrow> effect_state \<Rightarrow> effect_state" where
  "arm_xor ins st = (case li_operands ins of
     OReg dst # OReg src # _ \<Rightarrow>
       (case (r_storage dst, r_storage src) of
          (SGp d, SGp s) \<Rightarrow>
            if d = s then (forget d st)\<lparr>known_consts := (known_consts st)(d \<mapsto> 0)\<rparr> else forget d st
        | _ \<Rightarrow> st)
   | _ \<Rightarrow> forget_first ins st)"

definition update_affinity :: "lowered_instr \<Rightarrow> effect_state \<Rightarrow> effect_state" where
  "update_affinity ins st0 =
     (let st = st0\<lparr>pending_cmp := None\<rparr> in
      case update_arm (mn ins) of
        ArmCmp \<Rightarrow> arm_cmp ins st
      | ArmGuard \<Rightarrow> arm_guard (pending_cmp st0) st
      | ArmJump \<Rightarrow> st
      | ArmMov \<Rightarrow> arm_mov ins st
      | ArmLea \<Rightarrow> arm_lea ins st
      | ArmXor \<Rightarrow> arm_xor ins st
      | ArmForget \<Rightarrow> forget_first ins st
      | ArmArith \<Rightarrow> (case first_gp ins of Some g \<Rightarrow> forget_value g st | None \<Rightarrow> st)
      | ArmOther \<Rightarrow> st)"

definition or_insert_all :: "inductions \<Rightarrow> inductions \<Rightarrow> inductions" where
  "or_insert_all m new = new ++ m"

definition all_inductions :: "lowered_instr list \<Rightarrow> physical_instruction list \<Rightarrow> inductions" where
  "all_inductions lowered physical =
     or_insert_all (or_insert_all (or_insert_all (discover_post_test_inductions lowered)
       (discover_countdown_inductions lowered))
       (discover_cfg_pre_test_inductions lowered physical))
       (discover_cfg_post_test_inductions lowered physical)"

definition effect_init :: "checked_param list \<Rightarrow> abi_convention \<Rightarrow> effect_state" where
  "effect_init params abi =
     \<lparr>affinity = seed_param_affinity params abi, stack_slots = Map.empty, known_consts = Map.empty,
      uppers = Map.empty, pending_cmp = None\<rparr>"

definition effect_step :: "inductions \<Rightarrow> nat \<Rightarrow> lowered_instr \<Rightarrow> effect_state \<times> observed_memory_access list \<Rightarrow>
    effect_state \<times> observed_memory_access list" where
  "effect_step inds idx ins w = (case w of (st, out) \<Rightarrow>
     (update_affinity ins st, out @ record_accesses ins st (inds idx)))"

definition collect_memory_effects_with_cfg :: "lowered_instr list \<Rightarrow> physical_instruction list \<Rightarrow> checked_contract \<Rightarrow>
    abi_convention \<Rightarrow> observed_memory_access list" where
  "collect_memory_effects_with_cfg lowered physical spec abi =
     snd (for_each (effect_step (all_inductions lowered physical)) 0 lowered (effect_init (c_parameters spec) abi, []))"

text \<open>The evidence the command line derives from the accesses (\<open>evaluate_x86_memory_evidence\<close> of
  \<open>commands.rs\<close>); \<open>abi\<close> is the convention of the target, absent for another ABI.\<close>

definition evaluate_x86_memory_evidence :: "checked_contract \<Rightarrow> physical_instruction list \<Rightarrow> lowered_instr list \<Rightarrow>
    abi_convention option \<Rightarrow> alias_analysis_report option \<times> region_access_report option" where
  "evaluate_x86_memory_evidence spec physical lowered abi =
     (case c_memory spec of
        None \<Rightarrow> (None, None)
      | Some memory \<Rightarrow>
          (case abi of
             None \<Rightarrow> (None, None)
           | Some convention \<Rightarrow>
               (let accesses = collect_memory_effects_with_cfg lowered physical spec convention in
                (Some (evaluate_alias memory accesses), evaluate_region_access memory accesses))))"

section \<open>Straight-line soundness\<close>

text \<open>The machine of \<open>X86_Machine\<close> with the operands of the last comparison, for runs that fall
  through every branch.\<close>

type_synonym flag_state = "regs \<times> (cell \<times> cell) option"

definition reg_val :: "register option \<Rightarrow> regs \<Rightarrow> cell" where
  "reg_val r s = (case r of Some r \<Rightarrow> read_view s r | None \<Rightarrow> 0)"

definition mem_addr :: "mem_operand \<Rightarrow> regs \<Rightarrow> cell" where
  "mem_addr m s = reg_val (mo_base m) s + of_nat (mo_scale m) * reg_val (mo_index m) s + word_of_int (mo_disp m)"

definition fall_effect :: "lowered_instr \<Rightarrow> flag_state \<Rightarrow> flag_state \<Rightarrow> bool" where
  "fall_effect ins x y \<longleftrightarrow>
     x86_effect (set volatile_gp) ins (fst x) (fst y) \<and>
     (\<forall>g n ops. mn ins = ''cmp'' \<and> li_operands ins = OReg (full g) # OImm n # ops \<longrightarrow>
        snd y = Some (fst x g, word_of_int n)) \<and>
     (\<forall>a b. mn ins \<in> {''jae'', ''jnb''} \<and> snd x = Some (a, b) \<longrightarrow> a < b) \<and>
     (\<forall>a b. mn ins = ''jge'' \<and> snd x = Some (a, b) \<longrightarrow> sint a < sint b) \<and>
     (\<forall>d g ops. mn ins = ''xor'' \<and> li_operands ins = OReg d # OReg d # ops \<and> r_storage d = SGp g \<and> r_width d \<in> {B32, B64} \<longrightarrow>
        fst y g = 0) \<and>
     (\<forall>g m ops. mn ins = ''lea'' \<and> li_operands ins = OReg (full g) # OMem m # ops \<longrightarrow> fst y g = mem_addr m (fst x))"

lemma read_full [simp]: "read_view s (full g) = s g"
  by (simp add: read_view_def full_def reg_gp_def read_cell_def bit_range_def)
     (rule bit_eqI, simp add: bit_and_iff)

text \<open>Instructions whose result the walk computes exactly.\<close>

fun exact_operands :: "string \<Rightarrow> operand list \<Rightarrow> bool" where
  "exact_operands m (OReg d # OReg r # _) \<longleftrightarrow>
     (if m = ''xor'' then r = d \<and> r_width d \<in> {B32, B64}
      else m \<in> {''mov'', ''movabs''} \<and> (case (r_storage d, r_storage r) of (SGp g, SGp h) \<Rightarrow> d = full g \<and> r = full h | _ \<Rightarrow> False))"
| "exact_operands m (OReg d # OImm n # _) \<longleftrightarrow>
     m \<in> {''mov'', ''movabs''} \<and> in_i64 n \<and> (case r_storage d of SGp g \<Rightarrow> d = full g | _ \<Rightarrow> False)"
| "exact_operands m (OReg d # OMem a # _) \<longleftrightarrow>
     m = ''lea'' \<and> mo_index a = None \<and> mo_disp a = 0 \<and>
     (case (r_storage d, map_option r_storage (mo_base a)) of
        (SGp g, Some (SGp b)) \<Rightarrow> d = full g \<and> mo_base a = Some (full b) | _ \<Rightarrow> False)"
| "exact_operands m _ \<longleftrightarrow> False"

definition forgotten :: "effect_state \<Rightarrow> gp \<Rightarrow> bool" where
  "forgotten st g \<longleftrightarrow> affinity st g = None \<and> known_consts st g = None \<and> uppers st g = None"

text \<open>The instructions the walk is right about: either it computes the result, or it forgets every
  register that may change. Comparisons are of whole registers, and a signed guard arms no bound.\<close>

definition effect_tracked :: "lowered_instr \<Rightarrow> effect_state \<Rightarrow> bool" where
  "effect_tracked ins st \<longleftrightarrow>
     lower_kind (mn ins) = Some (li_kind ins, li_signed ins) \<and>
     (exact_operands (mn ins) (li_operands ins) \<or>
      (\<forall>g \<in> clobbers (set volatile_gp) ins. forgotten (update_affinity ins st) g)) \<and>
     (mn ins = ''cmp'' \<longrightarrow> (case reg_imm ins of
        Some (r, n) \<Rightarrow> in_i64 n \<and> (case r_storage r of SGp g \<Rightarrow> r = full g | _ \<Rightarrow> True) | None \<Rightarrow> True)) \<and>
     (mn ins = ''jge'' \<longrightarrow> pending_cmp st = None)"

definition holds_at :: "layout \<Rightarrow> effect_state \<Rightarrow> gp \<Rightarrow> cell \<Rightarrow> bool" where
  "holds_at L st g v \<longleftrightarrow>
     (\<forall>p. affinity st g = Some p \<longrightarrow> v = word_of_int (lo_addr L p)) \<and>
     (\<forall>c. known_consts st g = Some c \<longrightarrow> v = of_nat c \<and> c < 2 ^ 64) \<and>
     (\<forall>u. uppers st g = Some u \<longrightarrow> unat v < u)"

definition walk_holds :: "layout \<Rightarrow> effect_state \<Rightarrow> flag_state \<Rightarrow> bool" where
  "walk_holds L st x \<longleftrightarrow> (\<forall>g. holds_at L st g (fst x g)) \<and>
     (\<forall>g b. pending_cmp st = Some (g, b) \<longrightarrow> snd x = Some (fst x g, of_nat b))"

lemma arm_iff:
  "update_arm m = ArmCmp \<longleftrightarrow> m = ''cmp''" "update_arm m = ArmGuard \<longleftrightarrow> m \<in> {''jae'', ''jnb'', ''jge''}"
  "update_arm m = ArmMov \<longleftrightarrow> m \<in> {''mov'', ''movabs''}" "update_arm m = ArmLea \<longleftrightarrow> m = ''lea''"
  "update_arm m = ArmXor \<longleftrightarrow> m = ''xor''"
  by (auto simp: update_arm_def)

lemma forget_fields [simp]:
  "affinity (forget_value d st) = affinity st"
  "known_consts (forget_value d st) g = (if g = d then None else known_consts st g)"
  "uppers (forget_value d st) g = (if g = d then None else uppers st g)"
  "pending_cmp (forget_value d st) = pending_cmp st"
  "affinity (forget d st) g = (if g = d then None else affinity st g)"
  "known_consts (forget d st) g = (if g = d then None else known_consts st g)"
  "uppers (forget d st) g = (if g = d then None else uppers st g)"
  "pending_cmp (forget d st) = pending_cmp st"
  by (simp_all add: forget_def forget_value_def)

text \<open>Registers other than the destination keep their facts, apart from the bound a guard arms.\<close>

definition agrees_at :: "gp \<Rightarrow> effect_state \<Rightarrow> effect_state \<Rightarrow> bool" where
  "agrees_at g st st' \<longleftrightarrow> affinity st g = affinity st' g \<and> known_consts st g = known_consts st' g \<and> uppers st g = uppers st' g"

lemma move_to_other: "g \<noteq> d \<Longrightarrow> agrees_at g (move_to d src st) st"
  by (auto simp: agrees_at_def move_to_def split: option.split operand.split storage.split)

lemma arm_mov_other: "first_gp ins \<noteq> Some g \<Longrightarrow> agrees_at g (arm_mov ins st) st"
  by (auto simp: arm_mov_def spill_def agrees_at_def move_to_other [unfolded agrees_at_def] eq_commute [of g]
      split: list.split operand.split option.split storage.split)

lemma arm_lea_other: "first_gp ins \<noteq> Some g \<Longrightarrow> agrees_at g (arm_lea ins st) st"
  by (auto simp: arm_lea_def agrees_at_def Let_def split: option.split operand.split access_addr.split)

lemma first_gp_Cons: "li_operands ins = OReg r # ops \<Longrightarrow> r_storage r = SGp g \<Longrightarrow> first_gp ins = Some g"
  by (simp add: first_gp_def)

lemma arm_xor_other: "first_gp ins \<noteq> Some g \<Longrightarrow> agrees_at g (arm_xor ins st) st"
  by (auto simp: arm_xor_def forget_first_def agrees_at_def first_gp_Cons
      split: list.split operand.split option.split storage.split)

lemma pending_kept [simp]:
  "pending_cmp (move_to d src st) = pending_cmp st" "pending_cmp (arm_mov ins st) = pending_cmp st"
  "pending_cmp (arm_lea ins st) = pending_cmp st" "pending_cmp (arm_xor ins st) = pending_cmp st"
  "pending_cmp (forget_first ins st) = pending_cmp st" "pending_cmp (arm_guard p st) = pending_cmp st"
  by (auto simp: move_to_def arm_mov_def spill_def arm_lea_def arm_xor_def forget_first_def arm_guard_def Let_def
      split: list.split operand.split option.split storage.split access_addr.split)

text \<open>An instruction that forgets what it may change keeps the walk right.\<close>

lemma update_other:
  assumes "first_gp ins \<noteq> Some g"
  shows "affinity (update_affinity ins st) g = affinity st g"
    and "known_consts (update_affinity ins st) g = known_consts st g"
    and "uppers (update_affinity ins st) g =
      (if update_arm (mn ins) = ArmGuard \<and> map_option fst (pending_cmp st) = Some g
       then map_option snd (pending_cmp st) else uppers st g)"
  using arm_mov_other [OF assms] arm_lea_other [OF assms] arm_xor_other [OF assms] assms
  by (auto simp: update_affinity_def Let_def agrees_at_def arm_cmp_def arm_guard_def forget_first_def
      split: update_arm.split option.split storage.split)

lemma update_pending:
  assumes "pending_cmp (update_affinity ins st) = Some (g, b)"
  shows "mn ins = ''cmp'' \<and> (\<exists>r n. reg_imm ins = Some (r, n) \<and> r_storage r = SGp g \<and> u64_of_i64 n = Some b)"
  using assms arm_iff(1) [of "mn ins"]
  by (auto simp: update_affinity_def Let_def arm_cmp_def split: update_arm.splits option.splits storage.splits)

lemma first_gp_dest: "first_gp ins = Some g \<longleftrightarrow> g \<in> dest_gp ins"
  by (cases "li_operands ins" rule: first_reg.cases) (auto simp: first_gp_def dest_gp_def split: storage.splits)


lemma forgotten_holds: "forgotten st g \<Longrightarrow> holds_at L st g v"
  by (simp add: holds_at_def forgotten_def)

lemma unat_less_of_nat: "v < (of_nat b :: cell) \<Longrightarrow> unat v < b"
  by (metis le_less_trans linorder_not_le of_nat_mono unat_of_nat word_less_nat_alt mod_less_eq_dividend order_less_le_trans)

lemma fewer_facts:
  assumes "update_arm (mn ins) \<notin> {ArmMov, ArmLea, ArmXor}" "update_arm (mn ins) \<noteq> ArmGuard"
  shows "holds_at L st g v \<Longrightarrow> holds_at L (update_affinity ins st) g v"
  using assms
  by (auto simp: update_affinity_def Let_def holds_at_def arm_cmp_def forget_first_def
      split: update_arm.split option.split storage.split)

text \<open>A register that keeps its value keeps its facts.\<close>

lemma kept_holds:
  assumes "walk_holds L st x" "effect_tracked ins st" "fall_effect ins x y" "fst y g = fst x g"
    and "first_gp ins \<noteq> Some g \<or> update_arm (mn ins) \<notin> {ArmMov, ArmLea, ArmXor}"
  shows "holds_at L (update_affinity ins st) g (fst y g)"
proof -
  have h: "holds_at L st g (fst y g)" using assms(1,4) by (simp add: walk_holds_def)
  show ?thesis
  proof (cases "update_arm (mn ins) = ArmGuard")
    case True
    have bound: "unat (fst y g) < u" if "pending_cmp st = Some (g, u)" for u
    proof -
      have "snd x = Some (fst x g, of_nat u)" using assms(1) that by (simp add: walk_holds_def)
      moreover have "mn ins \<in> {''jae'', ''jnb''}"
        using True assms(2) that by (auto simp: arm_iff effect_tracked_def)
      ultimately have "fst x g < of_nat u" using assms(3) by (auto simp: fall_effect_def)
      then show ?thesis using assms(4) by (simp add: unat_less_of_nat)
    qed
    then show ?thesis using True h
      by (auto simp: update_affinity_def Let_def arm_guard_def holds_at_def split: option.splits if_splits)
  next
    case False
    show ?thesis
    proof (cases "update_arm (mn ins) \<in> {ArmMov, ArmLea, ArmXor}")
      case True
      then show ?thesis using assms(5) False update_other [of ins g st] h by (auto simp: holds_at_def)
    next
      case not: False
      then show ?thesis using fewer_facts [OF not False h] by simp
    qed
  qed
qed

lemma exact_mnemonics:
  "exact_operands m ops \<Longrightarrow> m \<in> {''mov'', ''movabs'', ''lea'', ''xor''}"
  by (cases "(m, ops)" rule: exact_operands.cases) (auto split: if_splits)

lemma exact_clobbers:
  assumes "lower_kind (mn ins) = Some (li_kind ins, li_signed ins)" "mn ins \<in> {''mov'', ''movabs'', ''lea'', ''xor''}"
  shows "clobbers vol ins = dest_gp ins"
  using assms by (auto simp: clobbers_def lower_kind_def)


lemma exact_cases:
  assumes "exact_operands m ops"
  obtains (zero) d rest where "m = ''xor''" "ops = OReg d # OReg d # rest" "r_width d \<in> {B32, B64}"
    | (copy) g h rest where "m \<in> {''mov'', ''movabs''}" "ops = OReg (full g) # OReg (full h) # rest"
    | (imm) g n rest where "m \<in> {''mov'', ''movabs''}" "ops = OReg (full g) # OImm n # rest" "in_i64 n"
    | (addr) g b a rest where "m = ''lea''" "ops = OReg (full g) # OMem a # rest" "mo_index a = None" "mo_disp a = 0"
        "mo_base a = Some (full b)"
proof (cases "(m, ops)" rule: exact_operands.cases)
  case (1 m' d r rest)
  then show ?thesis using assms that(1) [of d rest] that(2) [of _ _ rest] by (auto split: if_splits storage.splits)
next
  case (2 m' d n rest)
  then show ?thesis using assms that(3) [of _ n rest] by (auto split: storage.splits)
next
  case (3 m' d a rest)
  then show ?thesis using assms that(4) [of _ a rest] by (auto split: storage.splits option.splits)
qed (use assms in auto)

lemma full_storage [simp]: "r_storage (full g) = SGp g"
  by (simp add: full_def reg_gp_def)

lemma exact_sound:
  assumes "walk_holds L st x" "fall_effect ins x y" "exact_operands (mn ins) (li_operands ins)" "first_gp ins = Some g"
  shows "holds_at L (update_affinity ins st) g (fst y g)"
  using assms(3)
proof (cases rule: exact_cases)
  case (zero d rest)
  then have d: "r_storage d = SGp g" using assms(4) by (auto simp: first_gp_def split: storage.splits)
  with zero have "fst y g = 0" using assms(2) by (auto simp: fall_effect_def)
  with zero d show ?thesis
    by (simp add: update_affinity_def Let_def update_arm_def arm_xor_def holds_at_def)
next
  case (copy d h rest)
  then have d: "d = g" using assms(4) by (simp add: first_gp_def)
  with copy have "fst y g = fst x h" using assms(2) by (auto simp: fall_effect_def x86_effect_def)
  moreover have "update_arm (mn ins) = ArmMov" using copy by (simp add: arm_iff)
  moreover have "holds_at L st h (fst x h)" using assms(1) by (simp add: walk_holds_def)
  ultimately show ?thesis using copy d assms(4)
    by (auto simp: update_affinity_def Let_def arm_mov_def move_to_def holds_at_def)
next
  case (imm d n rest)
  then have d: "d = g" using assms(4) by (simp add: first_gp_def)
  with imm have "fst y g = word_of_int n" using assms(2) by (auto simp: fall_effect_def x86_effect_def)
  moreover have "update_arm (mn ins) = ArmMov" using imm by (simp add: arm_iff)
  moreover have "n \<ge> 0 \<Longrightarrow> (word_of_int n :: cell) = of_nat (nat n) \<and> nat n < 2 ^ 64"
    using imm(3) by (simp add: rust_int nat_less_iff)
  ultimately show ?thesis using imm d assms(4)
    by (auto simp: update_affinity_def Let_def arm_mov_def move_to_def holds_at_def u64_of_i64_def)
next
  case (addr d b a rest)
  then have d: "d = g" using assms(4) by (simp add: first_gp_def)
  with addr have "fst y g = fst x b" using assms(2) by (auto simp: fall_effect_def mem_addr_def reg_val_def)
  moreover have "update_arm (mn ins) = ArmLea" using addr by (simp add: arm_iff)
  moreover have "holds_at L st b (fst x b)" using assms(1) by (simp add: walk_holds_def)
  ultimately show ?thesis using addr d assms(4)
    by (auto simp: update_affinity_def Let_def arm_lea_def operand_at_def classify_addr_def is_stack_frame_def holds_at_def
        split: option.splits)
qed

lemma update_sound:
  assumes "walk_holds L st x" "effect_tracked ins st" "fall_effect ins x y"
  shows "walk_holds L (update_affinity ins st) y"
proof -
  have k: "lower_kind (mn ins) = Some (li_kind ins, li_signed ins)" using assms(2) by (simp add: effect_tracked_def)
  have keep: "fst y g = fst x g" if "g \<notin> clobbers (set volatile_gp) ins" for g
    using assms(3) that by (simp add: fall_effect_def x86_effect_def)
  have "holds_at L (update_affinity ins st) g (fst y g)" for g
  proof (cases "exact_operands (mn ins) (li_operands ins)")
    case True
    show ?thesis
    proof (cases "first_gp ins = Some g")
      case False
      then show ?thesis
        using kept_holds [OF assms] keep exact_clobbers [OF k exact_mnemonics [OF True]] first_gp_dest by simp
    qed (rule exact_sound [OF assms(1,3) True])
  next
    case False
    show ?thesis
    proof (cases "g \<in> clobbers (set volatile_gp) ins")
      case True
      then show ?thesis using assms(2) False forgotten_holds by (simp add: effect_tracked_def)
    next
      case out: False
      then have "first_gp ins \<noteq> Some g \<or> update_arm (mn ins) \<notin> {ArmMov, ArmLea, ArmXor}"
        using exact_clobbers [OF k, of "set volatile_gp"] first_gp_dest by (auto simp: arm_iff)
      then show ?thesis using kept_holds [OF assms keep [OF out]] by simp
    qed
  qed
  moreover have "snd y = Some (fst y g, of_nat b)" if pend: "pending_cmp (update_affinity ins st) = Some (g, b)" for g b
  proof -
    obtain r n where c: "mn ins = ''cmp''" "reg_imm ins = Some (r, n)" "r_storage r = SGp g" "u64_of_i64 n = Some b"
      using update_pending [OF pend] by blast
    then have r: "r = full g" using assms(2) by (simp add: effect_tracked_def)
    obtain ops where "li_operands ins = OReg (full g) # OImm n # ops"
      using c(2) r by (auto simp: reg_imm_def split: list.splits operand.splits)
    then have "snd y = Some (fst x g, word_of_int n)" using assms(3) c(1) by (simp add: fall_effect_def)
    moreover have "li_kind ins = Compare" using k c(1) by (simp add: lower_kind_def)
    then have "fst y g = fst x g" using keep c(1) by (simp add: clobbers_def)
    moreover have "(word_of_int n :: cell) = of_nat b" using c(4) by (auto simp: u64_of_i64_def split: if_splits)
    ultimately show ?thesis by simp
  qed
  ultimately show ?thesis by (simp add: walk_holds_def)
qed

section \<open>What the recorded accesses claim\<close>

definition whole_mem :: "mem_operand \<Rightarrow> bool" where
  "whole_mem m \<longleftrightarrow> 0 < mo_scale m \<and>
     (case mo_base m of Some r \<Rightarrow> (case r_storage r of SGp g \<Rightarrow> r = full g | _ \<Rightarrow> True) | None \<Rightarrow> True) \<and>
     (case mo_index m of Some r \<Rightarrow> (case r_storage r of SGp g \<Rightarrow> r = full g | _ \<Rightarrow> True) | None \<Rightarrow> True)"

lemma index_admissible_classify:
  assumes "holds_at L st g v" "classify_index (full g) st None = (c, bound)"
  shows "index_admissible (Indexed p sc d c bound) (unat v)"
proof (cases "known_consts st g")
  case None
  then have "c = None" "bound = uppers st g" using assms(2) by (simp_all add: classify_index_def)
  then show ?thesis using assms(1) by (cases "uppers st g") (simp_all add: holds_at_def)
next
  case (Some n)
  then have "c = Some n" using assms(2) by (simp add: classify_index_def)
  moreover have "v = of_nat n" "n < 2 ^ 64" using assms(1) Some by (simp_all add: holds_at_def)
  ultimately show ?thesis by (simp add: unat_of_nat take_bit_nat_eq_self)
qed

lemma classify_sound:
  assumes "walk_holds L st x" "whole_mem m" "classify_addr m st None \<notin> {StackFrame, UnknownAddr}"
  shows "describes L (classify_addr m st None) (mem_addr m (fst x))"
proof -
  obtain b p where b: "mo_base m = Some (full b)" "affinity st b = Some p" "\<not> is_stack_frame m"
    using assms(2,3)
    by (cases "mo_base m"; cases "r_storage (the (mo_base m))")
       (auto simp: classify_addr_def whole_mem_def split: option.splits if_splits)
  have base: "reg_val (mo_base m) (fst x) = word_of_int (lo_addr L p)"
    using assms(1) b by (simp add: reg_val_def walk_holds_def holds_at_def)
  show ?thesis
  proof (cases "mo_index m")
    case None
    then show ?thesis using b base by (simp add: classify_addr_def describes_def mem_addr_def reg_val_def)
  next
    case (Some r)
    let ?v = "reg_val (Some r) (fst x)"
    have scale: "max (mo_scale m) 1 = mo_scale m" using assms(2) by (simp add: whole_mem_def)
    obtain c bound where ci: "classify_index r st None = (c, bound)" by fastforce
    have "index_admissible (Indexed p (max (mo_scale m) 1) (mo_disp m) c bound) (unat ?v)"
    proof (cases "\<exists>g. r_storage r = SGp g")
      case True
      then obtain g where g: "r = full g" using assms(2) Some by (auto simp: whole_mem_def)
      have "holds_at L st g (fst x g)" using assms(1) by (simp add: walk_holds_def)
      then show ?thesis using ci g index_admissible_classify by (simp add: reg_val_def)
    next
      case False
      then show ?thesis using ci by (simp add: classify_index_def split: storage.splits)
    qed
    moreover have "mem_addr m (fst x) =
        word_of_int (lo_addr L p + access_offset (Indexed p (max (mo_scale m) 1) (mo_disp m) c bound) (unat ?v))"
      using base Some scale by (simp add: mem_addr_def)
    ultimately show ?thesis using b Some ci by (auto simp: classify_addr_def describes_def)
  qed
qed

lemma collect_walk:
  "for_each (effect_step inds) k body (st, out) =
     (walk_at update_affinity st body (length body),
      out @ concat (map (\<lambda>i. record_accesses (body ! i) (walk_at update_affinity st body i) (inds (k + i))) [0..<length body]))"
proof (induction body arbitrary: k st out)
  case (Cons ins body)
  have "[0..<length (ins # body)] = 0 # map Suc [0..<length body]"
    by (simp add: map_Suc_upt upt_conv_Cons del: upt_Suc)
  moreover have "effect_step inds k ins (st, out) = (update_affinity ins st, out @ record_accesses ins st (inds k))"
    by (simp add: effect_step_def)
  ultimately show ?case by (simp add: Cons.IH walk_at_def o_def del: upt_Suc)
qed (simp add: walk_at_def)

lemma recorded:
  assumes "k < length (li_operands ins)" "li_operands ins ! k = OMem m" "access_mode_of (mn ins) k ins = Some mode"
  shows "\<lparr>oa_mode = mode, oa_width_bytes = width_bytes (mo_width m), oa_addr = classify_addr m st ind,
      oa_mnemonic = mn ins, oa_instruction_offset = 0\<rparr> \<in> set (record_accesses ins st ind)"
proof -
  have "(k, OMem m) \<in> set (enumerate 0 (li_operands ins))"
    using assms(1,2) by (simp add: in_set_enumerate_eq)
  then show ?thesis using assms(3) by (force simp: record_accesses_def)
qed

text \<open>The walk is right at every point a run falls through to.\<close>

abbreviation effect_at :: "checked_param list \<Rightarrow> abi_convention \<Rightarrow> lowered_instr list \<Rightarrow> nat \<Rightarrow> effect_state" where
  "effect_at params abi \<equiv> walk_at update_affinity (effect_init params abi)"

definition entry_layout :: "checked_param list \<Rightarrow> abi_convention \<Rightarrow> layout \<Rightarrow> regs \<Rightarrow> bool" where
  "entry_layout params abi L s \<longleftrightarrow> (\<forall>g p. seed_param_affinity params abi g = Some p \<longrightarrow> s g = word_of_int (lo_addr L p))"

definition effects_tracked :: "checked_param list \<Rightarrow> abi_convention \<Rightarrow> lowered_instr list \<Rightarrow> bool" where
  "effects_tracked params abi lowered \<longleftrightarrow>
     (\<forall>i < length lowered. effect_tracked (lowered ! i) (effect_at params abi lowered i))"

lemma walk_at_holds:
  assumes "effects_tracked params abi lowered" "entry_layout params abi L (fst x0)"
    and "reaches fall_effect x86_stops (\<lambda>_ _. False) lowered x0 i x"
  shows "walk_holds L (effect_at params abi lowered i) x"
  using assms(3)
proof induction
  case entry
  then show ?case using assms(2) by (simp add: entry_layout_def effect_init_def walk_holds_def holds_at_def)
next
  case (fall i m m')
  then show ?case using update_sound assms(1) by (simp add: walk_at_Suc effects_tracked_def)
qed simp

lemma memory_effects_describe:
  assumes "effects_tracked (c_parameters spec) abi lowered" "entry_layout (c_parameters spec) abi L (fst x0)"
    and "reaches fall_effect x86_stops (\<lambda>_ _. False) lowered x0 i x" "i < length lowered"
    and "all_inductions lowered physical i = None"
    and "k < length (li_operands (lowered ! i))" "li_operands (lowered ! i) ! k = OMem m" "whole_mem m"
    and "access_mode_of (mn (lowered ! i)) k (lowered ! i) = Some mode"
  shows "\<exists>a \<in> set (collect_memory_effects_with_cfg lowered physical spec abi).
    oa_mode a = mode \<and> oa_width_bytes a = width_bytes (mo_width m) \<and> (oa_addr a = StackFrame \<longleftrightarrow> is_stack_frame m) \<and>
    (oa_addr a \<in> {StackFrame, UnknownAddr} \<or> describes L (oa_addr a) (mem_addr m (fst x)))"
proof -
  let ?st = "effect_at (c_parameters spec) abi lowered i"
  let ?a = "\<lparr>oa_mode = mode, oa_width_bytes = width_bytes (mo_width m), oa_addr = classify_addr m ?st None,
      oa_mnemonic = mn (lowered ! i), oa_instruction_offset = 0\<rparr>"
  have "?a \<in> set (collect_memory_effects_with_cfg lowered physical spec abi)"
    using recorded [OF assms(6,7,9), of ?st None] assms(4,5)
    by (auto simp: collect_memory_effects_with_cfg_def collect_walk intro!: bexI [of _ i])
  moreover have "classify_addr m ?st None = StackFrame \<longleftrightarrow> is_stack_frame m"
    by (auto simp: classify_addr_def split: option.splits storage.splits prod.splits)
  ultimately show ?thesis
    using classify_sound [OF walk_at_holds [OF assms(1-3)] assms(8)] by (intro bexI [of _ ?a]) auto
qed


lemma region_access_declared:
  assumes "evaluate_region_access memory (collect_memory_effects_with_cfg lowered physical spec abi) = Some rep"
    and "rr_status rep = RaPassed"
    and "evidence_exact memory (collect_memory_effects_with_cfg lowered physical spec abi)"
    and "effects_tracked (c_parameters spec) abi lowered" "entry_layout (c_parameters spec) abi L (fst x0)"
    and "reaches fall_effect x86_stops (\<lambda>_ _. False) lowered x0 i x" "i < length lowered"
    and "all_inductions lowered physical i = None"
    and "k < length (li_operands (lowered ! i))" "li_operands (lowered ! i) ! k = OMem m" "whole_mem m"
    and "access_mode_of (mn (lowered ! i)) k (lowered ! i) = Some mode" "\<not> is_stack_frame m"
  shows "bytes_declared L memory mode (width_bytes (mo_width m)) (mem_addr m (fst x))"
proof -
  let ?accs = "collect_memory_effects_with_cfg lowered physical spec abi"
  obtain a where a: "a \<in> set ?accs" "oa_mode a = mode" "oa_width_bytes a = width_bytes (mo_width m)"
      "oa_addr a = UnknownAddr \<or> describes L (oa_addr a) (mem_addr m (fst x))"
    using memory_effects_describe [OF assms(4-12)] assms(13) by auto
  from passed_describes [OF assms(1-3) a(1,4)] show ?thesis by (simp add: a(2,3))
qed


text \<open>A guarded table lookup: \<open>cmp rsi, 16; jae ...; mov eax, dword ptr [rdi + rsi*4]\<close>.\<close>

definition lookup_spec :: checked_contract where
  "lookup_spec = \<lparr>version_major = 0, version_minor = 1, c_name = ''lookup'', c_summary = None,
     c_parameters = [\<lparr>cp_name = ''p'', cp_ty = Ptr (UInt 32) False, cp_type_source = ''ptr'', cp_role = None\<rparr>,
       \<lparr>cp_name = ''i'', cp_ty = Usize, cp_type_source = ''usize'', cp_role = None\<rparr>],
     c_returns = [], c_requires = [], c_ensures = [], c_effects = [], c_memory = Some table_memory,
     c_constraints = None, c_target_overrides = []\<rparr>"

definition table_operand :: mem_operand where
  "table_operand = \<lparr>mo_base = Some (full Rdi), mo_index = Some (full Rsi), mo_scale = 4, mo_disp = 0, mo_width = B32\<rparr>"

definition lookup_body :: "lowered_instr list" where
  "lookup_body =
     [\<lparr>li_mnemonic = ''cmp'', li_kind = Compare, li_width = B64, li_signed = None, li_operands = [OReg (full Rsi), OImm 16]\<rparr>,
      \<lparr>li_mnemonic = ''jae'', li_kind = Branch, li_width = B64, li_signed = Some False, li_operands = [OImm 64]\<rparr>,
      \<lparr>li_mnemonic = ''mov'', li_kind = OpStore, li_width = B32, li_signed = None,
        li_operands = [OReg (low32 Rax), OMem table_operand]\<rparr>]"

lemma lookup_run:
  "reaches fall_effect x86_stops (\<lambda>_ _. False) lookup_body ((\<lambda>_. 0)(Rdi := 4096, Rsi := 7), None) 2
     ((\<lambda>_. 0)(Rdi := 4096, Rsi := 7), Some (7, 16))"
proof -
  let ?s = "(\<lambda>_. 0)(Rdi := 4096, Rsi := 7) :: regs"
  let ?r = "reaches fall_effect x86_stops (\<lambda>_ _. False) lookup_body (?s, None)"
  note run = reaches.fall [of fall_effect x86_stops "\<lambda>_ _. False" lookup_body "(?s, None)"]
  have inj: "full g = full h \<longleftrightarrow> g = h" for g h by (auto simp: full_def reg_gp_def)
  have lc: "to_ascii_lowercase ''cmp'' = ''cmp''" "to_ascii_lowercase ''jae'' = ''jae''" by code_simp+
  note defs = lc fall_effect_def x86_effect_def clobbers_def lookup_body_def x86_stops_def inj
  have "?r (Suc 0) (?s, Some (7, 16))"
    by (rule run [OF reaches.entry]) (auto simp: defs)
  then have "?r (Suc (Suc 0)) (?s, Some (7, 16))"
    by (rule run) (auto simp: defs)
  then show ?thesis by (simp add: eval_nat_numeral)
qed

lemma lookup_tracked: "effects_tracked (c_parameters lookup_spec) SysV lookup_body"
proof -
  have "list_all (\<lambda>i. effect_tracked (lookup_body ! i) (effect_at (c_parameters lookup_spec) SysV lookup_body i)) [0, 1, 2]"
    by code_simp
  moreover have "length lookup_body = 3" by (simp add: lookup_body_def)
  ultimately show ?thesis by (auto simp: effects_tracked_def less_Suc_eq eval_nat_numeral)
qed


section \<open>Counted loops\<close>

text \<open>Runs with taken branches: falling through obeys the flags, a taken branch goes where \<open>jump\<close> says.\<close>

inductive loop_runs :: "(nat \<Rightarrow> nat \<Rightarrow> bool) \<Rightarrow> lowered_instr list \<Rightarrow> flag_state \<Rightarrow> nat \<Rightarrow> flag_state \<Rightarrow> bool"
  for jump body x0 where
  loop_entry: "loop_runs jump body x0 0 x0"
| loop_fall: "loop_runs jump body x0 i x \<Longrightarrow> i < length body \<Longrightarrow> \<not> x86_stops (body ! i) \<Longrightarrow>
    fall_effect (body ! i) x y \<Longrightarrow> loop_runs jump body x0 (Suc i) y"
| loop_taken: "loop_runs jump body x0 i x \<Longrightarrow> i < length body \<Longrightarrow> jump i j \<Longrightarrow>
    x86_effect (set volatile_gp) (body ! i) (fst x) (fst y) \<Longrightarrow> loop_runs jump body x0 j y"

lemma fold_insert_at: "fold (\<lambda>at m. m(at \<mapsto> v)) accs m at = Some w \<Longrightarrow> m at = Some w \<or> at \<in> set accs \<and> w = v"
proof (induction accs arbitrary: m)
  case (Cons a accs)
  have "(m(a \<mapsto> v)) at = Some w \<or> at \<in> set accs \<and> w = v"
    using Cons.IH [of "m(a \<mapsto> v)"] Cons.prems by (simp only: fold_simps)
  then show ?case by (cases "at = a") auto
qed simp

lemma pre_test_body_accs:
  "pre_test_body g saw accs xs = Some (saw', accs') \<Longrightarrow> set accs' \<subseteq> set accs \<union> fst ` set xs"
proof (induction g saw accs xs rule: pre_test_body.induct)
  case (2 g saw_inc accs at ins rest)
  then show ?case by (cases "accesses_index g ins") (fastforce split: if_splits)+
qed simp

lemma pre_test_loop_match:
  assumes "pre_test_loop lowered physical h m at = Some (g, bound)" "m at \<noteq> Some (g, bound)"
  obtains reg n exit where "mn (lowered ! h) = ''cmp''" "reg_imm (lowered ! h) = Some (reg, n)" "r_storage reg = SGp g"
    "0 < n" "bound = nat n" "mn (lowered ! (h + 1)) \<in> {''jae'', ''jnb'', ''jge''}"
    "branch_target_index (physical ! (h + 1)) (by_address physical) = Some exit" "h + 2 \<le> at" "at + 1 < exit" "exit \<le> length lowered"
    "index_was_zero_initialized lowered h g"
    "branch_target_index (physical ! (exit - 1)) (by_address physical) = Some h"
proof -
  obtain reg n where cmp: "mn (lowered ! h) = ''cmp''" "reg_imm (lowered ! h) = Some (reg, n)"
    using assms by (auto simp: pre_test_loop_def Let_def split: if_splits option.splits)
  obtain g' where g': "r_storage reg = SGp g'"
    using assms cmp by (cases "r_storage reg") (simp_all add: pre_test_loop_def Let_def)
  obtain exit where ex: "branch_target_index (physical ! (h + 1)) (by_address physical) = Some exit"
    using assms cmp g' by (cases "branch_target_index (physical ! (h + 1)) (by_address physical)")
      (simp_all add: pre_test_loop_def Let_def split: if_splits)
  obtain b accs where body: "pre_test_body g' False [] (drop (h + 2) (take (exit - 1) (enumerate 0 lowered))) = Some (b, accs)"
    using assms cmp g' ex by (auto simp: pre_test_loop_def Let_def split: if_splits option.splits)
  have rest: "0 < n" "index_was_zero_initialized lowered h g'" "mn (lowered ! (h + 1)) \<in> {''jae'', ''jnb'', ''jge''}"
      "h + 2 < exit" "exit \<le> length lowered" "branch_target_index (physical ! (exit - 1)) (by_address physical) = Some h"
    and ins: "fold (\<lambda>at m. m(at \<mapsto> (g', nat n))) accs m at = Some (g, bound)"
    using assms cmp g' ex body by (auto simp: pre_test_loop_def Let_def split: if_splits bool.splits)
  have "at \<in> set accs" "g = g'" "bound = nat n" using fold_insert_at [OF ins] assms(2) by auto
  moreover from this have "at \<in> fst ` set (drop (h + 2) (take (exit - 1) (enumerate 0 lowered)))"
    using pre_test_body_accs [OF body] by auto
  then obtain y where y: "y \<in> set (drop (h + 2) (take (exit - 1) (enumerate 0 lowered)))" "at = fst y" by blast
  from y(1) obtain i where i: "i < length (drop (h + 2) (take (exit - 1) (enumerate 0 lowered)))"
      "y = drop (h + 2) (take (exit - 1) (enumerate 0 lowered)) ! i" by (metis in_set_conv_nth)
  have bounds: "h + 2 + i < exit - 1" "h + 2 + i < length lowered" using i(1) by simp_all
  then have "drop (h + 2) (take (exit - 1) (enumerate 0 lowered)) ! i = enumerate 0 lowered ! (h + 2 + i)"
    by (simp add: nth_drop)
  then have "at = h + 2 + i" using i(2) y(2) bounds by (simp add: nth_enumerate_eq)
  then have "h + 2 \<le> at" "at < exit - 1" using bounds by simp_all
  ultimately show ?thesis using that [of reg n exit] cmp g' ex rest by auto
qed

text \<open>C24: A bound found for an access of a pre-test loop with an immediate limit holds of the index register whenever a run arrives at the
  access, when the guard compares the whole 64-bit register, is unsigned, and the comparison and the guard are lowered as a comparison and a branch;
  every jump goes to the header or an instruction before it, or to the guard's exit or an instruction behind it, so that the loop
  is entered only through its header; no instruction between the guard and the access changes the index; and the bound fits
  64 bits. A guard on a part of the register (\<open>cl\<close>, \<open>ecx\<close>) bounds that part only and is not meant.\<close>

theorem pre_test_bound_sound:
  assumes "pre_test_loop lowered physical h Map.empty at = Some (g, bound)"
    and "branch_target_index (physical ! (h + 1)) (by_address physical) = Some exit"
    and "\<forall>i j. jump i j \<longrightarrow> j \<le> h \<or> exit \<le> j"
    and "first_reg (li_operands (lowered ! h)) = Some (full g)" "li_kind (lowered ! h) = Compare"
    and "mn (lowered ! (h + 1)) \<noteq> ''jge''" "li_kind (lowered ! (h + 1)) = Branch" "bound < 2 ^ 64"
    and "list_all (\<lambda>i. g \<notin> clobbers (set volatile_gp) (lowered ! i)) [h + 2 ..< at]"
    and "loop_runs jump lowered x0 at x"
  shows "unat (fst x g) < bound"
proof -
  obtain reg n where m: "mn (lowered ! h) = ''cmp''" "reg_imm (lowered ! h) = Some (reg, n)" "0 < n" "bound = nat n"
      "mn (lowered ! (h + 1)) \<in> {''jae'', ''jnb''}" "h + 2 \<le> at" "at + 1 < exit"
    by (rule pre_test_loop_match [OF assms(1)]) (use assms(2,6) in auto)
  obtain ops where ops: "li_operands (lowered ! h) = OReg (full g) # OImm n # ops"
    using m(2) assms(4) by (auto simp: reg_imm_def split: list.splits operand.splits)
  have keep: "fst y g = fst z g" if "fall_effect ins z y" "g \<notin> clobbers (set volatile_gp) ins" for ins y z
    using that by (simp add: fall_effect_def x86_effect_def)
  have "(i = h + 1 \<longrightarrow> snd y = Some (fst y g, of_nat bound)) \<and> (h + 2 \<le> i \<and> i \<le> at \<longrightarrow> unat (fst y g) < bound)"
    if "loop_runs jump lowered x0 i y" for i y
    using that
  proof induction
    case loop_entry
    then show ?case by simp
  next
    case (loop_fall i x y)
    consider "i < h" | (cmp) "i = h" | (guard) "i = h + 1" | (body) "h + 2 \<le> i" by linarith
    then show ?case
    proof cases
      case cmp
      have "snd y = Some (fst x g, word_of_int n)" using loop_fall(4) cmp m(1) ops by (simp add: fall_effect_def)
      moreover have "fst y g = fst x g" using keep [OF loop_fall(4)] cmp m(1) assms(5) by (simp add: clobbers_def)
      moreover have "(word_of_int n :: cell) = of_nat bound" using m(3,4) by simp
      ultimately show ?thesis using cmp by simp
    next
      case guard
      have "mn (lowered ! i) \<in> {''jae'', ''jnb''}" using guard m(5) by simp
      moreover have "snd x = Some (fst x g, of_nat bound)" using loop_fall(5) guard by simp
      ultimately have "fst x g < of_nat bound" using loop_fall(4) by (auto simp: fall_effect_def)
      moreover have "fst y g = fst x g"
        using keep [OF loop_fall(4)] guard m(5) assms(7) by (auto simp: clobbers_def)
      ultimately show ?thesis using guard by (simp add: unat_less_of_nat)
    next
      case body
      show ?thesis
      proof (cases "i < at")
        case True
        then have "g \<notin> clobbers (set volatile_gp) (lowered ! i)" using assms(9) body by (simp add: list_all_iff)
        then show ?thesis using keep [OF loop_fall(4)] loop_fall(5) True body by simp
      qed (use body in simp)
    qed simp
  next
    case (loop_taken i x j y)
    then have "j \<le> h \<or> exit \<le> j" using assms(3) by blast
    then show ?case using m(6,7) by auto
  qed
  then show ?thesis using assms(10) m(6) by blast
qed


text \<open>\<open>xor ecx, ecx; 1: cmp rcx, 4; jae 6; mov al, byte ptr [rdi + rcx]; inc rcx; jmp 1; 6: ret\<close>, and the same
  loop with the increment before the access.\<close>

definition ins_of :: "string \<Rightarrow> op_kind \<Rightarrow> bool option \<Rightarrow> operand list \<Rightarrow> lowered_instr" where
  "ins_of m k sg ops = \<lparr>li_mnemonic = m, li_kind = k, li_width = B64, li_signed = sg, li_operands = ops\<rparr>"

definition byte_operand :: mem_operand where
  "byte_operand = \<lparr>mo_base = Some (full Rdi), mo_index = Some (full Rcx), mo_scale = 1, mo_disp = 0, mo_width = B8\<rparr>"

definition load_byte :: lowered_instr where
  "load_byte = ins_of ''mov'' OpStore None [OReg (low8 Rax), OMem byte_operand]"

definition inc_index :: lowered_instr where
  "inc_index = ins_of ''inc'' Binary None [OReg (full Rcx)]"

definition counted_loop :: "lowered_instr \<Rightarrow> lowered_instr \<Rightarrow> lowered_instr list" where
  "counted_loop a b =
     [ins_of ''xor'' Binary None [OReg (low32 Rcx), OReg (low32 Rcx)],
      ins_of ''cmp'' Compare None [OReg (full Rcx), OImm 4],
      ins_of ''jae'' Branch (Some False) [OImm 6], a, b,
      ins_of ''jmp'' Branch None [OImm 1], ins_of ''ret'' OpReturn None []]"

definition physical_at :: "nat \<Rightarrow> string \<Rightarrow> string list \<Rightarrow> physical_instruction" where
  "physical_at addr m ops = \<lparr>pi_address = addr, pi_bytes = [], pi_mnemonic = m, pi_operands = ops, pi_read_regs = [],
     pi_write_regs = [], pi_groups = [], pi_detail_available = False\<rparr>"

definition loop_physical :: "physical_instruction list" where
  "loop_physical = [physical_at 0 ''xor'' [], physical_at 1 ''cmp'' [], physical_at 2 ''jae'' [''0x6''], physical_at 3 ''mov'' [],
     physical_at 4 ''inc'' [], physical_at 5 ''jmp'' [''0x1''], physical_at 6 ''ret'' []]"

lemma counted_loop_run:
  "loop_runs (\<lambda>i j. i = 5 \<and> j = 1) (counted_loop load_byte inc_index) (\<lambda>_. 9, None) 3 ((\<lambda>_. 9)(Rcx := 0), Some (0, 4))"
proof -
  let ?r = "loop_runs (\<lambda>i j. i = 5 \<and> j = 1) (counted_loop load_byte inc_index) (\<lambda>_. 9, None)"
  note run = loop_fall [of "\<lambda>i j. i = 5 \<and> j = 1" "counted_loop load_byte inc_index" "(\<lambda>_. 9, None)"]
  have inj: "full g = full h \<longleftrightarrow> g = h" for g h by (auto simp: full_def reg_gp_def)
  have lc: "to_ascii_lowercase ''cmp'' = ''cmp''" "to_ascii_lowercase ''jae'' = ''jae''" "to_ascii_lowercase ''xor'' = ''xor''"
    by code_simp+
  note defs = lc fall_effect_def x86_effect_def clobbers_def x86_stops_def inj counted_loop_def ins_of_def dest_gp_def
    low32_def reg_gp_def
  have "?r (Suc 0) ((\<lambda>_. 9)(Rcx := 0), None)"
    by (rule run [OF loop_entry]) (auto simp: defs)
  then have "?r (Suc (Suc 0)) ((\<lambda>_. 9)(Rcx := 0), Some (0, 4))"
    by (rule run) (auto simp: defs full_def)
  then have "?r (Suc (Suc (Suc 0))) ((\<lambda>_. 9)(Rcx := 0), Some (0, 4))"
    by (rule run) (auto simp: defs)
  then show ?thesis by (simp add: eval_nat_numeral)
qed

theorem pre_test_bound_sound_witness:
  "map (pre_test_loop (counted_loop load_byte inc_index) loop_physical 1 Map.empty) [3] = [Some (Rcx, 4)] \<and>
   unat (((\<lambda>_. 9)(Rcx := 0) :: regs) Rcx) < 4"
proof -
  let ?body = "counted_loop load_byte inc_index"
  have found: "map (pre_test_loop ?body loop_physical 1 Map.empty) [3] = [Some (Rcx, 4)]" by code_simp
  have target: "map (\<lambda>i. branch_target_index (loop_physical ! i) (by_address loop_physical)) [2] = [Some 6]" by code_simp
  have kinds: "li_kind (?body ! 1) = Compare" "li_kind (?body ! 2) = Branch" "mn (?body ! 2) \<noteq> ''jge''" by code_simp+
  have reg: "map (\<lambda>i. first_reg (li_operands (?body ! i))) [1] = [Some (full Rcx)]" by code_simp
  have "unat (fst ((\<lambda>_. 9)(Rcx := 0) :: regs, Some (0 :: cell, 4 :: cell)) Rcx) < 4"
    by (rule pre_test_bound_sound [where h = 1 and at = 3 and exit = 6 and lowered = ?body and physical = loop_physical
          and jump = "\<lambda>i j. i = 5 \<and> j = 1" and ?x0.0 = "(\<lambda>_. 9, None)"])
       (use found target kinds reg counted_loop_run in \<open>simp_all del: One_nat_def\<close>)
  then show ?thesis using found by simp
qed

section \<open>Where the extraction over-claims\<close>

definition bytes_memory :: "nat \<Rightarrow> checked_memory" where
  "bytes_memory n = \<lparr>cm_regions =
     [\<lparr>cr_name = ''buf'', cr_base_param = ''p'', cr_offset = 0, cr_length = Literal n, cr_access = ReadWrite\<rparr>],
     cm_relations = []\<rparr>"

abbreviation evidence_status :: "nat \<Rightarrow> physical_instruction list \<Rightarrow> lowered_instr list \<Rightarrow> region_access_status option" where
  "evidence_status n physical lowered \<equiv>
     map_option rr_status (snd (evaluate_x86_memory_evidence (lookup_spec\<lparr>c_memory := Some (bytes_memory n)\<rparr>) physical lowered (Some SysV)))"

text \<open>The access after the increment reaches index 4, but is given the bound of the guard: the
  evidence passes for a buffer of four bytes.\<close>

lemma late_access_accepted: "evidence_status 4 loop_physical (counted_loop inc_index load_byte) = Some RaPassed"
  by code_simp

text \<open>Pointer arithmetic keeps the parameter and drops the offset: \<open>add rdi, 1000; mov byte ptr [rdi], al\<close>
  passes for four bytes.\<close>

definition store_at :: "gp \<Rightarrow> lowered_instr" where
  "store_at g = ins_of ''mov'' OpStore None
     [OMem \<lparr>mo_base = Some (full g), mo_index = None, mo_scale = 1, mo_disp = 0, mo_width = B8\<rparr>, OReg (low8 Rax)]"

lemma moved_pointer_accepted:
  "evidence_status 4 [] [ins_of ''add'' Binary None [OReg (full Rdi), OImm 1000], store_at Rdi] = Some RaPassed"
  by code_simp

text \<open>So does \<open>lea rdx, [rdi + 1000]\<close>, and a pointer register after a call that may have changed it.\<close>

lemma lea_offset_dropped:
  "evidence_status 4 [] [ins_of ''lea'' OpLoad None [OReg (full Rdx),
      OMem \<lparr>mo_base = Some (full Rdi), mo_index = None, mo_scale = 1, mo_disp = 1000, mo_width = B64\<rparr>], store_at Rdx] = Some RaPassed"
  by code_simp

lemma pointer_survives_call:
  "evidence_status 4 [] [ins_of ''call'' OpCall None [OImm 64], store_at Rdi] = Some RaPassed"
  by code_simp

text \<open>A signed guard is taken for an unsigned bound: \<open>cmp rcx, 4; jge ...\<close> lets negative indices through.\<close>

lemma signed_guard_accepted:
  "evidence_status 4 [] [ins_of ''cmp'' Compare None [OReg (full Rcx), OImm 4], ins_of ''jge'' Branch (Some True) [OImm 64],
      load_byte] = Some RaPassed \<and>
   sint (-1 :: cell) < 4 \<and> \<not> (-1 :: cell) < 4"
proof
  show "evidence_status 4 [] [ins_of ''cmp'' Compare None [OReg (full Rcx), OImm 4], ins_of ''jge'' Branch (Some True) [OImm 64],
      load_byte] = Some RaPassed" by code_simp
qed simp

end
