(* ===== verification/Affine_Effects.thy ===== *)
theory Affine_Effects
  imports Effect_Walk A64_Abi Rv_Abi
begin

text \<open>
  Memory-effect extraction for AArch64 and RISC-V: \<open>semasm-cli/src/memory_effects_aarch64.rs\<close> and
  \<open>memory_effects_riscv.rs\<close>. Both track only which registers hold a pointer parameter; each is an
  interpretation of the locale \<open>affine_walk\<close> on an execution model of the registers.
\<close>

section \<open>RISC-V\<close>

definition rv_seed_param_affinity :: "checked_param list \<Rightarrow> gpr \<Rightarrow> string option" where
  "rv_seed_param_affinity params = seed_pointers params [A0, A1, A2, A3, A4, A5, A6, A7]"

definition rv_access_mode :: "string \<Rightarrow> op_kind \<Rightarrow> access_mode option" where
  "rv_access_mode mnemonic kind =
     (if mnemonic = ''auipc'' then None else if kind = OpStore then Some Store else Some Load)"

definition rv_is_stack_frame :: "rv_mem \<Rightarrow> bool" where
  "rv_is_stack_frame m = (case rm_base m of
     Some b \<Rightarrow> rg_gpr b \<in> {RSp, S0} \<and> rm_index m = None
   | None \<Rightarrow> False)"

text \<open>\<open>u8::try_from(scale.max(1)).unwrap_or(1)\<close>.\<close>

definition scale_u8 :: "int \<Rightarrow> nat" where
  "scale_u8 s = (let m = max s 1 in if m \<le> 255 then nat m else 1)"

definition rv_classify_addr :: "rv_mem \<Rightarrow> (gpr \<Rightarrow> string option) \<Rightarrow> access_addr" where
  "rv_classify_addr m aff =
     (if rv_is_stack_frame m then StackFrame
      else case rm_base m of
        None \<Rightarrow> UnknownAddr
      | Some b \<Rightarrow>
          (case aff (rg_gpr b) of
             None \<Rightarrow> UnknownAddr
           | Some param \<Rightarrow>
               if rm_index m \<noteq> None then Indexed param (scale_u8 (rm_scale m)) (rm_disp m) None None
               else Affine param (rm_disp m)))"

definition rv_width_bytes :: "rv_width \<Rightarrow> nat" where
  "rv_width_bytes w = rv_bits w div 8"

definition rv_record_accesses :: "rv_instr \<Rightarrow> (gpr \<Rightarrow> string option) \<Rightarrow> observed_memory_access list" where
  "rv_record_accesses ins aff =
     concat (map (\<lambda>op. case op of
         RMem m \<Rightarrow>
           (case rv_access_mode (to_ascii_lowercase (rl_mnemonic ins)) (rl_kind ins) of
              Some mode \<Rightarrow> [\<lparr>oa_mode = mode, oa_width_bytes = rv_width_bytes (rm_width m), oa_addr = rv_classify_addr m aff,
                oa_mnemonic = to_ascii_lowercase (rl_mnemonic ins), oa_instruction_offset = 0\<rparr>]
            | None \<Rightarrow> [])
       | _ \<Rightarrow> []) (rl_operands ins))"

fun rv_first :: "rv_operand list \<Rightarrow> gpr option" where
  "rv_first (RReg r # _) = Some (rg_gpr r)"
| "rv_first _ = None"

definition rv_update_affinity :: "rv_instr \<Rightarrow> (gpr \<Rightarrow> string option) \<Rightarrow> gpr \<Rightarrow> string option" where
  "rv_update_affinity ins aff =
     (let m = to_ascii_lowercase (rl_mnemonic ins) in
      case rv_first (rl_operands ins) of
        None \<Rightarrow> aff
      | Some d \<Rightarrow>
          if m \<in> {''mv'', ''li''} then
            (if d = RZero then aff
             else case rv_first (tl (rl_operands ins)) of
               Some s \<Rightarrow> aff(d := if s = RZero then None else aff s)
             | None \<Rightarrow> aff(d := None))
          else if m \<in> {''addi'', ''add'', ''addiw'', ''addw'', ''sub'', ''subw''} then
            (case rv_first (tl (rl_operands ins)) of
               Some s \<Rightarrow> (case aff s of Some name \<Rightarrow> aff(d \<mapsto> name) | None \<Rightarrow> aff)
             | None \<Rightarrow> aff)
          else if m \<in> {''ld'', ''lb'', ''lh'', ''lw'', ''lbu'', ''lhu'', ''lwu'', ''and'', ''andi'', ''or'', ''ori'',
              ''xor'', ''mul'', ''sll'', ''slli''} then (if d \<noteq> RZero then aff(d := None) else aff)
          else aff)"

definition rv_collect_memory_effects :: "rv_instr list \<Rightarrow> checked_contract \<Rightarrow> observed_memory_access list" where
  "rv_collect_memory_effects lowered spec =
     collect_accesses rv_update_affinity rv_record_accesses lowered (rv_seed_param_affinity (c_parameters spec))"

definition evaluate_riscv_memory_evidence :: "checked_contract \<Rightarrow> rv_instr list \<Rightarrow>
    alias_analysis_report option \<times> region_access_report option" where
  "evaluate_riscv_memory_evidence spec lowered =
     (case c_memory spec of
        None \<Rightarrow> (None, None)
      | Some memory \<Rightarrow>
          (let accesses = rv_collect_memory_effects lowered spec in
           (Some (evaluate_alias memory accesses), evaluate_region_access memory accesses)))"

section \<open>AArch64\<close>

definition a64_seed_param_affinity :: "checked_param list \<Rightarrow> a64_gp \<Rightarrow> string option" where
  "a64_seed_param_affinity params = seed_pointers params [X0, X1, X2, X3, X4, X5, X6, X7]"

definition a64_access_mode :: "string \<Rightarrow> op_kind \<Rightarrow> access_mode option" where
  "a64_access_mode mnemonic kind =
     (if mnemonic \<in> {''adr'', ''adrp''} then None else if kind = OpStore then Some Store else Some Load)"

definition a64_is_stack_frame :: "a64_mem \<Rightarrow> bool" where
  "a64_is_stack_frame m = (case am_base m of
     Some b \<Rightarrow> ag_storage b = ASp \<or> ag_storage b = AGp AFp \<and> am_index m = None
   | None \<Rightarrow> False)"

definition a64_classify_addr :: "a64_mem \<Rightarrow> (a64_gp \<Rightarrow> string option) \<Rightarrow> access_addr" where
  "a64_classify_addr m aff =
     (if a64_is_stack_frame m then StackFrame
      else case am_base m of
        None \<Rightarrow> UnknownAddr
      | Some b \<Rightarrow>
          (case ag_storage b of
             AGp g \<Rightarrow>
               (case aff g of
                  None \<Rightarrow> UnknownAddr
                | Some param \<Rightarrow>
                    if am_index m \<noteq> None then Indexed param (scale_u8 (am_scale m)) (am_disp m) None None
                    else Affine param (am_disp m))
           | _ \<Rightarrow> StackFrame))"

definition a64_width_bytes :: "a64_width \<Rightarrow> nat" where
  "a64_width_bytes w = a64_bits w div 8"

definition a64_record_accesses :: "a64_instr \<Rightarrow> (a64_gp \<Rightarrow> string option) \<Rightarrow> observed_memory_access list" where
  "a64_record_accesses ins aff =
     concat (map (\<lambda>op. case op of
         AMem m \<Rightarrow>
           (case a64_access_mode (to_ascii_lowercase (al_mnemonic ins)) (al_kind ins) of
              Some mode \<Rightarrow> [\<lparr>oa_mode = mode, oa_width_bytes = a64_width_bytes (am_width m), oa_addr = a64_classify_addr m aff,
                oa_mnemonic = to_ascii_lowercase (al_mnemonic ins), oa_instruction_offset = 0\<rparr>]
            | None \<Rightarrow> [])
       | _ \<Rightarrow> []) (al_operands ins))"

definition a64_operand_gp :: "a64_operand list \<Rightarrow> a64_gp option" where
  "a64_operand_gp ops = (case ops of
     AReg r # _ \<Rightarrow> (case ag_storage r of AGp g \<Rightarrow> Some g | _ \<Rightarrow> None)
   | _ \<Rightarrow> None)"

definition a64_update_affinity :: "a64_instr \<Rightarrow> (a64_gp \<Rightarrow> string option) \<Rightarrow> a64_gp \<Rightarrow> string option" where
  "a64_update_affinity ins aff =
     (let m = to_ascii_lowercase (al_mnemonic ins) in
      case a64_operand_gp (al_operands ins) of
        None \<Rightarrow> aff
      | Some d \<Rightarrow>
          if m \<in> {''mov'', ''movz'', ''movn''} then
            (if d = AZr then aff
             else case a64_operand_gp (tl (al_operands ins)) of
               Some s \<Rightarrow> aff(d := if s = AZr then None else aff s)
             | None \<Rightarrow> aff(d := None))
          else if m \<in> {''add'', ''sub''} then
            (case a64_operand_gp (tl (al_operands ins)) of
               Some s \<Rightarrow> (case aff s of Some name \<Rightarrow> aff(d \<mapsto> name) | None \<Rightarrow> aff)
             | None \<Rightarrow> aff)
          else if m \<in> {''ldr'', ''ldrb'', ''ldrh'', ''ldrsb'', ''ldrsh'', ''ldrsw'', ''and'', ''orr'', ''eor'', ''mul'',
              ''sdiv'', ''udiv'', ''movk''} then (if d \<noteq> AZr then aff(d := None) else aff)
          else aff)"

definition a64_collect_memory_effects :: "a64_instr list \<Rightarrow> checked_contract \<Rightarrow> observed_memory_access list" where
  "a64_collect_memory_effects lowered spec =
     collect_accesses a64_update_affinity a64_record_accesses lowered (a64_seed_param_affinity (c_parameters spec))"

definition evaluate_aarch64_memory_evidence :: "checked_contract \<Rightarrow> a64_instr list \<Rightarrow>
    alias_analysis_report option \<times> region_access_report option" where
  "evaluate_aarch64_memory_evidence spec lowered =
     (case c_memory spec of
        None \<Rightarrow> (None, None)
      | Some memory \<Rightarrow>
          (let accesses = a64_collect_memory_effects lowered spec in
           (Some (evaluate_alias memory accesses), evaluate_region_access memory accesses)))"

section \<open>RISC-V: what instructions do to the registers\<close>

abbreviation rv_mn :: "rv_instr \<Rightarrow> string" where
  "rv_mn ins \<equiv> to_ascii_lowercase (rl_mnemonic ins)"

definition rv_dests :: "rv_instr \<Rightarrow> gpr list" where
  "rv_dests ins =
     (if rl_kind ins \<in> {Branch, OpReturn} \<or> rl_kind ins = OpStore \<and> rv_mn ins \<notin> {''mv'', ''li''} then []
      else if rl_kind ins = OpCall then rv_volatile
      else if rl_kind ins = OpUnknown then gprs
      else case rv_first (rl_operands ins) of Some d \<Rightarrow> [d] | None \<Rightarrow> [])"

definition rv_data_effect :: "rv_instr \<Rightarrow> (gpr \<Rightarrow> 64 word) \<Rightarrow> (gpr \<Rightarrow> 64 word) \<Rightarrow> bool" where
  "rv_data_effect ins s s' \<longleftrightarrow>
     (\<forall>g. g \<notin> set (rv_dests ins) \<longrightarrow> s' g = s g) \<and>
     (\<forall>d r ops. rv_mn ins = ''mv'' \<and> rl_operands ins = RReg (rv_full d) # RReg (rv_full r) # ops \<and> d \<noteq> RZero \<longrightarrow> s' d = s r) \<and>
     (\<forall>d r n ops. rv_mn ins = ''addi'' \<and> rl_operands ins = RReg (rv_full d) # RReg (rv_full r) # RImm n # ops \<and> d \<noteq> RZero \<longrightarrow>
        s' d = s r + word_of_int n)"

definition rv_mem_addr :: "rv_mem \<Rightarrow> (gpr \<Rightarrow> 64 word) \<Rightarrow> 64 word" where
  "rv_mem_addr m s = (case rm_base m of Some b \<Rightarrow> s (rg_gpr b) | None \<Rightarrow> 0) + word_of_int (rm_disp m)"

definition rv_touches :: "rv_instr \<Rightarrow> (gpr \<Rightarrow> 64 word) \<Rightarrow> (access_mode \<times> nat \<times> 64 word) list" where
  "rv_touches ins s =
     concat (map (\<lambda>op. case op of
         RMem m \<Rightarrow>
           (case rv_access_mode (rv_mn ins) (rl_kind ins) of
              Some mode \<Rightarrow> if rv_is_stack_frame m then [] else [(mode, rv_width_bytes (rm_width m), rv_mem_addr m s)]
            | None \<Rightarrow> [])
       | _ \<Rightarrow> []) (rl_operands ins))"

text \<open>Copies of whole registers, and additions of zero.\<close>

fun rv_exact :: "(gpr \<Rightarrow> string option) \<Rightarrow> string \<Rightarrow> op_kind \<Rightarrow> rv_operand list \<Rightarrow> bool" where
  "rv_exact aff m kind (RReg d # RReg r # ops) \<longleftrightarrow>
     d = rv_full (rg_gpr d) \<and> r = rv_full (rg_gpr r) \<and> rg_gpr d \<noteq> RZero \<and>
     (m = ''mv'' \<and> kind = OpStore \<and> rg_gpr r \<noteq> RZero \<or>
      m = ''addi'' \<and> kind = Binary \<and> aff (rg_gpr r) \<noteq> None \<and> (case ops of RImm n # _ \<Rightarrow> n = 0 | _ \<Rightarrow> False))"
| "rv_exact _ _ _ _ \<longleftrightarrow> False"

definition rv_effect_tracked :: "rv_instr \<Rightarrow> (gpr \<Rightarrow> string option) \<Rightarrow> bool" where
  "rv_effect_tracked ins aff \<longleftrightarrow>
     (rv_classify (rv_mn ins) = Some (rl_kind ins) \<or> rv_mn ins \<in> {''call'', ''ret''} \<and> rl_kind ins \<in> {OpCall, OpReturn} \<or>
      rl_kind ins = OpUnknown) \<and>
     (rv_exact aff (rv_mn ins) (rl_kind ins) (rl_operands ins) \<or>
      list_all (\<lambda>g. rv_update_affinity ins aff g = None) (rv_dests ins)) \<and>
     list_all (\<lambda>op. case op of RMem m \<Rightarrow> rm_index m = None | _ \<Rightarrow> True) (rl_operands ins)"

lemma rv_update_other:
  "rv_first (rl_operands ins) \<noteq> Some g \<Longrightarrow> rv_update_affinity ins aff g = aff g"
  by (auto simp: rv_update_affinity_def Let_def split: option.split)

definition rv_updating :: "string list" where
  "rv_updating = [''mv'', ''li'', ''addi'', ''add'', ''addiw'', ''addw'', ''sub'', ''subw'', ''ld'', ''lb'', ''lh'', ''lw'', ''lbu'',
      ''lhu'', ''lwu'', ''and'', ''andi'', ''or'', ''ori'', ''xor'', ''mul'', ''sll'', ''slli'']"

lemma rv_classify_updating:
  "m \<in> set rv_updating \<Longrightarrow> rv_classify m = Some (if m \<in> {''mv'', ''li''} then OpStore
      else if m \<in> {''ld'', ''lb'', ''lh'', ''lw'', ''lbu'', ''lhu'', ''lwu''} then OpLoad else Binary)"
proof -
  have "list_all (\<lambda>m. rv_classify m = Some (if m \<in> {''mv'', ''li''} then OpStore
      else if m \<in> {''ld'', ''lb'', ''lh'', ''lw'', ''lbu'', ''lhu'', ''lwu''} then OpLoad else Binary)) rv_updating"
    by code_simp
  then show "m \<in> set rv_updating \<Longrightarrow> ?thesis" by (simp only: list_all_iff)
qed

lemma call_ret_kept: "''call'' \<notin> set rv_updating" "''ret'' \<notin> set rv_updating"
  by (simp_all add: rv_updating_def)

lemma rv_update_unlisted:
  "rv_mn ins \<notin> set rv_updating \<Longrightarrow>
    rv_update_affinity ins aff = aff"
  by (simp add: rv_update_affinity_def rv_updating_def Let_def split: option.split)

lemma rv_dests_first: "rl_kind ins \<in> {OpLoad, Binary} \<Longrightarrow> rv_first (rl_operands ins) = Some g \<Longrightarrow> g \<in> set (rv_dests ins)"
  "rl_kind ins = OpStore \<Longrightarrow> rv_mn ins \<in> {''mv'', ''li''} \<Longrightarrow> rv_first (rl_operands ins) = Some g \<Longrightarrow> g \<in> set (rv_dests ins)"
  by (auto simp: rv_dests_def)

lemma all_gprs: "g \<in> set gprs"
  by (cases g) (simp_all add: gprs_def)

lemma rv_update_kept:
  assumes "g \<notin> set (rv_dests ins)" "rv_effect_tracked ins aff"
  shows "rv_update_affinity ins aff g = aff g"
proof (cases "rv_first (rl_operands ins) = Some g")
  case first: True
  have "rl_kind ins \<noteq> OpUnknown" using assms(1) all_gprs by (auto simp: rv_dests_def)
  with assms(2) have kind: "rv_classify (rv_mn ins) = Some (rl_kind ins) \<or> rv_mn ins \<in> {''call'', ''ret''}"
    by (auto simp: rv_effect_tracked_def)
  show ?thesis
  proof (cases "rv_mn ins \<in> set rv_updating")
    case True
    with kind rv_classify_updating [OF True] have "rl_kind ins = (if rv_mn ins \<in> {''mv'', ''li''} then OpStore
      else if rv_mn ins \<in> {''ld'', ''lb'', ''lh'', ''lw'', ''lbu'', ''lhu'', ''lwu''} then OpLoad else Binary)"
      using call_ret_kept by (elim disjE) (auto simp del: not_None_eq)
    then have "g \<in> set (rv_dests ins)" using first rv_dests_first by (auto split: if_splits)
    with assms(1) show ?thesis ..
  next
    case False
    show ?thesis by (simp only: rv_update_unlisted [OF False])
  qed
qed (rule rv_update_other)

lemma rv_exact_cases:
  assumes "rv_exact aff m kind ops"
  obtains (copy) d r rest where "m = ''mv''" "kind = OpStore" "ops = RReg (rv_full d) # RReg (rv_full r) # rest" "d \<noteq> RZero" "r \<noteq> RZero"
    | (zero) d r rest where "m = ''addi''" "kind = Binary" "ops = RReg (rv_full d) # RReg (rv_full r) # RImm 0 # rest" "d \<noteq> RZero"
        "aff r \<noteq> None"
proof (cases "(aff, m, kind, ops)" rule: rv_exact.cases)
  case (1 aff' m' kind' d r rest)
  then show ?thesis using assms that(1) [of "rg_gpr d" "rg_gpr r" rest] that(2) [of "rg_gpr d" "rg_gpr r" "tl rest"]
    by (auto split: list.splits rv_operand.splits)
qed (use assms in auto)

lemma rv_full_gpr [simp]: "rg_gpr (rv_full g) = g"
  by (simp add: rv_full_def rv_reg_def)

lemma rv_update_holds:
  assumes "affine_holds L aff s" "rv_effect_tracked ins aff" "rv_data_effect ins s s'"
  shows "affine_holds L (rv_update_affinity ins aff) s'"
  unfolding affine_holds_def
proof (intro allI impI)
  fix g p assume p: "rv_update_affinity ins aff g = Some p"
  have old: "s h = word_of_int (lo_addr L q)" if "aff h = Some q" for h q
    using assms(1) that by (simp add: affine_holds_def)
  show "s' g = word_of_int (lo_addr L p)"
  proof (cases "g \<in> set (rv_dests ins)")
    case False
    then have "s' g = s g" using assms(3) by (simp add: rv_data_effect_def)
    then show ?thesis using rv_update_kept [OF False assms(2)] p old by simp
  next
    case True
    then have "rv_exact aff (rv_mn ins) (rl_kind ins) (rl_operands ins)"
      using assms(2) p by (auto simp: rv_effect_tracked_def list_all_iff)
    then show ?thesis
    proof (cases rule: rv_exact_cases)
      case (copy d r rest)
      then have "g = d" using True by (simp add: rv_dests_def)
      moreover have "s' d = s r" using assms(3) copy by (auto simp: rv_data_effect_def)
      ultimately show ?thesis using copy p old by (simp add: rv_update_affinity_def)
    next
      case (zero d r rest)
      then have "g = d" using True by (simp add: rv_dests_def)
      moreover have "s' d = s r" using assms(3) zero by (auto simp: rv_data_effect_def)
      ultimately show ?thesis using zero p old
        by (cases "aff r") (auto simp: rv_update_affinity_def)
    qed
  qed
qed

lemma rv_touch_recorded:
  assumes "affine_holds L aff s" "rv_effect_tracked ins aff" "(mode, w, v) \<in> set (rv_touches ins s)"
  shows "\<exists>a \<in> set (rv_record_accesses ins aff). oa_mode a = mode \<and> oa_width_bytes a = w \<and>
    (oa_addr a = UnknownAddr \<or> describes L (oa_addr a) v)"
proof -
  obtain m where m: "RMem m \<in> set (rl_operands ins)" "rv_access_mode (rv_mn ins) (rl_kind ins) = Some mode"
      "\<not> rv_is_stack_frame m" "w = rv_width_bytes (rm_width m)" "v = rv_mem_addr m s"
    using assms(3) by (auto simp: rv_touches_def split: rv_operand.splits option.splits if_splits)
  let ?a = "\<lparr>oa_mode = mode, oa_width_bytes = w, oa_addr = rv_classify_addr m aff, oa_mnemonic = rv_mn ins,
    oa_instruction_offset = 0\<rparr>"
  have idx: "rm_index m = None" using assms(2) m(1) by (auto simp: rv_effect_tracked_def list_all_iff)
  have "describes L (Affine p (rm_disp m)) v" if "rm_base m = Some b" "aff (rg_gpr b) = Some p" for b p
  proof -
    have "s (rg_gpr b) = word_of_int (lo_addr L p)" using assms(1) that(2) by (simp add: affine_holds_def)
    then show ?thesis using that(1) by (simp add: describes_def m(5) rv_mem_addr_def)
  qed
  then have "rv_classify_addr m aff = UnknownAddr \<or> describes L (rv_classify_addr m aff) v"
    using m(3) idx by (auto simp: rv_classify_addr_def split: option.split)
  moreover have "?a \<in> set (rv_record_accesses ins aff)"
    using m(1,2,4) by (force simp: rv_record_accesses_def)
  ultimately show ?thesis by (intro bexI [of _ ?a]) simp_all
qed

interpretation rv_effects: affine_walk rv_data_effect rv_update_affinity rv_record_accesses rv_effect_tracked rv_touches
  by unfold_locales (rule rv_update_holds rv_touch_recorded; assumption)+

definition rv_effects_tracked :: "checked_param list \<Rightarrow> (nat \<Rightarrow> nat \<Rightarrow> bool) \<Rightarrow> rv_instr list \<Rightarrow> bool" where
  "rv_effects_tracked params jump body \<longleftrightarrow>
     well_tracked rv_effect_tracked rv_update_affinity (\<lambda>aff aff'. aff' \<subseteq>\<^sub>m aff) (rv_seed_param_affinity params) jump body"

text \<open>C19: When the region-access slice of a RISC-V body passes outright, a load or store that a run reaches, along
  fall-through or taken branches, touches only bytes that are, modulo the 64-bit address space, bytes of a declared region that
  permits the access. Counted are the memory operands of classified loads and stores other than the stack-frame ones, whose base is \<open>sp\<close> or \<open>s0\<close>.
  The runs start with the pointer parameters in their registers, and the body is one whose pointer registers the one-pass
  tracker follows on every path (\<open>rv_effects_tracked\<close>); regions and offsets are small enough not to saturate
  (\<open>evidence_exact\<close>).\<close>

theorem rv_evidence_passed_in_regions:
  assumes "evaluate_riscv_memory_evidence spec lowered = (al, Some rep)" "rr_status rep = RaPassed"
    and "c_memory spec = Some memory" "evidence_exact memory (rv_collect_memory_effects lowered spec)"
    and "rv_effects_tracked (c_parameters spec) jump lowered" "affine_holds L (rv_seed_param_affinity (c_parameters spec)) s0"
    and "reaches rv_data_effect stops jump lowered s0 i s" "i < length lowered" "(mode, w, v) \<in> set (rv_touches (lowered ! i) s)"
  shows "bytes_declared L memory mode w v"
proof -
  have "evaluate_region_access memory (rv_collect_memory_effects lowered spec) = Some rep"
    using assms(1,3) by (simp add: evaluate_riscv_memory_evidence_def Let_def)
  with assms(2,4-9) show ?thesis
    unfolding rv_effects_tracked_def rv_collect_memory_effects_def by (blast intro: rv_effects.touched_declared)
qed

definition pointer_spec :: checked_contract where
  "pointer_spec = \<lparr>version_major = 0, version_minor = 1, c_name = ''peek'', c_summary = None,
     c_parameters = [\<lparr>cp_name = ''p'', cp_ty = Ptr (UInt 32) False, cp_type_source = ''ptr'', cp_role = None\<rparr>],
     c_returns = [], c_requires = [], c_ensures = [], c_effects = [], c_memory = Some table_memory,
     c_constraints = None, c_target_overrides = []\<rparr>"

text \<open>\<open>mv t0, a0; lw a1, 8(t0); ret\<close>.\<close>

definition rv_peek :: "rv_instr list" where
  "rv_peek = rv_lower_keep_all
     [mk_ins 0 ''mv'' [''t0'', ''a0''] [], mk_ins 4 ''lw'' [''a1'', ''8(t0)''] [], mk_ins 8 ''ret'' [] []]"

lemma rv_peek_eq: "rv_peek =
    [\<lparr>rl_mnemonic = ''mv'', rl_kind = OpStore, rl_width = RB64, rl_signed = None, rl_operands = [RReg (rv_full T0), RReg (rv_full A0)]\<rparr>,
     \<lparr>rl_mnemonic = ''lw'', rl_kind = OpLoad, rl_width = RB32, rl_signed = None,
       rl_operands = [RReg \<lparr>rg_gpr = A1, rg_width = RB32, rg_high = False\<rparr>, RMem \<lparr>rm_base = Some (rv_full T0), rm_index = None, rm_scale = 1, rm_disp = 8, rm_width = RB32\<rparr>]\<rparr>,
     \<lparr>rl_mnemonic = ''ret'', rl_kind = OpReturn, rl_width = RB64, rl_signed = None, rl_operands = []\<rparr>]"
  by code_simp

lemma rv_seed_pointer: "rv_seed_param_affinity (c_parameters pointer_spec) = [A0 \<mapsto> ''p'']"
  by (simp add: rv_seed_param_affinity_def seed_pointers_def pointer_spec_def is_pointer_def)

lemma rv_peek_tracked: "rv_effects_tracked (c_parameters pointer_spec) (\<lambda>_ _. False) rv_peek"
proof -
  have "list_all (\<lambda>i. rv_effect_tracked (rv_peek ! i) (walk_at rv_update_affinity [A0 \<mapsto> ''p''] rv_peek i)) [0, 1, 2]"
    by code_simp
  moreover have "length rv_peek = 3" by (simp add: rv_peek_eq)
  ultimately show ?thesis
    by (auto simp: rv_effects_tracked_def rv_seed_pointer well_tracked_def less_Suc_eq eval_nat_numeral)
qed

lemma rv_peek_run:
  "reaches rv_data_effect (\<lambda>_. False) (\<lambda>_ _. False) rv_peek ((\<lambda>_. 0)(A0 := 4096)) (Suc 0) ((\<lambda>_. 0)(A0 := 4096, T0 := 4096))"
proof (rule reaches.fall [OF reaches.entry])
  have lc: "to_ascii_lowercase ''mv'' = ''mv''" by code_simp
  have inj: "rv_full g = rv_full h \<longleftrightarrow> g = h" for g h by (auto simp: rv_full_def rv_reg_def)
  show "rv_data_effect (rv_peek ! 0) ((\<lambda>_. 0)(A0 := 4096)) ((\<lambda>_. 0)(A0 := 4096, T0 := 4096))"
    by (auto simp: rv_data_effect_def rv_peek_eq rv_dests_def lc inj)
qed (simp_all add: rv_peek_eq)

theorem rv_evidence_passed_in_regions_witness: "bytes_declared flat_layout table_memory Load 4 4104"
proof -
  have "map_option rr_status (snd (evaluate_riscv_memory_evidence pointer_spec rv_peek)) = Some RaPassed"
    by code_simp
  then obtain al rep where ev: "evaluate_riscv_memory_evidence pointer_spec rv_peek = (al, Some rep)" "rr_status rep = RaPassed"
    by (cases "evaluate_riscv_memory_evidence pointer_spec rv_peek") auto
  have accs: "rv_collect_memory_effects rv_peek pointer_spec = [\<lparr>oa_mode = Load, oa_width_bytes = 4, oa_addr = Affine ''p'' 8,
      oa_mnemonic = ''lw'', oa_instruction_offset = 0\<rparr>]" by code_simp
  show ?thesis
  proof (rule rv_evidence_passed_in_regions [OF ev _ _ rv_peek_tracked _ rv_peek_run])
    show "evidence_exact table_memory (rv_collect_memory_effects rv_peek pointer_spec)"
      by (simp add: evidence_exact_def accs table_memory_def bounded_region_def rust_int)
    show "affine_holds flat_layout (rv_seed_param_affinity (c_parameters pointer_spec)) ((\<lambda>_. 0)(A0 := 4096))"
      by (simp add: affine_holds_def rv_seed_pointer flat_layout_def)
    have "to_ascii_lowercase ''lw'' = ''lw''" by code_simp
    then show "(Load, 4, 4104) \<in> set (rv_touches (rv_peek ! Suc 0) ((\<lambda>_. 0)(A0 := 4096, T0 := 4096)))"
      by (simp add: rv_peek_eq rv_touches_def rv_access_mode_def rv_is_stack_frame_def rv_mem_addr_def rv_width_bytes_def)
  qed (simp_all add: pointer_spec_def rv_peek_eq)
qed

text \<open>A sum of two other registers leaves the stale parameter on its destination, so the access
  through it is recorded, and passes, at the parameter's own address.\<close>

definition rv_overwritten :: "rv_instr list" where
  "rv_overwritten = rv_lower_keep_all [mk_ins 0 ''add'' [''a0'', ''t0'', ''t1''] [], mk_ins 4 ''ld'' [''a1'', ''0(a0)''] []]"

lemma overwritten_pointer_accepted:
  "map_option rr_status (snd (evaluate_riscv_memory_evidence pointer_spec rv_overwritten)) = Some RaPassed"
  by code_simp

text \<open>A bumped pointer is still taken to be the parameter.\<close>

definition rv_bumped :: "rv_instr list" where
  "rv_bumped = rv_lower_keep_all [mk_ins 0 ''addi'' [''a0'', ''a0'', ''1024''] [], mk_ins 4 ''ld'' [''a1'', ''0(a0)''] []]"

lemma bumped_pointer_accepted:
  "map_option rr_status (snd (evaluate_riscv_memory_evidence pointer_spec rv_bumped)) = Some RaPassed"
  by code_simp

text \<open>A byte load counts as eight bytes: only a final \<open>w\<close> narrows the width.\<close>

lemma byte_load_eight_bytes:
  "map oa_width_bytes (rv_collect_memory_effects (rv_lower_keep_all [mk_ins 0 ''lbu'' [''a1'', ''0(a0)''] []]) pointer_spec) = [8]"
  by code_simp

section \<open>AArch64: what instructions do to the registers\<close>

abbreviation a64_mn :: "physical_instruction \<Rightarrow> string" where
  "a64_mn p \<equiv> to_ascii_lowercase (al_mnemonic (a64_lowered p))"

abbreviation a64_kind :: "physical_instruction \<Rightarrow> op_kind" where
  "a64_kind p \<equiv> al_kind (a64_lowered p)"

abbreviation a64_ops :: "physical_instruction \<Rightarrow> a64_operand list" where
  "a64_ops p \<equiv> al_operands (a64_lowered p)"

definition a64_dests :: "physical_instruction \<Rightarrow> a64_gp list" where
  "a64_dests p =
     (if a64_writeback p \<or> a64_kind p = OpUnknown then a64_gps
      else if a64_kind p \<in> {Branch, OpReturn, Compare} \<or> a64_kind p = OpStore \<and> a64_mn p \<notin> {''mov'', ''movz'', ''movn'', ''movk''} then []
      else if a64_kind p = OpCall then ALr # a64_volatile_gp
      else case a64_operand_gp (a64_ops p) of Some d \<Rightarrow> [d] | None \<Rightarrow> [])"

definition a64_data_effect :: "physical_instruction \<Rightarrow> (a64_gp \<Rightarrow> 64 word) \<Rightarrow> (a64_gp \<Rightarrow> 64 word) \<Rightarrow> bool" where
  "a64_data_effect p s s' \<longleftrightarrow>
     (\<forall>g. g \<notin> set (a64_dests p) \<longrightarrow> s' g = s g) \<and>
     (\<forall>d r ops. a64_mn p = ''mov'' \<and> a64_ops p = AReg (a64_full d) # AReg (a64_full r) # ops \<and> d \<noteq> AZr \<longrightarrow> s' d = s r) \<and>
     (\<forall>d r n. a64_mn p = ''add'' \<and> a64_ops p = [AReg (a64_full d), AReg (a64_full r), AImm n] \<and> d \<noteq> AZr \<longrightarrow>
        s' d = s r + word_of_int n)"

definition a64_mem_addr :: "a64_mem \<Rightarrow> (a64_gp \<Rightarrow> 64 word) \<Rightarrow> 64 word" where
  "a64_mem_addr m s =
     (case am_base m of Some b \<Rightarrow> (case ag_storage b of AGp g \<Rightarrow> s g | _ \<Rightarrow> 0) | None \<Rightarrow> 0) + word_of_int (am_disp m)"

definition a64_touches :: "physical_instruction \<Rightarrow> (a64_gp \<Rightarrow> 64 word) \<Rightarrow> (access_mode \<times> nat \<times> 64 word) list" where
  "a64_touches p s =
     concat (map (\<lambda>op. case op of
         AMem m \<Rightarrow>
           (case a64_access_mode (a64_mn p) (a64_kind p) of
              Some mode \<Rightarrow> if a64_is_stack_frame m then [] else [(mode, a64_width_bytes (am_width m), a64_mem_addr m s)]
            | None \<Rightarrow> [])
       | _ \<Rightarrow> []) (a64_ops p))"

fun a64_exact :: "(a64_gp \<Rightarrow> string option) \<Rightarrow> string \<Rightarrow> op_kind \<Rightarrow> a64_operand list \<Rightarrow> bool" where
  "a64_exact aff m kind (AReg d # AReg r # ops) \<longleftrightarrow>
     (case (ag_storage d, ag_storage r) of
        (AGp g, AGp h) \<Rightarrow> d = a64_full g \<and> r = a64_full h \<and> g \<noteq> AZr \<and>
          (m = ''mov'' \<and> kind = OpStore \<and> h \<noteq> AZr \<or> m = ''add'' \<and> kind = Binary \<and> aff h \<noteq> None \<and> ops = [AImm 0])
      | _ \<Rightarrow> False)"
| "a64_exact _ _ _ _ \<longleftrightarrow> False"

text \<open>The tracker understands an instruction when its operands are whole (the bracketed operand closes
  in itself and has no index), nothing is written back, and either it is an exact copy or its
  destinations are forgotten.\<close>

definition a64_effect_tracked :: "physical_instruction \<Rightarrow> (a64_gp \<Rightarrow> string option) \<Rightarrow> bool" where
  "a64_effect_tracked p aff \<longleftrightarrow>
     \<not> a64_writeback p \<and> list_all (\<lambda>o'. take 1 (trim o') = ''['' \<longrightarrow> o' \<noteq> [] \<and> last o' = CHR '']'') (pi_operands p) \<and>
     (a64_classify (a64_mn p) = Some (a64_kind p) \<or> a64_mn p \<in> {''bl'', ''ret''} \<and> a64_kind p \<in> {OpCall, OpReturn} \<or>
      a64_kind p = OpUnknown) \<and>
     (a64_exact aff (a64_mn p) (a64_kind p) (a64_ops p) \<or>
      list_all (\<lambda>g. a64_update_affinity (a64_lowered p) aff g = None) (a64_dests p)) \<and>
     list_all (\<lambda>op. case op of AMem m \<Rightarrow> am_index m = None \<and> map_option ag_storage (am_base m) \<noteq> Some ANzcv | _ \<Rightarrow> True) (a64_ops p)"

lemma a64_update_other:
  "a64_operand_gp (al_operands ins) \<noteq> Some g \<Longrightarrow> a64_update_affinity ins aff g = aff g"
  by (auto simp: a64_update_affinity_def Let_def split: option.split)

definition a64_updating :: "string list" where
  "a64_updating = [''mov'', ''movz'', ''movn'', ''add'', ''sub'', ''ldr'', ''ldrb'', ''ldrh'', ''ldrsb'', ''ldrsh'', ''ldrsw'',
     ''and'', ''orr'', ''eor'', ''mul'', ''movk'']"

lemma a64_classify_updating:
  "m \<in> set a64_updating \<Longrightarrow> a64_classify m = Some (if m \<in> {''mov'', ''movz'', ''movn'', ''movk''} then OpStore
      else if m \<in> {''ldr'', ''ldrb'', ''ldrh'', ''ldrsb'', ''ldrsh'', ''ldrsw''} then OpLoad else Binary)"
proof -
  have "list_all (\<lambda>m. a64_classify m = Some (if m \<in> {''mov'', ''movz'', ''movn'', ''movk''} then OpStore
      else if m \<in> {''ldr'', ''ldrb'', ''ldrh'', ''ldrsb'', ''ldrsh'', ''ldrsw''} then OpLoad else Binary)) a64_updating"
    by code_simp
  then show "m \<in> set a64_updating \<Longrightarrow> ?thesis" by (simp only: list_all_iff)
qed

lemma a64_other_kept: "list_all (\<lambda>m. m \<notin> set a64_updating) [''bl'', ''ret'', ''sdiv'', ''udiv'']"
  "a64_classify ''sdiv'' = None" "a64_classify ''udiv'' = None"
  by code_simp+

lemma a64_update_unlisted:
  "to_ascii_lowercase (al_mnemonic ins) \<notin> set a64_updating \<union> {''sdiv'', ''udiv''} \<Longrightarrow> a64_update_affinity ins aff = aff"
  by (simp add: a64_update_affinity_def a64_updating_def Let_def split: option.split)

lemma all_a64_gps: "g \<in> set a64_gps"
  by (cases g) (simp_all add: a64_gps_def)

lemma a64_update_kept:
  assumes "g \<notin> set (a64_dests p)" "a64_effect_tracked p aff"
  shows "a64_update_affinity (a64_lowered p) aff g = aff g"
proof (cases "a64_operand_gp (a64_ops p) = Some g")
  case first: True
  have k: "a64_kind p \<noteq> OpUnknown" using assms(1) all_a64_gps by (auto simp: a64_dests_def)
  with assms(2) have kind: "a64_classify (a64_mn p) = Some (a64_kind p) \<or> a64_mn p \<in> {''bl'', ''ret''}"
    by (auto simp: a64_effect_tracked_def)
  show ?thesis
  proof (cases "a64_mn p \<in> set a64_updating")
    case True
    with kind a64_other_kept(1) have "a64_classify (a64_mn p) = Some (a64_kind p)" by auto
    with a64_classify_updating [OF True] have "a64_kind p = (if a64_mn p \<in> {''mov'', ''movz'', ''movn'', ''movk''} then OpStore
      else if a64_mn p \<in> {''ldr'', ''ldrb'', ''ldrh'', ''ldrsb'', ''ldrsh'', ''ldrsw''} then OpLoad else Binary)"
      by simp
    then have "g \<in> set (a64_dests p)" using first all_a64_gps by (auto simp: a64_dests_def split: if_splits)
    with assms(1) show ?thesis ..
  next
    case False
    with kind a64_other_kept(2,3) have "a64_mn p \<notin> set a64_updating \<union> {''sdiv'', ''udiv''}" by auto
    from a64_update_unlisted [OF this] show ?thesis by (rule fun_cong)
  qed
qed (rule a64_update_other)

lemma a64_exact_cases:
  assumes "a64_exact aff m kind ops"
  obtains (copy) d r rest where "m = ''mov''" "kind = OpStore" "ops = AReg (a64_full d) # AReg (a64_full r) # rest" "d \<noteq> AZr" "r \<noteq> AZr"
    | (zero) d r where "m = ''add''" "kind = Binary" "ops = [AReg (a64_full d), AReg (a64_full r), AImm 0]" "d \<noteq> AZr" "aff r \<noteq> None"
proof (cases "(aff, m, kind, ops)" rule: a64_exact.cases)
  case (1 aff' m' kind' d r rest)
  then show ?thesis using assms that
    by (cases "ag_storage d"; cases "ag_storage r") auto
qed (use assms in auto)

lemma a64_full_gp [simp]: "ag_storage (a64_full g) = AGp g"
  by (simp add: a64_full_def a64_reg_gp_def)

lemma a64_update_holds:
  assumes "affine_holds L aff s" "a64_effect_tracked p aff" "a64_data_effect p s s'"
  shows "affine_holds L (a64_update_affinity (a64_lowered p) aff) s'"
  unfolding affine_holds_def
proof (intro allI impI)
  fix g q assume q: "a64_update_affinity (a64_lowered p) aff g = Some q"
  have old: "s h = word_of_int (lo_addr L q)" if "aff h = Some q" for h q
    using assms(1) that by (simp add: affine_holds_def)
  have nw: "\<not> a64_writeback p" using assms(2) by (simp add: a64_effect_tracked_def)
  show "s' g = word_of_int (lo_addr L q)"
  proof (cases "g \<in> set (a64_dests p)")
    case False
    then have "s' g = s g" using assms(3) by (simp add: a64_data_effect_def)
    then show ?thesis using a64_update_kept [OF False assms(2)] q old by simp
  next
    case True
    then have "a64_exact aff (a64_mn p) (a64_kind p) (a64_ops p)"
      using assms(2) q by (auto simp: a64_effect_tracked_def list_all_iff)
    then show ?thesis
    proof (cases rule: a64_exact_cases)
      case (copy d r rest)
      then have "g = d" using True nw by (simp add: a64_dests_def a64_operand_gp_def)
      moreover have "s' d = s r" using assms(3) copy by (auto simp: a64_data_effect_def)
      ultimately show ?thesis using copy q old by (simp add: a64_update_affinity_def a64_operand_gp_def)
    next
      case (zero d r)
      then have "g = d" using True nw by (simp add: a64_dests_def a64_operand_gp_def)
      moreover have "s' d = s r" using assms(3) zero by (auto simp: a64_data_effect_def)
      ultimately show ?thesis using zero q old
        by (auto simp: a64_update_affinity_def a64_operand_gp_def)
    qed
  qed
qed

lemma a64_touch_recorded:
  assumes "affine_holds L aff s" "a64_effect_tracked p aff" "(mode, w, v) \<in> set (a64_touches p s)"
  shows "\<exists>a \<in> set (a64_record_accesses (a64_lowered p) aff). oa_mode a = mode \<and> oa_width_bytes a = w \<and>
    (oa_addr a = UnknownAddr \<or> describes L (oa_addr a) v)"
proof -
  obtain m where m: "AMem m \<in> set (a64_ops p)" "a64_access_mode (a64_mn p) (a64_kind p) = Some mode"
      "\<not> a64_is_stack_frame m" "w = a64_width_bytes (am_width m)" "v = a64_mem_addr m s"
    using assms(3) by (auto simp: a64_touches_def split: a64_operand.splits option.splits if_splits)
  let ?a = "\<lparr>oa_mode = mode, oa_width_bytes = w, oa_addr = a64_classify_addr m aff, oa_mnemonic = a64_mn p,
    oa_instruction_offset = 0\<rparr>"
  have idx: "am_index m = None" "map_option ag_storage (am_base m) \<noteq> Some ANzcv"
    using assms(2) m(1) by (auto simp: a64_effect_tracked_def list_all_iff)
  have "describes L (Affine q (am_disp m)) v" if "am_base m = Some b" "ag_storage b = AGp g" "aff g = Some q" for b g q
  proof -
    have "s g = word_of_int (lo_addr L q)" using assms(1) that(3) by (simp add: affine_holds_def)
    then show ?thesis using that(1,2) by (simp add: describes_def m(5) a64_mem_addr_def)
  qed
  then have "a64_classify_addr m aff = UnknownAddr \<or> describes L (a64_classify_addr m aff) v"
    using m(3) idx by (auto simp: a64_classify_addr_def a64_is_stack_frame_def split: option.split a64_storage.split)
  moreover have "?a \<in> set (a64_record_accesses (a64_lowered p) aff)"
    using m(1,2,4) by (force simp: a64_record_accesses_def)
  ultimately show ?thesis by (intro bexI [of _ ?a]) simp_all
qed

interpretation a64_effects: affine_walk a64_data_effect "\<lambda>p. a64_update_affinity (a64_lowered p)"
    "\<lambda>p. a64_record_accesses (a64_lowered p)" a64_effect_tracked a64_touches
  by unfold_locales (rule a64_update_holds a64_touch_recorded; assumption)+

lemma collect_accesses_map:
  "collect_accesses update records (map f body) aff = collect_accesses (\<lambda>i. update (f i)) (\<lambda>i. records (f i)) body aff"
  by (simp add: collect_accesses_def fold_map comp_def)

definition a64_effects_tracked :: "checked_param list \<Rightarrow> (nat \<Rightarrow> nat \<Rightarrow> bool) \<Rightarrow> physical_instruction list \<Rightarrow> bool" where
  "a64_effects_tracked params jump body \<longleftrightarrow>
     well_tracked a64_effect_tracked (\<lambda>p. a64_update_affinity (a64_lowered p)) (\<lambda>aff aff'. aff' \<subseteq>\<^sub>m aff)
       (a64_seed_param_affinity params) jump body"


text \<open>\<open>mov x9, x0; ldr x1, [x9]; ret\<close>.\<close>

definition a64_peek :: "physical_instruction list" where
  "a64_peek = [mk_ins 0 ''mov'' [''x9'', ''x0''] [], mk_ins 4 ''ldr'' [''x1'', ''[x9]''] [], mk_ins 8 ''ret'' [] []]"

lemma a64_peek_lowered: "map a64_lowered a64_peek =
    [\<lparr>al_mnemonic = ''mov'', al_kind = OpStore, al_width = AB64, al_signed = None, al_operands = [AReg (a64_full X9), AReg (a64_full X0)]\<rparr>,
     \<lparr>al_mnemonic = ''ldr'', al_kind = OpLoad, al_width = AB64, al_signed = None,
       al_operands = [AReg (a64_full X1), AMem \<lparr>am_base = Some (a64_full X9), am_index = None, am_scale = 1, am_disp = 0, am_width = AB64\<rparr>]\<rparr>,
     \<lparr>al_mnemonic = ''ret'', al_kind = OpReturn, al_width = AB64, al_signed = None, al_operands = []\<rparr>]"
  by code_simp

lemma a64_seed_pointer: "a64_seed_param_affinity (c_parameters pointer_spec) = [X0 \<mapsto> ''p'']"
  by (simp add: a64_seed_param_affinity_def seed_pointers_def pointer_spec_def is_pointer_def)

lemma a64_peek_whole: "list_all (\<lambda>p. \<not> a64_writeback p) a64_peek"
  using a64_no_writeback by (simp add: a64_peek_def)

definition a64_peek_step :: "nat \<Rightarrow> a64_gp \<Rightarrow> string option" where
  "a64_peek_step i = walk_at (\<lambda>p. a64_update_affinity (a64_lowered p)) [X0 \<mapsto> ''p''] a64_peek i"

lemma a64_exact_or_load:
  assumes "\<not> a64_writeback p" "list_all (\<lambda>o'. take 1 (trim o') = ''['' \<longrightarrow> o' \<noteq> [] \<and> last o' = CHR '']'') (pi_operands p)"
    and "a64_classify (a64_mn p) = Some (a64_kind p)"
    and "a64_exact aff (a64_mn p) (a64_kind p) (a64_ops p) \<or> a64_kind p = OpReturn \<or>
      a64_kind p = OpLoad \<and> (case a64_operand_gp (a64_ops p) of None \<Rightarrow> True | Some g \<Rightarrow> a64_update_affinity (a64_lowered p) aff g = None)"
    and "list_all (\<lambda>op. case op of AMem m \<Rightarrow> am_index m = None \<and> map_option ag_storage (am_base m) \<noteq> Some ANzcv | _ \<Rightarrow> True) (a64_ops p)"
  shows "a64_effect_tracked p aff"
  using assms by (auto simp: a64_effect_tracked_def a64_dests_def split: option.split)

lemma a64_peek_tracked: "a64_effects_tracked (c_parameters pointer_spec) (\<lambda>_ _. False) a64_peek"
proof -
  have ok: "list_all (\<lambda>i. let p = a64_peek ! i; aff = a64_peek_step i in
      list_all (\<lambda>o'. take 1 (trim o') = ''['' \<longrightarrow> o' \<noteq> [] \<and> last o' = CHR '']'') (pi_operands p) \<and>
      a64_classify (a64_mn p) = Some (a64_kind p) \<and>
      (a64_exact aff (a64_mn p) (a64_kind p) (a64_ops p) \<or>
       a64_kind p = OpReturn \<or> a64_kind p = OpLoad \<and> (case a64_operand_gp (a64_ops p) of None \<Rightarrow> True | Some g \<Rightarrow>
         a64_update_affinity (a64_lowered p) aff g = None)) \<and>
      list_all (\<lambda>op. case op of AMem m \<Rightarrow> am_index m = None \<and> map_option ag_storage (am_base m) \<noteq> Some ANzcv | _ \<Rightarrow> True) (a64_ops p)) [0, 1, 2]"
    by code_simp
  have len: "length a64_peek = 3" by (simp add: a64_peek_def)
  have step: "a64_effect_tracked (a64_peek ! i) (a64_peek_step i)" if "i \<in> set [0, 1, 2]" for i
  proof -
    have "\<not> a64_writeback (a64_peek ! i)" using a64_peek_whole len that by (auto simp: list_all_length)
    moreover note ok [unfolded list_all_iff [of _ "[0, 1, 2]"] Let_def, rule_format, OF that]
    ultimately show ?thesis by (elim conjE) (rule a64_exact_or_load)
  qed
  have "a64_effect_tracked (a64_peek ! i) (a64_peek_step i)" if "i < length a64_peek" for i
  proof -
    have "i = 0 \<or> i = 1 \<or> i = 2" using that len by linarith
    then show ?thesis using step by auto
  qed
  then show ?thesis
    by (simp only: a64_effects_tracked_def a64_seed_pointer well_tracked_def a64_peek_step_def) simp
qed

lemma a64_peek_run:
  "reaches a64_data_effect (\<lambda>_. False) (\<lambda>_ _. False) a64_peek ((\<lambda>_. 0)(X0 := 4096)) (Suc 0) ((\<lambda>_. 0)(X0 := 4096, X9 := 4096))"
proof (rule reaches.fall [OF reaches.entry])
  have lc: "to_ascii_lowercase ''mov'' = ''mov''" by code_simp
  have inj: "a64_full g = a64_full h \<longleftrightarrow> g = h" for g h by (auto simp: a64_full_def a64_reg_gp_def)
  have low: "a64_lowered (a64_peek ! 0) = map a64_lowered a64_peek ! 0" "\<not> a64_writeback (a64_peek ! 0)"
    using a64_peek_whole by (simp_all add: a64_peek_def)
  show "a64_data_effect (a64_peek ! 0) ((\<lambda>_. 0)(X0 := 4096)) ((\<lambda>_. 0)(X0 := 4096, X9 := 4096))"
    unfolding a64_data_effect_def a64_dests_def low(1) a64_peek_lowered
    by (auto simp: low(2) a64_operand_gp_def lc inj)
qed (simp_all add: a64_peek_def)


text \<open>A pre-indexed load, split at its comma, loses both its offset and the write-back: the accesses through
  the moved pointer pass as accesses at the parameter itself.\<close>

definition a64_pre_indexed :: "a64_instr list" where
  "a64_pre_indexed = a64_lower_keep_all [mk_ins 0 ''ldr'' [''x1'', ''[x0'', ''#1024]!''] [], mk_ins 4 ''ldr'' [''x2'', ''[x0]''] []]"

lemma split_address_accepted:
  "map_option rr_status (snd (evaluate_aarch64_memory_evidence pointer_spec a64_pre_indexed)) = Some RaPassed"
  "map oa_addr (a64_collect_memory_effects a64_pre_indexed pointer_spec) = [Affine ''p'' 0, Affine ''p'' 0]"
  by code_simp+

end
