(* ===== verification/Harness_Shapes.thy ===== *)
theory Harness_Shapes
  imports Validate
begin

text \<open>
  Recognition of behavioural oracles: \<open>semasm-agent/src/harness.rs\<close>. A contract's types, names, effects
  and conditions select one of thirteen builtin oracles; the oracle fixes the calling shape of the
  harness. JSON values are \<open>serde_json::Value\<close>: an integer is a number that fits \<open>u64\<close> or \<open>i64\<close>, and a
  floating-point number is kept as its text, since the code only asks whether it is a number.
\<close>

section \<open>JSON values\<close>

datatype json =
    JNull
  | JBool bool
  | JNumber int
  | JFloat string
  | JString string
  | JArray "json list"
  | JObject "(string \<times> json) list"

fun as_u64 :: "json \<Rightarrow> int option" where
  "as_u64 (JNumber n) = (if 0 \<le> n \<and> n \<le> u64_max then Some n else None)"
| "as_u64 _ = None"

fun as_i64 :: "json \<Rightarrow> int option" where
  "as_i64 (JNumber n) = (if in_i64 n then Some n else None)"
| "as_i64 _ = None"

fun is_number :: "json \<Rightarrow> bool" where
  "is_number (JNumber _) \<longleftrightarrow> True"
| "is_number (JFloat _) \<longleftrightarrow> True"
| "is_number _ \<longleftrightarrow> False"

text \<open>\<open>Value::Null | Value::Array(_)\<close>.\<close>

fun null_or_array :: "json \<Rightarrow> bool" where
  "null_or_array JNull \<longleftrightarrow> True"
| "null_or_array (JArray _) \<longleftrightarrow> True"
| "null_or_array _ \<longleftrightarrow> False"

record test_vector =
  tv_name :: string
  tv_inputs :: "json list"
  tv_expected :: json

section \<open>Reading bounds out of the conditions\<close>

definition max_fixture_cap :: nat where
  "max_fixture_cap = 256"

definition default_buffer_scan_needle :: "8 word" where
  "default_buffer_scan_needle = 0x41"

fun ident_name :: "expr \<Rightarrow> string option" where
  "ident_name (EIdent name _) = Some name"
| "ident_name _ = None"

fun int_value :: "expr \<Rightarrow> int option" where
  "int_value (EInt value _) = Some value"
| "int_value _ = None"

definition usize_try_from :: "int \<Rightarrow> nat option" where
  "usize_try_from n = (if 0 \<le> n then Some (nat n) else None)"

fun length_bound_from_expr :: "expr \<Rightarrow> string \<Rightarrow> nat option" where
  "length_bound_from_expr (EBinary op left right _) length_name =
     (case (op, ident_name left, ident_name right, int_value left, int_value right) of
        (BLe, Some name, None, None, Some n) \<Rightarrow> if name = length_name then usize_try_from n else None
      | (BLt, Some name, None, None, Some n) \<Rightarrow>
          if name = length_name then map_option (\<lambda>n. n - 1) (usize_try_from n) else None
      | (BGe, None, Some name, Some n, None) \<Rightarrow> if name = length_name then usize_try_from n else None
      | (BGt, None, Some name, Some n, None) \<Rightarrow>
          if name = length_name then map_option (\<lambda>n. n - 1) (usize_try_from n) else None
      | _ \<Rightarrow> None)"
| "length_bound_from_expr _ _ = None"

definition length_bound_from_requires :: "checked_contract \<Rightarrow> string \<Rightarrow> nat option" where
  "length_bound_from_requires c length_name =
     fold (\<lambda>condition best. case length_bound_from_expr (cc_expr condition) length_name of
         Some bound \<Rightarrow> Some (case best of Some existing \<Rightarrow> min existing bound | None \<Rightarrow> bound)
       | None \<Rightarrow> best) (c_requires c) None"

definition u8_try_from :: "int \<Rightarrow> 8 word option" where
  "u8_try_from n = (if 0 \<le> n \<and> n \<le> 255 then Some (word_of_int n) else None)"

fun needle_from_expr :: "expr \<Rightarrow> string \<Rightarrow> 8 word option" where
  "needle_from_expr (EBinary BEq left right _) needle_name =
     (case (ident_name left, ident_name right, int_value left, int_value right) of
        (Some name, None, None, Some n) \<Rightarrow> if name = needle_name then u8_try_from n else None
      | (None, Some name, Some n, None) \<Rightarrow> if name = needle_name then u8_try_from n else None
      | _ \<Rightarrow> None)"
| "needle_from_expr _ _ = None"

fun needle_from :: "checked_condition list \<Rightarrow> string \<Rightarrow> 8 word option" where
  "needle_from [] needle_name = None"
| "needle_from (c # cs) needle_name =
     (case needle_from_expr (cc_expr c) needle_name of Some needle \<Rightarrow> Some needle | None \<Rightarrow> needle_from cs needle_name)"

definition needle_from_requires :: "checked_contract \<Rightarrow> string \<Rightarrow> 8 word option" where
  "needle_from_requires c needle_name = needle_from (c_requires c) needle_name"

definition allows_null_when_empty :: "checked_contract \<Rightarrow> string \<Rightarrow> string \<Rightarrow> bool" where
  "allows_null_when_empty c ptr_name length_name \<longleftrightarrow>
     (let expected = ptr_name @ ''[0..'' @ length_name @ '']'' in
      list_ex (\<lambda>e. ef_kind e = ''memory_read'' \<and>
        (case ef_region e of Some region \<Rightarrow> trim region = expected | None \<Rightarrow> False)) (c_effects c))"

definition has_effect :: "checked_contract \<Rightarrow> string \<Rightarrow> bool" where
  "has_effect c kind \<longleftrightarrow> list_ex (\<lambda>e. ef_kind e = kind) (c_effects c)"

definition returns_ty :: "checked_contract \<Rightarrow> sem_type \<Rightarrow> bool" where
  "returns_ty c t \<longleftrightarrow> list_ex (\<lambda>r. ct_ty r = t) (c_returns c)"

definition lower_name :: "checked_contract \<Rightarrow> string" where
  "lower_name c = to_ascii_lowercase (c_name c)"

section \<open>Buffer shapes\<close>

datatype buffer_scan_op = Count | FindFirst | FindLast

definition buffer_scan_op_from_name :: "string \<Rightarrow> buffer_scan_op option" where
  "buffer_scan_op_from_name name =
     (let lower = to_ascii_lowercase name in
      case (contains_str ''count'' lower,
            contains_str ''last'' lower \<or> contains_str ''rfind'' lower,
            contains_str ''find'' lower \<or> contains_str ''index'' lower) of
        (True, False, False) \<Rightarrow> Some Count
      | (False, True, _) \<Rightarrow> Some FindLast
      | (False, False, True) \<Rightarrow> Some FindFirst
      | _ \<Rightarrow> None)"

record scan_shape_rec =
  ss_op :: buffer_scan_op
  ss_needle :: "8 word"
  ss_max_length :: "nat option"
  ss_allows_null_when_empty :: bool

text \<open>The parameter loop: the first const pointer, the first \<open>usize\<close>, the first \<open>u8\<close>.\<close>

fun scan_param :: "checked_param \<Rightarrow> checked_param option \<times> checked_param option \<times> checked_param option \<Rightarrow>
    checked_param option \<times> checked_param option \<times> checked_param option" where
  "scan_param p (ptr, len, needle) =
     (case cp_ty p of
        Ptr _ is_const \<Rightarrow> (if is_const \<and> ptr = None then (Some p, len, needle) else (ptr, len, needle))
      | Usize \<Rightarrow> (if len = None then (ptr, Some p, needle) else (ptr, len, needle))
      | UInt bits \<Rightarrow> (if bits = 8 \<and> needle = None then (ptr, len, Some p) else (ptr, len, needle))
      | _ \<Rightarrow> (ptr, len, needle))"

definition scan_shape :: "checked_contract \<Rightarrow> scan_shape_rec option" where
  "scan_shape c =
     (case fold scan_param (c_parameters c) (None, None, None) of
        (Some ptr, Some len, Some needle) \<Rightarrow>
          if returns_ty c Usize then
            (case buffer_scan_op_from_name (c_name c) of
               None \<Rightarrow> None
             | Some op \<Rightarrow> Some \<lparr>ss_op = op,
                 ss_needle = (case needle_from_requires c (cp_name needle) of Some n \<Rightarrow> n | None \<Rightarrow> default_buffer_scan_needle),
                 ss_max_length = length_bound_from_requires c (cp_name len),
                 ss_allows_null_when_empty = allows_null_when_empty c (cp_name ptr) (cp_name len)\<rparr>)
          else None
      | _ \<Rightarrow> None)"

record replace_byte_rec =
  rb_needle :: "8 word"
  rb_replacement :: "8 word"
  rb_max_length :: "nat option"

text \<open>The parameter loop of the write shapes: the first mutable pointer, the first \<open>usize\<close>, every \<open>u8\<close>.\<close>

fun write_param :: "checked_param \<Rightarrow> checked_param option \<times> checked_param option \<times> checked_param list \<Rightarrow>
    checked_param option \<times> checked_param option \<times> checked_param list" where
  "write_param p (ptr, len, u8s) =
     (case cp_ty p of
        Ptr _ is_const \<Rightarrow> (if \<not> is_const \<and> ptr = None then (Some p, len, u8s) else (ptr, len, u8s))
      | Usize \<Rightarrow> (if len = None then (ptr, Some p, u8s) else (ptr, len, u8s))
      | UInt bits \<Rightarrow> (if bits = 8 then (ptr, len, u8s @ [p]) else (ptr, len, u8s))
      | _ \<Rightarrow> (ptr, len, u8s))"

definition replace_byte_shape :: "checked_contract \<Rightarrow> replace_byte_rec option" where
  "replace_byte_shape c =
     (if \<not> contains_str ''replace'' (lower_name c) then None
      else if \<not> has_effect c ''memory_write'' then None
      else (case fold write_param (c_parameters c) (None, None, []) of
        (Some ptr, Some len, needle # replacement # _) \<Rightarrow>
          if returns_ty c Usize then Some
            \<lparr>rb_needle = (case needle_from_requires c (cp_name needle) of Some n \<Rightarrow> n | None \<Rightarrow> default_buffer_scan_needle),
             rb_replacement = (case needle_from_requires c (cp_name replacement) of Some n \<Rightarrow> n | None \<Rightarrow> 0),
             rb_max_length = length_bound_from_requires c (cp_name len)\<rparr>
          else None
      | _ \<Rightarrow> None))"

record memset_rec =
  ms_value :: "8 word"
  ms_max_length :: "nat option"

definition memset_shape :: "checked_contract \<Rightarrow> memset_rec option" where
  "memset_shape c =
     (if \<not> contains_str ''memset'' (lower_name c) then None
      else if \<not> has_effect c ''memory_write'' then None
      else (case fold write_param (c_parameters c) (None, None, []) of
        (Some ptr, Some len, [value]) \<Rightarrow>
          if returns_ty c Usize then Some
            \<lparr>ms_value = (case needle_from_requires c (cp_name value) of Some n \<Rightarrow> n | None \<Rightarrow> default_buffer_scan_needle),
             ms_max_length = length_bound_from_requires c (cp_name len)\<rparr>
          else None
      | _ \<Rightarrow> None))"

text \<open>The parameter loop of \<open>memcpy\<close>: the first mutable and the first const byte pointer, the first \<open>usize\<close>.\<close>

fun copy_param :: "checked_param \<Rightarrow> checked_param option \<times> checked_param option \<times> checked_param option \<Rightarrow>
    checked_param option \<times> checked_param option \<times> checked_param option" where
  "copy_param p (dst, src, len) =
     (case cp_ty p of
        Ptr inner is_const \<Rightarrow>
          (if \<not> is_const \<and> dst = None \<and> inner = UInt 8 then (Some p, src, len)
           else if is_const \<and> src = None \<and> inner = UInt 8 then (dst, Some p, len)
           else (dst, src, len))
      | Usize \<Rightarrow> (if len = None then (dst, src, Some p) else (dst, src, len))
      | _ \<Rightarrow> (dst, src, len))"

definition memcpy_shape :: "checked_contract \<Rightarrow> nat option option" where
  "memcpy_shape c =
     (if \<not> contains_str ''memcpy'' (lower_name c) then None
      else if \<not> has_effect c ''memory_write'' then None
      else if length (c_parameters c) \<noteq> 3 \<or> length (c_returns c) \<noteq> 1 then None
      else (case fold copy_param (c_parameters c) (None, None, None) of
        (Some dst, Some src, Some len) \<Rightarrow>
          if returns_ty c Usize then Some (length_bound_from_requires c (cp_name len)) else None
      | _ \<Rightarrow> None))"

record memcmp_rec =
  mc_max_length :: "nat option"
  mc_allows_null :: bool

definition memcmp_shape :: "checked_contract \<Rightarrow> memcmp_rec option" where
  "memcmp_shape c =
     (if \<not> contains_str ''memcmp'' (lower_name c) \<and> \<not> contains_str ''bcmp'' (lower_name c) then None
      else if length (c_parameters c) \<noteq> 3 \<or> length (c_returns c) \<noteq> 1 then None
      else
        (let pointers = filter (\<lambda>p. cp_ty p = Ptr (UInt 8) True) (c_parameters c);
             lengths = filter (\<lambda>p. cp_ty p = Usize) (c_parameters c) in
         if length pointers \<noteq> 2 \<or> cp_name (pointers ! 0) = cp_name (pointers ! 1) \<or> length lengths \<noteq> 1 \<or>
            ct_ty (c_returns c ! 0) \<noteq> Isize then None
         else Some \<lparr>mc_max_length = length_bound_from_requires c (cp_name (lengths ! 0)),
           mc_allows_null = list_all (\<lambda>p. allows_null_when_empty c (cp_name p) (cp_name (lengths ! 0))) pointers\<rparr>))"

record i64_sum_rec =
  is_max_length :: "nat option"
  is_allows_null_when_empty :: bool

fun sum_param :: "checked_param \<Rightarrow> checked_param option \<times> checked_param option \<Rightarrow> checked_param option \<times> checked_param option" where
  "sum_param p (ptr, len) =
     (case cp_ty p of
        Ptr inner is_const \<Rightarrow> (if is_const \<and> ptr = None \<and> inner = SInt 64 then (Some p, len) else (ptr, len))
      | Usize \<Rightarrow> (if len = None then (ptr, Some p) else (ptr, len))
      | _ \<Rightarrow> (ptr, len))"

definition i64_sum_shape :: "checked_contract \<Rightarrow> i64_sum_rec option" where
  "i64_sum_shape c =
     (case fold sum_param (c_parameters c) (None, None) of
        (Some ptr, Some len) \<Rightarrow>
          if returns_ty c (SInt 64) \<and> length (c_parameters c) = 2 then Some
            \<lparr>is_max_length = length_bound_from_requires c (cp_name len),
             is_allows_null_when_empty = allows_null_when_empty c (cp_name ptr) (cp_name len)\<rparr>
          else None
      | _ \<Rightarrow> None)"

section \<open>Scalar shapes\<close>

datatype pure_int_op = PiMin | PiMax

definition pure_int_types :: "checked_contract \<Rightarrow> bool" where
  "pure_int_types c \<longleftrightarrow>
     length (filter (\<lambda>p. cp_ty p = Usize) (c_parameters c)) = 2 \<and>
     \<not> list_ex (\<lambda>p. case cp_ty p of Ptr _ _ \<Rightarrow> True | _ \<Rightarrow> False) (c_parameters c) \<and>
     \<not> list_ex (\<lambda>p. cp_ty p = UInt 8) (c_parameters c) \<and>
     returns_ty c Usize"

definition pure_int_op_from_name :: "string \<Rightarrow> pure_int_op option" where
  "pure_int_op_from_name name =
     (let lower = to_ascii_lowercase name in
      case (contains_str ''min'' lower, contains_str ''max'' lower) of
        (True, False) \<Rightarrow> Some PiMin
      | (False, True) \<Rightarrow> Some PiMax
      | _ \<Rightarrow> None)"

text \<open>\<open>chars().filter(not whitespace)\<close> on UTF-8 bytes.\<close>

function remove_whitespace :: "string \<Rightarrow> string" where
  "remove_whitespace [] = []"
| "remove_whitespace (c # cs) =
     (if ws_front (c # cs) = 0 then c # remove_whitespace cs else remove_whitespace (drop (ws_front (c # cs)) (c # cs)))"
  by pat_completeness auto
termination
  by (relation "measure length") auto

definition pure_int_op_from_ensures :: "checked_contract \<Rightarrow> pure_int_op option" where
  "pure_int_op_from_ensures c =
     (let sources = map (\<lambda>e. to_ascii_lowercase (remove_whitespace (cc_source e))) (c_ensures c) in
      case (''result<=a'' \<in> set sources \<and> ''result<=b'' \<in> set sources,
            ''result>=a'' \<in> set sources \<and> ''result>=b'' \<in> set sources) of
        (True, False) \<Rightarrow> Some PiMin
      | (False, True) \<Rightarrow> Some PiMax
      | _ \<Rightarrow> None)"

text \<open>The name and the postconditions must agree when both speak.\<close>

fun agreed :: "'a option \<Rightarrow> 'a option \<Rightarrow> 'a option" where
  "agreed (Some a) (Some b) = (if a = b then Some a else None)"
| "agreed (Some a) None = Some a"
| "agreed None (Some b) = Some b"
| "agreed None None = None"

definition pure_int_shape :: "checked_contract \<Rightarrow> pure_int_op option" where
  "pure_int_shape c =
     (if \<not> pure_int_types c then None else agreed (pure_int_op_from_name (c_name c)) (pure_int_op_from_ensures c))"

datatype pure_int_i64_op = P64Add | P64Sub | P64Min | P64Max | P64AddThenDouble

definition pure_int_i64_types :: "checked_contract \<Rightarrow> bool" where
  "pure_int_i64_types c \<longleftrightarrow> length (c_parameters c) = 2 \<and>
     length (filter (\<lambda>p. cp_ty p = SInt 64) (c_parameters c)) = 2 \<and> returns_ty c (SInt 64)"

definition ends_with :: "string \<Rightarrow> string \<Rightarrow> bool" where
  "ends_with suf s \<longleftrightarrow> strip_suffix suf s \<noteq> None"

definition name_token_hit :: "string \<Rightarrow> string \<Rightarrow> bool" where
  "name_token_hit lower needle \<longleftrightarrow> lower = needle \<or> strip_prefix (needle @ ''_'') lower \<noteq> None \<or>
     ends_with (''_'' @ needle) lower \<or> contains_str (''_'' @ needle @ ''_'') lower"

text \<open>The one candidate that was hit, if exactly one was.\<close>

definition single_hit :: "(bool \<times> 'a) list \<Rightarrow> 'a option" where
  "single_hit candidates = (case map snd (filter fst candidates) of [op] \<Rightarrow> Some op | _ \<Rightarrow> None)"

definition pure_int_i64_op_from_name :: "string \<Rightarrow> pure_int_i64_op option" where
  "pure_int_i64_op_from_name name =
     (let lower = to_ascii_lowercase name in
      if contains_str ''add_then'' lower \<or> contains_str ''then_double'' lower then Some P64AddThenDouble
      else single_hit
        [(name_token_hit lower ''add'' \<or> name_token_hit lower ''sum'', P64Add),
         (name_token_hit lower ''sub'', P64Sub),
         (name_token_hit lower ''min'', P64Min),
         (name_token_hit lower ''max'', P64Max)])"

definition pure_int_i64_op_from_ensures :: "checked_contract \<Rightarrow> pure_int_i64_op option" where
  "pure_int_i64_op_from_ensures c =
     map_option (\<lambda>op. case op of PiMin \<Rightarrow> P64Min | PiMax \<Rightarrow> P64Max) (pure_int_op_from_ensures c)"

definition pure_int_i64_shape :: "checked_contract \<Rightarrow> pure_int_i64_op option" where
  "pure_int_i64_shape c =
     (if \<not> pure_int_i64_types c then None
      else agreed (pure_int_i64_op_from_name (c_name c)) (pure_int_i64_op_from_ensures c))"

datatype pure_int_unary_op = UIdentity | UAbs | USumRange | UCountdown | UDouble | UInc | UAddBase100

definition pure_int_unary_i64_types :: "checked_contract \<Rightarrow> bool" where
  "pure_int_unary_i64_types c \<longleftrightarrow>
     (case c_parameters c of [p] \<Rightarrow> cp_ty p = SInt 64 | _ \<Rightarrow> False) \<and> returns_ty c (SInt 64)"

definition pure_int_unary_i64_shape :: "checked_contract \<Rightarrow> pure_int_unary_op option" where
  "pure_int_unary_i64_shape c =
     (if \<not> pure_int_unary_i64_types c then None
      else
        (let lower = lower_name c in
         single_hit
           [(contains_str ''abs'' lower, UAbs),
            (contains_str ''sum_range'' lower, USumRange),
            (contains_str ''countdown'' lower, UCountdown),
            (contains_str ''scale'' lower \<or> contains_str ''double'' lower \<and> \<not> contains_str ''then'' lower, UDouble),
            (name_token_hit lower ''inc'' \<or> contains_str ''increment'' lower, UInc),
            (contains_str ''add_base'' lower, UAddBase100),
            (contains_str ''return'' lower \<or> contains_str ''identity'' lower \<or> contains_str ''stack_local'' lower \<or>
              contains_str ''spill'' lower, UIdentity)]))"

definition cell_load_shape :: "checked_contract \<Rightarrow> bool" where
  "cell_load_shape c \<longleftrightarrow> contains_str ''load_byte0'' (lower_name c)"

definition cell_store_shape :: "checked_contract \<Rightarrow> bool" where
  "cell_store_shape c \<longleftrightarrow> contains_str ''store_byte0'' (lower_name c)"

section \<open>Reference operations\<close>

text \<open>\<open>wrapping_div\<close> truncates towards zero.\<close>

definition rust_div :: "int \<Rightarrow> int \<Rightarrow> int" where
  "rust_div a b = sgn a * sgn b * (\<bar>a\<bar> div \<bar>b\<bar>)"

fun pure_int_reduce :: "pure_int_op \<Rightarrow> int \<Rightarrow> int \<Rightarrow> int" where
  "pure_int_reduce PiMin a b = min a b"
| "pure_int_reduce PiMax a b = max a b"

fun pure_int_i64_reduce :: "pure_int_i64_op \<Rightarrow> int \<Rightarrow> int \<Rightarrow> int" where
  "pure_int_i64_reduce P64Add a b = wrap_i64 (a + b)"
| "pure_int_i64_reduce P64Sub a b = wrap_i64 (a - b)"
| "pure_int_i64_reduce P64Min a b = min a b"
| "pure_int_i64_reduce P64Max a b = max a b"
| "pure_int_i64_reduce P64AddThenDouble a b = wrap_i64 (wrap_i64 (a + b) * 2)"

fun pure_int_unary_reduce :: "pure_int_unary_op \<Rightarrow> int \<Rightarrow> int" where
  "pure_int_unary_reduce UIdentity x = x"
| "pure_int_unary_reduce UCountdown x = x"
| "pure_int_unary_reduce UAbs x = wrap_i64 \<bar>x\<bar>"
| "pure_int_unary_reduce USumRange x = wrap_i64 (rust_div (wrap_i64 (x * wrap_i64 (x + 1))) 2)"
| "pure_int_unary_reduce UDouble x = wrap_i64 (x * 2)"
| "pure_int_unary_reduce UInc x = wrap_i64 (x + 1)"
| "pure_int_unary_reduce UAddBase100 x = wrap_i64 (x + 100)"

section \<open>Oracles\<close>

definition oracle_buffer_count_equal_u8 :: string where "oracle_buffer_count_equal_u8 = ''builtin.buffer.count_equal_u8''"
definition oracle_buffer_find_first_u8 :: string where "oracle_buffer_find_first_u8 = ''builtin.buffer.find_first_u8''"
definition oracle_buffer_find_last_u8 :: string where "oracle_buffer_find_last_u8 = ''builtin.buffer.find_last_u8''"
definition oracle_buffer_memcmp_i8 :: string where "oracle_buffer_memcmp_i8 = ''builtin.buffer.memcmp_i8''"
definition oracle_buffer_wrapping_sum_i64 :: string where "oracle_buffer_wrapping_sum_i64 = ''builtin.buffer.wrapping_sum_i64''"
definition oracle_buffer_replace_byte :: string where "oracle_buffer_replace_byte = ''builtin.buffer.replace_byte''"
definition oracle_buffer_memset :: string where "oracle_buffer_memset = ''builtin.buffer.memset''"
definition oracle_buffer_memcpy :: string where "oracle_buffer_memcpy = ''builtin.buffer.memcpy''"
definition oracle_pure_int_binary_usize :: string where "oracle_pure_int_binary_usize = ''builtin.pure_int.binary_usize''"
definition oracle_pure_int_binary_i64 :: string where "oracle_pure_int_binary_i64 = ''builtin.pure_int.binary_i64''"
definition oracle_pure_int_unary_i64 :: string where "oracle_pure_int_unary_i64 = ''builtin.pure_int.unary_i64''"
definition oracle_buffer_load_byte0 :: string where "oracle_buffer_load_byte0 = ''builtin.buffer.load_byte0''"
definition oracle_buffer_store_byte0 :: string where "oracle_buffer_store_byte0 = ''builtin.buffer.store_byte0''"

lemmas oracle_ids = oracle_buffer_count_equal_u8_def oracle_buffer_find_first_u8_def oracle_buffer_find_last_u8_def
  oracle_buffer_memcmp_i8_def oracle_buffer_wrapping_sum_i64_def oracle_buffer_replace_byte_def oracle_buffer_memset_def
  oracle_buffer_memcpy_def oracle_pure_int_binary_usize_def oracle_pure_int_binary_i64_def oracle_pure_int_unary_i64_def
  oracle_buffer_load_byte0_def oracle_buffer_store_byte0_def

record recognized_oracle =
  ro_id :: string
  ro_version :: nat
  ro_claim :: string

fun pure_int_claim :: "pure_int_op \<Rightarrow> string" where
  "pure_int_claim PiMin = ''result equals min(a, b) for the recognized two-usize pure-integer shape''"
| "pure_int_claim PiMax = ''result equals max(a, b) for the recognized two-usize pure-integer shape''"

fun pure_int_i64_claim :: "pure_int_i64_op \<Rightarrow> string" where
  "pure_int_i64_claim P64Add = ''result equals a.wrapping_add(b) for the recognized two-i64 pure-integer shape''"
| "pure_int_i64_claim P64Sub = ''result equals a.wrapping_sub(b) for the recognized two-i64 pure-integer shape''"
| "pure_int_i64_claim P64Min = ''result equals min(a, b) for the recognized two-i64 pure-integer shape''"
| "pure_int_i64_claim P64Max = ''result equals max(a, b) for the recognized two-i64 pure-integer shape''"
| "pure_int_i64_claim P64AddThenDouble =
     ''result equals 2.wrapping_mul(a.wrapping_add(b)) for the recognized add-then-double shape''"

definition ellipsis :: string where
  "ellipsis = [CHR 0xE2, CHR 0x80, CHR 0xA6]"

fun pure_int_unary_claim :: "pure_int_unary_op \<Rightarrow> string" where
  "pure_int_unary_claim UIdentity = ''result equals x for the recognized one-i64 pure-integer shape''"
| "pure_int_unary_claim UAbs = ''result equals x.wrapping_abs() for the recognized one-i64 pure-integer shape''"
| "pure_int_unary_claim USumRange =
     ''result equals the wrapping sum 0+1+'' @ ellipsis @ ''+n for the recognized one-i64 sum_range shape''"
| "pure_int_unary_claim UCountdown = ''result equals n after counting n down to 0 for the recognized one-i64 countdown shape''"
| "pure_int_unary_claim UDouble = ''result equals x.wrapping_mul(2) for the recognized one-i64 scale/double shape''"
| "pure_int_unary_claim UInc = ''result equals x.wrapping_add(1) for the recognized one-i64 inc shape''"
| "pure_int_unary_claim UAddBase100 = ''result equals x.wrapping_add(100) for the recognized one-i64 add_base shape''"

definition recognize_behavior_oracle :: "checked_contract \<Rightarrow> recognized_oracle option" where
  "recognize_behavior_oracle c =
     (case scan_shape c of
        Some shape \<Rightarrow> Some (case ss_op shape of
            Count \<Rightarrow> \<lparr>ro_id = oracle_buffer_count_equal_u8, ro_version = 2,
              ro_claim = ''result equals the number of bytes in buffer[0..length] equal to needle''\<rparr>
          | FindFirst \<Rightarrow> \<lparr>ro_id = oracle_buffer_find_first_u8, ro_version = 1,
              ro_claim = ''result equals the first index of needle in buffer[0..length], or length when absent''\<rparr>
          | FindLast \<Rightarrow> \<lparr>ro_id = oracle_buffer_find_last_u8, ro_version = 1,
              ro_claim = ''result equals the last index of needle in buffer[0..length], or length when absent''\<rparr>)
      | None \<Rightarrow>
      if replace_byte_shape c \<noteq> None then Some \<lparr>ro_id = oracle_buffer_replace_byte, ro_version = 1,
        ro_claim = ''result equals how many buffer[0..length] bytes equal to needle were replaced with replacement; buffer bytes must match''\<rparr>
      else if memset_shape c \<noteq> None then Some \<lparr>ro_id = oracle_buffer_memset, ro_version = 1,
        ro_claim = ''every buffer[0..length] byte equals value after the call; result is always 0''\<rparr>
      else if memcpy_shape c \<noteq> None then Some \<lparr>ro_id = oracle_buffer_memcpy, ro_version = 1,
        ro_claim = ''dst[0..length] equals src[0..length] after the call; src is unchanged; result is always 0''\<rparr>
      else if memcmp_shape c \<noteq> None then Some \<lparr>ro_id = oracle_buffer_memcmp_i8, ro_version = 1,
        ro_claim = ''result is -1, 0, or 1 from unsigned lexicographic comparison of a[0..length] and b[0..length]''\<rparr>
      else if i64_sum_shape c \<noteq> None then Some \<lparr>ro_id = oracle_buffer_wrapping_sum_i64, ro_version = 2,
        ro_claim = ''result equals the wrapping sum of i64 elements in values[0..length]''\<rparr>
      else case pure_int_shape c of
        Some op \<Rightarrow> Some \<lparr>ro_id = oracle_pure_int_binary_usize, ro_version = 2, ro_claim = pure_int_claim op\<rparr>
      | None \<Rightarrow> (case pure_int_i64_shape c of
        Some op \<Rightarrow> Some \<lparr>ro_id = oracle_pure_int_binary_i64, ro_version = 2, ro_claim = pure_int_i64_claim op\<rparr>
      | None \<Rightarrow> (case pure_int_unary_i64_shape c of
        Some op \<Rightarrow> Some \<lparr>ro_id = oracle_pure_int_unary_i64, ro_version = 3, ro_claim = pure_int_unary_claim op\<rparr>
      | None \<Rightarrow>
      if cell_load_shape c then Some \<lparr>ro_id = oracle_buffer_load_byte0, ro_version = 1,
        ro_claim = ''result equals the zero-extended byte at buffer[0] (fixed 1-byte cell)''\<rparr>
      else if cell_store_shape c then Some \<lparr>ro_id = oracle_buffer_store_byte0, ro_version = 1,
        ro_claim = ''stores value at buffer[0] (fixed 1-byte cell) and returns the zero-extended value''\<rparr>
      else None)))"

definition is_read_only_buffer_scan :: "checked_contract \<Rightarrow> bool" where
  "is_read_only_buffer_scan c =
     (if cell_load_shape c then True
      else if cell_store_shape c then False
      else if pure_int_shape c \<noteq> None \<or> pure_int_i64_shape c \<noteq> None \<or> pure_int_unary_i64_shape c \<noteq> None
        then \<not> has_effect c ''memory_write''
      else if scan_shape c = None \<and> memcmp_shape c = None \<and> i64_sum_shape c = None then False
      else has_effect c ''memory_read'' \<and> \<not> has_effect c ''memory_write'')"

section \<open>Harness shapes\<close>

datatype harness_shape =
  HsBufferScan | HsReplaceByte | HsMemset | HsMemCmp | HsMemcpy | HsI64Sum | HsPureInt | HsPureIntUnary | HsCellLoad | HsCellStore

datatype harness_error =
    NoRecognizedOracle
  | UnrecognizedOracleId string
  | NoTestVectors
  | UnsupportedVectorShape nat
  | ShapeMismatch string harness_shape harness_shape

definition oracle_expected_shape :: "string \<Rightarrow> harness_error + harness_shape" where
  "oracle_expected_shape oracle_id =
     (if oracle_id \<in> {oracle_buffer_count_equal_u8, oracle_buffer_find_first_u8, oracle_buffer_find_last_u8} then Inr HsBufferScan
      else if oracle_id = oracle_buffer_replace_byte then Inr HsReplaceByte
      else if oracle_id = oracle_buffer_memset then Inr HsMemset
      else if oracle_id = oracle_buffer_memcpy then Inr HsMemcpy
      else if oracle_id = oracle_buffer_memcmp_i8 then Inr HsMemCmp
      else if oracle_id = oracle_buffer_wrapping_sum_i64 then Inr HsI64Sum
      else if oracle_id \<in> {oracle_pure_int_binary_usize, oracle_pure_int_binary_i64} then Inr HsPureInt
      else if oracle_id = oracle_pure_int_unary_i64 then Inr HsPureIntUnary
      else if oracle_id = oracle_buffer_load_byte0 then Inr HsCellLoad
      else if oracle_id = oracle_buffer_store_byte0 then Inr HsCellStore
      else Inl (UnrecognizedOracleId oracle_id))"

definition detect_harness_shape :: "test_vector list \<Rightarrow> harness_error + harness_shape" where
  "detect_harness_shape vectors =
     (case vectors of
        [] \<Rightarrow> Inl NoTestVectors
      | first # _ \<Rightarrow>
          (let ins = tv_inputs first; n = length ins in
           if n = 4 \<and> null_or_array (ins ! 0) \<and> list_all is_number (tl ins) then Inr HsReplaceByte
           else if n = 3 \<and> null_or_array (ins ! 0) \<and> null_or_array (ins ! 1) \<and> is_number (ins ! 2) then Inr HsMemCmp
           else if n = 3 \<and> null_or_array (ins ! 0) \<and> list_all is_number (tl ins) then Inr HsBufferScan
           else if n = 2 \<and> null_or_array (ins ! 0) \<and> is_number (ins ! 1) then Inr HsI64Sum
           else if n = 2 \<and> list_all is_number ins then Inr HsPureInt
           else if n = 1 \<and> list_all is_number ins then Inr HsPureIntUnary
           else if n = 1 \<and> null_or_array (ins ! 0) then Inr HsCellLoad
           else Inl (UnsupportedVectorShape n)))"

definition resolve_harness_shape :: "checked_contract \<Rightarrow> test_vector list \<Rightarrow> harness_error + harness_shape" where
  "resolve_harness_shape c vectors =
     (case recognize_behavior_oracle c of
        None \<Rightarrow> Inl NoRecognizedOracle
      | Some oracle \<Rightarrow>
          (case oracle_expected_shape (ro_id oracle) of
             Inl e \<Rightarrow> Inl e
           | Inr expected \<Rightarrow>
               (case detect_harness_shape vectors of
                  Inl e \<Rightarrow> Inl e
                | Inr detected \<Rightarrow>
                    if detected = expected \<or> expected = HsMemset \<and> detected = HsBufferScan \<or>
                       expected = HsMemcpy \<and> detected = HsMemCmp \<or> expected = HsCellStore \<and> detected = HsI64Sum
                    then Inr expected
                    else Inl (ShapeMismatch (ro_id oracle) expected detected))))"

definition validate_vectors_match_oracle :: "checked_contract \<Rightarrow> test_vector list \<Rightarrow> harness_error + unit" where
  "validate_vectors_match_oracle c vectors = map_sum id (\<lambda>_. ()) (resolve_harness_shape c vectors)"

end
