(* ===== verification/Harness_Vectors.thy ===== *)
theory Harness_Vectors
  imports Harness_Shapes
begin

text \<open>
  The builtin test vectors of every oracle, the vectors derived from caller-supplied inputs, and what
  they are to the oracle: \<open>synthesize_vectors\<close>, \<open>derive_external_vector\<close> and the \<open>synthesize_*\<close>
  functions of \<open>semasm-agent/src/harness.rs\<close>.
\<close>

section \<open>Fixtures\<close>

definition vec_case :: "string \<Rightarrow> json list \<Rightarrow> int \<Rightarrow> test_vector" where
  "vec_case name inputs expected = \<lparr>tv_name = name, tv_inputs = inputs, tv_expected = JNumber expected\<rparr>"

abbreviation numbers :: "int list \<Rightarrow> json" where
  "numbers xs \<equiv> JArray (map JNumber xs)"

definition fixture_len :: "nat option \<Rightarrow> nat" where
  "fixture_len max_length =
     max 1 (min max_fixture_cap (case max_length of Some n \<Rightarrow> n | None \<Rightarrow> max_fixture_cap))"

text \<open>Three distinct bytes other than the needle: the loop over the next value.\<close>

function non_needle_loop :: "8 word \<Rightarrow> 8 word \<Rightarrow> 8 word list \<Rightarrow> 8 word list" where
  "non_needle_loop needle value out =
     (if length out < 3 then non_needle_loop needle (value + 1) (if value \<noteq> needle then out @ [value] else out) else out)"
  by pat_completeness auto
termination
  by (relation "measure (\<lambda>(needle, value, out). 2 * (3 - length out) + (if value = needle then 1 else 0))") auto

definition non_needle_bytes :: "8 word \<Rightarrow> 8 word list" where
  "non_needle_bytes needle = non_needle_loop needle 0 []"

declare non_needle_loop.simps [simp del]

section \<open>Read-only buffers\<close>

definition synthesize_buffer_scan_vectors :: "scan_shape_rec \<Rightarrow> test_vector list" where
  "synthesize_buffer_scan_vectors shape =
     (let max_len = fixture_len (ss_max_length shape);
          needle = uint (ss_needle shape);
          no_match = map uint (non_needle_bytes (ss_needle shape)) in
      [vec_case ''empty input'' [JNull, JNumber 0, JNumber needle] 0,
       vec_case ''one byte (match)'' [numbers [needle], JNumber 1, JNumber needle] 1,
       vec_case ''no match'' [numbers [no_match ! 0, no_match ! 1, no_match ! 2], JNumber 3, JNumber needle] 0,
       vec_case ''all match'' [numbers [needle, needle], JNumber 2, JNumber needle] 2,
       vec_case ''embedded zero bytes'' [numbers [0, needle, 0], JNumber 3, JNumber needle] 1,
       vec_case ''maximum configured fixture length''
         [numbers (replicate max_len needle), JNumber (int max_len), JNumber needle] (int max_len)] @
      (if ss_allows_null_when_empty shape
       then [vec_case ''null pointer with zero length'' [JNull, JNumber 0, JNumber needle] 0] else []))"

definition synthesize_find_first_vectors :: "scan_shape_rec \<Rightarrow> test_vector list" where
  "synthesize_find_first_vectors shape =
     (let max_len = fixture_len (ss_max_length shape);
          needle = uint (ss_needle shape);
          no_match = map uint (non_needle_bytes (ss_needle shape)) in
      [vec_case ''empty input'' [JNull, JNumber 0, JNumber needle] 0,
       vec_case ''one byte (match)'' [numbers [needle], JNumber 1, JNumber needle] 0,
       vec_case ''no match'' [numbers [no_match ! 0, no_match ! 1, no_match ! 2], JNumber 3, JNumber needle] 3,
       vec_case ''all match'' [numbers [needle, needle], JNumber 2, JNumber needle] 0,
       vec_case ''match after zeros'' [numbers [0, needle, 0], JNumber 3, JNumber needle] 1,
       vec_case ''match at end'' [numbers [no_match ! 0, no_match ! 1, needle], JNumber 3, JNumber needle] 2,
       vec_case ''maximum configured fixture length''
         [numbers (replicate max_len needle), JNumber (int max_len), JNumber needle] 0] @
      (if ss_allows_null_when_empty shape
       then [vec_case ''null pointer with zero length'' [JNull, JNumber 0, JNumber needle] 0] else []))"

definition synthesize_find_last_vectors :: "scan_shape_rec \<Rightarrow> test_vector list" where
  "synthesize_find_last_vectors shape =
     (let max_len = fixture_len (ss_max_length shape);
          needle = uint (ss_needle shape);
          no_match = map uint (non_needle_bytes (ss_needle shape)) in
      [vec_case ''empty input'' [JNull, JNumber 0, JNumber needle] 0,
       vec_case ''one byte (match)'' [numbers [needle], JNumber 1, JNumber needle] 0,
       vec_case ''no match'' [numbers [no_match ! 0, no_match ! 1, no_match ! 2], JNumber 3, JNumber needle] 3,
       vec_case ''all match'' [numbers [needle, needle], JNumber 2, JNumber needle] 1,
       vec_case ''match after zeros'' [numbers [0, needle, 0], JNumber 3, JNumber needle] 1,
       vec_case ''match at end'' [numbers [no_match ! 0, no_match ! 1, needle], JNumber 3, JNumber needle] 2,
       vec_case ''last of two matches'' [numbers [needle, no_match ! 0, needle], JNumber 3, JNumber needle] 2,
       vec_case ''maximum configured fixture length''
         [numbers (replicate max_len needle), JNumber (int max_len), JNumber needle] (int max_len - 1)] @
      (if ss_allows_null_when_empty shape
       then [vec_case ''null pointer with zero length'' [JNull, JNumber 0, JNumber needle] 0] else []))"

definition synthesize_memcmp_vectors :: "memcmp_rec \<Rightarrow> test_vector list" where
  "synthesize_memcmp_vectors shape =
     (let max_len = fixture_len (mc_max_length shape);
          equal = numbers (map (\<lambda>i. int (i mod 256)) [0..<max_len]) in
      [vec_case ''empty buffers'' [JArray [], JArray [], JNumber 0] 0,
       vec_case ''equal buffers'' [numbers [0, 127, 255], numbers [0, 127, 255], JNumber 3] 0,
       vec_case ''a less than b'' [numbers [0], numbers [255], JNumber 1] (-1),
       vec_case ''a greater than b'' [numbers [255], numbers [0], JNumber 1] 1,
       vec_case ''equal prefix then difference'' [numbers [1, 2, 3, 4], numbers [1, 2, 3, 5], JNumber 4] (-1),
       vec_case ''maximum configured fixture length'' [equal, equal, JNumber (int max_len)] 0] @
      (if mc_allows_null shape then [vec_case ''null buffers with zero length'' [JNull, JNull, JNumber 0] 0] else []))"

definition synthesize_i64_sum_vectors :: "i64_sum_rec \<Rightarrow> test_vector list" where
  "synthesize_i64_sum_vectors shape =
     (let max_len = fixture_len (is_max_length shape) in
      [vec_case ''empty'' [JNull, JNumber 0] 0,
       vec_case ''positive'' [numbers [1, 2, 3, 4], JNumber 4] 10,
       vec_case ''mixed'' [numbers [-5, 2, 10], JNumber 3] 7,
       vec_case ''single negative'' [numbers [-1], JNumber 1] (-1),
       vec_case ''wrapping overflow'' [numbers [i64_max, 1], JNumber 2] i64_min,
       vec_case ''maximum configured fixture length'' [numbers (replicate max_len 1), JNumber (int max_len)] (i64_from_or_max max_len)] @
      (if is_allows_null_when_empty shape then [vec_case ''null pointer with zero length'' [JNull, JNumber 0] 0] else []))"

section \<open>Written buffers\<close>

definition synthesize_replace_byte_vectors :: "replace_byte_rec \<Rightarrow> test_vector list" where
  "synthesize_replace_byte_vectors shape =
     (let max_len = fixture_len (rb_max_length shape);
          needle = uint (rb_needle shape);
          replacement = uint (rb_replacement shape);
          next_byte = (needle + 1) mod 256;
          max_buf = (if 1 < max_len then (replicate max_len needle)[0 := next_byte] else replicate max_len needle);
          max_count = int (length (filter (\<lambda>b. b = needle) max_buf)) in
      [vec_case ''empty input'' [JNull, JNumber 0, JNumber needle, JNumber replacement] 0,
       vec_case ''one byte (match)'' [numbers [needle], JNumber 1, JNumber needle, JNumber replacement] 1,
       vec_case ''one byte (miss)'' [numbers [next_byte], JNumber 1, JNumber needle, JNumber replacement] 0,
       vec_case ''mixed hits'' [numbers [needle, 1, needle, 2, needle], JNumber 5, JNumber needle, JNumber replacement] 3] @
      (if needle \<noteq> replacement then
        [vec_case ''needle equals replacement'' [numbers [needle, needle, 7], JNumber 3, JNumber needle, JNumber needle] 2] else []) @
      [vec_case ''maximum configured fixture length''
         [numbers max_buf, JNumber (int max_len), JNumber needle, JNumber replacement] max_count])"

definition synthesize_memset_vectors :: "memset_rec \<Rightarrow> test_vector list" where
  "synthesize_memset_vectors shape =
     (let max_len = fixture_len (ms_max_length shape);
          value = uint (ms_value shape);
          filler = (value + 1) mod 256 in
      [vec_case ''empty input'' [JNull, JNumber 0, JNumber value] 0,
       vec_case ''one byte'' [numbers [filler], JNumber 1, JNumber value] 0,
       vec_case ''short pattern'' [numbers [filler, filler, filler, filler, filler], JNumber 5, JNumber value] 0,
       vec_case ''already filled with value'' [numbers [value, value, value], JNumber 3, JNumber value] 0,
       vec_case ''maximum configured fixture length'' [numbers (replicate max_len filler), JNumber (int max_len), JNumber value] 0])"

definition memcpy_dst_sentinel :: int where
  "memcpy_dst_sentinel = 0xEE"

definition synthesize_memcpy_vectors :: "nat option \<Rightarrow> test_vector list" where
  "synthesize_memcpy_vectors max_length =
     (let max_len = fixture_len max_length; sentinel = memcpy_dst_sentinel in
      [vec_case ''empty input'' [JNull, JNull, JNumber 0] 0,
       vec_case ''one byte'' [numbers [sentinel], numbers [0x5a], JNumber 1] 0,
       vec_case ''short distinct src/dst pattern'' [numbers (replicate 5 sentinel), numbers [1, 2, 3, 4, 5], JNumber 5] 0,
       vec_case ''maximum configured fixture length''
         [numbers (replicate max_len sentinel), numbers (map (\<lambda>i. int (i mod 256)) [0..<max_len]), JNumber (int max_len)] 0])"

section \<open>Scalars and cells\<close>

definition synthesize_pure_int_vectors :: "pure_int_op \<Rightarrow> test_vector list" where
  "synthesize_pure_int_vectors op =
     map (\<lambda>(name, a, b). vec_case name [JNumber a, JNumber b] (pure_int_reduce op a b))
       [(''both zero'', 0, 0), (''a smaller'', 1, 2), (''b smaller'', 5, 3), (''equal'', 7, 7),
        (''zero and large'', 0, 1000000), (''wide spread'', 100, 50)]"

definition synthesize_pure_int_i64_vectors :: "pure_int_i64_op \<Rightarrow> test_vector list" where
  "synthesize_pure_int_i64_vectors op =
     map (\<lambda>(name, a, b). vec_case name [JNumber a, JNumber b] (pure_int_i64_reduce op a b))
       [(''both zero'', 0, 0), (''both positive'', 5, 3), (''mixed signs'', -3, 7), (''both negative'', -5, -2),
        (''equal negative'', -7, -7), (''wide spread'', 1000000, -50), (''max wraps'', i64_max, 1), (''min wraps'', i64_min, -1)]"

definition synthesize_pure_int_unary_i64_vectors :: "pure_int_unary_op \<Rightarrow> test_vector list" where
  "synthesize_pure_int_unary_i64_vectors op =
     map (\<lambda>(name, x). vec_case name [JNumber x] (pure_int_unary_reduce op x))
       (case op of
          USumRange \<Rightarrow> [(''zero'', 0), (''one'', 1), (''five'', 5), (''ten'', 10), (''twenty'', 20)]
        | UCountdown \<Rightarrow> [(''zero'', 0), (''positive'', 5), (''ten'', 10), (''negative'', -3), (''minus_one'', -1)]
        | _ \<Rightarrow> [(''zero'', 0), (''positive'', 5), (''negative'', -5), (''max'', i64_max), (''min wraps'', i64_min)])"

definition synthesize_cell_load_vectors :: "test_vector list" where
  "synthesize_cell_load_vectors =
     map (\<lambda>b. vec_case (''cell byte '' @ show_hex b) [numbers [int b]] (int b)) [0, 1, 0x41, 0xff]"

definition synthesize_cell_store_vectors :: "test_vector list" where
  "synthesize_cell_store_vectors =
     map (\<lambda>(initial, value). vec_case (''store '' @ show_hex value @ '' over '' @ show_hex initial)
         [numbers [int initial], JNumber (int value)] (int value))
       [(0, 7), (0xff, 0), (0x11, 0x22), (0, 0xff)]"

definition synthesize_vectors :: "checked_contract \<Rightarrow> test_vector list" where
  "synthesize_vectors c =
     (case scan_shape c of
        Some shape \<Rightarrow> (case ss_op shape of
            Count \<Rightarrow> synthesize_buffer_scan_vectors shape
          | FindFirst \<Rightarrow> synthesize_find_first_vectors shape
          | FindLast \<Rightarrow> synthesize_find_last_vectors shape)
      | None \<Rightarrow> (case replace_byte_shape c of
        Some shape \<Rightarrow> synthesize_replace_byte_vectors shape
      | None \<Rightarrow> (case memset_shape c of
        Some shape \<Rightarrow> synthesize_memset_vectors shape
      | None \<Rightarrow> (case memcpy_shape c of
        Some max_length \<Rightarrow> synthesize_memcpy_vectors max_length
      | None \<Rightarrow> (case memcmp_shape c of
        Some shape \<Rightarrow> synthesize_memcmp_vectors shape
      | None \<Rightarrow> (case i64_sum_shape c of
        Some shape \<Rightarrow> synthesize_i64_sum_vectors shape
      | None \<Rightarrow> (case pure_int_shape c of
        Some op \<Rightarrow> synthesize_pure_int_vectors op
      | None \<Rightarrow> (case pure_int_i64_shape c of
        Some op \<Rightarrow> synthesize_pure_int_i64_vectors op
      | None \<Rightarrow> (case pure_int_unary_i64_shape c of
        Some op \<Rightarrow> synthesize_pure_int_unary_i64_vectors op
      | None \<Rightarrow> if cell_load_shape c then synthesize_cell_load_vectors
                else if cell_store_shape c then synthesize_cell_store_vectors
                else [])))))))))"

section \<open>External vectors\<close>

record external_vector_case =
  ev_id :: string
  ev_inputs :: "(string \<times> json) list"

datatype external_error =
    EmptyCaseId
  | NotExactInputs string "string list"
  | NotI64 string string
  | NotU64 string string
  | SumRangeNegative string
  | CountdownLimit string
  | NotScalarOracle

definition external_i64 :: "string \<Rightarrow> string \<Rightarrow> json \<Rightarrow> external_error + int" where
  "external_i64 case_id parameter value = (case as_i64 value of Some n \<Rightarrow> Inr n | None \<Rightarrow> Inl (NotI64 case_id parameter))"

definition external_u64 :: "string \<Rightarrow> string \<Rightarrow> json \<Rightarrow> external_error + int" where
  "external_u64 case_id parameter value = (case as_u64 value of Some n \<Rightarrow> Inr n | None \<Rightarrow> Inl (NotU64 case_id parameter))"

definition derive_expected :: "checked_contract \<Rightarrow> string \<Rightarrow> json list \<Rightarrow> external_error + int" where
  "derive_expected c case_id ordered =
     (let name = (\<lambda>i. cp_name (c_parameters c ! i)) in
      case pure_int_shape c of
        Some op \<Rightarrow>
          (case external_u64 case_id (name 0) (ordered ! 0) of Inl e \<Rightarrow> Inl e | Inr a \<Rightarrow>
           (case external_u64 case_id (name 1) (ordered ! 1) of Inl e \<Rightarrow> Inl e | Inr b \<Rightarrow> Inr (pure_int_reduce op a b)))
      | None \<Rightarrow> (case pure_int_i64_shape c of
        Some op \<Rightarrow>
          (case external_i64 case_id (name 0) (ordered ! 0) of Inl e \<Rightarrow> Inl e | Inr a \<Rightarrow>
           (case external_i64 case_id (name 1) (ordered ! 1) of Inl e \<Rightarrow> Inl e | Inr b \<Rightarrow> Inr (pure_int_i64_reduce op a b)))
      | None \<Rightarrow> (case pure_int_unary_i64_shape c of
        Some op \<Rightarrow>
          (case external_i64 case_id (name 0) (ordered ! 0) of Inl e \<Rightarrow> Inl e | Inr x \<Rightarrow>
             if op = USumRange \<and> x < 0 then Inl (SumRangeNegative case_id)
             else if op = UCountdown \<and> int max_fixture_cap < \<bar>x\<bar> then Inl (CountdownLimit case_id)
             else Inr (pure_int_unary_reduce op x))
      | None \<Rightarrow> Inl NotScalarOracle)))"

definition derive_external_vector :: "checked_contract \<Rightarrow> external_vector_case \<Rightarrow> external_error + test_vector" where
  "derive_external_vector c case_rec =
     (if trim (ev_id case_rec) = [] then Inl EmptyCaseId
      else if length (ev_inputs case_rec) \<noteq> length (c_parameters c) \<or>
              list_ex (\<lambda>p. map_of (ev_inputs case_rec) (cp_name p) = None) (c_parameters c)
      then Inl (NotExactInputs (ev_id case_rec) (map cp_name (c_parameters c)))
      else
        (let ordered = map (\<lambda>p. the (map_of (ev_inputs case_rec) (cp_name p))) (c_parameters c) in
         case derive_expected c (ev_id case_rec) ordered of
           Inl e \<Rightarrow> Inl e
         | Inr expected \<Rightarrow> Inr \<lparr>tv_name = ''external:'' @ ev_id case_rec, tv_inputs = ordered, tv_expected = JNumber expected\<rparr>))"

section \<open>What the oracles claim\<close>

fun json_int :: "json \<Rightarrow> int" where
  "json_int (JNumber n) = n"
| "json_int _ = 0"

fun values_of :: "json \<Rightarrow> int list" where
  "values_of (JArray items) = map json_int items"
| "values_of _ = []"

fun byte_compare :: "int list \<Rightarrow> int list \<Rightarrow> int" where
  "byte_compare (a # as) (b # bs) = (if a < b then -1 else if b < a then 1 else byte_compare as bs)"
| "byte_compare _ _ = 0"

definition first_index :: "int list \<Rightarrow> int \<Rightarrow> int" where
  "first_index xs n = int (length (takeWhile (\<lambda>b. b \<noteq> n) xs))"

definition last_index :: "int list \<Rightarrow> int \<Rightarrow> int" where
  "last_index xs n = (if n \<in> set xs then int (length xs) - 1 - int (length (takeWhile (\<lambda>b. b \<noteq> n) (rev xs))) else int (length xs))"

definition count_of :: "int list \<Rightarrow> int \<Rightarrow> int" where
  "count_of xs n = int (length (filter (\<lambda>b. b = n) xs))"

abbreviation w64 :: "int \<Rightarrow> 64 word" where
  "w64 \<equiv> word_of_int"

fun scan_result :: "buffer_scan_op \<Rightarrow> int list \<Rightarrow> int \<Rightarrow> int" where
  "scan_result Count xs n = count_of xs n"
| "scan_result FindFirst xs n = first_index xs n"
| "scan_result FindLast xs n = last_index xs n"

text \<open>The smallest and the largest of the two arguments.\<close>

fun usize_result :: "pure_int_op \<Rightarrow> int \<Rightarrow> int \<Rightarrow> int" where
  "usize_result PiMin a b = Min {a, b}"
| "usize_result PiMax a b = Max {a, b}"

fun binary_result :: "pure_int_i64_op \<Rightarrow> int \<Rightarrow> int \<Rightarrow> int" where
  "binary_result P64Add a b = sint (w64 a + w64 b)"
| "binary_result P64Sub a b = sint (w64 a - w64 b)"
| "binary_result P64Min a b = min a b"
| "binary_result P64Max a b = max a b"
| "binary_result P64AddThenDouble a b = sint (2 * (w64 a + w64 b))"

fun unary_result :: "pure_int_unary_op \<Rightarrow> int \<Rightarrow> int" where
  "unary_result UIdentity x = x"
| "unary_result UCountdown x = x"
| "unary_result UAbs x = sint (w64 \<bar>x\<bar>)"
| "unary_result USumRange x = sint (w64 (\<Sum>i \<in> {0..x}. i))"
| "unary_result UDouble x = sint (2 * w64 x)"
| "unary_result UInc x = sint (w64 x + 1)"
| "unary_result UAddBase100 x = sint (w64 x + 100)"

text \<open>The result the recognized oracle's claim promises on given arguments, and whether a vector states it
  of a buffer that is as long as its length argument says.\<close>

definition sized :: "json \<Rightarrow> json \<Rightarrow> bool" where
  "sized buf len \<longleftrightarrow> json_int len = int (length (values_of buf))"

fun states :: "test_vector \<Rightarrow> (json list \<Rightarrow> int) \<Rightarrow> (json list \<Rightarrow> bool) \<Rightarrow> bool" where
  "states v result fits \<longleftrightarrow> tv_expected v = JNumber (result (tv_inputs v)) \<and> fits (tv_inputs v)"

definition meets_oracle :: "checked_contract \<Rightarrow> test_vector \<Rightarrow> bool" where
  "meets_oracle c v \<longleftrightarrow>
     (case scan_shape c of
        Some shape \<Rightarrow> states v (\<lambda>ins. scan_result (ss_op shape) (values_of (ins ! 0)) (json_int (ins ! 2)))
          (\<lambda>ins. length ins = 3 \<and> sized (ins ! 0) (ins ! 1) \<and> json_int (ins ! 2) = uint (ss_needle shape))
      | None \<Rightarrow> if replace_byte_shape c \<noteq> None then states v (\<lambda>ins. count_of (values_of (ins ! 0)) (json_int (ins ! 2)))
          (\<lambda>ins. length ins = 4 \<and> sized (ins ! 0) (ins ! 1))
      else if memset_shape c \<noteq> None then states v (\<lambda>_. 0) (\<lambda>ins. length ins = 3 \<and> sized (ins ! 0) (ins ! 1))
      else if memcpy_shape c \<noteq> None then states v (\<lambda>_. 0)
          (\<lambda>ins. length ins = 3 \<and> sized (ins ! 0) (ins ! 2) \<and> sized (ins ! 1) (ins ! 2))
      else if memcmp_shape c \<noteq> None then states v (\<lambda>ins. byte_compare (values_of (ins ! 0)) (values_of (ins ! 1)))
          (\<lambda>ins. length ins = 3 \<and> sized (ins ! 0) (ins ! 2) \<and> sized (ins ! 1) (ins ! 2))
      else if i64_sum_shape c \<noteq> None then states v (\<lambda>ins. sint (\<Sum>x \<leftarrow> values_of (ins ! 0). w64 x))
          (\<lambda>ins. length ins = 2 \<and> sized (ins ! 0) (ins ! 1))
      else case pure_int_shape c of
        Some op \<Rightarrow> states v (\<lambda>ins. usize_result op (json_int (ins ! 0)) (json_int (ins ! 1))) (\<lambda>ins. length ins = 2)
      | None \<Rightarrow> (case pure_int_i64_shape c of
        Some op \<Rightarrow> states v (\<lambda>ins. binary_result op (json_int (ins ! 0)) (json_int (ins ! 1))) (\<lambda>ins. length ins = 2)
      | None \<Rightarrow> (case pure_int_unary_i64_shape c of
        Some op \<Rightarrow> states v (\<lambda>ins. unary_result op (json_int (ins ! 0))) (\<lambda>ins. length ins = 1)
      | None \<Rightarrow> if cell_load_shape c then states v (\<lambda>ins. hd (values_of (ins ! 0))) (\<lambda>ins. length ins = 1 \<and> length (values_of (ins ! 0)) = 1)
        else states v (\<lambda>ins. json_int (ins ! 1)) (\<lambda>ins. length ins = 2 \<and> length (values_of (ins ! 0)) = 1))))"

text \<open>Fixtures whose literal bytes are not the needle.\<close>

definition fixtures_separate :: "checked_contract \<Rightarrow> bool" where
  "fixtures_separate c \<longleftrightarrow>
     (case scan_shape c of
        Some shape \<Rightarrow> ss_needle shape \<noteq> 0
      | None \<Rightarrow> (case replace_byte_shape c of
          Some shape \<Rightarrow> rb_needle shape \<noteq> 1 \<and> rb_needle shape \<noteq> 2 \<and> (rb_needle shape = 7 \<longrightarrow> rb_replacement shape = 7)
        | None \<Rightarrow> True))"

lemma non_needle_loop_spec:
  "length out \<le> 3 \<Longrightarrow> needle \<notin> set out \<Longrightarrow>
     length (non_needle_loop needle v out) = 3 \<and> needle \<notin> set (non_needle_loop needle v out)"
proof (induction needle v out rule: non_needle_loop.induct)
  case (1 needle v out)
  then show ?case
    by (cases "length out < 3") (auto simp: non_needle_loop.simps [of needle v out])
qed

lemma non_needle_cases:
  obtains a b d where "map uint (non_needle_bytes n) = [a, b, d]" "a \<noteq> uint n" "b \<noteq> uint n" "d \<noteq> uint n"
proof -
  have l: "length (non_needle_bytes n) = 3" "n \<notin> set (non_needle_bytes n)"
    using non_needle_loop_spec [of "[]" n 0] by (simp_all add: non_needle_bytes_def)
  then obtain x y z where "non_needle_bytes n = [x, y, z]" by (auto simp: eval_nat_numeral length_Suc_conv)
  then show thesis using that l(2) by (auto simp: word_uint_eq_iff)
qed

lemma json_int_number [simp]: "json_int \<circ> JNumber = id"
  by (rule ext) simp

lemma values_numbers [simp]: "values_of (numbers xs) = xs"
  by (induction xs) simp_all

lemma vec_case_simps [simp]: "tv_inputs (vec_case n ins e) = ins" "tv_expected (vec_case n ins e) = JNumber e"
  by (simp_all add: vec_case_def)

lemma uint_byte_eq: "uint (n :: 8 word) = k \<longleftrightarrow> 0 \<le> k \<and> k < 256 \<and> n = word_of_int k"
proof
  show "uint n = k \<Longrightarrow> 0 \<le> k \<and> k < 256 \<and> n = word_of_int k" using uint_bounded [of n] by auto
  show "0 \<le> k \<and> k < 256 \<and> n = word_of_int k \<Longrightarrow> uint n = k" by (simp add: uint_word_of_int take_bit_eq_mod)
qed

abbreviation scan_states :: "scan_shape_rec \<Rightarrow> test_vector \<Rightarrow> bool" where
  "scan_states shape v \<equiv> states v (\<lambda>ins. scan_result (ss_op shape) (values_of (ins ! 0)) (json_int (ins ! 2)))
     (\<lambda>ins. length ins = 3 \<and> sized (ins ! 0) (ins ! 1) \<and> json_int (ins ! 2) = uint (ss_needle shape))"

lemma filter_replicate_eq: "filter (\<lambda>b. b = n) (replicate k n) = replicate k n"
  by (induction k) simp_all

lemma scan_vectors_correct:
  "ss_op shape = Count \<Longrightarrow> list_all (scan_states shape) (synthesize_buffer_scan_vectors shape) \<longleftrightarrow> ss_needle shape \<noteq> 0"
  "ss_op shape = FindFirst \<Longrightarrow> list_all (scan_states shape) (synthesize_find_first_vectors shape) \<longleftrightarrow> ss_needle shape \<noteq> 0"
  "ss_op shape = FindLast \<Longrightarrow> list_all (scan_states shape) (synthesize_find_last_vectors shape) \<longleftrightarrow> ss_needle shape \<noteq> 0"
proof -
  obtain a b d where n: "map uint (non_needle_bytes (ss_needle shape)) = [a, b, d]"
      "a \<noteq> uint (ss_needle shape)" "b \<noteq> uint (ss_needle shape)" "d \<noteq> uint (ss_needle shape)"
    by (rule non_needle_cases)
  have z: "uint (ss_needle shape) = 0 \<longleftrightarrow> ss_needle shape = 0" by (simp add: uint_byte_eq)
  show "ss_op shape = Count \<Longrightarrow> list_all (scan_states shape) (synthesize_buffer_scan_vectors shape) \<longleftrightarrow> ss_needle shape \<noteq> 0"
    using n z by (simp add: synthesize_buffer_scan_vectors_def Let_def sized_def count_of_def filter_replicate_eq del: map_map)
  show "ss_op shape = FindFirst \<Longrightarrow> list_all (scan_states shape) (synthesize_find_first_vectors shape) \<longleftrightarrow> ss_needle shape \<noteq> 0"
    using n z by (simp add: synthesize_find_first_vectors_def Let_def sized_def first_index_def del: map_map)
  show "ss_op shape = FindLast \<Longrightarrow> list_all (scan_states shape) (synthesize_find_last_vectors shape) \<longleftrightarrow> ss_needle shape \<noteq> 0"
    using n z by (simp add: synthesize_find_last_vectors_def Let_def sized_def last_index_def fixture_len_def del: map_map)
qed

lemma wrap_i64_sint: "wrap_i64 x = sint (w64 x)"
  by (simp add: wrap_i64_def sint_uint signed_take_bit_eq_take_bit_shift uint_word_of_int take_bit_eq_mod mod_simps)

lemma wrap_i64_parts [simp]: "w64 (wrap_i64 x) = w64 x"
  by (rule wrap_i64_word)

lemma binary_result_reduce: "pure_int_i64_reduce op a b = binary_result op a b"
  by (cases op) (simp_all add: wrap_i64_sint mult.commute)

lemma unary_result_reduce: "op \<noteq> USumRange \<Longrightarrow> pure_int_unary_reduce op x = unary_result op x"
  by (cases op) (simp_all add: wrap_i64_sint mult.commute)

lemma replace_cases:
  fixes n r :: int and mb :: "int list"
  assumes "m \<noteq> n" "k = int (length mb)"
  shows "list_all (\<lambda>v. states v (\<lambda>ins. count_of (values_of (ins ! 0)) (json_int (ins ! 2))) (\<lambda>ins. length ins = 4 \<and> sized (ins ! 0) (ins ! 1)))
     ([vec_case ''empty input'' [JNull, JNumber 0, JNumber n, JNumber r] 0,
       vec_case ''one byte (match)'' [numbers [n], JNumber 1, JNumber n, JNumber r] 1,
       vec_case ''one byte (miss)'' [numbers [m], JNumber 1, JNumber n, JNumber r] 0,
       vec_case ''mixed hits'' [numbers [n, 1, n, 2, n], JNumber 5, JNumber n, JNumber r] 3] @
      (if n \<noteq> r then [vec_case ''needle equals replacement'' [numbers [n, n, 7], JNumber 3, JNumber n, JNumber n] 2] else []) @
      [vec_case ''maximum configured fixture length'' [numbers mb, JNumber k, JNumber n, JNumber r]
         (int (length (filter (\<lambda>b. b = n) mb)))]) \<longleftrightarrow> n \<noteq> 1 \<and> n \<noteq> 2 \<and> (n = 7 \<longrightarrow> r = 7)"
  using assms by (cases "n = r") (auto simp: sized_def count_of_def)

lemma replace_vectors_correct:
  "list_all (\<lambda>v. states v (\<lambda>ins. count_of (values_of (ins ! 0)) (json_int (ins ! 2))) (\<lambda>ins. length ins = 4 \<and> sized (ins ! 0) (ins ! 1)))
     (synthesize_replace_byte_vectors shape) \<longleftrightarrow>
   rb_needle shape \<noteq> 1 \<and> rb_needle shape \<noteq> 2 \<and> (rb_needle shape = 7 \<longrightarrow> rb_replacement shape = 7)"
proof -
  have n: "(uint (rb_needle shape) + 1) mod 256 \<noteq> uint (rb_needle shape)"
    using uint_bounded [of "rb_needle shape"] by (cases "uint (rb_needle shape) = 255") auto
  have z: "uint (w :: 8 word) = 1 \<longleftrightarrow> w = 1" "uint w = 2 \<longleftrightarrow> w = 2" "uint w = 7 \<longleftrightarrow> w = 7" for w
    by (simp_all add: uint_byte_eq)
  show ?thesis
    unfolding synthesize_replace_byte_vectors_def Let_def z [symmetric] by (rule replace_cases [OF n]) simp
qed

lemma memset_vectors_correct:
  "list_all (\<lambda>v. states v (\<lambda>_. 0) (\<lambda>ins. length ins = 3 \<and> sized (ins ! 0) (ins ! 1))) (synthesize_memset_vectors shape)"
  by (simp add: synthesize_memset_vectors_def Let_def sized_def)

lemma memcpy_vectors_correct:
  "list_all (\<lambda>v. states v (\<lambda>_. 0) (\<lambda>ins. length ins = 3 \<and> sized (ins ! 0) (ins ! 2) \<and> sized (ins ! 1) (ins ! 2)))
     (synthesize_memcpy_vectors n)"
  by (simp add: synthesize_memcpy_vectors_def Let_def sized_def)

lemma byte_compare_refl [simp]: "byte_compare xs xs = 0"
  by (induction xs) simp_all

lemma memcmp_vectors_correct:
  "list_all (\<lambda>v. states v (\<lambda>ins. byte_compare (values_of (ins ! 0)) (values_of (ins ! 1)))
      (\<lambda>ins. length ins = 3 \<and> sized (ins ! 0) (ins ! 2) \<and> sized (ins ! 1) (ins ! 2))) (synthesize_memcmp_vectors shape)"
  by (simp add: synthesize_memcmp_vectors_def Let_def sized_def)

lemma sum_vectors_correct:
  "list_all (\<lambda>v. states v (\<lambda>ins. sint (\<Sum>x \<leftarrow> values_of (ins ! 0). w64 x)) (\<lambda>ins. length ins = 2 \<and> sized (ins ! 0) (ins ! 1)))
     (synthesize_i64_sum_vectors shape)"
proof -
  have m: "fixture_len k \<le> 256" for k by (simp add: fixture_len_def max_fixture_cap_def)
  have "sint (of_nat k :: 64 word) = int k" if "k \<le> 256" for k
    using wrap_i64_sint [of "int k"] wrap_i64_id [of "int k"] that by (simp add: in_i64_def i64_min_def i64_max_def)
  then have "sint (of_nat (fixture_len (is_max_length shape)) :: 64 word) = i64_from_or_max (fixture_len (is_max_length shape))"
    using m [of "is_max_length shape"] by (simp add: i64_from_or_max_def i64_try_from_def i64_max_def)
  moreover have "list_all (\<lambda>v. states v (\<lambda>ins. sint (\<Sum>x \<leftarrow> values_of (ins ! 0). w64 x)) (\<lambda>ins. length ins = 2 \<and> sized (ins ! 0) (ins ! 1)))
      [vec_case ''positive'' [numbers [1, 2, 3, 4], JNumber 4] 10,
       vec_case ''mixed'' [numbers [-5, 2, 10], JNumber 3] 7,
       vec_case ''single negative'' [numbers [-1], JNumber 1] (-1),
       vec_case ''wrapping overflow'' [numbers [i64_max, 1], JNumber 2] i64_min]"
    by code_simp
  ultimately show ?thesis
    by (simp add: synthesize_i64_sum_vectors_def Let_def sized_def map_replicate_const sum_list_replicate)
qed

lemma usize_result_reduce: "pure_int_reduce op a b = usize_result op a b"
  by (cases op) simp_all

lemma scalar_vectors_correct:
  "list_all (\<lambda>v. states v (\<lambda>ins. usize_result op1 (json_int (ins ! 0)) (json_int (ins ! 1))) (\<lambda>ins. length ins = 2))
     (synthesize_pure_int_vectors op1)"
  "list_all (\<lambda>v. states v (\<lambda>ins. binary_result op2 (json_int (ins ! 0)) (json_int (ins ! 1))) (\<lambda>ins. length ins = 2))
     (synthesize_pure_int_i64_vectors op2)"
  "list_all (\<lambda>v. states v (\<lambda>ins. unary_result op3 (json_int (ins ! 0))) (\<lambda>ins. length ins = 1)) (synthesize_pure_int_unary_i64_vectors op3)"
  "list_all (\<lambda>v. states v (\<lambda>ins. hd (values_of (ins ! 0))) (\<lambda>ins. length ins = 1 \<and> length (values_of (ins ! 0)) = 1)) synthesize_cell_load_vectors"
  "list_all (\<lambda>v. states v (\<lambda>ins. json_int (ins ! 1)) (\<lambda>ins. length ins = 2 \<and> length (values_of (ins ! 0)) = 1)) synthesize_cell_store_vectors"
proof -
  show "list_all (\<lambda>v. states v (\<lambda>ins. unary_result op3 (json_int (ins ! 0))) (\<lambda>ins. length ins = 1)) (synthesize_pure_int_unary_i64_vectors op3)"
  proof (cases "op3 = USumRange")
    case True
    have "list_all (\<lambda>v. states v (\<lambda>ins. unary_result USumRange (json_int (ins ! 0))) (\<lambda>ins. length ins = 1))
        (synthesize_pure_int_unary_i64_vectors USumRange)"
      by code_simp
    with True show ?thesis by simp
  next
    case False
    then show ?thesis
      by (auto simp: synthesize_pure_int_unary_i64_vectors_def list_all_iff unary_result_reduce simp del: unary_result.simps pure_int_unary_reduce.simps)
  qed
qed (simp_all add: synthesize_pure_int_vectors_def synthesize_pure_int_i64_vectors_def synthesize_cell_load_vectors_def
    synthesize_cell_store_vectors_def binary_result_reduce usize_result_reduce
    del: binary_result.simps pure_int_i64_reduce.simps usize_result.simps pure_int_reduce.simps)

lemma synthesized_meet:
  "list_all (meets_oracle c) (synthesize_vectors c) \<longleftrightarrow> fixtures_separate c"
proof (cases "scan_shape c")
  case (Some shape)
  have m: "meets_oracle c = scan_states shape" by (rule ext) (simp only: meets_oracle_def Some option.case)
  show ?thesis
  proof (cases "ss_op shape")
    case Count
    show ?thesis using scan_vectors_correct(1) [OF Count]
      by (simp only: m synthesize_vectors_def fixtures_separate_def Some option.case Count buffer_scan_op.case)
  next
    case FindFirst
    show ?thesis using scan_vectors_correct(2) [OF FindFirst]
      by (simp only: m synthesize_vectors_def fixtures_separate_def Some option.case FindFirst buffer_scan_op.case)
  next
    case FindLast
    show ?thesis using scan_vectors_correct(3) [OF FindLast]
      by (simp only: m synthesize_vectors_def fixtures_separate_def Some option.case FindLast buffer_scan_op.case)
  qed
next
  case scan: None
  show ?thesis
  proof (cases "replace_byte_shape c")
    case (Some shape)
    then have "meets_oracle c = (\<lambda>v. states v (\<lambda>ins. count_of (values_of (ins ! 0)) (json_int (ins ! 2)))
        (\<lambda>ins. length ins = 4 \<and> sized (ins ! 0) (ins ! 1)))"
      by (intro ext) (simp only: meets_oracle_def scan option.case not_None_eq, simp)
    with Some show ?thesis using replace_vectors_correct [of shape]
      by (simp only: synthesize_vectors_def fixtures_separate_def scan option.case)
  next
    case None
    note scalars = scalar_vectors_correct
    have "list_all (meets_oracle c) (synthesize_vectors c)"
      unfolding meets_oracle_def synthesize_vectors_def scan None
      using memset_vectors_correct memcpy_vectors_correct memcmp_vectors_correct sum_vectors_correct scalars
      by (simp del: states.simps split: option.split)
    with scan None show ?thesis by (simp add: fixtures_separate_def)
  qed
qed

text \<open>C30: Every builtin vector of a contract expects the value the oracle of the contract's shape returns on the vector's
  arguments exactly when the fixtures' literal bytes do not clash with the needle. They clash for a scan with needle 0, and for a replacement
  with needle 1, with needle 2, and with needle 7 unless the replacement is 7 too; then some vector expects a
  wrong result and a correct routine is rejected. For the shapes that write a buffer only the returned value
  is meant: what the buffer holds afterwards is not part of a vector, but computed when the output is evaluated.\<close>

theorem synthesized_vectors_correct:
  "list_all (meets_oracle c) (synthesize_vectors c) \<longleftrightarrow> fixtures_separate c"
  by (rule synthesized_meet)

lemma detected_shapes:
  "detect_harness_shape (synthesize_buffer_scan_vectors s) = Inr HsBufferScan"
  "detect_harness_shape (synthesize_find_first_vectors s) = Inr HsBufferScan"
  "detect_harness_shape (synthesize_find_last_vectors s) = Inr HsBufferScan"
  "detect_harness_shape (synthesize_memset_vectors m) = Inr HsBufferScan"
  "detect_harness_shape (synthesize_replace_byte_vectors r) = Inr HsReplaceByte"
  "detect_harness_shape (synthesize_memcpy_vectors n) = Inr HsMemCmp"
  "detect_harness_shape (synthesize_memcmp_vectors q) = Inr HsMemCmp"
  "detect_harness_shape (synthesize_i64_sum_vectors i) = Inr HsI64Sum"
  "detect_harness_shape synthesize_cell_store_vectors = Inr HsI64Sum"
  "detect_harness_shape (synthesize_pure_int_vectors op1) = Inr HsPureInt"
  "detect_harness_shape (synthesize_pure_int_i64_vectors op2) = Inr HsPureInt"
  "detect_harness_shape (synthesize_pure_int_unary_i64_vectors op3) = Inr HsPureIntUnary"
  "detect_harness_shape synthesize_cell_load_vectors = Inr HsCellLoad"
  by (simp_all add: detect_harness_shape_def Let_def synthesize_buffer_scan_vectors_def synthesize_find_first_vectors_def
      synthesize_find_last_vectors_def synthesize_memset_vectors_def synthesize_replace_byte_vectors_def synthesize_memcpy_vectors_def
      synthesize_memcmp_vectors_def synthesize_i64_sum_vectors_def synthesize_cell_store_vectors_def synthesize_pure_int_vectors_def
      synthesize_pure_int_i64_vectors_def synthesize_pure_int_unary_i64_vectors_def synthesize_cell_load_vectors_def
      split: pure_int_unary_op.split)

lemma expected_shapes:
  "oracle_expected_shape oracle_buffer_count_equal_u8 = Inr HsBufferScan"
  "oracle_expected_shape oracle_buffer_find_first_u8 = Inr HsBufferScan"
  "oracle_expected_shape oracle_buffer_find_last_u8 = Inr HsBufferScan"
  "oracle_expected_shape oracle_buffer_replace_byte = Inr HsReplaceByte"
  "oracle_expected_shape oracle_buffer_memset = Inr HsMemset"
  "oracle_expected_shape oracle_buffer_memcpy = Inr HsMemcpy"
  "oracle_expected_shape oracle_buffer_memcmp_i8 = Inr HsMemCmp"
  "oracle_expected_shape oracle_buffer_wrapping_sum_i64 = Inr HsI64Sum"
  "oracle_expected_shape oracle_pure_int_binary_usize = Inr HsPureInt"
  "oracle_expected_shape oracle_pure_int_binary_i64 = Inr HsPureInt"
  "oracle_expected_shape oracle_pure_int_unary_i64 = Inr HsPureIntUnary"
  "oracle_expected_shape oracle_buffer_load_byte0 = Inr HsCellLoad"
  "oracle_expected_shape oracle_buffer_store_byte0 = Inr HsCellStore"
  by (simp_all add: oracle_expected_shape_def oracle_ids)

lemma synthesized_layout:
  "case recognize_behavior_oracle c of
     None \<Rightarrow> synthesize_vectors c = []
   | Some ora \<Rightarrow> (\<exists>e d. oracle_expected_shape (ro_id ora) = Inr e \<and> detect_harness_shape (synthesize_vectors c) = Inr d \<and>
       (d = e \<or> e = HsMemset \<and> d = HsBufferScan \<or> e = HsMemcpy \<and> d = HsMemCmp \<or> e = HsCellStore \<and> d = HsI64Sum))"
  unfolding recognize_behavior_oracle_def synthesize_vectors_def
  apply (cases "scan_shape c", simp_all add: expected_shapes detected_shapes split: buffer_scan_op.split)
  apply (cases "replace_byte_shape c", simp_all add: expected_shapes detected_shapes)
  apply (cases "memset_shape c", simp_all add: expected_shapes detected_shapes)
  apply (cases "memcpy_shape c", simp_all add: expected_shapes detected_shapes)
  apply (cases "memcmp_shape c", simp_all add: expected_shapes detected_shapes)
  apply (cases "i64_sum_shape c", simp_all add: expected_shapes detected_shapes)
  apply (cases "pure_int_shape c", simp_all add: expected_shapes detected_shapes)
  apply (cases "pure_int_i64_shape c", simp_all add: expected_shapes detected_shapes)
  apply (cases "pure_int_unary_i64_shape c", simp_all add: expected_shapes detected_shapes)
  done

text \<open>Synthesis, oracle recognition and shape resolution agree: a contract has builtin vectors exactly
  when an oracle recognizes it, and then the vectors' layout resolves to the shape that oracle expects,
  so the layout check never rejects the synthesized set and every oracle has a shape.\<close>

theorem synthesized_vectors_resolve:
  "case recognize_behavior_oracle c of
     None \<Rightarrow> synthesize_vectors c = [] \<and> resolve_harness_shape c (synthesize_vectors c) = Inl NoRecognizedOracle
   | Some ora \<Rightarrow> synthesize_vectors c \<noteq> [] \<and>
       (\<exists>shape. oracle_expected_shape (ro_id ora) = Inr shape \<and> resolve_harness_shape c (synthesize_vectors c) = Inr shape)"
proof (cases "recognize_behavior_oracle c")
  case (Some ora)
  then obtain e d where "oracle_expected_shape (ro_id ora) = Inr e" "detect_harness_shape (synthesize_vectors c) = Inr d"
      "d = e \<or> e = HsMemset \<and> d = HsBufferScan \<or> e = HsMemcpy \<and> d = HsMemCmp \<or> e = HsCellStore \<and> d = HsI64Sum"
    using synthesized_layout [of c] by auto
  then show ?thesis using Some by (auto simp: resolve_harness_shape_def) (auto simp: detect_harness_shape_def)
qed (use synthesized_layout [of c] in \<open>simp add: resolve_harness_shape_def\<close>)

section \<open>External vectors and the oracle\<close>

definition no_pointer :: "checked_contract \<Rightarrow> bool" where
  "no_pointer c \<longleftrightarrow> list_all (\<lambda>p. case cp_ty p of Ptr _ _ \<Rightarrow> False | _ \<Rightarrow> True) (c_parameters c)"

lemma pointer_folds:
  assumes "list_all (\<lambda>p. case cp_ty p of Ptr _ _ \<Rightarrow> False | _ \<Rightarrow> True) ps"
  shows "fst (fold scan_param ps (None, l, n)) = None" "fst (fold write_param ps (None, l, u)) = None"
    "fst (fold copy_param ps (None, s, l)) = None" "fst (fold sum_param ps (None, l)) = None"
  using assms
  by (induction ps arbitrary: l n u s) (auto split: sem_type.splits)

lemma no_pointer_shapes:
  assumes "no_pointer c"
  shows "scan_shape c = None" "replace_byte_shape c = None" "memset_shape c = None" "memcpy_shape c = None"
    "memcmp_shape c = None" "i64_sum_shape c = None"
proof -
  note folds = pointer_folds [OF assms [unfolded no_pointer_def]]
  show "scan_shape c = None" using folds(1) [of None None]
    by (cases "fold scan_param (c_parameters c) (None, None, None)") (simp add: scan_shape_def)
  show "replace_byte_shape c = None" "memset_shape c = None" using folds(2) [of None "[]"]
    by (cases "fold write_param (c_parameters c) (None, None, [])"; simp add: replace_byte_shape_def memset_shape_def)+
  show "memcpy_shape c = None" using folds(3) [of None None]
    by (cases "fold copy_param (c_parameters c) (None, None, None)") (simp add: memcpy_shape_def)
  show "i64_sum_shape c = None" using folds(4) [of None]
    by (cases "fold sum_param (c_parameters c) (None, None)") (simp add: i64_sum_shape_def)
  have "filter (\<lambda>p. cp_ty p = Ptr (UInt 8) True) (c_parameters c) = []"
    using assms by (auto simp: no_pointer_def list_all_iff filter_empty_conv)
  then show "memcmp_shape c = None" by (simp add: memcmp_shape_def Let_def)
qed

lemma scalar_no_pointer:
  "pure_int_shape c \<noteq> None \<or> pure_int_i64_shape c \<noteq> None \<or> pure_int_unary_i64_shape c \<noteq> None \<Longrightarrow> no_pointer c"
proof (elim disjE)
  assume "pure_int_shape c \<noteq> None"
  then show ?thesis
    by (auto simp: pure_int_shape_def pure_int_types_def no_pointer_def list_all_iff list_ex_iff split: if_splits sem_type.splits)
next
  assume "pure_int_i64_shape c \<noteq> None"
  then have "length (filter (\<lambda>p. cp_ty p = SInt 64) (c_parameters c)) = length (c_parameters c)"
    by (auto simp: pure_int_i64_shape_def pure_int_i64_types_def split: if_splits)
  then have "list_all (\<lambda>p. cp_ty p = SInt 64) (c_parameters c)"
    using length_filter_less [of _ "c_parameters c" "\<lambda>p. cp_ty p = SInt 64"] by (fastforce simp: list_all_iff)
  then show ?thesis by (auto simp: no_pointer_def list_all_iff)
next
  assume "pure_int_unary_i64_shape c \<noteq> None"
  then show ?thesis
    by (auto simp: pure_int_unary_i64_shape_def pure_int_unary_i64_types_def no_pointer_def split: if_splits list.splits)
qed

lemma triangular: "0 \<le> x \<Longrightarrow> 2 * (\<Sum>i \<in> {0..x}. i) = x * (x + 1)" for x :: int
proof (induction x rule: int_ge_induct)
  case (step i)
  have "{0..i + 1} = insert (i + 1) {0..i}" using step.hyps by auto
  then show ?case using step by (simp add: algebra_simps)
qed simp

lemma sum_range_exact:
  assumes "0 \<le> x" "x * (x + 1) \<le> i64_max" "in_i64 x"
  shows "pure_int_unary_reduce USumRange x = unary_result USumRange x"
proof -
  have "x + 1 \<le> i64_max"
  proof (cases "x = 0")
    case False
    then have "1 * (x + 1) \<le> x * (x + 1)" using assms(1) by (intro mult_right_mono) auto
    then show ?thesis using assms(2) by simp
  qed (simp add: i64_max_def)
  then have "in_i64 (x + 1)" using assms(1) by (simp add: in_i64_def i64_min_def)
  moreover have nn: "0 \<le> x * (x + 1)" using assms(1) by simp
  then have "in_i64 (x * (x + 1))"
    unfolding in_i64_def i64_min_def by (intro conjI order.trans [OF _ nn] assms(2)) simp
  moreover have "x * (x + 1) div 2 = (\<Sum>i \<in> {0..x}. i)" using triangular [OF assms(1)] by simp
  moreover have "rust_div (x * (x + 1)) 2 = x * (x + 1) div 2"
  proof (cases "x = 0")
    case False
    then have "0 < x * (x + 1)" using assms(1) by simp
    then show ?thesis by (simp add: rust_div_def sgn_if)
  qed (simp add: rust_div_def)
  ultimately have "pure_int_unary_reduce USumRange x = wrap_i64 (\<Sum>i \<in> {0..x}. i)" by (simp add: wrap_i64_id)
  then show ?thesis by (simp only: wrap_i64_sint unary_result.simps)
qed

lemma as_i64_Some: "as_i64 j = Some n \<longleftrightarrow> j = JNumber n \<and> in_i64 n"
  by (cases j) auto

lemma as_u64_Some: "as_u64 j = Some n \<longleftrightarrow> j = JNumber n \<and> 0 \<le> n \<and> n \<le> u64_max"
  by (cases j) auto

fun sum_fits :: "json list \<Rightarrow> bool" where
  "sum_fits (JNumber x # _) \<longleftrightarrow> x * (x + 1) \<le> i64_max"
| "sum_fits _ \<longleftrightarrow> False"

text \<open>A vector derived from caller-supplied inputs carries exactly those inputs, in parameter order, and
  the result the recognized oracle's claim gives for them. Two cases are excluded, in which the code
  does something else: a triangular sum whose product overflows, and a two-\<open>usize\<close> contract with
  further parameters.\<close>

theorem external_vector_sound:
  assumes "derive_external_vector c k = Inr v"
    and "pure_int_shape c \<noteq> None \<longrightarrow> length (c_parameters c) = 2"
    and "pure_int_unary_i64_shape c = Some USumRange \<longrightarrow> sum_fits (tv_inputs v)"
  shows "meets_oracle c v \<and> map (\<lambda>p. map_of (ev_inputs k) (cp_name p)) (c_parameters c) = map Some (tv_inputs v)"
proof -
  let ?ordered = "map (\<lambda>p. the (map_of (ev_inputs k) (cp_name p))) (c_parameters c)"
  from assms(1) have full: "\<forall>p \<in> set (c_parameters c). map_of (ev_inputs k) (cp_name p) \<noteq> None"
    by (auto simp: derive_external_vector_def list_ex_iff split: if_splits)
  from assms(1) obtain e where e: "derive_expected c (ev_id k) ?ordered = Inr e" "tv_inputs v = ?ordered" "tv_expected v = JNumber e"
    by (auto simp: derive_external_vector_def Let_def split: if_splits sum.splits)
  have "no_pointer c"
    using e(1) scalar_no_pointer [of c] by (auto simp: derive_expected_def Let_def split: option.splits)
  note shapes = no_pointer_shapes [OF this]
  have "meets_oracle c v"
  proof (cases "pure_int_shape c")
    case (Some op)
    moreover from this assms(2) have "length ?ordered = 2" by simp
    ultimately show ?thesis using e
      by (auto simp: meets_oracle_def shapes derive_expected_def external_u64_def as_u64_Some Let_def usize_result_reduce
          split: sum.splits option.splits simp del: usize_result.simps pure_int_reduce.simps)
  next
    case nopure: None
    show ?thesis
    proof (cases "pure_int_i64_shape c")
      case (Some op)
      moreover from this have "length ?ordered = 2"
        by (auto simp: pure_int_i64_shape_def pure_int_i64_types_def split: if_splits)
      ultimately show ?thesis using e nopure
        by (auto simp: meets_oracle_def shapes derive_expected_def external_i64_def as_i64_Some Let_def binary_result_reduce
          split: sum.splits option.splits simp del: pure_int_i64_reduce.simps binary_result.simps)
    next
      case no64: None
      with e nopure obtain op where op: "pure_int_unary_i64_shape c = Some op"
        by (auto simp: derive_expected_def Let_def split: option.splits)
      then obtain j where j: "?ordered = [j]"
        by (auto simp: pure_int_unary_i64_shape_def pure_int_unary_i64_types_def split: if_splits list.splits)
      with e(1) op nopure no64 obtain x where x: "j = JNumber x" "in_i64 x" "e = pure_int_unary_reduce op x" "op = USumRange \<longrightarrow> 0 \<le> x"
        by (auto simp: derive_expected_def external_i64_def as_i64_Some Let_def split: sum.splits option.splits if_splits)
      have "pure_int_unary_reduce op x = unary_result op x"
      proof (cases "op = USumRange")
        case True
        then show ?thesis using assms(3) op e(2) j x sum_range_exact [of x] by simp
      qed (rule unary_result_reduce)
      then show ?thesis using e(2,3) j x op nopure no64 shapes by (simp add: meets_oracle_def)
    qed
  qed
  moreover have "map (\<lambda>p. map_of (ev_inputs k) (cp_name p)) (c_parameters c) = map Some (tv_inputs v)"
    using full e(2) by auto
  ultimately show ?thesis ..
qed

definition scalar_contract :: "string \<Rightarrow> sem_type list \<Rightarrow> sem_type \<Rightarrow> checked_contract" where
  "scalar_contract name types ret = \<lparr>version_major = 0, version_minor = 1, c_name = name, c_summary = None,
     c_parameters = map (\<lambda>(i, t). \<lparr>cp_name = ''p'' @ show_nat i, cp_ty = t, cp_type_source = [], cp_role = None\<rparr>) (enumerate 0 types),
     c_returns = [\<lparr>ct_name = ''r'', ct_ty = ret, ct_type_source = []\<rparr>], c_requires = [], c_ensures = [], c_effects = [],
     c_memory = None, c_constraints = None, c_target_overrides = []\<rparr>"

definition sum_contract :: checked_contract where
  "sum_contract = scalar_contract ''sum_range_i64'' [SInt 64] (SInt 64)"

theorem external_vector_sound_witness:
  "meets_oracle sum_contract \<lparr>tv_name = ''external:a'', tv_inputs = [JNumber 10], tv_expected = JNumber 55\<rparr> \<and>
   map (\<lambda>p. map_of [(''p0'', JNumber 10)] (cp_name p)) (c_parameters sum_contract) = map Some [JNumber 10]"
proof -
  have "derive_external_vector sum_contract \<lparr>ev_id = ''a'', ev_inputs = [(''p0'', JNumber 10)]\<rparr> =
      Inr \<lparr>tv_name = ''external:a'', tv_inputs = [JNumber 10], tv_expected = JNumber 55\<rparr>"
    by code_simp
  moreover have "pure_int_shape sum_contract = None" by code_simp
  ultimately show ?thesis
    using external_vector_sound [of sum_contract "\<lparr>ev_id = ''a'', ev_inputs = [(''p0'', JNumber 10)]\<rparr>"] by (simp add: i64_max_def)
qed

section \<open>Where the vectors and the claims part\<close>

text \<open>With needle 0 the fixture \<open>[0, needle, 0]\<close> holds three needles.\<close>

lemma zero_needle_miscounted:
  "\<not> list_all (scan_states \<lparr>ss_op = Count, ss_needle = 0, ss_max_length = None, ss_allows_null_when_empty = False\<rparr>)
     (synthesize_buffer_scan_vectors \<lparr>ss_op = Count, ss_needle = 0, ss_max_length = None, ss_allows_null_when_empty = False\<rparr>)"
  by (subst scan_vectors_correct(1)) simp_all

text \<open>A declared length bound does not bound the fixed fixtures.\<close>

lemma length_bound_exceeded:
  "list_ex (\<lambda>v. 1 < json_int (tv_inputs v ! 1))
     (synthesize_buffer_scan_vectors \<lparr>ss_op = Count, ss_needle = 0x41, ss_max_length = Some 1, ss_allows_null_when_empty = False\<rparr>)"
  by code_simp

text \<open>The triangular closed form halves after the product has wrapped.\<close>

lemma sum_range_wraps:
  "pure_int_unary_reduce USumRange (2 ^ 32) = 2 ^ 31" "unary_result USumRange (2 ^ 32) = 2 ^ 31 - 2 ^ 63"
proof -
  have "(\<Sum>i \<in> {0..2 ^ 32}. i) = (2 ^ 32 * (2 ^ 32 + 1)) div (2 :: int)" using triangular [of "2 ^ 32"] by simp
  then have "unary_result USumRange (2 ^ 32) = wrap_i64 (2 ^ 31 * (2 ^ 32 + 1))" by (simp only: unary_result.simps wrap_i64_sint) simp
  then show "unary_result USumRange (2 ^ 32) = 2 ^ 31 - 2 ^ 63" by (simp add: wrap_i64_def)
qed (simp add: wrap_i64_def rust_div_def)

text \<open>With a further parameter the caller's first two inputs are read, whichever they are.\<close>

lemma third_parameter_misread:
  "derive_external_vector (scalar_contract ''min_usize'' [SInt 64, Usize, Usize] Usize)
     \<lparr>ev_id = ''a'', ev_inputs = [(''p0'', JNumber 1), (''p1'', JNumber 5), (''p2'', JNumber 7)]\<rparr> =
   Inr \<lparr>tv_name = ''external:a'', tv_inputs = [JNumber 1, JNumber 5, JNumber 7], tv_expected = JNumber 1\<rparr>"
  by code_simp

text \<open>A read-only scan is exempt from the no-store check when its name contains \<open>store_byte0\<close>.\<close>

definition misnamed_scan :: checked_contract where
  "misnamed_scan = (scalar_contract ''count_store_byte0'' [Ptr (UInt 8) True, Usize, UInt 8] Usize)
     \<lparr>c_effects := [\<lparr>ef_kind = ''memory_read'', ef_region = Some ''p0[0..p1]'', ef_resource = None\<rparr>]\<rparr>"

lemma read_only_check_skipped:
  "map_option ro_id (recognize_behavior_oracle misnamed_scan) = Some oracle_buffer_count_equal_u8"
  "\<not> is_read_only_buffer_scan misnamed_scan"
  by code_simp+

text \<open>A cell oracle is recognized by name alone, with no pointer to load from.\<close>

lemma cell_by_name: "map_option ro_id (recognize_behavior_oracle (scalar_contract ''load_byte0'' [] TBool)) = Some oracle_buffer_load_byte0"
  by code_simp

end
