(* ===== verification/Harness_Eval.thy ===== *)
theory Harness_Eval
  imports Harness_Vectors
begin

text \<open>
  Evaluation of a harness run: \<open>evaluate\<close> and its helpers in \<open>semasm-agent/src/harness.rs\<close>. The run's
  output is a list of bytes; the printing of a non-numeric expected value is \<open>serde_json\<close>'s and is a
  parameter of the model.
\<close>

section \<open>Words and bytes\<close>

definition le_word :: "8 word list \<Rightarrow> 64 word" where
  "le_word bs = word_of_int (horner_sum uint 256 bs)"

definition le_bytes :: "64 word \<Rightarrow> 8 word list" where
  "le_bytes w = map (\<lambda>i. ucast (drop_bit (8 * i) w)) [0..<8]"

lemma length_le_bytes [simp]: "length (le_bytes w) = 8"
  by (simp add: le_bytes_def)

lemma bit_le_word: "bit (le_word bs) n \<longleftrightarrow> n < 64 \<and> n div 8 < length bs \<and> bit (bs ! (n div 8)) (n mod 8)"
  using bit_horner_sum_uint_exp_iff [of bs n] by (simp add: le_word_def bit_word_of_int_iff)

lemma le_word_bytes: "length bs = 8 \<Longrightarrow> le_word bs = w \<longleftrightarrow> bs = le_bytes w"
proof
  assume len: "length bs = 8" and w: "le_word bs = w"
  show "bs = le_bytes w"
  proof (rule nth_equalityI)
    show "length bs = length (le_bytes w)" by (simp add: len)
    fix i assume i: "i < length bs"
    then have i8: "i < 8" using len by simp
    show "bs ! i = le_bytes w ! i"
    proof (rule bit_word_eqI)
      fix n assume n: "n < LENGTH(8)"
      have "bit (le_bytes w ! i) n = bit w (8 * i + n)"
        using i8 n by (simp add: le_bytes_def bit_ucast_iff bit_drop_bit_eq)
      also have "\<dots> = bit (bs ! i) n"
        using n i8 len unfolding w [symmetric] bit_le_word by (simp add: div_mult_self_is_m)
      finally show "bit (bs ! i) n = bit (le_bytes w ! i) n" ..
    qed
  qed
next
  assume len: "length bs = 8" and bs: "bs = le_bytes w"
  show "le_word bs = w"
  proof (rule bit_word_eqI)
    fix n assume n: "n < LENGTH(64)"
    then have d: "n div 8 < 8" by simp
    then have "bit (le_bytes w ! (n div 8)) (n mod 8) = bit w (8 * (n div 8) + n mod 8)"
      by (simp add: le_bytes_def bit_ucast_iff bit_drop_bit_eq)
    then show "bit (le_word bs) n = bit w n" using d n len bs by (simp add: bit_le_word)
  qed
qed

section \<open>Reading a vector\<close>

definition byte_of :: "int \<Rightarrow> 8 word" where
  "byte_of n = word_of_int n"

definition or_zero :: "int option \<Rightarrow> int" where
  "or_zero x = (case x of Some n \<Rightarrow> n | None \<Rightarrow> 0)"

definition input_at :: "test_vector \<Rightarrow> nat \<Rightarrow> json option" where
  "input_at v i = (if i < length (tv_inputs v) then Some (tv_inputs v ! i) else None)"

definition input_u64 :: "test_vector \<Rightarrow> nat \<Rightarrow> int" where
  "input_u64 v i = or_zero (Option.bind (input_at v i) as_u64)"

definition vector_length :: "test_vector \<Rightarrow> nat" where
  "vector_length v = nat (input_u64 v 1)"

definition vector_needle :: "test_vector \<Rightarrow> int" where
  "vector_needle v = input_u64 v 2 mod 256"

definition vector_replacement :: "test_vector \<Rightarrow> int" where
  "vector_replacement v = input_u64 v 3 mod 256"

definition vector_items :: "test_vector \<Rightarrow> nat \<Rightarrow> json list" where
  "vector_items v i = (case input_at v i of Some (JArray items) \<Rightarrow> items | _ \<Rightarrow> [])"

definition expected_replace_byte_buffer :: "test_vector \<Rightarrow> 8 word list" where
  "expected_replace_byte_buffer v =
     (let needle = byte_of (vector_needle v); replacement = byte_of (vector_replacement v) in
      map (\<lambda>x. let b = byte_of (or_zero (as_u64 x)) in if b = needle then replacement else b) (vector_items v 0))"

definition expected_memset_buffer :: "test_vector \<Rightarrow> 8 word list" where
  "expected_memset_buffer v = replicate (vector_length v) (byte_of (vector_needle v))"

definition expected_memcpy_buffer :: "test_vector \<Rightarrow> 8 word list" where
  "expected_memcpy_buffer v = map (\<lambda>x. byte_of (or_zero (as_u64 x))) (vector_items v 1)"

text \<open>The source bytes of a \<open>memcmp\<close> or \<open>memcpy\<close> vector, clamped to 255 and printed in decimal.\<close>

definition vector_memcmp_buffer_bytes :: "test_vector \<Rightarrow> nat \<Rightarrow> string list" where
  "vector_memcmp_buffer_bytes v i = map (\<lambda>x. show_int (min 255 (or_zero (as_u64 x)))) (vector_items v i)"

definition expected_bits :: "json \<Rightarrow> 64 word" where
  "expected_bits value =
     (case as_u64 value of Some u \<Rightarrow> word_of_int u
      | None \<Rightarrow> (case as_i64 value of Some i \<Rightarrow> word_of_int i | None \<Rightarrow> - 1))"

definition format_observed :: "64 word \<Rightarrow> json \<Rightarrow> string" where
  "format_observed bits expected =
     (if as_i64 expected \<noteq> None \<and> as_u64 expected = None then show_int (sint bits) else show_int (uint bits))"

definition format_expected :: "(json \<Rightarrow> string) \<Rightarrow> json \<Rightarrow> string" where
  "format_expected show_json expected =
     (case (as_i64 expected, as_u64 expected) of
        (Some i, None) \<Rightarrow> show_int i
      | (_, Some u) \<Rightarrow> show_int u
      | _ \<Rightarrow> show_json expected)"

section \<open>Evaluation\<close>

record vector_result =
  vr_name :: string
  vr_passed :: bool
  vr_expected :: string
  vr_observed :: string

record harness_report =
  hr_cases :: "vector_result list"
  hr_all_passed :: bool

definition no_output :: string where
  "no_output = ''<no output>''"

text \<open>The word at a byte offset, when the output reaches that far.\<close>

definition word_at :: "8 word list \<Rightarrow> nat \<Rightarrow> 64 word option" where
  "word_at stdout base = (if base + 8 \<le> length stdout then Some (le_word (take 8 (drop base stdout))) else None)"

definition word_result :: "(json \<Rightarrow> string) \<Rightarrow> test_vector \<Rightarrow> 64 word option \<Rightarrow> vector_result" where
  "word_result show_json v got =
     (let r = (case got of Some bits \<Rightarrow> (bits = expected_bits (tv_expected v), format_observed bits (tv_expected v))
                         | None \<Rightarrow> (False, no_output)) in
      \<lparr>vr_name = tv_name v, vr_passed = fst r, vr_expected = format_expected show_json (tv_expected v), vr_observed = snd r\<rparr>)"

definition evaluate_words_only :: "(json \<Rightarrow> string) \<Rightarrow> 8 word list \<Rightarrow> test_vector list \<Rightarrow> harness_report" where
  "evaluate_words_only show_json stdout vectors =
     (let observed = map (\<lambda>i. word_at stdout (i * 8)) [0..<length vectors];
          cases = map (\<lambda>(v, got). word_result show_json v got) (zip vectors observed) in
      \<lparr>hr_cases = cases, hr_all_passed = list_all vr_passed cases\<rparr>)"

definition write_guard_pre :: "8 word" where
  "write_guard_pre = 0xA5"

definition write_guard_post :: "8 word" where
  "write_guard_post = 0x5A"

definition guarded_region :: "8 word list \<Rightarrow> 8 word list" where
  "guarded_region payload = write_guard_pre # payload @ [write_guard_post]"

definition expected_replace_byte_echo :: "test_vector \<Rightarrow> 8 word list" where
  "expected_replace_byte_echo v = guarded_region (expected_replace_byte_buffer v)"

definition expected_memset_echo :: "test_vector \<Rightarrow> 8 word list" where
  "expected_memset_echo v = guarded_region (expected_memset_buffer v)"

definition expected_memcpy_echo :: "test_vector \<Rightarrow> 8 word list" where
  "expected_memcpy_echo v =
     (let src = map (\<lambda>s. case parse_unsigned 10 255 s of Some n \<Rightarrow> of_nat n | None \<Rightarrow> 0) (vector_memcmp_buffer_bytes v 1) in
      guarded_region (expected_memcpy_buffer v) @ guarded_region src)"

definition show_bytes :: "8 word list \<Rightarrow> string" where
  "show_bytes bs = ''['' @ concat (map (\<lambda>(i, b). (if i = 0 then [] else '', '') @ show_int (uint b)) (enumerate 0 bs)) @ '']''"

text \<open>The counts are read one after the other; a missing one leaves the offset where it is.\<close>

fun read_counts :: "8 word list \<Rightarrow> nat \<Rightarrow> nat \<Rightarrow> 64 word option list \<times> nat" where
  "read_counts stdout 0 offset = ([], offset)"
| "read_counts stdout (Suc n) offset =
     (case word_at stdout offset of
        Some w \<Rightarrow> (let (counts, offset') = read_counts stdout n (offset + 8) in (Some w # counts, offset'))
      | None \<Rightarrow> (let (counts, offset') = read_counts stdout n offset in (None # counts, offset')))"

definition echo_result :: "(json \<Rightarrow> string) \<Rightarrow> test_vector \<Rightarrow> 8 word list \<Rightarrow> 64 word option \<Rightarrow> 8 word list \<Rightarrow> nat \<Rightarrow>
    vector_result \<times> nat" where
  "echo_result show_json v expected_buf count stdout offset =
     (let len = length expected_buf;
          c = (case count of Some bits \<Rightarrow> (bits = expected_bits (tv_expected v), show_int (uint bits)) | None \<Rightarrow> (False, no_output));
          b = (if len = 0 then (True, ''[]'', offset)
               else if offset + len \<le> length stdout
                 then (let got = take len (drop offset stdout) in (got = expected_buf, show_bytes got, offset + len))
               else (False, ''<no buffer output>'', offset));
          passed = (fst c \<and> fst b) in
      (\<lparr>vr_name = tv_name v, vr_passed = passed,
        vr_expected = ''count='' @ format_expected show_json (tv_expected v) @ ''; buf='' @ show_bytes expected_buf,
        vr_observed = (if passed then snd c else ''count='' @ snd c @ ''; buf='' @ fst (snd b))\<rparr>, snd (snd b)))"

fun echo_cases :: "(json \<Rightarrow> string) \<Rightarrow> (test_vector \<Rightarrow> 8 word list) \<Rightarrow> 8 word list \<Rightarrow> (test_vector \<times> 64 word option) list \<Rightarrow> nat \<Rightarrow>
    vector_result list" where
  "echo_cases show_json expected_echo stdout [] offset = []"
| "echo_cases show_json expected_echo stdout ((v, count) # rest) offset =
     (let (r, offset') = echo_result show_json v (expected_echo v) count stdout offset in
      r # echo_cases show_json expected_echo stdout rest offset')"

definition evaluate_count_and_buffer :: "(json \<Rightarrow> string) \<Rightarrow> 8 word list \<Rightarrow> test_vector list \<Rightarrow> (test_vector \<Rightarrow> 8 word list) \<Rightarrow>
    harness_report" where
  "evaluate_count_and_buffer show_json stdout vectors expected_echo =
     (let (counts, offset) = read_counts stdout (length vectors) 0;
          cases = echo_cases show_json expected_echo stdout (zip vectors counts) offset in
      \<lparr>hr_cases = cases, hr_all_passed = list_all vr_passed cases\<rparr>)"

definition evaluate :: "(json \<Rightarrow> string) \<Rightarrow> 8 word list \<Rightarrow> test_vector list \<Rightarrow> harness_shape \<Rightarrow> harness_report" where
  "evaluate show_json stdout vectors shape =
     (case shape of
        HsReplaceByte \<Rightarrow> evaluate_count_and_buffer show_json stdout vectors expected_replace_byte_echo
      | HsMemset \<Rightarrow> evaluate_count_and_buffer show_json stdout vectors expected_memset_echo
      | HsMemcpy \<Rightarrow> evaluate_count_and_buffer show_json stdout vectors expected_memcpy_echo
      | _ \<Rightarrow> evaluate_words_only show_json stdout vectors)"

section \<open>When a run passes\<close>

definition result_words :: "test_vector list \<Rightarrow> 8 word list" where
  "result_words vs = concat (map (\<lambda>v. le_bytes (expected_bits (tv_expected v))) vs)"

lemma length_result_words [simp]: "length (result_words vs) = 8 * length vs"
  by (induction vs) (simp_all add: result_words_def)

lemma word_at_expected:
  "word_at stdout k = Some w \<longleftrightarrow> (\<exists>rest. drop k stdout = le_bytes w @ rest)"
proof
  assume "word_at stdout k = Some w"
  then have "k + 8 \<le> length stdout" "le_word (take 8 (drop k stdout)) = w" by (auto simp: word_at_def split: if_splits)
  then have "take 8 (drop k stdout) = le_bytes w" by (subst (asm) le_word_bytes) auto
  then show "\<exists>rest. drop k stdout = le_bytes w @ rest" by (metis append_take_drop_id)
next
  assume "\<exists>rest. drop k stdout = le_bytes w @ rest"
  then obtain rest where r: "drop k stdout = le_bytes w @ rest" ..
  then have "length (drop k stdout) = 8 + length rest" by simp
  then have "k + 8 \<le> length stdout" by simp
  moreover have "le_word (take 8 (drop k stdout)) = w" using r le_word_bytes [of "le_bytes w" w] by simp
  ultimately show "word_at stdout k = Some w" by (simp add: word_at_def)
qed

lemma result_words_step:
  "(\<exists>rest. drop k stdout = result_words (v # vs) @ rest) \<longleftrightarrow>
     word_at stdout k = Some (expected_bits (tv_expected v)) \<and> (\<exists>rest. drop (k + 8) stdout = result_words vs @ rest)"
proof
  assume "\<exists>rest. drop k stdout = result_words (v # vs) @ rest"
  then obtain rest where r: "drop k stdout = le_bytes (expected_bits (tv_expected v)) @ result_words vs @ rest"
    by (auto simp: result_words_def)
  then have "drop (k + 8) stdout = result_words vs @ rest"
    by (metis append_eq_conv_conj drop_drop length_le_bytes add.commute)
  then show "word_at stdout k = Some (expected_bits (tv_expected v)) \<and> (\<exists>rest. drop (k + 8) stdout = result_words vs @ rest)"
    using r by (auto simp: word_at_expected)
next
  assume "word_at stdout k = Some (expected_bits (tv_expected v)) \<and> (\<exists>rest. drop (k + 8) stdout = result_words vs @ rest)"
  then obtain r1 rest where "drop k stdout = le_bytes (expected_bits (tv_expected v)) @ r1" "drop (k + 8) stdout = result_words vs @ rest"
    by (auto simp: word_at_expected)
  moreover from this have "r1 = drop (k + 8) stdout"
    by (metis append_eq_conv_conj drop_drop length_le_bytes add.commute)
  ultimately show "\<exists>rest. drop k stdout = result_words (v # vs) @ rest" by (simp add: result_words_def)
qed

lemma words_expected:
  "list_all (\<lambda>(v, i). word_at stdout (k + i * 8) = Some (expected_bits (tv_expected v))) (zip vs [0..<length vs]) \<longleftrightarrow>
     (\<exists>rest. drop k stdout = result_words vs @ rest)"
proof (induction vs arbitrary: k)
  case (Cons v vs)
  have z: "zip (v # vs) [0..<length (v # vs)] = (v, 0) # map (\<lambda>(v, i). (v, Suc i)) (zip vs [0..<length vs])"
    by (simp add: upt_conv_Cons map_Suc_upt [symmetric] zip_map2 del: upt_Suc)
  show ?case using Cons.IH [of "k + 8"] unfolding z result_words_step
    by (simp add: list.pred_map comp_def case_prod_unfold add.assoc)
qed (simp add: result_words_def)

lemma word_result_passed: "vr_passed (word_result show_json v got) \<longleftrightarrow> got = Some (expected_bits (tv_expected v))"
  by (cases got) (simp_all add: word_result_def Let_def)

lemma words_passed: "hr_all_passed (evaluate_words_only show_json stdout vs) \<longleftrightarrow> (\<exists>rest. stdout = result_words vs @ rest)"
  using words_expected [of stdout 0 vs]
  by (simp add: evaluate_words_only_def Let_def zip_map2 list.pred_map comp_def case_prod_unfold word_result_passed)

lemma read_counts_passed:
  "list_all2 (\<lambda>v c. c = Some (expected_bits (tv_expected v))) vs (fst (read_counts stdout (length vs) k)) \<longleftrightarrow>
     (\<exists>rest. drop k stdout = result_words vs @ rest)"
proof (induction vs arbitrary: k)
  case (Cons v vs)
  show ?case using Cons.IH [of "k + 8"] unfolding result_words_step
    by (cases "word_at stdout k") (simp_all add: case_prod_unfold Let_def)
qed (simp add: result_words_def)

lemma read_counts_offset:
  "(\<exists>rest. drop k stdout = result_words vs @ rest) \<Longrightarrow> snd (read_counts stdout (length vs) k) = k + 8 * length vs"
proof (induction vs arbitrary: k)
  case (Cons v vs)
  show ?case using Cons.prems Cons.IH [of "k + 8"] unfolding result_words_step
    by (simp add: case_prod_unfold Let_def)
qed simp

locale echo_shape =
  fixes echo :: "test_vector \<Rightarrow> 8 word list"
  assumes echo_nonempty: "echo v \<noteq> []"
begin

lemma echo_result_cases:
  "vr_passed (fst (echo_result show_json v (echo v) c stdout k)) \<longleftrightarrow>
     c = Some (expected_bits (tv_expected v)) \<and> (\<exists>rest. drop k stdout = echo v @ rest)"
  "drop k stdout = echo v @ rest \<Longrightarrow> snd (echo_result show_json v (echo v) c stdout k) = k + length (echo v)"
proof -
  have "k + length (echo v) \<le> length stdout \<and> take (length (echo v)) (drop k stdout) = echo v" if "drop k stdout = echo v @ rest" for rest
  proof -
    have "length (drop k stdout) = length (echo v) + length rest" using that by simp
    moreover have "length (echo v) \<noteq> 0" using echo_nonempty by simp
    ultimately have "k + length (echo v) \<le> length stdout" by (simp only: length_drop)
    with that show ?thesis by simp
  qed
  moreover have "\<exists>rest. drop k stdout = echo v @ rest" if "take (length (echo v)) (drop k stdout) = echo v"
    using that append_take_drop_id by metis
  ultimately show "vr_passed (fst (echo_result show_json v (echo v) c stdout k)) \<longleftrightarrow>
      c = Some (expected_bits (tv_expected v)) \<and> (\<exists>rest. drop k stdout = echo v @ rest)"
    and "drop k stdout = echo v @ rest \<Longrightarrow> snd (echo_result show_json v (echo v) c stdout k) = k + length (echo v)"
    using echo_nonempty [of v] by (cases c; auto simp: echo_result_def Let_def)+
qed

lemma echo_cases_passed:
  "length vs = length cs \<Longrightarrow> list_all vr_passed (echo_cases show_json echo stdout (zip vs cs) k) \<longleftrightarrow>
     list_all2 (\<lambda>v c. c = Some (expected_bits (tv_expected v))) vs cs \<and> (\<exists>rest. drop k stdout = concat (map echo vs) @ rest)"
proof (induction vs cs arbitrary: k rule: list_induct2)
  case (Cons v vs c cs)
  show ?case
  proof (cases "\<exists>rest. drop k stdout = echo v @ rest")
    case True
    then obtain rest where r: "drop k stdout = echo v @ rest" ..
    then have "drop (k + length (echo v)) stdout = rest" by (metis append_eq_conv_conj drop_drop add.commute)
    then show ?thesis using Cons.IH [of "k + length (echo v)"] r echo_result_cases(2) [OF r, of show_json c]
      by (auto simp: case_prod_unfold Let_def echo_result_cases(1))
  next
    case False
    then show ?thesis by (auto simp: case_prod_unfold Let_def echo_result_cases(1))
  qed
qed simp

lemma count_and_buffer_passed:
  "hr_all_passed (evaluate_count_and_buffer show_json stdout vs echo) \<longleftrightarrow>
     (\<exists>rest. stdout = result_words vs @ concat (map echo vs) @ rest)"
proof -
  let ?rc = "read_counts stdout (length vs) 0"
  have len: "length (fst (read_counts stdout n k)) = n" for n k
    by (induction n arbitrary: k) (auto simp: case_prod_unfold Let_def split: option.split)
  have "hr_all_passed (evaluate_count_and_buffer show_json stdout vs echo) \<longleftrightarrow>
      list_all2 (\<lambda>v c. c = Some (expected_bits (tv_expected v))) vs (fst ?rc) \<and>
      (\<exists>rest. drop (snd ?rc) stdout = concat (map echo vs) @ rest)"
    using echo_cases_passed [of vs "fst ?rc" show_json stdout "snd ?rc"] len [of "length vs" 0]
    by (simp add: evaluate_count_and_buffer_def case_prod_unfold Let_def)
  also have "\<dots> \<longleftrightarrow> (\<exists>rest. stdout = result_words vs @ rest) \<and> (\<exists>rest. drop (8 * length vs) stdout = concat (map echo vs) @ rest)"
    using read_counts_passed [of vs stdout 0] read_counts_offset [of 0 stdout vs] by auto
  also have "\<dots> \<longleftrightarrow> (\<exists>rest. stdout = result_words vs @ concat (map echo vs) @ rest)"
    by auto
  finally show ?thesis .
qed

end

interpretation replace_echo: echo_shape expected_replace_byte_echo
  by unfold_locales (simp add: expected_replace_byte_echo_def guarded_region_def)

interpretation memset_echo: echo_shape expected_memset_echo
  by unfold_locales (simp add: expected_memset_echo_def guarded_region_def)

interpretation memcpy_echo: echo_shape expected_memcpy_echo
  by unfold_locales (simp add: expected_memcpy_echo_def guarded_region_def Let_def)

definition expected_output :: "harness_shape \<Rightarrow> test_vector list \<Rightarrow> 8 word list" where
  "expected_output shape vs = result_words vs @
     (case shape of
        HsReplaceByte \<Rightarrow> concat (map (\<lambda>v. guarded_region (expected_replace_byte_buffer v)) vs)
      | HsMemset \<Rightarrow> concat (map (\<lambda>v. guarded_region (expected_memset_buffer v)) vs)
      | HsMemcpy \<Rightarrow> concat (map (\<lambda>v. guarded_region (expected_memcpy_buffer v) @
          guarded_region (map (\<lambda>x. byte_of (min 255 (or_zero (as_u64 x)))) (vector_items v 1))) vs)
      | _ \<Rightarrow> [])"

lemma parse_show_nat:
  assumes "int n \<le> bound"
  shows "parse_unsigned 10 bound (show_nat n) = Some n"
proof -
  have digits: "list_all is_ascii_digit (show_nat n)" using show_nat_digits by (simp add: list_all_iff)
  have "foldl (\<lambda>a c. 10 * a + hex_value c) 0 (show_nat n) = foldl (\<lambda>a c. a * 10 + digit_value c) 0 (show_nat n)"
    using digits by (intro foldl_cong) (auto simp: list_all_iff hex_value_def digit_value_def Let_def)
  then have "foldl (\<lambda>a c. 10 * a + hex_value c) 0 (show_nat n) = n"
    using nat_of_digits_show_nat [of n] by (simp add: nat_of_digits_def)
  moreover have "strip_prefix ''+'' (show_nat n) = None"
    using digits by (cases "show_nat n") (auto simp: strip_prefix_def is_ascii_digit_def)
  ultimately show ?thesis using digits assms by (simp add: parse_unsigned_def unsigned_of_def)
qed

lemma clamped_byte_parses:
  "0 \<le> n \<Longrightarrow> n \<le> 255 \<Longrightarrow> parse_unsigned 10 255 (show_int n) = Some (nat n)"
  by (simp add: show_int_def parse_show_nat)

lemma or_zero_nonneg: "0 \<le> or_zero (as_u64 x)"
  by (cases x) (simp_all add: or_zero_def)

lemma memcpy_echo_eq:
  "expected_memcpy_echo v = guarded_region (expected_memcpy_buffer v) @
     guarded_region (map (\<lambda>x. byte_of (min 255 (or_zero (as_u64 x)))) (vector_items v 1))"
  by (simp add: expected_memcpy_echo_def vector_memcmp_buffer_bytes_def clamped_byte_parses or_zero_nonneg byte_of_def comp_def)

lemma evaluate_passed:
  "hr_all_passed (evaluate show_json stdout vs shape) \<longleftrightarrow> (\<exists>rest. stdout = expected_output shape vs @ rest)"
  by (cases shape)
    (simp_all add: evaluate_def expected_output_def words_passed replace_echo.count_and_buffer_passed
      memset_echo.count_and_buffer_passed memcpy_echo.count_and_buffer_passed memcpy_echo_eq
      expected_replace_byte_echo_def expected_memset_echo_def cong: map_cong)

text \<open>C18: A run passes exactly when its output begins with what the vectors predict: the little-endian words
  of the expected results, and for the three writing shapes the guarded buffers that follow, in vector
  order. Output after that is not looked at; a short or different output fails.\<close>

theorem evaluate_passed_exact:
  "hr_all_passed (evaluate show_json stdout vs shape) \<longleftrightarrow> (\<exists>rest. stdout = expected_output shape vs @ rest)"
  by (rule evaluate_passed)

text \<open>A missing final word or an overrun guard fails the run; bytes after the expected output do not.\<close>

lemma trailing_output_ignored:
  "hr_all_passed (evaluate show_json (expected_output shape vs @ extra) vs shape)"
  by (auto simp: evaluate_passed)

lemma no_vectors_pass: "hr_all_passed (evaluate show_json stdout [] shape)"
  by (cases shape) (simp_all add: evaluate_passed expected_output_def result_words_def)

end
