(* ===== verification/Target_Kit.thy ===== *)
theory Target_Kit imports Target Win64_Abi A64_Abi Rv_Abi begin

text \<open>
  What a target tells its users: register assignments (\<open>semasm-target/src/abi.rs\<close>), authoring profiles
  (\<open>authoring_profile.rs\<close>) and the tool chain probe (\<open>tools.rs\<close>). The host and the outcome of running
  \<open><tool> --version\<close> are parameters.
\<close>

section \<open>Register maps\<close>

record abi_register_map =
  am_parameter_registers :: "string list"
  am_return_register :: string
  am_preserved_registers :: "string list"
  am_volatile_registers :: "string list"

definition param_register :: "abi_register_map \<Rightarrow> nat \<Rightarrow> string option" where
  "param_register m index =
     (if index < length (am_parameter_registers m) then Some (am_parameter_registers m ! index) else None)"

definition sysv_amd64 :: abi_register_map where
  "sysv_amd64 = \<lparr>am_parameter_registers = [''rdi'', ''rsi'', ''rdx'', ''rcx'', ''r8'', ''r9''], am_return_register = ''rax'',
     am_preserved_registers = [''rbx'', ''rbp'', ''r12'', ''r13'', ''r14'', ''r15''],
     am_volatile_registers = [''rax'', ''rcx'', ''rdx'', ''rsi'', ''rdi'', ''r8'', ''r9'', ''r10'', ''r11'']\<rparr>"

definition win64 :: abi_register_map where
  "win64 = \<lparr>am_parameter_registers = [''rcx'', ''rdx'', ''r8'', ''r9''], am_return_register = ''rax'',
     am_preserved_registers = [''rbx'', ''rbp'', ''rdi'', ''rsi'', ''r12'', ''r13'', ''r14'', ''r15''],
     am_volatile_registers = [''rax'', ''rcx'', ''rdx'', ''r8'', ''r9'', ''r10'', ''r11'']\<rparr>"

text \<open>\<open>(a..b).map(|i| format!("{prefix}{i}"))\<close>.\<close>

definition numbered :: "string \<Rightarrow> nat \<Rightarrow> nat \<Rightarrow> string list" where
  "numbered prefix a b = map (\<lambda>i. prefix @ show_nat i) [a..<b]"

definition aapcs64 :: abi_register_map where
  "aapcs64 = \<lparr>am_parameter_registers = numbered ''x'' 0 8, am_return_register = ''x0'',
     am_preserved_registers = numbered ''x'' 19 29, am_volatile_registers = numbered ''x'' 0 18\<rparr>"

definition riscv_lp64 :: abi_register_map where
  "riscv_lp64 = \<lparr>am_parameter_registers = numbered ''a'' 0 8, am_return_register = ''a0'',
     am_preserved_registers = [''sp'', ''s0'', ''s1''] @ numbered ''s'' 2 12,
     am_volatile_registers = [''ra''] @ numbered ''t'' 0 7 @ numbered ''a'' 0 8\<rparr>"

fun abi_map_of :: "abi \<Rightarrow> abi_register_map option" where
  "abi_map_of SysVAmd64 = Some sysv_amd64"
| "abi_map_of WindowsX64 = Some win64"
| "abi_map_of Aapcs64 = Some aapcs64"
| "abi_map_of Riscv = Some riscv_lp64"

section \<open>Authoring profiles\<close>

record symbol_rules =
  sr_export_directive :: string
  sr_text_section :: string
  sr_leading_underscore :: bool
  sr_source_extension :: string

record authoring_abi =
  au_registers :: abi_register_map
  au_stack_alignment :: nat
  au_shadow_space_bytes :: nat
  au_red_zone_bytes :: nat

record authoring_profile =
  ap_profile_id :: string
  ap_target :: string
  ap_syntax :: string
  ap_dialect :: string
  ap_file_template :: string
  ap_symbol_rules :: symbol_rules
  ap_abi :: authoring_abi
  ap_modeled_addressing :: "string list"
  ap_supported_loop_idioms :: "string list"
  ap_known_incomplete_patterns :: "string list"
  ap_object_format :: string

abbreviation nl :: string where "nl \<equiv> [CHR 0x0A]"

definition symbol_rules_for :: "target_identity \<Rightarrow> symbol_rules" where
  "symbol_rules_for identity =
     (if tdialect identity = NasmIntel
      then \<lparr>sr_export_directive = ''global'', sr_text_section = ''section .text'', sr_leading_underscore = False,
            sr_source_extension = ''.asm''\<rparr>
      else \<lparr>sr_export_directive = ''.global'', sr_text_section = ''.text'', sr_leading_underscore = False,
            sr_source_extension = ''.S''\<rparr>)"

definition em_dash :: string where
  "em_dash = [CHR 0xE2, CHR 0x80, CHR 0x94]"

definition template_tail :: "symbol_rules \<Rightarrow> string \<Rightarrow> string \<Rightarrow> string" where
  "template_tail rules blank comment =
     sr_export_directive rules @ '' {routine}'' @ nl @ blank @ sr_text_section rules @ nl @ ''{routine}:'' @ nl @
     [CHR 0x09] @ comment @ '' TODO: implement'' @ nl @ [CHR 0x09] @ ''ret'' @ nl"

definition file_template_for :: "target_identity \<Rightarrow> symbol_rules \<Rightarrow> string" where
  "file_template_for identity rules =
     (if tdialect identity = NasmIntel
      then ''; {routine} '' @ em_dash @ '' agent candidate skeleton'' @ nl @ ''BITS 64'' @ nl @ ''DEFAULT REL'' @ nl @ nl @
           template_tail rules nl '';''
      else case tisa identity of
        AArch64 \<Rightarrow> ''// {routine} '' @ em_dash @ '' agent candidate skeleton (AArch64)'' @ nl @ template_tail rules [] ''//''
      | X86_64 \<Rightarrow> ''// {routine} '' @ em_dash @ '' agent candidate skeleton'' @ nl @ template_tail rules [] ''//''
      | _ \<Rightarrow> ''// {routine} '' @ em_dash @ '' agent candidate skeleton (RISC-V)'' @ nl @
             ''// Note: VAA agent-verify remains fail-closed for RV until a dedicated gate exists.'' @ nl @
             template_tail rules [] ''//'')"

definition modeled_addressing_for :: "isa \<Rightarrow> string list" where
  "modeled_addressing_for i =
     (case i of
        X86_64 \<Rightarrow> [''base+disp'', ''base+index*scale+disp'', ''rip-relative'', ''rsp/rbp frame locals'']
      | AArch64 \<Rightarrow> [''base+imm'', ''base+index'', ''pre/post-index'', ''pc-relative adr/adrp'']
      | _ \<Rightarrow> [''base+imm12'', ''auipc+offset'', ''sp-relative frame locals''])"

definition supported_loop_idioms :: "string list" where
  "supported_loop_idioms = [''count-up induction with constant stride'', ''countdown (dec) induction with exclusive bound'',
     ''affine index patterns on single buffer leaves'']"

definition known_incomplete_patterns_for :: "target_identity \<Rightarrow> string list" where
  "known_incomplete_patterns_for identity =
     [''arbitrary control-flow invariants'', ''general alias analysis / formal memory safety'',
      ''full-ISA decode completeness certificate''] @
     (case tisa identity of
        X86_64 \<Rightarrow> [''AVX/SSE vectorized buffer loops'', ''indirect call/jump CFI proofs'',
          if tformat identity = PeCoff then ''Win64 varargs / floating-point home spills beyond integer ABI''
          else ''SysV red-zone use in non-leaf functions'']
      | AArch64 \<Rightarrow> [''AArch64 write-shape region-precise store proof'', ''NEON / SVE buffer idioms'',
          ''PAC/BTI control-flow integrity'']
      | _ \<Rightarrow> [''RISC-V agent-verify sealed acceptance (fail-closed at VAA until dedicated gate)'',
          ''compressed (C) extension completeness'', ''vector extension buffer idioms''])"

definition for_target :: "string \<Rightarrow> error + authoring_profile" where
  "for_target target_id =
     (case parse_known target_id of
        Inl e \<Rightarrow> Inl e
      | Inr identity \<Rightarrow>
          (case abi_map_of (tabi identity) of
             None \<Rightarrow> Inl (NotFound (''no ABI register map registered for target `'' @ tname identity @ ''`''))
           | Some registers \<Rightarrow>
               (let (stack_alignment, shadow_space_bytes, red_zone) = (case tabi identity of
                    WindowsX64 \<Rightarrow> (16, 32, 0) | SysVAmd64 \<Rightarrow> (16, 0, 128) | _ \<Rightarrow> (16, 0, 0));
                  d = dialect_to_string (tdialect identity); rules = symbol_rules_for identity in
                Inr \<lparr>ap_profile_id = tname identity @ ''@'' @ d, ap_target = tname identity, ap_syntax = d, ap_dialect = d,
                     ap_file_template = file_template_for identity rules, ap_symbol_rules = rules,
                     ap_abi = \<lparr>au_registers = registers, au_stack_alignment = stack_alignment,
                       au_shadow_space_bytes = shadow_space_bytes, au_red_zone_bytes = red_zone\<rparr>,
                     ap_modeled_addressing = modeled_addressing_for (tisa identity),
                     ap_supported_loop_idioms = supported_loop_idioms,
                     ap_known_incomplete_patterns = known_incomplete_patterns_for identity,
                     ap_object_format = object_format_to_string (tformat identity)\<rparr>)))"

section \<open>Tools\<close>

datatype tool_kind =
    Nasm | GnuAs string | Lld | LldLink | LdBfd | GnuLd string | LlvmObjdump | Objdump | Qemu string
  | NativeHostTool | NativeLinux

fun tool_label :: "tool_kind \<Rightarrow> string" where
  "tool_label Nasm = ''nasm''"
| "tool_label (GnuAs name) = name"
| "tool_label (GnuLd name) = name"
| "tool_label Lld = ''ld.lld''"
| "tool_label LldLink = ''lld-link''"
| "tool_label LdBfd = ''ld.bfd''"
| "tool_label LlvmObjdump = ''llvm-objdump''"
| "tool_label Objdump = ''objdump''"
| "tool_label (Qemu cpu) = cpu"
| "tool_label NativeHostTool = ''native''"
| "tool_label NativeLinux = ''native-linux''"

definition tool_binary :: "tool_kind \<Rightarrow> string" where
  "tool_binary k = (if k = NativeHostTool \<or> k = NativeLinux then [] else tool_label k)"

fun tool_category :: "tool_kind \<Rightarrow> string" where
  "tool_category Nasm = ''assembler''"
| "tool_category (GnuAs _) = ''assembler''"
| "tool_category Lld = ''linker''"
| "tool_category LldLink = ''linker''"
| "tool_category LdBfd = ''linker''"
| "tool_category (GnuLd _) = ''linker''"
| "tool_category LlvmObjdump = ''disassembler''"
| "tool_category Objdump = ''disassembler''"
| "tool_category (Qemu _) = ''runner''"
| "tool_category NativeHostTool = ''runner''"
| "tool_category NativeLinux = ''runner''"

text \<open>Running a tool with \<open>--version\<close>: it could not be started, it failed, or it printed to the two streams.\<close>

datatype version_run = SpawnFailed string | ExitFailed string | Printed string string

record host =
  h_windows :: bool
  h_linux :: bool
  h_run :: "string \<Rightarrow> version_run"

record tool_probe =
  tp_kind :: tool_kind
  tp_found :: bool
  tp_version :: "string option"
  tp_detail :: "string option"

text \<open>\<open>lines().next()\<close>.\<close>

definition first_line :: "string \<Rightarrow> string option" where
  "first_line s =
     (if s = [] then None
      else let l = hd (split_char (CHR 0x0A) s) in Some (if CHR 0x0A \<in> set s \<and> l \<noteq> [] \<and> last l = CHR 0x0D then butlast l else l))"

definition probe_tool :: "host \<Rightarrow> tool_kind \<Rightarrow> tool_probe" where
  "probe_tool h kind =
     (if kind = NativeHostTool
      then \<lparr>tp_kind = kind, tp_found = h_windows h,
            tp_version = Some (if h_windows h then ''host (native)'' else ''host is not Windows''), tp_detail = None\<rparr>
      else if kind = NativeLinux
      then \<lparr>tp_kind = kind, tp_found = h_linux h,
            tp_version = Some (if h_linux h then ''host (native-linux)'' else ''host is not Linux''), tp_detail = None\<rparr>
      else case h_run h (tool_binary kind) of
        Printed out err \<Rightarrow>
          \<lparr>tp_kind = kind, tp_found = True,
           tp_version = (case first_line out of Some l \<Rightarrow> Some (trim l) | None \<Rightarrow> map_option trim (first_line err)), tp_detail = None\<rparr>
      | ExitFailed status \<Rightarrow> \<lparr>tp_kind = kind, tp_found = False, tp_version = None, tp_detail = Some (''exit code '' @ status)\<rparr>
      | SpawnFailed e \<Rightarrow> \<lparr>tp_kind = kind, tp_found = False, tp_version = None, tp_detail = Some e\<rparr>)"

record tool_slot =
  sl_role :: string
  sl_candidates :: "tool_kind list"
  sl_resolved :: "nat option"
  sl_probes :: "tool_probe list"

definition slot_step :: "host \<Rightarrow> nat \<times> tool_kind \<Rightarrow> nat option \<times> tool_probe list \<Rightarrow> nat option \<times> tool_probe list" where
  "slot_step h ik acc =
     (let (i, kind) = ik; (resolved, probes) = acc; p = probe_tool h kind in
      (if tp_found p \<and> resolved = None then Some i else resolved, probes @ [p]))"

definition probe_slot :: "host \<Rightarrow> string \<Rightarrow> tool_kind list \<Rightarrow> tool_slot" where
  "probe_slot h role candidates =
     (let (resolved, probes) = fold (slot_step h) (List.enumerate 0 candidates) (None, []) in
      \<lparr>sl_role = role, sl_candidates = candidates, sl_resolved = resolved, sl_probes = probes\<rparr>)"

definition effective :: "tool_slot \<Rightarrow> tool_probe option" where
  "effective s = map_option (\<lambda>i. sl_probes s ! i) (sl_resolved s)"

record doctor_report =
  dr_target :: string
  dr_slots :: "tool_slot list"

definition all_found :: "doctor_report \<Rightarrow> bool" where
  "all_found r \<longleftrightarrow> list_all (\<lambda>s. sl_resolved s \<noteq> None) (dr_slots r)"

definition found_count :: "doctor_report \<Rightarrow> nat" where
  "found_count r = length (filter (\<lambda>s. sl_resolved s \<noteq> None) (dr_slots r))"

definition total_count :: "doctor_report \<Rightarrow> nat" where
  "total_count r = length (dr_slots r)"

definition required_tools :: "host \<Rightarrow> target_identity \<Rightarrow> tool_slot list" where
  "required_tools h target =
     (let disassembler = probe_slot h ''disassembler'' [LlvmObjdump, Objdump] in
      if (tisa target, tabi target, tformat target) = (X86_64, SysVAmd64, Elf) then
        [probe_slot h ''assembler'' [Nasm], probe_slot h ''linker'' [Lld, LdBfd], disassembler,
         probe_slot h ''runner'' [Qemu ''qemu-x86_64'', NativeLinux]]
      else if (tisa target, tabi target, tformat target) = (X86_64, WindowsX64, PeCoff) then
        [probe_slot h ''assembler'' [Nasm], probe_slot h ''linker'' [LldLink, Lld], disassembler,
         probe_slot h ''runner'' [NativeHostTool]]
      else if (tisa target, tabi target, tformat target) = (AArch64, Aapcs64, Elf) then
        [probe_slot h ''assembler'' [GnuAs ''aarch64-linux-gnu-as''],
         probe_slot h ''linker'' [GnuLd ''aarch64-linux-gnu-ld'', Lld], disassembler,
         probe_slot h ''runner'' [Qemu ''qemu-aarch64'']]
      else if (tisa target, tabi target, tformat target) = (Riscv64, Riscv, Elf) then
        [probe_slot h ''assembler'' [GnuAs ''riscv64-linux-gnu-as''],
         probe_slot h ''linker'' [GnuLd ''riscv64-linux-gnu-ld'', Lld], disassembler,
         probe_slot h ''runner'' [Qemu ''qemu-riscv64'']]
      else [])"

definition doctor :: "host \<Rightarrow> target_identity \<Rightarrow> doctor_report" where
  "doctor h target = \<lparr>dr_target = tname target, dr_slots = required_tools h target\<rparr>"

section \<open>The first candidate found\<close>

definition first_found :: "host \<Rightarrow> tool_kind list \<Rightarrow> nat option \<Rightarrow> bool" where
  "first_found h ks r \<longleftrightarrow> (case r of
     None \<Rightarrow> \<forall>k \<in> set ks. \<not> tp_found (probe_tool h k)
   | Some i \<Rightarrow> i < length ks \<and> tp_found (probe_tool h (ks ! i)) \<and> (\<forall>j < i. \<not> tp_found (probe_tool h (ks ! j))))"

lemma first_found_snoc:
  "first_found h ks r \<Longrightarrow>
   first_found h (ks @ [k]) (if tp_found (probe_tool h k) \<and> r = None then Some (length ks) else r)"
  by (cases r) (auto simp: first_found_def nth_append)

lemma probes_fold:
  "\<exists>r. fold (slot_step h) (List.enumerate 0 ks) (None, []) = (r, map (probe_tool h) ks) \<and> first_found h ks r"
proof (induction ks rule: rev_induct)
  case (snoc k ks)
  then show ?case
    using first_found_snoc by (fastforce simp: enumerate_append_eq slot_step_def Let_def)
qed (simp add: first_found_def)

text \<open>Every candidate of a slot is probed, and the tool used is the first one found: nothing is used exactly when
  no candidate was found. A report is complete exactly when every role is resolved.\<close>

theorem tool_slot_exact:
  "map tp_kind (sl_probes (probe_slot h role ks)) = ks \<and> first_found h ks (sl_resolved (probe_slot h role ks)) \<and>
   effective (probe_slot h role ks) = map_option (\<lambda>i. probe_tool h (ks ! i)) (sl_resolved (probe_slot h role ks))"
proof -
  obtain r where r: "fold (slot_step h) (List.enumerate 0 ks) (None, []) = (r, map (probe_tool h) ks)" "first_found h ks r"
    using probes_fold by blast
  have "map (\<lambda>k. tp_kind (probe_tool h k)) ks = ks"
    by (rule map_idI) (simp add: probe_tool_def split: version_run.split)
  then show ?thesis
    using r by (cases r) (simp_all add: probe_slot_def effective_def comp_def first_found_def)
qed

lemma filter_full: "length (filter P xs) = length xs \<longleftrightarrow> list_all P xs"
proof (induction xs)
  case (Cons x xs)
  moreover have "length (filter P xs) \<noteq> Suc (length xs)" by (metis Suc_n_not_le_n length_filter_le)
  ultimately show ?case by auto
qed simp

lemma found_all: "found_count r \<le> total_count r" "found_count r = total_count r \<longleftrightarrow> all_found r"
  by (simp_all add: found_count_def total_count_def all_found_def filter_full)

section \<open>Register maps and the ABI analyses\<close>

text \<open>The register maps name the registers the ABI analyses use: parameters and results are the same in the same
  order, and the preserved registers are the ones the analyses check, but for the stack pointer on System V
  and for the frame pointer and the link register on AArch64.\<close>

theorem abi_maps_agree:
  "map parse_reg (am_parameter_registers sysv_amd64) = map (\<lambda>g. Some (full g)) arg_regs \<and>
   map parse_reg (am_preserved_registers sysv_amd64) = map (\<lambda>g. Some (full g)) (removeAll Rsp nonvolatile_gp) \<and>
   parse_reg (am_return_register sysv_amd64) = Some return_register \<and>
   map parse_reg (am_parameter_registers win64) = map (\<lambda>g. Some (full g)) win_arg_regs \<and>
   map parse_reg (am_preserved_registers win64) = map (\<lambda>g. Some (full g)) nonvolatile_win64 \<and>
   parse_reg (am_return_register win64) = Some win_return_register \<and>
   map (\<lambda>n. a64_parse_register n AB64) (am_parameter_registers aapcs64) = map (\<lambda>g. Some (a64_full g)) a64_arg_regs \<and>
   map (\<lambda>n. a64_parse_register n AB64) (am_preserved_registers aapcs64) =
     map (\<lambda>g. Some (a64_full g)) (removeAll AFp (removeAll ALr a64_nonvolatile_gp)) \<and>
   a64_parse_register (am_return_register aapcs64) AB64 = Some a64_return_register \<and>
   am_parameter_registers riscv_lp64 = map abi_name rv_arg_regs \<and>
   am_preserved_registers riscv_lp64 = map abi_name rv_nonvolatile \<and>
   rv_return_register = rv_full A0 \<and> am_return_register riscv_lp64 = abi_name A0"
  by (intro conjI; code_simp)

end
