(* ===== verification/Capability.thy ===== *)
theory Capability imports Core_Diag Harness_Shapes begin

text \<open>
  The capability registry: \<open>semasm-target/src/capability.rs\<close>. A manifest lists the workspace crates, the
  maturity of every pipeline stage per target with its evidence, and the admitted contract shapes;
  \<open>validate\<close> decides whether it may be published. TOML and JSON text and SHA-256 are parameters.
\<close>

section \<open>Maturity levels\<close>

datatype capability_level =
  Unavailable | Declared | Experimental | Partial | VerifiedInUnitTests | VerifiedInCi | ReleaseQualified

text \<open>\<open>derive(PartialOrd, Ord)\<close>: the order of declaration.\<close>

fun level_rank :: "capability_level \<Rightarrow> nat" where
  "level_rank Unavailable = 0"
| "level_rank Declared = 1"
| "level_rank Experimental = 2"
| "level_rank Partial = 3"
| "level_rank VerifiedInUnitTests = 4"
| "level_rank VerifiedInCi = 5"
| "level_rank ReleaseQualified = 6"

instantiation capability_level :: linorder
begin

definition less_eq_capability_level :: "capability_level \<Rightarrow> capability_level \<Rightarrow> bool" where
  "less_eq_capability_level a b \<longleftrightarrow> level_rank a \<le> level_rank b"

definition less_capability_level :: "capability_level \<Rightarrow> capability_level \<Rightarrow> bool" where
  "less_capability_level a b \<longleftrightarrow> level_rank a < level_rank b"

instance
proof
  fix a b :: capability_level
  show "a \<le> b \<Longrightarrow> b \<le> a \<Longrightarrow> a = b"
    by (cases a; cases b) (simp_all add: less_eq_capability_level_def)
qed (auto simp: less_eq_capability_level_def less_capability_level_def)

end

fun capability_level_as_str :: "capability_level \<Rightarrow> string" where
  "capability_level_as_str Unavailable = ''unavailable''"
| "capability_level_as_str Declared = ''declared''"
| "capability_level_as_str Experimental = ''experimental''"
| "capability_level_as_str Partial = ''partial''"
| "capability_level_as_str VerifiedInUnitTests = ''unit-tested''"
| "capability_level_as_str VerifiedInCi = ''CI-verified''"
| "capability_level_as_str ReleaseQualified = ''release-qualified''"

record target_capabilities =
  tc_declared :: capability_level
  tc_decode :: capability_level
  tc_lower :: capability_level
  tc_abi_analysis :: capability_level
  tc_assemble :: capability_level
  tc_link :: capability_level
  tc_execute :: capability_level
  tc_verify :: capability_level
  tc_pipeline_verify :: "capability_level option"
  tc_agent_verify :: "capability_level option"

definition pipeline_verify_level :: "target_capabilities \<Rightarrow> capability_level" where
  "pipeline_verify_level c = (case tc_pipeline_verify c of Some l \<Rightarrow> l | None \<Rightarrow> tc_verify c)"

definition agent_verify_level :: "target_capabilities \<Rightarrow> capability_level" where
  "agent_verify_level c = (case tc_agent_verify c of Some l \<Rightarrow> l | None \<Rightarrow> Experimental)"

record capability_evidence =
  ce_unit_tests :: "string list"
  ce_fixtures :: "string list"
  ce_ci_jobs :: "string list"

record target_capability =
  ct_id :: string
  ct_description :: string
  ct_capabilities :: target_capabilities
  ct_evidence :: capability_evidence

datatype authoring_level = FullAuthoring | AssembleOnly | NoAuthoring

fun authoring_level_as_str :: "authoring_level \<Rightarrow> string" where
  "authoring_level_as_str FullAuthoring = ''full''"
| "authoring_level_as_str AssembleOnly = ''assemble_only''"
| "authoring_level_as_str NoAuthoring = ''none''"

datatype acceptance_level = AccVerified | AccVerifiedUnderPreconditions | AccAnalyzed | AccAuthoringOnly | AccNone

fun acceptance_level_as_str :: "acceptance_level \<Rightarrow> string" where
  "acceptance_level_as_str AccVerified = ''verified''"
| "acceptance_level_as_str AccVerifiedUnderPreconditions = ''verified_under_preconditions''"
| "acceptance_level_as_str AccAnalyzed = ''analyzed''"
| "acceptance_level_as_str AccAuthoringOnly = ''authoring_only''"
| "acceptance_level_as_str AccNone = ''none''"

record capability_admission =
  ca_capability_id :: string
  ca_targets :: "string list"
  ca_assemblers :: "string list"
  ca_parameters :: "string list"
  ca_returns :: "string list"
  ca_oracles :: "string list"
  ca_authoring_level :: authoring_level
  ca_acceptance_level :: acceptance_level
  ca_required_gates :: "string list"
  ca_leaf_names :: "string list option"

record capability_manifest =
  cm_schema_version :: string
  cm_crates :: "string list"
  cm_targets :: "target_capability list"
  cm_admissions :: "capability_admission list"

section \<open>Validation\<close>

text \<open>\<open>seen\<close> is the \<open>HashSet\<close>.\<close>

fun ensure_unique_from :: "string \<Rightarrow> string set \<Rightarrow> string list \<Rightarrow> error + unit" where
  "ensure_unique_from kind seen [] = Inr ()"
| "ensure_unique_from kind seen (v # vs) =
     (if trim v = [] then Inl (Validation (kind @ '' name must not be empty''))
      else if v \<in> seen then Inl (Validation (''duplicate '' @ kind @ '' `'' @ v @ ''` in capability manifest''))
      else ensure_unique_from kind (insert v seen) vs)"

definition ensure_unique :: "string \<Rightarrow> string list \<Rightarrow> error + unit" where
  "ensure_unique kind = ensure_unique_from kind {}"

text \<open>The \<open>?\<close> operator on a result without a value.\<close>

definition then_check :: "'e + unit \<Rightarrow> 'e + unit \<Rightarrow> 'e + unit" where
  "then_check a b = (case a of Inl e \<Rightarrow> Inl e | Inr _ \<Rightarrow> b)"

fun check_all :: "('e + unit) list \<Rightarrow> 'e + unit" where
  "check_all [] = Inr ()"
| "check_all (r # rs) = then_check r (check_all rs)"

definition require_predecessor :: "target_capability \<Rightarrow> string \<Rightarrow> capability_level \<Rightarrow> string \<Rightarrow> capability_level \<Rightarrow> error + unit" where
  "require_predecessor target capability_name capability predecessor_name predecessor =
     (if Declared < capability \<and> predecessor = Unavailable
      then Inl (Validation (''target `'' @ ct_id target @ ''` has '' @ capability_name @ ''='' @
             capability_level_as_str capability @ '' without implemented '' @ predecessor_name))
      else Inr ())"

definition target_levels :: "target_capabilities \<Rightarrow> capability_level list" where
  "target_levels c = [tc_declared c, tc_decode c, tc_lower c, tc_abi_analysis c, tc_assemble c, tc_link c, tc_execute c,
     tc_verify c, pipeline_verify_level c, agent_verify_level c]"

definition validate_target :: "target_capability \<Rightarrow> error + unit" where
  "validate_target target =
     (let c = ct_capabilities target; levels = target_levels c in
      check_all [
        require_predecessor target ''lower'' (tc_lower c) ''decode'' (tc_decode c),
        require_predecessor target ''abi_analysis'' (tc_abi_analysis c) ''lower'' (tc_lower c),
        require_predecessor target ''link'' (tc_link c) ''assemble'' (tc_assemble c),
        require_predecessor target ''execute'' (tc_execute c) ''link'' (tc_link c),
        if list_ex (\<lambda>l. VerifiedInUnitTests \<le> l) levels \<and> ce_unit_tests (ct_evidence target) = []
        then Inl (Validation (''target `'' @ ct_id target @ ''` claims unit-tested capability without unit-test evidence''))
        else Inr (),
        if list_ex (\<lambda>l. VerifiedInCi \<le> l) levels \<and> ce_ci_jobs (ct_evidence target) = []
        then Inl (Validation (''target `'' @ ct_id target @ ''` claims CI-verified capability without a CI job''))
        else Inr ()])"

definition validate_admission :: "string list \<Rightarrow> capability_admission \<Rightarrow> error + unit" where
  "validate_admission known_targets admission =
     then_check
       (if ca_targets admission = []
        then Inl (Validation (''admission `'' @ ca_capability_id admission @ ''` must list at least one target'')) else Inr ())
       (check_all (map (\<lambda>target_id. if target_id \<notin> set known_targets
          then Inl (Validation (''admission `'' @ ca_capability_id admission @ ''` references unknown target `'' @ target_id @ ''`''))
          else Inr ()) (ca_targets admission)))"

definition validate_manifest :: "capability_manifest \<Rightarrow> error + unit" where
  "validate_manifest m =
     check_all ([
       if cm_schema_version m \<noteq> ''0.1''
       then Inl (Validation (''unsupported capability schema version `'' @ cm_schema_version m @ ''`'')) else Inr (),
       ensure_unique ''workspace crate'' (cm_crates m),
       ensure_unique ''target'' (map ct_id (cm_targets m)),
       if cm_crates m = [] then Inl (Validation ''capability manifest must list workspace crates'') else Inr (),
       if cm_targets m = [] then Inl (Validation ''capability manifest must contain at least one target'') else Inr ()] @
       map validate_target (cm_targets m) @
       [ensure_unique ''capability_id'' (map ca_capability_id (cm_admissions m))] @
       map (validate_admission (map ct_id (cm_targets m))) (cm_admissions m))"

text \<open>\<open>parse\<close>, over what \<open>toml::from_str\<close> returned.\<close>

definition parse_manifest :: "string + capability_manifest \<Rightarrow> error + capability_manifest" where
  "parse_manifest decoded =
     (case decoded of
        Inl e \<Rightarrow> Inl (Parse (''invalid capability manifest: '' @ e))
      | Inr m \<Rightarrow> (case validate_manifest m of Inl e \<Rightarrow> Inl e | Inr _ \<Rightarrow> Inr m))"

section \<open>Rendering\<close>

abbreviation newline :: string where "newline \<equiv> [CHR 0x0A]"

definition level_row :: "target_capabilities \<Rightarrow> string list" where
  "level_row c = map capability_level_as_str [tc_decode c, tc_lower c, tc_abi_analysis c, tc_assemble c, tc_link c,
     tc_execute c, pipeline_verify_level c, agent_verify_level c]"

definition render_readme_table :: "capability_manifest \<Rightarrow> string" where
  "render_readme_table m =
     ''| Identity | Decode | Lower | ABI | Assemble | Link | Execute | Pipeline | Agent |'' @ newline @
     ''|---|---|---|---|---|---|---|---|---|'' @ newline @
     concat (map (\<lambda>t. ''| `'' @ ct_id t @ ''` | '' @ join_with '' | '' (level_row (ct_capabilities t)) @ '' |'' @ newline) (cm_targets m))"

definition status_names :: "string list" where
  "status_names = [''decode'', ''lower'', ''abi'', ''assemble'', ''link'', ''execute'', ''pipeline'', ''agent'']"

definition render_status :: "capability_manifest \<Rightarrow> string \<Rightarrow> string" where
  "render_status m version =
     ''semasm '' @ version @ newline @ ''capability schema: '' @ cm_schema_version m @ newline @
     ''workspace crates ('' @ show_nat (length (cm_crates m)) @ ''): '' @ join_with '', '' (cm_crates m) @ newline @
     ''targets:'' @ newline @
     concat (map (\<lambda>t. ''  '' @ ct_id t @ '': '' @
        join_with '', '' (map2 (\<lambda>n l. n @ ''='' @ l) status_names (level_row (ct_capabilities t))) @ newline) (cm_targets m)) @
     ''note: pipeline = fixture assemble/link/run; agent = semasm agent verify gates'' @ newline @
     ''note: generated programs do not link SemASM by default'' @ newline"

definition level_fields :: "target_capabilities \<Rightarrow> (string \<times> json) list" where
  "level_fields c = map2 (\<lambda>n l. (n, JString l)) status_names (level_row c)"

definition json_strings :: "string list \<Rightarrow> json" where
  "json_strings xs = JArray (map JString xs)"

definition status_json :: "capability_manifest \<Rightarrow> string \<Rightarrow> json" where
  "status_json m version = JObject [
     (''name'', JString ''semasm''), (''version'', JString version), (''capability_schema'', JString (cm_schema_version m)),
     (''workspace_crates'', json_strings (cm_crates m)),
     (''targets'', JArray (map (\<lambda>t. JObject ((''id'', JString (ct_id t)) # level_fields (ct_capabilities t))) (cm_targets m))),
     (''notes'', json_strings [''pipeline = fixture assemble/link/run; agent = semasm agent verify gates'',
        ''generated programs do not link SemASM by default''])]"

definition admission_json :: "capability_admission \<Rightarrow> json" where
  "admission_json a = JObject ([
     (''capability_id'', JString (ca_capability_id a)), (''targets'', json_strings (ca_targets a)),
     (''assemblers'', json_strings (ca_assemblers a)), (''parameters'', json_strings (ca_parameters a)),
     (''returns'', json_strings (ca_returns a)), (''oracles'', json_strings (ca_oracles a)),
     (''authoring_level'', JString (authoring_level_as_str (ca_authoring_level a))),
     (''acceptance_level'', JString (acceptance_level_as_str (ca_acceptance_level a))),
     (''required_gates'', json_strings (ca_required_gates a))] @
     (case ca_leaf_names a of Some names \<Rightarrow> [(''leaf_names'', json_strings names)] | None \<Rightarrow> []))"

definition digest_body_fields :: "capability_manifest \<Rightarrow> (string \<times> json) list" where
  "digest_body_fields m = [
     (''name'', JString ''semasm''), (''capability_schema'', JString (cm_schema_version m)),
     (''workspace_crates'', json_strings (cm_crates m)),
     (''targets'', JArray (map (\<lambda>t. JObject ((''id'', JString (ct_id t)) # (''description'', JString (ct_description t)) #
        level_fields (ct_capabilities t))) (cm_targets m))),
     (''admission'', JArray (map admission_json (cm_admissions m)))]"

definition capabilities_digest_body :: "capability_manifest \<Rightarrow> json" where
  "capabilities_digest_body m = JObject (digest_body_fields m)"

text \<open>The serialiser and the hash are parameters; \<open>{byte:02x}\<close> prints two lower-case digits.\<close>

definition hex_byte :: "nat \<Rightarrow> string" where
  "hex_byte b = [''0123456789abcdef'' ! (b div 16), ''0123456789abcdef'' ! (b mod 16)]"

definition digest_prefixed_sha256 :: "(json \<Rightarrow> string) \<Rightarrow> (string \<Rightarrow> nat list) \<Rightarrow> json \<Rightarrow> string" where
  "digest_prefixed_sha256 to_vec sha v = ''sha256:'' @ concat (map hex_byte (sha (to_vec v)))"

definition manifest_digest :: "(json \<Rightarrow> string) \<Rightarrow> (string \<Rightarrow> nat list) \<Rightarrow> capability_manifest \<Rightarrow> string" where
  "manifest_digest to_vec sha m = digest_prefixed_sha256 to_vec sha (capabilities_digest_body m)"

definition capabilities_json :: "(json \<Rightarrow> string) \<Rightarrow> (string \<Rightarrow> nat list) \<Rightarrow> capability_manifest \<Rightarrow> string \<Rightarrow> json" where
  "capabilities_json to_vec sha m version =
     JObject (digest_body_fields m @ [(''version'', JString version), (''digest'', JString (manifest_digest to_vec sha m))])"

definition render_capabilities :: "(json \<Rightarrow> string) \<Rightarrow> (string \<Rightarrow> nat list) \<Rightarrow> capability_manifest \<Rightarrow> string \<Rightarrow> string" where
  "render_capabilities to_vec sha m version =
     ''semasm '' @ version @ newline @ ''capability schema: '' @ cm_schema_version m @ newline @
     ''admission entries: '' @ show_nat (length (cm_admissions m)) @ newline @
     ''digest: '' @ manifest_digest to_vec sha m @ newline @ ''targets:'' @ newline @
     concat (map (\<lambda>t. ''  '' @ ct_id t @ newline) (cm_targets m)) @ ''admission:'' @ newline @
     (if cm_admissions m = [] then ''  (none)'' @ newline
      else concat (map (\<lambda>a. ''  '' @ ca_capability_id a @ '': acceptance='' @ acceptance_level_as_str (ca_acceptance_level a) @
        '', authoring='' @ authoring_level_as_str (ca_authoring_level a) @ '', targets=['' @ join_with '', '' (ca_targets a) @ '']'' @
        newline) (cm_admissions m)))"

section \<open>What an accepted manifest satisfies\<close>

lemma then_check_ok [simp]: "then_check a b = Inr () \<longleftrightarrow> a = Inr () \<and> b = Inr ()"
  by (simp add: then_check_def split: sum.split)

lemma check_all_ok: "check_all rs = Inr () \<longleftrightarrow> list_all (\<lambda>r. r = Inr ()) rs"
  by (induction rs) simp_all

definition named_once :: "string list \<Rightarrow> bool" where
  "named_once names \<longleftrightarrow> distinct names \<and> list_all (\<lambda>n. trim n \<noteq> []) names"

lemma ensure_unique_from_ok:
  "ensure_unique_from kind seen vs = Inr () \<longleftrightarrow> named_once vs \<and> set vs \<inter> seen = {}"
  by (induction vs arbitrary: seen) (auto simp: named_once_def)

lemma ensure_unique_ok [simp]: "ensure_unique kind vs = Inr () \<longleftrightarrow> named_once vs"
  by (simp add: ensure_unique_def ensure_unique_from_ok)

text \<open>Stages in order, and evidence for every claim at or above unit tests.\<close>

definition stage_after :: "capability_level \<Rightarrow> capability_level \<Rightarrow> bool" where
  "stage_after predecessor l \<longleftrightarrow> (predecessor = Unavailable \<longrightarrow> l \<le> Declared)"

definition target_wf :: "target_capability \<Rightarrow> bool" where
  "target_wf t \<longleftrightarrow> (let c = ct_capabilities t in
     stage_after (tc_decode c) (tc_lower c) \<and> stage_after (tc_lower c) (tc_abi_analysis c) \<and>
     stage_after (tc_assemble c) (tc_link c) \<and> stage_after (tc_link c) (tc_execute c) \<and>
     (\<forall>l \<in> set (target_levels c). (VerifiedInUnitTests \<le> l \<longrightarrow> ce_unit_tests (ct_evidence t) \<noteq> []) \<and>
        (VerifiedInCi \<le> l \<longrightarrow> ce_ci_jobs (ct_evidence t) \<noteq> [])))"

definition manifest_wf :: "capability_manifest \<Rightarrow> bool" where
  "manifest_wf m \<longleftrightarrow> cm_schema_version m = ''0.1'' \<and> cm_crates m \<noteq> [] \<and> cm_targets m \<noteq> [] \<and>
     named_once (cm_crates m) \<and> named_once (map ct_id (cm_targets m)) \<and> named_once (map ca_capability_id (cm_admissions m)) \<and>
     list_all target_wf (cm_targets m) \<and>
     list_all (\<lambda>a. ca_targets a \<noteq> [] \<and> set (ca_targets a) \<subseteq> ct_id ` set (cm_targets m)) (cm_admissions m)"

lemma require_predecessor_ok [simp]: "require_predecessor t n l pn p = Inr () \<longleftrightarrow> stage_after p l"
  by (auto simp: require_predecessor_def stage_after_def)

lemma validate_target_ok: "validate_target t = Inr () \<longleftrightarrow> target_wf t"
  by (auto simp: validate_target_def target_wf_def check_all_ok Let_def list_ex_iff)

lemma validate_admission_ok:
  "validate_admission known a = Inr () \<longleftrightarrow> ca_targets a \<noteq> [] \<and> set (ca_targets a) \<subseteq> set known"
  by (auto simp: validate_admission_def check_all_ok list_all_iff)

text \<open>C27: A manifest is accepted exactly when its schema is 0.1; it lists at least one crate and one target; crate names, target
  ids and admission ids are each unique and not blank; in every target the stages lower, ABI, link and execute are at most declared
  when their predecessor (decode, lower, assemble, link) is unavailable; in every target each claim at or above unit tests has
  a unit test, and each claim at or above CI has a CI job, as evidence; and every admission names at least one target and only registered
  ones. Assembling and decoding have no predecessor, and a predecessor that is merely declared is enough
  (\<open>released_without_decoder\<close>), although the message of the check asks for an implemented one.\<close>

theorem manifest_accepted_exact: "validate_manifest m = Inr () \<longleftrightarrow> manifest_wf m"
  by (auto simp: validate_manifest_def manifest_wf_def check_all_ok validate_target_ok validate_admission_ok list.pred_map comp_def)

text \<open>A stage may be qualified for release on a predecessor that is only declared, that is, named but not
  implemented: the guard refuses an unavailable predecessor alone.\<close>

lemma released_without_decoder:
  assumes "tc_decode (ct_capabilities t) = Declared"
  shows "require_predecessor t ''lower'' ReleaseQualified ''decode'' (tc_decode (ct_capabilities t)) = Inr ()"
  using assms by (simp add: stage_after_def)

end
