(* ===== verification/Verify_Report.thy ===== *)
theory Verify_Report imports Harness_Eval Contract_Eval Effect_Walk Target begin

text \<open>
  The verification report: \<open>semasm-agent/src/verify.rs\<close>, with the comparison of two reports from
  \<open>evidence.rs\<close> and the failure envelope of \<open>failure.rs\<close>. A report is composed once from the results
  of the static gates, the linked image and the harness run; evidence slices are attached afterwards
  and may only lower its status. Digests and the tool version are strings the caller supplies.
\<close>

section \<open>Gates\<close>

datatype gate_status = GPassed | GFailed | GSkipped

fun gate_status_as_str :: "gate_status \<Rightarrow> string" where
  "gate_status_as_str GPassed = ''passed''"
| "gate_status_as_str GFailed = ''failed''"
| "gate_status_as_str GSkipped = ''skipped''"

record coverage =
  cov_total :: nat
  cov_modeled :: nat
  cov_unknown :: nat

definition coverage_complete :: "nat \<Rightarrow> coverage" where
  "coverage_complete n = \<lparr>cov_total = n, cov_modeled = n, cov_unknown = 0\<rparr>"

definition coverage_unknown_incomplete :: coverage where
  "coverage_unknown_incomplete = \<lparr>cov_total = 0, cov_modeled = 0, cov_unknown = 1\<rparr>"

definition coverage_not_started :: coverage where
  "coverage_not_started = \<lparr>cov_total = 0, cov_modeled = 0, cov_unknown = 0\<rparr>"

text \<open>\<open>checked_mul\<close> fails above \<open>usize::MAX\<close>, \<open>checked_div\<close> on a zero total; both give 100.\<close>

definition percent_modeled :: "coverage \<Rightarrow> nat" where
  "percent_modeled c =
     (if u64_max < int (cov_modeled c * 100) \<or> cov_total c = 0 then 100
      else min (cov_modeled c * 100 div cov_total c) 100)"

record semantic_gates =
  sg_object_policy :: gate_status
  sg_executable_bytes :: nat
  sg_decode :: coverage
  sg_lowering :: coverage
  sg_abi :: gate_status
  sg_capability :: gate_status
  sg_control :: gate_status
  sg_memory :: gate_status

definition leaf_ok :: "gate_status \<Rightarrow> bool" where
  "leaf_ok s \<longleftrightarrow> s = GPassed \<or> s = GSkipped"

definition gates_all_passed :: "semantic_gates \<Rightarrow> bool" where
  "gates_all_passed g \<longleftrightarrow>
     sg_object_policy g = GPassed \<and> sg_abi g = GPassed \<and> sg_capability g = GPassed \<and>
     leaf_ok (sg_control g) \<and> leaf_ok (sg_memory g) \<and>
     cov_unknown (sg_decode g) = 0 \<and> cov_unknown (sg_lowering g) = 0 \<and>
     cov_modeled (sg_decode g) = cov_total (sg_decode g) \<and> cov_modeled (sg_lowering g) = cov_total (sg_lowering g)"

record report_finding =
  rf_code :: string
  rf_severity :: string
  rf_message :: string
  rf_at :: "nat option"

record semantic_gate_error =
  ge_stage :: string
  ge_message :: string
  ge_decode :: "coverage option"
  ge_lowering :: "coverage option"
  ge_findings :: "report_finding list"

definition gate_error :: "string \<Rightarrow> string \<Rightarrow> semantic_gate_error" where
  "gate_error stage message =
     \<lparr>ge_stage = stage, ge_message = message, ge_decode = None, ge_lowering = None, ge_findings = []\<rparr>"

definition or_coverage :: "coverage option \<Rightarrow> coverage \<Rightarrow> coverage" where
  "or_coverage c d = (case c of Some x \<Rightarrow> x | None \<Rightarrow> d)"

definition gates_from_error :: "semantic_gate_error \<Rightarrow> nat \<Rightarrow> semantic_gates" where
  "gates_from_error e executable_bytes =
     (let decode = or_coverage (ge_decode e) coverage_not_started;
          lowering = or_coverage (ge_lowering e) coverage_not_started;
          snapshot = (\<lambda>object_policy decode lowering abi capability control memory.
            \<lparr>sg_object_policy = object_policy, sg_executable_bytes = executable_bytes, sg_decode = decode, sg_lowering = lowering,
             sg_abi = abi, sg_capability = capability, sg_control = control, sg_memory = memory\<rparr>) in
      if ge_stage e = ''target'' \<or> ge_stage e = ''object'' then
        snapshot GFailed coverage_not_started coverage_not_started GSkipped GSkipped GSkipped GSkipped
      else if ge_stage e = ''decode'' then
        snapshot GPassed (or_coverage (ge_decode e) coverage_unknown_incomplete) coverage_not_started GSkipped GSkipped GSkipped GSkipped
      else if ge_stage e = ''lowering'' then
        snapshot GPassed (if ge_decode e \<noteq> None then decode else coverage_not_started)
          (or_coverage (ge_lowering e) coverage_unknown_incomplete) GSkipped GSkipped GSkipped GSkipped
      else if ge_stage e = ''abi'' then snapshot GPassed decode lowering GFailed GSkipped GSkipped GSkipped
      else if ge_stage e = ''capability'' then snapshot GPassed decode lowering GPassed GFailed GSkipped GSkipped
      else if ge_stage e = ''cfg'' \<or> ge_stage e = ''control'' then snapshot GPassed decode lowering GPassed GPassed GFailed GSkipped
      else if ge_stage e = ''memory'' then snapshot GPassed decode lowering GPassed GPassed GPassed GFailed
      else snapshot GFailed (or_coverage (ge_decode e) coverage_unknown_incomplete) (or_coverage (ge_lowering e) coverage_not_started)
        GSkipped GSkipped GSkipped GSkipped)"

record executable_gate =
  eg_status :: gate_status

definition executable_passed :: executable_gate where "executable_passed = \<lparr>eg_status = GPassed\<rparr>"
definition executable_failed :: executable_gate where "executable_failed = \<lparr>eg_status = GFailed\<rparr>"
definition executable_skipped :: executable_gate where "executable_skipped = \<lparr>eg_status = GSkipped\<rparr>"

section \<open>The report\<close>

datatype verification_status =
  VVerified | VVerifiedUnderPreconditions | VSemanticFailed | VExecutableFailed | VBehaviorFailed | VExecutionDenied

fun verification_status_as_str :: "verification_status \<Rightarrow> string" where
  "verification_status_as_str VVerified = ''verified''"
| "verification_status_as_str VVerifiedUnderPreconditions = ''verified_under_preconditions''"
| "verification_status_as_str VSemanticFailed = ''semantic_failed''"
| "verification_status_as_str VExecutableFailed = ''executable_failed''"
| "verification_status_as_str VBehaviorFailed = ''behavior_failed''"
| "verification_status_as_str VExecutionDenied = ''execution_denied''"

datatype vector_origin = OriginBuiltin | OriginExternal

record vector_case_binding =
  vb_name :: string
  vb_origin :: vector_origin
  vb_external_case_id :: "string option"

record vector_set_evidence =
  vs_external_document_digest :: "string option"
  vs_builtin_case_count :: nat
  vs_external_case_count :: nat
  vs_cases :: "vector_case_binding list"

datatype proof_basis = OracleAndVectors

fun proof_basis_as_str :: "proof_basis \<Rightarrow> string" where
  "proof_basis_as_str OracleAndVectors = ''oracle_and_vectors''"

record behavior_oracle =
  bo_id :: string
  bo_version :: nat
  bo_contract :: string
  bo_contract_hash :: string
  bo_contract_ensures :: "string list"
  bo_proof_basis :: proof_basis
  bo_claim :: string
  bo_vectors_passed :: nat
  bo_vectors_failed :: nat
  bo_vectors_total :: nat
  bo_evidence_hash :: string

definition report_schema_version :: string where
  "report_schema_version = ''0.6''"

record verification_report =
  vp_schema_version :: string
  vp_status :: verification_status
  vp_target :: string
  vp_routine_symbol :: string
  vp_isolation :: execution_isolation
  vp_tool_version :: string
  vp_contract_digest :: string
  vp_source_digest :: string
  vp_semantic :: semantic_gates
  vp_executable :: executable_gate
  vp_behavior :: "harness_report option"
  vp_behavior_oracle :: "behavior_oracle option"
  vp_vector_set :: "vector_set_evidence option"
  vp_alias_analysis :: "alias_analysis_report option"
  vp_region_access :: "region_access_report option"
  vp_contract_expressions :: "contract_expr_report option"
  vp_findings :: "report_finding list"

definition report_from_parts :: "string \<Rightarrow> string \<Rightarrow> string \<Rightarrow> semantic_gates \<Rightarrow> executable_gate \<Rightarrow> harness_report option \<Rightarrow>
    execution_isolation \<Rightarrow> verification_report" where
  "report_from_parts tool target routine_symbol semantic executable behavior isolation =
     \<lparr>vp_schema_version = report_schema_version,
      vp_status =
        (if \<not> gates_all_passed semantic then VSemanticFailed
         else if eg_status executable = GFailed then VExecutableFailed
         else case behavior of
           None \<Rightarrow> VExecutionDenied
         | Some report \<Rightarrow> if hr_all_passed report then VVerified else VBehaviorFailed),
      vp_target = target, vp_routine_symbol = routine_symbol, vp_isolation = isolation, vp_tool_version = tool,
      vp_contract_digest = [], vp_source_digest = [], vp_semantic = semantic, vp_executable = executable, vp_behavior = behavior,
      vp_behavior_oracle = None, vp_vector_set = None, vp_alias_analysis = None, vp_region_access = None,
      vp_contract_expressions = None, vp_findings = []\<rparr>"

definition with_findings :: "report_finding list \<Rightarrow> verification_report \<Rightarrow> verification_report" where
  "with_findings findings r = r\<lparr>vp_findings := findings\<rparr>"

definition with_digests :: "string \<Rightarrow> string \<Rightarrow> verification_report \<Rightarrow> verification_report" where
  "with_digests contract_digest source_digest r = r\<lparr>vp_contract_digest := contract_digest, vp_source_digest := source_digest\<rparr>"

definition with_behavior_oracle :: "behavior_oracle \<Rightarrow> verification_report \<Rightarrow> verification_report" where
  "with_behavior_oracle ora r = r\<lparr>vp_behavior_oracle := Some ora\<rparr>"

definition with_vector_set :: "vector_set_evidence \<Rightarrow> verification_report \<Rightarrow> verification_report" where
  "with_vector_set vector_set r = r\<lparr>vp_vector_set := Some vector_set\<rparr>"

definition demote :: "verification_status \<Rightarrow> verification_status" where
  "demote s = (if s = VVerified then VVerifiedUnderPreconditions else s)"

definition with_alias_analysis :: "alias_analysis_report \<Rightarrow> verification_report \<Rightarrow> verification_report" where
  "with_alias_analysis a r =
     (let r' = (case ar_status a of
          AlPassed \<Rightarrow> r
        | AlPassedUnderPreconditions \<Rightarrow> r\<lparr>vp_status := demote (vp_status r)\<rparr>
        | _ \<Rightarrow> r\<lparr>vp_status := VSemanticFailed\<rparr>) in r'\<lparr>vp_alias_analysis := Some a\<rparr>)"

definition with_region_access :: "region_access_report \<Rightarrow> verification_report \<Rightarrow> verification_report" where
  "with_region_access a r =
     (let r' = (case rr_status a of
          RaPassed \<Rightarrow> r
        | RaIncomplete \<Rightarrow> r
        | RaPassedUnderPreconditions \<Rightarrow> r\<lparr>vp_status := demote (vp_status r)\<rparr>
        | RaFailed \<Rightarrow> r\<lparr>vp_status := VSemanticFailed\<rparr>) in r'\<lparr>vp_region_access := Some a\<rparr>)"

definition with_contract_expressions :: "contract_expr_report \<Rightarrow> verification_report \<Rightarrow> verification_report" where
  "with_contract_expressions a r =
     (let r' = (case cx_status a of
          CxPassed \<Rightarrow> r
        | CxPassedUnderPreconditions \<Rightarrow> r\<lparr>vp_status := demote (vp_status r)\<rparr>
        | _ \<Rightarrow> r\<lparr>vp_status := VSemanticFailed\<rparr>) in r'\<lparr>vp_contract_expressions := Some a\<rparr>)"

section \<open>Schema compatibility\<close>

datatype schema_compatibility = SchemaCurrent | SchemaCompatibleOlder | SchemaForwardOptIn

datatype schema_error = InvalidJson | MissingSchemaVersion | InvalidSchemaVersion string | UnsupportedSchema string

text \<open>\<open>split('.')\<close>, then two numbers that fit \<open>u64\<close> and nothing after them.\<close>

definition parse_report_schema_version :: "string \<Rightarrow> schema_error + nat \<times> nat" where
  "parse_report_schema_version version =
     (let parts = split_char CHR ''.'' version in
      case parse_unsigned 10 u64_max (hd parts) of
        None \<Rightarrow> Inl (InvalidSchemaVersion version)
      | Some major \<Rightarrow>
          (case (case tl parts of [] \<Rightarrow> None | p # _ \<Rightarrow> parse_unsigned 10 u64_max p) of
             None \<Rightarrow> Inl (InvalidSchemaVersion version)
           | Some minor \<Rightarrow> if 2 < length parts then Inl (InvalidSchemaVersion version) else Inr (major, minor)))"

text \<open>The document is what \<open>serde_json::from_str\<close> returned.\<close>

definition schema_version_of :: "json option \<Rightarrow> schema_error + string" where
  "schema_version_of document =
     (case document of
        None \<Rightarrow> Inl InvalidJson
      | Some (JObject members) \<Rightarrow> (case map_of members ''schema_version'' of Some (JString v) \<Rightarrow> Inr v | _ \<Rightarrow> Inl MissingSchemaVersion)
      | Some _ \<Rightarrow> Inl MissingSchemaVersion)"

definition check_schema_compatibility :: "json option \<Rightarrow> bool \<Rightarrow> schema_error + schema_compatibility" where
  "check_schema_compatibility document allow_newer_minor =
     (case schema_version_of document of
        Inl e \<Rightarrow> Inl e
      | Inr version \<Rightarrow>
          (case parse_report_schema_version version of
             Inl e \<Rightarrow> Inl e
           | Inr (major, minor) \<Rightarrow>
               (case parse_report_schema_version report_schema_version of
                  Inl e \<Rightarrow> Inl e
                | Inr (smajor, sminor) \<Rightarrow>
                    if major \<noteq> smajor then Inl (UnsupportedSchema version)
                    else if minor = sminor then Inr SchemaCurrent
                    else if minor < sminor then Inr SchemaCompatibleOlder
                    else if allow_newer_minor then Inr SchemaForwardOptIn
                    else Inl (UnsupportedSchema version))))"

section \<open>Comparing two reports\<close>

record compare_report =
  cr_target :: string
  cr_routine_symbol :: string
  cr_status_a :: string
  cr_status_b :: string
  cr_gate_diffs :: "string list"
  cr_vector_diffs :: "string list"
  cr_preferred :: "string option"

definition push_gate_diff :: "string \<Rightarrow> gate_status \<Rightarrow> gate_status \<Rightarrow> string list \<Rightarrow> string list" where
  "push_gate_diff name a b out =
     (if a \<noteq> b then out @ [name @ '': '' @ gate_status_as_str a @ '' vs '' @ gate_status_as_str b] else out)"

definition push_coverage_diff :: "string \<Rightarrow> coverage \<Rightarrow> coverage \<Rightarrow> string list \<Rightarrow> string list" where
  "push_coverage_diff name a b out =
     (if a \<noteq> b then out @ [name @ '': '' @ show_nat (cov_modeled a) @ ''/'' @ show_nat (cov_total a) @ '' vs '' @
        show_nat (cov_modeled b) @ ''/'' @ show_nat (cov_total b)] else out)"

definition verification_rank :: "verification_status \<Rightarrow> nat" where
  "verification_rank s = (case s of VVerified \<Rightarrow> 3 | VVerifiedUnderPreconditions \<Rightarrow> 2 | _ \<Rightarrow> 0)"

definition vector_diff :: "vector_result list \<Rightarrow> vector_result \<Rightarrow> string list" where
  "vector_diff cases_b case_a =
     (case List.find (\<lambda>c. vr_name c = vr_name case_a) cases_b of
        None \<Rightarrow> []
      | Some case_b \<Rightarrow>
          if vr_passed case_a \<noteq> vr_passed case_b
          then [vr_name case_a @ '': '' @ (if vr_passed case_a then ''PASS'' else ''FAIL'') @ '' vs '' @
                (if vr_passed case_b then ''PASS'' else ''FAIL'')]
          else [])"

definition compare_reports :: "verification_report \<Rightarrow> verification_report \<Rightarrow> string \<Rightarrow> string \<Rightarrow> compare_report" where
  "compare_reports a b label_a label_b =
     (let ga = vp_semantic a; gb = vp_semantic b;
          gate_diffs =
            push_coverage_diff ''lowering'' (sg_lowering ga) (sg_lowering gb)
            (push_coverage_diff ''decode'' (sg_decode ga) (sg_decode gb)
            (push_gate_diff ''memory'' (sg_memory ga) (sg_memory gb)
            (push_gate_diff ''control'' (sg_control ga) (sg_control gb)
            (push_gate_diff ''capability'' (sg_capability ga) (sg_capability gb)
            (push_gate_diff ''abi'' (sg_abi ga) (sg_abi gb)
            (push_gate_diff ''object_policy'' (sg_object_policy ga) (sg_object_policy gb) []))))));
          vector_diffs =
            (case (vp_behavior a, vp_behavior b) of
               (Some x, Some y) \<Rightarrow> concat (map (vector_diff (hr_cases y)) (hr_cases x))
             | (None, None) \<Rightarrow> []
             | _ \<Rightarrow> [''behavior present on only one candidate'']);
          preferred =
            (if verification_rank (vp_status a) > verification_rank (vp_status b) then Some label_a
             else if verification_rank (vp_status b) > verification_rank (vp_status a) then Some label_b
             else None) in
      \<lparr>cr_target = vp_target a, cr_routine_symbol = vp_routine_symbol a,
       cr_status_a = verification_status_as_str (vp_status a), cr_status_b = verification_status_as_str (vp_status b),
       cr_gate_diffs = gate_diffs, cr_vector_diffs = vector_diffs, cr_preferred = preferred\<rparr>)"

definition vector_counts :: "verification_report \<Rightarrow> nat \<times> nat \<times> nat" where
  "vector_counts r =
     (case vp_behavior r of
        Some behavior \<Rightarrow> (let passed = length (filter vr_passed (hr_cases behavior)); all = length (hr_cases behavior) in
          (passed, all - passed, all))
      | None \<Rightarrow> (0, 0, 0))"

section \<open>The failure envelope\<close>

datatype failure_stage =
  FsUsage | FsToolchain | FsContract | FsIo | FsUnsupportedShape | FsAssemble | FsLink | FsExecute | FsPipeline

fun failure_stage_as_str :: "failure_stage \<Rightarrow> string" where
  "failure_stage_as_str FsUsage = ''usage''"
| "failure_stage_as_str FsToolchain = ''toolchain''"
| "failure_stage_as_str FsContract = ''contract''"
| "failure_stage_as_str FsIo = ''io''"
| "failure_stage_as_str FsUnsupportedShape = ''unsupported_shape''"
| "failure_stage_as_str FsAssemble = ''assemble''"
| "failure_stage_as_str FsLink = ''link''"
| "failure_stage_as_str FsExecute = ''execute''"
| "failure_stage_as_str FsPipeline = ''pipeline''"

datatype retryability = RetryNever | RetryTooling | RetryTransient

fun retryability_as_str :: "retryability \<Rightarrow> string" where
  "retryability_as_str RetryNever = ''never''"
| "retryability_as_str RetryTooling = ''tooling''"
| "retryability_as_str RetryTransient = ''transient''"

record failure_location =
  fl_path :: "string option"
  fl_line :: "nat option"
  fl_column :: "nat option"

record failure_envelope =
  fe_schema_version :: string
  fe_kind :: string
  fe_code :: string
  fe_stage :: failure_stage
  fe_message :: string
  fe_retryability :: retryability
  fe_tool_version :: "string option"
  fe_target :: "string option"
  fe_routine_symbol :: "string option"
  fe_contract_digest :: "string option"
  fe_source_digest :: "string option"
  fe_location :: "failure_location option"
  fe_detail :: "string option"

definition failure_new :: "string \<Rightarrow> string \<Rightarrow> failure_stage \<Rightarrow> string \<Rightarrow> retryability \<Rightarrow> failure_envelope" where
  "failure_new tool code stage message retry =
     \<lparr>fe_schema_version = ''0.1'', fe_kind = ''agent_failure'', fe_code = code, fe_stage = stage, fe_message = message,
      fe_retryability = retry, fe_tool_version = Some tool, fe_target = None, fe_routine_symbol = None, fe_contract_digest = None,
      fe_source_digest = None, fe_location = None, fe_detail = None\<rparr>"

definition fe_with_target :: "string \<Rightarrow> failure_envelope \<Rightarrow> failure_envelope" where
  "fe_with_target t e = e\<lparr>fe_target := Some t\<rparr>"

definition fe_with_routine :: "string \<Rightarrow> failure_envelope \<Rightarrow> failure_envelope" where
  "fe_with_routine symbol e = e\<lparr>fe_routine_symbol := Some symbol\<rparr>"

definition fe_with_location :: "failure_location \<Rightarrow> failure_envelope \<Rightarrow> failure_envelope" where
  "fe_with_location l e = e\<lparr>fe_location := Some l\<rparr>"

text \<open>\<open>is_char_boundary\<close> of a UTF-8 string: an end, or a byte that does not continue a character.\<close>

definition is_continuation :: "char \<Rightarrow> bool" where
  "is_continuation c \<longleftrightarrow> (128 :: nat) \<le> of_char c \<and> of_char c < (192 :: nat)"

definition is_char_boundary :: "string \<Rightarrow> nat \<Rightarrow> bool" where
  "is_char_boundary s i \<longleftrightarrow> i = 0 \<or> i = length s \<or> i < length s \<and> \<not> is_continuation (s ! i)"

fun char_cut :: "string \<Rightarrow> nat \<Rightarrow> nat" where
  "char_cut s 0 = 0"
| "char_cut s (Suc k) = (if is_char_boundary s (Suc k) then Suc k else char_cut s k)"

definition detail_max :: nat where
  "detail_max = 4096"

definition truncate_detail :: "string \<Rightarrow> string" where
  "truncate_detail text = (if detail_max < length text then take (char_cut text detail_max) text @ ellipsis else text)"

definition fe_with_detail :: "string \<Rightarrow> failure_envelope \<Rightarrow> failure_envelope" where
  "fe_with_detail detail e = e\<lparr>fe_detail := Some (truncate_detail detail)\<rparr>"

section \<open>Status\<close>

text \<open>Attaching evidence, in any order and number.\<close>

datatype attachment =
    AttachAlias alias_analysis_report
  | AttachRegion region_access_report
  | AttachExpressions contract_expr_report

fun attach :: "attachment \<Rightarrow> verification_report \<Rightarrow> verification_report" where
  "attach (AttachAlias a) r = with_alias_analysis a r"
| "attach (AttachRegion a) r = with_region_access a r"
| "attach (AttachExpressions a) r = with_contract_expressions a r"

fun slice_fails :: "attachment \<Rightarrow> bool" where
  "slice_fails (AttachAlias a) \<longleftrightarrow> ar_status a \<in> {AlIncomplete, AlFailed}"
| "slice_fails (AttachRegion a) \<longleftrightarrow> rr_status a = RaFailed"
| "slice_fails (AttachExpressions a) \<longleftrightarrow> cx_status a \<in> {CxIncomplete, CxFailed}"

fun slice_conditional :: "attachment \<Rightarrow> bool" where
  "slice_conditional (AttachAlias a) \<longleftrightarrow> ar_status a = AlPassedUnderPreconditions"
| "slice_conditional (AttachRegion a) \<longleftrightarrow> rr_status a = RaPassedUnderPreconditions"
| "slice_conditional (AttachExpressions a) \<longleftrightarrow> cx_status a = CxPassedUnderPreconditions"

lemma attach_status:
  "vp_status (attach a r) = (if slice_fails a then VSemanticFailed else if slice_conditional a then demote (vp_status r) else vp_status r)"
proof (cases a)
  case (AttachAlias x)
  then show ?thesis by (cases "ar_status x") (simp_all add: with_alias_analysis_def)
next
  case (AttachRegion x)
  then show ?thesis by (cases "rr_status x") (simp_all add: with_region_access_def)
next
  case (AttachExpressions x)
  then show ?thesis by (cases "cx_status x") (simp_all add: with_contract_expressions_def)
qed

lemma demote_demote [simp]: "demote (demote s) = demote s"
  by (simp add: demote_def)

lemma demote_failed [simp]: "demote VSemanticFailed = VSemanticFailed"
  by (simp add: demote_def)

lemma attached_status:
  "vp_status (fold attach atts r) =
     (if list_ex slice_fails atts then VSemanticFailed
      else if list_ex slice_conditional atts then demote (vp_status r) else vp_status r)"
  by (induction atts arbitrary: r) (simp_all add: attach_status)

text \<open>Clear gates: the three required gates passed, the two leaf gates did not fail, and every instruction was
  decoded and lowered to a modelled form.\<close>

definition gates_clear :: "semantic_gates \<Rightarrow> bool" where
  "gates_clear g \<longleftrightarrow>
     {sg_object_policy g, sg_abi g, sg_capability g} = {GPassed} \<and> GFailed \<notin> {sg_control g, sg_memory g} \<and>
     (\<exists>m n. sg_decode g = coverage_complete m \<and> sg_lowering g = coverage_complete n)"

lemma coverage_complete_iff: "(\<exists>n. c = coverage_complete n) \<longleftrightarrow> cov_unknown c = 0 \<and> cov_modeled c = cov_total c"
  by (cases c) (auto simp: coverage_complete_def)

lemma leaf_ok_iff: "leaf_ok s \<longleftrightarrow> s \<noteq> GFailed"
  by (cases s) (simp_all add: leaf_ok_def)

lemma gates_all_passed_iff: "gates_all_passed g \<longleftrightarrow> gates_clear g"
  unfolding gates_all_passed_def gates_clear_def leaf_ok_iff ex_simps(1) ex_simps(2) coverage_complete_iff by auto

text \<open>The static and dynamic results of a verified report.\<close>

definition parts_pass :: "semantic_gates \<Rightarrow> executable_gate \<Rightarrow> harness_report option \<Rightarrow> bool" where
  "parts_pass semantic executable behavior \<longleftrightarrow> gates_clear semantic \<and> eg_status executable \<noteq> GFailed \<and>
     (\<exists>h. behavior = Some h \<and> hr_all_passed h)"

lemma parts_pass_iff:
  "parts_pass semantic executable behavior \<longleftrightarrow> gates_all_passed semantic \<and> eg_status executable \<noteq> GFailed \<and>
     (\<exists>h. behavior = Some h \<and> hr_all_passed h)"
  by (simp add: parts_pass_def gates_all_passed_iff)

lemma from_parts_verified:
  "vp_status (report_from_parts tool t s sem exe beh isol) = VVerified \<longleftrightarrow> parts_pass sem exe beh"
  "vp_status (report_from_parts tool t s sem exe beh isol) \<noteq> VVerifiedUnderPreconditions"
  by (auto simp: report_from_parts_def parts_pass_iff split: option.split)

lemma attached_verified:
  "vp_status (fold attach atts (report_from_parts tool t s sem exe beh isol)) = VVerified \<longleftrightarrow>
     parts_pass sem exe beh \<and> \<not> list_ex slice_fails atts \<and> \<not> list_ex slice_conditional atts"
  "vp_status (fold attach atts (report_from_parts tool t s sem exe beh isol)) = VVerifiedUnderPreconditions \<longleftrightarrow>
     parts_pass sem exe beh \<and> \<not> list_ex slice_fails atts \<and> list_ex slice_conditional atts"
  using from_parts_verified [of tool t s sem exe beh isol] by (auto simp: attached_status demote_def)

text \<open>C6: Whatever evidence is attached to a composed report, in any order and number: it is verified exactly
  when the object-policy, ABI and capability gates passed, the control and memory gates passed or were skipped,
  every instruction was decoded and lowered to a modelled form, the executable gate did not fail, the harness ran with all its
  vectors passed, no attached alias or expression slice is failed or incomplete, no region-access slice is
  failed, and no slice leans on a declared precondition; it is verified under preconditions exactly when all this
  holds but some slice does lean on one. A region-access slice that is merely incomplete does not count.\<close>

theorem report_verified_exact:
  "(vp_status (fold attach atts (report_from_parts tool t s sem exe beh isol)) = VVerified \<longleftrightarrow>
     parts_pass sem exe beh \<and> \<not> list_ex slice_fails atts \<and> \<not> list_ex slice_conditional atts) \<and>
   (vp_status (fold attach atts (report_from_parts tool t s sem exe beh isol)) = VVerifiedUnderPreconditions \<longleftrightarrow>
     parts_pass sem exe beh \<and> \<not> list_ex slice_fails atts \<and> list_ex slice_conditional atts)"
  by (intro conjI attached_verified)

lemma error_never_passes: "\<not> gates_all_passed (gates_from_error e n)"
  by (simp add: gates_from_error_def gates_all_passed_def leaf_ok_def Let_def)

text \<open>C23: A report composed from a gate error, with whatever coverage the error carries, can never become
  verified: some required gate of the snapshot did not pass.\<close>

theorem error_report_fails_closed:
  "vp_status (fold attach atts (report_from_parts tool t s (gates_from_error e n) exe beh isol)) = VSemanticFailed"
  by (simp add: attached_status report_from_parts_def error_never_passes)

lemma empty_gate_diff:
  "push_gate_diff n a b out = [] \<longleftrightarrow> a = b \<and> out = []"
  "push_coverage_diff n c d out = [] \<longleftrightarrow> c = d \<and> out = []"
  by (simp_all add: push_gate_diff_def push_coverage_diff_def)

text \<open>A comparison lists no gate difference exactly when the reports' semantic gates agree (the number of
  executable bytes apart), and prefers the same candidate whichever report comes first.\<close>

theorem compare_exact:
  "(cr_gate_diffs (compare_reports a b la lb) = [] \<longleftrightarrow>
     (vp_semantic a)\<lparr>sg_executable_bytes := 0\<rparr> = (vp_semantic b)\<lparr>sg_executable_bytes := 0\<rparr>) \<and>
   cr_preferred (compare_reports a b la lb) = cr_preferred (compare_reports b a lb la) \<and>
   (cr_preferred (compare_reports a b la lb) = None \<longleftrightarrow> verification_rank (vp_status a) = verification_rank (vp_status b))"
  by (cases "vp_semantic a"; cases "vp_semantic b") (auto simp: compare_reports_def Let_def empty_gate_diff)

text \<open>The executable gate is not compared.\<close>

lemma executable_gate_not_compared:
  "cr_gate_diffs (compare_reports (report_from_parts tool t s g executable_failed h i) (report_from_parts tool t s g executable_passed h i) la lb) = []"
  by (simp add: compare_reports_def Let_def report_from_parts_def push_gate_diff_def push_coverage_diff_def)

lemma char_cut_spec: "char_cut s k \<le> k \<and> is_char_boundary s (char_cut s k) \<and> (\<forall>j. char_cut s k < j \<and> j \<le> k \<longrightarrow> \<not> is_char_boundary s j)"
proof (induction k)
  case (Suc k)
  then show ?case by (auto simp: le_Suc_eq)
qed (auto simp: is_char_boundary_def)

text \<open>A detail keeps its text up to 4096 bytes; a longer one is cut at the last character boundary not past
  byte 4096 and marked with an ellipsis, so it stays valid UTF-8 and at most 4099 bytes long.\<close>

theorem detail_truncated:
  "\<exists>cut. is_char_boundary detail cut \<and> length (truncate_detail detail) \<le> 4099 \<and>
     truncate_detail detail = take cut detail @ (if cut = length detail then [] else ellipsis) \<and>
     (cut = length detail \<or> cut \<le> 4096 \<and> \<not> (\<exists>j. cut < j \<and> j \<le> 4096 \<and> is_char_boundary detail j))"
proof (cases "detail_max < length detail")
  case True
  let ?c = "char_cut detail detail_max"
  have "?c \<noteq> length detail" using char_cut_spec [of detail detail_max] True by simp
  then show ?thesis
    using char_cut_spec [of detail detail_max] True
    by (intro exI [of _ ?c]) (auto simp: truncate_detail_def detail_max_def ellipsis_def)
next
  case False
  then show ?thesis
    by (intro exI [of _ "length detail"]) (simp add: truncate_detail_def detail_max_def is_char_boundary_def)
qed

text \<open>A region-access slice that could not be completed leaves a verified report verified.\<close>

lemma incomplete_region_access_verified:
  "rr_status a = RaIncomplete \<Longrightarrow> vp_status (with_region_access a r) = vp_status r"
  by (simp add: with_region_access_def)

end
