(* ===== verification/Object_Decode.thy ===== *)
theory Object_Decode imports Target Cfg begin

text \<open>
  Reading an object container and decoding its code: \<open>semasm-obj/src/lib.rs\<close> and
  \<open>semasm-decode/src/lib.rs\<close>. The \<open>object\<close> crate and Capstone are parameters: the file a parser
  returned is a record of what the source asks of it, and a disassembler is a function from bytes and a
  base address to instructions or an error. Flags are words, addresses naturals below \<open>2 ^ 64\<close>.
\<close>

unbundle bit_operations_syntax

section \<open>What the object crate returns\<close>

datatype binary_format = BfElf | BfCoff | BfPe | BfMachO | BfOther

datatype object_kind = OkRelocatable | OkExecutable | OkDynamic | OkCore | OkOther

text \<open>An architecture the source does not name carries its \<open>Debug\<close> text.\<close>

datatype architecture = ArchX86_64 | ArchAarch64 | ArchRiscv64 | ArchRiscv32 | ArchOther string

datatype section_kind =
  SkText | SkData | SkReadOnlyData | SkUninitializedData | SkTls | SkTlsVariables | SkCommon | SkOther

datatype section_flags = FlagsElf "64 word" | FlagsCoff "32 word" | FlagsOther

datatype symbol_kind = YkText | YkData | YkSection | YkFile | YkLabel | YkTls | YkOther

datatype relocation_kind =
  RkRelative | RkGotRelative | RkGotBaseRelative | RkPltRelative | RkImageOffset | RkSectionOffset | RkOther

datatype relocation_target = RtSymbol nat | RtSection nat | RtAbsolute | RtOther

record raw_relocation =
  xr_offset :: nat
  xr_size :: nat
  xr_target :: relocation_target
  xr_kind :: relocation_kind
  xr_implicit_addend :: bool

record raw_section =
  rs_name :: "string option"
  rs_address :: nat
  rs_size :: nat
  rs_kind :: section_kind
  rs_flags :: section_flags
  rs_data :: "string + nat list"
  rs_relocations :: "raw_relocation list"

record raw_symbol =
  ry_name :: "string option"
  ry_address :: nat
  ry_kind :: symbol_kind
  ry_global :: bool
  ry_weak :: bool
  ry_undefined :: bool

record raw_object =
  ro_format :: binary_format
  ro_kind :: object_kind
  ro_architecture :: architecture
  ro_little_endian :: bool
  ro_entry :: nat
  ro_sections :: "raw_section list"
  ro_symbols :: "raw_symbol list"
  ro_dynamic_symbols :: "raw_symbol list"

section \<open>The normalised view\<close>

datatype object_error =
    ObjIo string string
  | Unrecognised string
  | ArchitectureMismatch string string

fun object_error_to_string :: "object_error \<Rightarrow> string" where
  "object_error_to_string (ObjIo path e) = ''io error reading `'' @ path @ ''`: '' @ e"
| "object_error_to_string (Unrecognised e) = ''unrecognised or unsupported object file: '' @ e"
| "object_error_to_string (ArchitectureMismatch actual expected) =
     ''architecture mismatch: object is `'' @ actual @ ''` but target requires `'' @ expected @ ''`''"

datatype container_format = CfElf | CfPe | CfMacho | CfUnknown

datatype container_kind = Relocatable | Executable | Dynamic | CoreDump | UnknownKind

text \<open>The \<open>Debug\<close> text of a kind.\<close>

fun container_kind_debug :: "container_kind \<Rightarrow> string" where
  "container_kind_debug Relocatable = ''Relocatable''"
| "container_kind_debug Executable = ''Executable''"
| "container_kind_debug Dynamic = ''Dynamic''"
| "container_kind_debug CoreDump = ''Core''"
| "container_kind_debug UnknownKind = ''Unknown''"

record section_info =
  si_name :: string
  si_address :: nat
  si_size :: nat
  si_kind :: string
  si_writable :: bool
  si_executable :: bool

record symbol_info =
  yi_name :: string
  yi_address :: nat
  yi_kind :: string
  yi_global :: bool
  yi_undefined :: bool

record relocation_info =
  ri_offset :: nat
  ri_size :: nat
  ri_target_symbol :: string
  ri_is_relative :: bool

record object_info =
  oi_format :: container_format
  oi_kind :: container_kind
  oi_architecture :: isa
  oi_architecture_raw :: string
  oi_endian :: string
  oi_entry :: nat
  oi_sections :: "section_info list"
  oi_symbols :: "symbol_info list"
  oi_relocations :: "relocation_info list"
  oi_imports :: "string list"
  oi_exports :: "string list"

record code_section =
  cs_name :: string
  cs_address :: nat
  cs_bytes :: "nat list"

definition name_or_empty :: "string option \<Rightarrow> string" where
  "name_or_empty n = (case n of Some s \<Rightarrow> s | None \<Rightarrow> [])"

section \<open>Code sections\<close>

fun collect_code :: "raw_section list \<Rightarrow> object_error + code_section list" where
  "collect_code [] = Inr []"
| "collect_code (s # rest) =
     (if rs_kind s \<noteq> SkText then collect_code rest
      else case rs_data s of
        Inl e \<Rightarrow> Inl (Unrecognised e)
      | Inr bytes \<Rightarrow>
          (case collect_code rest of
             Inl e \<Rightarrow> Inl e
           | Inr found \<Rightarrow>
               Inr (if bytes = [] then found
                    else \<lparr>cs_name = name_or_empty (rs_name s), cs_address = rs_address s, cs_bytes = bytes\<rparr> # found)))"

text \<open>\<open>sort_by\<close> the address and then the name; both sorts are stable.\<close>

definition sort_sections :: "code_section list \<Rightarrow> code_section list" where
  "sort_sections ss = sort_key cs_address (sort_key cs_name ss)"

definition code_sections :: "string + raw_object \<Rightarrow> object_error + code_section list" where
  "code_sections parsed =
     (case parsed of
        Inl e \<Rightarrow> Inl (Unrecognised e)
      | Inr file \<Rightarrow>
          (case collect_code (ro_sections file) of
             Inl e \<Rightarrow> Inl e
           | Inr sections \<Rightarrow> Inr (sort_sections sections)))"

section \<open>Mapping the container\<close>

fun map_format :: "binary_format \<Rightarrow> container_format" where
  "map_format BfElf = CfElf"
| "map_format BfCoff = CfPe"
| "map_format BfPe = CfPe"
| "map_format BfMachO = CfMacho"
| "map_format BfOther = CfUnknown"

fun map_kind :: "object_kind \<Rightarrow> container_kind" where
  "map_kind OkRelocatable = Relocatable"
| "map_kind OkExecutable = Executable"
| "map_kind OkDynamic = Dynamic"
| "map_kind OkCore = CoreDump"
| "map_kind OkOther = UnknownKind"

fun arch_raw_string :: "architecture \<Rightarrow> string" where
  "arch_raw_string ArchX86_64 = ''X86_64''"
| "arch_raw_string ArchAarch64 = ''Aarch64''"
| "arch_raw_string ArchRiscv64 = ''Riscv64''"
| "arch_raw_string ArchRiscv32 = ''Riscv32''"
| "arch_raw_string (ArchOther debug) = debug"

fun map_architecture :: "architecture \<Rightarrow> object_error + isa" where
  "map_architecture ArchX86_64 = Inr X86_64"
| "map_architecture ArchAarch64 = Inr AArch64"
| "map_architecture ArchRiscv64 = Inr Riscv64"
| "map_architecture ArchRiscv32 = Inr Riscv32"
| "map_architecture (ArchOther debug) = Inl (Unrecognised (''unsupported architecture: '' @ debug))"

text \<open>\<open>SHF_WRITE\<close>, \<open>SHF_EXECINSTR\<close>, \<open>IMAGE_SCN_MEM_WRITE\<close> and \<open>IMAGE_SCN_MEM_EXECUTE\<close>.\<close>

definition section_permissions :: "raw_section \<Rightarrow> bool \<times> bool" where
  "section_permissions s =
     (case rs_flags s of
        FlagsElf sh_flags \<Rightarrow> (sh_flags AND 1 \<noteq> 0, sh_flags AND 4 \<noteq> 0)
      | FlagsCoff characteristics \<Rightarrow> (characteristics AND 0x80000000 \<noteq> 0, characteristics AND 0x20000000 \<noteq> 0)
      | FlagsOther \<Rightarrow> (rs_kind s \<in> {SkData, SkUninitializedData, SkCommon, SkTls, SkTlsVariables}, rs_kind s = SkText))"

fun section_kind_name :: "section_kind \<Rightarrow> string" where
  "section_kind_name SkText = ''text''"
| "section_kind_name SkData = ''data''"
| "section_kind_name SkReadOnlyData = ''rodata''"
| "section_kind_name SkUninitializedData = ''bss''"
| "section_kind_name SkTls = ''tls''"
| "section_kind_name SkTlsVariables = ''tls_variables''"
| "section_kind_name SkCommon = ''common''"
| "section_kind_name SkOther = ''unknown''"

fun symbol_kind_name :: "symbol_kind \<Rightarrow> string" where
  "symbol_kind_name YkText = ''text''"
| "symbol_kind_name YkData = ''data''"
| "symbol_kind_name YkSection = ''section''"
| "symbol_kind_name YkFile = ''file''"
| "symbol_kind_name YkLabel = ''label''"
| "symbol_kind_name YkTls = ''tls''"
| "symbol_kind_name YkOther = ''unknown''"

definition is_reloc_relative :: "relocation_kind \<Rightarrow> bool" where
  "is_reloc_relative k \<longleftrightarrow> k \<noteq> RkOther"

section \<open>Parsing\<close>

definition section_info_of :: "raw_section \<Rightarrow> section_info" where
  "section_info_of s =
     (let (writable, executable) = section_permissions s in
      \<lparr>si_name = name_or_empty (rs_name s), si_address = rs_address s, si_size = rs_size s,
       si_kind = section_kind_name (rs_kind s), si_writable = writable, si_executable = executable\<rparr>)"

definition symbol_info_of :: "raw_symbol \<Rightarrow> symbol_info" where
  "symbol_info_of y =
     \<lparr>yi_name = name_or_empty (ry_name y), yi_address = ry_address y, yi_kind = symbol_kind_name (ry_kind y),
      yi_global = (ry_global y \<or> ry_weak y), yi_undefined = ry_undefined y\<rparr>"

definition symbol_step :: "raw_symbol \<Rightarrow> string list \<times> string list \<Rightarrow> string list \<times> string list" where
  "symbol_step y acc =
     (let (imports, exports) = acc; name = name_or_empty (ry_name y); visible = ry_global y \<or> ry_weak y in
      if ry_undefined y \<and> visible \<and> name \<noteq> [] \<and> name \<notin> set imports then (imports @ [name], exports)
      else if visible \<and> name \<noteq> [] \<and> \<not> ry_undefined y \<and> name \<notin> set exports then (imports, exports @ [name])
      else acc)"

definition symbol_names :: "raw_symbol list \<Rightarrow> string list \<times> string list" where
  "symbol_names ys = fold symbol_step ys ([], [])"

definition relocation_name :: "raw_symbol list \<Rightarrow> relocation_target \<Rightarrow> string" where
  "relocation_name ys t =
     (case t of
        RtSymbol i \<Rightarrow> if i < length ys \<and> name_or_empty (ry_name (ys ! i)) \<noteq> [] then name_or_empty (ry_name (ys ! i))
                      else ''<symbol '' @ show_nat i @ ''>''
      | RtSection i \<Rightarrow> ''<section '' @ show_nat i @ ''>''
      | RtAbsolute \<Rightarrow> ''<absolute>''
      | RtOther \<Rightarrow> ''<unknown>'')"

definition relocation_info_of :: "raw_symbol list \<Rightarrow> raw_relocation \<Rightarrow> relocation_info" where
  "relocation_info_of ys r =
     \<lparr>ri_offset = xr_offset r, ri_size = xr_size r, ri_target_symbol = relocation_name ys (xr_target r),
      ri_is_relative = (is_reloc_relative (xr_kind r) \<or> xr_implicit_addend r)\<rparr>"

definition parse_object :: "string + raw_object \<Rightarrow> object_error + object_info" where
  "parse_object parsed =
     (case parsed of
        Inl e \<Rightarrow> Inl (Unrecognised e)
      | Inr file \<Rightarrow>
          (case map_architecture (ro_architecture file) of
             Inl e \<Rightarrow> Inl e
           | Inr architecture \<Rightarrow>
               (let ys = ro_symbols file @ ro_dynamic_symbols file; (imports, exports) = symbol_names ys in
                Inr \<lparr>oi_format = map_format (ro_format file), oi_kind = map_kind (ro_kind file),
                     oi_architecture = architecture, oi_architecture_raw = arch_raw_string (ro_architecture file),
                     oi_endian = (if ro_little_endian file then ''little'' else ''big''), oi_entry = ro_entry file,
                     oi_sections = sort_key si_address (map section_info_of (ro_sections file)),
                     oi_symbols = sort_key yi_name (map symbol_info_of ys),
                     oi_relocations = sort_key ri_offset
                       (concat (map (\<lambda>s. map (relocation_info_of ys) (rs_relocations s)) (ro_sections file))),
                     oi_imports = sort imports, oi_exports = sort exports\<rparr>)))"

text \<open>A file: what reading its path gave (an \<open>io::Error\<close> or the bytes).\<close>

record file_read =
  fr_path :: string
  fr_content :: "string + nat list"

definition read_object :: "(nat list \<Rightarrow> string + raw_object) \<Rightarrow> file_read \<Rightarrow> object_error + object_info" where
  "read_object parser f =
     (case fr_content f of
        Inl e \<Rightarrow> Inl (ObjIo (fr_path f) e)
      | Inr bytes \<Rightarrow> parse_object (parser bytes))"

definition read_for_target :: "(nat list \<Rightarrow> string + raw_object) \<Rightarrow> file_read \<Rightarrow> target_identity \<Rightarrow> object_error + object_info" where
  "read_for_target parser f target =
     (case read_object parser f of
        Inl e \<Rightarrow> Inl e
      | Inr info \<Rightarrow>
          if oi_architecture info \<noteq> tisa target
          then Inl (ArchitectureMismatch (isa_to_string (oi_architecture info)) (isa_to_string (tisa target)))
          else Inr info)"

definition read_code_sections :: "(nat list \<Rightarrow> string + raw_object) \<Rightarrow> file_read \<Rightarrow> target_identity \<Rightarrow>
    object_error + code_section list" where
  "read_code_sections parser f target =
     (case fr_content f of
        Inl e \<Rightarrow> Inl (ObjIo (fr_path f) e)
      | Inr bytes \<Rightarrow>
          (case read_for_target parser f target of
             Inl e \<Rightarrow> Inl e
           | Inr _ \<Rightarrow> code_sections (parser bytes)))"

definition expected_format :: "target_identity \<Rightarrow> object_format" where
  "expected_format target = tformat target"

section \<open>Decoding\<close>

datatype decode_error = DecUnsupported string | InitFailed string | DisasmFailed string | DecEmptyInput

fun decode_error_to_string :: "decode_error \<Rightarrow> string" where
  "decode_error_to_string (DecUnsupported e) = ''decoding for this target is not supported in this build: '' @ e"
| "decode_error_to_string (InitFailed e) = ''disassembler initialisation failed: '' @ e"
| "decode_error_to_string (DisasmFailed e) = ''disassembly failed: '' @ e"
| "decode_error_to_string DecEmptyInput = ''empty input buffer''"

text \<open>An instruction as Capstone returns it; a register or group without a name is None. The engine
  either cannot be built, fails, or returns a list.\<close>

record raw_insn =
  ci_address :: nat
  ci_bytes :: "nat list"
  ci_mnemonic :: "string option"
  ci_op_str :: "string option"
  ci_detail :: "(string option list \<times> string option list \<times> string option list) option"

datatype engine_result = BuildError string | DisasmError string | Insns "raw_insn list"

type_synonym disassembler = "nat list \<Rightarrow> nat \<Rightarrow> engine_result"

definition split_operands :: "string \<Rightarrow> string list" where
  "split_operands op_str = (if op_str = [] then [] else map trim (split_char CHR '','' op_str))"

definition normalise_insn :: "raw_insn \<Rightarrow> physical_instruction" where
  "normalise_insn i =
     (let (reads, writes, groups) = (case ci_detail i of
          Some (r, w, g) \<Rightarrow> (filter_map (\<lambda>x. x) r, filter_map (\<lambda>x. x) w, filter_map (\<lambda>x. x) g)
        | None \<Rightarrow> ([], [], [])) in
      \<lparr>pi_address = ci_address i, pi_bytes = ci_bytes i, pi_mnemonic = name_or_empty (ci_mnemonic i),
       pi_operands = split_operands (name_or_empty (ci_op_str i)), pi_read_regs = reads, pi_write_regs = writes,
       pi_groups = groups, pi_detail_available = True\<rparr>)"

definition decode_x86_64_inner :: "disassembler \<Rightarrow> nat list \<Rightarrow> nat \<Rightarrow> decode_error + physical_instruction list" where
  "decode_x86_64_inner engine code base =
     (case engine code base of
        BuildError e \<Rightarrow> Inl (InitFailed e)
      | DisasmError e \<Rightarrow> Inl (DisasmFailed e)
      | Insns insns \<Rightarrow> Inr (map normalise_insn insns))"

definition decode_aarch64_inner :: "disassembler \<Rightarrow> nat list \<Rightarrow> nat \<Rightarrow> decode_error + physical_instruction list" where
  "decode_aarch64_inner engine code base =
     (case engine code base of
        BuildError e \<Rightarrow> Inl (InitFailed e)
      | DisasmError e \<Rightarrow> Inl (DisasmFailed e)
      | Insns insns \<Rightarrow> Inr (map normalise_insn insns))"

definition decode_riscv64_inner :: "disassembler \<Rightarrow> nat list \<Rightarrow> nat \<Rightarrow> decode_error + physical_instruction list" where
  "decode_riscv64_inner engine code base =
     (case engine code base of
        BuildError e \<Rightarrow> Inl (InitFailed e)
      | DisasmError e \<Rightarrow> Inl (DisasmFailed e)
      | Insns insns \<Rightarrow> Inr (map normalise_insn insns))"

definition decode_x86_64 :: "disassembler \<Rightarrow> nat list \<Rightarrow> nat \<Rightarrow> decode_error + physical_instruction list" where
  "decode_x86_64 engine code base = (if code = [] then Inl DecEmptyInput else decode_x86_64_inner engine code base)"

definition decode_aarch64 :: "disassembler \<Rightarrow> nat list \<Rightarrow> nat \<Rightarrow> decode_error + physical_instruction list" where
  "decode_aarch64 engine code base = (if code = [] then Inl DecEmptyInput else decode_aarch64_inner engine code base)"

definition decode_riscv64 :: "disassembler \<Rightarrow> nat list \<Rightarrow> nat \<Rightarrow> decode_error + physical_instruction list" where
  "decode_riscv64 engine code base = (if code = [] then Inl DecEmptyInput else decode_riscv64_inner engine code base)"

section \<open>Symbols\<close>

text \<open>A name the linker sees: a non-empty name of a global or weak symbol, undefined or defined.\<close>

definition visible_names :: "bool \<Rightarrow> raw_symbol list \<Rightarrow> string set" where
  "visible_names u ys = {name_or_empty (ry_name y) | y. y \<in> set ys \<and> (ry_global y \<or> ry_weak y) \<and>
     ry_undefined y = u \<and> name_or_empty (ry_name y) \<noteq> []}"

lemma visible_names_Cons:
  "visible_names u (y # ys) = (if (ry_global y \<or> ry_weak y) \<and> ry_undefined y = u \<and> name_or_empty (ry_name y) \<noteq> []
     then insert (name_or_empty (ry_name y)) (visible_names u ys) else visible_names u ys)"
  by (auto simp: visible_names_def)

lemma fold_symbol_step:
  "fold symbol_step ys (im, ex) = (i, e) \<Longrightarrow> distinct im \<Longrightarrow> distinct ex \<Longrightarrow>
   distinct i \<and> distinct e \<and> set i = set im \<union> visible_names True ys \<and> set e = set ex \<union> visible_names False ys"
proof (induction ys arbitrary: im ex)
  case Nil
  then show ?case by (simp add: visible_names_def)
next
  case (Cons y ys)
  obtain i' e' where step: "symbol_step y (im, ex) = (i', e')" by fastforce
  have "distinct i'" "distinct e'"
    using step Cons.prems(2,3) by (auto simp: symbol_step_def Let_def split: if_splits)
  moreover have "set i' \<union> visible_names True ys = set im \<union> visible_names True (y # ys)"
    "set e' \<union> visible_names False ys = set ex \<union> visible_names False (y # ys)"
    using step by (auto simp: symbol_step_def visible_names_Cons Let_def split: if_splits)
  ultimately show ?case using Cons.IH [of i' e'] Cons.prems(1) step by simp
qed

text \<open>The imports and exports of a parsed object, whatever the symbol table holds: each list is sorted and
  free of duplicates, the imports are exactly the names of the undefined visible symbols of both tables,
  the exports exactly those of the defined ones.\<close>

theorem object_symbols_exact:
  assumes "parse_object (Inr file) = Inr info"
  shows "set (oi_imports info) = visible_names True (ro_symbols file @ ro_dynamic_symbols file) \<and>
    set (oi_exports info) = visible_names False (ro_symbols file @ ro_dynamic_symbols file) \<and>
    distinct (oi_imports info) \<and> distinct (oi_exports info) \<and> sorted (oi_imports info) \<and> sorted (oi_exports info)"
proof -
  obtain i e where names: "symbol_names (ro_symbols file @ ro_dynamic_symbols file) = (i, e)" by fastforce
  have "oi_imports info = sort i" "oi_exports info = sort e"
    using assms names by (auto simp: parse_object_def Let_def split: sum.splits)
  then show ?thesis using fold_symbol_step [OF names [unfolded symbol_names_def]] by simp
qed

theorem object_symbols_exact_witness:
  "set (oi_exports (projr (parse_object (Inr \<lparr>ro_format = BfElf, ro_kind = OkRelocatable, ro_architecture = ArchX86_64,
     ro_little_endian = True, ro_entry = 0, ro_sections = [],
     ro_symbols = [\<lparr>ry_name = Some ''f'', ry_address = 0, ry_kind = YkText, ry_global = False, ry_weak = True, ry_undefined = False\<rparr>,
       \<lparr>ry_name = Some ''g'', ry_address = 0, ry_kind = YkText, ry_global = False, ry_weak = False, ry_undefined = False\<rparr>],
     ro_dynamic_symbols = []\<rparr>)))) = {''f''}"
proof -
  let ?file = "\<lparr>ro_format = BfElf, ro_kind = OkRelocatable, ro_architecture = ArchX86_64,
     ro_little_endian = True, ro_entry = 0, ro_sections = [],
     ro_symbols = [\<lparr>ry_name = Some ''f'', ry_address = 0, ry_kind = YkText, ry_global = False, ry_weak = True, ry_undefined = False\<rparr>,
       \<lparr>ry_name = Some ''g'', ry_address = 0, ry_kind = YkText, ry_global = False, ry_weak = False, ry_undefined = False\<rparr>],
     ro_dynamic_symbols = []\<rparr>"
  have "\<not> isl (parse_object (Inr ?file))" by code_simp
  then obtain info where info: "parse_object (Inr ?file) = Inr info" by (cases "parse_object (Inr ?file)") auto
  have "visible_names False (ro_symbols ?file @ ro_dynamic_symbols ?file) = {''f''}"
    by (simp add: visible_names_Cons name_or_empty_def) (simp add: visible_names_def)
  then show ?thesis using object_symbols_exact [OF info] info by simp
qed

section \<open>Code\<close>

lemma collect_code_set:
  "collect_code ss = Inr found \<Longrightarrow>
   set found = {\<lparr>cs_name = name_or_empty (rs_name s), cs_address = rs_address s, cs_bytes = bytes\<rparr> | s bytes.
     s \<in> set ss \<and> rs_kind s = SkText \<and> rs_data s = Inr bytes \<and> bytes \<noteq> []}"
proof (induction ss arbitrary: found)
  case (Cons s rest)
  show ?case
  proof (cases "rs_kind s = SkText")
    case True
    with Cons.prems obtain bytes r where b: "rs_data s = Inr bytes" and r: "collect_code rest = Inr r"
      by (auto split: sum.splits)
    with True Cons.prems have "found = (if bytes = [] then r
        else \<lparr>cs_name = name_or_empty (rs_name s), cs_address = rs_address s, cs_bytes = bytes\<rparr> # r)" by simp
    then show ?thesis using Cons.IH [OF r] True b by (cases "bytes = []") auto
  next
    case False
    then show ?thesis using Cons.IH [of found] Cons.prems by auto
  qed
qed simp

lemma sort_sections_facts: "set (sort_sections ss) = set ss" "sorted (map cs_address (sort_sections ss))"
  by (simp_all add: sort_sections_def)

text \<open>The code that is decoded is that of the sections whose kind is text, and of no other: a section
  whose flags make it executable and whose kind is another one is reported executable and left out.\<close>

lemma executable_data_not_decoded:
  "\<exists>file info. parse_object (Inr file) = Inr info \<and> code_sections (Inr file) = Inr [] \<and>
     list_ex si_executable (oi_sections info) \<and> \<not> list_ex (\<lambda>s. si_writable s \<and> si_executable s) (oi_sections info)"
proof -
  let ?file = "\<lparr>ro_format = BfElf, ro_kind = OkRelocatable, ro_architecture = ArchX86_64, ro_little_endian = True,
    ro_entry = 0, ro_sections = [\<lparr>rs_name = Some ''.init'', rs_address = 0, rs_size = 1, rs_kind = SkOther,
      rs_flags = FlagsElf 6, rs_data = Inr [195], rs_relocations = []\<rparr>], ro_symbols = [], ro_dynamic_symbols = []\<rparr>"
  show ?thesis
    by (intro exI [of _ ?file] exI [of _ "projr (parse_object (Inr ?file))"])
      (simp add: parse_object_def code_sections_def symbol_names_def section_info_of_def section_permissions_def
        name_or_empty_def sort_sections_def)
qed

end
