(* ===== verification/Abi_Messages.thy ===== *)
theory Abi_Messages imports Win64_Abi A64_Abi Rv_Abi begin

text \<open>
  The text of the ABI findings: codes, severities and messages of \<open>semasm-x86/src/abi.rs\<close>,
  \<open>abi_win64.rs\<close>, \<open>semasm-aarch64/src/abi.rs\<close> and \<open>semasm-riscv/src/abi.rs\<close>. The analyses keep the
  values a message prints; here they are printed.
\<close>

fun severity_str :: "severity \<Rightarrow> string" where
  "severity_str SevError = ''error''"
| "severity_str SevWarning = ''warning''"
| "severity_str SevInfo = ''info''"

text \<open>\<open>{:?}\<close> of a register.\<close>

fun gp_debug :: "gp \<Rightarrow> string" where
  "gp_debug Rax = ''Rax''" | "gp_debug Rbx = ''Rbx''" | "gp_debug Rcx = ''Rcx''" | "gp_debug Rdx = ''Rdx''"
| "gp_debug Rsi = ''Rsi''" | "gp_debug Rdi = ''Rdi''" | "gp_debug Rsp = ''Rsp''" | "gp_debug Rbp = ''Rbp''"
| "gp_debug R8 = ''R8''" | "gp_debug R9 = ''R9''" | "gp_debug R10 = ''R10''" | "gp_debug R11 = ''R11''"
| "gp_debug R12 = ''R12''" | "gp_debug R13 = ''R13''" | "gp_debug R14 = ''R14''" | "gp_debug R15 = ''R15''"

definition a64_gp_debug :: "a64_gp \<Rightarrow> string" where
  "a64_gp_debug g = (if g = AFp then ''Fp'' else if g = ALr then ''Lr'' else if g = AZr then ''Zr'' else CHR ''X'' # show_nat (a64_index g))"

definition gpr_debug :: "gpr \<Rightarrow> string" where
  "gpr_debug g = (case abi_name g of [] \<Rightarrow> [] | c # s \<Rightarrow> to_ascii_uppercase [c] @ s)"

definition at_text :: "nat option \<Rightarrow> string" where
  "at_text at = (case at of Some i \<Rightarrow> show_nat i | None \<Rightarrow> [])"

definition rip_index_message :: "nat option \<Rightarrow> string" where
  "rip_index_message at = ''memory operand at index '' @ at_text at @ '' uses RIP base with an index '' @
     ''register (NASM cannot encode RIP-relative+index; typical AV)''"

section \<open>System V AMD64\<close>

fun sysv_code :: "finding_code \<Rightarrow> string" where
  "sysv_code (STACK_ALIGN_CALL _ _) = ''STACK_ALIGN_CALL''"
| "sysv_code (STACK_BALANCE_RET _) = ''STACK_BALANCE_RET''"
| "sysv_code (CALLEE_SAVED_NOT_PRESERVED _) = ''CALLEE_SAVED_NOT_PRESERVED''"
| "sysv_code (CALLEE_SAVED_NOT_RESTORED _) = ''CALLEE_SAVED_NOT_RESTORED''"
| "sysv_code RIP_INDEX = ''RIP_INDEX''"
| "sysv_code (CALLER_SAVED _) = ''CALLER_SAVED''"
| "sysv_code (RED_ZONE_NON_LEAF _) = ''RED_ZONE_NON_LEAF''"

primrec sysv_message :: "finding_code \<Rightarrow> nat option \<Rightarrow> string" where
  "sysv_message (STACK_ALIGN_CALL align delta) at =
     ''call at index '' @ at_text at @ '': RSP is '' @ show_int align @ ''-byte aligned (delta '' @ show_int delta @ ''); '' @
     ''System V requires 16-byte alignment at every call site''"
| "sysv_message (STACK_BALANCE_RET delta) at =
     ''ret at index '' @ at_text at @ '': RSP delta is '' @ show_int delta @ '', expected 0; '' @
     ''the stack must be balanced before returning''"
| "sysv_message (CALLEE_SAVED_NOT_PRESERVED g) at =
     ''nonvolatile register '' @ gp_debug g @ '' is written but never pushed in the '' @
     ''prologue; System V requires callee-saved registers to be preserved''"
| "sysv_message (CALLEE_SAVED_NOT_RESTORED g) at =
     ''nonvolatile register '' @ gp_debug g @ '' is written but never popped in the '' @
     ''epilogue; System V requires callee-saved registers to be restored''"
| "sysv_message RIP_INDEX at = rip_index_message at"
| "sysv_message (CALLER_SAVED g) at =
     ''register '' @ gp_debug g @ '' read at index '' @ at_text at @ '' after call/syscall clobber '' @
     ''without redefine (SysV volatile; prefer RBX/R12+ for live counters)''"
| "sysv_message (RED_ZONE_NON_LEAF disp) at =
     ''function performs a call yet accesses the red zone at displacement '' @ show_int disp @
     '' (RSP-relative, below the stack pointer); the red zone is clobbered by calls and may only be used by leaf functions''"

section \<open>Microsoft x64\<close>

fun win_code_str :: "win_code \<Rightarrow> string" where
  "win_code_str (WIN_STACK_ALIGN_CALL _ _) = ''STACK_ALIGN_CALL''"
| "win_code_str (WIN_SHADOW_SPACE_MISSING _) = ''SHADOW_SPACE_MISSING''"
| "win_code_str (WIN_STACK_BALANCE_RET _) = ''STACK_BALANCE_RET''"
| "win_code_str (WIN_CALLEE_SAVED_NOT_PRESERVED _) = ''CALLEE_SAVED_NOT_PRESERVED''"
| "win_code_str (WIN_CALLEE_SAVED_NOT_RESTORED _) = ''CALLEE_SAVED_NOT_RESTORED''"
| "win_code_str WIN_RIP_INDEX = ''RIP_INDEX''"
| "win_code_str (WIN_RED_ZONE_NOT_ALLOWED _) = ''RED_ZONE_NOT_ALLOWED''"

primrec win_message :: "win_code \<Rightarrow> nat option \<Rightarrow> string" where
  "win_message (WIN_STACK_ALIGN_CALL align delta) at =
     ''call at index '' @ at_text at @ '': RSP is '' @ show_int align @ ''-byte aligned (delta '' @ show_int delta @ ''); '' @
     ''the Microsoft x64 ABI requires 16-byte alignment immediately before every call''"
| "win_message (WIN_SHADOW_SPACE_MISSING delta) at =
     ''call at index '' @ at_text at @ '': only '' @ show_int delta @ '' bytes of stack reserved '' @
     ''since entry, expected at least the '' @ show_int shadow_bytes @ ''-byte shadow store for the Microsoft x64 ABI''"
| "win_message (WIN_STACK_BALANCE_RET delta) at =
     ''ret at index '' @ at_text at @ '': RSP delta is '' @ show_int delta @ '', expected 0; '' @
     ''the stack must be balanced before returning''"
| "win_message (WIN_CALLEE_SAVED_NOT_PRESERVED g) at =
     ''nonvolatile register '' @ gp_debug g @ '' is written but never pushed in the '' @
     ''prologue; the Microsoft x64 ABI requires callee-saved registers to be preserved''"
| "win_message (WIN_CALLEE_SAVED_NOT_RESTORED g) at =
     ''nonvolatile register '' @ gp_debug g @ '' is written but never popped in the '' @
     ''epilogue; the Microsoft x64 ABI requires callee-saved registers to be restored''"
| "win_message WIN_RIP_INDEX at = rip_index_message at"
| "win_message (WIN_RED_ZONE_NOT_ALLOWED disp) at =
     ''function accesses RSP-relative memory at displacement '' @ show_int disp @
     '' below the stack pointer; the Microsoft x64 ABI has no red zone and such accesses are unsafe across calls''"

section \<open>AAPCS64\<close>

fun a64_code_str :: "a64_code \<Rightarrow> string" where
  "a64_code_str (A64_STACK_ALIGN_CALL _ _) = ''STACK_ALIGN_CALL''"
| "a64_code_str (A64_STACK_BALANCE_RET _) = ''STACK_BALANCE_RET''"
| "a64_code_str (A64_CALLEE_SAVED_NOT_PRESERVED _) = ''CALLEE_SAVED_NOT_PRESERVED''"
| "a64_code_str (A64_CALLEE_SAVED_NOT_RESTORED _) = ''CALLEE_SAVED_NOT_RESTORED''"
| "a64_code_str A64_LR_CLOBBERED_NON_LEAF = ''LR_CLOBBERED_NON_LEAF''"

primrec a64_message :: "a64_code \<Rightarrow> nat option \<Rightarrow> string" where
  "a64_message (A64_STACK_ALIGN_CALL align delta) at =
     ''bl at index '' @ at_text at @ '': SP is '' @ show_int align @ ''-byte aligned (delta '' @ show_int delta @ ''); '' @
     ''AAPCS64 requires 16-byte alignment at every call''"
| "a64_message (A64_STACK_BALANCE_RET delta) at =
     ''ret at index '' @ at_text at @ '': SP delta is '' @ show_int delta @ '', expected 0; '' @
     ''the stack must be balanced before returning''"
| "a64_message (A64_CALLEE_SAVED_NOT_PRESERVED g) at =
     ''nonvolatile register '' @ a64_gp_debug g @ '' is written but never saved in the '' @
     ''prologue; AAPCS64 requires callee-saved registers to be preserved''"
| "a64_message (A64_CALLEE_SAVED_NOT_RESTORED g) at =
     ''nonvolatile register '' @ a64_gp_debug g @ '' is written but never restored in the '' @
     ''epilogue; AAPCS64 requires callee-saved registers to be restored''"
| "a64_message A64_LR_CLOBBERED_NON_LEAF at =
     ''function performs a `bl` (non-leaf) and writes LR (X30) without saving it in the prologue; '' @
     ''AAPCS64 requires LR to be preserved across calls''"

section \<open>RISC-V LP64\<close>

fun rv_code_str :: "rv_code \<Rightarrow> string" where
  "rv_code_str (RV_STACK_ALIGN_CALL _ _) = ''STACK_ALIGN_CALL''"
| "rv_code_str (RV_STACK_BALANCE_RET _) = ''STACK_BALANCE_RET''"
| "rv_code_str (RV_CALLEE_SAVED_NOT_PRESERVED _) = ''CALLEE_SAVED_NOT_PRESERVED''"
| "rv_code_str (RV_CALLEE_SAVED_NOT_RESTORED _) = ''CALLEE_SAVED_NOT_RESTORED''"
| "rv_code_str RV_RA_CLOBBERED_NON_LEAF = ''RA_CLOBBERED_NON_LEAF''"

primrec rv_message :: "rv_code \<Rightarrow> nat option \<Rightarrow> string" where
  "rv_message (RV_STACK_ALIGN_CALL align delta) at =
     ''call at index '' @ at_text at @ '': SP is '' @ show_int align @ ''-byte aligned (delta '' @ show_int delta @ ''); '' @
     ''LP64 requires 16-byte alignment at every call''"
| "rv_message (RV_STACK_BALANCE_RET delta) at =
     ''ret at index '' @ at_text at @ '': SP delta is '' @ show_int delta @ '', expected 0; '' @
     ''the stack must be balanced before returning''"
| "rv_message (RV_CALLEE_SAVED_NOT_PRESERVED g) at =
     ''nonvolatile register '' @ gpr_debug g @ '' is written but never saved in the '' @
     ''prologue; LP64 requires callee-saved registers to be preserved''"
| "rv_message (RV_CALLEE_SAVED_NOT_RESTORED g) at =
     ''nonvolatile register '' @ gpr_debug g @ '' is written but never restored in the '' @
     ''epilogue; LP64 requires callee-saved registers to be restored''"
| "rv_message RV_RA_CLOBBERED_NON_LEAF at =
     ''function performs a call (non-leaf) and writes RA (x1) without saving it in the prologue; '' @
     ''LP64 requires RA to be preserved across calls''"

end
