(* ===== verification/Semantic_Gates.thy ===== *)
theory Semantic_Gates imports Verify_Report Object_Decode Abi_Messages Memory_Effects Affine_Effects begin

text \<open>
  The semantic gates of agent verification: \<open>semasm-cli/src/commands.rs\<close>, from the candidate object to
  the gate snapshot. A candidate passes the object policy, every byte of its code is decoded, every
  instruction is lowered, the ABI analysis is clean, no system call is requested, control flow is direct,
  and a read-only buffer leaf contains no store; the memory evidence is collected on the way. The object
  parser and the three disassemblers are parameters.
\<close>

record tooling =
  tl_parse :: "nat list \<Rightarrow> string + raw_object"
  tl_x86_64 :: disassembler
  tl_aarch64 :: disassembler
  tl_riscv64 :: disassembler

definition check_executable_object :: "tooling \<Rightarrow> file_read \<Rightarrow> target_identity \<Rightarrow> executable_gate \<times> string option" where
  "check_executable_object tk executable identity =
     (case read_for_target (tl_parse tk) executable identity of
        Inr info \<Rightarrow>
          if oi_kind info = Executable then (executable_passed, None)
          else (executable_failed, Some (''produced '' @ container_kind_debug (oi_kind info) @ '' container''))
      | Inl e \<Rightarrow> (executable_failed, Some (object_error_to_string e)))"

definition semantic_gates_passed :: "nat \<Rightarrow> coverage \<Rightarrow> coverage \<Rightarrow> semantic_gates" where
  "semantic_gates_passed code_bytes decode lowering =
     \<lparr>sg_object_policy = GPassed, sg_executable_bytes = code_bytes, sg_decode = decode, sg_lowering = lowering,
      sg_abi = GPassed, sg_capability = GPassed, sg_control = GPassed, sg_memory = GPassed\<rparr>"

section \<open>Target and object policy\<close>

definition supported_target :: "target_identity \<Rightarrow> bool" where
  "supported_target t \<longleftrightarrow> (tisa t, tabi t, tformat t) \<in>
     {(X86_64, SysVAmd64, Elf), (X86_64, WindowsX64, PeCoff), (AArch64, Aapcs64, Elf), (Riscv64, Riscv, Elf)}"

definition require_semantic_target :: "target_identity \<Rightarrow> semantic_gate_error + unit" where
  "require_semantic_target identity =
     (if \<not> supported_target identity
      then Inl (gate_error ''target'' (''agent verification currently has complete semantic gates for '' @
             ''x86_64 SysV ELF, x86_64 Win64 PE, AArch64 Linux ELF, and RV64 Linux ELF, not `'' @ tname identity @ ''`''))
      else Inr ())"

definition check_candidate_object_policy :: "tooling \<Rightarrow> file_read \<Rightarrow> target_identity \<Rightarrow> string \<Rightarrow> semantic_gate_error + unit" where
  "check_candidate_object_policy tk object identity routine_symbol =
     (case read_for_target (tl_parse tk) object identity of
        Inl e \<Rightarrow> Inl (gate_error ''object'' (object_error_to_string e))
      | Inr info \<Rightarrow>
          if oi_kind info \<noteq> Relocatable
          then Inl (gate_error ''object'' (''candidate must be relocatable, found '' @ container_kind_debug (oi_kind info)))
          else if routine_symbol \<notin> set (oi_exports info)
          then Inl (gate_error ''object'' (''required routine symbol `'' @ routine_symbol @ ''` is not exported''))
          else if oi_imports info \<noteq> []
          then Inl (gate_error ''object'' (''candidate has forbidden external capabilities/imports: '' @
                 join_with '', '' (oi_imports info)))
          else let wx = map si_name (filter (\<lambda>s. si_writable s \<and> si_executable s) (oi_sections info)) in
            if wx \<noteq> []
            then Inl (gate_error ''object'' (''candidate has forbidden writable+executable section(s): '' @ join_with '', '' wx))
            else Inr ())"

section \<open>Decoding and lowering\<close>

datatype decode_isa = DecX86_64 | DecAArch64 | DecRiscv64

fun decode_for :: "tooling \<Rightarrow> decode_isa \<Rightarrow> nat list \<Rightarrow> nat \<Rightarrow> decode_error + physical_instruction list" where
  "decode_for tk DecX86_64 = decode_x86_64 (tl_x86_64 tk)"
| "decode_for tk DecAArch64 = decode_aarch64 (tl_aarch64 tk)"
| "decode_for tk DecRiscv64 = decode_riscv64 (tl_riscv64 tk)"

fun decode_sections :: "tooling \<Rightarrow> decode_isa \<Rightarrow> code_section list \<Rightarrow> semantic_gate_error + physical_instruction list" where
  "decode_sections tk i [] = Inr []"
| "decode_sections tk i (s # rest) =
     (case decode_for tk i (cs_bytes s) (cs_address s) of
        Inl e \<Rightarrow> Inl (gate_error ''decode'' (''decode failed for '' @ cs_name s @ '': '' @ decode_error_to_string e))
      | Inr decoded \<Rightarrow>
          (case decode_sections tk i rest of
             Inl e \<Rightarrow> Inl e
           | Inr physical \<Rightarrow> Inr (decoded @ physical)))"

definition byte_count :: "physical_instruction list \<Rightarrow> nat" where
  "byte_count physical = sum_list (map (\<lambda>p. length (pi_bytes p)) physical)"

definition section_bytes :: "code_section list \<Rightarrow> nat" where
  "section_bytes sections = sum_list (map (\<lambda>s. length (cs_bytes s)) sections)"

definition decode_candidate_code :: "tooling \<Rightarrow> file_read \<Rightarrow> target_identity \<Rightarrow> decode_isa \<Rightarrow>
    semantic_gate_error + physical_instruction list \<times> nat" where
  "decode_candidate_code tk object identity i =
     (case read_code_sections (tl_parse tk) object identity of
        Inl e \<Rightarrow> Inl (gate_error ''object'' (object_error_to_string e))
      | Inr sections \<Rightarrow>
          if sections = [] then Inl (gate_error ''object'' ''candidate contains no executable code section'')
          else case decode_sections tk i sections of
            Inl e \<Rightarrow> Inl e
          | Inr physical \<Rightarrow>
              if byte_count physical \<noteq> section_bytes sections
              then Inl (gate_error ''decode'' (''decode coverage incomplete: decoded '' @ show_nat (byte_count physical) @ '' of '' @
                     show_nat (section_bytes sections) @ '' executable bytes''))
              else Inr (physical, section_bytes sections))"

definition lowering_error :: "coverage \<Rightarrow> nat \<Rightarrow> nat \<Rightarrow> string \<Rightarrow> nat \<Rightarrow> semantic_gate_error" where
  "lowering_error decode_coverage address modeled mnemonic all =
     \<lparr>ge_stage = ''lowering'',
      ge_message = ''lowering coverage incomplete at '' @ show_hex address @ '': unsupported `'' @ mnemonic @ ''`'',
      ge_decode = Some decode_coverage,
      ge_lowering = Some \<lparr>cov_total = all, cov_modeled = modeled, cov_unknown = all - modeled\<rparr>, ge_findings = []\<rparr>"

text \<open>The three loops differ in the lowering they call, whose result they match on: what it lowered, or the
  mnemonic it does not support.\<close>

fun lower_from :: "(physical_instruction \<Rightarrow> string + 'l) \<Rightarrow> coverage \<Rightarrow> nat \<Rightarrow> 'l list \<Rightarrow> physical_instruction list \<Rightarrow>
    semantic_gate_error + 'l list" where
  "lower_from low dec all lowered [] = Inr lowered"
| "lower_from low dec all lowered (p # rest) =
     (case low p of
        Inr l \<Rightarrow> lower_from low dec all (lowered @ [l]) rest
      | Inl mnemonic \<Rightarrow> Inl (lowering_error dec (pi_address p) (length lowered) mnemonic all))"

definition lower_x86_instructions :: "physical_instruction list \<Rightarrow> coverage \<Rightarrow> semantic_gate_error + lowered_instr list" where
  "lower_x86_instructions physical dec =
     lower_from (\<lambda>p. case lower p of Lowered l \<Rightarrow> Inr l | Unsupported mnemonic \<Rightarrow> Inl mnemonic) dec (length physical) [] physical"

definition lower_aarch64_instructions :: "physical_instruction list \<Rightarrow> coverage \<Rightarrow> semantic_gate_error + a64_instr list" where
  "lower_aarch64_instructions physical dec =
     lower_from (\<lambda>p. case a64_lower p of ALowered l \<Rightarrow> Inr l | AUnsupported mnemonic \<Rightarrow> Inl mnemonic) dec (length physical) [] physical"

definition lower_riscv_instructions :: "physical_instruction list \<Rightarrow> coverage \<Rightarrow> semantic_gate_error + rv_instr list" where
  "lower_riscv_instructions physical dec =
     lower_from (\<lambda>p. case rv_lower p of RLowered l \<Rightarrow> Inr l | RUnsupported mnemonic \<Rightarrow> Inl mnemonic) dec (length physical) [] physical"

section \<open>ABI and capability\<close>

definition covered_error :: "string \<Rightarrow> string \<Rightarrow> coverage \<Rightarrow> coverage \<Rightarrow> report_finding list \<Rightarrow> semantic_gate_error" where
  "covered_error stage message dec low findings =
     \<lparr>ge_stage = stage, ge_message = message, ge_decode = Some dec, ge_lowering = Some low, ge_findings = findings\<rparr>"

definition report_finding_new :: "string \<Rightarrow> string \<Rightarrow> string \<Rightarrow> nat option \<Rightarrow> report_finding" where
  "report_finding_new code sev message at = \<lparr>rf_code = code, rf_severity = sev, rf_message = message, rf_at = at\<rparr>"

definition sysv_report_finding :: "abi_finding \<Rightarrow> report_finding" where
  "sysv_report_finding f =
     report_finding_new (sysv_code (af_code f)) (severity_str (af_severity f)) (sysv_message (af_code f) (af_at f)) (af_at f)"

definition win_report_finding :: "win_finding \<Rightarrow> report_finding" where
  "win_report_finding f =
     report_finding_new (win_code_str (wf_code f)) (severity_str (wf_severity f)) (win_message (wf_code f) (wf_at f)) (wf_at f)"

definition syscall_message :: string where
  "syscall_message = ''candidate requests the forbidden syscall capability''"

definition check_x86_abi_capability :: "lowered_instr list \<Rightarrow> abi \<Rightarrow> coverage \<Rightarrow> coverage \<Rightarrow>
    semantic_gate_error + report_finding list" where
  "check_x86_abi_capability lowered a dec low =
     (case a of
        SysVAmd64 \<Rightarrow>
          (let report = analyze lowered; findings = map sysv_report_finding (abr_findings report) in
           if \<not> is_clean report
           then Inl (covered_error ''abi'' (''System V ABI verification failed: '' @
                  join_with ''; '' (map (\<lambda>f. sysv_code (af_code f) @ '': '' @ sysv_message (af_code f) (af_at f))
                    (filter (\<lambda>f. af_severity f = SevError) (abr_findings report)))) dec low findings)
           else if abr_has_syscall report then Inl (covered_error ''capability'' syscall_message dec low findings)
           else Inr findings)
      | WindowsX64 \<Rightarrow>
          (let report = win_analyze lowered; findings = map win_report_finding (wr_findings report) in
           if \<not> win_is_clean report
           then Inl (covered_error ''abi'' (''Microsoft x64 ABI verification failed: '' @
                  join_with ''; '' (map (\<lambda>f. win_code_str (wf_code f) @ '': '' @ win_message (wf_code f) (wf_at f))
                    (filter (\<lambda>f. wf_severity f = SevError) (wr_findings report)))) dec low findings)
           else if list_ex (\<lambda>ins. li_mnemonic ins = ''syscall'') lowered
           then Inl (covered_error ''capability'' syscall_message dec low findings)
           else Inr findings)
      | _ \<Rightarrow> Inl (gate_error ''abi'' (''unexpected x86 ABI `'' @ abi_to_string a @ ''`'')))"

definition check_aarch64_abi_capability :: "a64_instr list \<Rightarrow> coverage \<Rightarrow> coverage \<Rightarrow> semantic_gate_error + unit" where
  "check_aarch64_abi_capability lowered dec low =
     (let report = a64_analyze lowered in
      if \<not> a64_is_clean report
      then Inl (covered_error ''abi'' (''AAPCS64 ABI verification failed: '' @
             join_with ''; '' (map (\<lambda>f. a64_code_str (a64f_code f) @ '': '' @ a64_message (a64f_code f) (a64f_at f))
               (a64r_findings report))) dec low [])
      else if list_ex (\<lambda>ins. al_mnemonic ins \<in> {''svc'', ''hvc'', ''smc''}) lowered
      then Inl (covered_error ''capability'' ''candidate requests a forbidden AArch64 privilege/syscall capability'' dec low [])
      else Inr ())"

definition check_riscv_abi_capability :: "rv_instr list \<Rightarrow> coverage \<Rightarrow> coverage \<Rightarrow> semantic_gate_error + unit" where
  "check_riscv_abi_capability lowered dec low =
     (let report = rv_analyze lowered in
      if \<not> rv_is_clean report
      then Inl (covered_error ''abi'' (''RISC-V LP64 ABI verification failed: '' @
             join_with ''; '' (map (\<lambda>f. rv_code_str (rvf_code f) @ '': '' @ rv_message (rvf_code f) (rvf_at f))
               (rvr_findings report))) dec low [])
      else if list_ex (\<lambda>ins. rl_mnemonic ins = ''ecall'' \<or> rl_mnemonic ins = ''ebreak'' \<or>
          strip_prefix ''csr'' (rl_mnemonic ins) \<noteq> None) lowered
      then Inl (covered_error ''capability'' ''candidate requests a forbidden RISC-V privilege/CSR capability'' dec low [])
      else Inr ())"

section \<open>Control flow\<close>

fun cfg_error_to_string :: "cfg_error \<Rightarrow> string" where
  "cfg_error_to_string EmptyInput = ''cannot build a CFG from zero instructions''"

definition leaf_terminator_error :: "physical_instruction \<Rightarrow> string option" where
  "leaf_terminator_error p =
     (case classify_instruction p of
        EndIndirect \<Rightarrow> Some (''leaf control-flow policy rejected indirect branch at '' @ show_hex (pi_address p))
      | EndUnknown \<Rightarrow> Some (''leaf control-flow policy rejected unknown terminator at '' @ show_hex (pi_address p))
      | EndCall _ None \<Rightarrow> Some (''leaf control-flow policy rejected indirect call at '' @ show_hex (pi_address p))
      | _ \<Rightarrow> None)"

definition leaf_block_error :: "block \<Rightarrow> string option" where
  "leaf_block_error b =
     (case b_end b of
        UnconditionalBranch None address \<Rightarrow>
          if address \<noteq> 0
          then Some (''leaf control-flow policy rejected incomplete jump from '' @ show_hex (b_end_address b) @ '' to '' @ show_hex address)
          else None
      | ConditionalBranch None taken_address \<Rightarrow>
          if taken_address \<noteq> 0
          then Some (''leaf control-flow policy rejected incomplete conditional from '' @ show_hex (b_end_address b) @ '' to '' @
                 show_hex taken_address)
          else None
      | EndIndirect \<Rightarrow> Some (''leaf control-flow policy rejected non-direct terminator at '' @ show_hex (b_end_address b))
      | EndUnknown \<Rightarrow> Some (''leaf control-flow policy rejected non-direct terminator at '' @ show_hex (b_end_address b))
      | _ \<Rightarrow> None)"

definition check_cfg_leaf :: "physical_instruction list \<Rightarrow> coverage \<Rightarrow> coverage \<Rightarrow> semantic_gate_error + unit" where
  "check_cfg_leaf physical dec low =
     (case find_map leaf_terminator_error physical of
        Some m \<Rightarrow> Inl (covered_error ''cfg'' m dec low [])
      | None \<Rightarrow>
          (case build physical of
             Inl e \<Rightarrow> Inl (covered_error ''cfg'' (''CFG build failed: '' @ cfg_error_to_string e) dec low [])
           | Inr cfg \<Rightarrow>
               (case find_map leaf_block_error (g_blocks cfg) of
                  Some m \<Rightarrow> Inl (covered_error ''cfg'' m dec low [])
                | None \<Rightarrow> Inr ())))"

section \<open>Stores of a read-only leaf\<close>

definition x86_store_mnemonics :: "string list" where
  "x86_store_mnemonics = [''mov'', ''movabs'', ''xchg'', ''add'', ''sub'', ''adc'', ''sbb'', ''and'', ''or'', ''xor'', ''inc'', ''dec'',
     ''not'', ''neg'', ''shl'', ''shr'', ''sal'', ''sar'', ''rol'', ''ror'', ''stosb'', ''stosw'', ''stosd'', ''stosq'']"

definition is_x86_explicit_memory_write :: "lowered_instr \<Rightarrow> bool" where
  "is_x86_explicit_memory_write ins =
     (case li_operands ins of
        OMem mem # _ \<Rightarrow>
          if (case mo_base mem of Some b \<Rightarrow> r_storage b = SGp Rbp | None \<Rightarrow> False) \<and> mo_index mem = None then False
          else to_ascii_lowercase (li_mnemonic ins) \<in> set x86_store_mnemonics
      | _ \<Rightarrow> False)"

definition a64_stack_spill :: "a64_mem \<Rightarrow> bool" where
  "a64_stack_spill mem =
     (case am_base mem of
        Some b \<Rightarrow> ag_storage b = ASp \<or> ag_storage b = AGp AFp \<and> am_index mem = None
      | None \<Rightarrow> False)"

definition is_aarch64_explicit_memory_write :: "a64_instr \<Rightarrow> bool" where
  "is_aarch64_explicit_memory_write ins \<longleftrightarrow> al_kind ins = OpStore \<and>
     list_ex (\<lambda>o'. case o' of AMem mem \<Rightarrow> \<not> a64_stack_spill mem | _ \<Rightarrow> False) (al_operands ins)"

definition rv_stack_spill :: "rv_mem \<Rightarrow> bool" where
  "rv_stack_spill mem =
     (case rm_base mem of
        Some b \<Rightarrow> rg_gpr b \<in> {RSp, S0} \<and> rm_index mem = None
      | None \<Rightarrow> False)"

definition is_riscv_explicit_memory_write :: "rv_instr \<Rightarrow> bool" where
  "is_riscv_explicit_memory_write ins \<longleftrightarrow> rl_kind ins = OpStore \<and>
     list_ex (\<lambda>o'. case o' of RMem mem \<Rightarrow> \<not> rv_stack_spill mem | _ \<Rightarrow> False) (rl_operands ins)"

definition store_message :: "string \<Rightarrow> string" where
  "store_message mnemonic = ''read-only buffer leaf rejected memory store `'' @ mnemonic @ ''`''"

definition check_x86_read_only_buffer_leaf :: "lowered_instr list \<Rightarrow> checked_contract \<Rightarrow> coverage \<Rightarrow> coverage \<Rightarrow>
    semantic_gate_error + unit" where
  "check_x86_read_only_buffer_leaf lowered spec dec low =
     (if \<not> is_read_only_buffer_scan spec then Inr ()
      else case List.find is_x86_explicit_memory_write lowered of
        Some ins \<Rightarrow> Inl (covered_error ''memory'' (store_message (li_mnemonic ins)) dec low [])
      | None \<Rightarrow> Inr ())"

definition check_aarch64_read_only_buffer_leaf :: "a64_instr list \<Rightarrow> checked_contract \<Rightarrow> coverage \<Rightarrow> coverage \<Rightarrow>
    semantic_gate_error + unit" where
  "check_aarch64_read_only_buffer_leaf lowered spec dec low =
     (if \<not> is_read_only_buffer_scan spec then Inr ()
      else case List.find is_aarch64_explicit_memory_write lowered of
        Some ins \<Rightarrow> Inl (covered_error ''memory'' (store_message (al_mnemonic ins)) dec low [])
      | None \<Rightarrow> Inr ())"

definition check_riscv_read_only_buffer_leaf :: "rv_instr list \<Rightarrow> checked_contract \<Rightarrow> coverage \<Rightarrow> coverage \<Rightarrow>
    semantic_gate_error + unit" where
  "check_riscv_read_only_buffer_leaf lowered spec dec low =
     (if \<not> is_read_only_buffer_scan spec then Inr ()
      else case List.find is_riscv_explicit_memory_write lowered of
        Some ins \<Rightarrow> Inl (covered_error ''memory'' (store_message (rl_mnemonic ins)) dec low [])
      | None \<Rightarrow> Inr ())"

section \<open>All gates\<close>

type_synonym candidate_semantics =
  "semantic_gates \<times> alias_analysis_report option \<times> region_access_report option \<times> report_finding list"

definition x86_gates :: "tooling \<Rightarrow> file_read \<Rightarrow> target_identity \<Rightarrow> checked_contract \<Rightarrow> semantic_gate_error + candidate_semantics" where
  "x86_gates tk object identity spec =
     (case decode_candidate_code tk object identity DecX86_64 of Inl e \<Rightarrow> Inl e | Inr (physical, code_bytes) \<Rightarrow>
      let dec = coverage_complete (length physical) in
      case lower_x86_instructions physical dec of Inl e \<Rightarrow> Inl e | Inr lowered \<Rightarrow>
      let low = coverage_complete (length lowered) in
      case check_x86_abi_capability lowered (tabi identity) dec low of Inl e \<Rightarrow> Inl e | Inr findings \<Rightarrow>
      case check_cfg_leaf physical dec low of Inl e \<Rightarrow> Inl e | Inr _ \<Rightarrow>
      case check_x86_read_only_buffer_leaf lowered spec dec low of Inl e \<Rightarrow> Inl e | Inr _ \<Rightarrow>
      let (alias, region) = evaluate_x86_memory_evidence spec physical lowered
            (case tabi identity of SysVAmd64 \<Rightarrow> Some SysV | WindowsX64 \<Rightarrow> Some Win64 | _ \<Rightarrow> None) in
      Inr (semantic_gates_passed code_bytes dec low, alias, region, findings))"

definition a64_gates :: "tooling \<Rightarrow> file_read \<Rightarrow> target_identity \<Rightarrow> checked_contract \<Rightarrow> semantic_gate_error + candidate_semantics" where
  "a64_gates tk object identity spec =
     (case decode_candidate_code tk object identity DecAArch64 of Inl e \<Rightarrow> Inl e | Inr (physical, code_bytes) \<Rightarrow>
      let dec = coverage_complete (length physical) in
      case lower_aarch64_instructions physical dec of Inl e \<Rightarrow> Inl e | Inr lowered \<Rightarrow>
      let low = coverage_complete (length lowered) in
      case check_aarch64_abi_capability lowered dec low of Inl e \<Rightarrow> Inl e | Inr _ \<Rightarrow>
      case check_cfg_leaf physical dec low of Inl e \<Rightarrow> Inl e | Inr _ \<Rightarrow>
      case check_aarch64_read_only_buffer_leaf lowered spec dec low of Inl e \<Rightarrow> Inl e | Inr _ \<Rightarrow>
      let (alias, region) = evaluate_aarch64_memory_evidence spec lowered in
      Inr (semantic_gates_passed code_bytes dec low, alias, region, []))"

definition rv_gates :: "tooling \<Rightarrow> file_read \<Rightarrow> target_identity \<Rightarrow> checked_contract \<Rightarrow> semantic_gate_error + candidate_semantics" where
  "rv_gates tk object identity spec =
     (case decode_candidate_code tk object identity DecRiscv64 of Inl e \<Rightarrow> Inl e | Inr (physical, code_bytes) \<Rightarrow>
      let dec = coverage_complete (length physical) in
      case lower_riscv_instructions physical dec of Inl e \<Rightarrow> Inl e | Inr lowered \<Rightarrow>
      let low = coverage_complete (length lowered) in
      case check_riscv_abi_capability lowered dec low of Inl e \<Rightarrow> Inl e | Inr _ \<Rightarrow>
      case check_cfg_leaf physical dec low of Inl e \<Rightarrow> Inl e | Inr _ \<Rightarrow>
      case check_riscv_read_only_buffer_leaf lowered spec dec low of Inl e \<Rightarrow> Inl e | Inr _ \<Rightarrow>
      let (alias, region) = evaluate_riscv_memory_evidence spec lowered in
      Inr (semantic_gates_passed code_bytes dec low, alias, region, []))"

definition verify_candidate_semantics :: "tooling \<Rightarrow> file_read \<Rightarrow> target_identity \<Rightarrow> string \<Rightarrow> checked_contract \<Rightarrow>
    semantic_gate_error + candidate_semantics" where
  "verify_candidate_semantics tk object identity routine_symbol spec =
     (case require_semantic_target identity of Inl e \<Rightarrow> Inl e | Inr _ \<Rightarrow>
      case check_candidate_object_policy tk object identity routine_symbol of Inl e \<Rightarrow> Inl e | Inr _ \<Rightarrow>
      if (tisa identity, tabi identity, tformat identity) \<in> {(X86_64, SysVAmd64, Elf), (X86_64, WindowsX64, PeCoff)}
      then x86_gates tk object identity spec
      else if (tisa identity, tabi identity, tformat identity) = (AArch64, Aapcs64, Elf) then a64_gates tk object identity spec
      else if (tisa identity, tabi identity, tformat identity) = (Riscv64, Riscv, Elf) then rv_gates tk object identity spec
      else Inl (gate_error ''target'' (''agent verification has no semantic-gate dispatch for `'' @ tname identity @ ''`'')))"

end
