(* ===== verification/Harness_Nasm.thy ===== *)
theory Harness_Nasm imports Harness_Eval begin

text \<open>
  The generated harness programs for NASM: the emitters and generators of
  \<open>semasm-agent/src/harness.rs\<close> for System V AMD64 and Microsoft x64. A program places the vectors in its
  data section, calls the routine once per vector and writes the result words, and for the shapes that
  write memory the guarded regions, to standard output. Text is a byte string.
\<close>

section \<open>Reading a vector\<close>

text \<open>\<open>ln\<close> is \<open>writeln!\<close>: a line and its newline.\<close>

definition ln :: "string \<Rightarrow> string" where
  "ln s = s @ [CHR 0x0A]"

definition vector_i64_words :: "test_vector \<Rightarrow> string list" where
  "vector_i64_words v = map (\<lambda>x. case as_i64 x of Some i \<Rightarrow> show_int i
     | None \<Rightarrow> (case as_u64 x of Some u \<Rightarrow> show_int u | None \<Rightarrow> ''0'')) (vector_items v 0)"

text \<open>The value as a 64-bit pattern; a signed input is printed as its two's complement.\<close>

definition vector_int_input :: "test_vector \<Rightarrow> nat \<Rightarrow> nat" where
  "vector_int_input v index =
     (case input_at v index of
        None \<Rightarrow> 0
      | Some value \<Rightarrow> (case as_u64 value of
          Some u \<Rightarrow> nat u
        | None \<Rightarrow> (case as_i64 value of Some i \<Rightarrow> unat (word_of_int i :: 64 word) | None \<Rightarrow> 0)))"

definition vector_buffer_bytes :: "test_vector \<Rightarrow> string list" where
  "vector_buffer_bytes v = map (\<lambda>x. show_int (min 255 (or_zero (as_u64 x)))) (vector_items v 0)"

definition vector_memcmp_a_bytes :: "test_vector \<Rightarrow> string list" where
  "vector_memcmp_a_bytes v = vector_memcmp_buffer_bytes v 0"

definition vector_memcmp_b_bytes :: "test_vector \<Rightarrow> string list" where
  "vector_memcmp_b_bytes v = vector_memcmp_buffer_bytes v 1"

definition vector_memcmp_length :: "test_vector \<Rightarrow> nat" where
  "vector_memcmp_length v = nat (input_u64 v 2)"

section \<open>Data sections\<close>

definition emit_cell_load_vector_data :: "test_vector list \<Rightarrow> string" where
  "emit_cell_load_vector_data vectors = concat [ln ''section .data'',
      concat (map (\<lambda>(i, v). (let bytes = vector_buffer_bytes v in concat [
          (if bytes = [] then concat [ln ''align 8'', ln (''vec'' @ show_nat i @ ''_buf:''), ln ''    db 0'']
          else concat [ln ''align 8'', ln (''vec'' @ show_nat i @ ''_buf:''),
                ln (''    db '' @ join_with '', '' bytes)])])) (List.enumerate 0 vectors))]"

definition emit_cell_store_vector_data :: "test_vector list \<Rightarrow> string" where
  "emit_cell_store_vector_data vectors = concat [ln ''section .data'',
      concat (map (\<lambda>(i, v). (let bytes = vector_buffer_bytes v in (let value = input_u64 v 1 mod 256 in concat [
          (if bytes = [] then concat [ln ''align 8'', ln (''vec'' @ show_nat i @ ''_buf:''), ln ''    db 0'']
          else concat [ln ''align 8'', ln (''vec'' @ show_nat i @ ''_buf:''), ln (''    db '' @ join_with '', '' bytes)]),
          ln (''vec'' @ show_nat i @ ''_value:''), ln (''    db '' @ show_int value)]))) (List.enumerate 0 vectors))]"

definition emit_vector_data :: "test_vector list \<Rightarrow> string" where
  "emit_vector_data vectors = concat [ln ''section .data'',
      concat (map (\<lambda>(i, v). (let bytes = vector_buffer_bytes v in concat [
          ln ''align 8'', ln (''vec'' @ show_nat i @ ''_len:''), ln (''    dq '' @ show_nat (vector_length v)),
          ln (''vec'' @ show_nat i @ ''_needle:''), ln (''    db '' @ show_int (vector_needle v)),
          (if bytes = [] then concat [ln (''vec'' @ show_nat i @ ''_buf:''), ln ''    db 0'']
          else concat [ln (''vec'' @ show_nat i @ ''_buf:''),
                ln (''    db '' @ join_with '', '' bytes)])])) (List.enumerate 0 vectors))]"

definition emit_replace_byte_vector_data :: "test_vector list \<Rightarrow> string" where
  "emit_replace_byte_vector_data vectors = concat [ln ''section .data'',
      concat (map (\<lambda>(i, v). (let bytes = vector_buffer_bytes v in concat [
          ln ''align 8'', ln (''vec'' @ show_nat i @ ''_len:''), ln (''    dq '' @ show_nat (vector_length v)),
          ln (''vec'' @ show_nat i @ ''_needle:''), ln (''    db '' @ show_int (vector_needle v)),
          ln (''vec'' @ show_nat i @ ''_replacement:''), ln (''    db '' @ show_int (vector_replacement v)),
          ln (''vec'' @ show_nat i @ ''_guard_pre:''), ln (''    db '' @ show_nat (unat write_guard_pre)),
          ''vec'' @ show_nat i @ ''_buf:'', (if bytes \<noteq> [] then concat [ln [], ''    db '' @ join_with '', '' bytes]
          else []), ln [], ln (''vec'' @ show_nat i @ ''_guard_post:''),
          ln (''    db '' @ show_nat (unat write_guard_post))])) (List.enumerate 0 vectors))]"

definition emit_memset_vector_data :: "test_vector list \<Rightarrow> string" where
  "emit_memset_vector_data vectors = concat [ln ''section .data'',
      concat (map (\<lambda>(i, v). (let bytes = vector_buffer_bytes v in concat [
          ln ''align 8'', ln (''vec'' @ show_nat i @ ''_len:''), ln (''    dq '' @ show_nat (vector_length v)),
          ln (''vec'' @ show_nat i @ ''_needle:''), ln (''    db '' @ show_int (vector_needle v)),
          ln (''vec'' @ show_nat i @ ''_guard_pre:''), ln (''    db '' @ show_nat (unat write_guard_pre)),
          ''vec'' @ show_nat i @ ''_buf:'', (if bytes \<noteq> [] then concat [ln [], ''    db '' @ join_with '', '' bytes]
          else []), ln [], ln (''vec'' @ show_nat i @ ''_guard_post:''),
          ln (''    db '' @ show_nat (unat write_guard_post))])) (List.enumerate 0 vectors))]"

definition emit_pure_int_vector_data :: "test_vector list \<Rightarrow> string" where
  "emit_pure_int_vector_data vectors = concat [ln ''section .data'',
      concat (map (\<lambda>(i, v). concat [
          ln (''vec'' @ show_nat i @ ''_a: dq '' @ show_nat (vector_int_input v 0)),
          ln (''vec'' @ show_nat i @ ''_b: dq '' @ show_nat (vector_int_input v 1))]) (List.enumerate 0 vectors))]"

definition emit_pure_int_unary_vector_data :: "test_vector list \<Rightarrow> string" where
  "emit_pure_int_unary_vector_data vectors = concat [ln ''section .data'',
      concat (map (\<lambda>(i, v). ln (''vec'' @ show_nat i @ ''_a: dq '' @ show_nat (vector_int_input v 0))) (List.enumerate 0 vectors))]"

definition emit_i64_sum_vector_data :: "test_vector list \<Rightarrow> string" where
  "emit_i64_sum_vector_data vectors = concat [ln ''section .data'',
      concat (map (\<lambda>(i, v). (let words = vector_i64_words v in concat [
          ln (''vec'' @ show_nat i @ ''_len: dq '' @ show_nat (vector_length v)),
          ''vec'' @ show_nat i @ ''_buf: dq '' @ join_with '', '' words, (if words = [] then concat ['' 0'']
          else []), ln []])) (List.enumerate 0 vectors))]"

definition emit_memcmp_vector_data :: "test_vector list \<Rightarrow> string" where
  "emit_memcmp_vector_data vectors = concat [ln ''section .data'',
      concat (map (\<lambda>(i, v). (let a = vector_memcmp_a_bytes v in (let b = vector_memcmp_b_bytes v in concat [
          ln (''vec'' @ show_nat i @ ''_len: dq '' @ show_nat (vector_memcmp_length v)),
          ''vec'' @ show_nat i @ ''_a: db '' @ join_with '', '' a, (if a = [] then concat ['' 0'']
          else []), ln [], ''vec'' @ show_nat i @ ''_b: db '' @ join_with '', '' b, (if b = [] then concat ['' 0'']
          else []), ln []]))) (List.enumerate 0 vectors))]"

definition emit_memcpy_vector_data :: "test_vector list \<Rightarrow> string" where
  "emit_memcpy_vector_data vectors = concat [ln ''section .data'',
      concat (map (\<lambda>(i, v). (let dst = vector_memcmp_a_bytes v in (let src = vector_memcmp_b_bytes v in concat [
          ln (''vec'' @ show_nat i @ ''_len: dq '' @ show_nat (vector_memcmp_length v)),
          ln (''vec'' @ show_nat i @ ''_a_guard_pre: db '' @ show_nat (unat write_guard_pre)),
          ''vec'' @ show_nat i @ ''_a:'', (if dst \<noteq> [] then concat [ln [], ''    db '' @ join_with '', '' dst]
          else []), ln [], ln (''vec'' @ show_nat i @ ''_a_guard_post: db '' @ show_nat (unat write_guard_post)),
          ln (''vec'' @ show_nat i @ ''_b_guard_pre: db '' @ show_nat (unat write_guard_pre)),
          ''vec'' @ show_nat i @ ''_b:'', (if src \<noteq> [] then concat [ln [], ''    db '' @ join_with '', '' src]
          else []), ln [],
          ln (''vec'' @ show_nat i @ ''_b_guard_post: db '' @ show_nat (unat write_guard_post))]))) (List.enumerate 0 vectors))]"

section \<open>Programs\<close>

definition generate_sysv_cell_load_harness :: "string \<Rightarrow> test_vector list \<Rightarrow> string" where
  "generate_sysv_cell_load_harness routine_symbol vectors = concat [ln ''BITS 64'', ln ''DEFAULT REL'', ln [],
      emit_cell_load_vector_data vectors, ln [], ln ''section .bss'',
      ln (''results: resb '' @ show_nat (length vectors * 8)), ln [], ln ''section .text'',
      ln (''extern '' @ routine_symbol), ln ''global _start'', ln ''_start:'',
      concat (map (\<lambda>(i, v). concat [
          ln (''    ; vector '' @ show_nat i @ '': '' @ tv_name v), ln (''    lea rdi, [vec'' @ show_nat i @ ''_buf]''),
          ln (''    call '' @ routine_symbol),
          ln (''    mov [results + '' @ show_nat i @ ''*8], rax'')]) (List.enumerate 0 vectors)), ln ''    mov eax, 1'',
      ln ''    mov edi, 1'', ln ''    lea rsi, [results]'', ln (''    mov edx, '' @ show_nat (length vectors * 8)),
      ln ''    syscall'', ln ''    mov eax, 60'', ln ''    xor edi, edi'', ln ''    syscall'']"

definition generate_sysv_cell_store_harness :: "string \<Rightarrow> test_vector list \<Rightarrow> string" where
  "generate_sysv_cell_store_harness routine_symbol vectors = concat [ln ''BITS 64'', ln ''DEFAULT REL'', ln [],
      emit_cell_store_vector_data vectors, ln [], ln ''section .bss'',
      ln (''results: resb '' @ show_nat (length vectors * 8)), ln [], ln ''section .text'',
      ln (''extern '' @ routine_symbol), ln ''global _start'', ln ''_start:'',
      concat (map (\<lambda>(i, v). concat [
          ln (''    ; vector '' @ show_nat i @ '': '' @ tv_name v), ln (''    lea rdi, [vec'' @ show_nat i @ ''_buf]''),
          ln (''    movzx esi, byte [vec'' @ show_nat i @ ''_value]''), ln (''    call '' @ routine_symbol),
          ln (''    mov [results + '' @ show_nat i @ ''*8], rax'')]) (List.enumerate 0 vectors)), ln ''    mov eax, 1'',
      ln ''    mov edi, 1'', ln ''    lea rsi, [results]'', ln (''    mov edx, '' @ show_nat (length vectors * 8)),
      ln ''    syscall'', ln ''    mov eax, 60'', ln ''    xor edi, edi'', ln ''    syscall'']"

definition generate_win64_cell_load_harness :: "string \<Rightarrow> test_vector list \<Rightarrow> string" where
  "generate_win64_cell_load_harness routine_symbol vectors = concat [ln ''BITS 64'', ln ''DEFAULT REL'', ln [],
      ln ''EXTERN GetStdHandle'', ln ''EXTERN WriteFile'', ln ''EXTERN ExitProcess'', ln [],
      emit_cell_load_vector_data vectors, ln [], ln ''section .bss'',
      ln (''results: resb '' @ show_nat (length vectors * 8)), ln ''written: resq 1'', ln [], ln ''section .text'',
      ln (''extern '' @ routine_symbol), ln ''global main'', ln ''main:'',
      concat (map (\<lambda>(i, v). concat [
          ln (''    ; vector '' @ show_nat i @ '': '' @ tv_name v), ln ''    sub rsp, 40'',
          ln (''    lea rcx, [vec'' @ show_nat i @ ''_buf]''), ln (''    call '' @ routine_symbol), ln ''    add rsp, 40'',
          ln (''    mov [results + '' @ show_nat i @ ''*8], rax'')]) (List.enumerate 0 vectors)), ln ''    sub rsp, 40'',
      ln ''    mov ecx, -11'', ln ''    call GetStdHandle'', ln ''    mov rcx, rax'', ln ''    lea rdx, [results]'',
      ln (''    mov r8d, '' @ show_nat (length vectors * 8)), ln ''    lea r9, [written]'',
      ln ''    mov qword [rsp + 32], 0'', ln ''    call WriteFile'', ln ''    add rsp, 40'', ln ''    sub rsp, 40'',
      ln ''    xor ecx, ecx'', ln ''    call ExitProcess'']"

definition generate_win64_cell_store_harness :: "string \<Rightarrow> test_vector list \<Rightarrow> string" where
  "generate_win64_cell_store_harness routine_symbol vectors = concat [ln ''BITS 64'', ln ''DEFAULT REL'', ln [],
      ln ''EXTERN GetStdHandle'', ln ''EXTERN WriteFile'', ln ''EXTERN ExitProcess'', ln [],
      emit_cell_store_vector_data vectors, ln [], ln ''section .bss'',
      ln (''results: resb '' @ show_nat (length vectors * 8)), ln ''written: resq 1'', ln [], ln ''section .text'',
      ln (''extern '' @ routine_symbol), ln ''global main'', ln ''main:'',
      concat (map (\<lambda>(i, v). concat [
          ln (''    ; vector '' @ show_nat i @ '': '' @ tv_name v), ln ''    sub rsp, 40'',
          ln (''    lea rcx, [vec'' @ show_nat i @ ''_buf]''), ln (''    movzx edx, byte [vec'' @ show_nat i @ ''_value]''),
          ln (''    call '' @ routine_symbol), ln ''    add rsp, 40'',
          ln (''    mov [results + '' @ show_nat i @ ''*8], rax'')]) (List.enumerate 0 vectors)), ln ''    sub rsp, 40'',
      ln ''    mov ecx, -11'', ln ''    call GetStdHandle'', ln ''    mov rcx, rax'', ln ''    lea rdx, [results]'',
      ln (''    mov r8d, '' @ show_nat (length vectors * 8)), ln ''    lea r9, [written]'',
      ln ''    mov qword [rsp + 32], 0'', ln ''    call WriteFile'', ln ''    add rsp, 40'', ln ''    sub rsp, 40'',
      ln ''    xor ecx, ecx'', ln ''    call ExitProcess'']"

definition generate_sysv_replace_byte_harness :: "string \<Rightarrow> test_vector list \<Rightarrow> string" where
  "generate_sysv_replace_byte_harness routine_symbol vectors = concat [ln ''BITS 64'', ln ''DEFAULT REL'', ln [],
      emit_replace_byte_vector_data vectors, ln [], ln ''section .bss'',
      ln (''results: resb '' @ show_nat (length vectors * 8)), ln [], ln ''section .text'',
      ln (''extern '' @ routine_symbol), ln ''global _start'', ln ''_start:'',
      concat (map (\<lambda>(i, v). concat [
          ln (''    ; vector '' @ show_nat i @ '': '' @ tv_name v), (if input_at v 0 = Some JNull then concat [
                ln ''    xor edi, edi'']
          else concat [ln (''    lea rdi, [vec'' @ show_nat i @ ''_buf]'')]),
          ln (''    mov rsi, [vec'' @ show_nat i @ ''_len]''), ln (''    movzx edx, byte [vec'' @ show_nat i @ ''_needle]''),
          ln (''    movzx ecx, byte [vec'' @ show_nat i @ ''_replacement]''), ln (''    call '' @ routine_symbol),
          ln (''    mov [results + '' @ show_nat i @ ''*8], rax'')]) (List.enumerate 0 vectors)),
      ln ''    ; write(results, N*8)'', ln ''    mov eax, 1'', ln ''    mov edi, 1'', ln ''    lea rsi, [results]'',
      ln (''    mov edx, '' @ show_nat (length vectors * 8)), ln ''    syscall'',
      concat (map (\<lambda>(i, v). (let len = vector_length v + 2 in concat [
          ln (''    ; write guarded mutated buffer '' @ show_nat i @ '' ('' @ show_nat len @ '' bytes)''),
          ln ''    mov eax, 1'', ln ''    mov edi, 1'', ln (''    lea rsi, [vec'' @ show_nat i @ ''_guard_pre]''),
          ln (''    mov edx, '' @ show_nat len), ln ''    syscall''])) (List.enumerate 0 vectors)), ln ''    mov eax, 60'',
      ln ''    xor edi, edi'', ln ''    syscall'']"

definition generate_win64_replace_byte_harness :: "string \<Rightarrow> test_vector list \<Rightarrow> string" where
  "generate_win64_replace_byte_harness routine_symbol vectors = concat [ln ''BITS 64'', ln ''DEFAULT REL'', ln [],
      ln ''EXTERN GetStdHandle'', ln ''EXTERN WriteFile'', ln ''EXTERN ExitProcess'', ln [],
      emit_replace_byte_vector_data vectors, ln [], ln ''section .bss'',
      ln (''results: resb '' @ show_nat (length vectors * 8)), ln ''written: resq 1'', ln ''stdout_handle: resq 1'', ln [],
      ln ''section .text'', ln (''extern '' @ routine_symbol), ln ''global main'', ln ''main:'',
      concat (map (\<lambda>(i, v). concat [
          ln (''    ; vector '' @ show_nat i @ '': '' @ tv_name v), ln ''    sub rsp, 40'',
          (if input_at v 0 = Some JNull then concat [ln ''    xor ecx, ecx'']
          else concat [ln (''    lea rcx, [vec'' @ show_nat i @ ''_buf]'')]),
          ln (''    mov rdx, [vec'' @ show_nat i @ ''_len]''), ln (''    movzx r8d, byte [vec'' @ show_nat i @ ''_needle]''),
          ln (''    movzx r9d, byte [vec'' @ show_nat i @ ''_replacement]''), ln (''    call '' @ routine_symbol),
          ln ''    add rsp, 40'', ln (''    mov [results + '' @ show_nat i @ ''*8], rax'')]) (List.enumerate 0 vectors)),
      ln ''    sub rsp, 40'', ln ''    mov ecx, -11'', ln ''    call GetStdHandle'', ln ''    mov [stdout_handle], rax'',
      ln ''    add rsp, 40'', ln ''    sub rsp, 40'', ln ''    mov rcx, [stdout_handle]'', ln ''    lea rdx, [results]'',
      ln (''    mov r8d, '' @ show_nat (length vectors * 8)), ln ''    lea r9, [written]'',
      ln ''    mov qword [rsp + 32], 0'', ln ''    call WriteFile'', ln ''    add rsp, 40'',
      concat (map (\<lambda>(i, v). (let len = vector_length v + 2 in concat [
          ln (''    ; write guarded mutated buffer '' @ show_nat i), ln ''    sub rsp, 40'',
          ln ''    mov rcx, [stdout_handle]'', ln (''    lea rdx, [vec'' @ show_nat i @ ''_guard_pre]''),
          ln (''    mov r8d, '' @ show_nat len), ln ''    lea r9, [written]'', ln ''    mov qword [rsp + 32], 0'',
          ln ''    call WriteFile'', ln ''    add rsp, 40''])) (List.enumerate 0 vectors)), ln ''    sub rsp, 40'',
      ln ''    xor ecx, ecx'', ln ''    call ExitProcess'']"

definition generate_sysv_memset_harness :: "string \<Rightarrow> test_vector list \<Rightarrow> string" where
  "generate_sysv_memset_harness routine_symbol vectors = concat [ln ''BITS 64'', ln ''DEFAULT REL'', ln [],
      emit_memset_vector_data vectors, ln [], ln ''section .bss'', ln (''results: resb '' @ show_nat (length vectors * 8)),
      ln [], ln ''section .text'', ln (''extern '' @ routine_symbol), ln ''global _start'', ln ''_start:'',
      concat (map (\<lambda>(i, v). concat [
          ln (''    ; vector '' @ show_nat i @ '': '' @ tv_name v), (if input_at v 0 = Some JNull then concat [
                ln ''    xor edi, edi'']
          else concat [ln (''    lea rdi, [vec'' @ show_nat i @ ''_buf]'')]),
          ln (''    mov rsi, [vec'' @ show_nat i @ ''_len]''), ln (''    movzx edx, byte [vec'' @ show_nat i @ ''_needle]''),
          ln (''    call '' @ routine_symbol),
          ln (''    mov [results + '' @ show_nat i @ ''*8], rax'')]) (List.enumerate 0 vectors)),
      ln ''    ; write(results, N*8)'', ln ''    mov eax, 1'', ln ''    mov edi, 1'', ln ''    lea rsi, [results]'',
      ln (''    mov edx, '' @ show_nat (length vectors * 8)), ln ''    syscall'',
      concat (map (\<lambda>(i, v). (let len = vector_length v + 2 in concat [
          ln (''    ; write guarded filled buffer '' @ show_nat i @ '' ('' @ show_nat len @ '' bytes)''),
          ln ''    mov eax, 1'', ln ''    mov edi, 1'', ln (''    lea rsi, [vec'' @ show_nat i @ ''_guard_pre]''),
          ln (''    mov edx, '' @ show_nat len), ln ''    syscall''])) (List.enumerate 0 vectors)), ln ''    mov eax, 60'',
      ln ''    xor edi, edi'', ln ''    syscall'']"

definition generate_win64_memset_harness :: "string \<Rightarrow> test_vector list \<Rightarrow> string" where
  "generate_win64_memset_harness routine_symbol vectors = concat [ln ''BITS 64'', ln ''DEFAULT REL'', ln [],
      ln ''EXTERN GetStdHandle'', ln ''EXTERN WriteFile'', ln ''EXTERN ExitProcess'', ln [], emit_memset_vector_data vectors,
      ln [], ln ''section .bss'', ln (''results: resb '' @ show_nat (length vectors * 8)), ln ''written: resq 1'',
      ln ''stdout_handle: resq 1'', ln [], ln ''section .text'', ln (''extern '' @ routine_symbol), ln ''global main'',
      ln ''main:'',
      concat (map (\<lambda>(i, v). concat [
          ln (''    ; vector '' @ show_nat i @ '': '' @ tv_name v), ln ''    sub rsp, 40'',
          (if input_at v 0 = Some JNull then concat [ln ''    xor ecx, ecx'']
          else concat [ln (''    lea rcx, [vec'' @ show_nat i @ ''_buf]'')]),
          ln (''    mov rdx, [vec'' @ show_nat i @ ''_len]''), ln (''    movzx r8d, byte [vec'' @ show_nat i @ ''_needle]''),
          ln (''    call '' @ routine_symbol), ln ''    add rsp, 40'',
          ln (''    mov [results + '' @ show_nat i @ ''*8], rax'')]) (List.enumerate 0 vectors)), ln ''    sub rsp, 40'',
      ln ''    mov ecx, -11'', ln ''    call GetStdHandle'', ln ''    mov [stdout_handle], rax'', ln ''    add rsp, 40'',
      ln ''    sub rsp, 40'', ln ''    mov rcx, [stdout_handle]'', ln ''    lea rdx, [results]'',
      ln (''    mov r8d, '' @ show_nat (length vectors * 8)), ln ''    lea r9, [written]'',
      ln ''    mov qword [rsp + 32], 0'', ln ''    call WriteFile'', ln ''    add rsp, 40'',
      concat (map (\<lambda>(i, v). (let len = vector_length v + 2 in concat [
          ln (''    ; write guarded filled buffer '' @ show_nat i), ln ''    sub rsp, 40'',
          ln ''    mov rcx, [stdout_handle]'', ln (''    lea rdx, [vec'' @ show_nat i @ ''_guard_pre]''),
          ln (''    mov r8d, '' @ show_nat len), ln ''    lea r9, [written]'', ln ''    mov qword [rsp + 32], 0'',
          ln ''    call WriteFile'', ln ''    add rsp, 40''])) (List.enumerate 0 vectors)), ln ''    sub rsp, 40'',
      ln ''    xor ecx, ecx'', ln ''    call ExitProcess'']"

definition generate_sysv_buffer_harness :: "string \<Rightarrow> test_vector list \<Rightarrow> string" where
  "generate_sysv_buffer_harness routine_symbol vectors = concat [ln ''BITS 64'', ln ''DEFAULT REL'', ln [],
      emit_vector_data vectors, ln [], ln ''section .bss'', ln (''results: resb '' @ show_nat (length vectors * 8)), ln [],
      ln ''section .text'', ln (''extern '' @ routine_symbol), ln ''global _start'', ln ''_start:'',
      concat (map (\<lambda>(i, _). concat [
          ln (''    ; vector '' @ show_nat i @ '': '' @ tv_name (vectors ! i)),
          ln (''    lea rdi, [vec'' @ show_nat i @ ''_buf]''), ln (''    mov rsi, [vec'' @ show_nat i @ ''_len]''),
          ln (''    movzx edx, byte [vec'' @ show_nat i @ ''_needle]''), ln (''    call '' @ routine_symbol),
          ln (''    mov [results + '' @ show_nat i @ ''*8], rax'')]) (List.enumerate 0 vectors)),
      ln ''    ; write(results, len)'', ln ''    mov eax, 1          ; sys_write'', ln ''    mov edi, 1          ; stdout'',
      ln ''    lea rsi, [results]'', ln (''    mov edx, '' @ show_nat (length vectors * 8)), ln ''    syscall'',
      ln ''    mov eax, 60         ; sys_exit'', ln ''    xor edi, edi'', ln ''    syscall'']"

definition generate_sysv_memcmp_harness :: "string \<Rightarrow> test_vector list \<Rightarrow> string" where
  "generate_sysv_memcmp_harness routine_symbol vectors = concat [ln ''BITS 64'', ln ''DEFAULT REL'', ln [],
      emit_memcmp_vector_data vectors, ln [], ln ''section .bss'', ln (''results: resb '' @ show_nat (length vectors * 8)),
      ln [], ln ''section .text'', ln (''extern '' @ routine_symbol), ln ''global _start'', ln ''_start:'',
      concat (map (\<lambda>(i, v). concat [
          ln (''    ; vector '' @ show_nat i @ '': '' @ tv_name v), (if input_at v 0 = Some JNull then concat [
                ln ''    xor edi, edi'']
          else concat [ln (''    lea rdi, [vec'' @ show_nat i @ ''_a]'')]), (if input_at v 1 = Some JNull then concat [
                ln ''    xor esi, esi'']
          else concat [ln (''    lea rsi, [vec'' @ show_nat i @ ''_b]'')]),
          ln (''    mov rdx, [vec'' @ show_nat i @ ''_len]''), ln (''    call '' @ routine_symbol),
          ln (''    mov [results + '' @ show_nat i @ ''*8], rax'')]) (List.enumerate 0 vectors)),
      ln ''    ; write(results, len)'', ln ''    mov eax, 1          ; sys_write'', ln ''    mov edi, 1          ; stdout'',
      ln ''    lea rsi, [results]'', ln (''    mov edx, '' @ show_nat (length vectors * 8)), ln ''    syscall'',
      ln ''    mov eax, 60         ; sys_exit'', ln ''    xor edi, edi'', ln ''    syscall'']"

definition generate_sysv_pure_int_harness :: "string \<Rightarrow> test_vector list \<Rightarrow> string" where
  "generate_sysv_pure_int_harness routine_symbol vectors = concat [ln ''BITS 64'', ln ''DEFAULT REL'', ln [],
      emit_pure_int_vector_data vectors, ln [], ln ''section .bss'', ln (''results: resb '' @ show_nat (length vectors * 8)),
      ln [], ln ''section .text'', ln (''extern '' @ routine_symbol), ln ''global _start'', ln ''_start:'',
      concat (map (\<lambda>(i, _). concat [
          ln (''    ; vector '' @ show_nat i @ '': '' @ tv_name (vectors ! i)),
          ln (''    mov rdi, [vec'' @ show_nat i @ ''_a]''), ln (''    mov rsi, [vec'' @ show_nat i @ ''_b]''),
          ln (''    call '' @ routine_symbol),
          ln (''    mov [results + '' @ show_nat i @ ''*8], rax'')]) (List.enumerate 0 vectors)),
      ln ''    ; write(results, len)'', ln ''    mov eax, 1          ; sys_write'', ln ''    mov edi, 1          ; stdout'',
      ln ''    lea rsi, [results]'', ln (''    mov edx, '' @ show_nat (length vectors * 8)), ln ''    syscall'',
      ln ''    mov eax, 60         ; sys_exit'', ln ''    xor edi, edi'', ln ''    syscall'']"

definition generate_sysv_pure_int_unary_harness :: "string \<Rightarrow> test_vector list \<Rightarrow> string" where
  "generate_sysv_pure_int_unary_harness routine_symbol vectors = concat [ln ''BITS 64'', ln ''DEFAULT REL'', ln [],
      emit_pure_int_unary_vector_data vectors, ln [], ln ''section .bss'',
      ln (''results: resb '' @ show_nat (length vectors * 8)), ln [], ln ''section .text'',
      ln (''extern '' @ routine_symbol), ln ''global _start'', ln ''_start:'',
      concat (map (\<lambda>(i, _). concat [
          ln (''    ; vector '' @ show_nat i @ '': '' @ tv_name (vectors ! i)),
          ln (''    mov rdi, [vec'' @ show_nat i @ ''_a]''), ln (''    call '' @ routine_symbol),
          ln (''    mov [results + '' @ show_nat i @ ''*8], rax'')]) (List.enumerate 0 vectors)),
      ln ''    ; write(results, len)'', ln ''    mov eax, 1          ; sys_write'', ln ''    mov edi, 1          ; stdout'',
      ln ''    lea rsi, [results]'', ln (''    mov edx, '' @ show_nat (length vectors * 8)), ln ''    syscall'',
      ln ''    mov eax, 60         ; sys_exit'', ln ''    xor edi, edi'', ln ''    syscall'']"

definition generate_sysv_i64_sum_harness :: "string \<Rightarrow> test_vector list \<Rightarrow> string" where
  "generate_sysv_i64_sum_harness routine_symbol vectors = concat [ln ''BITS 64'', ln ''DEFAULT REL'', ln [],
      emit_i64_sum_vector_data vectors, ln [], ln ''section .bss'', ln (''results: resb '' @ show_nat (length vectors * 8)),
      ln [], ln ''section .text'', ln (''extern '' @ routine_symbol), ln ''global _start'', ln ''_start:'',
      concat (map (\<lambda>(i, _). concat [
          ln (''    ; vector '' @ show_nat i @ '': '' @ tv_name (vectors ! i)),
          ln (''    lea rdi, [vec'' @ show_nat i @ ''_buf]''), ln (''    mov rsi, [vec'' @ show_nat i @ ''_len]''),
          ln (''    call '' @ routine_symbol),
          ln (''    mov [results + '' @ show_nat i @ ''*8], rax'')]) (List.enumerate 0 vectors)),
      ln ''    ; write(results, len)'', ln ''    mov eax, 1          ; sys_write'', ln ''    mov edi, 1          ; stdout'',
      ln ''    lea rsi, [results]'', ln (''    mov edx, '' @ show_nat (length vectors * 8)), ln ''    syscall'',
      ln ''    mov eax, 60         ; sys_exit'', ln ''    xor edi, edi'', ln ''    syscall'']"

definition generate_win64_buffer_harness :: "string \<Rightarrow> test_vector list \<Rightarrow> string" where
  "generate_win64_buffer_harness routine_symbol vectors = concat [ln ''BITS 64'', ln ''DEFAULT REL'', ln [],
      ln ''EXTERN GetStdHandle'', ln ''EXTERN WriteFile'', ln ''EXTERN ExitProcess'', ln [], emit_vector_data vectors, ln [],
      ln ''section .bss'', ln (''results: resb '' @ show_nat (length vectors * 8)), ln ''written: resq 1'', ln [],
      ln ''section .text'', ln (''extern '' @ routine_symbol), ln ''global main'', ln ''main:'',
      concat (map (\<lambda>(i, _). concat [
          ln (''    ; vector '' @ show_nat i @ '': '' @ tv_name (vectors ! i)), ln ''    sub rsp, 40'',
          ln (''    lea rcx, [vec'' @ show_nat i @ ''_buf]''), ln (''    mov rdx, [vec'' @ show_nat i @ ''_len]''),
          ln (''    movzx r8d, byte [vec'' @ show_nat i @ ''_needle]''), ln (''    call '' @ routine_symbol),
          ln ''    add rsp, 40'', ln (''    mov [results + '' @ show_nat i @ ''*8], rax'')]) (List.enumerate 0 vectors)),
      ln ''    ; WriteFile(stdout, results, len, &written, NULL)'', ln ''    sub rsp, 40'',
      ln ''    mov ecx, -11        ; STD_OUTPUT_HANDLE'', ln ''    call GetStdHandle'', ln ''    mov rcx, rax'',
      ln ''    lea rdx, [results]'', ln (''    mov r8d, '' @ show_nat (length vectors * 8)), ln ''    lea r9, [written]'',
      ln ''    mov qword [rsp + 32], 0'', ln ''    call WriteFile'', ln ''    add rsp, 40'', ln ''    sub rsp, 40'',
      ln ''    xor ecx, ecx'', ln ''    call ExitProcess'']"

definition generate_win64_memcmp_harness :: "string \<Rightarrow> test_vector list \<Rightarrow> string" where
  "generate_win64_memcmp_harness routine_symbol vectors = concat [ln ''BITS 64'', ln ''DEFAULT REL'', ln [],
      ln ''EXTERN GetStdHandle'', ln ''EXTERN WriteFile'', ln ''EXTERN ExitProcess'', ln [], emit_memcmp_vector_data vectors,
      ln [], ln ''section .bss'', ln (''results: resb '' @ show_nat (length vectors * 8)), ln ''written: resq 1'', ln [],
      ln ''section .text'', ln (''extern '' @ routine_symbol), ln ''global main'', ln ''main:'',
      concat (map (\<lambda>(i, v). concat [
          ln (''    ; vector '' @ show_nat i @ '': '' @ tv_name v), ln ''    sub rsp, 40'',
          (if input_at v 0 = Some JNull then concat [ln ''    xor ecx, ecx'']
          else concat [ln (''    lea rcx, [vec'' @ show_nat i @ ''_a]'')]), (if input_at v 1 = Some JNull then concat [
                ln ''    xor edx, edx'']
          else concat [ln (''    lea rdx, [vec'' @ show_nat i @ ''_b]'')]),
          ln (''    mov r8, [vec'' @ show_nat i @ ''_len]''), ln (''    call '' @ routine_symbol), ln ''    add rsp, 40'',
          ln (''    mov [results + '' @ show_nat i @ ''*8], rax'')]) (List.enumerate 0 vectors)),
      ln ''    ; WriteFile(stdout, results, len, &written, NULL)'', ln ''    sub rsp, 40'',
      ln ''    mov ecx, -11        ; STD_OUTPUT_HANDLE'', ln ''    call GetStdHandle'', ln ''    mov rcx, rax'',
      ln ''    lea rdx, [results]'', ln (''    mov r8d, '' @ show_nat (length vectors * 8)), ln ''    lea r9, [written]'',
      ln ''    mov qword [rsp + 32], 0'', ln ''    call WriteFile'', ln ''    add rsp, 40'', ln ''    sub rsp, 40'',
      ln ''    xor ecx, ecx'', ln ''    call ExitProcess'']"

definition generate_sysv_memcpy_harness :: "string \<Rightarrow> test_vector list \<Rightarrow> string" where
  "generate_sysv_memcpy_harness routine_symbol vectors = concat [ln ''BITS 64'', ln ''DEFAULT REL'', ln [],
      emit_memcpy_vector_data vectors, ln [], ln ''section .bss'', ln (''results: resb '' @ show_nat (length vectors * 8)),
      ln [], ln ''section .text'', ln (''extern '' @ routine_symbol), ln ''global _start'', ln ''_start:'',
      concat (map (\<lambda>(i, v). concat [
          ln (''    ; vector '' @ show_nat i @ '': '' @ tv_name v), (if input_at v 0 = Some JNull then concat [
                ln ''    xor edi, edi'']
          else concat [ln (''    lea rdi, [vec'' @ show_nat i @ ''_a]'')]), (if input_at v 1 = Some JNull then concat [
                ln ''    xor esi, esi'']
          else concat [ln (''    lea rsi, [vec'' @ show_nat i @ ''_b]'')]),
          ln (''    mov rdx, [vec'' @ show_nat i @ ''_len]''), ln (''    call '' @ routine_symbol),
          ln (''    mov [results + '' @ show_nat i @ ''*8], rax'')]) (List.enumerate 0 vectors)),
      ln ''    ; write(results, N*8)'', ln ''    mov eax, 1'', ln ''    mov edi, 1'', ln ''    lea rsi, [results]'',
      ln (''    mov edx, '' @ show_nat (length vectors * 8)), ln ''    syscall'',
      concat (map (\<lambda>(i, v). (let payload_len = vector_memcmp_length v in (let len = payload_len + 2 in concat [
          ln (''    ; write guarded dst buffer '' @ show_nat i @ '' ('' @ show_nat len @ '' bytes)''), ln ''    mov eax, 1'',
          ln ''    mov edi, 1'', ln (''    lea rsi, [vec'' @ show_nat i @ ''_a_guard_pre]''),
          ln (''    mov edx, '' @ show_nat len), ln ''    syscall'',
          ln (''    ; write guarded src buffer '' @ show_nat i @ '' ('' @ show_nat len @ '' bytes)''), ln ''    mov eax, 1'',
          ln ''    mov edi, 1'', ln (''    lea rsi, [vec'' @ show_nat i @ ''_b_guard_pre]''),
          ln (''    mov edx, '' @ show_nat len), ln ''    syscall'']))) (List.enumerate 0 vectors)), ln ''    mov eax, 60'',
      ln ''    xor edi, edi'', ln ''    syscall'']"

definition generate_win64_memcpy_harness :: "string \<Rightarrow> test_vector list \<Rightarrow> string" where
  "generate_win64_memcpy_harness routine_symbol vectors = concat [ln ''BITS 64'', ln ''DEFAULT REL'', ln [],
      ln ''EXTERN GetStdHandle'', ln ''EXTERN WriteFile'', ln ''EXTERN ExitProcess'', ln [], emit_memcpy_vector_data vectors,
      ln [], ln ''section .bss'', ln (''results: resb '' @ show_nat (length vectors * 8)), ln ''written: resq 1'',
      ln ''stdout_handle: resq 1'', ln [], ln ''section .text'', ln (''extern '' @ routine_symbol), ln ''global main'',
      ln ''main:'',
      concat (map (\<lambda>(i, v). concat [
          ln (''    ; vector '' @ show_nat i @ '': '' @ tv_name v), ln ''    sub rsp, 40'',
          (if input_at v 0 = Some JNull then concat [ln ''    xor ecx, ecx'']
          else concat [ln (''    lea rcx, [vec'' @ show_nat i @ ''_a]'')]), (if input_at v 1 = Some JNull then concat [
                ln ''    xor edx, edx'']
          else concat [ln (''    lea rdx, [vec'' @ show_nat i @ ''_b]'')]),
          ln (''    mov r8, [vec'' @ show_nat i @ ''_len]''), ln (''    call '' @ routine_symbol), ln ''    add rsp, 40'',
          ln (''    mov [results + '' @ show_nat i @ ''*8], rax'')]) (List.enumerate 0 vectors)), ln ''    sub rsp, 40'',
      ln ''    mov ecx, -11'', ln ''    call GetStdHandle'', ln ''    mov [stdout_handle], rax'', ln ''    add rsp, 40'',
      ln ''    sub rsp, 40'', ln ''    mov rcx, [stdout_handle]'', ln ''    lea rdx, [results]'',
      ln (''    mov r8d, '' @ show_nat (length vectors * 8)), ln ''    lea r9, [written]'',
      ln ''    mov qword [rsp + 32], 0'', ln ''    call WriteFile'', ln ''    add rsp, 40'',
      concat (map (\<lambda>(i, v). (let payload_len = vector_memcmp_length v in (let len = payload_len + 2 in concat [
          ln (''    ; write guarded dst buffer '' @ show_nat i), ln ''    sub rsp, 40'', ln ''    mov rcx, [stdout_handle]'',
          ln (''    lea rdx, [vec'' @ show_nat i @ ''_a_guard_pre]''), ln (''    mov r8d, '' @ show_nat len),
          ln ''    lea r9, [written]'', ln ''    mov qword [rsp + 32], 0'', ln ''    call WriteFile'',
          ln ''    add rsp, 40'', ln (''    ; write guarded src buffer '' @ show_nat i), ln ''    sub rsp, 40'',
          ln ''    mov rcx, [stdout_handle]'', ln (''    lea rdx, [vec'' @ show_nat i @ ''_b_guard_pre]''),
          ln (''    mov r8d, '' @ show_nat len), ln ''    lea r9, [written]'', ln ''    mov qword [rsp + 32], 0'',
          ln ''    call WriteFile'', ln ''    add rsp, 40'']))) (List.enumerate 0 vectors)), ln ''    sub rsp, 40'',
      ln ''    xor ecx, ecx'', ln ''    call ExitProcess'']"

definition generate_win64_pure_int_harness :: "string \<Rightarrow> test_vector list \<Rightarrow> string" where
  "generate_win64_pure_int_harness routine_symbol vectors = concat [ln ''BITS 64'', ln ''DEFAULT REL'', ln [],
      ln ''EXTERN GetStdHandle'', ln ''EXTERN WriteFile'', ln ''EXTERN ExitProcess'', ln [],
      emit_pure_int_vector_data vectors, ln [], ln ''section .bss'', ln (''results: resb '' @ show_nat (length vectors * 8)),
      ln ''written: resq 1'', ln [], ln ''section .text'', ln (''extern '' @ routine_symbol), ln ''global main'',
      ln ''main:'',
      concat (map (\<lambda>(i, _). concat [
          ln (''    ; vector '' @ show_nat i @ '': '' @ tv_name (vectors ! i)), ln ''    sub rsp, 40'',
          ln (''    mov rcx, [vec'' @ show_nat i @ ''_a]''), ln (''    mov rdx, [vec'' @ show_nat i @ ''_b]''),
          ln (''    call '' @ routine_symbol), ln ''    add rsp, 40'',
          ln (''    mov [results + '' @ show_nat i @ ''*8], rax'')]) (List.enumerate 0 vectors)),
      ln ''    ; WriteFile(stdout, results, len, &written, NULL)'', ln ''    sub rsp, 40'',
      ln ''    mov ecx, -11        ; STD_OUTPUT_HANDLE'', ln ''    call GetStdHandle'', ln ''    mov rcx, rax'',
      ln ''    lea rdx, [results]'', ln (''    mov r8d, '' @ show_nat (length vectors * 8)), ln ''    lea r9, [written]'',
      ln ''    mov qword [rsp + 32], 0'', ln ''    call WriteFile'', ln ''    add rsp, 40'', ln ''    sub rsp, 40'',
      ln ''    xor ecx, ecx'', ln ''    call ExitProcess'']"

definition generate_win64_pure_int_unary_harness :: "string \<Rightarrow> test_vector list \<Rightarrow> string" where
  "generate_win64_pure_int_unary_harness routine_symbol vectors = concat [ln ''BITS 64'', ln ''DEFAULT REL'', ln [],
      ln ''EXTERN GetStdHandle'', ln ''EXTERN WriteFile'', ln ''EXTERN ExitProcess'', ln [],
      emit_pure_int_unary_vector_data vectors, ln [], ln ''section .bss'',
      ln (''results: resb '' @ show_nat (length vectors * 8)), ln ''written: resq 1'', ln [], ln ''section .text'',
      ln (''extern '' @ routine_symbol), ln ''global main'', ln ''main:'',
      concat (map (\<lambda>(i, _). concat [
          ln (''    ; vector '' @ show_nat i @ '': '' @ tv_name (vectors ! i)), ln ''    sub rsp, 40'',
          ln (''    mov rcx, [vec'' @ show_nat i @ ''_a]''), ln (''    call '' @ routine_symbol), ln ''    add rsp, 40'',
          ln (''    mov [results + '' @ show_nat i @ ''*8], rax'')]) (List.enumerate 0 vectors)),
      ln ''    ; WriteFile(stdout, results, len, &written, NULL)'', ln ''    sub rsp, 40'',
      ln ''    mov ecx, -11        ; STD_OUTPUT_HANDLE'', ln ''    call GetStdHandle'', ln ''    mov rcx, rax'',
      ln ''    lea rdx, [results]'', ln (''    mov r8d, '' @ show_nat (length vectors * 8)), ln ''    lea r9, [written]'',
      ln ''    mov qword [rsp + 32], 0'', ln ''    call WriteFile'', ln ''    add rsp, 40'', ln ''    sub rsp, 40'',
      ln ''    xor ecx, ecx'', ln ''    call ExitProcess'']"

definition generate_win64_i64_sum_harness :: "string \<Rightarrow> test_vector list \<Rightarrow> string" where
  "generate_win64_i64_sum_harness routine_symbol vectors = concat [ln ''BITS 64'', ln ''DEFAULT REL'', ln [],
      ln ''EXTERN GetStdHandle'', ln ''EXTERN WriteFile'', ln ''EXTERN ExitProcess'', ln [],
      emit_i64_sum_vector_data vectors, ln [], ln ''section .bss'', ln (''results: resb '' @ show_nat (length vectors * 8)),
      ln ''written: resq 1'', ln [], ln ''section .text'', ln (''extern '' @ routine_symbol), ln ''global main'',
      ln ''main:'',
      concat (map (\<lambda>(i, _). concat [
          ln (''    ; vector '' @ show_nat i @ '': '' @ tv_name (vectors ! i)), ln ''    sub rsp, 40'',
          ln (''    lea rcx, [vec'' @ show_nat i @ ''_buf]''), ln (''    mov rdx, [vec'' @ show_nat i @ ''_len]''),
          ln (''    call '' @ routine_symbol), ln ''    add rsp, 40'',
          ln (''    mov [results + '' @ show_nat i @ ''*8], rax'')]) (List.enumerate 0 vectors)),
      ln ''    ; WriteFile(stdout, results, len, &written, NULL)'', ln ''    sub rsp, 40'',
      ln ''    mov ecx, -11        ; STD_OUTPUT_HANDLE'', ln ''    call GetStdHandle'', ln ''    mov rcx, rax'',
      ln ''    lea rdx, [results]'', ln (''    mov r8d, '' @ show_nat (length vectors * 8)), ln ''    lea r9, [written]'',
      ln ''    mov qword [rsp + 32], 0'', ln ''    call WriteFile'', ln ''    add rsp, 40'', ln ''    sub rsp, 40'',
      ln ''    xor ecx, ecx'', ln ''    call ExitProcess'']"

end
