(* ===== verification/Harness_Gas.thy ===== *)
theory Harness_Gas imports Harness_Nasm begin

text \<open>
  The generated harness programs for the GNU assembler: the emitters and generators of
  \<open>semasm-agent/src/harness.rs\<close> for AAPCS64 and RISC-V LP64, in the order of the source.
\<close>

section \<open>Data sections\<close>

definition emit_gas_vector_data :: "test_vector list \<Rightarrow> string" where
  "emit_gas_vector_data vectors = concat [ln ''.section .data'',
      concat (map (\<lambda>(i, v). (let bytes = vector_buffer_bytes v in concat [
          ln ''.align 3'', ln (''vec'' @ show_nat i @ ''_len:''), ln (''    .quad '' @ show_nat (vector_length v)),
          ln (''vec'' @ show_nat i @ ''_needle:''), ln (''    .byte '' @ show_int (vector_needle v)), ln ''.align 3'',
          ln (''vec'' @ show_nat i @ ''_buf:''), ''    .byte '', (if bytes = [] then ln ''0''
          else concat [join_with '', '' bytes, ln []])])) (List.enumerate 0 vectors))]"

definition emit_gas_i64_sum_vector_data :: "test_vector list \<Rightarrow> string" where
  "emit_gas_i64_sum_vector_data vectors = concat [ln ''.section .data'',
      concat (map (\<lambda>(i, v). (let words = vector_i64_words v in concat [
          ln ''.align 3'', ln (''vec'' @ show_nat i @ ''_len:''), ln (''    .quad '' @ show_nat (vector_length v)),
          ln ''.align 3'', ln (''vec'' @ show_nat i @ ''_buf:''), ''    .quad '', (if words = [] then ln ''0''
          else concat [join_with '', '' words, ln []])])) (List.enumerate 0 vectors))]"

definition emit_gas_pure_int_vector_data :: "test_vector list \<Rightarrow> string" where
  "emit_gas_pure_int_vector_data vectors = concat [ln ''.section .data'',
      concat (map (\<lambda>(i, v). concat [
          ln ''.align 3'', ln (''vec'' @ show_nat i @ ''_a:''), ln (''    .quad '' @ show_nat (vector_int_input v 0)),
          ln ''.align 3'', ln (''vec'' @ show_nat i @ ''_b:''),
          ln (''    .quad '' @ show_nat (vector_int_input v 1))]) (List.enumerate 0 vectors))]"

definition emit_gas_pure_int_unary_vector_data :: "test_vector list \<Rightarrow> string" where
  "emit_gas_pure_int_unary_vector_data vectors = concat [ln ''.section .data'',
      concat (map (\<lambda>(i, v). concat [
          ln ''.align 3'', ln (''vec'' @ show_nat i @ ''_a:''),
          ln (''    .quad '' @ show_nat (vector_int_input v 0))]) (List.enumerate 0 vectors))]"

definition emit_gas_replace_byte_vector_data :: "test_vector list \<Rightarrow> string" where
  "emit_gas_replace_byte_vector_data vectors = concat [ln ''.section .data'',
      concat (map (\<lambda>(i, v). (let bytes = vector_buffer_bytes v in concat [
          ln ''.align 3'', ln (''vec'' @ show_nat i @ ''_len:''), ln (''    .quad '' @ show_nat (vector_length v)),
          ln (''vec'' @ show_nat i @ ''_needle:''), ln (''    .byte '' @ show_int (vector_needle v)),
          ln (''vec'' @ show_nat i @ ''_replacement:''), ln (''    .byte '' @ show_int (vector_replacement v)),
          ln (''vec'' @ show_nat i @ ''_guard_pre:''), ln (''    .byte '' @ show_nat (unat write_guard_pre)),
          ''vec'' @ show_nat i @ ''_buf:'', (if bytes \<noteq> [] then concat [ln [],
                ''    .byte '' @ join_with '', '' bytes]
          else []), ln [], ln (''vec'' @ show_nat i @ ''_guard_post:''),
          ln (''    .byte '' @ show_nat (unat write_guard_post))])) (List.enumerate 0 vectors))]"

definition emit_gas_memset_vector_data :: "test_vector list \<Rightarrow> string" where
  "emit_gas_memset_vector_data vectors = concat [ln ''.section .data'',
      concat (map (\<lambda>(i, v). (let bytes = vector_buffer_bytes v in concat [
          ln ''.align 3'', ln (''vec'' @ show_nat i @ ''_len:''), ln (''    .quad '' @ show_nat (vector_length v)),
          ln (''vec'' @ show_nat i @ ''_needle:''), ln (''    .byte '' @ show_int (vector_needle v)),
          ln (''vec'' @ show_nat i @ ''_guard_pre:''), ln (''    .byte '' @ show_nat (unat write_guard_pre)),
          ''vec'' @ show_nat i @ ''_buf:'', (if bytes \<noteq> [] then concat [ln [],
                ''    .byte '' @ join_with '', '' bytes]
          else []), ln [], ln (''vec'' @ show_nat i @ ''_guard_post:''),
          ln (''    .byte '' @ show_nat (unat write_guard_post))])) (List.enumerate 0 vectors))]"

definition emit_gas_memcpy_vector_data :: "test_vector list \<Rightarrow> string" where
  "emit_gas_memcpy_vector_data vectors = concat [ln ''.section .data'',
      concat (map (\<lambda>(i, v). (let dst = vector_memcmp_a_bytes v in (let src = vector_memcmp_b_bytes v in concat [
          ln ''.align 3'', ln (''vec'' @ show_nat i @ ''_len:''), ln (''    .quad '' @ show_nat (vector_memcmp_length v)),
          ln (''vec'' @ show_nat i @ ''_a_guard_pre:''), ln (''    .byte '' @ show_nat (unat write_guard_pre)),
          ''vec'' @ show_nat i @ ''_a:'', (if dst \<noteq> [] then concat [ln [], ''    .byte '' @ join_with '', '' dst]
          else []), ln [], ln (''vec'' @ show_nat i @ ''_a_guard_post:''),
          ln (''    .byte '' @ show_nat (unat write_guard_post)), ln (''vec'' @ show_nat i @ ''_b_guard_pre:''),
          ln (''    .byte '' @ show_nat (unat write_guard_pre)), ''vec'' @ show_nat i @ ''_b:'',
          (if src \<noteq> [] then concat [ln [], ''    .byte '' @ join_with '', '' src]
          else []), ln [], ln (''vec'' @ show_nat i @ ''_b_guard_post:''),
          ln (''    .byte '' @ show_nat (unat write_guard_post))]))) (List.enumerate 0 vectors))]"

definition emit_gas_memcmp_vector_data :: "test_vector list \<Rightarrow> string" where
  "emit_gas_memcmp_vector_data vectors = concat [ln ''.section .data'',
      concat (map (\<lambda>(i, v). (let a = vector_memcmp_a_bytes v in (let b = vector_memcmp_b_bytes v in concat [
          ln ''.align 3'', ln (''vec'' @ show_nat i @ ''_len:''), ln (''    .quad '' @ show_nat (vector_memcmp_length v)),
          ln ''.align 3'', ln (''vec'' @ show_nat i @ ''_a:''), ''    .byte '', (if a = [] then ln ''0''
          else concat [join_with '', '' a, ln []]), ln ''.align 3'', ln (''vec'' @ show_nat i @ ''_b:''), ''    .byte '',
          (if b = [] then ln ''0''
          else concat [join_with '', '' b, ln []])]))) (List.enumerate 0 vectors))]"

section \<open>Programs\<close>

definition generate_aapcs64_replace_byte_harness :: "string \<Rightarrow> test_vector list \<Rightarrow> string" where
  "generate_aapcs64_replace_byte_harness routine_symbol vectors = (let results_len = length vectors * 8 in concat [
      emit_gas_replace_byte_vector_data vectors, ln [], ln ''.section .bss'', ln ''.align 3'', ln ''results:'',
      ln (''    .space '' @ show_nat results_len), ln [], ln ''.section .text'', ln ''.global _start'', ln ''_start:'',
      concat (map (\<lambda>(i, v). concat [
          ln (''    // vector '' @ show_nat i @ '': '' @ tv_name v), (if input_at v 0 = Some JNull then concat [
                ln ''    mov x0, xzr'']
          else ln (''    ldr x0, =vec'' @ show_nat i @ ''_buf'')), ln (''    ldr x1, =vec'' @ show_nat i @ ''_len''),
          ln ''    ldr x1, [x1]'', ln (''    ldr x2, =vec'' @ show_nat i @ ''_needle''), ln ''    ldrb w2, [x2]'',
          ln (''    ldr x3, =vec'' @ show_nat i @ ''_replacement''), ln ''    ldrb w3, [x3]'',
          ln (''    bl '' @ routine_symbol), ln ''    ldr x4, =results'',
          ln (''    str x0, [x4, #'' @ show_nat (i * 8) @ '']'')]) (List.enumerate 0 vectors)), ln ''    mov x0, #1'',
      ln ''    ldr x1, =results'', ln (''    mov x2, #'' @ show_nat results_len), ln ''    mov x8, #64'', ln ''    svc #0'',
      concat (map (\<lambda>(i, v). (let len = vector_length v + 2 in concat [
          ln (''    // write guarded buffer '' @ show_nat i @ '' ('' @ show_nat len @ '' bytes)''), ln ''    mov x0, #1'',
          ln (''    ldr x1, =vec'' @ show_nat i @ ''_guard_pre''), ln (''    mov x2, #'' @ show_nat len),
          ln ''    mov x8, #64'', ln ''    svc #0''])) (List.enumerate 0 vectors)), ln ''    mov x0, #0'',
      ln ''    mov x8, #93'', ln ''    svc #0''])"

definition generate_aapcs64_memset_harness :: "string \<Rightarrow> test_vector list \<Rightarrow> string" where
  "generate_aapcs64_memset_harness routine_symbol vectors = (let results_len = length vectors * 8 in concat [
      emit_gas_memset_vector_data vectors, ln [], ln ''.section .bss'', ln ''.align 3'', ln ''results:'',
      ln (''    .space '' @ show_nat results_len), ln [], ln ''.section .text'', ln ''.global _start'', ln ''_start:'',
      concat (map (\<lambda>(i, v). concat [
          ln (''    // vector '' @ show_nat i @ '': '' @ tv_name v), (if input_at v 0 = Some JNull then concat [
                ln ''    mov x0, xzr'']
          else ln (''    ldr x0, =vec'' @ show_nat i @ ''_buf'')), ln (''    ldr x1, =vec'' @ show_nat i @ ''_len''),
          ln ''    ldr x1, [x1]'', ln (''    ldr x2, =vec'' @ show_nat i @ ''_needle''), ln ''    ldrb w2, [x2]'',
          ln (''    bl '' @ routine_symbol), ln ''    ldr x3, =results'',
          ln (''    str x0, [x3, #'' @ show_nat (i * 8) @ '']'')]) (List.enumerate 0 vectors)), ln ''    mov x0, #1'',
      ln ''    ldr x1, =results'', ln (''    mov x2, #'' @ show_nat results_len), ln ''    mov x8, #64'', ln ''    svc #0'',
      concat (map (\<lambda>(i, v). (let len = vector_length v + 2 in concat [
          ln ''    mov x0, #1'', ln (''    ldr x1, =vec'' @ show_nat i @ ''_guard_pre''),
          ln (''    mov x2, #'' @ show_nat len), ln ''    mov x8, #64'', ln ''    svc #0''])) (List.enumerate 0 vectors)),
      ln ''    mov x0, #0'', ln ''    mov x8, #93'', ln ''    svc #0''])"

definition generate_aapcs64_memcpy_harness :: "string \<Rightarrow> test_vector list \<Rightarrow> string" where
  "generate_aapcs64_memcpy_harness routine_symbol vectors = (let results_len = length vectors * 8 in concat [
      emit_gas_memcpy_vector_data vectors, ln [], ln ''.section .bss'', ln ''.align 3'', ln ''results:'',
      ln (''    .space '' @ show_nat results_len), ln [], ln ''.section .text'', ln ''.global _start'', ln ''_start:'',
      concat (map (\<lambda>(i, v). concat [
          ln (''    // vector '' @ show_nat i @ '': '' @ tv_name v), (if input_at v 0 = Some JNull then concat [
                ln ''    mov x0, xzr'']
          else ln (''    ldr x0, =vec'' @ show_nat i @ ''_a'')), (if input_at v 1 = Some JNull then concat [
                ln ''    mov x1, xzr'']
          else ln (''    ldr x1, =vec'' @ show_nat i @ ''_b'')), ln (''    ldr x2, =vec'' @ show_nat i @ ''_len''),
          ln ''    ldr x2, [x2]'', ln (''    bl '' @ routine_symbol), ln ''    ldr x3, =results'',
          ln (''    str x0, [x3, #'' @ show_nat (i * 8) @ '']'')]) (List.enumerate 0 vectors)), ln ''    mov x0, #1'',
      ln ''    ldr x1, =results'', ln (''    mov x2, #'' @ show_nat results_len), ln ''    mov x8, #64'', ln ''    svc #0'',
      concat (map (\<lambda>(i, v). (let len = vector_memcmp_length v + 2 in concat [
          ln ''    mov x0, #1'', ln (''    ldr x1, =vec'' @ show_nat i @ ''_a_guard_pre''),
          ln (''    mov x2, #'' @ show_nat len), ln ''    mov x8, #64'', ln ''    svc #0'', ln ''    mov x0, #1'',
          ln (''    ldr x1, =vec'' @ show_nat i @ ''_b_guard_pre''), ln (''    mov x2, #'' @ show_nat len),
          ln ''    mov x8, #64'', ln ''    svc #0''])) (List.enumerate 0 vectors)), ln ''    mov x0, #0'',
      ln ''    mov x8, #93'', ln ''    svc #0''])"

definition generate_riscv_replace_byte_harness :: "string \<Rightarrow> test_vector list \<Rightarrow> string" where
  "generate_riscv_replace_byte_harness routine_symbol vectors = (let results_len = length vectors * 8 in concat [
      ln ''.option norelax'', emit_gas_replace_byte_vector_data vectors, ln [], ln ''.section .bss'', ln ''.align 4'',
      ln ''results:'', ln (''    .space '' @ show_nat results_len), ln ''.align 4'', ln ''    .space 16384'',
      ln ''__stack_top:'', ln [], ln ''.section .text'', ln ''.global _start'', ln ''_start:'',
      ln ''    la sp, __stack_top'',
      concat (map (\<lambda>(i, v). concat [
          ln (''    # vector '' @ show_nat i @ '': '' @ tv_name v), (if input_at v 0 = Some JNull then concat [
                ln ''    li a0, 0'']
          else ln (''    la a0, vec'' @ show_nat i @ ''_buf'')), ln (''    la t0, vec'' @ show_nat i @ ''_len''),
          ln ''    ld a1, 0(t0)'', ln (''    la t0, vec'' @ show_nat i @ ''_needle''), ln ''    lbu a2, 0(t0)'',
          ln (''    la t0, vec'' @ show_nat i @ ''_replacement''), ln ''    lbu a3, 0(t0)'',
          ln (''    jal '' @ routine_symbol), ln ''    la t0, results'',
          ln (''    sd a0, '' @ show_nat (i * 8) @ ''(t0)'')]) (List.enumerate 0 vectors)), ln ''    li a0, 1'',
      ln ''    la a1, results'', ln (''    li a2, '' @ show_nat results_len), ln ''    li a7, 64'', ln ''    ecall'',
      concat (map (\<lambda>(i, v). (let len = vector_length v + 2 in concat [
          ln ''    li a0, 1'', ln (''    la a1, vec'' @ show_nat i @ ''_guard_pre''), ln (''    li a2, '' @ show_nat len),
          ln ''    li a7, 64'', ln ''    ecall''])) (List.enumerate 0 vectors)), ln ''    li a0, 0'', ln ''    li a7, 93'',
      ln ''    ecall''])"

definition generate_riscv_memset_harness :: "string \<Rightarrow> test_vector list \<Rightarrow> string" where
  "generate_riscv_memset_harness routine_symbol vectors = (let results_len = length vectors * 8 in concat [
      ln ''.option norelax'', emit_gas_memset_vector_data vectors, ln [], ln ''.section .bss'', ln ''.align 4'',
      ln ''results:'', ln (''    .space '' @ show_nat results_len), ln ''.align 4'', ln ''    .space 16384'',
      ln ''__stack_top:'', ln [], ln ''.section .text'', ln ''.global _start'', ln ''_start:'',
      ln ''    la sp, __stack_top'',
      concat (map (\<lambda>(i, v). concat [
          ln (''    # vector '' @ show_nat i @ '': '' @ tv_name v), (if input_at v 0 = Some JNull then concat [
                ln ''    li a0, 0'']
          else ln (''    la a0, vec'' @ show_nat i @ ''_buf'')), ln (''    la t0, vec'' @ show_nat i @ ''_len''),
          ln ''    ld a1, 0(t0)'', ln (''    la t0, vec'' @ show_nat i @ ''_needle''), ln ''    lbu a2, 0(t0)'',
          ln (''    jal '' @ routine_symbol), ln ''    la t0, results'',
          ln (''    sd a0, '' @ show_nat (i * 8) @ ''(t0)'')]) (List.enumerate 0 vectors)), ln ''    li a0, 1'',
      ln ''    la a1, results'', ln (''    li a2, '' @ show_nat results_len), ln ''    li a7, 64'', ln ''    ecall'',
      concat (map (\<lambda>(i, v). (let len = vector_length v + 2 in concat [
          ln ''    li a0, 1'', ln (''    la a1, vec'' @ show_nat i @ ''_guard_pre''), ln (''    li a2, '' @ show_nat len),
          ln ''    li a7, 64'', ln ''    ecall''])) (List.enumerate 0 vectors)), ln ''    li a0, 0'', ln ''    li a7, 93'',
      ln ''    ecall''])"

definition generate_riscv_memcpy_harness :: "string \<Rightarrow> test_vector list \<Rightarrow> string" where
  "generate_riscv_memcpy_harness routine_symbol vectors = (let results_len = length vectors * 8 in concat [
      ln ''.option norelax'', emit_gas_memcpy_vector_data vectors, ln [], ln ''.section .bss'', ln ''.align 4'',
      ln ''results:'', ln (''    .space '' @ show_nat results_len), ln ''.align 4'', ln ''    .space 16384'',
      ln ''__stack_top:'', ln [], ln ''.section .text'', ln ''.global _start'', ln ''_start:'',
      ln ''    la sp, __stack_top'',
      concat (map (\<lambda>(i, v). concat [
          ln (''    # vector '' @ show_nat i @ '': '' @ tv_name v), (if input_at v 0 = Some JNull then concat [
                ln ''    li a0, 0'']
          else ln (''    la a0, vec'' @ show_nat i @ ''_a'')), (if input_at v 1 = Some JNull then concat [
                ln ''    li a1, 0'']
          else ln (''    la a1, vec'' @ show_nat i @ ''_b'')), ln (''    la t0, vec'' @ show_nat i @ ''_len''),
          ln ''    ld a2, 0(t0)'', ln (''    jal '' @ routine_symbol), ln ''    la t0, results'',
          ln (''    sd a0, '' @ show_nat (i * 8) @ ''(t0)'')]) (List.enumerate 0 vectors)), ln ''    li a0, 1'',
      ln ''    la a1, results'', ln (''    li a2, '' @ show_nat results_len), ln ''    li a7, 64'', ln ''    ecall'',
      concat (map (\<lambda>(i, v). (let len = vector_memcmp_length v + 2 in concat [
          ln ''    li a0, 1'', ln (''    la a1, vec'' @ show_nat i @ ''_a_guard_pre''), ln (''    li a2, '' @ show_nat len),
          ln ''    li a7, 64'', ln ''    ecall'', ln ''    li a0, 1'',
          ln (''    la a1, vec'' @ show_nat i @ ''_b_guard_pre''), ln (''    li a2, '' @ show_nat len), ln ''    li a7, 64'',
          ln ''    ecall''])) (List.enumerate 0 vectors)), ln ''    li a0, 0'', ln ''    li a7, 93'', ln ''    ecall''])"

definition generate_aapcs64_memcmp_harness :: "string \<Rightarrow> test_vector list \<Rightarrow> string" where
  "generate_aapcs64_memcmp_harness routine_symbol vectors = (let results_len = length vectors * 8 in concat [
      emit_gas_memcmp_vector_data vectors, ln [], ln ''.section .bss'', ln ''.align 3'', ln ''results:'',
      ln (''    .space '' @ show_nat results_len), ln [], ln ''.section .text'', ln ''.global _start'', ln ''_start:'',
      concat (map (\<lambda>(i, v). concat [
          ln (''    // vector '' @ show_nat i @ '': '' @ tv_name v), (if input_at v 0 = Some JNull then concat [
                ln ''    mov x0, xzr'']
          else ln (''    ldr x0, =vec'' @ show_nat i @ ''_a'')), (if input_at v 1 = Some JNull then concat [
                ln ''    mov x1, xzr'']
          else ln (''    ldr x1, =vec'' @ show_nat i @ ''_b'')), ln (''    ldr x2, =vec'' @ show_nat i @ ''_len''),
          ln ''    ldr x2, [x2]'', ln (''    bl '' @ routine_symbol), ln ''    ldr x3, =results'',
          ln (''    str x0, [x3, #'' @ show_nat (i * 8) @ '']'')]) (List.enumerate 0 vectors)),
      ln ''    // write(1, results, len)'', ln ''    mov x0, #1'', ln ''    ldr x1, =results'',
      ln (''    mov x2, #'' @ show_nat results_len), ln ''    mov x8, #64'', ln ''    svc #0'', ln ''    // exit(0)'',
      ln ''    mov x0, #0'', ln ''    mov x8, #93'', ln ''    svc #0''])"

definition generate_riscv_memcmp_harness :: "string \<Rightarrow> test_vector list \<Rightarrow> string" where
  "generate_riscv_memcmp_harness routine_symbol vectors = (let results_len = length vectors * 8 in concat [
      ln ''.option norelax'', emit_gas_memcmp_vector_data vectors, ln [], ln ''.section .bss'', ln ''.align 4'',
      ln ''results:'', ln (''    .space '' @ show_nat results_len), ln ''.align 4'', ln ''    .space 16384'',
      ln ''__stack_top:'', ln [], ln ''.section .text'', ln ''.global _start'', ln ''_start:'',
      ln ''    la sp, __stack_top'',
      concat (map (\<lambda>(i, v). concat [
          ln (''    # vector '' @ show_nat i @ '': '' @ tv_name v), (if input_at v 0 = Some JNull then concat [
                ln ''    li a0, 0'']
          else ln (''    la a0, vec'' @ show_nat i @ ''_a'')), (if input_at v 1 = Some JNull then concat [
                ln ''    li a1, 0'']
          else ln (''    la a1, vec'' @ show_nat i @ ''_b'')), ln (''    la t0, vec'' @ show_nat i @ ''_len''),
          ln ''    ld a2, 0(t0)'', ln (''    jal '' @ routine_symbol), ln ''    la t0, results'',
          ln (''    sd a0, '' @ show_nat (i * 8) @ ''(t0)'')]) (List.enumerate 0 vectors)),
      ln ''    # write(1, results, len)'', ln ''    li a0, 1'', ln ''    la a1, results'',
      ln (''    li a2, '' @ show_nat results_len), ln ''    li a7, 64'', ln ''    ecall'', ln ''    # exit(0)'',
      ln ''    li a0, 0'', ln ''    li a7, 93'', ln ''    ecall''])"

definition generate_aapcs64_buffer_harness :: "string \<Rightarrow> test_vector list \<Rightarrow> string" where
  "generate_aapcs64_buffer_harness routine_symbol vectors = (let results_len = length vectors * 8 in concat [
      emit_gas_vector_data vectors, ln [], ln ''.section .bss'', ln ''.align 3'', ln ''results:'',
      ln (''    .space '' @ show_nat results_len), ln [], ln ''.section .text'', ln ''.global _start'', ln ''_start:'',
      concat (map (\<lambda>(i, _). concat [
          ln (''    // vector '' @ show_nat i @ '': '' @ tv_name (vectors ! i)),
          ln (''    ldr x0, =vec'' @ show_nat i @ ''_buf''), ln (''    ldr x1, =vec'' @ show_nat i @ ''_len''),
          ln ''    ldr x1, [x1]'', ln (''    ldr x2, =vec'' @ show_nat i @ ''_needle''), ln ''    ldrb w2, [x2]'',
          ln (''    bl '' @ routine_symbol), ln ''    ldr x3, =results'',
          ln (''    str x0, [x3, #'' @ show_nat (i * 8) @ '']'')]) (List.enumerate 0 vectors)),
      ln ''    // write(1, results, len)'', ln ''    mov x0, #1'', ln ''    ldr x1, =results'',
      ln (''    mov x2, #'' @ show_nat results_len), ln ''    mov x8, #64'', ln ''    svc #0'', ln ''    // exit(0)'',
      ln ''    mov x0, #0'', ln ''    mov x8, #93'', ln ''    svc #0''])"

definition generate_aapcs64_pure_int_harness :: "string \<Rightarrow> test_vector list \<Rightarrow> string" where
  "generate_aapcs64_pure_int_harness routine_symbol vectors = (let results_len = length vectors * 8 in concat [
      emit_gas_pure_int_vector_data vectors, ln [], ln ''.section .bss'', ln ''.align 3'', ln ''results:'',
      ln (''    .space '' @ show_nat results_len), ln [], ln ''.section .text'', ln ''.global _start'', ln ''_start:'',
      concat (map (\<lambda>(i, _). concat [
          ln (''    // vector '' @ show_nat i @ '': '' @ tv_name (vectors ! i)),
          ln (''    ldr x0, =vec'' @ show_nat i @ ''_a''), ln ''    ldr x0, [x0]'',
          ln (''    ldr x1, =vec'' @ show_nat i @ ''_b''), ln ''    ldr x1, [x1]'', ln (''    bl '' @ routine_symbol),
          ln ''    ldr x2, =results'', ln (''    str x0, [x2, #'' @ show_nat (i * 8) @ '']'')]) (List.enumerate 0 vectors)),
      ln ''    // write(1, results, len)'', ln ''    mov x0, #1'', ln ''    ldr x1, =results'',
      ln (''    mov x2, #'' @ show_nat results_len), ln ''    mov x8, #64'', ln ''    svc #0'', ln ''    // exit(0)'',
      ln ''    mov x0, #0'', ln ''    mov x8, #93'', ln ''    svc #0''])"

definition generate_aapcs64_pure_int_unary_harness :: "string \<Rightarrow> test_vector list \<Rightarrow> string" where
  "generate_aapcs64_pure_int_unary_harness routine_symbol vectors = (let results_len = length vectors * 8 in concat [
      emit_gas_pure_int_unary_vector_data vectors, ln [], ln ''.section .bss'', ln ''.align 3'', ln ''results:'',
      ln (''    .space '' @ show_nat results_len), ln [], ln ''.section .text'', ln ''.global _start'', ln ''_start:'',
      concat (map (\<lambda>(i, _). concat [
          ln (''    // vector '' @ show_nat i @ '': '' @ tv_name (vectors ! i)),
          ln (''    ldr x0, =vec'' @ show_nat i @ ''_a''), ln ''    ldr x0, [x0]'', ln (''    bl '' @ routine_symbol),
          ln ''    ldr x2, =results'', ln (''    str x0, [x2, #'' @ show_nat (i * 8) @ '']'')]) (List.enumerate 0 vectors)),
      ln ''    // write(1, results, len)'', ln ''    mov x0, #1'', ln ''    ldr x1, =results'',
      ln (''    mov x2, #'' @ show_nat results_len), ln ''    mov x8, #64'', ln ''    svc #0'', ln ''    // exit(0)'',
      ln ''    mov x0, #0'', ln ''    mov x8, #93'', ln ''    svc #0''])"

definition generate_aapcs64_i64_sum_harness :: "string \<Rightarrow> test_vector list \<Rightarrow> string" where
  "generate_aapcs64_i64_sum_harness routine_symbol vectors = (let results_len = length vectors * 8 in concat [
      emit_gas_i64_sum_vector_data vectors, ln [], ln ''.section .bss'', ln ''.align 3'', ln ''results:'',
      ln (''    .space '' @ show_nat results_len), ln [], ln ''.section .text'', ln ''.global _start'', ln ''_start:'',
      concat (map (\<lambda>(i, _). concat [
          ln (''    // vector '' @ show_nat i @ '': '' @ tv_name (vectors ! i)),
          ln (''    ldr x0, =vec'' @ show_nat i @ ''_buf''), ln (''    ldr x1, =vec'' @ show_nat i @ ''_len''),
          ln ''    ldr x1, [x1]'', ln (''    bl '' @ routine_symbol), ln ''    ldr x2, =results'',
          ln (''    str x0, [x2, #'' @ show_nat (i * 8) @ '']'')]) (List.enumerate 0 vectors)),
      ln ''    // write(1, results, len)'', ln ''    mov x0, #1'', ln ''    ldr x1, =results'',
      ln (''    mov x2, #'' @ show_nat results_len), ln ''    mov x8, #64'', ln ''    svc #0'', ln ''    // exit(0)'',
      ln ''    mov x0, #0'', ln ''    mov x8, #93'', ln ''    svc #0''])"

definition generate_riscv_buffer_harness :: "string \<Rightarrow> test_vector list \<Rightarrow> string" where
  "generate_riscv_buffer_harness routine_symbol vectors = (let results_len = length vectors * 8 in concat [
      ln ''.option norelax'', emit_gas_vector_data vectors, ln [], ln ''.section .bss'', ln ''.align 4'', ln ''results:'',
      ln (''    .space '' @ show_nat results_len), ln ''.align 4'', ln ''    .space 16384'', ln ''__stack_top:'', ln [],
      ln ''.section .text'', ln ''.global _start'', ln ''_start:'', ln ''    la sp, __stack_top'',
      concat (map (\<lambda>(i, _). concat [
          ln (''    # vector '' @ show_nat i @ '': '' @ tv_name (vectors ! i)),
          ln (''    la a0, vec'' @ show_nat i @ ''_buf''), ln (''    la t0, vec'' @ show_nat i @ ''_len''),
          ln ''    ld a1, 0(t0)'', ln (''    la t0, vec'' @ show_nat i @ ''_needle''), ln ''    lbu a2, 0(t0)'',
          ln (''    jal '' @ routine_symbol), ln ''    la t0, results'',
          ln (''    sd a0, '' @ show_nat (i * 8) @ ''(t0)'')]) (List.enumerate 0 vectors)),
      ln ''    # write(1, results, len)'', ln ''    li a0, 1'', ln ''    la a1, results'',
      ln (''    li a2, '' @ show_nat results_len), ln ''    li a7, 64'', ln ''    ecall'', ln ''    # exit(0)'',
      ln ''    li a0, 0'', ln ''    li a7, 93'', ln ''    ecall''])"

definition generate_riscv_pure_int_harness :: "string \<Rightarrow> test_vector list \<Rightarrow> string" where
  "generate_riscv_pure_int_harness routine_symbol vectors = (let results_len = length vectors * 8 in concat [
      ln ''.option norelax'', emit_gas_pure_int_vector_data vectors, ln [], ln ''.section .bss'', ln ''.align 4'',
      ln ''results:'', ln (''    .space '' @ show_nat results_len), ln ''.align 4'', ln ''    .space 16384'',
      ln ''__stack_top:'', ln [], ln ''.section .text'', ln ''.global _start'', ln ''_start:'',
      ln ''    la sp, __stack_top'',
      concat (map (\<lambda>(i, _). concat [
          ln (''    # vector '' @ show_nat i @ '': '' @ tv_name (vectors ! i)),
          ln (''    la a0, vec'' @ show_nat i @ ''_a''), ln ''    ld a0, 0(a0)'',
          ln (''    la a1, vec'' @ show_nat i @ ''_b''), ln ''    ld a1, 0(a1)'', ln (''    jal '' @ routine_symbol),
          ln ''    la t0, results'', ln (''    sd a0, '' @ show_nat (i * 8) @ ''(t0)'')]) (List.enumerate 0 vectors)),
      ln ''    # write(1, results, len)'', ln ''    li a0, 1'', ln ''    la a1, results'',
      ln (''    li a2, '' @ show_nat results_len), ln ''    li a7, 64'', ln ''    ecall'', ln ''    # exit(0)'',
      ln ''    li a0, 0'', ln ''    li a7, 93'', ln ''    ecall''])"

definition generate_riscv_pure_int_unary_harness :: "string \<Rightarrow> test_vector list \<Rightarrow> string" where
  "generate_riscv_pure_int_unary_harness routine_symbol vectors = (let results_len = length vectors * 8 in concat [
      ln ''.option norelax'', emit_gas_pure_int_unary_vector_data vectors, ln [], ln ''.section .bss'', ln ''.align 4'',
      ln ''results:'', ln (''    .space '' @ show_nat results_len), ln ''.align 4'', ln ''    .space 16384'',
      ln ''__stack_top:'', ln [], ln ''.section .text'', ln ''.global _start'', ln ''_start:'',
      ln ''    la sp, __stack_top'',
      concat (map (\<lambda>(i, _). concat [
          ln (''    # vector '' @ show_nat i @ '': '' @ tv_name (vectors ! i)),
          ln (''    la a0, vec'' @ show_nat i @ ''_a''), ln ''    ld a0, 0(a0)'', ln (''    jal '' @ routine_symbol),
          ln ''    la t0, results'', ln (''    sd a0, '' @ show_nat (i * 8) @ ''(t0)'')]) (List.enumerate 0 vectors)),
      ln ''    # write(1, results, len)'', ln ''    li a0, 1'', ln ''    la a1, results'',
      ln (''    li a2, '' @ show_nat results_len), ln ''    li a7, 64'', ln ''    ecall'', ln ''    # exit(0)'',
      ln ''    li a0, 0'', ln ''    li a7, 93'', ln ''    ecall''])"

definition generate_riscv_i64_sum_harness :: "string \<Rightarrow> test_vector list \<Rightarrow> string" where
  "generate_riscv_i64_sum_harness routine_symbol vectors = (let results_len = length vectors * 8 in concat [
      ln ''.option norelax'', emit_gas_i64_sum_vector_data vectors, ln [], ln ''.section .bss'', ln ''.align 4'',
      ln ''results:'', ln (''    .space '' @ show_nat results_len), ln ''.align 4'', ln ''    .space 16384'',
      ln ''__stack_top:'', ln [], ln ''.section .text'', ln ''.global _start'', ln ''_start:'',
      ln ''    la sp, __stack_top'',
      concat (map (\<lambda>(i, _). concat [
          ln (''    # vector '' @ show_nat i @ '': '' @ tv_name (vectors ! i)),
          ln (''    la a0, vec'' @ show_nat i @ ''_buf''), ln (''    la t0, vec'' @ show_nat i @ ''_len''),
          ln ''    ld a1, 0(t0)'', ln (''    jal '' @ routine_symbol), ln ''    la t0, results'',
          ln (''    sd a0, '' @ show_nat (i * 8) @ ''(t0)'')]) (List.enumerate 0 vectors)),
      ln ''    # write(1, results, len)'', ln ''    li a0, 1'', ln ''    la a1, results'',
      ln (''    li a2, '' @ show_nat results_len), ln ''    li a7, 64'', ln ''    ecall'', ln ''    # exit(0)'',
      ln ''    li a0, 0'', ln ''    li a7, 93'', ln ''    ecall''])"

end
