(* ===== verification/Harness_Gen.thy ===== *)
theory Harness_Gen imports Harness_Gas Target begin

text \<open>
  \<open>generate_harness\<close> of \<open>semasm-agent/src/harness.rs\<close>: which program a convention and a shape get, and
  what every generated program does with the routine: it calls it once per vector.
\<close>

fun abi_debug :: "abi \<Rightarrow> string" where
  "abi_debug SysVAmd64 = ''SysVAmd64''"
| "abi_debug WindowsX64 = ''WindowsX64''"
| "abi_debug Aapcs64 = ''Aapcs64''"
| "abi_debug Riscv = ''Riscv''"

definition cell_unsupported :: "abi \<Rightarrow> string" where
  "cell_unsupported a = ''concrete cell harness not supported for ABI '' @ abi_debug a @ '' (x86 SysV/Win64 only in v1)''"

fun generate_harness :: "string \<Rightarrow> test_vector list \<Rightarrow> abi \<Rightarrow> harness_shape \<Rightarrow> string + string" where
  "generate_harness r vs SysVAmd64 HsBufferScan = Inr (generate_sysv_buffer_harness r vs)"
| "generate_harness r vs SysVAmd64 HsReplaceByte = Inr (generate_sysv_replace_byte_harness r vs)"
| "generate_harness r vs SysVAmd64 HsMemset = Inr (generate_sysv_memset_harness r vs)"
| "generate_harness r vs SysVAmd64 HsMemCmp = Inr (generate_sysv_memcmp_harness r vs)"
| "generate_harness r vs SysVAmd64 HsMemcpy = Inr (generate_sysv_memcpy_harness r vs)"
| "generate_harness r vs SysVAmd64 HsI64Sum = Inr (generate_sysv_i64_sum_harness r vs)"
| "generate_harness r vs SysVAmd64 HsPureInt = Inr (generate_sysv_pure_int_harness r vs)"
| "generate_harness r vs SysVAmd64 HsPureIntUnary = Inr (generate_sysv_pure_int_unary_harness r vs)"
| "generate_harness r vs SysVAmd64 HsCellLoad = Inr (generate_sysv_cell_load_harness r vs)"
| "generate_harness r vs SysVAmd64 HsCellStore = Inr (generate_sysv_cell_store_harness r vs)"
| "generate_harness r vs WindowsX64 HsBufferScan = Inr (generate_win64_buffer_harness r vs)"
| "generate_harness r vs WindowsX64 HsReplaceByte = Inr (generate_win64_replace_byte_harness r vs)"
| "generate_harness r vs WindowsX64 HsMemset = Inr (generate_win64_memset_harness r vs)"
| "generate_harness r vs WindowsX64 HsMemCmp = Inr (generate_win64_memcmp_harness r vs)"
| "generate_harness r vs WindowsX64 HsMemcpy = Inr (generate_win64_memcpy_harness r vs)"
| "generate_harness r vs WindowsX64 HsI64Sum = Inr (generate_win64_i64_sum_harness r vs)"
| "generate_harness r vs WindowsX64 HsPureInt = Inr (generate_win64_pure_int_harness r vs)"
| "generate_harness r vs WindowsX64 HsPureIntUnary = Inr (generate_win64_pure_int_unary_harness r vs)"
| "generate_harness r vs WindowsX64 HsCellLoad = Inr (generate_win64_cell_load_harness r vs)"
| "generate_harness r vs WindowsX64 HsCellStore = Inr (generate_win64_cell_store_harness r vs)"
| "generate_harness r vs Aapcs64 HsBufferScan = Inr (generate_aapcs64_buffer_harness r vs)"
| "generate_harness r vs Aapcs64 HsMemCmp = Inr (generate_aapcs64_memcmp_harness r vs)"
| "generate_harness r vs Riscv HsMemCmp = Inr (generate_riscv_memcmp_harness r vs)"
| "generate_harness r vs Aapcs64 HsReplaceByte = Inr (generate_aapcs64_replace_byte_harness r vs)"
| "generate_harness r vs Aapcs64 HsMemset = Inr (generate_aapcs64_memset_harness r vs)"
| "generate_harness r vs Aapcs64 HsMemcpy = Inr (generate_aapcs64_memcpy_harness r vs)"
| "generate_harness r vs Riscv HsReplaceByte = Inr (generate_riscv_replace_byte_harness r vs)"
| "generate_harness r vs Riscv HsMemset = Inr (generate_riscv_memset_harness r vs)"
| "generate_harness r vs Riscv HsMemcpy = Inr (generate_riscv_memcpy_harness r vs)"
| "generate_harness r vs Aapcs64 HsI64Sum = Inr (generate_aapcs64_i64_sum_harness r vs)"
| "generate_harness r vs Aapcs64 HsPureInt = Inr (generate_aapcs64_pure_int_harness r vs)"
| "generate_harness r vs Aapcs64 HsPureIntUnary = Inr (generate_aapcs64_pure_int_unary_harness r vs)"
| "generate_harness r vs Riscv HsBufferScan = Inr (generate_riscv_buffer_harness r vs)"
| "generate_harness r vs Riscv HsI64Sum = Inr (generate_riscv_i64_sum_harness r vs)"
| "generate_harness r vs Riscv HsPureInt = Inr (generate_riscv_pure_int_harness r vs)"
| "generate_harness r vs Riscv HsPureIntUnary = Inr (generate_riscv_pure_int_unary_harness r vs)"
| "generate_harness r vs a HsCellLoad = Inl (cell_unsupported a)"
| "generate_harness r vs a HsCellStore = Inl (cell_unsupported a)"

section \<open>Counting lines\<close>

text \<open>\<open>count_line\<close> counts the lines equal to \<open>l\<close>, the text before them on the first line being \<open>cur\<close>;
  \<open>last_line\<close> is what is left after the last newline.\<close>

fun count_line :: "string \<Rightarrow> string \<Rightarrow> string \<Rightarrow> nat" where
  "count_line l cur [] = 0"
| "count_line l cur (c # s) =
     (if c = CHR 0x0A then (if cur = l then 1 else 0) + count_line l [] s else count_line l (cur @ [c]) s)"

fun last_line :: "string \<Rightarrow> string \<Rightarrow> string" where
  "last_line cur [] = cur"
| "last_line cur (c # s) = (if c = CHR 0x0A then last_line [] s else last_line (cur @ [c]) s)"

definition one_line :: "string \<Rightarrow> bool" where
  "one_line s \<longleftrightarrow> CHR 0x0A \<notin> set s"

lemma one_line_parts [simp]:
  "one_line []" "one_line (c # s) \<longleftrightarrow> c \<noteq> CHR 0x0A \<and> one_line s" "one_line (s @ t) \<longleftrightarrow> one_line s \<and> one_line t"
  by (auto simp: one_line_def)

text \<open>One rewrite per character: some bit differs from those of the newline.\<close>

lemma one_line_char:
  "one_line (Char True b d e f g h i # s) = one_line s"
  "one_line (Char a False d e f g h i # s) = one_line s"
  "one_line (Char a b True e f g h i # s) = one_line s"
  "one_line (Char a b d False f g h i # s) = one_line s"
  "one_line (Char a b d e True g h i # s) = one_line s"
  "one_line (Char a b d e f True h i # s) = one_line s"
  "one_line (Char a b d e f g True i # s) = one_line s"
  "one_line (Char a b d e f g h True # s) = one_line s"
  by simp_all

lemma one_line_digits [simp]: "one_line (show_nat n)"
proof -
  have "\<not> is_ascii_digit (CHR 0x0A)" by (simp add: is_ascii_digit_def)
  then show ?thesis using show_nat_digits [of n] by (auto simp: one_line_def)
qed

lemma one_line_int [simp]: "one_line (show_int i)"
  by (simp add: show_int_def)

lemma one_line_join: "one_line sep \<Longrightarrow> list_all one_line xs \<Longrightarrow> one_line (join_with sep xs)"
  by (induction sep xs rule: join_with.induct) simp_all

lemma one_line_items [simp]:
  "one_line (join_with '', '' (vector_buffer_bytes v))" "one_line (join_with '', '' (vector_i64_words v))"
  "one_line (join_with '', '' (vector_memcmp_a_bytes v))" "one_line (join_with '', '' (vector_memcmp_b_bytes v))"
  by (rule one_line_join;
      simp add: vector_buffer_bytes_def vector_i64_words_def vector_memcmp_a_bytes_def vector_memcmp_b_bytes_def
        vector_memcmp_buffer_bytes_def list_all_iff split: option.split)+

lemma count_line_append: "one_line s \<Longrightarrow> count_line l cur (s @ t) = count_line l (cur @ s) t"
  by (induction s arbitrary: cur) simp_all

lemma last_line_append: "one_line s \<Longrightarrow> last_line cur (s @ t) = last_line (cur @ s) t"
  by (induction s arbitrary: cur) simp_all

definition hit :: "string \<Rightarrow> string \<Rightarrow> nat" where
  "hit l s = (if s = l then 1 else 0)"

lemma count_line_ln: "one_line s \<Longrightarrow> count_line l cur (ln s @ t) = hit l (cur @ s) + count_line l [] t"
  by (simp add: ln_def count_line_append hit_def)

lemma last_line_ln: "one_line s \<Longrightarrow> last_line cur (ln s @ t) = last_line [] t"
  by (simp add: ln_def last_line_append)

lemma count_line_split: "last_line cur s = [] \<Longrightarrow> count_line l cur (s @ t) = count_line l cur s + count_line l [] t"
  by (induction s arbitrary: cur) auto

lemma last_line_split: "last_line cur s = [] \<Longrightarrow> last_line cur (s @ t) = last_line [] t"
  by (induction s arbitrary: cur) auto

text \<open>A vector without newlines in its name.\<close>

definition clean :: "test_vector \<Rightarrow> test_vector" where
  "clean v = v\<lparr>tv_name := filter (\<lambda>c. c \<noteq> CHR 0x0A) (tv_name v)\<rparr>"

lemma one_line_clean [simp]: "one_line (tv_name (clean v))"
  by (simp add: clean_def one_line_def)

lemma clean_id: "one_line (tv_name v) \<Longrightarrow> clean v = v"
  by (cases v) (auto simp: clean_def one_line_def filter_id_conv)

definition loop_sum :: "(nat \<Rightarrow> test_vector \<Rightarrow> nat) \<Rightarrow> test_vector list \<Rightarrow> nat" where
  "loop_sum h vs = sum_list (map (\<lambda>(i, v). h i v) (List.enumerate 0 vs))"

lemma loop_sum_const [simp]: "loop_sum (\<lambda>i v. k) vs = k * length vs"
proof -
  have "sum_list (map (\<lambda>(i, v). k) (List.enumerate n vs)) = k * length vs" for n
    by (induction vs arbitrary: n) simp_all
  then show ?thesis by (simp add: loop_sum_def)
qed

lemma last_line_loop:
  assumes "\<And>i v. last_line [] (g i (clean v)) = []"
  shows "last_line [] (concat (map (\<lambda>(i, v). g i v) (List.enumerate n (map clean vs))) @ t) = last_line [] t"
  by (induction vs arbitrary: n) (simp_all add: assms last_line_split)

lemma count_line_loop:
  assumes "\<And>i v. last_line [] (g i (clean v)) = []"
  shows "count_line l [] (concat (map (\<lambda>(i, v). g i v) (List.enumerate 0 (map clean vs))) @ t) =
    loop_sum (\<lambda>i v. count_line l [] (g i (clean v))) vs + count_line l [] t"
proof -
  have "count_line l [] (concat (map (\<lambda>(i, v). g i v) (List.enumerate n (map clean vs))) @ t) =
    sum_list (map (\<lambda>(i, v). count_line l [] (g i (clean v))) (List.enumerate n vs)) + count_line l [] t" for n
    by (induction vs arbitrary: n) (simp_all add: assms count_line_split)
  then show ?thesis by (simp add: loop_sum_def)
qed

text \<open>A loop that reads the vector by its index.\<close>

definition index_sum :: "(nat \<Rightarrow> nat) \<Rightarrow> nat \<Rightarrow> nat" where
  "index_sum h n = sum_list (map h [0..<n])"

lemma index_sum_cong [cong]: "n = m \<Longrightarrow> (\<And>i. i < m \<Longrightarrow> h i = h' i) \<Longrightarrow> index_sum h n = index_sum h' m"
  by (auto simp: index_sum_def intro!: arg_cong [where f = sum_list])

lemma index_sum_const [simp]: "index_sum (\<lambda>i. k) n = k * n"
  by (simp add: index_sum_def sum_list_triv)

lemma index_loop: "concat (map (\<lambda>(i, v). g i) (List.enumerate 0 xs)) = concat (map g [0..<length xs])"
proof -
  have "map (\<lambda>(i, v). g i) (List.enumerate n xs) = map g [n..<n + length xs]" for n
    by (induction xs arbitrary: n) (simp_all add: upt_conv_Cons del: upt_Suc)
  then show ?thesis by simp
qed

lemma last_line_index:
  assumes "\<And>i. i < length vs \<Longrightarrow> last_line [] (g i) = []"
  shows "last_line [] (concat (map (\<lambda>(i, v). g i) (List.enumerate 0 (map clean vs))) @ t) = last_line [] t"
proof -
  have "last_line [] (concat (map g is) @ t) = last_line [] t" if "set is \<subseteq> {..<length vs}" for "is"
    using that by (induction "is") (simp_all add: assms last_line_split)
  then show ?thesis by (simp add: index_loop atLeast0LessThan)
qed

lemma count_line_index:
  assumes "\<And>i. i < length vs \<Longrightarrow> last_line [] (g i) = []"
  shows "count_line l [] (concat (map (\<lambda>(i, v). g i) (List.enumerate 0 (map clean vs))) @ t) =
    index_sum (\<lambda>i. count_line l [] (g i)) (length vs) + count_line l [] t"
proof -
  have "count_line l [] (concat (map g is) @ t) = sum_list (map (\<lambda>i. count_line l [] (g i)) is) + count_line l [] t"
    if "set is \<subseteq> {..<length vs}" for "is"
    using that by (induction "is") (simp_all add: assms count_line_split)
  then show ?thesis by (simp add: index_loop index_sum_def atLeast0LessThan)
qed

lemma if_text:
  "count_line l cur ((if b then x else y) @ t) = (if b then count_line l cur (x @ t) else count_line l cur (y @ t))"
  "last_line cur ((if b then x else y) @ t) = (if b then last_line cur (x @ t) else last_line cur (y @ t))"
  "count_line l cur (if b then x else y) = (if b then count_line l cur x else count_line l cur y)"
  "last_line cur (if b then x else y) = (if b then last_line cur x else last_line cur y)"
  by simp_all

lemma end_ln:
  "one_line s \<Longrightarrow> count_line l cur (ln s) = hit l (cur @ s)" "one_line s \<Longrightarrow> last_line cur (ln s) = []"
  "count_line l cur [] = 0" "last_line cur [] = cur"
  using count_line_ln [of s l cur "[]"] last_line_ln [of s cur "[]"] by simp_all

lemma text_flat: "concat [] = []" "concat (x # xs) = x @ concat xs" "(x @ y) @ z = x @ y @ z" "x @ [] = x" "[] @ x = x"
  by simp_all

lemmas end_loop = count_line_loop [where t = "[]", unfolded append_Nil2 end_ln add_0_right]
  last_line_loop [where t = "[]", unfolded append_Nil2 end_ln]
  count_line_index [where t = "[]", unfolded append_Nil2 end_ln add_0_right]
  last_line_index [where t = "[]", unfolded append_Nil2 end_ln]

lemmas text_rules = end_loop if_cancel count_line_ln last_line_ln count_line_append last_line_append if_text end_ln count_line_loop last_line_loop count_line_index last_line_index nth_map
  text_flat one_line_char one_line_parts(1,3) one_line_digits one_line_int one_line_items one_line_clean simp_thms Let_def length_map

lemmas nasm_data_defs =
    emit_cell_load_vector_data_def emit_cell_store_vector_data_def emit_vector_data_def
    emit_replace_byte_vector_data_def emit_memset_vector_data_def emit_pure_int_vector_data_def
    emit_pure_int_unary_vector_data_def emit_i64_sum_vector_data_def emit_memcmp_vector_data_def
    emit_memcpy_vector_data_def

lemma nasm_data_ends:
  "last_line [] (emit_cell_load_vector_data (map clean vs) @ t) = last_line [] t"
  "last_line [] (emit_cell_store_vector_data (map clean vs) @ t) = last_line [] t"
  "last_line [] (emit_vector_data (map clean vs) @ t) = last_line [] t"
  "last_line [] (emit_replace_byte_vector_data (map clean vs) @ t) = last_line [] t"
  "last_line [] (emit_memset_vector_data (map clean vs) @ t) = last_line [] t"
  "last_line [] (emit_pure_int_vector_data (map clean vs) @ t) = last_line [] t"
  "last_line [] (emit_pure_int_unary_vector_data (map clean vs) @ t) = last_line [] t"
  "last_line [] (emit_i64_sum_vector_data (map clean vs) @ t) = last_line [] t"
  "last_line [] (emit_memcmp_vector_data (map clean vs) @ t) = last_line [] t"
  "last_line [] (emit_memcpy_vector_data (map clean vs) @ t) = last_line [] t"
  by (simp_all only: nasm_data_defs text_rules cong: if_cong index_sum_cong)

lemma nasm_data_call:
  "count_line (''    call '' @ r) [] (emit_cell_load_vector_data (map clean vs) @ t) = count_line (''    call '' @ r) [] t"
  "count_line (''    call '' @ r) [] (emit_cell_store_vector_data (map clean vs) @ t) = count_line (''    call '' @ r) [] t"
  "count_line (''    call '' @ r) [] (emit_vector_data (map clean vs) @ t) = count_line (''    call '' @ r) [] t"
  "count_line (''    call '' @ r) [] (emit_replace_byte_vector_data (map clean vs) @ t) = count_line (''    call '' @ r) [] t"
  "count_line (''    call '' @ r) [] (emit_memset_vector_data (map clean vs) @ t) = count_line (''    call '' @ r) [] t"
  "count_line (''    call '' @ r) [] (emit_pure_int_vector_data (map clean vs) @ t) = count_line (''    call '' @ r) [] t"
  "count_line (''    call '' @ r) [] (emit_pure_int_unary_vector_data (map clean vs) @ t) = count_line (''    call '' @ r) [] t"
  "count_line (''    call '' @ r) [] (emit_i64_sum_vector_data (map clean vs) @ t) = count_line (''    call '' @ r) [] t"
  "count_line (''    call '' @ r) [] (emit_memcmp_vector_data (map clean vs) @ t) = count_line (''    call '' @ r) [] t"
  "count_line (''    call '' @ r) [] (emit_memcpy_vector_data (map clean vs) @ t) = count_line (''    call '' @ r) [] t"
  by (simp_all only: nasm_data_defs text_rules cong: if_cong index_sum_cong; simp add: hit_def cong: if_cong index_sum_cong)+

lemmas gas_data_defs =
    emit_gas_vector_data_def emit_gas_i64_sum_vector_data_def emit_gas_pure_int_vector_data_def
    emit_gas_pure_int_unary_vector_data_def emit_gas_replace_byte_vector_data_def emit_gas_memset_vector_data_def
    emit_gas_memcpy_vector_data_def emit_gas_memcmp_vector_data_def

lemma gas_data_ends:
  "last_line [] (emit_gas_vector_data (map clean vs) @ t) = last_line [] t"
  "last_line [] (emit_gas_i64_sum_vector_data (map clean vs) @ t) = last_line [] t"
  "last_line [] (emit_gas_pure_int_vector_data (map clean vs) @ t) = last_line [] t"
  "last_line [] (emit_gas_pure_int_unary_vector_data (map clean vs) @ t) = last_line [] t"
  "last_line [] (emit_gas_replace_byte_vector_data (map clean vs) @ t) = last_line [] t"
  "last_line [] (emit_gas_memset_vector_data (map clean vs) @ t) = last_line [] t"
  "last_line [] (emit_gas_memcpy_vector_data (map clean vs) @ t) = last_line [] t"
  "last_line [] (emit_gas_memcmp_vector_data (map clean vs) @ t) = last_line [] t"
  by (simp_all only: gas_data_defs text_rules cong: if_cong index_sum_cong)

lemma gas_data_bl:
  "count_line (''    bl '' @ r) [] (emit_gas_vector_data (map clean vs) @ t) = count_line (''    bl '' @ r) [] t"
  "count_line (''    bl '' @ r) [] (emit_gas_i64_sum_vector_data (map clean vs) @ t) = count_line (''    bl '' @ r) [] t"
  "count_line (''    bl '' @ r) [] (emit_gas_pure_int_vector_data (map clean vs) @ t) = count_line (''    bl '' @ r) [] t"
  "count_line (''    bl '' @ r) [] (emit_gas_pure_int_unary_vector_data (map clean vs) @ t) = count_line (''    bl '' @ r) [] t"
  "count_line (''    bl '' @ r) [] (emit_gas_replace_byte_vector_data (map clean vs) @ t) = count_line (''    bl '' @ r) [] t"
  "count_line (''    bl '' @ r) [] (emit_gas_memset_vector_data (map clean vs) @ t) = count_line (''    bl '' @ r) [] t"
  "count_line (''    bl '' @ r) [] (emit_gas_memcpy_vector_data (map clean vs) @ t) = count_line (''    bl '' @ r) [] t"
  "count_line (''    bl '' @ r) [] (emit_gas_memcmp_vector_data (map clean vs) @ t) = count_line (''    bl '' @ r) [] t"
  by (simp_all only: gas_data_defs text_rules cong: if_cong index_sum_cong; simp add: hit_def cong: if_cong index_sum_cong)+

lemma gas_data_jal:
  "count_line (''    jal '' @ r) [] (emit_gas_vector_data (map clean vs) @ t) = count_line (''    jal '' @ r) [] t"
  "count_line (''    jal '' @ r) [] (emit_gas_i64_sum_vector_data (map clean vs) @ t) = count_line (''    jal '' @ r) [] t"
  "count_line (''    jal '' @ r) [] (emit_gas_pure_int_vector_data (map clean vs) @ t) = count_line (''    jal '' @ r) [] t"
  "count_line (''    jal '' @ r) [] (emit_gas_pure_int_unary_vector_data (map clean vs) @ t) = count_line (''    jal '' @ r) [] t"
  "count_line (''    jal '' @ r) [] (emit_gas_replace_byte_vector_data (map clean vs) @ t) = count_line (''    jal '' @ r) [] t"
  "count_line (''    jal '' @ r) [] (emit_gas_memset_vector_data (map clean vs) @ t) = count_line (''    jal '' @ r) [] t"
  "count_line (''    jal '' @ r) [] (emit_gas_memcpy_vector_data (map clean vs) @ t) = count_line (''    jal '' @ r) [] t"
  "count_line (''    jal '' @ r) [] (emit_gas_memcmp_vector_data (map clean vs) @ t) = count_line (''    jal '' @ r) [] t"
  by (simp_all only: gas_data_defs text_rules cong: if_cong index_sum_cong; simp add: hit_def cong: if_cong index_sum_cong)+

section \<open>Programs\<close>

lemmas sysv_program_defs =
    generate_sysv_cell_load_harness_def generate_sysv_cell_store_harness_def generate_sysv_replace_byte_harness_def
    generate_sysv_memset_harness_def generate_sysv_buffer_harness_def generate_sysv_memcmp_harness_def
    generate_sysv_pure_int_harness_def generate_sysv_pure_int_unary_harness_def generate_sysv_i64_sum_harness_def
    generate_sysv_memcpy_harness_def

lemma sysv_calls:
  assumes "one_line r"
  shows "count_line (''    call '' @ r) [] (generate_sysv_cell_load_harness r (map clean vs)) = length vs"
    "count_line (''    call '' @ r) [] (generate_sysv_cell_store_harness r (map clean vs)) = length vs"
    "count_line (''    call '' @ r) [] (generate_sysv_replace_byte_harness r (map clean vs)) = length vs"
    "count_line (''    call '' @ r) [] (generate_sysv_memset_harness r (map clean vs)) = length vs"
    "count_line (''    call '' @ r) [] (generate_sysv_buffer_harness r (map clean vs)) = length vs"
    "count_line (''    call '' @ r) [] (generate_sysv_memcmp_harness r (map clean vs)) = length vs"
    "count_line (''    call '' @ r) [] (generate_sysv_pure_int_harness r (map clean vs)) = length vs"
    "count_line (''    call '' @ r) [] (generate_sysv_pure_int_unary_harness r (map clean vs)) = length vs"
    "count_line (''    call '' @ r) [] (generate_sysv_i64_sum_harness r (map clean vs)) = length vs"
    "count_line (''    call '' @ r) [] (generate_sysv_memcpy_harness r (map clean vs)) = length vs"
  using assms
  by (simp_all only: sysv_program_defs nasm_data_ends nasm_data_call text_rules cong: if_cong index_sum_cong; simp add: hit_def cong: if_cong index_sum_cong)+

lemmas win64_program_defs =
    generate_win64_cell_load_harness_def generate_win64_cell_store_harness_def
    generate_win64_replace_byte_harness_def generate_win64_memset_harness_def generate_win64_buffer_harness_def
    generate_win64_memcmp_harness_def generate_win64_memcpy_harness_def generate_win64_pure_int_harness_def
    generate_win64_pure_int_unary_harness_def generate_win64_i64_sum_harness_def

lemma win64_calls:
  assumes "one_line r" "''GetStdHandle'' \<noteq> r" "''WriteFile'' \<noteq> r" "''ExitProcess'' \<noteq> r"
  shows "count_line (''    call '' @ r) [] (generate_win64_cell_load_harness r (map clean vs)) = length vs"
    "count_line (''    call '' @ r) [] (generate_win64_cell_store_harness r (map clean vs)) = length vs"
    "count_line (''    call '' @ r) [] (generate_win64_replace_byte_harness r (map clean vs)) = length vs"
    "count_line (''    call '' @ r) [] (generate_win64_memset_harness r (map clean vs)) = length vs"
    "count_line (''    call '' @ r) [] (generate_win64_buffer_harness r (map clean vs)) = length vs"
    "count_line (''    call '' @ r) [] (generate_win64_memcmp_harness r (map clean vs)) = length vs"
    "count_line (''    call '' @ r) [] (generate_win64_memcpy_harness r (map clean vs)) = length vs"
    "count_line (''    call '' @ r) [] (generate_win64_pure_int_harness r (map clean vs)) = length vs"
    "count_line (''    call '' @ r) [] (generate_win64_pure_int_unary_harness r (map clean vs)) = length vs"
    "count_line (''    call '' @ r) [] (generate_win64_i64_sum_harness r (map clean vs)) = length vs"
  using assms
  by (simp_all only: win64_program_defs nasm_data_ends nasm_data_call text_rules cong: if_cong index_sum_cong; simp add: hit_def cong: if_cong index_sum_cong)+

lemmas aapcs64_program_defs =
    generate_aapcs64_replace_byte_harness_def generate_aapcs64_memset_harness_def
    generate_aapcs64_memcpy_harness_def generate_aapcs64_memcmp_harness_def generate_aapcs64_buffer_harness_def
    generate_aapcs64_pure_int_harness_def generate_aapcs64_pure_int_unary_harness_def
    generate_aapcs64_i64_sum_harness_def

lemma aapcs64_calls:
  assumes "one_line r"
  shows "count_line (''    bl '' @ r) [] (generate_aapcs64_replace_byte_harness r (map clean vs)) = length vs"
    "count_line (''    bl '' @ r) [] (generate_aapcs64_memset_harness r (map clean vs)) = length vs"
    "count_line (''    bl '' @ r) [] (generate_aapcs64_memcpy_harness r (map clean vs)) = length vs"
    "count_line (''    bl '' @ r) [] (generate_aapcs64_memcmp_harness r (map clean vs)) = length vs"
    "count_line (''    bl '' @ r) [] (generate_aapcs64_buffer_harness r (map clean vs)) = length vs"
    "count_line (''    bl '' @ r) [] (generate_aapcs64_pure_int_harness r (map clean vs)) = length vs"
    "count_line (''    bl '' @ r) [] (generate_aapcs64_pure_int_unary_harness r (map clean vs)) = length vs"
    "count_line (''    bl '' @ r) [] (generate_aapcs64_i64_sum_harness r (map clean vs)) = length vs"
  using assms
  by (simp_all only: aapcs64_program_defs gas_data_ends gas_data_bl text_rules cong: if_cong index_sum_cong; simp add: hit_def cong: if_cong index_sum_cong)+

lemmas riscv_program_defs =
    generate_riscv_replace_byte_harness_def generate_riscv_memset_harness_def generate_riscv_memcpy_harness_def
    generate_riscv_memcmp_harness_def generate_riscv_buffer_harness_def generate_riscv_pure_int_harness_def
    generate_riscv_pure_int_unary_harness_def generate_riscv_i64_sum_harness_def

lemma riscv_calls:
  assumes "one_line r"
  shows "count_line (''    jal '' @ r) [] (generate_riscv_replace_byte_harness r (map clean vs)) = length vs"
    "count_line (''    jal '' @ r) [] (generate_riscv_memset_harness r (map clean vs)) = length vs"
    "count_line (''    jal '' @ r) [] (generate_riscv_memcpy_harness r (map clean vs)) = length vs"
    "count_line (''    jal '' @ r) [] (generate_riscv_memcmp_harness r (map clean vs)) = length vs"
    "count_line (''    jal '' @ r) [] (generate_riscv_buffer_harness r (map clean vs)) = length vs"
    "count_line (''    jal '' @ r) [] (generate_riscv_pure_int_harness r (map clean vs)) = length vs"
    "count_line (''    jal '' @ r) [] (generate_riscv_pure_int_unary_harness r (map clean vs)) = length vs"
    "count_line (''    jal '' @ r) [] (generate_riscv_i64_sum_harness r (map clean vs)) = length vs"
  using assms
  by (simp_all only: riscv_program_defs gas_data_ends gas_data_jal text_rules cong: if_cong index_sum_cong; simp add: hit_def cong: if_cong index_sum_cong)+

text \<open>The line that calls the routine.\<close>

fun call_line :: "abi \<Rightarrow> string \<Rightarrow> string" where
  "call_line Aapcs64 r = ''    bl '' @ r"
| "call_line Riscv r = ''    jal '' @ r"
| "call_line _ r = ''    call '' @ r"

lemma map_clean: "list_all (\<lambda>v. one_line (tv_name v)) vs \<Longrightarrow> map clean vs = vs"
  by (induction vs) (simp_all add: clean_id)

definition windows_imports :: "string list" where
  "windows_imports = [''GetStdHandle'', ''WriteFile'', ''ExitProcess'']"

text \<open>C26: A generated harness calls the routine exactly once per vector, for every convention and shape, when the
  routine and the vectors are named on one line and the routine is not one of the functions a Windows
  harness imports. The names go into comments of the assembly text as they are.\<close>

theorem harness_calls_once_per_vector:
  assumes "generate_harness r vs a shape = Inr program" "one_line r" "list_all (\<lambda>v. one_line (tv_name v)) vs"
    and "r \<notin> set windows_imports"
  shows "count_line (call_line a r) [] program = length vs"
proof -
  have r: "''GetStdHandle'' \<noteq> r" "''WriteFile'' \<noteq> r" "''ExitProcess'' \<noteq> r"
    using assms(4) by (auto simp: windows_imports_def)
  note calls = sysv_calls [OF assms(2), of vs] win64_calls [OF assms(2) r, of vs] aapcs64_calls [OF assms(2), of vs]
    riscv_calls [OF assms(2), of vs]
  have "case generate_harness r vs a shape of Inl _ \<Rightarrow> True | Inr p \<Rightarrow> count_line (call_line a r) [] p = length vs"
    by (cases a; cases shape)
      (simp_all only: generate_harness.simps sum.case call_line.simps calls [unfolded map_clean [OF assms(3)]])
  then show ?thesis using assms(1) by simp
qed

theorem harness_calls_once_per_vector_witness:
  "count_line (call_line SysVAmd64 ''f'') []
     (generate_sysv_pure_int_harness ''f'' [\<lparr>tv_name = ''a'', tv_inputs = [JNumber 1, JNumber 2], tv_expected = JNumber 3\<rparr>]) = 1"
  using harness_calls_once_per_vector [of "''f''" "[\<lparr>tv_name = ''a'', tv_inputs = [JNumber 1, JNumber 2], tv_expected = JNumber 3\<rparr>]"
      SysVAmd64 HsPureInt] by (simp add: windows_imports_def)

text \<open>An external case chooses part of its vector's name, newlines included, and so lines of the program.\<close>

definition injected_case :: external_vector_case where
  "injected_case = \<lparr>ev_id = ''a'' @ [CHR 0x0A] @ ''    call f'', ev_inputs = [(''p0'', JNumber 10)]\<rparr>"

definition injected_vector :: test_vector where
  "injected_vector = \<lparr>tv_name = ''external:'' @ ev_id injected_case, tv_inputs = [JNumber 10], tv_expected = JNumber 55\<rparr>"

lemma external_name_injects:
  "derive_external_vector sum_contract injected_case = Inr injected_vector"
  "count_line (call_line SysVAmd64 ''f'') [] (generate_sysv_pure_int_unary_harness ''f'' [injected_vector]) = 2"
  by code_simp+

end
