(* ===== verification/Agent_Verify.thy ===== *)
theory Agent_Verify imports Semantic_Gates Harness_Gen Capability begin

text \<open>
  \<open>run_agent_verify_core\<close> of \<open>semasm-cli/src/commands.rs\<close>: from a contract and a candidate source to a
  verification report, with the vectors of an external document (\<open>external_vectors.rs\<close>) and the oracle
  evidence (\<open>harness.rs\<close>). What the run finds outside the program is a record: the files it reads, the
  outcome of the assembler, the linker and the candidate, the TOML and JSON decoders and SHA-256.
\<close>

section \<open>Messages\<close>

fun error_to_string :: "error \<Rightarrow> string" where
  "error_to_string (Validation m) = ''validation error: '' @ m"
| "error_to_string (Parse m) = ''parse error: '' @ m"
| "error_to_string (Io m) = ''I/O error: '' @ m"
| "error_to_string (NotFound m) = ''not found: '' @ m"
| "error_to_string (Internal m) = ''internal error: '' @ m"

definition squoted :: "string \<Rightarrow> string" where
  "squoted s = [CHR 0x27] @ s @ [CHR 0x27]"

fun external_error_to_string :: "external_error \<Rightarrow> string" where
  "external_error_to_string EmptyCaseId = ''external case id must not be empty''"
| "external_error_to_string (NotExactInputs i expected) =
     ''external case '' @ squoted i @ '' must provide exactly these inputs: '' @ join_with '', '' expected"
| "external_error_to_string (NotI64 i p) =
     ''external case '' @ squoted i @ '' input '' @ squoted p @ '' must be an i64 JSON integer''"
| "external_error_to_string (NotU64 i p) =
     ''external case '' @ squoted i @ '' input '' @ squoted p @ '' must be a non-negative JSON integer''"
| "external_error_to_string (SumRangeNegative i) =
     ''external case '' @ squoted i @ '' violates sum_range precondition: input must be non-negative''"
| "external_error_to_string (CountdownLimit i) =
     ''external case '' @ squoted i @ '' exceeds the bounded countdown fixture limit ('' @ show_nat max_fixture_cap @ '')''"
| "external_error_to_string NotScalarOracle =
     ''external vectors are currently admitted only for recognized scalar integer oracles''"

fun shape_debug :: "harness_shape \<Rightarrow> string" where
  "shape_debug HsBufferScan = ''BufferScan''"
| "shape_debug HsReplaceByte = ''ReplaceByte''"
| "shape_debug HsMemset = ''Memset''"
| "shape_debug HsMemCmp = ''MemCmp''"
| "shape_debug HsMemcpy = ''Memcpy''"
| "shape_debug HsI64Sum = ''I64Sum''"
| "shape_debug HsPureInt = ''PureInt''"
| "shape_debug HsPureIntUnary = ''PureIntUnary''"
| "shape_debug HsCellLoad = ''CellLoad''"
| "shape_debug HsCellStore = ''CellStore''"

fun harness_error_to_string :: "harness_error \<Rightarrow> string" where
  "harness_error_to_string NoRecognizedOracle = ''no recognized behavior oracle for contract shape''"
| "harness_error_to_string (UnrecognizedOracleId i) = ''unrecognized oracle id `'' @ i @ ''`''"
| "harness_error_to_string NoTestVectors = ''no test vectors''"
| "harness_error_to_string (UnsupportedVectorShape n) =
     ''unsupported test vector shape ('' @ show_nat n @ '' inputs); '' @
     ''expected buffer-scan (3: array/null + two numbers), replace-byte '' @
     ''(4: array/null + three numbers), memcmp (3: two arrays/null + length), i64-sum (2: array/null + length), '' @
     ''pure-int (2 numeric), pure-int-unary (1 numeric), or cell-load (1: array/null)''"
| "harness_error_to_string (ShapeMismatch i expected detected) =
     ''oracle `'' @ i @ ''` expects '' @ shape_debug expected @ '' vectors but harness detected '' @ shape_debug detected"

text \<open>\<open>debug_type\<close> is the derived \<open>Debug\<close> of a type.\<close>

definition unsupported_shape_hint :: "(sem_type \<Rightarrow> string) \<Rightarrow> checked_contract \<Rightarrow> string" where
  "unsupported_shape_hint debug_type c =
     ''Observed parameters=['' @ join_with '', '' (map (\<lambda>p. debug_type (cp_ty p)) (c_parameters c)) @ ''] returns=['' @
     join_with '', '' (map (\<lambda>r. debug_type (ct_ty r)) (c_returns c)) @ '']. Recognized pure-int unary i64 names include '' @
     ''abs_*, inc_*/increment*, return_*/identity_*, scale_*/double_*, sum_range_*, countdown_*, '' @
     ''add_base_*; binary i64 names include add_*/sub_*/min_*/max_*. Buffer scans need '' @
     ''ptr+length (+ optional needle). Rename the routine to a recognized token or use an '' @
     ''admitted leaf shape '' @ [CHR 0xE2, CHR 0x80, CHR 0x94] @ '' see SemASM fixtures/contracts/.''"

fun level_text :: "diagnostic_level \<Rightarrow> string" where
  "level_text Note = ''note''"
| "level_text Warning = ''warning''"
| "level_text Error = ''error''"

definition format_diagnostics_terminal :: "('m \<Rightarrow> string) \<Rightarrow> string \<Rightarrow> 'm diagnostics \<Rightarrow> string" where
  "format_diagnostics_terminal show_message path ds =
     concat (map (\<lambda>d. ln (path @ '': '' @ level_text (dlevel d) @ '': '' @
        (case dcode d of Some c \<Rightarrow> ''['' @ c @ ''] '' | None \<Rightarrow> []) @ show_message (dmessage d))) ds)"

section \<open>UTF-8\<close>

text \<open>\<open>str::from_utf8\<close>: the position of the first error and, unless the text ends too early, its length.\<close>

definition utf8_width :: "nat \<Rightarrow> nat" where
  "utf8_width b = (if b < 128 then 1 else if b < 0xC2 then 0 else if b < 0xE0 then 2 else if b < 0xF0 then 3
     else if b < 0xF5 then 4 else 0)"

definition cont_byte :: "nat \<Rightarrow> bool" where
  "cont_byte b \<longleftrightarrow> 128 \<le> b \<and> b < 192"

definition second_byte :: "nat \<Rightarrow> nat \<Rightarrow> bool" where
  "second_byte first b \<longleftrightarrow>
     (if first = 0xE0 then 0xA0 \<le> b \<and> b < 192 else if first = 0xED then 128 \<le> b \<and> b < 0xA0
      else if first = 0xF0 then 0x90 \<le> b \<and> b < 192 else if first = 0xF4 then 128 \<le> b \<and> b < 0x90 else cont_byte b)"

text \<open>What is wrong with a character of \<open>w\<close> bytes: None nothing, \<open>Some None\<close> an early end.\<close>

definition tail_error :: "nat \<Rightarrow> nat \<Rightarrow> nat list \<Rightarrow> nat option option" where
  "tail_error w first rest =
     (if w = 0 then Some (Some 1)
      else if w = 1 then None
      else case rest of
        [] \<Rightarrow> Some None
      | b # rest2 \<Rightarrow>
          if \<not> second_byte first b then Some (Some 1)
          else if w = 2 then None
          else (case rest2 of
             [] \<Rightarrow> Some None
           | c # rest3 \<Rightarrow>
               if \<not> cont_byte c then Some (Some 2)
               else if w = 3 then None
               else (case rest3 of [] \<Rightarrow> Some None | d # _ \<Rightarrow> if \<not> cont_byte d then Some (Some 3) else None)))"

function utf8_error :: "nat \<Rightarrow> nat list \<Rightarrow> (nat \<times> nat option) option" where
  "utf8_error i [] = None"
| "utf8_error i (b # rest) =
     (case tail_error (utf8_width b) b rest of
        Some e \<Rightarrow> Some (i, e)
      | None \<Rightarrow> utf8_error (i + utf8_width b) (drop (utf8_width b - 1) rest))"
  by pat_completeness auto
termination by (relation "measure (\<lambda>(i, bs). length bs)") auto

definition from_utf8_error :: "string \<Rightarrow> string option" where
  "from_utf8_error bytes =
     map_option (\<lambda>(i, e). case e of
         Some n \<Rightarrow> ''invalid utf-8 sequence of '' @ show_nat n @ '' bytes from index '' @ show_nat i
       | None \<Rightarrow> ''incomplete utf-8 byte sequence from index '' @ show_nat i) (utf8_error 0 (map of_char bytes))"

section \<open>Digests and the oracle evidence\<close>

definition sha256_digest_prefixed :: "(string \<Rightarrow> nat list) \<Rightarrow> string \<Rightarrow> string" where
  "sha256_digest_prefixed sha bytes = ''sha256:'' @ concat (map hex_byte (sha bytes))"

text \<open>The bytes hashed as evidence: the oracle, the postconditions and, after a run, every case as observed.\<close>

definition evidence_text :: "(json \<Rightarrow> string) \<Rightarrow> recognized_oracle \<Rightarrow> string list \<Rightarrow> test_vector list \<Rightarrow> harness_report option \<Rightarrow> string" where
  "evidence_text show_json recognized ensures planned behavior =
     ro_id recognized @ [CHR 0x00] @ show_nat (ro_version recognized) @ [CHR 0x00] @ proof_basis_as_str OracleAndVectors @ [CHR 0x00] @
     concat (map ln ensures) @
     (case behavior of
        Some report \<Rightarrow> concat (map (\<lambda>c. vr_name c @ [CHR 0x00] @ vr_expected c @ [CHR 0x00] @ vr_observed c @ [CHR 0x00] @
          ln [if vr_passed c then CHR 0x01 else CHR 0x00]) (hr_cases report))
      | None \<Rightarrow> concat (map (\<lambda>v. tv_name v @ [CHR 0x00] @ ln (show_json (tv_expected v))) planned))"

definition build_behavior_oracle :: "(json \<Rightarrow> string) \<Rightarrow> (string \<Rightarrow> nat list) \<Rightarrow> recognized_oracle \<Rightarrow> checked_contract \<Rightarrow> string \<Rightarrow>
    string \<Rightarrow> test_vector list \<Rightarrow> harness_report option \<Rightarrow> behavior_oracle" where
  "build_behavior_oracle show_json sha recognized c contract_path contract_bytes planned behavior =
     (let ensures = map cc_source (c_ensures c);
          (passed, failed, all) = (case behavior of
             Some report \<Rightarrow> (let p = length (filter vr_passed (hr_cases report)); n = length (hr_cases report) in (p, n - p, n))
           | None \<Rightarrow> (0, 0, length planned)) in
      \<lparr>bo_id = ro_id recognized, bo_version = ro_version recognized, bo_contract = contract_path,
       bo_contract_hash = concat (map hex_byte (take 6 (sha contract_bytes))), bo_contract_ensures = ensures,
       bo_proof_basis = OracleAndVectors, bo_claim = ro_claim recognized, bo_vectors_passed = passed, bo_vectors_failed = failed,
       bo_vectors_total = all,
       bo_evidence_hash = concat (map hex_byte (take 16 (sha (evidence_text show_json recognized ensures planned behavior))))\<rparr>)"

section \<open>The external document\<close>

record external_vector_document =
  ed_schema_version :: string
  ed_contract_digest :: string
  ed_target :: string
  ed_routine_symbol :: string
  ed_cases :: "external_vector_case list"

text \<open>\<open>serde_json::to_value\<close>; an object keeps the order in which its map iterates.\<close>

definition document_value :: "external_vector_document \<Rightarrow> json" where
  "document_value d = JObject [
     (''schema_version'', JString (ed_schema_version d)), (''contract_digest'', JString (ed_contract_digest d)),
     (''target'', JString (ed_target d)), (''routine_symbol'', JString (ed_routine_symbol d)),
     (''cases'', JArray (map (\<lambda>k. JObject [(''id'', JString (ev_id k)), (''inputs'', JObject (ev_inputs k))]) (ed_cases d)))]"

text \<open>\<open>collect\<close> is the map of \<open>serde_json\<close> built from its entries.\<close>

fun canonicalize :: "((string \<times> json) list \<Rightarrow> (string \<times> json) list) \<Rightarrow> json \<Rightarrow> json" where
  "canonicalize collect (JObject members) = JObject (collect (map (\<lambda>(k, v). (k, canonicalize collect v)) members))"
| "canonicalize collect (JArray items) = JArray (map (canonicalize collect) items)"
| "canonicalize collect other = other"

record document_binding =
  db_contract_digest :: string
  db_target :: string
  db_routine_symbol :: string

definition binding_error :: "external_vector_document \<Rightarrow> document_binding \<Rightarrow> string option" where
  "binding_error d b =
     (if ed_schema_version d \<noteq> ''0.1''
      then Some (''unsupported external vector schema '' @ squoted (ed_schema_version d) @ ''; expected '' @ squoted ''0.1'')
      else if ed_contract_digest d \<noteq> db_contract_digest b
      then Some ''external vector contract_digest does not match the verified contract''
      else if ed_target d \<noteq> db_target b then Some ''external vector target does not match --target''
      else if ed_routine_symbol d \<noteq> db_routine_symbol b
      then Some ''external vector routine_symbol does not match the contract''
      else if ed_cases d = [] then Some ''external vector document must contain at least one case''
      else None)"

definition case_binding :: "test_vector \<Rightarrow> string option \<Rightarrow> vector_case_binding" where
  "case_binding v external =
     \<lparr>vb_name = tv_name v, vb_origin = (case external of Some _ \<Rightarrow> OriginExternal | None \<Rightarrow> OriginBuiltin),
      vb_external_case_id = external\<rparr>"

text \<open>The loop over the cases, with the ids seen so far.\<close>

fun merge_cases :: "checked_contract \<Rightarrow> string set \<Rightarrow> external_vector_case list \<Rightarrow> test_vector list \<times> vector_case_binding list \<Rightarrow>
    string + test_vector list \<times> vector_case_binding list" where
  "merge_cases c ids [] acc = Inr acc"
| "merge_cases c ids (k # ks) acc =
     (if ev_id k \<in> ids then Inl (''error: duplicate external case id '' @ squoted (ev_id k))
      else case derive_external_vector c k of
        Inl e \<Rightarrow> Inl (''error: '' @ external_error_to_string e)
      | Inr v \<Rightarrow> merge_cases c (insert (ev_id k) ids) ks (fst acc @ [v], snd acc @ [case_binding v (Some (ev_id k))]))"

section \<open>What a run finds\<close>

record path_view =
  pt_display :: string
  pt_file_name :: "string option"
  pt_str :: "string option"
  pt_extension :: "string option"

record tool_output =
  to_success :: bool
  to_stderr :: string

type_synonym tool_result = "string + tool_output"

record run_output =
  rn_exit_code :: "int option"
  rn_timed_out :: bool
  rn_stdout :: "8 word list"

record 'te verify_world =
  vw_version :: string
  vw_tooling :: tooling
  vw_tools_found :: bool
  vw_runner :: "string option"
  vw_toml :: "string \<Rightarrow> 'te + contract_document"
  vw_show_message :: "'te vmsg \<Rightarrow> string"
  vw_debug_type :: "sem_type \<Rightarrow> string"
  vw_vectors_json :: "string \<Rightarrow> string + external_vector_document"
  vw_collect :: "(string \<times> json) list \<Rightarrow> (string \<times> json) list"
  vw_show_json :: "json \<Rightarrow> string"
  vw_sha :: "string \<Rightarrow> nat list"
  vw_source_path :: path_view
  vw_source :: "string + string"
  vw_contract_path :: path_view
  vw_contract :: "string + string"
  vw_vectors :: "(path_view \<times> (string + string)) option"
  vw_create_dir :: "string option"
  vw_stage_object :: "string option"
  vw_assemble_routine :: tool_result
  vw_object :: file_read
  vw_object_size :: nat
  vw_write_harness :: "string \<Rightarrow> string \<Rightarrow> string option"
  vw_assemble_harness :: "string \<Rightarrow> tool_result"
  vw_link :: "string \<Rightarrow> string \<Rightarrow> tool_result"
  vw_executable :: file_read
  vw_run :: "string + run_output"

datatype verify_result = EarlyExit "failure_envelope option" nat | Finished verification_report nat string nat

text \<open>\<open>vo_scratch_left\<close>: the scratch directory was created and not removed.\<close>

record verify_outcome =
  vo_result :: verify_result
  vo_scratch_left :: bool

definition early :: "failure_envelope \<Rightarrow> nat \<Rightarrow> bool \<Rightarrow> verify_outcome" where
  "early e code left = \<lparr>vo_result = EarlyExit (Some e) code, vo_scratch_left = left\<rparr>"

definition fe_with_digests :: "string option \<Rightarrow> string option \<Rightarrow> failure_envelope \<Rightarrow> failure_envelope" where
  "fe_with_digests contract_digest source_digest e = e\<lparr>fe_contract_digest := contract_digest, fe_source_digest := source_digest\<rparr>"

text \<open>The bytes of a contract and a source, and their digests.\<close>

record inputs_read =
  in_target :: string
  in_identity :: target_identity
  in_contract_bytes :: string
  in_contract_digest :: string
  in_source_digest :: string

definition in_digests :: "inputs_read \<Rightarrow> failure_envelope \<Rightarrow> failure_envelope" where
  "in_digests i e = fe_with_digests (Some (in_contract_digest i)) (Some (in_source_digest i)) (fe_with_target (in_target i) e)"

section \<open>Reading and checking the contract\<close>

definition read_inputs :: "'te verify_world \<Rightarrow> string \<Rightarrow> verify_outcome + inputs_read" where
  "read_inputs w target_str =
     (let fail = failure_new (vw_version w) in
      case parse_known target_str of
        Inl e \<Rightarrow> Inl (early (fail ''INVALID_TARGET'' FsUsage (''error: '' @ error_to_string e) RetryNever) 2 False)
      | Inr identity \<Rightarrow>
      if \<not> vw_tools_found w then
        Inl (early (fe_with_target target_str (fail ''TOOLCHAIN_INCOMPLETE'' FsToolchain
          (''error: toolchain incomplete for target `'' @ target_str @ ''`; run `semasm target doctor '' @ target_str @ ''`'')
          RetryTooling)) 1 False)
      else case vw_contract w of
        Inl e \<Rightarrow> Inl (early (fe_with_target target_str (fail ''CONTRACT_IO'' FsIo
          (pt_display (vw_contract_path w) @ '': error: '' @ e) RetryTooling)) 1 False)
      | Inr contract_bytes \<Rightarrow>
      (case vw_source w of
        Inl e \<Rightarrow> Inl (early (fe_with_target target_str (fail ''SOURCE_IO'' FsIo
          (pt_display (vw_source_path w) @ '': error: '' @ e) RetryTooling)) 1 False)
      | Inr source_bytes \<Rightarrow>
        Inr \<lparr>in_target = target_str, in_identity = identity, in_contract_bytes = contract_bytes,
             in_contract_digest = sha256_digest_prefixed (vw_sha w) contract_bytes,
             in_source_digest = sha256_digest_prefixed (vw_sha w) source_bytes\<rparr>))"

definition check_contract :: "'te verify_world \<Rightarrow> inputs_read \<Rightarrow> verify_outcome + checked_contract" where
  "check_contract w i =
     (let fail = failure_new (vw_version w); path = pt_display (vw_contract_path w) in
      case from_utf8_error (in_contract_bytes i) of
        Some e \<Rightarrow> Inl (early (in_digests i (fail ''CONTRACT_ENCODING'' FsContract (path @ '': error: '' @ e) RetryNever)) 1 False)
      | None \<Rightarrow>
          (let check = check_str (vw_toml w) (in_contract_bytes i) in
           if \<not> check_ok check
           then Inl (early (fe_with_detail (format_diagnostics_terminal (vw_show_message w) path (diagnostics check))
               (in_digests i (fail ''CONTRACT_INVALID'' FsContract (path @ '': contract check failed'') RetryNever))) 1 False)
           else Inr (the (contract check))))"

section \<open>Vectors\<close>

text \<open>What the later steps use; the routine is the contract's name.\<close>

record prepared =
  pp_inputs :: inputs_read
  pp_checked :: checked_contract
  pp_vectors :: "test_vector list"
  pp_vector_set :: vector_set_evidence
  pp_shape :: harness_shape

definition routine_failure :: "inputs_read \<Rightarrow> checked_contract \<Rightarrow> failure_envelope \<Rightarrow> failure_envelope" where
  "routine_failure i c e =
     fe_with_digests (Some (in_contract_digest i)) (Some (in_source_digest i))
       (fe_with_routine (c_name c) (fe_with_target (in_target i) e))"

definition add_external :: "'te verify_world \<Rightarrow> inputs_read \<Rightarrow> checked_contract \<Rightarrow> test_vector list \<Rightarrow>
    verify_outcome + test_vector list \<times> vector_case_binding list \<times> string option" where
  "add_external w i c builtin =
     (let fail = (\<lambda>code stage message retry. Inl (early (routine_failure i c (failure_new (vw_version w) code stage message retry)) 1 False));
          bindings = map (\<lambda>v. case_binding v None) builtin in
      case vw_vectors w of
        None \<Rightarrow> Inr (builtin, bindings, None)
      | Some (path, content) \<Rightarrow>
      (case content of
        Inl e \<Rightarrow> fail ''VECTORS_IO'' FsIo (pt_display path @ '': error: '' @ e) RetryTooling
      | Inr bytes \<Rightarrow>
      (case vw_vectors_json w bytes of
        Inl e \<Rightarrow> fail ''VECTORS_INVALID'' FsContract (pt_display path @ '': invalid external vector document: '' @ e) RetryNever
      | Inr document \<Rightarrow>
      (case binding_error document \<lparr>db_contract_digest = in_contract_digest i, db_target = in_target i, db_routine_symbol = c_name c\<rparr> of
        Some message \<Rightarrow> fail ''VECTORS_BINDING_MISMATCH'' FsContract (''error: '' @ message) RetryNever
      | None \<Rightarrow>
      (case merge_cases c {} (ed_cases document) (builtin, bindings) of
        Inl message \<Rightarrow> fail ''VECTORS_INVALID'' FsContract message RetryNever
      | Inr (vectors, cases) \<Rightarrow>
          Inr (vectors, cases,
            Some (sha256_digest_prefixed (vw_sha w) (vw_show_json w (canonicalize (vw_collect w) (document_value document))))))))))"

definition prepare_vectors :: "'te verify_world \<Rightarrow> inputs_read \<Rightarrow> checked_contract \<Rightarrow> verify_outcome + prepared" where
  "prepare_vectors w i c =
     (let builtin = synthesize_vectors c; hint = unsupported_shape_hint (vw_debug_type w) c in
      if builtin = [] then
        Inl (early (fe_with_detail hint (routine_failure i c (failure_new (vw_version w) ''UNSUPPORTED_SHAPE'' FsUnsupportedShape
          (''error: no test vectors synthesised for `'' @ c_name c @
           ''`; the routine shape is not yet supported by the harness. '' @ hint) RetryNever))) 1 False)
      else case add_external w i c builtin of
        Inl e \<Rightarrow> Inl e
      | Inr (vectors, cases, digest) \<Rightarrow>
      (case resolve_harness_shape c vectors of
        Inl e \<Rightarrow> Inl (early (routine_failure i c (failure_new (vw_version w) ''HARNESS_MISMATCH'' FsUnsupportedShape
          (''error: contract/harness mismatch: '' @ harness_error_to_string e) RetryNever)) 1 False)
      | Inr shape \<Rightarrow>
          Inr \<lparr>pp_inputs = i, pp_checked = c, pp_vectors = vectors,
               pp_vector_set = \<lparr>vs_external_document_digest = digest, vs_builtin_case_count = length builtin,
                 vs_external_case_count = length vectors - length builtin, vs_cases = cases\<rparr>,
               pp_shape = shape\<rparr>))"

section \<open>Reports\<close>

definition contract_label :: "path_view \<Rightarrow> string" where
  "contract_label p = (case pt_file_name p of Some n \<Rightarrow> n | None \<Rightarrow> (case pt_str p of Some s \<Rightarrow> s | None \<Rightarrow> ''contract''))"

definition oracle_evidence :: "'te verify_world \<Rightarrow> prepared \<Rightarrow> harness_report option \<Rightarrow> behavior_oracle option" where
  "oracle_evidence w p behavior =
     map_option (\<lambda>recognized. build_behavior_oracle (vw_show_json w) (vw_sha w) recognized (pp_checked p)
         (contract_label (vw_contract_path w)) (in_contract_bytes (pp_inputs p)) (pp_vectors p) behavior)
       (recognize_behavior_oracle (pp_checked p))"

definition with_option :: "('a \<Rightarrow> 'b \<Rightarrow> 'b) \<Rightarrow> 'a option \<Rightarrow> 'b \<Rightarrow> 'b" where
  "with_option f x r = (case x of Some a \<Rightarrow> f a r | None \<Rightarrow> r)"

definition empty_bindings :: expr_bindings where
  "empty_bindings = \<lparr>eb_ints = (\<lambda>_. None), eb_bools = (\<lambda>_. None)\<rparr>"

definition finalize_report :: "'te verify_world \<Rightarrow> prepared \<Rightarrow> verification_report \<Rightarrow> harness_report option \<Rightarrow>
    alias_analysis_report option \<Rightarrow> region_access_report option \<Rightarrow> verification_report" where
  "finalize_report w p report behavior al region =
     (let i = pp_inputs p in
      with_digests (in_contract_digest i) (in_source_digest i)
      (with_vector_set (pp_vector_set p)
      (with_option with_contract_expressions (evaluate_contract_expressions (pp_checked p) al empty_bindings)
      (with_option with_region_access region
      (with_option with_alias_analysis al
      (with_option with_behavior_oracle (oracle_evidence w p behavior) report))))))"

definition base_report :: "'te verify_world \<Rightarrow> prepared \<Rightarrow> semantic_gates \<Rightarrow> executable_gate \<Rightarrow> harness_report option \<Rightarrow>
    execution_isolation \<Rightarrow> verification_report" where
  "base_report w p semantic executable behavior isolation =
     report_from_parts (vw_version w) (tname (in_identity (pp_inputs p))) (c_name (pp_checked p)) semantic executable behavior isolation"

section \<open>Assembling, linking and running\<close>

definition finished :: "'te verify_world \<Rightarrow> prepared \<Rightarrow> verification_report \<Rightarrow> nat \<Rightarrow> bool \<Rightarrow> verify_outcome" where
  "finished w p report code left =
     \<lparr>vo_result = Finished report (vw_object_size w) (in_contract_bytes (pp_inputs p)) code, vo_scratch_left = left\<rparr>"

definition step_failure :: "'te verify_world \<Rightarrow> prepared \<Rightarrow> string \<Rightarrow> failure_stage \<Rightarrow> string \<Rightarrow> retryability \<Rightarrow> string option \<Rightarrow>
    verify_outcome" where
  "step_failure w p code stage message retry detail =
     (let e = routine_failure (pp_inputs p) (pp_checked p) (failure_new (vw_version w) code stage message retry) in
      early (case detail of Some d \<Rightarrow> fe_with_detail d e | None \<Rightarrow> e) 1 False)"

text \<open>A tool that ran and failed, and a tool that did not run.\<close>

definition tool_failure :: "'te verify_world \<Rightarrow> prepared \<Rightarrow> string \<Rightarrow> failure_stage \<Rightarrow> string \<Rightarrow> tool_result \<Rightarrow> verify_outcome option" where
  "tool_failure w p prefix stage what result =
     (case result of
        Inr output \<Rightarrow>
          if to_success output then None
          else Some (step_failure w p (prefix @ ''_FAILED'') stage (what @ '' failed: '' @ to_stderr output) RetryNever (Some (to_stderr output)))
      | Inl e \<Rightarrow> Some (step_failure w p (prefix @ ''_ERROR'') stage (what @ '' error: '' @ e) RetryTooling (Some e)))"

definition prebuilt_object :: "path_view \<Rightarrow> bool" where
  "prebuilt_object p \<longleftrightarrow> (case pt_extension p of Some e \<Rightarrow> to_ascii_lowercase e \<in> {''o'', ''obj''} | None \<Rightarrow> False)"

definition routine_failed :: "'te verify_world \<Rightarrow> prepared \<Rightarrow> verify_outcome option" where
  "routine_failed w p =
     (case vw_create_dir w of
        Some e \<Rightarrow> Some (step_failure w p ''SCRATCH_IO'' FsPipeline (''error: cannot create scratch dir: '' @ e) RetryTooling None)
      | None \<Rightarrow>
          if prebuilt_object (vw_source_path w)
          then map_option (\<lambda>e. step_failure w p ''SOURCE_IO'' FsIo
                 (pt_display (vw_source_path w) @ '': error: cannot stage prebuilt object: '' @ e) RetryTooling None) (vw_stage_object w)
          else tool_failure w p ''ASSEMBLE'' FsAssemble ''assemble routine'' (vw_assemble_routine w))"

definition harness_ext :: "target_identity \<Rightarrow> string" where
  "harness_ext i = (case tdialect i of NasmIntel \<Rightarrow> ''asm'' | _ \<Rightarrow> ''S'')"

definition harness_entry :: "target_identity \<Rightarrow> string" where
  "harness_entry i = (case tabi i of WindowsX64 \<Rightarrow> ''main'' | _ \<Rightarrow> ''_start'')"

definition harness_failed :: "'te verify_world \<Rightarrow> prepared \<Rightarrow> string \<Rightarrow> verify_outcome option" where
  "harness_failed w p program =
     (case vw_write_harness w (harness_ext (in_identity (pp_inputs p))) program of
        Some e \<Rightarrow> Some (step_failure w p ''HARNESS_IO'' FsIo (''error: cannot write harness source: '' @ e) RetryTooling None)
      | None \<Rightarrow>
      (case tool_failure w p ''ASSEMBLE_HARNESS'' FsAssemble ''assemble harness'' (vw_assemble_harness w program) of
        Some out \<Rightarrow> Some out
      | None \<Rightarrow> tool_failure w p ''LINK'' FsLink ''link'' (vw_link w (harness_entry (in_identity (pp_inputs p))) program)))"

definition ran_report :: "'te verify_world \<Rightarrow> prepared \<Rightarrow> candidate_semantics \<Rightarrow> executable_gate \<Rightarrow> run_output \<Rightarrow> verification_report" where
  "ran_report w p cand gate run =
     (let (semantic, al, region, findings) = cand; i = pp_inputs p;
          behavior = evaluate (vw_show_json w) (rn_stdout run) (pp_vectors p) (pp_shape p);
          r0 = with_digests (in_contract_digest i) (in_source_digest i) (with_vector_set (pp_vector_set p)
            (base_report w p semantic gate (Some behavior) (from_runner (vw_runner w))));
          r1 = with_option with_behavior_oracle (oracle_evidence w p (Some behavior)) r0;
          r2 = with_option with_alias_analysis al r1;
          r3 = with_option with_contract_expressions (evaluate_contract_expressions (pp_checked p) al empty_bindings) r2 in
      with_findings findings (with_option with_region_access region r3))"

definition run_candidate :: "'te verify_world \<Rightarrow> bool \<Rightarrow> prepared \<Rightarrow> candidate_semantics \<Rightarrow> verify_outcome" where
  "run_candidate w allow_execution p cand =
     (let (semantic, al, region, findings) = cand;
          (gate, _) = check_executable_object (vw_tooling w) (vw_executable w) (in_identity (pp_inputs p));
          static = finalize_report w p (with_findings findings (base_report w p semantic gate None StaticOnly)) None al region in
      if eg_status gate = GFailed then finished w p static 1 False
      else if \<not> allow_execution then finished w p static 1 False
      else case vw_run w of
        Inl e \<Rightarrow> \<lparr>vo_result = EarlyExit None 1, vo_scratch_left = False\<rparr>
      | Inr run \<Rightarrow>
          (let report = ran_report w p cand gate run in
           finished w p report (if vp_status report \<in> {VVerified, VVerifiedUnderPreconditions} then 0 else 1) False))"

definition verify_prepared :: "'te verify_world \<Rightarrow> bool \<Rightarrow> prepared \<Rightarrow> verify_outcome" where
  "verify_prepared w allow_execution p =
     (let i = pp_inputs p; c = pp_checked p in
      case routine_failed w p of
        Some out \<Rightarrow> out
      | None \<Rightarrow>
      (case verify_candidate_semantics (vw_tooling w) (vw_object w) (in_identity i) (c_name c) c of
        Inl e \<Rightarrow>
          finished w p (finalize_report w p (with_findings (ge_findings e)
            (base_report w p (gates_from_error e 0) executable_skipped None StaticOnly)) None None None) 1 False
      | Inr (semantic, al, region, findings) \<Rightarrow>
      (case generate_harness (c_name c) (pp_vectors p) (tabi (in_identity i)) (pp_shape p) of
        Inl reason \<Rightarrow>
          finished w p (finalize_report w p (with_findings findings
            (base_report w p semantic executable_skipped None StaticOnly)) None al region) 1 True
      | Inr program \<Rightarrow>
      (case harness_failed w p program of
        Some out \<Rightarrow> out
      | None \<Rightarrow> run_candidate w allow_execution p (semantic, al, region, findings)))))"

definition run_agent_verify_core :: "'te verify_world \<Rightarrow> string \<Rightarrow> bool \<Rightarrow> verify_outcome" where
  "run_agent_verify_core w target_str allow_execution =
     (case read_inputs w target_str of Inl out \<Rightarrow> out | Inr i \<Rightarrow>
      case check_contract w i of Inl out \<Rightarrow> out | Inr c \<Rightarrow>
      case prepare_vectors w i c of Inl out \<Rightarrow> out | Inr p \<Rightarrow>
      verify_prepared w allow_execution p)"

end
