(* ===== verification/Gates_Sound.thy ===== *)
theory Gates_Sound imports Semantic_Gates begin

text \<open>
  What an accepted candidate satisfies. The checks of \<open>Semantic_Gates\<close> stop at the first failure; here the
  conditions they leave behind are stated over the object and its instructions, without the order of the
  checks: an admitted object, code decoded to the last byte, every instruction lowered, a clean ABI report,
  no privileged instruction, direct control flow inside the candidate, and no store in a read-only leaf.
\<close>

section \<open>What the checks stand for\<close>

definition object_admitted :: "tooling \<Rightarrow> file_read \<Rightarrow> target_identity \<Rightarrow> string \<Rightarrow> bool" where
  "object_admitted tk object identity routine_symbol \<longleftrightarrow>
     (\<exists>info. read_for_target (tl_parse tk) object identity = Inr info \<and> oi_kind info = Relocatable \<and>
        routine_symbol \<in> set (oi_exports info) \<and> oi_imports info = [] \<and>
        (\<forall>s \<in> set (oi_sections info). \<not> (si_writable s \<and> si_executable s)))"

lemma candidate_object_policy_iff:
  "check_candidate_object_policy tk object identity rsym = Inr u \<longleftrightarrow> object_admitted tk object identity rsym"
  by (auto simp: check_candidate_object_policy_def object_admitted_def Let_def filter_empty_conv split: sum.splits)

text \<open>The instructions come from the code sections, section by section, and account for all their bytes.\<close>

definition code_decoded :: "tooling \<Rightarrow> file_read \<Rightarrow> target_identity \<Rightarrow> decode_isa \<Rightarrow> physical_instruction list \<Rightarrow> bool" where
  "code_decoded tk object identity i physical \<longleftrightarrow>
     (\<exists>sections parts. read_code_sections (tl_parse tk) object identity = Inr sections \<and> sections \<noteq> [] \<and>
        list_all2 (\<lambda>s part. decode_for tk i (cs_bytes s) (cs_address s) = Inr part) sections parts \<and>
        physical = concat parts \<and> byte_count physical = section_bytes sections)"

lemma decode_sections_concat:
  "list_all2 (\<lambda>s part. decode_for tk i (cs_bytes s) (cs_address s) = Inr part) sections parts \<Longrightarrow>
   decode_sections tk i sections = Inr (concat parts)"
  by (induction rule: list_all2_induct) simp_all

lemma decode_sections_parts:
  "decode_sections tk i sections = Inr physical \<longleftrightarrow>
     (\<exists>parts. list_all2 (\<lambda>s part. decode_for tk i (cs_bytes s) (cs_address s) = Inr part) sections parts \<and> physical = concat parts)"
proof
  show "decode_sections tk i sections = Inr physical \<Longrightarrow>
    \<exists>parts. list_all2 (\<lambda>s part. decode_for tk i (cs_bytes s) (cs_address s) = Inr part) sections parts \<and> physical = concat parts"
  proof (induction sections arbitrary: physical)
    case (Cons s rest)
    then obtain d r where "decode_for tk i (cs_bytes s) (cs_address s) = Inr d" "decode_sections tk i rest = Inr r" "physical = d @ r"
      by (auto split: sum.splits)
    moreover from this(2) obtain parts where
      "list_all2 (\<lambda>s part. decode_for tk i (cs_bytes s) (cs_address s) = Inr part) rest parts" "r = concat parts"
      using Cons.IH by blast
    ultimately show ?case by (intro exI [of _ "d # parts"]) simp
  qed simp
qed (auto simp: decode_sections_concat)

lemma code_decoded_sections:
  "code_decoded tk object identity i physical \<longleftrightarrow>
     (\<exists>sections. read_code_sections (tl_parse tk) object identity = Inr sections \<and> sections \<noteq> [] \<and>
        decode_sections tk i sections = Inr physical \<and> byte_count physical = section_bytes sections)"
  unfolding code_decoded_def decode_sections_parts by blast

lemma decode_candidate_code_iff:
  "decode_candidate_code tk object identity i = Inr (physical, n) \<longleftrightarrow>
     code_decoded tk object identity i physical \<and> n = byte_count physical"
  by (auto simp: decode_candidate_code_def code_decoded_sections split: sum.splits)

definition lowered_by :: "(physical_instruction \<Rightarrow> string + 'l) \<Rightarrow> physical_instruction list \<Rightarrow> 'l list \<Rightarrow> bool" where
  "lowered_by low = list_all2 (\<lambda>p l. low p = Inr l)"

lemma lower_from_iff:
  "lower_from low dec n acc physical = Inr lowered \<longleftrightarrow> (\<exists>more. lowered_by low physical more \<and> lowered = acc @ more)"
  by (induction physical arbitrary: acc) (auto simp: lowered_by_def list_all2_Cons1 split: sum.splits)

text \<open>The first instruction that does not lower stops the loop, with the coverage up to it.\<close>

lemma lower_from_error:
  "lower_from low dec n acc physical = Inl e \<longleftrightarrow>
     (\<exists>pre p post more m. physical = pre @ p # post \<and> lowered_by low pre more \<and> low p = Inl m \<and>
        e = lowering_error dec (pi_address p) (length acc + length more) m n)"
proof (induction physical arbitrary: acc)
  case Nil
  then show ?case by simp
next
  case (Cons q rest)
  show ?case
  proof (cases "low q")
    case (Inl m)
    have "(\<exists>pre p post more m. q # rest = pre @ p # post \<and> lowered_by low pre more \<and> low p = Inl m \<and>
        e = lowering_error dec (pi_address p) (length acc + length more) m n) \<longleftrightarrow> e = lowering_error dec (pi_address q) (length acc) m n"
      using Inl by (force simp: Cons_eq_append_conv lowered_by_def list_all2_Cons1)
    then show ?thesis using Inl by auto
  next
    case (Inr l)
    show ?thesis
    proof
      assume "lower_from low dec n acc (q # rest) = Inl e"
      then obtain pre p post more m where *: "rest = pre @ p # post" "lowered_by low pre more" "low p = Inl m"
          "e = lowering_error dec (pi_address p) (length (acc @ [l]) + length more) m n"
        using Inr Cons.IH [of "acc @ [l]"] by auto
      then show "\<exists>pre p post more m. q # rest = pre @ p # post \<and> lowered_by low pre more \<and> low p = Inl m \<and>
          e = lowering_error dec (pi_address p) (length acc + length more) m n"
        using Inr by (intro exI [of _ "q # pre"] exI [of _ p] exI [of _ post] exI [of _ "l # more"] exI [of _ m])
          (simp add: lowered_by_def)
    next
      assume "\<exists>pre p post more m. q # rest = pre @ p # post \<and> lowered_by low pre more \<and> low p = Inl m \<and>
          e = lowering_error dec (pi_address p) (length acc + length more) m n"
      then obtain pre p post more m where *: "q # rest = pre @ p # post" "lowered_by low pre more" "low p = Inl m"
          "e = lowering_error dec (pi_address p) (length acc + length more) m n" by blast
      then obtain pre' more' where "pre = q # pre'" "more = l # more'" "lowered_by low pre' more'"
        using Inr by (auto simp: Cons_eq_append_conv lowered_by_def list_all2_Cons1)
      then show "lower_from low dec n acc (q # rest) = Inl e"
        using * Inr Cons.IH [of "acc @ [l]"] by auto
    qed
  qed
qed

abbreviation x86_low :: "physical_instruction \<Rightarrow> string + lowered_instr" where
  "x86_low p \<equiv> (case lower p of Lowered l \<Rightarrow> Inr l | Unsupported mnemonic \<Rightarrow> Inl mnemonic)"

abbreviation a64_low :: "physical_instruction \<Rightarrow> string + a64_instr" where
  "a64_low p \<equiv> (case a64_lower p of ALowered l \<Rightarrow> Inr l | AUnsupported mnemonic \<Rightarrow> Inl mnemonic)"

abbreviation rv_low :: "physical_instruction \<Rightarrow> string + rv_instr" where
  "rv_low p \<equiv> (case rv_lower p of RLowered l \<Rightarrow> Inr l | RUnsupported mnemonic \<Rightarrow> Inl mnemonic)"

section \<open>Control flow\<close>

text \<open>Every branch names its target, an instruction of the candidate or address 0, and every call names
  an address.\<close>

definition direct_inside :: "physical_instruction list \<Rightarrow> physical_instruction \<Rightarrow> bool" where
  "direct_inside physical p \<longleftrightarrow>
     (case classify p of
        UnconditionalBranch _ a \<Rightarrow> a = 0 \<or> a \<in> pi_address ` set physical
      | ConditionalBranch _ a \<Rightarrow> a = 0 \<or> a \<in> pi_address ` set physical
      | EndCall _ a \<Rightarrow> a \<noteq> None
      | EndIndirect \<Rightarrow> False
      | EndUnknown \<Rightarrow> False
      | _ \<Rightarrow> True)"

text \<open>A terminator closes a block that ends in its edges.\<close>

definition closed_by :: "physical_instruction list \<Rightarrow> nat list \<Rightarrow> nat \<Rightarrow> block_builder \<Rightarrow> bool" where
  "closed_by ins order i b \<longleftrightarrow> bb_end b = classify (ins ! i) \<and>
     (\<exists>before. bb_successors b = before @ edges_of ins order i (classify (ins ! i)))"

lemma split_step_closes:
  assumes "is_terminator (classify (ins ! i))"
  shows "\<exists>b \<in> set (fst (split_step ins order i st)). closed_by ins order i b"
  using assms by (cases st) (auto simp: split_step_def closed_by_def Let_def)

lemma split_step_keeps: "set (fst st) \<subseteq> set (fst (split_step ins order i st))"
  by (cases st) (auto simp: split_step_def Let_def)

lemma split_fold_keeps: "set (fst st) \<subseteq> set (fst (fold (split_step ins order) xs st))"
proof (induction xs arbitrary: st)
  case (Cons x xs)
  then show ?case using split_step_keeps [of st ins order x] by fastforce
qed simp

lemma split_fold_closes:
  "i \<in> set xs \<Longrightarrow> is_terminator (classify (ins ! i)) \<Longrightarrow>
   \<exists>b \<in> set (fst (fold (split_step ins order) xs st)). closed_by ins order i b"
proof (induction xs arbitrary: st)
  case (Cons x xs)
  show ?case
  proof (cases "i = x")
    case True
    then show ?thesis
      using split_step_closes [OF Cons.prems(2), of order st] split_fold_keeps [of "split_step ins order x st" ins order xs] by auto
  qed (use Cons in auto)
qed simp

lemma split_blocks_closed:
  assumes "i < length ins" "is_terminator (classify (ins ! i))"
  obtains b where "b \<in> set (split_blocks ins)" "closed_by ins (addr_order ins) i b"
proof -
  have "i \<in> set (addr_order ins)" using assms(1) by (simp add: addr_order_def)
  from split_fold_closes [OF this assms(2), of "addr_order ins" "([], None)"]
  obtain b where b: "b \<in> set (fst (fold (split_step ins (addr_order ins)) (addr_order ins) ([], None)))"
      "closed_by ins (addr_order ins) i b" by blast
  moreover have "set (fst (fold (split_step ins (addr_order ins)) (addr_order ins) ([], None))) \<subseteq> set (split_blocks ins)"
    by (cases "fold (split_step ins (addr_order ins)) (addr_order ins) ([], None)";
        cases "snd (fold (split_step ins (addr_order ins)) (addr_order ins) ([], None))") (auto simp: split_blocks_def Let_def)
  ultimately show ?thesis using that by blast
qed

lemma last_target_append: "last_target k (es @ [e]) = (if e_kind e = k then e_to e else last_target k es)"
  by (simp add: last_target_def)

text \<open>A branch of a block whose target stays unresolved is reported unless the target is 0.\<close>

lemma resolved_branch:
  assumes "closed_by ins order i b" "leaf_block_error (resolve_block f (k, b)) = None"
    and "classify (ins ! i) = UnconditionalBranch t a \<or> classify (ins ! i) = ConditionalBranch t a" "a \<noteq> 0"
  shows "addr_to_instr ins a \<noteq> None"
  using assms
  by (auto simp: closed_by_def resolve_block_def leaf_block_error_def Let_def resolve_edge_def mk_edge_def last_target_def
      split: option.splits)

lemma find_map_None: "find_map f xs = None \<longleftrightarrow> (\<forall>x \<in> set xs. f x = None)"
  by (induction xs) (auto split: option.splits)

lemma leaf_terminatorD:
  "leaf_terminator_error p = None \<Longrightarrow> classify p \<noteq> EndIndirect \<and> classify p \<noteq> EndUnknown \<and> (\<forall>b. classify p \<noteq> EndCall b None)"
  by (auto simp: leaf_terminator_error_def classify_instruction_def split: block_end.splits option.splits)

lemma cfg_leaf_direct:
  assumes "check_cfg_leaf physical dec low = Inr u" "p \<in> set physical"
  shows "direct_inside physical p"
proof -
  have terms: "\<forall>q \<in> set physical. leaf_terminator_error q = None"
    using assms(1) by (auto simp: check_cfg_leaf_def find_map_None [symmetric] split: option.splits)
  obtain g where g: "build physical = Inr g" "\<forall>b \<in> set (g_blocks g). leaf_block_error b = None"
    using assms(1) by (auto simp: check_cfg_leaf_def find_map_None [symmetric] split: option.splits sum.splits)
  obtain i where i: "i < length physical" "p = physical ! i" using assms(2) by (metis in_set_conv_nth)
  have inside: "a \<in> pi_address ` set physical"
    if c: "classify p = UnconditionalBranch t a \<or> classify p = ConditionalBranch t a" and "a \<noteq> 0" for t a
  proof -
    have "is_terminator (classify (physical ! i))" using c i(2) by auto
    then obtain b where b: "b \<in> set (split_blocks physical)" "closed_by physical (addr_order physical) i b"
      using split_blocks_closed i(1) by blast
    then obtain k where k: "k < length (split_blocks physical)" "split_blocks physical ! k = b" by (metis in_set_conv_nth)
    then have "(k, b) \<in> set (enumerate 0 (split_blocks physical))" by (simp add: in_set_enumerate_eq)
    then have "resolve_block (instr_to_block (split_blocks physical)) (k, b) \<in> set (g_blocks g)"
      using build_blocks(1) [OF g(1)] by auto
    then have "leaf_block_error (resolve_block (instr_to_block (split_blocks physical)) (k, b)) = None" using g(2) by blast
    from resolved_branch [OF b(2) this c [unfolded i(2)] that(2)]
    obtain j where "addr_to_instr physical a = Some j" by auto
    from addr_to_instr_range [OF this] show ?thesis by force
  qed
  have "leaf_terminator_error p = None" using terms assms(2) by blast
  from leaf_terminatorD [OF this] inside show ?thesis
    by (cases "classify p") (auto simp: direct_inside_def)
qed

section \<open>The instructions\<close>

fun x86_abi_passed :: "abi \<Rightarrow> lowered_instr list \<Rightarrow> bool" where
  "x86_abi_passed SysVAmd64 lowered \<longleftrightarrow> is_clean (analyze lowered) \<and> \<not> abr_has_syscall (analyze lowered)"
| "x86_abi_passed WindowsX64 lowered \<longleftrightarrow>
     win_is_clean (win_analyze lowered) \<and> (\<forall>ins \<in> set lowered. li_mnemonic ins \<noteq> ''syscall'')"
| "x86_abi_passed _ lowered \<longleftrightarrow> False"

definition x86_admitted :: "abi \<Rightarrow> checked_contract \<Rightarrow> lowered_instr list \<Rightarrow> bool" where
  "x86_admitted a spec lowered \<longleftrightarrow> x86_abi_passed a lowered \<and>
     (is_read_only_buffer_scan spec \<longrightarrow> (\<forall>ins \<in> set lowered. \<not> is_x86_explicit_memory_write ins))"

definition a64_admitted :: "checked_contract \<Rightarrow> a64_instr list \<Rightarrow> bool" where
  "a64_admitted spec lowered \<longleftrightarrow> a64_is_clean (a64_analyze lowered) \<and>
     (\<forall>ins \<in> set lowered. al_mnemonic ins \<notin> {''svc'', ''hvc'', ''smc''}) \<and>
     (is_read_only_buffer_scan spec \<longrightarrow> (\<forall>ins \<in> set lowered. \<not> is_aarch64_explicit_memory_write ins))"

definition rv_admitted :: "checked_contract \<Rightarrow> rv_instr list \<Rightarrow> bool" where
  "rv_admitted spec lowered \<longleftrightarrow> rv_is_clean (rv_analyze lowered) \<and>
     (\<forall>ins \<in> set lowered. rl_mnemonic ins \<notin> {''ecall'', ''ebreak''} \<and> strip_prefix ''csr'' (rl_mnemonic ins) = None) \<and>
     (is_read_only_buffer_scan spec \<longrightarrow> (\<forall>ins \<in> set lowered. \<not> is_riscv_explicit_memory_write ins))"

lemma x86_abi_capability_iff:
  "(\<exists>fs. check_x86_abi_capability lowered a dec low = Inr fs) \<longleftrightarrow> x86_abi_passed a lowered"
  by (cases a) (auto simp: check_x86_abi_capability_def Let_def list_ex_iff)

lemma a64_abi_capability_iff:
  "check_aarch64_abi_capability lowered dec low = Inr u \<longleftrightarrow> a64_is_clean (a64_analyze lowered) \<and>
     (\<forall>ins \<in> set lowered. al_mnemonic ins \<notin> {''svc'', ''hvc'', ''smc''})"
  by (auto simp: check_aarch64_abi_capability_def Let_def list_ex_iff)

lemma rv_abi_capability_iff:
  "check_riscv_abi_capability lowered dec low = Inr u \<longleftrightarrow> rv_is_clean (rv_analyze lowered) \<and>
     (\<forall>ins \<in> set lowered. rl_mnemonic ins \<notin> {''ecall'', ''ebreak''} \<and> strip_prefix ''csr'' (rl_mnemonic ins) = None)"
  by (auto simp: check_riscv_abi_capability_def Let_def list_ex_iff)

lemma find_option_iff: "(case List.find P xs of Some x \<Rightarrow> Inl (f x) | None \<Rightarrow> Inr ()) = Inr u \<longleftrightarrow> (\<forall>x \<in> set xs. \<not> P x)"
  by (auto simp: find_None_iff find_Some_iff split: option.split)

lemma read_only_leaf_iff:
  "check_x86_read_only_buffer_leaf xs spec dec low = Inr u \<longleftrightarrow>
     (is_read_only_buffer_scan spec \<longrightarrow> (\<forall>ins \<in> set xs. \<not> is_x86_explicit_memory_write ins))"
  "check_aarch64_read_only_buffer_leaf ys spec dec low = Inr u \<longleftrightarrow>
     (is_read_only_buffer_scan spec \<longrightarrow> (\<forall>ins \<in> set ys. \<not> is_aarch64_explicit_memory_write ins))"
  "check_riscv_read_only_buffer_leaf zs spec dec low = Inr u \<longleftrightarrow>
     (is_read_only_buffer_scan spec \<longrightarrow> (\<forall>ins \<in> set zs. \<not> is_riscv_explicit_memory_write ins))"
  by (auto simp: check_x86_read_only_buffer_leaf_def check_aarch64_read_only_buffer_leaf_def
      check_riscv_read_only_buffer_leaf_def find_option_iff)

text \<open>The instructions of a candidate, by its architecture.\<close>

definition instructions_admitted :: "target_identity \<Rightarrow> checked_contract \<Rightarrow> physical_instruction list \<Rightarrow> bool" where
  "instructions_admitted identity spec physical \<longleftrightarrow>
     (case tisa identity of
        X86_64 \<Rightarrow> \<exists>lowered. lowered_by x86_low physical lowered \<and> x86_admitted (tabi identity) spec lowered
      | AArch64 \<Rightarrow> \<exists>lowered. lowered_by a64_low physical lowered \<and> a64_admitted spec lowered
      | Riscv64 \<Rightarrow> \<exists>lowered. lowered_by rv_low physical lowered \<and> rv_admitted spec lowered
      | _ \<Rightarrow> False)"

fun decoder_of :: "isa \<Rightarrow> decode_isa" where
  "decoder_of AArch64 = DecAArch64"
| "decoder_of Riscv64 = DecRiscv64"
| "decoder_of _ = DecX86_64"

definition candidate_safe :: "tooling \<Rightarrow> file_read \<Rightarrow> target_identity \<Rightarrow> checked_contract \<Rightarrow> nat \<Rightarrow> bool" where
  "candidate_safe tk object identity spec n \<longleftrightarrow>
     (\<exists>physical. code_decoded tk object identity (decoder_of (tisa identity)) physical \<and> n = byte_count physical \<and>
        (\<forall>p \<in> set physical. direct_inside physical p) \<and> instructions_admitted identity spec physical)"

lemma passed_gates: "gates_all_passed (semantic_gates_passed n (coverage_complete a) (coverage_complete b))"
  "sg_executable_bytes (semantic_gates_passed n (coverage_complete a) (coverage_complete b)) = n"
  by (simp_all add: semantic_gates_passed_def gates_all_passed_def coverage_complete_def leaf_ok_def)

lemma x86_gatesD:
  assumes "x86_gates tk object identity spec = Inr (g, al, reg, fs)"
  obtains physical lowered where "code_decoded tk object identity DecX86_64 physical" "lowered_by x86_low physical lowered"
    "x86_admitted (tabi identity) spec lowered" "\<forall>p \<in> set physical. direct_inside physical p"
    "gates_all_passed g" "sg_executable_bytes g = byte_count physical"
    "evaluate_x86_memory_evidence spec physical lowered
       (case tabi identity of SysVAmd64 \<Rightarrow> Some SysV | WindowsX64 \<Rightarrow> Some Win64 | _ \<Rightarrow> None) = (al, reg)"
proof -
  obtain physical n where d: "decode_candidate_code tk object identity DecX86_64 = Inr (physical, n)"
    using assms by (auto simp: x86_gates_def split: sum.splits)
  let ?dec = "coverage_complete (length physical)"
  obtain lowered where l: "lower_x86_instructions physical ?dec = Inr lowered"
    using assms d by (auto simp: x86_gates_def Let_def split: sum.splits)
  let ?low = "coverage_complete (length lowered)"
  obtain f u v where a: "check_x86_abi_capability lowered (tabi identity) ?dec ?low = Inr f"
      and c: "check_cfg_leaf physical ?dec ?low = Inr u" and m: "check_x86_read_only_buffer_leaf lowered spec ?dec ?low = Inr v"
    using assms d l by (auto simp: x86_gates_def Let_def split: sum.splits)
  have g: "g = semantic_gates_passed n ?dec ?low" "evaluate_x86_memory_evidence spec physical lowered
       (case tabi identity of SysVAmd64 \<Rightarrow> Some SysV | WindowsX64 \<Rightarrow> Some Win64 | _ \<Rightarrow> None) = (al, reg)"
    using assms d l a c m by (auto simp: x86_gates_def Let_def split: prod.splits)
  have "x86_abi_passed (tabi identity) lowered" using a x86_abi_capability_iff by blast
  then show ?thesis
    using that [of physical lowered] d l c m g cfg_leaf_direct [OF c]
    by (auto simp: decode_candidate_code_iff lower_x86_instructions_def lower_from_iff x86_admitted_def
        read_only_leaf_iff passed_gates)
qed

lemma a64_gatesD:
  assumes "a64_gates tk object identity spec = Inr (g, al, reg, fs)"
  obtains physical lowered where "code_decoded tk object identity DecAArch64 physical" "lowered_by a64_low physical lowered"
    "a64_admitted spec lowered" "\<forall>p \<in> set physical. direct_inside physical p"
    "gates_all_passed g" "sg_executable_bytes g = byte_count physical" "evaluate_aarch64_memory_evidence spec lowered = (al, reg)"
proof -
  obtain physical n where d: "decode_candidate_code tk object identity DecAArch64 = Inr (physical, n)"
    using assms by (auto simp: a64_gates_def split: sum.splits)
  let ?dec = "coverage_complete (length physical)"
  obtain lowered where l: "lower_aarch64_instructions physical ?dec = Inr lowered"
    using assms d by (auto simp: a64_gates_def Let_def split: sum.splits)
  let ?low = "coverage_complete (length lowered)"
  obtain f u v where a: "check_aarch64_abi_capability lowered ?dec ?low = Inr f"
      and c: "check_cfg_leaf physical ?dec ?low = Inr u" and m: "check_aarch64_read_only_buffer_leaf lowered spec ?dec ?low = Inr v"
    using assms d l by (auto simp: a64_gates_def Let_def split: sum.splits)
  have g: "g = semantic_gates_passed n ?dec ?low" "evaluate_aarch64_memory_evidence spec lowered = (al, reg)"
    using assms d l a c m by (auto simp: a64_gates_def Let_def split: prod.splits)
  show ?thesis
    using that [of physical lowered] d l a c m g cfg_leaf_direct [OF c]
    by (auto simp: decode_candidate_code_iff lower_aarch64_instructions_def lower_from_iff a64_admitted_def
        a64_abi_capability_iff read_only_leaf_iff passed_gates)
qed

lemma rv_gatesD:
  assumes "rv_gates tk object identity spec = Inr (g, al, reg, fs)"
  obtains physical lowered where "code_decoded tk object identity DecRiscv64 physical" "lowered_by rv_low physical lowered"
    "rv_admitted spec lowered" "\<forall>p \<in> set physical. direct_inside physical p"
    "gates_all_passed g" "sg_executable_bytes g = byte_count physical" "evaluate_riscv_memory_evidence spec lowered = (al, reg)"
proof -
  obtain physical n where d: "decode_candidate_code tk object identity DecRiscv64 = Inr (physical, n)"
    using assms by (auto simp: rv_gates_def split: sum.splits)
  let ?dec = "coverage_complete (length physical)"
  obtain lowered where l: "lower_riscv_instructions physical ?dec = Inr lowered"
    using assms d by (auto simp: rv_gates_def Let_def split: sum.splits)
  let ?low = "coverage_complete (length lowered)"
  obtain f u v where a: "check_riscv_abi_capability lowered ?dec ?low = Inr f"
      and c: "check_cfg_leaf physical ?dec ?low = Inr u" and m: "check_riscv_read_only_buffer_leaf lowered spec ?dec ?low = Inr v"
    using assms d l by (auto simp: rv_gates_def Let_def split: sum.splits)
  have g: "g = semantic_gates_passed n ?dec ?low" "evaluate_riscv_memory_evidence spec lowered = (al, reg)"
    using assms d l a c m by (auto simp: rv_gates_def Let_def split: prod.splits)
  show ?thesis
    using that [of physical lowered] d l a c m g cfg_leaf_direct [OF c]
    by (auto simp: decode_candidate_code_iff lower_riscv_instructions_def lower_from_iff rv_admitted_def
        rv_abi_capability_iff read_only_leaf_iff passed_gates)
qed

lemma accepted_dispatch:
  assumes "verify_candidate_semantics tk object identity rsym spec = Inr r"
  shows "supported_target identity \<and> object_admitted tk object identity rsym \<and>
    (tisa identity = X86_64 \<and> x86_gates tk object identity spec = Inr r \<or>
     tisa identity = AArch64 \<and> a64_gates tk object identity spec = Inr r \<or>
     tisa identity = Riscv64 \<and> rv_gates tk object identity spec = Inr r)"
proof -
  obtain u where t: "require_semantic_target identity = Inr u" and p: "check_candidate_object_policy tk object identity rsym = Inr ()"
    using assms by (auto simp: verify_candidate_semantics_def split: sum.splits)
  have s: "supported_target identity" using t by (simp add: require_semantic_target_def split: if_splits)
  then show ?thesis
    using assms t p candidate_object_policy_iff by (auto simp: verify_candidate_semantics_def supported_target_def)
qed

lemma candidate_accepted_safe:
  assumes "verify_candidate_semantics tk object identity rsym spec = Inr (g, al, reg, fs)"
  shows "object_admitted tk object identity rsym \<and> gates_all_passed g \<and>
    candidate_safe tk object identity spec (sg_executable_bytes g)"
  using accepted_dispatch [OF assms] unfolding candidate_safe_def
  by (elim conjE disjE) (auto simp: instructions_admitted_def elim!: x86_gatesD a64_gatesD rv_gatesD)

text \<open>C2: A candidate that the semantic gates accept is what they promise: a relocatable object that exports the
  routine, imports nothing and has no writable executable section; its code sections decode to the last
  byte; every decoded instruction is lowered; the ABI report is clean and no instruction is one of the service calls the gates
  know (\<open>syscall\<close>; \<open>svc\<close>, \<open>hvc\<close>, \<open>smc\<close>; \<open>ecall\<close>, \<open>ebreak\<close>, \<open>csr*\<close>); every branch goes to an instruction of the candidate
  (or names address 0) and every call names its target; and, for a contract the program takes for a read-only leaf, no instruction
  is one that the gate's own test counts as an explicit memory write. That test does not count every store: on x86-64 a pop into memory and a
  store through \<open>rbp\<close> without an index, whatever \<open>rbp\<close> holds, pass it (\<open>stores_not_counted\<close>). The gate snapshot says that
  the gates passed or, for control and memory, were skipped, with full coverage, and gives the number of bytes decoded.\<close>

theorem candidate_accepted:
  assumes "verify_candidate_semantics tk object identity rsym spec = Inr (g, al, reg, fs)"
  shows "object_admitted tk object identity rsym \<and> gates_all_passed g \<and>
    candidate_safe tk object identity spec (sg_executable_bytes g)"
  by (rule candidate_accepted_safe [OF assms])

section \<open>What an accepted candidate does\<close>

text \<open>The decoded and the lowered instructions are determined by the object.\<close>

lemma code_decoded_unique:
  "code_decoded tk object identity d physical \<Longrightarrow> code_decoded tk object identity d physical' \<Longrightarrow> physical = physical'"
  by (auto simp: code_decoded_sections)

lemma lowered_by_unique: "lowered_by low physical xs \<Longrightarrow> lowered_by low physical ys \<Longrightarrow> xs = ys"
  unfolding lowered_by_def by (induction physical arbitrary: xs ys) (auto simp: list_all2_Cons1)

lemma x86_accepted:
  assumes "verify_candidate_semantics tk object identity rsym spec = Inr (g, al, reg, fs)" "tisa identity = X86_64"
    and "code_decoded tk object identity DecX86_64 physical" "lowered_by x86_low physical body"
  shows "x86_admitted (tabi identity) spec body \<and> evaluate_x86_memory_evidence spec physical body
    (case tabi identity of SysVAmd64 \<Rightarrow> Some SysV | WindowsX64 \<Rightarrow> Some Win64 | _ \<Rightarrow> None) = (al, reg)"
proof -
  have "x86_gates tk object identity spec = Inr (g, al, reg, fs)" using accepted_dispatch [OF assms(1)] assms(2) by simp
  then obtain p l where "code_decoded tk object identity DecX86_64 p" "lowered_by x86_low p l" "x86_admitted (tabi identity) spec l"
      "evaluate_x86_memory_evidence spec p l
        (case tabi identity of SysVAmd64 \<Rightarrow> Some SysV | WindowsX64 \<Rightarrow> Some Win64 | _ \<Rightarrow> None) = (al, reg)"
    by (rule x86_gatesD)
  moreover from this have "p = physical" "l = body" using code_decoded_unique assms(3,4) lowered_by_unique by blast+
  ultimately show ?thesis by simp
qed

lemma syscall_step: "wk_has_syscall (walk_step i ins w) \<longleftrightarrow> wk_has_syscall w \<or> li_mnemonic ins = ''syscall''"
proof (cases "is_mov_rsp_from_rbp ins")
  case True
  then have "li_mnemonic ins \<noteq> ''syscall''" using not_mov_rsp [of ins] by auto
  then show ?thesis using True by (simp add: walk_step_def)
next
  case False
  then show ?thesis by (simp add: walk_step_def Let_def abi_step_of_def split: option.split)
qed

lemma syscall_loop:
  "wk_has_syscall (for_each walk_step i body w) \<longleftrightarrow> wk_has_syscall w \<or> (\<exists>ins \<in> set body. li_mnemonic ins = ''syscall'')"
  by (induction body arbitrary: i w) (auto simp: syscall_step)

lemma has_syscall_iff: "abr_has_syscall (analyze body) \<longleftrightarrow> (\<exists>ins \<in> set body. li_mnemonic ins = ''syscall'')"
  by (simp add: analyze_def Let_def syscall_loop walk_init_def)

text \<open>C4: An accepted System V candidate, run from an entry with \<open>RSP\<close> 8 modulo 16, calls with an aligned stack,
  returns with the \<open>RSP\<close> it was entered with, and never reaches a system call, on every path through its
  decoded code that the stack walk tracks.\<close>

theorem accepted_stack_safe:
  assumes "verify_candidate_semantics tk object identity rsym spec = Inr (g, al, reg, fs)"
    and "tisa identity = X86_64" "tabi identity = SysVAmd64"
    and "code_decoded tk object identity DecX86_64 physical" "lowered_by x86_low physical body"
    and "sysv_run jump body m0 i m" "sysv_tracked jump body" "i < length body" "uint (m0 Rsp) mod 16 = 8"
  shows "(li_mnemonic (body ! i) = ''call'' \<longrightarrow> uint (m Rsp) mod 16 = 0) \<and>
    (li_mnemonic (body ! i) \<in> {''ret'', ''retn'', ''retf''} \<longrightarrow> m Rsp = m0 Rsp) \<and> li_mnemonic (body ! i) \<noteq> ''syscall''"
proof -
  have clean: "is_clean (analyze body)" and sys: "\<not> abr_has_syscall (analyze body)"
    using x86_accepted [OF assms(1,2,4,5)] assms(3) by (simp_all add: x86_admitted_def)
  have no: "f \<notin> set (abr_findings (analyze body))" if "af_severity f = SevError" for f
    using clean that by (auto simp: is_clean_def list_ex_iff)
  note run = x86_run_delta [OF assms(6) [unfolded sysv_run_def] assms(8) assms(7) [unfolded sysv_tracked_def]]
  have "align_of 8 (walk_at delta_step 0 body i) = 0" if "li_mnemonic (body ! i) = ''call''"
    using no misaligned_finding_iff [where i = i and body = body] that assms(8) by fastforce
  moreover have "walk_at delta_step 0 body i = 0" if "li_mnemonic (body ! i) \<in> {''ret'', ''retn'', ''retf''}"
    using no unbalanced_finding_iff [where i = i and body = body] that assms(8) by fastforce
  moreover have "li_mnemonic (body ! i) \<noteq> ''syscall''" using sys assms(8) by (auto simp: has_syscall_iff)
  ultimately show ?thesis using run(1) [OF assms(9)] run(2) by blast
qed


definition engine_consecutive :: "disassembler \<Rightarrow> bool" where
  "engine_consecutive engine \<longleftrightarrow>
     (\<forall>code base insns. engine code base = Insns insns \<longrightarrow> (\<exists>rest. code = concat (map ci_bytes insns) @ rest))"

fun engine_for :: "tooling \<Rightarrow> decode_isa \<Rightarrow> disassembler" where
  "engine_for tk DecX86_64 = tl_x86_64 tk"
| "engine_for tk DecAArch64 = tl_aarch64 tk"
| "engine_for tk DecRiscv64 = tl_riscv64 tk"

lemma decode_for_engine:
  assumes "decode_for tk i code base = Inr part"
  obtains insns where "engine_for tk i code base = Insns insns" "concat (map pi_bytes part) = concat (map ci_bytes insns)"
proof -
  have bytes: "map pi_bytes (map normalise_insn insns) = map ci_bytes insns" for insns
    by (simp add: normalise_insn_def split: option.split prod.split)
  obtain insns where "engine_for tk i code base = Insns insns" "part = map normalise_insn insns"
    using assms by (cases i) (auto simp: decode_x86_64_def decode_x86_64_inner_def decode_aarch64_def decode_aarch64_inner_def
        decode_riscv64_def decode_riscv64_inner_def split: if_splits engine_result.splits)
  then show ?thesis using that bytes by metis
qed

lemma byte_count_concat: "byte_count physical = length (concat (map pi_bytes physical))"
  by (induction physical) (simp_all add: byte_count_def)

lemma sections_prefix:
  assumes "engine_consecutive (engine_for tk i)"
  shows "list_all2 (\<lambda>s part. decode_for tk i (cs_bytes s) (cs_address s) = Inr part) sections parts \<Longrightarrow>
    byte_count (concat parts) \<le> section_bytes sections \<and>
    (byte_count (concat parts) = section_bytes sections \<longrightarrow>
      concat (map pi_bytes (concat parts)) = concat (map cs_bytes sections))"
proof (induction rule: list_all2_induct)
  case Nil
  then show ?case by (simp add: byte_count_def section_bytes_def)
next
  case (Cons s ss part parts)
  obtain insns where "engine_for tk i (cs_bytes s) (cs_address s) = Insns insns"
      "concat (map pi_bytes part) = concat (map ci_bytes insns)"
    using decode_for_engine [OF Cons(1)] .
  then obtain rest where rest: "cs_bytes s = concat (map pi_bytes part) @ rest"
    using assms unfolding engine_consecutive_def by metis
  have "section_bytes (s # ss) = length (cs_bytes s) + section_bytes ss" by (simp add: section_bytes_def)
  moreover have "byte_count (concat (part # parts)) = byte_count part + byte_count (concat parts)"
    by (simp add: byte_count_def)
  ultimately show ?case using Cons(3) rest by (auto simp: byte_count_concat)
qed

text \<open>C5: No byte of the code sections is skipped, if the disassembler returns consecutive instructions from the
  start of the code: the bytes of the decoded instructions are the bytes of the sections, in order.\<close>

theorem accepted_code_complete:
  assumes "verify_candidate_semantics tk object identity rsym spec = Inr (g, al, reg, fs)"
    and "engine_consecutive (engine_for tk (decoder_of (tisa identity)))"
  shows "\<exists>sections physical. read_code_sections (tl_parse tk) object identity = Inr sections \<and>
    code_decoded tk object identity (decoder_of (tisa identity)) physical \<and>
    concat (map pi_bytes physical) = concat (map cs_bytes sections) \<and>
    sg_executable_bytes g = length (concat (map cs_bytes sections))"
proof -
  obtain physical where d: "code_decoded tk object identity (decoder_of (tisa identity)) physical"
      "sg_executable_bytes g = byte_count physical"
    using candidate_accepted_safe [OF assms(1)] by (auto simp: candidate_safe_def)
  from d(1) obtain sections parts where p: "read_code_sections (tl_parse tk) object identity = Inr sections"
      "list_all2 (\<lambda>s part. decode_for tk (decoder_of (tisa identity)) (cs_bytes s) (cs_address s) = Inr part) sections parts"
      "physical = concat parts" "byte_count physical = section_bytes sections"
    by (auto simp: code_decoded_def)
  then have "concat (map pi_bytes physical) = concat (map cs_bytes sections)"
    using sections_prefix [OF assms(2) p(2)] by simp
  then show ?thesis using d p(1) by (auto simp: byte_count_concat)
qed

section \<open>A candidate\<close>

text \<open>\<open>cmp rsi, 16; jae out; mov eax, dword ptr [rdi + rsi*4]; out: ret\<close>, assembled for System V, in an
  object with one exported symbol, and an engine that decodes it.\<close>

definition lookup_insns :: "raw_insn list" where
  "lookup_insns =
     [\<lparr>ci_address = 0, ci_bytes = [72, 131, 254, 16], ci_mnemonic = Some ''cmp'', ci_op_str = Some ''rsi, 0x10'', ci_detail = None\<rparr>,
      \<lparr>ci_address = 4, ci_bytes = [115, 3], ci_mnemonic = Some ''jae'', ci_op_str = Some ''0x9'',
        ci_detail = Some ([], [], [Some ''jump''])\<rparr>,
      \<lparr>ci_address = 6, ci_bytes = [139, 4, 183], ci_mnemonic = Some ''mov'', ci_op_str = Some ''eax, dword ptr [rdi + rsi*4]'',
        ci_detail = None\<rparr>,
      \<lparr>ci_address = 9, ci_bytes = [195], ci_mnemonic = Some ''ret'', ci_op_str = None, ci_detail = Some ([], [], [Some ''ret''])\<rparr>]"

definition lookup_bytes :: "nat list" where
  "lookup_bytes = [72, 131, 254, 16, 115, 3, 139, 4, 183, 195]"

definition lookup_engine :: disassembler where
  "lookup_engine code base =
     (if code = lookup_bytes \<and> base = 0 then Insns lookup_insns else DisasmError ''unknown code'')"

definition lookup_object :: raw_object where
  "lookup_object = \<lparr>ro_format = BfElf, ro_kind = OkRelocatable, ro_architecture = ArchX86_64, ro_little_endian = True, ro_entry = 0,
     ro_sections = [\<lparr>rs_name = Some ''.text'', rs_address = 0, rs_size = 10, rs_kind = SkText, rs_flags = FlagsElf 6,
       rs_data = Inr lookup_bytes, rs_relocations = []\<rparr>],
     ro_symbols = [\<lparr>ry_name = Some ''lookup'', ry_address = 0, ry_kind = YkText, ry_global = True, ry_weak = False,
       ry_undefined = False\<rparr>],
     ro_dynamic_symbols = []\<rparr>"

definition lookup_tools :: tooling where
  "lookup_tools = \<lparr>tl_parse = (\<lambda>_. Inr lookup_object), tl_x86_64 = lookup_engine, tl_aarch64 = (\<lambda>_ _. BuildError []),
     tl_riscv64 = (\<lambda>_ _. BuildError [])\<rparr>"

definition lookup_file :: file_read where
  "lookup_file = \<lparr>fr_path = ''routine.o'', fr_content = Inr [127]\<rparr>"

abbreviation lookup_result :: "semantic_gate_error + candidate_semantics" where
  "lookup_result \<equiv> verify_candidate_semantics lookup_tools lookup_file x86_64_linux_gnu ''lookup'' lookup_spec"

lemma lookup_evaluated:
  "(case lookup_result of Inr (g, al, Some rep, fs) \<Rightarrow> rr_status rep = RaPassed \<and> sg_executable_bytes g = 10 | _ \<Rightarrow> False)"
  by code_simp


lemma lookup_accepted:
  obtains g al rep fs where "lookup_result = Inr (g, al, Some rep, fs)" "rr_status rep = RaPassed" "sg_executable_bytes g = 10"
  using lookup_evaluated by (cases lookup_result) (auto split: option.splits)

definition candidate_body :: "lowered_instr list" where
  "candidate_body =
     [\<lparr>li_mnemonic = ''cmp'', li_kind = Compare, li_width = B64, li_signed = None, li_operands = [OReg (full Rsi), OImm 16]\<rparr>,
      \<lparr>li_mnemonic = ''jae'', li_kind = Branch, li_width = B64, li_signed = Some False, li_operands = [OImm 9]\<rparr>,
      \<lparr>li_mnemonic = ''mov'', li_kind = OpStore, li_width = B32, li_signed = None,
        li_operands = [OReg (low32 Rax), OMem table_operand]\<rparr>,
      \<lparr>li_mnemonic = ''ret'', li_kind = OpReturn, li_width = B64, li_signed = None, li_operands = []\<rparr>]"

abbreviation lookup_physical :: "physical_instruction list" where
  "lookup_physical \<equiv> map normalise_insn lookup_insns"

lemma lookup_lowered: "lowered_by x86_low lookup_physical candidate_body"
  by code_simp

lemma lookup_decoded: "code_decoded lookup_tools lookup_file x86_64_linux_gnu DecX86_64 lookup_physical"
proof -
  have "decode_candidate_code lookup_tools lookup_file x86_64_linux_gnu DecX86_64 = Inr (lookup_physical, 10)" by code_simp
  then show ?thesis by (simp add: decode_candidate_code_iff)
qed

lemma linux_identity: "tisa x86_64_linux_gnu = X86_64" "tabi x86_64_linux_gnu = SysVAmd64"
  by code_simp+

theorem candidate_accepted_witness:
  "object_admitted lookup_tools lookup_file x86_64_linux_gnu ''lookup'' \<and>
   candidate_safe lookup_tools lookup_file x86_64_linux_gnu lookup_spec 10"
proof -
  obtain g al rep fs where "lookup_result = Inr (g, al, Some rep, fs)" "sg_executable_bytes g = 10"
    by (rule lookup_accepted)
  from candidate_accepted [OF this(1)] this(2) show ?thesis by simp
qed

lemma lookup_engine_consecutive: "engine_consecutive lookup_engine"
proof -
  have "lookup_bytes = concat (map ci_bytes lookup_insns) @ []" by (simp add: lookup_bytes_def lookup_insns_def)
  then show ?thesis unfolding engine_consecutive_def lookup_engine_def by (metis engine_result.distinct(5) engine_result.inject(3))
qed

theorem accepted_code_complete_witness:
  "\<exists>sections physical. read_code_sections (tl_parse lookup_tools) lookup_file x86_64_linux_gnu = Inr sections \<and>
    code_decoded lookup_tools lookup_file x86_64_linux_gnu DecX86_64 physical \<and>
    concat (map pi_bytes physical) = concat (map cs_bytes sections) \<and> length (concat (map cs_bytes sections)) = 10"
proof -
  obtain g al rep fs where acc: "lookup_result = Inr (g, al, Some rep, fs)" "sg_executable_bytes g = 10"
    by (rule lookup_accepted)
  have "engine_consecutive (engine_for lookup_tools (decoder_of (tisa x86_64_linux_gnu)))"
    using lookup_engine_consecutive by (simp add: linux_identity lookup_tools_def)
  from accepted_code_complete [OF acc(1) this] acc(2) show ?thesis by (simp add: linux_identity)
qed

lemma candidate_mn: "to_ascii_lowercase ''cmp'' = ''cmp''" "to_ascii_lowercase ''jae'' = ''jae''"
  by code_simp+

lemma lookup_machine_run: "sysv_run (\<lambda>i j. i = 1 \<and> j = 3) candidate_body (\<lambda>_. 8) 3 (\<lambda>_. 8)"
proof -
  let ?r = "reaches (x86_effect sysv_volatile) x86_stops (\<lambda>i j. i = 1 \<and> j = 3) candidate_body (\<lambda>_. 8)"
  note fx = candidate_mn candidate_body_def x86_effect_def x86_stops_def clobbers_def dest_gp_def slot_bytes_def
  have "?r 0 (\<lambda>_. 8)" by (rule reaches.entry)
  from reaches.fall [OF this, of "\<lambda>_. 8"] have "?r 1 (\<lambda>_. 8)" by (simp add: fx)
  from reaches.taken [OF this, of 3 "\<lambda>_. 8"] have "?r 3 (\<lambda>_. 8)" by (simp add: fx)
  then show ?thesis by (simp add: sysv_run_def)
qed

lemma candidate_tracked: "sysv_tracked (\<lambda>i j. i = 1 \<and> j = 3) candidate_body"
  by (simp add: candidate_mn sysv_tracked_def well_tracked_def candidate_body_def eval_nat_numeral All_less_Suc
      walk_at_def x86_walk_step_def x86_delta_def stack_tracked_def restores_frame_def sets_frame_def x86_weaker_def
      frame_next_def adjusts_rsp_def clobbers_def dest_gp_def sysv_volatile_def volatile_gp_def wrap_i64_id rust_int low32_def reg_gp_def)

theorem accepted_stack_safe_witness:
  "li_mnemonic (candidate_body ! 3) = ''ret'' \<and> ((\<lambda>_. 8) :: regs) Rsp = 8"
proof -
  obtain g al rep fs where acc: "lookup_result = Inr (g, al, Some rep, fs)" by (rule lookup_accepted)
  have "3 < length candidate_body" "li_mnemonic (candidate_body ! 3) = ''ret''" by (simp_all add: candidate_body_def)
  then show ?thesis
    using accepted_stack_safe [OF acc linux_identity lookup_decoded lookup_lowered lookup_machine_run candidate_tracked] by simp
qed

lemma candidate_run:
  "reaches fall_effect x86_stops (\<lambda>_ _. False) candidate_body ((\<lambda>_. 0)(Rdi := 4096, Rsi := 7), None) 2
     ((\<lambda>_. 0)(Rdi := 4096, Rsi := 7), Some (7, 16))"
proof -
  let ?s = "(\<lambda>_. 0)(Rdi := 4096, Rsi := 7) :: regs"
  let ?r = "reaches fall_effect x86_stops (\<lambda>_ _. False) candidate_body (?s, None)"
  note run = reaches.fall [of fall_effect x86_stops "\<lambda>_ _. False" candidate_body "(?s, None)"]
  note defs = candidate_mn fall_effect_def x86_effect_def clobbers_def candidate_body_def x86_stops_def
  have "?r (Suc 0) (?s, Some (7, 16))"
    by (rule run [OF reaches.entry]) (auto simp: defs)
  then have "?r (Suc (Suc 0)) (?s, Some (7, 16))"
    by (rule run) (auto simp: defs)
  then show ?thesis by (simp add: eval_nat_numeral)
qed

lemma candidate_effects_tracked: "effects_tracked (c_parameters lookup_spec) SysV candidate_body"
proof -
  have "list_all (\<lambda>i. effect_tracked (candidate_body ! i) (effect_at (c_parameters lookup_spec) SysV candidate_body i)) [0, 1, 2, 3]"
    by code_simp
  moreover have "length candidate_body = 4" by (simp add: candidate_body_def)
  ultimately show ?thesis by (auto simp: effects_tracked_def less_Suc_eq eval_nat_numeral)
qed


section \<open>What the gates let through\<close>

text \<open>\<open>pop\<close> into memory is not among the stores of a read-only leaf, a store through \<open>rbp\<close> counts as a
  frame access whatever \<open>rbp\<close> holds, and an exchange is a store in its second operand only if the first is
  not a register.\<close>

lemma stores_not_counted:
  "\<not> is_x86_explicit_memory_write
      \<lparr>li_mnemonic = ''pop'', li_kind = OpStore, li_width = B64, li_signed = None, li_operands = [OMem table_operand]\<rparr>"
  "\<not> is_x86_explicit_memory_write
      \<lparr>li_mnemonic = ''mov'', li_kind = OpStore, li_width = B64, li_signed = None,
       li_operands = [OMem \<lparr>mo_base = Some (full Rbp), mo_index = None, mo_scale = 1, mo_disp = 0, mo_width = B64\<rparr>, OReg (full Rax)]\<rparr>"
  by (simp_all add: is_x86_explicit_memory_write_def x86_store_mnemonics_def full_def reg_gp_def)

text \<open>A branch whose operand names no address gets target 0, which the control-flow gate takes for resolved:
  \<open>jne\<close> with a symbolic operand passes.\<close>

definition symbolic_branch :: "physical_instruction list" where
  "symbolic_branch =
     [\<lparr>pi_address = 4, pi_bytes = [117, 0], pi_mnemonic = ''jne'', pi_operands = [''out''], pi_read_regs = [], pi_write_regs = [],
       pi_groups = [''jump''], pi_detail_available = True\<rparr>]"

lemma unresolved_branch_accepted:
  "check_cfg_leaf symbolic_branch (coverage_complete 1) (coverage_complete 1) = Inr () \<and> 0 \<notin> pi_address ` set symbolic_branch"
  by code_simp

text \<open>A direct call is accepted by the leaf policy, to any address.\<close>

definition direct_call :: "physical_instruction list" where
  "direct_call =
     [\<lparr>pi_address = 0, pi_bytes = [232, 0, 0, 0, 0], pi_mnemonic = ''call'', pi_operands = [''0x40''], pi_read_regs = [],
       pi_write_regs = [], pi_groups = [''call''], pi_detail_available = True\<rparr>]"

lemma leaf_calls_accepted: "check_cfg_leaf direct_call (coverage_complete 1) (coverage_complete 1) = Inr ()"
  by code_simp

end
