(* ===== verification/Agent_Sound.thy ===== *)
theory Agent_Sound imports Agent_Verify Gates_Sound begin

text \<open>
  What an agent verification guarantees: the exit status 0 means that every gate, the linked image and
  every vector passed; each early exit is explained; and the scratch directory is removed but for one
  branch.
\<close>

section \<open>The status of a report\<close>

definition option_list :: "'a option \<Rightarrow> 'a list" where
  "option_list x = (case x of Some a \<Rightarrow> [a] | None \<Rightarrow> [])"

text \<open>The evidence a report is given, in the order of \<open>finalize_report\<close>.\<close>

definition slices :: "prepared \<Rightarrow> alias_analysis_report option \<Rightarrow> region_access_report option \<Rightarrow> attachment list" where
  "slices p al region =
     map AttachAlias (option_list al) @ map AttachRegion (option_list region) @
     map AttachExpressions (option_list (evaluate_contract_expressions (pp_checked p) al empty_bindings))"

lemma with_option_attach:
  "with_option with_alias_analysis al r = fold attach (map AttachAlias (option_list al)) r"
  "with_option with_region_access region r = fold attach (map AttachRegion (option_list region)) r"
  "with_option with_contract_expressions e r = fold attach (map AttachExpressions (option_list e)) r"
  by (simp_all add: with_option_def option_list_def split: option.split)

lemma kept_status [simp]:
  "vp_status (with_findings fs r) = vp_status r" "vp_status (with_digests a b r) = vp_status r"
  "vp_status (with_vector_set v r) = vp_status r" "vp_status (with_option with_behavior_oracle ora r) = vp_status r"
  by (simp_all add: with_findings_def with_digests_def with_vector_set_def with_option_def with_behavior_oracle_def split: option.split)

lemma attach_status_cong: "vp_status r = vp_status s \<Longrightarrow> vp_status (fold attach atts r) = vp_status (fold attach atts s)"
  by (simp add: attached_status)

lemma finalize_status:
  "vp_status (finalize_report w p r behavior al region) = vp_status (fold attach (slices p al region) r)"
  by (auto simp: finalize_report_def with_option_attach slices_def attached_status Let_def)

lemma ran_status:
  "vp_status (ran_report w p (semantic, al, region, fs) gate run) =
     vp_status (fold attach (slices p al region) (base_report w p semantic gate
       (Some (evaluate (vw_show_json w) (rn_stdout run) (pp_vectors p) (pp_shape p))) (from_runner (vw_runner w))))"
  by (auto simp: ran_report_def Let_def with_option_attach slices_def attached_status)

definition verified_status :: "verification_status \<Rightarrow> bool" where
  "verified_status s \<longleftrightarrow> s = VVerified \<or> s = VVerifiedUnderPreconditions"

lemma attached_verified_status:
  "verified_status (vp_status (fold attach atts (base_report w p semantic gate behavior isol))) \<longleftrightarrow>
     parts_pass semantic gate behavior \<and> \<not> list_ex slice_fails atts"
  unfolding verified_status_def base_report_def attached_verified by blast

section \<open>The exit status\<close>

definition exit_status :: "verify_outcome \<Rightarrow> nat" where
  "exit_status out = (case vo_result out of EarlyExit _ n \<Rightarrow> n | Finished _ _ _ n \<Rightarrow> n)"

definition image_executable :: "'te verify_world \<Rightarrow> prepared \<Rightarrow> bool" where
  "image_executable w p \<longleftrightarrow> (\<exists>info. read_for_target (tl_parse (vw_tooling w)) (vw_executable w) (in_identity (pp_inputs p)) = Inr info \<and>
     oi_kind info = Executable)"

lemma executable_gate_iff:
  "eg_status (fst (check_executable_object tk exe identity)) \<noteq> GFailed \<longleftrightarrow>
     (\<exists>info. read_for_target (tl_parse tk) exe identity = Inr info \<and> oi_kind info = Executable)"
  by (auto simp: check_executable_object_def executable_passed_def executable_failed_def split: sum.split)

text \<open>A run of the candidate that verifies it, from the prepared inputs on.\<close>

definition verifying_run :: "'te verify_world \<Rightarrow> prepared \<Rightarrow> bool" where
  "verifying_run w p \<longleftrightarrow> routine_failed w p = None \<and>
     (\<exists>semantic al region fs program run.
        verify_candidate_semantics (vw_tooling w) (vw_object w) (in_identity (pp_inputs p)) (c_name (pp_checked p)) (pp_checked p)
          = Inr (semantic, al, region, fs) \<and>
        generate_harness (c_name (pp_checked p)) (pp_vectors p) (tabi (in_identity (pp_inputs p))) (pp_shape p) = Inr program \<and>
        harness_failed w p program = None \<and> image_executable w p \<and> vw_run w = Inr run \<and>
        (\<exists>rest. rn_stdout run = expected_output (pp_shape p) (pp_vectors p) @ rest) \<and>
        \<not> list_ex slice_fails (slices p al region))"

definition inputs_prepared :: "'te verify_world \<Rightarrow> string \<Rightarrow> prepared \<Rightarrow> bool" where
  "inputs_prepared w target_str p \<longleftrightarrow>
     (\<exists>i c. read_inputs w target_str = Inr i \<and> check_contract w i = Inr c \<and> prepare_vectors w i c = Inr p)"

lemma early_exit: "exit_status (early e n left) = n"
  by (simp add: early_def exit_status_def)

lemma finished_exit: "exit_status (finished w p report n left) = n"
  by (simp add: finished_def exit_status_def)

lemma run_error_exit: "exit_status \<lparr>vo_result = EarlyExit e n, vo_scratch_left = left\<rparr> = n"
  by (simp add: exit_status_def)

lemma tool_failure_exit: "tool_failure w p prefix stage what result = Some out \<Longrightarrow> exit_status out = 1"
  by (auto simp: tool_failure_def step_failure_def early_exit Let_def split: sum.splits if_splits)

lemma routine_failed_exit: "routine_failed w p = Some out \<Longrightarrow> exit_status out = 1"
  by (auto simp: routine_failed_def step_failure_def early_exit Let_def dest: tool_failure_exit split: option.splits if_splits)

lemma harness_failed_exit: "harness_failed w p program = Some out \<Longrightarrow> exit_status out = 1"
  by (auto simp: harness_failed_def step_failure_def early_exit Let_def dest: tool_failure_exit split: option.splits)

lemma run_candidate_exit:
  assumes "gates_all_passed semantic"
  shows "exit_status (run_candidate w allow p (semantic, al, region, fs)) = 0 \<longleftrightarrow>
    allow \<and> image_executable w p \<and> (\<exists>run. vw_run w = Inr run \<and>
      (\<exists>rest. rn_stdout run = expected_output (pp_shape p) (pp_vectors p) @ rest)) \<and> \<not> list_ex slice_fails (slices p al region)"
proof -
  obtain gate why where g: "check_executable_object (vw_tooling w) (vw_executable w) (in_identity (pp_inputs p)) = (gate, why)"
    by fastforce
  have ok: "eg_status gate \<noteq> GFailed \<longleftrightarrow> image_executable w p"
    using executable_gate_iff [of "vw_tooling w" "vw_executable w" "in_identity (pp_inputs p)"] g by (simp add: image_executable_def)
  have ran: "vp_status (ran_report w p (semantic, al, region, fs) gate run) \<in> {VVerified, VVerifiedUnderPreconditions} \<longleftrightarrow>
      eg_status gate \<noteq> GFailed \<and> (\<exists>rest. rn_stdout run = expected_output (pp_shape p) (pp_vectors p) @ rest) \<and>
      \<not> list_ex slice_fails (slices p al region)" for run
    using attached_verified_status [of "slices p al region" w p semantic gate] assms
    by (simp add: ran_status verified_status_def parts_pass_iff evaluate_passed)
  show ?thesis
  proof (cases "eg_status gate = GFailed \<or> \<not> allow")
    case True
    then show ?thesis using ok by (auto simp: run_candidate_def g Let_def finished_exit)
  next
    case False
    then show ?thesis
      using ok ran by (cases "vw_run w") (auto simp: run_candidate_def g Let_def finished_exit run_error_exit split: if_splits)
  qed
qed

lemma verify_prepared_exit: "exit_status (verify_prepared w allow p) = 0 \<longleftrightarrow> allow \<and> verifying_run w p"
proof (cases "routine_failed w p")
  case None
  show ?thesis
  proof (cases "verify_candidate_semantics (vw_tooling w) (vw_object w) (in_identity (pp_inputs p)) (c_name (pp_checked p)) (pp_checked p)")
    case (Inl e)
    then show ?thesis using None by (simp add: verify_prepared_def verifying_run_def Let_def finished_exit)
  next
    case (Inr r)
    obtain semantic al region fs where r: "r = (semantic, al, region, fs)" by (cases r)
    have passed: "gates_all_passed semantic" using candidate_accepted_safe Inr r by blast
    show ?thesis
    proof (cases "generate_harness (c_name (pp_checked p)) (pp_vectors p) (tabi (in_identity (pp_inputs p))) (pp_shape p)")
      case (Inl reason)
      then show ?thesis using None Inr r by (simp add: verify_prepared_def verifying_run_def Let_def finished_exit)
    next
      case h: (Inr program)
      show ?thesis
      proof (cases "harness_failed w p program")
        case nf: None
        have "verify_prepared w allow p = run_candidate w allow p (semantic, al, region, fs)"
          using None Inr r h nf by (simp add: verify_prepared_def Let_def)
        then have "exit_status (verify_prepared w allow p) = 0 \<longleftrightarrow> allow \<and> image_executable w p \<and> (\<exists>run. vw_run w = Inr run \<and>
            (\<exists>rest. rn_stdout run = expected_output (pp_shape p) (pp_vectors p) @ rest)) \<and> \<not> list_ex slice_fails (slices p al region)"
          using run_candidate_exit [OF passed, of w allow p al region fs] by simp
        then show ?thesis using None Inr r h nf unfolding verifying_run_def by auto
      next
        case (Some out)
        then show ?thesis using None Inr r h harness_failed_exit [OF Some] by (simp add: verify_prepared_def verifying_run_def Let_def)
      qed
    qed
  qed
next
  case (Some out)
  then show ?thesis using routine_failed_exit [OF Some] by (simp add: verify_prepared_def verifying_run_def)
qed

lemma read_inputs_exit: "read_inputs w t = Inl out \<Longrightarrow> exit_status out \<noteq> 0"
  by (auto simp: read_inputs_def early_exit Let_def split: sum.splits if_splits)

lemma check_contract_exit: "check_contract w i = Inl out \<Longrightarrow> exit_status out \<noteq> 0"
  by (auto simp: check_contract_def early_exit Let_def split: option.splits if_splits)

lemma add_external_exit: "add_external w i c vs = Inl out \<Longrightarrow> exit_status out \<noteq> 0"
  by (auto simp: add_external_def early_exit Let_def split: sum.splits option.splits prod.splits)

lemma prepare_vectors_exit: "prepare_vectors w i c = Inl out \<Longrightarrow> exit_status out \<noteq> 0"
  by (auto simp: prepare_vectors_def early_exit Let_def dest: add_external_exit split: sum.splits if_splits prod.splits)

lemma agent_exit: "exit_status (run_agent_verify_core w t allow) = 0 \<longleftrightarrow> allow \<and> (\<exists>p. inputs_prepared w t p \<and> verifying_run w p)"
proof (cases "read_inputs w t")
  case (Inl out)
  then show ?thesis using read_inputs_exit [OF Inl] by (simp add: run_agent_verify_core_def inputs_prepared_def)
next
  case i: (Inr i)
  show ?thesis
  proof (cases "check_contract w i")
    case (Inl out)
    then show ?thesis using i check_contract_exit [OF Inl] by (simp add: run_agent_verify_core_def inputs_prepared_def)
  next
    case c: (Inr c)
    show ?thesis
    proof (cases "prepare_vectors w i c")
      case (Inl out)
      then show ?thesis using i c prepare_vectors_exit [OF Inl] by (simp add: run_agent_verify_core_def inputs_prepared_def)
    next
      case (Inr p)
      then show ?thesis using i c by (simp add: run_agent_verify_core_def inputs_prepared_def verify_prepared_exit)
    qed
  qed
qed

section \<open>What an outcome tells\<close>

definition envelope_for :: "'te verify_world \<Rightarrow> string \<Rightarrow> failure_envelope \<Rightarrow> bool" where
  "envelope_for w t e \<longleftrightarrow> fe_kind e = ''agent_failure'' \<and> fe_tool_version e = Some (vw_version w) \<and>
     (fe_target e = Some t \<or> fe_target e = None \<and> fe_code e = ''INVALID_TARGET'')"

definition explained :: "'te verify_world \<Rightarrow> string \<Rightarrow> verify_outcome \<Rightarrow> bool" where
  "explained w t out \<longleftrightarrow>
     (case vo_result out of
        EarlyExit (Some e) code \<Rightarrow> code \<noteq> 0 \<and> envelope_for w t e
      | EarlyExit None code \<Rightarrow> code \<noteq> 0 \<and> (\<exists>m. vw_run w = Inl m)
      | Finished report _ _ code \<Rightarrow> code = 0 \<longleftrightarrow> verified_status (vp_status report))"

lemma explained_early: "explained w t (early e n left) \<longleftrightarrow> n \<noteq> 0 \<and> envelope_for w t e"
  by (simp add: explained_def early_def)

lemma explained_finished: "explained w t (finished w p report n left) \<longleftrightarrow> (n = 0 \<longleftrightarrow> verified_status (vp_status report))"
  by (simp add: explained_def finished_def)

lemma envelope_new [simp]:
  "envelope_for w t (fe_with_target t (failure_new (vw_version w) code stage m retry))"
  "envelope_for w t (failure_new (vw_version w) ''INVALID_TARGET'' stage m retry)"
  by (simp_all add: envelope_for_def failure_new_def fe_with_target_def)

lemma envelope_kept [simp]:
  "envelope_for w t (fe_with_detail d e) = envelope_for w t e" "envelope_for w t (fe_with_digests a b e) = envelope_for w t e"
  "envelope_for w t (fe_with_routine r e) = envelope_for w t e"
  by (simp_all add: envelope_for_def fe_with_detail_def fe_with_digests_def fe_with_routine_def)

lemma envelope_routine [simp]:
  "in_target i = t \<Longrightarrow> envelope_for w t (routine_failure i c (failure_new (vw_version w) code stage m retry))"
  "in_target i = t \<Longrightarrow> envelope_for w t (in_digests i (failure_new (vw_version w) code stage m retry))"
  by (simp_all add: routine_failure_def in_digests_def)

lemma explained_step:
  "in_target (pp_inputs p) = t \<Longrightarrow> explained w t (step_failure w p code stage m retry d)"
  by (simp add: step_failure_def explained_early Let_def split: option.split)

lemma explained_read: "read_inputs w t = Inl out \<Longrightarrow> explained w t out"
  by (auto simp: read_inputs_def explained_early Let_def split: sum.splits if_splits)

lemma read_target: "read_inputs w t = Inr i \<Longrightarrow> in_target i = t"
  by (auto simp: read_inputs_def Let_def split: sum.splits if_splits)

lemma explained_check: "check_contract w i = Inl out \<Longrightarrow> in_target i = t \<Longrightarrow> explained w t out"
  by (auto simp: check_contract_def explained_early Let_def split: option.splits if_splits)

lemma explained_external: "add_external w i c vs = Inl out \<Longrightarrow> in_target i = t \<Longrightarrow> explained w t out"
  by (auto simp: add_external_def explained_early Let_def split: sum.splits option.splits prod.splits)

lemma explained_prepare: "prepare_vectors w i c = Inl out \<Longrightarrow> in_target i = t \<Longrightarrow> explained w t out"
  by (auto simp: prepare_vectors_def explained_early Let_def dest: explained_external split: sum.splits if_splits prod.splits)

lemma prepared_inputs: "prepare_vectors w i c = Inr p \<Longrightarrow> pp_inputs p = i"
  by (auto simp: prepare_vectors_def Let_def split: sum.splits if_splits prod.splits)

lemma explained_tool: "tool_failure w p prefix stage what result = Some out \<Longrightarrow> in_target (pp_inputs p) = t \<Longrightarrow> explained w t out"
  by (auto simp: tool_failure_def explained_step split: sum.splits if_splits)

lemma explained_routine: "routine_failed w p = Some out \<Longrightarrow> in_target (pp_inputs p) = t \<Longrightarrow> explained w t out"
  by (auto simp: routine_failed_def explained_step dest: explained_tool split: option.splits if_splits)

lemma explained_harness: "harness_failed w p program = Some out \<Longrightarrow> in_target (pp_inputs p) = t \<Longrightarrow> explained w t out"
  by (auto simp: harness_failed_def explained_step dest: explained_tool split: option.splits)

text \<open>A report without a run is not verified.\<close>

lemma static_not_verified:
  "\<not> verified_status (vp_status (finalize_report w p (with_findings fs (base_report w p semantic gate None isol)) None al region))"
proof -
  have "vp_status (fold attach (slices p al region) (with_findings fs (base_report w p semantic gate None isol))) =
      vp_status (fold attach (slices p al region) (base_report w p semantic gate None isol))"
    by (rule attach_status_cong) simp
  then show ?thesis by (simp add: finalize_status attached_verified_status parts_pass_iff)
qed

lemma explained_run: "explained w t (run_candidate w allow p (semantic, al, region, fs))"
proof -
  obtain gate why where g: "check_executable_object (vw_tooling w) (vw_executable w) (in_identity (pp_inputs p)) = (gate, why)"
    by fastforce
  have err: "explained w t \<lparr>vo_result = EarlyExit None 1, vo_scratch_left = False\<rparr>" if "vw_run w = Inl m" for m
    using that by (simp add: explained_def)
  show ?thesis
    using err by (cases "vw_run w") (auto simp: run_candidate_def g Let_def explained_finished verified_status_def
        static_not_verified [unfolded verified_status_def de_Morgan_disj])
qed

lemma explained_prepared: "in_target (pp_inputs p) = t \<Longrightarrow> explained w t (verify_prepared w allow p)"
  by (auto simp: verify_prepared_def Let_def explained_finished static_not_verified
      dest: explained_routine explained_harness intro: explained_run split: option.split sum.split)

text \<open>Every outcome of the core is explained: an early exit is a failure with an envelope of this tool version
  that names the target (unless the target itself is invalid), the one exception being a candidate that
  could not be started; otherwise there is a report, and the exit status is 0 exactly when it says
  verified, outright or under preconditions.\<close>

lemma core_explained: "explained w t (run_agent_verify_core w t allow)"
  by (auto simp: run_agent_verify_core_def split: sum.split
      intro: explained_read explained_check explained_prepare explained_prepared dest: read_target prepared_inputs)

section \<open>What a run leaves behind\<close>

lemma early_clean: "\<not> vo_scratch_left (early e n False)"
  by (simp add: early_def)

lemma finished_left: "vo_scratch_left (finished w p report n left) = left"
  by (simp add: finished_def)

lemma step_clean: "\<not> vo_scratch_left (step_failure w p code stage m retry d)"
  by (simp add: step_failure_def Let_def early_clean)

lemma tool_clean: "tool_failure w p prefix stage what result = Some out \<Longrightarrow> \<not> vo_scratch_left out"
  by (auto simp: tool_failure_def step_clean split: sum.splits if_splits)

lemma stages_clean:
  "read_inputs w t = Inl out \<Longrightarrow> \<not> vo_scratch_left out" "check_contract w i = Inl out \<Longrightarrow> \<not> vo_scratch_left out"
  "add_external w i c vs = Inl out \<Longrightarrow> \<not> vo_scratch_left out"
  "routine_failed w p = Some out \<Longrightarrow> \<not> vo_scratch_left out" "harness_failed w p program = Some out \<Longrightarrow> \<not> vo_scratch_left out"
  by (auto simp: read_inputs_def check_contract_def add_external_def routine_failed_def harness_failed_def early_clean step_clean Let_def
      dest: tool_clean split: sum.splits option.splits prod.splits if_splits)

lemma prepare_clean: "prepare_vectors w i c = Inl out \<Longrightarrow> \<not> vo_scratch_left out"
  by (auto simp: prepare_vectors_def early_clean Let_def dest: stages_clean(3) split: sum.splits if_splits prod.splits)

lemma run_clean: "\<not> vo_scratch_left (run_candidate w allow p cand)"
  by (auto simp: run_candidate_def Let_def finished_left split: prod.split sum.split)

text \<open>A harness cannot be generated for the accepted candidate.\<close>

definition harness_unavailable :: "'te verify_world \<Rightarrow> prepared \<Rightarrow> bool" where
  "harness_unavailable w p \<longleftrightarrow> routine_failed w p = None \<and>
     (\<exists>r. verify_candidate_semantics (vw_tooling w) (vw_object w) (in_identity (pp_inputs p)) (c_name (pp_checked p)) (pp_checked p) = Inr r) \<and>
     (\<exists>reason. generate_harness (c_name (pp_checked p)) (pp_vectors p) (tabi (in_identity (pp_inputs p))) (pp_shape p) = Inl reason)"

lemma prepared_left: "vo_scratch_left (verify_prepared w allow p) \<longleftrightarrow> harness_unavailable w p"
proof (cases "routine_failed w p")
  case None
  then show ?thesis
    by (auto simp: verify_prepared_def harness_unavailable_def Let_def finished_left run_clean dest: stages_clean(5)
        split: option.split sum.split)
next
  case (Some out)
  then show ?thesis using stages_clean(4) by (simp add: verify_prepared_def harness_unavailable_def)
qed

text \<open>The scratch directory of a run survives exactly when the gates accepted the candidate and no harness
  could be generated for it; every other outcome, early or not, removes it.\<close>

theorem agent_scratch_left:
  "vo_scratch_left (run_agent_verify_core w t allow) \<longleftrightarrow> (\<exists>p. inputs_prepared w t p \<and> harness_unavailable w p)"
proof (cases "read_inputs w t")
  case (Inl out)
  then show ?thesis using stages_clean(1) by (simp add: run_agent_verify_core_def inputs_prepared_def)
next
  case i: (Inr i)
  show ?thesis
  proof (cases "check_contract w i")
    case (Inl out)
    then show ?thesis using i stages_clean(2) by (simp add: run_agent_verify_core_def inputs_prepared_def)
  next
    case c: (Inr c)
    then show ?thesis
      using i prepare_clean by (cases "prepare_vectors w i c") (auto simp: run_agent_verify_core_def inputs_prepared_def prepared_left)
  qed
qed

text \<open>How the candidate ended is not looked at: a run that was killed, or that ended with an error after printing
  what was expected, gives the same report.\<close>

lemma exit_code_ignored:
  "ran_report w p cand gate (run\<lparr>rn_exit_code := code, rn_timed_out := late\<rparr>) = ran_report w p cand gate run"
  by (simp add: ran_report_def Let_def split: prod.split)

section \<open>A candidate that is verified\<close>

text \<open>A contract \<open>add_i64(a, b) -> i64\<close>, the routine \<open>lea rax, [rdi + rsi]; ret\<close>, tools that succeed and a run
  that prints the expected words.\<close>

definition add_document :: contract_document where
  "add_document = \<lparr>contract_version = ''0.1'', doc_function = \<lparr>
     fn_name = ''add_i64'', fn_summary = None, fn_visibility = None,
     fn_parameters = [\<lparr>ps_name = ''a'', ps_ty = ''i64'', ps_role = None\<rparr>, \<lparr>ps_name = ''b'', ps_ty = ''i64'', ps_role = None\<rparr>],
     fn_returns = [\<lparr>return_schema.rs_name = ''r'', rs_ty = ''i64''\<rparr>], fn_requires = [], fn_ensures = [], fn_effects = [], fn_memory = None,
     fn_constraints = None, fn_target_overrides = []\<rparr>\<rparr>"

definition add_contract :: checked_contract where
  "add_contract = \<lparr>version_major = 0, version_minor = 1, c_name = ''add_i64'', c_summary = None,
     c_parameters = [\<lparr>cp_name = ''a'', cp_ty = SInt 64, cp_type_source = ''i64'', cp_role = None\<rparr>,
       \<lparr>cp_name = ''b'', cp_ty = SInt 64, cp_type_source = ''i64'', cp_role = None\<rparr>],
     c_returns = [\<lparr>ct_name = ''r'', ct_ty = SInt 64, ct_type_source = ''i64''\<rparr>], c_requires = [], c_ensures = [], c_effects = [],
     c_memory = None, c_constraints = None, c_target_overrides = []\<rparr>"

definition add_object :: "object_kind \<Rightarrow> raw_object" where
  "add_object kind = \<lparr>ro_format = BfElf, ro_kind = kind, ro_architecture = ArchX86_64, ro_little_endian = True, ro_entry = 0,
     ro_sections = [\<lparr>raw_section.rs_name = Some ''.text'', rs_address = 0, rs_size = 5, rs_kind = SkText, rs_flags = FlagsElf 6,
       rs_data = Inr [72, 141, 4, 55, 195], rs_relocations = []\<rparr>],
     ro_symbols = [\<lparr>ry_name = Some ''add_i64'', ry_address = 0, ry_kind = YkText, ry_global = True, ry_weak = False,
       ry_undefined = False\<rparr>],
     ro_dynamic_symbols = []\<rparr>"

definition add_engine :: disassembler where
  "add_engine code base = Insns
     [\<lparr>ci_address = 0, ci_bytes = [72, 141, 4, 55], ci_mnemonic = Some ''lea'', ci_op_str = Some ''rax, [rdi + rsi]'', ci_detail = None\<rparr>,
      \<lparr>ci_address = 4, ci_bytes = [195], ci_mnemonic = Some ''ret'', ci_op_str = None, ci_detail = Some ([], [], [Some ''ret''])\<rparr>]"

definition add_tools :: tooling where
  "add_tools = \<lparr>tl_parse = (\<lambda>bytes. Inr (add_object (if bytes = [1] then OkRelocatable else OkExecutable))), tl_x86_64 = add_engine,
     tl_aarch64 = (\<lambda>_ _. BuildError []), tl_riscv64 = (\<lambda>_ _. BuildError [])\<rparr>"

definition some_path :: path_view where
  "some_path = \<lparr>pt_display = ''add'', pt_file_name = None, pt_str = None, pt_extension = None\<rparr>"

definition add_world :: "unit verify_world" where
  "add_world = \<lparr>vw_version = ''1'', vw_tooling = add_tools, vw_tools_found = True, vw_runner = None, vw_toml = (\<lambda>_. Inr add_document),
     vw_show_message = (\<lambda>_. []), vw_debug_type = (\<lambda>_. []), vw_vectors_json = (\<lambda>_. Inl []), vw_collect = (\<lambda>m. m),
     vw_show_json = (\<lambda>_. []), vw_sha = (\<lambda>_. []), vw_source_path = some_path, vw_source = Inr [], vw_contract_path = some_path,
     vw_contract = Inr [], vw_vectors = None, vw_create_dir = None, vw_stage_object = None,
     vw_assemble_routine = Inr \<lparr>to_success = True, to_stderr = []\<rparr>, vw_object = \<lparr>fr_path = ''routine.o'', fr_content = Inr [1]\<rparr>,
     vw_object_size = 5, vw_write_harness = (\<lambda>_ _. None), vw_assemble_harness = (\<lambda>_. Inr \<lparr>to_success = True, to_stderr = []\<rparr>),
     vw_link = (\<lambda>_ _. Inr \<lparr>to_success = True, to_stderr = []\<rparr>), vw_executable = \<lparr>fr_path = ''harness'', fr_content = Inr [2]\<rparr>,
     vw_run = Inr \<lparr>rn_exit_code = Some 0, rn_timed_out = False,
       rn_stdout = expected_output HsPureInt (synthesize_vectors add_contract)\<rparr>\<rparr>"

definition add_inputs :: inputs_read where
  "add_inputs = \<lparr>in_target = ''x86_64-linux-gnu'', in_identity = x86_64_linux_gnu, in_contract_bytes = [],
     in_contract_digest = ''sha256:'', in_source_digest = ''sha256:''\<rparr>"

lemma add_read: "read_inputs add_world ''x86_64-linux-gnu'' = Inr add_inputs"
  by (simp add: read_inputs_def Let_def parse_known_def add_world_def add_inputs_def sha256_digest_prefixed_def)

lemma add_checked: "check_contract add_world add_inputs = Inr add_contract"
proof -
  have "(case check_str (\<lambda>_. Inr add_document) [] :: unit check_result of r \<Rightarrow> check_ok r \<and> contract r = Some add_contract)"
    by code_simp
  then show ?thesis by (simp add: check_contract_def Let_def add_world_def add_inputs_def from_utf8_error_def)
qed

lemma add_vectors: "synthesize_vectors add_contract \<noteq> [] \<and> resolve_harness_shape add_contract (synthesize_vectors add_contract) = Inr HsPureInt"
  by code_simp

lemma add_prepared:
  obtains p where "prepare_vectors add_world add_inputs add_contract = Inr p" "pp_inputs p = add_inputs" "pp_checked p = add_contract"
    "pp_vectors p = synthesize_vectors add_contract" "pp_shape p = HsPureInt"
  using add_vectors by (simp add: prepare_vectors_def Let_def add_external_def add_world_def)

lemma add_accepted:
  "(case verify_candidate_semantics add_tools \<lparr>fr_path = ''routine.o'', fr_content = Inr [1]\<rparr> x86_64_linux_gnu ''add_i64'' add_contract of
      Inr (g, None, None, fs) \<Rightarrow> True | _ \<Rightarrow> False)"
  by code_simp

lemma add_image:
  "(case read_for_target (tl_parse add_tools) \<lparr>fr_path = ''harness'', fr_content = Inr [2]\<rparr> x86_64_linux_gnu of
      Inr info \<Rightarrow> oi_kind info = Executable | _ \<Rightarrow> False)"
  by (simp add: read_for_target_def read_object_def parse_object_def add_tools_def add_object_def Let_def linux_identity case_prod_beta)

lemma correct_candidate_verified: "exit_status (run_agent_verify_core add_world ''x86_64-linux-gnu'' True) = 0"
proof -
  obtain p where p: "prepare_vectors add_world add_inputs add_contract = Inr p" "pp_inputs p = add_inputs" "pp_checked p = add_contract"
      "pp_vectors p = synthesize_vectors add_contract" "pp_shape p = HsPureInt"
    by (rule add_prepared)
  obtain g fs where v: "verify_candidate_semantics add_tools \<lparr>fr_path = ''routine.o'', fr_content = Inr [1]\<rparr> x86_64_linux_gnu ''add_i64''
      add_contract = Inr (g, None, None, fs)"
    using add_accepted by (auto split: sum.splits prod.splits option.splits)
  have fields: "vw_tooling add_world = add_tools" "vw_object add_world = \<lparr>fr_path = ''routine.o'', fr_content = Inr [1]\<rparr>"
    "in_identity add_inputs = x86_64_linux_gnu" "c_name add_contract = ''add_i64''"
    by (simp_all add: add_world_def add_inputs_def add_contract_def)
  have img: "image_executable add_world p"
    using add_image by (auto simp: image_executable_def p fields add_world_def split: sum.splits)
  have none: "slices p None None = []"
    by (simp add: slices_def option_list_def p evaluate_contract_expressions_def contract_expr_rows_def add_contract_def)
  have h: "generate_harness ''add_i64'' vs (tabi x86_64_linux_gnu) HsPureInt = Inr (generate_sysv_pure_int_harness ''add_i64'' vs)" for vs
    by (simp add: linux_identity)
  have built: "routine_failed add_world p = None" "harness_failed add_world p program = None" for program
    by (simp_all add: routine_failed_def harness_failed_def tool_failure_def add_world_def prebuilt_object_def some_path_def)
  obtain run where run: "vw_run add_world = Inr run" "rn_stdout run = expected_output HsPureInt (synthesize_vectors add_contract)"
    by (simp add: add_world_def)
  have "verifying_run add_world p"
    unfolding verifying_run_def p fields using v h img none built run by auto
  then show ?thesis using add_read add_checked p(1) by (auto simp: agent_exit inputs_prepared_def)
qed

end
