(* ===== verification/Process_Exec.thy ===== *)
theory Process_Exec imports Target_Kit begin

text \<open>
  Running a tool: \<open>semasm-build/src/exec.rs\<close>, its platform modules and \<open>record.rs\<close>. A command is
  described by a program, arguments, an environment policy, a stdin policy, a timeout and capture limits;
  \<open>exec\<close> starts it, drains its two output pipes in threads, polls the child and the drains until all three
  are done or the deadline has passed, and then ends the process tree. The operating system is a record of
  what each call returns; a call that need not return is \<open>Blocks\<close>. Durations are nanoseconds.
\<close>

section \<open>Captured streams\<close>

record capture_info =
  ci_captured_bytes :: nat
  ci_total_bytes :: nat
  ci_truncated :: bool
  ci_read_error :: "string option"

definition default_capture_bytes :: nat where
  "default_capture_bytes = 16 * 1024 * 1024"

definition from_capture :: "nat \<Rightarrow> nat \<Rightarrow> string option \<Rightarrow> capture_info" where
  "from_capture captured_bytes total_bytes read_error =
     \<lparr>ci_captured_bytes = captured_bytes, ci_total_bytes = total_bytes, ci_truncated = (total_bytes > captured_bytes),
      ci_read_error = read_error\<rparr>"

type_synonym bytes = "8 word list"
type_synonym capture_result = "bytes \<times> capture_info"

section \<open>Lossy UTF-8\<close>

text \<open>\<open>String::from_utf8_lossy\<close>: each maximal prefix of a sequence that cannot be completed becomes one U+FFFD.\<close>

definition continuation :: "nat \<Rightarrow> bool" where
  "continuation b \<longleftrightarrow> 0x80 \<le> b \<and> b \<le> 0xBF"

definition second_ok :: "nat \<Rightarrow> nat \<Rightarrow> bool" where
  "second_ok b c \<longleftrightarrow>
     (if b = 0xE0 then 0xA0 \<le> c \<and> c \<le> 0xBF
      else if b = 0xED then 0x80 \<le> c \<and> c \<le> 0x9F
      else if b = 0xF0 then 0x90 \<le> c \<and> c \<le> 0xBF
      else if b = 0xF4 then 0x80 \<le> c \<and> c \<le> 0x8F
      else continuation c)"

definition utf8_width :: "nat \<Rightarrow> nat" where
  "utf8_width b =
     (if b < 0x80 then 1 else if 0xC2 \<le> b \<and> b \<le> 0xDF then 2 else if 0xE0 \<le> b \<and> b \<le> 0xEF then 3
      else if 0xF0 \<le> b \<and> b \<le> 0xF4 then 4 else 0)"

definition utf8_chunk :: "nat list \<Rightarrow> nat \<times> bool" where
  "utf8_chunk bs =
     (let at = (\<lambda>i. if i < length bs then bs ! i else 0); b = at 0; w = utf8_width b in
      if w = 1 then (1, True)
      else if w = 0 \<or> \<not> second_ok b (at 1) then (1, False)
      else if w = 2 then (2, True)
      else if \<not> continuation (at 2) then (2, False)
      else if w = 3 then (3, True)
      else if \<not> continuation (at 3) then (3, False)
      else (4, True))"

function lossy_bytes :: "nat list \<Rightarrow> nat list" where
  "lossy_bytes bs =
     (if bs = [] then []
      else let (n, valid) = utf8_chunk bs in
        (if valid then take n bs else [0xEF, 0xBF, 0xBD]) @ lossy_bytes (drop n bs))"
  by pat_completeness auto
termination
  by (relation "measure length") (auto simp: utf8_chunk_def Let_def split: if_splits)

declare lossy_bytes.simps [simp del]

definition from_utf8_lossy :: "bytes \<Rightarrow> string" where
  "from_utf8_lossy bs = map char_of (lossy_bytes (map unat bs))"

lemma lossy_ascii: "\<forall>b \<in> set bs. b < 0x80 \<Longrightarrow> lossy_bytes bs = bs"
proof (induction bs)
  case Nil
  show ?case by (simp add: lossy_bytes.simps)
next
  case (Cons b bs)
  then show ?case by (subst lossy_bytes.simps) (simp add: utf8_chunk_def utf8_width_def)
qed

text \<open>What \<open>read\<close> returns for a chunk of at most 8192 bytes; the empty chunk is the end of the stream. A
  stream whose results run out has not been drained.\<close>

datatype read_result = ReadOk bytes | ReadErr string

definition usize_max :: nat where
  "usize_max = 2 ^ 64 - 1"

fun drain_loop :: "nat \<Rightarrow> read_result list \<Rightarrow> bytes \<Rightarrow> nat \<Rightarrow> (bytes \<times> nat \<times> string option) option" where
  "drain_loop limit [] captured total_bytes = None"
| "drain_loop limit (ReadErr e # rest) captured total_bytes = Some (captured, total_bytes, Some e)"
| "drain_loop limit (ReadOk chunk # rest) captured total_bytes =
     (if chunk = [] then Some (captured, total_bytes, None)
      else drain_loop limit rest (captured @ take (limit - length captured) chunk)
             (min usize_max (total_bytes + length chunk)))"

definition drain :: "nat \<Rightarrow> read_result list \<Rightarrow> capture_result option" where
  "drain limit reader =
     (case drain_loop limit reader [] 0 of
        None \<Rightarrow> None
      | Some (captured, total_bytes, read_error) \<Rightarrow>
          Some (captured, from_capture (length captured) total_bytes read_error))"

definition capture_summary :: "capture_info \<Rightarrow> string" where
  "capture_summary info =
     (if ci_truncated info
      then show_nat (ci_captured_bytes info) @ ''/'' @ show_nat (ci_total_bytes info) @ ''B truncated''
      else show_nat (ci_captured_bytes info) @ ''B'')"

section \<open>Policies\<close>

datatype stdin_policy = StdinNull | StdinBytes bytes | StdinInherit

text \<open>The map of an explicit environment in the order of its keys.\<close>

datatype environment_policy =
    Sanitized | Allowlist "string list" | Explicit "(string \<times> string) list" | InheritAll

definition secret_markers :: "string list" where
  "secret_markers = [''TOKEN'', ''SECRET'', ''PASSWORD'', ''PASSWD'', ''CREDENTIAL'', ''AUTH'', ''COOKIE'',
     ''API_KEY'', ''PRIVATE_KEY'']"

definition is_secret_name :: "string \<Rightarrow> bool" where
  "is_secret_name name = list_ex (\<lambda>marker. contains_str marker (to_ascii_uppercase name)) secret_markers"

definition redacted_names :: "string list \<Rightarrow> string" where
  "redacted_names names = join_with '','' (map (\<lambda>name. if is_secret_name name then ''<redacted>'' else name) names)"

fun report_label :: "environment_policy \<Rightarrow> string" where
  "report_label Sanitized = ''sanitized''"
| "report_label (Allowlist names) = ''allowlist:'' @ redacted_names names"
| "report_label (Explicit values) = ''explicit:'' @ redacted_names (map fst values)"
| "report_label InheritAll = ''inherit-all''"

definition is_restricted :: "environment_policy \<Rightarrow> bool" where
  "is_restricted p \<longleftrightarrow> p \<noteq> InheritAll"

record command_spec =
  cs_program :: string
  cs_args :: "string list"
  cs_working_dir :: "string option"
  cs_stdin :: stdin_policy
  cs_environment :: environment_policy
  cs_timeout :: nat
  cs_stdout_limit :: nat
  cs_stderr_limit :: nat

definition seconds :: "nat \<Rightarrow> nat" where
  "seconds n = n * 10 ^ 9"

definition millis :: "nat \<Rightarrow> nat" where
  "millis n = n * 10 ^ 6"

definition command_new :: "string \<Rightarrow> string list \<Rightarrow> command_spec" where
  "command_new program args =
     \<lparr>cs_program = program, cs_args = args, cs_working_dir = None, cs_stdin = StdinNull, cs_environment = Sanitized,
      cs_timeout = seconds 30, cs_stdout_limit = default_capture_bytes, cs_stderr_limit = default_capture_bytes\<rparr>"

definition with_working_dir :: "string \<Rightarrow> command_spec \<Rightarrow> command_spec" where
  "with_working_dir dir s = s\<lparr>cs_working_dir := Some dir\<rparr>"

definition with_env_allowlist :: "string list \<Rightarrow> command_spec \<Rightarrow> command_spec" where
  "with_env_allowlist vars s = s\<lparr>cs_environment := Allowlist vars\<rparr>"

definition with_environment :: "(string \<times> string) list \<Rightarrow> command_spec \<Rightarrow> command_spec" where
  "with_environment values s = s\<lparr>cs_environment := Explicit values\<rparr>"

definition inherit_full_environment :: "command_spec \<Rightarrow> command_spec" where
  "inherit_full_environment s = s\<lparr>cs_environment := InheritAll\<rparr>"

definition with_stdin_bytes :: "bytes \<Rightarrow> command_spec \<Rightarrow> command_spec" where
  "with_stdin_bytes bs s = s\<lparr>cs_stdin := StdinBytes bs\<rparr>"

definition inherit_stdin :: "command_spec \<Rightarrow> command_spec" where
  "inherit_stdin s = s\<lparr>cs_stdin := StdinInherit\<rparr>"

definition with_timeout :: "nat \<Rightarrow> command_spec \<Rightarrow> command_spec" where
  "with_timeout t s = s\<lparr>cs_timeout := t\<rparr>"

definition with_capture_limits :: "nat \<Rightarrow> nat \<Rightarrow> command_spec \<Rightarrow> command_spec" where
  "with_capture_limits out err s = s\<lparr>cs_stdout_limit := out, cs_stderr_limit := err\<rparr>"

definition with_capture_limit :: "nat \<Rightarrow> command_spec \<Rightarrow> command_spec" where
  "with_capture_limit limit s = with_capture_limits limit limit s"

definition command_line :: "command_spec \<Rightarrow> string" where
  "command_line s = cs_program s @ '' '' @ join_with '' '' (cs_args s)"

section \<open>The command handed to the system\<close>

datatype stdio = StdioNull | StdioPiped | StdioInherit

type_synonym env_vars = "string \<rightharpoonup> string"

record system_command =
  sc_program :: string
  sc_args :: "string list"
  sc_stdin :: stdio
  sc_dir :: "string option"
  sc_env :: env_vars

definition baseline_names :: "string list" where
  "baseline_names = [''PATH'', ''SYSTEMROOT'', ''WINDIR'', ''SYSTEMDRIVE'', ''PROGRAMDATA'', ''ALLUSERSPROFILE'',
     ''PATHEXT'', ''COMSPEC'']"

definition copy_var :: "env_vars \<Rightarrow> string \<Rightarrow> env_vars \<Rightarrow> env_vars" where
  "copy_var parent name env = (case parent name of Some v \<Rightarrow> env(name \<mapsto> v) | None \<Rightarrow> env)"

definition apply_sanitized_environment :: "bool \<Rightarrow> env_vars \<Rightarrow> string \<Rightarrow> env_vars" where
  "apply_sanitized_environment windows parent temporary =
     (let env = (fold (copy_var parent) baseline_names Map.empty)(''TMP'' \<mapsto> temporary, ''TEMP'' \<mapsto> temporary) in
      if windows then env else env(''TMPDIR'' \<mapsto> temporary, ''LC_ALL'' \<mapsto> ''C'', ''LANG'' \<mapsto> ''C''))"

fun child_environment :: "bool \<Rightarrow> env_vars \<Rightarrow> string \<Rightarrow> environment_policy \<Rightarrow> env_vars" where
  "child_environment windows parent temporary Sanitized = apply_sanitized_environment windows parent temporary"
| "child_environment windows parent temporary (Allowlist names) = fold (copy_var parent) names Map.empty"
| "child_environment windows parent temporary (Explicit values) = fold (\<lambda>(k, v) env. env(k \<mapsto> v)) values Map.empty"
| "child_environment windows parent temporary InheritAll = parent"

fun stdin_stdio :: "bool \<Rightarrow> stdin_policy \<Rightarrow> stdio" where
  "stdin_stdio windows StdinNull = (if windows then StdioPiped else StdioNull)"
| "stdin_stdio windows (StdinBytes _) = StdioPiped"
| "stdin_stdio windows StdinInherit = StdioInherit"

definition build_command :: "bool \<Rightarrow> env_vars \<Rightarrow> string \<Rightarrow> command_spec \<Rightarrow> system_command" where
  "build_command windows parent temporary s =
     \<lparr>sc_program = cs_program s, sc_args = cs_args s, sc_stdin = stdin_stdio windows (cs_stdin s),
      sc_dir = cs_working_dir s, sc_env = child_environment windows parent temporary (cs_environment s)\<rparr>"

text \<open>The thread that writes or closes the child's stdin exists when there is a pipe to write or close.\<close>

fun spawn_stdin_worker :: "stdio \<Rightarrow> stdin_policy \<Rightarrow> bool" where
  "spawn_stdin_worker io StdinInherit = False"
| "spawn_stdin_worker io _ = (io = StdioPiped)"

section \<open>Ending the process tree\<close>

datatype termination_reason = TimeoutReason
datatype termination_outcome = Graceful | Forced | Incomplete

record termination_info =
  ti_reason :: termination_reason
  ti_outcome :: termination_outcome
  ti_detail :: string

datatype 'a call = Returns 'a | Blocks

text \<open>On Unix: whether the two signals could be sent, what the clock and \<open>kill -0\<close> say in each turn of the
  waiting loop, and what \<open>kill -0\<close> says after it. The second component of a turn is asked only before the
  deadline.\<close>

record group_view =
  gv_term_sent :: bool
  gv_start :: nat
  gv_polls :: "nat \<Rightarrow> nat \<times> bool"
  gv_exists :: bool
  gv_kill_sent :: bool

partial_function (option) wait_for_group :: "(nat \<Rightarrow> nat \<times> bool) \<Rightarrow> nat \<Rightarrow> nat \<Rightarrow> unit option" where
  "wait_for_group polls deadline k =
     (if fst (polls k) < deadline \<and> snd (polls k) then wait_for_group polls deadline (Suc k) else Some ())"

definition terminated :: "termination_outcome \<Rightarrow> string \<Rightarrow> termination_info" where
  "terminated out detail = \<lparr>ti_reason = TimeoutReason, ti_outcome = out, ti_detail = detail\<rparr>"

definition terminate_unix :: "group_view \<Rightarrow> termination_info option" where
  "terminate_unix g =
     (case wait_for_group (gv_polls g) (gv_start g + millis 200) 0 of
        None \<Rightarrow> None
      | Some _ \<Rightarrow> Some
          (if \<not> gv_exists g then terminated Graceful ''process group exited after SIGTERM''
           else if gv_kill_sent g then terminated Forced ''process group required SIGKILL''
           else terminated Incomplete
             (if gv_term_sent g then ''SIGTERM did not stop the group and SIGKILL failed''
              else ''failed to signal the process group'')))"

text \<open>On Windows: whether the job is still owned, and the wait for the child once the job is closed.\<close>

definition terminate_windows :: "bool \<Rightarrow> unit call \<Rightarrow> termination_info option" where
  "terminate_windows job wait =
     (if job
      then (case wait of Blocks \<Rightarrow> None
        | Returns _ \<Rightarrow> Some (terminated Forced ''process tree terminated by closing its Windows Job Object''))
      else Some (terminated Incomplete ''Windows Job Object was unavailable; direct-child fallback used''))"

datatype platform = UnixGroup group_view | WindowsJob "unit call"

fun terminate_tree :: "platform \<Rightarrow> termination_info option" where
  "terminate_tree (UnixGroup g) = terminate_unix g"
| "terminate_tree (WindowsJob wait) = terminate_windows True wait"

section \<open>The polling loop\<close>

datatype exit_status = Exited int | Signalled nat

fun status_code :: "exit_status \<Rightarrow> int option" where
  "status_code (Exited c) = Some c"
| "status_code (Signalled _) = None"

datatype wait_result = Waited exit_status | StillRunning | WaitFailed string

text \<open>What a turn of the loop would see: \<open>try_wait\<close>, \<open>try_recv\<close> on the two channels (nothing when empty or
  disconnected) and the clock.\<close>

record poll_view =
  pv_wait :: wait_result
  pv_stdout :: "capture_result option"
  pv_stderr :: "capture_result option"
  pv_now :: nat

record exec_progress =
  ep_status :: "exit_status option"
  ep_stdout :: "capture_result option"
  ep_stderr :: "capture_result option"

definition no_progress :: exec_progress where
  "no_progress = \<lparr>ep_status = None, ep_stdout = None, ep_stderr = None\<rparr>"

definition receive_capture :: "capture_result option \<Rightarrow> capture_result option \<Rightarrow> capture_result option" where
  "receive_capture received destination = (if destination \<noteq> None then destination else received)"

datatype loop_end = PollFailed string | Completed exit_status | DeadlinePassed

definition poll_child :: "poll_view \<Rightarrow> exec_progress \<Rightarrow> string + exec_progress" where
  "poll_child v p =
     (if ep_status p = None
      then (case pv_wait v of
          Waited st \<Rightarrow> Inr (p\<lparr>ep_status := Some st\<rparr>)
        | StillRunning \<Rightarrow> Inr p
        | WaitFailed e \<Rightarrow> Inl e)
      else Inr p)"

definition poll_once :: "nat \<Rightarrow> poll_view \<Rightarrow> exec_progress \<Rightarrow> loop_end \<times> exec_progress + exec_progress" where
  "poll_once deadline v p0 =
     (case poll_child v p0 of
        Inl e \<Rightarrow> Inl (PollFailed e, p0)
      | Inr p1 \<Rightarrow>
          (let p = p1\<lparr>ep_stdout := receive_capture (pv_stdout v) (ep_stdout p1),
                      ep_stderr := receive_capture (pv_stderr v) (ep_stderr p1)\<rparr> in
           case (ep_stdout p, ep_stderr p, ep_status p) of
             (Some _, Some _, Some st) \<Rightarrow> Inl (Completed st, p)
           | _ \<Rightarrow> if pv_now v \<ge> deadline then Inl (DeadlinePassed, p) else Inr p))"

partial_function (option) poll_loop ::
    "(nat \<Rightarrow> poll_view) \<Rightarrow> nat \<Rightarrow> nat \<Rightarrow> exec_progress \<Rightarrow> (loop_end \<times> exec_progress) option" where
  "poll_loop views deadline k p =
     (case poll_once deadline (views k) p of
        Inl r \<Rightarrow> Some r
      | Inr p' \<Rightarrow> poll_loop views deadline (Suc k) p')"

section \<open>Executing a command\<close>

datatype build_error =
    ProgramNotFound string | SpawnErr string string | PollErr string string | ObjectParseErr string | VerificationErr string

fun build_error_to_string :: "build_error \<Rightarrow> string" where
  "build_error_to_string (ProgramNotFound prog) = ''program not found on PATH: `'' @ prog @ ''`''"
| "build_error_to_string (SpawnErr prog detail) = ''failed to spawn `'' @ prog @ ''`: '' @ detail"
| "build_error_to_string (PollErr prog detail) = ''failed to poll `'' @ prog @ ''`: '' @ detail"
| "build_error_to_string (ObjectParseErr detail) = ''object parsing failed: '' @ detail"
| "build_error_to_string (VerificationErr detail) = ''verification failed: '' @ detail"

record command_output =
  co_exit_status :: "exit_status option"
  co_exit_code :: "int option"
  co_stdout :: bytes
  co_stderr :: bytes
  co_stdout_capture :: capture_info
  co_stderr_capture :: capture_info
  co_duration :: nat
  co_timed_out :: bool
  co_termination :: "termination_info option"

definition command_success :: "command_output \<Rightarrow> bool" where
  "command_success out \<longleftrightarrow> \<not> co_timed_out out \<and> co_exit_code out = Some 0"

text \<open>\<open>show_secs\<close> prints a duration in seconds with one decimal (\<open>{:.1}\<close> of an \<open>f64\<close>).\<close>

definition command_summary :: "(nat \<Rightarrow> string) \<Rightarrow> command_output \<Rightarrow> string" where
  "command_summary show_secs out =
     (let tail = show_secs (co_duration out) @ ''s (stdout='' @ capture_summary (co_stdout_capture out) @ '', stderr='' @
            capture_summary (co_stderr_capture out) @ '')'' in
      if co_timed_out out then ''TIMEOUT after '' @ tail
      else case co_exit_code out of
        Some code \<Rightarrow> ''exit='' @ show_int code @ '' in '' @ tail
      | None \<Rightarrow> ''KILLED in '' @ tail)"

datatype spawn_result = Spawned | SpawnNotFound | SpawnError string

record process_world =
  pw_spawn :: spawn_result
  pw_attach_error :: "string option"
  pw_start :: nat
  pw_views :: "nat \<Rightarrow> poll_view"
  pw_platform :: platform
  pw_wait :: "exit_status option call"
  pw_recv_stdout :: "capture_result option call"
  pw_recv_stderr :: "capture_result option call"
  pw_join_stdin :: "unit call"
  pw_elapsed :: nat

definition on_windows :: "process_world \<Rightarrow> bool" where
  "on_windows w = (case pw_platform w of UnixGroup _ \<Rightarrow> False | WindowsJob _ \<Rightarrow> True)"

text \<open>A channel whose sender is gone gives an empty capture with a read error.\<close>

definition receive_capture_blocking :: "capture_result option \<Rightarrow> capture_result option call \<Rightarrow> string \<Rightarrow> capture_result option" where
  "receive_capture_blocking available channel stream =
     (case available of
        Some r \<Rightarrow> Some r
      | None \<Rightarrow> (case channel of
          Blocks \<Rightarrow> None
        | Returns (Some r) \<Rightarrow> Some r
        | Returns None \<Rightarrow> Some ([], from_capture 0 0 (Some (stream @ '' drain thread stopped without a result'')))))"

definition poll_failure :: "process_world \<Rightarrow> command_spec \<Rightarrow> string \<Rightarrow> (build_error + command_output) option" where
  "poll_failure w s e =
     (case (terminate_tree (pw_platform w), pw_wait w) of
        (Some _, Returns _) \<Rightarrow> Some (Inl (PollErr (cs_program s) e))
      | _ \<Rightarrow> None)"

definition settle :: "process_world \<Rightarrow> loop_end \<Rightarrow> exec_progress \<Rightarrow> (exit_status option \<times> bool \<times> termination_info option) option" where
  "settle w e p =
     (case e of
        Completed st \<Rightarrow> Some (Some st, False, None)
      | _ \<Rightarrow>
          (case terminate_tree (pw_platform w) of
             None \<Rightarrow> None
           | Some t \<Rightarrow>
               (case ep_status p of
                  Some st \<Rightarrow> Some (Some st, True, Some t)
                | None \<Rightarrow> (case pw_wait w of Blocks \<Rightarrow> None | Returns st \<Rightarrow> Some (st, True, Some t)))))"

definition collect_output :: "process_world \<Rightarrow> command_spec \<Rightarrow> exec_progress \<Rightarrow>
    exit_status option \<times> bool \<times> termination_info option \<Rightarrow> command_output option" where
  "collect_output w s p settled =
     (let (status, timed_out, termination) = settled in
      case receive_capture_blocking (ep_stdout p) (pw_recv_stdout w) ''stdout'' of None \<Rightarrow> None | Some (out, out_info) \<Rightarrow>
      case receive_capture_blocking (ep_stderr p) (pw_recv_stderr w) ''stderr'' of None \<Rightarrow> None | Some (err, err_info) \<Rightarrow>
      if spawn_stdin_worker (stdin_stdio (on_windows w) (cs_stdin s)) (cs_stdin s) \<and> pw_join_stdin w = Blocks then None
      else Some \<lparr>co_exit_status = status, co_exit_code = Option.bind status status_code, co_stdout = out, co_stderr = err,
             co_stdout_capture = out_info, co_stderr_capture = err_info, co_duration = pw_elapsed w,
             co_timed_out = timed_out, co_termination = termination\<rparr>)"

definition exec :: "process_world \<Rightarrow> command_spec \<Rightarrow> (build_error + command_output) option" where
  "exec w s =
     (case pw_spawn w of
        SpawnNotFound \<Rightarrow> Some (Inl (ProgramNotFound (cs_program s)))
      | SpawnError e \<Rightarrow> Some (Inl (SpawnErr (cs_program s) e))
      | Spawned \<Rightarrow>
      (case pw_attach_error w of
        Some detail \<Rightarrow> (case pw_wait w of Blocks \<Rightarrow> None
          | Returns _ \<Rightarrow> Some (Inl (SpawnErr (cs_program s) (''failed to establish process-tree ownership: '' @ detail))))
      | None \<Rightarrow>
      (case poll_loop (pw_views w) (pw_start w + cs_timeout s) 0 no_progress of
        None \<Rightarrow> None
      | Some (PollFailed e, p) \<Rightarrow> poll_failure w s e
      | Some (e, p) \<Rightarrow>
          (case settle w e p of
             None \<Rightarrow> None
           | Some settled \<Rightarrow> map_option Inr (collect_output w s p settled)))))"

section \<open>Draining\<close>

lemma drain_loop_chunks:
  "\<forall>c \<in> set chunks. c \<noteq> [] \<Longrightarrow> length captured \<le> limit \<Longrightarrow>
   drain_loop limit (map ReadOk chunks @ rest) captured seen =
   drain_loop limit rest (captured @ take (limit - length captured) (concat chunks))
     (foldl (\<lambda>t c. min usize_max (t + length c)) seen chunks)"
proof (induction chunks arbitrary: captured seen)
  case (Cons c cs)
  have "length (captured @ take (limit - length captured) c) \<le> limit" using Cons.prems(2) by simp
  from Cons.IH [OF _ this] Cons.prems show ?case by (simp add: min_def)
qed simp

lemma saturating_total: "foldl (\<lambda>t c. min usize_max (t + length c)) (min usize_max t) chunks = min usize_max (t + length (concat chunks))"
proof (induction chunks arbitrary: t)
  case (Cons c cs)
  have "min usize_max (min usize_max t + length c) = min usize_max (t + length c)" by simp
  then show ?case using Cons.IH [of "t + length c"] by (simp add: add.assoc)
qed simp

definition stream_ends :: "read_result \<Rightarrow> string option \<Rightarrow> bool" where
  "stream_ends r e \<longleftrightarrow> r = (case e of None \<Rightarrow> ReadOk [] | Some m \<Rightarrow> ReadErr m)"

lemma drain_chunks:
  assumes "\<forall>c \<in> set chunks. c \<noteq> []" "stream_ends r e"
  shows "drain limit (map ReadOk chunks @ r # rest) =
    Some (take limit (concat chunks),
      from_capture (min limit (length (concat chunks))) (min usize_max (length (concat chunks))) e)"
  using drain_loop_chunks [OF assms(1), of "[]" limit "r # rest" 0] saturating_total [of 0 chunks] assms(2)
  by (auto simp: drain_def stream_ends_def usize_max_def min.commute split: option.splits)

lemma drain_loop_ends:
  "drain_loop limit reader captured seen = Some y \<Longrightarrow>
   \<exists>chunks r e rest. reader = map ReadOk chunks @ r # rest \<and> (\<forall>c \<in> set chunks. c \<noteq> []) \<and> stream_ends r e"
proof (induction limit reader captured seen rule: drain_loop.induct)
  case (2 limit e rest captured seen)
  show ?case by (intro exI [of _ "[]"] exI [of _ "ReadErr e"] exI [of _ "Some e"] exI [of _ rest]) (simp add: stream_ends_def)
next
  case (3 limit chunk rest captured seen)
  show ?case
  proof (cases "chunk = []")
    case True
    then show ?thesis by (intro exI [of _ "[]"] exI [of _ "ReadOk []"] exI [of _ None] exI [of _ rest]) (simp add: stream_ends_def)
  next
    case False
    with 3 obtain chunks r e rest' where "rest = map ReadOk chunks @ r # rest'" "\<forall>c \<in> set chunks. c \<noteq> []" "stream_ends r e"
      by auto
    then show ?thesis using False by (intro exI [of _ "chunk # chunks"] exI [of _ r] exI [of _ e] exI [of _ rest']) simp
  qed
qed simp

text \<open>A stream is drained exactly when it ends, by an empty read or by an error: what is kept is the prefix of
  the data up to the limit, everything is counted (up to the largest \<open>usize\<close>), and the error is kept.\<close>

theorem drain_exact:
  "drain limit reader = Some res \<longleftrightarrow>
   (\<exists>chunks r e rest. reader = map ReadOk chunks @ r # rest \<and> (\<forall>c \<in> set chunks. c \<noteq> []) \<and> stream_ends r e \<and>
      res = (take limit (concat chunks),
        from_capture (min limit (length (concat chunks))) (min usize_max (length (concat chunks))) e))"
proof
  assume a: "drain limit reader = Some res"
  then obtain y where "drain_loop limit reader [] 0 = Some y" by (auto simp: drain_def split: option.splits)
  from drain_loop_ends [OF this] obtain chunks r e rest where
    b: "reader = map ReadOk chunks @ r # rest" "\<forall>c \<in> set chunks. c \<noteq> []" "stream_ends r e" by auto
  then have "res = (take limit (concat chunks),
        from_capture (min limit (length (concat chunks))) (min usize_max (length (concat chunks))) e)"
    using a drain_chunks [OF b(2,3), of limit rest] by simp
  then show "\<exists>chunks r e rest. reader = map ReadOk chunks @ r # rest \<and> (\<forall>c \<in> set chunks. c \<noteq> []) \<and> stream_ends r e \<and>
      res = (take limit (concat chunks),
        from_capture (min limit (length (concat chunks))) (min usize_max (length (concat chunks))) e)"
    using b by blast
next
  assume "\<exists>chunks r e rest. reader = map ReadOk chunks @ r # rest \<and> (\<forall>c \<in> set chunks. c \<noteq> []) \<and> stream_ends r e \<and>
      res = (take limit (concat chunks),
        from_capture (min limit (length (concat chunks))) (min usize_max (length (concat chunks))) e)"
  then show "drain limit reader = Some res" using drain_chunks by blast
qed

section \<open>What a child can see of the environment\<close>

lemma copy_vars: "fold (copy_var parent) names env v = (if v \<in> set names \<and> parent v \<noteq> None then parent v else env v)"
  by (induction names arbitrary: env) (auto simp: copy_var_def split: option.split)

lemma explicit_vars: "fold (\<lambda>(k, v) env. env(k \<mapsto> v)) values env = env ++ map_of (rev values)"
  by (induction "values" arbitrary: env) (auto simp: fun_eq_iff map_add_def split: option.split)

definition fixed_vars :: "bool \<Rightarrow> string \<Rightarrow> env_vars" where
  "fixed_vars windows temporary =
     (if windows then Map.empty else [''TMPDIR'' \<mapsto> temporary, ''LC_ALL'' \<mapsto> ''C'', ''LANG'' \<mapsto> ''C'']) ++
     [''TMP'' \<mapsto> temporary, ''TEMP'' \<mapsto> temporary]"

text \<open>What a child's environment holds, variable by variable. A sanitized child sees the baseline variables and
  the fixed ones, an allowlist exactly the named variables with the parent's values, an explicit map itself.\<close>

theorem child_environment_exact:
  "child_environment windows parent temporary Sanitized v =
     (case fixed_vars windows temporary v of Some x \<Rightarrow> Some x | None \<Rightarrow> if v \<in> set baseline_names then parent v else None) \<and>
   child_environment windows parent temporary (Allowlist names) v = (if v \<in> set names then parent v else None) \<and>
   child_environment windows parent temporary (Explicit values) = map_of (rev values) \<and>
   child_environment windows parent temporary InheritAll = parent"
  by (auto simp: apply_sanitized_environment_def Let_def copy_vars fixed_vars_def map_add_def explicit_vars
      split: option.splits)

section \<open>The states of the polling loop\<close>

inductive polling :: "(nat \<Rightarrow> poll_view) \<Rightarrow> nat \<Rightarrow> nat \<Rightarrow> exec_progress \<Rightarrow> bool" for views deadline where
  start: "polling views deadline 0 no_progress"
| turn: "polling views deadline k p \<Longrightarrow> poll_once deadline (views k) p = Inr q \<Longrightarrow> polling views deadline (Suc k) q"

lemma poll_loop_from: "polling views deadline k p \<Longrightarrow> poll_loop views deadline 0 no_progress = poll_loop views deadline k p"
proof (induction rule: polling.induct)
  case (turn k p q)
  then show ?case by (subst (asm) poll_loop.simps [of _ _ k]) simp
qed simp

lemma poll_loop_reaches:
  assumes "poll_loop views deadline k p = Some r"
  shows "polling views deadline k p \<longrightarrow> (\<exists>j q. polling views deadline j q \<and> poll_once deadline (views j) q = Inl r)"
proof (rule poll_loop.raw_induct [OF _ assms, where P =
    "\<lambda>views deadline k p r. polling views deadline k p \<longrightarrow> (\<exists>j q. polling views deadline j q \<and> poll_once deadline (views j) q = Inl r)"])
  fix loop and views :: "nat \<Rightarrow> poll_view" and deadline k p r
  assume IH: "\<And>views deadline k p r. loop views deadline k p = Some r \<Longrightarrow>
      polling views deadline k p \<longrightarrow> (\<exists>j q. polling views deadline j q \<and> poll_once deadline (views j) q = Inl r)"
    and turn: "(case poll_once deadline (views k) p of Inl r \<Rightarrow> Some r | Inr p' \<Rightarrow> loop views deadline (Suc k) p') = Some r"
  show "polling views deadline k p \<longrightarrow> (\<exists>j q. polling views deadline j q \<and> poll_once deadline (views j) q = Inl r)"
  proof (cases "poll_once deadline (views k) p")
    case (Inr q)
    then show ?thesis using turn IH [of views deadline "Suc k" q r] polling.turn by (metis sum.simps(6))
  qed (use turn in auto)
qed

lemma poll_loop_exact:
  "poll_loop views deadline 0 no_progress = Some r \<longleftrightarrow>
   (\<exists>k p. polling views deadline k p \<and> poll_once deadline (views k) p = Inl r)"
proof
  assume "\<exists>k p. polling views deadline k p \<and> poll_once deadline (views k) p = Inl r"
  then obtain k p where "polling views deadline k p" "poll_once deadline (views k) p = Inl r" by blast
  then show "poll_loop views deadline 0 no_progress = Some r"
    using poll_loop_from by (simp add: poll_loop.simps [of _ _ k])
qed (use poll_loop_reaches polling.start in metis)

text \<open>The first observation among the first \<open>k\<close> turns.\<close>

fun earliest :: "(nat \<Rightarrow> 'a option) \<Rightarrow> nat \<Rightarrow> 'a option" where
  "earliest f 0 = None"
| "earliest f (Suc k) = (case earliest f k of Some x \<Rightarrow> Some x | None \<Rightarrow> f k)"

lemma earliest_keeps: "earliest f k = Some x \<Longrightarrow> k \<le> j \<Longrightarrow> earliest f j = Some x"
  by (induction j) (auto simp: le_Suc_eq)

lemma earliest_agree: "earliest f k = Some x \<Longrightarrow> earliest f j = Some y \<Longrightarrow> x = y"
  using earliest_keeps [of f k x "max k j"] earliest_keeps [of f j y "max k j"] by simp

fun waited :: "wait_result \<Rightarrow> exit_status option" where
  "waited (Waited st) = Some st"
| "waited _ = None"

definition seen_status :: "(nat \<Rightarrow> poll_view) \<Rightarrow> nat \<Rightarrow> exit_status option" where
  "seen_status views = earliest (\<lambda>j. waited (pv_wait (views j)))"

definition seen_stdout :: "(nat \<Rightarrow> poll_view) \<Rightarrow> nat \<Rightarrow> capture_result option" where
  "seen_stdout views = earliest (\<lambda>j. pv_stdout (views j))"

definition seen_stderr :: "(nat \<Rightarrow> poll_view) \<Rightarrow> nat \<Rightarrow> capture_result option" where
  "seen_stderr views = earliest (\<lambda>j. pv_stderr (views j))"

lemmas seen_defs = seen_status_def seen_stdout_def seen_stderr_def

definition progress_at :: "(nat \<Rightarrow> poll_view) \<Rightarrow> nat \<Rightarrow> exec_progress" where
  "progress_at views k = \<lparr>ep_status = seen_status views k, ep_stdout = seen_stdout views k, ep_stderr = seen_stderr views k\<rparr>"

definition all_seen :: "exec_progress \<Rightarrow> bool" where
  "all_seen p \<longleftrightarrow> ep_status p \<noteq> None \<and> ep_stdout p \<noteq> None \<and> ep_stderr p \<noteq> None"

text \<open>A turn ends the loop in one of three ways and otherwise adds what it saw.\<close>

lemma poll_once_at:
  "poll_once deadline (views k) (progress_at views k) =
     (case (seen_status views k, pv_wait (views k)) of
        (None, WaitFailed e) \<Rightarrow> Inl (PollFailed e, progress_at views k)
      | _ \<Rightarrow>
        (let p = progress_at views (Suc k) in
         if all_seen p then Inl (Completed (the (ep_status p)), p)
         else if deadline \<le> pv_now (views k) then Inl (DeadlinePassed, p) else Inr p))"
  by (cases "pv_wait (views k)")
    (auto simp: poll_once_def poll_child_def progress_at_def seen_defs receive_capture_def all_seen_def Let_def split: option.splits)

lemma polling_progress:
  "polling views deadline k p \<Longrightarrow> p = progress_at views k \<and> (\<forall>j<k. pv_now (views j) < deadline \<and> \<not> all_seen (progress_at views (Suc j)))"
proof (induction rule: polling.induct)
  case start
  then show ?case by (simp add: no_progress_def progress_at_def seen_defs)
next
  case (turn k p q)
  then show ?case
    by (auto simp: poll_once_at Let_def less_Suc_eq split: option.splits wait_result.splits if_splits)
qed

lemma polling_turns:
  "polling views deadline k (progress_at views k) \<or>
   (\<exists>j<k. polling views deadline j (progress_at views j) \<and> (\<exists>r. poll_once deadline (views j) (progress_at views j) = Inl r))"
proof (induction k)
  case 0
  have "no_progress = progress_at views 0" by (simp add: no_progress_def progress_at_def seen_defs)
  then show ?case using polling.start by metis
next
  case (Suc k)
  show ?case
  proof (cases "poll_once deadline (views k) (progress_at views k)")
    case (Inr q)
    moreover from this have "q = progress_at views (Suc k)"
      by (auto simp: poll_once_at Let_def split: option.splits wait_result.splits if_splits)
    ultimately show ?thesis using Suc polling.turn by (metis less_Suc_eq)
  qed (use Suc less_Suc_eq in metis)
qed

lemma all_seen_keeps: "all_seen (progress_at views k) \<Longrightarrow> k \<le> j \<Longrightarrow> progress_at views j = progress_at views k"
  by (auto simp: all_seen_def progress_at_def seen_defs dest: earliest_keeps)

text \<open>Once the clock has reached the deadline the loop has ended.\<close>

lemma poll_loop_returns:
  assumes "deadline \<le> pv_now (views k)"
  shows "poll_loop views deadline 0 no_progress \<noteq> None"
proof -
  have "\<exists>j r. polling views deadline j (progress_at views j) \<and> poll_once deadline (views j) (progress_at views j) = Inl r"
    using polling_turns [of views deadline "Suc k"]
  proof
    assume "polling views deadline (Suc k) (progress_at views (Suc k))"
    then show ?thesis using polling_progress assms by fastforce
  qed blast
  then show ?thesis using poll_loop_exact [of views deadline] by (metis option.distinct(1))
qed

text \<open>Neither the end of the loop nor what it saw depends on the turns after the one in which the clock has
  reached the deadline.\<close>

lemma polling_cong: "polling views deadline k p \<Longrightarrow> (\<forall>j<k. views' j = views j) \<Longrightarrow> polling views' deadline k p"
proof (induction rule: polling.induct)
  case (turn k p q)
  then show ?case by (metis less_Suc_eq polling.turn)
qed (rule polling.start)

lemma poll_loop_local:
  fixes views :: "nat \<Rightarrow> poll_view"
  assumes "deadline \<le> pv_now (views k)"
  shows "\<exists>r. \<forall>views'. (\<forall>j\<le>k. views' j = views j) \<longrightarrow> poll_loop views' deadline 0 no_progress = Some r"
proof -
  obtain r j p where r: "polling views deadline j p" "poll_once deadline (views j) p = Inl r"
    using poll_loop_returns [of deadline views k, OF assms] poll_loop_exact [of views deadline] by (metis option.exhaust)
  have "j \<le> k" using polling_progress [OF r(1)] assms by (meson not_le)
  then have "poll_loop views' deadline 0 no_progress = Some r" if "\<forall>j\<le>k. views' j = views j" for views'
    using r polling_cong [OF r(1), of views'] that poll_loop_exact [of views' deadline r]
    by (metis le_trans less_or_eq_imp_le)
  then show ?thesis by blast
qed

lemma wait_for_group_returns:
  assumes "\<not> (fst (polls k) < deadline \<and> snd (polls k))"
  shows "i \<le> k \<Longrightarrow> wait_for_group polls deadline i = Some ()"
proof (induction rule: inc_induct)
  case base
  show ?case using assms by (subst wait_for_group.simps) auto
next
  case (step i)
  then show ?case by (subst wait_for_group.simps) simp
qed

section \<open>What the outcome of a command means\<close>

definition deadline_of :: "process_world \<Rightarrow> command_spec \<Rightarrow> nat" where
  "deadline_of w s = pw_start w + cs_timeout s"

text \<open>The child was seen to end with \<open>st\<close> and both pipes were seen to be drained, with these results, by turn
  \<open>k\<close>, and the clock had not reached the deadline in an earlier turn.\<close>

definition seen_in_time :: "process_world \<Rightarrow> command_spec \<Rightarrow> nat \<Rightarrow> exit_status \<Rightarrow> capture_result \<Rightarrow> capture_result \<Rightarrow> bool" where
  "seen_in_time w s k st out err \<longleftrightarrow>
     (\<forall>j<k. pv_now (pw_views w j) < deadline_of w s) \<and> seen_status (pw_views w) (Suc k) = Some st \<and>
     seen_stdout (pw_views w) (Suc k) = Some out \<and> seen_stderr (pw_views w) (Suc k) = Some err"

lemma loop_finished:
  assumes "exec w s = Some (Inr out)"
  obtains k e p settled where "polling (pw_views w) (deadline_of w s) k (progress_at (pw_views w) k)"
    "poll_once (deadline_of w s) (pw_views w k) (progress_at (pw_views w) k) = Inl (e, p)" "\<forall>m. e \<noteq> PollFailed m"
    "settle w e p = Some settled" "collect_output w s p settled = Some out"
proof -
  obtain e p settled where r: "poll_loop (pw_views w) (deadline_of w s) 0 no_progress = Some (e, p)"
      "\<forall>m. e \<noteq> PollFailed m" "settle w e p = Some settled" "collect_output w s p settled = Some out"
    using assms by (auto simp: exec_def deadline_of_def poll_failure_def
        split: spawn_result.splits option.splits call.splits prod.splits loop_end.splits)
  then obtain k q where "polling (pw_views w) (deadline_of w s) k q" "poll_once (deadline_of w s) (pw_views w k) q = Inl (e, p)"
    by (auto simp: poll_loop_exact)
  then show ?thesis using r polling_progress that by metis
qed

lemma collected:
  assumes "collect_output w s p (status, timed_out, termination) = Some out"
  shows "co_timed_out out = timed_out" "co_exit_code out = Option.bind status status_code" "co_exit_status out = status"
    "ep_stdout p = Some r \<Longrightarrow> (co_stdout out, co_stdout_capture out) = r"
    "ep_stderr p = Some r' \<Longrightarrow> (co_stderr out, co_stderr_capture out) = r'"
  using assms by (auto simp: collect_output_def receive_capture_blocking_def split: option.splits prod.splits if_splits)

lemma loop_ended:
  assumes "poll_once deadline (views k) (progress_at views k) = Inl (e, p)" "\<forall>m. e \<noteq> PollFailed m"
  shows "p = progress_at views (Suc k)"
    "e = Completed (the (ep_status p)) \<and> all_seen p \<or> e = DeadlinePassed \<and> \<not> all_seen p \<and> deadline \<le> pv_now (views k)"
  using assms by (auto simp: poll_once_at Let_def split: option.splits wait_result.splits if_splits)

lemma exec_success:
  assumes "exec w s = Some (Inr out)"
  shows "command_success out \<longleftrightarrow>
    (\<exists>k. seen_in_time w s k (Exited 0) (co_stdout out, co_stdout_capture out) (co_stderr out, co_stderr_capture out))"
    (is "_ \<longleftrightarrow> (\<exists>k. ?seen k)")
proof -
  let ?v = "pw_views w" and ?d = "deadline_of w s"
  obtain k e p settled where f: "polling ?v ?d k (progress_at ?v k)"
    "poll_once ?d (?v k) (progress_at ?v k) = Inl (e, p)" "\<forall>m. e \<noteq> PollFailed m"
    "settle w e p = Some settled" "collect_output w s p settled = Some out"
    using loop_finished [OF assms] .
  obtain status timed_out tm where st: "settled = (status, timed_out, tm)" by (metis prod_cases3)
  note c = collected [OF f(5) [unfolded st]] and ended = loop_ended [OF f(2,3)]
  have early: "\<forall>j<k. pv_now (?v j) < ?d" using polling_progress [OF f(1)] by blast
  from ended(2) show ?thesis
  proof
    assume e: "e = Completed (the (ep_status p)) \<and> all_seen p"
    then have s': "status = ep_status p" "\<not> timed_out" using f(4) st by (auto simp: settle_def all_seen_def)
    have seen: "seen_status ?v (Suc k) = status" "seen_stdout ?v (Suc k) = Some (co_stdout out, co_stdout_capture out)"
        "seen_stderr ?v (Suc k) = Some (co_stderr out, co_stderr_capture out)"
      using e s' c(4,5) ended(1) by (auto simp: progress_at_def all_seen_def)
    have "command_success out \<longleftrightarrow> status = Some (Exited 0)"
      using c s' e by (cases status) (auto simp: command_success_def all_seen_def elim: status_code.elims)
    also have "\<dots> \<longleftrightarrow> (\<exists>k. ?seen k)"
    proof
      assume "\<exists>k. ?seen k"
      then obtain j where "seen_status ?v (Suc j) = Some (Exited 0)" by (auto simp: seen_in_time_def)
      then show "status = Some (Exited 0)"
        using seen(1) e s' earliest_agree unfolding seen_defs all_seen_def by (metis option.exhaust)
    qed (use seen early in \<open>auto simp: seen_in_time_def\<close>)
    finally show ?thesis .
  next
    assume e: "e = DeadlinePassed \<and> \<not> all_seen p \<and> ?d \<le> pv_now (?v k)"
    then have "timed_out" using f(4) st by (auto simp: settle_def split: option.splits call.splits)
    moreover have "\<not> ?seen j" for j
    proof
      assume s: "?seen j"
      then have "j \<le> k" using e by (metis leI leD seen_in_time_def)
      moreover have "all_seen (progress_at ?v (Suc j))" using s by (simp add: seen_in_time_def progress_at_def all_seen_def)
      ultimately have "all_seen p" using all_seen_keeps [of ?v "Suc j" "Suc k"] ended(1) by simp
      then show False using e by blast
    qed
    ultimately show ?thesis using c(1) by (auto simp: command_success_def)
  qed
qed

text \<open>C14: A command that ran is a success exactly when, by some turn of the polling loop all of whose earlier turns found the clock
  before the deadline, the child had been seen to end with code 0 and both its output pipes had been seen drained; and then
  the output is what was drained. The clock is looked at after the child and the pipes, so the turn itself may come
  at or after the deadline: with a zero timeout a child that has already finished is still a success.\<close>

theorem exec_success_exact:
  assumes "exec w s = Some (Inr out)"
  shows "command_success out \<longleftrightarrow>
    (\<exists>k. seen_in_time w s k (Exited 0) (co_stdout out, co_stdout_capture out) (co_stderr out, co_stderr_capture out))"
  by (rule exec_success [OF assms])

text \<open>The calls made after the loop return.\<close>

fun tree_ends :: "platform \<Rightarrow> bool" where
  "tree_ends (UnixGroup g) \<longleftrightarrow>
     (\<exists>k. \<not> (fst (gv_polls g k) < gv_start g + millis 200 \<and> snd (gv_polls g k)))"
| "tree_ends (WindowsJob wait) \<longleftrightarrow> wait \<noteq> Blocks"

definition calls_return :: "process_world \<Rightarrow> bool" where
  "calls_return w \<longleftrightarrow> tree_ends (pw_platform w) \<and> pw_wait w \<noteq> Blocks \<and> pw_recv_stdout w \<noteq> Blocks \<and>
     pw_recv_stderr w \<noteq> Blocks \<and> pw_join_stdin w \<noteq> Blocks"

lemma views_unused:
  "settle (w\<lparr>pw_views := views\<rparr>) = settle w" "collect_output (w\<lparr>pw_views := views\<rparr>) = collect_output w"
  "poll_failure (w\<lparr>pw_views := views\<rparr>) = poll_failure w"
  by (auto simp: fun_eq_iff settle_def collect_output_def poll_failure_def on_windows_def Let_def
      split: loop_end.split call.split option.split)

lemma terminate_returns:
  assumes "tree_ends p"
  shows "terminate_tree p \<noteq> None"
proof (cases p)
  case (UnixGroup g)
  then obtain k where "\<not> (fst (gv_polls g k) < gv_start g + millis 200 \<and> snd (gv_polls g k))" using assms by auto
  with wait_for_group_returns [of "gv_polls g" k "gv_start g + millis 200" 0] show ?thesis
    using UnixGroup by (simp add: terminate_unix_def)
next
  case (WindowsJob wait)
  then show ?thesis using assms by (auto simp: terminate_windows_def split: call.split)
qed

lemma receive_returns: "channel \<noteq> Blocks \<Longrightarrow> receive_capture_blocking available channel stream \<noteq> None"
  by (cases channel) (auto simp: receive_capture_blocking_def split: option.split)

lemma collect_returns: "calls_return w \<Longrightarrow> collect_output w s p settled \<noteq> None"
  using receive_returns [of "pw_recv_stdout w" "ep_stdout p" "''stdout''"] receive_returns [of "pw_recv_stderr w" "ep_stderr p" "''stderr''"]
  by (auto simp: collect_output_def calls_return_def split: prod.split)

lemma settle_returns: "calls_return w \<Longrightarrow> settle w e p \<noteq> None"
  using terminate_returns [of "pw_platform w"]
  by (auto simp: settle_def calls_return_def split: loop_end.split option.split call.split)

lemma poll_failure_returns: "calls_return w \<Longrightarrow> poll_failure w s e \<noteq> None"
  using terminate_returns [of "pw_platform w"] by (auto simp: poll_failure_def calls_return_def split: option.split call.split)

text \<open>C31: A command returns, whatever the child does, if the clock reaches the deadline in turn \<open>k\<close> of the polling loop and the calls
  made after the loop return; and its result depends on the turns up to \<open>k\<close> only: no later turn of the loop is
  looked at.\<close>

theorem exec_returns:
  assumes "calls_return w" "deadline_of w s \<le> pv_now (pw_views w k)"
  shows "exec w s \<noteq> None \<and>
    (\<forall>views. (\<forall>j\<le>k. views j = pw_views w j) \<longrightarrow> exec (w\<lparr>pw_views := views\<rparr>) s = exec w s)"
proof -
  obtain e p where l: "\<forall>views. (\<forall>j\<le>k. views j = pw_views w j) \<longrightarrow>
      poll_loop views (deadline_of w s) 0 no_progress = Some (e, p)"
    using poll_loop_local [of "deadline_of w s" "pw_views w" k] assms(2) by auto
  then have here: "poll_loop (pw_views w) (pw_start w + cs_timeout s) 0 no_progress = Some (e, p)"
    by (simp add: deadline_of_def)
  have "pw_wait w \<noteq> Blocks" using assms(1) by (simp add: calls_return_def)
  then have "exec w s \<noteq> None"
    using here settle_returns [OF assms(1), of e p] collect_returns [OF assms(1), of s p] poll_failure_returns [OF assms(1), of s]
    by (auto simp: exec_def split: spawn_result.split option.split call.split loop_end.split)
  moreover have "exec (w\<lparr>pw_views := views\<rparr>) s = exec w s" if "\<forall>j\<le>k. views j = pw_views w j" for views
    using l that here by (auto simp: exec_def deadline_of_def views_unused split: spawn_result.split option.split call.split loop_end.split)
  ultimately show ?thesis by blast
qed

section \<open>Runs\<close>

text \<open>A child that ends with \<open>st\<close> after \<open>n\<close> turns of 5 ms; its pipes reach their end in the turns the two
  options name, holding nothing. The group never reacts to signals.\<close>

definition idle_group :: "nat \<Rightarrow> group_view" where
  "idle_group t = \<lparr>gv_term_sent = True, gv_start = t, gv_polls = (\<lambda>k. (t + millis (10 * k), True)), gv_exists = True, gv_kill_sent = True\<rparr>"

definition empty_capture :: capture_result where
  "empty_capture = ([], from_capture 0 0 None)"

definition simple_world :: "nat \<Rightarrow> exit_status \<Rightarrow> nat option \<Rightarrow> capture_result option call \<Rightarrow> process_world" where
  "simple_world n st drained_at late =
     (let pipe = (\<lambda>k. case drained_at of Some m \<Rightarrow> if m \<le> k then Some empty_capture else None | None \<Rightarrow> None) in
      \<lparr>pw_spawn = Spawned, pw_attach_error = None, pw_start = 0,
       pw_views = (\<lambda>k. \<lparr>pv_wait = (if n \<le> k then Waited st else StillRunning), pv_stdout = pipe k, pv_stderr = pipe k,
         pv_now = millis (5 * k)\<rparr>),
       pw_platform = UnixGroup (idle_group (seconds 30)), pw_wait = Returns (Some st), pw_recv_stdout = late,
       pw_recv_stderr = late, pw_join_stdin = Returns (), pw_elapsed = millis 5\<rparr>)"

lemma simple_fields [simp]:
  "pw_spawn (simple_world n st m late) = Spawned" "pw_attach_error (simple_world n st m late) = None"
  "pw_start (simple_world n st m late) = 0" "pw_wait (simple_world n st m late) = Returns (Some st)"
  "pw_platform (simple_world n st m late) = UnixGroup (idle_group (seconds 30))"
  "pw_recv_stdout (simple_world n st m late) = late" "pw_recv_stderr (simple_world n st m late) = late"
  "pw_join_stdin (simple_world n st m late) = Returns ()" "pw_elapsed (simple_world n st m late) = millis 5"
  by (simp_all add: simple_world_def Let_def)

lemma simple_views:
  "pw_views (simple_world n st m late) k =
     \<lparr>pv_wait = (if n \<le> k then Waited st else StillRunning),
      pv_stdout = (case m of Some m \<Rightarrow> if m \<le> k then Some empty_capture else None | None \<Rightarrow> None),
      pv_stderr = (case m of Some m \<Rightarrow> if m \<le> k then Some empty_capture else None | None \<Rightarrow> None),
      pv_now = millis (5 * k)\<rparr>"
  by (simp_all add: simple_world_def Let_def)

lemma simple_calls: "calls_return (simple_world n st m late) \<longleftrightarrow> late \<noteq> Blocks"
proof -
  have "tree_ends (UnixGroup (idle_group t))" for t
    by (auto simp: idle_group_def millis_def intro: exI [of _ 20])
  then show ?thesis by (auto simp: calls_return_def)
qed

definition quick_output :: command_output where
  "quick_output = \<lparr>co_exit_status = Some (Exited 0), co_exit_code = Some 0, co_stdout = [], co_stderr = [],
     co_stdout_capture = from_capture 0 0 None, co_stderr_capture = from_capture 0 0 None, co_duration = millis 5,
     co_timed_out = False, co_termination = None\<rparr>"

lemma quick_exec: "exec (simple_world 0 (Exited 0) (Some 0) Blocks) (command_new ''tool'' []) = Some (Inr quick_output)"
proof -
  let ?w = "simple_world 0 (Exited 0) (Some 0) Blocks" and ?s = "command_new ''tool'' []"
  let ?p = "\<lparr>ep_status = Some (Exited 0), ep_stdout = Some empty_capture, ep_stderr = Some empty_capture\<rparr>"
  have "poll_once d (pw_views ?w 0) no_progress = Inl (Completed (Exited 0), ?p)" for d
    by (simp add: simple_views poll_once_def poll_child_def no_progress_def receive_capture_def)
  then have "poll_loop (pw_views ?w) d 0 no_progress = Some (Completed (Exited 0), ?p)" for d
    by (subst poll_loop.simps) simp
  moreover have "collect_output ?w ?s ?p (Some (Exited 0), False, None) = Some quick_output"
    by (simp add: collect_output_def receive_capture_blocking_def quick_output_def empty_capture_def)
  ultimately show ?thesis by (simp add: exec_def settle_def)
qed

theorem exec_success_exact_witness:
  "\<exists>k. seen_in_time (simple_world 0 (Exited 0) (Some 0) Blocks) (command_new ''tool'' []) k (Exited 0)
    ([], from_capture 0 0 None) ([], from_capture 0 0 None)"
  using exec_success_exact [OF quick_exec] by (simp add: quick_output_def command_success_def)

theorem exec_returns_witness:
  "exec (simple_world 0 (Exited 0) None (Returns None)) (command_new ''tool'' []) \<noteq> None"
proof -
  have "calls_return (simple_world 0 (Exited 0) None (Returns None))" by (simp add: simple_calls)
  moreover have "deadline_of (simple_world 0 (Exited 0) None (Returns None)) (command_new ''tool'' []) \<le>
      pv_now (pw_views (simple_world 0 (Exited 0) None (Returns None)) 6000)"
    by (simp add: simple_views deadline_of_def command_new_def seconds_def millis_def)
  ultimately show ?thesis using exec_returns [of _ _ 6000] by blast
qed

text \<open>The timeout bounds the loop, not the call: when a descendant survives and keeps a pipe open, \<open>exec\<close> waits
  for the drain after the deadline without a bound.\<close>

lemma timeout_not_enforced: "exec (simple_world n st None Blocks) s = None"
proof -
  let ?w = "simple_world n st None Blocks"
  have "earliest (\<lambda>j. None) k = (None :: capture_result option)" for k by (induction k) auto
  then have pipe: "ep_stdout (progress_at (pw_views ?w) k) = None" for k by (simp add: progress_at_def seen_defs simple_views)
  then have none: "collect_output ?w s (progress_at (pw_views ?w) k) settled = None" for k settled
    by (simp add: collect_output_def receive_capture_blocking_def split: prod.split)
  have ended: "\<exists>k. p = progress_at (pw_views ?w) k \<and> e = DeadlinePassed"
    if r: "poll_loop (pw_views ?w) d 0 no_progress = Some (e, p)" for d e p
  proof -
    obtain k q where q: "polling (pw_views ?w) d k q" "poll_once d (pw_views ?w k) q = Inl (e, p)"
      using r by (auto simp: poll_loop_exact)
    have "q = progress_at (pw_views ?w) k" using polling_progress [OF q(1)] by blast
    then have "poll_once d (pw_views ?w k) (progress_at (pw_views ?w) k) = Inl (e, p)" using q(2) by simp
    moreover have "pv_wait (pw_views ?w k) \<noteq> WaitFailed m" for m by (simp add: simple_views)
    moreover from calculation have "\<forall>m. e \<noteq> PollFailed m"
      by (auto simp: poll_once_at Let_def split: option.splits wait_result.splits if_splits)
    ultimately show ?thesis using loop_ended [of d "pw_views ?w" k e p] pipe by (auto simp: all_seen_def)
  qed
  show ?thesis
  proof (cases "poll_loop (pw_views ?w) (cs_timeout s) 0 no_progress")
    case (Some r)
    obtain e p where r: "r = (e, p)" by (cases r)
    then obtain k where p: "p = progress_at (pw_views ?w) k" and e: "e = DeadlinePassed"
      using ended [of "cs_timeout s" e p] Some by blast
    have "collect_output ?w s p settled = None" for settled unfolding p by (rule none)
    then show ?thesis using Some e r by (simp add: exec_def split: option.split)
  qed (simp add: exec_def)
qed

section \<open>Command records\<close>

text \<open>Timeouts and durations keep their nanoseconds; the fields of the source hold them as seconds in an \<open>f64\<close>.\<close>

record recorded_command =
  rc_program :: string
  rc_args :: "string list"
  rc_working_dir :: "string option"
  rc_env_restricted :: bool
  rc_environment_policy :: string
  rc_timeout :: nat

record recorded_output =
  ro_exit_code :: "int option"
  ro_stdout :: string
  ro_stderr :: string
  ro_duration :: nat
  ro_timed_out :: bool
  ro_success :: bool
  ro_termination :: "termination_info option"
  ro_stdout_capture :: capture_info
  ro_stderr_capture :: capture_info

record command_record =
  cr_label :: string
  cr_command :: recorded_command
  cr_output :: recorded_output
  cr_started_at :: nat

text \<open>\<open>started_at\<close> counts nanoseconds from the Unix epoch; a time before it is recorded as 0.\<close>

definition record_command :: "string \<Rightarrow> command_spec \<Rightarrow> command_output \<Rightarrow> int \<Rightarrow> command_record" where
  "record_command label s out started_at =
     \<lparr>cr_label = label,
      cr_command = \<lparr>rc_program = cs_program s, rc_args = cs_args s, rc_working_dir = cs_working_dir s,
        rc_env_restricted = is_restricted (cs_environment s), rc_environment_policy = report_label (cs_environment s),
        rc_timeout = cs_timeout s\<rparr>,
      cr_output = \<lparr>ro_exit_code = co_exit_code out, ro_stdout = from_utf8_lossy (co_stdout out),
        ro_stderr = from_utf8_lossy (co_stderr out), ro_duration = co_duration out, ro_timed_out = co_timed_out out,
        ro_success = command_success out, ro_termination = co_termination out,
        ro_stdout_capture = co_stdout_capture out, ro_stderr_capture = co_stderr_capture out\<rparr>,
      cr_started_at = (if started_at < 0 then 0 else nat started_at div 10 ^ 9)\<rparr>"

text \<open>A record holds no value of an explicit environment, and no name that looks like a secret.\<close>

lemma record_hides_values:
  assumes "map fst values = map fst values'"
  shows "record_command label (with_environment values s) out t = record_command label (with_environment values' s) out t"
  using assms by (simp add: record_command_def with_environment_def is_restricted_def)

end
