(* ===== verification/Build_Pipeline.thy ===== *)
theory Build_Pipeline imports Process_Exec Object_Decode begin

text \<open>
  The build pipeline: \<open>semasm-build/src/pipeline.rs\<close>. Discovery chooses one tool per role, each step is a
  \<open>CommandSpec\<close> that depends on the target only through its dialect and its object format, and
  \<open>build_fixture\<close> runs assemble, link, parse and run in this order, stopping at the first failure. Paths are
  strings. The steps that run commands take \<open>run\<close>, which gives the result of the \<open>n\<close>-th command of a build
  when it is executed, and return the commands they executed.
\<close>

section \<open>The Windows import library\<close>

definition is_sep :: "char \<Rightarrow> bool" where
  "is_sep c \<longleftrightarrow> c = CHR 0x5C \<or> c = CHR ''/''"

definition trim_seps :: "string \<Rightarrow> string" where
  "trim_seps s = rev (dropWhile is_sep (rev s))"

text \<open>\<open>Path::join\<close> on Windows, for paths with at most a drive prefix: a second path with a drive replaces the
  first, one with a root keeps its drive only.\<close>

definition has_drive :: "string \<Rightarrow> bool" where
  "has_drive s \<longleftrightarrow> (case s of c # d # _ \<Rightarrow> is_ascii_alphabetic c \<and> d = CHR '':'' | _ \<Rightarrow> False)"

definition path_join :: "string \<Rightarrow> string \<Rightarrow> string" where
  "path_join base p =
     (if has_drive p then p
      else if p \<noteq> [] \<and> is_sep (hd p) then (if has_drive base then take 2 base else []) @ p
      else if base = [] \<or> is_sep (last base) \<or> has_drive base \<and> length base = 2 then base @ p
      else base @ CHR 0x5C # p)"

fun all_some :: "'a option list \<Rightarrow> 'a list option" where
  "all_some [] = Some []"
| "all_some (x # xs) = (case (x, all_some xs) of (Some y, Some ys) \<Rightarrow> Some (y # ys) | _ \<Rightarrow> None)"

definition windows_sdk_version :: "string \<Rightarrow> nat list option" where
  "windows_sdk_version name =
     (case all_some (map (parse_unsigned 10 (2 ^ 32 - 1)) (split_char (CHR ''.'') (trim_seps name))) of
        Some parts \<Rightarrow> if 2 \<le> length parts then Some parts else None
      | None \<Rightarrow> None)"

definition kernel32_for_version :: "string \<Rightarrow> string \<Rightarrow> string" where
  "kernel32_for_version lib_root version =
     path_join (path_join (path_join (path_join lib_root (trim_seps version)) ''um'') ''x64'') ''kernel32.lib''"

text \<open>The file system and the variables: the readable entries of a directory, when it can be read, with
  nothing for a name that is not Unicode.\<close>

record sdk_host =
  sh_read_dir :: "string \<Rightarrow> string option list option"
  sh_is_file :: "string \<Rightarrow> bool"
  sh_var :: "string \<Rightarrow> string option"

definition sdk_candidate :: "sdk_host \<Rightarrow> string \<Rightarrow> string option \<Rightarrow> (nat list \<times> string) option" where
  "sdk_candidate h root entry =
     (case entry of None \<Rightarrow> None | Some name \<Rightarrow>
      (case windows_sdk_version name of None \<Rightarrow> None | Some version \<Rightarrow>
        let path = kernel32_for_version root name in if sh_is_file h path then Some (version, path) else None))"

definition sdk_candidates :: "sdk_host \<Rightarrow> string list \<Rightarrow> (nat list \<times> string) list" where
  "sdk_candidates h lib_roots =
     concat (map (\<lambda>root. case sh_read_dir h root of None \<Rightarrow> [] | Some entries \<Rightarrow> filter_map (sdk_candidate h root) entries) lib_roots)"

text \<open>\<open>max_by\<close> keeps the last of equal elements.\<close>

definition max_by_version :: "(nat list \<times> string) list \<Rightarrow> (nat list \<times> string) option" where
  "max_by_version xs =
     (case xs of [] \<Rightarrow> None | x # rest \<Rightarrow> Some (fold (\<lambda>y best. if fst best \<le> fst y then y else best) rest x))"

definition find_latest_kernel32_lib :: "sdk_host \<Rightarrow> string list \<Rightarrow> string option" where
  "find_latest_kernel32_lib h lib_roots = map_option snd (max_by_version (sdk_candidates h lib_roots))"

definition kits_lib :: "string \<Rightarrow> string" where
  "kits_lib program_files = path_join (path_join (path_join program_files ''Windows Kits'') ''10'') ''Lib''"

definition add_root :: "sdk_host \<Rightarrow> string \<Rightarrow> string list \<Rightarrow> string list" where
  "add_root h variable roots =
     (case sh_var h variable of
        None \<Rightarrow> roots
      | Some program_files \<Rightarrow> let root = kits_lib program_files in if root \<in> set roots then roots else roots @ [root])"

definition default_program_files :: string where
  "default_program_files = ''C:'' @ CHR 0x5C # ''Program Files (x86)''"

definition hinted_lib :: "sdk_host \<Rightarrow> string option" where
  "hinted_lib h =
     (case (sh_var h ''WindowsSdkDir'', sh_var h ''WindowsSDKVersion'') of
        (Some sdk_dir, Some version) \<Rightarrow>
          (let hinted = kernel32_for_version (path_join sdk_dir ''Lib'') version in
           if sh_is_file h hinted then Some hinted else None)
      | _ \<Rightarrow> None)"

definition find_kernel32_lib :: "bool \<Rightarrow> sdk_host \<Rightarrow> string option" where
  "find_kernel32_lib windows h =
     (if \<not> windows then None
      else case hinted_lib h of
        Some hinted \<Rightarrow> Some hinted
      | None \<Rightarrow>
          (let roots0 = (case sh_var h ''WindowsSdkDir'' of Some sdk_dir \<Rightarrow> [path_join sdk_dir ''Lib''] | None \<Rightarrow> []);
               roots = add_root h ''ProgramFiles'' (add_root h ''ProgramFiles(x86)'' roots0) in
           find_latest_kernel32_lib h (if roots = [] then [kits_lib default_program_files] else roots)))"

section \<open>Discovery\<close>

record toolchain =
  tc_assembler :: string
  tc_linker :: string
  tc_disassembler :: string
  tc_runner :: "string option"

record pipeline =
  pl_target :: target_identity
  pl_toolchain :: toolchain

definition initial_tools :: toolchain where
  "initial_tools = \<lparr>tc_assembler = ''nasm'', tc_linker = ''ld.lld'', tc_disassembler = ''llvm-objdump'', tc_runner = None\<rparr>"

definition slot_name :: "tool_slot \<Rightarrow> string" where
  "slot_name s =
     (case effective s of
        Some p \<Rightarrow> tool_binary (tp_kind p)
      | None \<Rightarrow> (case sl_candidates s of k # _ \<Rightarrow> tool_binary k | [] \<Rightarrow> ''?''))"

definition native_runner :: string where
  "native_runner = ''__native__''"

definition slot_native :: "tool_slot \<Rightarrow> bool" where
  "slot_native s = (case effective s of Some p \<Rightarrow> tp_kind p \<in> {NativeHostTool, NativeLinux} | None \<Rightarrow> False)"

definition apply_slot :: "tool_slot \<Rightarrow> toolchain \<Rightarrow> toolchain" where
  "apply_slot s t =
     (let name = slot_name s in
      if sl_role s = ''assembler'' then t\<lparr>tc_assembler := name\<rparr>
      else if sl_role s = ''linker'' then t\<lparr>tc_linker := name\<rparr>
      else if sl_role s = ''disassembler'' then t\<lparr>tc_disassembler := name\<rparr>
      else if sl_role s = ''runner'' then t\<lparr>tc_runner := Some (if slot_native s then native_runner else name)\<rparr>
      else t)"

definition discover :: "host \<Rightarrow> target_identity \<Rightarrow> pipeline" where
  "discover h target = \<lparr>pl_target = target, pl_toolchain = fold apply_slot (dr_slots (doctor h target)) initial_tools\<rparr>"

definition all_tools_found :: "host \<Rightarrow> pipeline \<Rightarrow> bool" where
  "all_tools_found h p = all_found (doctor h (pl_target p))"

section \<open>The commands of the steps\<close>

definition assemble_spec :: "pipeline \<Rightarrow> string \<Rightarrow> string \<Rightarrow> string \<Rightarrow> command_spec" where
  "assemble_spec p source output format =
     command_new (tc_assembler (pl_toolchain p)) [''-f'', format, source, ''-o'', output]"

definition assemble_reproducible_spec :: "pipeline \<Rightarrow> string \<Rightarrow> string \<Rightarrow> string \<Rightarrow> command_spec" where
  "assemble_reproducible_spec p source output format =
     command_new (tc_assembler (pl_toolchain p)) [''-O0'', ''-w+error'', ''-f'', format, source, ''-o'', output]"

definition assemble_for_target_spec :: "pipeline \<Rightarrow> string \<Rightarrow> string \<Rightarrow> command_spec" where
  "assemble_for_target_spec p source output =
     (case tdialect (pl_target p) of
        NasmIntel \<Rightarrow> assemble_reproducible_spec p source output (nasm_format (pl_target p))
      | _ \<Rightarrow> command_new (tc_assembler (pl_toolchain p)) [source, ''-o'', output])"

definition link_spec :: "pipeline \<Rightarrow> string list \<Rightarrow> string \<Rightarrow> command_spec" where
  "link_spec p objects output = command_new (tc_linker (pl_toolchain p)) ([''-o'', output] @ objects)"

definition link_reproducible_spec :: "pipeline \<Rightarrow> string list \<Rightarrow> string \<Rightarrow> command_spec" where
  "link_reproducible_spec p objects output =
     command_new (tc_linker (pl_toolchain p)) ([''--build-id=none'', ''--hash-style=sysv'', ''-o'', output] @ objects)"

definition link_static_elf_spec :: "pipeline \<Rightarrow> string list \<Rightarrow> string \<Rightarrow> string \<Rightarrow> command_spec" where
  "link_static_elf_spec p objects output entry =
     command_new (tc_linker (pl_toolchain p)) ([''-static'', ''-e'', entry, ''-o'', output] @ objects)"

text \<open>\<open>kernel32\<close> is what \<open>find_kernel32_lib\<close> found.\<close>

definition link_pe_spec :: "string option \<Rightarrow> pipeline \<Rightarrow> string list \<Rightarrow> string \<Rightarrow> string \<Rightarrow> string \<Rightarrow> command_spec" where
  "link_pe_spec kernel32 p objects output entry subsystem =
     command_new (tc_linker (pl_toolchain p))
       ([''/ENTRY:'' @ entry, ''/SUBSYSTEM:'' @ subsystem,
         (case kernel32 of Some lib \<Rightarrow> lib | None \<Rightarrow> ''/DEFAULTLIB:kernel32.lib''), ''/OUT:'' @ output] @ objects)"

definition link_for_target_spec :: "string option \<Rightarrow> pipeline \<Rightarrow> string list \<Rightarrow> string \<Rightarrow> string \<Rightarrow> command_spec" where
  "link_for_target_spec kernel32 p objects output entry =
     (case tformat (pl_target p) of
        PeCoff \<Rightarrow> link_pe_spec kernel32 p objects output entry ''console''
      | Elf \<Rightarrow>
          if tdialect (pl_target p) = GasUnified \<or> tdialect (pl_target p) = GasAtt
          then link_static_elf_spec p objects output entry
          else link_reproducible_spec p objects output)"

section \<open>Verify, run and classify\<close>

record architecture_info =
  ai_format :: string
  ai_arch :: string
  ai_is_executable :: bool

fun container_format_lower :: "container_format \<Rightarrow> string" where
  "container_format_lower CfElf = ''elf''"
| "container_format_lower CfPe = ''pe''"
| "container_format_lower CfMacho = ''macho''"
| "container_format_lower CfUnknown = ''unknown''"

definition verify_architecture :: "(nat list \<Rightarrow> string + raw_object) \<Rightarrow> file_read \<Rightarrow> build_error + architecture_info" where
  "verify_architecture parser f =
     (case fr_content f of
        Inl e \<Rightarrow> Inl (ObjectParseErr (fr_path f @ '': '' @ e))
      | Inr bytes \<Rightarrow>
          (case parse_object (parser bytes) of
             Inl e \<Rightarrow> Inl (ObjectParseErr (object_error_to_string e))
           | Inr info \<Rightarrow> Inr \<lparr>ai_format = container_format_lower (oi_format info), ai_arch = oi_architecture_raw info,
                ai_is_executable = (oi_kind info = Executable)\<rparr>))"

text \<open>The steps: a command and its execution.\<close>

type_synonym executor = "command_spec \<Rightarrow> build_error + command_output"

definition assemble :: "executor \<Rightarrow> pipeline \<Rightarrow> string \<Rightarrow> string \<Rightarrow> string \<Rightarrow> build_error + command_output" where
  "assemble exe p source output format = exe (assemble_spec p source output format)"

definition assemble_reproducible :: "executor \<Rightarrow> pipeline \<Rightarrow> string \<Rightarrow> string \<Rightarrow> string \<Rightarrow> build_error + command_output" where
  "assemble_reproducible exe p source output format = exe (assemble_reproducible_spec p source output format)"

definition assemble_for_target :: "executor \<Rightarrow> pipeline \<Rightarrow> string \<Rightarrow> string \<Rightarrow> build_error + command_output" where
  "assemble_for_target exe p source output = exe (assemble_for_target_spec p source output)"

definition link_objects :: "executor \<Rightarrow> pipeline \<Rightarrow> string list \<Rightarrow> string \<Rightarrow> build_error + command_output" where
  "link_objects exe p objects output = exe (link_spec p objects output)"

definition link_reproducible :: "executor \<Rightarrow> pipeline \<Rightarrow> string list \<Rightarrow> string \<Rightarrow> build_error + command_output" where
  "link_reproducible exe p objects output = exe (link_reproducible_spec p objects output)"

definition link_static_elf :: "executor \<Rightarrow> pipeline \<Rightarrow> string list \<Rightarrow> string \<Rightarrow> string \<Rightarrow> build_error + command_output" where
  "link_static_elf exe p objects output entry = exe (link_static_elf_spec p objects output entry)"

definition link_for_target :: "executor \<Rightarrow> string option \<Rightarrow> pipeline \<Rightarrow> string list \<Rightarrow> string \<Rightarrow> string \<Rightarrow>
    build_error + command_output" where
  "link_for_target exe kernel32 p objects output entry = exe (link_for_target_spec kernel32 p objects output entry)"

definition link_pe :: "executor \<Rightarrow> string option \<Rightarrow> pipeline \<Rightarrow> string list \<Rightarrow> string \<Rightarrow> string \<Rightarrow> string \<Rightarrow>
    build_error + command_output" where
  "link_pe exe kernel32 p objects output entry subsystem = exe (link_pe_spec kernel32 p objects output entry subsystem)"

type_synonym runner = "nat \<Rightarrow> executor"

definition run_spec :: "bool \<Rightarrow> pipeline \<Rightarrow> string \<Rightarrow> build_error + command_spec" where
  "run_spec windows p executable =
     (case tc_runner (pl_toolchain p) of
        Some r \<Rightarrow>
          if r = native_runner
          then (if windows then Inr (command_new executable [])
                else Inl (ProgramNotFound ''native execution requires the matching host OS''))
          else Inr (command_new r [executable])
      | None \<Rightarrow> Inl (ProgramNotFound ''no runner configured for this target''))"

datatype execution_state =
    NotRequestedExec | UnavailableExec string | SucceededExec command_output | FailedExec string

definition show_code :: "int option \<Rightarrow> string" where
  "show_code c = (case c of Some n \<Rightarrow> ''Some('' @ show_int n @ '')'' | None \<Rightarrow> ''None'')"

definition classify_execution :: "int option \<Rightarrow> build_error + command_output \<Rightarrow> build_error + execution_state" where
  "classify_execution expected_exit result =
     (case result of
        Inr out \<Rightarrow>
          (case expected_exit of
             Some expected \<Rightarrow>
               if co_exit_code out \<noteq> Some expected
               then Inl (SpawnErr ''run'' (''expected exit code '' @ show_int expected @ '', got '' @ show_code (co_exit_code out)))
               else Inr (SucceededExec out)
           | None \<Rightarrow> Inr (SucceededExec out))
      | Inl e \<Rightarrow>
          if expected_exit \<noteq> None then Inl (SpawnErr ''run'' (''required execution failed: '' @ build_error_to_string e))
          else (case e of
              ProgramNotFound reason \<Rightarrow> Inr (UnavailableExec reason)
            | _ \<Rightarrow> Inr (FailedExec (build_error_to_string e))))"

section \<open>A fixture from source to run\<close>

record build_report =
  br_assemble :: command_output
  br_link :: command_output
  br_architecture :: architecture_info
  br_execution :: execution_state

text \<open>\<open>linked\<close> is what reading the linked file gives.\<close>

definition run_fixture :: "bool \<Rightarrow> runner \<Rightarrow> pipeline \<Rightarrow> string \<Rightarrow> command_spec list \<Rightarrow>
    (build_error + command_output) \<times> command_spec list" where
  "run_fixture windows run p exe_path done =
     (case run_spec windows p exe_path of
        Inl e \<Rightarrow> (Inl e, done)
      | Inr s \<Rightarrow> (run (length done) s, done @ [s]))"

definition step_failed :: "string \<Rightarrow> command_output \<Rightarrow> build_error" where
  "step_failed step out = SpawnErr step (''exit code '' @ show_code (co_exit_code out))"

definition build_fixture :: "bool \<Rightarrow> (nat list \<Rightarrow> string + raw_object) \<Rightarrow> file_read \<Rightarrow> runner \<Rightarrow> pipeline \<Rightarrow> string \<Rightarrow>
    string \<Rightarrow> string \<Rightarrow> string \<Rightarrow> int option \<Rightarrow> (build_error + build_report) \<times> command_spec list" where
  "build_fixture windows parser linked run p source obj_path exe_path format expected_exit =
     (let s1 = assemble_reproducible_spec p source obj_path format in
      case assemble_reproducible (run 0) p source obj_path format of
        Inl e \<Rightarrow> (Inl e, [s1])
      | Inr assemble_out \<Rightarrow>
      if \<not> command_success assemble_out then (Inl (step_failed ''assemble'' assemble_out), [s1])
      else let s2 = link_reproducible_spec p [obj_path] exe_path in
      case link_reproducible (run 1) p [obj_path] exe_path of
        Inl e \<Rightarrow> (Inl e, [s1, s2])
      | Inr link_out \<Rightarrow>
      if \<not> command_success link_out then (Inl (step_failed ''link'' link_out), [s1, s2])
      else case verify_architecture parser linked of
        Inl e \<Rightarrow> (Inl e, [s1, s2])
      | Inr arch \<Rightarrow>
      let (ran, commands) = run_fixture windows run p exe_path [s1, s2] in
      case classify_execution expected_exit ran of
        Inl e \<Rightarrow> (Inl e, commands)
      | Inr execution \<Rightarrow>
          (Inr \<lparr>br_assemble = assemble_out, br_link = link_out, br_architecture = arch, br_execution = execution\<rparr>, commands))"

section \<open>The newest import library\<close>

text \<open>The installed versions under the roots, with their import libraries.\<close>

definition installed :: "sdk_host \<Rightarrow> string list \<Rightarrow> (nat list \<times> string) set" where
  "installed h lib_roots =
     {(version, path). \<exists>root entries name. root \<in> set lib_roots \<and> sh_read_dir h root = Some entries \<and>
        Some name \<in> set entries \<and> windows_sdk_version name = Some version \<and>
        path = kernel32_for_version root name \<and> sh_is_file h path}"

lemma set_filter_map: "set (filter_map f xs) = {y. \<exists>x \<in> set xs. f x = Some y}"
  by (induction xs) (auto split: option.split)

lemma candidates_installed: "set (sdk_candidates h lib_roots) = installed h lib_roots"
proof (intro set_eqI iffI)
  fix c
  assume "c \<in> set (sdk_candidates h lib_roots)"
  then obtain root where root: "root \<in> set lib_roots"
      "c \<in> set (case sh_read_dir h root of None \<Rightarrow> [] | Some entries \<Rightarrow> filter_map (sdk_candidate h root) entries)"
    by (auto simp: sdk_candidates_def)
  then obtain entries where e: "sh_read_dir h root = Some entries" "c \<in> set (filter_map (sdk_candidate h root) entries)"
    by (cases "sh_read_dir h root") simp_all
  then obtain entry where "entry \<in> set entries" "sdk_candidate h root entry = Some c" by (auto simp: set_filter_map)
  moreover from this obtain name where "entry = Some name" by (auto simp: sdk_candidate_def split: option.splits)
  ultimately show "c \<in> installed h lib_roots"
    using root(1) e(1) by (auto simp: installed_def sdk_candidate_def Let_def split: option.splits if_splits)
next
  fix c
  assume "c \<in> installed h lib_roots"
  then obtain v root entries name where c: "c = (v, kernel32_for_version root name)" "root \<in> set lib_roots"
      "sh_read_dir h root = Some entries" "Some name \<in> set entries" "windows_sdk_version name = Some v"
      "sh_is_file h (kernel32_for_version root name)"
    by (auto simp: installed_def)
  then have "sdk_candidate h root (Some name) = Some c" by (simp add: sdk_candidate_def Let_def)
  then have "c \<in> set (filter_map (sdk_candidate h root) entries)" using c(4) by (auto simp: set_filter_map)
  then show "c \<in> set (sdk_candidates h lib_roots)" using c(2,3) by (force simp: sdk_candidates_def)
qed

lemma newest_fold:
  "(let m = fold (\<lambda>y best. if fst best \<le> fst y then y else best) xs (x :: nat list \<times> string) in
    m \<in> set (x # xs) \<and> set (x # xs) \<subseteq> {y. fst y \<le> fst m})"
proof (induction xs arbitrary: x)
  case (Cons y ys)
  show ?case
    using Cons.IH [of y] Cons.IH [of x] by (cases "fst x \<le> fst y") (auto simp: Let_def)
qed simp

lemma max_by_version_newest:
  "case max_by_version xs of None \<Rightarrow> xs = [] | Some m \<Rightarrow> m \<in> set xs \<and> set xs \<subseteq> {y. fst y \<le> fst m}"
  using newest_fold by (cases xs) (auto simp: max_by_version_def Let_def)

text \<open>The import library chosen is one of a newest installed version, where versions are compared component by
  component as numbers; none is chosen exactly when none is installed.\<close>

theorem newest_sdk_chosen:
  "case find_latest_kernel32_lib h lib_roots of
     None \<Rightarrow> installed h lib_roots = {}
   | Some path \<Rightarrow> \<exists>version. (version, path) \<in> installed h lib_roots \<and> installed h lib_roots \<subseteq> {(v, _). v \<le> version}"
proof (cases "max_by_version (sdk_candidates h lib_roots)")
  case None
  then show ?thesis using max_by_version_newest [of "sdk_candidates h lib_roots"]
    by (simp add: find_latest_kernel32_lib_def candidates_installed [symmetric])
next
  case (Some m)
  then have "m \<in> installed h lib_roots" "installed h lib_roots \<subseteq> {y. fst y \<le> fst m}"
    using max_by_version_newest [of "sdk_candidates h lib_roots"] by (auto simp: candidates_installed)
  then show ?thesis using Some by (cases m) (force simp: find_latest_kernel32_lib_def)
qed

section \<open>The tools chosen\<close>

definition choice :: "host \<Rightarrow> tool_kind list \<Rightarrow> tool_kind" where
  "choice h ks = (case List.find (\<lambda>k. tp_found (probe_tool h k)) ks of Some k \<Rightarrow> k | None \<Rightarrow> hd ks)"

definition runner_choice :: "host \<Rightarrow> tool_kind list \<Rightarrow> string" where
  "runner_choice h ks =
     (if list_ex (\<lambda>k. tp_found (probe_tool h k)) ks \<and> choice h ks \<in> {NativeHostTool, NativeLinux} then native_runner
      else tool_binary (choice h ks))"

lemma probe_kind [simp]: "tp_kind (probe_tool h k) = k"
  by (simp add: probe_tool_def split: version_run.split)

lemma slot_fields [simp]: "sl_role (probe_slot h role ks) = role" "sl_candidates (probe_slot h role ks) = ks"
  by (simp_all add: probe_slot_def split: prod.split)

lemma effective_slot: "effective (probe_slot h role ks) = map_option (probe_tool h) (List.find (\<lambda>k. tp_found (probe_tool h k)) ks)"
proof -
  obtain r where r: "fold (slot_step h) (List.enumerate 0 ks) (None, []) = (r, map (probe_tool h) ks)" "first_found h ks r"
    using probes_fold by blast
  have "effective (probe_slot h role ks) = map_option (\<lambda>i. probe_tool h (ks ! i)) r"
    using r by (cases r) (simp_all add: probe_slot_def effective_def first_found_def)
  moreover have "List.find (\<lambda>k. tp_found (probe_tool h k)) ks = map_option (\<lambda>i. ks ! i) r"
  proof (cases r)
    case None
    then show ?thesis using r(2) by (auto simp: first_found_def find_None_iff)
  next
    case (Some i)
    then show ?thesis using r(2) by (auto simp: first_found_def find_Some_iff)
  qed
  ultimately show ?thesis by (simp add: option.map_comp comp_def)
qed

lemma slot_found:
  "ks \<noteq> [] \<Longrightarrow> slot_name (probe_slot h role ks) = tool_binary (choice h ks)"
  "slot_native (probe_slot h role ks) \<longleftrightarrow> list_ex (\<lambda>k. tp_found (probe_tool h k)) ks \<and> choice h ks \<in> {NativeHostTool, NativeLinux}"
proof -
  let ?f = "List.find (\<lambda>k. tp_found (probe_tool h k)) ks"
  show "ks \<noteq> [] \<Longrightarrow> slot_name (probe_slot h role ks) = tool_binary (choice h ks)"
    by (cases ks) (auto simp: slot_name_def effective_slot choice_def split: option.split)
  show "slot_native (probe_slot h role ks) \<longleftrightarrow> list_ex (\<lambda>k. tp_found (probe_tool h k)) ks \<and> choice h ks \<in> {NativeHostTool, NativeLinux}"
  proof (cases ?f)
    case None
    then have "\<not> list_ex (\<lambda>k. tp_found (probe_tool h k)) ks" by (auto simp: find_None_iff list_ex_iff)
    then show ?thesis using None by (simp add: slot_native_def effective_slot)
  next
    case (Some k)
    then have "list_ex (\<lambda>k. tp_found (probe_tool h k)) ks" by (auto simp: find_Some_iff list_ex_iff)
    then show ?thesis using Some by (simp add: slot_native_def effective_slot choice_def)
  qed
qed

text \<open>For every registered target, each role gets the first candidate that answers, and the first candidate when
  none does; a native runner is named by its sentinel.\<close>

theorem discover_exact:
  "pl_toolchain (discover h x86_64_linux_gnu) =
     \<lparr>tc_assembler = tool_binary (choice h [Nasm]), tc_linker = tool_binary (choice h [Lld, LdBfd]),
      tc_disassembler = tool_binary (choice h [LlvmObjdump, Objdump]),
      tc_runner = Some (runner_choice h [Qemu ''qemu-x86_64'', NativeLinux])\<rparr> \<and>
   pl_toolchain (discover h x86_64_windows_msvc) =
     \<lparr>tc_assembler = tool_binary (choice h [Nasm]), tc_linker = tool_binary (choice h [LldLink, Lld]),
      tc_disassembler = tool_binary (choice h [LlvmObjdump, Objdump]),
      tc_runner = Some (runner_choice h [NativeHostTool])\<rparr> \<and>
   pl_toolchain (discover h aarch64_linux_gnu) =
     \<lparr>tc_assembler = tool_binary (choice h [GnuAs ''aarch64-linux-gnu-as'']),
      tc_linker = tool_binary (choice h [GnuLd ''aarch64-linux-gnu-ld'', Lld]),
      tc_disassembler = tool_binary (choice h [LlvmObjdump, Objdump]),
      tc_runner = Some (runner_choice h [Qemu ''qemu-aarch64''])\<rparr> \<and>
   pl_toolchain (discover h riscv64_linux_gnu) =
     \<lparr>tc_assembler = tool_binary (choice h [GnuAs ''riscv64-linux-gnu-as'']),
      tc_linker = tool_binary (choice h [GnuLd ''riscv64-linux-gnu-ld'', Lld]),
      tc_disassembler = tool_binary (choice h [LlvmObjdump, Objdump]),
      tc_runner = Some (runner_choice h [Qemu ''qemu-riscv64''])\<rparr>"
  by (intro conjI) (simp_all add: discover_def doctor_def required_tools_def registered_targets apply_slot_def initial_tools_def
      Let_def slot_found runner_choice_def)

text \<open>On a host that is not Windows, the Windows target is given a runner whose name is empty.\<close>

lemma windows_runner_nameless:
  "\<not> h_windows h \<Longrightarrow> tc_runner (pl_toolchain (discover h x86_64_windows_msvc)) = Some []"
  by (simp add: discover_def doctor_def required_tools_def registered_targets apply_slot_def initial_tools_def Let_def slot_found
      runner_choice_def choice_def probe_tool_def tool_binary_def)

section \<open>What a built fixture has been through\<close>

lemma fixture_built:
  fixes windows run p source obj_path exe_path format
  defines "s1 \<equiv> assemble_reproducible_spec p source obj_path format" and "s2 \<equiv> link_reproducible_spec p [obj_path] exe_path"
  shows "build_fixture windows parser linked run p source obj_path exe_path format expected = (Inr r, commands) \<longleftrightarrow>
    run 0 s1 = Inr (br_assemble r) \<and> command_success (br_assemble r) \<and>
    run 1 s2 = Inr (br_link r) \<and> command_success (br_link r) \<and>
    verify_architecture parser linked = Inr (br_architecture r) \<and>
    (\<exists>ran. run_fixture windows run p exe_path [s1, s2] = (ran, commands) \<and>
       classify_execution expected ran = Inr (br_execution r))"
  unfolding s1_def s2_def
  by (cases r) (auto simp: build_fixture_def assemble_reproducible_def link_reproducible_def Let_def split: sum.splits prod.splits)

text \<open>A fixture is built exactly when it assembled, linked, parsed and ran as required, in this order; the
  commands executed are the assembler, the linker and the runner, each at most once.\<close>

theorem fixture_built_exact:
  "build_fixture windows parser linked run p source obj_path exe_path format expected = (Inr r, commands) \<longleftrightarrow>
    run 0 (assemble_reproducible_spec p source obj_path format) = Inr (br_assemble r) \<and> command_success (br_assemble r) \<and>
    run 1 (link_reproducible_spec p [obj_path] exe_path) = Inr (br_link r) \<and> command_success (br_link r) \<and>
    verify_architecture parser linked = Inr (br_architecture r) \<and>
    (\<exists>ran. run_fixture windows run p exe_path
         [assemble_reproducible_spec p source obj_path format, link_reproducible_spec p [obj_path] exe_path] = (ran, commands) \<and>
       classify_execution expected ran = Inr (br_execution r))"
  by (rule fixture_built)

text \<open>A run that was ended by its timeout is recorded as succeeded, whatever exit code was required, if the
  child itself had ended with that code; and with no required code whatever happened.\<close>

lemma timed_out_run_succeeds:
  "co_exit_code out = Some n \<Longrightarrow> classify_execution (Some n) (Inr out) = Inr (SucceededExec out)"
  "classify_execution None (Inr out) = Inr (SucceededExec out)"
  by (simp_all add: classify_execution_def)

text \<open>The native Linux runner that discovery falls back to when there is no \<open>qemu\<close> is never run: the sentinel means
  native execution on Windows only.\<close>

lemma linux_native_never_runs:
  "tc_runner (pl_toolchain p) = Some native_runner \<Longrightarrow>
   run_spec False p executable = Inl (ProgramNotFound ''native execution requires the matching host OS'')"
  by (simp add: run_spec_def)

end
