(* ===== verification/Agent_Packet.thy ===== *)
theory Agent_Packet imports Build_Pipeline Harness_Vectors begin

text \<open>
  Task packets: \<open>semasm-agent/src/lib.rs\<close> (packed references and the canonical JSON they hash) and
  \<open>context.rs\<close> (the context bundle). SHA-256, the \<open>Serialize\<close> implementations (a content's JSON value) and the
  display of a JSON value are arguments.
\<close>

section \<open>Canonical JSON\<close>

definition escape_char :: "char \<Rightarrow> string" where
  "escape_char c =
     (if c = CHR 0x22 then [CHR 0x5C, CHR 0x22]
      else if c = CHR 0x5C then [CHR 0x5C, CHR 0x5C]
      else if c = CHR 0x0A then [CHR 0x5C, CHR ''n'']
      else if c = CHR 0x0D then [CHR 0x5C, CHR ''r'']
      else if c = CHR 0x09 then [CHR 0x5C, CHR ''t'']
      else if of_char c < (0x20 :: nat)
      then [CHR 0x5C, CHR ''u''] @ replicate (4 - length (hex_digits (of_char c))) (CHR ''0'') @ hex_digits (of_char c)
      else [c])"

definition write_string :: "string \<Rightarrow> string" where
  "write_string s = CHR 0x22 # concat (map escape_char s) @ [CHR 0x22]"

text \<open>Elements after the first are preceded by a comma.\<close>

definition separated :: "string list \<Rightarrow> string" where
  "separated parts = (case parts of [] \<Rightarrow> [] | x # xs \<Rightarrow> x @ concat (map (\<lambda>y. CHR '','' # y) xs))"

function (sequential) canonical_json :: "json \<Rightarrow> string" where
  "canonical_json JNull = ''null''"
| "canonical_json (JBool b) = (if b then ''true'' else ''false'')"
| "canonical_json (JNumber n) = show_int n"
| "canonical_json (JFloat s) = s"
| "canonical_json (JString s) = write_string s"
| "canonical_json (JArray arr) = CHR ''['' # separated (map canonical_json arr) @ '']''"
| "canonical_json (JObject obj) =
     CHR ''{'' # separated (map (\<lambda>m. write_string (fst m) @ CHR '':'' # canonical_json (snd m)) (sort_key fst obj)) @ ''}''"
  by pat_completeness auto

termination
proof (relation "measure (size :: json \<Rightarrow> nat)", goal_cases)
  case (2 arr x)
  then show ?case by (induction arr) auto
next
  case (3 obj m)
  then have "m \<in> set obj" by simp
  then have "size (snd m) \<le> size_list (size_prod (\<lambda>_. 0) size) obj" by (induction obj) (cases m, auto)+
  then show ?case by simp
qed simp

text \<open>Packed references; \<open>tree\<close> is the JSON value of a content.\<close>

record 'a packed_ref =
  pr_hash :: string
  pr_content :: 'a

definition hash_json :: "(string \<Rightarrow> string) \<Rightarrow> json \<Rightarrow> string" where
  "hash_json sha value = sha (canonical_json value)"

definition packed_new :: "(string \<Rightarrow> string) \<Rightarrow> ('a \<Rightarrow> json) \<Rightarrow> 'a \<Rightarrow> 'a packed_ref" where
  "packed_new sha tree content = \<lparr>pr_hash = hash_json sha (tree content), pr_content = content\<rparr>"

definition packed_verify :: "(string \<Rightarrow> string) \<Rightarrow> ('a \<Rightarrow> json) \<Rightarrow> 'a packed_ref \<Rightarrow> bool" where
  "packed_verify sha tree r \<longleftrightarrow> pr_hash r = hash_json sha (tree (pr_content r))"

section \<open>Canonical JSON determines its value\<close>

definition number_char :: "char \<Rightarrow> bool" where
  "number_char c \<longleftrightarrow> is_ascii_digit c \<or> c \<in> set ''-+.eE''"

text \<open>What follows a value: the end, a comma or a closing bracket, but nothing a number could go on with.\<close>

definition stops :: "string \<Rightarrow> bool" where
  "stops r \<longleftrightarrow> (case r of [] \<Rightarrow> True | c # _ \<Rightarrow> \<not> number_char c)"

text \<open>The values that occur: a float is printed with a point or an exponent, an object is a map.\<close>

definition float_text :: "string \<Rightarrow> bool" where
  "float_text s \<longleftrightarrow> s \<noteq> [] \<and> (hd s = CHR ''-'' \<or> is_ascii_digit (hd s)) \<and> list_all number_char s \<and>
     (CHR ''.'' \<in> set s \<or> CHR ''e'' \<in> set s)"

fun json_ok :: "json \<Rightarrow> bool" where
  "json_ok (JFloat s) \<longleftrightarrow> float_text s"
| "json_ok (JArray arr) \<longleftrightarrow> list_all json_ok arr"
| "json_ok (JObject obj) \<longleftrightarrow> sorted_wrt (<) (map fst obj) \<and> list_all (\<lambda>m. json_ok (snd m)) obj"
| "json_ok _ \<longleftrightarrow> True"

lemma number_span:
  "list_all number_char a \<Longrightarrow> list_all number_char b \<Longrightarrow> stops r \<Longrightarrow> stops s \<Longrightarrow> a @ r = b @ s \<Longrightarrow> a = b \<and> r = s"
proof (induction a arbitrary: b)
  case Nil
  then show ?case by (cases b) (auto simp: stops_def)
next
  case (Cons c a)
  then show ?case by (cases b) (auto simp: stops_def)
qed

lemma show_int_chars: "list_all number_char (show_int n)" "show_int n \<noteq> []"
  "hd (show_int n) = CHR ''-'' \<or> is_ascii_digit (hd (show_int n))" "CHR ''.'' \<notin> set (show_int n)" "CHR ''e'' \<notin> set (show_int n)"
  using show_nat_digits [of "nat (- n)"] show_nat_digits [of "nat n"]
  by (auto simp: show_int_def list_all_iff number_char_def is_ascii_digit_def hd_append)

lemma show_nat_inj: "show_nat a = show_nat b \<longleftrightarrow> a = b"
  by (metis nat_of_digits_show_nat)

lemma show_int_inj: "show_int a = show_int b \<longleftrightarrow> a = b"
proof -
  have "CHR ''-'' # show_nat j \<noteq> show_nat k" for j k
    using show_nat_digits [of k] by (cases "show_nat k") (auto simp: is_ascii_digit_def)
  then have "show_nat k \<noteq> CHR ''-'' # show_nat j" for j k by metis
  with \<open>\<And>j k. CHR ''-'' # show_nat j \<noteq> show_nat k\<close> show ?thesis
    by (simp add: show_int_def show_nat_inj eq_nat_nat_iff)
qed

definition hex_digit :: "nat \<Rightarrow> char" where
  "hex_digit n = ''0123456789abcdef'' ! n"

lemma hex_digit_inj: "m < 16 \<Longrightarrow> n < 16 \<Longrightarrow> hex_digit m = hex_digit n \<longleftrightarrow> m = n"
proof -
  have "distinct ''0123456789abcdef''" by simp
  then show "m < 16 \<Longrightarrow> n < 16 \<Longrightarrow> ?thesis" by (simp only: hex_digit_def) (subst nth_eq_iff_index_eq; simp)
qed

text \<open>The four digits of a control character.\<close>

definition hex4 :: "nat \<Rightarrow> string" where
  "hex4 n = replicate (4 - length (hex_digits n)) (CHR ''0'') @ hex_digits n"

lemma hex4_control: "n < 32 \<Longrightarrow> hex4 n = ''00'' @ [hex_digit (n div 16), hex_digit (n mod 16)]"
proof (cases "n < 16")
  case True
  then show ?thesis
    by (simp add: hex4_def hex_digits.simps [of n] hex_digit_def numeral_3_eq_3)
next
  case False
  assume "n < 32"
  with False have "n div 16 = 1" by simp
  then show ?thesis using False
    by (simp add: hex4_def hex_digits.simps [of n] hex_digits.simps [of 1] hex_digit_def numeral_2_eq_2)
qed

lemma hex4_inj: "m < 32 \<Longrightarrow> n < 32 \<Longrightarrow> hex4 m @ r = hex4 n @ s \<longleftrightarrow> m = n \<and> r = s"
proof -
  assume lt: "m < 32" "n < 32"
  have "m = n" if "hex_digit (m div 16) = hex_digit (n div 16)" "hex_digit (m mod 16) = hex_digit (n mod 16)"
  proof -
    have "m div 16 = n div 16" "m mod 16 = n mod 16" using that lt by (simp_all add: hex_digit_inj)
    then show ?thesis by (metis div_mult_mod_eq)
  qed
  then show ?thesis using lt by (auto simp: hex4_control)
qed

lemma escape_cases:
  obtains (plain) "escape_char c = [c]" "c \<noteq> CHR 0x22" "c \<noteq> CHR 0x5C"
  | (control) "escape_char c = [CHR 0x5C, CHR ''u''] @ hex4 (of_char c)" "of_char c < (32 :: nat)"
  | (short) t where "escape_char c = [CHR 0x5C, t]"
      "(t, c) \<in> set (zip [CHR 0x22, CHR 0x5C, CHR ''n'', CHR ''r'', CHR ''t''] [CHR 0x22, CHR 0x5C, CHR 0x0A, CHR 0x0D, CHR 0x09])"
proof -
  consider "c = CHR 0x22" | "c = CHR 0x5C" | "c = CHR 0x0A" | "c = CHR 0x0D" | "c = CHR 0x09"
    | "c \<notin> {CHR 0x22, CHR 0x5C, CHR 0x0A, CHR 0x0D, CHR 0x09}" by auto
  then show thesis
  proof cases
    case 6
    then show ?thesis by (cases "of_char c < (32 :: nat)") (auto simp: escape_char_def hex4_def intro: plain control)
  qed (auto simp: escape_char_def intro: short)
qed

lemma escape_head: "\<exists>x xs. escape_char c = x # xs \<and> x \<noteq> CHR 0x22"
  by (rule escape_cases [of c]) auto

lemma escape_prefix:
  assumes "escape_char c @ r = escape_char d @ s"
  shows "c = d \<and> r = s"
proof (rule escape_cases [of c])
  assume c: "escape_char c = [c]" "c \<noteq> CHR 0x22" "c \<noteq> CHR 0x5C"
  show ?thesis by (rule escape_cases [of d]) (use assms c in auto)
next
  assume c: "escape_char c = [CHR 0x5C, CHR ''u''] @ hex4 (of_char c)" "of_char c < (32 :: nat)"
  show ?thesis by (rule escape_cases [of d]) (use assms c in \<open>auto simp: hex4_inj\<close>)
next
  fix t assume c: "escape_char c = [CHR 0x5C, t]"
    "(t, c) \<in> set (zip [CHR 0x22, CHR 0x5C, CHR ''n'', CHR ''r'', CHR ''t''] [CHR 0x22, CHR 0x5C, CHR 0x0A, CHR 0x0D, CHR 0x09])"
  show ?thesis by (rule escape_cases [of d]) (use assms c in auto)
qed

lemma escaped_prefix:
  "concat (map escape_char a) @ CHR 0x22 # r = concat (map escape_char b) @ CHR 0x22 # s \<Longrightarrow> a = b \<and> r = s"
proof (induction a arbitrary: b)
  case Nil
  then show ?case using escape_head [of "hd b"] by (cases b) auto
next
  case (Cons c a)
  show ?case
  proof (cases b)
    case Nil
    then show ?thesis using Cons.prems escape_head [of c] by auto
  next
    case (Cons d b')
    then have "escape_char c @ (concat (map escape_char a) @ CHR 0x22 # r) = escape_char d @ (concat (map escape_char b') @ CHR 0x22 # s)"
      using Cons.prems by simp
    then show ?thesis using escape_prefix Cons Cons.IH [of b'] by blast
  qed
qed

lemma write_string_prefix: "write_string a @ r = write_string b @ s \<Longrightarrow> a = b \<and> r = s"
  using escaped_prefix [of a r b s] by (simp add: write_string_def)

lemma separated_tail:
  assumes "\<And>x y r s. x \<in> set xs \<Longrightarrow> y \<in> set ys \<Longrightarrow> stops r \<Longrightarrow> stops s \<Longrightarrow> f x @ r = f y @ s \<Longrightarrow> x = y \<and> r = s"
    and "concat (map (\<lambda>x. CHR '','' # f x) xs) @ c # r = concat (map (\<lambda>x. CHR '','' # f x) ys) @ c # s"
    and "c \<noteq> CHR '',''" "\<not> number_char c"
  shows "xs = ys \<and> r = s"
  using assms
proof (induction xs arbitrary: ys)
  case Nil
  then show ?case by (cases ys) auto
next
  case (Cons x xs)
  have stop: "stops (concat (map (\<lambda>x. CHR '','' # f x) zs) @ c # q)" for zs q
    using Cons.prems(4) by (cases zs) (auto simp: stops_def number_char_def is_ascii_digit_def)
  show ?case
  proof (cases ys)
    case Nil
    then show ?thesis using Cons.prems by auto
  next
    case (Cons y ys')
    then have "f x @ (concat (map (\<lambda>x. CHR '','' # f x) xs) @ c # r) = f y @ (concat (map (\<lambda>x. CHR '','' # f x) ys') @ c # s)"
      using Cons.prems(2) by simp
    then have eq: "x = y" "concat (map (\<lambda>x. CHR '','' # f x) xs) @ c # r = concat (map (\<lambda>x. CHR '','' # f x) ys') @ c # s"
      using Cons.prems(1) [of x y] Cons stop by auto
    have "xs = ys' \<and> r = s"
      using Cons.IH [of ys', OF _ eq(2) Cons.prems(3,4)] Cons.prems(1) Cons by auto
    then show ?thesis using Cons eq(1) by simp
  qed
qed

lemma separated_prefix:
  assumes inj: "\<And>x y r s. x \<in> set xs \<Longrightarrow> y \<in> set ys \<Longrightarrow> stops r \<Longrightarrow> stops s \<Longrightarrow> f x @ r = f y @ s \<Longrightarrow> x = y \<and> r = s"
    and heads: "\<And>x. x \<in> set xs \<union> set ys \<Longrightarrow> f x \<noteq> [] \<and> hd (f x) \<noteq> c"
    and eq: "separated (map f xs) @ c # r = separated (map f ys) @ c # s" and c: "c \<noteq> CHR '',''" "\<not> number_char c"
  shows "xs = ys \<and> r = s"
proof (cases xs; cases ys)
  fix x xs' y ys' assume l: "xs = x # xs'" "ys = y # ys'"
  have "concat (map (\<lambda>x. CHR '','' # f x) xs) @ c # r = concat (map (\<lambda>x. CHR '','' # f x) ys) @ c # s"
    using eq l by (simp add: separated_def comp_def)
  then show ?thesis using separated_tail [of xs ys f c r s] inj c by blast
next
  fix y ys' assume l: "xs = []" "ys = y # ys'"
  then show ?thesis using eq heads [of y] by (cases "f y") (auto simp: separated_def)
next
  fix x xs' assume l: "xs = x # xs'" "ys = []"
  then show ?thesis using eq heads [of x] by (cases "f x") (auto simp: separated_def)
qed (use eq in \<open>auto simp: separated_def\<close>)

text \<open>The first character tells the kind of a value.\<close>

fun head_ok :: "json \<Rightarrow> char \<Rightarrow> bool" where
  "head_ok JNull c \<longleftrightarrow> c = CHR ''n''"
| "head_ok (JBool b) c \<longleftrightarrow> c = (if b then CHR ''t'' else CHR ''f'')"
| "head_ok (JString _) c \<longleftrightarrow> c = CHR 0x22"
| "head_ok (JArray _) c \<longleftrightarrow> c = CHR ''[''"
| "head_ok (JObject _) c \<longleftrightarrow> c = CHR ''{''"
| "head_ok _ c \<longleftrightarrow> c = CHR ''-'' \<or> is_ascii_digit c"

lemma number_head: "is_ascii_digit c \<Longrightarrow> c \<notin> {CHR '']'', CHR ''}'', CHR '','', CHR ''n'', CHR ''t'', CHR ''f'', CHR 0x22, CHR ''['', CHR ''{'', CHR ''-''}"
  by (auto simp: is_ascii_digit_def)

lemma canonical_head:
  assumes "json_ok v"
  obtains c cs where "canonical_json v = c # cs" "head_ok v c" "c \<notin> {CHR '']'', CHR ''}'', CHR '',''}"
proof (cases v)
  case (JNumber n)
  obtain c cs where c: "show_int n = c # cs" using show_int_chars(2) [of n] by (cases "show_int n") auto
  then have "c = CHR ''-'' \<or> is_ascii_digit c" using show_int_chars(3) [of n] by simp
  then show ?thesis using c JNumber that [of c cs] by (auto dest: number_head)
next
  case (JFloat t)
  then obtain c cs where c: "t = c # cs" "c = CHR ''-'' \<or> is_ascii_digit c" using assms by (cases t) (auto simp: float_text_def)
  then show ?thesis using JFloat that [of c cs] by (auto dest: number_head)
next
  case (JBool b)
  then show ?thesis using that by (cases b) auto
qed (use that in \<open>auto simp: write_string_def\<close>)

lemma canonical_prefix:
  assumes "json_ok v" "json_ok w" "stops r" "stops s" "canonical_json v @ r = canonical_json w @ s"
  shows "v = w \<and> r = s"
  using assms
proof (induction v arbitrary: w r s rule: canonical_json.induct)
  case 1
  obtain c cs where h: "canonical_json w = c # cs" "head_ok w c" by (rule canonical_head [OF 1(2)])
  then show ?case using 1 by (cases w) (auto simp: is_ascii_digit_def split: if_splits)
next
  case (2 b)
  obtain c cs where h: "canonical_json w = c # cs" "head_ok w c" by (rule canonical_head [OF 2(2)])
  then show ?case using 2 by (cases w) (auto simp: is_ascii_digit_def split: if_splits)
next
  case (3 n)
  obtain c cs where h: "canonical_json w = c # cs" "head_ok w c" by (rule canonical_head [OF 3(2)])
  obtain d ds where k: "canonical_json (JNumber n) = d # ds" "head_ok (JNumber n) d" by (rule canonical_head [OF 3(1)])
  show ?case
  proof (cases w)
    case (JNumber m)
    then show ?thesis using 3 number_span [of "show_int n" "show_int m" r s] by (auto simp: show_int_chars(1) show_int_inj)
  next
    case (JFloat t)
    then have "show_int n = t" using 3 number_span [of "show_int n" t r s] by (auto simp: show_int_chars(1) float_text_def)
    then show ?thesis using JFloat 3(2) show_int_chars(4,5) [of n] by (auto simp: float_text_def)
  qed (use 3 h k in \<open>auto simp: is_ascii_digit_def split: if_splits\<close>)
next
  case (4 t)
  obtain c cs where h: "canonical_json w = c # cs" "head_ok w c" by (rule canonical_head [OF 4(2)])
  obtain d ds where k: "canonical_json (JFloat t) = d # ds" "head_ok (JFloat t) d" by (rule canonical_head [OF 4(1)])
  show ?case
  proof (cases w)
    case (JNumber m)
    then have "t = show_int m" using 4 number_span [of t "show_int m" r s] by (auto simp: show_int_chars(1) float_text_def)
    then show ?thesis using 4(1) show_int_chars(4,5) [of m] by (auto simp: float_text_def)
  next
    case (JFloat u)
    then show ?thesis using 4 number_span [of t u r s] by (auto simp: float_text_def)
  qed (use 4 h k in \<open>auto simp: is_ascii_digit_def split: if_splits\<close>)
next
  case (5 t)
  obtain c cs where h: "canonical_json w = c # cs" "head_ok w c" by (rule canonical_head [OF 5(2)])
  show ?case
  proof (cases w)
    case (JString u)
    then show ?thesis using 5 write_string_prefix [of t r u s] by simp
  qed (use 5 h in \<open>auto simp: is_ascii_digit_def write_string_def split: if_splits\<close>)
next
  case (6 arr)
  obtain c cs where h: "canonical_json w = c # cs" "head_ok w c" by (rule canonical_head [OF 6(3)])
  show ?case
  proof (cases w)
    case (JArray brr)
    have "arr = brr \<and> r = s"
    proof (rule separated_prefix [where f = canonical_json and c = "CHR '']''"])
      fix x y p q assume "x \<in> set arr" "y \<in> set brr" "stops p" "stops q" "canonical_json x @ p = canonical_json y @ q"
      then show "x = y \<and> p = q" using 6(1) [of x y p q] 6(2,3) JArray by (simp add: list_all_iff)
    next
      fix x assume "x \<in> set arr \<union> set brr"
      then have "json_ok x" using 6(2,3) JArray by (auto simp: list_all_iff)
      then show "canonical_json x \<noteq> [] \<and> hd (canonical_json x) \<noteq> CHR '']''" by (rule canonical_head) auto
    qed (use 6 JArray in \<open>auto simp: number_char_def is_ascii_digit_def\<close>)
    then show ?thesis using JArray by simp
  qed (use 6 h in \<open>auto simp: is_ascii_digit_def split: if_splits\<close>)
next
  case (7 obj)
  obtain c cs where h: "canonical_json w = c # cs" "head_ok w c" by (rule canonical_head [OF 7(3)])
  show ?case
  proof (cases w)
    case (JObject brr)
    let ?f = "\<lambda>m. write_string (fst m) @ CHR '':'' # canonical_json (snd m)"
    have sorted: "sort_key fst obj = obj" "sort_key fst brr = brr"
      using 7(2,3) JObject by (auto intro!: sort_key_id_if_sorted simp: strict_sorted_imp_sorted strict_sorted_iff)
    have "obj = brr \<and> r = s"
    proof (rule separated_prefix [where f = ?f and c = "CHR ''}''"])
      fix x y p q assume *: "x \<in> set obj" "y \<in> set brr" "stops p" "stops q" "?f x @ p = ?f y @ q"
      then have "write_string (fst x) @ (CHR '':'' # canonical_json (snd x) @ p) = write_string (fst y) @ (CHR '':'' # canonical_json (snd y) @ q)"
        by simp
      then have "fst x = fst y" "canonical_json (snd x) @ p = canonical_json (snd y) @ q"
        using write_string_prefix by blast+
      then show "x = y \<and> p = q" using 7(1) [of x "snd y" p q] 7(2,3) JObject * sorted by (auto simp: list_all_iff prod_eq_iff)
    qed (use 7 JObject sorted in \<open>auto simp: number_char_def is_ascii_digit_def write_string_def\<close>)
    then show ?thesis using JObject by simp
  qed (use 7 h in \<open>auto simp: is_ascii_digit_def split: if_splits\<close>)
qed

text \<open>C33: Two values have the same canonical text only if they are the same value: nothing of a content is lost before
  it is hashed.\<close>

theorem canonical_json_exact:
  assumes "json_ok v" "json_ok w"
  shows "canonical_json v = canonical_json w \<longleftrightarrow> v = w"
  using canonical_prefix [OF assms, of "[]" "[]"] by (auto simp: stops_def)

definition sample_value :: json where
  "sample_value = JObject [(''a'', JArray [JNull, JNumber (- 3), JFloat ''0.5'']), (''b'', JString [CHR 0x22, CHR 0x01])]"

lemma sample_ok: "json_ok sample_value"
  by (simp add: sample_value_def float_text_def number_char_def is_ascii_digit_def)

theorem canonical_json_exact_witness:
  "canonical_json sample_value \<noteq> canonical_json (JArray [sample_value]) \<and> json_ok sample_value"
proof -
  have "json_ok (JArray [sample_value])" by (simp add: sample_ok)
  then show ?thesis using canonical_json_exact [OF sample_ok, of "JArray [sample_value]"] sample_ok by (auto simp: sample_value_def)
qed

section \<open>Context bundles\<close>

record target_toolchain =
  tt_assembler :: string
  tt_linker :: string
  tt_disassembler :: string
  tt_runner :: "string option"

record abi_parameter =
  bp_name :: string
  bp_register :: string
  bp_type_name :: string

record abi_return =
  bt_register :: string
  bt_type_name :: string

record context_bundle =
  cb_function_name :: string
  cb_abi_parameters :: "abi_parameter list"
  cb_abi_return :: abi_return
  cb_preserved_registers :: "string list"
  cb_volatile_registers :: "string list"
  cb_allowed_instructions :: "string list"
  cb_existing_source :: "string option"
  cb_test_vectors :: "test_vector list"
  cb_acceptance_commands :: "string list"
  cb_supported_oracles :: "string list"
  cb_allowed_loop_idioms :: "string list"

definition abi_parameter_of :: "abi_register_map option \<Rightarrow> nat \<Rightarrow> checked_param \<Rightarrow> abi_parameter" where
  "abi_parameter_of regs i p =
     \<lparr>bp_name = cp_name p,
      bp_register = (case Option.bind regs (\<lambda>r. param_register r i) of Some register \<Rightarrow> register | None \<Rightarrow> ''?''),
      bp_type_name = cp_type_source p\<rparr>"

definition build_abi_params :: "checked_contract \<Rightarrow> abi_register_map option \<Rightarrow> abi_parameter list" where
  "build_abi_params c regs = map (\<lambda>(i, p). abi_parameter_of regs i p) (enumerate 0 (c_parameters c))"

definition build_abi_return :: "checked_contract \<Rightarrow> abi_register_map option \<Rightarrow> abi_return" where
  "build_abi_return c regs =
     \<lparr>bt_register = (case regs of Some r \<Rightarrow> am_return_register r | None \<Rightarrow> ''?''),
      bt_type_name = (case c_returns c of r # _ \<Rightarrow> ct_type_source r | [] \<Rightarrow> ''void'')\<rparr>"

definition bundle_registers :: "abi_register_map option \<Rightarrow> string list \<times> string list" where
  "bundle_registers regs =
     (case regs of Some r \<Rightarrow> (am_preserved_registers r, am_volatile_registers r) | None \<Rightarrow> ([], []))"

definition build_acceptance :: "target_identity \<Rightarrow> target_toolchain \<Rightarrow> string list" where
  "build_acceptance target toolchain =
     (let verify = ''semasm agent verify candidate.asm contract.sem.toml --target '' @ tname target @ '' --format json'' in
      [verify, verify @ '' --allow-execution'',
       ''semasm target doctor '' @ tname target @ '' --format json'',
       tt_assembler toolchain @ '' --version''])"

definition supported_oracle_catalog :: "string list" where
  "supported_oracle_catalog =
     map (\<lambda>(i, v). i @ ''@v'' @ show_nat v)
       [(oracle_buffer_count_equal_u8, 2), (oracle_buffer_find_first_u8, 1), (oracle_buffer_find_last_u8, 1),
        (oracle_buffer_memcmp_i8, 1), (oracle_buffer_wrapping_sum_i64, 2), (oracle_buffer_replace_byte, 1),
        (oracle_buffer_memset, 1), (oracle_buffer_memcpy, 1), (oracle_pure_int_binary_usize, 2),
        (oracle_pure_int_binary_i64, 2), (oracle_pure_int_unary_i64, 3)] @
     [oracle_buffer_load_byte0 @ ''@v1 (x86)'', oracle_buffer_store_byte0 @ ''@v1 (x86)'']"

definition allowed_loop_idioms :: "string list" where
  "allowed_loop_idioms =
     [''count-up induction with constant stride (Fb7)'', ''countdown (dec) induction with exclusive bound (Fb8)'',
      ''affine index patterns on single buffer leaves (Fb9a/b)'']"

definition generate_context :: "checked_contract \<Rightarrow> target_identity \<Rightarrow> target_toolchain \<Rightarrow> string option \<Rightarrow> test_vector list \<Rightarrow>
    string list \<Rightarrow> context_bundle" where
  "generate_context c target toolchain existing_source test_vectors allowed_instructions =
     (let regs = abi_map_of (tabi target); (preserved, volatile) = bundle_registers regs in
      \<lparr>cb_function_name = c_name c, cb_abi_parameters = build_abi_params c regs, cb_abi_return = build_abi_return c regs,
       cb_preserved_registers = preserved, cb_volatile_registers = volatile,
       cb_allowed_instructions = allowed_instructions, cb_existing_source = existing_source,
       cb_test_vectors = (if test_vectors = [] then synthesize_vectors c else test_vectors),
       cb_acceptance_commands = build_acceptance target toolchain,
       cb_supported_oracles = supported_oracle_catalog, cb_allowed_loop_idioms = allowed_loop_idioms\<rparr>)"

definition mline :: "string \<Rightarrow> string" where
  "mline s = s @ [CHR 0x0A]"

definition fenced :: "string \<Rightarrow> string \<Rightarrow> string list \<Rightarrow> string" where
  "fenced title language items =
     mline (''## '' @ title) @ mline [] @ mline (''```'' @ language) @ concat (map mline items) @ mline ''```''"

definition quoted :: "string \<Rightarrow> string" where
  "quoted s = CHR 0x60 # s @ [CHR 0x60]"

definition parameter_row :: "nat \<times> abi_parameter \<Rightarrow> string" where
  "parameter_row r =
     (let (i, p) = r in
      mline (''| '' @ show_nat i @ '' | '' @ quoted (bp_name p) @ '' | '' @ quoted (bp_register p) @ '' | '' @
        quoted (bp_type_name p) @ '' |''))"

definition json_array :: "(json \<Rightarrow> string) \<Rightarrow> json list \<Rightarrow> string" where
  "json_array show_json values = ''['' @ join_with '', '' (map show_json values) @ '']''"

definition vector_rows :: "(json \<Rightarrow> string) \<Rightarrow> test_vector \<Rightarrow> string" where
  "vector_rows show_json v =
     mline (''- **'' @ tv_name v @ ''**  '') @
     mline (''  inputs: '' @ quoted (json_array show_json (tv_inputs v)) @ ''  '') @
     mline (''  expected: '' @ quoted (show_json (tv_expected v))) @ mline []"

definition context_to_markdown :: "(json \<Rightarrow> string) \<Rightarrow> context_bundle \<Rightarrow> string" where
  "context_to_markdown show_json b = concat
     [mline (''# Context bundle: '' @ quoted (cb_function_name b)), mline [],
      mline ''## ABI parameters'', mline [], mline ''| # | Name | Register | Type |'', mline ''|---|---|---|---|'',
      concat (map parameter_row (enumerate 0 (cb_abi_parameters b))), mline [],
      mline ''## Return value'', mline [], mline ''| Register | Type |'', mline ''|---|---|'',
      mline (''| '' @ quoted (bt_register (cb_abi_return b)) @ '' | '' @ quoted (bt_type_name (cb_abi_return b)) @ '' |''), mline [],
      fenced ''Preserved registers (callee-saved)'' [] (cb_preserved_registers b), mline [],
      fenced ''Volatile registers (caller-saved)'' [] (cb_volatile_registers b), mline [],
      (if cb_allowed_instructions b = [] then [] else fenced ''Allowed instructions'' [] (cb_allowed_instructions b) @ mline []),
      (case cb_existing_source b of
         Some src \<Rightarrow> fenced ''Existing source'' ''asm'' [src] @ mline []
       | None \<Rightarrow> []),
      (if cb_test_vectors b = [] then []
       else mline ''## Test vectors'' @ mline [] @ concat (map (vector_rows show_json) (cb_test_vectors b))),
      (if cb_acceptance_commands b = [] then [] else fenced ''Acceptance commands'' ''bash'' (cb_acceptance_commands b))]"

section \<open>Task packets\<close>

record contract_content =
  ko_text :: string
  ko_contract :: checked_contract

record target_content =
  tg_identity :: target_identity
  tg_toolchain :: target_toolchain

record task_packet =
  pk_version :: string
  pk_created_at :: string
  pk_semasm_version :: string
  pk_contract :: "contract_content packed_ref"
  pk_target :: "target_content packed_ref"
  pk_allowed_files :: "string list"
  pk_allowed_commands :: "string list"
  pk_context :: context_bundle

text \<open>What the packet code gets from outside the repository: SHA-256, the version of the build and the serialised
  form of the two contents.\<close>

record packet_world =
  kw_sha :: "string \<Rightarrow> string"
  kw_version :: string
  kw_contract_tree :: "contract_content \<Rightarrow> json"
  kw_target_tree :: "target_content \<Rightarrow> json"

definition packet_new :: "packet_world \<Rightarrow> string \<Rightarrow> string \<Rightarrow> string \<Rightarrow> checked_contract \<Rightarrow> target_identity \<Rightarrow> target_toolchain \<Rightarrow>
    string list \<Rightarrow> string list \<Rightarrow> context_bundle \<Rightarrow> task_packet" where
  "packet_new w version created_at text c target toolchain allowed_files allowed_commands context =
     \<lparr>pk_version = version, pk_created_at = created_at, pk_semasm_version = kw_version w,
      pk_contract = packed_new (kw_sha w) (kw_contract_tree w) \<lparr>ko_text = text, ko_contract = c\<rparr>,
      pk_target = packed_new (kw_sha w) (kw_target_tree w) \<lparr>tg_identity = target, tg_toolchain = toolchain\<rparr>,
      pk_allowed_files = allowed_files, pk_allowed_commands = allowed_commands, pk_context = context\<rparr>"

definition verify_integrity :: "packet_world \<Rightarrow> task_packet \<Rightarrow> bool" where
  "verify_integrity w p \<longleftrightarrow>
     packed_verify (kw_sha w) (kw_contract_tree w) (pk_contract p) \<and> packed_verify (kw_sha w) (kw_target_tree w) (pk_target p)"

lemma packet_new_verifies:
  "verify_integrity w (packet_new w version created text c target toolchain files commands ctxt)"
  by (simp add: verify_integrity_def packet_new_def packed_verify_def packed_new_def)

lemma hash_json_exact:
  assumes "json_ok a" "json_ok b" "sha (canonical_json a) = sha (canonical_json b) \<Longrightarrow> canonical_json a = canonical_json b"
  shows "hash_json sha a = hash_json sha b \<longleftrightarrow> a = b"
  using assms canonical_prefix [of a b "[]" "[]"] by (auto simp: hash_json_def stops_def)

definition with_contents :: "task_packet \<Rightarrow> contract_content \<Rightarrow> target_content \<Rightarrow> task_packet" where
  "with_contents p c t =
     p\<lparr>pk_contract := (pk_contract p)\<lparr>pr_content := c\<rparr>, pk_target := (pk_target p)\<lparr>pr_content := t\<rparr>\<rparr>"

lemma packet_integrity:
  "verify_integrity w (with_contents (packet_new w version created (ko_text c) (ko_contract c) (tg_identity t) (tg_toolchain t)
       files commands ctxt) c' t') \<longleftrightarrow>
     hash_json (kw_sha w) (kw_contract_tree w c) = hash_json (kw_sha w) (kw_contract_tree w c') \<and>
     hash_json (kw_sha w) (kw_target_tree w t) = hash_json (kw_sha w) (kw_target_tree w t')"
  by (cases c; cases t) (simp add: verify_integrity_def with_contents_def packet_new_def packed_verify_def packed_new_def)

text \<open>C17: Take any packet \<open>TaskPacket::new\<close> builds, whatever its version, its time stamp, its allowed files and
  commands and its context bundle, and replace the contents of its contract and of its target, keeping the two
  stored hashes. The integrity check accepts the result exactly when the new contents have the same serialised form
  as the old ones, provided the serialised forms are well-formed JSON values and SHA-256 does not collide on the
  canonical texts of the old and the new contents.\<close>

theorem packet_seal_exact:
  assumes "json_ok (kw_contract_tree w c)" "json_ok (kw_contract_tree w c')" "json_ok (kw_target_tree w t)" "json_ok (kw_target_tree w t')"
    and "inj_on (kw_sha w) {canonical_json (kw_contract_tree w c), canonical_json (kw_contract_tree w c')}"
    and "inj_on (kw_sha w) {canonical_json (kw_target_tree w t), canonical_json (kw_target_tree w t')}"
  shows "verify_integrity w (with_contents (packet_new w version created (ko_text c) (ko_contract c) (tg_identity t) (tg_toolchain t)
       files commands ctxt) c' t') \<longleftrightarrow>
     kw_contract_tree w c = kw_contract_tree w c' \<and> kw_target_tree w t = kw_target_tree w t'"
  using hash_json_exact [OF assms(1,2)] hash_json_exact [OF assms(3,4)] assms(5,6)
  by (simp only: packet_integrity) (metis inj_onD insertI1 insertI2)

definition text_world :: packet_world where
  "text_world = \<lparr>kw_sha = (\<lambda>s. s), kw_version = ''0.5.0'', kw_contract_tree = (\<lambda>k. JObject [(''text'', JString (ko_text k))]),
     kw_target_tree = (\<lambda>t. JString (tname (tg_identity t)))\<rparr>"

theorem packet_seal_exact_witness:
  "\<forall>c t ctxt. \<not> verify_integrity text_world (with_contents (packet_new text_world ''0.1.0'' ''1970-01-01T00:00:00Z'' (ko_text c)
     (ko_contract c) (tg_identity t) (tg_toolchain t) [''candidate.asm''] [] ctxt) (c\<lparr>ko_text := CHR ''x'' # ko_text c\<rparr>) t)"
proof (intro allI)
  fix c t ctxt
  show "\<not> verify_integrity text_world (with_contents (packet_new text_world ''0.1.0'' ''1970-01-01T00:00:00Z'' (ko_text c)
     (ko_contract c) (tg_identity t) (tg_toolchain t) [''candidate.asm''] [] ctxt) (c\<lparr>ko_text := CHR ''x'' # ko_text c\<rparr>) t)"
    using packet_seal_exact [of text_world c "c\<lparr>ko_text := CHR ''x'' # ko_text c\<rparr>" t t "''0.1.0''" "''1970-01-01T00:00:00Z''"
        "[''candidate.asm'']" "[]" ctxt] by (simp add: text_world_def)
qed

text \<open>Only those two parts are sealed: what an agent may run or write can be changed without being noticed.\<close>

lemma context_unsealed:
  "verify_integrity w (p\<lparr>pk_allowed_files := files, pk_allowed_commands := commands, pk_context := ctxt, pk_version := v\<rparr>) \<longleftrightarrow>
   verify_integrity w p"
  by (simp add: verify_integrity_def)

text \<open>A parameter that is passed on the stack has no register: the packet shows a question mark, whatever its
  offset.\<close>

lemma stack_parameter_unknown:
  assumes "abi_map_of (tabi target) = Some r" "length (am_parameter_registers r) \<le> i" "i < length (c_parameters c)"
  shows "bp_register (cb_abi_parameters (generate_context c target toolchain src vs ins) ! i) = ''?''"
  using assms by (simp add: generate_context_def build_abi_params_def abi_parameter_of_def param_register_def bundle_registers_def
      Let_def case_prod_beta nth_enumerate_eq)

section \<open>The time of a packet\<close>

definition is_leap :: "nat \<Rightarrow> bool" where
  "is_leap year \<longleftrightarrow> year mod 4 = 0 \<and> year mod 100 \<noteq> 0 \<or> year mod 400 = 0"

definition year_length :: "nat \<Rightarrow> nat" where
  "year_length year = (if is_leap year then 366 else 365)"

definition month_lengths :: "nat \<Rightarrow> nat list" where
  "month_lengths year = [31, if is_leap year then 29 else 28, 31, 30, 31, 30, 31, 31, 30, 31, 30, 31]"

function year_loop :: "nat \<Rightarrow> nat \<Rightarrow> nat \<times> nat" where
  "year_loop year rest =
     (if rest < year_length year then (year, rest) else year_loop (year + 1) (rest - year_length year))"
  by pat_completeness auto

termination by (relation "measure snd") (auto simp: year_length_def)

declare year_loop.simps [simp del]

text \<open>The months left, the number of the month; indexing past December would panic.\<close>

fun month_loop :: "nat list \<Rightarrow> nat \<Rightarrow> nat \<Rightarrow> (nat \<times> nat) option" where
  "month_loop [] month remaining = None"
| "month_loop (l # ls) month remaining =
     (if l \<le> remaining then month_loop ls (month + 1) (remaining - l) else Some (month, remaining))"

record utc =
  ut_year :: nat
  ut_month :: nat
  ut_day :: nat
  ut_hour :: nat
  ut_minute :: nat
  ut_second :: nat

definition as_u32 :: "nat \<Rightarrow> nat" where
  "as_u32 n = n mod 2 ^ 32"

definition epoch_to_utc :: "nat \<Rightarrow> utc option" where
  "epoch_to_utc secs =
     (let days = secs div 86400; rem = secs mod 86400; (year, rest) = year_loop 1970 days in
      map_option (\<lambda>(month, remaining).
          \<lparr>ut_year = as_u32 year, ut_month = as_u32 month, ut_day = as_u32 (remaining + 1), ut_hour = as_u32 (rem div 3600),
           ut_minute = as_u32 (rem mod 3600 div 60), ut_second = as_u32 (rem mod 60)\<rparr>)
        (month_loop (month_lengths year) 1 rest))"

definition zero_padded :: "nat \<Rightarrow> nat \<Rightarrow> string" where
  "zero_padded width n = replicate (width - length (show_nat n)) (CHR ''0'') @ show_nat n"

text \<open>\<open>now\<close> is the system time in seconds, if it is after the epoch.\<close>

definition chrono_now :: "nat option \<Rightarrow> string option" where
  "chrono_now now = map_option (\<lambda>u.
     zero_padded 4 (ut_year u) @ ''-'' @ zero_padded 2 (ut_month u) @ ''-'' @ zero_padded 2 (ut_day u) @ ''T'' @
     zero_padded 2 (ut_hour u) @ '':'' @ zero_padded 2 (ut_minute u) @ '':'' @ zero_padded 2 (ut_second u) @ ''Z'')
     (epoch_to_utc (case now of Some s \<Rightarrow> s | None \<Rightarrow> 0))"

text \<open>The seconds from the epoch to a date, counted directly.\<close>

definition days_before_year :: "nat \<Rightarrow> nat" where
  "days_before_year year = (\<Sum>y \<in> {1970..<year}. year_length y)"

definition seconds_of :: "nat \<Rightarrow> utc \<Rightarrow> nat" where
  "seconds_of year u =
     ((days_before_year year + sum_list (take (ut_month u - 1) (month_lengths year)) + (ut_day u - 1)) * 86400) +
     ut_hour u * 3600 + ut_minute u * 60 + ut_second u"

definition date_ok :: "nat \<Rightarrow> utc \<Rightarrow> bool" where
  "date_ok year u \<longleftrightarrow> 1 \<le> ut_month u \<and> ut_month u \<le> 12 \<and> 1 \<le> ut_day u \<and> ut_day u \<le> month_lengths year ! (ut_month u - 1) \<and>
     ut_hour u < 24 \<and> ut_minute u < 60 \<and> ut_second u < 60"

lemma year_loop_spec:
  "1970 \<le> year \<Longrightarrow> year_loop year rest = (y, r) \<Longrightarrow> year \<le> y \<and> r < year_length y \<and> days_before_year y + r = days_before_year year + rest"
proof (induction year rest rule: year_loop.induct)
  case (1 year rest)
  show ?case
  proof (cases "rest < year_length year")
    case True
    then show ?thesis using 1 by (simp add: year_loop.simps [of year])
  next
    case False
    have "days_before_year (Suc year) = days_before_year year + year_length year"
      using 1(2) by (simp add: days_before_year_def)
    moreover have "year_loop (Suc year) (rest - year_length year) = (y, r)"
      using 1(3) False by (simp add: year_loop.simps [of year rest])
    ultimately show ?thesis using 1(1) [OF False] 1(2) False by simp
  qed
qed

lemma month_loop_spec:
  "remaining < sum_list ls \<Longrightarrow> \<exists>k r. month_loop ls month remaining = Some (month + k, r) \<and> k < length ls \<and> r < ls ! k \<and>
     sum_list (take k ls) + r = remaining"
proof (induction ls arbitrary: month remaining)
  case (Cons l ls)
  show ?case
  proof (cases "l \<le> remaining")
    case True
    then have "remaining - l < sum_list ls" using Cons.prems by simp
    from Cons.IH [OF this, of "month + 1"] obtain k r where
      "month_loop ls (month + 1) (remaining - l) = Some (month + 1 + k, r)" "k < length ls" "r < ls ! k"
      "sum_list (take k ls) + r = remaining - l" by blast
    then show ?thesis using True by (intro exI [of _ "Suc k"] exI [of _ r]) simp
  next
    case False
    then show ?thesis by (intro exI [of _ 0] exI [of _ remaining]) simp
  qed
qed simp

lemma month_lengths_sum: "sum_list (month_lengths year) = year_length year"
  by (simp add: month_lengths_def year_length_def)

lemma clock_split: "s div 3600 * 3600 + s mod 3600 div 60 * 60 + s mod 60 = (s :: nat)"
proof -
  have "s mod 3600 mod 60 = s mod 60" by (simp add: mod_mod_cancel)
  then have "s mod 3600 div 60 * 60 + s mod 60 = s mod 3600" by (metis div_mult_mod_eq)
  then show ?thesis by (metis add.assoc div_mult_mod_eq)
qed

lemma month_lengths_length: "length (month_lengths year) = 12"
  by (simp add: month_lengths_def)

text \<open>C34: The decomposition of a time never panics, gives a date of the calendar, and counting the seconds up to that
  date gives the time back; the year is the low 32 bits of the one that was counted.\<close>

theorem calendar_exact:
  "\<exists>year u. epoch_to_utc secs = Some u \<and> ut_year u = year mod 2 ^ 32 \<and> 1970 \<le> year \<and> date_ok year u \<and> seconds_of year u = secs"
proof -
  obtain year rest where y: "year_loop 1970 (secs div 86400) = (year, rest)" by (cases "year_loop 1970 (secs div 86400)")
  then have year: "1970 \<le> year" "rest < year_length year" "days_before_year year + rest = secs div 86400"
    using year_loop_spec [OF _ y] by (simp_all add: days_before_year_def)
  obtain k r where m: "month_loop (month_lengths year) 1 rest = Some (1 + k, r)" "k < 12" "r < month_lengths year ! k"
    "sum_list (take k (month_lengths year)) + r = rest"
    using month_loop_spec [of rest "month_lengths year" 1] year(2) by (auto simp: month_lengths_sum month_lengths_length)
  have "list_all (\<lambda>l. l \<le> 31) (month_lengths year)" by (simp add: month_lengths_def)
  then have "month_lengths year ! k \<le> 31" using m(2) by (simp add: list_all_length month_lengths_length)
  then have small: "as_u32 (1 + k) = 1 + k" "as_u32 (r + 1) = r + 1" "\<And>x. x < 86400 \<Longrightarrow> as_u32 x = x"
    using m(2,3) by (simp_all add: as_u32_def)
  let ?s = "secs mod 86400"
  let ?u = "\<lparr>ut_year = as_u32 year, ut_month = 1 + k, ut_day = r + 1, ut_hour = ?s div 3600, ut_minute = ?s mod 3600 div 60, ut_second = ?s mod 60\<rparr>"
  have s: "?s < 86400" by simp
  then have "as_u32 (?s div 3600) = ?s div 3600" "as_u32 (?s mod 3600 div 60) = ?s mod 3600 div 60" "as_u32 (?s mod 60) = ?s mod 60"
    by (simp_all add: as_u32_def)
  then have "epoch_to_utc secs = Some ?u" using y m(1) small(1,2) by (simp add: epoch_to_utc_def Let_def)
  moreover have "date_ok year ?u" using m(2,3) s by (auto simp: date_ok_def)
  moreover have "seconds_of year ?u = secs"
  proof -
    have "seconds_of year ?u = (days_before_year year + rest) * 86400 + (?s div 3600 * 3600 + ?s mod 3600 div 60 * 60 + ?s mod 60)"
      using m(4) by (simp add: seconds_of_def)
    also have "\<dots> = secs div 86400 * 86400 + ?s" by (simp only: year(3) clock_split)
    also have "\<dots> = secs" by (rule div_mult_mod_eq)
    finally show ?thesis .
  qed
  ultimately show ?thesis using year(1) by (auto simp: as_u32_def)
qed

end
