(* ===== verification/Build_Report.thy ===== *)
theory Build_Report imports Build_Pipeline "HOL-Library.Product_Lexorder" "HOL-Library.Multiset" begin

text \<open>
  Artifact reports: \<open>semasm-build/src/report.rs\<close>. A report collects hashes, tool versions, command records,
  parsed \<open>objdump\<close> output and the execution outcome; its canonical evidence is the part that does not depend on
  paths, durations or captured text, and is what the evidence digest covers. JSON, SHA-256 and the formatting
  of seconds are arguments. While a report is made, a command gives the same result whenever it is run.
\<close>

section \<open>Reports\<close>

definition artifact_report_schema_version :: string where
  "artifact_report_schema_version = ''0.4''"

record source_info =
  so_path :: string
  so_sha256 :: string

record tool_version_info =
  vi_tool :: string
  vi_version :: string

record objdump_section =
  os_name :: string
  os_size :: nat
  os_vma :: nat
  os_flags :: string

record objdump_symbol =
  oy_name :: string
  oy_address :: nat
  oy_size :: nat
  oy_section :: string
  oy_kind :: char

record artifact_file_info =
  af_path :: string
  af_sha256 :: string
  af_size :: nat
  af_sections :: "objdump_section list"
  af_symbols :: "objdump_symbol list"
  af_is_dynamic :: bool
  af_raw_sections :: string
  af_raw_symbols :: string
  af_raw_private_headers :: string

record run_evidence =
  xe_exit_code :: "int option"
  xe_timed_out :: bool
  xe_stdout :: string
  xe_stderr :: string
  xe_stdout_capture :: capture_info
  xe_stderr_capture :: capture_info
  xe_termination :: "termination_info option"

datatype execution_info = NotRequestedInfo | UnavailableInfo string | FailedInfo string | SucceededInfo run_evidence

definition execution_succeeded :: "command_output \<Rightarrow> execution_info" where
  "execution_succeeded out = SucceededInfo
     \<lparr>xe_exit_code = co_exit_code out, xe_timed_out = co_timed_out out, xe_stdout = from_utf8_lossy (co_stdout out),
      xe_stderr = from_utf8_lossy (co_stderr out), xe_stdout_capture = co_stdout_capture out,
      xe_stderr_capture = co_stderr_capture out, xe_termination = co_termination out\<rparr>"

record command_record_json =
  cj_label :: string
  cj_command :: string
  cj_program :: string
  cj_arguments :: "string list"
  cj_exit_code :: "int option"
  cj_stdout :: string
  cj_stderr :: string
  cj_duration :: nat
  cj_timed_out :: bool
  cj_success :: bool
  cj_stdout_capture :: capture_info
  cj_stderr_capture :: capture_info
  cj_termination :: "termination_info option"

record artifact_report =
  ap_schema_version :: string
  ap_target :: string
  ap_source :: source_info
  ap_tool_versions :: "tool_version_info list"
  ap_command_records :: "command_record_json list"
  ap_object :: "artifact_file_info option"
  ap_executable :: artifact_file_info
  ap_execution :: execution_info
  ap_isolation :: execution_isolation

section \<open>Schema compatibility\<close>

datatype schema_compatibility = Current | CompatibleOlder | ForwardOptIn

definition in_quotes :: "string \<Rightarrow> string" where
  "in_quotes s = CHR 0x27 # s @ [CHR 0x27]"

definition invalid_version :: "string \<Rightarrow> string" where
  "invalid_version version = ''invalid schema version '' @ in_quotes version @ ''; expected MAJOR.MINOR''"

definition parse_schema_version :: "string \<Rightarrow> string + nat \<times> nat" where
  "parse_schema_version version =
     (case split_once (CHR ''.'') version of
        None \<Rightarrow> Inl (invalid_version version)
      | Some (major, minor) \<Rightarrow>
          if CHR ''.'' \<in> set minor then Inl (invalid_version version)
          else (case (parse_unsigned 10 u64_max major, parse_unsigned 10 u64_max minor) of
              (Some a, Some b) \<Rightarrow> Inr (a, b)
            | _ \<Rightarrow> Inl (invalid_version version)))"

definition unsupported_schema :: "string \<Rightarrow> string" where
  "unsupported_schema version =
     ''unsupported artifact report schema '' @ in_quotes version @ ''; reader supports '' @ in_quotes artifact_report_schema_version"

text \<open>\<open>document\<close> is what the JSON parser says of the text: an error, or the string field \<open>schema_version\<close> when there
  is one.\<close>

definition check_report_schema_compatibility_with_options ::
    "string + string option \<Rightarrow> bool \<Rightarrow> string + schema_compatibility" where
  "check_report_schema_compatibility_with_options document allow_newer_minor =
     (case document of
        Inl e \<Rightarrow> Inl (''invalid report JSON: '' @ e)
      | Inr None \<Rightarrow> Inl (''artifact report is missing string field '' @ in_quotes ''schema_version'')
      | Inr (Some version) \<Rightarrow>
      (case parse_schema_version version of
        Inl e \<Rightarrow> Inl e
      | Inr actual \<Rightarrow>
      (case parse_schema_version artifact_report_schema_version of
        Inl e \<Rightarrow> Inl e
      | Inr supported \<Rightarrow>
          if fst actual \<noteq> fst supported then Inl (unsupported_schema version)
          else if snd actual > snd supported
          then (if allow_newer_minor then Inr ForwardOptIn else Inl (unsupported_schema version))
          else if actual = supported then Inr Current
          else Inr CompatibleOlder)))"

definition check_report_schema_compatibility :: "string + string option \<Rightarrow> string + schema_compatibility" where
  "check_report_schema_compatibility document = check_report_schema_compatibility_with_options document False"

section \<open>Canonical evidence\<close>

record canonical_command =
  cc_label :: string
  cc_program :: string
  cc_arguments :: "string list"
  cc_exit_code :: "int option"
  cc_timed_out :: bool
  cc_success :: bool

record canonical_artifact =
  ca_sha256 :: string
  ca_size :: nat
  ca_sections :: "(string \<times> nat \<times> nat \<times> string) list"
  ca_symbols :: "(string \<times> nat \<times> nat \<times> string \<times> char) list"
  ca_is_dynamic :: bool

datatype canonical_execution = CxNotRequested | CxUnavailable | CxFailedRun | CxSucceeded "int option" bool

record canonical_facts =
  ev_schema_version :: string
  ev_target :: string
  ev_source_sha256 :: string
  ev_tools :: "(string \<times> string) list"
  ev_commands :: "canonical_command list"
  ev_object :: "canonical_artifact option"
  ev_executable :: canonical_artifact
  ev_execution :: canonical_execution

definition section_row :: "objdump_section \<Rightarrow> string \<times> nat \<times> nat \<times> string" where
  "section_row s = (os_name s, os_size s, os_vma s, os_flags s)"

definition symbol_row :: "objdump_symbol \<Rightarrow> string \<times> nat \<times> nat \<times> string \<times> char" where
  "symbol_row y = (oy_name y, oy_address y, oy_size y, oy_section y, oy_kind y)"

definition canonical_artifact_of :: "artifact_file_info \<Rightarrow> canonical_artifact" where
  "canonical_artifact_of a =
     \<lparr>ca_sha256 = af_sha256 a, ca_size = af_size a, ca_sections = sort (map section_row (af_sections a)),
      ca_symbols = sort (map symbol_row (af_symbols a)), ca_is_dynamic = af_is_dynamic a\<rparr>"

text \<open>\<open>str::replace\<close>: left to right without overlap; an empty pattern matches at every character boundary.\<close>

definition continues :: "string \<Rightarrow> bool" where
  "continues s \<longleftrightarrow> s \<noteq> [] \<and> continuation (of_char (hd s))"

fun after_chars :: "string \<Rightarrow> string \<Rightarrow> string" where
  "after_chars to [] = []"
| "after_chars to (c # cs) = c # (if continues cs then [] else to) @ after_chars to cs"

function replace_str :: "string \<Rightarrow> string \<Rightarrow> string \<Rightarrow> string" where
  "replace_str pat to s =
     (if pat = [] then to @ after_chars to s
      else if s = [] then []
      else if take (length pat) s = pat then to @ replace_str pat to (drop (length pat) s)
      else hd s # replace_str pat to (tl s))"
  by pat_completeness auto
termination
  by (relation "measure (\<lambda>(_, _, s). length s)") auto

declare replace_str.simps [simp del]

definition forward_slashes :: "string \<Rightarrow> string" where
  "forward_slashes = map (\<lambda>c. if c = CHR 0x5C then CHR ''/'' else c)"

definition normalize_command_component :: "string \<Rightarrow> (string \<times> string) list \<Rightarrow> string" where
  "normalize_command_component v paths =
     (let normalized = fold (\<lambda>(path, label) acc. replace_str (forward_slashes path) label acc) paths (forward_slashes v) in
      if strip_suffix ''/kernel32.lib'' (to_ascii_lowercase normalized) \<noteq> None then ''$KERNEL32_IMPORT_LIBRARY''
      else normalized)"

text \<open>\<open>Path::file_name\<close> of the host: the last component, unless it is \<open>..\<close>.\<close>

definition path_file_name :: "bool \<Rightarrow> string \<Rightarrow> string option" where
  "path_file_name windows s =
     (let body = (if windows \<and> has_drive s then drop 2 s else s);
          slashes = (if windows then forward_slashes body else body);
          parts = filter (\<lambda>c. c \<noteq> [] \<and> c \<noteq> ''.'') (split_char (CHR ''/'') slashes) in
      if parts = [] \<or> last parts = ''..'' then None else Some (last parts))"

definition normalized_program :: "bool \<Rightarrow> string \<Rightarrow> string" where
  "normalized_program windows program =
     to_ascii_lowercase (case path_file_name windows program of Some name \<Rightarrow> name | None \<Rightarrow> program)"

definition canonical_command_of :: "bool \<Rightarrow> (string \<times> string) list \<Rightarrow> command_record_json \<Rightarrow> canonical_command" where
  "canonical_command_of windows logical_paths r =
     \<lparr>cc_label = cj_label r, cc_program = normalized_program windows (cj_program r),
      cc_arguments = map (\<lambda>a. normalize_command_component a logical_paths) (cj_arguments r),
      cc_exit_code = cj_exit_code r, cc_timed_out = cj_timed_out r, cc_success = cj_success r\<rparr>"

fun canonical_execution_of :: "execution_info \<Rightarrow> canonical_execution" where
  "canonical_execution_of NotRequestedInfo = CxNotRequested"
| "canonical_execution_of (UnavailableInfo _) = CxUnavailable"
| "canonical_execution_of (FailedInfo _) = CxFailedRun"
| "canonical_execution_of (SucceededInfo x) = CxSucceeded (xe_exit_code x) (xe_timed_out x)"

definition logical_paths_of :: "artifact_report \<Rightarrow> (string \<times> string) list" where
  "logical_paths_of r =
     [(so_path (ap_source r), ''$SOURCE''), (af_path (ap_executable r), ''$EXECUTABLE'')] @
     (case ap_object r of Some a \<Rightarrow> [(af_path a, ''$OBJECT'')] | None \<Rightarrow> [])"

definition canonical_evidence :: "bool \<Rightarrow> artifact_report \<Rightarrow> canonical_facts" where
  "canonical_evidence windows r =
     \<lparr>ev_schema_version = ap_schema_version r, ev_target = ap_target r, ev_source_sha256 = so_sha256 (ap_source r),
      ev_tools = sort (map (\<lambda>t. (vi_tool t, vi_version t)) (ap_tool_versions r)),
      ev_commands = map (canonical_command_of windows (logical_paths_of r)) (ap_command_records r),
      ev_object = map_option canonical_artifact_of (ap_object r), ev_executable = canonical_artifact_of (ap_executable r),
      ev_execution = canonical_execution_of (ap_execution r)\<rparr>"

definition canonical_evidence_hash :: "(canonical_facts \<Rightarrow> string + string) \<Rightarrow> (string \<Rightarrow> string) \<Rightarrow> bool \<Rightarrow>
    artifact_report \<Rightarrow> string + string" where
  "canonical_evidence_hash to_json sha256_hex windows r =
     (case to_json (canonical_evidence windows r) of Inl e \<Rightarrow> Inl e | Inr json \<Rightarrow> Inr (sha256_hex json))"

record volatile_artifact =
  va_path :: string
  va_raw_sections :: string
  va_raw_symbols :: string
  va_raw_private_headers :: string

definition volatile_artifact_of :: "artifact_file_info \<Rightarrow> volatile_artifact" where
  "volatile_artifact_of a =
     \<lparr>va_path = af_path a, va_raw_sections = af_raw_sections a, va_raw_symbols = af_raw_symbols a,
      va_raw_private_headers = af_raw_private_headers a\<rparr>"

record volatile_metadata =
  vm_source_path :: string
  vm_commands :: "command_record_json list"
  vm_object :: "volatile_artifact option"
  vm_executable :: volatile_artifact
  vm_execution :: execution_info
  vm_isolation :: execution_isolation

record serialized_report =
  sr_schema_version :: string
  sr_deterministic_evidence :: canonical_facts
  sr_deterministic_evidence_sha256 :: string
  sr_volatile_metadata :: volatile_metadata

definition serialize_report :: "(canonical_facts \<Rightarrow> string + string) \<Rightarrow> (string \<Rightarrow> string) \<Rightarrow> bool \<Rightarrow>
    artifact_report \<Rightarrow> string + serialized_report" where
  "serialize_report to_json sha256_hex windows r =
     (case canonical_evidence_hash to_json sha256_hex windows r of
        Inl e \<Rightarrow> Inl e
      | Inr digest \<Rightarrow> Inr
          \<lparr>sr_schema_version = ap_schema_version r, sr_deterministic_evidence = canonical_evidence windows r,
           sr_deterministic_evidence_sha256 = digest,
           sr_volatile_metadata =
             \<lparr>vm_source_path = so_path (ap_source r), vm_commands = ap_command_records r,
              vm_object = map_option volatile_artifact_of (ap_object r),
              vm_executable = volatile_artifact_of (ap_executable r), vm_execution = ap_execution r,
              vm_isolation = ap_isolation r\<rparr>\<rparr>)"

section \<open>Parsing \<open>objdump\<close> output\<close>

text \<open>\<open>str::lines\<close>: each line loses its newline and a carriage return before it; the last line may have none.\<close>

definition chomp_cr :: "string \<Rightarrow> string" where
  "chomp_cr l = (if l \<noteq> [] \<and> last l = CHR 0x0D then butlast l else l)"

definition str_lines :: "string \<Rightarrow> string list" where
  "str_lines s =
     (let pieces = split_char (CHR 0x0A) s in
      map chomp_cr (butlast pieces) @ (if last pieces = [] then [] else [last pieces]))"

definition hex_or_zero :: "string \<Rightarrow> nat" where
  "hex_or_zero s = (case parse_unsigned 16 u64_max s of Some n \<Rightarrow> n | None \<Rightarrow> 0)"

definition section_line :: "string \<Rightarrow> bool \<times> objdump_section list \<Rightarrow> bool \<times> objdump_section list" where
  "section_line line acc =
     (let (in_body, sections) = acc; trimmed = trim line in
      if trimmed = [] then (False, sections)
      else if strip_prefix ''Idx'' trimmed \<noteq> None \<and> contains_str ''Name'' trimmed then (True, sections)
      else if \<not> in_body then (in_body, sections)
      else let parts = split_whitespace trimmed in
        if 4 \<le> length parts \<and> list_all is_ascii_digit (parts ! 0)
        then (in_body, sections @ [\<lparr>os_name = parts ! 1, os_size = hex_or_zero (parts ! 2), os_vma = hex_or_zero (parts ! 3),
               os_flags = (if 4 < length parts then parts ! 4 else [])\<rparr>])
        else (in_body, sections))"

definition parse_sections :: "string \<Rightarrow> objdump_section list" where
  "parse_sections text = snd (fold section_line (str_lines text) (False, []))"

definition is_size_column :: "string list \<Rightarrow> nat \<Rightarrow> bool" where
  "is_size_column parts i \<longleftrightarrow>
     8 \<le> length (parts ! i) \<and> list_all is_hex_digit (parts ! i) \<and>
     (let prev = parts ! (i - 1) in length prev < 12 \<or> \<not> list_all is_hex_digit prev)"

definition symbol_line :: "string \<Rightarrow> objdump_symbol option" where
  "symbol_line line =
     (let trimmed = trim line in
      if trimmed = [] \<or> strip_prefix ''SYMBOL TABLE'' trimmed \<noteq> None then None
      else let parts = split_whitespace trimmed in
        if length parts < 4 then None
        else (case List.find (is_size_column parts) [2..<length parts - 1] of
            None \<Rightarrow> None
          | Some i \<Rightarrow> Some
              \<lparr>oy_name = last parts, oy_address = hex_or_zero (parts ! 0), oy_size = hex_or_zero (parts ! i),
               oy_section = parts ! (i - 1), oy_kind = (if length (parts ! 1) = 1 then hd (parts ! 1) else CHR ''?'')\<rparr>))"

definition parse_symbols :: "string \<Rightarrow> objdump_symbol list" where
  "parse_symbols text = filter_map symbol_line (str_lines text)"

definition is_dynamic :: "string \<Rightarrow> bool" where
  "is_dynamic raw_private \<longleftrightarrow> contains_str ''DYNAMIC'' raw_private \<or> contains_str ''dynamic'' raw_private"

section \<open>Generating a report\<close>

datatype file_content = CannotOpen string | CannotRead string | Content "nat list"

record report_world =
  rw_content :: "string \<Rightarrow> file_content"
  rw_size :: "string \<Rightarrow> string + nat"
  rw_exists :: "string \<Rightarrow> bool"
  rw_run :: "command_spec \<Rightarrow> build_error + command_output"
  rw_sha256_hex :: "nat list \<Rightarrow> string"

definition hash_file :: "report_world \<Rightarrow> string \<Rightarrow> build_error + string" where
  "hash_file w path =
     (case rw_content w path of
        CannotOpen e \<Rightarrow> Inl (SpawnErr ''hash'' (''cannot open '' @ path @ '': '' @ e))
      | CannotRead e \<Rightarrow> Inl (SpawnErr ''hash'' (''cannot read '' @ path @ '': '' @ e))
      | Content bytes \<Rightarrow> Inr (rw_sha256_hex w bytes))"

definition file_size :: "report_world \<Rightarrow> string \<Rightarrow> build_error + nat" where
  "file_size w path =
     (case rw_size w path of
        Inl e \<Rightarrow> Inl (SpawnErr ''stat'' (''cannot stat '' @ path @ '': '' @ e))
      | Inr n \<Rightarrow> Inr n)"

definition run_objdump :: "report_world \<Rightarrow> string \<Rightarrow> string \<Rightarrow> string \<Rightarrow> build_error + string" where
  "run_objdump w option tool path =
     (case rw_run w (command_new tool [option, path]) of
        Inl e \<Rightarrow> Inl e
      | Inr out \<Rightarrow> Inr (from_utf8_lossy (co_stdout out)))"

definition run_objdump_sections :: "report_world \<Rightarrow> string \<Rightarrow> string \<Rightarrow> build_error + objdump_section list \<times> string" where
  "run_objdump_sections w tool path =
     (case run_objdump w ''-h'' tool path of Inl e \<Rightarrow> Inl e | Inr raw \<Rightarrow> Inr (parse_sections raw, raw))"

definition run_objdump_symbols :: "report_world \<Rightarrow> string \<Rightarrow> string \<Rightarrow> build_error + objdump_symbol list \<times> string" where
  "run_objdump_symbols w tool path =
     (case run_objdump w ''-t'' tool path of Inl e \<Rightarrow> Inl e | Inr raw \<Rightarrow> Inr (parse_symbols raw, raw))"

definition run_objdump_private_headers :: "report_world \<Rightarrow> string \<Rightarrow> string \<Rightarrow> build_error + string" where
  "run_objdump_private_headers w tool path = run_objdump w ''-p'' tool path"

definition probe_tool_version :: "report_world \<Rightarrow> string \<Rightarrow> string option" where
  "probe_tool_version w tool =
     (case rw_run w (command_new tool [''--version'']) of
        Inl _ \<Rightarrow> None
      | Inr out \<Rightarrow>
          if command_success out
          then (case str_lines (from_utf8_lossy (co_stdout out)) of [] \<Rightarrow> None | l # _ \<Rightarrow> Some (trim l))
          else None)"

definition tool_version_of :: "report_world \<Rightarrow> string \<Rightarrow> tool_version_info option" where
  "tool_version_of w tool = map_option (\<lambda>v. \<lparr>vi_tool = tool, vi_version = v\<rparr>) (probe_tool_version w tool)"

definition artifact_info :: "report_world \<Rightarrow> string \<Rightarrow> string \<Rightarrow> build_error + artifact_file_info" where
  "artifact_info w tool path =
     (case hash_file w path of Inl e \<Rightarrow> Inl e | Inr digest \<Rightarrow>
      case file_size w path of Inl e \<Rightarrow> Inl e | Inr len \<Rightarrow>
      case run_objdump_sections w tool path of Inl e \<Rightarrow> Inl e | Inr (sections, raw_sections) \<Rightarrow>
      case run_objdump_symbols w tool path of Inl e \<Rightarrow> Inl e | Inr (symbols, raw_symbols) \<Rightarrow>
      case run_objdump_private_headers w tool path of Inl e \<Rightarrow> Inl e | Inr raw_private \<Rightarrow>
      Inr \<lparr>af_path = path, af_sha256 = digest, af_size = len, af_sections = sections, af_symbols = symbols,
           af_is_dynamic = is_dynamic raw_private, af_raw_sections = raw_sections, af_raw_symbols = raw_symbols,
           af_raw_private_headers = raw_private\<rparr>)"

definition object_info_of :: "report_world \<Rightarrow> string \<Rightarrow> string option \<Rightarrow> build_error + artifact_file_info option" where
  "object_info_of w tool obj_path =
     (case obj_path of
        Some obj \<Rightarrow>
          if rw_exists w obj
          then (case artifact_info w tool obj of Inl e \<Rightarrow> Inl e | Inr a \<Rightarrow> Inr (Some a))
          else Inr None
      | None \<Rightarrow> Inr None)"

definition report_isolation :: "execution_info \<Rightarrow> string option \<Rightarrow> execution_isolation" where
  "report_isolation execution runner =
     (case execution of
        NotRequestedInfo \<Rightarrow> StaticOnly
      | UnavailableInfo _ \<Rightarrow> StaticOnly
      | _ \<Rightarrow> from_runner runner)"

definition generate_report :: "report_world \<Rightarrow> pipeline \<Rightarrow> string \<Rightarrow> string option \<Rightarrow> string \<Rightarrow> command_record_json list \<Rightarrow>
    execution_info \<Rightarrow> build_error + artifact_report" where
  "generate_report w p source obj_path exe_path command_records execution =
     (let tools = pl_toolchain p in
      case hash_file w source of Inl e \<Rightarrow> Inl e | Inr source_hash \<Rightarrow>
      let tool_versions = filter_map (tool_version_of w)
            ([tc_assembler tools, tc_linker tools, tc_disassembler tools] @
             (case tc_runner tools of Some r \<Rightarrow> [r] | None \<Rightarrow> [])) in
      case object_info_of w (tc_disassembler tools) obj_path of Inl e \<Rightarrow> Inl e | Inr obj \<Rightarrow>
      case artifact_info w (tc_disassembler tools) exe_path of Inl e \<Rightarrow> Inl e | Inr exe \<Rightarrow>
      Inr \<lparr>ap_schema_version = artifact_report_schema_version, ap_target = tname (pl_target p),
           ap_source = \<lparr>so_path = source, so_sha256 = source_hash\<rparr>, ap_tool_versions = tool_versions,
           ap_command_records = command_records, ap_object = obj, ap_executable = exe, ap_execution = execution,
           ap_isolation = report_isolation execution (tc_runner tools)\<rparr>)"

section \<open>The summary for a terminal\<close>

definition line_of :: "string \<Rightarrow> string" where
  "line_of s = s @ [CHR 0x0A]"

fun char_count :: "string \<Rightarrow> nat" where
  "char_count [] = 0"
| "char_count (c # cs) = (if continues cs then 0 else 1) + char_count cs"

definition pad_right :: "nat \<Rightarrow> string \<Rightarrow> string" where
  "pad_right width s = s @ replicate (width - char_count s) (CHR '' '')"

text \<open>\<open>{:#0Nx}\<close>: the width counts the prefix.\<close>

definition padded_hex :: "nat \<Rightarrow> nat \<Rightarrow> string" where
  "padded_hex width n = (let ds = hex_digits n in ''0x'' @ replicate (width - 2 - length ds) (CHR ''0'') @ ds)"

definition capture_notice :: "string \<Rightarrow> capture_info \<Rightarrow> capture_info \<Rightarrow> string" where
  "capture_notice indent out err =
     (if ci_truncated out \<or> ci_truncated err
      then line_of (indent @ ''output truncated: stdout='' @ show_nat (ci_captured_bytes out) @ ''/'' @ show_nat (ci_total_bytes out) @
        '', stderr='' @ show_nat (ci_captured_bytes err) @ ''/'' @ show_nat (ci_total_bytes err) @ '' bytes'')
      else [])"

fun outcome_debug :: "termination_outcome \<Rightarrow> string" where
  "outcome_debug Graceful = ''Graceful''"
| "outcome_debug Forced = ''Forced''"
| "outcome_debug Incomplete = ''Incomplete''"

definition termination_notice :: "string \<Rightarrow> termination_info option \<Rightarrow> string" where
  "termination_notice indent t =
     (case t of
        Some i \<Rightarrow> line_of (indent @ ''termination: '' @ outcome_debug (ti_outcome i) @ '' ('' @ ti_detail i @ '')'')
      | None \<Rightarrow> [])"

definition write_execution :: "execution_info \<Rightarrow> string" where
  "write_execution execution = line_of [] @
     (case execution of
        NotRequestedInfo \<Rightarrow> line_of ''Execution:  not requested''
      | UnavailableInfo reason \<Rightarrow> line_of (''Execution:  unavailable ('' @ reason @ '')'')
      | FailedInfo e \<Rightarrow> line_of (''Execution:  failed ('' @ e @ '')'')
      | SucceededInfo x \<Rightarrow>
          line_of (''Execution:  exit='' @ show_code (xe_exit_code x) @ (if xe_timed_out x then '' (TIMEOUT)'' else [])) @
          capture_notice ''  '' (xe_stdout_capture x) (xe_stderr_capture x) @
          termination_notice ''  '' (xe_termination x) @
          (if xe_stdout x = [] then [] else line_of (''  stdout: '' @ trim (xe_stdout x))) @
          (if xe_stderr x = [] then [] else line_of (''  stderr: '' @ trim (xe_stderr x))))"

definition command_lines :: "(nat \<Rightarrow> string) \<Rightarrow> command_record_json \<Rightarrow> string" where
  "command_lines show_secs c =
     line_of (''  ['' @ (if cj_success c then ''OK  '' else ''FAIL'') @ ''] '' @ cj_command c @ '' ('' @ show_secs (cj_duration c) @
       ''s, exit='' @ show_code (cj_exit_code c) @ '')'') @
     capture_notice (replicate 9 (CHR '' '')) (cj_stdout_capture c) (cj_stderr_capture c) @
     termination_notice (replicate 9 (CHR '' '')) (cj_termination c)"

definition show_bool :: "bool \<Rightarrow> string" where
  "show_bool b = (if b then ''true'' else ''false'')"

definition artifact_lines :: "string \<Rightarrow> artifact_file_info \<Rightarrow> string" where
  "artifact_lines heading a =
     line_of (heading @ af_path a @ ''  ('' @ show_nat (af_size a) @ '' bytes, SHA-256: '' @ af_sha256 a @ '')'') @
     line_of (''  sections:   '' @ show_nat (length (af_sections a))) @
     line_of (''  symbols:    '' @ show_nat (length (af_symbols a))) @
     line_of (''  dynamic:    '' @ show_bool (af_is_dynamic a))"

definition section_lines :: "objdump_section list \<Rightarrow> string" where
  "section_lines ss =
     (if ss = [] then []
      else line_of [] @ line_of ''  Section headers:'' @
        concat (map (\<lambda>s. line_of (''    '' @ pad_right 16 (os_name s) @ '' size='' @ padded_hex 8 (os_size s) @ '' vma='' @
          padded_hex 10 (os_vma s) @ '' '' @ os_flags s)) ss))"

definition symbol_lines :: "objdump_symbol list \<Rightarrow> string" where
  "symbol_lines ys =
     (if ys = [] then []
      else line_of [] @ line_of ''  Symbols:'' @
        concat (map (\<lambda>y. line_of (''    '' @ pad_right 24 (oy_name y) @ '' addr='' @ padded_hex 10 (oy_address y) @ '' size='' @
          padded_hex 6 (oy_size y) @ ''  '' @ oy_section y)) ys))"

definition to_terminal :: "(nat \<Rightarrow> string) \<Rightarrow> artifact_report \<Rightarrow> string" where
  "to_terminal show_secs r = concat
     [line_of ''=== Artifact Report ==='',
      line_of (''Schema:      '' @ ap_schema_version r),
      line_of (''Target:      '' @ ap_target r),
      line_of (''Isolation:  '' @ isolation_as_str (ap_isolation r)),
      line_of [],
      line_of (''Source:  '' @ so_path (ap_source r) @ ''  (SHA-256: '' @ so_sha256 (ap_source r) @ '')''),
      line_of [], line_of ''Tools:'',
      concat (map (\<lambda>t. line_of (''  '' @ pad_right 20 (vi_tool t) @ '' '' @ vi_version t)) (ap_tool_versions r)),
      line_of [], line_of ''Commands:'',
      concat (map (command_lines show_secs) (ap_command_records r)),
      (case ap_object r of Some a \<Rightarrow> line_of [] @ artifact_lines ''Object:  '' a | None \<Rightarrow> []),
      line_of [], artifact_lines ''Executable:  '' (ap_executable r),
      section_lines (af_sections (ap_executable r)),
      symbol_lines (af_symbols (ap_executable r)),
      write_execution (ap_execution r)]"

section \<open>What the evidence depends on\<close>

text \<open>The evidence of two artifacts, commands and executions agrees.\<close>

definition same_artifact :: "artifact_file_info \<Rightarrow> artifact_file_info \<Rightarrow> bool" where
  "same_artifact a b \<longleftrightarrow>
     af_sha256 a = af_sha256 b \<and> af_size a = af_size b \<and> af_is_dynamic a = af_is_dynamic b \<and>
     mset (map section_row (af_sections a)) = mset (map section_row (af_sections b)) \<and>
     mset (map symbol_row (af_symbols a)) = mset (map symbol_row (af_symbols b))"

definition same_command :: "bool \<Rightarrow> artifact_report \<Rightarrow> artifact_report \<Rightarrow> command_record_json \<Rightarrow> command_record_json \<Rightarrow> bool" where
  "same_command windows a b x y \<longleftrightarrow>
     cj_label x = cj_label y \<and> normalized_program windows (cj_program x) = normalized_program windows (cj_program y) \<and>
     list_all2 (\<lambda>u v. normalize_command_component u (logical_paths_of a) = normalize_command_component v (logical_paths_of b))
       (cj_arguments x) (cj_arguments y) \<and>
     cj_exit_code x = cj_exit_code y \<and> cj_timed_out x = cj_timed_out y \<and> cj_success x = cj_success y"

definition same_evidence :: "bool \<Rightarrow> artifact_report \<Rightarrow> artifact_report \<Rightarrow> bool" where
  "same_evidence windows a b \<longleftrightarrow>
     ap_schema_version a = ap_schema_version b \<and> ap_target a = ap_target b \<and>
     so_sha256 (ap_source a) = so_sha256 (ap_source b) \<and>
     mset (map (\<lambda>t. (vi_tool t, vi_version t)) (ap_tool_versions a)) = mset (map (\<lambda>t. (vi_tool t, vi_version t)) (ap_tool_versions b)) \<and>
     list_all2 (same_command windows a b) (ap_command_records a) (ap_command_records b) \<and>
     rel_option same_artifact (ap_object a) (ap_object b) \<and> same_artifact (ap_executable a) (ap_executable b) \<and>
     canonical_execution_of (ap_execution a) = canonical_execution_of (ap_execution b)"

lemma sort_eq_iff: "sort xs = sort ys \<longleftrightarrow> mset xs = mset ys"
proof
  assume "sort xs = sort ys"
  then show "mset xs = mset ys" by (metis mset_sort)
qed (metis properties_for_sort sorted_sort mset_sort)

lemma map_eq_list_all2: "map f xs = map g ys \<longleftrightarrow> list_all2 (\<lambda>x y. f x = g y) xs ys"
  by (auto simp: list_all2_conv_all_nth list_eq_iff_nth_eq)

lemma canonical_artifact_same: "canonical_artifact_of a = canonical_artifact_of b \<longleftrightarrow> same_artifact a b"
  by (auto simp: canonical_artifact_of_def same_artifact_def sort_eq_iff)

lemma canonical_command_same:
  "canonical_command_of windows (logical_paths_of a) x = canonical_command_of windows (logical_paths_of b) y \<longleftrightarrow>
   same_command windows a b x y"
  by (auto simp: canonical_command_of_def same_command_def map_eq_list_all2)

lemma canonical_object_same: "map_option canonical_artifact_of x = map_option canonical_artifact_of y \<longleftrightarrow> rel_option same_artifact x y"
  by (cases x; cases y) (simp_all add: canonical_artifact_same)

text \<open>What two reports with the same canonical evidence agree on: schema, target and source digest, the tools in
  any order, the artifacts up to the order of their sections and symbols, and, command by command, the label, the
  normalised program and arguments and the outcome. The normalisation is the program's own; a path of the report enters
  through it, and not always as the placeholder it stands for (\<open>object_path_split\<close> below).\<close>

lemma evidence_same: "canonical_evidence windows a = canonical_evidence windows b \<longleftrightarrow> same_evidence windows a b"
  by (simp add: canonical_evidence_def same_evidence_def sort_eq_iff map_eq_list_all2 canonical_command_same
      canonical_object_same canonical_artifact_same)

section \<open>Schemas\<close>

lemma supported_schema: "parse_schema_version artifact_report_schema_version = Inr (0, 4)"
  by (simp add: parse_schema_version_def artifact_report_schema_version_def split_once_def parse_unsigned_def unsigned_of_def
      strip_prefix_def is_ascii_digit_def hex_value_def u64_max_def Let_def)

lemma schema_checked:
  "check_report_schema_compatibility_with_options document opt_in = Inr c \<longleftrightarrow>
   (\<exists>version minor. document = Inr (Some version) \<and> parse_schema_version version = Inr (0, minor) \<and>
      (minor \<le> 4 \<or> opt_in) \<and> c = (if minor < 4 then CompatibleOlder else if minor = 4 then Current else ForwardOptIn))"
proof (cases "\<exists>version. document = Inr (Some version)")
  case True
  then obtain version where d: "document = Inr (Some version)" by blast
  show ?thesis
  proof (cases "parse_schema_version version")
    case (Inr actual)
    obtain major minor where v: "actual = (major, minor)" by (cases actual)
    have "check_report_schema_compatibility_with_options document opt_in =
        (if major \<noteq> 0 then Inl (unsupported_schema version)
         else if 4 < minor then (if opt_in then Inr ForwardOptIn else Inl (unsupported_schema version))
         else if minor = 4 then Inr Current else Inr CompatibleOlder)"
      using d Inr v by (simp add: check_report_schema_compatibility_with_options_def supported_schema)
    then show ?thesis using d Inr v by (auto split: if_splits)
  qed (use d in \<open>simp add: check_report_schema_compatibility_with_options_def\<close>)
next
  case False
  then show ?thesis
    by (cases document) (auto simp: check_report_schema_compatibility_with_options_def split: option.split)
qed

text \<open>A report is readable exactly when its schema is of the major line 0 and its minor revision at most 4, or
  newer with an explicit opt-in; the verdict names which.\<close>

theorem schema_accepted_exact:
  "check_report_schema_compatibility_with_options document opt_in = Inr c \<longleftrightarrow>
   (\<exists>version minor. document = Inr (Some version) \<and> parse_schema_version version = Inr (0, minor) \<and>
      (minor \<le> 4 \<or> opt_in) \<and> c = (if minor < 4 then CompatibleOlder else if minor = 4 then Current else ForwardOptIn))"
  by (rule schema_checked)

section \<open>Where the report is not what it says\<close>

text \<open>An executable path that is a prefix of the object's path is replaced inside it.\<close>

lemma object_path_split:
  "normalize_command_component ''build/add.o''
     [(''add.asm'', ''$SOURCE''), (''build/add'', ''$EXECUTABLE''), (''build/add.o'', ''$OBJECT'')] = ''$EXECUTABLE.o''"
  by code_simp

text \<open>In the layout GNU \<open>objdump\<close> prints, the flags hold the load address and the kind holds the visibility.\<close>

lemma gnu_section_flags:
  "map os_flags (parse_sections (''Idx Name Size VMA LMA'' @ CHR 0x0A #
     ''  0 .text 0000002a 00000010 00000010 00001000 2**4'')) = [''00000010'']"
  by code_simp

lemma gnu_symbol_kind:
  "map (\<lambda>y. (oy_name y, oy_section y, oy_kind y)) (parse_symbols ''00000010 g F .text 00000002 _start'') =
     [(''_start'', ''.text'', CHR ''g'')]"
  by code_simp

text \<open>A file whose name contains the word is called dynamic, since \<open>objdump\<close> prints the name.\<close>

lemma dynamic_by_name: "is_dynamic ''dynamic_array.o: file format elf64-x86-64''"
  by code_simp

text \<open>The outcome of \<open>objdump\<close> is not looked at: a run that failed or was killed gives the sections of whatever it
  had printed.\<close>

lemma objdump_failure_ignored:
  "rw_run w (command_new tool [''-h'', path]) = Inr out \<Longrightarrow>
   run_objdump_sections w tool path = Inr (parse_sections (from_utf8_lossy (co_stdout out)), from_utf8_lossy (co_stdout out))"
  by (simp add: run_objdump_sections_def run_objdump_def)

end
