(* ===== verification/Inspect.thy ===== *)
theory Inspect imports Agent_Verify X86_Analysis begin

text \<open>
  The inspection commands: \<open>semasm-cli/src/inspect.rs\<close> and the report views of \<open>output.rs\<close>. Each reads a raw
  blob, decodes it, lowers it, runs one analysis and prints a report; the exit status is the verdict. A command
  is a function of the file and the disassemblers to its two output streams and its exit status; the JSON
  printer of each report is an argument.
\<close>

record cli_result =
  cl_stdout :: string
  cl_stderr :: string
  cl_exit :: nat

datatype output_format = OutTerminal | OutJson

definition fail_with :: "nat \<Rightarrow> string \<Rightarrow> cli_result" where
  "fail_with code message = \<lparr>cl_stdout = [], cl_stderr = message @ [CHR 0x0A], cl_exit = code\<rparr>"

definition text_line :: "string \<Rightarrow> string" where
  "text_line s = s @ [CHR 0x0A]"

section \<open>Targets and bases\<close>

definition resolve_inspect_target :: "string option \<Rightarrow> string + target_identity" where
  "resolve_inspect_target target =
     (case parse_known (case target of Some t \<Rightarrow> t | None \<Rightarrow> ''x86_64-unknown-linux-gnu'') of
        Inl e \<Rightarrow> Inl (error_to_string e)
      | Inr t \<Rightarrow> Inr t)"

fun decode_raw_for_isa :: "tooling \<Rightarrow> nat list \<Rightarrow> nat \<Rightarrow> isa \<Rightarrow> decode_error + physical_instruction list" where
  "decode_raw_for_isa tk code base X86_64 = decode_x86_64 (tl_x86_64 tk) code base"
| "decode_raw_for_isa tk code base AArch64 = decode_aarch64 (tl_aarch64 tk) code base"
| "decode_raw_for_isa tk code base Riscv64 = decode_riscv64 (tl_riscv64 tk) code base"
| "decode_raw_for_isa tk code base Riscv32 =
     Inl (DecUnsupported ''riscv32 raw-blob inspect is not supported; use riscv64gc-unknown-linux-gnu'')"

fun isa_label :: "isa \<Rightarrow> string" where
  "isa_label X86_64 = ''x86-64''"
| "isa_label AArch64 = ''AArch64''"
| "isa_label Riscv64 = ''RISC-V 64''"
| "isa_label Riscv32 = ''RISC-V 32''"

fun decode_feature_hint :: "isa \<Rightarrow> string" where
  "decode_feature_hint X86_64 = ''x86-64''"
| "decode_feature_hint AArch64 = ''AArch64''"
| "decode_feature_hint _ = ''RISC-V''"

text \<open>\<open>why\<close> prints the integer parser's error.\<close>

definition parse_base :: "(string \<Rightarrow> string) \<Rightarrow> string \<Rightarrow> string + nat" where
  "parse_base why s =
     (let trimmed = trim s;
          hex = (case strip_prefix ''0x'' trimmed of Some h \<Rightarrow> Some h | None \<Rightarrow> strip_prefix ''0X'' trimmed) in
      case hex of
        Some h \<Rightarrow>
          (case parse_unsigned 16 u64_max h of
             Some n \<Rightarrow> Inr n | None \<Rightarrow> Inl (''invalid hex base `'' @ s @ ''`: '' @ why h))
      | None \<Rightarrow>
          (case parse_unsigned 10 u64_max trimmed of
             Some n \<Rightarrow> Inr n | None \<Rightarrow> Inl (''invalid base `'' @ s @ ''`: '' @ why trimmed)))"

section \<open>Reading and decoding\<close>

definition is_printable :: "nat \<Rightarrow> bool" where
  "is_printable b \<longleftrightarrow> 0x21 \<le> b \<and> b \<le> 0x7E \<or> b \<in> {0x20, 0x09, 0x0D, 0x0A}"

text \<open>The text on stderr, and whether the input is refused.\<close>

definition check_raw_blob_input :: "string \<Rightarrow> nat list \<Rightarrow> nat \<Rightarrow> string \<Rightarrow> string \<times> bool" where
  "check_raw_blob_input path code decoded isa_name =
     (let printable = length (filter is_printable code);
          warning = (if code \<noteq> [] \<and> 95 \<le> printable * 100 div length code
            then text_line (path @ '': warning: input is almost entirely printable text; '' @
              ''this command expects a raw '' @ isa_name @ '' machine-code blob '' @ ''(assembly source must be assembled first)'')
            else []) in
      if decoded = 0
      then (warning @ text_line (path @ '': error: no '' @ isa_name @ '' instructions decoded; refusing a vacuous ABI pass '' @
             ''(expected a raw '' @ isa_name @ '' machine-code blob)''), True)
      else (warning, False))"

definition read_failed :: "string \<Rightarrow> string \<Rightarrow> cli_result" where
  "read_failed path e = fail_with 1 (path @ '': error: failed to read file: '' @ e)"

definition decode_failed :: "string \<Rightarrow> decode_error \<Rightarrow> cli_result" where
  "decode_failed hint e =
     (case e of
        DecUnsupported _ \<Rightarrow> fail_with 1 (''error: '' @ hint @ '' decoding is not compiled into this build; '' @
          ''rebuild `semasm-cli` with the `capstone` feature'')
      | _ \<Rightarrow> fail_with 1 (''error: '' @ decode_error_to_string e))"

definition printed :: "output_format \<Rightarrow> string + string \<Rightarrow> string \<Rightarrow> cli_result" where
  "printed fmt json text =
     (case fmt of
        OutJson \<Rightarrow>
          (case json of
             Inr s \<Rightarrow> \<lparr>cl_stdout = text_line s, cl_stderr = [], cl_exit = 0\<rparr>
           | Inl e \<Rightarrow> fail_with 1 (''failed to serialize JSON: '' @ e))
      | OutTerminal \<Rightarrow> \<lparr>cl_stdout = text, cl_stderr = [], cl_exit = 0\<rparr>)"

definition insn_display :: "physical_instruction \<Rightarrow> string" where
  "insn_display p =
     show_hex (pi_address p) @ '': '' @ pi_mnemonic p @
     (if pi_operands p = [] then [] else '' '' @ join_with '', '' (pi_operands p))"

definition decode_text_line :: "physical_instruction \<Rightarrow> string" where
  "decode_text_line p = text_line (insn_display p @
     (if pi_detail_available p
      then (if pi_read_regs p = [] then [] else ''  ; r:'' @ join_with ''/'' (pi_read_regs p)) @
           (if pi_write_regs p = [] then [] else ''  w:'' @ join_with ''/'' (pi_write_regs p)) @
           (if pi_groups p = [] then [] else ''  ['' @ join_with ''/'' (pi_groups p) @ '']'')
      else []))"

text \<open>The steps \<open>decode\<close>, \<open>cfg\<close> and \<open>analyze\<close> share: the target, the file, the instructions.\<close>

definition inspected :: "tooling \<Rightarrow> file_read \<Rightarrow> nat \<Rightarrow> target_identity \<Rightarrow> cli_result + physical_instruction list" where
  "inspected tk f base identity =
     (case fr_content f of
        Inl e \<Rightarrow> Inl (read_failed (fr_path f) e)
      | Inr code \<Rightarrow>
          (case decode_raw_for_isa tk code base (tisa identity) of
             Inl e \<Rightarrow> Inl (decode_failed (decode_feature_hint (tisa identity)) e)
           | Inr instrs \<Rightarrow> Inr instrs))"

definition do_decode_inspect :: "(physical_instruction list \<Rightarrow> string + string) \<Rightarrow> tooling \<Rightarrow> file_read \<Rightarrow> nat \<Rightarrow>
    output_format \<Rightarrow> string option \<Rightarrow> cli_result" where
  "do_decode_inspect to_json tk f base fmt target =
     (case resolve_inspect_target target of
        Inl e \<Rightarrow> fail_with 2 (''error: '' @ e)
      | Inr identity \<Rightarrow>
          (case inspected tk f base identity of
             Inl r \<Rightarrow> r
           | Inr instrs \<Rightarrow> printed fmt (to_json instrs)
               ((if instrs = [] then text_line ''(no instructions decoded)'' else []) @ concat (map decode_text_line instrs))))"

fun edge_kind_debug :: "edge_kind \<Rightarrow> string" where
  "edge_kind_debug KFallthrough = ''Fallthrough''"
| "edge_kind_debug KJump = ''Jump''"
| "edge_kind_debug KConditionalTaken = ''ConditionalTaken''"
| "edge_kind_debug KCall = ''Call''"
| "edge_kind_debug KReturn = ''Return''"

definition option_debug :: "nat option \<Rightarrow> string" where
  "option_debug n = (case n of Some k \<Rightarrow> ''Some('' @ show_nat k @ '')'' | None \<Rightarrow> ''None'')"

fun block_end_debug :: "block_end \<Rightarrow> string" where
  "block_end_debug EndFallthrough = ''Fallthrough''"
| "block_end_debug (UnconditionalBranch t a) =
     ''UnconditionalBranch { target: '' @ option_debug t @ '', address: '' @ show_nat a @ '' }''"
| "block_end_debug (ConditionalBranch t a) =
     ''ConditionalBranch { taken: '' @ option_debug t @ '', taken_address: '' @ show_nat a @ '' }''"
| "block_end_debug (EndCall t a) = ''Call { target: '' @ option_debug t @ '', address: '' @ option_debug a @ '' }''"
| "block_end_debug EndReturn = ''Return''"
| "block_end_debug EndIndirect = ''Indirect''"
| "block_end_debug EndUnknown = ''Unknown''"

definition edge_line :: "edge \<Rightarrow> string" where
  "edge_line e =
     text_line (''    -> '' @ (case e_to e of Some t \<Rightarrow> ''block '' @ show_nat t | None \<Rightarrow> ''?'') @ '' ('' @ edge_kind_debug (e_kind e) @ '')'')"

definition block_lines :: "block \<Rightarrow> string" where
  "block_lines b =
     text_line (''block '' @ show_nat (b_index b) @ '' ['' @ show_hex (b_start_address b) @ ''..'' @ show_hex (b_end_address b) @
       ''] (instr '' @ show_nat (b_start_instruction b) @ ''..'' @ show_nat (b_end_instruction b) @ ''): end='' @
       block_end_debug (b_end b)) @
     concat (map edge_line (b_successors b))"

text \<open>The entry block and the search index into the blocks; out of range they panic.\<close>

definition cfg_to_terminal :: "control_flow_graph \<Rightarrow> string option" where
  "cfg_to_terminal g =
     (case unreachable_blocks g of
        None \<Rightarrow> None
      | Some unreachable \<Rightarrow> Some
          (text_line (''entry: block '' @ show_nat (g_entry_block g) @ '' @ '' @ show_hex (b_start_address (g_blocks g ! g_entry_block g))) @
           text_line (''blocks: '' @ show_nat (length (g_blocks g))) @
           text_line (''unreachable: '' @ show_nat (length unreachable)) @
           concat (map block_lines (sort_key b_start_address (g_blocks g))) @
           CHR 0x0A # ''unreachable blocks:'' @
           (if unreachable = [] then text_line '' none''
            else text_line (concat (map (\<lambda>u. '' '' @ show_nat u) unreachable)))))"

definition do_cfg_inspect :: "(control_flow_graph \<Rightarrow> string + string) \<Rightarrow> tooling \<Rightarrow> file_read \<Rightarrow> nat \<Rightarrow> output_format \<Rightarrow>
    string option \<Rightarrow> cli_result option" where
  "do_cfg_inspect to_json tk f base fmt target =
     (case resolve_inspect_target target of
        Inl e \<Rightarrow> Some (fail_with 2 (''error: '' @ e))
      | Inr identity \<Rightarrow>
          (case inspected tk f base identity of
             Inl r \<Rightarrow> Some r
           | Inr instrs \<Rightarrow>
               (case build instrs of
                  Inl EmptyInput \<Rightarrow> Some (fail_with 1 ''error: cannot build a CFG from zero instructions'')
                | Inr graph \<Rightarrow>
                    if fmt = OutJson then Some (printed fmt (to_json graph) [])
                    else map_option (printed fmt (to_json graph)) (cfg_to_terminal graph))))"

section \<open>Lowering with evidence\<close>

record unsupported_insn =
  ui_address :: nat
  ui_bytes :: "nat list"
  ui_mnemonic :: string
  ui_operands :: "string list"

definition unsupported_instruction :: "physical_instruction \<Rightarrow> string \<Rightarrow> unsupported_insn" where
  "unsupported_instruction p mnemonic =
     \<lparr>ui_address = pi_address p, ui_bytes = pi_bytes p, ui_mnemonic = mnemonic, ui_operands = pi_operands p\<rparr>"

text \<open>The two loops differ in the lowering they call.\<close>

definition evidence_step :: "(physical_instruction \<Rightarrow> string + 'l) \<Rightarrow> physical_instruction \<Rightarrow>
    'l list \<times> unsupported_insn list \<Rightarrow> 'l list \<times> unsupported_insn list" where
  "evidence_step low p acc =
     (case low p of
        Inr l \<Rightarrow> (fst acc @ [l], snd acc)
      | Inl mnemonic \<Rightarrow> (fst acc, snd acc @ [unsupported_instruction p mnemonic]))"

definition lower_x86_with_evidence :: "physical_instruction list \<Rightarrow> lowered_instr list \<times> unsupported_insn list" where
  "lower_x86_with_evidence instructions =
     fold (evidence_step (\<lambda>p. case lower p of Lowered l \<Rightarrow> Inr l | Unsupported m \<Rightarrow> Inl m)) instructions ([], [])"

definition lower_aarch64_with_evidence :: "physical_instruction list \<Rightarrow> a64_instr list \<times> unsupported_insn list" where
  "lower_aarch64_with_evidence instructions =
     fold (evidence_step (\<lambda>p. case a64_lower p of ALowered l \<Rightarrow> Inr l | AUnsupported m \<Rightarrow> Inl m)) instructions ([], [])"

definition hex_byte :: "nat \<Rightarrow> string" where
  "hex_byte b = (if b < 16 then CHR ''0'' # hex_digits b else hex_digits b)"

definition print_incomplete_terminal :: "unsupported_insn list \<Rightarrow> bool \<Rightarrow> string" where
  "print_incomplete_terminal unsupported allow_incomplete =
     text_line (''instructions unsupported: '' @ show_nat (length unsupported)) @
     concat (map (\<lambda>u. text_line (''[ANALYSIS_INCOMPLETE] '' @ show_hex (ui_address u) @ '': '' @ ui_mnemonic u @ '' '' @
       join_with '', '' (ui_operands u) @ '' (bytes: ['' @ join_with '', '' (map hex_byte (ui_bytes u)) @ ''])'')) unsupported) @
     (if unsupported \<noteq> [] \<and> allow_incomplete
      then text_line ''incomplete analysis explicitly allowed by --allow-incomplete'' else [])"

definition analysis_exit_code :: "bool \<Rightarrow> bool \<Rightarrow> bool \<Rightarrow> nat" where
  "analysis_exit_code accepted complete allow_incomplete = (if accepted \<and> (complete \<or> allow_incomplete) then 0 else 1)"

definition analysis_status_str :: "unsupported_insn list \<Rightarrow> string" where
  "analysis_status_str unsupported = (if unsupported = [] then ''complete'' else ''incomplete'')"

section \<open>Report views\<close>

record json_finding =
  jf_code :: string
  jf_severity :: string
  jf_at :: "nat option"
  jf_message :: string

record json_sysv_report =
  jr_instructions_decoded :: nat
  jr_instructions_lowered :: nat
  jr_status :: string
  jr_unsupported :: "unsupported_insn list"
  jr_is_leaf :: bool
  jr_has_syscall :: bool
  jr_final_rsp_delta :: int
  jr_call_site_count :: nat
  jr_max_red_zone_disp :: int
  jr_clean :: bool
  jr_findings :: "json_finding list"

definition sysv_json_finding :: "abi_finding \<Rightarrow> json_finding" where
  "sysv_json_finding f =
     \<lparr>jf_code = sysv_code (af_code f), jf_severity = severity_str (af_severity f), jf_at = af_at f,
      jf_message = sysv_message (af_code f) (af_at f)\<rparr>"

definition json_abi_report :: "abi_report \<Rightarrow> nat \<Rightarrow> nat \<Rightarrow> unsupported_insn list \<Rightarrow> json_sysv_report" where
  "json_abi_report r decoded_count lowered_count unsupported =
     \<lparr>jr_instructions_decoded = decoded_count, jr_instructions_lowered = lowered_count,
      jr_status = analysis_status_str unsupported, jr_unsupported = unsupported, jr_is_leaf = abr_is_leaf r,
      jr_has_syscall = abr_has_syscall r, jr_final_rsp_delta = abr_final_rsp_delta r,
      jr_call_site_count = length (abr_call_sites r), jr_max_red_zone_disp = min (abr_max_red_zone_disp r) 0,
      jr_clean = (is_clean r \<and> unsupported = []), jr_findings = map sysv_json_finding (abr_findings r)\<rparr>"

record json_win64_report =
  jw_instructions_decoded :: nat
  jw_instructions_lowered :: nat
  jw_status :: string
  jw_unsupported :: "unsupported_insn list"
  jw_is_leaf :: bool
  jw_final_rsp_delta :: int
  jw_call_site_count :: nat
  jw_max_below_rsp_disp :: int
  jw_clean :: bool
  jw_findings :: "json_finding list"

definition win_json_finding :: "win_finding \<Rightarrow> json_finding" where
  "win_json_finding f =
     \<lparr>jf_code = win_code_str (wf_code f), jf_severity = severity_str (wf_severity f), jf_at = wf_at f,
      jf_message = win_message (wf_code f) (wf_at f)\<rparr>"

definition json_win64_abi_report :: "win_report \<Rightarrow> nat \<Rightarrow> nat \<Rightarrow> unsupported_insn list \<Rightarrow> json_win64_report" where
  "json_win64_abi_report r decoded_count lowered_count unsupported =
     \<lparr>jw_instructions_decoded = decoded_count, jw_instructions_lowered = lowered_count,
      jw_status = analysis_status_str unsupported, jw_unsupported = unsupported, jw_is_leaf = wr_is_leaf r,
      jw_final_rsp_delta = wr_final_rsp_delta r, jw_call_site_count = length (wr_call_sites r),
      jw_max_below_rsp_disp = min (wr_max_red_zone_disp r) 0, jw_clean = (win_is_clean r \<and> unsupported = []),
      jw_findings = map win_json_finding (wr_findings r)\<rparr>"

record json_aarch64_report =
  ja_instructions_decoded :: nat
  ja_instructions_lowered :: nat
  ja_status :: string
  ja_unsupported :: "unsupported_insn list"
  ja_is_leaf :: bool
  ja_final_sp_delta :: int
  ja_call_site_count :: nat
  ja_clean :: bool
  ja_findings :: "json_finding list"

definition a64_json_finding :: "a64_finding \<Rightarrow> json_finding" where
  "a64_json_finding f =
     \<lparr>jf_code = a64_code_str (a64f_code f), jf_severity = severity_str (a64f_severity f), jf_at = a64f_at f,
      jf_message = a64_message (a64f_code f) (a64f_at f)\<rparr>"

definition json_aarch64_abi_report :: "a64_report \<Rightarrow> nat \<Rightarrow> nat \<Rightarrow> unsupported_insn list \<Rightarrow> json_aarch64_report" where
  "json_aarch64_abi_report r decoded_count lowered_count unsupported =
     \<lparr>ja_instructions_decoded = decoded_count, ja_instructions_lowered = lowered_count,
      ja_status = analysis_status_str unsupported, ja_unsupported = unsupported, ja_is_leaf = a64r_is_leaf r,
      ja_final_sp_delta = a64r_final_sp_delta r, ja_call_site_count = length (a64r_call_sites r),
      ja_clean = (a64_is_clean r \<and> unsupported = []), ja_findings = map a64_json_finding (a64r_findings r)\<rparr>"

section \<open>The ABI commands\<close>

text \<open>The frame the three commands share: read, decode, refuse what decoded to nothing, and turn the printed
  report into an exit status.\<close>

definition with_blob :: "file_read \<Rightarrow> (nat list \<Rightarrow> decode_error + physical_instruction list) \<Rightarrow> string \<Rightarrow>
    (physical_instruction list \<Rightarrow> cli_result) \<Rightarrow> cli_result" where
  "with_blob f decoder label run =
     (case fr_content f of
        Inl e \<Rightarrow> read_failed (fr_path f) e
      | Inr code \<Rightarrow>
          (case decoder code of
             Inl e \<Rightarrow> decode_failed label e
           | Inr instrs \<Rightarrow>
               (let (err, refused) = check_raw_blob_input (fr_path f) code (length instrs) label in
                if refused then \<lparr>cl_stdout = [], cl_stderr = err, cl_exit = 1\<rparr>
                else let r = run instrs in r\<lparr>cl_stderr := err @ cl_stderr r\<rparr>)))"

definition judged_output :: "cli_result \<Rightarrow> nat \<Rightarrow> cli_result" where
  "judged_output r code = (if cl_exit r = 0 then r\<lparr>cl_exit := code\<rparr> else r)"

fun severity_tag :: "severity \<Rightarrow> string" where
  "severity_tag SevError = ''ERROR  ''"
| "severity_tag SevWarning = ''warning''"
| "severity_tag SevInfo = ''info   ''"

definition where_text :: "nat option \<Rightarrow> string" where
  "where_text at = (case at of Some i \<Rightarrow> '' @'' @ show_nat i | None \<Rightarrow> [])"

text \<open>The first view prints the tag in brackets, the others print it after the severity.\<close>

definition tagged_finding :: "severity \<Rightarrow> json_finding \<Rightarrow> string" where
  "tagged_finding sev f =
     text_line (''['' @ severity_tag sev @ ''] '' @ jf_code f @ '' ('' @ jf_severity f @ where_text (jf_at f) @ '')'') @
     text_line (''        '' @ jf_message f)"

definition coded_finding :: "severity \<Rightarrow> json_finding \<Rightarrow> string" where
  "coded_finding sev f =
     text_line (''['' @ jf_code f @ ''] '' @ jf_severity f @ '' ('' @ severity_tag sev @ where_text (jf_at f) @ '')'') @
     text_line (''        '' @ jf_message f)"

definition em_dash :: string where
  "em_dash = [CHR 0xE2, CHR 0x80, CHR 0x94]"

definition check_mark :: string where
  "check_mark = [CHR 0xE2, CHR 0x9C, CHR 0x93]"

definition counts_text :: "physical_instruction list \<Rightarrow> 'l list \<Rightarrow> unsupported_insn list \<Rightarrow> bool \<Rightarrow> string" where
  "counts_text instrs lowered unsupported allow_incomplete =
     text_line (''instructions decoded: '' @ show_nat (length instrs)) @
     text_line (''instructions lowered: '' @ show_nat (length lowered)) @
     print_incomplete_terminal unsupported allow_incomplete"

definition bool_text :: "bool \<Rightarrow> string" where
  "bool_text b = (if b then ''true'' else ''false'')"

definition sysv_text :: "abi_report \<Rightarrow> unsupported_insn list \<Rightarrow> string" where
  "sysv_text r unsupported =
     text_line (''leaf function:       '' @ bool_text (abr_is_leaf r)) @
     text_line (''contains syscall:    '' @ bool_text (abr_has_syscall r)) @
     text_line (''final RSP delta:    '' @ show_int (abr_final_rsp_delta r)) @
     text_line (''call sites:          '' @ show_nat (length (abr_call_sites r))) @
     text_line (''max red-zone disp:   '' @ show_int (if abr_max_red_zone_disp r < 0 then abr_max_red_zone_disp r else 0)) @
     text_line [] @
     (if abr_findings r = [] \<and> unsupported = []
      then text_line (''ABI: clean '' @ em_dash @ '' no System V AMD64 violations detected '' @ check_mark)
      else concat (map (\<lambda>f. tagged_finding (af_severity f) (sysv_json_finding f)) (abr_findings r)))"

definition win64_text :: "win_report \<Rightarrow> unsupported_insn list \<Rightarrow> string" where
  "win64_text r unsupported =
     text_line (''leaf function:       '' @ bool_text (wr_is_leaf r)) @
     text_line (''final RSP delta:    '' @ show_int (wr_final_rsp_delta r)) @
     text_line (''call sites:          '' @ show_nat (length (wr_call_sites r))) @
     text_line (''max below-RSP disp:  '' @ show_int (if wr_max_red_zone_disp r < 0 then wr_max_red_zone_disp r else 0)) @
     text_line [] @
     (if wr_findings r = [] \<and> unsupported = []
      then text_line (''WIN64 ABI: clean '' @ em_dash @ '' no Microsoft x64 violations detected'')
      else concat (map (\<lambda>f. coded_finding (wf_severity f) (win_json_finding f)) (wr_findings r)))"

definition a64_text :: "a64_report \<Rightarrow> unsupported_insn list \<Rightarrow> string" where
  "a64_text r unsupported =
     text_line (''leaf function:       '' @ bool_text (a64r_is_leaf r)) @
     text_line (''final SP delta:      '' @ show_int (a64r_final_sp_delta r)) @
     text_line (''call sites:          '' @ show_nat (length (a64r_call_sites r))) @
     text_line [] @
     (if a64r_findings r = [] \<and> unsupported = []
      then text_line (''AAPCS64 ABI: clean '' @ em_dash @ '' no AArch64 violations detected'')
      else concat (map (\<lambda>f. coded_finding (a64f_severity f) (a64_json_finding f)) (a64r_findings r)))"

definition do_abi_inspect :: "(json_sysv_report \<Rightarrow> string + string) \<Rightarrow> tooling \<Rightarrow> file_read \<Rightarrow> nat \<Rightarrow> output_format \<Rightarrow> bool \<Rightarrow>
    cli_result" where
  "do_abi_inspect to_json tk f base fmt allow_incomplete =
     with_blob f (\<lambda>code. decode_x86_64 (tl_x86_64 tk) code base) ''x86-64'' (\<lambda>instrs.
       let (lowered, unsupported) = lower_x86_with_evidence instrs; report = analyze lowered in
       judged_output
         (printed fmt (to_json (json_abi_report report (length instrs) (length lowered) unsupported))
           (counts_text instrs lowered unsupported allow_incomplete @ sysv_text report unsupported))
         (analysis_exit_code (is_clean report) (unsupported = []) allow_incomplete))"

definition do_win64_abi_inspect :: "(json_win64_report \<Rightarrow> string + string) \<Rightarrow> tooling \<Rightarrow> file_read \<Rightarrow> nat \<Rightarrow> output_format \<Rightarrow>
    bool \<Rightarrow> cli_result" where
  "do_win64_abi_inspect to_json tk f base fmt allow_incomplete =
     with_blob f (\<lambda>code. decode_x86_64 (tl_x86_64 tk) code base) ''x86-64'' (\<lambda>instrs.
       let (lowered, unsupported) = lower_x86_with_evidence instrs; report = win_analyze lowered in
       judged_output
         (printed fmt (to_json (json_win64_abi_report report (length instrs) (length lowered) unsupported))
           (counts_text instrs lowered unsupported allow_incomplete @ win64_text report unsupported))
         (analysis_exit_code (win_is_clean report) (unsupported = []) allow_incomplete))"

definition do_aarch64_abi_inspect :: "(json_aarch64_report \<Rightarrow> string + string) \<Rightarrow> tooling \<Rightarrow> file_read \<Rightarrow> nat \<Rightarrow> output_format \<Rightarrow>
    bool \<Rightarrow> cli_result" where
  "do_aarch64_abi_inspect to_json tk f base fmt allow_incomplete =
     with_blob f (\<lambda>code. decode_aarch64 (tl_aarch64 tk) code base) ''AArch64'' (\<lambda>instrs.
       let (lowered, unsupported) = lower_aarch64_with_evidence instrs; report = a64_analyze lowered in
       judged_output
         (printed fmt (to_json (json_aarch64_abi_report report (length instrs) (length lowered) unsupported))
           (counts_text instrs lowered unsupported allow_incomplete @ a64_text report unsupported))
         (analysis_exit_code (a64_is_clean report) (unsupported = []) allow_incomplete))"

section \<open>The analysis command\<close>

text \<open>\<open>lower_keep_all\<close> of \<open>semasm-x86\<close>: one lowered instruction per decoded one.\<close>

definition lower_keep_all :: "physical_instruction list \<Rightarrow> lowered_instr list" where
  "lower_keep_all instrs =
     map (\<lambda>p. case lower p of
        Lowered l \<Rightarrow> l
      | Unsupported mnemonic \<Rightarrow>
          \<lparr>li_mnemonic = mnemonic, li_kind = OpUnknown, li_width = B64, li_signed = None, li_operands = []\<rparr>) instrs"

definition block_ranges :: "control_flow_graph \<Rightarrow> block_range list" where
  "block_ranges g =
     map (\<lambda>b. \<lparr>br_from = b_start_instruction b, br_to = b_end_instruction b, br_successors = filter_map e_to (b_successors b)\<rparr>)
       (g_blocks g)"

fun note_code_str :: "note_code \<Rightarrow> string" where
  "note_code_str (ANALYSIS_INCOMPLETE _) = ''ANALYSIS_INCOMPLETE''"
| "note_code_str (REG_CONST _ _ _) = ''REG_CONST''"
| "note_code_str (REG_CONFLICT _) = ''REG_CONFLICT''"
| "note_code_str CMP_UNSIGNED = ''CMP_UNSIGNED''"
| "note_code_str (MEM_RED_ZONE _ _) = ''MEM_RED_ZONE''"

fun note_message :: "lowered_instr list \<Rightarrow> nat \<Rightarrow> note_code \<Rightarrow> string" where
  "note_message lowered bi (ANALYSIS_INCOMPLETE at) =
     ''instruction '' @ show_nat at @ '' (`'' @ li_mnemonic (lowered ! at) @
     ''`) has unknown effects; register, flag, stack, and memory facts were invalidated''"
| "note_message lowered bi (REG_CONST g n bits) =
     ''block '' @ show_nat bi @ '': '' @ gp_debug g @ '' holds constant '' @ show_int n @ '' ('' @ show_nat bits @ ''-bit)''"
| "note_message lowered bi (REG_CONFLICT g) =
     ''block '' @ show_nat bi @ '': '' @ gp_debug g @ '' has conflicting incoming values (joined to unknown)''"
| "note_message lowered bi CMP_UNSIGNED = ''block '' @ show_nat bi @ '': comparison treated as unsigned''"
| "note_message lowered bi (MEM_RED_ZONE at disp) =
     ''instruction '' @ show_nat at @ '' accesses the red zone at RSP'' @ (if disp < 0 then ''-'' else ''+'') @ ''0x'' @
     hex_digits (nat \<bar>disp\<bar>)"

record json_analysis_note =
  jn_code :: string
  jn_block :: nat
  jn_message :: string

record json_flow_report =
  jy_status :: string
  jy_coverage :: "nat \<times> nat \<times> nat"
  jy_iterations :: nat
  jy_converged :: bool
  jy_block_count :: nat
  jy_mem_access_count :: nat
  jy_notes :: "json_analysis_note list"

definition json_note :: "lowered_instr list \<Rightarrow> analysis_note \<Rightarrow> json_analysis_note" where
  "json_note lowered n =
     \<lparr>jn_code = note_code_str (an_code n), jn_block = an_block n, jn_message = note_message lowered (an_block n) (an_code n)\<rparr>"

definition coverage_triple :: "analysis_report \<Rightarrow> nat \<times> nat \<times> nat" where
  "coverage_triple r =
     (X86_Analysis.cov_total (ar2_coverage r), X86_Analysis.cov_modeled (ar2_coverage r), X86_Analysis.cov_unknown (ar2_coverage r))"

definition json_analysis_report :: "lowered_instr list \<Rightarrow> analysis_report \<Rightarrow> json_flow_report" where
  "json_analysis_report lowered r =
     \<lparr>jy_status = (case ar2_status r of AVerified \<Rightarrow> ''verified'' | AIncomplete \<Rightarrow> ''incomplete'' | AFailed \<Rightarrow> ''failed''),
      jy_coverage = coverage_triple r, jy_iterations = ar2_iterations r, jy_converged = ar2_converged r,
      jy_block_count = length (ar2_block_out r), jy_mem_access_count = length (ar2_mem_accesses r),
      jy_notes = map (json_note lowered) (ar2_notes r)\<rparr>"

definition print_analysis_terminal :: "lowered_instr list \<Rightarrow> analysis_report \<Rightarrow> string" where
  "print_analysis_terminal lowered r =
     (let (all, modeled, unknown) = coverage_triple r in
      text_line (''status:              '' @
        (case ar2_status r of AVerified \<Rightarrow> ''Verified'' | AIncomplete \<Rightarrow> ''Incomplete'' | AFailed \<Rightarrow> ''Failed'')) @
      text_line (''semantic coverage:   '' @ show_nat modeled @ ''/'' @ show_nat all @ '' modeled ('' @ show_nat unknown @ '' unknown)'') @
      text_line (''fixpoint iterations: '' @ show_nat (ar2_iterations r)) @
      text_line (''blocks analysed:      '' @ show_nat (length (ar2_block_out r))) @
      text_line (''memory accesses:       '' @ show_nat (length (ar2_mem_accesses r))) @
      text_line [] @
      (if ar2_notes r = [] then text_line ''ANALYSIS: no register/memory notes (all state unknown/empty)''
       else concat (map (\<lambda>n. text_line (''['' @ note_code_str (an_code n) @ ''] @block '' @ show_nat (an_block n) @ '': '' @
         note_message lowered (an_block n) (an_code n))) (ar2_notes r))))"

text \<open>Nothing is returned where the analysis would panic; \<open>hash_order\<close> is the order of its hash maps.\<close>

definition do_analyze_inspect :: "(json_flow_report \<Rightarrow> string + string) \<Rightarrow> gp list \<Rightarrow> tooling \<Rightarrow> file_read \<Rightarrow> nat \<Rightarrow>
    output_format \<Rightarrow> string option \<Rightarrow> cli_result option" where
  "do_analyze_inspect to_json hash_order tk f base fmt target =
     (case resolve_inspect_target target of
        Inl e \<Rightarrow> Some (fail_with 2 (''error: '' @ e))
      | Inr identity \<Rightarrow>
      if tisa identity \<noteq> X86_64
      then Some (fail_with 2 (''error: `analyze` forward data-flow is x86-64 only; '' @ ''refused target `'' @ tname identity @
             ''` (ISA '' @ isa_to_string (tisa identity) @ '') '' @ em_dash @ '' use `decode`/`cfg` for '' @ isa_label (tisa identity)))
      else (case inspected tk f base identity of
        Inl r \<Rightarrow> Some r
      | Inr instrs \<Rightarrow>
      (case build instrs of
        Inl EmptyInput \<Rightarrow> Some (fail_with 1 ''error: cannot build a CFG from zero instructions'')
      | Inr g \<Rightarrow>
          (let lowered = lower_keep_all instrs in
           map_option (\<lambda>report. printed fmt (to_json (json_analysis_report lowered report)) (print_analysis_terminal lowered report))
             (analyze_blocks hash_order lowered (block_ranges g))))))"

section \<open>Object inspection\<close>

fun container_format_debug :: "container_format \<Rightarrow> string" where
  "container_format_debug CfElf = ''Elf''"
| "container_format_debug CfPe = ''Pe''"
| "container_format_debug CfMacho = ''Macho''"
| "container_format_debug CfUnknown = ''Unknown''"

definition object_text :: "object_info \<Rightarrow> string" where
  "object_text info =
     text_line (''format:      '' @ container_format_debug (oi_format info)) @
     text_line (''architecture: '' @ isa_to_string (oi_architecture info) @ '' ('' @ oi_architecture_raw info @ '')'') @
     text_line (''endian:      '' @ oi_endian info) @
     text_line (''entry:       '' @ show_hex (oi_entry info)) @
     text_line (''sections:    '' @ show_nat (length (oi_sections info))) @
     text_line (''symbols:     '' @ show_nat (length (oi_symbols info))) @
     text_line (''relocations: '' @ show_nat (length (oi_relocations info))) @
     text_line (''imports:     '' @ show_nat (length (oi_imports info))) @
     text_line (''exports:     '' @ show_nat (length (oi_exports info)))"

definition object_error_result :: "object_error \<Rightarrow> cli_result" where
  "object_error_result e =
     (case e of
        ArchitectureMismatch actual expected \<Rightarrow>
          fail_with 2 (''error: architecture mismatch: object `'' @ actual @ ''` but target requires `'' @ expected @ ''`'')
      | _ \<Rightarrow> fail_with 1 (''error: '' @ object_error_to_string e))"

definition do_obj_inspect :: "(object_info \<Rightarrow> string + string) \<Rightarrow> tooling \<Rightarrow> file_read \<Rightarrow> string option \<Rightarrow> output_format \<Rightarrow>
    cli_result" where
  "do_obj_inspect to_json tk f target fmt =
     (case target of
        Some t \<Rightarrow>
          (case parse_known t of
             Inl e \<Rightarrow> fail_with 2 (''error: '' @ error_to_string e)
           | Inr identity \<Rightarrow>
               (case read_for_target (tl_parse tk) f identity of
                  Inl e \<Rightarrow> object_error_result e
                | Inr info \<Rightarrow> printed fmt (to_json info) (object_text info)))
      | None \<Rightarrow>
          (case read_object (tl_parse tk) f of
             Inl e \<Rightarrow> fail_with 1 (''error: '' @ object_error_to_string e)
           | Inr info \<Rightarrow> printed fmt (to_json info) (object_text info)))"

section \<open>Exit statuses\<close>

lemma evidence_fold:
  "fold (evidence_step low) ps acc =
     (fst acc @ concat (map (\<lambda>p. case low p of Inr l \<Rightarrow> [l] | Inl _ \<Rightarrow> []) ps),
      snd acc @ concat (map (\<lambda>p. case low p of Inl m \<Rightarrow> [unsupported_instruction p m] | Inr _ \<Rightarrow> []) ps))"
  by (induction ps arbitrary: acc) (auto simp: evidence_step_def split: sum.splits)

text \<open>Every decoded instruction is either lowered or listed as unsupported.\<close>

lemma evidence_lengths:
  "fold (evidence_step low) ps ([], []) = (ls, us) \<Longrightarrow> length ls + length us = length ps"
proof -
  have "length (concat (map (\<lambda>p. case low p of Inr l \<Rightarrow> [l] | Inl _ \<Rightarrow> []) ps)) +
    length (concat (map (\<lambda>p. case low p of Inl m \<Rightarrow> [unsupported_instruction p m] | Inr _ \<Rightarrow> []) ps)) = length ps"
    by (induction ps) (auto split: sum.splits)
  then show "fold (evidence_step low) ps ([], []) = (ls, us) \<Longrightarrow> length ls + length us = length ps"
    by (auto simp: evidence_fold)
qed

lemma check_raw_refuses: "check_raw_blob_input path code n label = (err, refused) \<Longrightarrow> refused \<longleftrightarrow> n = 0"
  by (auto simp: check_raw_blob_input_def Let_def split: if_splits)

lemma printed_exit: "cl_exit (printed fmt json text) = 0 \<longleftrightarrow> fmt = OutTerminal \<or> (\<exists>s. json = Inr s)"
  by (auto simp: printed_def fail_with_def split: output_format.splits sum.splits)

lemma judged_exit: "cl_exit (judged_output r code) = 0 \<longleftrightarrow> cl_exit r = 0 \<and> code = 0"
  by (auto simp: judged_output_def)

lemma failure_exits [simp]:
  "cl_exit (fail_with c m) = c" "cl_exit (read_failed p e) = 1" "cl_exit (decode_failed h d) = 1"
  by (auto simp: fail_with_def read_failed_def decode_failed_def split: decode_error.splits)

lemma with_blob_exit:
  "cl_exit (with_blob f decoder label run) = 0 \<longleftrightarrow>
     (\<exists>code instrs. fr_content f = Inr code \<and> decoder code = Inr instrs \<and> instrs \<noteq> [] \<and> cl_exit (run instrs) = 0)"
  by (auto simp: with_blob_def Let_def split: sum.splits prod.splits dest: check_raw_refuses)

lemma analysis_exit_zero: "analysis_exit_code a c i = 0 \<longleftrightarrow> a \<and> (c \<or> i)"
  by (simp add: analysis_exit_code_def)

lemmas command_exits = with_blob_exit judged_exit printed_exit analysis_exit_zero

text \<open>What a command printed, and whether its JSON printer succeeded.\<close>

definition delivered :: "output_format \<Rightarrow> string + string \<Rightarrow> bool" where
  "delivered fmt json \<longleftrightarrow> fmt = OutTerminal \<or> (\<exists>s. json = Inr s)"

lemma case_pair_exists: "cl_exit (case q of (a, b) \<Rightarrow> r a b) = 0 \<longleftrightarrow> (\<exists>a b. q = (a, b) \<and> cl_exit (r a b) = 0)"
  by (cases q) simp

text \<open>C16: Each ABI command exits with 0 exactly when the file was read and decoded to at least one instruction, the
  analysis of the instructions that were lowered is clean, every instruction was lowered or the caller allowed an
  incomplete analysis, and the report was delivered.\<close>

theorem abi_exit_exact:
  "(cl_exit (do_abi_inspect json1 tk f base fmt allow) = 0 \<longleftrightarrow>
     (\<exists>code instrs lowered unsupported. fr_content f = Inr code \<and> decode_x86_64 (tl_x86_64 tk) code base = Inr instrs \<and>
        instrs \<noteq> [] \<and> lower_x86_with_evidence instrs = (lowered, unsupported) \<and> is_clean (analyze lowered) \<and>
        (unsupported = [] \<or> allow) \<and>
        delivered fmt (json1 (json_abi_report (analyze lowered) (length instrs) (length lowered) unsupported)))) \<and>
   (cl_exit (do_win64_abi_inspect json2 tk f base fmt allow) = 0 \<longleftrightarrow>
     (\<exists>code instrs lowered unsupported. fr_content f = Inr code \<and> decode_x86_64 (tl_x86_64 tk) code base = Inr instrs \<and>
        instrs \<noteq> [] \<and> lower_x86_with_evidence instrs = (lowered, unsupported) \<and> win_is_clean (win_analyze lowered) \<and>
        (unsupported = [] \<or> allow) \<and>
        delivered fmt (json2 (json_win64_abi_report (win_analyze lowered) (length instrs) (length lowered) unsupported)))) \<and>
   (cl_exit (do_aarch64_abi_inspect json3 tk f base fmt allow) = 0 \<longleftrightarrow>
     (\<exists>code instrs lowered unsupported. fr_content f = Inr code \<and> decode_aarch64 (tl_aarch64 tk) code base = Inr instrs \<and>
        instrs \<noteq> [] \<and> lower_aarch64_with_evidence instrs = (lowered, unsupported) \<and>
        a64_is_clean (a64_analyze lowered) \<and> (unsupported = [] \<or> allow) \<and>
        delivered fmt (json3 (json_aarch64_abi_report (a64_analyze lowered) (length instrs) (length lowered) unsupported))))"
proof (intro conjI)
  note exits = command_exits delivered_def case_pair_exists
  show "cl_exit (do_abi_inspect json1 tk f base fmt allow) = 0 \<longleftrightarrow>
     (\<exists>code instrs lowered unsupported. fr_content f = Inr code \<and> decode_x86_64 (tl_x86_64 tk) code base = Inr instrs \<and>
        instrs \<noteq> [] \<and> lower_x86_with_evidence instrs = (lowered, unsupported) \<and> is_clean (analyze lowered) \<and>
        (unsupported = [] \<or> allow) \<and>
        delivered fmt (json1 (json_abi_report (analyze lowered) (length instrs) (length lowered) unsupported)))"
    unfolding do_abi_inspect_def Let_def exits by (simp add: exits del: split_paired_Ex) blast
  show "cl_exit (do_win64_abi_inspect json2 tk f base fmt allow) = 0 \<longleftrightarrow>
     (\<exists>code instrs lowered unsupported. fr_content f = Inr code \<and> decode_x86_64 (tl_x86_64 tk) code base = Inr instrs \<and>
        instrs \<noteq> [] \<and> lower_x86_with_evidence instrs = (lowered, unsupported) \<and> win_is_clean (win_analyze lowered) \<and>
        (unsupported = [] \<or> allow) \<and>
        delivered fmt (json2 (json_win64_abi_report (win_analyze lowered) (length instrs) (length lowered) unsupported)))"
    unfolding do_win64_abi_inspect_def Let_def exits by (simp add: exits del: split_paired_Ex) blast
  show "cl_exit (do_aarch64_abi_inspect json3 tk f base fmt allow) = 0 \<longleftrightarrow>
     (\<exists>code instrs lowered unsupported. fr_content f = Inr code \<and> decode_aarch64 (tl_aarch64 tk) code base = Inr instrs \<and>
        instrs \<noteq> [] \<and> lower_aarch64_with_evidence instrs = (lowered, unsupported) \<and>
        a64_is_clean (a64_analyze lowered) \<and> (unsupported = [] \<or> allow) \<and>
        delivered fmt (json3 (json_aarch64_abi_report (a64_analyze lowered) (length instrs) (length lowered) unsupported)))"
    unfolding do_aarch64_abi_inspect_def Let_def exits by (simp add: exits del: split_paired_Ex) blast
qed

text \<open>Object inspection exits with 2 exactly for a target that is unknown or that the object does not match.\<close>

lemma object_exit_two:
  "cl_exit (do_obj_inspect to_json tk f target fmt) = 2 \<longleftrightarrow>
     (\<exists>t. target = Some t \<and> ((\<exists>e. parse_known t = Inl e) \<or>
        (\<exists>identity actual expected. parse_known t = Inr identity \<and>
           read_for_target (tl_parse tk) f identity = Inl (ArchitectureMismatch actual expected))))"
  by (auto simp: do_obj_inspect_def object_error_result_def printed_def
      split: option.splits sum.splits object_error.splits output_format.splits)

section \<open>Consequences\<close>

text \<open>The analysis command exits with 0 whatever the analysis found: the report is never consulted.\<close>

lemma analyze_exit_ignores_status:
  assumes "resolve_inspect_target target = Inr identity" "tisa identity = X86_64" "inspected tk f base identity = Inr instrs"
    "build instrs = Inr g" "analyze_blocks hash_order (lower_keep_all instrs) (block_ranges g) = Some report"
  shows "\<exists>out. do_analyze_inspect to_json hash_order tk f base OutTerminal target =
    Some \<lparr>cl_stdout = out, cl_stderr = [], cl_exit = 0\<rparr>"
  using assms by (simp add: do_analyze_inspect_def printed_def)

text \<open>The decoder stops at the first byte it cannot read and the commands never compare what it returned with
  the length of the file: a blob whose tail is garbage is judged on its head.\<close>

lemma undecoded_tail_accepted:
  assumes "fr_content f = Inr code" "fr_content f' = Inr (code @ rest)"
    "decode_x86_64 (tl_x86_64 tk) (code @ rest) base = decode_x86_64 (tl_x86_64 tk) code base"
  shows "cl_exit (do_abi_inspect json tk f' base OutTerminal allow) = 0 \<longleftrightarrow>
    cl_exit (do_abi_inspect json tk f base OutTerminal allow) = 0"
  unfolding do_abi_inspect_def command_exits using assms by (auto simp: command_exits Let_def split: prod.splits)

end
