(* ===== verification/Build_Command.thy ===== *)
theory Build_Command imports Build_Report Inspect begin

text \<open>
  The \<open>build\<close> and \<open>contract check\<close> commands of \<open>semasm-cli/src/commands.rs\<close>: \<open>do_build\<close>, \<open>link_entry_of\<close> and
  \<open>do_contract_check\<close>. What the file system, the tools and the JSON printer return is a record; the result of a
  build is its output, its exit status, the commands it ran and the scratch directory it leaves behind.
\<close>

section \<open>Checking a contract\<close>

definition do_contract_check :: "('te vmsg \<Rightarrow> string) \<Rightarrow> ('te check_result \<Rightarrow> string + string) \<Rightarrow> (string \<Rightarrow> 'te + contract_document) \<Rightarrow>
    string \<Rightarrow> string + string \<Rightarrow> output_format \<Rightarrow> cli_result" where
  "do_contract_check show_message to_json parse_toml path text fmt =
     (case text of
        Inl e \<Rightarrow> fail_with 1 (path @ '': error: failed to read file: '' @ e)
      | Inr source \<Rightarrow>
          (let result = check_str parse_toml source; code = (if check_ok result then 0 else 1) in
           case fmt of
             OutTerminal \<Rightarrow>
               \<lparr>cl_stdout =
                  (if diagnostics result = []
                   then (case contract result of
                       Some c \<Rightarrow> text_line (path @ '': ok: contract `'' @ c_name c @ ''` is valid'')
                     | None \<Rightarrow> text_line (path @ '': ok''))
                   else format_diagnostics_terminal show_message path (diagnostics result)),
                cl_stderr = [], cl_exit = code\<rparr>
           | OutJson \<Rightarrow>
               (case to_json result of
                  Inl e \<Rightarrow> fail_with 1 (''failed to serialize JSON report: '' @ e)
                | Inr s \<Rightarrow> \<lparr>cl_stdout = text_line s, cl_stderr = [], cl_exit = code\<rparr>)))"

section \<open>Building\<close>

definition link_entry_of :: "(nat list \<Rightarrow> string + raw_object) \<Rightarrow> file_read \<Rightarrow> string option" where
  "link_entry_of parser obj =
     (case read_object parser obj of
        Inl _ \<Rightarrow> None
      | Inr info \<Rightarrow>
          (case oi_exports info of
             [] \<Rightarrow> None
           | first # _ \<Rightarrow>
               (case find (\<lambda>s. s \<in> {''main'', ''_start'', ''mainCRTStartup''}) (oi_exports info) of
                  Some s \<Rightarrow> Some s
                | None \<Rightarrow> Some first)))"

text \<open>The surroundings of a build: the host, the name of the scratch directory, the error of creating a
  directory, whether removing one succeeds, the object and the executable as they are read after the steps that
  write them, the execution of the n-th command, and the printers.\<close>

record build_world =
  bw_host :: host
  bw_sdk :: sdk_host
  bw_temp_dir :: string
  bw_create_dir :: "string \<Rightarrow> string option"
  bw_removes :: "string \<Rightarrow> bool"
  bw_parse :: "nat list \<Rightarrow> string + raw_object"
  bw_object :: file_read
  bw_executable :: file_read
  bw_run :: runner
  bw_reports :: report_world
  bw_show_secs :: "nat \<Rightarrow> string"
  bw_to_json :: "artifact_report \<Rightarrow> string + string"

record build_outcome =
  bo_result :: cli_result
  bo_commands :: "command_spec list"
  bo_left_dir :: "string option"

text \<open>\<open>Path::join\<close> of the host.\<close>

definition host_join :: "bool \<Rightarrow> string \<Rightarrow> string \<Rightarrow> string" where
  "host_join windows base p =
     (if windows then path_join base p
      else if p \<noteq> [] \<and> hd p = CHR ''/'' then p
      else if base = [] \<or> last base = CHR ''/'' then base @ p
      else base @ CHR ''/'' # p)"

definition entry_symbol :: "build_world \<Rightarrow> target_identity \<Rightarrow> string" where
  "entry_symbol w identity =
     (let found = link_entry_of (bw_parse w) (bw_object w) in
      if tformat identity = PeCoff then (case found of Some s \<Rightarrow> s | None \<Rightarrow> ''main'')
      else if tdialect identity = GasUnified \<or> tdialect identity = GasAtt
      then (case found of Some s \<Rightarrow> s | None \<Rightarrow> ''_start'')
      else ''_start'')"

definition object_name :: "target_identity \<Rightarrow> string" where
  "object_name identity = ''exit.'' @ (if tformat identity = PeCoff then ''obj'' else ''o'')"

definition executable_name :: "target_identity \<Rightarrow> string" where
  "executable_name identity = (if tformat identity = PeCoff then ''exit.exe'' else ''exit'')"

definition build_paths :: "build_world \<Rightarrow> target_identity \<Rightarrow> string \<Rightarrow> string \<times> string" where
  "build_paths w identity out_dir =
     (host_join (h_windows (bw_host w)) out_dir (object_name identity),
      host_join (h_windows (bw_host w)) out_dir (executable_name identity))"

definition build_link_spec :: "build_world \<Rightarrow> target_identity \<Rightarrow> pipeline \<Rightarrow> string \<Rightarrow> string \<Rightarrow> command_spec" where
  "build_link_spec w identity p obj_path exe_path =
     link_for_target_spec (find_kernel32_lib (h_windows (bw_host w)) (bw_sdk w)) p [obj_path] exe_path (entry_symbol w identity)"

definition record_json :: "string \<Rightarrow> command_spec \<Rightarrow> command_output \<Rightarrow> command_record_json" where
  "record_json label spec out =
     \<lparr>cj_label = label, cj_command = command_line spec, cj_program = cs_program spec, cj_arguments = cs_args spec,
      cj_exit_code = co_exit_code out, cj_stdout = from_utf8_lossy (co_stdout out),
      cj_stderr = from_utf8_lossy (co_stderr out), cj_duration = co_duration out, cj_timed_out = co_timed_out out,
      cj_success = command_success out, cj_stdout_capture = co_stdout_capture out,
      cj_stderr_capture = co_stderr_capture out, cj_termination = co_termination out\<rparr>"

definition tool_step_failed :: "string \<Rightarrow> command_output \<Rightarrow> string" where
  "tool_step_failed step out =
     step @ '' failed (exit='' @ show_code (co_exit_code out) @ ''): '' @ from_utf8_lossy (co_stderr out)"

text \<open>Step 4: the evidence of the run, what is printed about it, and whether the command fails.\<close>

definition run_step :: "build_world \<Rightarrow> pipeline \<Rightarrow> string \<Rightarrow> bool \<Rightarrow> command_spec list \<Rightarrow>
    execution_info \<times> string \<times> bool \<times> command_spec list" where
  "run_step w p exe_path no_run done =
     (if no_run then (NotRequestedInfo, [], False, done)
      else let (ran, commands) = run_fixture (h_windows (bw_host w)) (bw_run w) p exe_path done in
        case ran of
          Inr out \<Rightarrow> (execution_succeeded out, [], False, commands)
        | Inl (ProgramNotFound reason) \<Rightarrow>
            (UnavailableInfo reason, text_line (''execution unavailable: '' @ reason), True, commands)
        | Inl e \<Rightarrow>
            (FailedInfo (build_error_to_string e), text_line (''execution failed: '' @ build_error_to_string e), True, commands))"

text \<open>Step 5: the report, its output and the cleaning up.\<close>

definition report_step :: "build_world \<Rightarrow> pipeline \<Rightarrow> string \<Rightarrow> string \<Rightarrow> string \<Rightarrow> command_record_json list \<Rightarrow> execution_info \<Rightarrow>
    output_format \<Rightarrow> string + string" where
  "report_step w p source obj_path exe_path records execution fmt =
     (case generate_report (bw_reports w) p source (Some obj_path) exe_path records execution of
        Inl e \<Rightarrow> Inl (''report generation error: '' @ build_error_to_string e)
      | Inr artifact \<Rightarrow>
          (case fmt of
             OutTerminal \<Rightarrow> Inr (to_terminal (bw_show_secs w) artifact)
           | OutJson \<Rightarrow>
               (case bw_to_json w artifact of
                  Inl e \<Rightarrow> Inl (''JSON serialisation error: '' @ e)
                | Inr j \<Rightarrow> Inr (text_line j))))"

definition build_steps :: "build_world \<Rightarrow> target_identity \<Rightarrow> pipeline \<Rightarrow> string \<Rightarrow> string \<Rightarrow> bool \<Rightarrow> output_format \<Rightarrow>
    cli_result \<times> command_spec list \<times> bool" where
  "build_steps w identity p source out_dir no_run fmt =
     (let (obj_path, exe_path) = build_paths w identity out_dir; s1 = assemble_for_target_spec p source obj_path in
      case bw_run w 0 s1 of
        Inl e \<Rightarrow> (fail_with 1 (''assemble error: '' @ build_error_to_string e), [s1], False)
      | Inr ao \<Rightarrow>
      if \<not> command_success ao then (fail_with 1 (tool_step_failed ''assemble'' ao), [s1], False)
      else let s2 = build_link_spec w identity p obj_path exe_path in
      case bw_run w 1 s2 of
        Inl e \<Rightarrow> (fail_with 1 (''link error: '' @ build_error_to_string e), [s1, s2], False)
      | Inr lo \<Rightarrow>
      if \<not> command_success lo then (fail_with 1 (tool_step_failed ''link'' lo), [s1, s2], False)
      else case verify_architecture (bw_parse w) (bw_executable w) of
        Inl e \<Rightarrow> (fail_with 1 (''verify error: '' @ build_error_to_string e), [s1, s2], False)
      | Inr arch \<Rightarrow>
      if \<not> ai_is_executable arch
      then (fail_with 1 (''error: linked file is not executable (format='' @ ai_format arch @ '')''), [s1, s2], False)
      else let (execution, err, execution_failed, commands) = run_step w p exe_path no_run [s1, s2] in
      case report_step w p source obj_path exe_path [record_json ''assemble'' s1 ao, record_json ''link'' s2 lo] execution fmt of
        Inl message \<Rightarrow> (\<lparr>cl_stdout = [], cl_stderr = err @ text_line message, cl_exit = 1\<rparr>, commands, False)
      | Inr out \<Rightarrow>
          (\<lparr>cl_stdout = out, cl_stderr = err, cl_exit = if execution_failed then 1 else 0\<rparr>, commands, True))"

text \<open>The flag of \<open>build_steps\<close> tells whether the cleaning up was reached.\<close>

definition tools_warning :: "host \<Rightarrow> pipeline \<Rightarrow> string \<Rightarrow> string" where
  "tools_warning h p target_str =
     (if all_tools_found h p then []
      else text_line ''warning: not all required tools are available on PATH'' @
           text_line (''  run `semasm target doctor '' @ target_str @ ''` for details''))"

definition build_dir :: "build_world \<Rightarrow> string option \<Rightarrow> string" where
  "build_dir w out_dir = (case out_dir of Some d \<Rightarrow> d | None \<Rightarrow> bw_temp_dir w)"

definition do_build :: "build_world \<Rightarrow> string \<Rightarrow> string \<Rightarrow> string option \<Rightarrow> bool \<Rightarrow> output_format \<Rightarrow> build_outcome" where
  "do_build w source target_str out_dir no_run fmt =
     (case parse_known target_str of
        Inl e \<Rightarrow> \<lparr>bo_result = fail_with 2 (''error: '' @ error_to_string e), bo_commands = [], bo_left_dir = None\<rparr>
      | Inr identity \<Rightarrow>
          (let p = discover (bw_host w) identity;
               warning = tools_warning (bw_host w) p target_str;
               dir = build_dir w out_dir in
           case bw_create_dir w dir of
             Some e \<Rightarrow>
               \<lparr>bo_result = (let r = fail_with 1 (''error: cannot create output directory `'' @ dir @ ''`: '' @ e)
                  in r\<lparr>cl_stderr := warning @ cl_stderr r\<rparr>), bo_commands = [], bo_left_dir = None\<rparr>
           | None \<Rightarrow>
               (let (r, commands, cleaned) = build_steps w identity p source dir no_run fmt in
                \<lparr>bo_result = r\<lparr>cl_stderr := warning @ cl_stderr r\<rparr>, bo_commands = commands,
                 bo_left_dir = (if out_dir = None \<and> \<not> (cleaned \<and> bw_removes w dir) then Some dir else None)\<rparr>)))"

section \<open>Exit statuses\<close>

lemma contract_check_exit:
  "cl_exit (do_contract_check show_message to_json parse_toml path text fmt) = 0 \<longleftrightarrow>
     (\<exists>source. text = Inr source \<and> check_ok (check_str parse_toml source) \<and> delivered fmt (to_json (check_str parse_toml source)))"
  by (auto simp: do_contract_check_def delivered_def Let_def split: sum.splits output_format.splits)

lemma run_step_succeeds:
  assumes "run_step w p exe_path no_run done = (execution, err, failed, commands)"
  shows "\<not> failed \<longleftrightarrow> no_run \<or> (\<exists>out cs. run_fixture (h_windows (bw_host w)) (bw_run w) p exe_path done = (Inr out, cs))"
  using assms by (auto simp: run_step_def split: if_splits sum.splits prod.splits build_error.splits)

text \<open>The steps of a build that ends with its report printed.\<close>

definition built :: "build_world \<Rightarrow> target_identity \<Rightarrow> pipeline \<Rightarrow> string \<Rightarrow> string \<Rightarrow> bool \<Rightarrow> output_format \<Rightarrow> string \<Rightarrow> bool" where
  "built w identity p source dir no_run fmt text \<longleftrightarrow>
     (\<exists>obj_path exe_path ao lo arch execution err failed commands.
        build_paths w identity dir = (obj_path, exe_path) \<and>
        bw_run w 0 (assemble_for_target_spec p source obj_path) = Inr ao \<and> command_success ao \<and>
        bw_run w 1 (build_link_spec w identity p obj_path exe_path) = Inr lo \<and> command_success lo \<and>
        verify_architecture (bw_parse w) (bw_executable w) = Inr arch \<and> ai_is_executable arch \<and>
        run_step w p exe_path no_run
          [assemble_for_target_spec p source obj_path, build_link_spec w identity p obj_path exe_path] =
          (execution, err, failed, commands) \<and>
        report_step w p source obj_path exe_path
          [record_json ''assemble'' (assemble_for_target_spec p source obj_path) ao,
           record_json ''link'' (build_link_spec w identity p obj_path exe_path) lo] execution fmt = Inr text)"

definition run_starts :: "build_world \<Rightarrow> target_identity \<Rightarrow> pipeline \<Rightarrow> string \<Rightarrow> string \<Rightarrow> bool" where
  "run_starts w identity p source dir \<longleftrightarrow>
     (\<exists>obj_path exe_path out commands. build_paths w identity dir = (obj_path, exe_path) \<and>
        run_fixture (h_windows (bw_host w)) (bw_run w) p exe_path
          [assemble_for_target_spec p source obj_path, build_link_spec w identity p obj_path exe_path] = (Inr out, commands))"

lemma build_steps_result:
  assumes "build_steps w identity p source dir no_run fmt = (r, commands, cleaned)"
  shows "cleaned \<longleftrightarrow> (\<exists>text. built w identity p source dir no_run fmt text)"
    and "cl_exit r = 0 \<longleftrightarrow> cleaned \<and> (no_run \<or> run_starts w identity p source dir)"
proof -
  obtain ob ex where paths: "build_paths w identity dir = (ob, ex)" by (cases "build_paths w identity dir")
  show "cleaned \<longleftrightarrow> (\<exists>text. built w identity p source dir no_run fmt text)"
    using assms by (auto simp: build_steps_def built_def paths Let_def split: sum.splits if_splits prod.splits)
  show "cl_exit r = 0 \<longleftrightarrow> cleaned \<and> (no_run \<or> run_starts w identity p source dir)"
    using assms by (auto simp: build_steps_def run_starts_def paths Let_def split: sum.splits if_splits prod.splits
        dest!: run_step_succeeds)
qed

lemma build_steps_ends:
  "snd (snd (build_steps w identity p source dir no_run fmt)) \<longleftrightarrow> (\<exists>text. built w identity p source dir no_run fmt text)"
  "cl_exit (fst (build_steps w identity p source dir no_run fmt)) = 0 \<longleftrightarrow>
     (\<exists>text. built w identity p source dir no_run fmt text) \<and> (no_run \<or> run_starts w identity p source dir)"
  by (metis build_steps_result prod.collapse)+

lemma build_exit:
  "cl_exit (bo_result (do_build w source target out_dir no_run fmt)) = 0 \<longleftrightarrow>
     (\<exists>identity text. parse_known target = Inr identity \<and> bw_create_dir w (build_dir w out_dir) = None \<and>
        built w identity (discover (bw_host w) identity) source (build_dir w out_dir) no_run fmt text \<and>
        (no_run \<or> run_starts w identity (discover (bw_host w) identity) source (build_dir w out_dir)))"
  by (auto simp: do_build_def Let_def case_prod_beta build_steps_ends split: sum.splits option.splits)

lemma build_left:
  "bo_left_dir (do_build w source target out_dir no_run fmt) = Some d \<longleftrightarrow>
     out_dir = None \<and> d = bw_temp_dir w \<and> bw_create_dir w d = None \<and>
     (\<exists>identity. parse_known target = Inr identity \<and>
        \<not> ((\<exists>text. built w identity (discover (bw_host w) identity) source d no_run fmt text) \<and> bw_removes w d))"
  by (auto simp: do_build_def Let_def case_prod_beta build_steps_ends build_dir_def split: sum.splits option.splits)

text \<open>C15: The build command exits with 0 exactly when the target is known, the directory could be created, both tools
  succeeded, the linked file is an executable object, the report could be made and printed, and the run, unless
  it was not asked for, could be started: how the program ended does not matter. The scratch directory is left
  behind exactly when it was created and the report was not printed, or removing it failed.\<close>

theorem build_exit_exact:
  "(cl_exit (bo_result (do_build w source target out_dir no_run fmt)) = 0 \<longleftrightarrow>
      (\<exists>identity text. parse_known target = Inr identity \<and> bw_create_dir w (build_dir w out_dir) = None \<and>
         built w identity (discover (bw_host w) identity) source (build_dir w out_dir) no_run fmt text \<and>
         (no_run \<or> run_starts w identity (discover (bw_host w) identity) source (build_dir w out_dir)))) \<and>
   (bo_left_dir (do_build w source target out_dir no_run fmt) = Some d \<longleftrightarrow>
      out_dir = None \<and> d = bw_temp_dir w \<and> bw_create_dir w d = None \<and>
      (\<exists>identity. parse_known target = Inr identity \<and>
         \<not> ((\<exists>text. built w identity (discover (bw_host w) identity) source d no_run fmt text) \<and> bw_removes w d)))"
  by (intro conjI build_exit build_left)

end
