(* ===== verification/Agent_Command.thy ===== *)
theory Agent_Command imports Agent_Sound Agent_Packet Build_Command begin

text \<open>
  The agent commands of \<open>semasm-cli/src/commands.rs\<close> around the verified core: \<open>do_agent_verify\<close>,
  \<open>do_agent_compare\<close> and \<open>do_agent_packet\<close>, with the evidence cards and the Markdown of a comparison
  (\<open>semasm-agent/src/evidence.rs\<close>). A command gives its standard output, its exit status and the
  evidence card it wrote; the lines it also prints on the error stream are not kept. The JSON printers and the
  outcome of writing the card are arguments.
\<close>

section \<open>Evidence cards\<close>

record card_context =
  cc_report :: verification_report
  cc_contract_path :: path_view
  cc_contract_bytes :: string
  cc_source_path :: path_view
  cc_object_bytes :: nat
  cc_reproduce_cmd :: string

definition contract_hash_short :: "(string \<Rightarrow> nat list) \<Rightarrow> string \<Rightarrow> string" where
  "contract_hash_short sha bytes = concat (map hex_byte (take 6 (sha bytes)))"

definition fraction :: "Verify_Report.coverage \<Rightarrow> string" where
  "fraction c = show_nat (Verify_Report.coverage.cov_modeled c) @ ''/'' @ show_nat (Verify_Report.coverage.cov_total c)"

definition fraction_percent :: "Verify_Report.coverage \<Rightarrow> string" where
  "fraction_percent c = fraction c @ '' ('' @ show_nat (percent_modeled c) @ ''%)''"

definition card_row :: "string \<Rightarrow> string \<Rightarrow> string" where
  "card_row field val = text_line (''| '' @ field @ '' | '' @ val @ '' |'')"

definition oracle_rows :: "behavior_oracle option \<Rightarrow> string" where
  "oracle_rows oracle =
     (case oracle of
        None \<Rightarrow> []
      | Some b \<Rightarrow>
          card_row ''Behavior oracle'' (quoted (bo_id b) @ '' v'' @ show_nat (bo_version b)) @
          card_row ''Proof basis'' (quoted (proof_basis_as_str (bo_proof_basis b))) @
          card_row ''Contract ensures''
            (if bo_contract_ensures b = [] then ''_(none)_'' else join_with '', '' (map quoted (bo_contract_ensures b))) @
          card_row ''Oracle claim'' (bo_claim b) @
          card_row ''Oracle evidence'' (quoted (bo_evidence_hash b)))"

definition render_evidence_card_markdown :: "(string \<Rightarrow> nat list) \<Rightarrow> card_context \<Rightarrow> string" where
  "render_evidence_card_markdown sha ctx =
     (let report = cc_report ctx; semantic = vp_semantic report; (passed, failed, all) = vector_counts report in
      text_line ''# SemASM Evidence Card'' @ text_line [] @
      card_row ''Field'' ''Value'' @ card_row ''---'' ''---'' @
      card_row ''Contract''
        (quoted (contract_label (cc_contract_path ctx)) @ '' ('' @ quoted (contract_hash_short sha (cc_contract_bytes ctx)) @ '')'') @
      card_row ''Source'' (quoted (pt_display (cc_source_path ctx))) @
      card_row ''Target'' (quoted (vp_target report)) @
      card_row ''Status'' (''**'' @ verification_status_as_str (vp_status report) @ ''**'') @
      card_row ''Isolation'' (quoted (isolation_as_str (vp_isolation report))) @
      card_row ''Object size'' (show_nat (cc_object_bytes ctx) @ '' bytes'') @
      card_row ''Executable bytes'' (show_nat (sg_executable_bytes semantic)) @
      card_row ''Decode'' (fraction (sg_decode semantic)) @
      card_row ''Lowering'' (fraction_percent (sg_lowering semantic)) @
      card_row ''Object policy'' (quoted (gate_status_as_str (sg_object_policy semantic))) @
      card_row ''ABI'' (quoted (gate_status_as_str (sg_abi semantic))) @
      card_row ''Capability'' (quoted (gate_status_as_str (sg_capability semantic))) @
      card_row ''Control'' (quoted (gate_status_as_str (sg_control semantic))) @
      card_row ''Executable gate'' (quoted (gate_status_as_str (eg_status (vp_executable report)))) @
      card_row ''Vectors'' (show_nat passed @ '' passed / '' @ show_nat failed @ '' failed / '' @ show_nat all @ '' total'') @
      oracle_rows (vp_behavior_oracle report) @ text_line [] @
      text_line ''## Reproduce'' @ text_line [] @
      text_line ''```'' @ text_line (cc_reproduce_cmd ctx) @ text_line ''```'')"

record evidence_card_json =
  ej_contract :: string
  ej_contract_hash :: string
  ej_source :: string
  ej_target :: string
  ej_status :: string
  ej_isolation :: string
  ej_object_bytes :: nat
  ej_executable_bytes :: nat
  ej_decode :: string
  ej_lowering :: string
  ej_object_policy :: string
  ej_abi :: string
  ej_capability :: string
  ej_control :: string
  ej_executable :: string
  ej_vectors_passed :: nat
  ej_vectors_failed :: nat
  ej_vectors_total :: nat
  ej_reproduce :: string

definition evidence_card :: "(string \<Rightarrow> nat list) \<Rightarrow> card_context \<Rightarrow> evidence_card_json" where
  "evidence_card sha ctx =
     (let report = cc_report ctx; semantic = vp_semantic report; (passed, failed, all) = vector_counts report in
      \<lparr>ej_contract = contract_label (cc_contract_path ctx), ej_contract_hash = contract_hash_short sha (cc_contract_bytes ctx),
       ej_source = pt_display (cc_source_path ctx), ej_target = vp_target report,
       ej_status = verification_status_as_str (vp_status report), ej_isolation = isolation_as_str (vp_isolation report),
       ej_object_bytes = cc_object_bytes ctx, ej_executable_bytes = sg_executable_bytes semantic,
       ej_decode = fraction (sg_decode semantic), ej_lowering = fraction_percent (sg_lowering semantic),
       ej_object_policy = gate_status_as_str (sg_object_policy semantic), ej_abi = gate_status_as_str (sg_abi semantic),
       ej_capability = gate_status_as_str (sg_capability semantic), ej_control = gate_status_as_str (sg_control semantic),
       ej_executable = gate_status_as_str (eg_status (vp_executable report)),
       ej_vectors_passed = passed, ej_vectors_failed = failed, ej_vectors_total = all, ej_reproduce = cc_reproduce_cmd ctx\<rparr>)"

section \<open>Printing a report\<close>

definition behavior_text :: "harness_report option \<Rightarrow> string" where
  "behavior_text behavior =
     (case behavior of
        None \<Rightarrow> text_line ''Behavior: skipped (execution not allowed)''
      | Some b \<Rightarrow>
          text_line (''Vectors: '' @ show_nat (length (hr_cases b))) @ text_line [] @
          concat (map (\<lambda>(index, k). text_line (show_nat index @ ''. ['' @ (if vr_passed k then ''PASS'' else ''FAIL'') @ ''] '' @ vr_name k @
            ''  expected='' @ vr_expected k @ '' observed='' @ vr_observed k)) (enumerate 0 (hr_cases b))) @
          text_line ([CHR 0x0A] @ ''Result: '' @
            (if hr_all_passed b then ''all vectors passed'' else ''one or more vectors failed'')))"

definition print_verification_terminal :: "verification_report \<Rightarrow> string" where
  "print_verification_terminal r =
     (let g = vp_semantic r in
      text_line (''Status: '' @ verification_status_as_str (vp_status r)) @
      text_line (''Target: '' @ vp_target r) @
      text_line (''Routine: '' @ vp_routine_symbol r) @
      text_line (''Isolation: '' @ isolation_as_str (vp_isolation r)) @
      text_line (''Semantic gates: object='' @ gate_status_as_str (sg_object_policy g) @ '' decode='' @ fraction (sg_decode g) @
        '' lowering='' @ fraction_percent (sg_lowering g) @ '' abi='' @ gate_status_as_str (sg_abi g) @
        '' capability='' @ gate_status_as_str (sg_capability g) @ '' control='' @ gate_status_as_str (sg_control g) @
        '' memory='' @ gate_status_as_str (sg_memory g)) @
      text_line (''Executable gate: '' @ gate_status_as_str (eg_status (vp_executable r))) @
      (case vp_behavior_oracle r of
         None \<Rightarrow> []
       | Some b \<Rightarrow>
           text_line (''Behavior oracle: '' @ bo_id b @ '' v'' @ show_nat (bo_version b) @ '' (passed='' @ show_nat (bo_vectors_passed b) @
             ''/'' @ show_nat (bo_vectors_total b) @ '' hash='' @ bo_evidence_hash b @ '')'') @
           text_line (''Oracle claim: '' @ bo_claim b)) @
      (case vp_alias_analysis r of
         None \<Rightarrow> []
       | Some a \<Rightarrow> text_line (''Alias analysis: model='' @ ar_model a @ '' status='' @ alias_status_as_str (ar_status a) @
           '' unknowns='' @ show_nat (ar_unknown_memory_accesses a) @ '' relations='' @ show_nat (length (ar_relations a)))) @
      (case vp_region_access r of
         None \<Rightarrow> []
       | Some a \<Rightarrow> text_line (''Region access: model='' @ rr_model a @ '' status='' @ region_access_status_as_str (rr_status a) @
           '' proven_inside='' @ show_nat (rr_accesses_proven_inside a) @ ''/'' @ show_nat (rr_accesses_total a) @
           '' unknowns='' @ show_nat (rr_accesses_unknown a))) @
      (case vp_contract_expressions r of
         None \<Rightarrow> []
       | Some e \<Rightarrow> text_line (''Contract expressions: model='' @ cx_model e @ '' status='' @ contract_expr_status_as_str (cx_status e) @
           '' rows='' @ show_nat (length (cx_expressions e)))) @
      behavior_text (vp_behavior r))"

section \<open>The verify command\<close>

record card_request =
  cq_path :: string
  cq_as_json :: bool

text \<open>The printers of the command and the outcome of writing a file: an error, or nothing.\<close>

record agent_io =
  ai_envelope_json :: "failure_envelope \<Rightarrow> string + string"
  ai_report_json :: "verification_report \<Rightarrow> string + string"
  ai_compare_json :: "compare_report \<Rightarrow> string + string"
  ai_card_json :: "evidence_card_json \<Rightarrow> string + string"
  ai_write_card :: "string \<Rightarrow> string \<Rightarrow> string option"

record agent_result =
  ag_stdout :: string
  ag_exit :: nat
  ag_card :: "(string \<times> string) option"

definition reproduce_verify_cmd :: "path_view \<Rightarrow> path_view \<Rightarrow> string \<Rightarrow> bool \<Rightarrow> path_view option \<Rightarrow> string" where
  "reproduce_verify_cmd source contract_path target allow_execution vectors_file =
     ''semasm agent verify '' @ pt_display source @ '' '' @ pt_display contract_path @
     (if target \<noteq> ''x86_64-unknown-linux-gnu'' then '' --target '' @ target else []) @
     (if allow_execution then '' --allow-execution'' else []) @
     (case vectors_file of Some v \<Rightarrow> '' --vectors-file '' @ pt_display v | None \<Rightarrow> [])"

text \<open>The output of an early exit; only a failed run has no envelope.\<close>

definition early_stdout :: "agent_io \<Rightarrow> failure_envelope option \<Rightarrow> string" where
  "early_stdout h e =
     (case e of Some envelope \<Rightarrow> (case ai_envelope_json h envelope of Inr s \<Rightarrow> text_line s | Inl _ \<Rightarrow> []) | None \<Rightarrow> [])"

text \<open>The text printed for a report, or an error.\<close>

definition emit_verification_report :: "agent_io \<Rightarrow> verification_report \<Rightarrow> output_format \<Rightarrow> string option" where
  "emit_verification_report h report fmt =
     (case fmt of
        OutJson \<Rightarrow> (case ai_report_json h report of Inr s \<Rightarrow> Some (text_line s) | Inl _ \<Rightarrow> None)
      | OutTerminal \<Rightarrow> Some (print_verification_terminal report))"

definition card_body :: "agent_io \<Rightarrow> (string \<Rightarrow> nat list) \<Rightarrow> card_request \<Rightarrow> card_context \<Rightarrow> string option" where
  "card_body h sha q ctx =
     (if cq_as_json q then (case ai_card_json h (evidence_card sha ctx) of Inr s \<Rightarrow> Some s | Inl _ \<Rightarrow> None)
      else Some (render_evidence_card_markdown sha ctx))"

text \<open>Whether the card is in order, and what was written.\<close>

definition write_evidence_card :: "agent_io \<Rightarrow> (string \<Rightarrow> nat list) \<Rightarrow> card_request option \<Rightarrow> card_context \<Rightarrow>
    bool \<times> (string \<times> string) option" where
  "write_evidence_card h sha request ctx =
     (case request of
        None \<Rightarrow> (True, None)
      | Some q \<Rightarrow>
          (case card_body h sha q ctx of
             None \<Rightarrow> (False, None)
           | Some body \<Rightarrow>
               (case ai_write_card h (cq_path q) body of
                  Some _ \<Rightarrow> (False, None)
                | None \<Rightarrow> (True, Some (cq_path q, body)))))"

definition verify_card_context :: "'te verify_world \<Rightarrow> string \<Rightarrow> bool \<Rightarrow> verification_report \<Rightarrow> nat \<Rightarrow> string \<Rightarrow> card_context" where
  "verify_card_context w target allow_execution report object_bytes contract_bytes =
     \<lparr>cc_report = report, cc_contract_path = vw_contract_path w, cc_contract_bytes = contract_bytes,
      cc_source_path = vw_source_path w, cc_object_bytes = object_bytes,
      cc_reproduce_cmd = reproduce_verify_cmd (vw_source_path w) (vw_contract_path w) target allow_execution
        (map_option fst (vw_vectors w))\<rparr>"

definition do_agent_verify :: "agent_io \<Rightarrow> 'te verify_world \<Rightarrow> string \<Rightarrow> output_format \<Rightarrow> bool \<Rightarrow> card_request option \<Rightarrow>
    agent_result" where
  "do_agent_verify h w target fmt allow_execution request =
     (case vo_result (run_agent_verify_core w target allow_execution) of
        EarlyExit e code \<Rightarrow> \<lparr>ag_stdout = early_stdout h e, ag_exit = code, ag_card = None\<rparr>
      | Finished report object_bytes contract_bytes code \<Rightarrow>
          (case emit_verification_report h report fmt of
             None \<Rightarrow> \<lparr>ag_stdout = [], ag_exit = 1, ag_card = None\<rparr>
           | Some text \<Rightarrow>
               (let (ok, written) = write_evidence_card h (vw_sha w) request
                      (verify_card_context w target allow_execution report object_bytes contract_bytes) in
                \<lparr>ag_stdout = text, ag_exit = (if ok then code else 1), ag_card = written\<rparr>)))"

section \<open>The compare command\<close>

definition diff_section :: "string \<Rightarrow> string list \<Rightarrow> string" where
  "diff_section title diffs =
     text_line (''## '' @ title) @ text_line [] @
     (if diffs = [] then text_line ''_(none)_'' else concat (map (\<lambda>d. text_line (''- '' @ d)) diffs)) @ text_line []"

definition render_compare_markdown :: "compare_report \<Rightarrow> string \<Rightarrow> string \<Rightarrow> string" where
  "render_compare_markdown c label_a label_b =
     text_line ''# SemASM Candidate Compare'' @ text_line [] @
     text_line (''| Field | '' @ label_a @ '' | '' @ label_b @ '' |'') @ text_line ''| --- | --- | --- |'' @
     text_line (''| Status | '' @ quoted (cr_status_a c) @ '' | '' @ quoted (cr_status_b c) @ '' |'') @
     text_line (''| Target | '' @ quoted (cr_target c) @ '' | _(same)_ |'') @
     text_line (''| Routine | '' @ quoted (cr_routine_symbol c) @ '' | _(same)_ |'') @ text_line [] @
     diff_section ''Gate diffs'' (cr_gate_diffs c) @ diff_section ''Vector diffs'' (cr_vector_diffs c) @
     (case cr_preferred c of Some p \<Rightarrow> text_line (''**Preferred:** '' @ quoted p) | None \<Rightarrow> [])"

definition compare_label :: "string \<Rightarrow> path_view \<Rightarrow> string" where
  "compare_label other p = (case pt_file_name p of Some n \<Rightarrow> n | None \<Rightarrow> other)"

text \<open>The second candidate is only verified when the first one has a report; \<open>None\<close> stands for a comparison that
  cannot be printed.\<close>

definition compare_stdout :: "agent_io \<Rightarrow> compare_report \<Rightarrow> string \<Rightarrow> string \<Rightarrow> output_format \<Rightarrow> string option" where
  "compare_stdout h c label_a label_b fmt =
     (case fmt of
        OutJson \<Rightarrow> (case ai_compare_json h c of Inr s \<Rightarrow> Some (text_line s) | Inl _ \<Rightarrow> None)
      | OutTerminal \<Rightarrow> Some (render_compare_markdown c label_a label_b))"

definition do_agent_compare :: "agent_io \<Rightarrow> 'te verify_world \<Rightarrow> 'te verify_world \<Rightarrow> string \<Rightarrow> output_format \<Rightarrow> bool \<Rightarrow> agent_result" where
  "do_agent_compare h wa wb target fmt allow_execution =
     (case vo_result (run_agent_verify_core wa target allow_execution) of
        EarlyExit e code \<Rightarrow> \<lparr>ag_stdout = early_stdout h e, ag_exit = code, ag_card = None\<rparr>
      | Finished a _ _ _ \<Rightarrow>
     (case vo_result (run_agent_verify_core wb target allow_execution) of
        EarlyExit e code \<Rightarrow> \<lparr>ag_stdout = early_stdout h e, ag_exit = code, ag_card = None\<rparr>
      | Finished b _ _ _ \<Rightarrow>
          (let label_a = compare_label ''a'' (vw_source_path wa); label_b = compare_label ''b'' (vw_source_path wb) in
           case compare_stdout h (compare_reports a b label_a label_b) label_a label_b fmt of
             None \<Rightarrow> \<lparr>ag_stdout = [], ag_exit = 1, ag_card = None\<rparr>
           | Some text \<Rightarrow>
               \<lparr>ag_stdout = text,
                ag_exit = (if vp_status a = VVerified \<or> vp_status a = VVerifiedUnderPreconditions \<or>
                              vp_status b = VVerified \<or> vp_status b = VVerifiedUnderPreconditions then 0 else 1),
                ag_card = None\<rparr>)))"

section \<open>The packet command\<close>

text \<open>What the command finds: the files it reads, the tools of the host, the time and the printers.\<close>

record 'te packet_command =
  kc_world :: packet_world
  kc_host :: host
  kc_toml :: "string \<Rightarrow> 'te + contract_document"
  kc_show_message :: "'te vmsg \<Rightarrow> string"
  kc_show_json :: "json \<Rightarrow> string"
  kc_packet_json :: "task_packet \<Rightarrow> string + string"
  kc_contract_path :: path_view
  kc_contract :: "string + string"
  kc_source :: "(path_view \<times> (string + string)) option"
  kc_now :: "nat option"

definition to_agent_toolchain :: "toolchain \<Rightarrow> target_toolchain" where
  "to_agent_toolchain tc =
     \<lparr>tt_assembler = tc_assembler tc, tt_linker = tc_linker tc, tt_disassembler = tc_disassembler tc, tt_runner = tc_runner tc\<rparr>"

definition allowed_commands_of :: "path_view \<Rightarrow> string \<Rightarrow> string list" where
  "allowed_commands_of contract_path target =
     (let verify = ''semasm agent verify candidate.asm '' @ pt_display contract_path @ '' --target '' @ target @ '' --format json'' in
      [verify, verify @ '' --allow-execution''])"

definition command_packet :: "'te packet_command \<Rightarrow> string \<Rightarrow> target_identity \<Rightarrow> string \<Rightarrow> checked_contract \<Rightarrow> string option \<Rightarrow>
    string \<Rightarrow> task_packet" where
  "command_packet k target identity contract_text checked existing_source created_at =
     (let toolchain = to_agent_toolchain (pl_toolchain (discover (kc_host k) identity)) in
      packet_new (kc_world k) ''0.1.0'' created_at contract_text checked identity toolchain
        (case kc_source k of Some (path, _) \<Rightarrow> [pt_display path] | None \<Rightarrow> [''candidate.asm''])
        (allowed_commands_of (kc_contract_path k) target)
        (generate_context checked identity toolchain existing_source [] []))"

definition source_text :: "(path_view \<times> (string + string)) option \<Rightarrow> string + string option" where
  "source_text source =
     (case source of
        None \<Rightarrow> Inr None
      | Some (path, Inr text) \<Rightarrow> Inr (Some text)
      | Some (path, Inl e) \<Rightarrow> Inl (pt_display path @ '': error: failed to read source: '' @ e))"

text \<open>\<open>None\<close> is the panic of an index past December.\<close>

definition do_agent_packet :: "'te packet_command \<Rightarrow> string \<Rightarrow> output_format \<Rightarrow> cli_result option" where
  "do_agent_packet k target fmt =
     (let path = pt_display (kc_contract_path k) in
      case parse_known target of
        Inl e \<Rightarrow> Some (fail_with 2 (''error: '' @ error_to_string e))
      | Inr identity \<Rightarrow>
     (case kc_contract k of
        Inl e \<Rightarrow> Some (fail_with 1 (path @ '': error: failed to read file: '' @ e))
      | Inr contract_text \<Rightarrow>
          (let check = check_str (kc_toml k) contract_text in
           if \<not> check_ok check
           then Some \<lparr>cl_stdout = format_diagnostics_terminal (kc_show_message k) path (diagnostics check), cl_stderr = [], cl_exit = 1\<rparr>
           else case source_text (kc_source k) of
             Inl message \<Rightarrow> Some (fail_with 1 message)
           | Inr existing_source \<Rightarrow>
               map_option (\<lambda>created_at.
                   let packet = command_packet k target identity contract_text (the (contract check)) existing_source created_at in
                   case fmt of
                     OutJson \<Rightarrow>
                       (case kc_packet_json k packet of
                          Inr s \<Rightarrow> \<lparr>cl_stdout = text_line s, cl_stderr = [], cl_exit = 0\<rparr>
                        | Inl e \<Rightarrow> fail_with 1 (''failed to serialize packet: '' @ e))
                   | OutTerminal \<Rightarrow>
                       \<lparr>cl_stdout = text_line (context_to_markdown (kc_show_json k) (pk_context packet)), cl_stderr = [], cl_exit = 0\<rparr>)
                 (chrono_now (kc_now k)))))"

section \<open>What the exit status says\<close>

text \<open>The card that was asked for could be rendered and written; without a request there is nothing to do.\<close>

definition card_in_order :: "agent_io \<Rightarrow> (string \<Rightarrow> nat list) \<Rightarrow> card_request option \<Rightarrow> card_context \<Rightarrow> bool" where
  "card_in_order h sha request ctx \<longleftrightarrow>
     (\<forall>q. request = Some q \<longrightarrow> (\<exists>body. card_body h sha q ctx = Some body \<and> ai_write_card h (cq_path q) body = None))"

lemma written_card: "fst (write_evidence_card h sha request ctx) \<longleftrightarrow> card_in_order h sha request ctx"
  by (auto simp: write_evidence_card_def card_in_order_def split: option.split)

lemma card_only_if_written:
  "snd (write_evidence_card h sha request ctx) \<noteq> None \<longleftrightarrow> request \<noteq> None \<and> card_in_order h sha request ctx"
  by (auto simp: write_evidence_card_def card_in_order_def split: option.split)

lemma emitted: "(\<exists>text. emit_verification_report h report fmt = Some text) \<longleftrightarrow> delivered fmt (ai_report_json h report)"
  by (auto simp: emit_verification_report_def delivered_def split: output_format.split sum.split)

lemma verify_exit:
  "ag_exit (do_agent_verify h w t fmt allow request) = 0 \<longleftrightarrow>
     (\<exists>report ob cb. vo_result (run_agent_verify_core w t allow) = Finished report ob cb 0 \<and>
        delivered fmt (ai_report_json h report) \<and>
        card_in_order h (vw_sha w) request (verify_card_context w t allow report ob cb))"
proof (cases "vo_result (run_agent_verify_core w t allow)")
  case (EarlyExit e code)
  have "code \<noteq> 0"
    using core_explained [of w t allow] EarlyExit by (simp add: explained_def split: option.splits)
  then show ?thesis using EarlyExit by (simp add: do_agent_verify_def)
next
  case (Finished report ob cb code)
  then show ?thesis
    using emitted [of h report fmt]
    by (cases "emit_verification_report h report fmt")
      (auto simp: do_agent_verify_def Let_def written_card case_prod_beta)
qed

text \<open>C1: \<open>semasm agent verify\<close> exits with 0 exactly when execution was allowed; the inputs are usable, with vectors
  for the contract; the candidate was assembled or staged and accepted by the semantic gates; the harness was
  generated, built and linked into an executable image; the output of the run, however it ended, begins with what the vectors predict; no alias or
  expression slice is failed or incomplete and no region-access slice is failed; the report could be printed; and the evidence card, if
  one was asked for, could be rendered and written. A report that is verified only under the caller's preconditions
  is among them.\<close>

theorem agent_verify_exit_exact:
  "ag_exit (do_agent_verify h w t fmt allow request) = 0 \<longleftrightarrow>
     allow \<and> (\<exists>p. inputs_prepared w t p \<and> verifying_run w p) \<and>
     (\<exists>report ob cb code. vo_result (run_agent_verify_core w t allow) = Finished report ob cb code \<and>
        delivered fmt (ai_report_json h report) \<and>
        card_in_order h (vw_sha w) request (verify_card_context w t allow report ob cb))"
  using agent_exit [of w t allow] verify_exit [of h w t fmt allow request]
  by (auto simp: exit_status_def)

text \<open>C22: Every run of \<open>semasm agent verify\<close> is explained. An early exit has a non-zero status and writes no card; its
  failure envelope, printed if it can be serialised, is of this tool version and names the target (unless the target itself is
  invalid), the one exception being a candidate that could not be started, for which nothing is printed on standard output. Otherwise
  there is a report. If it cannot be serialised the status is 1, nothing is printed and no card is written; if it can, exactly its text is
  printed, and the status is 0 exactly when the report says verified, outright or under preconditions, and the evidence
  card that was asked for, if any, could be rendered and written.\<close>

theorem agent_outcome_explained:
  "case vo_result (run_agent_verify_core w t allow) of
     EarlyExit e _ \<Rightarrow>
       ag_exit (do_agent_verify h w t fmt allow request) \<noteq> 0 \<and> ag_card (do_agent_verify h w t fmt allow request) = None \<and>
       (case e of
          Some envelope \<Rightarrow> envelope_for w t envelope \<and>
            ag_stdout (do_agent_verify h w t fmt allow request) =
              (case ai_envelope_json h envelope of Inr s \<Rightarrow> text_line s | Inl _ \<Rightarrow> [])
        | None \<Rightarrow> (\<exists>m. vw_run w = Inl m) \<and> ag_stdout (do_agent_verify h w t fmt allow request) = [])
   | Finished report ob cb _ \<Rightarrow>
       (case emit_verification_report h report fmt of
          None \<Rightarrow> ag_exit (do_agent_verify h w t fmt allow request) = 1 \<and>
            ag_stdout (do_agent_verify h w t fmt allow request) = [] \<and> ag_card (do_agent_verify h w t fmt allow request) = None
        | Some text \<Rightarrow> ag_stdout (do_agent_verify h w t fmt allow request) = text \<and>
            (ag_exit (do_agent_verify h w t fmt allow request) = 0 \<longleftrightarrow>
               verified_status (vp_status report) \<and>
               card_in_order h (vw_sha w) request (verify_card_context w t allow report ob cb)))"
  using core_explained [of w t allow]
  by (auto simp: do_agent_verify_def explained_def early_stdout_def written_card case_prod_beta Let_def
      split: verify_result.splits option.splits)

lemma compared:
  "(\<exists>text. compare_stdout h c label_a label_b fmt = Some text) \<longleftrightarrow> delivered fmt (ai_compare_json h c)"
  by (auto simp: compare_stdout_def delivered_def split: output_format.split sum.split)

text \<open>What a report tells of its run.\<close>

lemma finished_verified:
  assumes "vo_result (run_agent_verify_core w t allow) = Finished report ob cb code"
  shows "vp_status report = VVerified \<or> vp_status report = VVerifiedUnderPreconditions \<longleftrightarrow>
    allow \<and> (\<exists>p. inputs_prepared w t p \<and> verifying_run w p)"
  using core_explained [of w t allow] agent_exit [of w t allow] assms
  by (simp add: explained_def exit_status_def verified_status_def)

definition reported :: "'te verify_world \<Rightarrow> string \<Rightarrow> bool \<Rightarrow> verification_report \<Rightarrow> bool" where
  "reported w t allow report \<longleftrightarrow> (\<exists>ob cb code. vo_result (run_agent_verify_core w t allow) = Finished report ob cb code)"

text \<open>C32: \<open>semasm agent compare\<close> exits with 0 exactly when both candidates reached a verification report, the
  comparison of the two could be printed, execution was allowed, and at least one of the two candidates has a
  verifying run: its inputs are usable, the gates accepted it, its harness was built and linked into an executable image, the
  output of the run, however it ended, begins with what the vectors predict, no alias or expression slice is failed or incomplete and no region-access
  slice is failed. A candidate without a report ends the comparison, even when the other one is verified.\<close>

theorem agent_compare_exit_exact:
  "ag_exit (do_agent_compare h wa wb t fmt allow) = 0 \<longleftrightarrow>
     (\<exists>a b. reported wa t allow a \<and> reported wb t allow b \<and>
        delivered fmt (ai_compare_json h (compare_reports a b
          (compare_label ''a'' (vw_source_path wa)) (compare_label ''b'' (vw_source_path wb))))) \<and>
     allow \<and> ((\<exists>p. inputs_prepared wa t p \<and> verifying_run wa p) \<or> (\<exists>p. inputs_prepared wb t p \<and> verifying_run wb p))"
proof (cases "\<exists>a b. reported wa t allow a \<and> reported wb t allow b")
  case True
  then obtain a oa ca na b ob cb nb where
    a: "vo_result (run_agent_verify_core wa t allow) = Finished a oa ca na" and
    b: "vo_result (run_agent_verify_core wb t allow) = Finished b ob cb nb" by (auto simp: reported_def)
  let ?la = "compare_label ''a'' (vw_source_path wa)" and ?lb = "compare_label ''b'' (vw_source_path wb)"
  show ?thesis
    using finished_verified [OF a] finished_verified [OF b] compared [of h "compare_reports a b ?la ?lb" ?la ?lb fmt] a b
    by (cases "compare_stdout h (compare_reports a b ?la ?lb) ?la ?lb fmt") (auto simp: do_agent_compare_def reported_def Let_def)
next
  case False
  then show ?thesis
    using core_explained [of wa t allow] core_explained [of wb t allow]
    by (auto simp: do_agent_compare_def reported_def explained_def split: verify_result.splits option.splits)
qed

text \<open>The packet the command prints keeps its integrity.\<close>

lemma command_packet_sealed: "verify_integrity (kc_world k) (command_packet k target identity text checked source created)"
  by (simp add: command_packet_def Let_def packet_new_verifies)

end
