(* ===== verification/Spec2Isabelle.thy ===== *)
theory Spec2Isabelle
  imports Contract_Eval Win64_Abi Rv_Abi X86_Analysis Memory_Effects Affine_Effects Harness_Eval Target_Kit Capability
    Agent_Command
begin

text \<open>
  Semasm: contracts for assembly routines, and the evidence that a candidate routine meets them.

  The program reads a routine contract (TOML) and a candidate (assembly source), assembles the
  candidate, decodes and lowers its code, judges the lowered body against the calling convention and the
  contract, generates a test harness with vectors of its own, links and runs it, and composes a report
  whose status is one of six values. The crates are, in the order in which data flows through them:
  \<open>semasm-core\<close> (spans and diagnostics), \<open>semasm-target\<close>, \<open>semasm-contract\<close>, \<open>semasm-obj\<close>,
  \<open>semasm-decode\<close>, \<open>semasm-x86\<close>, \<open>semasm-aarch64\<close>, \<open>semasm-riscv\<close>, \<open>semasm-cfg\<close>,
  \<open>semasm-cli\<close> (memory effects, semantic gates, the command), \<open>semasm-agent\<close> (harness, report) and
  \<open>semasm-build\<close> (processes and pipelines).

  Theories and sources (paths under \<open>src/crates\<close>).

  Foundations. \<open>Prelude\<close>: byte strings, the string functions of the Rust library that the sources
  call, checked and wrapping integer arithmetic, the parser result type with its fuel.
  \<open>Fail_Closed\<close>, \<open>Stack_Walk\<close>, \<open>Effect_Walk\<close>: the interfaces (below). \<open>Core_Diag\<close>:
  \<open>semasm-core\<close>. \<open>Target\<close>: \<open>semasm-target/src/lib.rs\<close>. \<open>Target_Kit\<close>: \<open>abi.rs\<close>,
  \<open>authoring_profile.rs\<close>, \<open>tools.rs\<close>. \<open>Capability\<close>: \<open>capability.rs\<close>.

  Contracts (\<open>semasm-contract/src\<close>). \<open>Sem_Type\<close>: \<open>sem_type.rs\<close>. \<open>Expr\<close>: \<open>expr.rs\<close>.
  \<open>Validate\<close>: \<open>schema.rs\<close>, \<open>codes.rs\<close>, \<open>validate.rs\<close>. \<open>Alias\<close>: \<open>alias.rs\<close>.
  \<open>Region_Access\<close>: \<open>region_access.rs\<close>. \<open>Contract_Eval\<close>: \<open>eval.rs\<close>.

  Code. \<open>Object_Decode\<close>: \<open>semasm-obj\<close> and \<open>semasm-decode\<close>. \<open>Cfg\<close>: \<open>semasm-cfg\<close>.
  \<open>X86_Regs\<close>, \<open>X86_Lower\<close>, \<open>X86_Abi\<close>, \<open>Win64_Abi\<close>, \<open>X86_Analysis\<close>: \<open>lib.rs\<close>,
  \<open>lower.rs\<close>, \<open>abi.rs\<close>, \<open>abi_win64.rs\<close>, \<open>analysis.rs\<close> of \<open>semasm-x86\<close>.
  \<open>A64_Lower\<close>, \<open>A64_Abi\<close> and \<open>Rv_Lower\<close>, \<open>Rv_Abi\<close>: the same for AArch64 and RISC-V.
  \<open>Abi_Messages\<close>: the texts of their findings. \<open>X86_Machine\<close> is not a translation: it says what
  the supported instructions may do to the registers of the processor, and the theorems about the
  analysers quantify over its runs. \<open>Memory_Effects\<close>: \<open>semasm-cli/src/memory_effects.rs\<close>.
  \<open>Affine_Effects\<close>: \<open>memory_effects_aarch64.rs\<close> and \<open>memory_effects_riscv.rs\<close>.

  Verification. \<open>Semantic_Gates\<close>: the gates of \<open>semasm-cli/src/commands.rs\<close>, from the candidate
  object to \<open>verify_candidate_semantics\<close>; \<open>Gates_Sound\<close> has what an accepted candidate satisfies.
  \<open>Harness_Shapes\<close>, \<open>Harness_Vectors\<close>, \<open>Harness_Eval\<close>, \<open>Harness_Nasm\<close>, \<open>Harness_Gas\<close>,
  \<open>Harness_Gen\<close>: \<open>semasm-agent/src/harness.rs\<close> and \<open>external_vectors.rs\<close>, recognition of the
  oracle, vectors, evaluation of the output, generated programs. \<open>Verify_Report\<close>: \<open>verify.rs\<close>,
  \<open>evidence.rs\<close>, \<open>failure.rs\<close>. \<open>Agent_Verify\<close>: \<open>run_agent_verify_core\<close> of
  \<open>commands.rs\<close>; \<open>Agent_Sound\<close> has what the outcomes of this core mean.

  Building. \<open>Process_Exec\<close>: \<open>exec.rs\<close>, its two platform modules and \<open>record.rs\<close> of
  \<open>semasm-build\<close>, a command from its environment to its captured output and its termination.
  \<open>Build_Pipeline\<close>: \<open>pipeline.rs\<close>, discovery of the tools and the steps of a fixture.
  \<open>Build_Report\<close>: \<open>report.rs\<close>, the artifact report and its canonical evidence.

  Commands and packets. \<open>Inspect\<close>: \<open>inspect.rs\<close> and \<open>output.rs\<close> of \<open>semasm-cli\<close>, the
  inspection commands with their output and exit status. \<open>Build_Command\<close>: \<open>do_build\<close> and
  \<open>do_contract_check\<close> of \<open>commands.rs\<close>. \<open>Agent_Packet\<close>: \<open>lib.rs\<close> and \<open>context.rs\<close> of
  \<open>semasm-agent\<close>, sealed task packets, and the calendar of \<open>commands.rs\<close>. \<open>Agent_Command\<close>:
  \<open>do_agent_verify\<close>, \<open>do_agent_compare\<close> and \<open>do_agent_packet\<close> of \<open>commands.rs\<close>, with the evidence cards and
  the Markdown of \<open>evidence.rs\<close>: what the agent commands print, write and return.

  Conventions. A struct is a record, an enum a datatype with the source's constructors, a function a
  definition of the same name (with a prefix where two crates share a name: \<open>win_\<close>, \<open>a64_\<close>,
  \<open>rv_\<close>). A \<open>Result\<close> is a sum, \<open>Inl\<close> the error; a \<open>Vec\<close> a list; a \<open>BTreeMap\<close> a map
  or a sorted association list where its order is observed. Strings are lists of bytes or of ASCII
  characters. Machine integers are words, or naturals and integers with the range check or the
  reduction of the source written out; sizes of buffers and texts that fit memory are unbounded naturals, as in the harness
  generator, which adds \<open>usize\<close> lengths. Mutable locals and visitors are folds over explicit state.

  Interfaces. \<open>fail_closed\<close> (the status of an evidence slice is the worst of its rows) is interpreted
  for the alias, the region-access and the expression slices; \<open>relation_evidence\<close> (what the
  expression evaluator needs from the alias report) for the alias slice; \<open>stack_walk\<close> (what an
  analyser promises about one instruction) and \<open>emitting_walk\<close> (a walk only adds findings) for the
  calling-convention analysers of System V, Microsoft x64, AAPCS64 and LP64; \<open>affine_walk\<close> (an
  extractor's map of registers abstracts the machine state) for AArch64 and RISC-V; \<open>echo_shape\<close>
  (the buffer a harness echoes) for the three shapes that echo one; the library's \<open>semilattice\<close> for
  the join of the data-flow analysis.

  Groups of properties. (1) Decisions are exact: the exit status of an agent verification, the verdict
  of the gates, of the report, of contract validation, of the manifest check, of the evaluation of a
  run, of an external command, of a build and of an inspection are each equivalent to a condition stated over the inputs. (2) Evidence is sound: what the alias,
  region-access and expression slices claim holds in every memory layout, and the accesses the extractors
  record are those of every run of the body in a machine model. (3) Analysers are exact on the executions
  of a tracked body, jumps included. (4) Parsers terminate, return well-formed values and read back what
  they print. (5) Errors are values: each early exit is explained and an error never becomes a pass.
  Where the code falls short of the intended guarantee, a lemma shows it on a concrete input; those are
  named in the manifest's findings.

  Fuel and bounds. The parsers of types and expressions carry fuel bounded by the input length;
  \<open>type_parse_no_fuel\<close> and \<open>expr_parse_no_fuel\<close> show that it is never exhausted. The breadth-first
  search of \<open>Cfg\<close> terminates by the number of unvisited blocks. The worklist of \<open>X86_Analysis\<close>
  has the source's own visit bound. The loop that polls a child process may run for ever and is a
  \<open>partial_function\<close>; \<open>poll_loop_returns\<close> and \<open>poll_loop_local\<close> show that it ends once the clock reaches the
  deadline and looks at no later turn. The loops over years, UTF-8 chunks and JSON values terminate by a
  measure; all other recursion is structural.

  Parameters. Code that is not part of the repository is an argument: the \<open>object\<close> crate's parser and
  the Capstone engines (\<open>tooling\<close>), the TOML parser, JSON printing, SHA-256, the file system, and the
  assembler, linker and runner (\<open>verify_world\<close>); what the operating system returns to each call of the
  process layer (\<open>process_world\<close>), the outcome of the n-th command (\<open>runner\<close>), the installed SDKs
  (\<open>sdk_host\<close>), the files a report reads (\<open>report_world\<close>), the surroundings of a build
  (\<open>build_world\<close>) and the serialised contents of a packet (\<open>packet_world\<close>). Theorems that rely on them say so: the only such
  hypotheses are that an engine returns consecutive instructions (\<open>engine_consecutive\<close>) and, for packets,
  that SHA-256 does not collide on the texts at hand.

  Not modelled. Argument parsing (an external crate), the dispatch of \<open>main.rs\<close>, the doctor command with its table and the
  explanation of diagnostic codes: formatted text over modelled values. The lines the agent commands print on the error
  stream are not kept. Serialisation itself is the work of an external crate.
\<close>

end
